(* ===== verification/TP_Prelude.thy ===== *)
theory TP_Prelude
  imports Main "HOL-Library.Word"
begin

text \<open>
  The prelude of the development: the machine integers of the source at their width, the
  Rust standard-library operations on them that the modelled code uses, the result type
  \<open>Result<T, E>\<close> with its \<open>?\<close> operator, the operations on \<open>Vec\<close> and on iterators that every
  component shares, a lock that can be poisoned, and the lemma collections of the
  development.
\<close>

section \<open>Machine integers\<close>

type_synonym u8 = "8 word"
type_synonym u16 = "16 word"
type_synonym u32 = "32 word"
type_synonym u64 = "64 word"

named_theorems wf_intro \<open>preservation of the well-formedness invariants\<close>
named_theorems ids_simps \<open>which identifiers an operation keeps, adds or removes\<close>
named_theorems width_simps \<open>values of fixed-width computations read as natural numbers\<close>

text \<open>\<open>uN::saturating_sub\<close>, \<open>Ord::clamp\<close> (its callers keep \<open>lo \<le> hi\<close>).\<close>

definition saturating_sub :: "'a::len word \<Rightarrow> 'a word \<Rightarrow> 'a word" where
  "saturating_sub a b = (if b \<le> a then a - b else 0)"

definition clamp :: "'a::linorder \<Rightarrow> 'a \<Rightarrow> 'a \<Rightarrow> 'a" where
  "clamp lo hi x = (if x < lo then lo else if hi < x then hi else x)"

lemma unat_saturating_sub [width_simps]:
  "unat (saturating_sub a b) = unat a - unat b"
  by (auto simp: saturating_sub_def unat_sub word_le_nat_alt)

lemma clamp_bounds:
  fixes x :: "'a::linorder"
  assumes "lo \<le> hi"
  shows "lo \<le> clamp lo hi x" and "clamp lo hi x \<le> hi"
  using assms by (auto simp: clamp_def)

lemma clamp_id [simp]:
  fixes x :: "'a::linorder"
  shows "lo \<le> x \<Longrightarrow> x \<le> hi \<Longrightarrow> clamp lo hi x = x"
  by (auto simp: clamp_def dest: leD)

lemma unat_clamp [width_simps]:
  fixes x :: "'a::len word"
  shows "unat (clamp lo hi x) = clamp (unat lo) (unat hi) (unat x)"
  by (simp add: clamp_def word_less_nat_alt)

lemma unat_max_word [width_simps]:
  fixes x :: "'a::len word"
  shows "unat (max x y) = max (unat x) (unat y)"
  by (simp add: max_def word_le_nat_alt)

lemma unat_min_word [width_simps]:
  fixes x :: "'a::len word"
  shows "unat (min x y) = min (unat x) (unat y)"
  by (simp add: min_def word_le_nat_alt)

lemma unat_u16_bound: "unat (x :: u16) < 65536"
  using unsigned_less [of x] by simp

text \<open>\<open>u32::from\<close> on a \<open>u16\<close> keeps the value; products of a \<open>u16\<close> with a scale fit.\<close>

lemma unat_ucast_u16_u32 [width_simps]: "unat (ucast (x :: u16) :: u32) = unat x"
  by (simp add: unsigned_ucast_eq take_bit_nat_eq_self_iff order_less_trans [OF unat_u16_bound])

lemma unat_ucast_u32_u16:
  "unat (x :: u32) < 65536 \<Longrightarrow> unat (ucast x :: u16) = unat x"
  by (simp add: unsigned_ucast_eq take_bit_nat_eq_self_iff)

lemma unat_add_u32:
  "unat (a :: u32) + unat b < 4294967296 \<Longrightarrow> unat (a + b) = unat a + unat b"
  by (simp add: unat_word_ariths)

lemma unat_mult_u32:
  "unat (a :: u32) * unat b < 4294967296 \<Longrightarrow> unat (a * b) = unat a * unat b"
  by (simp add: unat_word_ariths)

section \<open>Results, early returns\<close>

text \<open>\<open>Result<T, E>\<close> is \<open>'e + 't\<close>, \<open>Inl\<close> the error; \<open>bind_result m f\<close> is \<open>f(m?)\<close>.\<close>

definition bind_result :: "'e + 'a \<Rightarrow> ('a \<Rightarrow> 'e + 'b) \<Rightarrow> 'e + 'b" where
  "bind_result m f = (case m of Inl e \<Rightarrow> Inl e | Inr x \<Rightarrow> f x)"

definition ok_or :: "'a option \<Rightarrow> 'e \<Rightarrow> 'e + 'a" where
  "ok_or m e = (case m of None \<Rightarrow> Inl e | Some x \<Rightarrow> Inr x)"

lemma bind_result_simps [simp]:
  "bind_result (Inl e) f = Inl e"
  "bind_result (Inr x) f = f x"
  by (simp_all add: bind_result_def)

lemma ok_or_simps [simp]:
  "ok_or None e = Inl e"
  "ok_or (Some x) e = Inr x"
  by (simp_all add: ok_or_def)

lemma bind_result_Inr_iff:
  "bind_result m f = Inr y \<longleftrightarrow> (\<exists>x. m = Inr x \<and> f x = Inr y)"
  by (cases m) auto

lemma ok_or_Inr_iff [simp]: "ok_or m e = Inr x \<longleftrightarrow> m = Some x"
  by (cases m) auto

section \<open>Locks\<close>

text \<open>
  A \<open>std::sync::Mutex\<close>: the value it guards and whether a thread panicked while it held the
  lock. Locking a poisoned mutex is the only way \<open>lock()\<close> fails.
\<close>

datatype 'a mutex = Mutex (mutex_poisoned: bool) (mutex_value: 'a)

definition mutex_new :: "'a \<Rightarrow> 'a mutex" where
  "mutex_new x = Mutex False x"

definition mutex_lock :: "'e \<Rightarrow> 'a mutex \<Rightarrow> 'e + 'a" where
  "mutex_lock e m = (if mutex_poisoned m then Inl e else Inr (mutex_value m))"

definition mutex_set :: "'a \<Rightarrow> 'a mutex \<Rightarrow> 'a mutex" where
  "mutex_set x m = Mutex (mutex_poisoned m) x"

lemma mutex_simps [simp]:
  "mutex_poisoned (mutex_new x) = False"
  "mutex_value (mutex_new x) = x"
  "mutex_poisoned (mutex_set y m) = mutex_poisoned m"
  "mutex_value (mutex_set y m) = y"
  by (simp_all add: mutex_new_def mutex_set_def)

lemma mutex_lock_Inr_iff [simp]:
  "mutex_lock e m = Inr x \<longleftrightarrow> \<not> mutex_poisoned m \<and> x = mutex_value m"
  by (auto simp: mutex_lock_def)

section \<open>Vectors and iterators\<close>

text \<open>
  \<open>iter_mut().find(p)\<close> followed by a write through the reference: the first element that
  satisfies \<open>p\<close> is replaced, \<open>position\<close> is its index, \<open>remove_at\<close> is \<open>Vec::remove\<close>
  (its caller keeps the index in range), \<open>vec_get\<close> is \<open>slice::get\<close>.
\<close>

fun update_first :: "('a \<Rightarrow> bool) \<Rightarrow> ('a \<Rightarrow> 'a) \<Rightarrow> 'a list \<Rightarrow> 'a list" where
  "update_first p f [] = []"
| "update_first p f (x # xs) = (if p x then f x # xs else x # update_first p f xs)"

fun position :: "('a \<Rightarrow> bool) \<Rightarrow> 'a list \<Rightarrow> nat option" where
  "position p [] = None"
| "position p (x # xs) = (if p x then Some 0 else map_option Suc (position p xs))"

definition remove_at :: "nat \<Rightarrow> 'a list \<Rightarrow> 'a list" where
  "remove_at i xs = take i xs @ drop (Suc i) xs"

definition vec_get :: "'a list \<Rightarrow> nat \<Rightarrow> 'a option" where
  "vec_get xs i = (if i < length xs then Some (xs ! i) else None)"

fun find_map :: "('a \<Rightarrow> 'b option) \<Rightarrow> 'a list \<Rightarrow> 'b option" where
  "find_map f [] = None"
| "find_map f (x # xs) = (case f x of Some y \<Rightarrow> Some y | None \<Rightarrow> find_map f xs)"

lemma length_update_first [simp]: "length (update_first p f xs) = length xs"
  by (induction xs) auto

lemma map_update_first:
  assumes "\<And>x. x \<in> set xs \<Longrightarrow> p x \<Longrightarrow> g (f x) = g x"
  shows "map g (update_first p f xs) = map g xs"
  using assms by (induction xs) auto

lemma find_split:
  assumes "find p xs = Some x"
  shows "\<exists>ys zs. xs = ys @ x # zs \<and> p x \<and> (\<forall>y\<in>set ys. \<not> p y)"
  using assms
proof (induction xs)
  case (Cons a xs)
  show ?case
  proof (cases "p a")
    case True
    then show ?thesis using Cons.prems by fastforce
  next
    case False
    then obtain ys zs where "xs = ys @ x # zs" "p x" "\<forall>y\<in>set ys. \<not> p y"
      using Cons by auto
    then have "a # xs = (a # ys) @ x # zs \<and> p x \<and> (\<forall>y\<in>set (a # ys). \<not> p y)"
      using False by simp
    then show ?thesis by blast
  qed
qed simp

lemma update_first_split:
  assumes "\<forall>y\<in>set ys. \<not> p y" and "p x"
  shows "update_first p f (ys @ x # zs) = ys @ f x # zs"
  using assms by (induction ys) auto

lemma find_SomeD: "find p xs = Some x \<Longrightarrow> x \<in> set xs \<and> p x"
  by (auto dest: find_split)

lemma set_update_first: "set (update_first q f xs) \<subseteq> set xs \<union> f ` set xs"
  by (induction xs) auto

lemma update_first_found:
  "find q xs = Some x \<Longrightarrow> f x \<in> set (update_first q f xs)"
  by (induction xs) (auto split: if_splits)

lemma find_map_SomeD: "find_map f xs = Some y \<Longrightarrow> \<exists>x\<in>set xs. f x = Some y"
  by (induction xs) (auto split: option.splits)

lemma find_map_None_iff: "find_map f xs = None \<longleftrightarrow> (\<forall>x\<in>set xs. f x = None)"
  by (induction xs) (auto split: option.splits)

lemma position_Some_iff:
  "position p xs = Some i \<longleftrightarrow> i < length xs \<and> p (xs ! i) \<and> (\<forall>j<i. \<not> p (xs ! j))"
proof (induction xs arbitrary: i)
  case (Cons x xs)
  show ?case
  proof (cases i)
    case 0
    then show ?thesis by auto
  next
    case (Suc k)
    then show ?thesis using Cons.IH [of k] by (auto simp: All_less_Suc2)
  qed
qed simp

lemma position_None_iff: "position p xs = None \<longleftrightarrow> (\<forall>x\<in>set xs. \<not> p x)"
  by (induction xs) auto

lemma length_remove_at: "i < length xs \<Longrightarrow> length (remove_at i xs) = length xs - 1"
  by (simp add: remove_at_def)

lemma map_remove_at: "map f (remove_at i xs) = remove_at i (map f xs)"
  by (simp add: remove_at_def take_map drop_map)

lemma set_remove_at_subset: "set (remove_at i xs) \<subseteq> set xs"
  by (auto simp: remove_at_def dest: in_set_takeD in_set_dropD)

lemma distinct_remove_at:
  assumes "distinct xs"
  shows "distinct (remove_at i xs)"
proof -
  have "set (take i xs) \<inter> set (drop (Suc i) xs) = {}"
    using assms by (intro set_take_disj_set_drop_if_distinct) simp_all
  then show ?thesis using assms by (simp add: remove_at_def)
qed

lemma set_remove_at_distinct:
  assumes "distinct xs" and "i < length xs"
  shows "set (remove_at i xs) = set xs - {xs ! i}"
proof -
  have "xs = take i xs @ xs ! i # drop (Suc i) xs"
    by (rule id_take_nth_drop [OF assms(2)])
  then have "set xs = set (take i xs) \<union> {xs ! i} \<union> set (drop (Suc i) xs)"
    and "distinct (take i xs @ xs ! i # drop (Suc i) xs)"
    using assms(1) by (metis list.simps(15) set_append insert_is_Un sup_assoc, metis)
  then show ?thesis by (auto simp: remove_at_def)
qed

lemma vec_get_map: "vec_get (map f xs) i = map_option f (vec_get xs i)"
  by (simp add: vec_get_def)

section \<open>Bounded buffers\<close>

text \<open>
  The two bounded buffers of the source (the transcript, the snapshot history) append at the
  back and then drop from the front what exceeds a limit. Their contract is an interface:
  the contents are always the longest allowed suffix of everything ever appended.
\<close>

definition keep_last :: "nat \<Rightarrow> 'a list \<Rightarrow> 'a list" where
  "keep_last n xs = drop (length xs - n) xs"

lemma length_keep_last: "length (keep_last n xs) = min n (length xs)"
  by (simp add: keep_last_def min_def)

lemma keep_last_append_keep_last [simp]:
  "keep_last n (keep_last n xs @ ys) = keep_last n (xs @ ys)"
proof (cases "length xs \<le> n")
  case True
  then show ?thesis by (simp add: keep_last_def)
next
  case False
  then show ?thesis by (simp add: keep_last_def add.commute)
qed

lemma keep_last_short: "length xs \<le> n \<Longrightarrow> keep_last n xs = xs"
  by (simp add: keep_last_def)

lemma set_keep_last_subset: "set (keep_last n xs) \<subseteq> set xs"
  by (simp add: keep_last_def set_drop_subset)

lemma last_keep_last: "0 < n \<Longrightarrow> xs \<noteq> [] \<Longrightarrow> last (keep_last n xs) = last xs"
  by (simp add: keep_last_def)

locale bounded_buffer =
  fixes contents :: "'s \<Rightarrow> 'a list"
    and invar :: "'s \<Rightarrow> bool"
    and empty :: "'s"
    and append :: "'s \<Rightarrow> 'a list \<Rightarrow> 's"
    and limit :: nat
  assumes invar_empty: "invar empty"
    and contents_empty: "contents empty = []"
    and invar_append: "invar s \<Longrightarrow> invar (append s xs)"
    and contents_append: "invar s \<Longrightarrow> contents (append s xs) = keep_last limit (contents s @ xs)"
begin

definition run :: "'a list list \<Rightarrow> 's" where
  "run chunks = fold (\<lambda>xs s. append s xs) chunks empty"

lemma run_invar: "invar (run chunks)"
  by (induction chunks rule: rev_induct) (simp_all add: run_def invar_empty invar_append)

lemma run_contents: "contents (run chunks) = keep_last limit (concat chunks)"
proof (induction chunks rule: rev_induct)
  case Nil
  then show ?case by (simp add: run_def contents_empty keep_last_def)
next
  case (snoc xs xss)
  have "run (xss @ [xs]) = append (run xss) xs" by (simp add: run_def)
  then show ?case by (simp add: contents_append [OF run_invar] snoc.IH)
qed

lemma run_bounded: "length (contents (run chunks)) \<le> limit"
  by (simp add: run_contents length_keep_last)

end

end
