(* ===== verification/Domain.thy ===== *)
theory Domain
  imports TP_Prelude
begin

text \<open>
  The crates \<open>terminal-domain\<close> and \<open>terminal-backend-api\<close>: identifiers, backend kinds, session
  routes, the two compatibility checks, the error type of every backend operation.

  A Rust \<open>String\<close> is the list of its Unicode scalar values (\<open>rstr\<close>), \<open>lit\<close> reads an ASCII
  literal. Messages built by \<open>format!\<close> keep their arguments (\<open>message_part\<close>), because how an
  identifier is printed belongs to the \<open>uuid\<close> crate; printing and parsing of a UUID are
  parameters of the route functions.
\<close>

section \<open>Strings and messages\<close>

type_synonym rstr = "nat list"

definition lit :: "string \<Rightarrow> rstr" where
  "lit s = map of_char s"

section \<open>Identifiers\<close>

text \<open>
  \<open>define_id!\<close> makes five wrappers of a UUID that differ in their type only; the phantom
  argument keeps them apart. They are ordered as the UUIDs are (\<open>derive(PartialOrd, Ord)\<close>).
\<close>

type_synonym uuid = "128 word"

datatype 'k uuid_id = Id (id_uuid: uuid)

datatype session_tag = SessionTag
datatype tab_tag = TabTag
datatype pane_tag = PaneTag
datatype subscription_tag = SubscriptionTag
datatype operation_tag = OperationTag

type_synonym session_id = "session_tag uuid_id"
type_synonym tab_id = "tab_tag uuid_id"
type_synonym pane_id = "pane_tag uuid_id"
type_synonym subscription_id = "subscription_tag uuid_id"
type_synonym operation_id = "operation_tag uuid_id"

instantiation uuid_id :: (type) linorder
begin

definition less_eq_uuid_id :: "'a uuid_id \<Rightarrow> 'a uuid_id \<Rightarrow> bool" where
  "less_eq_uuid_id x y \<longleftrightarrow> id_uuid x \<le> id_uuid y"

definition less_uuid_id :: "'a uuid_id \<Rightarrow> 'a uuid_id \<Rightarrow> bool" where
  "less_uuid_id x y \<longleftrightarrow> id_uuid x < id_uuid y"

instance
  by standard (auto simp: less_eq_uuid_id_def less_uuid_id_def intro: uuid_id.expand)

end

section \<open>Kinds, reasons, errors\<close>

datatype backend_kind = Native | Tmux | Zellij

datatype degraded_mode_reason =
    UnsupportedByBackend
  | MissingCapability
  | ImportedForeignSession
  | ResizeAuthorityExternal
  | ReadOnlyRoute
  | SavedSessionIncompatible
  | NotYetImplemented

datatype message_part =
    MText string
  | MString rstr
  | MPane pane_id
  | MTab tab_id
  | MSession session_id
  | MBackend backend_kind

type_synonym message = "message_part list"

datatype backend_error_kind = Unsupported | NotFound | InvalidInput | Transport | Internal

record backend_error =
  be_kind :: backend_error_kind
  be_message :: message
  be_degraded_reason :: "degraded_mode_reason option"

definition backend_error_new :: "backend_error_kind \<Rightarrow> message \<Rightarrow> backend_error" where
  "backend_error_new k m = \<lparr>be_kind = k, be_message = m, be_degraded_reason = None\<rparr>"

definition not_found :: "message \<Rightarrow> backend_error" where
  "not_found m = backend_error_new NotFound m"

definition invalid_input :: "message \<Rightarrow> backend_error" where
  "invalid_input m = backend_error_new InvalidInput m"

definition transport_error :: "message \<Rightarrow> backend_error" where
  "transport_error m = backend_error_new Transport m"

definition internal_error :: "message \<Rightarrow> backend_error" where
  "internal_error m = backend_error_new Internal m"

definition unsupported :: "message \<Rightarrow> degraded_mode_reason \<Rightarrow> backend_error" where
  "unsupported m r = \<lparr>be_kind = Unsupported, be_message = m, be_degraded_reason = Some r\<rparr>"

lemma be_kind_simps [simp]:
  "be_kind (backend_error_new k m) = k"
  "be_kind (not_found m) = NotFound"
  "be_kind (invalid_input m) = InvalidInput"
  "be_kind (transport_error m) = Transport"
  "be_kind (internal_error m) = Internal"
  "be_kind (unsupported m r) = Unsupported"
  by (simp_all add: backend_error_new_def not_found_def invalid_input_def transport_error_def
      internal_error_def unsupported_def)

lemma be_degraded_reason_simps [simp]:
  "be_degraded_reason (backend_error_new k m) = None"
  "be_degraded_reason (not_found m) = None"
  "be_degraded_reason (invalid_input m) = None"
  "be_degraded_reason (transport_error m) = None"
  "be_degraded_reason (internal_error m) = None"
  "be_degraded_reason (unsupported m r) = Some r"
  by (simp_all add: backend_error_new_def not_found_def invalid_input_def transport_error_def
      internal_error_def unsupported_def)

section \<open>Session routes\<close>

datatype route_authority = LocalDaemon | ImportedForeign

record external_session_ref =
  ext_namespace :: rstr
  ext_value :: rstr

record session_route =
  route_backend :: backend_kind
  route_authority :: route_authority
  route_external :: "external_session_ref option"

definition native_session_namespace :: rstr where
  "native_session_namespace = lit ''native_session''"

definition local_native_route :: "(uuid \<Rightarrow> rstr) \<Rightarrow> session_id \<Rightarrow> session_route" where
  "local_native_route uuid_to_string sid =
     \<lparr>route_backend = Native, route_authority = LocalDaemon,
      route_external = Some \<lparr>ext_namespace = native_session_namespace,
                             ext_value = uuid_to_string (id_uuid sid)\<rparr>\<rparr>"

definition local_native_session_id ::
    "(rstr \<Rightarrow> uuid option) \<Rightarrow> session_route \<Rightarrow> session_id option" where
  "local_native_session_id uuid_parse_str r =
     (if route_backend r \<noteq> Native \<or> route_authority r \<noteq> LocalDaemon then None
      else case route_external r of
          None \<Rightarrow> None
        | Some ext \<Rightarrow>
            if ext_namespace ext \<noteq> native_session_namespace then None
            else map_option Id (uuid_parse_str (ext_value ext)))"

lemma local_native_session_id_Some_iff:
  "local_native_session_id ps r = Some sid \<longleftrightarrow>
     route_backend r = Native \<and> route_authority r = LocalDaemon \<and>
     (\<exists>ext. route_external r = Some ext \<and> ext_namespace ext = native_session_namespace \<and>
            ps (ext_value ext) = Some (id_uuid sid))"
  by (auto simp: local_native_session_id_def split: option.splits)

section \<open>Version compatibility\<close>

definition current_binary_version :: rstr where
  "current_binary_version = lit ''0.1.0-dev''"

definition current_protocol_major :: u16 where "current_protocol_major = 0"
definition current_protocol_minor :: u16 where "current_protocol_minor = 2"
definition current_saved_session_format_version :: u32 where
  "current_saved_session_format_version = 1"

datatype protocol_compatibility_status =
    PCompatible
  | PMajorUnsupported
  | PMinorAhead

record protocol_compat =
  can_connect :: bool
  protocol_status :: protocol_compatibility_status

definition protocol_compatibility :: "u16 \<Rightarrow> u16 \<Rightarrow> u16 \<Rightarrow> u16 \<Rightarrow> protocol_compat" where
  "protocol_compatibility expected_major expected_minor actual_major actual_minor =
     (let status =
        (if actual_major \<noteq> expected_major then PMajorUnsupported
         else if expected_minor < actual_minor then PMinorAhead
         else PCompatible)
      in \<lparr>can_connect = (status = PCompatible), protocol_status = status\<rparr>)"

datatype saved_session_compatibility_status =
    SCompatible
  | SBinarySkew
  | SFormatVersionUnsupported
  | SProtocolMajorUnsupported
  | SProtocolMinorAhead

record saved_session_manifest =
  format_version :: u32
  binary_version :: rstr
  protocol_major :: u16
  protocol_minor :: u16

record saved_session_compat =
  can_restore :: bool
  saved_status :: saved_session_compatibility_status

definition manifest_current :: saved_session_manifest where
  "manifest_current =
     \<lparr>format_version = current_saved_session_format_version,
      binary_version = current_binary_version,
      protocol_major = current_protocol_major,
      protocol_minor = current_protocol_minor\<rparr>"

definition saved_session_status ::
    "saved_session_manifest \<Rightarrow> saved_session_compatibility_status" where
  "saved_session_status m =
     (if format_version m \<noteq> current_saved_session_format_version then SFormatVersionUnsupported
      else if protocol_major m \<noteq> current_protocol_major then SProtocolMajorUnsupported
      else if current_protocol_minor < protocol_minor m then SProtocolMinorAhead
      else if binary_version m \<noteq> current_binary_version then SBinarySkew
      else SCompatible)"

definition saved_session_compatibility :: "saved_session_manifest \<Rightarrow> saved_session_compat" where
  "saved_session_compatibility m =
     (let status = saved_session_status m
      in \<lparr>can_restore = (status = SCompatible \<or> status = SBinarySkew),
          saved_status = status\<rparr>)"

lemma can_connect_iff:
  "can_connect (protocol_compatibility emaj emin amaj amin) \<longleftrightarrow> amaj = emaj \<and> amin \<le> emin"
  by (auto simp: protocol_compatibility_def Let_def not_less)

lemma can_restore_iff:
  "can_restore (saved_session_compatibility m) \<longleftrightarrow>
     format_version m = current_saved_session_format_version \<and>
     can_connect (protocol_compatibility current_protocol_major current_protocol_minor
                    (protocol_major m) (protocol_minor m))"
  by (auto simp: saved_session_compatibility_def saved_session_status_def can_connect_iff
      Let_def not_less)

section \<open>Properties of routes and versions\<close>

text \<open>
  A native route leads back to its session: only a native route of the local daemon in
  the native namespace names a session, and the route of a session names that session.
\<close>
theorem native_route_roundtrip:
  assumes "\<And>u. uuid_parse_str (uuid_to_string u) = Some u"
  shows "local_native_session_id uuid_parse_str (local_native_route uuid_to_string sid) = Some sid \<and>
         (local_native_session_id uuid_parse_str r \<noteq> None \<longrightarrow>
            route_backend r = Native \<and> route_authority r = LocalDaemon)"
  using assms by (cases sid) (auto simp: local_native_session_id_Some_iff local_native_route_def)

lemma native_route_roundtrip_witness:
  "local_native_session_id (\<lambda>s. Some (word_of_nat (hd s))) (local_native_route (\<lambda>u. [unat u]) (Id 7))
    = Some (Id 7)"
  using native_route_roundtrip [of "\<lambda>s. Some (word_of_nat (hd s))" "\<lambda>u. [unat u]" "Id 7"] by simp

text \<open>
  Compatibility: two protocol versions connect exactly when their majors agree and the
  peer's minor is not ahead; a saved session restores exactly when its format is the current
  one and its protocol version connects, whatever binary wrote it; the current manifest does.
\<close>
theorem compatibility_checks:
  "(can_connect (protocol_compatibility emaj emin amaj amin) \<longleftrightarrow> amaj = emaj \<and> amin \<le> emin) \<and>
   (can_restore (saved_session_compatibility m) \<longleftrightarrow>
      format_version m = current_saved_session_format_version \<and>
      can_connect (protocol_compatibility current_protocol_major current_protocol_minor
                     (protocol_major m) (protocol_minor m))) \<and>
   saved_status (saved_session_compatibility manifest_current) = SCompatible"
  using can_connect_iff can_restore_iff
  by (simp add: saved_session_compatibility_def saved_session_status_def manifest_current_def Let_def)

end
