(* ===== verification/Mux_Model.thy ===== *)
theory Mux_Model
  imports Domain
begin

text \<open>
  The crate \<open>terminal-mux-domain\<close> (pane trees and tab snapshots), the commands and the
  capabilities of \<open>terminal-backend-api\<close>, and the topology snapshot of
  \<open>terminal-projection\<close>. The interface \<open>pane_tree\<close> is what every user of a pane tree relies
  on: its panes in order, and a membership test that agrees with them.
\<close>

section \<open>Pane trees\<close>

datatype split_direction = Horizontal | Vertical

datatype pane_tree_node =
    PLeaf pane_id
  | PSplit split_direction pane_tree_node pane_tree_node

fun collect_snapshot_pane_ids_inner :: "pane_tree_node \<Rightarrow> pane_id list \<Rightarrow> pane_id list" where
  "collect_snapshot_pane_ids_inner (PLeaf p) acc = acc @ [p]"
| "collect_snapshot_pane_ids_inner (PSplit d a b) acc =
     collect_snapshot_pane_ids_inner b (collect_snapshot_pane_ids_inner a acc)"

definition collect_snapshot_pane_ids :: "pane_tree_node \<Rightarrow> pane_id list" where
  "collect_snapshot_pane_ids root = collect_snapshot_pane_ids_inner root []"

text \<open>The panes of a snapshot tree, read without the accumulator.\<close>

fun snapshot_panes :: "pane_tree_node \<Rightarrow> pane_id list" where
  "snapshot_panes (PLeaf p) = [p]"
| "snapshot_panes (PSplit d a b) = snapshot_panes a @ snapshot_panes b"

lemma collect_inner_eq:
  "collect_snapshot_pane_ids_inner t acc = acc @ snapshot_panes t"
  by (induction t arbitrary: acc) auto

lemma collect_snapshot_pane_ids_eq [simp]:
  "collect_snapshot_pane_ids t = snapshot_panes t"
  by (simp add: collect_snapshot_pane_ids_def collect_inner_eq)

locale pane_tree =
  fixes panes :: "'t \<Rightarrow> pane_id list"
    and contains :: "'t \<Rightarrow> pane_id \<Rightarrow> bool"
    and first_pane :: "'t \<Rightarrow> pane_id option"
  assumes panes_nonempty: "panes t \<noteq> []"
    and contains_iff: "contains t p \<longleftrightarrow> p \<in> set (panes t)"
    and first_pane_hd: "first_pane t = Some (hd (panes t))"
begin

lemma first_pane_contained: "first_pane t = Some p \<Longrightarrow> contains t p"
  by (simp add: contains_iff first_pane_hd) (metis hd_in_set panes_nonempty)

lemma first_pane_total: "first_pane t \<noteq> None"
  by (simp add: first_pane_hd)

lemma contains_some: "\<exists>p. contains t p"
  using first_pane_contained first_pane_hd by blast

end

section \<open>Tab and topology snapshots\<close>

record pane_snapshot =
  ps_pane_id :: pane_id
  ps_title :: "rstr option"
  ps_focused :: bool

datatype focus_target = FocusPane pane_id | FocusTab tab_id

record tab_snapshot =
  ts_tab_id :: tab_id
  ts_title :: "rstr option"
  ts_root :: pane_tree_node
  ts_focused_pane :: "pane_id option"

record topology_snapshot =
  tp_session_id :: session_id
  tp_backend_kind :: backend_kind
  tp_tabs :: "tab_snapshot list"
  tp_focused_tab :: "tab_id option"

section \<open>Commands\<close>

record split_pane_spec =
  sp_pane_id :: pane_id
  sp_direction :: split_direction

record resize_pane_spec =
  rs_pane_id :: pane_id
  rs_rows :: u16
  rs_cols :: u16

record new_tab_spec =
  nt_title :: "rstr option"

record send_input_spec =
  si_pane_id :: pane_id
  si_data :: rstr
  si_client_event_id :: "rstr option"

record send_paste_spec =
  pp_pane_id :: pane_id
  pp_data :: rstr
  pp_client_event_id :: "rstr option"

record override_layout_spec =
  ol_tab_id :: tab_id
  ol_root :: pane_tree_node

datatype mux_command =
    CSplitPane split_pane_spec
  | CClosePane pane_id
  | CFocusPane pane_id
  | CResizePane resize_pane_spec
  | CNewTab new_tab_spec
  | CCloseTab tab_id
  | CFocusTab tab_id
  | CRenameTab tab_id rstr
  | CSendInput send_input_spec
  | CSendPaste send_paste_spec
  | CDetach
  | CSaveSession
  | COverrideLayout override_layout_spec

record mux_command_result =
  changed :: bool

section \<open>Sessions and capabilities of a backend\<close>

record shell_launch_spec =
  launch_program :: rstr
  launch_args :: "rstr list"
  launch_cwd :: "rstr option"

definition shell_launch_spec_new :: "rstr \<Rightarrow> shell_launch_spec" where
  "shell_launch_spec_new program =
     \<lparr>launch_program = program, launch_args = [], launch_cwd = None\<rparr>"

record create_session_spec =
  cs_title :: "rstr option"
  cs_launch :: "shell_launch_spec option"

record backend_session_binding =
  bb_session_id :: session_id
  bb_route :: session_route

record backend_session_summary =
  bs_session_id :: session_id
  bs_route :: session_route
  bs_title :: "rstr option"

record discovered_session =
  ds_route :: session_route
  ds_title :: "rstr option"

datatype subscription_spec = SessionTopology | PaneSurface pane_id

record backend_capabilities =
  tiled_panes :: bool
  floating_panes :: bool
  split_resize :: bool
  tab_create :: bool
  tab_close :: bool
  tab_focus :: bool
  tab_rename :: bool
  session_scoped_tab_refs :: bool
  session_scoped_pane_refs :: bool
  pane_split :: bool
  pane_close :: bool
  pane_focus :: bool
  pane_input_write :: bool
  pane_paste_write :: bool
  raw_output_stream :: bool
  rendered_viewport_stream :: bool
  rendered_viewport_snapshot :: bool
  rendered_scrollback_snapshot :: bool
  rich_screen_surface :: bool
  layout_dump :: bool
  layout_override :: bool
  read_only_client_mode :: bool
  explicit_session_save :: bool
  explicit_session_restore :: bool
  plugin_panes :: bool
  advisory_metadata_subscriptions :: bool
  independent_resize_authority :: bool

end
