(* ===== verification/Native_Layout.thy ===== *)
theory Native_Layout
  imports Mux_Model
begin

text \<open>
  The layout engine of the native backend (\<open>engine/layout\<close> of \<open>terminal-backend-native\<close>):
  the integer geometry that turns ratios in basis points into spans and back, and the binary
  pane tree with its queries, mutations and its resize. Sizes are \<open>u16\<close>, the
  intermediate products \<open>u32\<close>, as in the source.
\<close>

section \<open>Geometry\<close>

definition split_ratio_scale :: u16 where "split_ratio_scale = 10000"
definition default_split_ratio_bps :: u16 where
  "default_split_ratio_bps = split_ratio_scale div 2"

definition target_to_first_span :: "u16 \<Rightarrow> u16 \<Rightarrow> bool \<Rightarrow> u16" where
  "target_to_first_span tot desired_target target_is_first =
     (if tot \<le> 1 then 1
      else let clamped_target = clamp 1 (saturating_sub tot 1) desired_target
           in if target_is_first then clamped_target
              else clamp 1 (saturating_sub tot 1) (saturating_sub tot clamped_target))"

definition span_to_ratio_bps :: "u16 \<Rightarrow> u16 \<Rightarrow> u16" where
  "span_to_ratio_bps first_span tot =
     (if tot \<le> 1 then default_split_ratio_bps
      else let clamped_first = clamp 1 (saturating_sub tot 1) first_span;
               ratio = ((ucast clamped_first :: u32) * ucast split_ratio_scale
                        + (ucast tot div 2)) div ucast tot;
               bounded = clamp 1 (ucast (saturating_sub split_ratio_scale 1)) ratio
           in if bounded \<le> 65535 then ucast bounded else default_split_ratio_bps)"

definition partition_dimension_by_ratio :: "u16 \<Rightarrow> u16 \<Rightarrow> u16 \<times> u16" where
  "partition_dimension_by_ratio tot ratio_bps =
     (if tot \<le> 1 then (1, 1)
      else let ratio = clamp 1 (saturating_sub split_ratio_scale 1) ratio_bps;
               raw = ((ucast tot :: u32) * ucast ratio + ucast split_ratio_scale div 2)
                     div ucast split_ratio_scale;
               bounded = clamp 1 (ucast (saturating_sub tot 1)) raw;
               first = (if bounded \<le> 65535 then ucast bounded else 1);
               second = max (saturating_sub tot first) 1
           in (first, second))"

subsection \<open>The same computations over the naturals\<close>

definition ratio_nat :: "nat \<Rightarrow> nat \<Rightarrow> nat" where
  "ratio_nat f t = clamp 1 9999 ((clamp 1 (t - 1) f * 10000 + t div 2) div t)"

definition first_nat :: "nat \<Rightarrow> nat \<Rightarrow> nat" where
  "first_nat t r = clamp 1 (t - 1) ((t * clamp 1 9999 r + 5000) div 10000)"

lemma first_nat_bounds: "2 \<le> t \<Longrightarrow> 1 \<le> first_nat t r \<and> first_nat t r \<le> t - 1"
  by (auto simp: first_nat_def intro!: clamp_bounds)

lemma ratio_nat_bounds: "1 \<le> ratio_nat f t \<and> ratio_nat f t \<le> 9999"
  by (auto simp: ratio_nat_def intro!: clamp_bounds)

lemma unat_split_ratio_scale [width_simps]: "unat split_ratio_scale = 10000"
  by (simp add: split_ratio_scale_def)

lemma unat_default_ratio [width_simps]: "unat default_split_ratio_bps = 5000"
  by (simp add: default_split_ratio_bps_def split_ratio_scale_def unat_div)

lemma not_le_one_iff: "\<not> tot \<le> (1 :: u16) \<longleftrightarrow> 2 \<le> unat tot"
  by (auto simp: word_le_nat_alt)

lemma unat_65535: "unat (65535 :: u32) = 65535"
  by simp

lemma unat_le_65535: "unat (x :: u32) \<le> 65535 \<Longrightarrow> unat (ucast x :: u16) = unat x"
  by (rule unat_ucast_u32_u16) simp

lemma unat_span_to_ratio:
  assumes "2 \<le> unat tot"
  shows "unat (span_to_ratio_bps first_span tot) = ratio_nat (unat first_span) (unat tot)"
proof -
  let ?f = "clamp 1 (saturating_sub tot 1) first_span"
  let ?num = "(ucast ?f :: u32) * ucast split_ratio_scale + (ucast tot div 2)"
  let ?b = "clamp 1 (ucast (saturating_sub split_ratio_scale 1)) (?num div ucast tot) :: u32"
  have f: "unat ?f = clamp 1 (unat tot - 1) (unat first_span)"
    by (simp add: width_simps)
  have "unat ?f < 65536" by (rule unat_u16_bound)
  then have m: "unat ((ucast ?f :: u32) * ucast split_ratio_scale) = unat ?f * 10000"
    by (subst unat_mult_u32) (simp_all add: width_simps)
  have d: "unat ((ucast tot :: u32) div 2) = unat tot div 2"
    by (simp add: unat_div width_simps)
  have "unat tot < 65536" by (rule unat_u16_bound)
  then have n: "unat ?num = unat ?f * 10000 + unat tot div 2"
    using \<open>unat ?f < 65536\<close> by (subst unat_add_u32) (simp_all add: m d)
  have b: "unat ?b = ratio_nat (unat first_span) (unat tot)"
    by (simp add: width_simps unat_div n f ratio_nat_def)
  have "unat ?b \<le> 65535"
    unfolding b using ratio_nat_bounds [of "unat first_span" "unat tot"] by linarith
  moreover from this have "?b \<le> 65535" unfolding word_le_nat_alt by (simp only: unat_65535)
  moreover have "\<not> tot \<le> 1" using assms by (simp only: not_le_one_iff)
  then have "span_to_ratio_bps first_span tot =
      (if ?b \<le> 65535 then ucast ?b else default_split_ratio_bps)"
    by (simp only: span_to_ratio_bps_def Let_def if_False)
  ultimately show ?thesis by (simp only: if_True unat_le_65535 b)
qed

lemma unat_partition_first:
  assumes "2 \<le> unat tot"
  shows "unat (fst (partition_dimension_by_ratio tot ratio)) = first_nat (unat tot) (unat ratio)"
proof -
  let ?r = "clamp 1 (saturating_sub split_ratio_scale 1) ratio"
  let ?num = "(ucast tot :: u32) * ucast ?r + ucast split_ratio_scale div 2"
  let ?b = "clamp 1 (ucast (saturating_sub tot 1)) (?num div ucast split_ratio_scale) :: u32"
  have r: "unat ?r = clamp 1 9999 (unat ratio)"
    by (simp add: width_simps)
  then have rb: "unat ?r \<le> 9999" by (simp add: clamp_def)
  have tb: "unat tot < 65536" by (rule unat_u16_bound)
  have prod: "unat tot * unat ?r \<le> 65535 * 9999"
    using rb tb by (intro mult_le_mono) simp_all
  have m: "unat ((ucast tot :: u32) * ucast ?r) = unat tot * unat ?r"
    using prod unat_mult_u32 [of "ucast tot" "ucast ?r"]
    unfolding unat_ucast_u16_u32 by linarith
  have d: "unat ((ucast split_ratio_scale :: u32) div 2) = 5000"
    by (simp add: unat_div width_simps)
  have n: "unat ?num = unat tot * unat ?r + 5000"
    using prod unat_add_u32 [of "(ucast tot :: u32) * ucast ?r" "ucast split_ratio_scale div 2"]
    unfolding m d by linarith
  have b: "unat ?b = first_nat (unat tot) (unat ratio)"
    by (simp add: width_simps unat_div n r first_nat_def)
  have "unat ?b \<le> 65535"
    unfolding b using first_nat_bounds [OF assms, of "unat ratio"] tb by linarith
  moreover from this have "?b \<le> 65535" unfolding word_le_nat_alt by (simp only: unat_65535)
  moreover have "\<not> tot \<le> 1" using assms by (simp only: not_le_one_iff)
  then have "fst (partition_dimension_by_ratio tot ratio) = (if ?b \<le> 65535 then ucast ?b else 1)"
    by (simp only: partition_dimension_by_ratio_def Let_def if_False fst_conv)
  ultimately show ?thesis by (simp only: if_True unat_le_65535 b)
qed

lemma partition_small: "unat tot \<le> 1 \<Longrightarrow> partition_dimension_by_ratio tot r = (1, 1)"
  by (simp add: partition_dimension_by_ratio_def word_le_nat_alt)

lemma unat_partition_second:
  assumes "2 \<le> unat tot"
  shows "unat (snd (partition_dimension_by_ratio tot r)) =
         unat tot - unat (fst (partition_dimension_by_ratio tot r))"
proof -
  let ?p = "partition_dimension_by_ratio tot r"
  have "snd ?p = max (saturating_sub tot (fst ?p)) 1"
    using assms by (simp add: partition_dimension_by_ratio_def not_le_one_iff [symmetric] Let_def)
  moreover have "unat (fst ?p) \<le> unat tot - 1"
    using assms first_nat_bounds [OF assms] by (simp add: unat_partition_first)
  ultimately show ?thesis using assms by (simp add: width_simps)
qed

text \<open>Two spans that cover the whole, neither empty; a total of 0 or 1 yields two ones.\<close>

lemma partition_positive:
  "1 \<le> unat (fst (partition_dimension_by_ratio tot r)) \<and>
   1 \<le> unat (snd (partition_dimension_by_ratio tot r))"
proof (cases "2 \<le> unat tot")
  case True
  then show ?thesis
    using first_nat_bounds [OF True, of "unat r"]
    by (auto simp: unat_partition_second unat_partition_first)
next
  case False
  then show ?thesis by (simp add: partition_small)
qed

lemma partition_covers:
  assumes "2 \<le> unat tot"
  shows "unat (fst (partition_dimension_by_ratio tot r)) +
         unat (snd (partition_dimension_by_ratio tot r)) = unat tot"
  using assms first_nat_bounds [OF assms, of "unat r"]
  by (auto simp: unat_partition_second unat_partition_first)

text \<open>
  The round trip of a span through its ratio: rounding to basis points and back is exact as
  long as a dimension has at most as many cells as there are basis points.
\<close>

lemma ratio_roundtrip_nat:
  assumes "2 \<le> t" and "t \<le> 10000" and "1 \<le> f" and "f \<le> t - 1"
  shows "first_nat t (ratio_nat f t) = f"
proof -
  let ?n = "f * 10000 + t div 2"
  let ?q = "?n div t"
  have "?q * t \<le> ?n" by (rule div_times_less_eq_dividend)
  have "?n < (?q + 1) * t"
    using assms(1) by (metis Suc_eq_plus1 dividend_less_div_times add.commute mult.commute
        mult_Suc gr0I not_numeral_le_zero)
  have "10000 \<le> f * 10000" using assms by simp
  then have "t \<le> ?n" using assms by linarith
  then have q1: "1 \<le> ?q" using assms(1) by (simp add: Suc_le_eq div_greater_zero_iff)
  have "f * 10000 + 10000 \<le> t * 10000"
    using assms by simp
  then have "?n < 10000 * t"
    using assms by linarith
  then have q2: "?q \<le> 9999"
    using less_mult_imp_div_less [of ?n 10000 t] by simp
  have qr: "ratio_nat f t = ?q"
    using q1 q2 assms by (simp add: ratio_nat_def)
  have lower: "f * 10000 \<le> t * ?q + 5000"
    using \<open>?n < (?q + 1) * t\<close> assms by (simp add: algebra_simps)
  have upper: "t * ?q + 5000 < f * 10000 + 10000"
  proof (cases "t = 10000")
    case True
    then show ?thesis by simp
  next
    case False
    then have "t div 2 < 5000" using assms(2) by linarith
    moreover have "t * ?q \<le> ?n" using \<open>?q * t \<le> ?n\<close> by (simp only: mult.commute)
    ultimately show ?thesis by linarith
  qed
  have "(t * ?q + 5000) div 10000 = f"
    using lower upper by (intro div_nat_eqI) simp_all
  then show ?thesis
    using assms q1 q2 by (simp add: qr first_nat_def)
qed

section \<open>The pane tree\<close>

datatype native_node =
    NLeaf pane_id
  | NSplit split_direction u16 native_node native_node

fun collect_pane_ids :: "native_node \<Rightarrow> pane_id list \<Rightarrow> pane_id list" where
  "collect_pane_ids (NLeaf p) acc = acc @ [p]"
| "collect_pane_ids (NSplit d r a b) acc = collect_pane_ids b (collect_pane_ids a acc)"

definition node_pane_ids :: "native_node \<Rightarrow> pane_id list" where
  "node_pane_ids t = collect_pane_ids t []"

fun node_contains :: "native_node \<Rightarrow> pane_id \<Rightarrow> bool" where
  "node_contains (NLeaf p) target \<longleftrightarrow> p = target"
| "node_contains (NSplit d r a b) target \<longleftrightarrow> node_contains a target \<or> node_contains b target"

fun path_has_direction :: "native_node \<Rightarrow> pane_id \<Rightarrow> split_direction \<Rightarrow> bool" where
  "path_has_direction (NLeaf p) target dir = False"
| "path_has_direction (NSplit d r a b) target dir =
     (let first_contains = node_contains a target;
          second_contains = node_contains b target
      in if \<not> first_contains \<and> \<not> second_contains then False
         else if d = dir then True
         else if first_contains then path_has_direction a target dir
         else path_has_direction b target dir)"

fun node_first_pane_id :: "native_node \<Rightarrow> pane_id option" where
  "node_first_pane_id (NLeaf p) = Some p"
| "node_first_pane_id (NSplit d r a b) =
     (case node_first_pane_id a of Some p \<Rightarrow> Some p | None \<Rightarrow> node_first_pane_id b)"

fun split_leaf :: "native_node \<Rightarrow> pane_id \<Rightarrow> split_direction \<Rightarrow> pane_id \<Rightarrow> bool \<times> native_node" where
  "split_leaf (NLeaf p) target dir new_pane =
     (if p = target
      then (True, NSplit dir default_split_ratio_bps (NLeaf p) (NLeaf new_pane))
      else (False, NLeaf p))"
| "split_leaf (NSplit d r a b) target dir new_pane =
     (let (done, a') = split_leaf a target dir new_pane
      in if done then (True, NSplit d r a' b)
         else let (done', b') = split_leaf b target dir new_pane
              in (done', NSplit d r a' b'))"

fun remove_leaf :: "native_node \<Rightarrow> pane_id \<Rightarrow> native_node option" where
  "remove_leaf (NLeaf p) target = (if p \<noteq> target then Some (NLeaf p) else None)"
| "remove_leaf (NSplit d r a b) target =
     (case (remove_leaf a target, remove_leaf b target) of
        (Some a', Some b') \<Rightarrow> Some (NSplit d r a' b')
      | (Some n, None) \<Rightarrow> Some n
      | (None, Some n) \<Rightarrow> Some n
      | (None, None) \<Rightarrow> None)"

fun from_snapshot :: "pane_tree_node \<Rightarrow> native_node" where
  "from_snapshot (PLeaf p) = NLeaf p"
| "from_snapshot (PSplit d a b) =
     NSplit d default_split_ratio_bps (from_snapshot a) (from_snapshot b)"

fun node_snapshot :: "native_node \<Rightarrow> pane_tree_node" where
  "node_snapshot (NLeaf p) = PLeaf p"
| "node_snapshot (NSplit d r a b) = PSplit d (node_snapshot a) (node_snapshot b)"

definition split_partition ::
    "split_direction \<Rightarrow> u16 \<Rightarrow> u16 \<Rightarrow> u16 \<Rightarrow> (u16 \<times> u16) \<times> (u16 \<times> u16)" where
  "split_partition direction ratio_bps rows cols =
     (case direction of
        Vertical \<Rightarrow>
          (let (first_cols, second_cols) = partition_dimension_by_ratio cols ratio_bps
           in ((rows, first_cols), (rows, second_cols)))
      | Horizontal \<Rightarrow>
          (let (first_rows, second_rows) = partition_dimension_by_ratio rows ratio_bps
           in ((first_rows, cols), (second_rows, cols))))"

subsection \<open>Panes of a tree\<close>

fun node_panes :: "native_node \<Rightarrow> pane_id list" where
  "node_panes (NLeaf p) = [p]"
| "node_panes (NSplit d r a b) = node_panes a @ node_panes b"

lemma collect_pane_ids_eq: "collect_pane_ids t acc = acc @ node_panes t"
  by (induction t arbitrary: acc) auto

lemma node_pane_ids_eq [simp]: "node_pane_ids t = node_panes t"
  by (simp add: node_pane_ids_def collect_pane_ids_eq)

lemma node_panes_nonempty [simp]: "node_panes t \<noteq> []"
  by (induction t) auto

lemma node_contains_iff [simp]: "node_contains t p \<longleftrightarrow> p \<in> set (node_panes t)"
  by (induction t) auto

lemma node_first_pane_id_eq: "node_first_pane_id t = Some (hd (node_panes t))"
  by (induction t) auto

lemma snapshot_panes_nonempty [simp]: "snapshot_panes t \<noteq> []"
  by (induction t) auto

interpretation native_tree: pane_tree node_pane_ids node_contains node_first_pane_id
  by unfold_locales (simp_all add: node_first_pane_id_eq)

text \<open>A snapshot tree keeps no ratio: back and forth, ratios return to the default.\<close>

lemma node_snapshot_from_snapshot [simp]: "node_snapshot (from_snapshot t) = t"
  by (induction t) auto

lemma snapshot_panes_node_snapshot [simp]: "snapshot_panes (node_snapshot t) = node_panes t"
  by (induction t) auto

lemma node_panes_from_snapshot [simp]: "node_panes (from_snapshot t) = snapshot_panes t"
  by (induction t) auto

text \<open>Splitting a leaf puts the new pane right after its target.\<close>

fun insert_after :: "'a \<Rightarrow> 'a \<Rightarrow> 'a list \<Rightarrow> 'a list" where
  "insert_after x y [] = []"
| "insert_after x y (z # zs) = (if z = x then z # y # zs else z # insert_after x y zs)"

lemma insert_after_append:
  "insert_after x y (xs @ ys) =
     (if x \<in> set xs then insert_after x y xs @ ys else xs @ insert_after x y ys)"
  by (induction xs) auto

lemma insert_after_absent: "x \<notin> set xs \<Longrightarrow> insert_after x y xs = xs"
  by (induction xs) auto

lemma set_insert_after: "x \<in> set xs \<Longrightarrow> set (insert_after x y xs) = insert y (set xs)"
  by (induction xs) auto

lemma distinct_insert_after:
  "distinct xs \<Longrightarrow> y \<notin> set xs \<Longrightarrow> distinct (insert_after x y xs)"
proof (induction xs)
  case (Cons z zs)
  then show ?case
    by (cases "x \<in> set zs") (auto simp: set_insert_after insert_after_absent)
qed simp

lemma split_leaf_found: "fst (split_leaf t target dir new) \<longleftrightarrow> target \<in> set (node_panes t)"
  by (induction t) (auto simp: Let_def split: prod.splits)

lemma split_leaf_panes:
  "node_panes (snd (split_leaf t target dir new)) = insert_after target new (node_panes t)"
proof (induction t)
  case (NSplit d r a b)
  then show ?case
    using split_leaf_found [of a target dir new]
    by (auto simp: Let_def insert_after_append insert_after_absent split: prod.splits)
qed simp

lemma split_leaf_unchanged:
  "\<not> fst (split_leaf t target dir new) \<Longrightarrow> snd (split_leaf t target dir new) = t"
  by (induction t) (auto simp: Let_def split: prod.splits if_splits)

text \<open>Removing a leaf removes exactly its pane, and fails only when nothing would be left.\<close>

lemma remove_leaf_None_iff:
  "remove_leaf t target = None \<longleftrightarrow> set (node_panes t) = {target}"
proof (induction t)
  case (NSplit d r a b)
  have ne: "set (node_panes a) \<noteq> {}" "set (node_panes b) \<noteq> {}"
    by simp_all
  have "remove_leaf (NSplit d r a b) target = None \<longleftrightarrow>
      remove_leaf a target = None \<and> remove_leaf b target = None"
    by (simp split: option.split)
  also have "\<dots> \<longleftrightarrow> set (node_panes a) = {target} \<and> set (node_panes b) = {target}"
    by (simp only: NSplit.IH)
  also have "\<dots> \<longleftrightarrow> set (node_panes a) \<union> set (node_panes b) = {target}"
    using ne by (simp only: Un_singleton_iff) simp
  finally show ?case by simp
qed simp

lemma remove_leaf_panes:
  "remove_leaf t target = Some t' \<Longrightarrow> node_panes t' = filter (\<lambda>p. p \<noteq> target) (node_panes t)"
proof (induction t arbitrary: t')
  case (NSplit d r a b)
  have none: "remove_leaf n target = None \<Longrightarrow> filter (\<lambda>p. p \<noteq> target) (node_panes n) = []" for n
    by (simp add: remove_leaf_None_iff filter_empty_conv)
  show ?case
    using NSplit.prems NSplit.IH none by (auto split: option.splits)
qed (auto split: if_splits)

end
