(* ===== verification/Native_Resize.thy ===== *)
theory Native_Resize
  imports Native_Layout
begin

text \<open>
  Resizing one pane of a tab (\<open>engine/layout/resize.rs\<close>) and the sizes a pane tree gives to
  its panes. \<open>pane_sizes\<close> is the traversal of \<open>apply_pane_layout\<close> without its effects,
  \<open>pane_rects\<close> adds the position of each pane: the specification that the sizes tile the
  screen.
\<close>

section \<open>Sizes handed to the panes\<close>

record pane_geometry =
  pg_rows :: u16
  pg_cols :: u16

fun pane_sizes :: "native_node \<Rightarrow> u16 \<Rightarrow> u16 \<Rightarrow> (pane_id \<times> pane_geometry) list" where
  "pane_sizes (NLeaf p) rows cols = [(p, \<lparr>pg_rows = rows, pg_cols = cols\<rparr>)]"
| "pane_sizes (NSplit d r a b) rows cols =
     (let ((first_rows, first_cols), (second_rows, second_cols)) = split_partition d r rows cols
      in pane_sizes a first_rows first_cols @ pane_sizes b second_rows second_cols)"

lemma pane_sizes_panes [simp]: "map fst (pane_sizes t rows cols) = node_panes t"
  by (induction t rows cols rule: pane_sizes.induct) (auto split: prod.split)

lemma split_partition_positive:
  assumes "split_partition d r rows cols = ((r1, c1), (r2, c2))"
    and "1 \<le> unat rows" and "1 \<le> unat cols"
  shows "1 \<le> unat r1 \<and> 1 \<le> unat c1 \<and> 1 \<le> unat r2 \<and> 1 \<le> unat c2"
  using assms partition_positive [of cols r] partition_positive [of rows r]
  by (auto simp: split_partition_def split: split_direction.splits prod.splits)

lemma pane_sizes_positive:
  assumes "1 \<le> unat rows" and "1 \<le> unat cols" and "(p, g) \<in> set (pane_sizes t rows cols)"
  shows "1 \<le> unat (pg_rows g) \<and> 1 \<le> unat (pg_cols g)"
  using assms
proof (induction t arbitrary: rows cols)
  case (NSplit d r a b)
  obtain r1 c1 r2 c2 where sp: "split_partition d r rows cols = ((r1, c1), (r2, c2))"
    by (metis surj_pair)
  note pos = split_partition_positive [OF sp NSplit.prems(1,2)]
  from NSplit.prems(3) sp have
    "(p, g) \<in> set (pane_sizes a r1 c1) \<or> (p, g) \<in> set (pane_sizes b r2 c2)"
    by simp
  then show ?case using pos NSplit.IH by blast
qed auto

subsection \<open>Tiling\<close>

text \<open>
  \<open>fits t rows cols\<close>: every split of the tree has at least two cells to share along its
  axis. Below that \<open>partition_dimension_by_ratio\<close> hands out one cell twice.
\<close>

fun fits :: "native_node \<Rightarrow> u16 \<Rightarrow> u16 \<Rightarrow> bool" where
  "fits (NLeaf p) rows cols = True"
| "fits (NSplit d r a b) rows cols =
     (let ((first_rows, first_cols), (second_rows, second_cols)) = split_partition d r rows cols
      in 2 \<le> unat (case d of Vertical \<Rightarrow> cols | Horizontal \<Rightarrow> rows) \<and>
         fits a first_rows first_cols \<and> fits b second_rows second_cols)"

type_synonym rect = "nat \<times> nat \<times> nat \<times> nat"  \<comment> \<open>top, left, height, width\<close>

fun in_rect :: "nat \<times> nat \<Rightarrow> rect \<Rightarrow> bool" where
  "in_rect (y, x) (y0, x0, h, w) \<longleftrightarrow>
     y0 \<le> y \<and> y < y0 + h \<and> x0 \<le> x \<and> x < x0 + w"

fun pane_rects :: "native_node \<Rightarrow> nat \<Rightarrow> nat \<Rightarrow> u16 \<Rightarrow> u16 \<Rightarrow> (pane_id \<times> rect) list" where
  "pane_rects (NLeaf p) y0 x0 rows cols = [(p, (y0, x0, unat rows, unat cols))]"
| "pane_rects (NSplit d r a b) y0 x0 rows cols =
     (let ((first_rows, first_cols), (second_rows, second_cols)) = split_partition d r rows cols
      in pane_rects a y0 x0 first_rows first_cols @
         (case d of
            Vertical \<Rightarrow> pane_rects b y0 (x0 + unat first_cols) second_rows second_cols
          | Horizontal \<Rightarrow> pane_rects b (y0 + unat first_rows) x0 second_rows second_cols))"

lemma pane_rects_sizes:
  "map (\<lambda>(p, (y0, x0, h, w)). (p, (h, w))) (pane_rects t y x rows cols) =
   map (\<lambda>(p, g). (p, (unat (pg_rows g), unat (pg_cols g)))) (pane_sizes t rows cols)"
  by (induction t arbitrary: y x rows cols) (auto split: prod.split split_direction.split)

lemma pane_rects_inside:
  assumes "fits t rows cols" and "(p, rect) \<in> set (pane_rects t y0 x0 rows cols)"
    and "in_rect cell rect"
  shows "in_rect cell (y0, x0, unat rows, unat cols)"
  using assms
proof (induction t arbitrary: y0 x0 rows cols)
  case (NSplit d r a b)
  obtain r1 c1 r2 c2 where sp: "split_partition d r rows cols = ((r1, c1), (r2, c2))"
    by (metis surj_pair)
  obtain y x where cell: "cell = (y, x)" by fastforce
  show ?case
  proof (cases d)
    case Vertical
    with sp have eq: "r1 = rows" "r2 = rows" "partition_dimension_by_ratio cols r = (c1, c2)"
      by (auto simp: split_partition_def split: prod.splits)
    with partition_covers [of cols r] NSplit.prems(1) Vertical sp
    have sum: "unat c1 + unat c2 = unat cols" by simp
    from NSplit.prems(2) Vertical sp
    have "(p, rect) \<in> set (pane_rects a y0 x0 rows c1) \<or>
        (p, rect) \<in> set (pane_rects b y0 (x0 + unat c1) rows c2)"
      by (simp add: eq)
    then have "in_rect cell (y0, x0, unat rows, unat c1) \<or>
        in_rect cell (y0, x0 + unat c1, unat rows, unat c2)"
      using NSplit.IH NSplit.prems(1,3) sp eq(1,2) by (fastforce simp del: in_rect.simps)
    then show ?thesis using sum by (auto simp: cell)
  next
    case Horizontal
    with sp have eq: "c1 = cols" "c2 = cols" "partition_dimension_by_ratio rows r = (r1, r2)"
      by (auto simp: split_partition_def split: prod.splits)
    with partition_covers [of rows r] NSplit.prems(1) Horizontal sp
    have sum: "unat r1 + unat r2 = unat rows" by simp
    from NSplit.prems(2) Horizontal sp
    have "(p, rect) \<in> set (pane_rects a y0 x0 r1 cols) \<or>
        (p, rect) \<in> set (pane_rects b (y0 + unat r1) x0 r2 cols)"
      by (simp add: eq)
    then have "in_rect cell (y0, x0, unat r1, unat cols) \<or>
        in_rect cell (y0 + unat r1, x0, unat r2, unat cols)"
      using NSplit.IH NSplit.prems(1,3) sp eq(1,2) by (fastforce simp del: in_rect.simps)
    then show ?thesis using sum by (auto simp: cell)
  qed
qed auto

text \<open>How many panes of a layout show a given cell.\<close>

definition owners :: "nat \<times> nat \<Rightarrow> (pane_id \<times> rect) list \<Rightarrow> nat" where
  "owners cell rects = length (filter (\<lambda>(p, rect). in_rect cell rect) rects)"

lemma owners_append [simp]: "owners cell (xs @ ys) = owners cell xs + owners cell ys"
  by (simp add: owners_def)

lemma owners_zero:
  assumes "fits t rows cols" and "\<not> in_rect cell (y0, x0, unat rows, unat cols)"
  shows "owners cell (pane_rects t y0 x0 rows cols) = 0"
proof -
  have "\<not> in_rect cell rect" if "(p, rect) \<in> set (pane_rects t y0 x0 rows cols)" for p rect
    using assms pane_rects_inside [OF assms(1) that] by blast
  then show ?thesis by (auto simp: owners_def filter_empty_conv)
qed

lemma owners_one:
  assumes "fits t rows cols" and "in_rect cell (y0, x0, unat rows, unat cols)"
  shows "owners cell (pane_rects t y0 x0 rows cols) = 1"
  using assms
proof (induction t arbitrary: y0 x0 rows cols)
  case (NLeaf p)
  then show ?case by (simp add: owners_def)
next
  case (NSplit d r a b)
  obtain r1 c1 r2 c2 where sp: "split_partition d r rows cols = ((r1, c1), (r2, c2))"
    by (metis surj_pair)
  obtain y x where cell: "cell = (y, x)" by fastforce
  have fit: "fits a r1 c1" "fits b r2 c2" using NSplit.prems(1) sp by auto
  show ?case
  proof (cases d)
    case Vertical
    with sp have eq: "r1 = rows" "r2 = rows" "partition_dimension_by_ratio cols r = (c1, c2)"
      by (auto simp: split_partition_def split: prod.splits)
    with partition_covers [of cols r] NSplit.prems(1) Vertical sp
    have sum: "unat c1 + unat c2 = unat cols" by simp
    have rects: "pane_rects (NSplit d r a b) y0 x0 rows cols =
        pane_rects a y0 x0 rows c1 @ pane_rects b y0 (x0 + unat c1) rows c2"
      using Vertical sp eq(1,2) by simp
    show ?thesis
    proof (cases "x < x0 + unat c1")
      case True
      then have "in_rect cell (y0, x0, unat rows, unat c1)"
        and "\<not> in_rect cell (y0, x0 + unat c1, unat rows, unat c2)"
        using NSplit.prems(2) by (auto simp: cell)
      then show ?thesis using NSplit.IH(1) owners_zero fit eq(1,2)
        by (simp only: rects owners_append simp_thms add_0_right add_0_left)
    next
      case False
      then have "in_rect cell (y0, x0 + unat c1, unat rows, unat c2)"
        and "\<not> in_rect cell (y0, x0, unat rows, unat c1)"
        using NSplit.prems(2) sum by (auto simp: cell)
      then show ?thesis using NSplit.IH(2) owners_zero fit eq(1,2)
        by (simp only: rects owners_append simp_thms add_0_right add_0_left)
    qed
  next
    case Horizontal
    with sp have eq: "c1 = cols" "c2 = cols" "partition_dimension_by_ratio rows r = (r1, r2)"
      by (auto simp: split_partition_def split: prod.splits)
    with partition_covers [of rows r] NSplit.prems(1) Horizontal sp
    have sum: "unat r1 + unat r2 = unat rows" by simp
    have rects: "pane_rects (NSplit d r a b) y0 x0 rows cols =
        pane_rects a y0 x0 r1 cols @ pane_rects b (y0 + unat r1) x0 r2 cols"
      using Horizontal sp eq(1,2) by simp
    show ?thesis
    proof (cases "y < y0 + unat r1")
      case True
      then have "in_rect cell (y0, x0, unat r1, unat cols)"
        and "\<not> in_rect cell (y0 + unat r1, x0, unat r2, unat cols)"
        using NSplit.prems(2) by (auto simp: cell)
      then show ?thesis using NSplit.IH(1) owners_zero fit eq(1,2)
        by (simp only: rects owners_append simp_thms add_0_right add_0_left)
    next
      case False
      then have "in_rect cell (y0 + unat r1, x0, unat r2, unat cols)"
        and "\<not> in_rect cell (y0, x0, unat r1, unat cols)"
        using NSplit.prems(2) sum by (auto simp: cell)
      then show ?thesis using NSplit.IH(2) owners_zero fit eq(1,2)
        by (simp only: rects owners_append simp_thms add_0_right add_0_left)
    qed
  qed
qed

section \<open>Resizing\<close>

record layout_resize_outcome =
  lo_changed :: bool
  lo_row_applied :: bool
  lo_col_applied :: bool

definition outcome_default :: layout_resize_outcome where
  "outcome_default = \<lparr>lo_changed = False, lo_row_applied = False, lo_col_applied = False\<rparr>"

definition outcome_merge ::
    "layout_resize_outcome \<Rightarrow> layout_resize_outcome \<Rightarrow> layout_resize_outcome" where
  "outcome_merge o1 nested =
     \<lparr>lo_changed = (lo_changed o1 \<or> lo_changed nested),
      lo_row_applied = (lo_row_applied o1 \<or> lo_row_applied nested),
      lo_col_applied = (lo_col_applied o1 \<or> lo_col_applied nested)\<rparr>"

text \<open>
  The \<open>match\<close> on the direction of one split: the ratio it ends up with and its share of the
  outcome.
\<close>

definition resize_split ::
    "split_direction \<Rightarrow> u16 \<Rightarrow> pane_geometry \<Rightarrow> u16 \<Rightarrow> u16 \<Rightarrow> bool \<Rightarrow> bool \<Rightarrow> bool
     \<Rightarrow> layout_resize_outcome \<times> u16" where
  "resize_split direction ratio_bps desired rows cols allow_row allow_col first_contains =
     (if direction = Vertical \<and> allow_col \<and> 1 < cols then
        (let new_ratio = span_to_ratio_bps
               (target_to_first_span cols (pg_cols desired) first_contains) cols
         in (outcome_default\<lparr>lo_changed := (ratio_bps \<noteq> new_ratio), lo_col_applied := True\<rparr>,
             new_ratio))
      else if direction = Horizontal \<and> allow_row \<and> 1 < rows then
        (let new_ratio = span_to_ratio_bps
               (target_to_first_span rows (pg_rows desired) first_contains) rows
         in (outcome_default\<lparr>lo_changed := (ratio_bps \<noteq> new_ratio), lo_row_applied := True\<rparr>,
             new_ratio))
      else (outcome_default, ratio_bps))"

fun resize_target_with_policy ::
    "native_node \<Rightarrow> pane_id \<Rightarrow> pane_geometry \<Rightarrow> u16 \<Rightarrow> u16 \<Rightarrow> bool \<Rightarrow> bool
     \<Rightarrow> layout_resize_outcome \<times> native_node" where
  "resize_target_with_policy (NLeaf p) target desired rows cols allow_row allow_col =
     (outcome_default, NLeaf p)"
| "resize_target_with_policy (NSplit d r a b) target desired rows cols allow_row allow_col =
     (let first_contains = node_contains a target;
          second_contains = node_contains b target
      in if \<not> first_contains \<and> \<not> second_contains then (outcome_default, NSplit d r a b)
         else
           let (outcome, r') =
                 resize_split d r desired rows cols allow_row allow_col first_contains;
               ((first_rows, first_cols), (second_rows, second_cols)) =
                 split_partition d r' rows cols;
               child_allow_row = (allow_row \<and> d \<noteq> Horizontal);
               child_allow_col = (allow_col \<and> d \<noteq> Vertical)
           in if first_contains then
                let (nested, a') = resize_target_with_policy a target desired
                      first_rows first_cols child_allow_row child_allow_col
                in (outcome_merge outcome nested, NSplit d r' a' b)
              else
                let (nested, b') = resize_target_with_policy b target desired
                      second_rows second_cols child_allow_row child_allow_col
                in (outcome_merge outcome nested, NSplit d r' a b'))"

definition resize_target ::
    "native_node \<Rightarrow> pane_id \<Rightarrow> pane_geometry \<Rightarrow> u16 \<Rightarrow> u16
     \<Rightarrow> layout_resize_outcome \<times> native_node" where
  "resize_target t target desired rows cols =
     resize_target_with_policy t target desired rows cols True True"

subsection \<open>What a resize keeps\<close>

text \<open>
  The recursive equation in its three cases: the target in the first subtree, in the second
  only, in neither.
\<close>

lemma resize_first:
  assumes "target \<in> set (node_panes a)"
  shows "resize_target_with_policy (NSplit d r a b) target g rows cols ar ac =
    (let o1 = resize_split d r g rows cols ar ac True;
         sizes = split_partition d (snd o1) rows cols;
         nested = resize_target_with_policy a target g (fst (fst sizes)) (snd (fst sizes))
           (ar \<and> d \<noteq> Horizontal) (ac \<and> d \<noteq> Vertical)
     in (outcome_merge (fst o1) (fst nested), NSplit d (snd o1) (snd nested) b))"
  using assms by (simp add: Let_def case_prod_beta)

lemma resize_second:
  assumes "target \<notin> set (node_panes a)" and "target \<in> set (node_panes b)"
  shows "resize_target_with_policy (NSplit d r a b) target g rows cols ar ac =
    (let o1 = resize_split d r g rows cols ar ac False;
         sizes = split_partition d (snd o1) rows cols;
         nested = resize_target_with_policy b target g (fst (snd sizes)) (snd (snd sizes))
           (ar \<and> d \<noteq> Horizontal) (ac \<and> d \<noteq> Vertical)
     in (outcome_merge (fst o1) (fst nested), NSplit d (snd o1) a (snd nested)))"
  using assms by (simp add: Let_def case_prod_beta)

lemma resize_absent:
  assumes "target \<notin> set (node_panes t)"
  shows "resize_target_with_policy t target g rows cols ar ac = (outcome_default, t)"
  using assms by (cases t) simp_all

lemmas resize_cases = resize_first resize_second resize_absent

lemma resize_keeps_snapshot:
  "node_snapshot (snd (resize_target_with_policy t p g rows cols ar ac)) = node_snapshot t"
proof (induction t arbitrary: rows cols ar ac)
  case (NSplit d r a b)
  consider "p \<in> set (node_panes a)" | "p \<notin> set (node_panes a)" "p \<in> set (node_panes b)"
    | "p \<notin> set (node_panes (NSplit d r a b))" by auto
  then show ?case
    by cases (simp_all add: resize_cases Let_def NSplit.IH del: resize_target_with_policy.simps(2))
qed simp

lemma resize_keeps_panes [simp]:
  "node_panes (snd (resize_target_with_policy t p g rows cols ar ac)) = node_panes t"
  by (metis resize_keeps_snapshot snapshot_panes_node_snapshot)

lemma resize_split_unchanged:
  "\<not> lo_changed (fst (resize_split d r g rows cols ar ac fc)) \<Longrightarrow>
   snd (resize_split d r g rows cols ar ac fc) = r"
  by (auto simp: resize_split_def outcome_default_def Let_def split: if_splits)

lemma resize_unchanged:
  assumes "\<not> lo_changed (fst (resize_target_with_policy t p g rows cols ar ac))"
  shows "snd (resize_target_with_policy t p g rows cols ar ac) = t"
  using assms
proof (induction t arbitrary: rows cols ar ac)
  case (NSplit d r a b)
  consider "p \<in> set (node_panes a)" | "p \<notin> set (node_panes a)" "p \<in> set (node_panes b)"
    | "p \<notin> set (node_panes (NSplit d r a b))" by auto
  then show ?case
    using NSplit.prems
    by cases (auto simp: resize_cases Let_def NSplit.IH resize_split_unchanged outcome_merge_def
        simp del: resize_target_with_policy.simps(2))
qed simp

text \<open>Resizing a second time to the same size changes nothing.\<close>

lemma resize_split_idem:
  "fst (resize_split d (snd (resize_split d r g rows cols ar ac fc)) g rows cols ar ac fc) =
     (fst (resize_split d r g rows cols ar ac fc))\<lparr>lo_changed := False\<rparr> \<and>
   snd (resize_split d (snd (resize_split d r g rows cols ar ac fc)) g rows cols ar ac fc) =
     snd (resize_split d r g rows cols ar ac fc)"
  by (simp add: resize_split_def outcome_default_def Let_def)

lemma resize_idempotent:
  "resize_target_with_policy (snd (resize_target_with_policy t p g rows cols ar ac))
      p g rows cols ar ac =
    ((fst (resize_target_with_policy t p g rows cols ar ac))\<lparr>lo_changed := False\<rparr>,
      snd (resize_target_with_policy t p g rows cols ar ac))"
proof (induction t arbitrary: rows cols ar ac)
  case (NSplit d r a b)
  consider "p \<in> set (node_panes a)" | "p \<notin> set (node_panes a)" "p \<in> set (node_panes b)"
    | "p \<notin> set (node_panes (NSplit d r a b))" by auto
  then show ?case
    by cases (simp_all add: resize_cases Let_def NSplit.IH resize_split_idem outcome_merge_def
        outcome_default_def del: resize_target_with_policy.simps(2))
qed (simp add: outcome_default_def)

text \<open>Ratios stay between one basis point and one less than the whole.\<close>

fun ratios_ok :: "native_node \<Rightarrow> bool" where
  "ratios_ok (NLeaf p) = True"
| "ratios_ok (NSplit d r a b) \<longleftrightarrow> 1 \<le> unat r \<and> unat r \<le> 9999 \<and> ratios_ok a \<and> ratios_ok b"

lemma ratios_ok_from_snapshot [wf_intro]: "ratios_ok (from_snapshot t)"
  by (induction t) (simp_all add: width_simps)

lemma ratios_ok_split_leaf [wf_intro]:
  "ratios_ok t \<Longrightarrow> ratios_ok (snd (split_leaf t p d new))"
  by (induction t) (auto simp: Let_def width_simps split: prod.splits if_splits)

lemma ratios_ok_remove_leaf [wf_intro]:
  assumes "ratios_ok t" and "remove_leaf t p = Some t'"
  shows "ratios_ok t'"
  using assms
proof (induction t arbitrary: t')
  case (NSplit d r a b)
  have oks: "ratios_ok a" "ratios_ok b" "1 \<le> unat r" "unat r \<le> 9999"
    using NSplit.prems(1) by simp_all
  show ?case
  proof (cases "remove_leaf a p")
    case None
    then have "remove_leaf b p = Some t'"
      using NSplit.prems(2) by (simp split: option.splits)
    then show ?thesis using NSplit.IH(2) oks by blast
  next
    case a: (Some a')
    then have a': "ratios_ok a'" using NSplit.IH(1) oks by blast
    show ?thesis
    proof (cases "remove_leaf b p")
      case None
      then show ?thesis using a a' NSplit.prems(2) by simp
    next
      case (Some b')
      then have "t' = NSplit d r a' b'" using a NSplit.prems(2) by simp
      moreover have "ratios_ok b'" using Some NSplit.IH(2) oks by blast
      ultimately show ?thesis using a' oks by simp
    qed
  qed
qed (auto split: if_splits)

lemma one_less_u16_iff: "1 < (x :: u16) \<longleftrightarrow> 2 \<le> unat x"
  by (auto simp: word_less_nat_alt)

lemma span_to_ratio_ok:
  "1 < extent \<Longrightarrow> 1 \<le> unat (span_to_ratio_bps f extent) \<and> unat (span_to_ratio_bps f extent) \<le> 9999"
  by (simp only: one_less_u16_iff unat_span_to_ratio ratio_nat_bounds simp_thms)

lemma resize_split_ratio:
  assumes "1 \<le> unat r" and "unat r \<le> 9999"
  shows "1 \<le> unat (snd (resize_split d r g rows cols ar ac fc)) \<and>
         unat (snd (resize_split d r g rows cols ar ac fc)) \<le> 9999"
  unfolding resize_split_def Let_def using assms
  by (simp del: One_nat_def add: span_to_ratio_ok)

lemma ratios_ok_resize [wf_intro]:
  "ratios_ok t \<Longrightarrow> ratios_ok (snd (resize_target_with_policy t p g rows cols ar ac))"
proof (induction t arbitrary: rows cols ar ac)
  case (NSplit d r a b)
  consider "p \<in> set (node_panes a)" | "p \<notin> set (node_panes a)" "p \<in> set (node_panes b)"
    | "p \<notin> set (node_panes (NSplit d r a b))" by auto
  then show ?case
    using NSplit.prems resize_split_ratio [of r]
    by cases (simp_all add: resize_cases Let_def NSplit.IH del: resize_target_with_policy.simps(2))
qed simp

subsection \<open>What a resize reaches\<close>

text \<open>
  The size of the target's share when the tree is laid out: the walk from the root down to it.
\<close>

fun target_size :: "native_node \<Rightarrow> pane_id \<Rightarrow> u16 \<Rightarrow> u16 \<Rightarrow> u16 \<times> u16" where
  "target_size (NLeaf p) target rows cols = (rows, cols)"
| "target_size (NSplit d r a b) target rows cols =
     (let sizes = split_partition d r rows cols
      in if target \<in> set (node_panes a)
         then target_size a target (fst (fst sizes)) (snd (fst sizes))
         else target_size b target (fst (snd sizes)) (snd (snd sizes)))"

fun path_count :: "native_node \<Rightarrow> pane_id \<Rightarrow> split_direction \<Rightarrow> nat" where
  "path_count (NLeaf p) target dir = 0"
| "path_count (NSplit d r a b) target dir =
     (if d = dir then 1 else 0) +
     (if target \<in> set (node_panes a) then path_count a target dir
      else path_count b target dir)"

lemma path_has_direction_iff:
  "target \<in> set (node_panes t) \<Longrightarrow> path_has_direction t target dir \<longleftrightarrow> 0 < path_count t target dir"
  by (induction t) (auto simp: Let_def)

lemma target_size_lookup:
  assumes "distinct (node_panes t)" and "target \<in> set (node_panes t)"
  shows "map_of (pane_sizes t rows cols) target =
    Some \<lparr>pg_rows = fst (target_size t target rows cols),
          pg_cols = snd (target_size t target rows cols)\<rparr>"
  using assms
proof (induction t arbitrary: rows cols)
  case (NSplit d r a b)
  obtain r1 c1 r2 c2 where sp: "split_partition d r rows cols = ((r1, c1), (r2, c2))"
    by (metis surj_pair)
  have none: "map_of (pane_sizes n r' c') target = None" if "target \<notin> set (node_panes n)"
    for n r' c'
    using that by (metis map_of_eq_None_iff pane_sizes_panes set_map)
  have app: "map_of (pane_sizes (NSplit d r a b) rows cols) target =
      (case map_of (pane_sizes a r1 c1) target of None \<Rightarrow> map_of (pane_sizes b r2 c2) target
       | Some g \<Rightarrow> Some g)"
    by (simp add: sp map_add_def)
  show ?case
  proof (cases "target \<in> set (node_panes a)")
    case True
    then have "map_of (pane_sizes a r1 c1) target =
        Some \<lparr>pg_rows = fst (target_size a target r1 c1), pg_cols = snd (target_size a target r1 c1)\<rparr>"
      using NSplit.IH(1) NSplit.prems(1) by simp
    then show ?thesis unfolding app using True by (simp add: sp)
  next
    case False
    then have "map_of (pane_sizes b r2 c2) target =
        Some \<lparr>pg_rows = fst (target_size b target r2 c2), pg_cols = snd (target_size b target r2 c2)\<rparr>"
      using NSplit.IH(2) NSplit.prems by simp
    then show ?thesis unfolding app using False by (simp add: sp none)
  qed
qed simp

text \<open>No split of direction \<open>dir\<close> above the target: its share of that dimension is the whole.\<close>

lemma target_size_untouched:
  assumes "target \<in> set (node_panes t)" and "path_count t target dir = 0"
  shows "(case dir of Vertical \<Rightarrow> snd (target_size t target rows cols) = cols
                    | Horizontal \<Rightarrow> fst (target_size t target rows cols) = rows)"
  using assms
proof (induction t arbitrary: rows cols)
  case (NSplit d r a b)
  then show ?case
    by (cases dir; cases d; cases "target \<in> set (node_panes a)")
      (force simp: Let_def split_partition_def case_prod_beta)+
qed (simp split: split_direction.split)

text \<open>
  One split of direction \<open>dir\<close> above the target: the resize gives the target the span it
  asked for, clamped so that the sibling keeps one cell. This needs the dimension to have at
  most ten thousand cells (\<open>ratio_roundtrip_nat\<close>).
\<close>

definition granted :: "u16 \<Rightarrow> u16 \<Rightarrow> nat" where
  "granted extent wanted = clamp 1 (unat extent - 1) (unat wanted)"

lemma unat_target_to_first_span:
  assumes "2 \<le> unat extent"
  shows "unat (target_to_first_span extent wanted is_first) =
    (if is_first then granted extent wanted else unat extent - granted extent wanted)"
proof -
  have "\<not> extent \<le> 1" using assms by (simp only: not_le_one_iff)
  then have eq: "target_to_first_span extent wanted is_first =
    (if is_first then clamp 1 (saturating_sub extent 1) wanted
     else clamp 1 (saturating_sub extent 1)
       (saturating_sub extent (clamp 1 (saturating_sub extent 1) wanted)))"
    by (simp only: target_to_first_span_def Let_def if_False)
  have "1 \<le> granted extent wanted" and "granted extent wanted \<le> unat extent - 1"
    using assms clamp_bounds [of 1 "unat extent - 1" "unat wanted"] by (simp_all add: granted_def)
  then have "clamp 1 (unat extent - 1) (unat extent - granted extent wanted) =
      unat extent - granted extent wanted"
    using assms by (intro clamp_id) linarith+
  then show ?thesis
    by (simp add: eq width_simps granted_def [symmetric] del: One_nat_def)
qed

lemma partition_after_resize:
  fixes extent wanted :: u16 and is_first :: bool
  assumes "2 \<le> unat extent" and "unat extent \<le> 10000"
  defines "parts \<equiv> partition_dimension_by_ratio extent
      (span_to_ratio_bps (target_to_first_span extent wanted is_first) extent)"
  shows "unat (if is_first then fst parts else snd parts) = granted extent wanted"
proof -
  let ?s = "unat (target_to_first_span extent wanted is_first)"
  have g: "1 \<le> granted extent wanted" "granted extent wanted \<le> unat extent - 1"
    using assms(1) clamp_bounds [of 1 "unat extent - 1" "unat wanted"]
    by (simp_all add: granted_def)
  have s: "1 \<le> ?s" "?s \<le> unat extent - 1"
    using g assms(1) by (auto simp: unat_target_to_first_span)
  have "unat (fst parts) = ?s"
    using ratio_roundtrip_nat [OF assms(1,2) s] assms(1)
    by (simp add: parts_def unat_partition_first unat_span_to_ratio)
  moreover have "unat (snd parts) = unat extent - unat (fst parts)"
    using assms(1) unfolding parts_def by (rule unat_partition_second)
  ultimately show ?thesis
    using assms(1) g by (auto simp: unat_target_to_first_span)
qed

lemma resize_path_count [simp]:
  "path_count (snd (resize_target_with_policy t p g rows cols ar ac)) q dir = path_count t q dir"
proof (induction t arbitrary: rows cols ar ac)
  case (NSplit d r a b)
  consider "p \<in> set (node_panes a)" | "p \<notin> set (node_panes a)" "p \<in> set (node_panes b)"
    | "p \<notin> set (node_panes (NSplit d r a b))" by auto
  then show ?case
    by cases (simp_all add: resize_cases Let_def NSplit.IH del: resize_target_with_policy.simps(2))
qed simp

lemmas target_size_whole_cols = target_size_untouched [where dir = Vertical, simplified]
lemmas target_size_whole_rows = target_size_untouched [where dir = Horizontal, simplified]

lemma resize_reaches_cols:
  assumes "p \<in> set (node_panes t)" and "path_count t p Vertical = 1"
    and "2 \<le> unat cols" and "unat cols \<le> 10000"
  shows "unat (snd (target_size (snd (resize_target_with_policy t p g rows cols ar True))
            p rows cols)) = granted cols (pg_cols g)"
  using assms
proof (induction t arbitrary: rows ar)
  case (NSplit d r a b)
  have one: "1 < cols" using NSplit.prems(3) by (simp only: one_less_u16_iff)
  note part = partition_after_resize [OF NSplit.prems(3,4), of _ "pg_cols g"]
  consider "p \<in> set (node_panes a)" | "p \<notin> set (node_panes a)" "p \<in> set (node_panes b)"
    using NSplit.prems(1) by auto
  then show ?case
  proof cases
    case 1
    show ?thesis
    proof (cases d)
      case Vertical
      then have "path_count a p Vertical = 0" using NSplit.prems(2) 1 by simp
      then show ?thesis using 1 Vertical one part [of True]
        by (simp add: resize_first Let_def resize_split_def split_partition_def case_prod_beta
            target_size_whole_cols del: resize_target_with_policy.simps(2))
    next
      case Horizontal
      then show ?thesis using 1 NSplit.IH(1) NSplit.prems
        by (simp add: resize_first Let_def split_partition_def case_prod_beta
            del: resize_target_with_policy.simps(2))
    qed
  next
    case 2
    show ?thesis
    proof (cases d)
      case Vertical
      then have "path_count b p Vertical = 0" using NSplit.prems(2) 2 by simp
      then show ?thesis using 2 Vertical one part [of False]
        by (simp add: resize_second Let_def resize_split_def split_partition_def case_prod_beta
            target_size_whole_cols del: resize_target_with_policy.simps(2))
    next
      case Horizontal
      then show ?thesis using 2 NSplit.IH(2) NSplit.prems
        by (simp add: resize_second Let_def split_partition_def case_prod_beta
            del: resize_target_with_policy.simps(2))
    qed
  qed
qed simp

lemma resize_reaches_rows:
  assumes "p \<in> set (node_panes t)" and "path_count t p Horizontal = 1"
    and "2 \<le> unat rows" and "unat rows \<le> 10000"
  shows "unat (fst (target_size (snd (resize_target_with_policy t p g rows cols True ac))
            p rows cols)) = granted rows (pg_rows g)"
  using assms
proof (induction t arbitrary: cols ac)
  case (NSplit d r a b)
  have one: "1 < rows" using NSplit.prems(3) by (simp only: one_less_u16_iff)
  note part = partition_after_resize [OF NSplit.prems(3,4), of _ "pg_rows g"]
  consider "p \<in> set (node_panes a)" | "p \<notin> set (node_panes a)" "p \<in> set (node_panes b)"
    using NSplit.prems(1) by auto
  then show ?case
  proof cases
    case 1
    show ?thesis
    proof (cases d)
      case Horizontal
      then have "path_count a p Horizontal = 0" using NSplit.prems(2) 1 by simp
      then show ?thesis using 1 Horizontal one part [of True]
        by (simp add: resize_first Let_def resize_split_def split_partition_def case_prod_beta
            target_size_whole_rows del: resize_target_with_policy.simps(2))
    next
      case Vertical
      then show ?thesis using 1 NSplit.IH(1) NSplit.prems
        by (simp add: resize_first Let_def split_partition_def case_prod_beta
            del: resize_target_with_policy.simps(2))
    qed
  next
    case 2
    show ?thesis
    proof (cases d)
      case Horizontal
      then have "path_count b p Horizontal = 0" using NSplit.prems(2) 2 by simp
      then show ?thesis using 2 Horizontal one part [of False]
        by (simp add: resize_second Let_def resize_split_def split_partition_def case_prod_beta
            target_size_whole_rows del: resize_target_with_policy.simps(2))
    next
      case Vertical
      then show ?thesis using 2 NSplit.IH(2) NSplit.prems
        by (simp add: resize_second Let_def split_partition_def case_prod_beta
            del: resize_target_with_policy.simps(2))
    qed
  qed
qed simp

section \<open>Properties of the layout\<close>

lemma pane_rects_nonempty:
  "0 < unat rows \<Longrightarrow> 0 < unat cols \<Longrightarrow> list_all (\<lambda>(p, (y, x, h, w)). 0 < h \<and> 0 < w) (pane_rects t y x rows cols)"
proof (induction t arbitrary: y x rows cols)
  case (NSplit d r a b)
  obtain r1 c1 r2 c2 where sp: "split_partition d r rows cols = ((r1, c1), (r2, c2))" by (metis surj_pair)
  then show ?case
    using split_partition_positive [OF sp] NSplit.IH NSplit.prems by (auto simp: Suc_le_eq split: split_direction.split)
qed simp

text \<open>
  C16. Tiling: when every split of a pane tree has two cells to share along its axis, the
  rectangles \<open>pane_sizes\<close> lays out cover every cell of the screen exactly once and no cell
  outside it, and on a screen that is not empty no pane is empty.
\<close>
theorem layout_tiles_screen:
  assumes "fits t rows cols"
  shows "owners cell (pane_rects t 0 0 rows cols) =
           (if in_rect cell (0, 0, unat rows, unat cols) then 1 else 0) \<and>
         map (\<lambda>(p, (y, x, h, w)). (p, (h, w))) (pane_rects t 0 0 rows cols) =
           map (\<lambda>(p, g). (p, (unat (pg_rows g), unat (pg_cols g)))) (pane_sizes t rows cols) \<and>
         (0 < unat rows \<and> 0 < unat cols \<longrightarrow>
           list_all (\<lambda>(p, (y, x, h, w)). 0 < h \<and> 0 < w) (pane_rects t 0 0 rows cols))"
  using owners_one [OF assms, of cell 0 0] owners_zero [OF assms, of cell 0 0]
  by (intro conjI impI pane_rects_sizes pane_rects_nonempty) simp_all

definition demo_tree :: native_node where
  "demo_tree = NSplit Vertical 5000 (NLeaf (Id 1)) (NSplit Horizontal 2500 (NLeaf (Id 2)) (NLeaf (Id 3)))"

lemma layout_tiles_screen_witness:
  "fits demo_tree 24 80 \<and> owners (3, 41) (pane_rects demo_tree 0 0 24 80) = 1 \<and>
   owners (24, 0) (pane_rects demo_tree 0 0 24 80) = 0"
proof -
  have fit: "fits demo_tree 24 80" by code_simp
  show ?thesis
    using fit layout_tiles_screen [OF fit, of "(3, 41)"] layout_tiles_screen [OF fit, of "(24, 0)"]
    by simp
qed

text \<open>
  C17. A division of a dimension: both parts are at least one cell, they add up to the whole
  when it has two cells or more, and the ratio computed for a first part of \<open>f\<close> cells gives
  back \<open>f\<close> cells as long as the dimension has at most 10000.
\<close>
theorem partition_sound:
  "1 \<le> unat (fst (partition_dimension_by_ratio tot r)) \<and>
   1 \<le> unat (snd (partition_dimension_by_ratio tot r)) \<and>
   (2 \<le> unat tot \<longrightarrow>
      unat (fst (partition_dimension_by_ratio tot r)) +
      unat (snd (partition_dimension_by_ratio tot r)) = unat tot) \<and>
   (2 \<le> unat tot \<and> unat tot \<le> 10000 \<and> 1 \<le> unat f \<and> unat f < unat tot \<longrightarrow>
      fst (partition_dimension_by_ratio tot (span_to_ratio_bps f tot)) = f)"
proof -
  have "fst (partition_dimension_by_ratio tot (span_to_ratio_bps f tot)) = f"
    if "2 \<le> unat tot" "unat tot \<le> 10000" "1 \<le> unat f" "unat f < unat tot"
    using that ratio_roundtrip_nat [of "unat tot" "unat f"]
    by (intro word_unat_eq_iff [THEN iffD2]) (simp add: unat_partition_first unat_span_to_ratio)
  then show ?thesis
    using partition_positive partition_covers by blast
qed

lemma partition_sound_witness:
  "fst (partition_dimension_by_ratio 80 (span_to_ratio_bps 27 80)) = 27 \<and>
   unat (fst (partition_dimension_by_ratio 81 5000)) + unat (snd (partition_dimension_by_ratio 81 5000)) = 81"
  using partition_sound [of 80 0 27] partition_sound [of 81 5000 1] by simp

text \<open>
  C18. A resize gives the target exactly what was asked for, clamped so that its sibling keeps
  a cell, in a dimension with one split of that direction above the target; a dimension with
  none stays whole, and the ids and the shape of the tree stay.
\<close>
theorem resize_grants_request:
  fixes g :: pane_geometry
  assumes "p \<in> set (node_panes t)" and "path_count t p Vertical \<le> 1"
    and "path_count t p Horizontal \<le> 1"
    and "2 \<le> unat rows" and "unat rows \<le> 10000" and "2 \<le> unat cols" and "unat cols \<le> 10000"
  defines "t' \<equiv> snd (resize_target t p g rows cols)"
  shows "unat (fst (target_size t' p rows cols)) =
           (if path_count t p Horizontal = 1 then granted rows (pg_rows g) else unat rows) \<and>
         unat (snd (target_size t' p rows cols)) =
           (if path_count t p Vertical = 1 then granted cols (pg_cols g) else unat cols) \<and>
         node_snapshot t' = node_snapshot t"
proof -
  have p': "p \<in> set (node_panes t')" and paths: "path_count t' p d = path_count t p d" for d
    using assms(1) by (simp_all add: t'_def resize_target_def)
  have "unat (fst (target_size t' p rows cols)) =
      (if path_count t p Horizontal = 1 then granted rows (pg_rows g) else unat rows)"
  proof (cases "path_count t p Horizontal = 1")
    case True
    then show ?thesis
      using resize_reaches_rows [OF assms(1) True assms(4,5)] by (simp add: t'_def resize_target_def)
  next
    case False
    then have "path_count t' p Horizontal = 0" using assms(3) paths by simp
    then show ?thesis using False target_size_whole_rows [OF p'] by simp
  qed
  moreover have "unat (snd (target_size t' p rows cols)) =
      (if path_count t p Vertical = 1 then granted cols (pg_cols g) else unat cols)"
  proof (cases "path_count t p Vertical = 1")
    case True
    then show ?thesis
      using resize_reaches_cols [OF assms(1) True assms(6,7)] by (simp add: t'_def resize_target_def)
  next
    case False
    then have "path_count t' p Vertical = 0" using assms(2) paths by simp
    then show ?thesis using False target_size_whole_cols [OF p'] by simp
  qed
  ultimately show ?thesis
    by (simp add: t'_def resize_target_def resize_keeps_snapshot)
qed

lemma resize_grants_request_witness:
  "target_size (snd (resize_target demo_tree (Id 3) \<lparr>pg_rows = 9, pg_cols = 30\<rparr> 24 80)) (Id 3) 24 80
    = (9, 30)"
proof -
  have g: "granted 24 9 = 9" "granted 80 30 = 30" by code_simp+
  have c: "path_count demo_tree (Id 3) Horizontal = 1" "path_count demo_tree (Id 3) Vertical = 1"
    by (simp_all add: demo_tree_def)
  show ?thesis
    using resize_grants_request [of "Id 3" demo_tree 24 80 "\<lparr>pg_rows = 9, pg_cols = 30\<rparr>"] g
    unfolding c by (simp add: demo_tree_def prod_eq_iff word_unat_eq_iff)
qed

text \<open>
  Resizing is idempotent: repeating a resize changes nothing and reports no change, and
  whenever a resize reports no change the tree is the one it was given.
\<close>
theorem resize_target_idempotent:
  "resize_target (snd (resize_target t p g rows cols)) p g rows cols =
     ((fst (resize_target t p g rows cols))\<lparr>lo_changed := False\<rparr>,
      snd (resize_target t p g rows cols)) \<and>
   (lo_changed (fst (resize_target t p g rows cols)) \<or> snd (resize_target t p g rows cols) = t)"
  using resize_idempotent resize_unchanged unfolding resize_target_def by blast

text \<open>
  Splitting a leaf puts the new pane right after the split one, or changes nothing when
  that pane is absent; removing a leaf takes away exactly that pane and fails only on a tree
  that holds no other; a tree built from a snapshot has that snapshot.
\<close>
theorem tree_edits:
  "node_panes (snd (split_leaf t p d new)) =
     (if fst (split_leaf t p d new) then insert_after p new (node_panes t) else node_panes t) \<and>
   (fst (split_leaf t p d new) \<longleftrightarrow> node_contains t p) \<and>
   (case remove_leaf t p of
      None \<Rightarrow> set (node_panes t) = {p}
    | Some t' \<Rightarrow> node_panes t' = filter (\<lambda>q. q \<noteq> p) (node_panes t)) \<and>
   node_snapshot (from_snapshot snap) = snap"
  by (auto simp: split_leaf_panes split_leaf_found remove_leaf_panes remove_leaf_None_iff
      insert_after_absent split: option.splits)

end
