(* ===== verification/Screen_Model.thy ===== *)
theory Screen_Model
  imports Mux_Model "HOL-Library.Finite_Map"
begin

text \<open>
  The data of \<open>screen_snapshot.rs\<close>, \<open>projection_source.rs\<close> and
  \<open>session_health_snapshot.rs\<close> of the crate \<open>terminal-projection\<close>: what a pane shows, and how
  healthy a session is. A \<open>BTreeMap\<close> is a finite map.
\<close>

section \<open>Styles and colours\<close>

datatype projection_source =
    NativeEmulator
  | NativeTranscript
  | TmuxCapturePane
  | TmuxRawOutputImport
  | ZellijViewportSubscribe
  | ZellijDumpSnapshot

datatype screen_buffer_kind = BufNormal | BufAlternate | BufUnknown

fun screen_buffer_kind_as_str :: "screen_buffer_kind \<Rightarrow> rstr" where
  "screen_buffer_kind_as_str BufNormal = lit ''normal''"
| "screen_buffer_kind_as_str BufAlternate = lit ''alternate''"
| "screen_buffer_kind_as_str BufUnknown = lit ''unknown''"

datatype screen_color =
    ColorNamed rstr
  | ColorIndexed u8
  | ColorRgb u8 u8 u8

datatype screen_underline_style = USingle | UDouble | UCurly | UDotted | UDashed
datatype screen_text_border_style = Framed | Encircled
datatype screen_text_baseline = Superscript | Subscript

record screen_text_style =
  st_foreground :: "screen_color option"
  st_background :: "screen_color option"
  st_underline_color :: "screen_color option"
  st_bold :: bool
  st_dim :: bool
  st_italic :: bool
  st_blink :: bool
  st_underline :: "screen_underline_style option"
  st_overline :: bool
  st_border :: "screen_text_border_style option"
  st_baseline :: "screen_text_baseline option"
  st_inverse :: bool
  st_hidden :: bool
  st_strikethrough :: bool
  st_hyperlink :: "rstr option"

definition style_default :: screen_text_style where
  "style_default =
     \<lparr>st_foreground = None, st_background = None, st_underline_color = None,
      st_bold = False, st_dim = False, st_italic = False, st_blink = False,
      st_underline = None, st_overline = False, st_border = None, st_baseline = None,
      st_inverse = False, st_hidden = False, st_strikethrough = False, st_hyperlink = None\<rparr>"

definition style_is_plain :: "screen_text_style \<Rightarrow> bool" where
  "style_is_plain s \<longleftrightarrow> s = style_default"

section \<open>Lines\<close>

datatype screen_line_media_kind = KittyGraphics | Iterm2Image | Sixel

record screen_line_media =
  md_kind :: screen_line_media_kind
  md_name :: "rstr option"
  md_byte_size :: "u32 option"
  md_width :: "rstr option"
  md_height :: "rstr option"
  md_preserve_aspect_ratio :: "bool option"
  md_inline :: bool
  md_mime_type :: "rstr option"
  md_data_base64 :: "rstr option"
  md_truncated :: bool

definition media_marker :: "screen_line_media_kind \<Rightarrow> screen_line_media" where
  "media_marker k =
     \<lparr>md_kind = k, md_name = None, md_byte_size = None, md_width = None, md_height = None,
      md_preserve_aspect_ratio = None, md_inline = False, md_mime_type = None,
      md_data_base64 = None, md_truncated = False\<rparr>"

datatype screen_line_side_effect_kind = ClipboardWrite | ClipboardRead | DesktopNotificationEffect
datatype screen_line_side_effect_disposition = Blocked
datatype screen_line_side_effect_target =
    ClipboardTarget | SelectionTarget | DesktopNotificationTarget | UnknownTarget

record screen_line_side_effect =
  se_kind :: screen_line_side_effect_kind
  se_disposition :: screen_line_side_effect_disposition
  se_target :: "screen_line_side_effect_target option"
  se_message :: "rstr option"

datatype screen_line_semantic_mark_kind =
    PromptStart | InputStart | OutputStart | CommandFinished

record screen_line_semantic_mark =
  sm_kind :: screen_line_semantic_mark_kind
  sm_col :: u16
  sm_exit_code :: "u8 option"

record screen_line_span =
  sp_text :: rstr
  sp_style :: screen_text_style

record screen_line =
  sl_text :: rstr
  sl_spans :: "screen_line_span list"
  sl_media :: "screen_line_media list"
  sl_side_effects :: "screen_line_side_effect list"
  sl_semantic_marks :: "screen_line_semantic_mark list"
  sl_wrapped :: bool

definition line_plain :: "rstr \<Rightarrow> screen_line" where
  "line_plain txt =
     \<lparr>sl_text = txt, sl_spans = [], sl_media = [], sl_side_effects = [],
      sl_semantic_marks = [], sl_wrapped = False\<rparr>"

definition has_rich_content :: "screen_line \<Rightarrow> bool" where
  "has_rich_content l \<longleftrightarrow>
     sl_wrapped l \<or> sl_media l \<noteq> [] \<or> sl_side_effects l \<noteq> [] \<or> sl_semantic_marks l \<noteq> [] \<or>
     list_ex (\<lambda>span. \<not> style_is_plain (sp_style span)) (sl_spans l)"

lemma line_plain_not_rich [simp]: "\<not> has_rich_content (line_plain txt)"
  by (simp add: has_rich_content_def line_plain_def)

section \<open>Surfaces and snapshots\<close>

datatype screen_cursor_shape =
    CursorBlock | CursorUnderline | CursorBeam | CursorHollowBlock | CursorHidden

record screen_cursor =
  sc_row :: u16
  sc_col :: u16
  sc_shape :: "screen_cursor_shape option"
  sc_blinking :: bool

definition cursor_at :: "u16 \<Rightarrow> u16 \<Rightarrow> screen_cursor" where
  "cursor_at row col = \<lparr>sc_row = row, sc_col = col, sc_shape = None, sc_blinking = False\<rparr>"

record screen_surface_palette =
  pl_foreground :: "screen_color option"
  pl_background :: "screen_color option"
  pl_cursor :: "screen_color option"

definition palette_default :: screen_surface_palette where
  "palette_default = \<lparr>pl_foreground = None, pl_background = None, pl_cursor = None\<rparr>"

definition palette_is_empty :: "screen_surface_palette \<Rightarrow> bool" where
  "palette_is_empty p \<longleftrightarrow> p = palette_default"

datatype screen_progress_state =
    ProgressInactive | ProgressNormal | ProgressError | ProgressIndeterminate | ProgressWarning

record screen_progress =
  pg_state :: screen_progress_state
  pg_value :: "u8 option"

definition progress_default :: screen_progress where
  "progress_default = \<lparr>pg_state = ProgressInactive, pg_value = None\<rparr>"

definition progress_is_inactive :: "screen_progress \<Rightarrow> bool" where
  "progress_is_inactive p \<longleftrightarrow> p = progress_default"

record screen_surface =
  sf_title :: "rstr option"
  sf_working_directory_uri :: "rstr option"
  sf_user_variables :: "(rstr, rstr) fmap"
  sf_cursor :: "screen_cursor option"
  sf_palette :: screen_surface_palette
  sf_bell_count :: u64
  sf_progress :: screen_progress
  sf_lines :: "screen_line list"

record screen_snapshot =
  sn_pane_id :: pane_id
  sn_sequence :: u64
  sn_rows :: u16
  sn_cols :: u16
  sn_source :: projection_source
  sn_buffer_kind :: screen_buffer_kind
  sn_surface :: screen_surface

definition surface_empty :: screen_surface where
  "surface_empty =
     \<lparr>sf_title = None, sf_working_directory_uri = None, sf_user_variables = fmempty,
      sf_cursor = None, sf_palette = palette_default, sf_bell_count = 0,
      sf_progress = progress_default, sf_lines = []\<rparr>"

section \<open>Session health\<close>

datatype session_health_phase = HealthReady | HealthDegraded | HealthStale | HealthTerminated

datatype session_health_reason =
    BackendDegraded
  | SubscriptionSourceClosed
  | SessionNotFound
  | BackendTransportLost
  | BackendInternalFault
  | HistoryPersistenceFault

record session_health_snapshot =
  sh_session_id :: session_id
  sh_phase :: session_health_phase
  sh_can_attach :: bool
  sh_invalidated :: bool
  sh_reason :: "session_health_reason option"
  sh_detail :: "message option"

definition health_ready :: "session_id \<Rightarrow> session_health_snapshot" where
  "health_ready sid =
     \<lparr>sh_session_id = sid, sh_phase = HealthReady, sh_can_attach = True, sh_invalidated = False,
      sh_reason = None, sh_detail = None\<rparr>"

definition health_degraded ::
    "session_id \<Rightarrow> session_health_reason \<Rightarrow> message \<Rightarrow> session_health_snapshot" where
  "health_degraded sid reason detail =
     \<lparr>sh_session_id = sid, sh_phase = HealthDegraded, sh_can_attach = True,
      sh_invalidated = False, sh_reason = Some reason, sh_detail = Some detail\<rparr>"

definition health_stale ::
    "session_id \<Rightarrow> session_health_reason \<Rightarrow> message \<Rightarrow> session_health_snapshot" where
  "health_stale sid reason detail =
     \<lparr>sh_session_id = sid, sh_phase = HealthStale, sh_can_attach = False,
      sh_invalidated = True, sh_reason = Some reason, sh_detail = Some detail\<rparr>"

definition health_terminated ::
    "session_id \<Rightarrow> session_health_reason \<Rightarrow> message \<Rightarrow> session_health_snapshot" where
  "health_terminated sid reason detail =
     \<lparr>sh_session_id = sid, sh_phase = HealthTerminated, sh_can_attach = False,
      sh_invalidated = True, sh_reason = Some reason, sh_detail = Some detail\<rparr>"

text \<open>Every constructor keeps the two flags opposite and the phase in step with them.\<close>

definition health_consistent :: "session_health_snapshot \<Rightarrow> bool" where
  "health_consistent h \<longleftrightarrow>
     sh_invalidated h = (\<not> sh_can_attach h) \<and>
     sh_can_attach h = (sh_phase h = HealthReady \<or> sh_phase h = HealthDegraded) \<and>
     (sh_reason h = None) = (sh_phase h = HealthReady) \<and>
     (sh_detail h = None) = (sh_phase h = HealthReady)"

lemma health_consistent_constructors [simp]:
  "health_consistent (health_ready sid)"
  "health_consistent (health_degraded sid reason detail)"
  "health_consistent (health_stale sid reason detail)"
  "health_consistent (health_terminated sid reason detail)"
  by (simp_all add: health_consistent_def health_ready_def health_degraded_def health_stale_def
      health_terminated_def)

end
