(* ===== verification/Screen_Delta.thy ===== *)
theory Screen_Delta
  imports Screen_Model
begin

text \<open>
  Deltas between two snapshots of a pane (\<open>screen_delta\<close> of \<open>terminal-projection\<close>) and the two
  consumers of the repository that replay them: \<open>applyScreenDelta\<close> of the TypeScript SDK and
  \<open>snapshot_from_delta\<close> of the history capture in \<open>terminal-runtime\<close>.
\<close>

section \<open>Building a delta\<close>

record screen_line_patch =
  lp_row :: u16
  lp_line :: screen_line

record screen_patch =
  pt_title_changed :: bool
  pt_title :: "rstr option"
  pt_working_directory_uri_changed :: bool
  pt_working_directory_uri :: "rstr option"
  pt_user_variables_changed :: bool
  pt_user_variables :: "(rstr, rstr) fmap option"
  pt_cursor_changed :: bool
  pt_cursor :: "screen_cursor option"
  pt_palette_changed :: bool
  pt_palette :: "screen_surface_palette option"
  pt_bell_count_changed :: bool
  pt_bell_count :: "u64 option"
  pt_progress_changed :: bool
  pt_progress :: "screen_progress option"
  pt_line_updates :: "screen_line_patch list"

definition patch_is_empty :: "screen_patch \<Rightarrow> bool" where
  "patch_is_empty p \<longleftrightarrow>
     \<not> pt_title_changed p \<and> \<not> pt_working_directory_uri_changed p \<and>
     \<not> pt_user_variables_changed p \<and> \<not> pt_cursor_changed p \<and> \<not> pt_palette_changed p \<and>
     \<not> pt_bell_count_changed p \<and> \<not> pt_progress_changed p \<and> pt_line_updates p = []"

record screen_delta =
  sd_pane_id :: pane_id
  sd_from_sequence :: u64
  sd_to_sequence :: u64
  sd_rows :: u16
  sd_cols :: u16
  sd_source :: projection_source
  sd_buffer_kind :: screen_buffer_kind
  sd_patch :: "screen_patch option"
  sd_full_replace :: "screen_surface option"

definition unchanged_from :: "screen_snapshot \<Rightarrow> screen_delta" where
  "unchanged_from s =
     \<lparr>sd_pane_id = sn_pane_id s, sd_from_sequence = sn_sequence s,
      sd_to_sequence = sn_sequence s, sd_rows = sn_rows s, sd_cols = sn_cols s,
      sd_source = sn_source s, sd_buffer_kind = sn_buffer_kind s,
      sd_patch = None, sd_full_replace = None\<rparr>"

definition full_replace :: "u64 \<Rightarrow> screen_snapshot \<Rightarrow> screen_delta" where
  "full_replace from_sequence s =
     \<lparr>sd_pane_id = sn_pane_id s, sd_from_sequence = from_sequence,
      sd_to_sequence = sn_sequence s, sd_rows = sn_rows s, sd_cols = sn_cols s,
      sd_source = sn_source s, sd_buffer_kind = sn_buffer_kind s,
      sd_patch = None, sd_full_replace = Some (sn_surface s)\<rparr>"

definition requires_full_replace :: "screen_snapshot \<Rightarrow> screen_snapshot \<Rightarrow> bool" where
  "requires_full_replace previous current \<longleftrightarrow>
     sn_pane_id previous \<noteq> sn_pane_id current \<or>
     sn_rows previous \<noteq> sn_rows current \<or>
     sn_cols previous \<noteq> sn_cols current \<or>
     sn_source previous \<noteq> sn_source current \<or>
     sn_buffer_kind previous \<noteq> sn_buffer_kind current"

definition empty_screen_line :: screen_line where
  "empty_screen_line = line_plain []"

text \<open>The loop over \<open>0..total_rows\<close>; the row index is cast with \<open>as u16\<close>.\<close>

definition line_update_at ::
    "screen_line list \<Rightarrow> screen_line list \<Rightarrow> nat \<Rightarrow> screen_line_patch list" where
  "line_update_at prev cur row =
     (if vec_get prev row \<noteq> vec_get cur row
      then [\<lparr>lp_row = word_of_nat row,
             lp_line = (case vec_get cur row of Some l \<Rightarrow> l | None \<Rightarrow> empty_screen_line)\<rparr>]
      else [])"

definition line_updates :: "screen_snapshot \<Rightarrow> screen_snapshot \<Rightarrow> screen_line_patch list" where
  "line_updates previous current =
     (let prev = sf_lines (sn_surface previous); cur = sf_lines (sn_surface current)
      in concat (map (line_update_at prev cur) [0..<max (length prev) (length cur)]))"

definition then_some :: "bool \<Rightarrow> 'a \<Rightarrow> 'a option" where
  "then_some b x = (if b then Some x else None)"

definition patch_between :: "screen_snapshot \<Rightarrow> screen_snapshot \<Rightarrow> screen_patch" where
  "patch_between previous current =
     (let p = sn_surface previous; c = sn_surface current in
      \<lparr>pt_title_changed = (sf_title p \<noteq> sf_title c),
       pt_title = sf_title c,
       pt_working_directory_uri_changed =
         (sf_working_directory_uri p \<noteq> sf_working_directory_uri c),
       pt_working_directory_uri = sf_working_directory_uri c,
       pt_user_variables_changed = (sf_user_variables p \<noteq> sf_user_variables c),
       pt_user_variables = then_some (sf_user_variables c \<noteq> fmempty) (sf_user_variables c),
       pt_cursor_changed = (sf_cursor p \<noteq> sf_cursor c),
       pt_cursor = sf_cursor c,
       pt_palette_changed = (sf_palette p \<noteq> sf_palette c),
       pt_palette = then_some (\<not> palette_is_empty (sf_palette c)) (sf_palette c),
       pt_bell_count_changed = (sf_bell_count p \<noteq> sf_bell_count c),
       pt_bell_count = then_some (0 < sf_bell_count c) (sf_bell_count c),
       pt_progress_changed = (sf_progress p \<noteq> sf_progress c),
       pt_progress = then_some (\<not> progress_is_inactive (sf_progress c)) (sf_progress c),
       pt_line_updates = line_updates previous current\<rparr>)"

definition between :: "screen_snapshot \<Rightarrow> screen_snapshot \<Rightarrow> screen_delta" where
  "between previous current =
     (if requires_full_replace previous current
      then full_replace (sn_sequence previous) current
      else let patch = patch_between previous current in
        \<lparr>sd_pane_id = sn_pane_id current, sd_from_sequence = sn_sequence previous,
         sd_to_sequence = sn_sequence current, sd_rows = sn_rows current,
         sd_cols = sn_cols current, sd_source = sn_source current,
         sd_buffer_kind = sn_buffer_kind current,
         sd_patch = then_some (\<not> patch_is_empty patch) patch, sd_full_replace = None\<rparr>)"

lemma delta_sequences [simp]:
  "sd_from_sequence (unchanged_from s) = sn_sequence s"
  "sd_to_sequence (unchanged_from s) = sn_sequence s"
  "sd_from_sequence (full_replace n s) = n"
  "sd_to_sequence (full_replace n s) = sn_sequence s"
  "sd_from_sequence (between p s) = sn_sequence p"
  "sd_to_sequence (between p s) = sn_sequence s"
  by (simp_all add: unchanged_from_def full_replace_def between_def Let_def)

lemma delta_pane [simp]:
  "sd_pane_id (unchanged_from s) = sn_pane_id s"
  "sd_pane_id (full_replace n s) = sn_pane_id s"
  "sd_pane_id (between p s) = sn_pane_id s"
  by (simp_all add: unchanged_from_def full_replace_def between_def Let_def)

section \<open>Replaying lines\<close>

text \<open>
  Both consumers write a line at its row after growing the vector with empty lines; both loop
  over the updates in order.
\<close>

definition write_line :: "screen_line_patch \<Rightarrow> screen_line list \<Rightarrow> screen_line list" where
  "write_line u ls =
     (let row = unat (lp_row u);
          grown = (if length ls \<le> row
                   then ls @ replicate (row + 1 - length ls) empty_screen_line else ls)
      in grown[row := lp_line u])"

definition replay_lines :: "screen_line_patch list \<Rightarrow> screen_line list \<Rightarrow> screen_line list" where
  "replay_lines ups ls = fold write_line ups ls"

lemma replay_lines_append [simp]:
  "replay_lines (xs @ ys) ls = replay_lines ys (replay_lines xs ls)"
  by (simp add: replay_lines_def)

lemma replay_lines_simps [simp]:
  "replay_lines [] ls = ls"
  "replay_lines [u] ls = write_line u ls"
  by (simp_all add: replay_lines_def)

definition padded :: "nat \<Rightarrow> screen_line list \<Rightarrow> screen_line list" where
  "padded n ls = ls @ replicate (n - length ls) empty_screen_line"

lemma length_padded [simp]: "length (padded n ls) = max n (length ls)"
  by (simp add: padded_def)

text \<open>
  The consumer's lines may already carry \<open>m\<close> empty lines that the producer's copy does not
  have; the updates write through them.
\<close>

lemma replay_prefix:
  fixes prev cur :: "screen_line list" and m :: nat
  defines "base \<equiv> prev @ replicate m empty_screen_line"
  assumes "k \<le> max (length prev) (length cur)" and "max (length prev) (length cur) \<le> 65536"
  shows "replay_lines (concat (map (line_update_at prev cur) [0..<k])) base =
         take k (padded (length base) cur) @ drop k base"
  using assms(2)
proof (induction k)
  case 0
  then show ?case by simp
next
  case (Suc k)
  let ?P = "padded (length base) cur"
  have k: "k < max (length prev) (length cur)" using Suc.prems by simp
  then have kP: "k < length ?P" by (auto simp: base_def max_def split: if_splits)
  have "k < 65536" using k assms(3) by linarith
  then have row: "unat (word_of_nat k :: u16) = k"
    by (simp add: unat_of_nat)
  have IH: "replay_lines (concat (map (line_update_at prev cur) [0..<k])) base =
      take k ?P @ drop k base"
    using Suc by simp
  have split_P: "take (Suc k) ?P = take k ?P @ [?P ! k]"
    by (rule take_Suc_conv_app_nth [OF kP])
  have P_at: "?P ! k = (case vec_get cur k of Some l \<Rightarrow> l | None \<Rightarrow> empty_screen_line)"
    using kP by (auto simp: padded_def vec_get_def nth_append)
  show ?case
  proof (cases "vec_get prev k = vec_get cur k")
    case True
    with k have kb: "k < length base" and "?P ! k = base ! k"
      by (auto simp: vec_get_def base_def padded_def nth_append split: if_splits)
    then have "[?P ! k] @ drop (Suc k) base = drop k base"
      by (simp add: Cons_nth_drop_Suc)
    moreover have "line_update_at prev cur k = []"
      using True by (simp add: line_update_at_def)
    ultimately show ?thesis by (simp add: IH split_P)
  next
    case False
    have "write_line \<lparr>lp_row = word_of_nat k, lp_line = ?P ! k\<rparr> (take k ?P @ drop k base) =
        take k ?P @ [?P ! k] @ drop (Suc k) base"
    proof (cases "k < length base")
      case True
      then have "take k ?P @ drop k base = take k ?P @ base ! k # drop (Suc k) base"
        by (simp add: Cons_nth_drop_Suc)
      then show ?thesis using kP True
        by (simp add: write_line_def row list_update_append Let_def)
    next
      case False
      then show ?thesis using kP
        by (simp add: write_line_def row list_update_append Let_def)
    qed
    moreover have "line_update_at prev cur k = [\<lparr>lp_row = word_of_nat k, lp_line = ?P ! k\<rparr>]"
      using False by (simp add: line_update_at_def P_at)
    ultimately show ?thesis by (simp add: IH split_P)
  qed
qed

text \<open>
  Replaying the updates of a delta rebuilds the current lines. Lines cannot be taken away by a
  patch: a screen that has become shorter keeps its length, with empty lines at the end.
\<close>

lemma replay_line_updates:
  assumes "length (sf_lines (sn_surface p)) \<le> 65536"
    and "length (sf_lines (sn_surface c)) \<le> 65536"
  shows "replay_lines (line_updates p c) (padded n (sf_lines (sn_surface p))) =
         padded (max n (length (sf_lines (sn_surface p)))) (sf_lines (sn_surface c))"
proof -
  let ?prev = "sf_lines (sn_surface p)" and ?cur = "sf_lines (sn_surface c)"
  let ?n = "max (length ?prev) (length ?cur)" and ?base = "padded n (sf_lines (sn_surface p))"
  have "replay_lines (line_updates p c) ?base =
      take ?n (padded (length ?base) ?cur) @ drop ?n ?base"
    using replay_prefix [of ?n ?prev ?cur "n - length ?prev"] assms
    by (simp add: line_updates_def Let_def padded_def)
  also have "\<dots> = padded (length ?base) ?cur"
    by (auto simp: padded_def max_def replicate_add [symmetric])
  finally show ?thesis by simp
qed

lemma padded_own_length [simp]: "padded (length ls) ls = ls"
  by (simp add: padded_def)

lemma line_update_at_Nil_iff:
  "line_update_at prev cur k = [] \<longleftrightarrow> vec_get prev k = vec_get cur k"
  by (simp add: line_update_at_def)

lemma line_updates_Nil_iff:
  "line_updates p c = [] \<longleftrightarrow> sf_lines (sn_surface p) = sf_lines (sn_surface c)"
proof -
  let ?prev = "sf_lines (sn_surface p)" and ?cur = "sf_lines (sn_surface c)"
  have "line_updates p c = [] \<longleftrightarrow>
      (\<forall>k < max (length ?prev) (length ?cur). vec_get ?prev k = vec_get ?cur k)"
    by (auto simp: line_updates_def line_update_at_Nil_iff Let_def)
  also have "\<dots> \<longleftrightarrow> ?prev = ?cur"
  proof
    assume eq: "\<forall>k < max (length ?prev) (length ?cur). vec_get ?prev k = vec_get ?cur k"
    have "length ?prev = length ?cur"
    proof (rule ccontr)
      assume "length ?prev \<noteq> length ?cur"
      then have "min (length ?prev) (length ?cur) < max (length ?prev) (length ?cur)"
        by (simp add: min_def max_def)
      with eq have "vec_get ?prev (min (length ?prev) (length ?cur)) =
          vec_get ?cur (min (length ?prev) (length ?cur))" by blast
      with \<open>length ?prev \<noteq> length ?cur\<close> show False
        by (auto simp: vec_get_def min_def split: if_splits)
    qed
    with eq show "?prev = ?cur"
      by (intro nth_equalityI) (auto simp: vec_get_def)
  qed simp
  finally show ?thesis .
qed

section \<open>The SDK consumer\<close>

text \<open>
  \<open>applyScreenDelta\<close>: a JSON field that is absent reads as the default the serialiser skipped
  (\<open>skip_serializing_if\<close>), so a deleted field is the default value. JavaScript tests
  \<open>working_directory_uri\<close> and \<open>bell_count\<close> for truth: an empty string and a zero count
  as absent. A thrown \<open>WorkspaceError\<close> is a value.
\<close>

datatype workspace_error =
    NoBaseSnapshot pane_id
  | PaneMismatch pane_id pane_id

definition sdk_patch_surface :: "screen_patch \<Rightarrow> screen_surface \<Rightarrow> screen_surface" where
  "sdk_patch_surface pt s =
     (let s1 = (if pt_title_changed pt then s\<lparr>sf_title := pt_title pt\<rparr> else s);
          s2 = (if pt_working_directory_uri_changed pt
                then s1\<lparr>sf_working_directory_uri :=
                       (case pt_working_directory_uri pt of
                          Some uri \<Rightarrow> if uri \<noteq> [] then Some uri else None | None \<Rightarrow> None)\<rparr>
                else s1);
          s3 = (if pt_user_variables_changed pt
                then s2\<lparr>sf_user_variables :=
                       (case pt_user_variables pt of
                          Some vars \<Rightarrow> if vars \<noteq> fmempty then vars else fmempty
                        | None \<Rightarrow> fmempty)\<rparr>
                else s2);
          s4 = (if pt_cursor_changed pt then s3\<lparr>sf_cursor := pt_cursor pt\<rparr> else s3);
          s5 = (if pt_palette_changed pt
                then s4\<lparr>sf_palette :=
                       (case pt_palette pt of Some p \<Rightarrow> p | None \<Rightarrow> palette_default)\<rparr>
                else s4);
          s6 = (if pt_bell_count_changed pt
                then s5\<lparr>sf_bell_count :=
                       (case pt_bell_count pt of Some n \<Rightarrow> if n \<noteq> 0 then n else 0 | None \<Rightarrow> 0)\<rparr>
                else s5);
          s7 = (if pt_progress_changed pt
                then s6\<lparr>sf_progress :=
                       (case pt_progress pt of Some p \<Rightarrow> p | None \<Rightarrow> progress_default)\<rparr>
                else s6)
      in s7\<lparr>sf_lines := replay_lines (pt_line_updates pt) (sf_lines s7)\<rparr>)"

definition apply_screen_delta ::
    "screen_snapshot option \<Rightarrow> screen_delta \<Rightarrow> workspace_error + screen_snapshot" where
  "apply_screen_delta snapshot delta =
     (case sd_full_replace delta of
        Some surface \<Rightarrow>
          Inr \<lparr>sn_pane_id = sd_pane_id delta, sn_sequence = sd_to_sequence delta,
               sn_rows = sd_rows delta, sn_cols = sd_cols delta, sn_source = sd_source delta,
               sn_buffer_kind = sd_buffer_kind delta, sn_surface = surface\<rparr>
      | None \<Rightarrow>
          (case snapshot of
             None \<Rightarrow> Inl (NoBaseSnapshot (sd_pane_id delta))
           | Some base \<Rightarrow>
               if sn_pane_id base \<noteq> sd_pane_id delta
               then Inl (PaneMismatch (sn_pane_id base) (sd_pane_id delta))
               else
                 let nxt = base\<lparr>sn_sequence := sd_to_sequence delta, sn_rows := sd_rows delta,
                       sn_cols := sd_cols delta, sn_source := sd_source delta,
                       sn_buffer_kind := sd_buffer_kind delta\<rparr>
                 in case sd_patch delta of
                      None \<Rightarrow> Inr nxt
                    | Some pt \<Rightarrow>
                        Inr (nxt\<lparr>sn_surface := sdk_patch_surface pt (sn_surface nxt)\<rparr>)))"

text \<open>
  A client shows a snapshot when its copy is that snapshot with empty lines at the end: a patch
  never shortens the list of lines.
\<close>

definition pad_snapshot :: "nat \<Rightarrow> screen_snapshot \<Rightarrow> screen_snapshot" where
  "pad_snapshot n s =
     s\<lparr>sn_surface := (sn_surface s)\<lparr>sf_lines := padded n (sf_lines (sn_surface s))\<rparr>\<rparr>"

definition client_shows :: "screen_snapshot \<Rightarrow> screen_snapshot \<Rightarrow> bool" where
  "client_shows v s \<longleftrightarrow> v = pad_snapshot (length (sf_lines (sn_surface v))) s"

text \<open>The client's copy after replaying the delta from \<open>p\<close> to \<open>c\<close> on a copy of \<open>n\<close> lines.\<close>

definition client_view :: "nat \<Rightarrow> screen_snapshot \<Rightarrow> screen_snapshot \<Rightarrow> screen_snapshot" where
  "client_view n p c = (if requires_full_replace p c then c else pad_snapshot n c)"

lemma pad_snapshot_fields [simp]:
  "sn_pane_id (pad_snapshot n s) = sn_pane_id s"
  "sn_sequence (pad_snapshot n s) = sn_sequence s"
  "sn_rows (pad_snapshot n s) = sn_rows s"
  "sn_cols (pad_snapshot n s) = sn_cols s"
  "sn_source (pad_snapshot n s) = sn_source s"
  "sn_buffer_kind (pad_snapshot n s) = sn_buffer_kind s"
  "sf_lines (sn_surface (pad_snapshot n s)) = padded n (sf_lines (sn_surface s))"
  by (simp_all add: pad_snapshot_def)

lemma client_shows_pad: "client_shows (pad_snapshot n s) s"
  by (simp add: client_shows_def pad_snapshot_def padded_def max_def)

lemma client_shows_refl [simp]: "client_shows s s"
  by (simp add: client_shows_def pad_snapshot_def)

lemma client_view_shows: "client_shows (client_view n p c) c"
  by (simp add: client_view_def client_shows_pad)

lemma client_shows_length:
  "client_shows v s \<Longrightarrow> length (sf_lines (sn_surface s)) \<le> length (sf_lines (sn_surface v))"
  by (metis client_shows_def length_padded max.cobounded2 pad_snapshot_fields(7))

text \<open>What a snapshot must satisfy to travel: row numbers fit, and no empty directory URI.\<close>

definition deliverable :: "screen_snapshot \<Rightarrow> bool" where
  "deliverable s \<longleftrightarrow>
     length (sf_lines (sn_surface s)) \<le> 65536 \<and>
     sf_working_directory_uri (sn_surface s) \<noteq> Some []"

lemma sdk_patch_surface_between:
  assumes "deliverable p" and "deliverable c" and "length (sf_lines (sn_surface p)) \<le> n"
  shows "sdk_patch_surface (patch_between p c) (sn_surface (pad_snapshot n p)) =
    sn_surface (pad_snapshot n c)"
proof -
  have lines: "replay_lines (line_updates p c) (padded n (sf_lines (sn_surface p))) =
      padded n (sf_lines (sn_surface c))"
    using assms by (simp add: replay_line_updates deliverable_def max_absorb1)
  have uri: "(case sf_working_directory_uri (sn_surface c) of
      Some uri \<Rightarrow> if uri \<noteq> [] then Some uri else None | None \<Rightarrow> None) =
      sf_working_directory_uri (sn_surface c)"
    using assms(2) by (auto simp: deliverable_def split: option.split)
  show ?thesis
    unfolding sdk_patch_surface_def patch_between_def pad_snapshot_def Let_def
    by (intro screen_surface.equality)
      (simp_all add: lines uri then_some_def palette_is_empty_def progress_is_inactive_def
        word_neq_0_conv [symmetric])
qed

lemma patch_is_empty_between:
  "patch_is_empty (patch_between p c) \<longleftrightarrow> sn_surface p = sn_surface c"
proof -
  have "sn_surface p = sn_surface c \<longleftrightarrow>
      sf_title (sn_surface p) = sf_title (sn_surface c) \<and>
      sf_working_directory_uri (sn_surface p) = sf_working_directory_uri (sn_surface c) \<and>
      sf_user_variables (sn_surface p) = sf_user_variables (sn_surface c) \<and>
      sf_cursor (sn_surface p) = sf_cursor (sn_surface c) \<and>
      sf_palette (sn_surface p) = sf_palette (sn_surface c) \<and>
      sf_bell_count (sn_surface p) = sf_bell_count (sn_surface c) \<and>
      sf_progress (sn_surface p) = sf_progress (sn_surface c) \<and>
      sf_lines (sn_surface p) = sf_lines (sn_surface c)"
    by (cases "sn_surface p"; cases "sn_surface c") simp
  then show ?thesis
    by (simp add: patch_is_empty_def patch_between_def Let_def line_updates_Nil_iff)
qed

lemma apply_full_replace [simp]: "apply_screen_delta base (full_replace n s) = Inr s"
  by (simp add: apply_screen_delta_def full_replace_def)

lemma apply_unchanged [simp]: "apply_screen_delta (Some s) (unchanged_from s) = Inr s"
  by (simp add: apply_screen_delta_def unchanged_from_def)

lemma apply_unchanged_shows:
  assumes "client_shows v s"
  shows "apply_screen_delta (Some v) (unchanged_from s) = Inr v"
proof -
  let ?n = "length (sf_lines (sn_surface v))"
  have v: "v = pad_snapshot ?n s" using assms by (simp only: client_shows_def)
  have "apply_screen_delta (Some (pad_snapshot ?n s)) (unchanged_from s) = Inr (pad_snapshot ?n s)"
    by (simp add: apply_screen_delta_def unchanged_from_def pad_snapshot_def)
  then show ?thesis by (simp only: v [symmetric])
qed

lemma apply_between:
  assumes "deliverable p" and "deliverable c" and "client_shows v p"
  shows "apply_screen_delta (Some v) (between p c) =
         Inr (client_view (length (sf_lines (sn_surface v))) p c)"
proof -
  let ?n = "length (sf_lines (sn_surface v))"
  have v: "v = pad_snapshot ?n p" using assms(3) by (simp only: client_shows_def)
  have n: "length (sf_lines (sn_surface p)) \<le> ?n" using assms(3) by (rule client_shows_length)
  show ?thesis
  proof (cases "requires_full_replace p c")
    case True
    then show ?thesis by (simp add: between_def client_view_def)
  next
    case False
    then have same: "sn_pane_id p = sn_pane_id c" "sn_rows p = sn_rows c" "sn_cols p = sn_cols c"
        "sn_source p = sn_source c" "sn_buffer_kind p = sn_buffer_kind c"
      by (simp_all add: requires_full_replace_def)
    let ?nxt = "(pad_snapshot ?n p)\<lparr>sn_sequence := sn_sequence c, sn_rows := sn_rows c,
        sn_cols := sn_cols c, sn_source := sn_source c, sn_buffer_kind := sn_buffer_kind c\<rparr>"
    show ?thesis
    proof (cases "patch_is_empty (patch_between p c)")
      case True
      then have eq: "sn_surface p = sn_surface c" by (simp add: patch_is_empty_between)
      have "apply_screen_delta (Some v) (between p c) = Inr ?nxt"
        using False True same
        by (subst v) (simp add: between_def apply_screen_delta_def then_some_def)
      also have "?nxt = pad_snapshot ?n c"
        using same eq by (simp add: pad_snapshot_def)
      finally show ?thesis using False by (simp add: client_view_def)
    next
      case nonempty: False
      have "apply_screen_delta (Some v) (between p c) =
          Inr (?nxt\<lparr>sn_surface := sdk_patch_surface (patch_between p c)
                      (sn_surface (pad_snapshot ?n p))\<rparr>)"
        using False nonempty same
        by (subst v) (simp add: between_def apply_screen_delta_def then_some_def Let_def)
      also have "?nxt\<lparr>sn_surface := sdk_patch_surface (patch_between p c)
                      (sn_surface (pad_snapshot ?n p))\<rparr> = pad_snapshot ?n c"
        using same by (simp only: sdk_patch_surface_between [OF assms(1,2) n])
          (simp add: pad_snapshot_def)
      finally show ?thesis using False by (simp add: client_view_def)
    qed
  qed
qed

section \<open>The history-capture consumer\<close>

text \<open>\<open>Vec::resize\<close> and \<open>Vec::truncate\<close>.\<close>

definition resize_lines :: "nat \<Rightarrow> screen_line list \<Rightarrow> screen_line list" where
  "resize_lines n ls = take n ls @ replicate (n - length ls) empty_screen_line"

text \<open>
  \<open>snapshot_from_delta\<close> returns the new value of \<open>*current\<close> and the snapshot to record. Of the
  fields of a patch it reads the title, the cursor and the lines.
\<close>

definition snapshot_from_delta ::
    "screen_snapshot option \<Rightarrow> screen_delta \<Rightarrow> screen_snapshot option \<times> screen_snapshot option" where
  "snapshot_from_delta current delta =
     (case sd_full_replace delta of
        Some surface \<Rightarrow>
          let snapshot = \<lparr>sn_pane_id = sd_pane_id delta, sn_sequence = sd_to_sequence delta,
                sn_rows = sd_rows delta, sn_cols = sd_cols delta, sn_source = sd_source delta,
                sn_buffer_kind = sd_buffer_kind delta, sn_surface = surface\<rparr>
          in (Some snapshot, Some snapshot)
      | None \<Rightarrow>
          (case sd_patch delta of
             None \<Rightarrow> (current, None)
           | Some patch \<Rightarrow>
               let surface0 = (case current of Some s \<Rightarrow> sn_surface s | None \<Rightarrow> surface_empty);
                   surface1 = (if pt_title_changed patch
                               then surface0\<lparr>sf_title := pt_title patch\<rparr> else surface0);
                   surface2 = (if pt_cursor_changed patch
                               then surface1\<lparr>sf_cursor := pt_cursor patch\<rparr> else surface1);
                   target_rows = unat (sd_rows delta);
                   lines0 = sf_lines surface2;
                   lines1 = (if length lines0 < target_rows
                             then resize_lines target_rows lines0 else lines0);
                   lines2 = replay_lines (pt_line_updates patch) lines1;
                   lines3 = (if target_rows < length lines2 then take target_rows lines2
                             else lines2);
                   snapshot = \<lparr>sn_pane_id = sd_pane_id delta,
                     sn_sequence = sd_to_sequence delta, sn_rows = sd_rows delta,
                     sn_cols = sd_cols delta, sn_source = sd_source delta,
                     sn_buffer_kind = sd_buffer_kind delta,
                     sn_surface = surface2\<lparr>sf_lines := lines3\<rparr>\<rparr>
               in (Some snapshot, Some snapshot)))"

lemma capture_full_replace:
  "snapshot_from_delta current (full_replace n s) = (Some s, Some s)"
  by (simp add: snapshot_from_delta_def full_replace_def Let_def)

section \<open>Properties of deltas\<close>

text \<open>
  C14. Deltas round trip: a client that shows \<open>p\<close> and applies the delta from \<open>p\<close> to \<open>c\<close> shows
  \<open>c\<close>, with the sequence number of \<open>c\<close>; a full replacement shows its snapshot on any client.
\<close>
theorem delta_roundtrip:
  assumes "deliverable p" and "deliverable c" and "client_shows v p"
  shows "\<exists>v'. apply_screen_delta (Some v) (between p c) = Inr v' \<and> client_shows v' c \<and>
              sn_sequence v' = sn_sequence c \<and>
              apply_screen_delta base (full_replace n c) = Inr c"
proof -
  let ?v = "client_view (length (sf_lines (sn_surface v))) p c"
  have "sn_sequence ?v = sn_sequence c" by (simp add: client_view_def)
  then show ?thesis
    using apply_between [OF assms] client_view_shows [of "length (sf_lines (sn_surface v))" p c]
    by simp
qed

definition demo_snapshot :: "u64 \<Rightarrow> rstr list \<Rightarrow> screen_snapshot" where
  "demo_snapshot n ls =
     \<lparr>sn_pane_id = Id 1, sn_sequence = n, sn_rows = 24, sn_cols = 80, sn_source = NativeEmulator,
      sn_buffer_kind = BufNormal, sn_surface = surface_empty\<lparr>sf_lines := map line_plain ls\<rparr>\<rparr>"

lemma demo_snapshot_sequence [simp]: "sn_sequence (demo_snapshot n ls) = n"
  by (simp add: demo_snapshot_def)

lemma deliverable_demo_snapshot:
  "length ls \<le> 65536 \<Longrightarrow> deliverable (demo_snapshot n ls)"
  by (simp add: deliverable_def demo_snapshot_def surface_empty_def)

lemma delta_roundtrip_witness:
  "\<exists>v'. apply_screen_delta (Some (demo_snapshot 1 [[97], [98]]))
          (between (demo_snapshot 1 [[97], [98]]) (demo_snapshot 2 [[97], [99], [100]])) = Inr v' \<and>
        client_shows v' (demo_snapshot 2 [[97], [99], [100]]) \<and> sn_sequence v' = 2"
proof -
  have "deliverable (demo_snapshot 1 [[97], [98]])" "deliverable (demo_snapshot 2 [[97], [99], [100]])"
    by (simp_all add: deliverable_demo_snapshot)
  from delta_roundtrip [OF this client_shows_refl, of None 0] show ?thesis
    by (auto simp: demo_snapshot_sequence)
qed

text \<open>
  History capture: the value the capture keeps and the value it records are the same; a
  full replacement records exactly the snapshot; a patch never leaves more lines than the
  delta's rows, and never touches the working directory, the user variables, the palette, the
  bell count or the progress of the surface it started from, even when the patch carries them.
\<close>
theorem capture_replay:
  "snapshot_from_delta current (full_replace n s) = (Some s, Some s) \<and>
   (case snapshot_from_delta current d of
      (cur', None) \<Rightarrow> cur' = current
    | (cur', Some rec) \<Rightarrow>
        cur' = Some rec \<and>
        (sd_full_replace d = None \<longrightarrow>
           length (sf_lines (sn_surface rec)) \<le> unat (sd_rows d) \<and>
           (let base = (case current of Some s \<Rightarrow> sn_surface s | None \<Rightarrow> surface_empty) in
              sf_working_directory_uri (sn_surface rec) = sf_working_directory_uri base \<and>
              sf_user_variables (sn_surface rec) = sf_user_variables base \<and>
              sf_palette (sn_surface rec) = sf_palette base \<and>
              sf_bell_count (sn_surface rec) = sf_bell_count base \<and>
              sf_progress (sn_surface rec) = sf_progress base)))"
proof (intro conjI)
  show "snapshot_from_delta current (full_replace n s) = (Some s, Some s)"
    by (rule capture_full_replace)
qed (auto simp: snapshot_from_delta_def Let_def split: option.splits)

lemma capture_replay_witness:
  "snapshot_from_delta None (full_replace 3 (demo_snapshot 4 [[97]])) =
     (Some (demo_snapshot 4 [[97]]), Some (demo_snapshot 4 [[97]]))"
  using capture_replay [of None 3 "demo_snapshot 4 [[97]]"] by blast

end
