(* ===== verification/Rust_Text.thy ===== *)
theory Rust_Text
  imports Domain
begin

text \<open>
  The operations of \<open>str\<close> and \<open>char\<close> that the modelled code calls: UTF-8 encoding,
  white space, trimming. A \<open>char\<close> is a Unicode scalar value: below 0x110000 and no surrogate.
\<close>

section \<open>Scalars and UTF-8\<close>

definition is_scalar :: "nat \<Rightarrow> bool" where
  "is_scalar c \<longleftrightarrow> c < 55296 \<or> (57344 \<le> c \<and> c < 1114112)"

definition utf8_char :: "nat \<Rightarrow> u8 list" where
  "utf8_char c =
     (if c < 128 then [word_of_nat c]
      else if c < 2048 then
        [word_of_nat (192 + c div 64), word_of_nat (128 + c mod 64)]
      else if c < 65536 then
        [word_of_nat (224 + c div 4096), word_of_nat (128 + c div 64 mod 64),
         word_of_nat (128 + c mod 64)]
      else
        [word_of_nat (240 + c div 262144), word_of_nat (128 + c div 4096 mod 64),
         word_of_nat (128 + c div 64 mod 64), word_of_nat (128 + c mod 64)])"

definition utf8_encode :: "rstr \<Rightarrow> u8 list" where
  "utf8_encode s = concat (map utf8_char s)"

lemma utf8_encode_simps [simp]:
  "utf8_encode [] = []"
  "utf8_encode (c # s) = utf8_char c @ utf8_encode s"
  "utf8_encode (s @ t) = utf8_encode s @ utf8_encode t"
  by (simp_all add: utf8_encode_def)

section \<open>White space\<close>

text \<open>\<open>char::is_whitespace\<close>: the code points with the property \<open>White_Space\<close>.\<close>

definition is_whitespace :: "nat \<Rightarrow> bool" where
  "is_whitespace c \<longleftrightarrow>
     (9 \<le> c \<and> c \<le> 13) \<or> c = 32 \<or> c = 133 \<or> c = 160 \<or> c = 5760 \<or>
     (8192 \<le> c \<and> c \<le> 8202) \<or> c = 8232 \<or> c = 8233 \<or> c = 8239 \<or> c = 8287 \<or> c = 12288"

definition trim_end :: "rstr \<Rightarrow> rstr" where
  "trim_end s = rev (dropWhile is_whitespace (rev s))"

definition trim :: "rstr \<Rightarrow> rstr" where
  "trim s = trim_end (dropWhile is_whitespace s)"

lemma all_dropWhile: "(\<forall>x\<in>set (dropWhile P s). P x) \<longleftrightarrow> (\<forall>x\<in>set s. P x)"
  by (induction s) auto

lemma trim_Nil_iff: "trim s = [] \<longleftrightarrow> (\<forall>c\<in>set s. is_whitespace c)"
  by (simp add: trim_def trim_end_def all_dropWhile)

section \<open>Decoding UTF-8\<close>

text \<open>An ASCII byte-string literal; a byte past the end reads as 0, as in the decoder of \<open>core\<close>.\<close>

definition ascii :: "string \<Rightarrow> u8 list" where
  "ascii s = map of_char s"

definition byte_at :: "u8 list \<Rightarrow> nat \<Rightarrow> nat" where
  "byte_at bs i = (if i < length bs then unat (bs ! i) else 0)"

definition is_cont :: "nat \<Rightarrow> bool" where
  "is_cont b \<longleftrightarrow> 128 \<le> b \<and> b < 192"

text \<open>
  One step of the decoder at the front of \<open>bs\<close>: the scalar it reads, or \<open>None\<close> for the longest
  prefix of a sequence that turns out ill-formed, and how many bytes it takes.
\<close>

definition utf8_sequence :: "nat \<Rightarrow> nat \<Rightarrow> nat \<Rightarrow> nat \<Rightarrow> nat option \<times> nat" where
  "utf8_sequence b0 b1 b2 b3 =
        (if b0 < 128 then (Some b0, 1)
         else if 194 \<le> b0 \<and> b0 < 224 then
           (if is_cont b1 then (Some ((b0 - 192) * 64 + (b1 - 128)), 2) else (None, 1))
         else if 224 \<le> b0 \<and> b0 < 240 then
           (if is_cont b1 \<and> (b0 = 224 \<longrightarrow> 160 \<le> b1) \<and> (b0 = 237 \<longrightarrow> b1 < 160) then
              (if is_cont b2
               then (Some ((b0 - 224) * 4096 + (b1 - 128) * 64 + (b2 - 128)), 3) else (None, 2))
            else (None, 1))
         else if 240 \<le> b0 \<and> b0 < 245 then
           (if is_cont b1 \<and> (b0 = 240 \<longrightarrow> 144 \<le> b1) \<and> (b0 = 244 \<longrightarrow> b1 < 144) then
              (if is_cont b2 then
                 (if is_cont b3
                  then (Some ((b0 - 240) * 262144 + (b1 - 128) * 4096 + (b2 - 128) * 64 + (b3 - 128)), 4)
                  else (None, 3))
               else (None, 2))
            else (None, 1))
         else (None, 1))"

definition utf8_step :: "u8 list \<Rightarrow> nat option \<times> nat" where
  "utf8_step bs = utf8_sequence (byte_at bs 0) (byte_at bs 1) (byte_at bs 2) (byte_at bs 3)"

lemma utf8_step_pos: "1 \<le> snd (utf8_step bs)"
  by (simp add: utf8_step_def utf8_sequence_def)

function utf8_items :: "u8 list \<Rightarrow> nat option list" where
  "utf8_items [] = []"
| "utf8_items (b # bs) =
     fst (utf8_step (b # bs)) # utf8_items (drop (snd (utf8_step (b # bs))) (b # bs))"
  by pat_completeness auto
termination
  by (relation "measure length") (use utf8_step_pos in \<open>auto simp: Suc_le_eq\<close>)

text \<open>\<open>str::from_utf8\<close> and \<open>String::from_utf8_lossy\<close>.\<close>

definition utf8_decode :: "u8 list \<Rightarrow> rstr option" where
  "utf8_decode bs = those (utf8_items bs)"

definition utf8_lossy :: "u8 list \<Rightarrow> rstr" where
  "utf8_lossy bs = map (\<lambda>c. case c of Some ch \<Rightarrow> ch | None \<Rightarrow> 65533) (utf8_items bs)"

subsection \<open>Decoding what was encoded\<close>

lemma unat_byte: "n < 256 \<Longrightarrow> unat (word_of_nat n :: u8) = n"
  by (simp add: unat_of_nat)

lemma byte_at_map:
  "byte_at (map word_of_nat ns @ rest) i =
     (if i < length ns then unat (word_of_nat (ns ! i) :: u8) else byte_at rest (i - length ns))"
  by (auto simp: byte_at_def nth_append)

text \<open>The base-64 digits of a scalar, named so that linear arithmetic can work on them.\<close>

lemma digits64:
  obtains x y z :: nat and d0 d1 d2 where "c div 64 = x" and "c div 4096 = y" and "c div 262144 = z"
    and "c mod 64 = d0" and "x mod 64 = d1" and "y mod 64 = d2"
    and "c = x * 64 + d0" and "x = y * 64 + d1" and "y = z * 64 + d2"
    and "d0 < 64" and "d1 < 64" and "d2 < 64"
proof -
  have "c div 4096 = c div 64 div 64" "c div 262144 = c div 4096 div 64"
    by (simp_all add: div_mult2_eq [symmetric])
  moreover have "n = n div 64 * 64 + n mod 64" for n :: nat by simp
  ultimately show thesis using that by (metis mod_less_divisor zero_less_numeral)
qed

lemma utf8_step_char:
  assumes "is_scalar c"
  shows "utf8_step (utf8_char c @ rest) = (Some c, length (utf8_char c))"
proof (rule digits64 [of c])
  fix x y z d0 d1 d2 :: nat
  assume d: "c div 64 = x" "c div 4096 = y" "c div 262144 = z" "c mod 64 = d0" "x mod 64 = d1"
    "y mod 64 = d2" and c: "c = x * 64 + d0" "x = y * 64 + d1" "y = z * 64 + d2"
    and lt: "d0 < 64" "d1 < 64" "d2 < 64"
  have step: "utf8_step (utf8_char c @ rest) = utf8_sequence (ns ! 0)
      (if 1 < length ns then ns ! 1 else byte_at rest (1 - length ns))
      (if 2 < length ns then ns ! 2 else byte_at rest (2 - length ns))
      (if 3 < length ns then ns ! 3 else byte_at rest (3 - length ns))"
    if "utf8_char c = map word_of_nat ns" "ns \<noteq> []" "\<forall>n\<in>set ns. n < 256" for ns
  proof -
    have "byte_at (utf8_char c @ rest) i =
        (if i < length ns then ns ! i else byte_at rest (i - length ns))" for i
      using that by (simp add: byte_at_map unat_byte)
    then show ?thesis using that(2) by (simp add: utf8_step_def)
  qed
  consider "c < 128" | "128 \<le> c" "c < 2048" | "2048 \<le> c" "c < 65536" | "65536 \<le> c" by linarith
  then show ?thesis
  proof cases
    case 1
    then have e: "utf8_char c = map word_of_nat [c]" by (simp add: utf8_char_def)
    then have "length (utf8_char c) = 1" by simp
    then show ?thesis using 1 by (simp add: step [OF e] utf8_sequence_def)
  next
    case 2
    then have e: "utf8_char c = map word_of_nat [192 + x, 128 + d0]"
      by (simp add: utf8_char_def d)
    then have len: "length (utf8_char c) = 2" by simp
    have b: "x < 32" "2 \<le> x" using 2 c lt by linarith+
    have "utf8_step (utf8_char c @ rest) = (Some (x * 64 + d0), 2)"
      using b lt by (simp add: step [OF e] utf8_sequence_def is_cont_def)
    then show ?thesis using len c(1) by simp
  next
    case 3
    then have e: "utf8_char c = map word_of_nat [224 + y, 128 + d1, 128 + d0]"
      by (simp add: utf8_char_def d)
    then have len: "length (utf8_char c) = 3" by simp
    have c': "c = y * 4096 + d1 * 64 + d0" using c by simp
    have b: "y < 16" "y = 0 \<longrightarrow> 32 \<le> d1" "y = 13 \<longrightarrow> d1 < 32"
      using 3 c' lt assms unfolding is_scalar_def by linarith+
    have "utf8_step (utf8_char c @ rest) = (Some (y * 4096 + d1 * 64 + d0), 3)"
      using b lt by (simp add: step [OF e] utf8_sequence_def is_cont_def)
    then show ?thesis using len c' by simp
  next
    case 4
    then have e: "utf8_char c = map word_of_nat [240 + z, 128 + d2, 128 + d1, 128 + d0]"
      by (simp add: utf8_char_def d)
    then have len: "length (utf8_char c) = 4" by simp
    have c': "c = z * 262144 + d2 * 4096 + d1 * 64 + d0" using c by simp
    have b: "z < 5" "z = 0 \<longrightarrow> 16 \<le> d2" "z = 4 \<longrightarrow> d2 < 16"
      using 4 c' lt assms unfolding is_scalar_def by linarith+
    have "utf8_step (utf8_char c @ rest) = (Some (z * 262144 + d2 * 4096 + d1 * 64 + d0), 4)"
      using b lt by (simp add: step [OF e] utf8_sequence_def is_cont_def)
    then show ?thesis using len c' by simp
  qed
qed

lemma utf8_items_char:
  assumes "is_scalar c"
  shows "utf8_items (utf8_char c @ rest) = Some c # utf8_items rest"
proof -
  obtain b bs where bs: "utf8_char c @ rest = b # bs"
    by (cases "utf8_char c @ rest") (auto simp: utf8_char_def split: if_splits)
  have "utf8_items (utf8_char c @ rest) = Some c # utf8_items (drop (length (utf8_char c)) (utf8_char c @ rest))"
    unfolding bs utf8_items.simps using utf8_step_char [OF assms, of rest] by (simp add: bs)
  then show ?thesis by simp
qed

lemma utf8_items_encode:
  "\<forall>c\<in>set s. is_scalar c \<Longrightarrow> utf8_items (utf8_encode s @ rest) = map Some s @ utf8_items rest"
  by (induction s) (simp_all add: utf8_items_char)

lemma utf8_decode_encode:
  assumes "\<forall>c\<in>set s. is_scalar c"
  shows "utf8_decode (utf8_encode s) = Some s" and "utf8_lossy (utf8_encode s) = s"
proof -
  have "those (map Some s) = Some s" by (induction s) simp_all
  then show "utf8_decode (utf8_encode s) = Some s" and "utf8_lossy (utf8_encode s) = s"
    using utf8_items_encode [OF assms, of "[]"]
    by (simp_all add: utf8_decode_def utf8_lossy_def comp_def)
qed

section \<open>Characters and integers\<close>

definition is_digit :: "nat \<Rightarrow> bool" where
  "is_digit c \<longleftrightarrow> 48 \<le> c \<and> c \<le> 57"

definition is_hexdigit :: "nat \<Rightarrow> bool" where
  "is_hexdigit c \<longleftrightarrow> is_digit c \<or> (65 \<le> c \<and> c \<le> 70) \<or> (97 \<le> c \<and> c \<le> 102)"

definition is_alphanumeric :: "nat \<Rightarrow> bool" where
  "is_alphanumeric c \<longleftrightarrow> is_digit c \<or> (65 \<le> c \<and> c \<le> 90) \<or> (97 \<le> c \<and> c \<le> 122)"

definition hex_value :: "nat \<Rightarrow> nat" where
  "hex_value c = (if is_digit c then c - 48 else if c < 97 then c - 55 else c - 87)"

definition digits_value :: "nat \<Rightarrow> rstr \<Rightarrow> nat" where
  "digits_value base ds = foldl (\<lambda>n d. n * base + hex_value d) 0 ds"

text \<open>\<open>parse::<uN>()\<close>, for the largest value of the type: an optional \<open>+\<close> and at least one digit.\<close>

definition parse_uint :: "nat \<Rightarrow> rstr \<Rightarrow> nat option" where
  "parse_uint bound s =
     (let ds = (case s of [] \<Rightarrow> [] | c # rest \<Rightarrow> if c = 43 then rest else s)
      in if ds = [] \<or> \<not> list_all is_digit ds then None
         else if digits_value 10 ds \<le> bound then Some (digits_value 10 ds) else None)"

definition parse_u8 :: "rstr \<Rightarrow> nat option" where "parse_u8 = parse_uint 255"
definition parse_u16 :: "rstr \<Rightarrow> nat option" where "parse_u16 = parse_uint 65535"
definition parse_u32 :: "rstr \<Rightarrow> nat option" where "parse_u32 = parse_uint 4294967295"
definition parse_usize :: "rstr \<Rightarrow> nat option" where "parse_usize = parse_uint 18446744073709551615"

lemma parse_uint_bound: "parse_uint m s = Some n \<Longrightarrow> n \<le> m"
  by (auto simp: parse_uint_def Let_def split: if_splits)

section \<open>Splitting\<close>

text \<open>\<open>str::split\<close> and \<open>slice::split\<close> on one separator: never an empty list.\<close>

fun split_on :: "'a \<Rightarrow> 'a list \<Rightarrow> 'a list list" where
  "split_on sep [] = [[]]"
| "split_on sep (c # cs) =
     (if c = sep then [] # split_on sep cs
      else case split_on sep cs of [] \<Rightarrow> [[c]] | f # fs \<Rightarrow> (c # f) # fs)"

fun join_with :: "'a \<Rightarrow> 'a list list \<Rightarrow> 'a list" where
  "join_with sep [] = []"
| "join_with sep [f] = f"
| "join_with sep (f # g # fs) = f @ sep # join_with sep (g # fs)"

lemma split_on_nonempty [simp]: "split_on sep cs \<noteq> []"
  by (induction cs) (auto split: list.splits)

lemma join_split_on: "join_with sep (split_on sep cs) = cs"
proof (induction cs)
  case (Cons c cs)
  obtain f fs where s: "split_on sep cs = f # fs"
    by (cases "split_on sep cs") simp_all
  show ?case
    using Cons s by (cases fs) auto
qed simp

lemma split_on_clean: "f \<in> set (split_on sep cs) \<Longrightarrow> sep \<notin> set f"
  by (induction cs arbitrary: f) (auto split: list.splits if_splits)

lemma split_on_plain: "sep \<notin> set cs \<Longrightarrow> split_on sep cs = [cs]"
  by (induction cs) auto

lemma split_on_append: "sep \<notin> set f \<Longrightarrow> split_on sep (f @ sep # cs) = f # split_on sep cs"
  by (induction f) auto

lemma split_join:
  "fs \<noteq> [] \<Longrightarrow> \<forall>f\<in>set fs. sep \<notin> set f \<Longrightarrow> split_on sep (join_with sep fs) = fs"
  by (induction sep fs rule: join_with.induct) (simp_all add: split_on_plain split_on_append)

text \<open>\<open>split_once\<close>: at the first separator.\<close>

definition split_once :: "'a \<Rightarrow> 'a list \<Rightarrow> ('a list \<times> 'a list) option" where
  "split_once sep cs =
     (case position (\<lambda>c. c = sep) cs of
        None \<Rightarrow> None | Some i \<Rightarrow> Some (take i cs, drop (i + 1) cs))"

definition strip_prefix :: "'a list \<Rightarrow> 'a list \<Rightarrow> 'a list option" where
  "strip_prefix p cs = (if take (length p) cs = p then Some (drop (length p) cs) else None)"

definition strip_suffix :: "'a list \<Rightarrow> 'a list \<Rightarrow> 'a list option" where
  "strip_suffix p cs = map_option rev (strip_prefix (rev p) (rev cs))"

text \<open>\<open>split_whitespace\<close>: the non-empty pieces between white space.\<close>

definition split_whitespace :: "rstr \<Rightarrow> rstr list" where
  "split_whitespace s =
     filter (\<lambda>f. f \<noteq> []) (split_on 32 (map (\<lambda>c. if is_whitespace c then 32 else c) s))"

text \<open>
  \<open>text.get(..n)\<close> compared with an ASCII literal of \<open>n\<close> bytes, ignoring the case of ASCII
  letters: a prefix that agrees with the literal is ASCII, so its \<open>n\<close> bytes are \<open>n\<close> characters.
\<close>

definition ascii_lower :: "nat \<Rightarrow> nat" where
  "ascii_lower c = (if 65 \<le> c \<and> c \<le> 90 then c + 32 else c)"

definition eq_ignore_case :: "rstr \<Rightarrow> rstr \<Rightarrow> bool" where
  "eq_ignore_case a b \<longleftrightarrow> map ascii_lower a = map ascii_lower b"

definition strip_prefix_ci :: "rstr \<Rightarrow> rstr \<Rightarrow> rstr option" where
  "strip_prefix_ci p s =
     (if eq_ignore_case (take (length p) s) p then Some (drop (length p) s) else None)"

text \<open>\<open>str::len\<close> counts bytes.\<close>

definition str_len :: "rstr \<Rightarrow> nat" where
  "str_len s = length (utf8_encode s)"

end
