(* ===== verification/Native_Model.thy ===== *)
theory Native_Model
  imports Native_Resize Screen_Delta Rust_Text
begin

text \<open>
  The state of a native session (\<open>engine/model.rs\<close>), the world it runs in, and the operations
  of one pane: rendering and deltas (\<open>engine/projection.rs\<close>), resizing and writing
  (\<open>engine/input.rs\<close>), spawning (\<open>engine/process\<close>), the reader thread and its transcript
  (\<open>engine/process/reader.rs\<close>, \<open>transcript.rs\<close>).

  Everything that is shared with another thread or belongs to another crate is reached through
  a handle and an operation of \<open>native_env\<close> on an abstract world: pseudo terminals
  (\<open>portable_pty\<close>), watch and broadcast channels (\<open>tokio\<close>), UUIDs, environment variables and
  the terminal emulator. An operation that can fail returns the text of its error. Every
  definition returns the state it leaves behind also when it fails, because the code mutates
  in place before it returns early.
\<close>

section \<open>The world\<close>

record rendered_emulator =
  re_buffer_kind :: screen_buffer_kind
  re_surface :: screen_surface

datatype builder_call = CallArg rstr | CallCwd rstr | CallEnv rstr rstr

record command_builder =
  cb_program :: rstr
  cb_calls :: "builder_call list"

record raw_output_bytes =
  ro_pane_id :: pane_id
  ro_sequence :: u64
  ro_payload :: "u8 list"

record raw_output_gap =
  rg_pane_id :: pane_id
  rg_skipped_events :: u64

datatype raw_output_event = RawBytes raw_output_bytes | RawGap raw_output_gap

text \<open>
  The reader thread with the clones it owns, the transcript among them: the field
  \<open>_transcript\<close> of a pane is never read, so the buffer is the reader's here.
\<close>

record transcript_state =
  tr_bytes :: "u8 list"
  tr_sequence :: u64

record reader_thread =
  rd_pane_id :: pane_id
  rd_reader :: nat
  rd_writer :: nat
  rd_transcript :: "transcript_state mutex"
  rd_emulator :: nat
  rd_raw_output_sequence :: u64
  rd_raw_output_tick :: nat
  rd_surface_tick :: nat

record 'w native_env =
  ne_windows :: bool
  ne_var :: "rstr \<Rightarrow> rstr option"
  ne_var_os :: "rstr \<Rightarrow> rstr option"
  ne_new_uuid :: "'w \<Rightarrow> uuid \<times> 'w"
  ne_open_pty :: "u16 \<Rightarrow> u16 \<Rightarrow> 'w \<Rightarrow> (rstr + nat) \<times> 'w"
  ne_spawn_command :: "nat \<Rightarrow> command_builder \<Rightarrow> 'w \<Rightarrow> (rstr + nat) \<times> 'w"
  ne_clone_reader :: "nat \<Rightarrow> 'w \<Rightarrow> (rstr + nat) \<times> 'w"
  ne_take_writer :: "nat \<Rightarrow> 'w \<Rightarrow> (rstr + nat) \<times> 'w"
  ne_resize_pty :: "nat \<Rightarrow> u16 \<Rightarrow> u16 \<Rightarrow> 'w \<Rightarrow> (rstr + unit) \<times> 'w"
  ne_writer_poisoned :: "nat \<Rightarrow> 'w \<Rightarrow> bool"
  ne_write_all :: "nat \<Rightarrow> u8 list \<Rightarrow> 'w \<Rightarrow> (rstr + unit) \<times> 'w"
  ne_flush :: "nat \<Rightarrow> 'w \<Rightarrow> (rstr + unit) \<times> 'w"
  ne_spawn_thread :: "reader_thread \<Rightarrow> 'w \<Rightarrow> 'w"
  ne_watch_channel :: "u64 \<Rightarrow> 'w \<Rightarrow> nat \<times> 'w"
  ne_watch_borrow :: "nat \<Rightarrow> 'w \<Rightarrow> u64"
  ne_watch_send :: "nat \<Rightarrow> u64 \<Rightarrow> 'w \<Rightarrow> 'w"
  ne_watch_subscribe :: "nat \<Rightarrow> 'w \<Rightarrow> nat \<times> 'w"
  ne_broadcast_channel :: "nat \<Rightarrow> 'w \<Rightarrow> nat \<times> 'w"
  ne_broadcast_send :: "nat \<Rightarrow> raw_output_event \<Rightarrow> 'w \<Rightarrow> 'w"
  ne_broadcast_subscribe :: "nat \<Rightarrow> 'w \<Rightarrow> nat \<times> 'w"
  ne_emulator_new :: "u16 \<Rightarrow> u16 \<Rightarrow> 'w \<Rightarrow> nat \<times> 'w"
  ne_emulator_advance :: "nat \<Rightarrow> u8 list \<Rightarrow> 'w \<Rightarrow> 'w"
  ne_emulator_resize :: "nat \<Rightarrow> u16 \<Rightarrow> u16 \<Rightarrow> 'w \<Rightarrow> 'w"
  ne_emulator_take_responses :: "nat \<Rightarrow> 'w \<Rightarrow> u8 list list \<times> 'w"
  ne_emulator_bracketed_paste :: "nat \<Rightarrow> 'w \<Rightarrow> bool"
  ne_emulator_render :: "nat \<Rightarrow> rstr option \<Rightarrow> 'w \<Rightarrow> rendered_emulator"

text \<open>\<open>signals.rs\<close>; \<open>u64::wrapping_add\<close> is word addition, the result of \<open>send\<close> is dropped.\<close>

definition bump_watch :: "'w native_env \<Rightarrow> nat \<Rightarrow> 'w \<Rightarrow> 'w" where
  "bump_watch env sender w = ne_watch_send env sender (ne_watch_borrow env sender w + 1) w"

section \<open>The state of a session\<close>

definition default_rows :: u16 where "default_rows = 24"
definition default_cols :: u16 where "default_cols = 80"
definition snapshot_history_limit :: nat where "snapshot_history_limit = 64"

record native_pty_process =
  np_master :: nat
  np_writer :: nat
  np_child :: nat

record native_projection_state =
  pj_history :: "screen_snapshot list"

record native_pane =
  pn_pane_id :: pane_id
  pn_emulator :: nat
  pn_raw_output_tick :: nat
  pn_projection :: "native_projection_state mutex"
  pn_geometry :: "pane_geometry mutex"
  pn_surface_tick :: nat
  pn_process :: "native_pty_process mutex"

record native_tab =
  tb_tab_id :: tab_id
  tb_title :: "rstr option"
  tb_focused_pane :: pane_id
  tb_root :: native_node
  tb_panes :: "native_pane list"

record native_session_state =
  ns_summary :: backend_session_summary
  ns_launch :: shell_launch_spec
  ns_tabs :: "native_tab list"
  ns_focused_tab :: tab_id
  ns_rows :: u16
  ns_cols :: u16

text \<open>\<open>layout/tree/tab.rs\<close>; \<open>set_pane\<close> is the write through the reference \<open>pane\<close> returns.\<close>

definition tab_pane :: "native_tab \<Rightarrow> pane_id \<Rightarrow> native_pane option" where
  "tab_pane tab p = find (\<lambda>pane. pn_pane_id pane = p) (tb_panes tab)"

definition set_pane :: "pane_id \<Rightarrow> native_pane \<Rightarrow> native_tab \<Rightarrow> native_tab" where
  "set_pane p pane tab =
     tab\<lparr>tb_panes := update_first (\<lambda>q. pn_pane_id q = p) (\<lambda>_. pane) (tb_panes tab)\<rparr>"

definition tab_pane_ids :: "native_tab \<Rightarrow> pane_id list" where
  "tab_pane_ids tab = node_pane_ids (tb_root tab)"

definition tab_contains_pane :: "native_tab \<Rightarrow> pane_id \<Rightarrow> bool" where
  "tab_contains_pane tab p = node_contains (tb_root tab) p"

definition tab_first_pane_id :: "native_tab \<Rightarrow> pane_id option" where
  "tab_first_pane_id tab = node_first_pane_id (tb_root tab)"

section \<open>Projection of a pane\<close>

definition mark_surface_dirty :: "'w native_env \<Rightarrow> native_pane \<Rightarrow> 'w \<Rightarrow> 'w" where
  "mark_surface_dirty env pane w = bump_watch env (pn_surface_tick pane) w"

definition pane_geometry_of :: "native_pane \<Rightarrow> backend_error + pane_geometry" where
  "pane_geometry_of pane =
     mutex_lock (internal_error [MText ''native pane geometry lock poisoned'']) (pn_geometry pane)"

text \<open>\<open>VecDeque::push_back\<close> followed by \<open>while len > LIMIT { pop_front }\<close>.\<close>

fun pop_front_while :: "nat \<Rightarrow> 'a list \<Rightarrow> 'a list" where
  "pop_front_while limit [] = []"
| "pop_front_while limit (x # xs) =
     (if limit < length (x # xs) then pop_front_while limit xs else x # xs)"

definition push_history :: "screen_snapshot \<Rightarrow> screen_snapshot list \<Rightarrow> screen_snapshot list" where
  "push_history s history = pop_front_while snapshot_history_limit (history @ [s])"

definition history_back :: "screen_snapshot list \<Rightarrow> screen_snapshot option" where
  "history_back history = (if history = [] then None else Some (last history))"

definition shows_same ::
    "screen_snapshot \<Rightarrow> u16 \<Rightarrow> u16 \<Rightarrow> rendered_emulator \<Rightarrow> bool" where
  "shows_same current rows cols rendered \<longleftrightarrow>
     sn_rows current = rows \<and> sn_cols current = cols \<and>
     sn_source current = NativeEmulator \<and>
     sn_buffer_kind current = re_buffer_kind rendered \<and>
     sn_surface current = re_surface rendered"

definition render_snapshot ::
    "'w native_env \<Rightarrow> 'w \<Rightarrow> rstr option \<Rightarrow> native_pane
     \<Rightarrow> (backend_error + screen_snapshot) \<times> native_pane" where
  "render_snapshot env w title pane =
     (case pane_geometry_of pane of
        Inl e \<Rightarrow> (Inl e, pane)
      | Inr geometry \<Rightarrow>
          let rows = pg_rows geometry; cols = pg_cols geometry;
              rendered = ne_emulator_render env (pn_emulator pane) title w
          in if mutex_poisoned (pn_projection pane)
             then (Inl (internal_error [MText ''native pane projection state lock poisoned'']),
                   pane)
             else
               let history = pj_history (mutex_value (pn_projection pane));
                   fresh =
                     (let sequence = (case history_back history of
                            None \<Rightarrow> 1 | Some s \<Rightarrow> sn_sequence s + 1);
                          snapshot = \<lparr>sn_pane_id = pn_pane_id pane, sn_sequence = sequence,
                            sn_rows = rows, sn_cols = cols, sn_source = NativeEmulator,
                            sn_buffer_kind = re_buffer_kind rendered,
                            sn_surface = re_surface rendered\<rparr>
                      in (Inr snapshot,
                          pane\<lparr>pn_projection :=
                            mutex_set \<lparr>pj_history = push_history snapshot history\<rparr>
                              (pn_projection pane)\<rparr>))
               in case history_back history of
                    Some current \<Rightarrow>
                      if shows_same current rows cols rendered then (Inr current, pane) else fresh
                  | None \<Rightarrow> fresh)"

definition pane_screen_delta ::
    "'w native_env \<Rightarrow> 'w \<Rightarrow> rstr option \<Rightarrow> u64 \<Rightarrow> native_pane
     \<Rightarrow> (backend_error + screen_delta) \<times> native_pane" where
  "pane_screen_delta env w title from_sequence pane =
     (case render_snapshot env w title pane of
        (Inl e, pane1) \<Rightarrow> (Inl e, pane1)
      | (Inr current, pane1) \<Rightarrow>
          if sn_sequence current = from_sequence then (Inr (unchanged_from current), pane1)
          else if mutex_poisoned (pn_projection pane1)
          then (Inl (internal_error [MText ''native pane projection state lock poisoned'']), pane1)
          else
            (case find (\<lambda>s. sn_sequence s = from_sequence)
                    (pj_history (mutex_value (pn_projection pane1))) of
               Some previous \<Rightarrow> (Inr (between previous current), pane1)
             | None \<Rightarrow> (Inr (full_replace from_sequence current), pane1)))"

section \<open>Input and resizing\<close>

fun normalize_windows_loop :: "rstr \<Rightarrow> rstr" where
  "normalize_windows_loop [] = []"
| "normalize_windows_loop (ch # rest) =
     (if ch = 13 then
        (case rest of
           [] \<Rightarrow> 13 # normalize_windows_loop rest
         | c # rest' \<Rightarrow>
             if c = 10 then 13 # normalize_windows_loop rest'
             else 13 # normalize_windows_loop rest)
      else if ch = 10 then 13 # normalize_windows_loop rest
      else ch # normalize_windows_loop rest)"

definition normalize_windows_pty_input :: "rstr \<Rightarrow> rstr" where
  "normalize_windows_pty_input txt =
     (if \<not> list_ex (\<lambda>b. b = 13 \<or> b = 10) (utf8_encode txt) then txt
      else normalize_windows_loop txt)"

definition normalize_pty_input :: "'w native_env \<Rightarrow> rstr \<Rightarrow> rstr" where
  "normalize_pty_input env txt =
     (if ne_windows env then normalize_windows_pty_input txt else txt)"

definition paste_input_payload :: "rstr \<Rightarrow> bool \<Rightarrow> rstr" where
  "paste_input_payload txt bracketed_paste =
     (if \<not> bracketed_paste then txt
      else 27 # lit ''[200~'' @ txt @ 27 # lit ''[201~'')"

definition pane_write_all ::
    "'w native_env \<Rightarrow> native_pane \<Rightarrow> u8 list \<Rightarrow> 'w \<Rightarrow> (backend_error + unit) \<times> 'w" where
  "pane_write_all env pane bytes w =
     (if mutex_poisoned (pn_process pane)
      then (Inl (internal_error [MText ''native pane process lock poisoned'']), w)
      else
        let writer = np_writer (mutex_value (pn_process pane))
        in if ne_writer_poisoned env writer w
           then (Inl (internal_error [MText ''native pane writer lock poisoned'']), w)
           else
             (case ne_write_all env writer bytes w of
                (Inl err, w1) \<Rightarrow>
                  (Inl (transport_error [MText ''failed to write to pty - '', MString err]), w1)
              | (Inr _, w1) \<Rightarrow>
                  (case ne_flush env writer w1 of
                     (Inl err, w2) \<Rightarrow>
                       (Inl (transport_error [MText ''failed to flush pty writer - '', MString err]),
                        w2)
                   | (Inr _, w2) \<Rightarrow> (Inr (), w2))))"

definition write_text ::
    "'w native_env \<Rightarrow> native_pane \<Rightarrow> rstr \<Rightarrow> 'w \<Rightarrow> (backend_error + unit) \<times> 'w" where
  "write_text env pane txt w = pane_write_all env pane (utf8_encode (normalize_pty_input env txt)) w"

definition write_paste ::
    "'w native_env \<Rightarrow> native_pane \<Rightarrow> rstr \<Rightarrow> 'w \<Rightarrow> (backend_error + unit) \<times> 'w" where
  "write_paste env pane txt w =
     (let normalized = normalize_pty_input env txt;
          payload = paste_input_payload normalized
            (ne_emulator_bracketed_paste env (pn_emulator pane) w)
      in pane_write_all env pane (utf8_encode payload) w)"

definition pane_resize ::
    "'w native_env \<Rightarrow> u16 \<Rightarrow> u16 \<Rightarrow> native_pane \<Rightarrow> 'w
     \<Rightarrow> (backend_error + unit) \<times> native_pane \<times> 'w" where
  "pane_resize env rows cols pane w =
     (if mutex_poisoned (pn_process pane)
      then (Inl (internal_error [MText ''native pane process lock poisoned'']), pane, w)
      else
        (case ne_resize_pty env (np_master (mutex_value (pn_process pane))) rows cols w of
           (Inl err, w1) \<Rightarrow>
             (Inl (transport_error [MText ''failed to resize pty - '', MString err]), pane, w1)
         | (Inr _, w1) \<Rightarrow>
             if mutex_poisoned (pn_geometry pane)
             then (Inl (internal_error [MText ''native pane geometry lock poisoned'']), pane, w1)
             else
               let pane1 = pane\<lparr>pn_geometry :=
                     mutex_set \<lparr>pg_rows = rows, pg_cols = cols\<rparr> (pn_geometry pane)\<rparr>;
                   w2 = ne_emulator_resize env (pn_emulator pane) rows cols w1
               in (Inr (), pane1, mark_surface_dirty env pane1 w2)))"

section \<open>Spawning\<close>

definition should_advertise_cli_color_hint :: "rstr option \<Rightarrow> rstr option \<Rightarrow> bool" where
  "should_advertise_cli_color_hint no_color clicolor =
     (let no_color_set = (case no_color of Some v \<Rightarrow> v \<noteq> [] | None \<Rightarrow> False)
      in \<not> no_color_set \<and> clicolor = None)"

definition should_advertise_cli_color_hint_from_env :: "'w native_env \<Rightarrow> bool" where
  "should_advertise_cli_color_hint_from_env env =
     should_advertise_cli_color_hint (ne_var_os env (lit ''NO_COLOR''))
       (ne_var_os env (lit ''CLICOLOR''))"

definition terminal_feature_report :: rstr where
  "terminal_feature_report = lit ''T3BGsGoSyHFP''"

definition add_call :: "builder_call \<Rightarrow> command_builder \<Rightarrow> command_builder" where
  "add_call c cmd = cmd\<lparr>cb_calls := cb_calls cmd @ [c]\<rparr>"

definition apply_terminal_capability_environment ::
    "'w native_env \<Rightarrow> command_builder \<Rightarrow> command_builder" where
  "apply_terminal_capability_environment env cmd0 =
     (let cmd1 = add_call (CallEnv (lit ''TERM'') (lit ''xterm-256color'')) cmd0;
          cmd2 = add_call (CallEnv (lit ''COLORTERM'') (lit ''truecolor'')) cmd1;
          cmd3 = add_call (CallEnv (lit ''TERM_PROGRAM'') (lit ''terminal-platform'')) cmd2;
          cmd4 = add_call (CallEnv (lit ''TERM_PROGRAM_VERSION'') (lit ''0.1.0'')) cmd3;
          cmd5 = add_call (CallEnv (lit ''TERMINAL_PLATFORM'') (lit ''1'')) cmd4;
          cmd6 = add_call (CallEnv (lit ''TERM_FEATURES'') terminal_feature_report) cmd5
      in if should_advertise_cli_color_hint_from_env env
         then add_call (CallEnv (lit ''CLICOLOR'') (lit ''1'')) cmd6
         else cmd6)"

definition build_command :: "'w native_env \<Rightarrow> shell_launch_spec \<Rightarrow> command_builder" where
  "build_command env launch =
     (let cmd0 = \<lparr>cb_program = launch_program launch, cb_calls = []\<rparr>;
          cmd1 = fold (\<lambda>arg. add_call (CallArg arg)) (launch_args launch) cmd0;
          cmd2 = (case launch_cwd launch of
              Some cwd \<Rightarrow> add_call (CallCwd cwd) cmd1 | None \<Rightarrow> cmd1);
          cmd3 = (if ne_windows env then
              (case ne_var_os env (lit ''PATH'') of
                 Some path \<Rightarrow> add_call (CallEnv (lit ''PATH'') path) cmd2 | None \<Rightarrow> cmd2)
              else cmd2)
      in apply_terminal_capability_environment env cmd3)"

definition default_launch_spec :: "'w native_env \<Rightarrow> shell_launch_spec" where
  "default_launch_spec env =
     shell_launch_spec_new
       (case ne_var env (if ne_windows env then lit ''COMSPEC'' else lit ''SHELL'') of
          Some v \<Rightarrow> if trim v \<noteq> [] then v
                    else (if ne_windows env then lit ''cmd.exe'' else lit ''/bin/sh'')
        | None \<Rightarrow> (if ne_windows env then lit ''cmd.exe'' else lit ''/bin/sh''))"

definition resolve_launch_spec ::
    "'w native_env \<Rightarrow> shell_launch_spec option \<Rightarrow> backend_error + shell_launch_spec" where
  "resolve_launch_spec env spec =
     (case spec of
        Some l \<Rightarrow>
          if trim (launch_program l) = []
          then Inl (invalid_input [MText ''shell launch program cannot be empty''])
          else Inr l
      | None \<Rightarrow> Inr (default_launch_spec env))"

definition transcript_default :: "transcript_state mutex" where
  "transcript_default = mutex_new \<lparr>tr_bytes = [], tr_sequence = 0\<rparr>"

definition finish_spawn ::
    "'w native_env \<Rightarrow> u16 \<Rightarrow> u16 \<Rightarrow> nat \<Rightarrow> nat \<Rightarrow> nat \<Rightarrow> nat \<Rightarrow> 'w \<Rightarrow> native_pane \<times> 'w" where
  "finish_spawn env rows cols pty child reader writer w =
     (let (emulator, w1) = ne_emulator_new env rows cols w;
          (u, w2) = ne_new_uuid env w1;
          (raw_output_tick, w3) = ne_broadcast_channel env 1024 w2;
          (surface_tick, w4) = ne_watch_channel env 0 w3;
          w5 = ne_spawn_thread env
                 \<lparr>rd_pane_id = Id u, rd_reader = reader, rd_writer = writer,
                  rd_transcript = transcript_default, rd_emulator = emulator,
                  rd_raw_output_sequence = 0, rd_raw_output_tick = raw_output_tick,
                  rd_surface_tick = surface_tick\<rparr> w4
      in (\<lparr>pn_pane_id = Id u, pn_emulator = emulator, pn_raw_output_tick = raw_output_tick,
           pn_projection = mutex_new \<lparr>pj_history = []\<rparr>,
           pn_geometry = mutex_new \<lparr>pg_rows = rows, pg_cols = cols\<rparr>,
           pn_surface_tick = surface_tick,
           pn_process = mutex_new \<lparr>np_master = pty, np_writer = writer, np_child = child\<rparr>\<rparr>,
          w5))"

definition spawn_pane ::
    "'w native_env \<Rightarrow> shell_launch_spec \<Rightarrow> u16 \<Rightarrow> u16 \<Rightarrow> 'w
     \<Rightarrow> (backend_error + native_pane) \<times> 'w" where
  "spawn_pane env launch rows cols w =
     (case ne_open_pty env rows cols w of
        (Inl err, w1) \<Rightarrow>
          (Inl (transport_error [MText ''failed to open native pty - '', MString err]), w1)
      | (Inr pty, w1) \<Rightarrow>
          (case ne_spawn_command env pty (build_command env launch) w1 of
             (Inl err, w2) \<Rightarrow>
               (Inl (transport_error [MText ''failed to spawn native shell `'',
                       MString (launch_program launch), MText ''` - '', MString err]), w2)
           | (Inr child, w2) \<Rightarrow>
               (case ne_clone_reader env pty w2 of
                  (Inl err, w3) \<Rightarrow>
                    (Inl (transport_error [MText ''failed to clone pty reader - '',
                            MString err]), w3)
                | (Inr reader, w3) \<Rightarrow>
                    (case ne_take_writer env pty w3 of
                       (Inl err, w4) \<Rightarrow>
                         (Inl (transport_error [MText ''failed to take pty writer - '',
                                 MString err]), w4)
                     | (Inr writer, w4) \<Rightarrow>
                         (case finish_spawn env rows cols pty child reader writer w4 of
                            (pane, w5) \<Rightarrow> (Inr pane, w5))))))"

definition spawn_tab ::
    "'w native_env \<Rightarrow> rstr option \<Rightarrow> shell_launch_spec \<Rightarrow> u16 \<Rightarrow> u16 \<Rightarrow> 'w
     \<Rightarrow> (backend_error + native_tab) \<times> 'w" where
  "spawn_tab env title launch rows cols w =
     (case spawn_pane env launch rows cols w of
        (Inl e, w1) \<Rightarrow> (Inl e, w1)
      | (Inr pane, w1) \<Rightarrow>
          (case ne_new_uuid env w1 of
             (u, w2) \<Rightarrow>
               (Inr \<lparr>tb_tab_id = Id u, tb_title = title, tb_focused_pane = pn_pane_id pane,
                     tb_root = NLeaf (pn_pane_id pane), tb_panes = [pane]\<rparr>, w2)))"

section \<open>The reader thread\<close>

definition max_transcript_bytes :: nat where "max_transcript_bytes = 256 * 1024"

definition transcript_append ::
    "transcript_state mutex \<Rightarrow> u8 list \<Rightarrow> transcript_state mutex" where
  "transcript_append t chunk =
     (if chunk = [] then t
      else if mutex_poisoned t then t
      else
        let state = mutex_value t;
            extended = tr_bytes state @ chunk;
            kept = (if max_transcript_bytes < length extended
                    then drop (length extended - max_transcript_bytes) extended else extended)
        in mutex_set \<lparr>tr_bytes = kept, tr_sequence = tr_sequence state + 1\<rparr> t)"

fun write_responses :: "'w native_env \<Rightarrow> nat \<Rightarrow> u8 list list \<Rightarrow> 'w \<Rightarrow> 'w" where
  "write_responses env writer [] w = w"
| "write_responses env writer (r # rs) w =
     write_responses env writer rs (snd (ne_write_all env writer r w))"

definition flush_terminal_response_bytes :: "'w native_env \<Rightarrow> nat \<Rightarrow> nat \<Rightarrow> 'w \<Rightarrow> 'w" where
  "flush_terminal_response_bytes env emulator writer w =
     (let (responses, w1) = ne_emulator_take_responses env emulator w
      in if responses = [] then w1
         else if ne_writer_poisoned env writer w1 then w1
         else snd (ne_flush env writer (write_responses env writer responses w1)))"

text \<open>One turn of the loop of \<open>spawn_reader_thread\<close>; \<open>False\<close> when the loop has ended.\<close>

datatype read_outcome = ReadOk "u8 list" | ReadInterrupted | ReadFailed

definition reader_step ::
    "'w native_env \<Rightarrow> read_outcome \<Rightarrow> reader_thread \<Rightarrow> 'w \<Rightarrow> bool \<times> reader_thread \<times> 'w" where
  "reader_step env outcome rd w =
     (case outcome of
        ReadOk chunk \<Rightarrow>
          if chunk = [] then (False, rd, w)
          else
            let rd1 = rd\<lparr>rd_transcript := transcript_append (rd_transcript rd) chunk\<rparr>;
                w1 = ne_emulator_advance env (rd_emulator rd) chunk w;
                w2 = flush_terminal_response_bytes env (rd_emulator rd) (rd_writer rd) w1;
                sequence = rd_raw_output_sequence rd1 + 1;
                rd2 = rd1\<lparr>rd_raw_output_sequence := sequence\<rparr>;
                w3 = ne_broadcast_send env (rd_raw_output_tick rd)
                       (RawBytes \<lparr>ro_pane_id = rd_pane_id rd, ro_sequence = sequence,
                                  ro_payload = chunk\<rparr>) w2;
                w4 = bump_watch env (rd_surface_tick rd) w3
            in (True, rd2, w4)
      | ReadInterrupted \<Rightarrow> (True, rd, w)
      | ReadFailed \<Rightarrow> (False, rd, w))"

fun reader_loop ::
    "'w native_env \<Rightarrow> read_outcome list \<Rightarrow> reader_thread \<Rightarrow> 'w \<Rightarrow> reader_thread \<times> 'w" where
  "reader_loop env [] rd w = (rd, w)"
| "reader_loop env (x # xs) rd w =
     (case reader_step env x rd w of
        (continue, rd1, w1) \<Rightarrow> if continue then reader_loop env xs rd1 w1 else (rd1, w1))"

end
