(* ===== verification/Native_Pane.thy ===== *)
theory Native_Pane
  imports Native_Model
begin

text \<open>
  What the operations of one native pane guarantee: its snapshot history is a bounded buffer
  of consecutive sequence numbers, a rendered snapshot is the end of it, a delta replayed on
  the snapshot it starts from yields the current screen, the transcript is the end of the
  output stream, newline normalisation leaves carriage returns only.
\<close>

section \<open>The two bounded buffers\<close>

lemma pop_front_while_eq [simp]: "pop_front_while n xs = keep_last n xs"
  by (induction xs) (auto simp: keep_last_def Suc_diff_le)

lemma push_history_eq: "push_history s h = keep_last snapshot_history_limit (h @ [s])"
  by (simp add: push_history_def)

lemma fold_push_history:
  assumes "length h \<le> snapshot_history_limit"
  shows "fold push_history ss h = keep_last snapshot_history_limit (h @ ss)"
  using assms
proof (induction ss arbitrary: h)
  case Nil
  then show ?case by (simp add: keep_last_short)
next
  case (Cons s ss)
  have "length (push_history s h) \<le> snapshot_history_limit"
    by (simp add: push_history_eq length_keep_last)
  from Cons.IH [OF this] show ?case by (simp add: push_history_eq)
qed

interpretation history_buffer: bounded_buffer "\<lambda>h. h" "\<lambda>h. length h \<le> snapshot_history_limit" "[]"
    "\<lambda>h ss. fold push_history ss h" snapshot_history_limit
  by unfold_locales (simp_all add: fold_push_history length_keep_last)

definition transcript_bytes :: "transcript_state mutex \<Rightarrow> u8 list" where
  "transcript_bytes t = tr_bytes (mutex_value t)"

definition transcript_ok :: "transcript_state mutex \<Rightarrow> bool" where
  "transcript_ok t \<longleftrightarrow> \<not> mutex_poisoned t \<and> length (transcript_bytes t) \<le> max_transcript_bytes"

lemma transcript_append_bytes:
  "transcript_ok t \<Longrightarrow>
   transcript_bytes (transcript_append t chunk) =
     keep_last max_transcript_bytes (transcript_bytes t @ chunk)"
  by (auto simp: transcript_ok_def transcript_append_def transcript_bytes_def keep_last_def
      Let_def)

lemma transcript_append_poisoned [simp]:
  "mutex_poisoned (transcript_append t chunk) = mutex_poisoned t"
  by (simp add: transcript_append_def Let_def)

interpretation transcript: bounded_buffer transcript_bytes transcript_ok transcript_default
    transcript_append max_transcript_bytes
proof unfold_locales
  show "transcript_ok transcript_default"
    by (simp add: transcript_ok_def transcript_default_def transcript_bytes_def)
  show "transcript_bytes transcript_default = []"
    by (simp add: transcript_default_def transcript_bytes_def)
  show "transcript_ok t \<Longrightarrow> transcript_ok (transcript_append t c)" for t c
    using transcript_append_bytes [of t c]
    by (simp add: transcript_ok_def length_keep_last)
qed (rule transcript_append_bytes)

section \<open>The snapshot history\<close>

definition pane_history :: "native_pane \<Rightarrow> screen_snapshot list" where
  "pane_history pane = pj_history (mutex_value (pn_projection pane))"

definition history_ok :: "pane_id \<Rightarrow> screen_snapshot list \<Rightarrow> bool" where
  "history_ok pid h \<longleftrightarrow>
     length h \<le> snapshot_history_limit \<and>
     (\<forall>s\<in>set h. sn_pane_id s = pid \<and> sn_source s = NativeEmulator) \<and>
     successively (\<lambda>a b. sn_sequence b = sn_sequence a + 1) h"

lemma successively_drop: "successively P xs \<Longrightarrow> successively P (drop n xs)"
  by (metis append_take_drop_id successively_append_iff)

lemma history_ok_push [wf_intro]:
  assumes "history_ok pid h" and "sn_pane_id s = pid" and "sn_source s = NativeEmulator"
    and "h \<noteq> [] \<Longrightarrow> sn_sequence s = sn_sequence (last h) + 1"
  shows "history_ok pid (push_history s h)"
proof -
  have "successively (\<lambda>a b. sn_sequence b = sn_sequence a + 1) (h @ [s])"
    using assms by (cases "h = []") (simp_all add: history_ok_def successively_append_iff)
  then have "successively (\<lambda>a b. sn_sequence b = sn_sequence a + 1) (push_history s h)"
    unfolding push_history_eq keep_last_def by (rule successively_drop)
  moreover have "set (push_history s h) \<subseteq> insert s (set h)"
    using set_keep_last_subset [of snapshot_history_limit "h @ [s]"] by (simp add: push_history_eq)
  ultimately show ?thesis
    using assms by (auto simp: history_ok_def push_history_eq length_keep_last)
qed

lemma history_sequence_nth:
  assumes "successively (\<lambda>a b. sn_sequence b = sn_sequence a + 1) h" and "i < length h"
  shows "sn_sequence (h ! i) = sn_sequence (h ! 0) + word_of_nat i"
  using assms(2)
proof (induction i)
  case (Suc i)
  then have "sn_sequence (h ! Suc i) = sn_sequence (h ! i) + 1"
    using assms(1) by (simp add: successively_conv_nth)
  then show ?case using Suc by (simp add: algebra_simps)
qed simp

lemma history_sequences_distinct:
  assumes "history_ok pid h"
  shows "distinct (map sn_sequence h)"
proof -
  have "i = j" if "i < length h" "j < length h" "sn_sequence (h ! i) = sn_sequence (h ! j)" for i j
  proof -
    have "length h \<le> 64" using assms by (simp add: history_ok_def snapshot_history_limit_def)
    moreover have "(word_of_nat i :: u64) = word_of_nat j"
      using that assms history_sequence_nth [of h i] history_sequence_nth [of h j]
      by (simp add: history_ok_def)
    ultimately show "i = j"
      using that by (simp add: word_of_nat_eq_iff take_bit_nat_eq_self_iff [THEN iffD2])
  qed
  then show ?thesis by (auto simp: distinct_conv_nth)
qed

lemma history_find:
  assumes "history_ok pid h" and "s \<in> set h"
  shows "find (\<lambda>t. sn_sequence t = sn_sequence s) h = Some s"
proof -
  from assms(2) have "find (\<lambda>t. sn_sequence t = sn_sequence s) h \<noteq> None"
    by (auto simp: find_None_iff)
  then obtain t where t: "find (\<lambda>t. sn_sequence t = sn_sequence s) h = Some t" by auto
  then have "t \<in> set h" "sn_sequence t = sn_sequence s" by (auto dest: find_SomeD)
  with assms(2) history_sequences_distinct [OF assms(1)] have "t = s"
    by (auto simp: distinct_map dest: inj_onD)
  with t show ?thesis by simp
qed

section \<open>Rendering\<close>

definition pane_readable :: "native_pane \<Rightarrow> bool" where
  "pane_readable pane \<longleftrightarrow>
     \<not> mutex_poisoned (pn_geometry pane) \<and> \<not> mutex_poisoned (pn_projection pane)"

text \<open>The snapshot a pane shows now, whatever its sequence number.\<close>

definition shows_now :: "'w native_env \<Rightarrow> 'w \<Rightarrow> rstr option \<Rightarrow> native_pane \<Rightarrow> screen_snapshot \<Rightarrow> bool"
  where
  "shows_now env w title pane s \<longleftrightarrow>
     sn_pane_id s = pn_pane_id pane \<and>
     shows_same s (pg_rows (mutex_value (pn_geometry pane)))
       (pg_cols (mutex_value (pn_geometry pane)))
       (ne_emulator_render env (pn_emulator pane) title w)"

lemma render_snapshot_unreadable:
  "\<not> pane_readable pane \<Longrightarrow> \<exists>e. render_snapshot env w title pane = (Inl e, pane)"
  by (auto simp: render_snapshot_def pane_readable_def pane_geometry_of_def mutex_lock_def Let_def)

lemma render_snapshot_readable:
  assumes "pane_readable pane" and "history_ok (pn_pane_id pane) (pane_history pane)"
  obtains s pane' where "render_snapshot env w title pane = (Inr s, pane')"
    and "pane_history pane' \<noteq> []" and "last (pane_history pane') = s"
    and "shows_now env w title pane s"
    and "history_ok (pn_pane_id pane) (pane_history pane')"
    and "pane' = pane\<lparr>pn_projection := mutex_set \<lparr>pj_history = pane_history pane'\<rparr>
                                         (pn_projection pane)\<rparr>"
    and "pane_history pane' = pane_history pane \<or>
         pane_history pane' = push_history s (pane_history pane) \<and>
         sn_sequence s = (if pane_history pane = [] then 1
                          else sn_sequence (last (pane_history pane)) + 1)"
proof -
  let ?g = "mutex_value (pn_geometry pane)" and ?h = "pane_history pane"
  let ?r = "ne_emulator_render env (pn_emulator pane) title w"
  let ?s = "\<lparr>sn_pane_id = pn_pane_id pane,
             sn_sequence = (if ?h = [] then 1 else sn_sequence (last ?h) + 1),
             sn_rows = pg_rows ?g, sn_cols = pg_cols ?g, sn_source = NativeEmulator,
             sn_buffer_kind = re_buffer_kind ?r, sn_surface = re_surface ?r\<rparr>"
  let ?fresh = "pane\<lparr>pn_projection :=
      mutex_set \<lparr>pj_history = push_history ?s ?h\<rparr> (pn_projection pane)\<rparr>"
  have unlocked: "\<not> mutex_poisoned (pn_projection pane)" "pane_geometry_of pane = Inr ?g"
    using assms(1) by (auto simp: pane_readable_def pane_geometry_of_def)
  show thesis
  proof (cases "?h \<noteq> [] \<and> shows_same (last ?h) (pg_rows ?g) (pg_cols ?g) ?r")
    case True
    then have "render_snapshot env w title pane = (Inr (last ?h), pane)"
      using unlocked by (simp add: render_snapshot_def pane_history_def history_back_def Let_def)
    moreover have "sn_pane_id (last ?h) = pn_pane_id pane"
      using assms(2) True by (simp add: history_ok_def)
    moreover have "pane = pane\<lparr>pn_projection := mutex_set \<lparr>pj_history = ?h\<rparr> (pn_projection pane)\<rparr>"
      by (cases "pn_projection pane") (simp add: pane_history_def mutex_set_def)
    ultimately show thesis
      using True assms(2) by (intro that [of "last ?h" pane]) (simp_all add: shows_now_def)
  next
    case False
    have "render_snapshot env w title pane = (Inr ?s, ?fresh)"
      using unlocked False
      by (auto simp: render_snapshot_def pane_history_def history_back_def Let_def)
    moreover have h: "pane_history ?fresh = push_history ?s ?h"
      by (simp add: pane_history_def)
    moreover have "push_history ?s ?h \<noteq> []" and "last (push_history ?s ?h) = ?s"
      by (simp_all add: push_history_eq keep_last_def snapshot_history_limit_def)
    moreover have "history_ok (pn_pane_id pane) (push_history ?s ?h)"
      using assms(2) by (intro wf_intro) simp_all
    ultimately show thesis
      by (intro that [of ?s ?fresh]) (simp_all add: shows_now_def shows_same_def)
  qed
qed

text \<open>Rendering twice in the same world gives the same snapshot and leaves the pane alone.\<close>

lemma render_snapshot_again:
  assumes "pane_readable pane" and "history_ok (pn_pane_id pane) (pane_history pane)"
    and "render_snapshot env w title pane = (Inr s, pane')"
  shows "render_snapshot env w title pane' = (Inr s, pane')"
proof -
  from assms(1,2) obtain s0 p0 where r: "render_snapshot env w title pane = (Inr s0, p0)"
    "pane_history p0 \<noteq> []" "last (pane_history p0) = s0" "shows_now env w title pane s0"
    and p0: "p0 = pane\<lparr>pn_projection := mutex_set \<lparr>pj_history = pane_history p0\<rparr>
                                         (pn_projection pane)\<rparr>"
    by (rule render_snapshot_readable)
  with assms(3) have eq: "s = s0" "pane' = p0" by simp_all
  obtain h where h: "p0 = pane\<lparr>pn_projection := mutex_set \<lparr>pj_history = h\<rparr> (pn_projection pane)\<rparr>"
    using p0 by blast
  then have "pane_history p0 = h" by (simp add: pane_history_def)
  then show ?thesis
    using r(2-4) assms(1) unfolding eq h
    by (simp add: render_snapshot_def pane_geometry_of_def history_back_def shows_now_def
        pane_readable_def mutex_lock_def Let_def)
qed

section \<open>Deltas\<close>

text \<open>
  A consumer that shows the snapshot a delta starts from shows the current screen after it; a
  consumer whose sequence has left the history gets the whole surface.
\<close>

lemma pane_screen_delta_current:
  assumes "pane_readable pane" and "history_ok (pn_pane_id pane) (pane_history pane)"
  obtains current pane' d where "render_snapshot env w title pane = (Inr current, pane')"
    and "pane_screen_delta env w title n pane = (Inr d, pane')"
    and "sd_from_sequence d = n" and "sd_to_sequence d = sn_sequence current"
    and "d = (if sn_sequence current = n then unchanged_from current
              else case find (\<lambda>s. sn_sequence s = n) (pane_history pane') of
                     Some previous \<Rightarrow> between previous current
                   | None \<Rightarrow> full_replace n current)"
proof -
  from assms obtain s p where r: "render_snapshot env w title pane = (Inr s, p)"
    and p: "p = pane\<lparr>pn_projection := mutex_set \<lparr>pj_history = pane_history p\<rparr>
                                         (pn_projection pane)\<rparr>"
    by (rule render_snapshot_readable)
  have np: "\<not> mutex_poisoned (pn_projection p)"
    using assms(1) by (subst p) (simp add: pane_readable_def)
  let ?d = "if sn_sequence s = n then unchanged_from s
            else case find (\<lambda>s. sn_sequence s = n) (pane_history p) of
                   Some previous \<Rightarrow> between previous s
                 | None \<Rightarrow> full_replace n s"
  have "pane_screen_delta env w title n pane = (Inr ?d, p)"
    using np by (simp add: pane_screen_delta_def r pane_history_def split: option.split)
  moreover have "sd_from_sequence ?d = n"
    by (auto split: option.split dest: find_SomeD)
  moreover have "sd_to_sequence ?d = sn_sequence s"
    by (simp split: option.split)
  ultimately show thesis using r by (intro that) simp_all
qed

lemma pane_screen_delta_applies:
  assumes "pane_readable pane" and "history_ok (pn_pane_id pane) (pane_history pane)"
    and "pane_screen_delta env w title (sn_sequence s) pane = (Inr d, pane')"
    and "\<forall>t\<in>set (pane_history pane'). deliverable t"
    and "s \<in> set (pane_history pane')" and "client_shows v s"
  shows "\<exists>v'. apply_screen_delta (Some v) d = Inr v' \<and> client_shows v' (last (pane_history pane'))"
proof -
  from assms(1,2) obtain cur p where r: "render_snapshot env w title pane = (Inr cur, p)"
    "pane_history p \<noteq> []" "last (pane_history p) = cur"
    "history_ok (pn_pane_id pane) (pane_history p)"
    by (rule render_snapshot_readable)
  from assms(1,2) obtain cur' p' d' where
    "render_snapshot env w title pane = (Inr cur', p')"
    and "pane_screen_delta env w title (sn_sequence s) pane = (Inr d', p')"
    and d': "d' = (if sn_sequence cur' = sn_sequence s then unchanged_from cur'
              else case find (\<lambda>t. sn_sequence t = sn_sequence s) (pane_history p') of
                     Some previous \<Rightarrow> between previous cur'
                   | None \<Rightarrow> full_replace (sn_sequence s) cur')"
    by (rule pane_screen_delta_current)
  with r(1) assms(3) have eq: "cur' = cur" "p' = p" "pane' = p" "d = d'" by simp_all
  have find_s: "find (\<lambda>t. sn_sequence t = sn_sequence s) (pane_history p) = Some s"
    using history_find [OF r(4)] assms(5) eq by simp
  have cur_in: "cur \<in> set (pane_history p)" using r(2,3) by auto
  show ?thesis
  proof (cases "sn_sequence cur = sn_sequence s")
    case True
    have "find (\<lambda>t. sn_sequence t = sn_sequence s) (pane_history p) = Some cur"
      using history_find [OF r(4) cur_in] unfolding True .
    with find_s have "cur = s" by (metis option.inject)
    have "d' = unchanged_from cur'"
      by (rule trans [OF d' if_P]) (simp only: eq(1) True)
    then have "d = unchanged_from cur" by (simp only: eq(1,4))
    then show ?thesis
      unfolding eq(3) r(3) using assms(6) apply_unchanged_shows \<open>cur = s\<close> by blast
  next
    case False
    have "d' = (case find (\<lambda>t. sn_sequence t = sn_sequence s) (pane_history p') of
                  Some previous \<Rightarrow> between previous cur'
                | None \<Rightarrow> full_replace (sn_sequence s) cur')"
      by (rule trans [OF d' if_not_P]) (simp only: eq(1) False not_False_eq_True)
    then have d: "d = between s cur"
      by (simp only: eq(1,2,4) find_s option.case)
    have "deliverable s" and "deliverable cur"
      using assms(4,5) cur_in unfolding eq(3) by blast+
    from apply_between [OF this assms(6)] show ?thesis
      unfolding d eq(3) r(3) using client_view_shows by blast
  qed
qed

lemma pane_screen_delta_lost:
  assumes "pane_readable pane" and "history_ok (pn_pane_id pane) (pane_history pane)"
    and "pane_screen_delta env w title n pane = (Inr d, pane')"
    and "n \<notin> sn_sequence ` set (pane_history pane')"
  shows "apply_screen_delta base d = Inr (last (pane_history pane'))"
proof -
  from assms(1,2) obtain cur p where r: "render_snapshot env w title pane = (Inr cur, p)"
    "pane_history p \<noteq> []" "last (pane_history p) = cur"
    by (rule render_snapshot_readable)
  from assms(1,2) obtain cur' p' d' where
    "render_snapshot env w title pane = (Inr cur', p')"
    and "pane_screen_delta env w title n pane = (Inr d', p')"
    and d': "d' = (if sn_sequence cur' = n then unchanged_from cur'
              else case find (\<lambda>t. sn_sequence t = n) (pane_history p') of
                     Some previous \<Rightarrow> between previous cur'
                   | None \<Rightarrow> full_replace n cur')"
    by (rule pane_screen_delta_current)
  with r(1) assms(3) have eq: "cur' = cur" "p' = p" "pane' = p" "d = d'" by simp_all
  have "sn_sequence cur \<noteq> n" using assms(4) r(2,3) eq by auto
  moreover have "find (\<lambda>t. sn_sequence t = n) (pane_history p) = None"
    using assms(4) eq by (auto simp: find_None_iff)
  ultimately show ?thesis using d' eq r(3) by simp
qed

section \<open>Input\<close>

lemma word_of_nat_u8: "n < 256 \<Longrightarrow> unat (word_of_nat n :: u8) = n"
  by (simp add: unat_of_nat)

lemma utf8_char_high_bytes:
  assumes "is_scalar c" and "128 \<le> c"
  shows "\<exists>ns. utf8_char c = map word_of_nat ns \<and> (\<forall>n\<in>set ns. 128 \<le> n \<and> n < 256)"
proof -
  have c: "c < 1114112" using assms(1) by (auto simp: is_scalar_def)
  have tail: "128 + x mod 64 < 256" for x :: nat using mod_less_divisor [of 64 x] by linarith
  consider "c < 2048" | "2048 \<le> c" "c < 65536" | "65536 \<le> c" by linarith
  then show ?thesis
  proof cases
    case 1
    then have "192 + c div 64 < 256" by (simp add: div_less_iff_less_mult)
    then show ?thesis using 1 assms(2) tail
      by (intro exI [of _ "[192 + c div 64, 128 + c mod 64]"]) (simp add: utf8_char_def)
  next
    case 2
    then have "224 + c div 4096 < 256" by (simp add: div_less_iff_less_mult)
    then show ?thesis using 2 tail
      by (intro exI [of _ "[224 + c div 4096, 128 + c div 64 mod 64, 128 + c mod 64]"])
        (simp add: utf8_char_def)
  next
    case 3
    have "240 + c div 262144 < 256" using c by (simp add: div_less_iff_less_mult)
    then show ?thesis using 3 tail
      by (intro exI [of _ "[240 + c div 262144, 128 + c div 4096 mod 64,
            128 + c div 64 mod 64, 128 + c mod 64]"]) (simp add: utf8_char_def)
  qed
qed

lemma utf8_char_big:
  assumes "is_scalar c" and "128 \<le> c" and "b \<in> set (utf8_char c)"
  shows "128 \<le> unat b"
  using utf8_char_high_bytes [OF assms(1,2)] assms(3) by (auto simp: word_of_nat_u8)

lemma utf8_char_ascii:
  assumes "is_scalar c" and "k < 128"
  shows "word_of_nat k \<in> set (utf8_char c) \<longleftrightarrow> c = k"
proof (cases "c < 128")
  case True
  have "unat (word_of_nat c :: u8) = c" "unat (word_of_nat k :: u8) = k"
    using True assms(2) by (simp_all add: word_of_nat_u8)
  then show ?thesis using True by (auto simp: utf8_char_def)
next
  case False
  have "unat (word_of_nat k :: u8) = k" using assms(2) by (simp add: word_of_nat_u8)
  then show ?thesis
    using False utf8_char_big [OF assms(1), of "word_of_nat k"] assms(2) by auto
qed

lemma utf8_encode_ascii:
  assumes "\<forall>c\<in>set tx. is_scalar c" and "k < 128"
  shows "word_of_nat k \<in> set (utf8_encode tx) \<longleftrightarrow> k \<in> set tx"
  using assms by (induction tx) (auto simp: utf8_char_ascii)

lemma normalize_windows_loop_plain:
  "13 \<notin> set tx \<Longrightarrow> 10 \<notin> set tx \<Longrightarrow> normalize_windows_loop tx = tx"
  by (induction tx rule: normalize_windows_loop.induct) auto

lemma normalize_windows_pty_input_eq:
  assumes "\<forall>c\<in>set tx. is_scalar c"
  shows "normalize_windows_pty_input tx = normalize_windows_loop tx"
proof -
  have "list_ex (\<lambda>b. b = 13 \<or> b = 10) (utf8_encode tx) \<longleftrightarrow> 13 \<in> set tx \<or> 10 \<in> set tx"
    using utf8_encode_ascii [OF assms, of 13] utf8_encode_ascii [OF assms, of 10]
    by (auto simp: list_ex_iff)
  then show ?thesis
    by (simp add: normalize_windows_pty_input_def normalize_windows_loop_plain)
qed

text \<open>
  The specification of the normalisation: the text is cut at its line breaks (\<open>CR LF\<close>, \<open>CR\<close>
  or \<open>LF\<close>) and the lines are joined with \<open>CR\<close>.
\<close>

fun text_lines :: "rstr \<Rightarrow> rstr \<Rightarrow> rstr list" where
  "text_lines acc [] = [acc]"
| "text_lines acc [c] = (if c = 13 \<or> c = 10 then [acc, []] else [acc @ [c]])"
| "text_lines acc (c # d # rest) =
     (if c = 13 \<and> d = 10 then acc # text_lines [] rest
      else if c = 13 \<or> c = 10 then acc # text_lines [] (d # rest)
      else text_lines (acc @ [c]) (d # rest))"

fun join_cr :: "rstr list \<Rightarrow> rstr" where
  "join_cr [] = []"
| "join_cr [l] = l"
| "join_cr (l # ls) = l @ 13 # join_cr ls"

lemma text_lines_nonempty [simp]: "text_lines acc tx \<noteq> []"
  by (induction acc tx rule: text_lines.induct) auto

lemma join_cr_Cons: "ls \<noteq> [] \<Longrightarrow> join_cr (l # ls) = l @ 13 # join_cr ls"
  by (cases ls) auto

lemma normalize_windows_loop_lines:
  "acc @ normalize_windows_loop tx = join_cr (text_lines acc tx)"
  by (induction acc tx rule: text_lines.induct) (auto simp: join_cr_Cons)

lemma normalize_windows_loop_no_lf: "10 \<notin> set (normalize_windows_loop tx)"
  by (induction tx rule: normalize_windows_loop.induct) (auto split: list.splits)

lemma normalize_windows_loop_no_lf_id:
  "10 \<notin> set tx \<Longrightarrow> normalize_windows_loop tx = tx"
proof (induction tx)
  case (Cons ch rest)
  then have "normalize_windows_loop (ch # rest) = ch # normalize_windows_loop rest"
    by (cases rest) auto
  then show ?case using Cons by simp
qed simp

lemma normalize_windows_loop_idem:
  "normalize_windows_loop (normalize_windows_loop tx) = normalize_windows_loop tx"
  by (rule normalize_windows_loop_no_lf_id) (rule normalize_windows_loop_no_lf)

section \<open>Resizing a pane\<close>

definition pane_working :: "native_pane \<Rightarrow> bool" where
  "pane_working pane \<longleftrightarrow>
     \<not> mutex_poisoned (pn_process pane) \<and> \<not> mutex_poisoned (pn_geometry pane)"

lemma pane_resize_fields [ids_simps]:
  assumes "pane_resize env rows cols pane w = (r, pane', w')"
  shows "pn_pane_id pane' = pn_pane_id pane" and "pane_history pane' = pane_history pane"
    and "pane_working pane' = pane_working pane" and "pane_readable pane' = pane_readable pane"
    and "pn_surface_tick pane' = pn_surface_tick pane"
  using assms
  by (auto simp: pane_resize_def pane_history_def pane_working_def pane_readable_def Let_def
      split: if_splits prod.splits sum.splits)

lemma pane_resize_geometry:
  assumes "pane_resize env rows cols pane w = (r, pane', w')"
  shows "mutex_value (pn_geometry pane') =
    (if isl r then mutex_value (pn_geometry pane) else \<lparr>pg_rows = rows, pg_cols = cols\<rparr>)"
  using assms
  by (auto simp: pane_resize_def Let_def split: if_splits prod.splits sum.splits)


text \<open>A pane whose history is in order and none of whose locks is poisoned.\<close>

definition pane_ok :: "native_pane \<Rightarrow> bool" where
  "pane_ok pane \<longleftrightarrow>
     history_ok (pn_pane_id pane) (pane_history pane) \<and> pane_readable pane \<and> pane_working pane"

lemma pane_ok_spawned:
  "finish_spawn env rows cols pty child rd wr w = (pane, w') \<Longrightarrow>
   pane_ok pane \<and> pane_history pane = [] \<and>
   mutex_value (pn_geometry pane) = \<lparr>pg_rows = rows, pg_cols = cols\<rparr>"
  by (auto simp: finish_spawn_def pane_ok_def pane_history_def history_ok_def pane_readable_def
      pane_working_def split: prod.splits)

section \<open>Properties of a pane\<close>

text \<open>
  The transcript of a pane is the end of its output: after any chunks it holds the last
  256 KiB of their concatenation, all of it while there is no more.
\<close>
theorem transcript_is_suffix:
  "transcript_bytes (fold (\<lambda>chunk t. transcript_append t chunk) chunks transcript_default) =
     keep_last max_transcript_bytes (concat chunks) \<and>
   length (transcript_bytes (fold (\<lambda>chunk t. transcript_append t chunk) chunks transcript_default)) =
     min (256 * 1024) (length (concat chunks))"
proof -
  have run: "transcript.run chunks = fold (\<lambda>chunk t. transcript_append t chunk) chunks transcript_default"
    by (simp add: transcript.run_def)
  show ?thesis
    using transcript.run_contents [of chunks]
    by (simp add: run length_keep_last max_transcript_bytes_def)
qed

text \<open>
  C21. Input for a Windows pseudo terminal: the text is cut at its line breaks (CR LF, CR or
  LF) and the lines are joined with CR; no LF is left, and doing it again changes nothing.
\<close>
theorem windows_input_normalised:
  assumes "\<forall>c\<in>set txt. is_scalar c"
  shows "normalize_windows_pty_input txt = join_cr (text_lines [] txt) \<and>
         10 \<notin> set (normalize_windows_pty_input txt) \<and>
         normalize_windows_loop (normalize_windows_pty_input txt) = normalize_windows_pty_input txt"
  using normalize_windows_loop_lines [of "[]" "txt"] normalize_windows_loop_no_lf [of "txt"]
    normalize_windows_loop_idem [of "txt"]
  by (simp only: normalize_windows_pty_input_eq [OF assms] append_Nil simp_thms)

lemma windows_input_normalised_witness:
  "normalize_windows_pty_input [97, 13, 10, 98, 10, 8364] = [97, 13, 98, 13, 8364]"
  using windows_input_normalised [of "[97, 13, 10, 98, 10, 8364]"] by (simp add: is_scalar_def)

end
