(* ===== verification/Native_Dispatch.thy ===== *)
theory Native_Dispatch
  imports Native_Pane
begin

text \<open>
  The commands of a native session on its state (\<open>engine/dispatch\<close>, \<open>layout/reflow.rs\<close>,
  \<open>layout/validation.rs\<close>), and the invariant of a session that every one of them keeps,
  whether it succeeds or fails half way.
\<close>

section \<open>Laying out a tab\<close>

fun apply_pane_layout ::
    "'w native_env \<Rightarrow> native_node \<Rightarrow> u16 \<Rightarrow> u16 \<Rightarrow> native_tab \<Rightarrow> 'w
     \<Rightarrow> (backend_error + unit) \<times> native_tab \<times> 'w" where
  "apply_pane_layout env (NLeaf p) rows cols tab w =
     (case tab_pane tab p of
        None \<Rightarrow>
          (Inl (internal_error [MText ''native pane tree references missing pane '', MPane p]),
           tab, w)
      | Some pane \<Rightarrow>
          (case pane_resize env rows cols pane w of
             (r, pane1, w1) \<Rightarrow> (r, set_pane p pane1 tab, w1)))"
| "apply_pane_layout env (NSplit d r a b) rows cols tab w =
     (let ((first_rows, first_cols), (second_rows, second_cols)) = split_partition d r rows cols
      in case apply_pane_layout env a first_rows first_cols tab w of
           (Inl e, tab1, w1) \<Rightarrow> (Inl e, tab1, w1)
         | (Inr _, tab1, w1) \<Rightarrow> apply_pane_layout env b second_rows second_cols tab1 w1)"

definition reflow_tab_layout ::
    "'w native_env \<Rightarrow> u16 \<Rightarrow> u16 \<Rightarrow> native_tab \<Rightarrow> 'w
     \<Rightarrow> (backend_error + unit) \<times> native_tab \<times> 'w" where
  "reflow_tab_layout env rows cols tab w =
     apply_pane_layout env (tb_root tab) (max rows 1) (max cols 1) tab w"

definition collect_surface_updates :: "native_session_state \<Rightarrow> pane_id \<Rightarrow> pane_id list" where
  "collect_surface_updates s p =
     (case find (\<lambda>tab. tab_contains_pane tab p) (ns_tabs s) of
        None \<Rightarrow> [] | Some tab \<Rightarrow> tab_pane_ids tab)"

definition validate_layout_override ::
    "native_tab \<Rightarrow> pane_tree_node \<Rightarrow> backend_error + unit" where
  "validate_layout_override tab root =
     (let current_panes = set (tab_pane_ids tab);
          requested_panes = collect_snapshot_pane_ids root;
          requested_unique = set requested_panes
      in if length requested_panes \<noteq> card requested_unique
         then Inl (invalid_input [MText ''layout override contains duplicate pane ids''])
         else if current_panes \<noteq> requested_unique
         then Inl (invalid_input
                [MText ''layout override must preserve the exact pane set for the target tab''])
         else Inr ())"

section \<open>Commands\<close>

text \<open>
  \<open>put_tab q tab\<close> is the write through the reference that \<open>tabs.iter_mut().find(q)\<close> returned;
  \<open>finish_reflow\<close> is the last two lines the layout commands share.
\<close>

definition put_tab ::
    "(native_tab \<Rightarrow> bool) \<Rightarrow> native_tab \<Rightarrow> native_session_state \<Rightarrow> native_session_state" where
  "put_tab q tab s = s\<lparr>ns_tabs := update_first q (\<lambda>_. tab) (ns_tabs s)\<rparr>"

definition finish_reflow ::
    "'w native_env \<Rightarrow> (native_tab \<Rightarrow> bool) \<Rightarrow> 'r \<Rightarrow> native_tab \<Rightarrow> native_session_state \<Rightarrow> 'w
     \<Rightarrow> (backend_error + 'r) \<times> native_session_state \<times> 'w" where
  "finish_reflow env q result tab s w =
     (case reflow_tab_layout env (ns_rows s) (ns_cols s) tab w of
        (Inl e, tab1, w1) \<Rightarrow> (Inl e, put_tab q tab1 s, w1)
      | (Inr _, tab1, w1) \<Rightarrow> (Inr result, put_tab q tab1 s, w1))"

definition unknown_pane :: "pane_id \<Rightarrow> backend_error" where
  "unknown_pane p = not_found [MText ''unknown pane '', MPane p]"

definition unknown_tab :: "tab_id \<Rightarrow> backend_error" where
  "unknown_tab t = not_found [MText ''unknown tab '', MTab t]"

subsection \<open>Tabs\<close>

definition dispatch_new_tab ::
    "'w native_env \<Rightarrow> new_tab_spec \<Rightarrow> native_session_state \<Rightarrow> 'w
     \<Rightarrow> (backend_error + bool) \<times> native_session_state \<times> 'w" where
  "dispatch_new_tab env spec s w =
     (case spawn_tab env (nt_title spec) (ns_launch s) (ns_rows s) (ns_cols s) w of
        (Inl e, w1) \<Rightarrow> (Inl e, s, w1)
      | (Inr tab, w1) \<Rightarrow>
          (Inr True, s\<lparr>ns_focused_tab := tb_tab_id tab, ns_tabs := ns_tabs s @ [tab]\<rparr>, w1))"

definition dispatch_focus_tab ::
    "tab_id \<Rightarrow> native_session_state \<Rightarrow> (backend_error + bool) \<times> native_session_state" where
  "dispatch_focus_tab t s =
     (if \<not> list_ex (\<lambda>tab. tb_tab_id tab = t) (ns_tabs s) then (Inl (unknown_tab t), s)
      else if ns_focused_tab s = t then (Inr False, s)
      else (Inr True, s\<lparr>ns_focused_tab := t\<rparr>))"

definition dispatch_rename_tab ::
    "tab_id \<Rightarrow> rstr \<Rightarrow> native_session_state
     \<Rightarrow> (backend_error + bool \<times> pane_id list) \<times> native_session_state" where
  "dispatch_rename_tab t title s =
     (case find (\<lambda>tab. tb_tab_id tab = t) (ns_tabs s) of
        None \<Rightarrow> (Inl (unknown_tab t), s)
      | Some tab \<Rightarrow>
          if tb_title tab = Some title then (Inr (False, []), s)
          else
            let tab1 = tab\<lparr>tb_title := Some title\<rparr>
            in (Inr (True, tab_pane_ids tab1), put_tab (\<lambda>tab. tb_tab_id tab = t) tab1 s))"

definition dispatch_close_tab ::
    "tab_id \<Rightarrow> native_session_state \<Rightarrow> (backend_error + bool) \<times> native_session_state" where
  "dispatch_close_tab t s =
     (if length (ns_tabs s) = 1
      then (Inl (invalid_input [MText ''native session must keep at least one tab'']), s)
      else
        (case position (\<lambda>tab. tb_tab_id tab = t) (ns_tabs s) of
           None \<Rightarrow> (Inl (unknown_tab t), s)
         | Some index \<Rightarrow>
             let removed_focused = (ns_focused_tab s = t);
                 s1 = s\<lparr>ns_tabs := remove_at index (ns_tabs s)\<rparr>
             in if removed_focused
                then
                  let replacement_index = min index (length (ns_tabs s1) - 1)
                  in (Inr True,
                      s1\<lparr>ns_focused_tab := tb_tab_id (ns_tabs s1 ! replacement_index)\<rparr>)
                else (Inr True, s1)))"

subsection \<open>Panes\<close>

definition dispatch_split_pane ::
    "'w native_env \<Rightarrow> split_pane_spec \<Rightarrow> native_session_state \<Rightarrow> 'w
     \<Rightarrow> (backend_error + bool) \<times> native_session_state \<times> 'w" where
  "dispatch_split_pane env spec s w =
     (let q = (\<lambda>tab. tab_contains_pane tab (sp_pane_id spec)) in
      case find q (ns_tabs s) of
        None \<Rightarrow> (Inl (unknown_pane (sp_pane_id spec)), s, w)
      | Some tab \<Rightarrow>
          (case spawn_pane env (ns_launch s) (ns_rows s) (ns_cols s) w of
             (Inl e, w1) \<Rightarrow> (Inl e, s, w1)
           | (Inr pane, w1) \<Rightarrow>
               (case split_leaf (tb_root tab) (sp_pane_id spec) (sp_direction spec)
                       (pn_pane_id pane) of
                  (done, root1) \<Rightarrow>
                    if \<not> done
                    then (Inl (unknown_pane (sp_pane_id spec)),
                          put_tab q (tab\<lparr>tb_root := root1\<rparr>) s, w1)
                    else
                      finish_reflow env q True
                        (tab\<lparr>tb_root := root1, tb_focused_pane := pn_pane_id pane,
                             tb_panes := tb_panes tab @ [pane]\<rparr>)
                        (s\<lparr>ns_focused_tab := tb_tab_id tab\<rparr>) w1)))"

definition dispatch_focus_pane ::
    "pane_id \<Rightarrow> native_session_state \<Rightarrow> (backend_error + bool) \<times> native_session_state" where
  "dispatch_focus_pane p s =
     (let q = (\<lambda>tab. tab_contains_pane tab p) in
      case find q (ns_tabs s) of
        None \<Rightarrow> (Inl (unknown_pane p), s)
      | Some tab \<Rightarrow>
          if ns_focused_tab s = tb_tab_id tab \<and> tb_focused_pane tab = p then (Inr False, s)
          else (Inr True,
                put_tab q (tab\<lparr>tb_focused_pane := p\<rparr>) (s\<lparr>ns_focused_tab := tb_tab_id tab\<rparr>)))"

definition dispatch_close_pane ::
    "'w native_env \<Rightarrow> pane_id \<Rightarrow> native_session_state \<Rightarrow> 'w
     \<Rightarrow> (backend_error + bool) \<times> native_session_state \<times> 'w" where
  "dispatch_close_pane env p s w =
     (let q = (\<lambda>tab. tab_contains_pane tab p) in
      case find q (ns_tabs s) of
        None \<Rightarrow> (Inl (unknown_pane p), s, w)
      | Some tab \<Rightarrow>
          if length (tb_panes tab) \<le> 1
          then (Inl (invalid_input [MText ''native tab must keep at least one pane'']), s, w)
          else
            (case remove_leaf (tb_root tab) p of
               None \<Rightarrow> (Inl (unknown_pane p), s, w)
             | Some new_root \<Rightarrow>
                 let tab1 = tab\<lparr>tb_root := new_root,
                       tb_panes := filter (\<lambda>pane. pn_pane_id pane \<noteq> p) (tb_panes tab)\<rparr>
                 in if tb_focused_pane tab1 = p
                    then
                      (case tab_first_pane_id tab1 of
                         None \<Rightarrow>
                           (Inl (internal_error [MText ''native tab root lost all panes'']),
                            put_tab q tab1 s, w)
                       | Some f \<Rightarrow> finish_reflow env q True (tab1\<lparr>tb_focused_pane := f\<rparr>) s w)
                    else finish_reflow env q True tab1 s w))"

subsection \<open>Layout\<close>

definition validate_resize_authority ::
    "native_tab \<Rightarrow> resize_pane_spec \<Rightarrow> pane_geometry \<Rightarrow> pane_geometry \<Rightarrow> backend_error + unit"
  where
  "validate_resize_authority tab spec desired current =
     (if pg_rows desired \<noteq> pg_rows current \<and>
         \<not> path_has_direction (tb_root tab) (rs_pane_id spec) Horizontal
      then Inl (unsupported
        [MText ''native pane resize cannot independently change rows in current layout'']
        ResizeAuthorityExternal)
      else if pg_cols desired \<noteq> pg_cols current \<and>
         \<not> path_has_direction (tb_root tab) (rs_pane_id spec) Vertical
      then Inl (unsupported
        [MText ''native pane resize cannot independently change cols in current layout'']
        ResizeAuthorityExternal)
      else Inr ())"

definition dispatch_resize_pane ::
    "'w native_env \<Rightarrow> resize_pane_spec \<Rightarrow> native_session_state \<Rightarrow> 'w
     \<Rightarrow> (backend_error + bool) \<times> native_session_state \<times> 'w" where
  "dispatch_resize_pane env spec s w =
     (let p = rs_pane_id spec; q = (\<lambda>tab. tab_contains_pane tab p) in
      case find q (ns_tabs s) of
        None \<Rightarrow> (Inl (unknown_pane p), s, w)
      | Some tab \<Rightarrow>
          (case tab_pane tab p of
             None \<Rightarrow> (Inl (internal_error [MText ''native tab lost pane '', MPane p]), s, w)
           | Some pane \<Rightarrow>
               (case pane_geometry_of pane of
                  Inl e \<Rightarrow> (Inl e, s, w)
                | Inr current \<Rightarrow>
                    if pg_rows current = rs_rows spec \<and> pg_cols current = rs_cols spec
                    then (Inr False, s, w)
                    else if length (tb_panes tab) = 1
                    then
                      (case pane_resize env (rs_rows spec) (rs_cols spec) pane w of
                         (Inl e, pane1, w1) \<Rightarrow>
                           (Inl e, put_tab q (set_pane p pane1 tab) s, w1)
                       | (Inr _, pane1, w1) \<Rightarrow>
                           (Inr True, put_tab q (set_pane p pane1 tab) s, w1))
                    else
                      let desired = \<lparr>pg_rows = max (rs_rows spec) 1,
                                     pg_cols = max (rs_cols spec) 1\<rparr>
                      in case validate_resize_authority tab spec desired current of
                           Inl e \<Rightarrow> (Inl e, s, w)
                         | Inr _ \<Rightarrow>
                             (case resize_target (tb_root tab) p desired (ns_rows s) (ns_cols s) of
                                (outcome, root1) \<Rightarrow>
                                  let tab1 = tab\<lparr>tb_root := root1\<rparr>
                                  in if \<not> lo_changed outcome
                                     then (Inr False, put_tab q tab1 s, w)
                                     else finish_reflow env q True tab1 s w))))"

definition dispatch_override_layout ::
    "'w native_env \<Rightarrow> override_layout_spec \<Rightarrow> native_session_state \<Rightarrow> 'w
     \<Rightarrow> (backend_error + bool \<times> pane_id list) \<times> native_session_state \<times> 'w" where
  "dispatch_override_layout env spec s w =
     (let q = (\<lambda>tab. tb_tab_id tab = ol_tab_id spec) in
      case find q (ns_tabs s) of
        None \<Rightarrow> (Inl (unknown_tab (ol_tab_id spec)), s, w)
      | Some tab \<Rightarrow>
          if node_snapshot (tb_root tab) = ol_root spec then (Inr (False, []), s, w)
          else
            (case validate_layout_override tab (ol_root spec) of
               Inl e \<Rightarrow> (Inl e, s, w)
             | Inr _ \<Rightarrow>
                 let tab1 = tab\<lparr>tb_root := from_snapshot (ol_root spec)\<rparr>
                 in if \<not> tab_contains_pane tab1 (tb_focused_pane tab1)
                    then
                      (case tab_first_pane_id tab1 of
                         None \<Rightarrow>
                           (Inl (internal_error [MText ''native layout override lost all panes'']),
                            put_tab q tab1 s, w)
                       | Some f \<Rightarrow>
                           finish_reflow env q (True, tab_pane_ids tab1)
                             (tab1\<lparr>tb_focused_pane := f\<rparr>) s w)
                    else finish_reflow env q (True, tab_pane_ids tab1) tab1 s w))"

subsection \<open>Input\<close>

definition input_pane :: "native_session_state \<Rightarrow> pane_id \<Rightarrow> backend_error + native_pane" where
  "input_pane s p = ok_or (find_map (\<lambda>tab. tab_pane tab p) (ns_tabs s)) (unknown_pane p)"

definition write_to_pane ::
    "'w native_env \<Rightarrow> native_session_state \<Rightarrow> pane_id \<Rightarrow> rstr \<Rightarrow> 'w \<Rightarrow> (backend_error + bool) \<times> 'w"
  where
  "write_to_pane env s p data w =
     (case input_pane s p of
        Inl e \<Rightarrow> (Inl e, w)
      | Inr pane \<Rightarrow>
          (case write_text env pane data w of
             (Inl e, w1) \<Rightarrow> (Inl e, w1) | (Inr _, w1) \<Rightarrow> (Inr False, w1)))"

definition write_paste_to_pane ::
    "'w native_env \<Rightarrow> native_session_state \<Rightarrow> pane_id \<Rightarrow> rstr \<Rightarrow> 'w \<Rightarrow> (backend_error + bool) \<times> 'w"
  where
  "write_paste_to_pane env s p data w =
     (case input_pane s p of
        Inl e \<Rightarrow> (Inl e, w)
      | Inr pane \<Rightarrow>
          (case write_paste env pane data w of
             (Inl e, w1) \<Rightarrow> (Inl e, w1) | (Inr _, w1) \<Rightarrow> (Inr False, w1)))"

definition dispatch_send_input ::
    "'w native_env \<Rightarrow> send_input_spec \<Rightarrow> native_session_state \<Rightarrow> 'w \<Rightarrow> (backend_error + bool) \<times> 'w"
  where
  "dispatch_send_input env spec s w = write_to_pane env s (si_pane_id spec) (si_data spec) w"

definition dispatch_send_paste ::
    "'w native_env \<Rightarrow> send_paste_spec \<Rightarrow> native_session_state \<Rightarrow> 'w \<Rightarrow> (backend_error + bool) \<times> 'w"
  where
  "dispatch_send_paste env spec s w = write_paste_to_pane env s (pp_pane_id spec) (pp_data spec) w"

end
