(* ===== verification/Native_Invariant.thy ===== *)
theory Native_Invariant
  imports Native_Dispatch
begin

text \<open>
  The invariant of a native session and its preservation by every dispatch function, on success
  and on every error path, and what a successful layout leaves in the panes.
\<close>

section \<open>Fresh identifiers\<close>

text \<open>
  What the engine relies on of UUID generation: \<open>used w\<close> are the identifiers handed out so far;
  as long as they are not all 128-bit values, a new one is not among them, and nothing else
  hands out any. The lemmas that need a fresh identifier assume that the world they end in has
  not used up all of them.
\<close>

definition issues_fresh_ids :: "'w native_env \<Rightarrow> ('w \<Rightarrow> uuid set) \<Rightarrow> bool" where
  "issues_fresh_ids env used \<longleftrightarrow>
     (\<forall>w. used w \<noteq> UNIV \<longrightarrow> fst (ne_new_uuid env w) \<notin> used w) \<and>
     (\<forall>w. used (snd (ne_new_uuid env w)) = insert (fst (ne_new_uuid env w)) (used w)) \<and>
     (\<forall>r c w. used (snd (ne_open_pty env r c w)) = used w) \<and>
     (\<forall>h cmd w. used (snd (ne_spawn_command env h cmd w)) = used w) \<and>
     (\<forall>h w. used (snd (ne_clone_reader env h w)) = used w) \<and>
     (\<forall>h w. used (snd (ne_take_writer env h w)) = used w) \<and>
     (\<forall>h r c w. used (snd (ne_resize_pty env h r c w)) = used w) \<and>
     (\<forall>h bs w. used (snd (ne_write_all env h bs w)) = used w) \<and>
     (\<forall>h w. used (snd (ne_flush env h w)) = used w) \<and>
     (\<forall>rd w. used (ne_spawn_thread env rd w) = used w) \<and>
     (\<forall>v w. used (snd (ne_watch_channel env v w)) = used w) \<and>
     (\<forall>h v w. used (ne_watch_send env h v w) = used w) \<and>
     (\<forall>n w. used (snd (ne_broadcast_channel env n w)) = used w) \<and>
     (\<forall>r c w. used (snd (ne_emulator_new env r c w)) = used w) \<and>
     (\<forall>h r c w. used (ne_emulator_resize env h r c w) = used w)"

lemma fresh_new_uuid:
  assumes "issues_fresh_ids env used" and "ne_new_uuid env w = (u, w')"
  shows "used w' = insert u (used w)" and "used w' \<noteq> UNIV \<Longrightarrow> u \<notin> used w"
proof -
  show i: "used w' = insert u (used w)"
    using assms unfolding issues_fresh_ids_def by (metis fst_conv snd_conv)
  have f: "used w \<noteq> UNIV \<Longrightarrow> u \<notin> used w"
    using assms unfolding issues_fresh_ids_def by (metis fst_conv)
  show "used w' \<noteq> UNIV \<Longrightarrow> u \<notin> used w" using i f by auto
qed

lemma fresh_bump_watch:
  "issues_fresh_ids env used \<Longrightarrow> used (bump_watch env h w) = used w"
  by (simp add: issues_fresh_ids_def bump_watch_def)

lemma fresh_pane_resize:
  assumes "issues_fresh_ids env used" and "pane_resize env rows cols pane w = (r, pane', w')"
  shows "used w' = used w"
proof -
  have "used (snd (ne_resize_pty env h rows cols w)) = used w" for h
    using assms(1) by (simp add: issues_fresh_ids_def)
  then have pty: "ne_resize_pty env h rows cols w = (x, w1) \<Longrightarrow> used w1 = used w" for h x w1
    by (metis snd_conv)
  have em: "used (ne_emulator_resize env h rows cols w1) = used w1" for h w1
    using assms(1) by (simp add: issues_fresh_ids_def)
  show ?thesis
    using assms(2)
    by (auto simp: pane_resize_def Let_def mark_surface_dirty_def fresh_bump_watch [OF assms(1)] em
        dest: pty split: if_splits prod.splits sum.splits)
qed

lemma fresh_spawn_pane:
  assumes "issues_fresh_ids env used" and "spawn_pane env launch rows cols w = (r, w')"
    and room: "used w' \<noteq> UNIV"
  shows "case r of Inl e \<Rightarrow> used w' = used w
         | Inr pane \<Rightarrow> id_uuid (pn_pane_id pane) \<notin> used w \<and>
                       used w' = insert (id_uuid (pn_pane_id pane)) (used w) \<and>
                       pane_ok pane \<and>
                       mutex_value (pn_geometry pane) = \<lparr>pg_rows = rows, pg_cols = cols\<rparr>"
proof -
  note f = assms(1) [unfolded issues_fresh_ids_def]
  have pty: "ne_open_pty env rows cols w0 = (x, w1) \<Longrightarrow> used w1 = used w0" for x w0 w1
    using f by (metis snd_conv)
  have cmd: "ne_spawn_command env h c w0 = (x, w1) \<Longrightarrow> used w1 = used w0" for h c x w0 w1
    using f by (metis snd_conv)
  have reader: "ne_clone_reader env h w0 = (x, w1) \<Longrightarrow> used w1 = used w0" for h x w0 w1
    using f by (metis snd_conv)
  have writer: "ne_take_writer env h w0 = (x, w1) \<Longrightarrow> used w1 = used w0" for h x w0 w1
    using f by (metis snd_conv)
  have em: "ne_emulator_new env rows cols w0 = (x, w1) \<Longrightarrow> used w1 = used w0" for x w0 w1
    using f by (metis snd_conv)
  note uid = fresh_new_uuid [OF assms(1)]
  have bc: "ne_broadcast_channel env n w0 = (x, w1) \<Longrightarrow> used w1 = used w0" for n x w0 w1
    using f by (metis snd_conv)
  have wc: "ne_watch_channel env v w0 = (x, w1) \<Longrightarrow> used w1 = used w0" for v x w0 w1
    using f by (metis snd_conv)
  have th: "used (ne_spawn_thread env rd w0) = used w0" for rd w0
    using assms(1) by (simp add: issues_fresh_ids_def)
  have fin: "id_uuid (pn_pane_id pane) \<notin> used w0 \<and>
      used w1 = insert (id_uuid (pn_pane_id pane)) (used w0) \<and> pane_ok pane \<and>
      mutex_value (pn_geometry pane) = \<lparr>pg_rows = rows, pg_cols = cols\<rparr>"
    if "finish_spawn env rows cols pty child rd wr w0 = (pane, w1)" "used w1 \<noteq> UNIV"
    for pty child rd wr w0 pane w1
  proof -
    obtain e wa where a: "ne_emulator_new env rows cols w0 = (e, wa)" by (metis surj_pair)
    obtain u wb where b: "ne_new_uuid env wa = (u, wb)" by (metis surj_pair)
    obtain t wc where c: "ne_broadcast_channel env 1024 wb = (t, wc)" by (metis surj_pair)
    obtain k wd where d: "ne_watch_channel env 0 wc = (k, wd)" by (metis surj_pair)
    have "pn_pane_id pane = Id u" "used w1 = used wd"
      using that by (auto simp: finish_spawn_def a b c d th)
    then show ?thesis
      using em [OF a] uid [OF b] bc [OF c] wc [OF d] pane_ok_spawned [OF that(1)] that(2) by simp
  qed
  obtain r1 w1 where 1: "ne_open_pty env rows cols w = (r1, w1)" by (metis surj_pair)
  show ?thesis
  proof (cases r1)
    case (Inl e)
    then show ?thesis using assms(2) pty [OF 1] 1 by (auto simp: spawn_pane_def)
  next
    case pt: (Inr h)
    obtain r2 w2 where 2: "ne_spawn_command env h (build_command env launch) w1 = (r2, w2)"
      by (metis surj_pair)
    obtain r3 w3 where 3: "ne_clone_reader env h w2 = (r3, w3)" by (metis surj_pair)
    obtain r4 w4 where 4: "ne_take_writer env h w3 = (r4, w4)" by (metis surj_pair)
    note eqs = pty [OF 1] cmd [OF 2] reader [OF 3] writer [OF 4]
    consider e where "r2 = Inl e" | c e where "r2 = Inr c" "r3 = Inl e"
      | c d e where "r2 = Inr c" "r3 = Inr d" "r4 = Inl e"
      | c d e where "r2 = Inr c" "r3 = Inr d" "r4 = Inr e"
      by (metis sum.exhaust)
    then show ?thesis
    proof cases
      case (4 c d e)
      obtain pane w5 where 5: "finish_spawn env rows cols h c d e w4 = (pane, w5)"
        by (metis surj_pair)
      have "r = Inr pane" "w' = w5"
        using assms(2) pt 4 by (simp_all add: spawn_pane_def 1 2 3 \<open>ne_take_writer env h w3 = _\<close> 5)
      then show ?thesis using fin [OF 5] eqs room by simp
    qed (use assms(2) pt 1 2 3 4 eqs in \<open>auto simp: spawn_pane_def\<close>)
  qed
qed

lemma spawn_pane_used:
  assumes "issues_fresh_ids env used" and "spawn_tab env title launch rows cols w = (r, w')"
    and "used w' \<noteq> UNIV"
  obtains r1 w1 where "spawn_pane env launch rows cols w = (r1, w1)" and "used w1 \<noteq> UNIV"
proof -
  obtain r1 w1 where p: "spawn_pane env launch rows cols w = (r1, w1)" by (metis surj_pair)
  obtain u w2 where u: "ne_new_uuid env w1 = (u, w2)" by (metis surj_pair)
  have "used w' = used w1 \<or> used w' = used w2"
    using assms(2) p u by (cases r1) (auto simp: spawn_tab_def)
  then have "used w1 \<noteq> UNIV"
    using fresh_new_uuid(1) [OF assms(1) u] assms(3) by auto
  then show thesis using p by (rule that [rotated])
qed

lemma fresh_spawn_tab:
  assumes "issues_fresh_ids env used" and "spawn_tab env title launch rows cols w = (r, w')"
    and "used w' \<noteq> UNIV"
  shows "case r of Inl e \<Rightarrow> used w' = used w
         | Inr tab \<Rightarrow>
             (\<exists>pane. tb_panes tab = [pane] \<and> tb_root tab = NLeaf (pn_pane_id pane) \<and>
                tb_focused_pane tab = pn_pane_id pane \<and> pane_ok pane \<and>
                mutex_value (pn_geometry pane) = \<lparr>pg_rows = rows, pg_cols = cols\<rparr> \<and>
                id_uuid (pn_pane_id pane) \<notin> used w \<and> id_uuid (tb_tab_id tab) \<notin> used w \<and>
                used w' = insert (id_uuid (tb_tab_id tab))
                            (insert (id_uuid (pn_pane_id pane)) (used w)))"
proof -
  obtain r1 w1 where p: "spawn_pane env launch rows cols w = (r1, w1)" and room: "used w1 \<noteq> UNIV"
    by (rule spawn_pane_used [OF assms])
  obtain u w2 where u: "ne_new_uuid env w1 = (u, w2)" by (metis surj_pair)
  note pane = fresh_spawn_pane [OF assms(1) p room]
  show ?thesis
  proof (cases r1)
    case (Inl e)
    then show ?thesis using assms(2) p pane by (auto simp: spawn_tab_def)
  next
    case (Inr x)
    then have "r = Inr \<lparr>tb_tab_id = Id u, tb_title = title, tb_focused_pane = pn_pane_id x,
        tb_root = NLeaf (pn_pane_id x), tb_panes = [x]\<rparr>" and "w' = w2"
      using assms(2) p u by (simp_all add: spawn_tab_def)
    then show ?thesis
      using fresh_new_uuid [OF assms(1) u] pane Inr assms(3) by auto
  qed
qed

section \<open>The invariant\<close>

definition tab_ok :: "native_tab \<Rightarrow> bool" where
  "tab_ok tab \<longleftrightarrow>
     distinct (node_panes (tb_root tab)) \<and>
     distinct (map pn_pane_id (tb_panes tab)) \<and>
     set (map pn_pane_id (tb_panes tab)) = set (node_panes (tb_root tab)) \<and>
     tb_focused_pane tab \<in> set (node_panes (tb_root tab)) \<and>
     ratios_ok (tb_root tab) \<and>
     (\<forall>pane\<in>set (tb_panes tab). pane_ok pane)"

definition tab_leaves :: "native_tab \<Rightarrow> pane_id list" where
  "tab_leaves tab = node_panes (tb_root tab)"

definition session_tab_ids :: "native_session_state \<Rightarrow> tab_id list" where
  "session_tab_ids s = map tb_tab_id (ns_tabs s)"

definition session_panes :: "native_session_state \<Rightarrow> pane_id list" where
  "session_panes s = concat (map tab_leaves (ns_tabs s))"

definition session_ok :: "native_session_state \<Rightarrow> bool" where
  "session_ok s \<longleftrightarrow>
     ns_focused_tab s \<in> set (session_tab_ids s) \<and>
     distinct (session_tab_ids s) \<and>
     distinct (session_panes s) \<and>
     (\<forall>tab\<in>set (ns_tabs s). tab_ok tab)"

definition ids_used :: "native_session_state \<Rightarrow> uuid set \<Rightarrow> bool" where
  "ids_used s U \<longleftrightarrow>
     id_uuid ` set (session_tab_ids s) \<subseteq> U \<and> id_uuid ` set (session_panes s) \<subseteq> U"

definition session_inv :: "('w \<Rightarrow> uuid set) \<Rightarrow> native_session_state \<Rightarrow> 'w \<Rightarrow> bool" where
  "session_inv used s w \<longleftrightarrow> session_ok s \<and> ids_used s (used w)"

lemma session_ids_focus [simp]:
  "session_tab_ids (s\<lparr>ns_focused_tab := f\<rparr>) = session_tab_ids s"
  "session_panes (s\<lparr>ns_focused_tab := f\<rparr>) = session_panes s"
  by (simp_all add: session_tab_ids_def session_panes_def)

lemma session_ok_nonempty: "session_ok s \<Longrightarrow> ns_tabs s \<noteq> []"
  by (auto simp: session_ok_def session_tab_ids_def)

text \<open>Replacing the tab a search found.\<close>

lemma put_tab_split:
  assumes "find q (ns_tabs s) = Some tab"
  obtains ys zs where "ns_tabs s = ys @ tab # zs"
    and "\<And>tab' f. ns_tabs (put_tab q tab' (s\<lparr>ns_focused_tab := f\<rparr>)) = ys @ tab' # zs"
proof -
  from find_split [OF assms] obtain ys zs where "ns_tabs s = ys @ tab # zs" "q tab"
    "\<forall>y\<in>set ys. \<not> q y" by blast
  then show thesis by (intro that) (auto simp: put_tab_def update_first_split)
qed

lemma put_tab_inv:
  assumes "session_inv used s w" and "find q (ns_tabs s) = Some tab"
    and "tb_tab_id tab' = tb_tab_id tab" and "tab_ok tab'"
    and "f \<in> set (session_tab_ids s)" and "used w \<subseteq> used w'"
    and "\<And>p. p \<in> set (tab_leaves tab') \<Longrightarrow> p \<notin> set (tab_leaves tab) \<Longrightarrow>
             p \<notin> set (session_panes s) \<and> id_uuid p \<in> used w'"
  shows "session_inv used (put_tab q tab' (s\<lparr>ns_focused_tab := f\<rparr>)) w'"
proof -
  from put_tab_split [OF assms(2)] obtain ys zs where tabs: "ns_tabs s = ys @ tab # zs"
    and tabs': "ns_tabs (put_tab q tab' (s\<lparr>ns_focused_tab := f\<rparr>)) = ys @ tab' # zs" by metis
  let ?s' = "put_tab q tab' (s\<lparr>ns_focused_tab := f\<rparr>)"
  have ids: "session_tab_ids ?s' = session_tab_ids s"
    by (simp add: session_tab_ids_def tabs tabs' assms(3))
  have foc: "ns_focused_tab ?s' = f" by (simp add: put_tab_def)
  have P: "session_panes s = concat (map tab_leaves ys) @ tab_leaves tab @ concat (map tab_leaves zs)"
    by (simp add: session_panes_def tabs)
  have P': "session_panes ?s' =
      concat (map tab_leaves ys) @ tab_leaves tab' @ concat (map tab_leaves zs)"
    by (simp add: session_panes_def tabs')
  have d: "distinct (session_panes s)" and d': "distinct (tab_leaves tab')"
    using assms(1,4) by (simp_all add: session_inv_def session_ok_def tab_ok_def tab_leaves_def)
  have "p \<notin> set (concat (map tab_leaves ys)) \<and> p \<notin> set (concat (map tab_leaves zs))"
    if "p \<in> set (tab_leaves tab')" for p
  proof (cases "p \<in> set (tab_leaves tab)")
    case True
    then show ?thesis using d unfolding P distinct_append set_append by blast
  next
    case False
    then show ?thesis using assms(7) [OF that] unfolding P set_append by blast
  qed
  then have "set (tab_leaves tab') \<inter> set (concat (map tab_leaves zs)) = {}"
    and "set (concat (map tab_leaves ys)) \<inter> set (tab_leaves tab') = {}" by blast+
  then have "distinct (session_panes ?s')"
    using d d' unfolding P P' distinct_append set_append by blast
  moreover have "id_uuid ` set (session_panes ?s') \<subseteq> used w'"
  proof
    fix u assume "u \<in> id_uuid ` set (session_panes ?s')"
    then obtain p where p: "p \<in> set (session_panes ?s')" "u = id_uuid p" by blast
    show "u \<in> used w'"
    proof (cases "p \<in> set (session_panes s)")
      case True
      then show ?thesis
        using assms(1,6) p(2) by (auto simp: session_inv_def ids_used_def)
    next
      case False
      then show ?thesis using p assms(7) [of p] by (auto simp: P P')
    qed
  qed
  moreover have "\<forall>tab\<in>set (ns_tabs ?s'). tab_ok tab"
    using assms(1,4) by (simp add: session_inv_def session_ok_def tabs tabs')
  ultimately show ?thesis
    using assms(1,5,6) by (auto simp: session_inv_def session_ok_def ids_used_def ids foc)
qed

lemma put_tab_inv_same:
  assumes "session_inv used s w" and "find q (ns_tabs s) = Some tab"
    and "tb_tab_id tab' = tb_tab_id tab" and "tab_ok tab'" and "used w \<subseteq> used w'"
    and "set (tab_leaves tab') \<subseteq> set (tab_leaves tab)"
  shows "session_inv used (put_tab q tab' s) w'"
proof -
  have "ns_focused_tab s \<in> set (session_tab_ids s)"
    using assms(1) by (simp add: session_inv_def session_ok_def)
  from put_tab_inv [OF assms(1-4) this assms(5)] assms(6)
  have "session_inv used (put_tab q tab' (s\<lparr>ns_focused_tab := ns_focused_tab s\<rparr>)) w'" by blast
  then show ?thesis by simp
qed

lemma found_tab_ok:
  assumes "session_inv used s w" and "find q (ns_tabs s) = Some tab"
  shows "tab_ok tab" and "tb_tab_id tab \<in> set (session_tab_ids s)" and "q tab"
    and "set (tab_leaves tab) \<subseteq> set (session_panes s)"
  using assms find_SomeD [OF assms(2)]
  by (auto simp: session_inv_def session_ok_def session_tab_ids_def session_panes_def)

section \<open>What a layout keeps\<close>

text \<open>
  A layout touches the geometry of the panes and nothing else of the tab; \<open>pane_core\<close> is the
  rest of a pane the invariants speak about.
\<close>

definition pane_core :: "native_pane \<Rightarrow> pane_id \<times> screen_snapshot list \<times> bool \<times> bool" where
  "pane_core pane = (pn_pane_id pane, pane_history pane, pane_working pane, pane_readable pane)"

definition same_tab :: "native_tab \<Rightarrow> native_tab \<Rightarrow> bool" where
  "same_tab tab tab1 \<longleftrightarrow>
     tb_tab_id tab1 = tb_tab_id tab \<and> tb_title tab1 = tb_title tab \<and>
     tb_focused_pane tab1 = tb_focused_pane tab \<and> tb_root tab1 = tb_root tab \<and>
     map pane_core (tb_panes tab1) = map pane_core (tb_panes tab)"

lemma same_tab_refl [simp]: "same_tab tab tab"
  by (simp add: same_tab_def)

lemma same_tab_trans: "same_tab a b \<Longrightarrow> same_tab b c \<Longrightarrow> same_tab a c"
  by (simp add: same_tab_def)

lemma same_tab_ids:
  assumes "same_tab tab tab1"
  shows "map pn_pane_id (tb_panes tab1) = map pn_pane_id (tb_panes tab)"
proof -
  have "map pn_pane_id ps = map fst (map pane_core ps)" for ps
    by (simp add: pane_core_def comp_def)
  then show ?thesis using assms by (simp only: same_tab_def)
qed

lemma same_tab_ok [wf_intro]:
  assumes "same_tab tab tab1" and "tab_ok tab"
  shows "tab_ok tab1"
proof -
  have core: "(\<forall>pane\<in>set ps. pane_ok pane) \<longleftrightarrow>
      (\<forall>(p, h, wk, rd)\<in>set (map pane_core ps). history_ok p h \<and> rd \<and> wk)" for ps
    by (simp add: pane_core_def pane_ok_def)
  have "\<forall>pane\<in>set (tb_panes tab1). pane_ok pane"
    using assms unfolding core same_tab_def tab_ok_def by metis
  then show ?thesis
    using assms same_tab_ids [OF assms(1)] by (simp add: tab_ok_def same_tab_def)
qed

lemma set_pane_same:
  assumes "tab_pane tab p = Some pane" and "pane_core pane1 = pane_core pane"
  shows "same_tab tab (set_pane p pane1 tab)"
proof -
  from find_split [OF assms(1) [unfolded tab_pane_def]] obtain ys zs
    where "tb_panes tab = ys @ pane # zs" "pn_pane_id pane = p" "\<forall>y\<in>set ys. pn_pane_id y \<noteq> p"
    by blast
  then show ?thesis
    using assms(2) by (simp add: same_tab_def set_pane_def update_first_split)
qed

lemma pane_resize_core:
  "pane_resize env rows cols pane w = (r, pane1, w1) \<Longrightarrow> pane_core pane1 = pane_core pane"
  by (simp add: pane_core_def pane_resize_fields)

lemma apply_pane_layout_keeps:
  assumes "apply_pane_layout env node rows cols tab w = (r, tab1, w1)"
  shows "same_tab tab tab1 \<and> (issues_fresh_ids env used \<longrightarrow> used w1 = used w)"
  using assms
proof (induction node arbitrary: rows cols tab w r tab1 w1)
  case (NLeaf p)
  show ?case
  proof (cases "tab_pane tab p")
    case None
    then show ?thesis using NLeaf by simp
  next
    case (Some pane)
    obtain r0 pane1 w0 where res: "pane_resize env rows cols pane w = (r0, pane1, w0)"
      by (metis surj_pair)
    then have "tab1 = set_pane p pane1 tab" "w1 = w0" using NLeaf Some by auto
    then show ?thesis
      using set_pane_same [OF Some pane_resize_core [OF res]] fresh_pane_resize [OF _ res]
      by simp
  qed
next
  case (NSplit d ratio a b)
  obtain r1 c1 r2 c2 where sp: "split_partition d ratio rows cols = ((r1, c1), (r2, c2))"
    by (metis surj_pair)
  obtain x tabx wx where a: "apply_pane_layout env a r1 c1 tab w = (x, tabx, wx)"
    by (metis surj_pair)
  show ?case
  proof (cases x)
    case (Inl e)
    then show ?thesis using NSplit.prems NSplit.IH(1) [OF a] sp a by simp
  next
    case (Inr u)
    then have "apply_pane_layout env b r2 c2 tabx wx = (r, tab1, w1)"
      using NSplit.prems sp a by simp
    from NSplit.IH(2) [OF this] NSplit.IH(1) [OF a] show ?thesis
      using same_tab_trans by simp blast
  qed
qed

lemma finish_reflow_inv:
  assumes "issues_fresh_ids env used" and "session_inv used s w0" and "find q (ns_tabs s) = Some tab0"
    and "tb_tab_id tab = tb_tab_id tab0" and "tab_ok tab"
    and "f \<in> set (session_tab_ids s)" and "used w0 \<subseteq> used w"
    and "\<And>p. p \<in> set (tab_leaves tab) \<Longrightarrow> p \<notin> set (tab_leaves tab0) \<Longrightarrow>
             p \<notin> set (session_panes s) \<and> id_uuid p \<in> used w"
    and "finish_reflow env q x tab (s\<lparr>ns_focused_tab := f\<rparr>) w = (r, s', w')"
  shows "session_inv used s' w' \<and> used w' = used w"
proof -
  obtain r1 tab1 w1 where
    fl: "reflow_tab_layout env (ns_rows s) (ns_cols s) tab w = (r1, tab1, w1)"
    by (metis surj_pair)
  from apply_pane_layout_keeps [OF fl [unfolded reflow_tab_layout_def]] assms(1)
  have st: "same_tab tab tab1" and u: "used w1 = used w" by simp_all
  have "session_inv used (put_tab q tab1 (s\<lparr>ns_focused_tab := f\<rparr>)) w1"
  proof (rule put_tab_inv [OF assms(2,3)])
    show "tb_tab_id tab1 = tb_tab_id tab0" using st assms(4) by (simp add: same_tab_def)
    show "tab_ok tab1" using st assms(5) by (rule same_tab_ok)
    show "used w0 \<subseteq> used w1" using assms(7) u by simp
    show "p \<notin> set (session_panes s) \<and> id_uuid p \<in> used w1"
      if "p \<in> set (tab_leaves tab1)" "p \<notin> set (tab_leaves tab0)" for p
      using that assms(8) [of p] st u by (simp add: same_tab_def tab_leaves_def)
  qed (rule assms(6))
  moreover have "s' = put_tab q tab1 (s\<lparr>ns_focused_tab := f\<rparr>)" and "w' = w1"
    using assms(9) fl by (auto simp: finish_reflow_def split: sum.splits)
  ultimately show ?thesis using u by simp
qed

lemma finish_reflow_inv_same:
  assumes "issues_fresh_ids env used" and "session_inv used s w" and "find q (ns_tabs s) = Some tab0"
    and "tb_tab_id tab = tb_tab_id tab0" and "tab_ok tab"
    and "set (tab_leaves tab) \<subseteq> set (tab_leaves tab0)"
    and "finish_reflow env q x tab s w = (r, s', w')"
  shows "session_inv used s' w' \<and> used w' = used w"
proof -
  have f: "ns_focused_tab s \<in> set (session_tab_ids s)"
    using assms(2) by (simp add: session_inv_def session_ok_def)
  have eq: "finish_reflow env q x tab (s\<lparr>ns_focused_tab := ns_focused_tab s\<rparr>) w = (r, s', w')"
    using assms(7) by simp
  show ?thesis
    by (rule finish_reflow_inv [OF assms(1-5) f subset_refl _ eq]) (use assms(6) in blast)
qed

section \<open>Every command keeps the invariant\<close>

lemma dispatch_new_tab_inv:
  assumes "issues_fresh_ids env used" and "session_inv used s w"
    and "dispatch_new_tab env spec s w = (r, s', w')" and "used w' \<noteq> UNIV"
  shows "session_inv used s' w' \<and> used w \<subseteq> used w'"
proof -
  obtain r1 w1 where sp: "spawn_tab env (nt_title spec) (ns_launch s) (ns_rows s) (ns_cols s) w =
      (r1, w1)" by (metis surj_pair)
  have "w' = w1" using assms(3) sp by (cases r1) (simp_all add: dispatch_new_tab_def)
  then have room: "used w1 \<noteq> UNIV" using assms(4) by simp
  note fresh = fresh_spawn_tab [OF assms(1) sp room]
  show ?thesis
  proof (cases r1)
    case (Inl e)
    then show ?thesis
      using assms(2,3) sp fresh by (simp add: dispatch_new_tab_def session_inv_def)
  next
    case (Inr tab)
    then obtain pane where tab: "tb_panes tab = [pane]" "tb_root tab = NLeaf (pn_pane_id pane)"
        "tb_focused_pane tab = pn_pane_id pane" "pane_ok pane"
      and new: "id_uuid (pn_pane_id pane) \<notin> used w" "id_uuid (tb_tab_id tab) \<notin> used w"
      and u: "used w1 = insert (id_uuid (tb_tab_id tab)) (insert (id_uuid (pn_pane_id pane)) (used w))"
      using fresh by auto
    have s': "s' = s\<lparr>ns_focused_tab := tb_tab_id tab, ns_tabs := ns_tabs s @ [tab]\<rparr>" "w' = w1"
      using assms(3) sp Inr by (simp_all add: dispatch_new_tab_def)
    have "tab_ok tab" by (simp add: tab_ok_def tab)
    moreover have "tb_tab_id tab \<notin> set (session_tab_ids s)"
      and "pn_pane_id pane \<notin> set (session_panes s)"
      using assms(2) new by (auto simp: session_inv_def ids_used_def)
    moreover have "session_tab_ids s' = session_tab_ids s @ [tb_tab_id tab]"
      and "session_panes s' = session_panes s @ [pn_pane_id pane]"
      by (simp_all add: s' session_tab_ids_def session_panes_def tab_leaves_def tab)
    ultimately show ?thesis
      using assms(2) u by (auto simp: session_inv_def session_ok_def ids_used_def s')
  qed
qed

lemma dispatch_focus_tab_inv:
  assumes "session_inv used s w" and "dispatch_focus_tab t s = (r, s')"
  shows "session_inv used s' w"
proof -
  have "list_ex (\<lambda>tab. tb_tab_id tab = t) (ns_tabs s) \<longleftrightarrow> t \<in> set (session_tab_ids s)"
    by (auto simp: list_ex_iff session_tab_ids_def)
  then have "s' = s \<or> s' = s\<lparr>ns_focused_tab := t\<rparr> \<and> t \<in> set (session_tab_ids s)"
    using assms(2) by (auto simp: dispatch_focus_tab_def split: if_splits)
  then show ?thesis
    using assms(1) by (auto simp: session_inv_def session_ok_def ids_used_def)
qed

lemma dispatch_rename_tab_inv:
  assumes "session_inv used s w" and "dispatch_rename_tab t title s = (r, s')"
  shows "session_inv used s' w"
proof (cases "find (\<lambda>tab. tb_tab_id tab = t) (ns_tabs s)")
  case None
  then show ?thesis using assms by (simp add: dispatch_rename_tab_def)
next
  case (Some tab)
  have ok: "tab_ok tab" using found_tab_ok [OF assms(1) Some] by simp
  have "session_inv used (put_tab (\<lambda>tab. tb_tab_id tab = t) (tab\<lparr>tb_title := Some title\<rparr>) s) w"
    using ok by (intro put_tab_inv_same [OF assms(1) Some]) (simp_all add: tab_ok_def tab_leaves_def)
  then show ?thesis
    using assms Some by (auto simp: dispatch_rename_tab_def Let_def split: if_splits)
qed

lemma dispatch_focus_pane_inv:
  assumes "session_inv used s w" and "dispatch_focus_pane p s = (r, s')"
  shows "session_inv used s' w"
proof (cases "find (\<lambda>tab. tab_contains_pane tab p) (ns_tabs s)")
  case None
  then show ?thesis using assms by (simp add: dispatch_focus_pane_def)
next
  case (Some tab)
  note ok = found_tab_ok [OF assms(1) Some]
  have "session_inv used (put_tab (\<lambda>tab. tab_contains_pane tab p) (tab\<lparr>tb_focused_pane := p\<rparr>)
      (s\<lparr>ns_focused_tab := tb_tab_id tab\<rparr>)) w"
    using ok
    by (intro put_tab_inv [OF assms(1) Some]) (simp_all add: tab_ok_def tab_leaves_def tab_contains_pane_def)
  then show ?thesis
    using assms Some by (auto simp: dispatch_focus_pane_def Let_def split: if_splits)
qed

lemma dispatch_close_tab_inv:
  assumes "session_inv used s w" and "dispatch_close_tab t s = (r, s')"
  shows "session_inv used s' w"
proof (cases "length (ns_tabs s) = 1 \<or> t \<notin> set (session_tab_ids s)")
  case True
  then have "s' = s"
    using assms(2)
    by (auto simp: dispatch_close_tab_def session_tab_ids_def position_Some_iff
        split: option.splits if_splits)
  then show ?thesis using assms(1) by simp
next
  case False
  have ok: "session_ok s" and used: "ids_used s (used w)"
    using assms(1) by (simp_all add: session_inv_def)
  obtain i where i: "position (\<lambda>tab. tb_tab_id tab = t) (ns_tabs s) = Some i"
    using False position_None_iff [of "\<lambda>tab. tb_tab_id tab = t" "ns_tabs s"]
    by (auto simp: session_tab_ids_def)
  then have il: "i < length (ns_tabs s)" and it: "tb_tab_id (ns_tabs s ! i) = t"
    by (simp_all add: position_Some_iff)
  let ?tabs = "remove_at i (ns_tabs s)"
  let ?s1 = "s\<lparr>ns_tabs := ?tabs\<rparr>"
  have len: "length ?tabs = length (ns_tabs s) - 1" and ne: "?tabs \<noteq> []"
    using il False by (simp_all add: length_remove_at flip: length_greater_0_conv)
  have sub: "set ?tabs \<subseteq> set (ns_tabs s)" by (rule set_remove_at_subset)
  have ids: "session_tab_ids ?s1 = remove_at i (session_tab_ids s)"
    by (simp add: session_tab_ids_def map_remove_at)
  have "set (session_tab_ids ?s1) = set (session_tab_ids s) - {t}"
    unfolding ids using ok il it
    by (subst set_remove_at_distinct) (simp_all add: session_ok_def session_tab_ids_def)
  moreover have "distinct (session_tab_ids ?s1)"
    unfolding ids using ok by (intro distinct_remove_at) (simp add: session_ok_def)
  moreover have "distinct (session_panes ?s1)"
  proof -
    have "ns_tabs s = take i (ns_tabs s) @ ns_tabs s ! i # drop (Suc i) (ns_tabs s)"
      by (rule id_take_nth_drop [OF il])
    then have "session_panes s = concat (map tab_leaves (take i (ns_tabs s))) @
        tab_leaves (ns_tabs s ! i) @ concat (map tab_leaves (drop (Suc i) (ns_tabs s)))"
      unfolding session_panes_def by (metis concat.simps(2) concat_append list.simps(9) map_append)
    moreover have "session_panes ?s1 = concat (map tab_leaves (take i (ns_tabs s))) @
        concat (map tab_leaves (drop (Suc i) (ns_tabs s)))"
      by (simp add: session_panes_def remove_at_def)
    moreover have "distinct (session_panes s)" using ok by (simp add: session_ok_def)
    ultimately show ?thesis by auto
  qed
  moreover have "id_uuid ` set (session_panes ?s1) \<subseteq> used w"
  proof -
    have "set (session_panes ?s1) \<subseteq> set (session_panes s)"
      using sub by (auto simp: session_panes_def)
    then show ?thesis using used unfolding ids_used_def by blast
  qed
  ultimately have inv1: "session_inv used (?s1\<lparr>ns_focused_tab := f\<rparr>) w"
    if "f \<in> set (session_tab_ids ?s1)" for f
    using that ok used sub
    by (auto simp: session_inv_def session_ok_def ids_used_def)
  have repl: "tb_tab_id (?tabs ! min i (length ?tabs - 1)) \<in> set (session_tab_ids ?s1)"
  proof -
    have "min i (length ?tabs - 1) < length ?tabs"
      using ne by (cases ?tabs) (simp_all add: min_def)
    then show ?thesis by (auto simp: session_tab_ids_def intro!: imageI nth_mem)
  qed
  show ?thesis
  proof (cases "ns_focused_tab s = t")
    case True
    then have "s' = ?s1\<lparr>ns_focused_tab := tb_tab_id (?tabs ! min i (length ?tabs - 1))\<rparr>"
      using assms(2) False i by (simp add: dispatch_close_tab_def Let_def)
    then show ?thesis using inv1 [OF repl] by simp
  next
    case other: False
    then have "s' = ?s1"
      using assms(2) False i by (simp add: dispatch_close_tab_def Let_def)
    then have eq: "s' = ?s1\<lparr>ns_focused_tab := ns_focused_tab s\<rparr>" by simp
    have "ns_focused_tab s \<in> set (session_tab_ids ?s1)"
      using ok other \<open>set (session_tab_ids ?s1) = _\<close> by (simp add: session_ok_def)
    then show ?thesis unfolding eq by (rule inv1)
  qed
qed

lemma finish_reflow_used:
  assumes "issues_fresh_ids env used" and "finish_reflow env q x tab s w = (r, s', w')"
  shows "used w' = used w"
proof -
  obtain r1 tab1 w1 where
    fl: "reflow_tab_layout env (ns_rows s) (ns_cols s) tab w = (r1, tab1, w1)"
    by (metis surj_pair)
  have "used w1 = used w"
    using apply_pane_layout_keeps [OF fl [unfolded reflow_tab_layout_def]] assms(1) by simp
  then show ?thesis using assms(2) fl by (auto simp: finish_reflow_def split: sum.splits)
qed

lemma split_pane_used:
  assumes "issues_fresh_ids env used" and "dispatch_split_pane env spec s w = (r, s', w')"
    and "find (\<lambda>tab. tab_contains_pane tab (sp_pane_id spec)) (ns_tabs s) = Some tab"
    and "spawn_pane env (ns_launch s) (ns_rows s) (ns_cols s) w = (r1, w1)"
  shows "used w' = used w1"
proof (cases r1)
  case (Inr pane)
  obtain found root1 where sl: "split_leaf (tb_root tab) (sp_pane_id spec) (sp_direction spec)
      (pn_pane_id pane) = (found, root1)" by (metis surj_pair)
  show ?thesis
  proof (cases found)
    case True
    then show ?thesis
      using assms(2-4) Inr sl
      by (simp add: dispatch_split_pane_def Let_def) (erule finish_reflow_used [OF assms(1)])
  qed (use assms Inr sl in \<open>simp add: dispatch_split_pane_def\<close>)
qed (use assms in \<open>simp add: dispatch_split_pane_def\<close>)

lemma dispatch_split_pane_inv:
  assumes "issues_fresh_ids env used" and "session_inv used s w"
    and "dispatch_split_pane env spec s w = (r, s', w')" and "used w' \<noteq> UNIV"
  shows "session_inv used s' w' \<and> used w \<subseteq> used w'"
proof (cases "find (\<lambda>tab. tab_contains_pane tab (sp_pane_id spec)) (ns_tabs s)")
  case None
  then show ?thesis using assms(2,3) by (simp add: dispatch_split_pane_def)
next
  case (Some tab)
  note ok = found_tab_ok [OF assms(2) Some]
  obtain r1 w1 where sp: "spawn_pane env (ns_launch s) (ns_rows s) (ns_cols s) w = (r1, w1)"
    by (metis surj_pair)
  have room: "used w1 \<noteq> UNIV"
    using split_pane_used [OF assms(1,3) Some sp] assms(4) by simp
  note fresh = fresh_spawn_pane [OF assms(1) sp room]
  show ?thesis
  proof (cases r1)
    case (Inl e)
    then show ?thesis
      using assms(2,3) Some sp fresh by (simp add: dispatch_split_pane_def session_inv_def)
  next
    case (Inr pane)
    let ?n = "pn_pane_id pane" and ?t = "sp_pane_id spec"
    have new: "id_uuid ?n \<notin> used w" "used w1 = insert (id_uuid ?n) (used w)"
      "pane_ok pane" using fresh Inr by simp_all
    obtain found root1 where sl: "split_leaf (tb_root tab) ?t (sp_direction spec) ?n = (found, root1)"
      by (metis surj_pair)
    have target: "?t \<in> set (node_panes (tb_root tab))"
      using ok(3) by (simp add: tab_contains_pane_def)
    have "found" using split_leaf_found [of "tb_root tab" ?t "sp_direction spec" ?n] target sl by simp
    have panes1: "node_panes root1 = insert_after ?t ?n (node_panes (tb_root tab))"
      using split_leaf_panes [of "tb_root tab" ?t "sp_direction spec" ?n] sl by simp
    have notin: "?n \<notin> set (session_panes s)"
      using assms(2) new(1) by (auto simp: session_inv_def ids_used_def)
    then have notin_tab: "?n \<notin> set (node_panes (tb_root tab))"
      using ok(4) by (auto simp: tab_leaves_def)
    let ?tab1 = "tab\<lparr>tb_root := root1, tb_focused_pane := ?n, tb_panes := tb_panes tab @ [pane]\<rparr>"
    have "ratios_ok root1"
      using ratios_ok_split_leaf [of "tb_root tab" ?t "sp_direction spec" ?n] ok(1) sl
      by (simp add: tab_ok_def)
    then have tab1: "tab_ok ?tab1"
      using ok(1) notin_tab target new(3)
      by (auto simp: tab_ok_def panes1 distinct_insert_after set_insert_after)
    have eq: "finish_reflow env (\<lambda>tab. tab_contains_pane tab ?t) True ?tab1
        (s\<lparr>ns_focused_tab := tb_tab_id tab\<rparr>) w1 = (r, s', w')"
      using assms(3) Some sp Inr sl \<open>found\<close> by (simp add: dispatch_split_pane_def)
    have "session_inv used s' w' \<and> used w' = used w1"
    proof (rule finish_reflow_inv [OF assms(1,2) Some _ tab1 ok(2) _ _ eq])
      show "p \<notin> set (session_panes s) \<and> id_uuid p \<in> used w1"
        if "p \<in> set (tab_leaves ?tab1)" "p \<notin> set (tab_leaves tab)" for p
        using that notin new(2) target by (auto simp: tab_leaves_def panes1 set_insert_after)
    qed (use new(2) in auto)
    then show ?thesis using new(2) by auto
  qed
qed

lemma dispatch_close_pane_inv:
  assumes "issues_fresh_ids env used" and "session_inv used s w"
    and "dispatch_close_pane env p s w = (r, s', w')"
  shows "session_inv used s' w' \<and> used w' = used w"
proof (cases "find (\<lambda>tab. tab_contains_pane tab p) (ns_tabs s)")
  case None
  then show ?thesis using assms(2,3) by (simp add: dispatch_close_pane_def)
next
  case (Some tab)
  note ok = found_tab_ok [OF assms(2) Some]
  show ?thesis
  proof (cases "length (tb_panes tab) \<le> 1 \<or> remove_leaf (tb_root tab) p = None")
    case True
    then show ?thesis
      using assms(2,3) Some
      by (cases "length (tb_panes tab) \<le> 1") (auto simp: dispatch_close_pane_def Let_def)
  next
    case False
    then obtain root1 where rm: "remove_leaf (tb_root tab) p = Some root1" by auto
    let ?tab1 = "tab\<lparr>tb_root := root1, tb_panes := filter (\<lambda>pane. pn_pane_id pane \<noteq> p) (tb_panes tab)\<rparr>"
    let ?f = "if tb_focused_pane tab = p then hd (node_panes root1) else tb_focused_pane tab"
    have leaves: "node_panes root1 = filter (\<lambda>q. q \<noteq> p) (node_panes (tb_root tab))"
      by (rule remove_leaf_panes [OF rm])
    have "?f \<in> set (node_panes root1)"
      using ok(1) hd_in_set [OF node_panes_nonempty [of root1]] by (auto simp: tab_ok_def leaves)
    moreover have "map pn_pane_id (tb_panes ?tab1) =
        filter (\<lambda>q. q \<noteq> p) (map pn_pane_id (tb_panes tab))"
      by (simp add: filter_map comp_def)
    ultimately have tab1: "tab_ok (?tab1\<lparr>tb_focused_pane := ?f\<rparr>)"
      using ok(1) ratios_ok_remove_leaf [OF _ rm] by (auto simp: tab_ok_def leaves)
    have "finish_reflow env (\<lambda>tab. tab_contains_pane tab p) True (?tab1\<lparr>tb_focused_pane := ?f\<rparr>) s w
        = (r, s', w')"
      using assms(3) Some False rm
      by (auto simp: dispatch_close_pane_def Let_def tab_first_pane_id_def node_first_pane_id_eq)
    from finish_reflow_inv_same [OF assms(1,2) Some _ tab1 _ this]
    show ?thesis by (auto simp: tab_leaves_def leaves)
  qed
qed

lemma dispatch_override_layout_inv:
  assumes "issues_fresh_ids env used" and "session_inv used s w"
    and "dispatch_override_layout env spec s w = (r, s', w')"
  shows "session_inv used s' w' \<and> used w' = used w"
proof (cases "find (\<lambda>tab. tb_tab_id tab = ol_tab_id spec) (ns_tabs s)")
  case None
  then show ?thesis using assms(2,3) by (simp add: dispatch_override_layout_def)
next
  case (Some tab)
  note ok = found_tab_ok [OF assms(2) Some]
  show ?thesis
  proof (cases "node_snapshot (tb_root tab) = ol_root spec \<or>
      isl (validate_layout_override tab (ol_root spec))")
    case True
    then show ?thesis
      using assms(2,3) Some
      by (cases "node_snapshot (tb_root tab) = ol_root spec")
        (auto simp: dispatch_override_layout_def Let_def split: sum.splits)
  next
    case False
    then have valid: "validate_layout_override tab (ol_root spec) = Inr ()"
      by (cases "validate_layout_override tab (ol_root spec)") auto
    then have dist: "distinct (snapshot_panes (ol_root spec))"
      and panes: "set (snapshot_panes (ol_root spec)) = set (node_panes (tb_root tab))"
      by (auto simp: validate_layout_override_def Let_def tab_pane_ids_def card_distinct
          split: if_splits)
    let ?tab1 = "tab\<lparr>tb_root := from_snapshot (ol_root spec)\<rparr>"
    have "tab_contains_pane ?tab1 (tb_focused_pane ?tab1)"
      using ok(1) panes by (simp add: tab_contains_pane_def tab_ok_def)
    then have eq: "finish_reflow env (\<lambda>tab. tb_tab_id tab = ol_tab_id spec)
        (True, tab_pane_ids ?tab1) ?tab1 s w = (r, s', w')"
      using assms(3) Some False valid by (simp add: dispatch_override_layout_def Let_def)
    have "tab_ok ?tab1"
      using ok(1) dist panes ratios_ok_from_snapshot by (simp add: tab_ok_def)
    from finish_reflow_inv_same [OF assms(1,2) Some _ this _ eq]
    show ?thesis by (simp add: tab_leaves_def panes)
  qed
qed

lemma dispatch_resize_pane_inv:
  assumes "issues_fresh_ids env used" and "session_inv used s w"
    and "dispatch_resize_pane env spec s w = (r, s', w')"
  shows "session_inv used s' w' \<and> used w' = used w"
proof -
  let ?p = "rs_pane_id spec"
  let ?q = "\<lambda>tab. tab_contains_pane tab ?p"
  have unchanged: "s' = s \<Longrightarrow> w' = w \<Longrightarrow> ?thesis" using assms(2) by simp
  show ?thesis
  proof (cases "find ?q (ns_tabs s)")
    case None
    then show ?thesis using assms(3) unchanged by (simp add: dispatch_resize_pane_def)
  next
    case (Some tab)
    note ok = found_tab_ok [OF assms(2) Some]
    show ?thesis
    proof (cases "tab_pane tab ?p")
      case None
      then show ?thesis using assms(3) unchanged Some by (simp add: dispatch_resize_pane_def)
    next
      case pane: (Some pane)
      show ?thesis
      proof (cases "pane_geometry_of pane")
        case (Inl e)
        then show ?thesis using assms(3) unchanged Some pane by (simp add: dispatch_resize_pane_def)
      next
        case (Inr g)
        let ?desired = "\<lparr>pg_rows = max (rs_rows spec) 1, pg_cols = max (rs_cols spec) 1\<rparr>"
        obtain outcome root1 where
          rt: "resize_target (tb_root tab) ?p ?desired (ns_rows s) (ns_cols s) = (outcome, root1)"
          by (metis surj_pair)
        let ?tab1 = "tab\<lparr>tb_root := root1\<rparr>"
        have root1: "root1 = snd (resize_target_with_policy (tb_root tab) ?p ?desired
            (ns_rows s) (ns_cols s) True True)"
          using rt by (simp add: resize_target_def)
        have leaves: "node_panes root1 = node_panes (tb_root tab)"
          unfolding root1 by (rule resize_keeps_panes)
        have tab1: "tab_ok ?tab1"
          using ok(1) ratios_ok_resize [of "tb_root tab"] unfolding root1 by (simp add: tab_ok_def)
        obtain r0 pane0 w0 where
          pr: "pane_resize env (rs_rows spec) (rs_cols spec) pane w = (r0, pane0, w0)"
          by (metis surj_pair)
        have u0: "used w0 = used w" by (rule fresh_pane_resize [OF assms(1) pr])
        consider (same) "pg_rows g = rs_rows spec" "pg_cols g = rs_cols spec"
          | (single) "\<not> (pg_rows g = rs_rows spec \<and> pg_cols g = rs_cols spec)"
              "length (tb_panes tab) = 1"
          | (denied) "\<not> (pg_rows g = rs_rows spec \<and> pg_cols g = rs_cols spec)"
              "length (tb_panes tab) \<noteq> 1" "isl (validate_resize_authority tab spec ?desired g)"
          | (noop) "\<not> (pg_rows g = rs_rows spec \<and> pg_cols g = rs_cols spec)"
              "length (tb_panes tab) \<noteq> 1" "\<not> isl (validate_resize_authority tab spec ?desired g)"
              "\<not> lo_changed outcome"
          | (layout) "\<not> (pg_rows g = rs_rows spec \<and> pg_cols g = rs_cols spec)"
              "length (tb_panes tab) \<noteq> 1" "\<not> isl (validate_resize_authority tab spec ?desired g)"
              "lo_changed outcome"
          by blast
        then show ?thesis
        proof cases
          case same
          then show ?thesis
            using assms(3) unchanged Some pane Inr by (simp add: dispatch_resize_pane_def Let_def)
        next
          case single
          have st: "same_tab tab (set_pane ?p pane0 tab)"
            using set_pane_same [OF pane pane_resize_core [OF pr]] .
          have "s' = put_tab ?q (set_pane ?p pane0 tab) s" "w' = w0"
            using assms(3) Some pane Inr single pr
            by (auto simp: dispatch_resize_pane_def Let_def split: sum.splits)
          moreover have "session_inv used (put_tab ?q (set_pane ?p pane0 tab) s) w0"
            using st ok(1) u0
            by (intro put_tab_inv_same [OF assms(2) Some])
              (auto simp: same_tab_def tab_leaves_def intro: same_tab_ok [OF st])
          ultimately show ?thesis using u0 by simp
        next
          case denied
          then obtain e where "validate_resize_authority tab spec ?desired g = Inl e"
            by (auto simp: isl_def)
          then have "s' = s" "w' = w"
            using denied(1,2) assms(3) Some pane Inr
            by (auto simp: dispatch_resize_pane_def Let_def split: if_splits)
          then show ?thesis by (rule unchanged)
        next
          case noop
          then obtain u where v: "validate_resize_authority tab spec ?desired g = Inr u"
            by (metis sum.collapse(2))
          have "s' = put_tab ?q ?tab1 s" "w' = w"
            using assms(3) Some pane Inr noop(1,2,4) rt v
            by (auto simp: dispatch_resize_pane_def Let_def)
          moreover have "session_inv used (put_tab ?q ?tab1 s) w"
            using tab1 by (intro put_tab_inv_same [OF assms(2) Some]) (simp_all add: tab_leaves_def leaves)
          ultimately show ?thesis by simp
        next
          case layout
          then obtain u where v: "validate_resize_authority tab spec ?desired g = Inr u"
            by (metis sum.collapse(2))
          then have "finish_reflow env ?q True ?tab1 s w = (r, s', w')"
            using assms(3) Some pane Inr layout(1,2,4) rt v
            by (auto simp: dispatch_resize_pane_def Let_def)
          from finish_reflow_inv_same [OF assms(1,2) Some _ tab1 _ this]
          show ?thesis by (simp add: tab_leaves_def leaves)
        qed
      qed
    qed
  qed
qed

section \<open>The sizes a layout leaves\<close>

definition shown_geometry :: "native_tab \<Rightarrow> pane_id \<Rightarrow> pane_geometry option" where
  "shown_geometry tab p =
     map_option (\<lambda>pane. mutex_value (pn_geometry pane)) (tab_pane tab p)"

lemma tab_pane_set_pane:
  assumes "tab_pane tab p = Some pane" and "pn_pane_id pane1 = p"
  shows "tab_pane (set_pane p pane1 tab) q = (if q = p then Some pane1 else tab_pane tab q)"
proof -
  from find_split [OF assms(1) [unfolded tab_pane_def]] obtain ys zs
    where s: "tb_panes tab = ys @ pane # zs" "pn_pane_id pane = p" "\<forall>y\<in>set ys. pn_pane_id y \<noteq> p"
    by blast
  have app: "find P (us @ v # vs) = (case find P us of Some x \<Rightarrow> Some x
      | None \<Rightarrow> if P v then Some v else find P vs)" for P us and v :: native_pane and vs
    by (induction us) auto
  have none: "find (\<lambda>pane. pn_pane_id pane = p) ys = None"
    using s(3) by (simp add: find_None_iff)
  show ?thesis
    using s assms(2) none
    by (auto simp: tab_pane_def set_pane_def update_first_split app split: option.split)
qed

lemma apply_pane_layout_sizes:
  assumes "apply_pane_layout env node rows cols tab w = (Inr u, tab1, w1)"
    and "distinct (node_panes node)"
  shows "shown_geometry tab1 p =
    (case map_of (pane_sizes node rows cols) p of
       Some g \<Rightarrow> Some g | None \<Rightarrow> shown_geometry tab p)"
  using assms
proof (induction node arbitrary: rows cols tab w u tab1 w1)
  case (NLeaf q)
  then obtain pane where pane: "tab_pane tab q = Some pane"
    by (auto split: option.splits)
  obtain r0 pane1 w0 where res: "pane_resize env rows cols pane w = (r0, pane1, w0)"
    by (metis surj_pair)
  have tab1: "tab1 = set_pane q pane1 tab" and "r0 = Inr u" using NLeaf pane res by auto
  then have g: "mutex_value (pn_geometry pane1) = \<lparr>pg_rows = rows, pg_cols = cols\<rparr>"
    using pane_resize_geometry [OF res] by simp
  have "pn_pane_id pane = q" using pane by (auto simp: tab_pane_def dest: find_SomeD)
  then have "pn_pane_id pane1 = q" using pane_resize_fields(1) [OF res] by simp
  from tab_pane_set_pane [OF pane this] show ?case
    by (simp add: shown_geometry_def tab1 g)
next
  case (NSplit d ratio a b)
  obtain r1 c1 r2 c2 where sp: "split_partition d ratio rows cols = ((r1, c1), (r2, c2))"
    by (metis surj_pair)
  obtain x tabx wx where a: "apply_pane_layout env a r1 c1 tab w = (x, tabx, wx)"
    by (metis surj_pair)
  obtain v where x: "x = Inr v" using NSplit.prems(1) sp a by (cases x) auto
  have b: "apply_pane_layout env b r2 c2 tabx wx = (Inr u, tab1, w1)"
    using NSplit.prems(1) sp a x by simp
  have da: "distinct (node_panes a)" and db: "distinct (node_panes b)"
    and disj: "set (node_panes a) \<inter> set (node_panes b) = {}" using NSplit.prems(2) by auto
  have dom: "map_of (pane_sizes t r c) q \<noteq> None \<longleftrightarrow> q \<in> set (node_panes t)" for t r c q
    by (simp add: map_of_eq_None_iff image_set [symmetric] del: image_set flip: set_map)
  show ?case
    using NSplit.IH(1) [OF a [unfolded x] da] NSplit.IH(2) [OF b db] dom [of a r1 c1 p]
      dom [of b r2 c2 p] disj
    by (auto simp: sp map_add_def split: option.splits)
qed

text \<open>Every pane of a tab has the size its place in the tree gives it.\<close>

definition laid_out :: "u16 \<Rightarrow> u16 \<Rightarrow> native_tab \<Rightarrow> bool" where
  "laid_out rows cols tab \<longleftrightarrow>
     (\<forall>(p, g)\<in>set (pane_sizes (tb_root tab) (max rows 1) (max cols 1)).
        shown_geometry tab p = Some g)"

lemma finish_reflow_sizes:
  assumes d: "distinct (node_panes (tb_root tab))" and "finish_reflow env q x tab s w = (Inr y, s', w')"
  obtains tab1 where "s' = put_tab q tab1 s" and "same_tab tab tab1"
    and "laid_out (ns_rows s) (ns_cols s) tab1" and "y = x"
proof -
  obtain r1 tab1 w1 where
    fl: "reflow_tab_layout env (ns_rows s) (ns_cols s) tab w = (r1, tab1, w1)"
    by (metis surj_pair)
  have r1: "r1 = Inr ()" and s': "s' = put_tab q tab1 s" and y: "y = x"
    using assms(2) fl by (cases r1; simp add: finish_reflow_def)+
  have layout: "apply_pane_layout env (tb_root tab) (max (ns_rows s) 1) (max (ns_cols s) 1) tab w =
      (Inr (), tab1, w1)" using fl r1 by (simp add: reflow_tab_layout_def)
  have st: "same_tab tab tab1" using apply_pane_layout_keeps [OF layout] by simp
  have "shown_geometry tab1 p = Some g"
    if "(p, g) \<in> set (pane_sizes (tb_root tab) (max (ns_rows s) 1) (max (ns_cols s) 1))" for p g
  proof -
    have "map_of (pane_sizes (tb_root tab) (max (ns_rows s) 1) (max (ns_cols s) 1)) p = Some g"
      using that d by (intro map_of_is_SomeI) simp_all
    then show ?thesis using apply_pane_layout_sizes [OF layout d, of p] by simp
  qed
  then have "laid_out (ns_rows s) (ns_cols s) tab1"
    using st unfolding laid_out_def same_tab_def by auto
  then show thesis using s' st y by (intro that) simp_all
qed

text \<open>
  \<open>relaid s s'\<close>: every tab of \<open>s'\<close> is a tab of \<open>s\<close> or has been laid out at the size of the session.
\<close>

definition relaid :: "native_session_state \<Rightarrow> native_session_state \<Rightarrow> bool" where
  "relaid s s' \<longleftrightarrow> ns_rows s' = ns_rows s \<and> ns_cols s' = ns_cols s \<and>
     (\<forall>tab\<in>set (ns_tabs s'). tab \<in> set (ns_tabs s) \<or> laid_out (ns_rows s) (ns_cols s) tab)"

lemma finish_reflow_relaid:
  assumes run: "finish_reflow env q x tab s0 w = (Inr y, s', w')" and "session_ok s'"
    and s0: "s0 = s\<lparr>ns_focused_tab := f\<rparr>" and found: "find q (ns_tabs s) = Some t0"
  shows "relaid s s'"
proof -
  obtain r1 tab1 w1 where
    fl: "reflow_tab_layout env (ns_rows s0) (ns_cols s0) tab w = (r1, tab1, w1)"
    by (metis surj_pair)
  have s': "s' = put_tab q tab1 s0"
    using run fl by (cases r1; simp add: finish_reflow_def)
  have "tab1 \<in> set (ns_tabs s')"
    using update_first_found [OF found, of "\<lambda>_. tab1"] by (simp add: s' put_tab_def s0)
  then have "tab_ok tab1" using assms(2) by (simp add: session_ok_def)
  moreover have "same_tab tab tab1"
    by (rule apply_pane_layout_keeps [OF fl [unfolded reflow_tab_layout_def], THEN conjunct1])
  ultimately have d: "distinct (node_panes (tb_root tab))"
    by (simp add: tab_ok_def same_tab_def)
  obtain tab2 where t2: "s' = put_tab q tab2 s0" "laid_out (ns_rows s0) (ns_cols s0) tab2"
    using finish_reflow_sizes [OF d run] by metis
  show ?thesis
    using t2(2) set_update_first [of q "\<lambda>_. tab2" "ns_tabs s"]
    by (auto simp: relaid_def t2(1) put_tab_def s0)
qed

lemma relaid_same [simp]: "relaid s s"
  by (simp add: relaid_def)

lemma finish_reflow_relaid_same:
  assumes "finish_reflow env q x tab s w = (Inr y, s', w')" and "session_ok s'"
    and "find q (ns_tabs s) = Some t0"
  shows "relaid s s'"
  by (rule finish_reflow_relaid [OF assms(1,2) _ assms(3), of "ns_focused_tab s"]) simp

lemma split_pane_relaid:
  assumes "dispatch_split_pane env spec s w = (Inr c, s', w')" and "session_ok s'"
  shows "relaid s s'"
proof -
  obtain tab where found: "find (\<lambda>tab. tab_contains_pane tab (sp_pane_id spec)) (ns_tabs s) = Some tab"
    using assms(1) by (cases "find (\<lambda>tab. tab_contains_pane tab (sp_pane_id spec)) (ns_tabs s)")
      (auto simp: dispatch_split_pane_def)
  show ?thesis
    using assms(1) found
    by (auto simp: dispatch_split_pane_def Let_def split: sum.splits prod.splits if_splits
        intro: finish_reflow_relaid [OF _ assms(2) _ found])
qed

lemma close_pane_relaid:
  assumes "dispatch_close_pane env p s w = (Inr c, s', w')" and "session_ok s'"
  shows "relaid s s'"
proof -
  obtain tab where found: "find (\<lambda>tab. tab_contains_pane tab p) (ns_tabs s) = Some tab"
    using assms(1) by (cases "find (\<lambda>tab. tab_contains_pane tab p) (ns_tabs s)")
      (auto simp: dispatch_close_pane_def)
  show ?thesis
    using assms(1) found
    by (auto simp: dispatch_close_pane_def Let_def split: option.splits if_splits
        intro: finish_reflow_relaid_same [OF _ assms(2) found])
qed

lemma override_layout_relaid:
  assumes "dispatch_override_layout env spec s w = (Inr c, s', w')" and "session_ok s'"
  shows "relaid s s'"
proof -
  obtain tab where found: "find (\<lambda>tab. tb_tab_id tab = ol_tab_id spec) (ns_tabs s) = Some tab"
    using assms(1) by (cases "find (\<lambda>tab. tb_tab_id tab = ol_tab_id spec) (ns_tabs s)")
      (auto simp: dispatch_override_layout_def)
  show ?thesis
    using assms(1) found
    by (auto simp: dispatch_override_layout_def Let_def split: option.splits if_splits sum.splits
        intro: finish_reflow_relaid_same [OF _ assms(2) found])
qed

section \<open>Rendering keeps a pane in order\<close>

lemma render_snapshot_ok:
  assumes "pane_ok pane"
  obtains s pane' where "render_snapshot env w title pane = (Inr s, pane')" and "pane_ok pane'"
    and "pn_pane_id pane' = pn_pane_id pane" and "shows_now env w title pane s"
    and "pane_history pane' \<noteq> []" and "last (pane_history pane') = s"
proof -
  have "pane_readable pane" and "history_ok (pn_pane_id pane) (pane_history pane)"
    using assms by (simp_all add: pane_ok_def)
  then obtain s pane' where r: "render_snapshot env w title pane = (Inr s, pane')"
    "pane_history pane' \<noteq> []" "last (pane_history pane') = s" "shows_now env w title pane s"
    "history_ok (pn_pane_id pane) (pane_history pane')"
    and p: "pane' = pane\<lparr>pn_projection := mutex_set \<lparr>pj_history = pane_history pane'\<rparr>
                                         (pn_projection pane)\<rparr>"
    by (rule render_snapshot_readable)
  have id: "pn_pane_id pane' = pn_pane_id pane" by (subst p) simp
  moreover have "pane_readable pane'" and "pane_working pane'"
    using assms by (subst p, simp add: pane_ok_def pane_readable_def pane_working_def)+
  ultimately have "pane_ok pane'" using r(5) by (simp add: pane_ok_def)
  then show thesis using r id by (intro that) simp_all
qed

end
