(* ===== verification/Native_Engine.thy ===== *)
theory Native_Engine
  imports Native_Invariant "HOL-Library.AList"
begin

text \<open>
  The native session engine (\<open>engine/commands.rs\<close>, \<open>engine/snapshots.rs\<close>,
  \<open>engine/lifecycle.rs\<close>, \<open>engine/state_access.rs\<close>, \<open>engine/subscriptions.rs\<close>), the attached
  session that dispatches commands to it and the backend that registers engines
  (\<open>application\<close>). The engine is a lock around the session state; reachable states are those a
  sequence of calls, reads and foreign steps of the world leads to.
\<close>

section \<open>The engine\<close>

record native_engine =
  en_session_id :: session_id
  en_state :: "native_session_state mutex"
  en_topology_tick :: nat

definition lock_state :: "native_engine \<Rightarrow> backend_error + native_session_state" where
  "lock_state e =
     mutex_lock (internal_error [MText ''native session state lock poisoned'']) (en_state e)"

definition session_pane :: "native_session_state \<Rightarrow> pane_id \<Rightarrow> native_pane option" where
  "session_pane s p = find_map (\<lambda>tab. tab_pane tab p) (ns_tabs s)"

definition finish_mutation ::
    "'w native_env \<Rightarrow> native_engine \<Rightarrow> native_session_state \<Rightarrow> bool \<Rightarrow> pane_id list \<Rightarrow> 'w \<Rightarrow> 'w"
  where
  "finish_mutation env e s ch surface_updates w =
     (let w1 = (if ch then bump_watch env (en_topology_tick e) w else w)
      in fold (\<lambda>p w. case session_pane s p of
                Some pane \<Rightarrow> mark_surface_dirty env pane w | None \<Rightarrow> w) surface_updates w1)"

text \<open>
  \<open>let mut state = self.lock_state()?\<close> around a body; the state the body leaves is the engine's,
  whatever its result.
\<close>

definition with_state ::
    "native_engine \<Rightarrow> 'w
     \<Rightarrow> (native_session_state \<Rightarrow> 'w \<Rightarrow> (backend_error + 'r) \<times> native_session_state \<times> 'w)
     \<Rightarrow> (backend_error + 'r) \<times> native_engine \<times> 'w" where
  "with_state e w body =
     (case lock_state e of
        Inl err \<Rightarrow> (Inl err, e, w)
      | Inr s \<Rightarrow>
          (case body s w of
             (r, s1, w1) \<Rightarrow> (r, e\<lparr>en_state := mutex_set s1 (en_state e)\<rparr>, w1)))"

definition finish_changed ::
    "'w native_env \<Rightarrow> native_engine \<Rightarrow> (backend_error + bool) \<times> native_session_state \<times> 'w
     \<Rightarrow> (backend_error + bool) \<times> native_session_state \<times> 'w" where
  "finish_changed env e res =
     (case res of
        (Inl err, s1, w1) \<Rightarrow> (Inl err, s1, w1)
      | (Inr ch, s1, w1) \<Rightarrow> (Inr ch, s1, finish_mutation env e s1 ch [] w1))"

definition finish_updates ::
    "'w native_env \<Rightarrow> native_engine
     \<Rightarrow> (backend_error + bool \<times> pane_id list) \<times> native_session_state \<times> 'w
     \<Rightarrow> (backend_error + bool) \<times> native_session_state \<times> 'w" where
  "finish_updates env e res =
     (case res of
        (Inl err, s1, w1) \<Rightarrow> (Inl err, s1, w1)
      | (Inr (ch, updates), s1, w1) \<Rightarrow>
          (Inr ch, s1, finish_mutation env e s1 ch updates w1))"

definition engine_new_tab ::
    "'w native_env \<Rightarrow> new_tab_spec \<Rightarrow> native_engine \<Rightarrow> 'w
     \<Rightarrow> (backend_error + bool) \<times> native_engine \<times> 'w" where
  "engine_new_tab env spec e w =
     with_state e w (\<lambda>s w. finish_changed env e (dispatch_new_tab env spec s w))"

definition engine_split_pane ::
    "'w native_env \<Rightarrow> split_pane_spec \<Rightarrow> native_engine \<Rightarrow> 'w
     \<Rightarrow> (backend_error + bool) \<times> native_engine \<times> 'w" where
  "engine_split_pane env spec e w =
     with_state e w (\<lambda>s w. finish_changed env e (dispatch_split_pane env spec s w))"

definition engine_focus_tab ::
    "'w native_env \<Rightarrow> tab_id \<Rightarrow> native_engine \<Rightarrow> 'w
     \<Rightarrow> (backend_error + bool) \<times> native_engine \<times> 'w" where
  "engine_focus_tab env t e w =
     with_state e w (\<lambda>s w. finish_changed env e
       (case dispatch_focus_tab t s of (r, s1) \<Rightarrow> (r, s1, w)))"

definition engine_rename_tab ::
    "'w native_env \<Rightarrow> tab_id \<Rightarrow> rstr \<Rightarrow> native_engine \<Rightarrow> 'w
     \<Rightarrow> (backend_error + bool) \<times> native_engine \<times> 'w" where
  "engine_rename_tab env t title e w =
     with_state e w (\<lambda>s w. finish_updates env e
       (case dispatch_rename_tab t title s of (r, s1) \<Rightarrow> (r, s1, w)))"

definition engine_focus_pane ::
    "'w native_env \<Rightarrow> pane_id \<Rightarrow> native_engine \<Rightarrow> 'w
     \<Rightarrow> (backend_error + bool) \<times> native_engine \<times> 'w" where
  "engine_focus_pane env p e w =
     with_state e w (\<lambda>s w. finish_changed env e
       (case dispatch_focus_pane p s of (r, s1) \<Rightarrow> (r, s1, w)))"

definition engine_close_pane ::
    "'w native_env \<Rightarrow> pane_id \<Rightarrow> native_engine \<Rightarrow> 'w
     \<Rightarrow> (backend_error + bool) \<times> native_engine \<times> 'w" where
  "engine_close_pane env p e w =
     with_state e w (\<lambda>s w. finish_changed env e (dispatch_close_pane env p s w))"

definition engine_close_tab ::
    "'w native_env \<Rightarrow> tab_id \<Rightarrow> native_engine \<Rightarrow> 'w
     \<Rightarrow> (backend_error + bool) \<times> native_engine \<times> 'w" where
  "engine_close_tab env t e w =
     with_state e w (\<lambda>s w. finish_changed env e
       (case dispatch_close_tab t s of (r, s1) \<Rightarrow> (r, s1, w)))"

definition engine_resize_pane ::
    "'w native_env \<Rightarrow> resize_pane_spec \<Rightarrow> native_engine \<Rightarrow> 'w
     \<Rightarrow> (backend_error + bool) \<times> native_engine \<times> 'w" where
  "engine_resize_pane env spec e w =
     with_state e w (\<lambda>s w.
       case dispatch_resize_pane env spec s w of
         (Inl err, s1, w1) \<Rightarrow> (Inl err, s1, w1)
       | (Inr ch, s1, w1) \<Rightarrow>
           let surface_updates = (if ch
                 then collect_surface_updates s1 (rs_pane_id spec) else [])
           in (Inr ch, s1, finish_mutation env e s1 ch surface_updates w1))"

definition engine_override_layout ::
    "'w native_env \<Rightarrow> override_layout_spec \<Rightarrow> native_engine \<Rightarrow> 'w
     \<Rightarrow> (backend_error + bool) \<times> native_engine \<times> 'w" where
  "engine_override_layout env spec e w =
     with_state e w (\<lambda>s w. finish_updates env e (dispatch_override_layout env spec s w))"

definition engine_send_input ::
    "'w native_env \<Rightarrow> send_input_spec \<Rightarrow> native_engine \<Rightarrow> 'w
     \<Rightarrow> (backend_error + bool) \<times> native_engine \<times> 'w" where
  "engine_send_input env spec e w =
     with_state e w (\<lambda>s w. case dispatch_send_input env spec s w of (r, w1) \<Rightarrow> (r, s, w1))"

definition engine_send_paste ::
    "'w native_env \<Rightarrow> send_paste_spec \<Rightarrow> native_engine \<Rightarrow> 'w
     \<Rightarrow> (backend_error + bool) \<times> native_engine \<times> 'w" where
  "engine_send_paste env spec e w =
     with_state e w (\<lambda>s w. case dispatch_send_paste env spec s w of (r, w1) \<Rightarrow> (r, s, w1))"

subsection \<open>Lifecycle and snapshots\<close>

definition engine_spawn ::
    "'w native_env \<Rightarrow> session_id \<Rightarrow> session_route \<Rightarrow> create_session_spec \<Rightarrow> 'w
     \<Rightarrow> (backend_error + native_engine) \<times> 'w" where
  "engine_spawn env sid route spec w =
     (case resolve_launch_spec env (cs_launch spec) of
        Inl e \<Rightarrow> (Inl e, w)
      | Inr launch \<Rightarrow>
          (case ne_watch_channel env 0 w of
             (topology_tick, w1) \<Rightarrow>
               (case spawn_tab env (cs_title spec) launch default_rows default_cols w1 of
                  (Inl e, w2) \<Rightarrow> (Inl e, w2)
                | (Inr first_tab, w2) \<Rightarrow>
                    (Inr \<lparr>en_session_id = sid,
                          en_state = mutex_new
                            \<lparr>ns_summary = \<lparr>bs_session_id = sid, bs_route = route,
                                          bs_title = cs_title spec\<rparr>,
                             ns_launch = launch, ns_tabs = [first_tab],
                             ns_focused_tab = tb_tab_id first_tab,
                             ns_rows = default_rows, ns_cols = default_cols\<rparr>,
                          en_topology_tick = topology_tick\<rparr>, w2))))"

definition engine_summary :: "native_engine \<Rightarrow> backend_error + backend_session_summary" where
  "engine_summary e = bind_result (lock_state e) (\<lambda>s. Inr (ns_summary s))"

definition tab_snapshot_of :: "native_tab \<Rightarrow> tab_snapshot" where
  "tab_snapshot_of tab =
     \<lparr>ts_tab_id = tb_tab_id tab, ts_title = tb_title tab, ts_root = node_snapshot (tb_root tab),
      ts_focused_pane = Some (tb_focused_pane tab)\<rparr>"

definition session_topology :: "session_id \<Rightarrow> native_session_state \<Rightarrow> topology_snapshot" where
  "session_topology sid s =
     \<lparr>tp_session_id = sid, tp_backend_kind = Native,
      tp_tabs = map tab_snapshot_of (ns_tabs s), tp_focused_tab = Some (ns_focused_tab s)\<rparr>"

definition engine_topology_snapshot :: "native_engine \<Rightarrow> backend_error + topology_snapshot" where
  "engine_topology_snapshot e =
     bind_result (lock_state e) (\<lambda>s. Inr (session_topology (en_session_id e) s))"

text \<open>
  \<open>with_pane\<close> finds the first tab that owns the pane, runs a projection on the pane, and writes
  the pane back where the search found it.
\<close>

definition with_pane ::
    "pane_id \<Rightarrow> (rstr option \<Rightarrow> native_pane \<Rightarrow> (backend_error + 'r) \<times> native_pane)
     \<Rightarrow> native_session_state \<Rightarrow> (backend_error + 'r) \<times> native_session_state" where
  "with_pane p f s =
     (case find_map (\<lambda>tab. map_option (\<lambda>pane. (tab, pane)) (tab_pane tab p)) (ns_tabs s) of
        None \<Rightarrow> (Inl (unknown_pane p), s)
      | Some (tab, pane) \<Rightarrow>
          let title = (case tb_title tab of Some t \<Rightarrow> Some t | None \<Rightarrow> bs_title (ns_summary s))
          in case f title pane of
               (r, pane1) \<Rightarrow>
                 (r, put_tab (\<lambda>tab. tab_pane tab p \<noteq> None) (set_pane p pane1 tab) s))"

definition engine_screen_snapshot ::
    "'w native_env \<Rightarrow> pane_id \<Rightarrow> native_engine \<Rightarrow> 'w
     \<Rightarrow> (backend_error + screen_snapshot) \<times> native_engine \<times> 'w" where
  "engine_screen_snapshot env p e w =
     with_state e w (\<lambda>s w.
       case with_pane p (\<lambda>title pane. render_snapshot env w title pane) s of (r, s1) \<Rightarrow> (r, s1, w))"

definition engine_screen_delta ::
    "'w native_env \<Rightarrow> pane_id \<Rightarrow> u64 \<Rightarrow> native_engine \<Rightarrow> 'w
     \<Rightarrow> (backend_error + screen_delta) \<times> native_engine \<times> 'w" where
  "engine_screen_delta env p from_sequence e w =
     with_state e w (\<lambda>s w.
       case with_pane p (\<lambda>title pane. pane_screen_delta env w title from_sequence pane) s of
         (r, s1) \<Rightarrow> (r, s1, w))"

definition engine_subscribe_topology :: "'w native_env \<Rightarrow> native_engine \<Rightarrow> 'w \<Rightarrow> nat \<times> 'w" where
  "engine_subscribe_topology env e w = ne_watch_subscribe env (en_topology_tick e) w"

definition engine_subscribe_pane_surface ::
    "'w native_env \<Rightarrow> pane_id \<Rightarrow> native_engine \<Rightarrow> 'w \<Rightarrow> (backend_error + nat) \<times> 'w" where
  "engine_subscribe_pane_surface env p e w =
     (case bind_result (lock_state e) (\<lambda>s. ok_or (session_pane s p) (unknown_pane p)) of
        Inl err \<Rightarrow> (Inl err, w)
      | Inr pane \<Rightarrow>
          (case ne_watch_subscribe env (pn_surface_tick pane) w of (rx, w1) \<Rightarrow> (Inr rx, w1)))"

definition engine_subscribe_pane_raw_output ::
    "'w native_env \<Rightarrow> pane_id \<Rightarrow> native_engine \<Rightarrow> 'w \<Rightarrow> (backend_error + nat) \<times> 'w" where
  "engine_subscribe_pane_raw_output env p e w =
     (case bind_result (lock_state e) (\<lambda>s. ok_or (session_pane s p) (unknown_pane p)) of
        Inl err \<Rightarrow> (Inl err, w)
      | Inr pane \<Rightarrow>
          (case ne_broadcast_subscribe env (pn_raw_output_tick pane) w of
             (rx, w1) \<Rightarrow> (Inr rx, w1)))"

section \<open>The attached session\<close>

definition session_dispatch ::
    "'w native_env \<Rightarrow> mux_command \<Rightarrow> native_engine \<Rightarrow> 'w
     \<Rightarrow> (backend_error + mux_command_result) \<times> native_engine \<times> 'w" where
  "session_dispatch env command e w =
     (let wrap = (\<lambda>res. case res of
            (Inl err, e1, w1) \<Rightarrow> (Inl err, e1, w1)
          | (Inr c, e1, w1) \<Rightarrow> (Inr \<lparr>changed = c\<rparr>, e1, w1));
          unwired = (Inl (unsupported
              [MText ''native mux command is not wired in v1 start phase''] NotYetImplemented), e, w)
      in case command of
           CNewTab spec \<Rightarrow> wrap (engine_new_tab env spec e w)
         | CSplitPane spec \<Rightarrow> wrap (engine_split_pane env spec e w)
         | CFocusTab t \<Rightarrow> wrap (engine_focus_tab env t e w)
         | CRenameTab t title \<Rightarrow> wrap (engine_rename_tab env t title e w)
         | CFocusPane p \<Rightarrow> wrap (engine_focus_pane env p e w)
         | CClosePane p \<Rightarrow> wrap (engine_close_pane env p e w)
         | CCloseTab t \<Rightarrow> wrap (engine_close_tab env t e w)
         | CResizePane spec \<Rightarrow> wrap (engine_resize_pane env spec e w)
         | COverrideLayout spec \<Rightarrow> wrap (engine_override_layout env spec e w)
         | CSendInput spec \<Rightarrow> wrap (engine_send_input env spec e w)
         | CSendPaste spec \<Rightarrow> wrap (engine_send_paste env spec e w)
         | CDetach \<Rightarrow> unwired
         | CSaveSession \<Rightarrow> unwired)"

section \<open>The backend\<close>

text \<open>
  The \<open>RwLock<HashMap<SessionId, Arc<NativeSessionEngine>>>\<close>: an association list in the order
  \<open>values()\<close> iterates, which the library leaves open.
\<close>

record native_backend =
  nb_sessions :: "(session_id \<times> native_engine) list mutex"

definition native_backend_default :: native_backend where
  "native_backend_default = \<lparr>nb_sessions = mutex_new []\<rparr>"

definition native_backend_kind :: backend_kind where
  "native_backend_kind = Native"

definition native_capabilities :: backend_capabilities where
  "native_capabilities =
     \<lparr>tiled_panes = True, floating_panes = False, split_resize = True, tab_create = True,
      tab_close = True, tab_focus = True, tab_rename = True, session_scoped_tab_refs = True,
      session_scoped_pane_refs = True, pane_split = True, pane_close = True, pane_focus = True,
      pane_input_write = True, pane_paste_write = True, raw_output_stream = True,
      rendered_viewport_stream = True, rendered_viewport_snapshot = True,
      rendered_scrollback_snapshot = False, rich_screen_surface = True, layout_dump = True,
      layout_override = True, read_only_client_mode = False, explicit_session_save = True,
      explicit_session_restore = True, plugin_panes = False,
      advisory_metadata_subscriptions = True, independent_resize_authority = False\<rparr>"

definition backend_discover_sessions :: "backend_error + discovered_session list" where
  "backend_discover_sessions =
     Inl (unsupported [MText ''native backend is created through canonical session creation'']
            NotYetImplemented)"

definition backend_create_session ::
    "'w native_env \<Rightarrow> (uuid \<Rightarrow> rstr) \<Rightarrow> create_session_spec \<Rightarrow> native_backend \<Rightarrow> 'w
     \<Rightarrow> (backend_error + backend_session_binding) \<times> native_backend \<times> 'w" where
  "backend_create_session env uuid_to_string spec b w =
     (case ne_new_uuid env w of
        (u, w1) \<Rightarrow>
          let route = local_native_route uuid_to_string (Id u)
          in case engine_spawn env (Id u) route spec w1 of
               (Inl e, w2) \<Rightarrow> (Inl e, b, w2)
             | (Inr runtime, w2) \<Rightarrow>
                 (case mutex_lock (internal_error [MText ''native backend write lock poisoned''])
                         (nb_sessions b) of
                    Inl e \<Rightarrow> (Inl e, b, w2)
                  | Inr sessions \<Rightarrow>
                      (Inr \<lparr>bb_session_id = Id u, bb_route = route\<rparr>,
                       b\<lparr>nb_sessions := mutex_set (AList.update (Id u) runtime sessions)
                                        (nb_sessions b)\<rparr>, w2)))"

definition resolve_session_runtime ::
    "(rstr \<Rightarrow> uuid option) \<Rightarrow> native_backend \<Rightarrow> session_id \<Rightarrow> session_route
     \<Rightarrow> backend_error + native_engine" where
  "resolve_session_runtime uuid_parse_str b sid route =
     (if route_backend route \<noteq> Native
      then Inl (invalid_input [MText ''native backend can only attach native routes''])
      else bind_result
        (mutex_lock (internal_error [MText ''native backend read lock poisoned'']) (nb_sessions b))
        (\<lambda>sessions.
           case local_native_session_id uuid_parse_str route of
             Some route_session_id \<Rightarrow>
               if route_session_id \<noteq> sid
               then Inl (invalid_input
                      [MText ''native attach session id does not match route identity''])
               else ok_or (map_of sessions route_session_id)
                      (not_found [MText ''native route is not registered''])
           | None \<Rightarrow>
               ok_or (find (\<lambda>runtime. case engine_summary runtime of
                              Inr summary \<Rightarrow> bs_route summary = route | Inl _ \<Rightarrow> False)
                        (map snd sessions))
                     (not_found [MText ''native route is not registered''])))"

fun collect_summaries ::
    "native_engine list \<Rightarrow> backend_error + backend_session_summary list" where
  "collect_summaries [] = Inr []"
| "collect_summaries (runtime # rest) =
     bind_result (engine_summary runtime)
       (\<lambda>summary. bind_result (collect_summaries rest) (\<lambda>summaries. Inr (summary # summaries)))"

definition backend_list_sessions :: "native_backend \<Rightarrow> backend_error + backend_session_summary list"
  where
  "backend_list_sessions b =
     bind_result
       (mutex_lock (internal_error [MText ''native backend read lock poisoned'']) (nb_sessions b))
       (\<lambda>sessions. collect_summaries (map snd sessions))"

end
