(* ===== verification/Native_Sessions.thy ===== *)
theory Native_Sessions
  imports Native_Engine
begin

text \<open>
  Reachable engines: every call of the attached session, every read of a snapshot or a delta,
  and every step of the rest of the world keeps the session invariant, so every topology a
  client can ever read is well formed, every pane in it can be read, and the binding a created
  session returns attaches to it.
\<close>

section \<open>The invariant of an engine\<close>

definition engine_inv :: "('w \<Rightarrow> uuid set) \<Rightarrow> native_engine \<Rightarrow> 'w \<Rightarrow> bool" where
  "engine_inv used e w \<longleftrightarrow>
     \<not> mutex_poisoned (en_state e) \<and> session_inv used (mutex_value (en_state e)) w"

lemma lock_state_inv: "engine_inv used e w \<Longrightarrow> lock_state e = Inr (mutex_value (en_state e))"
  by (simp add: engine_inv_def lock_state_def)

lemma session_inv_mono:
  "session_inv used s w \<Longrightarrow> used w \<subseteq> used w' \<Longrightarrow> session_inv used s w'"
  by (auto simp: session_inv_def ids_used_def)

text \<open>What a body run under the lock must guarantee.\<close>

definition keeps_inv ::
    "('w \<Rightarrow> uuid set) \<Rightarrow> 'w \<Rightarrow> (backend_error + 'r) \<times> native_session_state \<times> 'w \<Rightarrow> bool" where
  "keeps_inv used w res \<longleftrightarrow>
     session_inv used (fst (snd res)) (snd (snd res)) \<and> used w \<subseteq> used (snd (snd res))"

lemma with_state_inv:
  assumes "engine_inv used e w" and "with_state e w body = (r, e', w')"
    and "keeps_inv used w (body (mutex_value (en_state e)) w)"
  shows "engine_inv used e' w' \<and> used w \<subseteq> used w' \<and> en_session_id e' = en_session_id e"
  using assms lock_state_inv [OF assms(1)]
  by (auto simp: with_state_def keeps_inv_def engine_inv_def split: prod.splits)

lemma fresh_finish_mutation:
  assumes "issues_fresh_ids env used"
  shows "used (finish_mutation env e s ch ups w) = used w"
proof -
  let ?f = "\<lambda>p w. case session_pane s p of
      Some pane \<Rightarrow> mark_surface_dirty env pane w | None \<Rightarrow> w"
  have step: "used (?f p w) = used w" for p w
    by (simp add: mark_surface_dirty_def fresh_bump_watch [OF assms] split: option.split)
  have "used (fold ?f ups w) = used w" for w
  proof (induction ups arbitrary: w)
    case (Cons p ups)
    then show ?case by (simp add: step)
  qed simp
  then show ?thesis
    by (simp add: finish_mutation_def Let_def fresh_bump_watch [OF assms])
qed

lemma finish_changed_inv:
  assumes "issues_fresh_ids env used" and "keeps_inv used w res"
  shows "keeps_inv used w (finish_changed env e res)"
proof -
  obtain r s1 w1 where res: "res = (r, s1, w1)" by (metis surj_pair)
  have "used (finish_mutation env e s1 ch [] w1) = used w1" for ch
    by (rule fresh_finish_mutation [OF assms(1)])
  then show ?thesis
    using assms(2)
    by (cases r) (simp_all add: res finish_changed_def keeps_inv_def session_inv_def)
qed

lemma finish_updates_inv:
  assumes "issues_fresh_ids env used" and "keeps_inv used w res"
  shows "keeps_inv used w (finish_updates env e res)"
proof -
  obtain r s1 w1 where res: "res = (r, s1, w1)" by (metis surj_pair)
  have "used (finish_mutation env e s1 ch ups w1) = used w1" for ch ups
    by (rule fresh_finish_mutation [OF assms(1)])
  then show ?thesis
    using assms(2)
    by (cases r) (auto simp: res finish_updates_def keeps_inv_def session_inv_def)
qed

lemma keeps_invI:
  assumes "\<And>r s' w'. res = (r, s', w') \<Longrightarrow> session_inv used s' w' \<and> used w \<subseteq> used w'"
  shows "keeps_inv used w res"
  using assms [of "fst res" "fst (snd res)" "snd (snd res)"] by (simp add: keeps_inv_def)

text \<open>What remains after the end of a command: the notifications hand out no identifier.\<close>

lemma finish_changed_used:
  assumes "issues_fresh_ids env used" and "finish_changed env e res = (r, s', w')"
  shows "used w' = used (snd (snd res))"
proof -
  obtain r1 s1 w1 where res: "res = (r1, s1, w1)" by (metis surj_pair)
  have "used (finish_mutation env e s1 ch [] w1) = used w1" for ch
    by (rule fresh_finish_mutation [OF assms(1)])
  then show ?thesis using assms(2) by (cases r1) (auto simp: res finish_changed_def)
qed

lemma fresh_pane_write:
  assumes "issues_fresh_ids env used"
  shows "used (snd (pane_write_all env pane bytes w)) = used w"
proof -
  have a: "ne_write_all env h b w0 = (x, w1) \<Longrightarrow> used w1 = used w0" for h b w0 x w1
    using assms unfolding issues_fresh_ids_def by (metis snd_conv)
  have b: "ne_flush env h w0 = (x, w1) \<Longrightarrow> used w1 = used w0" for h w0 x w1
    using assms unfolding issues_fresh_ids_def by (metis snd_conv)
  show ?thesis
    by (auto simp: pane_write_all_def Let_def split: prod.splits sum.splits dest!: a b)
qed

lemma fresh_write_to_pane:
  assumes "issues_fresh_ids env used"
  shows "used (snd (write_to_pane env s p data w)) = used w"
    and "used (snd (write_paste_to_pane env s p data w)) = used w"
proof -
  have "used w1 = used w" if "pane_write_all env pane bytes w = (r, w1)" for pane bytes r w1
    using fresh_pane_write [OF assms, of pane bytes w] that by simp
  then show "used (snd (write_to_pane env s p data w)) = used w"
    and "used (snd (write_paste_to_pane env s p data w)) = used w"
    by (auto simp: write_to_pane_def write_paste_to_pane_def write_text_def write_paste_def Let_def
        split: sum.splits prod.splits)
qed

section \<open>Commands\<close>

lemma session_dispatch_inv:
  assumes fresh: "issues_fresh_ids env used" and inv: "engine_inv used e w"
    and run: "session_dispatch env command e w = (r, e', w')" and room: "used w' \<noteq> UNIV"
  shows "engine_inv used e' w' \<and> used w \<subseteq> used w' \<and> en_session_id e' = en_session_id e"
proof -
  let ?s = "mutex_value (en_state e)"
  have s: "session_inv used ?s w" using inv by (simp add: engine_inv_def)
  note keep = with_state_inv [OF inv]
  have wrap: "?thesis" if "with_state e w body = (r0, e', w')"
      "keeps_inv used w (body ?s w)" for body and r0 :: "backend_error + bool"
    using keep [OF that] .
  have changed: "?thesis" if "with_state e w (\<lambda>s w. finish_changed env e (body s w)) = (r0, e', w')"
      "used (snd (snd (body ?s w))) \<noteq> UNIV \<Longrightarrow> keeps_inv used w (body ?s w)" for body r0
  proof -
    have "finish_changed env e (body ?s w) =
        (r0, fst (snd (finish_changed env e (body ?s w))), w')"
      using that(1) lock_state_inv [OF inv] by (auto simp: with_state_def split: prod.splits)
    from finish_changed_used [OF fresh this] have "keeps_inv used w (body ?s w)"
      using that(2) room by simp
    then show ?thesis by (intro keep [OF that(1)] finish_changed_inv [OF fresh])
  qed
  have updates: "?thesis" if "with_state e w (\<lambda>s w. finish_updates env e (body s w)) = (r0, e', w')"
      "keeps_inv used w (body ?s w)" for body r0
    by (rule keep [OF that(1)]) (rule finish_updates_inv [OF fresh that(2)])
  have pure: "keeps_inv used w (case f ?s of (r, s1) \<Rightarrow> (r, s1, w))"
    if "\<And>r0 s1. f ?s = (r0, s1) \<Longrightarrow> session_inv used s1 w"
    for f :: "native_session_state \<Rightarrow> (backend_error + 'x) \<times> native_session_state"
    using that by (auto simp: keeps_inv_def split: prod.splits)
  show ?thesis
  proof (cases command)
    case (CSplitPane spec)
    then obtain r0 where "engine_split_pane env spec e w = (r0, e', w')"
      using run by (auto simp: session_dispatch_def split: prod.splits sum.splits)
    then show ?thesis
      unfolding engine_split_pane_def
      by (rule changed) (rule keeps_invI, use dispatch_split_pane_inv [OF fresh s] in auto)
  next
    case (CClosePane p)
    then obtain r0 where "engine_close_pane env p e w = (r0, e', w')"
      using run by (auto simp: session_dispatch_def split: prod.splits sum.splits)
    then show ?thesis
      unfolding engine_close_pane_def
      by (rule changed) (rule keeps_invI, use dispatch_close_pane_inv [OF fresh s] in auto)
  next
    case (CFocusPane p)
    then obtain r0 where "engine_focus_pane env p e w = (r0, e', w')"
      using run by (auto simp: session_dispatch_def split: prod.splits sum.splits)
    then show ?thesis
      unfolding engine_focus_pane_def
      by (rule changed) (rule pure, rule dispatch_focus_pane_inv [OF s])
  next
    case (CResizePane spec)
    then obtain r0 where run': "engine_resize_pane env spec e w = (r0, e', w')"
      using run by (auto simp: session_dispatch_def split: prod.splits sum.splits)
    obtain r1 s1 w1 where d: "dispatch_resize_pane env spec ?s w = (r1, s1, w1)"
      by (metis surj_pair)
    have "session_inv used s1 w1 \<and> used w1 = used w"
      by (rule dispatch_resize_pane_inv [OF fresh s d])
    moreover have "used (finish_mutation env e s1 ch ups w1) = used w1" for ch ups
      by (rule fresh_finish_mutation [OF fresh])
    ultimately show ?thesis
      using run' unfolding engine_resize_pane_def
      by (intro wrap) (auto simp: keeps_inv_def d session_inv_def Let_def split: sum.splits)
  next
    case (CNewTab spec)
    then obtain r0 where "engine_new_tab env spec e w = (r0, e', w')"
      using run by (auto simp: session_dispatch_def split: prod.splits sum.splits)
    then show ?thesis
      unfolding engine_new_tab_def
      by (rule changed) (rule keeps_invI, use dispatch_new_tab_inv [OF fresh s] in auto)
  next
    case (CCloseTab t)
    then obtain r0 where "engine_close_tab env t e w = (r0, e', w')"
      using run by (auto simp: session_dispatch_def split: prod.splits sum.splits)
    then show ?thesis
      unfolding engine_close_tab_def
      by (rule changed) (rule pure, rule dispatch_close_tab_inv [OF s])
  next
    case (CFocusTab t)
    then obtain r0 where "engine_focus_tab env t e w = (r0, e', w')"
      using run by (auto simp: session_dispatch_def split: prod.splits sum.splits)
    then show ?thesis
      unfolding engine_focus_tab_def
      by (rule changed) (rule pure, rule dispatch_focus_tab_inv [OF s])
  next
    case (CRenameTab t title)
    then obtain r0 where "engine_rename_tab env t title e w = (r0, e', w')"
      using run by (auto simp: session_dispatch_def split: prod.splits sum.splits)
    then show ?thesis
      unfolding engine_rename_tab_def
      by (rule updates) (rule pure, rule dispatch_rename_tab_inv [OF s])
  next
    case (CSendInput spec)
    then obtain r0 where "engine_send_input env spec e w = (r0, e', w')"
      using run by (auto simp: session_dispatch_def split: prod.splits sum.splits)
    then show ?thesis
      unfolding engine_send_input_def
      by (rule wrap) (use s fresh_write_to_pane(1) [OF fresh, of ?s "si_pane_id spec" "si_data spec" w] in
          \<open>simp add: keeps_inv_def session_inv_def dispatch_send_input_def split_beta\<close>)
  next
    case (CSendPaste spec)
    then obtain r0 where "engine_send_paste env spec e w = (r0, e', w')"
      using run by (auto simp: session_dispatch_def split: prod.splits sum.splits)
    then show ?thesis
      unfolding engine_send_paste_def
      by (rule wrap) (use s fresh_write_to_pane(2) [OF fresh, of ?s "pp_pane_id spec" "pp_data spec" w] in
          \<open>simp add: keeps_inv_def session_inv_def dispatch_send_paste_def split_beta\<close>)
  next
    case (COverrideLayout spec)
    then obtain r0 where "engine_override_layout env spec e w = (r0, e', w')"
      using run by (auto simp: session_dispatch_def split: prod.splits sum.splits)
    then show ?thesis
      unfolding engine_override_layout_def
      by (rule updates) (rule keeps_invI, use dispatch_override_layout_inv [OF fresh s] in auto)
  qed (use run inv in \<open>auto simp: session_dispatch_def\<close>)
qed

section \<open>Reads\<close>

lemma tab_pane_Some_iff:
  assumes "tab_ok tab"
  shows "(\<exists>pane. tab_pane tab p = Some pane) \<longleftrightarrow> p \<in> set (tab_leaves tab)"
proof -
  have "(\<exists>pane. tab_pane tab p = Some pane) \<longleftrightarrow> p \<in> set (map pn_pane_id (tb_panes tab))"
    using find_None_iff [of "\<lambda>pane. pn_pane_id pane = p" "tb_panes tab"]
    by (auto simp: tab_pane_def)
  then show ?thesis using assms by (simp add: tab_ok_def tab_leaves_def)
qed

lemma tab_pane_ok: "tab_ok tab \<Longrightarrow> tab_pane tab p = Some pane \<Longrightarrow> pane_ok pane \<and> pn_pane_id pane = p"
  by (auto simp: tab_pane_def tab_ok_def dest: find_SomeD)

lemma find_map_pair:
  "find_map (\<lambda>tab. map_option (\<lambda>pane. (tab, pane)) (f tab)) tabs = Some (tab, pane) \<Longrightarrow>
   find (\<lambda>tab. f tab \<noteq> None) tabs = Some tab \<and> f tab = Some pane"
proof (induction tabs)
  case (Cons t tabs)
  then show ?case by (cases "f t") auto
qed simp

text \<open>Writing back a pane that is still the same pane keeps the tab in order.\<close>

lemma set_pane_ok:
  assumes "tab_ok tab" and "tab_pane tab p = Some pane" and "pane_ok pane1"
    and "pn_pane_id pane1 = p"
  shows "tab_ok (set_pane p pane1 tab)" and "tb_tab_id (set_pane p pane1 tab) = tb_tab_id tab"
    and "tab_leaves (set_pane p pane1 tab) = tab_leaves tab"
proof -
  from find_split [OF assms(2) [unfolded tab_pane_def]] obtain ys zs
    where sp: "tb_panes tab = ys @ pane # zs" "pn_pane_id pane = p" "\<forall>y\<in>set ys. pn_pane_id y \<noteq> p"
    by blast
  then have panes: "tb_panes (set_pane p pane1 tab) = ys @ pane1 # zs"
    by (simp add: set_pane_def update_first_split)
  then show "tab_ok (set_pane p pane1 tab)"
    using assms sp(1,2) by (simp add: tab_ok_def set_pane_def)
  show "tb_tab_id (set_pane p pane1 tab) = tb_tab_id tab" by (simp add: set_pane_def)
  show "tab_leaves (set_pane p pane1 tab) = tab_leaves tab"
    by (simp add: set_pane_def tab_leaves_def)
qed

lemma with_pane_cases:
  fixes f :: "rstr option \<Rightarrow> native_pane \<Rightarrow> (backend_error + 'r) \<times> native_pane"
  assumes "session_inv used s w" and "p \<in> set (session_panes s)"
  obtains tab pane title where "tab \<in> set (ns_tabs s)" and "tab_pane tab p = Some pane"
    and "pane_ok pane" and "pn_pane_id pane = p"
    and "with_pane p f s = (case f title pane of
             (r, pane1) \<Rightarrow> (r, put_tab (\<lambda>tab. tab_pane tab p \<noteq> None) (set_pane p pane1 tab) s))"
    and "\<forall>pane1. pane_ok pane1 \<longrightarrow> pn_pane_id pane1 = p \<longrightarrow>
           session_inv used (put_tab (\<lambda>tab. tab_pane tab p \<noteq> None) (set_pane p pane1 tab) s) w"
proof -
  let ?g = "\<lambda>tab. map_option (\<lambda>pane. (tab, pane)) (tab_pane tab p)"
  have ok: "\<forall>tab\<in>set (ns_tabs s). tab_ok tab"
    using assms(1) by (simp add: session_inv_def session_ok_def)
  obtain tab0 where "tab0 \<in> set (ns_tabs s)" "p \<in> set (tab_leaves tab0)"
    using assms(2) by (auto simp: session_panes_def)
  then have "find_map ?g (ns_tabs s) \<noteq> None"
    using ok tab_pane_Some_iff [of tab0 p] by (auto simp: find_map_None_iff)
  then obtain tab pane where fm: "find_map ?g (ns_tabs s) = Some (tab, pane)" by auto
  from find_map_pair [OF fm] have fd: "find (\<lambda>tab. tab_pane tab p \<noteq> None) (ns_tabs s) = Some tab"
    and tp: "tab_pane tab p = Some pane" by simp_all
  have tab: "tab \<in> set (ns_tabs s)" using fd by (auto dest: find_SomeD)
  then have tok: "tab_ok tab" using ok by blast
  note pk = tab_pane_ok [OF tok tp]
  show thesis
  proof (rule that [OF tab tp])
    show "with_pane p f s = (case f (case tb_title tab of Some t \<Rightarrow> Some t
        | None \<Rightarrow> bs_title (ns_summary s)) pane of (r, pane1) \<Rightarrow>
        (r, put_tab (\<lambda>tab. tab_pane tab p \<noteq> None) (set_pane p pane1 tab) s))"
      by (simp add: with_pane_def fm)
    show "\<forall>pane1. pane_ok pane1 \<longrightarrow> pn_pane_id pane1 = p \<longrightarrow>
        session_inv used (put_tab (\<lambda>tab. tab_pane tab p \<noteq> None) (set_pane p pane1 tab) s) w"
      using set_pane_ok [OF tok tp]
      by (intro allI impI put_tab_inv_same [OF assms(1) fd]) simp_all
  qed (use pk in simp_all)
qed

lemma with_pane_unknown:
  assumes "session_inv used s w" and "p \<notin> set (session_panes s)"
  shows "with_pane p f s = (Inl (unknown_pane p), s)"
proof -
  have "tab_pane tab p = None" if "tab \<in> set (ns_tabs s)" for tab
    using that assms tab_pane_Some_iff [of tab p]
    by (auto simp: session_inv_def session_ok_def session_panes_def)
  then have "find_map (\<lambda>tab. map_option (\<lambda>pane. (tab, pane)) (tab_pane tab p)) (ns_tabs s) = None"
    by (simp add: find_map_None_iff)
  then show ?thesis by (simp add: with_pane_def)
qed

lemma engine_screen_snapshot_inv:
  assumes "engine_inv used e w" and "engine_screen_snapshot env p e w = (r, e', w')"
  shows "engine_inv used e' w \<and> w' = w \<and> en_session_id e' = en_session_id e"
    and "p \<in> set (session_panes (mutex_value (en_state e))) \<Longrightarrow> \<exists>s. r = Inr s \<and> sn_pane_id s = p"
proof -
  let ?s = "mutex_value (en_state e)"
  have s: "session_inv used ?s w" using assms(1) by (simp add: engine_inv_def)
  have run: "(r, e', w') = (case with_pane p (\<lambda>title pane. render_snapshot env w title pane) ?s of
      (r, s1) \<Rightarrow> (r, e\<lparr>en_state := mutex_set s1 (en_state e)\<rparr>, w))"
    using assms(2) lock_state_inv [OF assms(1)]
    by (simp add: engine_screen_snapshot_def with_state_def split: prod.splits)
  show "engine_inv used e' w \<and> w' = w \<and> en_session_id e' = en_session_id e"
    and "p \<in> set (session_panes ?s) \<Longrightarrow> \<exists>s. r = Inr s \<and> sn_pane_id s = p"
  proof (atomize (full), cases "p \<in> set (session_panes ?s)")
    case False
    then show "(engine_inv used e' w \<and> w' = w \<and> en_session_id e' = en_session_id e) \<and>
        (p \<in> set (session_panes ?s) \<longrightarrow> (\<exists>s. r = Inr s \<and> sn_pane_id s = p))"
      using run assms(1) by (simp add: with_pane_unknown [OF s False] engine_inv_def)
  next
    case True
    obtain tab pane title where "tab \<in> set (ns_tabs ?s)" "tab_pane tab p = Some pane"
      and pane: "pane_ok pane" "pn_pane_id pane = p"
      and wp: "with_pane p (\<lambda>title pane. render_snapshot env w title pane) ?s =
        (case render_snapshot env w title pane of (r, pane1) \<Rightarrow>
          (r, put_tab (\<lambda>tab. tab_pane tab p \<noteq> None) (set_pane p pane1 tab) ?s))"
      and inv: "\<forall>pane1. pane_ok pane1 \<longrightarrow> pn_pane_id pane1 = p \<longrightarrow>
        session_inv used (put_tab (\<lambda>tab. tab_pane tab p \<noteq> None) (set_pane p pane1 tab) ?s) w"
      by (rule with_pane_cases [OF s True, of "\<lambda>title pane. render_snapshot env w title pane"])
    from render_snapshot_ok [OF pane(1)] obtain sn pane1 where
      rs: "render_snapshot env w title pane = (Inr sn, pane1)" "pane_ok pane1"
        "pn_pane_id pane1 = pn_pane_id pane" "shows_now env w title pane sn" by metis
    show "(engine_inv used e' w \<and> w' = w \<and> en_session_id e' = en_session_id e) \<and>
        (p \<in> set (session_panes ?s) \<longrightarrow> (\<exists>s. r = Inr s \<and> sn_pane_id s = p))"
      using run rs pane inv assms(1) by (auto simp: wp engine_inv_def shows_now_def)
  qed
qed

lemma pane_screen_delta_ok:
  assumes "pane_ok pane"
  obtains d pane' where "pane_screen_delta env w title n pane = (Inr d, pane')" and "pane_ok pane'"
    and "pn_pane_id pane' = pn_pane_id pane" and "sd_from_sequence d = n"
proof -
  have pre: "pane_readable pane" "history_ok (pn_pane_id pane) (pane_history pane)"
    using assms by (simp_all add: pane_ok_def)
  then obtain cur pane' d where
    d: "render_snapshot env w title pane = (Inr cur, pane')"
      "pane_screen_delta env w title n pane = (Inr d, pane')" "sd_from_sequence d = n"
    by (rule pane_screen_delta_current)
  from render_snapshot_ok [OF assms] obtain s p where
    "render_snapshot env w title pane = (Inr s, p)" "pane_ok p" "pn_pane_id p = pn_pane_id pane"
    by metis
  with d show thesis by (intro that [of d pane']) simp_all
qed

lemma engine_screen_delta_inv:
  assumes "engine_inv used e w" and "engine_screen_delta env p n e w = (r, e', w')"
  shows "engine_inv used e' w \<and> w' = w \<and> en_session_id e' = en_session_id e"
    and "p \<in> set (session_panes (mutex_value (en_state e))) \<Longrightarrow>
         \<exists>d. r = Inr d \<and> sd_from_sequence d = n"
proof -
  let ?s = "mutex_value (en_state e)"
  have s: "session_inv used ?s w" using assms(1) by (simp add: engine_inv_def)
  have run: "(r, e', w') = (case with_pane p (\<lambda>title pane. pane_screen_delta env w title n pane) ?s of
      (r, s1) \<Rightarrow> (r, e\<lparr>en_state := mutex_set s1 (en_state e)\<rparr>, w))"
    using assms(2) lock_state_inv [OF assms(1)]
    by (simp add: engine_screen_delta_def with_state_def split: prod.splits)
  show "engine_inv used e' w \<and> w' = w \<and> en_session_id e' = en_session_id e"
    and "p \<in> set (session_panes ?s) \<Longrightarrow> \<exists>d. r = Inr d \<and> sd_from_sequence d = n"
  proof (atomize (full), cases "p \<in> set (session_panes ?s)")
    case False
    then show "(engine_inv used e' w \<and> w' = w \<and> en_session_id e' = en_session_id e) \<and>
        (p \<in> set (session_panes ?s) \<longrightarrow> (\<exists>d. r = Inr d \<and> sd_from_sequence d = n))"
      using run assms(1) by (simp add: with_pane_unknown [OF s False] engine_inv_def)
  next
    case True
    obtain tab pane title where "tab \<in> set (ns_tabs ?s)" "tab_pane tab p = Some pane"
      and pane: "pane_ok pane" "pn_pane_id pane = p"
      and wp: "with_pane p (\<lambda>title pane. pane_screen_delta env w title n pane) ?s =
        (case pane_screen_delta env w title n pane of (r, pane1) \<Rightarrow>
          (r, put_tab (\<lambda>tab. tab_pane tab p \<noteq> None) (set_pane p pane1 tab) ?s))"
      and inv: "\<forall>pane1. pane_ok pane1 \<longrightarrow> pn_pane_id pane1 = p \<longrightarrow>
        session_inv used (put_tab (\<lambda>tab. tab_pane tab p \<noteq> None) (set_pane p pane1 tab) ?s) w"
      by (rule with_pane_cases [OF s True, of "\<lambda>title pane. pane_screen_delta env w title n pane"])
    from pane_screen_delta_ok [OF pane(1)] obtain d pane1 where
      ds: "pane_screen_delta env w title n pane = (Inr d, pane1)" "pane_ok pane1"
        "pn_pane_id pane1 = pn_pane_id pane" "sd_from_sequence d = n" by metis
    show "(engine_inv used e' w \<and> w' = w \<and> en_session_id e' = en_session_id e) \<and>
        (p \<in> set (session_panes ?s) \<longrightarrow> (\<exists>d. r = Inr d \<and> sd_from_sequence d = n))"
      using run ds pane inv assms(1) by (auto simp: wp engine_inv_def)
  qed
qed

section \<open>Reachable engines\<close>

text \<open>
  The runs considered never hand out all 128-bit identifiers. \<open>Foreign\<close> is any step of the rest of the world that does not go through this engine: reader
  threads, other sessions, the shells. It may hand out identifiers, never take one back.
\<close>

inductive engine_step ::
    "'w native_env \<Rightarrow> ('w \<Rightarrow> uuid set) \<Rightarrow> native_engine \<times> 'w \<Rightarrow> native_engine \<times> 'w \<Rightarrow> bool"
  for env used where
  Command: "session_dispatch env command e w = (r, e', w') \<Longrightarrow> engine_step env used (e, w) (e', w')"
| Snapshot: "engine_screen_snapshot env p e w = (r, e', w') \<Longrightarrow> engine_step env used (e, w) (e', w')"
| Delta: "engine_screen_delta env p n e w = (r, e', w') \<Longrightarrow> engine_step env used (e, w) (e', w')"
| Foreign: "used w \<subseteq> used w' \<Longrightarrow> engine_step env used (e, w) (e, w')"

inductive_cases engine_stepE: "engine_step env used (e, w) (e', w')"

inductive engine_reachable ::
    "'w native_env \<Rightarrow> ('w \<Rightarrow> uuid set) \<Rightarrow> session_id \<Rightarrow> native_engine \<times> 'w \<Rightarrow> bool"
  for env used sid where
  Spawned: "engine_spawn env sid route spec w = (Inr e, w') \<Longrightarrow> used w' \<noteq> UNIV \<Longrightarrow>
    engine_reachable env used sid (e, w')"
| Stepped: "engine_reachable env used sid c \<Longrightarrow> engine_step env used c c' \<Longrightarrow>
    used (snd c') \<noteq> UNIV \<Longrightarrow> engine_reachable env used sid c'"

lemma engine_spawn_inv:
  assumes "issues_fresh_ids env used" and "engine_spawn env sid route spec w = (Inr e, w')"
    and "used w' \<noteq> UNIV"
  shows "engine_inv used e w' \<and> en_session_id e = sid"
proof -
  obtain launch where l: "resolve_launch_spec env (cs_launch spec) = Inr launch"
    using assms(2) by (cases "resolve_launch_spec env (cs_launch spec)") (auto simp: engine_spawn_def)
  obtain tick w1 where k: "ne_watch_channel env 0 w = (tick, w1)" by (metis surj_pair)
  obtain r w2 where t: "spawn_tab env (cs_title spec) launch default_rows default_cols w1 = (r, w2)"
    by (metis surj_pair)
  obtain tab where r: "r = Inr tab"
    using assms(2) l k t by (cases r) (auto simp: engine_spawn_def)
  have e: "w' = w2" "en_session_id e = sid" "\<not> mutex_poisoned (en_state e)"
      "ns_tabs (mutex_value (en_state e)) = [tab]"
      "ns_focused_tab (mutex_value (en_state e)) = tb_tab_id tab"
    using assms(2) l k t r by (auto simp: engine_spawn_def)
  from fresh_spawn_tab [OF assms(1) t] assms(3) e(1) r obtain pane where tab: "tb_panes tab = [pane]"
      "tb_root tab = NLeaf (pn_pane_id pane)" "tb_focused_pane tab = pn_pane_id pane" "pane_ok pane"
    and u: "used w2 = insert (id_uuid (tb_tab_id tab)) (insert (id_uuid (pn_pane_id pane)) (used w1))"
    by auto
  show ?thesis
    using e tab u
    by (simp add: engine_inv_def session_inv_def session_ok_def ids_used_def session_tab_ids_def
        session_panes_def tab_leaves_def tab_ok_def)
qed

lemma engine_step_inv:
  assumes "issues_fresh_ids env used" and "engine_inv used e w"
    and "engine_step env used (e, w) (e', w')" and "used w' \<noteq> UNIV"
  shows "engine_inv used e' w' \<and> en_session_id e' = en_session_id e"
proof -
  from assms(3) consider
      (command) command r where "session_dispatch env command e w = (r, e', w')"
    | (snapshot) p r where "engine_screen_snapshot env p e w = (r, e', w')"
    | (delta) p n r where "engine_screen_delta env p n e w = (r, e', w')"
    | (foreign) "e' = e" "used w \<subseteq> used w'"
    by (elim engine_stepE) blast+
  then show ?thesis
  proof cases
    case command
    then show ?thesis using session_dispatch_inv [OF assms(1,2) _ assms(4)] by blast
  next
    case snapshot
    then show ?thesis using engine_screen_snapshot_inv(1) [OF assms(2)] by blast
  next
    case delta
    then show ?thesis using engine_screen_delta_inv(1) [OF assms(2)] by blast
  next
    case foreign
    then show ?thesis using assms(2) session_inv_mono by (auto simp: engine_inv_def)
  qed
qed

lemma engine_reachable_inv:
  assumes "issues_fresh_ids env used" and "engine_reachable env used sid c"
  shows "engine_inv used (fst c) (snd c) \<and> en_session_id (fst c) = sid"
  using assms(2)
proof (induction rule: engine_reachable.induct)
  case (Spawned route spec w e w')
  then show ?case using engine_spawn_inv [OF assms(1)] by simp
next
  case (Stepped c c')
  obtain e w e' w' where c: "c = (e, w)" "c' = (e', w')" by (metis surj_pair)
  show ?case
    using engine_step_inv [OF assms(1), of e w e' w'] Stepped unfolding c by simp
qed

section \<open>Topologies\<close>

definition topology_panes :: "topology_snapshot \<Rightarrow> pane_id list" where
  "topology_panes T = concat (map (\<lambda>tab. snapshot_panes (ts_root tab)) (tp_tabs T))"

text \<open>
  What a client may rely on: the focused tab is one of the tabs, no two tabs and no two panes
  share an identifier, the focused pane of each tab is one of its panes.
\<close>

definition topology_wf :: "topology_snapshot \<Rightarrow> bool" where
  "topology_wf T \<longleftrightarrow>
     (\<exists>f. tp_focused_tab T = Some f \<and> f \<in> set (map ts_tab_id (tp_tabs T))) \<and>
     distinct (map ts_tab_id (tp_tabs T)) \<and> distinct (topology_panes T) \<and>
     (\<forall>tab\<in>set (tp_tabs T).
        \<exists>p. ts_focused_pane tab = Some p \<and> p \<in> set (snapshot_panes (ts_root tab)))"

lemma session_topology_panes [simp]: "topology_panes (session_topology sid s) = session_panes s"
  by (simp add: topology_panes_def session_topology_def session_panes_def tab_snapshot_of_def
      tab_leaves_def [abs_def] comp_def)

lemma session_topology_tab_ids [simp]:
  "map ts_tab_id (tp_tabs (session_topology sid s)) = session_tab_ids s"
  by (simp add: session_topology_def session_tab_ids_def tab_snapshot_of_def)

lemma session_topology_wf:
  assumes "session_ok s"
  shows "topology_wf (session_topology sid s)"
proof -
  have "\<exists>p. ts_focused_pane tab = Some p \<and> p \<in> set (snapshot_panes (ts_root tab))"
    if "tab \<in> set (tp_tabs (session_topology sid s))" for tab
    using that assms
    by (auto simp: session_topology_def tab_snapshot_of_def session_ok_def tab_ok_def)
  moreover have "tp_focused_tab (session_topology sid s) = Some (ns_focused_tab s)"
    by (simp add: session_topology_def)
  ultimately show ?thesis
    using assms unfolding topology_wf_def session_topology_panes session_topology_tab_ids
    by (simp add: session_ok_def)
qed

section \<open>Sessions of the backend\<close>

lemma created_session_attaches:
  assumes "\<And>u. uuid_parse_str (uuid_to_string u) = Some u"
    and "backend_create_session env uuid_to_string spec b w = (Inr binding, b', w')"
  shows "\<exists>e. resolve_session_runtime uuid_parse_str b' (bb_session_id binding) (bb_route binding)
             = Inr e \<and> en_session_id e = bb_session_id binding \<and>
             engine_summary e = Inr \<lparr>bs_session_id = bb_session_id binding,
                                     bs_route = bb_route binding, bs_title = cs_title spec\<rparr>"
proof -
  obtain u w1 where u: "ne_new_uuid env w = (u, w1)" by (metis surj_pair)
  let ?route = "local_native_route uuid_to_string (Id u)"
  obtain r w2 where sp: "engine_spawn env (Id u) ?route spec w1 = (r, w2)" by (metis surj_pair)
  obtain e where r: "r = Inr e"
    using assms(2) u sp by (cases r) (auto simp: backend_create_session_def Let_def)
  have np: "\<not> mutex_poisoned (nb_sessions b)"
    using assms(2) u sp r
    by (auto simp: backend_create_session_def Let_def mutex_lock_def split: if_splits)
  have b: "binding = \<lparr>bb_session_id = Id u, bb_route = ?route\<rparr>"
    "b' = b\<lparr>nb_sessions := mutex_set (AList.update (Id u) e (mutex_value (nb_sessions b)))
                            (nb_sessions b)\<rparr>"
    using assms(2) u sp r np by (auto simp: backend_create_session_def Let_def mutex_lock_def)
  have id: "local_native_session_id uuid_parse_str ?route = Some (Id u)"
    by (simp add: local_native_session_id_Some_iff local_native_route_def assms(1))
  have "resolve_session_runtime uuid_parse_str b' (Id u) ?route = Inr e"
    using np id
    by (simp add: resolve_session_runtime_def b mutex_lock_def update_conv')
      (simp add: local_native_route_def)
  moreover have "en_session_id e = Id u" and "engine_summary e = Inr \<lparr>bs_session_id = Id u,
      bs_route = ?route, bs_title = cs_title spec\<rparr>"
    using sp r
    by (auto simp: engine_spawn_def engine_summary_def lock_state_def mutex_lock_def mutex_new_def
        split: sum.splits prod.splits)
  ultimately show ?thesis by (simp add: b)
qed

lemma attach_checks_identity:
  assumes "resolve_session_runtime uuid_parse_str b sid route = Inr e"
    and "local_native_session_id uuid_parse_str route = Some rid"
  shows "rid = sid \<and> map_of (mutex_value (nb_sessions b)) sid = Some e"
  using assms
  by (auto simp: resolve_session_runtime_def mutex_lock_def split: if_splits)

end
