(* ===== verification/Native_Refinement.thy ===== *)
theory Native_Refinement
  imports Native_Sessions
begin

text \<open>
  The abstract multiplexer a client sees: a topology and what each command does to it, with no
  pseudo terminals, sizes or ratios. The engine implements it: a command that reports a change
  has made the specified change to the topology, one that reports none has made none, and one
  that fails has made none or, when only the final layout failed, all of it.
\<close>

section \<open>The specification\<close>

fun spec_split_tree ::
    "pane_tree_node \<Rightarrow> pane_id \<Rightarrow> split_direction \<Rightarrow> pane_id \<Rightarrow> pane_tree_node" where
  "spec_split_tree (PLeaf p) target dir new =
     (if p = target then PSplit dir (PLeaf p) (PLeaf new) else PLeaf p)"
| "spec_split_tree (PSplit d a b) target dir new =
     PSplit d (spec_split_tree a target dir new) (spec_split_tree b target dir new)"

fun spec_prune_tree :: "pane_tree_node \<Rightarrow> pane_id \<Rightarrow> pane_tree_node option" where
  "spec_prune_tree (PLeaf p) target = (if p = target then None else Some (PLeaf p))"
| "spec_prune_tree (PSplit d a b) target =
     (case spec_prune_tree a target of
        None \<Rightarrow> spec_prune_tree b target
      | Some a' \<Rightarrow>
          (case spec_prune_tree b target of None \<Rightarrow> Some a' | Some b' \<Rightarrow> Some (PSplit d a' b')))"

definition snapshot_contains :: "pane_id \<Rightarrow> tab_snapshot \<Rightarrow> bool" where
  "snapshot_contains p tab \<longleftrightarrow> p \<in> set (snapshot_panes (ts_root tab))"

definition spec_on_tab ::
    "(tab_snapshot \<Rightarrow> bool) \<Rightarrow> (tab_snapshot \<Rightarrow> tab_snapshot) \<Rightarrow> topology_snapshot \<Rightarrow> topology_snapshot"
  where
  "spec_on_tab q f T = T\<lparr>tp_tabs := update_first q f (tp_tabs T)\<rparr>"

definition spec_focus_owner :: "pane_id \<Rightarrow> topology_snapshot \<Rightarrow> topology_snapshot" where
  "spec_focus_owner p T =
     T\<lparr>tp_focused_tab := map_option ts_tab_id (find (snapshot_contains p) (tp_tabs T))\<rparr>"

definition spec_close_pane_tab :: "pane_id \<Rightarrow> tab_snapshot \<Rightarrow> tab_snapshot" where
  "spec_close_pane_tab p tab =
     (case spec_prune_tree (ts_root tab) p of
        None \<Rightarrow> tab
      | Some root \<Rightarrow>
          tab\<lparr>ts_root := root,
              ts_focused_pane := (if ts_focused_pane tab = Some p
                then Some (hd (snapshot_panes root)) else ts_focused_pane tab)\<rparr>)"

definition spec_close_tab :: "tab_id \<Rightarrow> topology_snapshot \<Rightarrow> topology_snapshot" where
  "spec_close_tab t T =
     (case position (\<lambda>tab. ts_tab_id tab = t) (tp_tabs T) of
        None \<Rightarrow> T
      | Some i \<Rightarrow>
          let rest = remove_at i (tp_tabs T)
          in T\<lparr>tp_tabs := rest,
               tp_focused_tab := (if tp_focused_tab T = Some t
                 then Some (ts_tab_id (rest ! min i (length rest - 1))) else tp_focused_tab T)\<rparr>)"

definition spec_command ::
    "pane_id \<Rightarrow> tab_id \<Rightarrow> mux_command \<Rightarrow> topology_snapshot \<Rightarrow> topology_snapshot" where
  "spec_command new_pane new_tab command T =
     (case command of
        CNewTab spec \<Rightarrow>
          T\<lparr>tp_tabs := tp_tabs T @ [\<lparr>ts_tab_id = new_tab, ts_title = nt_title spec,
                                    ts_root = PLeaf new_pane, ts_focused_pane = Some new_pane\<rparr>],
            tp_focused_tab := Some new_tab\<rparr>
      | CSplitPane spec \<Rightarrow>
          spec_on_tab (snapshot_contains (sp_pane_id spec))
            (\<lambda>tab. tab\<lparr>ts_root := spec_split_tree (ts_root tab) (sp_pane_id spec)
                                   (sp_direction spec) new_pane,
                       ts_focused_pane := Some new_pane\<rparr>)
            (spec_focus_owner (sp_pane_id spec) T)
      | CFocusTab t \<Rightarrow> T\<lparr>tp_focused_tab := Some t\<rparr>
      | CRenameTab t title \<Rightarrow>
          spec_on_tab (\<lambda>tab. ts_tab_id tab = t) (\<lambda>tab. tab\<lparr>ts_title := Some title\<rparr>) T
      | CFocusPane p \<Rightarrow>
          spec_on_tab (snapshot_contains p) (\<lambda>tab. tab\<lparr>ts_focused_pane := Some p\<rparr>)
            (spec_focus_owner p T)
      | CClosePane p \<Rightarrow> spec_on_tab (snapshot_contains p) (spec_close_pane_tab p) T
      | CCloseTab t \<Rightarrow> spec_close_tab t T
      | COverrideLayout spec \<Rightarrow>
          spec_on_tab (\<lambda>tab. ts_tab_id tab = ol_tab_id spec)
            (\<lambda>tab. tab\<lparr>ts_root := ol_root spec\<rparr>) T
      | _ \<Rightarrow> T)"

section \<open>Trees\<close>

lemma spec_split_tree_absent:
  "target \<notin> set (snapshot_panes t) \<Longrightarrow> spec_split_tree t target dir new = t"
  by (induction t) auto

lemma node_snapshot_split_leaf:
  assumes "distinct (node_panes t)"
  shows "node_snapshot (snd (split_leaf t target dir new)) =
         spec_split_tree (node_snapshot t) target dir new"
  using assms
proof (induction t)
  case (NSplit d r a b)
  have fa: "fst (split_leaf a target dir new) \<longleftrightarrow> target \<in> set (node_panes a)"
    by (rule split_leaf_found)
  show ?case
  proof (cases "target \<in> set (node_panes a)")
    case True
    then have "target \<notin> set (node_panes b)" using NSplit.prems by auto
    then have "spec_split_tree (node_snapshot b) target dir new = node_snapshot b"
      by (simp add: spec_split_tree_absent)
    then show ?thesis
      using True fa NSplit by (auto simp: Let_def split: prod.splits)
  next
    case False
    then have "spec_split_tree (node_snapshot a) target dir new = node_snapshot a"
      by (simp add: spec_split_tree_absent)
    then show ?thesis
      using False fa NSplit by (auto simp: Let_def split: prod.splits)
  qed
qed simp

lemma node_snapshot_remove_leaf:
  "map_option node_snapshot (remove_leaf t p) = spec_prune_tree (node_snapshot t) p"
proof (induction t)
  case (NSplit d r a b)
  then show ?case
    by (cases "remove_leaf a p"; cases "remove_leaf b p") (auto simp flip: NSplit.IH)
qed simp

section \<open>Replacing a tab\<close>

lemma map_update_first_found:
  assumes "find q xs = Some x" and "\<And>t. q' (g t) \<longleftrightarrow> q t" and "f (g x) = g x'"
  shows "map g (update_first q (\<lambda>_. x') xs) = update_first q' f (map g xs)"
proof -
  from find_split [OF assms(1)] obtain ys zs
    where xs: "xs = ys @ x # zs" "q x" "\<forall>y\<in>set ys. \<not> q y" by blast
  have "\<forall>y\<in>set (map g ys). \<not> q' y" and "q' (g x)" using xs assms(2) by auto
  then show ?thesis using xs assms(3) by (simp add: update_first_split)
qed

lemma put_tab_topology:
  assumes "find q (ns_tabs s) = Some tab" and "\<And>t. q' (tab_snapshot_of t) \<longleftrightarrow> q t"
    and "f (tab_snapshot_of tab) = tab_snapshot_of tab'"
  shows "session_topology sid (put_tab q tab' s) = spec_on_tab q' f (session_topology sid s)"
proof -
  have "map tab_snapshot_of (update_first q (\<lambda>_. tab') (ns_tabs s)) =
      update_first q' f (map tab_snapshot_of (ns_tabs s))"
    by (rule map_update_first_found [where q = q and x = tab]) (rule assms)+
  then show ?thesis by (simp add: session_topology_def put_tab_def spec_on_tab_def)
qed

lemma same_tab_snapshot: "same_tab tab tab1 \<Longrightarrow> tab_snapshot_of tab1 = tab_snapshot_of tab"
  by (simp add: same_tab_def tab_snapshot_of_def)

lemma put_tab_same_topology:
  assumes "tab_snapshot_of tab1 = tab_snapshot_of tab"
  shows "session_topology sid (put_tab q tab1 s) = session_topology sid (put_tab q tab s)"
proof -
  have "map tab_snapshot_of (update_first q (\<lambda>_. tab1) ts) =
      map tab_snapshot_of (update_first q (\<lambda>_. tab) ts)" for ts
    by (induction ts) (simp_all add: assms)
  then show ?thesis by (simp add: session_topology_def put_tab_def)
qed

lemma put_tab_unchanged:
  assumes "find q (ns_tabs s) = Some tab" and "tab_snapshot_of tab1 = tab_snapshot_of tab"
  shows "session_topology sid (put_tab q tab1 s) = session_topology sid s"
proof -
  from find_split [OF assms(1)] obtain ys zs
    where "ns_tabs s = ys @ tab # zs" "q tab" "\<forall>y\<in>set ys. \<not> q y" by blast
  then show ?thesis
    using assms(2) by (simp add: session_topology_def put_tab_def update_first_split)
qed

lemma finish_reflow_topology:
  assumes "finish_reflow env q x tab s w = (r, s', w')"
  shows "session_topology sid s' = session_topology sid (put_tab q tab s)"
proof -
  obtain r1 tab1 w1 where
    fl: "reflow_tab_layout env (ns_rows s) (ns_cols s) tab w = (r1, tab1, w1)"
    by (metis surj_pair)
  have st: "same_tab tab tab1"
    using apply_pane_layout_keeps [OF fl [unfolded reflow_tab_layout_def]] by simp
  have s': "s' = put_tab q tab1 s"
    using assms fl by (auto simp: finish_reflow_def split: sum.splits)
  show ?thesis unfolding s' by (rule put_tab_same_topology [OF same_tab_snapshot [OF st]])
qed

lemma topology_focus:
  "session_topology sid (put_tab q tab (s\<lparr>ns_focused_tab := f\<rparr>)) =
     (session_topology sid (put_tab q tab s))\<lparr>tp_focused_tab := Some f\<rparr>"
  by (simp add: session_topology_def put_tab_def)

lemma find_owner:
  assumes "find (\<lambda>tab. tab_contains_pane tab p) (ns_tabs s) = Some tab"
  shows "spec_focus_owner p (session_topology sid s) =
         (session_topology sid s)\<lparr>tp_focused_tab := Some (tb_tab_id tab)\<rparr>"
proof -
  have "find (snapshot_contains p) (map tab_snapshot_of ts) =
      map_option tab_snapshot_of (find (\<lambda>tab. tab_contains_pane tab p) ts)" for ts
    by (induction ts) (auto simp: snapshot_contains_def tab_snapshot_of_def tab_contains_pane_def)
  then show ?thesis
    using assms by (simp add: spec_focus_owner_def session_topology_def tab_snapshot_of_def)
qed

lemma contains_snapshot_of: "snapshot_contains p (tab_snapshot_of t) \<longleftrightarrow> tab_contains_pane t p"
  by (simp add: snapshot_contains_def tab_snapshot_of_def tab_contains_pane_def)

section \<open>Every command implements its specification\<close>

text \<open>
  \<open>implements sid s np nt command r s'\<close>: the result \<open>r\<close> and the new state agree with the
  specification, for the new identifiers \<open>np\<close> and \<open>nt\<close>.
\<close>

definition implements ::
    "session_id \<Rightarrow> native_session_state \<Rightarrow> pane_id \<Rightarrow> tab_id \<Rightarrow> mux_command
     \<Rightarrow> backend_error + bool \<Rightarrow> native_session_state \<Rightarrow> bool" where
  "implements sid s np nt command r s' \<longleftrightarrow>
     (let T = session_topology sid s; T' = session_topology sid s';
          S = spec_command np nt command T
      in case r of Inl _ \<Rightarrow> T' = T \<or> T' = S | Inr c \<Rightarrow> T' = (if c then S else T))"

lemma implements_same: "implements sid s np nt command (Inl e) s"
  "implements sid s np nt command (Inr False) s"
  by (simp_all add: implements_def Let_def)

lemma implements_spec:
  assumes "session_topology sid s' = spec_command np nt command (session_topology sid s)"
    and "r \<noteq> Inr False"
  shows "implements sid s np nt command r s'"
  using assms by (auto simp: implements_def Let_def split: sum.split)

lemma finish_reflow_implements:
  assumes "finish_reflow env q True tab s w = (r, s', w')"
    and "session_topology sid (put_tab q tab s) = spec_command np nt command (session_topology sid s0)"
  shows "implements sid s0 np nt command r s'"
proof (rule implements_spec)
  show "session_topology sid s' = spec_command np nt command (session_topology sid s0)"
    using finish_reflow_topology [OF assms(1), of sid] assms(2) by simp
  show "r \<noteq> Inr False" using assms(1) by (auto simp: finish_reflow_def split: prod.splits sum.splits)
qed

lemma new_tab_implements:
  assumes "issues_fresh_ids env used" and "session_inv used s w"
    and "dispatch_new_tab env spec s w = (r, s', w')" and "used w' \<noteq> UNIV"
  shows "\<exists>np nt. implements sid s np nt (CNewTab spec) r s' \<and>
           (r = Inr True \<longrightarrow> np \<notin> set (session_panes s) \<and> nt \<notin> set (session_tab_ids s))"
proof -
  obtain r1 w1 where sp: "spawn_tab env (nt_title spec) (ns_launch s) (ns_rows s) (ns_cols s) w =
      (r1, w1)" by (metis surj_pair)
  have "w' = w1" using assms(3) sp by (cases r1) (simp_all add: dispatch_new_tab_def)
  then have room: "used w1 \<noteq> UNIV" using assms(4) by simp
  show ?thesis
  proof (cases r1)
    case (Inl e)
    then have "r = Inl e" "s' = s" using assms(3) sp by (simp_all add: dispatch_new_tab_def)
    then show ?thesis using implements_same(1) by blast
  next
    case (Inr tab)
    from fresh_spawn_tab [OF assms(1) sp room] Inr have "\<exists>pane :: native_pane.
        tb_root tab = NLeaf (pn_pane_id pane) \<and> tb_focused_pane tab = pn_pane_id pane \<and>
        id_uuid (pn_pane_id pane) \<notin> used w \<and> id_uuid (tb_tab_id tab) \<notin> used w"
      by (simp only: sum.case) blast
    then obtain pane :: native_pane where
      tab: "tb_root tab = NLeaf (pn_pane_id pane)" "tb_focused_pane tab = pn_pane_id pane"
      and new: "id_uuid (pn_pane_id pane) \<notin> used w" "id_uuid (tb_tab_id tab) \<notin> used w" by blast
    have title: "tb_title tab = nt_title spec"
      using sp Inr by (auto simp: spawn_tab_def split: prod.splits sum.splits)
    have s': "s' = s\<lparr>ns_focused_tab := tb_tab_id tab, ns_tabs := ns_tabs s @ [tab]\<rparr>" "r = Inr True"
      using assms(3) sp Inr by (simp_all add: dispatch_new_tab_def)
    have "implements sid s (pn_pane_id pane) (tb_tab_id tab) (CNewTab spec) r s'"
      by (rule implements_spec)
        (simp_all add: s' spec_command_def session_topology_def tab_snapshot_of_def tab title)
    moreover have "pn_pane_id pane \<notin> set (session_panes s)"
      and "tb_tab_id tab \<notin> set (session_tab_ids s)"
      using assms(2) new by (auto simp: session_inv_def ids_used_def)
    ultimately show ?thesis by blast
  qed
qed

lemma split_pane_implements:
  assumes "issues_fresh_ids env used" and "session_inv used s w"
    and "dispatch_split_pane env spec s w = (r, s', w')" and "used w' \<noteq> UNIV"
  shows "\<exists>np. implements sid s np nt (CSplitPane spec) r s' \<and>
           (r = Inr True \<longrightarrow> np \<notin> set (session_panes s))"
proof (cases "find (\<lambda>tab. tab_contains_pane tab (sp_pane_id spec)) (ns_tabs s)")
  case None
  then have "s' = s \<and> (\<exists>e. r = Inl e)" using assms(3) by (auto simp: dispatch_split_pane_def)
  then show ?thesis using implements_same(1) by blast
next
  case (Some tab)
  note ok = found_tab_ok [OF assms(2) Some]
  obtain r1 w1 where sp: "spawn_pane env (ns_launch s) (ns_rows s) (ns_cols s) w = (r1, w1)"
    by (metis surj_pair)
  have room: "used w1 \<noteq> UNIV"
    using split_pane_used [OF assms(1,3) Some sp] assms(4) by simp
  show ?thesis
  proof (cases r1)
    case (Inl e)
    then have "s' = s \<and> r = Inl e" using assms(3) Some sp by (simp add: dispatch_split_pane_def)
    then show ?thesis using implements_same(1) by blast
  next
    case (Inr pane)
    let ?n = "pn_pane_id pane" and ?t = "sp_pane_id spec"
    obtain found root1 where sl: "split_leaf (tb_root tab) ?t (sp_direction spec) ?n = (found, root1)"
      by (metis surj_pair)
    have "?t \<in> set (node_panes (tb_root tab))"
      using ok(3) by (simp add: tab_contains_pane_def)
    then have "found" using split_leaf_found [of "tb_root tab" ?t "sp_direction spec" ?n] sl by simp
    let ?tab1 = "tab\<lparr>tb_root := root1, tb_focused_pane := ?n, tb_panes := tb_panes tab @ [pane]\<rparr>"
    let ?f = "\<lambda>tab. tab\<lparr>ts_root := spec_split_tree (ts_root tab) ?t (sp_direction spec) ?n,
                       ts_focused_pane := Some ?n\<rparr>"
    have snap: "node_snapshot root1 = spec_split_tree (node_snapshot (tb_root tab)) ?t
        (sp_direction spec) ?n"
      using node_snapshot_split_leaf [of "tb_root tab" ?t "sp_direction spec" ?n] ok(1) sl
      by (simp add: tab_ok_def)
    have "finish_reflow env (\<lambda>tab. tab_contains_pane tab ?t) True ?tab1
        (s\<lparr>ns_focused_tab := tb_tab_id tab\<rparr>) w1 = (r, s', w')"
      using assms(3) Some sp Inr sl \<open>found\<close> by (simp add: dispatch_split_pane_def)
    moreover have "session_topology sid (put_tab (\<lambda>tab. tab_contains_pane tab ?t) ?tab1 s) =
        spec_on_tab (snapshot_contains ?t) ?f (session_topology sid s)"
      by (rule put_tab_topology [OF Some])
        (simp_all add: contains_snapshot_of, simp add: tab_snapshot_of_def snap)
    then have "session_topology sid (put_tab (\<lambda>tab. tab_contains_pane tab ?t) ?tab1
        (s\<lparr>ns_focused_tab := tb_tab_id tab\<rparr>)) =
        spec_command ?n nt (CSplitPane spec) (session_topology sid s)"
      by (simp add: topology_focus spec_command_def find_owner [OF Some]) (simp add: spec_on_tab_def)
    ultimately have "implements sid s ?n nt (CSplitPane spec) r s'"
      by (rule finish_reflow_implements)
    moreover have "?n \<notin> set (session_panes s)"
      using fresh_spawn_pane [OF assms(1) sp room] Inr assms(2) by (auto simp: session_inv_def ids_used_def)
    ultimately show ?thesis by blast
  qed
qed

lemma focus_tab_implements:
  assumes "session_inv used s w" and "dispatch_focus_tab t s = (r, s')"
  shows "implements sid s np nt (CFocusTab t) r s'"
proof (cases "r = Inr True")
  case True
  then have "s' = s\<lparr>ns_focused_tab := t\<rparr>"
    using assms(2) by (auto simp: dispatch_focus_tab_def split: if_splits)
  then show ?thesis using True
    by (intro implements_spec) (simp_all add: spec_command_def session_topology_def)
next
  case False
  then have "s' = s \<and> (r = Inr False \<or> (\<exists>e. r = Inl e))"
    using assms(2) by (auto simp: dispatch_focus_tab_def split: if_splits)
  then show ?thesis using implements_same by blast
qed

lemma rename_tab_implements:
  assumes "session_inv used s w" and "dispatch_rename_tab t title s = (r, s')"
  shows "implements sid s np nt (CRenameTab t title) (map_sum id fst r) s'"
proof (cases "find (\<lambda>tab. tb_tab_id tab = t) (ns_tabs s)")
  case None
  then show ?thesis
    using assms(2) by (auto simp: dispatch_rename_tab_def intro: implements_same)
next
  case (Some tab)
  show ?thesis
  proof (cases "tb_title tab = Some title")
    case True
    then show ?thesis
      using assms(2) Some by (auto simp: dispatch_rename_tab_def intro: implements_same)
  next
    case False
    then have r: "s' = put_tab (\<lambda>tab. tb_tab_id tab = t) (tab\<lparr>tb_title := Some title\<rparr>) s"
        "map_sum id fst r = Inr True"
      using assms(2) Some by (auto simp: dispatch_rename_tab_def Let_def)
    have "session_topology sid s' = spec_on_tab (\<lambda>tab. ts_tab_id tab = t)
        (\<lambda>tab. tab\<lparr>ts_title := Some title\<rparr>) (session_topology sid s)"
      unfolding r(1) by (rule put_tab_topology [OF Some]) (simp_all add: tab_snapshot_of_def)
    then show ?thesis
      using r(2) by (intro implements_spec) (simp_all add: spec_command_def)
  qed
qed

lemma focus_pane_implements:
  assumes "session_inv used s w" and "dispatch_focus_pane p s = (r, s')"
  shows "implements sid s np nt (CFocusPane p) r s'"
proof (cases "find (\<lambda>tab. tab_contains_pane tab p) (ns_tabs s)")
  case None
  then show ?thesis
    using assms(2) by (auto simp: dispatch_focus_pane_def intro: implements_same)
next
  case (Some tab)
  show ?thesis
  proof (cases "ns_focused_tab s = tb_tab_id tab \<and> tb_focused_pane tab = p")
    case True
    then show ?thesis
      using assms(2) Some by (auto simp: dispatch_focus_pane_def intro: implements_same)
  next
    case False
    then have r: "r = Inr True" "s' = put_tab (\<lambda>tab. tab_contains_pane tab p)
        (tab\<lparr>tb_focused_pane := p\<rparr>) (s\<lparr>ns_focused_tab := tb_tab_id tab\<rparr>)"
      using assms(2) Some by (auto simp: dispatch_focus_pane_def)
    have "session_topology sid (put_tab (\<lambda>tab. tab_contains_pane tab p)
        (tab\<lparr>tb_focused_pane := p\<rparr>) s) =
        spec_on_tab (snapshot_contains p) (\<lambda>tab. tab\<lparr>ts_focused_pane := Some p\<rparr>)
          (session_topology sid s)"
      by (rule put_tab_topology [OF Some])
        (simp_all add: contains_snapshot_of, simp add: tab_snapshot_of_def)
    then show ?thesis
      using r(1) unfolding r(2)
      by (intro implements_spec)
        (simp_all add: topology_focus spec_command_def find_owner [OF Some], simp add: spec_on_tab_def)
  qed
qed

lemma close_pane_implements:
  assumes "session_inv used s w" and "dispatch_close_pane env p s w = (r, s', w')"
  shows "implements sid s np nt (CClosePane p) r s'"
proof (cases "find (\<lambda>tab. tab_contains_pane tab p) (ns_tabs s)")
  case None
  then show ?thesis
    using assms(2) by (auto simp: dispatch_close_pane_def intro: implements_same)
next
  case (Some tab)
  note ok = found_tab_ok [OF assms(1) Some]
  show ?thesis
  proof (cases "length (tb_panes tab) \<le> 1 \<or> remove_leaf (tb_root tab) p = None")
    case True
    then have "s' = s \<and> (\<exists>e. r = Inl e)"
      using assms(2) Some
      by (cases "length (tb_panes tab) \<le> 1") (auto simp: dispatch_close_pane_def Let_def)
    then show ?thesis using implements_same(1) by blast
  next
    case False
    then obtain root1 where rm: "remove_leaf (tb_root tab) p = Some root1" by auto
    let ?f = "if tb_focused_pane tab = p then hd (node_panes root1) else tb_focused_pane tab"
    let ?tab1 = "tab\<lparr>tb_root := root1,
        tb_panes := filter (\<lambda>pane. pn_pane_id pane \<noteq> p) (tb_panes tab), tb_focused_pane := ?f\<rparr>"
    have "finish_reflow env (\<lambda>tab. tab_contains_pane tab p) True ?tab1 s w = (r, s', w')"
      using assms(2) Some False rm
      by (auto simp: dispatch_close_pane_def Let_def tab_first_pane_id_def node_first_pane_id_eq)
    moreover have "spec_prune_tree (node_snapshot (tb_root tab)) p = Some (node_snapshot root1)"
      using node_snapshot_remove_leaf [of "tb_root tab" p] rm by simp
    then have "session_topology sid (put_tab (\<lambda>tab. tab_contains_pane tab p) ?tab1 s) =
        spec_on_tab (snapshot_contains p) (spec_close_pane_tab p) (session_topology sid s)"
      by (intro put_tab_topology [OF Some])
        (simp_all add: contains_snapshot_of, simp add: tab_snapshot_of_def spec_close_pane_tab_def)
    then have "session_topology sid (put_tab (\<lambda>tab. tab_contains_pane tab p) ?tab1 s) =
        spec_command np nt (CClosePane p) (session_topology sid s)"
      by (simp add: spec_command_def)
    ultimately show ?thesis by (rule finish_reflow_implements)
  qed
qed

lemma close_tab_implements:
  assumes "session_inv used s w" and "dispatch_close_tab t s = (r, s')"
  shows "implements sid s np nt (CCloseTab t) r s'"
proof (cases "length (ns_tabs s) = 1 \<or> position (\<lambda>tab. tb_tab_id tab = t) (ns_tabs s) = None")
  case True
  then show ?thesis
    using assms(2)
    by (cases "length (ns_tabs s) = 1") (auto simp: dispatch_close_tab_def intro: implements_same)
next
  case False
  then obtain i where i: "position (\<lambda>tab. tb_tab_id tab = t) (ns_tabs s) = Some i" by auto
  have r: "r = Inr True" using assms(2) False i by (auto simp: dispatch_close_tab_def Let_def split: if_splits)
  have pos: "position (\<lambda>tab. ts_tab_id tab = t) (map tab_snapshot_of ts) =
      position (\<lambda>tab. tb_tab_id tab = t) ts" for ts
    by (induction ts) (simp_all add: tab_snapshot_of_def)
  let ?rest = "remove_at i (ns_tabs s)"
  have "i < length (ns_tabs s)" using i by (simp add: position_Some_iff)
  then have "0 < length ?rest" using False by (simp add: length_remove_at)
  then have "min i (length ?rest - 1) < length ?rest" by linarith
  then have nth: "ts_tab_id (map tab_snapshot_of ?rest ! min i (length ?rest - 1)) =
      tb_tab_id (?rest ! min i (length ?rest - 1))"
    by (simp add: tab_snapshot_of_def)
  have "session_topology sid s' = spec_close_tab t (session_topology sid s)"
    using assms(2) False i nth
    by (auto simp: dispatch_close_tab_def Let_def spec_close_tab_def session_topology_def pos
        map_remove_at [symmetric])
  then show ?thesis using r by (intro implements_spec) (simp_all add: spec_command_def)
qed

lemma override_layout_implements:
  assumes "session_inv used s w" and "dispatch_override_layout env spec s w = (r, s', w')"
  shows "implements sid s np nt (COverrideLayout spec) (map_sum id fst r) s'"
proof (cases "find (\<lambda>tab. tb_tab_id tab = ol_tab_id spec) (ns_tabs s)")
  case None
  then show ?thesis
    using assms(2) by (auto simp: dispatch_override_layout_def intro: implements_same)
next
  case (Some tab)
  note ok = found_tab_ok [OF assms(1) Some]
  let ?q = "\<lambda>tab. tb_tab_id tab = ol_tab_id spec"
  show ?thesis
  proof (cases "node_snapshot (tb_root tab) = ol_root spec")
    case True
    then show ?thesis
      using assms(2) Some by (auto simp: dispatch_override_layout_def intro: implements_same)
  next
    case changes: False
    show ?thesis
    proof (cases "validate_layout_override tab (ol_root spec)")
      case (Inl e)
      then show ?thesis
        using assms(2) Some changes
        by (auto simp: dispatch_override_layout_def intro: implements_same)
    next
      case (Inr u)
      then have panes: "set (snapshot_panes (ol_root spec)) = set (node_panes (tb_root tab))"
        by (auto simp: validate_layout_override_def Let_def tab_pane_ids_def split: if_splits)
      let ?tab1 = "tab\<lparr>tb_root := from_snapshot (ol_root spec)\<rparr>"
      have "tab_contains_pane ?tab1 (tb_focused_pane ?tab1)"
        using ok(1) panes by (simp add: tab_contains_pane_def tab_ok_def)
      then have eq: "finish_reflow env ?q (True, tab_pane_ids ?tab1) ?tab1 s w = (r, s', w')"
        using assms(2) Some changes Inr by (simp add: dispatch_override_layout_def Let_def)
      have "session_topology sid (put_tab ?q ?tab1 s) =
          spec_command np nt (COverrideLayout spec) (session_topology sid s)"
        unfolding spec_command_def mux_command.case
        by (rule put_tab_topology [OF Some]) (simp_all add: tab_snapshot_of_def)
      then show ?thesis
        using finish_reflow_topology [OF eq, of sid] eq
        by (intro implements_spec)
          (auto simp: finish_reflow_def split: prod.splits sum.splits)
    qed
  qed
qed

lemma resize_pane_implements:
  assumes "session_inv used s w" and "dispatch_resize_pane env spec s w = (r, s', w')"
  shows "session_topology sid s' = session_topology sid s"
proof -
  let ?p = "rs_pane_id spec"
  let ?q = "\<lambda>tab. tab_contains_pane tab ?p"
  have unchanged: "s' = s \<Longrightarrow> ?thesis" by simp
  show ?thesis
  proof (cases "find ?q (ns_tabs s)")
    case None
    then show ?thesis using assms(2) unchanged by (simp add: dispatch_resize_pane_def)
  next
    case (Some tab)
    show ?thesis
    proof (cases "tab_pane tab ?p")
      case None
      then show ?thesis using assms(2) unchanged Some by (simp add: dispatch_resize_pane_def)
    next
      case pane: (Some pane)
      show ?thesis
      proof (cases "pane_geometry_of pane")
        case (Inl e)
        then show ?thesis using assms(2) unchanged Some pane by (simp add: dispatch_resize_pane_def)
      next
        case (Inr g)
        let ?desired = "\<lparr>pg_rows = max (rs_rows spec) 1, pg_cols = max (rs_cols spec) 1\<rparr>"
        obtain outcome root1 where
          rt: "resize_target (tb_root tab) ?p ?desired (ns_rows s) (ns_cols s) = (outcome, root1)"
          by (metis surj_pair)
        let ?tab1 = "tab\<lparr>tb_root := root1\<rparr>"
        have root1: "root1 = snd (resize_target_with_policy (tb_root tab) ?p ?desired
            (ns_rows s) (ns_cols s) True True)"
          using rt by (simp add: resize_target_def)
        have "node_snapshot root1 = node_snapshot (tb_root tab)"
          unfolding root1 by (rule resize_keeps_snapshot)
        then have same1: "session_topology sid (put_tab ?q ?tab1 s) = session_topology sid s"
          by (intro put_tab_unchanged [OF Some]) (simp add: tab_snapshot_of_def)
        obtain r0 pane0 w0 where
          pr: "pane_resize env (rs_rows spec) (rs_cols spec) pane w = (r0, pane0, w0)"
          by (metis surj_pair)
        have "same_tab tab (set_pane ?p pane0 tab)"
          by (rule set_pane_same [OF pane pane_resize_core [OF pr]])
        then have same0: "session_topology sid (put_tab ?q (set_pane ?p pane0 tab) s) =
            session_topology sid s"
          by (intro put_tab_unchanged [OF Some] same_tab_snapshot)
        have "s' = s \<or> s' = put_tab ?q (set_pane ?p pane0 tab) s \<or> s' = put_tab ?q ?tab1 s \<or>
            finish_reflow env ?q True ?tab1 s w = (r, s', w')"
          using assms(2) Some pane Inr rt pr
          by (auto simp: dispatch_resize_pane_def Let_def split: if_splits sum.splits)
        then show ?thesis
          using same0 same1 finish_reflow_topology [of env ?q True ?tab1 s w r s' w' sid] by metis
      qed
    qed
  qed
qed

section \<open>The engine implements the specification\<close>

definition engine_topology :: "native_engine \<Rightarrow> topology_snapshot" where
  "engine_topology e = session_topology (en_session_id e) (mutex_value (en_state e))"

lemma with_state_run:
  assumes "engine_inv used e w" and "with_state e w body = (r, e', w')"
  shows "\<exists>s'. body (mutex_value (en_state e)) w = (r, s', w') \<and>
              e' = e\<lparr>en_state := mutex_set s' (en_state e)\<rparr>"
  using assms lock_state_inv [OF assms(1)] by (auto simp: with_state_def split: prod.splits)

lemma finish_changed_run:
  "finish_changed env e res = (r, s', w') \<Longrightarrow> \<exists>w1. res = (r, s', w1)"
  by (auto simp: finish_changed_def split: prod.splits sum.splits)

lemma finish_updates_run:
  "finish_updates env e res = (r, s', w') \<Longrightarrow> \<exists>r1 w1. res = (r1, s', w1) \<and> r = map_sum id fst r1"
  by (auto simp: finish_updates_def split: prod.splits sum.splits)

lemma wrap_run:
  assumes "(case res of (Inl err, e1, w1) \<Rightarrow> (Inl err, e1, w1)
            | (Inr c, e1, w1) \<Rightarrow> (Inr \<lparr>changed = c\<rparr>, e1, w1)) = (r, e', w')"
  shows "res = (map_sum id changed r, e', w')"
  using assms by (auto split: prod.splits sum.splits)

text \<open>Commands that hand out a new identifier.\<close>

definition creates :: "mux_command \<Rightarrow> bool" where
  "creates command = (case command of CNewTab _ \<Rightarrow> True | CSplitPane _ \<Rightarrow> True | _ \<Rightarrow> False)"

lemma session_dispatch_implements:
  assumes fresh: "issues_fresh_ids env used" and inv: "engine_inv used e w"
    and run: "session_dispatch env command e w = (r, e', w')" and room: "used w' \<noteq> UNIV"
  shows "\<exists>np nt. implements (en_session_id e) (mutex_value (en_state e)) np nt command
           (map_sum id changed r) (mutex_value (en_state e')) \<and>
           (creates command \<and> map_sum id changed r = Inr True \<longrightarrow>
              np \<notin> set (topology_panes (engine_topology e)))"
proof -
  let ?s = "mutex_value (en_state e)" and ?s' = "mutex_value (en_state e')"
  let ?sid = "en_session_id e" and ?r = "map_sum id changed r"
  have s: "session_inv used ?s w" using inv by (simp add: engine_inv_def)
  note with_run = with_state_run [OF inv]
  have changed: "\<exists>w1. body ?s w = (r0, ?s', w1) \<and> used w1 \<noteq> UNIV"
    if "with_state e w (\<lambda>s w. finish_changed env e (body s w)) = (r0, e', w')" for body r0
  proof -
    from with_run [OF that] have fc: "finish_changed env e (body ?s w) = (r0, ?s', w')" by auto
    from finish_changed_run [OF fc] finish_changed_used [OF fresh fc] room show ?thesis by auto
  qed
  have updates: "\<exists>r1 w1. body ?s w = (r1, ?s', w1) \<and> r0 = map_sum id fst r1"
    if "with_state e w (\<lambda>s w. finish_updates env e (body s w)) = (r0, e', w')" for body r0
    using with_run [OF that] finish_updates_run by fastforce
  have plain: "?thesis" if "\<exists>np nt. implements ?sid ?s np nt command ?r ?s'" "\<not> creates command"
    using that by blast
  show ?thesis
  proof (cases command)
    case (CSplitPane spec)
    then have "engine_split_pane env spec e w = (?r, e', w')"
      using run by (intro wrap_run) (simp add: session_dispatch_def)
    from changed [OF this [unfolded engine_split_pane_def]] obtain w1 where
      "dispatch_split_pane env spec ?s w = (?r, ?s', w1)" "used w1 \<noteq> UNIV" by blast
    from split_pane_implements [OF fresh s this]
    show ?thesis unfolding CSplitPane by (simp add: engine_topology_def) blast
  next
    case (CNewTab spec)
    then have "engine_new_tab env spec e w = (?r, e', w')"
      using run by (intro wrap_run) (simp add: session_dispatch_def)
    from changed [OF this [unfolded engine_new_tab_def]] obtain w1 where
      "dispatch_new_tab env spec ?s w = (?r, ?s', w1)" "used w1 \<noteq> UNIV" by blast
    from new_tab_implements [OF fresh s this]
    show ?thesis unfolding CNewTab by (simp add: engine_topology_def) blast
  next
    case (CClosePane p)
    then have "engine_close_pane env p e w = (?r, e', w')"
      using run by (intro wrap_run) (simp add: session_dispatch_def)
    from changed [OF this [unfolded engine_close_pane_def]] obtain w1 where
      "dispatch_close_pane env p ?s w = (?r, ?s', w1)" by blast
    from close_pane_implements [OF s this] show ?thesis
      unfolding CClosePane by (simp add: creates_def)
  next
    case (CFocusPane p)
    then have "engine_focus_pane env p e w = (?r, e', w')"
      using run by (intro wrap_run) (simp add: session_dispatch_def)
    from changed [OF this [unfolded engine_focus_pane_def]] obtain w1 where
      "dispatch_focus_pane p ?s = (?r, ?s')" by (auto split: prod.splits)
    from focus_pane_implements [OF s this] show ?thesis
      unfolding CFocusPane by (simp add: creates_def)
  next
    case (CFocusTab t)
    then have "engine_focus_tab env t e w = (?r, e', w')"
      using run by (intro wrap_run) (simp add: session_dispatch_def)
    from changed [OF this [unfolded engine_focus_tab_def]] obtain w1 where
      "dispatch_focus_tab t ?s = (?r, ?s')" by (auto split: prod.splits)
    from focus_tab_implements [OF s this] show ?thesis
      unfolding CFocusTab by (simp add: creates_def)
  next
    case (CCloseTab t)
    then have "engine_close_tab env t e w = (?r, e', w')"
      using run by (intro wrap_run) (simp add: session_dispatch_def)
    from changed [OF this [unfolded engine_close_tab_def]] obtain w1 where
      "dispatch_close_tab t ?s = (?r, ?s')" by (auto split: prod.splits)
    from close_tab_implements [OF s this] show ?thesis
      unfolding CCloseTab by (simp add: creates_def)
  next
    case (CRenameTab t title)
    then have "engine_rename_tab env t title e w = (?r, e', w')"
      using run by (intro wrap_run) (simp add: session_dispatch_def)
    from updates [OF this [unfolded engine_rename_tab_def]] obtain r1 where
      d: "dispatch_rename_tab t title ?s = (r1, ?s')" and r1: "?r = map_sum id fst r1"
      by (auto split: prod.splits)
    show ?thesis
      unfolding CRenameTab r1 using rename_tab_implements [OF s d] by (simp add: creates_def)
  next
    case (COverrideLayout spec)
    then have "engine_override_layout env spec e w = (?r, e', w')"
      using run by (intro wrap_run) (simp add: session_dispatch_def)
    from updates [OF this [unfolded engine_override_layout_def]] obtain r1 w1 where
      d: "dispatch_override_layout env spec ?s w = (r1, ?s', w1)" and r1: "?r = map_sum id fst r1"
      by blast
    show ?thesis
      unfolding COverrideLayout r1 using override_layout_implements [OF s d]
      by (simp add: creates_def)
  next
    case (CResizePane spec)
    then have "engine_resize_pane env spec e w = (?r, e', w')"
      using run by (intro wrap_run) (simp add: session_dispatch_def)
    from with_run [OF this [unfolded engine_resize_pane_def]] obtain r1 w1 where
      "dispatch_resize_pane env spec ?s w = (r1, ?s', w1)"
      by (auto simp: Let_def split: prod.splits sum.splits)
    from resize_pane_implements [OF s this]
    have "implements ?sid ?s np nt (CResizePane spec) ?r ?s'" for np nt
      by (simp add: implements_def spec_command_def split: sum.split)
    then show ?thesis unfolding CResizePane by (simp add: creates_def)
  next
    case (CSendInput spec)
    then have "engine_send_input env spec e w = (?r, e', w')"
      using run by (intro wrap_run) (simp add: session_dispatch_def)
    from with_run [OF this [unfolded engine_send_input_def]] have "?s' = ?s"
      by (auto split: prod.splits)
    then have "implements ?sid ?s np nt (CSendInput spec) ?r ?s'" for np nt
      by (simp add: implements_def spec_command_def split: sum.split)
    then show ?thesis unfolding CSendInput by (simp add: creates_def)
  next
    case (CSendPaste spec)
    then have "engine_send_paste env spec e w = (?r, e', w')"
      using run by (intro wrap_run) (simp add: session_dispatch_def)
    from with_run [OF this [unfolded engine_send_paste_def]] have "?s' = ?s"
      by (auto split: prod.splits)
    then have "implements ?sid ?s np nt (CSendPaste spec) ?r ?s'" for np nt
      by (simp add: implements_def spec_command_def split: sum.split)
    then show ?thesis unfolding CSendPaste by (simp add: creates_def)
  qed (use run in \<open>auto simp: session_dispatch_def creates_def implements_def Let_def\<close>)
qed

end
