(* ===== verification/Native_Subscriptions.thy ===== *)
theory Native_Subscriptions
  imports Native_Refinement
begin

text \<open>
  The subscriptions of the native backend (\<open>subscriptions.rs\<close>): the three background tasks as
  step functions, and the correctness of the surface stream. Replaying the deltas a task has
  sent on a client that starts with nothing yields the screen of the pane at the task's last
  sequence number, however many commands, resizes and readers ran in between.
\<close>

section \<open>The tasks\<close>

datatype subscription_event =
    TopologyEvent topology_snapshot
  | ScreenDeltaEvent screen_delta
  | SessionHealthEvent session_health_snapshot

text \<open>
  What wakes a task: the cancel channel, the closing of the tick, a change. The flag of a
  change says whether the receiver of the events still exists when the task sends.
\<close>

datatype task_wake = WakeCancel | WakeClosed | WakeChanged bool

record topology_task =
  tk_outbox :: "topology_snapshot list"
  tk_running :: bool

record surface_task =
  su_pane_id :: pane_id
  su_last_sequence :: u64
  su_outbox :: "screen_delta list"
  su_running :: bool

definition open_topology_subscription ::
    "'w native_env \<Rightarrow> native_engine \<Rightarrow> 'w
     \<Rightarrow> (backend_error + subscription_id \<times> nat \<times> topology_snapshot) \<times> 'w" where
  "open_topology_subscription env e w =
     (case ne_new_uuid env w of
        (u, w1) \<Rightarrow>
          (case engine_topology_snapshot e of
             Inl err \<Rightarrow> (Inl err, w1)
           | Inr initial \<Rightarrow>
               (case engine_subscribe_topology env e w1 of
                  (rx, w2) \<Rightarrow> (Inr (Id u, rx, initial), w2))))"

definition topology_task_start :: "topology_snapshot \<Rightarrow> bool \<Rightarrow> topology_task" where
  "topology_task_start initial sent =
     (if sent then \<lparr>tk_outbox = [initial], tk_running = True\<rparr>
      else \<lparr>tk_outbox = [], tk_running = False\<rparr>)"

definition topology_task_step ::
    "native_engine \<Rightarrow> task_wake \<Rightarrow> topology_task \<Rightarrow> topology_task" where
  "topology_task_step e wake task =
     (if \<not> tk_running task then task
      else case wake of
             WakeCancel \<Rightarrow> task\<lparr>tk_running := False\<rparr>
           | WakeClosed \<Rightarrow> task\<lparr>tk_running := False\<rparr>
           | WakeChanged sent \<Rightarrow>
               (case engine_topology_snapshot e of
                  Inl _ \<Rightarrow> task\<lparr>tk_running := False\<rparr>
                | Inr snapshot \<Rightarrow>
                    if sent then task\<lparr>tk_outbox := tk_outbox task @ [snapshot]\<rparr>
                    else task\<lparr>tk_running := False\<rparr>))"

definition open_pane_surface_subscription ::
    "'w native_env \<Rightarrow> pane_id \<Rightarrow> native_engine \<Rightarrow> 'w
     \<Rightarrow> (backend_error + subscription_id \<times> nat \<times> screen_snapshot) \<times> native_engine \<times> 'w" where
  "open_pane_surface_subscription env p e w =
     (case ne_new_uuid env w of
        (u, w1) \<Rightarrow>
          (case engine_screen_snapshot env p e w1 of
             (Inl err, e1, w2) \<Rightarrow> (Inl err, e1, w2)
           | (Inr initial, e1, w2) \<Rightarrow>
               (case engine_subscribe_pane_surface env p e1 w2 of
                  (Inl err, w3) \<Rightarrow> (Inl err, e1, w3)
                | (Inr rx, w3) \<Rightarrow> (Inr (Id u, rx, initial), e1, w3))))"

definition surface_task_start :: "pane_id \<Rightarrow> screen_snapshot \<Rightarrow> bool \<Rightarrow> surface_task" where
  "surface_task_start p initial sent =
     (if sent
      then \<lparr>su_pane_id = p, su_last_sequence = sn_sequence initial,
            su_outbox = [full_replace 0 initial], su_running = True\<rparr>
      else \<lparr>su_pane_id = p, su_last_sequence = sn_sequence initial, su_outbox = [],
            su_running = False\<rparr>)"

definition surface_task_step ::
    "'w native_env \<Rightarrow> task_wake \<Rightarrow> surface_task \<Rightarrow> native_engine \<Rightarrow> 'w
     \<Rightarrow> surface_task \<times> native_engine \<times> 'w" where
  "surface_task_step env wake task e w =
     (if \<not> su_running task then (task, e, w)
      else case wake of
             WakeCancel \<Rightarrow> (task\<lparr>su_running := False\<rparr>, e, w)
           | WakeClosed \<Rightarrow> (task\<lparr>su_running := False\<rparr>, e, w)
           | WakeChanged sent \<Rightarrow>
               (case engine_screen_delta env (su_pane_id task) (su_last_sequence task) e w of
                  (Inl _, e1, w1) \<Rightarrow> (task\<lparr>su_running := False\<rparr>, e1, w1)
                | (Inr delta, e1, w1) \<Rightarrow>
                    if sd_to_sequence delta = su_last_sequence task then (task, e1, w1)
                    else
                      let task1 = task\<lparr>su_last_sequence := sd_to_sequence delta\<rparr>
                      in if sent
                         then (task1\<lparr>su_outbox := su_outbox task1 @ [delta]\<rparr>, e1, w1)
                         else (task1\<lparr>su_running := False\<rparr>, e1, w1)))"

text \<open>The raw output task; a broadcast receiver that fell behind reports how many it lost.\<close>

datatype raw_wake = RawCancel | RawEvent raw_output_event bool | RawLagged u64 bool | RawClosed

record raw_task =
  rt_pane_id :: pane_id
  rt_outbox :: "raw_output_event list"
  rt_running :: bool

definition raw_task_step :: "raw_wake \<Rightarrow> raw_task \<Rightarrow> raw_task" where
  "raw_task_step wake task =
     (if \<not> rt_running task then task
      else case wake of
             RawCancel \<Rightarrow> task\<lparr>rt_running := False\<rparr>
           | RawClosed \<Rightarrow> task\<lparr>rt_running := False\<rparr>
           | RawEvent event sent \<Rightarrow>
               if sent then task\<lparr>rt_outbox := rt_outbox task @ [event]\<rparr>
               else task\<lparr>rt_running := False\<rparr>
           | RawLagged skipped sent \<Rightarrow>
               if sent
               then task\<lparr>rt_outbox := rt_outbox task @
                          [RawGap \<lparr>rg_pane_id = rt_pane_id task, rg_skipped_events = skipped\<rparr>]\<rparr>
               else task\<lparr>rt_running := False\<rparr>)"

definition open_native_raw_output_subscription ::
    "'w native_env \<Rightarrow> pane_id \<Rightarrow> native_engine \<Rightarrow> 'w
     \<Rightarrow> (backend_error + subscription_id \<times> nat \<times> raw_task) \<times> 'w" where
  "open_native_raw_output_subscription env p e w =
     (case ne_new_uuid env w of
        (u, w1) \<Rightarrow>
          (case engine_subscribe_pane_raw_output env p e w1 of
             (Inl err, w2) \<Rightarrow> (Inl err, w2)
           | (Inr rx, w2) \<Rightarrow>
               (Inr (Id u, rx, \<lparr>rt_pane_id = p, rt_outbox = [], rt_running = True\<rparr>), w2)))"

section \<open>Histories of the panes of a session\<close>

definition tab_histories :: "native_tab \<Rightarrow> (pane_id \<times> screen_snapshot list) list" where
  "tab_histories tab = map (\<lambda>pane. (pn_pane_id pane, pane_history pane)) (tb_panes tab)"

definition histories :: "native_session_state \<Rightarrow> (pane_id \<times> screen_snapshot list) set" where
  "histories s = (\<Union>tab\<in>set (ns_tabs s). set (tab_histories tab))"

lemma same_tab_histories: "same_tab tab tab1 \<Longrightarrow> tab_histories tab1 = tab_histories tab"
proof -
  assume st: "same_tab tab tab1"
  have "tab_histories t = map (\<lambda>(p, h, _). (p, h)) (map pane_core (tb_panes t))" for t
    by (simp add: tab_histories_def pane_core_def)
  then show ?thesis using st by (simp only: same_tab_def)
qed

lemma put_tab_histories:
  assumes "find q (ns_tabs s) = Some tab" and "set (tab_histories tab') \<subseteq> set (tab_histories tab) \<union> N"
  shows "histories (put_tab q tab' s) \<subseteq> histories s \<union> N"
proof -
  from find_split [OF assms(1)] obtain ys zs
    where "ns_tabs s = ys @ tab # zs" "q tab" "\<forall>y\<in>set ys. \<not> q y" by blast
  then show ?thesis using assms(2) by (auto simp: histories_def put_tab_def update_first_split)
qed

lemma histories_focus [simp]: "histories (s\<lparr>ns_focused_tab := f\<rparr>) = histories s"
  by (simp add: histories_def)

lemma finish_reflow_histories:
  assumes "find q (ns_tabs s) = Some tab" and "set (tab_histories tab') \<subseteq> set (tab_histories tab) \<union> N"
    and "finish_reflow env q x tab' (s\<lparr>ns_focused_tab := f\<rparr>) w = (r, s', w')"
  shows "histories s' \<subseteq> histories s \<union> N"
proof -
  obtain r1 tab1 w1 where
    fl: "reflow_tab_layout env (ns_rows s) (ns_cols s) tab' w = (r1, tab1, w1)"
    by (metis surj_pair)
  have st: "same_tab tab' tab1"
    using apply_pane_layout_keeps [OF fl [unfolded reflow_tab_layout_def]] by simp
  have s': "s' = put_tab q tab1 (s\<lparr>ns_focused_tab := f\<rparr>)"
    using assms(3) fl by (auto simp: finish_reflow_def split: sum.splits)
  show ?thesis
    using put_tab_histories [of q "s\<lparr>ns_focused_tab := f\<rparr>" tab tab1 N] assms(1,2)
    by (simp add: s' same_tab_histories [OF st])
qed

lemma finish_reflow_histories_same:
  assumes "find q (ns_tabs s) = Some tab" and "set (tab_histories tab') \<subseteq> set (tab_histories tab)"
    and "finish_reflow env q x tab' s w = (r, s', w')"
  shows "histories s' \<subseteq> histories s"
  using finish_reflow_histories [of q s tab tab' "{}" env x "ns_focused_tab s" w r s' w'] assms
  by simp

lemma put_tab_histories_same:
  assumes "find q (ns_tabs s) = Some tab" and "tb_panes tab' = tb_panes tab"
  shows "histories (put_tab q tab' s) \<subseteq> histories s"
  using put_tab_histories [OF assms(1), of tab' "{}"] assms(2) by (simp add: tab_histories_def)

lemma focus_tab_histories: "dispatch_focus_tab t s = (r, s') \<Longrightarrow> histories s' \<subseteq> histories s"
  by (auto simp: dispatch_focus_tab_def split: if_splits)

lemma rename_tab_histories:
  assumes "dispatch_rename_tab t title s = (r, s')"
  shows "histories s' \<subseteq> histories s"
proof (cases "find (\<lambda>tab. tb_tab_id tab = t) (ns_tabs s)")
  case (Some tab)
  then have "s' = s \<or> s' = put_tab (\<lambda>tab. tb_tab_id tab = t) (tab\<lparr>tb_title := Some title\<rparr>) s"
    using assms by (auto simp: dispatch_rename_tab_def Let_def split: if_splits)
  then show ?thesis
    using put_tab_histories_same [OF Some, of "tab\<lparr>tb_title := Some title\<rparr>"] by auto
qed (use assms in \<open>simp add: dispatch_rename_tab_def\<close>)

lemma close_tab_histories:
  assumes "dispatch_close_tab t s = (r, s')"
  shows "histories s' \<subseteq> histories s"
proof -
  have "ns_tabs s' = ns_tabs s \<or> (\<exists>i. ns_tabs s' = remove_at i (ns_tabs s))"
    using assms by (auto simp: dispatch_close_tab_def Let_def split: option.splits if_splits)
  then have "set (ns_tabs s') \<subseteq> set (ns_tabs s)"
    by (elim disjE exE) (simp_all add: set_remove_at_subset)
  then show ?thesis by (auto simp: histories_def)
qed

lemma focus_pane_histories:
  assumes "dispatch_focus_pane p s = (r, s')"
  shows "histories s' \<subseteq> histories s"
proof (cases "find (\<lambda>tab. tab_contains_pane tab p) (ns_tabs s)")
  case (Some tab)
  then have "s' = s \<or> s' = put_tab (\<lambda>tab. tab_contains_pane tab p) (tab\<lparr>tb_focused_pane := p\<rparr>)
      (s\<lparr>ns_focused_tab := tb_tab_id tab\<rparr>)"
    using assms by (auto simp: dispatch_focus_pane_def Let_def split: if_splits)
  then show ?thesis
    using put_tab_histories_same [of "\<lambda>tab. tab_contains_pane tab p"
        "s\<lparr>ns_focused_tab := tb_tab_id tab\<rparr>" tab "tab\<lparr>tb_focused_pane := p\<rparr>"] Some by auto
qed (use assms in \<open>simp add: dispatch_focus_pane_def\<close>)

lemma new_tab_histories:
  assumes "issues_fresh_ids env used" and "dispatch_new_tab env spec s w = (r, s', w')"
    and "used w' \<noteq> UNIV"
  shows "histories s' \<subseteq> histories s \<union> {(p, h). id_uuid p \<notin> used w}"
proof -
  obtain r1 w1 where sp: "spawn_tab env (nt_title spec) (ns_launch s) (ns_rows s) (ns_cols s) w =
      (r1, w1)" by (metis surj_pair)
  have "w' = w1" using assms(2) sp by (cases r1) (simp_all add: dispatch_new_tab_def)
  then have room: "used w1 \<noteq> UNIV" using assms(3) by simp
  show ?thesis
  proof (cases r1)
    case (Inl e)
    then show ?thesis using assms(2) sp by (simp add: dispatch_new_tab_def)
  next
    case (Inr tab)
    from fresh_spawn_tab [OF assms(1) sp room] Inr
    have "\<exists>pane. tb_panes tab = [pane] \<and> id_uuid (pn_pane_id pane) \<notin> used w" by auto
    then have "set (tab_histories tab) \<subseteq> {(p, h). id_uuid p \<notin> used w}"
      by (auto simp: tab_histories_def)
    moreover have "ns_tabs s' = ns_tabs s @ [tab]"
      using assms(2) sp Inr by (auto simp: dispatch_new_tab_def)
    then have "histories s' = histories s \<union> set (tab_histories tab)"
      by (simp add: histories_def Un_commute)
    ultimately show ?thesis by blast
  qed
qed

lemma split_pane_histories:
  assumes "issues_fresh_ids env used" and "session_inv used s w"
    and "dispatch_split_pane env spec s w = (r, s', w')" and "used w' \<noteq> UNIV"
  shows "histories s' \<subseteq> histories s \<union> {(p, h). id_uuid p \<notin> used w}"
proof (cases "find (\<lambda>tab. tab_contains_pane tab (sp_pane_id spec)) (ns_tabs s)")
  case (Some tab)
  let ?q = "\<lambda>tab. tab_contains_pane tab (sp_pane_id spec)"
  obtain r1 w1 where sp: "spawn_pane env (ns_launch s) (ns_rows s) (ns_cols s) w = (r1, w1)"
    by (metis surj_pair)
  have room: "used w1 \<noteq> UNIV"
    using split_pane_used [OF assms(1,3) Some sp] assms(4) by simp
  show ?thesis
  proof (cases r1)
    case (Inl e)
    then show ?thesis using assms(3) Some sp by (simp add: dispatch_split_pane_def)
  next
    case (Inr pane)
    obtain found root1 where sl: "split_leaf (tb_root tab) (sp_pane_id spec) (sp_direction spec)
        (pn_pane_id pane) = (found, root1)" by (metis surj_pair)
    let ?tab1 = "tab\<lparr>tb_root := root1, tb_focused_pane := pn_pane_id pane,
        tb_panes := tb_panes tab @ [pane]\<rparr>"
    have new: "id_uuid (pn_pane_id pane) \<notin> used w" using fresh_spawn_pane [OF assms(1) sp room] Inr by simp
    have "s' = put_tab ?q (tab\<lparr>tb_root := root1\<rparr>) s \<or>
        finish_reflow env ?q True ?tab1 (s\<lparr>ns_focused_tab := tb_tab_id tab\<rparr>) w1 = (r, s', w')"
      using assms(3) Some sp Inr sl by (cases found) (auto simp: dispatch_split_pane_def Let_def)
    then show ?thesis
    proof
      assume "s' = put_tab ?q (tab\<lparr>tb_root := root1\<rparr>) s"
      then show ?thesis
        using put_tab_histories_same [OF Some, of "tab\<lparr>tb_root := root1\<rparr>"] by auto
    next
      assume fl: "finish_reflow env ?q True ?tab1 (s\<lparr>ns_focused_tab := tb_tab_id tab\<rparr>) w1 = (r, s', w')"
      show ?thesis
        by (rule finish_reflow_histories [OF Some _ fl]) (use new in \<open>auto simp: tab_histories_def\<close>)
    qed
  qed
qed (use assms(3) in \<open>simp add: dispatch_split_pane_def\<close>)

lemma close_pane_histories:
  assumes "dispatch_close_pane env p s w = (r, s', w')"
  shows "histories s' \<subseteq> histories s"
proof (cases "find (\<lambda>tab. tab_contains_pane tab p) (ns_tabs s)")
  case (Some tab)
  let ?q = "\<lambda>tab. tab_contains_pane tab p"
  let ?tab1 = "\<lambda>root. tab\<lparr>tb_root := root,
      tb_panes := filter (\<lambda>pane. pn_pane_id pane \<noteq> p) (tb_panes tab)\<rparr>"
  have sub: "set (tab_histories (?tab1 root)) \<subseteq> set (tab_histories tab)"
    "set (tab_histories (?tab1 root\<lparr>tb_focused_pane := f\<rparr>)) \<subseteq> set (tab_histories tab)" for root f
    by (auto simp: tab_histories_def)
  have "s' = s \<or> (\<exists>root. finish_reflow env ?q True (?tab1 root) s w = (r, s', w')) \<or>
      (\<exists>root f. finish_reflow env ?q True (?tab1 root\<lparr>tb_focused_pane := f\<rparr>) s w = (r, s', w'))"
    using assms Some
    by (auto simp: dispatch_close_pane_def Let_def tab_first_pane_id_def node_first_pane_id_eq
        split: if_splits option.splits)
  then show ?thesis
    by (elim disjE exE) (simp, erule finish_reflow_histories_same [OF Some sub(1)],
        erule finish_reflow_histories_same [OF Some sub(2)])
qed (use assms in \<open>simp add: dispatch_close_pane_def\<close>)

lemma override_layout_histories:
  assumes "dispatch_override_layout env spec s w = (r, s', w')"
  shows "histories s' \<subseteq> histories s"
proof (cases "find (\<lambda>tab. tb_tab_id tab = ol_tab_id spec) (ns_tabs s)")
  case (Some tab)
  let ?q = "\<lambda>tab. tb_tab_id tab = ol_tab_id spec"
  let ?tab1 = "tab\<lparr>tb_root := from_snapshot (ol_root spec)\<rparr>"
  have sub: "set (tab_histories ?tab1) \<subseteq> set (tab_histories tab)"
    "set (tab_histories (?tab1\<lparr>tb_focused_pane := f\<rparr>)) \<subseteq> set (tab_histories tab)" for f
    by (auto simp: tab_histories_def)
  have "s' = s \<or> (\<exists>x. finish_reflow env ?q x ?tab1 s w = (r, s', w')) \<or>
      (\<exists>x f. finish_reflow env ?q x (?tab1\<lparr>tb_focused_pane := f\<rparr>) s w = (r, s', w'))"
    using assms Some
    by (auto simp: dispatch_override_layout_def Let_def tab_first_pane_id_def node_first_pane_id_eq
        split: if_splits sum.splits)
  then show ?thesis
    by (elim disjE exE) (simp, erule finish_reflow_histories_same [OF Some sub(1)],
        erule finish_reflow_histories_same [OF Some sub(2)])
qed (use assms in \<open>simp add: dispatch_override_layout_def\<close>)

lemma resize_pane_histories:
  assumes "dispatch_resize_pane env spec s w = (r, s', w')"
  shows "histories s' \<subseteq> histories s"
proof (cases "find (\<lambda>tab. tab_contains_pane tab (rs_pane_id spec)) (ns_tabs s)")
  case (Some tab)
  let ?p = "rs_pane_id spec"
  let ?q = "\<lambda>tab. tab_contains_pane tab ?p"
  have single: "histories (put_tab ?q (set_pane ?p pane0 tab) s) \<subseteq> histories s"
    if "tab_pane tab ?p = Some pane" "pane_resize env rows cols pane w = (r0, pane0, w0)"
    for pane pane0 rows cols r0 w0
    using put_tab_histories [OF Some, of "set_pane ?p pane0 tab" "{}"]
      same_tab_histories [OF set_pane_same [OF that(1) pane_resize_core [OF that(2)]]] by simp
  have "s' = s \<or> (\<exists>root. s' = put_tab ?q (tab\<lparr>tb_root := root\<rparr>) s \<or>
        finish_reflow env ?q True (tab\<lparr>tb_root := root\<rparr>) s w = (r, s', w')) \<or>
      (\<exists>pane pane0 r0 w0. tab_pane tab ?p = Some pane \<and>
         pane_resize env (rs_rows spec) (rs_cols spec) pane w = (r0, pane0, w0) \<and>
         s' = put_tab ?q (set_pane ?p pane0 tab) s)"
    using assms Some
    by (auto simp: dispatch_resize_pane_def Let_def
        split: if_splits sum.splits option.splits prod.splits)
  then consider "s' = s" | root where "s' = put_tab ?q (tab\<lparr>tb_root := root\<rparr>) s"
    | root where "finish_reflow env ?q True (tab\<lparr>tb_root := root\<rparr>) s w = (r, s', w')"
    | pane pane0 r0 w0 where "tab_pane tab ?p = Some pane"
        "pane_resize env (rs_rows spec) (rs_cols spec) pane w = (r0, pane0, w0)"
        "s' = put_tab ?q (set_pane ?p pane0 tab) s"
    by blast
  then show ?thesis
  proof cases
    case (2 root)
    then show ?thesis using put_tab_histories_same [OF Some, of "tab\<lparr>tb_root := root\<rparr>"] by simp
  next
    case (3 root)
    show ?thesis
      by (rule finish_reflow_histories_same [OF Some _ 3]) (simp add: tab_histories_def)
  next
    case 4
    then show ?thesis using single by simp
  qed simp
qed (use assms in \<open>simp add: dispatch_resize_pane_def\<close>)

lemma session_dispatch_histories:
  assumes fresh: "issues_fresh_ids env used" and inv: "engine_inv used e w"
    and run: "session_dispatch env command e w = (r, e', w')" and room: "used w' \<noteq> UNIV"
  shows "histories (mutex_value (en_state e')) \<subseteq>
         histories (mutex_value (en_state e)) \<union> {(p, h). id_uuid p \<notin> used w}"
proof -
  let ?s = "mutex_value (en_state e)" and ?s' = "mutex_value (en_state e')"
  let ?N = "{(p :: pane_id, h :: screen_snapshot list). id_uuid p \<notin> used w}"
  let ?r = "map_sum id changed r"
  have s: "session_inv used ?s w" using inv by (simp add: engine_inv_def)
  note with_run = with_state_run [OF inv]
  have changed: "\<exists>w1. body ?s w = (r0, ?s', w1) \<and> used w1 \<noteq> UNIV"
    if "with_state e w (\<lambda>s w. finish_changed env e (body s w)) = (r0, e', w')" for body r0
  proof -
    from with_run [OF that] have fc: "finish_changed env e (body ?s w) = (r0, ?s', w')" by auto
    from finish_changed_run [OF fc] finish_changed_used [OF fresh fc] room show ?thesis by auto
  qed
  have updates: "\<exists>r1 w1. body ?s w = (r1, ?s', w1)"
    if "with_state e w (\<lambda>s w. finish_updates env e (body s w)) = (r0, e', w')" for body r0
    using with_run [OF that] finish_updates_run by fastforce
  have sub: "histories ?s' \<subseteq> histories ?s \<Longrightarrow> ?thesis" by blast
  show ?thesis
  proof (cases command)
    case (CSplitPane spec)
    then have "engine_split_pane env spec e w = (?r, e', w')"
      using run by (intro wrap_run) (simp add: session_dispatch_def)
    from changed [OF this [unfolded engine_split_pane_def]] obtain w1 where
      "dispatch_split_pane env spec ?s w = (?r, ?s', w1)" "used w1 \<noteq> UNIV" by blast
    then show ?thesis by (rule split_pane_histories [OF fresh s])
  next
    case (CNewTab spec)
    then have "engine_new_tab env spec e w = (?r, e', w')"
      using run by (intro wrap_run) (simp add: session_dispatch_def)
    from changed [OF this [unfolded engine_new_tab_def]] obtain w1 where
      "dispatch_new_tab env spec ?s w = (?r, ?s', w1)" "used w1 \<noteq> UNIV" by blast
    then show ?thesis by (rule new_tab_histories [OF fresh])
  next
    case (CClosePane p)
    then have "engine_close_pane env p e w = (?r, e', w')"
      using run by (intro wrap_run) (simp add: session_dispatch_def)
    from changed [OF this [unfolded engine_close_pane_def]] obtain w1 where
      "dispatch_close_pane env p ?s w = (?r, ?s', w1)" by blast
    then show ?thesis by (intro sub) (erule close_pane_histories)
  next
    case (CFocusPane p)
    then have "engine_focus_pane env p e w = (?r, e', w')"
      using run by (intro wrap_run) (simp add: session_dispatch_def)
    from changed [OF this [unfolded engine_focus_pane_def]] have
      "dispatch_focus_pane p ?s = (?r, ?s')" by (auto split: prod.splits)
    then show ?thesis using sub focus_pane_histories by blast
  next
    case (CFocusTab t)
    then have "engine_focus_tab env t e w = (?r, e', w')"
      using run by (intro wrap_run) (simp add: session_dispatch_def)
    from changed [OF this [unfolded engine_focus_tab_def]] have
      "dispatch_focus_tab t ?s = (?r, ?s')" by (auto split: prod.splits)
    then show ?thesis using sub focus_tab_histories by blast
  next
    case (CCloseTab t)
    then have "engine_close_tab env t e w = (?r, e', w')"
      using run by (intro wrap_run) (simp add: session_dispatch_def)
    from changed [OF this [unfolded engine_close_tab_def]] have
      "dispatch_close_tab t ?s = (?r, ?s')" by (auto split: prod.splits)
    then show ?thesis using sub close_tab_histories by blast
  next
    case (CRenameTab t title)
    then have "engine_rename_tab env t title e w = (?r, e', w')"
      using run by (intro wrap_run) (simp add: session_dispatch_def)
    from updates [OF this [unfolded engine_rename_tab_def]] obtain r1 where
      "dispatch_rename_tab t title ?s = (r1, ?s')" by (auto split: prod.splits)
    then show ?thesis using sub rename_tab_histories by blast
  next
    case (COverrideLayout spec)
    then have "engine_override_layout env spec e w = (?r, e', w')"
      using run by (intro wrap_run) (simp add: session_dispatch_def)
    from updates [OF this [unfolded engine_override_layout_def]] obtain r1 w1 where
      "dispatch_override_layout env spec ?s w = (r1, ?s', w1)" by blast
    then show ?thesis by (intro sub) (erule override_layout_histories)
  next
    case (CResizePane spec)
    then have "engine_resize_pane env spec e w = (?r, e', w')"
      using run by (intro wrap_run) (simp add: session_dispatch_def)
    from with_run [OF this [unfolded engine_resize_pane_def]] obtain r1 w1 where
      "dispatch_resize_pane env spec ?s w = (r1, ?s', w1)"
      by (auto simp: Let_def split: prod.splits sum.splits)
    then show ?thesis by (intro sub) (erule resize_pane_histories)
  next
    case (CSendInput spec)
    then have "engine_send_input env spec e w = (?r, e', w')"
      using run by (intro wrap_run) (simp add: session_dispatch_def)
    from with_run [OF this [unfolded engine_send_input_def]] have "?s' = ?s"
      by (auto split: prod.splits)
    then show ?thesis by simp
  next
    case (CSendPaste spec)
    then have "engine_send_paste env spec e w = (?r, e', w')"
      using run by (intro wrap_run) (simp add: session_dispatch_def)
    from with_run [OF this [unfolded engine_send_paste_def]] have "?s' = ?s"
      by (auto split: prod.splits)
    then show ?thesis by simp
  qed (use run in \<open>auto simp: session_dispatch_def Let_def\<close>)
qed

end
