(* ===== verification/Native_Demo.thy ===== *)
theory Native_Demo
  imports Native_Subscriptions
begin

text \<open>
  A small world for the witnesses: identifiers are counted, no pseudo terminal fails, the
  emulator shows one line per chunk it has received, and the broadcasts are logged. It
  instantiates the parameter \<open>native_env\<close> of the native backend with computable functions.
\<close>

record demo_world =
  dw_next :: nat
  dw_tick :: u64
  dw_screen :: "rstr list"
  dw_sent :: "raw_output_event list"

definition demo_env :: "demo_world native_env" where
  "demo_env =
     \<lparr>ne_windows = False,
      ne_var = (\<lambda>_. None),
      ne_var_os = (\<lambda>_. None),
      ne_new_uuid = (\<lambda>w. (word_of_nat (dw_next w), w\<lparr>dw_next := dw_next w + 1\<rparr>)),
      ne_open_pty = (\<lambda>_ _ w. (Inr 1, w)),
      ne_spawn_command = (\<lambda>_ _ w. (Inr 2, w)),
      ne_clone_reader = (\<lambda>_ w. (Inr 3, w)),
      ne_take_writer = (\<lambda>_ w. (Inr 4, w)),
      ne_resize_pty = (\<lambda>_ _ _ w. (Inr (), w)),
      ne_writer_poisoned = (\<lambda>_ _. False),
      ne_write_all = (\<lambda>_ _ w. (Inr (), w)),
      ne_flush = (\<lambda>_ w. (Inr (), w)),
      ne_spawn_thread = (\<lambda>_ w. w),
      ne_watch_channel = (\<lambda>_ w. (5, w)),
      ne_watch_borrow = (\<lambda>_ w. dw_tick w),
      ne_watch_send = (\<lambda>_ v w. w\<lparr>dw_tick := v\<rparr>),
      ne_watch_subscribe = (\<lambda>_ w. (6, w)),
      ne_broadcast_channel = (\<lambda>_ w. (7, w)),
      ne_broadcast_send = (\<lambda>_ ev w. w\<lparr>dw_sent := dw_sent w @ [ev]\<rparr>),
      ne_broadcast_subscribe = (\<lambda>_ w. (8, w)),
      ne_emulator_new = (\<lambda>_ _ w. (9, w)),
      ne_emulator_advance = (\<lambda>_ bytes w. w\<lparr>dw_screen := dw_screen w @ [map unat bytes]\<rparr>),
      ne_emulator_resize = (\<lambda>_ _ _ w. w),
      ne_emulator_take_responses = (\<lambda>_ w. ([], w)),
      ne_emulator_bracketed_paste = (\<lambda>_ _. False),
      ne_emulator_render = (\<lambda>_ title w.
        \<lparr>re_buffer_kind = BufNormal,
         re_surface = surface_empty\<lparr>sf_title := title, sf_lines := map line_plain (dw_screen w)\<rparr>\<rparr>)\<rparr>"

definition demo_used :: "demo_world \<Rightarrow> uuid set" where
  "demo_used w = word_of_nat ` {..<dw_next w}"

definition demo_start :: demo_world where
  "demo_start = \<lparr>dw_next = 0, dw_tick = 0, dw_screen = [], dw_sent = []\<rparr>"

lemma demo_used_finite: "card (demo_used w) \<le> dw_next w"
  unfolding demo_used_def using card_image_le [of "{..<dw_next w}" "word_of_nat :: nat \<Rightarrow> uuid"]
  by simp

lemma demo_room: "dw_next w < 2 ^ 128 \<Longrightarrow> demo_used w \<noteq> UNIV"
proof
  assume small: "dw_next w < 2 ^ 128" and all: "demo_used w = UNIV"
  have "card (UNIV :: uuid set) = 2 ^ 128" by (simp add: card_word)
  then show False using demo_used_finite [of w] small all by simp
qed

lemma demo_next_bound:
  assumes "demo_used w \<noteq> UNIV"
  shows "dw_next w < 2 ^ 128"
proof (rule ccontr)
  assume big: "\<not> ?thesis"
  have "u \<in> demo_used w" for u :: uuid
  proof -
    have "unat u < 2 ^ 128" using unsigned_less [of u] by simp
    then have "unat u \<in> {..<dw_next w}" using big by simp
    moreover have "u = word_of_nat (unat u)" by simp
    ultimately show ?thesis unfolding demo_used_def by (rule image_eqI [rotated])
  qed
  then show False using assms by blast
qed

lemma demo_fresh: "issues_fresh_ids demo_env demo_used"
proof -
  have "word_of_nat (dw_next w) \<notin> demo_used w" if "demo_used w \<noteq> UNIV" for w
  proof
    assume "word_of_nat (dw_next w) \<in> demo_used w"
    then obtain n where n: "n < dw_next w" "(word_of_nat (dw_next w) :: uuid) = word_of_nat n"
      by (auto simp: demo_used_def)
    have "dw_next w < 2 ^ 128" using demo_next_bound [OF that] .
    then have "dw_next w = n"
      using n word_of_nat_eq_iff [where 'a = 128, of "dw_next w" n]
      by (simp add: take_bit_nat_eq_self_iff [THEN iffD2])
    then show False using n(1) by simp
  qed
  then show ?thesis
    by (simp add: issues_fresh_ids_def demo_env_def demo_used_def lessThan_Suc)
qed

end
