(* ===== verification/Native_Output.thy ===== *)
theory Native_Output
  imports Native_Demo
begin

text \<open>
  What comes out of a pane: the screens and deltas it renders on demand, and what its reader
  thread makes of the byte stream, the transcript and the raw output events.
\<close>

section \<open>Screens\<close>

text \<open>
  C5. The delta a pane returns: a client that shows some snapshot of the pane's history shows
  the current screen after applying it; a client whose sequence number has left the history
  gets the current screen whole.
\<close>
theorem pane_delta_synchronises:
  assumes "pane_readable pane" and "history_ok (pn_pane_id pane) (pane_history pane)"
    and "pane_screen_delta env w title n pane = (Inr d, pane')"
    and "\<forall>t\<in>set (pane_history pane'). deliverable t"
    and "(\<exists>s\<in>set (pane_history pane'). sn_sequence s = n \<and> client_shows v s) \<or>
         n \<notin> sn_sequence ` set (pane_history pane')"
  shows "\<exists>v'. apply_screen_delta (Some v) d = Inr v' \<and>
              client_shows v' (last (pane_history pane')) \<and>
              shows_now env w title pane (last (pane_history pane'))"
proof -
  obtain cur p' where r: "render_snapshot env w title pane = (Inr cur, p')"
    "last (pane_history p') = cur" "shows_now env w title pane cur"
    using render_snapshot_readable [OF assms(1,2)] by metis
  obtain cur1 p1 d1 where d: "render_snapshot env w title pane = (Inr cur1, p1)"
    "pane_screen_delta env w title n pane = (Inr d1, p1)"
    using pane_screen_delta_current [OF assms(1,2)] by metis
  have now: "shows_now env w title pane (last (pane_history pane'))"
    using r d assms(3) by simp
  from assms(5) show ?thesis
  proof
    assume "\<exists>s\<in>set (pane_history pane'). sn_sequence s = n \<and> client_shows v s"
    then obtain s where s: "s \<in> set (pane_history pane')" "sn_sequence s = n" "client_shows v s"
      by blast
    show ?thesis
      using pane_screen_delta_applies [OF assms(1,2) assms(3) [folded s(2)] assms(4) s(1,3)] now
      by blast
  next
    assume "n \<notin> sn_sequence ` set (pane_history pane')"
    from pane_screen_delta_lost [OF assms(1-3) this] now show ?thesis by simp
  qed
qed

definition demo_pane :: native_pane where
  "demo_pane =
     \<lparr>pn_pane_id = Id 1, pn_emulator = 9, pn_raw_output_tick = 7,
      pn_projection = mutex_new \<lparr>pj_history = [demo_snapshot 3 [[97]], demo_snapshot 4 [[97], [98]]]\<rparr>,
      pn_geometry = mutex_new \<lparr>pg_rows = 24, pg_cols = 80\<rparr>, pn_surface_tick = 5,
      pn_process = mutex_new \<lparr>np_master = 1, np_writer = 4, np_child = 2\<rparr>\<rparr>"

lemma demo_pane_ok: "pane_readable demo_pane" "history_ok (pn_pane_id demo_pane) (pane_history demo_pane)"
  by (simp_all add: demo_pane_def pane_readable_def history_ok_def pane_history_def
      demo_snapshot_def snapshot_history_limit_def)

lemma demo_pane_render:
  "render_snapshot demo_env (demo_start\<lparr>dw_screen := [[97], [100]]\<rparr>) None demo_pane =
    (Inr (demo_snapshot 5 [[97], [100]]),
     demo_pane\<lparr>pn_projection := mutex_new \<lparr>pj_history =
       [demo_snapshot 3 [[97]], demo_snapshot 4 [[97], [98]], demo_snapshot 5 [[97], [100]]]\<rparr>\<rparr>)"
  by (simp add: render_snapshot_def demo_pane_def pane_geometry_of_def
      demo_env_def demo_start_def history_back_def shows_same_def push_history_eq
      snapshot_history_limit_def keep_last_def demo_snapshot_def line_plain_def
      mutex_new_def mutex_lock_def mutex_set_def surface_empty_def Let_def)

lemma pane_delta_synchronises_witness:
  "\<exists>v' d pane'. pane_screen_delta demo_env (demo_start\<lparr>dw_screen := [[97], [100]]\<rparr>) None 3 demo_pane
             = (Inr d, pane') \<and>
        apply_screen_delta (Some (demo_snapshot 3 [[97]])) d = Inr v' \<and>
        client_shows v' (demo_snapshot 5 [[97], [100]])"
proof -
  let ?w = "demo_start\<lparr>dw_screen := [[97], [100]]\<rparr>"
  obtain d pane' where run: "pane_screen_delta demo_env ?w None 3 demo_pane = (Inr d, pane')"
    and r: "render_snapshot demo_env ?w None demo_pane = (Inr (demo_snapshot 5 [[97], [100]]), pane')"
  proof -
    obtain cur p1 d1 where "render_snapshot demo_env ?w None demo_pane = (Inr cur, p1)"
      and "pane_screen_delta demo_env ?w None 3 demo_pane = (Inr d1, p1)"
      by (rule pane_screen_delta_current [OF demo_pane_ok])
    then show thesis using that demo_pane_render by auto
  qed
  have h: "pane_history pane' =
      [demo_snapshot 3 [[97]], demo_snapshot 4 [[97], [98]], demo_snapshot 5 [[97], [100]]]"
    using r demo_pane_render by (auto simp: pane_history_def)
  have "\<exists>v'. apply_screen_delta (Some (demo_snapshot 3 [[97]])) d = Inr v' \<and>
              client_shows v' (last (pane_history pane')) \<and>
              shows_now demo_env ?w None demo_pane (last (pane_history pane'))"
    by (rule pane_delta_synchronises [OF demo_pane_ok run]) (simp_all add: h deliverable_demo_snapshot)
  then show ?thesis using run h by auto
qed

text \<open>
  C20. Rendering: a readable pane always yields a snapshot that shows the emulator's screen at
  the pane's size, keeps its history at most 64 consecutive snapshots ending in that one, and
  rendering again in the same world yields the same snapshot and changes nothing.
\<close>
theorem render_snapshot_stable:
  assumes "pane_readable pane" and "history_ok (pn_pane_id pane) (pane_history pane)"
  shows "\<exists>s pane'. render_snapshot env w title pane = (Inr s, pane') \<and>
           shows_now env w title pane s \<and> last (pane_history pane') = s \<and>
           history_ok (pn_pane_id pane) (pane_history pane') \<and>
           distinct (map sn_sequence (pane_history pane')) \<and>
           render_snapshot env w title pane' = (Inr s, (pane' :: native_pane))"
proof -
  obtain s pane' where r: "render_snapshot env w title pane = (Inr s, pane')"
    "last (pane_history pane') = s" "shows_now env w title pane s"
    "history_ok (pn_pane_id pane) (pane_history pane')"
    using render_snapshot_readable [OF assms] by metis
  show ?thesis
    using r render_snapshot_again [OF assms r(1)] history_sequences_distinct [OF r(4)] by blast
qed

lemma render_snapshot_stable_witness:
  "\<exists>s pane'. render_snapshot demo_env demo_start None demo_pane = (Inr s, pane') \<and>
     render_snapshot demo_env demo_start None pane' = (Inr s, (pane' :: native_pane))"
  using render_snapshot_stable [OF demo_pane_ok, of demo_env demo_start None] by blast

section \<open>The reader thread\<close>

text \<open>The chunks the reader thread reads: up to the end of the stream or the first failure.\<close>

fun chunks_read :: "read_outcome list \<Rightarrow> u8 list list" where
  "chunks_read [] = []"
| "chunks_read (ReadOk chunk # xs) = (if chunk = [] then [] else chunk # chunks_read xs)"
| "chunks_read (ReadInterrupted # xs) = chunks_read xs"
| "chunks_read (ReadFailed # xs) = []"

text \<open>The raw output events for chunks read when \<open>n\<close> events have been sent.\<close>

fun raw_events :: "pane_id \<Rightarrow> u64 \<Rightarrow> u8 list list \<Rightarrow> raw_output_event list" where
  "raw_events p n [] = []"
| "raw_events p n (c # cs) =
     RawBytes \<lparr>ro_pane_id = p, ro_sequence = n + 1, ro_payload = c\<rparr> # raw_events p (n + 1) cs"

text \<open>A log of what the world's broadcast channels were given, and nothing else writes to it.\<close>

definition logs_broadcasts :: "'w native_env \<Rightarrow> ('w \<Rightarrow> raw_output_event list) \<Rightarrow> bool" where
  "logs_broadcasts env sent \<longleftrightarrow>
     (\<forall>h ev w. sent (ne_broadcast_send env h ev w) = sent w @ [ev]) \<and>
     (\<forall>h bs w. sent (ne_emulator_advance env h bs w) = sent w) \<and>
     (\<forall>h w. sent (snd (ne_emulator_take_responses env h w)) = sent w) \<and>
     (\<forall>h bs w. sent (snd (ne_write_all env h bs w)) = sent w) \<and>
     (\<forall>h w. sent (snd (ne_flush env h w)) = sent w) \<and>
     (\<forall>h v w. sent (ne_watch_send env h v w) = sent w)"

lemma write_responses_sent:
  "logs_broadcasts env sent \<Longrightarrow> sent (write_responses env writer rs w) = sent w"
  by (induction env writer rs w rule: write_responses.induct) (simp_all add: logs_broadcasts_def)

lemma flush_terminal_response_sent:
  assumes "logs_broadcasts env sent"
  shows "sent (flush_terminal_response_bytes env emulator writer w) = sent w"
proof -
  obtain rs w1 where t: "ne_emulator_take_responses env emulator w = (rs, w1)" by fastforce
  have "sent w1 = sent w"
    using assms t unfolding logs_broadcasts_def by (metis snd_conv)
  moreover have "sent (snd (ne_flush env writer v)) = sent v" for v
    using assms unfolding logs_broadcasts_def by blast
  ultimately show ?thesis
    by (simp add: flush_terminal_response_bytes_def t write_responses_sent [OF assms])
qed

lemma reader_step_ok:
  assumes "logs_broadcasts env sent" and "chunk \<noteq> []"
  obtains w' where "reader_step env (ReadOk chunk) rd w =
      (True, rd\<lparr>rd_transcript := transcript_append (rd_transcript rd) chunk,
                rd_raw_output_sequence := rd_raw_output_sequence rd + 1\<rparr>, w')"
    and "sent w' = sent w @
      [RawBytes \<lparr>ro_pane_id = rd_pane_id rd, ro_sequence = rd_raw_output_sequence rd + 1,
                 ro_payload = chunk\<rparr>]"
proof -
  have "sent (ne_watch_send env h v u) = sent u" "sent (ne_broadcast_send env h ev u) = sent u @ [ev]"
    "sent (ne_emulator_advance env h bs u) = sent u" for h v ev u bs
    using assms(1) unfolding logs_broadcasts_def by blast+
  then show thesis
    using assms(2)
    by (intro that) (auto simp: reader_step_def Let_def bump_watch_def
        flush_terminal_response_sent [OF assms(1)])
qed

text \<open>
  C19. The reader thread, for any sequence of reads: it stops at the end of the stream or the
  first failure; the transcript is the end of what was read, and the raw output channel
  carries every chunk once, in order, under consecutive sequence numbers.
\<close>
theorem reader_loop_publishes:
  assumes "logs_broadcasts env sent" and "transcript_ok (rd_transcript rd)"
    and "reader_loop env outcomes rd w = (rd', w')"
  shows "transcript_bytes (rd_transcript rd') =
           keep_last max_transcript_bytes
             (transcript_bytes (rd_transcript rd) @ concat (chunks_read outcomes)) \<and>
         rd_raw_output_sequence rd' =
           rd_raw_output_sequence rd + word_of_nat (length (chunks_read outcomes)) \<and>
         sent w' = sent w @
           raw_events (rd_pane_id rd) (rd_raw_output_sequence rd) (chunks_read outcomes)"
  using assms(2,3)
proof (induction outcomes arbitrary: rd w)
  case Nil
  then show ?case by (auto simp: keep_last_short transcript_ok_def)
next
  case (Cons x xs)
  have small: "length (transcript_bytes (rd_transcript rd)) \<le> max_transcript_bytes"
    using Cons.prems(1) by (simp add: transcript_ok_def)
  show ?case
  proof (cases x)
    case (ReadOk chunk)
    show ?thesis
    proof (cases "chunk = []")
      case True
      then show ?thesis
        using Cons.prems(2) ReadOk keep_last_short [OF small] by (auto simp: reader_step_def)
    next
      case False
      let ?rd1 = "rd\<lparr>rd_transcript := transcript_append (rd_transcript rd) chunk,
                     rd_raw_output_sequence := rd_raw_output_sequence rd + 1\<rparr>"
      obtain w1 where step: "reader_step env (ReadOk chunk) rd w = (True, ?rd1, w1)"
        and log: "sent w1 = sent w @ [RawBytes \<lparr>ro_pane_id = rd_pane_id rd,
            ro_sequence = rd_raw_output_sequence rd + 1, ro_payload = chunk\<rparr>]"
        by (rule reader_step_ok [OF assms(1) False])
      have ok: "transcript_ok (rd_transcript ?rd1)"
        using Cons.prems(1) transcript_append_bytes [OF Cons.prems(1), of chunk]
        by (simp add: transcript_ok_def length_keep_last)
      show ?thesis
        using Cons.IH [OF ok] Cons.prems(2) step log False
          transcript_append_bytes [OF Cons.prems(1), of chunk]
        by (simp add: ReadOk add.assoc)
    qed
  next
    case ReadInterrupted
    then show ?thesis using Cons by (simp add: reader_step_def)
  next
    case ReadFailed
    then show ?thesis
      using Cons.prems(2) keep_last_short [OF small] by (auto simp: reader_step_def)
  qed
qed

definition demo_reader :: reader_thread where
  "demo_reader =
     \<lparr>rd_pane_id = Id 1, rd_reader = 3, rd_writer = 4, rd_transcript = transcript_default,
      rd_emulator = 9, rd_raw_output_sequence = 0, rd_raw_output_tick = 7, rd_surface_tick = 5\<rparr>"

lemma reader_loop_publishes_witness:
  "transcript_bytes (rd_transcript (fst (reader_loop demo_env
      [ReadOk [97], ReadInterrupted, ReadOk [98, 99], ReadOk [], ReadOk [100]] demo_reader demo_start)))
    = [97, 98, 99]"
proof -
  let ?xs = "[ReadOk [97], ReadInterrupted, ReadOk [98, 99], ReadOk [], ReadOk [100]]"
  have log: "logs_broadcasts demo_env dw_sent" by (simp add: logs_broadcasts_def demo_env_def)
  have ok: "transcript_ok (rd_transcript demo_reader)"
    by (simp add: transcript_ok_def transcript_bytes_def transcript_default_def demo_reader_def)
  obtain rd' w' where run: "reader_loop demo_env ?xs demo_reader demo_start = (rd', w')"
    by fastforce
  show ?thesis
    using reader_loop_publishes [OF log ok run] run
    by (simp add: demo_reader_def transcript_bytes_def transcript_default_def keep_last_def
        max_transcript_bytes_def)
qed

end
