(* ===== verification/Rust_Float.thy ===== *)
theory Rust_Float
  imports Rust_Text "HOL-Library.Log_Nat"
begin

text \<open>
  The part of \<open>f32\<close> the colour parsers use: parsing a decimal, rounding to the nearest single
  precision number (ties to even), and the comparisons and operations on the finite values.
  A finite value is the rational number it stands for; negative zero is zero, which none of
  the operations used can tell apart. Infinities and NaN are one value, \<open>NotFinite\<close>: the code
  rejects both.
\<close>

datatype f32 = Finite rat | NotFinite

text \<open>The binary exponent of a positive number, at least that of the subnormal numbers.\<close>

fun f32_small_exponent :: "nat \<Rightarrow> rat \<Rightarrow> int" where
  "f32_small_exponent 0 q = 0"
| "f32_small_exponent (Suc n) q = (if 1 \<le> q then 0 else f32_small_exponent n (2 * q) - 1)"

definition f32_exponent :: "rat \<Rightarrow> int" where
  "f32_exponent q = (if 1 \<le> q then bitlen \<lfloor>q\<rfloor> - 1 else f32_small_exponent 126 q)"

definition f32_ulp :: "rat \<Rightarrow> rat" where
  "f32_ulp q =
     (let e = f32_exponent q - 23 in if 0 \<le> e then 2 ^ nat e else 1 / 2 ^ nat (- e))"

definition round_half_even :: "rat \<Rightarrow> int" where
  "round_half_even q =
     (let n = \<lfloor>q\<rfloor>; r = q - of_int n
      in if r < 1 / 2 then n else if 1 / 2 < r then n + 1 else if even n then n else n + 1)"

definition f32_round_pos :: "rat \<Rightarrow> rat" where
  "f32_round_pos q = (if q \<le> 0 then 0 else of_int (round_half_even (q / f32_ulp q)) * f32_ulp q)"

definition f32_round :: "rat \<Rightarrow> f32" where
  "f32_round q =
     (let r = (if q < 0 then - f32_round_pos (- q) else f32_round_pos q)
      in if \<bar>r\<bar> < 2 ^ 128 then Finite r else NotFinite)"

section \<open>Parsing\<close>

text \<open>\<open>f32::from_str\<close>: a sign, then \<open>inf\<close>, \<open>infinity\<close>, \<open>nan\<close>, or digits with a point and an exponent.\<close>

definition strip_sign :: "rstr \<Rightarrow> bool \<times> rstr" where
  "strip_sign s =
     (case s of [] \<Rightarrow> (False, [])
      | c # rest \<Rightarrow> if c = 43 then (False, rest) else if c = 45 then (True, rest) else (False, s))"

definition take_digits :: "rstr \<Rightarrow> rstr \<times> rstr" where
  "take_digits s = (takeWhile is_digit s, dropWhile is_digit s)"

definition parse_exponent :: "rstr \<Rightarrow> int option" where
  "parse_exponent s =
     (case s of [] \<Rightarrow> Some 0
      | c # rest \<Rightarrow>
          if c = 101 \<or> c = 69 then
            (let (negative, ds) = strip_sign rest
             in if ds = [] \<or> \<not> list_all is_digit ds then None
                else Some (if negative then - int (digits_value 10 ds) else int (digits_value 10 ds)))
          else None)"

definition scale10 :: "rat \<Rightarrow> int \<Rightarrow> rat" where
  "scale10 q e = (if 0 \<le> e then q * 10 ^ nat e else q / 10 ^ nat (- e))"

definition parse_decimal :: "rstr \<Rightarrow> rat option" where
  "parse_decimal s =
     (let (whole, rest) = take_digits s;
          (fraction, rest') = (case rest of
             c # cs \<Rightarrow> if c = 46 then take_digits cs else ([], rest) | [] \<Rightarrow> ([], []))
      in if whole = [] \<and> fraction = [] then None
         else map_option
                (\<lambda>e. scale10 (of_nat (digits_value 10 (whole @ fraction))) (e - int (length fraction)))
                (parse_exponent rest'))"

definition parse_f32 :: "rstr \<Rightarrow> f32 option" where
  "parse_f32 s =
     (let (negative, body) = strip_sign s
      in if eq_ignore_case body (lit ''inf'') \<or> eq_ignore_case body (lit ''infinity'') \<or>
            eq_ignore_case body (lit ''nan'')
         then Some NotFinite
         else map_option (\<lambda>q. f32_round (if negative then - q else q)) (parse_decimal body))"

section \<open>Arithmetic\<close>

definition f32_in_range :: "rat \<Rightarrow> f32 \<Rightarrow> bool" where
  "f32_in_range hi x = (case x of Finite q \<Rightarrow> 0 \<le> q \<and> q \<le> hi | NotFinite \<Rightarrow> False)"

definition f32_lift2 :: "(rat \<Rightarrow> rat \<Rightarrow> rat) \<Rightarrow> f32 \<Rightarrow> f32 \<Rightarrow> f32" where
  "f32_lift2 f x y =
     (case (x, y) of (Finite p, Finite q) \<Rightarrow> f32_round (f p q) | _ \<Rightarrow> NotFinite)"

definition f32_add :: "f32 \<Rightarrow> f32 \<Rightarrow> f32" where "f32_add = f32_lift2 (+)"
definition f32_mul :: "f32 \<Rightarrow> f32 \<Rightarrow> f32" where "f32_mul = f32_lift2 (*)"
definition f32_div :: "f32 \<Rightarrow> f32 \<Rightarrow> f32" where "f32_div = f32_lift2 (/)"

text \<open>\<open>mul_add\<close> rounds once.\<close>

definition f32_mul_add :: "f32 \<Rightarrow> rat \<Rightarrow> rat \<Rightarrow> f32" where
  "f32_mul_add x a b = (case x of Finite q \<Rightarrow> f32_round (q * a + b) | NotFinite \<Rightarrow> NotFinite)"

text \<open>\<open>x.floor().min(255.0) as u8\<close>; the code only casts values that are not negative.\<close>

definition f32_floor_byte :: "f32 \<Rightarrow> u8" where
  "f32_floor_byte x = (case x of Finite q \<Rightarrow> word_of_int (min \<lfloor>q\<rfloor> 255) | NotFinite \<Rightarrow> 0)"

lemma parse_f32_examples:
  "parse_f32 (lit ''0.5'') = Some (Finite (1 / 2))"
  "parse_f32 (lit ''-.25e1'') = Some (Finite (- 5 / 2))"
  "parse_f32 (lit ''1e'') = None"
  by code_simp+

end
