(* ===== verification/Ansi_Color.thy ===== *)
theory Ansi_Color
  imports Screen_Model Rust_Float
begin

unbundle bit_operations_syntax

text \<open>
  Colours in escape sequences (\<open>ansi_color.rs\<close> of \<open>terminal-projection\<close>): the palette controls
  of several terminals, the textual colour specifications, and the extended SGR colours. Byte
  payloads are lists of \<open>u8\<close>, texts lists of scalar values.
\<close>

section \<open>Data\<close>

definition max_terminal_color_name_chars :: nat where "max_terminal_color_name_chars = 96"

datatype ansi_sgr_color_target = SgrForeground | SgrBackground | SgrUnderline

datatype terminal_palette_target = PalAnsi u8 | PalForeground | PalBackground | PalCursor

datatype terminal_kitty_color_control_operation =
    KcUpdate terminal_palette_target screen_color
  | KcReset terminal_palette_target
  | KcQueryKnown rstr terminal_palette_target
  | KcQueryUnknown rstr

datatype terminal_kitty_color_stack_operation = KsPush | KsPop

datatype terminal_xterm_color_stack_operation =
    XsPush | XsPop | XsStore nat | XsRestore nat | XsReport

definition terminal_default_palette_target_from_osc_code ::
    "u8 list \<Rightarrow> terminal_palette_target option" where
  "terminal_default_palette_target_from_osc_code code =
     (if code = ascii ''10'' then Some PalForeground
      else if code = ascii ''11'' then Some PalBackground
      else if code = ascii ''12'' then Some PalCursor
      else None)"

fun next_terminal_default_palette_target ::
    "terminal_palette_target \<Rightarrow> terminal_palette_target option" where
  "next_terminal_default_palette_target PalForeground = Some PalBackground"
| "next_terminal_default_palette_target PalBackground = Some PalCursor"
| "next_terminal_default_palette_target PalCursor = None"
| "next_terminal_default_palette_target (PalAnsi i) = None"

section \<open>Hexadecimal digits\<close>

definition parse_ascii_hex_digit :: "u8 \<Rightarrow> u8 option" where
  "parse_ascii_hex_digit v =
     (if 48 \<le> v \<and> v \<le> 57 then Some (v - 48)
      else if 97 \<le> v \<and> v \<le> 102 then Some (v - 97 + 10)
      else if 65 \<le> v \<and> v \<le> 70 then Some (v - 65 + 10)
      else None)"

definition parse_ascii_hex_byte :: "u8 list \<Rightarrow> u8 option" where
  "parse_ascii_hex_byte v =
     (case v of
        [hi, lo] \<Rightarrow>
          (case (parse_ascii_hex_digit hi, parse_ascii_hex_digit lo) of
             (Some h, Some l) \<Rightarrow> Some (push_bit 4 h OR l) | _ \<Rightarrow> None)
      | _ \<Rightarrow> None)"

definition parse_scaled_hex_color_component :: "rstr \<Rightarrow> u8 option" where
  "parse_scaled_hex_color_component component =
     (if component = [] \<or> 4 < str_len component \<or> \<not> list_all is_hexdigit component then None
      else let v = digits_value 16 component; max = 2 ^ (str_len component * 4) - 1
           in Some (word_of_nat (min ((v * 255 + max div 2) div max) 255)))"

text \<open>Three components to a colour, each read by \<open>f\<close>.\<close>

definition rgb_from :: "('a \<Rightarrow> u8 option) \<Rightarrow> 'a \<Rightarrow> 'a \<Rightarrow> 'a \<Rightarrow> screen_color option" where
  "rgb_from f r g b =
     (case (f r, f g, f b) of
        (Some r', Some g', Some b') \<Rightarrow> Some (ColorRgb r' g' b') | _ \<Rightarrow> None)"

definition slice :: "nat \<Rightarrow> nat \<Rightarrow> 'a list \<Rightarrow> 'a list" where
  "slice i j xs = take (j - i) (drop i xs)"

definition terminal_hex_color_spec :: "rstr \<Rightarrow> screen_color option" where
  "terminal_hex_color_spec hex =
     (if hex = [] \<or> str_len hex mod 3 \<noteq> 0 then None
      else let w = str_len hex div 3
           in if \<not> (1 \<le> w \<and> w \<le> 4) \<or> \<not> list_all is_hexdigit hex then None
              else rgb_from parse_scaled_hex_color_component
                     (slice 0 w hex) (slice w (w * 2) hex) (slice (w * 2) (w * 3) hex))"

definition terminal_css_hex_alpha_color_spec :: "rstr \<Rightarrow> screen_color option" where
  "terminal_css_hex_alpha_color_spec hex =
     (if \<not> (str_len hex = 4 \<or> str_len hex = 8) \<or> \<not> list_all is_hexdigit hex then None
      else let w = str_len hex div 4
           in case parse_scaled_hex_color_component (slice (w * 3) (w * 4) hex) of
                None \<Rightarrow> None
              | Some _ \<Rightarrow> rgb_from parse_scaled_hex_color_component
                     (slice 0 w hex) (slice w (w * 2) hex) (slice (w * 2) (w * 3) hex))"

definition terminal_compact_hex_color_spec :: "rstr \<Rightarrow> screen_color option" where
  "terminal_compact_hex_color_spec spec =
     (let text' = trim spec
      in if \<not> (str_len text' = 3 \<or> str_len text' = 6) \<or> \<not> list_all is_hexdigit text' then None
         else terminal_hex_color_spec text')"

section \<open>Colour specifications\<close>

definition terminal_rgb_color_spec :: "rstr \<Rightarrow> screen_color option" where
  "terminal_rgb_color_spec spec =
     (case terminal_compact_hex_color_spec spec of
        Some color \<Rightarrow> Some color
      | None \<Rightarrow>
          (case split_on 47 spec of
             [r, g, b] \<Rightarrow> rgb_from parse_scaled_hex_color_component r g b | _ \<Rightarrow> None))"

definition parse_rgbi_color_component :: "rstr \<Rightarrow> u8 option" where
  "parse_rgbi_color_component component =
     (case parse_f32 component of
        None \<Rightarrow> None
      | Some v \<Rightarrow>
          if \<not> f32_in_range 1 v then None
          else Some (f32_floor_byte (f32_mul_add v 255 (1 / 2))))"

text \<open>A percentage of 255, or a number scaled by \<open>k\<close>; \<open>hi\<close> is the largest plain number.\<close>

definition parse_css_component :: "rat \<Rightarrow> (f32 \<Rightarrow> f32) \<Rightarrow> rstr \<Rightarrow> u8 option" where
  "parse_css_component hi k component0 =
     (let component = trim component0;
          v = (case strip_suffix [37] component of
                 Some percent0 \<Rightarrow>
                   (case parse_f32 (trim percent0) of
                      None \<Rightarrow> None
                    | Some percent \<Rightarrow>
                        if \<not> f32_in_range 100 percent then None
                        else Some (f32_div (f32_mul percent (Finite 255)) (Finite 100)))
               | None \<Rightarrow>
                   (case parse_f32 component of
                      None \<Rightarrow> None
                    | Some n \<Rightarrow> if \<not> f32_in_range hi n then None else Some (k n)))
      in map_option (\<lambda>x. f32_floor_byte (f32_add x (Finite (1 / 2)))) v)"

definition parse_css_rgb_component :: "rstr \<Rightarrow> u8 option" where
  "parse_css_rgb_component = parse_css_component 255 (\<lambda>n. n)"

definition parse_css_unit_rgb_component :: "rstr \<Rightarrow> u8 option" where
  "parse_css_unit_rgb_component = parse_css_component 1 (\<lambda>n. f32_mul n (Finite 255))"

definition parse_css_alpha_component :: "rstr \<Rightarrow> unit option" where
  "parse_css_alpha_component component0 =
     (let component = trim component0
      in case strip_suffix [37] component of
           Some percent \<Rightarrow>
             (case parse_f32 (trim percent) of
                Some v \<Rightarrow> if f32_in_range 100 v then Some () else None | None \<Rightarrow> None)
         | None \<Rightarrow>
             (case parse_f32 component of
                Some v \<Rightarrow> if f32_in_range 1 v then Some () else None | None \<Rightarrow> None))"

definition terminal_rgbi_color_spec :: "rstr \<Rightarrow> screen_color option" where
  "terminal_rgbi_color_spec spec =
     (case split_on 47 spec of
        [r, g, b] \<Rightarrow> rgb_from parse_rgbi_color_component r g b | _ \<Rightarrow> None)"

text \<open>The part before the first slash in words, the part after it, and no second slash.\<close>

definition slash_components :: "rstr \<Rightarrow> (rstr list \<times> rstr option) option" where
  "slash_components spec =
     (case split_on 47 spec of
        [c] \<Rightarrow> Some (split_whitespace c, None)
      | [c, a] \<Rightarrow> Some (split_whitespace c, Some (trim a))
      | _ \<Rightarrow> None)"

definition parse_css_color_function_components :: "rstr \<Rightarrow> (rstr list \<times> rstr option) option" where
  "parse_css_color_function_components spec =
     (if 44 \<in> set spec then
        (case map trim (split_on 44 spec) of
           [r, g, b] \<Rightarrow> Some ([r, g, b], None)
         | [r, g, b, a] \<Rightarrow> Some ([r, g, b], Some a)
         | _ \<Rightarrow> None)
      else slash_components spec)"

definition alpha_ok :: "rstr option \<Rightarrow> bool" where
  "alpha_ok alpha = (case alpha of None \<Rightarrow> True | Some a \<Rightarrow> parse_css_alpha_component a \<noteq> None)"

definition terminal_css_rgb_color_spec :: "rstr \<Rightarrow> screen_color option" where
  "terminal_css_rgb_color_spec spec =
     (case parse_css_color_function_components spec of
        Some ([r, g, b], alpha) \<Rightarrow>
          if alpha_ok alpha then rgb_from parse_css_rgb_component r g b else None
      | _ \<Rightarrow> None)"

definition terminal_css_rgba_color_spec :: "rstr \<Rightarrow> screen_color option" where
  "terminal_css_rgba_color_spec spec =
     (case parse_css_color_function_components spec of
        Some ([r, g, b], Some a) \<Rightarrow>
          if parse_css_alpha_component a = None then None
          else rgb_from parse_css_rgb_component r g b
      | _ \<Rightarrow> None)"

definition terminal_rgba_color_spec :: "rstr \<Rightarrow> screen_color option" where
  "terminal_rgba_color_spec spec =
     (case split_on 47 spec of
        [r, g, b, a] \<Rightarrow>
          if parse_scaled_hex_color_component a = None then None
          else rgb_from parse_scaled_hex_color_component r g b
      | _ \<Rightarrow> None)"

definition terminal_css_color_function_spec :: "rstr \<Rightarrow> screen_color option" where
  "terminal_css_color_function_spec spec =
     (case slash_components spec of
        Some ([space, r, g, b], alpha) \<Rightarrow>
          if \<not> eq_ignore_case space (lit ''srgb'') then None
          else if \<not> alpha_ok alpha then None
          else rgb_from parse_css_unit_rgb_component r g b
      | _ \<Rightarrow> None)"

text \<open>\<open>name(\<dots>)\<close>: the text between a prefix and a closing parenthesis at the end.\<close>

definition strip_call :: "rstr \<Rightarrow> rstr \<Rightarrow> rstr option" where
  "strip_call p s =
     (case strip_prefix_ci p s of
        Some rest \<Rightarrow> if s \<noteq> [] \<and> last s = 41 then Some (butlast rest) else None
      | None \<Rightarrow> None)"

definition parse_terminal_color_spec :: "rstr \<Rightarrow> screen_color option" where
  "parse_terminal_color_spec raw =
     (let s = trim raw
      in if s = [] \<or> s = [63] then None
         else case strip_prefix [35] s of
           Some hex \<Rightarrow>
             (case terminal_hex_color_spec hex of
                Some c \<Rightarrow> Some c | None \<Rightarrow> terminal_css_hex_alpha_color_spec hex)
         | None \<Rightarrow>
         (case strip_prefix_ci (lit ''rgb:'') s of Some v \<Rightarrow> terminal_rgb_color_spec v | None \<Rightarrow>
         (case strip_prefix_ci (lit ''srgb:'') s of Some v \<Rightarrow> terminal_compact_hex_color_spec v | None \<Rightarrow>
         (case strip_prefix_ci (lit ''p3:'') s of Some v \<Rightarrow> terminal_compact_hex_color_spec v | None \<Rightarrow>
         (case strip_call (lit ''rgb('') s of Some v \<Rightarrow> terminal_css_rgb_color_spec v | None \<Rightarrow>
         (case strip_prefix_ci (lit ''rgba:'') s of Some v \<Rightarrow> terminal_rgba_color_spec v | None \<Rightarrow>
         (case strip_call (lit ''rgba('') s of Some v \<Rightarrow> terminal_css_rgba_color_spec v | None \<Rightarrow>
         (case strip_call (lit ''color('') s of Some v \<Rightarrow> terminal_css_color_function_spec v | None \<Rightarrow>
         (case strip_prefix_ci (lit ''rgbi:'') s of Some v \<Rightarrow> terminal_rgbi_color_spec v | None \<Rightarrow>
         (case terminal_compact_hex_color_spec s of Some c \<Rightarrow> Some c | None \<Rightarrow>
            Some (ColorNamed (take max_terminal_color_name_chars s))))))))))))"

section \<open>Palette controls\<close>

definition parse_terminal_osc_p_palette_target :: "u8 \<Rightarrow> terminal_palette_target option" where
  "parse_terminal_osc_p_palette_target v =
     (case parse_ascii_hex_digit v of
        Some i \<Rightarrow> Some (PalAnsi i)
      | None \<Rightarrow>
          if v = 103 \<or> v = 71 then Some PalForeground
          else if v = 104 \<or> v = 72 then Some PalBackground
          else if v = 108 \<or> v = 76 then Some PalCursor
          else None)"

definition parse_terminal_osc_p_palette_update ::
    "u8 list \<Rightarrow> (terminal_palette_target \<times> screen_color) option" where
  "parse_terminal_osc_p_palette_update payload =
     (case strip_prefix (ascii ''P'') payload of
        Some [t, r1, r0, g1, g0, b1, b0] \<Rightarrow>
          if \<not> list_all (\<lambda>b. is_hexdigit (unat b)) [r1, r0, g1, g0, b1, b0] then None
          else (case parse_terminal_osc_p_palette_target t of
                  None \<Rightarrow> None
                | Some target \<Rightarrow>
                    map_option (\<lambda>c. (target, c))
                      (rgb_from parse_ascii_hex_byte [r1, r0] [g1, g0] [b1, b0]))
      | _ \<Rightarrow> None)"

definition parse_legacy_linux_console_palette_update :: "u8 list \<Rightarrow> (u8 \<times> screen_color) option" where
  "parse_legacy_linux_console_palette_update payload =
     (case parse_terminal_osc_p_palette_update payload of
        Some (PalAnsi index, color) \<Rightarrow> Some (index, color) | _ \<Rightarrow> None)"

definition is_legacy_linux_console_palette_reset :: "u8 list \<Rightarrow> bool" where
  "is_legacy_linux_console_palette_reset payload \<longleftrightarrow> payload = ascii ''R''"

definition iterm2_palette_names :: "(u8 list \<times> terminal_palette_target) list" where
  "iterm2_palette_names =
     [(ascii ''fg'', PalForeground), (ascii ''bg'', PalBackground), (ascii ''curbg'', PalCursor),
      (ascii ''black'', PalAnsi 0), (ascii ''red'', PalAnsi 1), (ascii ''green'', PalAnsi 2),
      (ascii ''yellow'', PalAnsi 3), (ascii ''blue'', PalAnsi 4), (ascii ''magenta'', PalAnsi 5),
      (ascii ''cyan'', PalAnsi 6), (ascii ''white'', PalAnsi 7), (ascii ''br_black'', PalAnsi 8),
      (ascii ''br_red'', PalAnsi 9), (ascii ''br_green'', PalAnsi 10), (ascii ''br_yellow'', PalAnsi 11),
      (ascii ''br_blue'', PalAnsi 12), (ascii ''br_magenta'', PalAnsi 13), (ascii ''br_cyan'', PalAnsi 14),
      (ascii ''br_white'', PalAnsi 15)]"

definition iterm2_set_colors_palette_target :: "u8 list \<Rightarrow> terminal_palette_target option" where
  "iterm2_set_colors_palette_target key = map_of iterm2_palette_names key"

definition iterm2_set_colors_color_spec :: "rstr \<Rightarrow> screen_color option" where
  "iterm2_set_colors_color_spec spec =
     (if terminal_compact_hex_color_spec spec \<noteq> None then parse_terminal_color_spec spec
      else case split_once 58 spec of
             None \<Rightarrow> None
           | Some (space, v) \<Rightarrow>
               if \<not> (space = lit ''rgb'' \<or> space = lit ''srgb'' \<or> space = lit ''p3'') then None
               else if terminal_compact_hex_color_spec v = None then None
               else parse_terminal_color_spec spec)"

definition parse_iterm2_set_colors_update ::
    "u8 list \<Rightarrow> (terminal_palette_target \<times> screen_color) option" where
  "parse_iterm2_set_colors_update payload =
     (case strip_prefix (ascii ''1337;SetColors='') payload of
        None \<Rightarrow> None
      | Some body \<Rightarrow>
          (case split_once 61 body of
             None \<Rightarrow> None
           | Some (key, v) \<Rightarrow>
               (case iterm2_set_colors_palette_target key of
                  None \<Rightarrow> None
                | Some target \<Rightarrow>
                    (case utf8_decode v of
                       None \<Rightarrow> None
                     | Some spec \<Rightarrow>
                         map_option (\<lambda>color. (target, color))
                           (iterm2_set_colors_color_spec (trim spec))))))"

definition terminal_kitty_color_control_key :: "u8 list \<Rightarrow> rstr option" where
  "terminal_kitty_color_control_key raw =
     (if raw = [] \<or> 64 < length raw then None
      else if list_all (\<lambda>b. is_alphanumeric (unat b) \<or> b = 95) raw then utf8_decode raw else None)"

definition terminal_kitty_color_control_target :: "u8 list \<Rightarrow> terminal_palette_target option" where
  "terminal_kitty_color_control_target key =
     (if key = ascii ''foreground'' then Some PalForeground
      else if key = ascii ''background'' then Some PalBackground
      else if key = ascii ''cursor'' then Some PalCursor
      else case Option.bind (utf8_decode key) parse_u16 of
             None \<Rightarrow> None
           | Some index \<Rightarrow> if index \<le> 255 then Some (PalAnsi (word_of_nat index)) else None)"

text \<open>One field of the control: at most one operation.\<close>

definition kitty_color_control_field :: "u8 list \<Rightarrow> terminal_kitty_color_control_operation list" where
  "kitty_color_control_field field =
     (if field = [] then []
      else
        let (raw_key, raw_value) = (case split_once 61 field of
              Some (k, v) \<Rightarrow> (k, Some v) | None \<Rightarrow> (field, None))
        in case terminal_kitty_color_control_key raw_key of
             None \<Rightarrow> []
           | Some key \<Rightarrow>
               let target = terminal_kitty_color_control_target (utf8_encode key);
                   reset = (case target of Some t \<Rightarrow> [KcReset t] | None \<Rightarrow> [])
               in case raw_value of
                    None \<Rightarrow> reset
                  | Some v \<Rightarrow>
                      if v = ascii ''?'' then
                        (case target of Some t \<Rightarrow> [KcQueryKnown key t] | None \<Rightarrow> [KcQueryUnknown key])
                      else if v = [] then reset
                      else (case target of
                              None \<Rightarrow> []
                            | Some t \<Rightarrow>
                                (case Option.bind (utf8_decode v) parse_terminal_color_spec of
                                   Some color \<Rightarrow> [KcUpdate t color] | None \<Rightarrow> [])))"

definition parse_terminal_kitty_color_control ::
    "u8 list \<Rightarrow> terminal_kitty_color_control_operation list option" where
  "parse_terminal_kitty_color_control payload =
     (case strip_prefix (ascii ''21;'') payload of
        None \<Rightarrow> None
      | Some body \<Rightarrow>
          let operations = concat (map kitty_color_control_field (split_on 59 body))
          in if operations = [] then None else Some operations)"

definition parse_terminal_kitty_color_stack ::
    "u8 list \<Rightarrow> terminal_kitty_color_stack_operation option" where
  "parse_terminal_kitty_color_stack payload =
     (if payload = ascii ''30001'' then Some KsPush
      else if payload = ascii ''30101'' then Some KsPop
      else None)"

fun color_stack_slots :: "rstr list \<Rightarrow> nat list option" where
  "color_stack_slots [] = Some []"
| "color_stack_slots (v # vs) =
     (if v = [] then map_option ((#) 0) (color_stack_slots vs)
      else case parse_usize v of
             None \<Rightarrow> None
           | Some slot \<Rightarrow> if 10 < slot then None else map_option ((#) slot) (color_stack_slots vs))"

definition parse_xterm_color_stack_slots :: "u8 list \<Rightarrow> nat list option" where
  "parse_xterm_color_stack_slots parameters =
     (if parameters = [] then Some []
      else Option.bind (utf8_decode parameters) (\<lambda>s. color_stack_slots (split_on 59 s)))"

definition xterm_color_stack_operation :: "u8 \<Rightarrow> nat \<Rightarrow> terminal_xterm_color_stack_operation" where
  "xterm_color_stack_operation final_byte slot =
     (if final_byte = 80 then (if slot = 0 then XsPush else XsStore slot)
      else if slot = 0 then XsPop else XsRestore slot)"

definition parse_terminal_xterm_color_stack ::
    "u8 list \<Rightarrow> u8 \<Rightarrow> terminal_xterm_color_stack_operation list option" where
  "parse_terminal_xterm_color_stack payload final_byte =
     (if final_byte = 82 then (if payload = ascii ''#'' then Some [XsReport] else None)
      else if final_byte \<noteq> 80 \<and> final_byte \<noteq> 81 then None
      else case strip_suffix (ascii ''#'') payload of
             None \<Rightarrow> None
           | Some parameters \<Rightarrow>
               (case parse_xterm_color_stack_slots parameters of
                  None \<Rightarrow> None
                | Some slots0 \<Rightarrow>
                    let slots = slots0 @ (if parameters = [] then [0] else []);
                        operations = map (xterm_color_stack_operation final_byte) slots
                    in if operations = [] then None else Some operations))"

section \<open>Extended SGR colours\<close>

definition sgr_color_target :: "nat \<Rightarrow> ansi_sgr_color_target option" where
  "sgr_color_target code =
     (if code = 38 then Some SgrForeground
      else if code = 48 then Some SgrBackground
      else if code = 58 then Some SgrUnderline
      else None)"

definition parse_sgr_u8 :: "rstr \<Rightarrow> u8 option" where
  "parse_sgr_u8 v = map_option (\<lambda>n. word_of_nat (min n 255)) (parse_u16 v)"

definition screen_color_from_cmy :: "u8 \<Rightarrow> u8 \<Rightarrow> u8 \<Rightarrow> screen_color" where
  "screen_color_from_cmy c m y = ColorRgb (255 - c) (255 - m) (255 - y)"

definition cmyk_component_to_rgb :: "u8 \<Rightarrow> u8 \<Rightarrow> u8" where
  "cmyk_component_to_rgb component black =
     (let c = (ucast (255 - component) :: u16); k = (ucast (255 - black) :: u16)
      in ucast ((c * k + 127) div 255))"

definition screen_color_from_cmyk :: "u8 \<Rightarrow> u8 \<Rightarrow> u8 \<Rightarrow> u8 \<Rightarrow> screen_color" where
  "screen_color_from_cmyk c m y k =
     ColorRgb (cmyk_component_to_rgb c k) (cmyk_component_to_rgb m k) (cmyk_component_to_rgb y k)"

definition semicolon_color_component_offset :: "rstr list \<Rightarrow> nat \<Rightarrow> (nat \<times> nat) option" where
  "semicolon_color_component_offset parts component_count =
     (let standard_consumed = 1 + component_count
      in if length parts < standard_consumed then None
         else if vec_get parts 1 = Some [] \<and> standard_consumed < length parts
         then Some (2, standard_consumed + 1)
         else Some (1, standard_consumed))"

text \<open>The component at an index, and colours from the components at an offset.\<close>

definition sgr_u8_at :: "rstr list \<Rightarrow> nat \<Rightarrow> u8 option" where
  "sgr_u8_at parts i = Option.bind (vec_get parts i) parse_sgr_u8"

definition sgr_three :: "(u8 \<Rightarrow> u8 \<Rightarrow> u8 \<Rightarrow> screen_color) \<Rightarrow> rstr list \<Rightarrow> nat \<Rightarrow> screen_color option" where
  "sgr_three f parts i =
     (case (sgr_u8_at parts i, sgr_u8_at parts (i + 1), sgr_u8_at parts (i + 2)) of
        (Some a, Some b, Some c) \<Rightarrow> Some (f a b c) | _ \<Rightarrow> None)"

definition sgr_four ::
    "(u8 \<Rightarrow> u8 \<Rightarrow> u8 \<Rightarrow> u8 \<Rightarrow> screen_color) \<Rightarrow> rstr list \<Rightarrow> nat \<Rightarrow> screen_color option" where
  "sgr_four f parts i =
     (case (sgr_u8_at parts i, sgr_u8_at parts (i + 1), sgr_u8_at parts (i + 2),
            sgr_u8_at parts (i + 3)) of
        (Some a, Some b, Some c, Some d) \<Rightarrow> Some (f a b c d) | _ \<Rightarrow> None)"

definition parse_semicolon_sgr_color_fields :: "rstr list \<Rightarrow> (screen_color \<times> nat) option" where
  "parse_semicolon_sgr_color_fields parts =
     (case Option.bind (vec_get parts 0) parse_u16 of
        None \<Rightarrow> None
      | Some mode \<Rightarrow>
          let components = (\<lambda>n f.
                case semicolon_color_component_offset parts n of
                  None \<Rightarrow> None
                | Some (offset, consumed) \<Rightarrow> map_option (\<lambda>c. (c, consumed)) (f offset))
          in if mode = 5 then
               (let index_offset = (if vec_get parts 1 = Some [] then 2 else 1)
                in map_option (\<lambda>index. (ColorIndexed index, index_offset + 1))
                     (sgr_u8_at parts index_offset))
             else if mode = 2 then components 3 (sgr_three ColorRgb parts)
             else if mode = 3 then components 3 (sgr_three screen_color_from_cmy parts)
             else if mode = 4 then components 4 (sgr_four screen_color_from_cmyk parts)
             else if mode = 6 then components 4 (sgr_four (\<lambda>r g b _. ColorRgb r g b) parts)
             else None)"

definition parse_colon_sgr_color_fields :: "rstr list \<Rightarrow> screen_color option" where
  "parse_colon_sgr_color_fields fs =
     (case position (\<lambda>f. f \<noteq> []) fs of
        None \<Rightarrow> None
      | Some mode_offset \<Rightarrow>
          (case Option.bind (vec_get fs mode_offset) parse_u16 of
             None \<Rightarrow> None
           | Some mode \<Rightarrow>
               let components = filter (\<lambda>f. f \<noteq> []) (drop (mode_offset + 1) fs);
                   three = (if 4 \<le> length components then 1 else 0);
                   four = (if 5 \<le> length components then 1 else 0)
               in if mode = 5 then map_option ColorIndexed (sgr_u8_at components 0)
                  else if mode = 2 then sgr_three ColorRgb components three
                  else if mode = 3 then sgr_three screen_color_from_cmy components three
                  else if mode = 4 then sgr_four screen_color_from_cmyk components four
                  else if mode = 6 then sgr_four (\<lambda>r g b _. ColorRgb r g b) components four
                  else None))"

definition parse_colon_sgr_color_part :: "rstr \<Rightarrow> (ansi_sgr_color_target \<times> screen_color) option" where
  "parse_colon_sgr_color_part part =
     (let fs = split_on 58 part
      in case Option.bind (Option.bind (vec_get fs 0) parse_u16) sgr_color_target of
           None \<Rightarrow> None
         | Some target \<Rightarrow>
             map_option (\<lambda>color. (target, color)) (parse_colon_sgr_color_fields (drop 1 fs)))"

end
