(* ===== verification/Ansi_Sgr.thy ===== *)
theory Ansi_Sgr
  imports Ansi_Color
begin

text \<open>
  The requests on rectangular areas (\<open>ansi_rect.rs\<close>) and the attribute requests
  (\<open>ansi_sgr.rs\<close>) of \<open>terminal-projection\<close>.
\<close>

section \<open>Rectangular areas\<close>

record terminal_rectangular_area =
  ar_top :: u16
  ar_left :: u16
  ar_bottom :: "u16 option"
  ar_right :: "u16 option"

record terminal_rectangular_fill_request =
  rf_codepoint :: u32
  rf_area :: terminal_rectangular_area

record terminal_rectangular_copy_request =
  rc_source :: terminal_rectangular_area
  rc_destination_top :: u16
  rc_destination_left :: u16

definition before_start :: "u16 option \<Rightarrow> u16 \<Rightarrow> bool" where
  "before_start limit start = (case limit of Some l \<Rightarrow> l < start | None \<Rightarrow> False)"

definition rectangular_area_new ::
    "u16 \<Rightarrow> u16 \<Rightarrow> u16 option \<Rightarrow> u16 option \<Rightarrow> terminal_rectangular_area option" where
  "rectangular_area_new t l b r =
     (let area = \<lparr>ar_top = max t 1, ar_left = max l 1,
            ar_bottom = map_option (\<lambda>v. max v 1) b,
            ar_right = map_option (\<lambda>v. max v 1) r\<rparr>
      in if before_start (ar_bottom area) (ar_top area) \<or> before_start (ar_right area) (ar_left area)
         then None else Some area)"

text \<open>An index past the end of the parts reads as no part.\<close>

definition parse_strict_u32_part :: "rstr option \<Rightarrow> nat option" where
  "parse_strict_u32_part part =
     (case part of
        None \<Rightarrow> None
      | Some p \<Rightarrow>
          let v = trim p
          in if v = [] \<or> \<not> list_all is_digit v then None else parse_u32 v)"

definition rect_u16_part :: "rstr option \<Rightarrow> u16 option" where
  "rect_u16_part part = map_option (\<lambda>n. word_of_nat (min n 32767)) (parse_strict_u32_part part)"

definition unwrap_or :: "'a \<Rightarrow> 'a option \<Rightarrow> 'a" where
  "unwrap_or d m = (case m of Some x \<Rightarrow> x | None \<Rightarrow> d)"

definition rectangular_payload_parts :: "u8 list \<Rightarrow> rstr list option" where
  "rectangular_payload_parts payload =
     (case utf8_decode payload of
        None \<Rightarrow> None
      | Some s \<Rightarrow> map_option (split_on 59) (strip_suffix [36] s))"

definition area_from_parts :: "rstr list \<Rightarrow> nat \<Rightarrow> terminal_rectangular_area option" where
  "area_from_parts parts i =
     rectangular_area_new (unwrap_or 1 (rect_u16_part (vec_get parts i)))
       (unwrap_or 1 (rect_u16_part (vec_get parts (i + 1))))
       (rect_u16_part (vec_get parts (i + 2))) (rect_u16_part (vec_get parts (i + 3)))"

definition parse_terminal_rectangular_fill_request ::
    "u8 list \<Rightarrow> terminal_rectangular_fill_request option" where
  "parse_terminal_rectangular_fill_request payload =
     (case rectangular_payload_parts payload of
        None \<Rightarrow> None
      | Some parts \<Rightarrow>
          (case parse_strict_u32_part (vec_get parts 0) of
             None \<Rightarrow> None
           | Some codepoint \<Rightarrow>
               map_option (\<lambda>area. \<lparr>rf_codepoint = word_of_nat codepoint, rf_area = area\<rparr>)
                 (area_from_parts parts 1)))"

definition parse_terminal_rectangular_area :: "u8 list \<Rightarrow> terminal_rectangular_area option" where
  "parse_terminal_rectangular_area payload =
     Option.bind (rectangular_payload_parts payload) (\<lambda>parts. area_from_parts parts 0)"

definition parse_terminal_rectangular_copy_request ::
    "u8 list \<Rightarrow> terminal_rectangular_copy_request option" where
  "parse_terminal_rectangular_copy_request payload =
     (case rectangular_payload_parts payload of
        None \<Rightarrow> None
      | Some parts \<Rightarrow>
          map_option (\<lambda>source.
              \<lparr>rc_source = source,
               rc_destination_top = unwrap_or 1 (rect_u16_part (vec_get parts 5)),
               rc_destination_left = unwrap_or 1 (rect_u16_part (vec_get parts 6))\<rparr>)
            (area_from_parts parts 0))"

section \<open>The attribute stack\<close>

record ansi_sgr_stack_attributes =
  sa_foreground :: bool
  sa_background :: bool
  sa_bold :: bool
  sa_dim :: bool
  sa_italic :: bool
  sa_underline :: bool
  sa_blink :: bool
  sa_inverse :: bool
  sa_hidden :: bool
  sa_strikethrough :: bool
  sa_overline :: bool
  sa_border :: bool
  sa_baseline :: bool

definition stack_attributes_uniform :: "bool \<Rightarrow> ansi_sgr_stack_attributes" where
  "stack_attributes_uniform b =
     \<lparr>sa_foreground = b, sa_background = b, sa_bold = b, sa_dim = b, sa_italic = b, sa_underline = b,
      sa_blink = b, sa_inverse = b, sa_hidden = b, sa_strikethrough = b, sa_overline = b,
      sa_border = b, sa_baseline = b\<rparr>"

definition stack_attributes_all :: ansi_sgr_stack_attributes where
  "stack_attributes_all = stack_attributes_uniform True"

definition stack_attributes_is_empty :: "ansi_sgr_stack_attributes \<Rightarrow> bool" where
  "stack_attributes_is_empty a \<longleftrightarrow>
     \<not> sa_foreground a \<and> \<not> sa_background a \<and> \<not> sa_bold a \<and> \<not> sa_dim a \<and> \<not> sa_italic a \<and>
     \<not> sa_underline a \<and> \<not> sa_blink a \<and> \<not> sa_inverse a \<and> \<not> sa_hidden a \<and> \<not> sa_strikethrough a \<and>
     \<not> sa_overline a \<and> \<not> sa_border a \<and> \<not> sa_baseline a"

definition stack_attribute_on :: "rstr \<Rightarrow> ansi_sgr_stack_attributes \<Rightarrow> ansi_sgr_stack_attributes" where
  "stack_attribute_on parameter a =
     (case parse_u16 (trim parameter) of
        None \<Rightarrow> a
      | Some n \<Rightarrow>
          if n = 1 then a\<lparr>sa_bold := True\<rparr>
          else if n = 2 then a\<lparr>sa_dim := True\<rparr>
          else if n = 3 then a\<lparr>sa_italic := True\<rparr>
          else if n = 4 \<or> n = 21 then a\<lparr>sa_underline := True\<rparr>
          else if n = 5 then a\<lparr>sa_blink := True\<rparr>
          else if n = 7 then a\<lparr>sa_inverse := True\<rparr>
          else if n = 8 then a\<lparr>sa_hidden := True\<rparr>
          else if n = 9 then a\<lparr>sa_strikethrough := True\<rparr>
          else if n = 30 then a\<lparr>sa_foreground := True\<rparr>
          else if n = 31 then a\<lparr>sa_background := True\<rparr>
          else a)"

definition parse_xterm_sgr_stack_attributes :: "u8 list \<Rightarrow> ansi_sgr_stack_attributes option" where
  "parse_xterm_sgr_stack_attributes payload =
     (if 35 \<notin> set payload then None
      else case utf8_decode payload of
             None \<Rightarrow> None
           | Some s \<Rightarrow>
               let parameters = trim (filter (\<lambda>c. c \<noteq> 35) s)
               in if parameters = [] then Some stack_attributes_all
                  else
                    let attributes = fold stack_attribute_on (split_on 59 parameters)
                          (stack_attributes_uniform False)
                    in if stack_attributes_is_empty attributes then None else Some attributes)"

section \<open>Attributes of a rectangle\<close>

datatype rectangular_attribute_action =
    ResetCore | BoldOn | BoldOff | UnderlineOn | UnderlineOff | BlinkOn | BlinkOff
  | InverseOn | InverseOff | HiddenOn | HiddenOff

datatype rectangular_attribute_mode = AttrChange | AttrReverse

record rectangular_attribute_request =
  ra_top :: u16
  ra_left :: u16
  ra_bottom :: "u16 option"
  ra_right :: "u16 option"
  ra_actions :: "rectangular_attribute_action list"

definition sgr_u16_part :: "rstr option \<Rightarrow> u16 option" where
  "sgr_u16_part part =
     (case part of
        None \<Rightarrow> None
      | Some p \<Rightarrow>
          let v = trim p
          in if v = [] \<or> \<not> list_all is_digit v then None
             else map_option (\<lambda>n. word_of_nat (min n 32767)) (parse_u16 v))"

definition rectangular_attribute_action_of :: "rstr \<Rightarrow> rectangular_attribute_action list" where
  "rectangular_attribute_action_of part =
     (case sgr_u16_part (Some part) of
        None \<Rightarrow> []
      | Some n \<Rightarrow>
          if n = 0 then [ResetCore] else if n = 1 then [BoldOn] else if n = 4 then [UnderlineOn]
          else if n = 5 then [BlinkOn] else if n = 7 then [InverseOn] else if n = 8 then [HiddenOn]
          else if n = 22 then [BoldOff] else if n = 24 then [UnderlineOff]
          else if n = 25 then [BlinkOff] else if n = 27 then [InverseOff]
          else if n = 28 then [HiddenOff] else [])"

definition parse_rectangular_attribute_actions ::
    "rstr list \<Rightarrow> rectangular_attribute_action list option" where
  "parse_rectangular_attribute_actions parts =
     (if list_all (\<lambda>part. trim part = []) parts then Some [ResetCore]
      else let actions = concat (map rectangular_attribute_action_of parts)
           in if actions = [] then None else Some actions)"

definition parse_terminal_rectangular_attribute_request ::
    "u8 list \<Rightarrow> rectangular_attribute_request option" where
  "parse_terminal_rectangular_attribute_request payload =
     (case rectangular_payload_parts payload of
        None \<Rightarrow> None
      | Some parts \<Rightarrow>
          let t = max (unwrap_or 1 (sgr_u16_part (vec_get parts 0))) 1;
              l = max (unwrap_or 1 (sgr_u16_part (vec_get parts 1))) 1;
              b = map_option (\<lambda>v. max v 1) (sgr_u16_part (vec_get parts 2));
              r = map_option (\<lambda>v. max v 1) (sgr_u16_part (vec_get parts 3))
          in if before_start b t \<or> before_start r l then None
             else map_option (\<lambda>actions. \<lparr>ra_top = t, ra_left = l, ra_bottom = b,
                                          ra_right = r, ra_actions = actions\<rparr>)
                    (parse_rectangular_attribute_actions (drop 4 parts)))"

definition toggle_underline :: "screen_text_style \<Rightarrow> screen_text_style" where
  "toggle_underline st =
     st\<lparr>st_underline := (if st_underline st \<noteq> None then None else Some USingle)\<rparr>"

fun apply_rectangular_attribute_action ::
    "rectangular_attribute_mode \<Rightarrow> rectangular_attribute_action \<Rightarrow> screen_text_style \<Rightarrow> screen_text_style"
  where
  "apply_rectangular_attribute_action AttrChange ResetCore st =
     st\<lparr>st_bold := False, st_dim := False, st_underline := None, st_blink := False,
        st_inverse := False\<rparr>"
| "apply_rectangular_attribute_action AttrChange BoldOn st = st\<lparr>st_bold := True\<rparr>"
| "apply_rectangular_attribute_action AttrChange BoldOff st =
     st\<lparr>st_bold := False, st_dim := False\<rparr>"
| "apply_rectangular_attribute_action AttrChange UnderlineOn st =
     st\<lparr>st_underline := Some USingle\<rparr>"
| "apply_rectangular_attribute_action AttrChange UnderlineOff st =
     st\<lparr>st_underline := None, st_underline_color := None\<rparr>"
| "apply_rectangular_attribute_action AttrChange BlinkOn st = st\<lparr>st_blink := True\<rparr>"
| "apply_rectangular_attribute_action AttrChange BlinkOff st = st\<lparr>st_blink := False\<rparr>"
| "apply_rectangular_attribute_action AttrChange InverseOn st = st\<lparr>st_inverse := True\<rparr>"
| "apply_rectangular_attribute_action AttrChange InverseOff st = st\<lparr>st_inverse := False\<rparr>"
| "apply_rectangular_attribute_action AttrChange HiddenOn st = st\<lparr>st_hidden := True\<rparr>"
| "apply_rectangular_attribute_action AttrChange HiddenOff st = st\<lparr>st_hidden := False\<rparr>"
| "apply_rectangular_attribute_action AttrReverse ResetCore st =
     (toggle_underline (st\<lparr>st_bold := \<not> st_bold st\<rparr>))
       \<lparr>st_blink := \<not> st_blink st, st_inverse := \<not> st_inverse st\<rparr>"
| "apply_rectangular_attribute_action AttrReverse BoldOn st = st\<lparr>st_bold := \<not> st_bold st\<rparr>"
| "apply_rectangular_attribute_action AttrReverse UnderlineOn st = toggle_underline st"
| "apply_rectangular_attribute_action AttrReverse BlinkOn st = st\<lparr>st_blink := \<not> st_blink st\<rparr>"
| "apply_rectangular_attribute_action AttrReverse InverseOn st = st\<lparr>st_inverse := \<not> st_inverse st\<rparr>"
| "apply_rectangular_attribute_action AttrReverse HiddenOn st = st\<lparr>st_hidden := \<not> st_hidden st\<rparr>"
| "apply_rectangular_attribute_action AttrReverse BoldOff st = st"
| "apply_rectangular_attribute_action AttrReverse UnderlineOff st = st"
| "apply_rectangular_attribute_action AttrReverse BlinkOff st = st"
| "apply_rectangular_attribute_action AttrReverse InverseOff st = st"
| "apply_rectangular_attribute_action AttrReverse HiddenOff st = st"

definition apply_rectangular_attribute_actions ::
    "rectangular_attribute_mode \<Rightarrow> rectangular_attribute_action list \<Rightarrow> screen_text_style
     \<Rightarrow> screen_text_style" where
  "apply_rectangular_attribute_actions mode actions st =
     fold (apply_rectangular_attribute_action mode) actions st"

section \<open>Underline styles\<close>

definition parse_colon_sgr_underline_style :: "rstr \<Rightarrow> screen_underline_style option option" where
  "parse_colon_sgr_underline_style part =
     (let fs = split_on 58 part
      in if vec_get fs 0 \<noteq> Some (lit ''4'') \<or> 3 < length fs then None
         else case find (\<lambda>f. f \<noteq> []) (drop 1 fs) of
                None \<Rightarrow> None
              | Some style \<Rightarrow>
                  (case parse_u16 style of
                     None \<Rightarrow> None
                   | Some n \<Rightarrow>
                       Some (if n = 0 then None else if n = 1 then Some USingle
                             else if n = 2 then Some UDouble else if n = 3 then Some UCurly
                             else if n = 4 then Some UDotted else if n = 5 then Some UDashed
                             else Some USingle)))"

section \<open>Properties\<close>

text \<open>The two lower-case hexadecimal digits of a byte.\<close>

definition hex_char :: "nat \<Rightarrow> nat" where
  "hex_char d = (if d < 10 then 48 + d else 87 + d)"

definition hex_byte :: "u8 \<Rightarrow> rstr" where
  "hex_byte b = [hex_char (unat b div 16), hex_char (unat b mod 16)]"

lemma unat_u8_bound: "unat (x :: u8) < 256"
  using unsigned_less [of x, where ?'a = nat] by simp

lemma hex_char_digit:
  assumes "d < 16"
  shows "is_hexdigit (hex_char d)" and "hex_value (hex_char d) = d" and "hex_char d < 128"
  using assms by (auto simp: is_hexdigit_def is_digit_def hex_char_def hex_value_def)

lemma hex_byte_props:
  "list_all is_hexdigit (hex_byte b)" "str_len (hex_byte b) = 2" "length (hex_byte b) = 2"
  "digits_value 16 (hex_byte b) = unat b" "\<forall>c\<in>set (hex_byte b). c < 128"
proof -
  have "unat b div 16 < 16" using unat_u8_bound [of b] by simp
  then show "list_all is_hexdigit (hex_byte b)" "str_len (hex_byte b) = 2" "length (hex_byte b) = 2"
    "digits_value 16 (hex_byte b) = unat b" "\<forall>c\<in>set (hex_byte b). c < 128"
    by (simp_all add: hex_byte_def hex_char_digit str_len_def utf8_char_def digits_value_def)
qed

lemma parse_hex_byte: "parse_scaled_hex_color_component (hex_byte b) = Some b"
proof -
  have "unat b < 256" using unat_u8_bound [of b] by simp
  then have "min ((unat b * 255 + 127) div 255) 255 = unat b" by simp
  moreover have "hex_byte b \<noteq> []" by (simp add: hex_byte_def)
  ultimately show ?thesis
    by (simp add: parse_scaled_hex_color_component_def hex_byte_props Let_def)
qed

lemma terminal_hex_color_bytes:
  "terminal_hex_color_spec (hex_byte r @ hex_byte g @ hex_byte b) = Some (ColorRgb r g b)"
proof -
  have len: "str_len (hex_byte r @ hex_byte g @ hex_byte b) = 6"
    using hex_byte_props(2) by (simp add: str_len_def)
  have s: "slice 0 2 (hex_byte r @ hex_byte g @ hex_byte b) = hex_byte r"
    "slice 2 4 (hex_byte r @ hex_byte g @ hex_byte b) = hex_byte g"
    "slice 4 6 (hex_byte r @ hex_byte g @ hex_byte b) = hex_byte b"
    by (simp_all add: slice_def hex_byte_def)
  have ne: "hex_byte r @ hex_byte g @ hex_byte b \<noteq> []" by (simp add: hex_byte_def)
  show ?thesis
    unfolding terminal_hex_color_spec_def len using ne
    by (simp add: hex_byte_props s rgb_from_def parse_hex_byte)
qed

lemma parse_hex_char:
  assumes "d < 16"
  shows "parse_ascii_hex_digit (word_of_nat (hex_char d)) = Some (word_of_nat d)"
proof -
  have "d = 0 \<or> d = 1 \<or> d = 2 \<or> d = 3 \<or> d = 4 \<or> d = 5 \<or> d = 6 \<or> d = 7 \<or> d = 8 \<or> d = 9 \<or>
      d = 10 \<or> d = 11 \<or> d = 12 \<or> d = 13 \<or> d = 14 \<or> d = 15" using assms by arith
  then show ?thesis by (auto simp: parse_ascii_hex_digit_def hex_char_def)
qed

lemma parse_hex_char_byte: "parse_ascii_hex_byte (map word_of_nat (hex_byte c)) = Some c"
proof -
  have "(push_bit 4 (word_of_nat (unat c div 16)) OR word_of_nat (unat c mod 16) :: u8) = c"
  proof (rule bit_word_eqI)
    fix k assume k: "k < LENGTH(8)"
    have "unat c div 16 = drop_bit 4 (unat c)" "unat c mod 16 = take_bit 4 (unat c)"
      by (simp_all add: drop_bit_eq_div take_bit_eq_mod)
    moreover have "bit (unat c) k = bit c k" using k by (simp add: bit_unsigned_iff)
    ultimately show "bit (push_bit 4 (word_of_nat (unat c div 16)) OR word_of_nat (unat c mod 16) :: u8) k = bit c k"
      using k by (auto simp: bit_or_iff bit_push_bit_iff bit_of_nat_iff bit_drop_bit_eq bit_take_bit_iff)
  qed
  moreover have "unat c div 16 < 16" using unat_u8_bound [of c] by simp
  ultimately show ?thesis
    by (simp add: parse_ascii_hex_byte_def hex_byte_def parse_hex_char)
qed

text \<open>
  Hexadecimal colours round trip: \<open>#rrggbb\<close> printed from any colour parses back to it, with
  white space around it or not, and so does the palette control \<open>P<i>rrggbb\<close> for every of the
  sixteen colours.
\<close>
theorem hex_color_roundtrip:
  "parse_terminal_color_spec (35 # hex_byte r @ hex_byte g @ hex_byte b) = Some (ColorRgb r g b) \<and>
   parse_terminal_color_spec (32 # 35 # hex_byte r @ hex_byte g @ hex_byte b @ [10]) =
     Some (ColorRgb r g b) \<and>
   (i < 16 \<longrightarrow>
     parse_legacy_linux_console_palette_update
       (80 # word_of_nat (hex_char i) # map word_of_nat (hex_byte r @ hex_byte g @ hex_byte b)) =
     Some (word_of_nat i, ColorRgb r g b))"
proof (intro conjI impI)
  let ?hex = "hex_byte r @ hex_byte g @ hex_byte b"
  have nw: "\<not> is_whitespace c" if "c \<in> set ?hex" for c
  proof -
    have "list_all is_hexdigit ?hex" by (simp add: hex_byte_props)
    then have "is_hexdigit c" using that unfolding list_all_iff by blast
    then show ?thesis by (auto simp: is_hexdigit_def is_digit_def is_whitespace_def)
  qed
  have ne: "rev ?hex = hd (rev ?hex) # tl (rev ?hex)" "hd (rev ?hex) \<in> set ?hex"
    by (simp_all add: hex_byte_def)
  have te: "dropWhile is_whitespace (rev ?hex @ xs) = rev ?hex @ xs" for xs
    using nw [OF ne(2)] by (subst ne(1), subst (2) ne(1)) simp
  have t: "trim (35 # ?hex) = 35 # ?hex" "trim (32 # 35 # hex_byte r @ hex_byte g @ hex_byte b @ [10]) = 35 # ?hex"
    using te [of "[35]"] by (simp_all add: trim_def trim_end_def is_whitespace_def)
  have parse: "parse_terminal_color_spec s = Some (ColorRgb r g b)" if "trim s = 35 # ?hex" for s
    unfolding parse_terminal_color_spec_def that
    by (simp add: strip_prefix_def terminal_hex_color_bytes Let_def)
  show "parse_terminal_color_spec (35 # ?hex) = Some (ColorRgb r g b)"
    "parse_terminal_color_spec (32 # 35 # hex_byte r @ hex_byte g @ hex_byte b @ [10]) = Some (ColorRgb r g b)"
    using parse t by blast+
  assume i: "i < 16"
  have hexb: "list_all (\<lambda>b. is_hexdigit (unat b)) (map word_of_nat (hex_byte c) :: u8 list)" for c
    using hex_byte_props(1,5) [of c] by (simp add: hex_byte_def unat_byte)
  show "parse_legacy_linux_console_palette_update
       (80 # word_of_nat (hex_char i) # map word_of_nat ?hex) = Some (word_of_nat i, ColorRgb r g b)"
    using parse_hex_char [OF i] parse_hex_char_byte [of r] parse_hex_char_byte [of g]
      parse_hex_char_byte [of b] hexb [of r] hexb [of g] hexb [of b]
    by (simp add: parse_legacy_linux_console_palette_update_def parse_terminal_osc_p_palette_update_def
        parse_terminal_osc_p_palette_target_def strip_prefix_def ascii_def rgb_from_def hex_byte_def)
qed

lemma hex_color_roundtrip_witness:
  "parse_legacy_linux_console_palette_update
     (80 # word_of_nat (hex_char 9) # map word_of_nat (hex_byte 1 @ hex_byte 2 @ hex_byte 171)) =
   Some (9, ColorRgb 1 2 171)"
  using hex_color_roundtrip [of 1 2 171 9] by simp

text \<open>
  The parser of semicolon-separated SGR colours never consumes more fields than there are,
  and always consumes the mode and at least one component, so its caller's cursor moves on.
\<close>
theorem semicolon_color_consumes:
  assumes "parse_semicolon_sgr_color_fields parts = Some (color, consumed)"
  shows "2 \<le> consumed \<and> consumed \<le> length parts"
proof -
  have at: "i < length parts" if "sgr_u8_at parts i = Some c" for i c
    using that by (auto simp: sgr_u8_at_def vec_get_def split: if_splits)
  have off: "2 \<le> k \<and> k \<le> length parts"
    if "semicolon_color_component_offset parts (Suc n) = Some (o', k)" for n o' k
    using that by (auto simp: semicolon_color_component_offset_def Let_def split: if_splits)
  obtain mode where mode: "Option.bind (vec_get parts 0) parse_u16 = Some mode"
    using assms by (cases "Option.bind (vec_get parts 0) parse_u16")
      (simp_all add: parse_semicolon_sgr_color_fields_def)
  show ?thesis
  proof (cases "mode = 5")
    case True
    then show ?thesis
      using assms mode at [of 1] at [of 2]
      by (cases "vec_get parts 1 = Some []")
        (auto simp: parse_semicolon_sgr_color_fields_def Let_def)
  next
    case False
    then obtain n o' where "semicolon_color_component_offset parts (Suc n) = Some (o', consumed)"
      using assms mode
      by (auto simp: parse_semicolon_sgr_color_fields_def Let_def eval_nat_numeral
          split: if_splits option.splits prod.splits)
    then show ?thesis by (rule off)
  qed
qed

lemma semicolon_color_consumes_witness:
  "\<exists>color. parse_semicolon_sgr_color_fields [[50], [], [49], [50], [57, 57, 57]] =
     Some (color, 5) \<and> 2 \<le> (5 :: nat)"
proof -
  have run: "parse_semicolon_sgr_color_fields [[50], [], [49], [50], [57, 57, 57]] =
      Some (ColorRgb 1 2 255, 5)"
    by (simp add: parse_semicolon_sgr_color_fields_def vec_get_def parse_u16_def parse_uint_def
        is_digit_def digits_value_def hex_value_def semicolon_color_component_offset_def sgr_three_def
        sgr_u8_at_def parse_sgr_u8_def)
  show ?thesis using semicolon_color_consumes [OF run] run by blast
qed

definition rectangle_ok :: "terminal_rectangular_area \<Rightarrow> bool" where
  "rectangle_ok a \<longleftrightarrow>
     1 \<le> ar_top a \<and> ar_top a \<le> 32767 \<and> 1 \<le> ar_left a \<and> ar_left a \<le> 32767 \<and>
     (case ar_bottom a of Some b \<Rightarrow> ar_top a \<le> b \<and> b \<le> 32767 | None \<Rightarrow> True) \<and>
     (case ar_right a of Some r \<Rightarrow> ar_left a \<le> r \<and> r \<le> 32767 | None \<Rightarrow> True)"

lemma small_u16: "(word_of_nat (min n 32767) :: u16) \<le> 32767"
  by (simp add: word_le_nat_alt unat_of_nat take_bit_nat_eq_self_iff min_def)

lemma small_u16_max:
  "(x :: u16) \<le> 32767 \<Longrightarrow> max x 1 \<le> 32767" "1 \<le> max x (1 :: u16)"
  by simp_all

lemma area_from_parts_ok:
  assumes "area_from_parts parts i = Some a"
  shows "rectangle_ok a"
proof -
  have small: "v \<le> 32767" if "rect_u16_part part = Some v" for part v
    using that small_u16 by (auto simp: rect_u16_part_def)
  have small': "unwrap_or 1 (rect_u16_part part) \<le> 32767" for part
    using small by (cases "rect_u16_part part") (auto simp: unwrap_or_def)
  show ?thesis
    using assms small small'
    by (auto simp: area_from_parts_def rectangular_area_new_def Let_def rectangle_ok_def before_start_def
        not_less split: if_splits option.splits)
qed

text \<open>
  A rectangle that parses is a rectangle: it starts at row and column one or later, its
  limits are not before its start, and no coordinate exceeds 32767; this holds for areas, fill
  requests, the source of a copy and attribute requests.
\<close>
theorem rectangles_well_formed:
  assumes "(\<exists>payload. parse_terminal_rectangular_area payload = Some a) \<or>
    (\<exists>payload req. parse_terminal_rectangular_fill_request payload = Some req \<and> a = rf_area req) \<or>
    (\<exists>payload req. parse_terminal_rectangular_copy_request payload = Some req \<and> a = rc_source req) \<or>
    (\<exists>payload req. parse_terminal_rectangular_attribute_request payload = Some req \<and>
       a = \<lparr>ar_top = ra_top req, ar_left = ra_left req, ar_bottom = ra_bottom req,
            ar_right = ra_right req\<rparr>)"
  shows "rectangle_ok a"
  using assms
proof (elim disjE exE conjE)
  fix payload assume "parse_terminal_rectangular_area payload = Some a"
  then show ?thesis
    by (auto simp: parse_terminal_rectangular_area_def intro: area_from_parts_ok
        split: Option.bind_splits)
next
  fix payload req assume "parse_terminal_rectangular_fill_request payload = Some req" "a = rf_area req"
  then show ?thesis
    by (auto simp: parse_terminal_rectangular_fill_request_def intro: area_from_parts_ok
        split: option.splits)
next
  fix payload req assume "parse_terminal_rectangular_copy_request payload = Some req" "a = rc_source req"
  then show ?thesis
    by (auto simp: parse_terminal_rectangular_copy_request_def intro: area_from_parts_ok
        split: option.splits)
next
  fix payload req
  assume req: "parse_terminal_rectangular_attribute_request payload = Some req"
    and a: "a = \<lparr>ar_top = ra_top req, ar_left = ra_left req, ar_bottom = ra_bottom req,
                 ar_right = ra_right req\<rparr>"
  have small: "v \<le> 32767" if "sgr_u16_part part = Some v" for part v
    using that small_u16 by (auto simp: sgr_u16_part_def Let_def split: option.splits if_splits)
  have small': "unwrap_or 1 (sgr_u16_part part) \<le> 32767" for part
    using small by (cases "sgr_u16_part part") (auto simp: unwrap_or_def)
  show ?thesis
    using req small small'
    by (auto simp: parse_terminal_rectangular_attribute_request_def Let_def rectangle_ok_def
        before_start_def not_less a split: if_splits option.splits)
qed

lemma rectangles_well_formed_witness:
  "\<exists>a. parse_terminal_rectangular_area [50, 59, 51, 59, 52, 59, 53, 36] = Some a \<and> rectangle_ok a"
proof -
  have "utf8_items [50, 59, 51, 59, 52, 59, 53, 36] = map Some [50, 59, 51, 59, 52, 59, 53, 36]"
    using utf8_items_encode [of "[50, 59, 51, 59, 52, 59, 53, 36]" "[]"]
    by (simp add: is_scalar_def utf8_char_def)
  then obtain a where run: "parse_terminal_rectangular_area [50, 59, 51, 59, 52, 59, 53, 36] = Some a"
    by (simp add: parse_terminal_rectangular_area_def rectangular_payload_parts_def utf8_decode_def
        strip_suffix_def strip_prefix_def area_from_parts_def vec_get_def rect_u16_part_def
        parse_strict_u32_part_def trim_def trim_end_def is_whitespace_def is_digit_def parse_u32_def
        parse_uint_def digits_value_def hex_value_def unwrap_or_def rectangular_area_new_def
        before_start_def Let_def)
  show ?thesis using rectangles_well_formed [of a] run by blast
qed

text \<open>
  Reversing the attributes of a rectangle twice restores every style whose underline is
  none or single, for any actions; setting attributes is idempotent for every single action.
\<close>
theorem rectangle_attributes_reverse:
  assumes "st_underline st = None \<or> st_underline st = Some USingle"
  shows "apply_rectangular_attribute_actions AttrReverse [action]
           (apply_rectangular_attribute_actions AttrReverse [action] st) = st \<and>
         apply_rectangular_attribute_actions AttrChange [action]
           (apply_rectangular_attribute_actions AttrChange [action] st) =
         apply_rectangular_attribute_actions AttrChange [action] st"
  using assms
  by (cases action; cases st) (auto simp: apply_rectangular_attribute_actions_def toggle_underline_def)

lemma rectangle_attributes_reverse_witness:
  "apply_rectangular_attribute_actions AttrReverse [ResetCore]
     (apply_rectangular_attribute_actions AttrReverse [ResetCore] style_default) = style_default"
  using rectangle_attributes_reverse [of style_default ResetCore] by (simp add: style_default_def)

end
