(* ===== verification/Ansi_Payload.thy ===== *)
theory Ansi_Payload
  imports Ansi_Sgr
begin

text \<open>
  The payload parsers of \<open>ansi_screen.rs\<close> (crate \<open>terminal-projection\<close>): metadata text,
  OSC payloads (titles, working directories, hyperlinks, user variables, progress, palettes),
  shell integration marks, blocked side effects, and the SGR interpreter. The base64 decoder is
  a crate of its own: the parameter \<open>b64\<close>. A \<open>BTreeMap\<close> is a finite map.
\<close>

section \<open>Metadata text\<close>

definition is_control :: "nat \<Rightarrow> bool" where
  "is_control c \<longleftrightarrow> c < 32 \<or> (127 \<le> c \<and> c < 160)"

definition strip_matching_quotes :: "rstr \<Rightarrow> rstr" where
  "strip_matching_quotes v =
     (case v of
        [] \<Rightarrow> v
      | first # _ \<Rightarrow>
          if 2 \<le> str_len v \<and> ((first = 34 \<and> last v = 34) \<or> (first = 39 \<and> last v = 39))
          then butlast (tl v) else v)"

definition terminal_metadata_text :: "u8 list \<Rightarrow> rstr option" where
  "terminal_metadata_text v =
     (case utf8_decode v of
        None \<Rightarrow> None
      | Some s \<Rightarrow>
          let t = strip_matching_quotes (trim s) in
          if list_ex is_control t then None else Some t)"

definition terminal_metadata_string :: "u8 list \<Rightarrow> nat \<Rightarrow> rstr option" where
  "terminal_metadata_string v max_chars =
     (case terminal_metadata_text v of
        None \<Rightarrow> None | Some t \<Rightarrow> if t = [] then None else Some (take max_chars t))"

definition truncate_terminal_metadata_message :: "rstr \<Rightarrow> nat \<Rightarrow> rstr" where
  "truncate_terminal_metadata_message v max_chars =
     (if drop max_chars v \<noteq> [] then take max_chars v @ lit ''...'' else take max_chars v)"

definition all_digits :: "u8 list \<Rightarrow> bool" where
  "all_digits v \<longleftrightarrow> v \<noteq> [] \<and> list_all (\<lambda>b. is_digit (unat b)) v"

definition parse_digits :: "(rstr \<Rightarrow> nat option) \<Rightarrow> u8 list \<Rightarrow> nat option" where
  "parse_digits parse v = (if all_digits v then Option.bind (utf8_decode v) parse else None)"

definition terminal_u32_parameter :: "u8 list \<Rightarrow> u32 option" where
  "terminal_u32_parameter v = map_option word_of_nat (parse_digits parse_u32 v)"

definition terminal_bool_parameter :: "u8 list \<Rightarrow> bool option" where
  "terminal_bool_parameter v =
     (if v = ascii ''0'' then Some False else if v = ascii ''1'' then Some True else None)"

definition terminal_media_string :: "rstr \<Rightarrow> nat \<Rightarrow> rstr option" where
  "terminal_media_string v max_chars =
     (if v = [] \<or> list_ex is_control v then None else Some (take max_chars v))"

definition terminal_media_text_parameter :: "u8 list \<Rightarrow> nat \<Rightarrow> rstr option" where
  "terminal_media_text_parameter v max_chars =
     (case utf8_decode v of None \<Rightarrow> None | Some s \<Rightarrow> terminal_media_string (trim s) max_chars)"

definition max_inline_image_bytes :: nat where "max_inline_image_bytes = 384 * 1024"

definition estimated_base64_decoded_len_for_bytes :: "nat \<Rightarrow> nat" where
  "estimated_base64_decoded_len_for_bytes n = min (n * 3) (2 ^ 64 - 1) div 4"

definition estimated_base64_decoded_len :: "u8 list \<Rightarrow> nat" where
  "estimated_base64_decoded_len v = estimated_base64_decoded_len_for_bytes (length v)"

section \<open>Hyperlinks, titles, cursor shapes\<close>

definition parse_osc8_hyperlink :: "u8 list \<Rightarrow> rstr option option" where
  "parse_osc8_hyperlink payload =
     (case utf8_decode payload of
        None \<Rightarrow> None
      | Some s \<Rightarrow>
          (case split_once 59 s of
             None \<Rightarrow> None
           | Some (first, rest) \<Rightarrow>
               if first \<noteq> lit ''8'' then None
               else let uri = trim (case split_once 59 rest of None \<Rightarrow> [] | Some (_, u) \<Rightarrow> u) in
                    if uri = [] \<or> list_ex is_control uri then Some None
                    else Some (Some (take 2048 uri))))"

definition terminal_title_from_osc_payload :: "u8 list \<Rightarrow> rstr option" where
  "terminal_title_from_osc_payload payload =
     (case strip_prefix (ascii ''0;'') payload of
        Some t \<Rightarrow> terminal_metadata_string t 4096
      | None \<Rightarrow>
          (case strip_prefix (ascii ''1;'') payload of
             Some t \<Rightarrow> terminal_metadata_string t 4096
           | None \<Rightarrow>
               (case strip_prefix (ascii ''2;'') payload of
                  Some t \<Rightarrow> terminal_metadata_string t 4096
                | None \<Rightarrow> None)))"

definition terminal_cursor_shape_from_osc_payload :: "u8 list \<Rightarrow> screen_cursor_shape option" where
  "terminal_cursor_shape_from_osc_payload payload =
     (case strip_prefix (ascii ''1337;CursorShape='') payload of
        None \<Rightarrow> None
      | Some v \<Rightarrow>
          if v = ascii ''0'' then Some CursorBlock
          else if v = ascii ''1'' then Some CursorBeam
          else if v = ascii ''2'' then Some CursorUnderline
          else None)"

section \<open>Working directories\<close>

definition is_file_uri_path_byte :: "u8 \<Rightarrow> bool" where
  "is_file_uri_path_byte b \<longleftrightarrow>
     is_alphanumeric (unat b) \<or> b \<in> set (ascii ''/:-._~!$&'') \<or> b = 39 \<or> b \<in> set (ascii ''()*+,;=@'')"

definition hex_upper :: "nat \<Rightarrow> nat" where
  "hex_upper n = (if n < 10 then 48 + n else 55 + n)"

definition percent_encode_file_path :: "rstr \<Rightarrow> rstr" where
  "percent_encode_file_path path =
     concat (map (\<lambda>b. if is_file_uri_path_byte b then [unat b]
                      else [37, hex_upper (unat b div 16), hex_upper (unat b mod 16)])
                 (utf8_encode path))"

definition is_alphabetic :: "nat \<Rightarrow> bool" where
  "is_alphabetic c \<longleftrightarrow> (65 \<le> c \<and> c \<le> 90) \<or> (97 \<le> c \<and> c \<le> 122)"

definition is_windows_drive_path :: "rstr \<Rightarrow> bool" where
  "is_windows_drive_path path \<longleftrightarrow>
     (case utf8_encode path of
        b0 # b1 # b2 # _ \<Rightarrow> is_alphabetic (unat b0) \<and> b1 = 58 \<and> b2 = 47 | _ \<Rightarrow> False)"

definition terminal_working_directory_path_to_uri :: "rstr \<Rightarrow> rstr option" where
  "terminal_working_directory_path_to_uri path =
     (let normalized = map (\<lambda>c. if c = 92 then 47 else c) path in
      case strip_prefix (lit ''//'') normalized of
        Some rest \<Rightarrow>
          (case split_once 47 rest of
             None \<Rightarrow> None
           | Some (host, p) \<Rightarrow>
               if host = [] \<or> p = [] \<or> list_ex is_control host then None
               else Some (lit ''file://'' @ host @ lit ''/'' @ percent_encode_file_path p))
      | None \<Rightarrow>
          if is_windows_drive_path normalized
          then Some (lit ''file:///'' @ percent_encode_file_path normalized)
          else if take 1 normalized = lit ''/''
          then Some (lit ''file://localhost'' @ percent_encode_file_path normalized)
          else None)"

definition terminal_working_directory_uri :: "u8 list \<Rightarrow> rstr option option" where
  "terminal_working_directory_uri v =
     (case terminal_metadata_text v of
        None \<Rightarrow> None
      | Some dir \<Rightarrow>
          if dir = [] then Some None
          else if strip_prefix (lit ''file://'') dir \<noteq> None then Some (Some dir)
          else map_option Some (terminal_working_directory_path_to_uri dir))"

definition terminal_vscode_working_directory :: "u8 list \<Rightarrow> u8 list option" where
  "terminal_vscode_working_directory payload =
     (case strip_prefix (ascii ''633;P;'') payload of
        None \<Rightarrow> None
      | Some body \<Rightarrow> find_map (strip_prefix (ascii ''Cwd='')) (split_on 59 body))"

definition terminal_working_directory_uri_from_osc_payload :: "u8 list \<Rightarrow> rstr option option" where
  "terminal_working_directory_uri_from_osc_payload payload =
     (case strip_prefix (ascii ''7;'') payload of
        Some dir \<Rightarrow> terminal_working_directory_uri dir
      | None \<Rightarrow>
     (case strip_prefix (ascii ''9;9;'') payload of
        Some dir \<Rightarrow> terminal_working_directory_uri dir
      | None \<Rightarrow>
     (case terminal_vscode_working_directory payload of
        Some dir \<Rightarrow> terminal_working_directory_uri dir
      | None \<Rightarrow>
     (case strip_prefix (ascii ''1337;CurrentDir='') payload of
        Some dir \<Rightarrow> terminal_working_directory_uri dir
      | None \<Rightarrow> None))))"

section \<open>User variables and progress\<close>

definition terminal_user_variable_key :: "u8 list \<Rightarrow> rstr option" where
  "terminal_user_variable_key v =
     (case utf8_decode v of
        None \<Rightarrow> None
      | Some s \<Rightarrow>
          let key = trim s in
          if key = [] \<or> 96 < str_len key then None
          else if list_all (\<lambda>c. is_alphanumeric c \<or> c = 95 \<or> c = 45 \<or> c = 46) key
          then Some key else None)"

definition terminal_user_variable_from_osc ::
    "(u8 list \<Rightarrow> u8 list option) \<Rightarrow> u8 list \<Rightarrow> (rstr \<times> rstr) option" where
  "terminal_user_variable_from_osc b64 payload =
     (case Option.bind (strip_prefix (ascii ''1337;SetUserVar='') payload) (split_once 61) of
        None \<Rightarrow> None
      | Some (raw_key, encoded_value) \<Rightarrow>
     (case terminal_user_variable_key raw_key of
        None \<Rightarrow> None
      | Some key \<Rightarrow>
          if 4096 < estimated_base64_decoded_len encoded_value then None
          else (case Option.bind (b64 encoded_value) utf8_decode of
                  None \<Rightarrow> None
                | Some v \<Rightarrow> if list_ex is_control v then None else Some (key, take 4096 v))))"

definition parse_terminal_progress_state :: "u8 list \<Rightarrow> screen_progress_state option" where
  "parse_terminal_progress_state v =
     (if v = ascii ''0'' then Some ProgressInactive
      else if v = ascii ''1'' then Some ProgressNormal
      else if v = ascii ''2'' then Some ProgressError
      else if v = ascii ''3'' then Some ProgressIndeterminate
      else if v = ascii ''4'' then Some ProgressWarning
      else None)"

definition parse_terminal_progress_value :: "u8 list \<Rightarrow> u8 option" where
  "parse_terminal_progress_value v =
     map_option (\<lambda>n. word_of_nat (min n 100)) (parse_digits parse_u16 v)"

definition terminal_progress_from_osc :: "u8 list \<Rightarrow> screen_progress option" where
  "terminal_progress_from_osc payload =
     (if payload = ascii ''9;4'' then Some progress_default
      else case strip_prefix (ascii ''9;4;'') payload of
             None \<Rightarrow> None
           | Some body \<Rightarrow>
               let parts = split_on 59 body in
               (case parse_terminal_progress_state (hd parts) of
                  None \<Rightarrow> None
                | Some state \<Rightarrow>
                    Some \<lparr>pg_state = state,
                          pg_value = (if state \<in> {ProgressInactive, ProgressIndeterminate} then None
                                      else Option.bind (vec_get parts 1) parse_terminal_progress_value)\<rparr>))"

section \<open>Shell integration and blocked side effects\<close>

definition terminal_shell_integration_exit_code :: "u8 list \<Rightarrow> u8 option" where
  "terminal_shell_integration_exit_code params =
     (case strip_prefix (ascii '';'') params of
        None \<Rightarrow> None
      | Some rest \<Rightarrow> map_option word_of_nat (parse_digits parse_u8 (hd (split_on 59 rest))))"

definition terminal_shell_integration_mark :: "u8 list \<Rightarrow> screen_line_semantic_mark option" where
  "terminal_shell_integration_mark payload =
     (case (case strip_prefix (ascii ''133;'') payload of
              Some body \<Rightarrow> Some body | None \<Rightarrow> strip_prefix (ascii ''633;'') payload) of
        Some (command # params) \<Rightarrow>
          (case (if command = 65 then Some PromptStart
                 else if command = 66 then Some InputStart
                 else if command = 67 then Some OutputStart
                 else if command = 68 then Some CommandFinished
                 else None) of
             None \<Rightarrow> None
           | Some kind \<Rightarrow>
               Some \<lparr>sm_kind = kind, sm_col = 0,
                     sm_exit_code = (if kind = CommandFinished
                                     then terminal_shell_integration_exit_code params else None)\<rparr>)
      | _ \<Rightarrow> None)"

definition screen_line_clipboard_target :: "u8 \<Rightarrow> screen_line_side_effect_target option" where
  "screen_line_clipboard_target clipboard =
     (if clipboard = 99 then Some ClipboardTarget
      else if clipboard = 112 \<or> clipboard = 115 then Some SelectionTarget
      else Some UnknownTarget)"

definition terminal_clipboard_side_effect_from_osc :: "u8 list \<Rightarrow> screen_line_side_effect option" where
  "terminal_clipboard_side_effect_from_osc payload =
     (case strip_prefix (ascii ''52;'') payload of
        None \<Rightarrow> None
      | Some body \<Rightarrow>
          let (clipboard, data) = (case split_once 59 body of Some p \<Rightarrow> p | None \<Rightarrow> (body, []));
              c = (case clipboard of [] \<Rightarrow> 99 | b # _ \<Rightarrow> b)
          in Some \<lparr>se_kind = (if data = ascii ''?'' then ClipboardRead else ClipboardWrite),
                   se_disposition = Blocked, se_target = screen_line_clipboard_target c,
                   se_message = None\<rparr>)"

definition terminal_notification_side_effect_from_osc ::
    "u8 list \<Rightarrow> screen_line_side_effect option" where
  "terminal_notification_side_effect_from_osc payload =
     (case strip_prefix (ascii ''9;'') payload of
        None \<Rightarrow> None
      | Some message \<Rightarrow>
          if message = ascii ''4'' \<or> strip_prefix (ascii ''4;'') message \<noteq> None then None
          else (case terminal_metadata_text message of
                  None \<Rightarrow> None
                | Some t \<Rightarrow>
                    if t = [] then None
                    else Some \<lparr>se_kind = DesktopNotificationEffect, se_disposition = Blocked,
                               se_target = Some DesktopNotificationTarget,
                               se_message = Some (truncate_terminal_metadata_message t 160)\<rparr>))"

definition terminal_side_effect_from_osc_payload :: "u8 list \<Rightarrow> screen_line_side_effect option" where
  "terminal_side_effect_from_osc_payload payload =
     (case terminal_clipboard_side_effect_from_osc payload of
        Some e \<Rightarrow> Some e | None \<Rightarrow> terminal_notification_side_effect_from_osc payload)"

section \<open>Palettes\<close>

text \<open>
  OSC 4, 104, 10 to 12, 110 to 112, the palette controls of kitty, iTerm2 and the Linux console.
  The default foreground, background and cursor colours are the \<open>surface palette\<close>; the
  indexed colours are the \<open>dynamic palette\<close>, a map from the index.
\<close>

type_synonym dynamic_palette = "(u8, screen_color) fmap"

definition terminal_color_number :: "u8 list \<Rightarrow> nat option" where
  "terminal_color_number v = parse_digits parse_usize v"

definition terminal_palette_index :: "u8 list \<Rightarrow> u8 option" where
  "terminal_palette_index v =
     (case terminal_color_number v of
        None \<Rightarrow> None | Some n \<Rightarrow> if n \<le> 255 then Some (word_of_nat n) else None)"

definition terminal_osc4_palette_index :: "u8 list \<Rightarrow> nat option" where
  "terminal_osc4_palette_index v =
     (if v = ascii ''-1'' then Some 256 else if v = ascii ''-2'' then Some 257
      else terminal_color_number v)"

definition terminal_surface_palette_osc4_default_slot :: "u8 list \<Rightarrow> nat option" where
  "terminal_surface_palette_osc4_default_slot v =
     (case terminal_osc4_palette_index v of
        None \<Rightarrow> None | Some i \<Rightarrow> if 256 \<le> i \<and> i \<le> 258 then Some i else None)"

definition terminal_surface_color_spec :: "u8 list \<Rightarrow> screen_color option" where
  "terminal_surface_color_spec spec =
     Option.bind (terminal_metadata_text spec) parse_terminal_color_spec"

fun apply_surface_palette_target ::
    "terminal_palette_target \<Rightarrow> screen_color \<Rightarrow> screen_surface_palette \<Rightarrow> screen_surface_palette" where
  "apply_surface_palette_target PalForeground color p = p\<lparr>pl_foreground := Some color\<rparr>"
| "apply_surface_palette_target PalBackground color p = p\<lparr>pl_background := Some color\<rparr>"
| "apply_surface_palette_target PalCursor color p = p\<lparr>pl_cursor := Some color\<rparr>"
| "apply_surface_palette_target (PalAnsi i) color p = p"

fun reset_surface_palette_target ::
    "terminal_palette_target \<Rightarrow> screen_surface_palette \<Rightarrow> screen_surface_palette" where
  "reset_surface_palette_target PalForeground p = p\<lparr>pl_foreground := None\<rparr>"
| "reset_surface_palette_target PalBackground p = p\<lparr>pl_background := None\<rparr>"
| "reset_surface_palette_target PalCursor p = p\<lparr>pl_cursor := None\<rparr>"
| "reset_surface_palette_target (PalAnsi i) p = p"

fun surface_palette_kitty ::
    "terminal_kitty_color_control_operation \<Rightarrow> screen_surface_palette \<Rightarrow> screen_surface_palette" where
  "surface_palette_kitty (KcUpdate target color) p = apply_surface_palette_target target color p"
| "surface_palette_kitty (KcReset target) p = reset_surface_palette_target target p"
| "surface_palette_kitty (KcQueryKnown key target) p = p"
| "surface_palette_kitty (KcQueryUnknown key) p = p"

text \<open>\<open>chunks_exact(2)\<close>: pairs, without a last odd element.\<close>

fun pairs_exact :: "'a list \<Rightarrow> ('a \<times> 'a) list" where
  "pairs_exact (x # y # rest) = (x, y) # pairs_exact rest"
| "pairs_exact rest = []"

definition osc4_extended_slot :: "nat \<Rightarrow> screen_color option \<Rightarrow> screen_surface_palette \<Rightarrow> screen_surface_palette"
  where
  "osc4_extended_slot slot color p =
     (if slot = 256 then p\<lparr>pl_foreground := color\<rparr>
      else if slot = 257 then p\<lparr>pl_background := color\<rparr>
      else if slot = 258 then p\<lparr>pl_cursor := color\<rparr>
      else p)"

definition apply_surface_palette_osc4_extended_slots ::
    "u8 list list \<Rightarrow> screen_surface_palette \<Rightarrow> screen_surface_palette" where
  "apply_surface_palette_osc4_extended_slots fs p =
     fold (\<lambda>(a, b) p.
        (case (terminal_surface_palette_osc4_default_slot a, terminal_surface_color_spec b) of
           (Some slot, Some color) \<Rightarrow> osc4_extended_slot slot (Some color) p | _ \<Rightarrow> p))
       (pairs_exact fs) p"

definition reset_surface_palette_osc4_extended_slots ::
    "u8 list list \<Rightarrow> screen_surface_palette \<Rightarrow> screen_surface_palette" where
  "reset_surface_palette_osc4_extended_slots fs p =
     fold (\<lambda>f p. (case terminal_surface_palette_osc4_default_slot f of
             Some slot \<Rightarrow> osc4_extended_slot slot None p | None \<Rightarrow> p)) fs p"

text \<open>
  The fields after OSC 10, 11 or 12: the target moves on by one with every colour, and a field
  that names a target with another field behind it sets the target.
\<close>

function surface_palette_fields ::
    "terminal_palette_target \<Rightarrow> u8 list list \<Rightarrow> screen_surface_palette \<Rightarrow> screen_surface_palette" where
  "surface_palette_fields target [] p = p"
| "surface_palette_fields target (f # fs) p =
     (case (if fs = [] then None else terminal_default_palette_target_from_osc_code f) of
        Some explicit \<Rightarrow>
          (let p1 = (case terminal_surface_color_spec (hd fs) of
                       Some color \<Rightarrow> apply_surface_palette_target explicit color p | None \<Rightarrow> p)
           in case next_terminal_default_palette_target explicit of
                None \<Rightarrow> p1 | Some t \<Rightarrow> surface_palette_fields t (tl fs) p1)
      | None \<Rightarrow>
          (let p1 = (case terminal_surface_color_spec f of
                       Some color \<Rightarrow> apply_surface_palette_target target color p | None \<Rightarrow> p)
           in case next_terminal_default_palette_target target of
                None \<Rightarrow> p1 | Some t \<Rightarrow> surface_palette_fields t fs p1))"
  by pat_completeness auto
termination
  by (relation "measure (\<lambda>(t, fs, p). length fs)") auto

definition apply_surface_palette_osc :: "u8 list \<Rightarrow> screen_surface_palette \<Rightarrow> screen_surface_palette" where
  "apply_surface_palette_osc payload p =
     (case parse_terminal_kitty_color_control payload of
        Some ops \<Rightarrow> fold surface_palette_kitty ops p
      | None \<Rightarrow>
     (case parse_iterm2_set_colors_update payload of
        Some (target, color) \<Rightarrow> apply_surface_palette_target target color p
      | None \<Rightarrow>
     (case parse_terminal_osc_p_palette_update payload of
        Some (target, color) \<Rightarrow> apply_surface_palette_target target color p
      | None \<Rightarrow>
          (let fs = split_on 59 payload; command = hd fs in
           if command = ascii ''110'' then p\<lparr>pl_foreground := None\<rparr>
           else if command = ascii ''111'' then p\<lparr>pl_background := None\<rparr>
           else if command = ascii ''112'' then p\<lparr>pl_cursor := None\<rparr>
           else if command = ascii ''4'' then apply_surface_palette_osc4_extended_slots (tl fs) p
           else if command = ascii ''104'' then
             (if length fs = 1 then palette_default
              else reset_surface_palette_osc4_extended_slots (tl fs) p)
           else case terminal_default_palette_target_from_osc_code command of
                  None \<Rightarrow> p
                | Some target \<Rightarrow> surface_palette_fields target (tl fs) p))))"

fun dynamic_palette_kitty ::
    "terminal_kitty_color_control_operation \<Rightarrow> dynamic_palette \<Rightarrow> dynamic_palette" where
  "dynamic_palette_kitty (KcUpdate (PalAnsi i) color) dp = fmupd i color dp"
| "dynamic_palette_kitty (KcReset (PalAnsi i)) dp = fmdrop i dp"
| "dynamic_palette_kitty op dp = dp"

definition dynamic_palette_fields :: "u8 list list \<Rightarrow> dynamic_palette \<Rightarrow> dynamic_palette" where
  "dynamic_palette_fields fs dp =
     (if hd fs = ascii ''4'' then
        fold (\<lambda>(a, b) dp. (case (terminal_palette_index a, terminal_surface_color_spec b) of
                (Some i, Some color) \<Rightarrow> fmupd i color dp | _ \<Rightarrow> dp)) (pairs_exact (tl fs)) dp
      else if hd fs = ascii ''104'' then
        (if length fs = 1 then fmempty
         else fold (\<lambda>f dp. (case terminal_palette_index f of Some i \<Rightarrow> fmdrop i dp | None \<Rightarrow> dp)) (tl fs) dp)
      else dp)"

definition apply_dynamic_palette_osc :: "u8 list \<Rightarrow> dynamic_palette \<Rightarrow> dynamic_palette" where
  "apply_dynamic_palette_osc payload dp =
     (case parse_terminal_kitty_color_control payload of
        Some ops \<Rightarrow> fold dynamic_palette_kitty ops dp
      | None \<Rightarrow>
     (case parse_iterm2_set_colors_update payload of
        Some (PalAnsi i, color) \<Rightarrow> fmupd i color dp
      | _ \<Rightarrow>
     (case parse_legacy_linux_console_palette_update payload of
        Some (i, color) \<Rightarrow> fmupd i color dp
      | None \<Rightarrow>
          if is_legacy_linux_console_palette_reset payload
          then fold fmdrop [0, 1, 2, 3, 4, 5, 6, 7, 8, 9, 10, 11, 12, 13, 14, 15] dp
          else dynamic_palette_fields (split_on 59 payload) dp)))"

section \<open>Select graphic rendition\<close>

definition ansi_color_names :: "rstr list" where
  "ansi_color_names =
     map lit [''black'', ''red'', ''green'', ''yellow'', ''blue'', ''magenta'', ''cyan'', ''white'',
       ''bright_black'', ''bright_red'', ''bright_green'', ''bright_yellow'', ''bright_blue'',
       ''bright_magenta'', ''bright_cyan'', ''bright_white'']"

definition sgr_named_color_index :: "rstr \<Rightarrow> u8 option" where
  "sgr_named_color_index n = map_option word_of_nat (position (\<lambda>m. m = n) ansi_color_names)"

definition named_sgr_color :: "nat \<Rightarrow> dynamic_palette \<Rightarrow> screen_color option" where
  "named_sgr_color i dp =
     (if 255 < i then None
      else case fmlookup dp (word_of_nat i) of
             Some color \<Rightarrow> Some color
           | None \<Rightarrow> map_option ColorNamed (vec_get ansi_color_names i))"

fun resolve_dynamic_palette_color :: "dynamic_palette \<Rightarrow> screen_color \<Rightarrow> screen_color" where
  "resolve_dynamic_palette_color dp (ColorIndexed i) =
     (case fmlookup dp i of Some color \<Rightarrow> color | None \<Rightarrow> ColorIndexed i)"
| "resolve_dynamic_palette_color dp (ColorNamed n) =
     (case sgr_named_color_index n of
        None \<Rightarrow> ColorNamed n
      | Some i \<Rightarrow> (case fmlookup dp i of Some color \<Rightarrow> color | None \<Rightarrow> ColorNamed n))"
| "resolve_dynamic_palette_color dp (ColorRgb r g b) = ColorRgb r g b"

definition reset_sgr_preserving_hyperlink :: "screen_text_style \<Rightarrow> screen_text_style" where
  "reset_sgr_preserving_hyperlink st = style_default\<lparr>st_hyperlink := st_hyperlink st\<rparr>"

definition restore_sgr_stack_attributes ::
    "screen_text_style \<Rightarrow> ansi_sgr_stack_attributes \<Rightarrow> screen_text_style \<Rightarrow> screen_text_style" where
  "restore_sgr_stack_attributes saved a t0 =
     (let t1 = (if sa_foreground a then t0\<lparr>st_foreground := st_foreground saved\<rparr> else t0);
          t2 = (if sa_background a then t1\<lparr>st_background := st_background saved\<rparr> else t1);
          t3 = (if sa_bold a then t2\<lparr>st_bold := st_bold saved\<rparr> else t2);
          t4 = (if sa_dim a then t3\<lparr>st_dim := st_dim saved\<rparr> else t3);
          t5 = (if sa_italic a then t4\<lparr>st_italic := st_italic saved\<rparr> else t4);
          t6 = (if sa_underline a then t5\<lparr>st_underline := st_underline saved,
                                        st_underline_color := st_underline_color saved\<rparr> else t5);
          t7 = (if sa_blink a then t6\<lparr>st_blink := st_blink saved\<rparr> else t6);
          t8 = (if sa_inverse a then t7\<lparr>st_inverse := st_inverse saved\<rparr> else t7);
          t9 = (if sa_hidden a then t8\<lparr>st_hidden := st_hidden saved\<rparr> else t8);
          t10 = (if sa_strikethrough a then t9\<lparr>st_strikethrough := st_strikethrough saved\<rparr> else t9);
          t11 = (if sa_overline a then t10\<lparr>st_overline := st_overline saved\<rparr> else t10);
          t12 = (if sa_border a then t11\<lparr>st_border := st_border saved\<rparr> else t11)
      in if sa_baseline a then t12\<lparr>st_baseline := st_baseline saved\<rparr> else t12)"

text \<open>\<open>None\<close> where the source returns \<open>false\<close>: the part is not a colon form it knows.\<close>

definition apply_colon_sgr :: "dynamic_palette \<Rightarrow> rstr \<Rightarrow> screen_text_style \<Rightarrow> screen_text_style option" where
  "apply_colon_sgr dp part st =
     (let fs = split_on 58 part in
      case parse_u16 (hd fs) of
        None \<Rightarrow> None
      | Some code \<Rightarrow>
          if code = 4 \<and> (length fs = 2 \<or> (length fs = 3 \<and> fs ! 1 = [])) then
            map_option (\<lambda>u. st\<lparr>st_underline := u\<rparr>) (parse_colon_sgr_underline_style part)
          else if code = 38 \<or> code = 48 \<or> code = 58 then
            (case parse_colon_sgr_color_fields (tl fs) of
               None \<Rightarrow> None
             | Some color \<Rightarrow>
                 let c = Some (resolve_dynamic_palette_color dp color) in
                 Some (if code = 38 then st\<lparr>st_foreground := c\<rparr>
                       else if code = 48 then st\<lparr>st_background := c\<rparr>
                       else st\<lparr>st_underline_color := c\<rparr>))
          else None)"

text \<open>One numeric code, with the fields behind it: the new style and the fields it consumed.\<close>

definition sgr_extended ::
    "dynamic_palette \<Rightarrow> rstr list \<Rightarrow> (screen_color option \<Rightarrow> screen_text_style) \<Rightarrow> screen_text_style
     \<Rightarrow> screen_text_style \<times> nat" where
  "sgr_extended dp rest upd st =
     (case parse_semicolon_sgr_color_fields rest of
        Some (color, consumed) \<Rightarrow> (upd (Some (resolve_dynamic_palette_color dp color)), consumed)
      | None \<Rightarrow> (st, 0))"

definition apply_sgr_flag :: "nat \<Rightarrow> screen_text_style \<Rightarrow> screen_text_style" where
  "apply_sgr_flag n st =
     (if n = 0 then reset_sgr_preserving_hyperlink st
      else if n = 1 then st\<lparr>st_bold := True\<rparr>
      else if n = 2 then st\<lparr>st_dim := True\<rparr>
      else if n = 3 then st\<lparr>st_italic := True\<rparr>
      else if n = 4 then st\<lparr>st_underline := Some USingle\<rparr>
      else if n = 5 \<or> n = 6 then st\<lparr>st_blink := True\<rparr>
      else if n = 7 then st\<lparr>st_inverse := True\<rparr>
      else if n = 8 then st\<lparr>st_hidden := True\<rparr>
      else if n = 9 then st\<lparr>st_strikethrough := True\<rparr>
      else if n = 21 then st\<lparr>st_underline := Some UDouble\<rparr>
      else if n = 22 then st\<lparr>st_bold := False, st_dim := False\<rparr>
      else if n = 23 then st\<lparr>st_italic := False\<rparr>
      else if n = 24 then st\<lparr>st_underline := None\<rparr>
      else if n = 25 then st\<lparr>st_blink := False\<rparr>
      else if n = 27 then st\<lparr>st_inverse := False\<rparr>
      else if n = 28 then st\<lparr>st_hidden := False\<rparr>
      else if n = 29 then st\<lparr>st_strikethrough := False\<rparr>
      else if n = 39 then st\<lparr>st_foreground := None\<rparr>
      else if n = 49 then st\<lparr>st_background := None\<rparr>
      else if n = 51 then st\<lparr>st_border := Some Framed\<rparr>
      else if n = 52 then st\<lparr>st_border := Some Encircled\<rparr>
      else if n = 53 then st\<lparr>st_overline := True\<rparr>
      else if n = 54 then st\<lparr>st_border := None\<rparr>
      else if n = 55 then st\<lparr>st_overline := False\<rparr>
      else if n = 59 then st\<lparr>st_underline_color := None\<rparr>
      else if n = 73 then st\<lparr>st_baseline := Some Superscript\<rparr>
      else if n = 74 then st\<lparr>st_baseline := Some Subscript\<rparr>
      else if n = 75 then st\<lparr>st_baseline := None\<rparr>
      else st)"

definition apply_sgr_code ::
    "dynamic_palette \<Rightarrow> nat option \<Rightarrow> rstr list \<Rightarrow> screen_text_style \<Rightarrow> screen_text_style \<times> nat" where
  "apply_sgr_code dp code rest st =
     (case code of
        None \<Rightarrow> (st, 0)
      | Some n \<Rightarrow>
          if 30 \<le> n \<and> n \<le> 37 then (st\<lparr>st_foreground := named_sgr_color (n - 30) dp\<rparr>, 0)
          else if 40 \<le> n \<and> n \<le> 47 then (st\<lparr>st_background := named_sgr_color (n - 40) dp\<rparr>, 0)
          else if 90 \<le> n \<and> n \<le> 97 then (st\<lparr>st_foreground := named_sgr_color (n - 90 + 8) dp\<rparr>, 0)
          else if 100 \<le> n \<and> n \<le> 107 then (st\<lparr>st_background := named_sgr_color (n - 100 + 8) dp\<rparr>, 0)
          else if n = 58 then sgr_extended dp rest (\<lambda>c. st\<lparr>st_underline_color := c\<rparr>) st
          else if n = 38 then sgr_extended dp rest (\<lambda>c. st\<lparr>st_foreground := c\<rparr>) st
          else if n = 48 then sgr_extended dp rest (\<lambda>c. st\<lparr>st_background := c\<rparr>) st
          else (apply_sgr_flag n st, 0))"

function apply_sgr_parts :: "dynamic_palette \<Rightarrow> rstr list \<Rightarrow> screen_text_style \<Rightarrow> screen_text_style" where
  "apply_sgr_parts dp [] st = st"
| "apply_sgr_parts dp (part # rest) st =
     (if part = [] then apply_sgr_parts dp rest (reset_sgr_preserving_hyperlink st)
      else case apply_colon_sgr dp part st of
             Some st1 \<Rightarrow> apply_sgr_parts dp rest st1
           | None \<Rightarrow>
               (case apply_sgr_code dp (parse_u16 (hd (split_on 58 part))) rest st of
                  (st1, consumed) \<Rightarrow> apply_sgr_parts dp (drop consumed rest) st1))"
  by pat_completeness auto
termination
  by (relation "measure (\<lambda>(dp, parts, st). length parts)") auto

definition apply_sgr_payload :: "u8 list \<Rightarrow> dynamic_palette \<Rightarrow> screen_text_style \<Rightarrow> screen_text_style" where
  "apply_sgr_payload payload dp st =
     (case utf8_decode payload of
        None \<Rightarrow> st
      | Some s \<Rightarrow>
          if s = [] then reset_sgr_preserving_hyperlink st
          else apply_sgr_parts dp (split_on 59 s) st)"

end
