(* ===== verification/Ansi_Media.thy ===== *)
theory Ansi_Media
  imports Ansi_Payload
begin

text \<open>
  Images in control strings (\<open>ansi_screen.rs\<close>, crate \<open>terminal-projection\<close>): iTerm2 files in
  OSC 1337, whole or in parts, kitty graphics in APC with chunked transmission, and sixel images
  in DCS. \<open>b64\<close> is the base64 decoder.
\<close>

definition terminal_image_mime_type :: "u8 list \<Rightarrow> rstr option" where
  "terminal_image_mime_type bs =
     (if strip_prefix [137, 80, 78, 71, 13, 10, 26, 10] bs \<noteq> None then Some (lit ''image/png'')
      else if strip_prefix [255, 216, 255] bs \<noteq> None then Some (lit ''image/jpeg'')
      else if strip_prefix (ascii ''GIF87a'') bs \<noteq> None \<or> strip_prefix (ascii ''GIF89a'') bs \<noteq> None
      then Some (lit ''image/gif'')
      else if 12 \<le> length bs \<and> strip_prefix (ascii ''RIFF'') bs \<noteq> None \<and>
              take 4 (drop 8 bs) = ascii ''WEBP''
      then Some (lit ''image/webp'')
      else None)"

definition is_base64_char :: "nat \<Rightarrow> bool" where
  "is_base64_char c \<longleftrightarrow> is_alphanumeric c \<or> c = 43 \<or> c = 47 \<or> c = 61"

definition terminal_inline_image_payload ::
    "(u8 list \<Rightarrow> u8 list option) \<Rightarrow> u8 list \<Rightarrow> (rstr \<times> rstr) option" where
  "terminal_inline_image_payload b64 v =
     (case utf8_decode v of
        None \<Rightarrow> None
      | Some s \<Rightarrow>
          let data = trim s in
          if \<not> list_all is_base64_char data then None
          else map_option (\<lambda>mime. (mime, data))
                 (Option.bind (b64 (utf8_encode data)) terminal_image_mime_type))"

section \<open>iTerm2 files\<close>

definition terminal_iterm2_file_name :: "(u8 list \<Rightarrow> u8 list option) \<Rightarrow> u8 list \<Rightarrow> rstr option" where
  "terminal_iterm2_file_name b64 v =
     (if 512 < estimated_base64_decoded_len v then None
      else case Option.bind (b64 v) utf8_decode of
             None \<Rightarrow> None | Some name \<Rightarrow> terminal_media_string (trim name) 120)"

definition iterm2_argument ::
    "(u8 list \<Rightarrow> u8 list option) \<Rightarrow> u8 list \<Rightarrow> screen_line_media \<Rightarrow> screen_line_media" where
  "iterm2_argument b64 argument media =
     (case split_once 61 argument of
        None \<Rightarrow> media
      | Some (key, v) \<Rightarrow>
          if key = ascii ''name'' then media\<lparr>md_name := terminal_iterm2_file_name b64 v\<rparr>
          else if key = ascii ''size'' then media\<lparr>md_byte_size := terminal_u32_parameter v\<rparr>
          else if key = ascii ''width'' then media\<lparr>md_width := terminal_media_text_parameter v 40\<rparr>
          else if key = ascii ''height'' then media\<lparr>md_height := terminal_media_text_parameter v 40\<rparr>
          else if key = ascii ''preserveAspectRatio''
          then media\<lparr>md_preserve_aspect_ratio := terminal_bool_parameter v\<rparr>
          else if key = ascii ''inline'' then media\<lparr>md_inline := (v = ascii ''1'')\<rparr>
          else media)"

definition terminal_iterm2_file_media ::
    "(u8 list \<Rightarrow> u8 list option) \<Rightarrow> u8 list \<Rightarrow> bool \<Rightarrow> screen_line_media" where
  "terminal_iterm2_file_media b64 payload truncated =
     (let (arguments, data) = (case split_once 58 payload of Some p \<Rightarrow> p | None \<Rightarrow> (payload, []));
          media = fold (iterm2_argument b64) (split_on 59 arguments)
                    ((media_marker Iterm2Image)\<lparr>md_truncated := truncated\<rparr>)
      in if md_inline media \<and> \<not> truncated \<and> data \<noteq> [] \<and>
            estimated_base64_decoded_len data \<le> max_inline_image_bytes
         then (case terminal_inline_image_payload b64 data of
                 None \<Rightarrow> media
               | Some (mime, text) \<Rightarrow> media\<lparr>md_mime_type := Some mime, md_data_base64 := Some text\<rparr>)
         else media)"

definition terminal_media_from_osc_payload ::
    "(u8 list \<Rightarrow> u8 list option) \<Rightarrow> u8 list \<Rightarrow> bool \<Rightarrow> screen_line_media option" where
  "terminal_media_from_osc_payload b64 payload truncated =
     map_option (\<lambda>p. terminal_iterm2_file_media b64 p truncated)
       (strip_prefix (ascii ''1337;File='') payload)"

record terminal_iterm2_multipart_file =
  mp_arguments :: "u8 list"
  mp_data :: "u8 list"
  mp_truncated :: bool

definition multipart_new :: "u8 list \<Rightarrow> bool \<Rightarrow> terminal_iterm2_multipart_file" where
  "multipart_new arguments truncated =
     \<lparr>mp_arguments = arguments, mp_data = [], mp_truncated = truncated\<rparr>"

definition multipart_push_part ::
    "u8 list \<Rightarrow> bool \<Rightarrow> terminal_iterm2_multipart_file \<Rightarrow> terminal_iterm2_multipart_file" where
  "multipart_push_part data truncated m =
     (let m1 = m\<lparr>mp_truncated := mp_truncated m \<or> truncated\<rparr> in
      if max_inline_image_bytes < estimated_base64_decoded_len_for_bytes (length (mp_data m) + length data)
      then m1\<lparr>mp_truncated := True\<rparr>
      else m1\<lparr>mp_data := mp_data m @ data\<rparr>)"

definition multipart_finish ::
    "(u8 list \<Rightarrow> u8 list option) \<Rightarrow> bool \<Rightarrow> terminal_iterm2_multipart_file \<Rightarrow> screen_line_media" where
  "multipart_finish b64 truncated m =
     terminal_iterm2_file_media b64 (mp_arguments m @ 58 # mp_data m) (mp_truncated m \<or> truncated)"

definition terminal_iterm2_multipart_file_media ::
    "(u8 list \<Rightarrow> u8 list option) \<Rightarrow> terminal_iterm2_multipart_file option \<Rightarrow> u8 list \<Rightarrow> bool
     \<Rightarrow> terminal_iterm2_multipart_file option \<times> screen_line_media option" where
  "terminal_iterm2_multipart_file_media b64 multipart payload truncated =
     (case strip_prefix (ascii ''1337;MultipartFile='') payload of
        Some arguments \<Rightarrow> (Some (multipart_new arguments truncated), None)
      | None \<Rightarrow>
     (case strip_prefix (ascii ''1337;FilePart='') payload of
        Some data \<Rightarrow> (map_option (multipart_push_part data truncated) multipart, None)
      | None \<Rightarrow>
          if payload = ascii ''1337;FileEnd''
          then (None, map_option (multipart_finish b64 truncated) multipart)
          else (multipart, None)))"

section \<open>Kitty graphics\<close>

record terminal_kitty_graphics_payload =
  kp_media :: screen_line_media
  kp_data :: "u8 list"
  kp_has_format :: bool
  kp_is_png_format :: bool
  kp_more_chunks :: bool
  kp_compressed :: bool
  kp_truncated :: bool

record terminal_kitty_graphics_chunk =
  kc_media :: screen_line_media
  kc_data :: "u8 list"
  kc_truncated :: bool

definition is_inline_png_candidate :: "terminal_kitty_graphics_payload \<Rightarrow> bool" where
  "is_inline_png_candidate p \<longleftrightarrow>
     kp_is_png_format p \<and> \<not> kp_compressed p \<and> \<not> kp_truncated p \<and> kp_data p \<noteq> [] \<and>
     estimated_base64_decoded_len (kp_data p) \<le> max_inline_image_bytes"

definition is_continuation_candidate :: "terminal_kitty_graphics_payload \<Rightarrow> bool" where
  "is_continuation_candidate p \<longleftrightarrow>
     \<not> kp_compressed p \<and> \<not> kp_truncated p \<and> kp_data p \<noteq> [] \<and> (kp_has_format p \<longrightarrow> kp_is_png_format p)"

definition kitty_chunk_new :: "terminal_kitty_graphics_payload \<Rightarrow> terminal_kitty_graphics_chunk" where
  "kitty_chunk_new p = \<lparr>kc_media = kp_media p, kc_data = kp_data p, kc_truncated = kp_truncated p\<rparr>"

definition push_payload :: "u8 list \<Rightarrow> terminal_kitty_graphics_chunk \<Rightarrow> terminal_kitty_graphics_chunk" where
  "push_payload payload c =
     (if max_inline_image_bytes < estimated_base64_decoded_len_for_bytes (length (kc_data c) + length payload)
      then c\<lparr>kc_truncated := True\<rparr>
      else c\<lparr>kc_data := kc_data c @ payload\<rparr>)"

definition merge_continuation ::
    "terminal_kitty_graphics_payload \<Rightarrow> terminal_kitty_graphics_chunk \<Rightarrow> terminal_kitty_graphics_chunk" where
  "merge_continuation p c =
     (let media1 = (if md_width (kp_media p) \<noteq> None
                    then (kc_media c)\<lparr>md_width := md_width (kp_media p)\<rparr> else kc_media c);
          media2 = (if md_height (kp_media p) \<noteq> None
                    then media1\<lparr>md_height := md_height (kp_media p)\<rparr> else media1)
      in push_payload (kp_data p)
           (c\<lparr>kc_media := media2, kc_truncated := kc_truncated c \<or> kp_truncated p\<rparr>))"

definition kitty_chunk_finish ::
    "(u8 list \<Rightarrow> u8 list option) \<Rightarrow> terminal_kitty_graphics_chunk \<Rightarrow> screen_line_media" where
  "kitty_chunk_finish b64 c =
     (let media = (kc_media c)\<lparr>md_truncated := md_truncated (kc_media c) \<or> kc_truncated c\<rparr> in
      if \<not> md_truncated media \<and> kc_data c \<noteq> [] then
        (case terminal_inline_image_payload b64 (kc_data c) of
           None \<Rightarrow> media
         | Some (mime, text) \<Rightarrow>
             if mime = lit ''image/png''
             then media\<lparr>md_inline := True, md_mime_type := Some mime, md_data_base64 := Some text\<rparr>
             else media)
      else media)"

text \<open>The control arguments: the image, the format, whether more chunks follow, compression.\<close>

definition kitty_argument ::
    "u8 list \<Rightarrow> screen_line_media \<times> u8 list option \<times> bool \<times> bool
     \<Rightarrow> screen_line_media \<times> u8 list option \<times> bool \<times> bool" where
  "kitty_argument argument = (\<lambda>(media, format, more, compressed).
     (case split_once 61 argument of
        None \<Rightarrow> (media, format, more, compressed)
      | Some (key, v) \<Rightarrow>
          if key = ascii ''f'' then (media, Some v, more, compressed)
          else if key = ascii ''m'' then (media, format, v = ascii ''1'', compressed)
          else if key = ascii ''o'' then (media, format, more, v \<noteq> [])
          else if key = ascii ''c''
          then (media\<lparr>md_width := terminal_media_text_parameter v 40\<rparr>, format, more, compressed)
          else if key = ascii ''r''
          then (media\<lparr>md_height := terminal_media_text_parameter v 40\<rparr>, format, more, compressed)
          else (media, format, more, compressed)))"

definition terminal_kitty_graphics_payload_of :: "u8 list \<Rightarrow> bool \<Rightarrow> terminal_kitty_graphics_payload" where
  "terminal_kitty_graphics_payload_of payload truncated =
     (let (arguments, data) = (case split_once 59 payload of Some p \<Rightarrow> p | None \<Rightarrow> (payload, []));
          (media, format, more, compressed) =
            fold kitty_argument (split_on 44 arguments)
              ((media_marker KittyGraphics)\<lparr>md_truncated := truncated\<rparr>, None, False, False)
      in \<lparr>kp_media = media, kp_data = data, kp_has_format = (format \<noteq> None),
          kp_is_png_format = (format = Some (ascii ''100'')), kp_more_chunks = more,
          kp_compressed = compressed, kp_truncated = truncated\<rparr>)"

definition terminal_kitty_graphics_media_from_payload ::
    "(u8 list \<Rightarrow> u8 list option) \<Rightarrow> terminal_kitty_graphics_payload \<Rightarrow> screen_line_media" where
  "terminal_kitty_graphics_media_from_payload b64 p =
     (if is_inline_png_candidate p then kitty_chunk_finish b64 (kitty_chunk_new p)
      else (kp_media p)\<lparr>md_truncated := md_truncated (kp_media p) \<or> kp_truncated p\<rparr>)"

definition terminal_kitty_graphics_media ::
    "(u8 list \<Rightarrow> u8 list option) \<Rightarrow> terminal_kitty_graphics_chunk option \<Rightarrow> u8 list \<Rightarrow> bool
     \<Rightarrow> terminal_kitty_graphics_chunk option \<times> screen_line_media option" where
  "terminal_kitty_graphics_media b64 chunk payload truncated =
     (let item = terminal_kitty_graphics_payload_of payload truncated in
      if kp_more_chunks item then
        (if chunk \<noteq> None \<and> is_continuation_candidate item
         then (map_option (merge_continuation item) chunk, None)
         else if is_inline_png_candidate item then (Some (kitty_chunk_new item), None)
         else (None, Some (kp_media item)))
      else
        (case chunk of
           Some c \<Rightarrow>
             if is_continuation_candidate item
             then (None, Some (kitty_chunk_finish b64 (merge_continuation item c)))
             else (None, Some (terminal_kitty_graphics_media_from_payload b64 item))
         | None \<Rightarrow> (None, Some (terminal_kitty_graphics_media_from_payload b64 item))))"

definition terminal_kitty_graphics_control_value :: "u8 list \<Rightarrow> u8 list \<Rightarrow> u8 list option" where
  "terminal_kitty_graphics_control_value arguments key =
     find_map (\<lambda>argument. case split_once 61 argument of
                 Some (candidate, v) \<Rightarrow> if candidate = key then Some v else None
               | None \<Rightarrow> None) (split_on 44 arguments)"

definition terminal_kitty_graphics_is_query :: "u8 list \<Rightarrow> bool \<Rightarrow> bool" where
  "terminal_kitty_graphics_is_query payload truncated \<longleftrightarrow>
     \<not> truncated \<and>
     terminal_kitty_graphics_control_value
       (case split_once 59 payload of Some (arguments, _) \<Rightarrow> arguments | None \<Rightarrow> payload) (ascii ''a'') =
     Some (ascii ''q'')"

definition terminal_media_from_apc_payload ::
    "(u8 list \<Rightarrow> u8 list option) \<Rightarrow> terminal_kitty_graphics_chunk option \<Rightarrow> u8 list \<Rightarrow> bool
     \<Rightarrow> terminal_kitty_graphics_chunk option \<times> screen_line_media option" where
  "terminal_media_from_apc_payload b64 chunk payload truncated =
     (case strip_prefix (ascii ''G'') payload of
        None \<Rightarrow> (chunk, None)
      | Some p \<Rightarrow>
          if terminal_kitty_graphics_is_query p truncated then (None, None)
          else terminal_kitty_graphics_media b64 chunk p truncated)"

section \<open>Device control strings\<close>

definition dcs_header_final_byte :: "u8 list \<Rightarrow> u8 option" where
  "dcs_header_final_byte payload = find (\<lambda>b. 64 \<le> b \<and> b \<le> 126) payload"

definition terminal_media_from_dcs_payload :: "u8 list \<Rightarrow> bool \<Rightarrow> screen_line_media option" where
  "terminal_media_from_dcs_payload payload truncated =
     (if dcs_header_final_byte payload = Some 113
      then Some ((media_marker Sixel)\<lparr>md_truncated := truncated\<rparr>) else None)"

fun undouble_escapes :: "u8 list \<Rightarrow> u8 list" where
  "undouble_escapes [] = []"
| "undouble_escapes [b] = [b]"
| "undouble_escapes (b # c # rest) =
     (if b = 27 \<and> c = 27 then 27 # undouble_escapes rest else b # undouble_escapes (c # rest))"

definition terminal_tmux_passthrough_payload :: "u8 list \<Rightarrow> bool \<Rightarrow> u8 list option" where
  "terminal_tmux_passthrough_payload payload truncated =
     (if truncated then None else map_option undouble_escapes (strip_prefix (ascii ''tmux;'') payload))"

end
