(* ===== verification/Ansi_Control.thy ===== *)
theory Ansi_Control
  imports Ansi_Media
begin

text \<open>
  The lexical level of \<open>ansi_screen.rs\<close> (crate \<open>terminal-projection\<close>): numeric parameters of
  CSI sequences, the extent of CSI sequences and control strings, C1 controls. The source walks
  over a byte slice with an index; an index here is a number of bytes, \<open>rest\<close> the bytes from it.
\<close>

definition max_csi_sequence_bytes :: nat where "max_csi_sequence_bytes = 16 * 1024"
definition max_control_string_bytes :: nat where "max_control_string_bytes = 512 * 1024"

section \<open>Numeric parameters\<close>

text \<open>\<open>split([';', ':'])\<close>: both characters separate.\<close>

definition split_params :: "rstr \<Rightarrow> rstr list" where
  "split_params s = split_on 59 (map (\<lambda>c. if c = 58 then 59 else c) s)"

definition parse_csi_numeric_part :: "rstr option \<Rightarrow> nat option" where
  "parse_csi_numeric_part part =
     (case part of
        None \<Rightarrow> None
      | Some p \<Rightarrow>
          let digits = filter is_digit p in
          if digits = [] then None else map_option (\<lambda>n. min n 32767) (parse_u16 digits))"

definition first_csi_numeric_parameter :: "u8 list \<Rightarrow> nat option" where
  "first_csi_numeric_parameter payload =
     (case utf8_decode payload of
        None \<Rightarrow> None
      | Some s \<Rightarrow>
          let digits = filter is_digit (hd (split_params s)) in
          if digits = [] then None else map_option (\<lambda>n. min n 32767) (parse_u16 digits))"

definition first_two_csi_numeric_parameters :: "u8 list \<Rightarrow> nat option \<times> nat option" where
  "first_two_csi_numeric_parameters payload =
     (case utf8_decode payload of
        None \<Rightarrow> (None, None)
      | Some s \<Rightarrow>
          let parts = split_params s in
          (parse_csi_numeric_part (vec_get parts 0), parse_csi_numeric_part (vec_get parts 1)))"

definition csi_has_space_intermediate :: "u8 list \<Rightarrow> bool" where
  "csi_has_space_intermediate payload \<longleftrightarrow> 32 \<in> set payload"
definition csi_has_bang_intermediate :: "u8 list \<Rightarrow> bool" where
  "csi_has_bang_intermediate payload \<longleftrightarrow> 33 \<in> set payload"
definition csi_has_dollar_intermediate :: "u8 list \<Rightarrow> bool" where
  "csi_has_dollar_intermediate payload \<longleftrightarrow> 36 \<in> set payload"
definition csi_has_apostrophe_intermediate :: "u8 list \<Rightarrow> bool" where
  "csi_has_apostrophe_intermediate payload \<longleftrightarrow> 39 \<in> set payload"
definition csi_has_quote_intermediate :: "u8 list \<Rightarrow> bool" where
  "csi_has_quote_intermediate payload \<longleftrightarrow> 34 \<in> set payload"

definition selective_csi_payload :: "u8 list \<Rightarrow> bool \<times> u8 list" where
  "selective_csi_payload payload =
     (case strip_prefix (ascii ''?'') payload of Some p \<Rightarrow> (True, p) | None \<Rightarrow> (False, payload))"

definition numeric_parts :: "rstr \<Rightarrow> nat list" where
  "numeric_parts s = List.map_filter (\<lambda>part. parse_csi_numeric_part (Some part)) (split_on 59 s)"

definition csi_modes :: "u8 list \<Rightarrow> nat list" where
  "csi_modes payload =
     (case utf8_decode payload of
        None \<Rightarrow> []
      | Some s \<Rightarrow> if strip_prefix (lit ''?'') s \<noteq> None then [] else numeric_parts s)"

definition csi_private_modes :: "u8 list \<Rightarrow> nat list" where
  "csi_private_modes payload =
     (case utf8_decode payload of
        None \<Rightarrow> []
      | Some s \<Rightarrow> (case strip_prefix (lit ''?'') s of None \<Rightarrow> [] | Some modes \<Rightarrow> numeric_parts modes))"

definition cursor_shape_from_decscusr :: "nat \<Rightarrow> (screen_cursor_shape \<times> bool) option" where
  "cursor_shape_from_decscusr code =
     (if code = 0 \<or> code = 1 then Some (CursorBlock, True)
      else if code = 2 then Some (CursorBlock, False)
      else if code = 3 then Some (CursorUnderline, True)
      else if code = 4 then Some (CursorUnderline, False)
      else if code = 5 then Some (CursorBeam, True)
      else if code = 6 then Some (CursorBeam, False)
      else None)"

section \<open>C1 controls\<close>

datatype c1_control =
    C1Index | C1NextLine | C1ReverseIndex | C1HorizontalTabSet | C1SingleShiftTwo
  | C1SingleShiftThree | C1StartGuardedArea | C1EndGuardedArea | C1ReturnTerminalId
  | C1Sos | C1Dcs | C1Csi | C1St | C1Osc | C1Pm | C1Apc

definition raw_c1_control :: "u8 \<Rightarrow> nat option" where
  "raw_c1_control b =
     (if b \<in> {132, 133, 136, 141, 142, 143, 150, 151, 152, 144, 154, 155, 156, 157, 158, 159}
      then Some (unat b) else None)"

definition c1_controls :: "(c1_control \<times> nat) list" where
  "c1_controls =
     [(C1Index, 132), (C1NextLine, 133), (C1HorizontalTabSet, 136), (C1ReverseIndex, 141),
      (C1SingleShiftTwo, 142), (C1SingleShiftThree, 143), (C1StartGuardedArea, 150),
      (C1EndGuardedArea, 151), (C1Sos, 152), (C1ReturnTerminalId, 154), (C1Dcs, 144),
      (C1Csi, 155), (C1St, 156), (C1Osc, 157), (C1Pm, 158), (C1Apc, 159)]"

definition c1_control_at :: "u8 list \<Rightarrow> (c1_control \<times> nat) option" where
  "c1_control_at rest =
     find_map (\<lambda>(control, c). let encoded = utf8_char c in
        if strip_prefix encoded rest \<noteq> None then Some (control, length encoded) else None) c1_controls"

definition normalized_ansi_bytes_lossy :: "u8 list \<Rightarrow> rstr" where
  "normalized_ansi_bytes_lossy output =
     utf8_lossy (concat (map (\<lambda>b. case raw_c1_control b of
        Some control \<Rightarrow> utf8_char control | None \<Rightarrow> [b]) output))"

section \<open>Where a sequence ends\<close>

text \<open>The parameter bytes before the final byte and how far the final byte lies ahead.\<close>

definition read_csi :: "u8 list \<Rightarrow> (u8 list \<times> u8 \<times> nat) option" where
  "read_csi rest =
     (case position (\<lambda>b. 64 \<le> b \<and> b \<le> 126) (take (max_csi_sequence_bytes + 1) rest) of
        None \<Rightarrow> None
      | Some i \<Rightarrow> Some (take i rest, rest ! i, i + 1))"

record control_string =
  cs_payload :: "u8 list"
  cs_next_index :: nat
  cs_truncated :: bool

text \<open>
  How many bytes the terminator at the front of \<open>rest\<close> takes, \<open>None\<close> where there is none: ST as
  a C1 control, BEL for OSC, a bare \<open>0x9c\<close>, or \<open>ESC \\<close>.
\<close>

definition control_string_end :: "bool \<Rightarrow> u8 list \<Rightarrow> nat option" where
  "control_string_end allow_bel rest =
     (case c1_control_at rest of
        Some (C1St, control_len) \<Rightarrow> Some control_len
      | _ \<Rightarrow>
          (case rest of
             [] \<Rightarrow> None
           | b # bs \<Rightarrow>
               if b = 7 \<and> allow_bel then Some 1
               else if b = 156 then Some 1
               else if b = 27 \<and> bs \<noteq> [] \<and> hd bs = 92 then Some 2
               else None))"

text \<open>The scan: \<open>n\<close> bytes behind, of which the first \<open>e\<close> make the payload.\<close>

fun read_control_string_from ::
    "bool \<Rightarrow> u8 list \<Rightarrow> nat \<Rightarrow> nat \<Rightarrow> bool \<Rightarrow> (nat \<times> nat \<times> bool) option" where
  "read_control_string_from allow_bel [] n e truncated = None"
| "read_control_string_from allow_bel (b # bs) n e truncated =
     (case control_string_end allow_bel (b # bs) of
        Some len \<Rightarrow> Some (e, n + len, truncated)
      | None \<Rightarrow>
          if e < max_control_string_bytes
          then read_control_string_from allow_bel bs (n + 1) (n + 1) truncated
          else read_control_string_from allow_bel bs (n + 1) e True)"

definition read_control_string :: "bool \<Rightarrow> u8 list \<Rightarrow> control_string option" where
  "read_control_string allow_bel rest =
     map_option (\<lambda>(e, next_index, truncated).
         \<lparr>cs_payload = take e rest, cs_next_index = next_index, cs_truncated = truncated\<rparr>)
       (read_control_string_from allow_bel rest 0 0 False)"

definition read_osc_control_string :: "u8 list \<Rightarrow> control_string option" where
  "read_osc_control_string = read_control_string True"

definition read_st_control_string :: "u8 list \<Rightarrow> control_string option" where
  "read_st_control_string = read_control_string False"

definition skip_control_string :: "u8 list \<Rightarrow> nat" where
  "skip_control_string rest =
     (case read_st_control_string rest of Some control \<Rightarrow> cs_next_index control | None \<Rightarrow> length rest)"

lemma read_control_string_from_bounds:
  assumes "read_control_string_from allow_bel bs n e t = Some (e', n', t')" "e \<le> n"
    "\<And>rest len. control_string_end allow_bel rest = Some len \<Longrightarrow> len \<le> length rest"
  shows "e' \<le> n' \<and> n < n' \<and> n' \<le> n + length bs"
  using assms
proof (induction allow_bel bs n e t rule: read_control_string_from.induct)
  case (2 allow_bel b bs n e t)
  show ?case
  proof (cases "control_string_end allow_bel (b # bs)")
    case None
    then show ?thesis
      using 2 by (auto split: if_splits simp: max_control_string_bytes_def dest!: less_imp_le_nat)
  next
    case (Some len)
    then have "len \<le> Suc (length bs)" using "2.prems"(3) [OF Some] by simp
    moreover have "1 \<le> len"
      using Some by (auto simp: control_string_end_def c1_control_at_def Let_def c1_controls_def utf8_char_def
          split: option.splits c1_control.splits if_splits)
    ultimately show ?thesis using Some 2 by simp
  qed
qed simp

end
