(* ===== verification/Ansi_Cells.thy ===== *)
theory Ansi_Cells
  imports Ansi_Control
begin

text \<open>
  The cells of a line in \<open>ansi_screen.rs\<close> (crate \<open>terminal-projection\<close>). A wide character is a
  cell of its own width followed by spacers, together a \<open>cluster\<close>; zero-width characters join
  the cell before them. \<open>uw\<close> is \<open>UnicodeWidthChar::width\<close> of the crate \<open>unicode-width\<close>.

  Rows, columns and counts are \<open>usize\<close>. They start at zero and one control sequence of at least
  three bytes moves them by at most 32767, so no input below \<open>2 ^ 48\<close> bytes reaches the end of
  the type: they are natural numbers, \<open>saturating_add\<close> is addition and \<open>saturating_sub\<close> is the
  truncated subtraction. A \<open>BTreeSet<usize>\<close> of tab stops is its sorted list.
\<close>

section \<open>Characters\<close>

datatype graphic_charset = CharsetAscii | DecSpecialGraphics
datatype active_charset = G0 | G1

definition dec_special_graphics :: "(nat \<times> nat) list" where
  "dec_special_graphics =
     [(95, 32), (96, 9670), (97, 9618), (102, 176), (103, 177), (106, 9496), (107, 9488),
      (108, 9484), (109, 9492), (110, 9532), (111, 9146), (112, 9147), (113, 9472), (114, 9148),
      (115, 9149), (116, 9500), (117, 9508), (118, 9524), (119, 9516), (120, 9474), (121, 8804),
      (122, 8805), (123, 960), (124, 8800), (125, 163), (126, 183)]"

definition dec_special_graphics_char :: "u8 \<Rightarrow> nat option" where
  "dec_special_graphics_char b = map_of dec_special_graphics (unat b)"

definition terminal_char_width :: "(nat \<Rightarrow> nat option) \<Rightarrow> nat \<Rightarrow> nat" where
  "terminal_char_width uw ch = unwrap_or 0 (uw ch)"

section \<open>Tab stops\<close>

definition default_tab_width :: nat where "default_tab_width = 8"

function skip_cleared_stops :: "nat list \<Rightarrow> nat \<Rightarrow> nat" where
  "skip_cleared_stops cleared candidate =
     (if candidate \<in> set cleared then skip_cleared_stops cleared (candidate + default_tab_width)
      else candidate)"
  by pat_completeness auto
termination
proof (relation "measure (\<lambda>(cleared, candidate). length (filter (\<lambda>c. candidate \<le> c) cleared))")
  fix cleared :: "nat list" and candidate assume "candidate \<in> set cleared"
  moreover have "length (filter ((\<le>) (k + default_tab_width)) cs) \<le> length (filter ((\<le>) k) cs)" for k cs
    by (induction cs) auto
  ultimately have "length (filter ((\<le>) (candidate + default_tab_width)) cleared)
      < length (filter ((\<le>) candidate) cleared)"
    by (induction cleared) (auto simp: default_tab_width_def le_imp_less_Suc)
  then show "((cleared, candidate + default_tab_width), cleared, candidate)
      \<in> measure (\<lambda>(cleared, candidate). length (filter (\<lambda>c. candidate \<le> c) cleared))"
    by simp
qed simp

declare skip_cleared_stops.simps [simp del]

definition next_default_terminal_tab_stop :: "nat \<Rightarrow> nat list \<Rightarrow> nat" where
  "next_default_terminal_tab_stop col cleared =
     skip_cleared_stops cleared (col + (default_tab_width - col mod default_tab_width))"

fun previous_uncleared :: "nat list \<Rightarrow> nat \<Rightarrow> nat" where
  "previous_uncleared cleared candidate =
     (if 0 < candidate \<and> candidate \<in> set cleared
      then previous_uncleared cleared (candidate - Suc 7) else candidate)"

declare previous_uncleared.simps [simp del]

definition previous_default_terminal_tab_stop :: "nat \<Rightarrow> nat list \<Rightarrow> nat" where
  "previous_default_terminal_tab_stop col cleared =
     previous_uncleared cleared ((col - 1) div default_tab_width * default_tab_width)"

definition is_default_terminal_tab_stop :: "nat \<Rightarrow> bool" where
  "is_default_terminal_tab_stop col \<longleftrightarrow> 0 < col \<and> col mod default_tab_width = 0"

definition next_terminal_tab_stop :: "nat \<Rightarrow> bool \<Rightarrow> nat list \<Rightarrow> nat list \<Rightarrow> nat" where
  "next_terminal_tab_stop col defaults explicit cleared =
     (case (find (\<lambda>c. col < c) explicit, defaults) of
        (Some e, True) \<Rightarrow> min e (next_default_terminal_tab_stop col cleared)
      | (Some e, False) \<Rightarrow> e
      | (None, True) \<Rightarrow> next_default_terminal_tab_stop col cleared
      | (None, False) \<Rightarrow> col)"

definition previous_terminal_tab_stop :: "nat \<Rightarrow> bool \<Rightarrow> nat list \<Rightarrow> nat list \<Rightarrow> nat" where
  "previous_terminal_tab_stop col defaults explicit cleared =
     (if col = 0 then 0
      else case (find (\<lambda>c. c < col) (rev explicit), defaults) of
             (Some e, True) \<Rightarrow> max e (previous_default_terminal_tab_stop col cleared)
           | (Some e, False) \<Rightarrow> e
           | (None, True) \<Rightarrow> previous_default_terminal_tab_stop col cleared
           | (None, False) \<Rightarrow> 0)"

section \<open>Cells\<close>

record styled_cell =
  cl_text :: rstr
  cl_style :: screen_text_style
  cl_columns :: nat
  cl_spacer :: bool

record backspace_cell =
  bc_text :: rstr
  bc_style :: screen_text_style

definition styled_text_cell :: "nat \<Rightarrow> screen_text_style \<Rightarrow> nat \<Rightarrow> styled_cell" where
  "styled_text_cell ch st columns =
     \<lparr>cl_text = [ch], cl_style = st, cl_columns = max columns 1, cl_spacer = False\<rparr>"

definition styled_space_cell :: "screen_text_style \<Rightarrow> styled_cell" where
  "styled_space_cell st = \<lparr>cl_text = [32], cl_style = st, cl_columns = 1, cl_spacer = False\<rparr>"

definition styled_spacer_cell :: "screen_text_style \<Rightarrow> styled_cell" where
  "styled_spacer_cell st = \<lparr>cl_text = [], cl_style = st, cl_columns = 1, cl_spacer = True\<rparr>"

definition extend_cells_to_width_with_cell :: "nat \<Rightarrow> styled_cell \<Rightarrow> styled_cell list \<Rightarrow> styled_cell list" where
  "extend_cells_to_width_with_cell width blank cells = cells @ replicate (width - length cells) blank"

text \<open>\<open>None\<close> where the source returns \<open>false\<close>: no cell but spacers.\<close>

definition append_zero_width_to_last_visible_cell :: "nat \<Rightarrow> styled_cell list \<Rightarrow> styled_cell list option" where
  "append_zero_width_to_last_visible_cell ch cells =
     (case position (\<lambda>c. \<not> cl_spacer c) (rev cells) of
        None \<Rightarrow> None
      | Some i \<Rightarrow>
          let j = length cells - 1 - i in
          Some (cells[j := (cells ! j)\<lparr>cl_text := cl_text (cells ! j) @ [ch]\<rparr>]))"

definition push_text_cell ::
    "(nat \<Rightarrow> nat option) \<Rightarrow> screen_text_style \<Rightarrow> nat \<Rightarrow> styled_cell list \<Rightarrow> styled_cell list" where
  "push_text_cell uw st ch cells =
     (let width = terminal_char_width uw ch in
      if width = 0 then
        (case append_zero_width_to_last_visible_cell ch cells of Some cs \<Rightarrow> cs | None \<Rightarrow> cells)
      else cells @ styled_text_cell ch st width # replicate (width - 1) (styled_spacer_cell st))"

definition push_text_cells ::
    "(nat \<Rightarrow> nat option) \<Rightarrow> rstr \<Rightarrow> screen_text_style \<Rightarrow> styled_cell list \<Rightarrow> styled_cell list" where
  "push_text_cells uw s st cells = fold (push_text_cell uw st) s cells"

text \<open>The cells of a text with spans: of the spans where they make up the text, else unstyled.\<close>

definition line_cells :: "(nat \<Rightarrow> nat option) \<Rightarrow> rstr \<Rightarrow> screen_line_span list \<Rightarrow> styled_cell list" where
  "line_cells uw s spans =
     (if spans \<noteq> [] \<and> concat (map sp_text spans) = s
      then fold (\<lambda>span. push_text_cells uw (sp_text span) (sp_style span)) spans []
      else push_text_cells uw s style_default [])"

definition screen_line_cell_width :: "(nat \<Rightarrow> nat option) \<Rightarrow> screen_line \<Rightarrow> nat" where
  "screen_line_cell_width uw line =
     (if sl_spans line \<noteq> [] \<and> concat (map sp_text (sl_spans line)) = sl_text line
      then length (fold (\<lambda>span. push_text_cells uw (sp_text span) (sp_style span)) (sl_spans line) [])
      else sum_list (map (terminal_char_width uw) (sl_text line)))"

section \<open>Clusters\<close>

definition wide_cluster_start_at :: "styled_cell list \<Rightarrow> nat \<Rightarrow> nat option" where
  "wide_cluster_start_at cells col =
     (if length cells \<le> col then None
      else if \<not> cl_spacer (cells ! col) then (if 1 < cl_columns (cells ! col) then Some col else None)
      else case find (\<lambda>start. \<not> cl_spacer (cells ! start)) (rev [0..<col]) of
             None \<Rightarrow> None
           | Some start \<Rightarrow> if col < start + max (cl_columns (cells ! start)) 1 then Some start else None)"

text \<open>The columns of the cluster at a column that exists: its start and its end.\<close>

definition cluster_start :: "styled_cell list \<Rightarrow> nat \<Rightarrow> nat" where
  "cluster_start cells col = unwrap_or col (wide_cluster_start_at cells col)"

definition cluster_end :: "styled_cell list \<Rightarrow> nat \<Rightarrow> nat" where
  "cluster_end cells col =
     min (cluster_start cells col + max (cl_columns (cells ! cluster_start cells col)) 1) (length cells)"

text \<open>\<open>iter_mut().take(end).skip(start)\<close>.\<close>

definition update_range :: "nat \<Rightarrow> nat \<Rightarrow> ('a \<Rightarrow> 'a) \<Rightarrow> 'a list \<Rightarrow> 'a list" where
  "update_range start stop f xs =
     take start xs @ map f (take (stop - start) (drop start xs)) @ drop (max start stop) xs"

definition clear_wide_cluster_at_with_cell :: "styled_cell \<Rightarrow> nat \<Rightarrow> styled_cell list \<Rightarrow> styled_cell list" where
  "clear_wide_cluster_at_with_cell blank col cells =
     (if length cells \<le> col then cells
      else if cluster_end cells col - cluster_start cells col \<le> 1 then cells
      else update_range (cluster_start cells col) (cluster_end cells col) (\<lambda>_. blank) cells)"

definition clear_wide_cluster_at :: "nat \<Rightarrow> styled_cell list \<Rightarrow> styled_cell list" where
  "clear_wide_cluster_at = clear_wide_cluster_at_with_cell (styled_space_cell style_default)"

definition erase_cell_range :: "nat \<Rightarrow> nat \<Rightarrow> styled_cell \<Rightarrow> styled_cell list \<Rightarrow> styled_cell list" where
  "erase_cell_range start stop0 blank cells =
     (let stop = min stop0 (length cells) in
      update_range start stop (\<lambda>_. blank)
        (fold (clear_wide_cluster_at_with_cell blank) [start..<stop] cells))"

definition erase_unprotected_cell ::
    "nat \<Rightarrow> (nat \<times> nat) set \<Rightarrow> styled_cell \<Rightarrow> nat \<Rightarrow> styled_cell list \<Rightarrow> styled_cell list" where
  "erase_unprotected_cell row protected blank col cells =
     (if list_ex (\<lambda>c. (row, c) \<in> protected) [cluster_start cells col..<cluster_end cells col] then cells
      else update_range (cluster_start cells col) (cluster_end cells col) (\<lambda>_. blank) cells)"

definition erase_unprotected_cell_range ::
    "nat \<Rightarrow> nat \<Rightarrow> nat \<Rightarrow> (nat \<times> nat) set \<Rightarrow> styled_cell \<Rightarrow> styled_cell list \<Rightarrow> styled_cell list" where
  "erase_unprotected_cell_range start stop row protected blank cells =
     fold (erase_unprotected_cell row protected blank) [start..<min stop (length cells)] cells"

definition apply_rectangular_attribute_to_cell ::
    "rectangular_attribute_action list \<Rightarrow> rectangular_attribute_mode \<Rightarrow> nat \<Rightarrow> styled_cell list
     \<Rightarrow> styled_cell list" where
  "apply_rectangular_attribute_to_cell actions mode col cells =
     (if length cells \<le> col then cells
      else update_range (cluster_start cells col) (cluster_end cells col)
             (\<lambda>cell. cell\<lparr>cl_style := apply_rectangular_attribute_actions mode actions (cl_style cell)\<rparr>) cells)"

definition repeatable_cell_before_cursor :: "styled_cell list \<Rightarrow> nat \<Rightarrow> styled_cell option" where
  "repeatable_cell_before_cursor cells cursor_col =
     (if min cursor_col (length cells) = 0 then None
      else let previous_col = min cursor_col (length cells) - 1 in
        (case (if cl_spacer (cells ! previous_col) then wide_cluster_start_at cells previous_col
               else Some previous_col) of
           None \<Rightarrow> None
         | Some start \<Rightarrow>
             if cl_text (cells ! start) \<noteq> [] \<and> \<not> cl_spacer (cells ! start)
             then Some (cells ! start) else None))"

record rectangular_copy_cell =
  rc_cell :: styled_cell
  rc_protected :: bool

definition rectangular_copy_cell_for_write :: "rectangular_copy_cell list \<Rightarrow> nat \<Rightarrow> styled_cell option" where
  "rectangular_copy_cell_for_write row offset =
     (case vec_get row offset of
        None \<Rightarrow> Some (styled_space_cell style_default)
      | Some copied \<Rightarrow>
          let cell = rc_cell copied; width = max (cl_columns cell) 1 in
          if cl_spacer cell then
            (if 0 < offset \<and> \<not> cl_spacer (rc_cell (row ! (offset - 1))) \<and>
                1 < cl_columns (rc_cell (row ! (offset - 1)))
             then None else Some (styled_space_cell style_default))
          else if 1 < width \<and> length row < offset + width
          then Some (styled_space_cell style_default)
          else Some cell)"

text \<open>A write at a column: in place where the column exists, else at the end.\<close>

definition put_cell :: "nat \<Rightarrow> styled_cell \<Rightarrow> styled_cell list \<Rightarrow> styled_cell list" where
  "put_cell col cell cells = (if col < length cells then cells[col := cell] else cells @ [cell])"

definition write_styled_cell_at :: "nat \<Rightarrow> styled_cell \<Rightarrow> styled_cell list \<Rightarrow> styled_cell list" where
  "write_styled_cell_at col cell cells =
     (let width = max (cl_columns cell) 1;
          cells1 = fold clear_wide_cluster_at [col..<col + width] cells;
          cells2 = put_cell col (cell\<lparr>cl_spacer := False, cl_columns := width\<rparr>) cells1
      in fold (\<lambda>c. put_cell c (styled_spacer_cell (cl_style cell))) [col + 1..<col + width] cells2)"

section \<open>Overstriking and spans\<close>

definition cell_for_overstrike ::
    "backspace_cell \<Rightarrow> nat \<Rightarrow> screen_text_style \<Rightarrow> (nat \<times> screen_text_style) option" where
  "cell_for_overstrike previous ch current_style =
     (case bc_text previous of
        [] \<Rightarrow> None
      | previous_ch # _ \<Rightarrow>
          if previous_ch = ch then Some (ch, current_style\<lparr>st_bold := True\<rparr>)
          else if previous_ch = 95 \<and> ch \<noteq> 95
          then Some (ch, current_style\<lparr>st_underline := Some USingle\<rparr>)
          else if ch = 95 \<and> previous_ch \<noteq> 95
          then Some (previous_ch, current_style\<lparr>st_underline := Some USingle\<rparr>)
          else None)"

definition or_else :: "'a option \<Rightarrow> 'a option \<Rightarrow> 'a option" where
  "or_else a b = (case a of Some x \<Rightarrow> Some x | None \<Rightarrow> b)"

definition merge_missing_style_fields :: "screen_text_style \<Rightarrow> screen_text_style \<Rightarrow> screen_text_style" where
  "merge_missing_style_fields st fallback =
     \<lparr>st_foreground = or_else (st_foreground st) (st_foreground fallback),
      st_background = or_else (st_background st) (st_background fallback),
      st_underline_color = or_else (st_underline_color st) (st_underline_color fallback),
      st_bold = (st_bold st \<or> st_bold fallback), st_dim = (st_dim st \<or> st_dim fallback),
      st_italic = (st_italic st \<or> st_italic fallback), st_blink = (st_blink st \<or> st_blink fallback),
      st_underline = or_else (st_underline st) (st_underline fallback),
      st_overline = (st_overline st \<or> st_overline fallback),
      st_border = or_else (st_border st) (st_border fallback),
      st_baseline = or_else (st_baseline st) (st_baseline fallback),
      st_inverse = (st_inverse st \<or> st_inverse fallback), st_hidden = (st_hidden st \<or> st_hidden fallback),
      st_strikethrough = (st_strikethrough st \<or> st_strikethrough fallback),
      st_hyperlink = or_else (st_hyperlink st) (st_hyperlink fallback)\<rparr>"

definition normalized_spans :: "rstr \<Rightarrow> screen_line_span list \<Rightarrow> screen_line_span list" where
  "normalized_spans s spans =
     (if spans = [] then spans
      else if list_all (\<lambda>span. style_is_plain (sp_style span)) spans then []
      else if concat (map sp_text spans) \<noteq> s then []
      else spans)"

text \<open>\<open>append_line_text\<close>: the text joins the last span where the style is the same.\<close>

definition append_span :: "rstr \<Rightarrow> screen_text_style \<Rightarrow> screen_line_span list \<Rightarrow> screen_line_span list" where
  "append_span s st spans =
     (if spans \<noteq> [] \<and> sp_style (last spans) = st
      then butlast spans @ [(last spans)\<lparr>sp_text := sp_text (last spans) @ s\<rparr>]
      else spans @ [\<lparr>sp_text = s, sp_style = st\<rparr>])"

text \<open>\<open>rebuild_line_from_cells\<close>: the text and the spans of some cells.\<close>

definition rebuild_text :: "styled_cell list \<Rightarrow> rstr" where
  "rebuild_text cells = concat (map cl_text (filter (\<lambda>c. \<not> cl_spacer c) cells))"

definition rebuild_spans :: "styled_cell list \<Rightarrow> screen_line_span list" where
  "rebuild_spans cells =
     fold (\<lambda>cell. append_span (cl_text cell) (cl_style cell)) (filter (\<lambda>c. \<not> cl_spacer c) cells) []"

section \<open>Lemmas\<close>

lemma length_update_range [simp]: "length (update_range s e f xs) = length xs"
  by (auto simp: update_range_def min_def)

lemma length_clear_wide [simp]: "length (clear_wide_cluster_at_with_cell b col cells) = length cells"
  by (simp add: clear_wide_cluster_at_with_cell_def)

lemma length_clear_wide_cluster_at [simp]: "length (clear_wide_cluster_at col cells) = length cells"
  by (simp add: clear_wide_cluster_at_def)

lemma length_fold_clear [simp]:
  "length (fold (clear_wide_cluster_at_with_cell b) cols cells) = length cells"
  "length (fold clear_wide_cluster_at cols cells) = length cells"
  by (induction cols arbitrary: cells) simp_all

lemma length_erase_cell_range [simp]: "length (erase_cell_range s e b cells) = length cells"
  by (simp add: erase_cell_range_def Let_def)

lemma length_erase_unprotected_cell [simp]:
  "length (erase_unprotected_cell row p b col cells) = length cells"
  by (simp add: erase_unprotected_cell_def)

lemma length_erase_unprotected [simp]:
  "length (erase_unprotected_cell_range s e row p b cells) = length cells"
proof -
  have "length (fold (erase_unprotected_cell row p b) cols cs) = length cs" for cols cs
    by (induction cols arbitrary: cs) simp_all
  then show ?thesis by (simp add: erase_unprotected_cell_range_def)
qed

lemma length_append_zero_width:
  "append_zero_width_to_last_visible_cell ch cells = Some cs \<Longrightarrow> length cs = length cells"
  by (auto simp: append_zero_width_to_last_visible_cell_def Let_def split: option.splits)

end
