(* ===== verification/Ansi_Line.thy ===== *)
theory Ansi_Line
  imports Ansi_Cells
begin

text \<open>
  The parser state of \<open>ansi_screen.rs\<close> (crate \<open>terminal-projection\<close>) and the operations on
  rows, scroll regions, protected cells, the current line and the two screen buffers. The state
  extends \<open>ScreenBufferState\<close>, the part of it that each buffer has for itself. A \<open>BTreeSet\<close> of
  row and column pairs is a set.
\<close>

section \<open>State\<close>

record ansi_env =
  ae_width :: "nat \<Rightarrow> nat option"
  ae_base64 :: "u8 list \<Rightarrow> u8 list option"

record scroll_region =
  sr_top :: nat
  sr_bottom :: nat

record horizontal_region =
  hr_left :: nat
  hr_right :: nat

record sgr_stack_entry =
  ss_style :: screen_text_style
  ss_attributes :: ansi_sgr_stack_attributes

record color_palette_snapshot =
  cp_palette :: screen_surface_palette
  cp_dynamic_palette :: dynamic_palette

record saved_screen_cursor_state =
  sv_row :: nat
  sv_cursor_col :: nat
  sv_cursor_touched :: bool
  sv_cursor_hidden :: bool
  sv_cursor_shape :: "screen_cursor_shape option"
  sv_cursor_blinking :: bool

record saved_line_state = saved_screen_cursor_state +
  sv_style :: screen_text_style
  sv_protected_mode :: bool
  sv_g0_charset :: graphic_charset
  sv_g1_charset :: graphic_charset
  sv_active_charset :: active_charset

record screen_buffer_state =
  ap_lines :: "screen_line list"
  ap_line_text :: rstr
  ap_line_spans :: "screen_line_span list"
  ap_line_media :: "screen_line_media list"
  ap_line_side_effects :: "screen_line_side_effect list"
  ap_line_semantic_marks :: "screen_line_semantic_mark list"
  ap_line_cursor_col :: nat
  ap_current_row :: nat
  ap_scroll_region :: "scroll_region option"
  ap_origin_mode :: bool
  ap_left_right_margin_mode :: bool
  ap_horizontal_margins :: "horizontal_region option"
  ap_protected_cells :: "(nat \<times> nat) set"
  ap_cursor_touched :: bool
  ap_cursor_hidden :: bool
  ap_cursor_shape :: "screen_cursor_shape option"
  ap_cursor_blinking :: bool

record ansi_parser = screen_buffer_state +
  ap_current_style :: screen_text_style
  ap_sgr_stack :: "sgr_stack_entry list"
  ap_title :: "rstr option"
  ap_working_directory_uri :: "rstr option"
  ap_user_variables :: "(rstr, rstr) fmap"
  ap_palette :: screen_surface_palette
  ap_dynamic_palette :: dynamic_palette
  ap_color_stack :: "color_palette_snapshot list"
  ap_bell_count :: u64
  ap_progress :: screen_progress
  ap_protected_mode :: bool
  ap_insert_mode :: bool
  ap_default_tab_stops :: bool
  ap_explicit_tab_stops :: "nat list"
  ap_cleared_default_tab_stops :: "nat list"
  ap_g0_charset :: graphic_charset
  ap_g1_charset :: graphic_charset
  ap_active_charset :: active_charset
  ap_saved_line_state :: "saved_line_state option"
  ap_normal_screen_state :: "screen_buffer_state option"
  ap_kitty_chunk :: "terminal_kitty_graphics_chunk option"
  ap_iterm2_multipart_file :: "terminal_iterm2_multipart_file option"
  ap_pending_carriage_return :: bool
  ap_pending_backspace_cell :: "backspace_cell option"

definition parser_new :: ansi_parser where
  "parser_new =
     \<lparr>ap_lines = [], ap_line_text = [], ap_line_spans = [], ap_line_media = [],
      ap_line_side_effects = [], ap_line_semantic_marks = [], ap_line_cursor_col = 0,
      ap_current_row = 0, ap_scroll_region = None, ap_origin_mode = False,
      ap_left_right_margin_mode = False, ap_horizontal_margins = None, ap_protected_cells = {},
      ap_cursor_touched = False, ap_cursor_hidden = False, ap_cursor_shape = None,
      ap_cursor_blinking = False, ap_current_style = style_default, ap_sgr_stack = [],
      ap_title = None, ap_working_directory_uri = None, ap_user_variables = fmempty,
      ap_palette = palette_default, ap_dynamic_palette = fmempty, ap_color_stack = [],
      ap_bell_count = 0, ap_progress = progress_default, ap_protected_mode = False,
      ap_insert_mode = False, ap_default_tab_stops = True, ap_explicit_tab_stops = [],
      ap_cleared_default_tab_stops = [], ap_g0_charset = CharsetAscii,
      ap_g1_charset = CharsetAscii, ap_active_charset = G0, ap_saved_line_state = None,
      ap_normal_screen_state = None, ap_kitty_chunk = None, ap_iterm2_multipart_file = None,
      ap_pending_carriage_return = False, ap_pending_backspace_cell = None\<rparr>"

definition clear_pending :: "ansi_parser \<Rightarrow> ansi_parser" where
  "clear_pending p = p\<lparr>ap_pending_carriage_return := False, ap_pending_backspace_cell := None\<rparr>"

section \<open>Protected cells\<close>

definition retain_protected :: "(nat \<Rightarrow> nat \<Rightarrow> bool) \<Rightarrow> ansi_parser \<Rightarrow> ansi_parser" where
  "retain_protected keep p =
     p\<lparr>ap_protected_cells := Set.filter (\<lambda>(r, c). keep r c) (ap_protected_cells p)\<rparr>"

text \<open>The cells of which \<open>moved\<close> says so are taken out and put back shifted.\<close>

definition shift_protected ::
    "(nat \<Rightarrow> nat \<Rightarrow> bool) \<Rightarrow> (nat \<Rightarrow> nat \<Rightarrow> bool) \<Rightarrow> (nat \<times> nat \<Rightarrow> nat \<times> nat) \<Rightarrow> ansi_parser \<Rightarrow> ansi_parser" where
  "shift_protected keep moved by_f p =
     p\<lparr>ap_protected_cells := Set.filter (\<lambda>(r, c). keep r c) (ap_protected_cells p) \<union>
         by_f ` Set.filter (\<lambda>(r, c). \<not> keep r c \<and> moved r c) (ap_protected_cells p)\<rparr>"

definition protect_current_row_range :: "nat \<Rightarrow> nat \<Rightarrow> ansi_parser \<Rightarrow> ansi_parser" where
  "protect_current_row_range start stop p =
     p\<lparr>ap_protected_cells := ap_protected_cells p \<union> Pair (ap_current_row p) ` {start..<stop}\<rparr>"

definition clear_row_protection_range :: "nat \<Rightarrow> nat \<Rightarrow> nat \<Rightarrow> ansi_parser \<Rightarrow> ansi_parser" where
  "clear_row_protection_range row start stop p =
     (if stop \<le> start then p else retain_protected (\<lambda>r c. r \<noteq> row \<or> c < start \<or> stop \<le> c) p)"

definition clear_current_row_protection_range :: "nat \<Rightarrow> nat \<Rightarrow> ansi_parser \<Rightarrow> ansi_parser" where
  "clear_current_row_protection_range start stop p =
     clear_row_protection_range (ap_current_row p) start stop p"

definition clear_current_row_protection_from :: "nat \<Rightarrow> ansi_parser \<Rightarrow> ansi_parser" where
  "clear_current_row_protection_from start p =
     retain_protected (\<lambda>r c. r \<noteq> ap_current_row p \<or> c < start) p"

definition clear_row_protection :: "nat \<Rightarrow> ansi_parser \<Rightarrow> ansi_parser" where
  "clear_row_protection row p = retain_protected (\<lambda>r c. r \<noteq> row) p"

text \<open>The rows from \<open>start\<close>, to \<open>usize::MAX\<close> where there is no end.\<close>

definition clear_rows_protection :: "nat \<Rightarrow> nat option \<Rightarrow> ansi_parser \<Rightarrow> ansi_parser" where
  "clear_rows_protection start stop p =
     (case stop of
        None \<Rightarrow> retain_protected (\<lambda>r c. r < start) p
      | Some e \<Rightarrow> if e \<le> start then p else retain_protected (\<lambda>r c. r < start \<or> e \<le> r) p)"

definition clear_current_row_wide_cluster_protection_at ::
    "styled_cell list \<Rightarrow> nat \<Rightarrow> ansi_parser \<Rightarrow> ansi_parser" where
  "clear_current_row_wide_cluster_protection_at cells col p =
     (if length cells \<le> col then p
      else clear_current_row_protection_range (cluster_start cells col) (cluster_end cells col) p)"

definition write_copied_cell_protection :: "nat \<Rightarrow> nat \<Rightarrow> bool \<Rightarrow> ansi_parser \<Rightarrow> ansi_parser" where
  "write_copied_cell_protection start width protected p =
     (if protected then protect_current_row_range start (start + width) p
      else clear_current_row_protection_range start (start + width) p)"

definition write_current_row_protection :: "nat \<Rightarrow> nat \<Rightarrow> ansi_parser \<Rightarrow> ansi_parser" where
  "write_current_row_protection start width p =
     (if ap_protected_mode p then protect_current_row_range start (start + width) p
      else clear_current_row_protection_range start (start + width) p)"

definition shift_current_row_protection_right :: "nat \<Rightarrow> nat \<Rightarrow> ansi_parser \<Rightarrow> ansi_parser" where
  "shift_current_row_protection_right start count p =
     (if count = 0 then p
      else shift_protected (\<lambda>r c. \<not> (r = ap_current_row p \<and> start \<le> c)) (\<lambda>r c. True)
             (\<lambda>(r, c). (r, c + count)) p)"

definition delete_current_row_protection_range :: "nat \<Rightarrow> nat \<Rightarrow> ansi_parser \<Rightarrow> ansi_parser" where
  "delete_current_row_protection_range start stop p =
     (if stop \<le> start then p
      else shift_protected (\<lambda>r c. r \<noteq> ap_current_row p \<or> c < start) (\<lambda>r c. stop \<le> c)
             (\<lambda>(r, c). (r, c - (stop - start))) p)"

definition shift_row_protection_right_within ::
    "nat \<Rightarrow> nat \<Rightarrow> nat \<Rightarrow> nat \<Rightarrow> ansi_parser \<Rightarrow> ansi_parser" where
  "shift_row_protection_right_within row start count width p =
     (if count = 0 \<or> width \<le> start then p
      else shift_protected (\<lambda>r c. r \<noteq> row \<or> c < start) (\<lambda>r c. c + count < width)
             (\<lambda>(r, c). (r, c + count)) p)"

definition delete_row_protection_range_within ::
    "nat \<Rightarrow> nat \<Rightarrow> nat \<Rightarrow> nat \<Rightarrow> ansi_parser \<Rightarrow> ansi_parser" where
  "delete_row_protection_range_within row start stop width p =
     (if stop \<le> start then p
      else shift_protected (\<lambda>r c. r \<noteq> row \<or> c < start)
             (\<lambda>r c. stop \<le> c \<and> c - (stop - start) < width)
             (\<lambda>(r, c). (r, c - (stop - start))) p)"

definition row_has_protection_in_range :: "nat \<Rightarrow> nat \<Rightarrow> nat \<Rightarrow> ansi_parser \<Rightarrow> bool" where
  "row_has_protection_in_range row start stop p \<longleftrightarrow>
     start < stop \<and> (\<exists>(r, c) \<in> ap_protected_cells p. r = row \<and> start \<le> c \<and> c < stop)"

definition current_row_has_protection_in_range :: "nat \<Rightarrow> nat \<Rightarrow> ansi_parser \<Rightarrow> bool" where
  "current_row_has_protection_in_range start stop p =
     row_has_protection_in_range (ap_current_row p) start stop p"

definition scroll_protection_up :: "scroll_region \<Rightarrow> nat \<Rightarrow> ansi_parser \<Rightarrow> ansi_parser" where
  "scroll_protection_up region count =
     shift_protected (\<lambda>r c. r < sr_top region \<or> sr_bottom region < r)
       (\<lambda>r c. sr_top region + count \<le> r) (\<lambda>(r, c). (r - count, c))"

definition scroll_protection_down :: "scroll_region \<Rightarrow> nat \<Rightarrow> ansi_parser \<Rightarrow> ansi_parser" where
  "scroll_protection_down region count =
     shift_protected (\<lambda>r c. r < sr_top region \<or> sr_bottom region < r)
       (\<lambda>r c. r < sr_bottom region + 1 - count) (\<lambda>(r, c). (r + count, c))"

definition insert_protection_rows_within :: "nat \<Rightarrow> nat \<Rightarrow> nat \<Rightarrow> ansi_parser \<Rightarrow> ansi_parser" where
  "insert_protection_rows_within start bottom count p =
     (if count = 0 \<or> bottom < start then p
      else shift_protected (\<lambda>r c. r < start \<or> bottom < r) (\<lambda>r c. r < bottom + 1 - count)
             (\<lambda>(r, c). (r + count, c)) p)"

definition delete_protection_rows_within :: "nat \<Rightarrow> nat \<Rightarrow> nat \<Rightarrow> ansi_parser \<Rightarrow> ansi_parser" where
  "delete_protection_rows_within start bottom count p =
     (if count = 0 \<or> bottom < start then p
      else shift_protected (\<lambda>r c. r < start \<or> bottom < r)
             (\<lambda>r c. min (start + count) (bottom + 1) \<le> r) (\<lambda>(r, c). (r - count, c)) p)"

definition insert_protection_rows_unbounded :: "nat \<Rightarrow> nat \<Rightarrow> ansi_parser \<Rightarrow> ansi_parser" where
  "insert_protection_rows_unbounded start count p =
     (if count = 0 then p
      else shift_protected (\<lambda>r c. r < start) (\<lambda>r c. True) (\<lambda>(r, c). (r + count, c)) p)"

definition delete_protection_rows_unbounded :: "nat \<Rightarrow> nat \<Rightarrow> ansi_parser \<Rightarrow> ansi_parser" where
  "delete_protection_rows_unbounded start count p =
     (if count = 0 then p
      else shift_protected (\<lambda>r c. r < start) (\<lambda>r c. start + count \<le> r) (\<lambda>(r, c). (r - count, c)) p)"

section \<open>Rows\<close>

text \<open>\<open>resize_with(n, || ScreenLine::plain(""))\<close> where it makes the lines more.\<close>

definition grow_lines :: "nat \<Rightarrow> screen_line list \<Rightarrow> screen_line list" where
  "grow_lines n ls = ls @ replicate (n - length ls) (line_plain [])"

text \<open>\<open>splice(at..at, ...)\<close> of blank lines and \<open>drain(from..to)\<close>.\<close>

definition insert_blank :: "nat \<Rightarrow> nat \<Rightarrow> 'a \<Rightarrow> 'a list \<Rightarrow> 'a list" where
  "insert_blank pos count blank xs = take pos xs @ replicate count blank @ drop pos xs"

definition drain :: "nat \<Rightarrow> nat \<Rightarrow> 'a list \<Rightarrow> 'a list" where
  "drain start stop xs = take start xs @ drop (max start stop) xs"

definition current_screen_line :: "ansi_parser \<Rightarrow> screen_line" where
  "current_screen_line p =
     \<lparr>sl_text = ap_line_text p, sl_spans = normalized_spans (ap_line_text p) (ap_line_spans p),
      sl_media = ap_line_media p, sl_side_effects = ap_line_side_effects p,
      sl_semantic_marks = ap_line_semantic_marks p, sl_wrapped = False\<rparr>"

definition current_line_is_visible :: "ansi_parser \<Rightarrow> bool" where
  "current_line_is_visible p \<longleftrightarrow>
     ap_line_text p \<noteq> [] \<or> ap_line_spans p \<noteq> [] \<or> ap_line_media p \<noteq> [] \<or>
     ap_line_side_effects p \<noteq> [] \<or> ap_line_semantic_marks p \<noteq> []"

definition store_current_line :: "ansi_parser \<Rightarrow> ansi_parser" where
  "store_current_line p =
     (if \<not> current_line_is_visible p \<and> length (ap_lines p) \<le> ap_current_row p then p
      else let line = current_screen_line p;
               ls = grow_lines (ap_current_row p) (ap_lines p)
           in if ap_current_row p = length ls then p\<lparr>ap_lines := ls @ [line]\<rparr>
              else p\<lparr>ap_lines := ls[ap_current_row p := line]\<rparr>)"

definition clear_current_line_contents_preserving_cursor :: "ansi_parser \<Rightarrow> ansi_parser" where
  "clear_current_line_contents_preserving_cursor p =
     (clear_row_protection (ap_current_row p) (clear_pending p))
       \<lparr>ap_line_text := [], ap_line_spans := [], ap_line_media := [],
        ap_line_side_effects := [], ap_line_semantic_marks := []\<rparr>"

definition clear_current_line :: "ansi_parser \<Rightarrow> ansi_parser" where
  "clear_current_line p =
     (clear_row_protection (ap_current_row p) (clear_pending p))
       \<lparr>ap_line_text := [], ap_line_spans := [], ap_line_media := [],
        ap_line_side_effects := [], ap_line_semantic_marks := [], ap_line_cursor_col := 0\<rparr>"

definition load_current_line :: "ansi_parser \<Rightarrow> ansi_parser" where
  "load_current_line p0 =
     (let p = clear_pending p0 in
      case vec_get (ap_lines p) (ap_current_row p) of
        Some line \<Rightarrow>
          p\<lparr>ap_line_text := sl_text line, ap_line_spans := sl_spans line,
            ap_line_media := sl_media line, ap_line_side_effects := sl_side_effects line,
            ap_line_semantic_marks := sl_semantic_marks line\<rparr>
      | None \<Rightarrow> clear_current_line_contents_preserving_cursor p)"

definition load_row :: "nat \<Rightarrow> ansi_parser \<Rightarrow> ansi_parser" where
  "load_row row p =
     (if row = ap_current_row p then p
      else load_current_line ((store_current_line p)\<lparr>ap_current_row := row\<rparr>))"

definition active_scroll_region :: "ansi_parser \<Rightarrow> scroll_region option" where
  "active_scroll_region p =
     (case ap_scroll_region p of
        None \<Rightarrow> None | Some region \<Rightarrow> if sr_top region < sr_bottom region then Some region else None)"

definition origin_home_row :: "ansi_parser \<Rightarrow> nat" where
  "origin_home_row p =
     (if ap_origin_mode p then (case active_scroll_region p of Some region \<Rightarrow> sr_top region | None \<Rightarrow> 0)
      else 0)"

definition absolute_row_for_position :: "nat \<Rightarrow> ansi_parser \<Rightarrow> nat" where
  "absolute_row_for_position row p =
     (case (if ap_origin_mode p then active_scroll_region p else None) of
        None \<Rightarrow> row
      | Some region \<Rightarrow> min (sr_top region + row) (sr_bottom region))"

definition move_vertical :: "nat \<Rightarrow> ansi_parser \<Rightarrow> ansi_parser" where
  "move_vertical row p = load_row (absolute_row_for_position row p) p"

definition move_relative_vertical :: "nat \<Rightarrow> ansi_parser \<Rightarrow> ansi_parser" where
  "move_relative_vertical row p =
     (case (if ap_origin_mode p then active_scroll_region p else None) of
        None \<Rightarrow> load_row row p
      | Some region \<Rightarrow> load_row (min (max row (sr_top region)) (sr_bottom region)) p)"

text \<open>The source returns an option that is always \<open>Some\<close>: there is at least one row.\<close>

definition operation_scroll_region :: "ansi_parser \<Rightarrow> scroll_region" where
  "operation_scroll_region p =
     (case active_scroll_region p of
        Some region \<Rightarrow> region
      | None \<Rightarrow> \<lparr>sr_top = 0, sr_bottom = max (length (ap_lines p)) (ap_current_row p + 1) - 1\<rparr>)"

definition active_horizontal_region :: "nat \<Rightarrow> ansi_parser \<Rightarrow> horizontal_region option" where
  "active_horizontal_region width p =
     (if width = 0 then None
      else let full = \<lparr>hr_left = 0, hr_right = width - 1\<rparr> in
        if \<not> ap_left_right_margin_mode p then Some full
        else (case ap_horizontal_margins p of
                None \<Rightarrow> Some full
              | Some margins \<Rightarrow>
                  let l = min (hr_left margins) (width - 1); r = min (hr_right margins) (width - 1)
                  in if l < r then Some \<lparr>hr_left = l, hr_right = r\<rparr> else Some full))"

definition ensure_region_rows :: "scroll_region \<Rightarrow> ansi_parser \<Rightarrow> ansi_parser" where
  "ensure_region_rows region p = p\<lparr>ap_lines := grow_lines (sr_bottom region + 1) (ap_lines p)\<rparr>"

definition scroll_region_up :: "scroll_region \<Rightarrow> nat \<Rightarrow> ansi_parser \<Rightarrow> ansi_parser" where
  "scroll_region_up region count0 p0 =
     (let p = ensure_region_rows region (store_current_line p0);
          count = min count0 (sr_bottom region - sr_top region + 1)
      in if count = 0 then p
         else let p1 = scroll_protection_up region count p;
                  ls = drain (sr_top region) (sr_top region + count) (ap_lines p1)
              in load_current_line
                   (p1\<lparr>ap_lines := insert_blank (sr_bottom region + 1 - count) count (line_plain []) ls\<rparr>))"

definition scroll_region_down :: "scroll_region \<Rightarrow> nat \<Rightarrow> ansi_parser \<Rightarrow> ansi_parser" where
  "scroll_region_down region count0 p0 =
     (let p = ensure_region_rows region (store_current_line p0);
          count = min count0 (sr_bottom region - sr_top region + 1)
      in if count = 0 then p
         else let p1 = scroll_protection_down region count p;
                  ls = insert_blank (sr_top region) count (line_plain []) (ap_lines p1);
                  drain_from = sr_bottom region + 1
              in load_current_line
                   (p1\<lparr>ap_lines := drain drain_from (min (drain_from + count) (length ls)) ls\<rparr>))"

definition push_index :: "ansi_parser \<Rightarrow> ansi_parser" where
  "push_index p0 =
     (let p = p0\<lparr>ap_pending_backspace_cell := None\<rparr> in
      case active_scroll_region p of
        Some region \<Rightarrow>
          if ap_current_row p = sr_bottom region
          then load_row (sr_bottom region) (scroll_region_up region 1 p)
          else load_current_line ((store_current_line p)\<lparr>ap_current_row := ap_current_row p + 1\<rparr>)
      | None \<Rightarrow> load_current_line ((store_current_line p)\<lparr>ap_current_row := ap_current_row p + 1\<rparr>))"

definition push_line_break :: "ansi_parser \<Rightarrow> ansi_parser" where
  "push_line_break p0 =
     (let p = p0\<lparr>ap_pending_backspace_cell := None\<rparr> in
      case active_scroll_region p of
        Some region \<Rightarrow>
          if ap_current_row p = sr_bottom region
          then (load_row (sr_bottom region) (scroll_region_up region 1 p))\<lparr>ap_line_cursor_col := 0\<rparr>
          else (load_current_line ((store_current_line p)\<lparr>ap_current_row := ap_current_row p + 1\<rparr>))
                 \<lparr>ap_line_cursor_col := 0\<rparr>
      | None \<Rightarrow>
          (load_current_line ((store_current_line p)\<lparr>ap_current_row := ap_current_row p + 1\<rparr>))
            \<lparr>ap_line_cursor_col := 0\<rparr>)"

section \<open>The two screen buffers\<close>

definition current_buffer_state :: "ansi_parser \<Rightarrow> screen_buffer_state" where
  "current_buffer_state p =
     \<lparr>ap_lines = ap_lines p, ap_line_text = ap_line_text p, ap_line_spans = ap_line_spans p,
      ap_line_media = ap_line_media p, ap_line_side_effects = ap_line_side_effects p,
      ap_line_semantic_marks = ap_line_semantic_marks p, ap_line_cursor_col = ap_line_cursor_col p,
      ap_current_row = ap_current_row p, ap_scroll_region = ap_scroll_region p,
      ap_origin_mode = ap_origin_mode p, ap_left_right_margin_mode = ap_left_right_margin_mode p,
      ap_horizontal_margins = ap_horizontal_margins p, ap_protected_cells = ap_protected_cells p,
      ap_cursor_touched = ap_cursor_touched p, ap_cursor_hidden = ap_cursor_hidden p,
      ap_cursor_shape = ap_cursor_shape p, ap_cursor_blinking = ap_cursor_blinking p\<rparr>"

definition restore_buffer_state :: "screen_buffer_state \<Rightarrow> ansi_parser \<Rightarrow> ansi_parser" where
  "restore_buffer_state s p =
     p\<lparr>ap_lines := ap_lines s, ap_line_text := ap_line_text s, ap_line_spans := ap_line_spans s,
       ap_line_media := ap_line_media s, ap_line_side_effects := ap_line_side_effects s,
       ap_line_semantic_marks := ap_line_semantic_marks s, ap_line_cursor_col := ap_line_cursor_col s,
       ap_current_row := ap_current_row s, ap_scroll_region := ap_scroll_region s,
       ap_origin_mode := ap_origin_mode s, ap_left_right_margin_mode := ap_left_right_margin_mode s,
       ap_horizontal_margins := ap_horizontal_margins s, ap_protected_cells := ap_protected_cells s,
       ap_cursor_touched := ap_cursor_touched s, ap_cursor_hidden := ap_cursor_hidden s,
       ap_cursor_shape := ap_cursor_shape s, ap_cursor_blinking := ap_cursor_blinking s,
       ap_pending_carriage_return := False, ap_pending_backspace_cell := None\<rparr>"

definition enter_alternate_screen :: "ansi_parser \<Rightarrow> ansi_parser" where
  "enter_alternate_screen p0 =
     (let p = (if ap_normal_screen_state p0 = None
               then (let q = store_current_line p0
                     in q\<lparr>ap_normal_screen_state := Some (current_buffer_state q)\<rparr>)
               else p0)
      in (clear_current_line
            (p\<lparr>ap_lines := [], ap_current_row := 0, ap_scroll_region := None, ap_origin_mode := False,
               ap_protected_cells := {}\<rparr>))\<lparr>ap_cursor_touched := True\<rparr>)"

definition leave_alternate_screen :: "ansi_parser \<Rightarrow> ansi_parser" where
  "leave_alternate_screen p =
     (case ap_normal_screen_state p of
        None \<Rightarrow> p
      | Some s \<Rightarrow>
          (restore_buffer_state s (p\<lparr>ap_normal_screen_state := None\<rparr>))\<lparr>ap_cursor_touched := True\<rparr>)"

section \<open>Text on the current line\<close>

definition erase_blank_cell :: "ansi_parser \<Rightarrow> styled_cell" where
  "erase_blank_cell p =
     styled_space_cell (style_default\<lparr>st_background := st_background (ap_current_style p)\<rparr>)"

definition append_line_text :: "rstr \<Rightarrow> screen_text_style \<Rightarrow> ansi_parser \<Rightarrow> ansi_parser" where
  "append_line_text s st p =
     p\<lparr>ap_line_text := ap_line_text p @ s, ap_line_spans := append_span s st (ap_line_spans p)\<rparr>"

definition current_line_cells :: "ansi_env \<Rightarrow> ansi_parser \<Rightarrow> styled_cell list" where
  "current_line_cells e p = line_cells (ae_width e) (ap_line_text p) (ap_line_spans p)"

definition rebuild_line_from_cells :: "styled_cell list \<Rightarrow> ansi_parser \<Rightarrow> ansi_parser" where
  "rebuild_line_from_cells cells p =
     p\<lparr>ap_line_text := rebuild_text cells, ap_line_spans := rebuild_spans cells\<rparr>"

definition projected_row_count :: "ansi_parser \<Rightarrow> nat" where
  "projected_row_count p = max (max (length (ap_lines p)) (ap_current_row p + 1)) 1"

definition projected_row_width :: "ansi_env \<Rightarrow> ansi_parser \<Rightarrow> nat \<Rightarrow> nat" where
  "projected_row_width e p row =
     (if row = ap_current_row p then length (current_line_cells e p)
      else case vec_get (ap_lines p) row of
             Some line \<Rightarrow> screen_line_cell_width (ae_width e) line | None \<Rightarrow> 0)"

definition max_projected_line_width :: "ansi_env \<Rightarrow> nat \<Rightarrow> nat \<Rightarrow> ansi_parser \<Rightarrow> nat option" where
  "max_projected_line_width e first_row last_row p =
     (let width = fold (\<lambda>row. max (projected_row_width e p row)) [first_row..<last_row + 1] 0
      in if 0 < width then Some width else None)"

text \<open>Where a visible character goes: insert mode, wide clusters it breaks, protection.\<close>

definition insert_mode_cells ::
    "nat \<Rightarrow> nat \<Rightarrow> styled_cell list \<times> ansi_parser \<Rightarrow> styled_cell list \<times> ansi_parser" where
  "insert_mode_cells write_start width = (\<lambda>(cells, p).
     if \<not> ap_insert_mode p then (cells, p)
     else let p1 = clear_current_row_wide_cluster_protection_at cells write_start p;
              p2 = shift_current_row_protection_right write_start width p1;
              cells1 = clear_wide_cluster_at write_start cells
          in (insert_blank (min write_start (length cells1)) width (styled_space_cell style_default) cells1,
              p2))"

definition clear_cell_for_write ::
    "nat \<Rightarrow> styled_cell list \<times> ansi_parser \<Rightarrow> styled_cell list \<times> ansi_parser" where
  "clear_cell_for_write col = (\<lambda>(cells, p).
     (clear_wide_cluster_at col cells, clear_current_row_wide_cluster_protection_at cells col p))"

definition push_text_with_style ::
    "ansi_env \<Rightarrow> nat \<Rightarrow> screen_text_style \<Rightarrow> ansi_parser \<Rightarrow> ansi_parser" where
  "push_text_with_style e ch st p =
     (let width = terminal_char_width (ae_width e) ch; cells = current_line_cells e p in
      if width = 0 then
        (case append_zero_width_to_last_visible_cell ch cells of
           Some cells1 \<Rightarrow> rebuild_line_from_cells cells1 p
         | None \<Rightarrow> append_line_text [ch] st p)
      else
        let write_start = ap_line_cursor_col p;
            cells1 = extend_cells_to_width_with_cell write_start (styled_space_cell style_default) cells;
            (cells2, p2) = fold clear_cell_for_write [write_start..<write_start + width]
                             (insert_mode_cells write_start width (cells1, p));
            p3 = write_current_row_protection write_start width p2;
            cells3 = put_cell write_start (styled_text_cell ch st width) cells2;
            cells4 = fold (\<lambda>col. put_cell col (styled_spacer_cell st))
                       [write_start + 1..<write_start + width] cells3
        in rebuild_line_from_cells cells4 (p3\<lparr>ap_line_cursor_col := ap_line_cursor_col p3 + width\<rparr>))"

definition take_overstrike_cell ::
    "nat \<Rightarrow> ansi_parser \<Rightarrow> (nat \<times> screen_text_style) option \<times> ansi_parser" where
  "take_overstrike_cell ch p =
     (case ap_pending_backspace_cell p of
        None \<Rightarrow> (None, p)
      | Some previous \<Rightarrow>
          (map_option (\<lambda>(c, st). (c, merge_missing_style_fields st (bc_style previous)))
             (cell_for_overstrike previous ch (ap_current_style p)),
           p\<lparr>ap_pending_backspace_cell := None\<rparr>))"

definition push_text :: "ansi_env \<Rightarrow> nat \<Rightarrow> ansi_parser \<Rightarrow> ansi_parser" where
  "push_text e ch p =
     (case take_overstrike_cell ch p of
        (Some (c, st), p1) \<Rightarrow> push_text_with_style e c st p1
      | (None, p1) \<Rightarrow> push_text_with_style e ch (ap_current_style p1) p1)"

definition push_tab :: "ansi_env \<Rightarrow> ansi_parser \<Rightarrow> ansi_parser" where
  "push_tab e p =
     (let spaces = next_terminal_tab_stop (ap_line_cursor_col p) (ap_default_tab_stops p)
            (ap_explicit_tab_stops p) (ap_cleared_default_tab_stops p) - ap_line_cursor_col p
      in ((\<lambda>p. push_text_with_style e 32 (ap_current_style p) p) ^^ spaces) p)"

definition pop_last_char :: "ansi_env \<Rightarrow> ansi_parser \<Rightarrow> backspace_cell option \<times> ansi_parser" where
  "pop_last_char e p =
     (let cells = current_line_cells e p in
      if cells = [] \<or> ap_line_cursor_col p = 0 then (None, p)
      else let target_col = min (ap_line_cursor_col p) (length cells) - 1;
               remove_start = cluster_start cells target_col;
               previous = cells ! remove_start;
               remove_to = min (remove_start + max (cl_columns previous) 1) (length cells);
               p1 = delete_current_row_protection_range remove_start remove_to p
           in (Some \<lparr>bc_text = cl_text previous, bc_style = cl_style previous\<rparr>,
               rebuild_line_from_cells (drain remove_start remove_to cells)
                 (p1\<lparr>ap_line_cursor_col := remove_start\<rparr>)))"

definition flush_pending_carriage_return_for_rewrite :: "ansi_parser \<Rightarrow> ansi_parser" where
  "flush_pending_carriage_return_for_rewrite p =
     (if \<not> ap_pending_carriage_return p then p
      else (clear_row_protection (ap_current_row p) (clear_pending p))
             \<lparr>ap_line_text := [], ap_line_spans := [], ap_line_cursor_col := 0\<rparr>)"

text \<open>\<open>flush_pending_carriage_return_before_control\<close> does nothing.\<close>

definition flush_pending_carriage_return_before_control :: "ansi_parser \<Rightarrow> ansi_parser" where
  "flush_pending_carriage_return_before_control p = p"

definition active_graphic_charset :: "ansi_parser \<Rightarrow> graphic_charset" where
  "active_graphic_charset p =
     (case ap_active_charset p of G0 \<Rightarrow> ap_g0_charset p | G1 \<Rightarrow> ap_g1_charset p)"

definition map_active_charset_byte :: "u8 \<Rightarrow> nat \<Rightarrow> ansi_parser \<Rightarrow> nat option" where
  "map_active_charset_byte b char_len p =
     (if char_len \<noteq> 1 \<or> active_graphic_charset p \<noteq> DecSpecialGraphics then None
      else dec_special_graphics_char b)"

definition current_col :: "ansi_parser \<Rightarrow> u16" where
  "current_col p = word_of_nat (min (ap_line_cursor_col p) 65535)"

section \<open>The surface at the end\<close>

definition finish_surface :: "rstr option \<Rightarrow> ansi_parser \<Rightarrow> screen_surface" where
  "finish_surface fallback_title p0 =
     (let p1 = p0\<lparr>ap_pending_carriage_return := False\<rparr>;
          p = (if current_line_is_visible p1 \<or> ap_current_row p1 < length (ap_lines p1)
               then store_current_line p1 else p1)
      in \<lparr>sf_title = or_else (ap_title p) fallback_title,
          sf_working_directory_uri = ap_working_directory_uri p,
          sf_user_variables = ap_user_variables p,
          sf_cursor = (if ap_cursor_touched p then
             Some \<lparr>sc_row = word_of_nat (min (ap_current_row p) 65535),
                   sc_col = word_of_nat (min (ap_line_cursor_col p) 65535),
                   sc_shape = (if ap_cursor_hidden p then Some CursorHidden else ap_cursor_shape p),
                   sc_blinking = (\<not> ap_cursor_hidden p \<and> ap_cursor_blinking p)\<rparr> else None),
          sf_palette = ap_palette p, sf_bell_count = ap_bell_count p, sf_progress = ap_progress p,
          sf_lines = ap_lines p\<rparr>)"

end
