(* ===== verification/Ansi_Csi.thy ===== *)
theory Ansi_Csi
  imports Ansi_Line
begin

text \<open>
  The operations behind the CSI and ESC sequences of \<open>ansi_screen.rs\<close> (crate
  \<open>terminal-projection\<close>): saving and restoring, SGR and colour stacks, erasing, cursor motion,
  tab stops, modes, margins, insertion and deletion of lines, characters and columns, and the
  rectangular area operations.
\<close>

definition max_sgr_stack_depth :: nat where "max_sgr_stack_depth = 32"
definition max_color_stack_depth :: nat where "max_color_stack_depth = 32"

section \<open>Saving and restoring\<close>

definition save_line_state :: "ansi_parser \<Rightarrow> ansi_parser" where
  "save_line_state p =
     (clear_pending p)\<lparr>ap_saved_line_state :=
        Some \<lparr>sv_row = ap_current_row p, sv_cursor_col = ap_line_cursor_col p,
              sv_cursor_touched = ap_cursor_touched p, sv_cursor_hidden = ap_cursor_hidden p,
              sv_cursor_shape = ap_cursor_shape p, sv_cursor_blinking = ap_cursor_blinking p,
              sv_style = ap_current_style p, sv_protected_mode = ap_protected_mode p,
              sv_g0_charset = ap_g0_charset p, sv_g1_charset = ap_g1_charset p,
              sv_active_charset = ap_active_charset p\<rparr>\<rparr>"

definition restore_line_state :: "ansi_parser \<Rightarrow> ansi_parser" where
  "restore_line_state p =
     (case ap_saved_line_state p of
        None \<Rightarrow> p
      | Some s \<Rightarrow>
          (load_row (sv_row s) (clear_pending p))
            \<lparr>ap_line_cursor_col := sv_cursor_col s, ap_cursor_touched := sv_cursor_touched s,
             ap_cursor_hidden := sv_cursor_hidden s, ap_cursor_shape := sv_cursor_shape s,
             ap_cursor_blinking := sv_cursor_blinking s, ap_current_style := sv_style s,
             ap_protected_mode := sv_protected_mode s, ap_g0_charset := sv_g0_charset s,
             ap_g1_charset := sv_g1_charset s, ap_active_charset := sv_active_charset s\<rparr>)"

definition saved_screen_cursor_state_of :: "ansi_parser \<Rightarrow> saved_screen_cursor_state" where
  "saved_screen_cursor_state_of p =
     \<lparr>sv_row = ap_current_row p, sv_cursor_col = ap_line_cursor_col p,
      sv_cursor_touched = ap_cursor_touched p, sv_cursor_hidden = ap_cursor_hidden p,
      sv_cursor_shape = ap_cursor_shape p, sv_cursor_blinking = ap_cursor_blinking p\<rparr>"

definition restore_screen_cursor_state :: "saved_screen_cursor_state \<Rightarrow> ansi_parser \<Rightarrow> ansi_parser" where
  "restore_screen_cursor_state s p =
     (load_row (sv_row s) p)
       \<lparr>ap_line_cursor_col := sv_cursor_col s, ap_cursor_touched := sv_cursor_touched s,
        ap_cursor_hidden := sv_cursor_hidden s, ap_cursor_shape := sv_cursor_shape s,
        ap_cursor_blinking := sv_cursor_blinking s\<rparr>"

definition drop_oldest :: "nat \<Rightarrow> 'a list \<Rightarrow> 'a list" where
  "drop_oldest limit xs = (if limit \<le> length xs then tl xs else xs)"

definition push_sgr_state :: "ansi_sgr_stack_attributes \<Rightarrow> ansi_parser \<Rightarrow> ansi_parser" where
  "push_sgr_state attributes p =
     p\<lparr>ap_sgr_stack := drop_oldest max_sgr_stack_depth (ap_sgr_stack p) @
         [\<lparr>ss_style = (ap_current_style p)\<lparr>st_hyperlink := None\<rparr>, ss_attributes = attributes\<rparr>]\<rparr>"

definition pop_sgr_state :: "ansi_parser \<Rightarrow> ansi_parser" where
  "pop_sgr_state p =
     (if ap_sgr_stack p = [] then p
      else let entry = last (ap_sgr_stack p);
               restored = restore_sgr_stack_attributes (ss_style entry) (ss_attributes entry) (ap_current_style p)
           in p\<lparr>ap_sgr_stack := butlast (ap_sgr_stack p),
                ap_current_style := restored\<lparr>st_hyperlink := st_hyperlink (ap_current_style p)\<rparr>\<rparr>)"

section \<open>The colour stack\<close>

definition current_color_palette_snapshot :: "ansi_parser \<Rightarrow> color_palette_snapshot" where
  "current_color_palette_snapshot p =
     \<lparr>cp_palette = ap_palette p, cp_dynamic_palette = ap_dynamic_palette p\<rparr>"

definition restore_color_palette_snapshot :: "color_palette_snapshot \<Rightarrow> ansi_parser \<Rightarrow> ansi_parser" where
  "restore_color_palette_snapshot s p =
     p\<lparr>ap_palette := cp_palette s, ap_dynamic_palette := cp_dynamic_palette s\<rparr>"

definition push_color_stack_snapshot :: "ansi_parser \<Rightarrow> ansi_parser" where
  "push_color_stack_snapshot p =
     p\<lparr>ap_color_stack := drop_oldest max_color_stack_depth (ap_color_stack p) @
         [current_color_palette_snapshot p]\<rparr>"

definition pop_color_stack_snapshot :: "ansi_parser \<Rightarrow> ansi_parser" where
  "pop_color_stack_snapshot p =
     (if ap_color_stack p = [] then p
      else restore_color_palette_snapshot (last (ap_color_stack p))
             (p\<lparr>ap_color_stack := butlast (ap_color_stack p)\<rparr>))"

definition store_color_stack_snapshot :: "nat \<Rightarrow> ansi_parser \<Rightarrow> ansi_parser" where
  "store_color_stack_snapshot slot p =
     (if slot = 0 \<or> max_color_stack_depth < slot then p
      else let stack = ap_color_stack p @
                 replicate (slot - length (ap_color_stack p))
                   \<lparr>cp_palette = palette_default, cp_dynamic_palette = fmempty\<rparr>
           in p\<lparr>ap_color_stack := stack[slot - 1 := current_color_palette_snapshot p]\<rparr>)"

definition restore_color_stack_snapshot :: "nat \<Rightarrow> ansi_parser \<Rightarrow> ansi_parser" where
  "restore_color_stack_snapshot slot p =
     (if slot = 0 then pop_color_stack_snapshot p
      else case vec_get (ap_color_stack p) (slot - 1) of
             Some s \<Rightarrow> restore_color_palette_snapshot s p | None \<Rightarrow> p)"

fun apply_color_stack_operation :: "terminal_xterm_color_stack_operation \<Rightarrow> ansi_parser \<Rightarrow> ansi_parser" where
  "apply_color_stack_operation XsPush p = push_color_stack_snapshot p"
| "apply_color_stack_operation XsPop p = pop_color_stack_snapshot p"
| "apply_color_stack_operation (XsStore slot) p = store_color_stack_snapshot slot p"
| "apply_color_stack_operation (XsRestore slot) p = restore_color_stack_snapshot slot p"
| "apply_color_stack_operation XsReport p = p"

definition apply_color_stack_operations ::
    "terminal_xterm_color_stack_operation list \<Rightarrow> ansi_parser \<Rightarrow> ansi_parser" where
  "apply_color_stack_operations ops p = fold apply_color_stack_operation ops p"

definition apply_color_stack_osc :: "u8 list \<Rightarrow> ansi_parser \<Rightarrow> ansi_parser" where
  "apply_color_stack_osc payload p =
     (case parse_terminal_kitty_color_stack payload of
        Some KsPush \<Rightarrow> push_color_stack_snapshot p
      | Some KsPop \<Rightarrow> pop_color_stack_snapshot p
      | None \<Rightarrow> p)"

section \<open>Erasing\<close>

definition apply_erase_in_line :: "ansi_env \<Rightarrow> u8 list \<Rightarrow> ansi_parser \<Rightarrow> ansi_parser" where
  "apply_erase_in_line e payload0 p0 =
     (let (selective, payload) = selective_csi_payload payload0;
          mode = unwrap_or 0 (first_csi_numeric_parameter payload)
      in if mode = 0 then
           (if ap_pending_carriage_return p0 \<and> \<not> selective then clear_current_line p0
            else let p = (if ap_pending_carriage_return p0
                          then (clear_pending p0)\<lparr>ap_line_cursor_col := 0\<rparr> else p0);
                     cells = current_line_cells e p;
                     truncate_at = min (ap_line_cursor_col p) (length cells)
                 in if selective \<and> current_row_has_protection_in_range truncate_at (length cells) p
                    then rebuild_line_from_cells
                           (erase_unprotected_cell_range truncate_at (length cells) (ap_current_row p)
                              (ap_protected_cells p) (erase_blank_cell p) cells) p
                    else rebuild_line_from_cells (take truncate_at (clear_wide_cluster_at truncate_at cells))
                           (clear_current_row_protection_from truncate_at p))
         else if mode = 1 then
           (let cells = current_line_cells e p0;
                stop = min (ap_line_cursor_col p0) (length cells - 1)
            in if selective
               then rebuild_line_from_cells
                      (erase_unprotected_cell_range 0 (stop + 1) (ap_current_row p0)
                         (ap_protected_cells p0) (erase_blank_cell p0) cells) p0
               else rebuild_line_from_cells (erase_cell_range 0 (stop + 1) (erase_blank_cell p0) cells)
                      (clear_current_row_protection_range 0 (stop + 1) p0))
         else if mode = 2 then
           (if \<not> selective then clear_current_line p0
            else let cells = current_line_cells e p0 in
              if current_row_has_protection_in_range 0 (length cells) p0
              then rebuild_line_from_cells
                     (erase_unprotected_cell_range 0 (length cells) (ap_current_row p0)
                        (ap_protected_cells p0) (erase_blank_cell p0) cells) p0
              else clear_current_line_contents_preserving_cursor p0)
         else p0)"

text \<open>An end of \<open>None\<close> is \<open>usize::MAX\<close>.\<close>

definition apply_selective_erase_current_line_range ::
    "ansi_env \<Rightarrow> nat \<Rightarrow> nat option \<Rightarrow> ansi_parser \<Rightarrow> ansi_parser" where
  "apply_selective_erase_current_line_range e start0 stop0 p =
     (let cells = current_line_cells e p;
          start = min start0 (length cells);
          stop = (case stop0 of None \<Rightarrow> length cells | Some n \<Rightarrow> min n (length cells))
      in if \<not> current_row_has_protection_in_range start stop p then
           (if start = 0 \<and> stop = length cells then clear_current_line_contents_preserving_cursor p
            else if start < stop
            then rebuild_line_from_cells (erase_cell_range start stop (erase_blank_cell p) cells) p
            else p)
         else rebuild_line_from_cells
                (erase_unprotected_cell_range start stop (ap_current_row p) (ap_protected_cells p)
                   (erase_blank_cell p) cells) p)"

definition erase_rows_selectively :: "ansi_env \<Rightarrow> nat list \<Rightarrow> ansi_parser \<Rightarrow> ansi_parser" where
  "erase_rows_selectively e rows p =
     fold (\<lambda>row p. apply_selective_erase_current_line_range e 0 None (load_row row p)) rows p"

definition apply_selective_erase_in_display :: "ansi_env \<Rightarrow> nat \<Rightarrow> ansi_parser \<Rightarrow> ansi_parser" where
  "apply_selective_erase_in_display e mode p0 =
     (let original = saved_screen_cursor_state_of p0;
          row = ap_current_row p0; col = ap_line_cursor_col p0;
          p = store_current_line p0;
          last_row = max (length (ap_lines p)) (row + 1) - 1;
          p1 = (if mode = 0 then
                  erase_rows_selectively e [row + 1..<last_row + 1]
                    (apply_selective_erase_current_line_range e col None (load_row row p))
                else if mode = 1 then
                  apply_selective_erase_current_line_range e 0 (Some (col + 1))
                    (load_row row (erase_rows_selectively e [0..<row] p))
                else if mode = 2 \<or> mode = 3 then erase_rows_selectively e [0..<last_row + 1] p
                else p)
      in restore_screen_cursor_state original p1)"

definition apply_erase_in_display :: "ansi_env \<Rightarrow> u8 list \<Rightarrow> ansi_parser \<Rightarrow> ansi_parser" where
  "apply_erase_in_display e payload0 p =
     (let (selective, payload) = selective_csi_payload payload0;
          mode = unwrap_or 0 (first_csi_numeric_parameter payload)
      in if selective then apply_selective_erase_in_display e mode p
         else if mode = 2 \<or> mode = 3 then
           clear_current_line (p\<lparr>ap_lines := [], ap_current_row := 0, ap_protected_cells := {}\<rparr>)
         else if mode = 0 \<and> ap_pending_carriage_return p then clear_current_line p
         else if mode = 0 then
           (let p1 = clear_rows_protection (ap_current_row (apply_erase_in_line e payload p) + 1) None
                       (apply_erase_in_line e payload p)
            in p1\<lparr>ap_lines := take (ap_current_row p1) (ap_lines p1)\<rparr>)
         else if mode = 1 then
           (let rows_to_clear = min (ap_current_row p) (length (ap_lines p));
                p1 = clear_rows_protection 0 (Some rows_to_clear) p
            in apply_erase_in_line e payload
                 (p1\<lparr>ap_lines := replicate rows_to_clear (line_plain []) @ drop rows_to_clear (ap_lines p1)\<rparr>))
         else p)"

definition apply_erase_characters :: "ansi_env \<Rightarrow> u8 list \<Rightarrow> ansi_parser \<Rightarrow> ansi_parser" where
  "apply_erase_characters e payload p =
     (let count = max (unwrap_or 1 (first_csi_numeric_parameter payload)) 1;
          cells = current_line_cells e p;
          erase_at = min (ap_line_cursor_col p) (length cells);
          erase_to = min (erase_at + count) (length cells)
      in rebuild_line_from_cells (erase_cell_range erase_at erase_to (erase_blank_cell p) cells)
           (clear_pending (clear_current_row_protection_range erase_at erase_to p)))"

section \<open>Cursor motion and tab stops\<close>

definition csi_count :: "u8 list \<Rightarrow> nat" where
  "csi_count payload = max (unwrap_or 1 (first_csi_numeric_parameter payload)) 1"

definition apply_horizontal_absolute :: "u8 list \<Rightarrow> ansi_parser \<Rightarrow> ansi_parser" where
  "apply_horizontal_absolute payload p =
     (clear_pending p)
       \<lparr>ap_line_cursor_col := unwrap_or 1 (first_csi_numeric_parameter payload) - 1,
        ap_cursor_touched := True\<rparr>"

definition apply_cursor_forward :: "u8 list \<Rightarrow> ansi_parser \<Rightarrow> ansi_parser" where
  "apply_cursor_forward payload p =
     (clear_pending p)\<lparr>ap_line_cursor_col := ap_line_cursor_col p + csi_count payload, ap_cursor_touched := True\<rparr>"

definition apply_cursor_backward :: "u8 list \<Rightarrow> ansi_parser \<Rightarrow> ansi_parser" where
  "apply_cursor_backward payload p =
     (clear_pending p)\<lparr>ap_line_cursor_col := ap_line_cursor_col p - csi_count payload, ap_cursor_touched := True\<rparr>"

definition next_stop :: "ansi_parser \<Rightarrow> nat \<Rightarrow> nat" where
  "next_stop p col =
     next_terminal_tab_stop col (ap_default_tab_stops p) (ap_explicit_tab_stops p) (ap_cleared_default_tab_stops p)"

definition previous_stop :: "ansi_parser \<Rightarrow> nat \<Rightarrow> nat" where
  "previous_stop p col =
     previous_terminal_tab_stop col (ap_default_tab_stops p) (ap_explicit_tab_stops p) (ap_cleared_default_tab_stops p)"

definition apply_cursor_forward_tabulation :: "u8 list \<Rightarrow> ansi_parser \<Rightarrow> ansi_parser" where
  "apply_cursor_forward_tabulation payload p =
     (clear_pending p)
       \<lparr>ap_line_cursor_col := (next_stop p ^^ csi_count payload) (ap_line_cursor_col p), ap_cursor_touched := True\<rparr>"

definition apply_cursor_backward_tabulation :: "u8 list \<Rightarrow> ansi_parser \<Rightarrow> ansi_parser" where
  "apply_cursor_backward_tabulation payload p =
     (clear_pending p)
       \<lparr>ap_line_cursor_col := (previous_stop p ^^ csi_count payload) (ap_line_cursor_col p), ap_cursor_touched := True\<rparr>"

definition set_tab_stop_at_cursor :: "ansi_parser \<Rightarrow> ansi_parser" where
  "set_tab_stop_at_cursor p =
     (clear_pending p)\<lparr>ap_explicit_tab_stops := List.insort_insert (ap_line_cursor_col p) (ap_explicit_tab_stops p)\<rparr>"

definition apply_tab_clear :: "u8 list \<Rightarrow> ansi_parser \<Rightarrow> ansi_parser" where
  "apply_tab_clear payload p =
     (let mode = unwrap_or 0 (first_csi_numeric_parameter payload); col = ap_line_cursor_col p in
      if mode = 0 then
        p\<lparr>ap_explicit_tab_stops := filter (\<lambda>c. c \<noteq> col) (ap_explicit_tab_stops p),
          ap_cleared_default_tab_stops :=
            (if is_default_terminal_tab_stop col
             then List.insort_insert col (ap_cleared_default_tab_stops p)
             else ap_cleared_default_tab_stops p)\<rparr>
      else if mode = 3 then
        p\<lparr>ap_default_tab_stops := False, ap_explicit_tab_stops := [], ap_cleared_default_tab_stops := []\<rparr>
      else p)"

definition apply_cursor_up :: "u8 list \<Rightarrow> ansi_parser \<Rightarrow> ansi_parser" where
  "apply_cursor_up payload p =
     (move_relative_vertical (ap_current_row p - csi_count payload) p)\<lparr>ap_cursor_touched := True\<rparr>"

definition apply_cursor_down :: "u8 list \<Rightarrow> ansi_parser \<Rightarrow> ansi_parser" where
  "apply_cursor_down payload p =
     (move_relative_vertical (ap_current_row p + csi_count payload) p)\<lparr>ap_cursor_touched := True\<rparr>"

definition apply_cursor_next_line :: "u8 list \<Rightarrow> ansi_parser \<Rightarrow> ansi_parser" where
  "apply_cursor_next_line payload p = (apply_cursor_down payload p)\<lparr>ap_line_cursor_col := 0\<rparr>"

definition apply_cursor_previous_line :: "u8 list \<Rightarrow> ansi_parser \<Rightarrow> ansi_parser" where
  "apply_cursor_previous_line payload p = (apply_cursor_up payload p)\<lparr>ap_line_cursor_col := 0\<rparr>"

definition apply_cursor_position :: "u8 list \<Rightarrow> ansi_parser \<Rightarrow> ansi_parser" where
  "apply_cursor_position payload p =
     (let (row, col) = first_two_csi_numeric_parameters payload in
      (clear_pending (move_vertical (max (unwrap_or 1 row) 1 - 1) p))
        \<lparr>ap_line_cursor_col := max (unwrap_or 1 col) 1 - 1, ap_cursor_touched := True\<rparr>)"

definition apply_vertical_absolute :: "u8 list \<Rightarrow> ansi_parser \<Rightarrow> ansi_parser" where
  "apply_vertical_absolute payload p = (move_vertical (csi_count payload - 1) p)\<lparr>ap_cursor_touched := True\<rparr>"

definition apply_reverse_index :: "ansi_parser \<Rightarrow> ansi_parser" where
  "apply_reverse_index p =
     (let plain = (if ap_current_row p = 0 then p
                   else (load_row (ap_current_row p - 1) p)\<lparr>ap_cursor_touched := True\<rparr>) in
      case active_scroll_region p of
        Some region \<Rightarrow>
          if ap_current_row p = sr_top region
          then (load_row (sr_top region) (scroll_region_down region 1 p))\<lparr>ap_cursor_touched := True\<rparr>
          else plain
      | None \<Rightarrow> plain)"

section \<open>Modes and margins\<close>

definition apply_mode_set :: "u8 list \<Rightarrow> ansi_parser \<Rightarrow> ansi_parser" where
  "apply_mode_set payload p0 =
     (let p1 = (if 4 \<in> set (csi_modes payload) then p0\<lparr>ap_insert_mode := True\<rparr> else p0);
          modes = set (csi_private_modes payload);
          p2 = (if 12 \<in> modes then p1\<lparr>ap_cursor_blinking := True, ap_cursor_touched := True\<rparr> else p1);
          p3 = (if 25 \<in> modes then p2\<lparr>ap_cursor_hidden := False, ap_cursor_touched := True\<rparr> else p2);
          p4 = (if 6 \<in> modes
                then (let q = p3\<lparr>ap_origin_mode := True\<rparr>
                      in (load_row (origin_home_row q) q)\<lparr>ap_line_cursor_col := 0, ap_cursor_touched := True\<rparr>)
                else p3);
          p5 = (if 69 \<in> modes then p4\<lparr>ap_left_right_margin_mode := True\<rparr> else p4);
          p6 = (if 1048 \<in> modes then save_line_state p5 else p5)
      in if 47 \<in> modes \<or> 1047 \<in> modes \<or> 1049 \<in> modes then enter_alternate_screen p6 else p6)"

definition apply_mode_reset :: "u8 list \<Rightarrow> ansi_parser \<Rightarrow> ansi_parser" where
  "apply_mode_reset payload p0 =
     (let p1 = (if 4 \<in> set (csi_modes payload) then p0\<lparr>ap_insert_mode := False\<rparr> else p0);
          modes = set (csi_private_modes payload);
          p2 = (if 12 \<in> modes then p1\<lparr>ap_cursor_blinking := False, ap_cursor_touched := True\<rparr> else p1);
          p3 = (if 25 \<in> modes then p2\<lparr>ap_cursor_hidden := True, ap_cursor_touched := True\<rparr> else p2);
          p4 = (if 6 \<in> modes
                then (load_row 0 (p3\<lparr>ap_origin_mode := False\<rparr>))
                       \<lparr>ap_line_cursor_col := 0, ap_cursor_touched := True\<rparr>
                else p3);
          p5 = (if 69 \<in> modes
                then p4\<lparr>ap_left_right_margin_mode := False, ap_horizontal_margins := None\<rparr> else p4);
          p6 = (if 1048 \<in> modes then restore_line_state p5 else p5)
      in if 47 \<in> modes \<or> 1047 \<in> modes \<or> 1049 \<in> modes then leave_alternate_screen p6 else p6)"

definition apply_soft_terminal_reset :: "ansi_parser \<Rightarrow> ansi_parser" where
  "apply_soft_terminal_reset p =
     (clear_pending p)
       \<lparr>ap_insert_mode := False, ap_scroll_region := None, ap_origin_mode := False,
        ap_left_right_margin_mode := False, ap_horizontal_margins := None, ap_protected_mode := False,
        ap_current_style := style_default, ap_sgr_stack := [], ap_cursor_hidden := False,
        ap_cursor_shape := None, ap_cursor_blinking := False, ap_g0_charset := CharsetAscii,
        ap_g1_charset := CharsetAscii, ap_active_charset := G0, ap_saved_line_state := None\<rparr>"

definition reset_terminal_state :: "ansi_parser \<Rightarrow> ansi_parser" where
  "reset_terminal_state p =
     (clear_current_line
        (p\<lparr>ap_lines := [], ap_current_row := 0, ap_cursor_touched := False, ap_cursor_hidden := False,
           ap_cursor_shape := None, ap_cursor_blinking := False\<rparr>))
       \<lparr>ap_current_style := style_default, ap_sgr_stack := [], ap_title := None,
        ap_working_directory_uri := None, ap_user_variables := fmempty,
        ap_palette := palette_default, ap_dynamic_palette := fmempty, ap_color_stack := [],
        ap_bell_count := 0, ap_progress := progress_default, ap_scroll_region := None,
        ap_origin_mode := False, ap_left_right_margin_mode := False, ap_horizontal_margins := None,
        ap_protected_mode := False, ap_protected_cells := {}, ap_insert_mode := False,
        ap_default_tab_stops := True, ap_explicit_tab_stops := [], ap_cleared_default_tab_stops := [],
        ap_g0_charset := CharsetAscii, ap_g1_charset := CharsetAscii, ap_active_charset := G0,
        ap_saved_line_state := None, ap_normal_screen_state := None, ap_kitty_chunk := None,
        ap_iterm2_multipart_file := None\<rparr>"

definition apply_cursor_shape :: "u8 list \<Rightarrow> ansi_parser \<Rightarrow> ansi_parser" where
  "apply_cursor_shape payload p =
     (case cursor_shape_from_decscusr (unwrap_or 0 (first_csi_numeric_parameter payload)) of
        None \<Rightarrow> p
      | Some (shape, blinking) \<Rightarrow>
          p\<lparr>ap_cursor_shape := Some shape, ap_cursor_blinking := blinking, ap_cursor_touched := True\<rparr>)"

definition apply_character_protection :: "u8 list \<Rightarrow> ansi_parser \<Rightarrow> ansi_parser" where
  "apply_character_protection payload p =
     p\<lparr>ap_protected_mode := (unwrap_or 0 (first_csi_numeric_parameter payload) = 1)\<rparr>"

definition set_horizontal_margins :: "nat \<Rightarrow> nat \<Rightarrow> ansi_parser \<Rightarrow> ansi_parser" where
  "set_horizontal_margins l r p =
     (if r \<le> l then p
      else let q = p\<lparr>ap_horizontal_margins := Some \<lparr>hr_left = l, hr_right = r\<rparr>\<rparr>
           in (clear_pending (load_row (origin_home_row q) q))
                \<lparr>ap_line_cursor_col := l, ap_cursor_touched := True\<rparr>)"

definition apply_horizontal_margins :: "ansi_env \<Rightarrow> u8 list \<Rightarrow> ansi_parser \<Rightarrow> ansi_parser" where
  "apply_horizontal_margins e payload p =
     (if \<not> ap_left_right_margin_mode p then p
      else let region = operation_scroll_region p;
               col = ap_line_cursor_col p;
               projected_width =
                 max (max (unwrap_or (col + 1)
                             (max_projected_line_width e (sr_top region) (sr_bottom region) p)) (col + 1)) 1;
               (l0, r0) = first_two_csi_numeric_parameters payload;
               l = min (unwrap_or 1 l0 - 1) (projected_width - 1);
               r1 = unwrap_or (min projected_width 65535) r0;
               r = (if r1 = 0 then projected_width - 1 else min (r1 - 1) (projected_width - 1))
           in set_horizontal_margins l r p)"

definition set_scroll_region :: "nat \<Rightarrow> nat \<Rightarrow> ansi_parser \<Rightarrow> ansi_parser" where
  "set_scroll_region t b p =
     (if t < b
      then ensure_region_rows \<lparr>sr_top = t, sr_bottom = b\<rparr>
             (p\<lparr>ap_scroll_region := Some \<lparr>sr_top = t, sr_bottom = b\<rparr>\<rparr>)
      else p\<lparr>ap_scroll_region := None\<rparr>)"

definition apply_scroll_region :: "u8 list \<Rightarrow> ansi_parser \<Rightarrow> ansi_parser" where
  "apply_scroll_region payload p =
     (let (t0, b0) = first_two_csi_numeric_parameters payload;
          q = (if t0 = None \<and> b0 = None then p\<lparr>ap_scroll_region := None\<rparr>
               else let t = max (unwrap_or 1 t0) 1 - 1;
                        default_bottom = min (projected_row_count p) 65535;
                        b = max (unwrap_or (max default_bottom 1) b0) 1 - 1
                    in set_scroll_region t b p)
      in (load_row (origin_home_row q) q)\<lparr>ap_line_cursor_col := 0, ap_cursor_touched := True\<rparr>)"

section \<open>Lines\<close>

definition apply_insert_lines :: "u8 list \<Rightarrow> ansi_parser \<Rightarrow> ansi_parser" where
  "apply_insert_lines payload p0 =
     (let row = ap_current_row p0 in
      case active_scroll_region p0 of
        Some region \<Rightarrow>
          if row < sr_top region \<or> sr_bottom region < row then p0
          else let p = ensure_region_rows region (store_current_line p0);
                   count = min (csi_count payload) (sr_bottom region - row + 1);
                   p1 = insert_protection_rows_within row (sr_bottom region) count p;
                   ls = insert_blank row count (line_plain []) (ap_lines p1);
                   drain_from = sr_bottom region + 1
               in load_current_line
                    (p1\<lparr>ap_lines := drain drain_from (min (drain_from + count) (length ls)) ls\<rparr>)
      | None \<Rightarrow>
          let p = store_current_line p0;
              p1 = insert_protection_rows_unbounded row (csi_count payload)
                     (p\<lparr>ap_lines := grow_lines row (ap_lines p)\<rparr>)
          in load_current_line
               (p1\<lparr>ap_lines := insert_blank row (csi_count payload) (line_plain []) (ap_lines p1)\<rparr>))"

definition apply_delete_lines :: "u8 list \<Rightarrow> ansi_parser \<Rightarrow> ansi_parser" where
  "apply_delete_lines payload p0 =
     (let row = ap_current_row p0 in
      case active_scroll_region p0 of
        Some region \<Rightarrow>
          if row < sr_top region \<or> sr_bottom region < row then p0
          else let p = ensure_region_rows region (store_current_line p0);
                   count = min (csi_count payload) (sr_bottom region - row + 1);
                   p1 = delete_protection_rows_within row (sr_bottom region) count p;
                   ls = drain row (row + count) (ap_lines p1)
               in load_current_line
                    (p1\<lparr>ap_lines := insert_blank (sr_bottom region + 1 - count) count (line_plain []) ls\<rparr>)
      | None \<Rightarrow>
          let p = store_current_line p0 in
          if length (ap_lines p) \<le> row then load_current_line p
          else let delete_to = min (row + csi_count payload) (length (ap_lines p));
                   p1 = delete_protection_rows_unbounded row (delete_to - row) p
               in load_current_line
                    (p1\<lparr>ap_lines := grow_lines (length (ap_lines p)) (drain row delete_to (ap_lines p1))\<rparr>))"

definition apply_scroll_up :: "u8 list \<Rightarrow> ansi_parser \<Rightarrow> ansi_parser" where
  "apply_scroll_up payload p = scroll_region_up (operation_scroll_region p) (csi_count payload) p"

definition apply_scroll_down :: "u8 list \<Rightarrow> ansi_parser \<Rightarrow> ansi_parser" where
  "apply_scroll_down payload p = scroll_region_down (operation_scroll_region p) (csi_count payload) p"

section \<open>Characters\<close>

definition apply_insert_characters :: "ansi_env \<Rightarrow> u8 list \<Rightarrow> ansi_parser \<Rightarrow> ansi_parser" where
  "apply_insert_characters e payload p =
     (let count = csi_count payload;
          cells = current_line_cells e p;
          insert_at = min (ap_line_cursor_col p) (length cells);
          p1 = shift_current_row_protection_right insert_at count
                 (clear_current_row_wide_cluster_protection_at cells insert_at p)
      in rebuild_line_from_cells
           (insert_blank insert_at count (erase_blank_cell p1) (clear_wide_cluster_at insert_at cells))
           (clear_pending p1))"

definition apply_delete_characters :: "ansi_env \<Rightarrow> u8 list \<Rightarrow> ansi_parser \<Rightarrow> ansi_parser" where
  "apply_delete_characters e payload p =
     (let cells = current_line_cells e p;
          delete_at = min (ap_line_cursor_col p) (length cells);
          delete_to = min (delete_at + csi_count payload) (length cells);
          p1 = delete_current_row_protection_range delete_at delete_to
                 (clear_current_row_wide_cluster_protection_at cells (delete_to - 1)
                    (clear_current_row_wide_cluster_protection_at cells delete_at p));
          cells1 = clear_wide_cluster_at (delete_to - 1) (clear_wide_cluster_at delete_at cells)
      in rebuild_line_from_cells (drain delete_at delete_to cells1) (clear_pending p1))"

definition repeat_cell :: "styled_cell \<Rightarrow> styled_cell list \<times> ansi_parser \<Rightarrow> styled_cell list \<times> ansi_parser" where
  "repeat_cell repeated = (\<lambda>(cells, p).
     (let width = max (cl_columns repeated) 1; col = ap_line_cursor_col p in
      (write_styled_cell_at col repeated cells,
       (write_current_row_protection col width p)\<lparr>ap_line_cursor_col := col + width\<rparr>)))"

definition apply_repeat_preceding_character :: "ansi_env \<Rightarrow> u8 list \<Rightarrow> ansi_parser \<Rightarrow> ansi_parser" where
  "apply_repeat_preceding_character e payload p =
     (let cells = current_line_cells e p in
      case repeatable_cell_before_cursor cells (ap_line_cursor_col p) of
        None \<Rightarrow> p
      | Some repeated \<Rightarrow>
          (case (repeat_cell repeated ^^ csi_count payload)
                  (extend_cells_to_width_with_cell (ap_line_cursor_col p) (styled_space_cell style_default) cells, p) of
             (cells1, p1) \<Rightarrow> rebuild_line_from_cells cells1 (clear_pending p1)))"

section \<open>Columns\<close>

datatype column_edit_mode = ColInsert | ColDelete | ColScrollLeft | ColScrollRight

definition column_edit_cells ::
    "column_edit_mode \<Rightarrow> nat \<Rightarrow> nat \<Rightarrow> nat \<Rightarrow> styled_cell \<Rightarrow> styled_cell list \<Rightarrow> styled_cell list" where
  "column_edit_cells mode start_col end_col count blank cells =
     (if mode = ColInsert \<or> mode = ColScrollRight then
        (let cells1 = clear_wide_cluster_at_with_cell blank (end_col - count - 1) cells in
         take start_col cells1 @ replicate count blank @
         take (end_col - (start_col + count)) (drop start_col cells1) @ drop end_col cells1)
      else insert_blank (end_col - count) count blank
             (drain start_col (start_col + count)
                (clear_wide_cluster_at_with_cell blank (start_col + count) cells)))"

definition column_edit_protection ::
    "column_edit_mode \<Rightarrow> nat \<Rightarrow> nat \<Rightarrow> nat \<Rightarrow> nat \<Rightarrow> ansi_parser \<Rightarrow> ansi_parser" where
  "column_edit_protection mode row start_col end_col count p =
     (if mode = ColInsert \<or> mode = ColScrollRight
      then clear_row_protection_range row start_col (start_col + count)
             (shift_row_protection_right_within row start_col count end_col p)
      else delete_row_protection_range_within row start_col (start_col + count) end_col p)"

definition column_edit_row ::
    "ansi_env \<Rightarrow> column_edit_mode \<Rightarrow> nat \<Rightarrow> nat \<Rightarrow> nat \<Rightarrow> nat \<Rightarrow> styled_cell \<Rightarrow> nat \<Rightarrow> ansi_parser \<Rightarrow> ansi_parser" where
  "column_edit_row e mode start_col end_col count width blank row p0 =
     (let p = load_row row p0;
          cells = clear_wide_cluster_at_with_cell blank start_col
                    (extend_cells_to_width_with_cell width blank (current_line_cells e p))
      in rebuild_line_from_cells (column_edit_cells mode start_col end_col count blank cells)
           (column_edit_protection mode row start_col end_col count p))"

definition apply_terminal_column_edit :: "ansi_env \<Rightarrow> nat \<Rightarrow> column_edit_mode \<Rightarrow> ansi_parser \<Rightarrow> ansi_parser" where
  "apply_terminal_column_edit e count0 mode p0 =
     (let region = operation_scroll_region p0;
          cursor_scoped = (mode = ColInsert \<or> mode = ColDelete);
          row = ap_current_row p0; col = ap_line_cursor_col p0
      in if cursor_scoped \<and> (row < sr_top region \<or> sr_bottom region < row) then p0
         else
           let p = ensure_region_rows region (store_current_line p0);
               unchanged = (load_row row p)\<lparr>ap_line_cursor_col := col\<rparr>;
               minimum_width = (if cursor_scoped then col + count0 else count0);
               terminal_width = max (unwrap_or minimum_width
                   (max_projected_line_width e (sr_top region) (sr_bottom region) p)) minimum_width
           in (case active_horizontal_region terminal_width p of
                 None \<Rightarrow> unchanged
               | Some h \<Rightarrow>
                   if cursor_scoped \<and> (col < hr_left h \<or> hr_right h < col) then unchanged
                   else let start_col = (if cursor_scoped then col else hr_left h);
                            end_col = hr_right h + 1
                        in if end_col \<le> start_col \<or> terminal_width < end_col then unchanged
                           else let count = min count0 (end_col - start_col);
                                    blank = erase_blank_cell p
                                in if count = 0 then unchanged
                                   else (clear_pending (load_row row
                                          (fold (column_edit_row e mode start_col end_col count terminal_width blank)
                                             [sr_top region..<sr_bottom region + 1] p)))
                                         \<lparr>ap_line_cursor_col := col, ap_cursor_touched := True\<rparr>))"

definition apply_insert_columns :: "ansi_env \<Rightarrow> u8 list \<Rightarrow> ansi_parser \<Rightarrow> ansi_parser" where
  "apply_insert_columns e payload = apply_terminal_column_edit e (csi_count payload) ColInsert"
definition apply_delete_columns :: "ansi_env \<Rightarrow> u8 list \<Rightarrow> ansi_parser \<Rightarrow> ansi_parser" where
  "apply_delete_columns e payload = apply_terminal_column_edit e (csi_count payload) ColDelete"
definition apply_scroll_left_columns :: "ansi_env \<Rightarrow> u8 list \<Rightarrow> ansi_parser \<Rightarrow> ansi_parser" where
  "apply_scroll_left_columns e payload = apply_terminal_column_edit e (csi_count payload) ColScrollLeft"
definition apply_scroll_right_columns :: "ansi_env \<Rightarrow> u8 list \<Rightarrow> ansi_parser \<Rightarrow> ansi_parser" where
  "apply_scroll_right_columns e payload = apply_terminal_column_edit e (csi_count payload) ColScrollRight"

definition apply_back_index :: "ansi_env \<Rightarrow> ansi_parser \<Rightarrow> ansi_parser" where
  "apply_back_index e p =
     (let region = operation_scroll_region p; col = ap_line_cursor_col p;
          width = max (unwrap_or (col + 1)
                    (max_projected_line_width e (sr_top region) (sr_bottom region) p)) (col + 1);
          left_margin = (case active_horizontal_region width p of Some h \<Rightarrow> hr_left h | None \<Rightarrow> 0)
      in if left_margin < col \<or> (col < left_margin \<and> 0 < col)
         then (clear_pending p)\<lparr>ap_line_cursor_col := col - 1, ap_cursor_touched := True\<rparr>
         else apply_terminal_column_edit e 1 ColScrollRight p)"

definition apply_forward_index :: "ansi_env \<Rightarrow> ansi_parser \<Rightarrow> ansi_parser" where
  "apply_forward_index e p =
     (let region = operation_scroll_region p; col = ap_line_cursor_col p;
          terminal_width = max (unwrap_or (col + 1)
                    (max_projected_line_width e (sr_top region) (sr_bottom region) p)) (col + 1);
          right_margin = (case active_horizontal_region terminal_width p of
                            Some h \<Rightarrow> hr_right h | None \<Rightarrow> terminal_width - 1)
      in if col \<noteq> right_margin
         then (clear_pending p)\<lparr>ap_line_cursor_col := col + 1, ap_cursor_touched := True\<rparr>
         else apply_terminal_column_edit e 1 ColScrollLeft p)"

section \<open>Rectangular areas\<close>

record resolved_rectangular_area =
  rr_top :: nat
  rr_bottom :: nat
  rr_left :: nat
  rr_right :: nat

text \<open>The limits of an area; a missing bottom is the number of rows \<open>as u16\<close>.\<close>

definition area_bottom :: "u16 option \<Rightarrow> ansi_parser \<Rightarrow> nat" where
  "area_bottom bottom p = unat (unwrap_or (word_of_nat (projected_row_count p)) bottom) - 1"

definition area_right :: "ansi_env \<Rightarrow> u16 option \<Rightarrow> u16 \<Rightarrow> nat \<Rightarrow> nat \<Rightarrow> ansi_parser \<Rightarrow> nat" where
  "area_right e right left top_row bottom_row p =
     max (unwrap_or (unat left)
            (or_else (map_option unat right) (max_projected_line_width e top_row bottom_row p)))
         (unat left) - 1"

definition resolve_rectangular_area ::
    "ansi_env \<Rightarrow> terminal_rectangular_area \<Rightarrow> ansi_parser \<Rightarrow> resolved_rectangular_area option" where
  "resolve_rectangular_area e request p =
     (let t = unat (ar_top request) - 1; b = area_bottom (ar_bottom request) p;
          l = unat (ar_left request) - 1; r = area_right e (ar_right request) (ar_left request) t b p
      in if t \<le> b \<and> l \<le> r then Some \<lparr>rr_top = t, rr_bottom = b, rr_left = l, rr_right = r\<rparr> else None)"

definition rectangular_attributes_row ::
    "ansi_env \<Rightarrow> rectangular_attribute_request \<Rightarrow> rectangular_attribute_mode \<Rightarrow> nat \<Rightarrow> nat \<Rightarrow> nat
     \<Rightarrow> ansi_parser \<Rightarrow> ansi_parser" where
  "rectangular_attributes_row e request mode l r row p0 =
     (let p = load_row row p0;
          cells0 = current_line_cells e p;
          cells = (if ra_right request \<noteq> None
                   then extend_cells_to_width_with_cell (r + 1) (styled_space_cell style_default) cells0
                   else cells0);
          stop = min (r + 1) (length cells)
      in if l < stop
         then rebuild_line_from_cells
                (fold (apply_rectangular_attribute_to_cell (ra_actions request) mode) [l..<stop] cells) p
         else p)"

definition apply_rectangular_attributes ::
    "ansi_env \<Rightarrow> u8 list \<Rightarrow> rectangular_attribute_mode \<Rightarrow> ansi_parser \<Rightarrow> ansi_parser" where
  "apply_rectangular_attributes e payload mode p =
     (case parse_terminal_rectangular_attribute_request payload of
        None \<Rightarrow> p
      | Some request \<Rightarrow>
          let t = unat (ra_top request) - 1; b = area_bottom (ra_bottom request) p;
              l = unat (ra_left request) - 1;
              r = area_right e (ra_right request) (ra_left request) t b p
          in restore_screen_cursor_state (saved_screen_cursor_state_of p)
               (fold (rectangular_attributes_row e request mode l r) [t..<b + 1] (store_current_line p)))"

definition fill_row ::
    "ansi_env \<Rightarrow> styled_cell \<Rightarrow> resolved_rectangular_area \<Rightarrow> nat \<Rightarrow> ansi_parser \<Rightarrow> ansi_parser" where
  "fill_row e fill_cell area row p0 =
     (let p = load_row row p0;
          cells = extend_cells_to_width_with_cell (rr_right area + 1) (styled_space_cell style_default)
                    (current_line_cells e p)
      in (case fold (\<lambda>col (cells, p). (write_styled_cell_at col fill_cell cells,
                                       write_current_row_protection col 1 p))
                 [rr_left area..<rr_right area + 1] (cells, p) of
            (cells1, p1) \<Rightarrow> rebuild_line_from_cells cells1 p1))"

definition apply_fill_rectangular_area :: "ansi_env \<Rightarrow> u8 list \<Rightarrow> ansi_parser \<Rightarrow> ansi_parser" where
  "apply_fill_rectangular_area e payload p =
     (case parse_terminal_rectangular_fill_request payload of
        None \<Rightarrow> p
      | Some request \<Rightarrow>
          let ch = unat (rf_codepoint request) in
          if \<not> is_scalar ch \<or> is_control ch \<or> terminal_char_width (ae_width e) ch \<noteq> 1 then p
          else (case resolve_rectangular_area e (rf_area request) p of
                  None \<Rightarrow> p
                | Some area \<Rightarrow>
                    restore_screen_cursor_state (saved_screen_cursor_state_of p)
                      (fold (fill_row e (styled_text_cell ch (ap_current_style p) 1) area)
                         [rr_top area..<rr_bottom area + 1] (store_current_line p))))"

definition erase_area_row ::
    "ansi_env \<Rightarrow> bool \<Rightarrow> resolved_rectangular_area \<Rightarrow> nat \<Rightarrow> ansi_parser \<Rightarrow> ansi_parser" where
  "erase_area_row e selective area row p0 =
     (let p = load_row row p0;
          blank = erase_blank_cell p;
          cells0 = current_line_cells e p;
          cells = (if selective then cells0 else extend_cells_to_width_with_cell (rr_right area + 1) blank cells0);
          stop = min (rr_right area + 1) (length cells)
      in if stop \<le> rr_left area then p
         else if selective
         then rebuild_line_from_cells
                (erase_unprotected_cell_range (rr_left area) stop row (ap_protected_cells p) blank cells) p
         else rebuild_line_from_cells (erase_cell_range (rr_left area) stop blank cells)
                (clear_current_row_protection_range (rr_left area) stop p))"

definition apply_erase_rectangular_area :: "ansi_env \<Rightarrow> u8 list \<Rightarrow> bool \<Rightarrow> ansi_parser \<Rightarrow> ansi_parser" where
  "apply_erase_rectangular_area e payload selective p =
     (case parse_terminal_rectangular_area payload of
        None \<Rightarrow> p
      | Some request \<Rightarrow>
          (case resolve_rectangular_area e request p of
             None \<Rightarrow> p
           | Some area \<Rightarrow>
               restore_screen_cursor_state (saved_screen_cursor_state_of p)
                 (fold (erase_area_row e selective area) [rr_top area..<rr_bottom area + 1]
                    (store_current_line p))))"

definition copy_area_row ::
    "ansi_env \<Rightarrow> resolved_rectangular_area \<Rightarrow> nat \<Rightarrow> rectangular_copy_cell list list \<times> ansi_parser
     \<Rightarrow> rectangular_copy_cell list list \<times> ansi_parser" where
  "copy_area_row e source row = (\<lambda>(snapshot, p0).
     (let p = load_row row p0;
          cells = current_line_cells e p;
          copied = map (\<lambda>col.
             \<lparr>rc_cell = unwrap_or (styled_space_cell style_default) (vec_get cells col),
              rc_protected = ((row, col) \<in> ap_protected_cells p)\<rparr>)
             [rr_left source..<rr_left source + (rr_right source - rr_left source + 1)]
      in (snapshot @ [copied], p)))"

definition copy_rectangular_area_snapshot ::
    "ansi_env \<Rightarrow> resolved_rectangular_area \<Rightarrow> ansi_parser \<Rightarrow> rectangular_copy_cell list list \<times> ansi_parser" where
  "copy_rectangular_area_snapshot e source p =
     fold (copy_area_row e source) [rr_top source..<rr_bottom source + 1] ([], p)"

definition write_copied_cell ::
    "rectangular_copy_cell list \<Rightarrow> nat \<Rightarrow> nat \<Rightarrow> styled_cell list \<times> ansi_parser \<Rightarrow> styled_cell list \<times> ansi_parser" where
  "write_copied_cell copied_row destination_left offset = (\<lambda>(cells0, p).
     (let col = destination_left + offset;
          cells = extend_cells_to_width_with_cell (col + 1) (styled_space_cell style_default) cells0
      in case rectangular_copy_cell_for_write copied_row offset of
           None \<Rightarrow> (cells, p)
         | Some cell \<Rightarrow>
             (write_styled_cell_at col cell cells,
              write_copied_cell_protection col
                (min (max (cl_columns cell) 1) (length copied_row - offset))
                (rc_protected (copied_row ! offset)) p)))"

definition write_copied_row ::
    "ansi_env \<Rightarrow> nat \<Rightarrow> nat \<Rightarrow> nat \<times> rectangular_copy_cell list \<Rightarrow> ansi_parser \<Rightarrow> ansi_parser" where
  "write_copied_row e destination_top destination_left = (\<lambda>(row_offset, copied_row) p0.
     (let p = load_row (destination_top + row_offset) p0 in
      case fold (write_copied_cell copied_row destination_left) [0..<length copied_row]
             (current_line_cells e p, p) of
        (cells, p1) \<Rightarrow> rebuild_line_from_cells cells p1))"

text \<open>The rows from \<open>projected_row_count\<close> on are not written: the source breaks out of its loop.\<close>

definition apply_copy_rectangular_area :: "ansi_env \<Rightarrow> u8 list \<Rightarrow> ansi_parser \<Rightarrow> ansi_parser" where
  "apply_copy_rectangular_area e payload p =
     (case parse_terminal_rectangular_copy_request payload of
        None \<Rightarrow> p
      | Some request \<Rightarrow>
          (case resolve_rectangular_area e (rc_source request) p of
             None \<Rightarrow> p
           | Some source \<Rightarrow>
               let t = unat (rc_destination_top request) - 1; l = unat (rc_destination_left request) - 1;
                   row_count = projected_row_count p
               in if row_count \<le> t then p
                  else (case copy_rectangular_area_snapshot e source (store_current_line p) of
                          (snapshot, p1) \<Rightarrow>
                            restore_screen_cursor_state (saved_screen_cursor_state_of p)
                              (fold (write_copied_row e t l)
                                 (enumerate 0 (take (row_count - t) snapshot)) p1))))"

end
