(* ===== verification/Ansi_Screen.thy ===== *)
theory Ansi_Screen
  imports Ansi_Csi
begin

text \<open>
  The loop of \<open>ansi_screen.rs\<close> (crate \<open>terminal-projection\<close>) over the bytes of its input, the
  dispatch of ESC, CSI, OSC, DCS and APC sequences, and the entry points. A consumer returns the
  state and how many bytes it took. The source slices its text at the index it has reached,
  which panics inside a character: the loop returns \<open>None\<close> there.
\<close>

section \<open>CSI\<close>

definition apply_csi :: "ansi_env \<Rightarrow> u8 list \<Rightarrow> u8 \<Rightarrow> ansi_parser \<Rightarrow> ansi_parser" where
  "apply_csi e payload final_byte p =
     (let f = unat final_byte in
      if f = 109 then p\<lparr>ap_current_style := apply_sgr_payload payload (ap_dynamic_palette p) (ap_current_style p)\<rparr>
      else if f = 64 then
        (if csi_has_space_intermediate payload then apply_scroll_left_columns e payload p
         else apply_insert_characters e payload p)
      else if f = 75 then apply_erase_in_line e payload p
      else if f = 74 then apply_erase_in_display e payload p
      else if f = 73 then apply_cursor_forward_tabulation payload p
      else if f = 71 \<or> f = 96 then apply_horizontal_absolute payload p
      else if f = 72 \<or> f = 102 then apply_cursor_position payload p
      else if f = 103 then apply_tab_clear payload p
      else if f = 67 \<or> f = 97 then apply_cursor_forward payload p
      else if f = 68 then apply_cursor_backward payload p
      else if f = 65 then
        (if csi_has_space_intermediate payload then apply_scroll_right_columns e payload p
         else apply_cursor_up payload p)
      else if f = 66 \<or> f = 101 then apply_cursor_down payload p
      else if f = 69 then apply_cursor_next_line payload p
      else if f = 70 then apply_cursor_previous_line payload p
      else if f = 76 then apply_insert_lines payload p
      else if f = 77 then apply_delete_lines payload p
      else if f = 83 then apply_scroll_up payload p
      else if f = 84 \<or> f = 94 then apply_scroll_down payload p
      else if f = 100 then apply_vertical_absolute payload p
      else if f = 98 then apply_repeat_preceding_character e payload p
      else if f = 114 then
        (if csi_has_dollar_intermediate payload then apply_rectangular_attributes e payload AttrChange p
         else apply_scroll_region payload p)
      else if f = 116 then
        (if csi_has_dollar_intermediate payload then apply_rectangular_attributes e payload AttrReverse p
         else p)
      else if f = 120 then
        (if csi_has_dollar_intermediate payload then apply_fill_rectangular_area e payload p else p)
      else if f = 122 then
        (if csi_has_dollar_intermediate payload then apply_erase_rectangular_area e payload False p else p)
      else if f = 123 then
        (if csi_has_dollar_intermediate payload then apply_erase_rectangular_area e payload True p
         else case parse_xterm_sgr_stack_attributes payload of
                Some attributes \<Rightarrow> push_sgr_state attributes p | None \<Rightarrow> p)
      else if f = 118 then
        (if csi_has_dollar_intermediate payload then apply_copy_rectangular_area e payload p else p)
      else if f = 125 then
        (if csi_has_apostrophe_intermediate payload then apply_insert_columns e payload p
         else if payload = ascii ''#'' then pop_sgr_state p else p)
      else if f = 126 then
        (if csi_has_apostrophe_intermediate payload then apply_delete_columns e payload p else p)
      else if f = 104 then apply_mode_set payload p
      else if f = 108 then apply_mode_reset payload p
      else if f = 80 then
        (case parse_terminal_xterm_color_stack payload final_byte of
           Some ops \<Rightarrow> apply_color_stack_operations ops p
         | None \<Rightarrow> apply_delete_characters e payload p)
      else if f = 81 then
        (case parse_terminal_xterm_color_stack payload final_byte of
           Some ops \<Rightarrow> apply_color_stack_operations ops p | None \<Rightarrow> p)
      else if f = 112 then
        (case parse_xterm_sgr_stack_attributes payload of
           Some attributes \<Rightarrow> push_sgr_state attributes p
         | None \<Rightarrow> if csi_has_bang_intermediate payload then apply_soft_terminal_reset p else p)
      else if f = 113 then
        (if payload = ascii ''#'' then pop_sgr_state p
         else if csi_has_quote_intermediate payload then apply_character_protection payload p
         else if csi_has_space_intermediate payload then apply_cursor_shape payload p
         else p)
      else if f = 88 then apply_erase_characters e payload p
      else if f = 90 then apply_cursor_backward_tabulation payload p
      else if f = 115 then
        (if ap_left_right_margin_mode p then apply_horizontal_margins e payload p else save_line_state p)
      else if f = 117 then restore_line_state p
      else p)"

definition consume_csi :: "ansi_env \<Rightarrow> u8 list \<Rightarrow> ansi_parser \<Rightarrow> ansi_parser \<times> nat" where
  "consume_csi e rest p =
     (case read_csi rest of
        None \<Rightarrow> (p, length rest)
      | Some (payload, final_byte, n) \<Rightarrow> (apply_csi e payload final_byte p, n))"

section \<open>OSC and APC\<close>

definition push_media :: "screen_line_media option \<Rightarrow> ansi_parser \<Rightarrow> ansi_parser" where
  "push_media media p =
     (case media of None \<Rightarrow> p | Some m \<Rightarrow> p\<lparr>ap_line_media := ap_line_media p @ [m]\<rparr>)"

definition push_side_effect :: "screen_line_side_effect option \<Rightarrow> ansi_parser \<Rightarrow> ansi_parser" where
  "push_side_effect side_effect p =
     (case side_effect of None \<Rightarrow> p | Some s \<Rightarrow> p\<lparr>ap_line_side_effects := ap_line_side_effects p @ [s]\<rparr>)"

definition push_semantic_mark :: "screen_line_semantic_mark option \<Rightarrow> ansi_parser \<Rightarrow> ansi_parser" where
  "push_semantic_mark mark p =
     (case mark of
        None \<Rightarrow> p
      | Some m \<Rightarrow> p\<lparr>ap_line_semantic_marks := ap_line_semantic_marks p @ [m\<lparr>sm_col := current_col p\<rparr>]\<rparr>)"

definition apply_osc_images :: "ansi_env \<Rightarrow> u8 list \<Rightarrow> bool \<Rightarrow> ansi_parser \<Rightarrow> ansi_parser" where
  "apply_osc_images e payload truncated p =
     (case terminal_iterm2_multipart_file_media (ae_base64 e) (ap_iterm2_multipart_file p) payload truncated of
        (multipart, media) \<Rightarrow>
          push_media (terminal_media_from_osc_payload (ae_base64 e) payload truncated)
            (push_media media (p\<lparr>ap_iterm2_multipart_file := multipart\<rparr>)))"

definition apply_osc_metadata :: "ansi_env \<Rightarrow> u8 list \<Rightarrow> ansi_parser \<Rightarrow> ansi_parser" where
  "apply_osc_metadata e payload p0 =
     (let p1 = (case terminal_title_from_osc_payload payload of
                  Some title \<Rightarrow> p0\<lparr>ap_title := Some title\<rparr> | None \<Rightarrow> p0);
          p2 = (case terminal_working_directory_uri_from_osc_payload payload of
                  Some uri \<Rightarrow> p1\<lparr>ap_working_directory_uri := uri\<rparr> | None \<Rightarrow> p1);
          p3 = (case terminal_user_variable_from_osc (ae_base64 e) payload of
                  Some (key, v) \<Rightarrow> p2\<lparr>ap_user_variables := fmupd key v (ap_user_variables p2)\<rparr> | None \<Rightarrow> p2);
          p4 = (case terminal_progress_from_osc payload of
                  Some progress \<Rightarrow> p3\<lparr>ap_progress := progress\<rparr> | None \<Rightarrow> p3)
      in (case terminal_cursor_shape_from_osc_payload payload of
            Some shape \<Rightarrow> p4\<lparr>ap_cursor_shape := Some shape, ap_cursor_touched := True\<rparr> | None \<Rightarrow> p4))"

definition apply_osc :: "ansi_env \<Rightarrow> u8 list \<Rightarrow> bool \<Rightarrow> ansi_parser \<Rightarrow> ansi_parser" where
  "apply_osc e payload truncated p0 =
     (let p1 = (case parse_osc8_hyperlink payload of
                  Some hyperlink \<Rightarrow> p0\<lparr>ap_current_style := (ap_current_style p0)\<lparr>st_hyperlink := hyperlink\<rparr>\<rparr>
                | None \<Rightarrow> p0);
          p2 = push_side_effect (terminal_side_effect_from_osc_payload payload)
                 (apply_osc_images e payload truncated p1);
          p3 = apply_color_stack_osc payload (apply_osc_metadata e payload p2);
          p4 = p3\<lparr>ap_palette := apply_surface_palette_osc payload (ap_palette p3),
                  ap_dynamic_palette := apply_dynamic_palette_osc payload (ap_dynamic_palette p3)\<rparr>
      in push_semantic_mark (terminal_shell_integration_mark payload) p4)"

definition consume_osc :: "ansi_env \<Rightarrow> u8 list \<Rightarrow> ansi_parser \<Rightarrow> ansi_parser \<times> nat" where
  "consume_osc e rest p =
     (case read_osc_control_string rest of
        None \<Rightarrow> (p, length rest)
      | Some control \<Rightarrow>
          (apply_osc e (cs_payload control) (cs_truncated control) p, cs_next_index control))"

definition consume_apc :: "ansi_env \<Rightarrow> u8 list \<Rightarrow> ansi_parser \<Rightarrow> ansi_parser \<times> nat" where
  "consume_apc e rest p =
     (case read_st_control_string rest of
        None \<Rightarrow> (p, length rest)
      | Some control \<Rightarrow>
          (case terminal_media_from_apc_payload (ae_base64 e) (ap_kitty_chunk p)
                  (cs_payload control) (cs_truncated control) of
             (chunk, media) \<Rightarrow> (push_media media (p\<lparr>ap_kitty_chunk := chunk\<rparr>), cs_next_index control)))"

section \<open>Steps of the loop\<close>

text \<open>
  What one turn of the loop does: it goes on after some bytes; a tmux passthrough has its own
  text parsed first; or the text is sliced inside a character.
\<close>

datatype ansi_step =
    Next ansi_parser nat
  | Passthrough "u8 list" ansi_parser nat
  | SlicePanic

definition skip_to :: "nat \<Rightarrow> ansi_parser \<times> nat \<Rightarrow> ansi_step" where
  "skip_to k = (\<lambda>(p, n). Next p (k + n))"

definition consume_dcs :: "nat \<Rightarrow> u8 list \<Rightarrow> ansi_parser \<Rightarrow> ansi_step" where
  "consume_dcs k rest p =
     (case read_st_control_string rest of
        None \<Rightarrow> Next p (k + length rest)
      | Some control \<Rightarrow>
          (case terminal_tmux_passthrough_payload (cs_payload control) (cs_truncated control) of
             Some passthrough \<Rightarrow> Passthrough passthrough p (k + cs_next_index control)
           | None \<Rightarrow>
               Next (push_media (terminal_media_from_dcs_payload (cs_payload control) (cs_truncated control)) p)
                 (k + cs_next_index control)))"

text \<open>The charset designation behind \<open>ESC (\<close> and \<open>ESC )\<close>.\<close>

definition consume_charset_designation :: "active_charset \<Rightarrow> u8 list \<Rightarrow> ansi_parser \<Rightarrow> ansi_parser \<times> nat" where
  "consume_charset_designation target rest p =
     (case rest of
        [] \<Rightarrow> (p, 0)
      | b # _ \<Rightarrow>
          (case (if b = 48 then Some DecSpecialGraphics
                 else if b = 64 \<or> b = 66 then Some CharsetAscii else None) of
             None \<Rightarrow> (p, 1)
           | Some charset \<Rightarrow>
               ((case target of G0 \<Rightarrow> p\<lparr>ap_g0_charset := charset, ap_active_charset := G0\<rparr>
                              | G1 \<Rightarrow> p\<lparr>ap_g1_charset := charset\<rparr>), 1)))"

definition consume_one_escape_final :: "u8 list \<Rightarrow> nat" where
  "consume_one_escape_final rest = (if rest = [] then 0 else 1)"

definition consume_utf8_charset_designation :: "u8 list \<Rightarrow> nat" where
  "consume_utf8_charset_designation rest =
     (case rest of
        [] \<Rightarrow> 0
      | b # behind \<Rightarrow> if b = 64 \<or> b = 71 then 1 else if b = 47 then 1 + consume_one_escape_final behind else 1)"

definition consume_multibyte_charset_designation :: "u8 list \<Rightarrow> nat" where
  "consume_multibyte_charset_designation rest =
     (case rest of
        [] \<Rightarrow> 0
      | b # behind \<Rightarrow> if b \<in> set (ascii ''()*+-./'') then 1 + consume_one_escape_final behind else 1)"

text \<open>Behind an ESC: \<open>rest\<close> are the bytes after it, the count includes it.\<close>

definition consume_escape :: "ansi_env \<Rightarrow> u8 list \<Rightarrow> ansi_parser \<Rightarrow> ansi_step" where
  "consume_escape e rest p =
     (case rest of
        [] \<Rightarrow> Next p 1
      | b # behind \<Rightarrow>
          let c = unat b in
          if c = 91 then skip_to 2 (consume_csi e behind p)
          else if c = 93 then skip_to 2 (consume_osc e behind p)
          else if c = 80 then consume_dcs 2 behind p
          else if c = 95 then skip_to 2 (consume_apc e behind p)
          else if c = 94 \<or> c = 88 then Next p (2 + skip_control_string behind)
          else if c = 40 then skip_to 2 (consume_charset_designation G0 behind p)
          else if c = 41 then skip_to 2 (consume_charset_designation G1 behind p)
          else if c = 42 \<or> c = 43 \<or> c = 45 \<or> c = 46 then Next p (2 + consume_one_escape_final behind)
          else if c = 35 then Next p (2 + consume_one_escape_final behind)
          else if c = 37 then Next p (2 + consume_utf8_charset_designation behind)
          else if c = 36 then Next p (2 + consume_multibyte_charset_designation behind)
          else if c = 32 then Next p (2 + consume_one_escape_final behind)
          else if c = 68 then Next (push_index p) 2
          else if c = 69 then Next (push_line_break p) 2
          else if c = 72 then Next (set_tab_stop_at_cursor p) 2
          else if c = 54 then Next (apply_back_index e p) 2
          else if c = 55 then Next (save_line_state p) 2
          else if c = 56 then Next (restore_line_state p) 2
          else if c = 57 then Next (apply_forward_index e p) 2
          else if c = 77 then Next (apply_reverse_index p) 2
          else if c = 78 \<or> c = 79 then Next p 2
          else if c = 86 then Next (p\<lparr>ap_protected_mode := True\<rparr>) 2
          else if c = 87 then Next (p\<lparr>ap_protected_mode := False\<rparr>) 2
          else if c = 90 then Next p 2
          else if c = 99 then Next (reset_terminal_state p) 2
          else if c = 27 then Next p 1
          else Next p 2)"

definition consume_c1 :: "ansi_env \<Rightarrow> c1_control \<Rightarrow> nat \<Rightarrow> u8 list \<Rightarrow> ansi_parser \<Rightarrow> ansi_step" where
  "consume_c1 e control k rest p =
     (case control of
        C1Index \<Rightarrow> Next (push_index p) k
      | C1NextLine \<Rightarrow> Next (push_line_break p) k
      | C1ReverseIndex \<Rightarrow> Next (apply_reverse_index p) k
      | C1HorizontalTabSet \<Rightarrow> Next (set_tab_stop_at_cursor p) k
      | C1SingleShiftTwo \<Rightarrow> Next p k
      | C1SingleShiftThree \<Rightarrow> Next p k
      | C1StartGuardedArea \<Rightarrow> Next (p\<lparr>ap_protected_mode := True\<rparr>) k
      | C1EndGuardedArea \<Rightarrow> Next (p\<lparr>ap_protected_mode := False\<rparr>) k
      | C1ReturnTerminalId \<Rightarrow> Next p k
      | C1Sos \<Rightarrow> Next p (k + skip_control_string rest)
      | C1Pm \<Rightarrow> Next p (k + skip_control_string rest)
      | C1Csi \<Rightarrow> skip_to k (consume_csi e rest p)
      | C1Osc \<Rightarrow> skip_to k (consume_osc e rest p)
      | C1Dcs \<Rightarrow> consume_dcs k rest p
      | C1Apc \<Rightarrow> skip_to k (consume_apc e rest p)
      | C1St \<Rightarrow> Next p k)"

text \<open>\<open>output[index..].chars().next()\<close>: a panic where the index is inside a character.\<close>

definition push_char :: "ansi_env \<Rightarrow> u8 \<Rightarrow> u8 list \<Rightarrow> ansi_parser \<Rightarrow> ansi_step" where
  "push_char e b bs p0 =
     (if is_cont (unat b) then SlicePanic
      else let p = flush_pending_carriage_return_for_rewrite p0 in
        (case fst (utf8_step (b # bs)) of
           None \<Rightarrow> SlicePanic
         | Some ch \<Rightarrow>
             let char_len = length (utf8_char ch);
                 display_ch = unwrap_or ch (map_active_charset_byte b char_len p)
             in Next (push_text e display_ch p) char_len))"

definition push_control :: "ansi_env \<Rightarrow> u8 \<Rightarrow> ansi_parser \<Rightarrow> ansi_parser" where
  "push_control e b p =
     (let c = unat b in
      if c = 10 \<or> c = 11 \<or> c = 12 then push_line_break p
      else if c = 13 then p\<lparr>ap_pending_backspace_cell := None, ap_pending_carriage_return := True\<rparr>
      else if c = 7 then
        (let q = flush_pending_carriage_return_before_control p
         in q\<lparr>ap_bell_count := (if ap_bell_count q = -1 then -1 else ap_bell_count q + 1)\<rparr>)
      else if c = 9 then push_tab e (flush_pending_carriage_return_for_rewrite p)
      else if c = 14 then (flush_pending_carriage_return_before_control p)\<lparr>ap_active_charset := G1\<rparr>
      else if c = 15 then (flush_pending_carriage_return_before_control p)\<lparr>ap_active_charset := G0\<rparr>
      else if c = 8 then
        (case pop_last_char e (flush_pending_carriage_return_for_rewrite p) of
           (popped, q) \<Rightarrow> q\<lparr>ap_pending_backspace_cell := popped\<rparr>)
      else flush_pending_carriage_return_before_control p)"

definition ansi_step_at :: "ansi_env \<Rightarrow> u8 \<Rightarrow> u8 list \<Rightarrow> ansi_parser \<Rightarrow> ansi_step" where
  "ansi_step_at e b bs p =
     (case c1_control_at (b # bs) of
        Some (control, k) \<Rightarrow>
          consume_c1 e control k (drop k (b # bs)) (flush_pending_carriage_return_before_control p)
      | None \<Rightarrow>
          if b = 27 then consume_escape e bs (flush_pending_carriage_return_before_control p)
          else if b < 32 \<or> b = 127 then Next (push_control e b p) 1
          else push_char e b bs p)"
section \<open>The loop\<close>

lemma utf8_char_pos: "1 \<le> length (utf8_char c)"
  by (simp add: utf8_char_def)

lemma c1_control_at_pos: "c1_control_at bs = Some (control, k) \<Longrightarrow> 1 \<le> k"
  by (auto simp: c1_control_at_def c1_controls_def Let_def utf8_char_def split: if_splits)

lemma skip_to_simps [simp]:
  "skip_to k (q, n) = Next q (k + n)"
  "(skip_to k r = Next p n) = (p = fst r \<and> n = k + snd r)"
  "skip_to k r \<noteq> Passthrough d p n"
  "skip_to k r \<noteq> SlicePanic"
  by (auto simp: skip_to_def split: prod.splits)

lemma consume_dcs_Next: "consume_dcs k rest p = Next q n \<Longrightarrow> k \<le> n"
  by (auto simp: consume_dcs_def split: option.splits)

lemma consume_dcs_Passthrough:
  assumes "consume_dcs k rest p = Passthrough d q n"
  shows "k \<le> n \<and> count_list d 120 < count_list rest 120"
proof -
  obtain c where c: "read_st_control_string rest = Some c" "k \<le> n"
    "terminal_tmux_passthrough_payload (cs_payload c) (cs_truncated c) = Some d"
    using assms by (auto simp: consume_dcs_def split: option.splits)
  have undouble: "count_list (undouble_escapes bs) 120 = count_list bs 120" for bs
    by (induction bs rule: undouble_escapes.induct) auto
  obtain m where m: "cs_payload c = take m rest"
    using c(1) by (auto simp: read_st_control_string_def read_control_string_def)
  have "count_list (take m rest) 120 \<le> count_list rest 120"
    by (metis append_take_drop_id count_list_append le_add1)
  moreover have "count_list d 120 < count_list (cs_payload c) 120"
  proof -
    obtain body where body: "strip_prefix (ascii ''tmux;'') (cs_payload c) = Some body"
      "d = undouble_escapes body"
      using c(3) by (auto simp: terminal_tmux_passthrough_payload_def split: if_splits)
    then have "cs_payload c = ascii ''tmux;'' @ body"
      by (auto simp: strip_prefix_def split: if_splits) (metis append_take_drop_id)
    then show ?thesis by (simp add: body(2) undouble ascii_def)
  qed
  ultimately show ?thesis using c(2) m by simp
qed

lemma ansi_step_Next: "ansi_step_at e b bs p = Next q n \<Longrightarrow> 1 \<le> n"
  using utf8_char_pos
  by (auto simp: ansi_step_at_def consume_c1_def consume_escape_def push_char_def Let_def
      dest!: c1_control_at_pos consume_dcs_Next
      split: option.splits if_splits c1_control.splits list.splits)

lemma ansi_step_Passthrough:
  assumes "ansi_step_at e b bs p = Passthrough d q n"
  shows "1 \<le> n \<and> count_list d 120 < count_list (b # bs) 120"
proof (cases "c1_control_at (b # bs)")
  case None
  then obtain x rest where "bs = x # rest" "consume_dcs 2 rest p = Passthrough d q n"
    using assms
    by (auto simp: ansi_step_at_def consume_escape_def push_char_def Let_def
        flush_pending_carriage_return_before_control_def split: option.splits if_splits list.splits)
  then show ?thesis using consume_dcs_Passthrough by fastforce
next
  case (Some ck)
  obtain control k where ck: "ck = (control, k)" by fastforce
  have "consume_dcs k (drop k (b # bs)) p = Passthrough d q n"
    using assms Some ck
    by (auto simp: ansi_step_at_def consume_c1_def flush_pending_carriage_return_before_control_def
        split: c1_control.splits)
  note dcs = consume_dcs_Passthrough [OF this]
  have "count_list (drop k (b # bs)) 120 \<le> count_list (b # bs) 120"
    by (metis append_take_drop_id count_list_append le_add2)
  then show ?thesis using dcs c1_control_at_pos [of "b # bs" control k] Some ck by simp
qed

lemma utf8_step_120: "fst (utf8_step (b # bs)) = Some 120 \<Longrightarrow> b = 120"
proof -
  assume "fst (utf8_step (b # bs)) = Some 120"
  then have "unat b = 120"
    by (auto simp: utf8_step_def utf8_sequence_def byte_at_def is_cont_def split: if_splits)
  then show "b = 120" by (simp add: word_unat_eq_iff)
qed

lemma utf8_char_120: "c < 1114112 \<Longrightarrow> count_list (utf8_char c) 120 = (if c = 120 then 1 else 0)"
proof -
  assume c: "c < 1114112"
  have high: "(word_of_nat (128 + k) :: u8) \<noteq> 120" if "k < 128" for k
  proof
    assume "(word_of_nat (128 + k) :: u8) = 120"
    then have "unat (word_of_nat (128 + k) :: u8) = unat (120 :: u8)" by (rule arg_cong)
    then show False using that unat_byte [of "128 + k"] by simp
  qed
  have low: "(word_of_nat c :: u8) = 120 \<longleftrightarrow> c = 120" if "c < 128"
  proof
    assume "(word_of_nat c :: u8) = 120"
    then have "unat (word_of_nat c :: u8) = unat (120 :: u8)" by (rule arg_cong)
    then show "c = 120" using that unat_byte [of c] by simp
  qed simp
  show ?thesis
    using c low high [of "64 + c div 64"] high [of "c mod 64"] high [of "96 + c div 4096"]
      high [of "c div 64 mod 64"] high [of "112 + c div 262144"] high [of "c div 4096 mod 64"]
    by (auto simp: utf8_char_def)
qed

lemma utf8_step_bound: "fst (utf8_step bs) = Some c \<Longrightarrow> c < 1114112"
  by (auto simp: utf8_step_def utf8_sequence_def is_cont_def split: if_splits)

lemma utf8_lossy_120: "count_list (utf8_encode (utf8_lossy bs)) 120 \<le> count_list bs 120"
proof (induction bs rule: utf8_items.induct)
  case (2 b bs)
  define n where "n = snd (utf8_step (b # bs))"
  define ch where "ch = (case fst (utf8_step (b # bs)) of Some ch \<Rightarrow> ch | None \<Rightarrow> 65533)"
  have ch: "ch < 1114112" "ch = 120 \<Longrightarrow> b = 120"
    using utf8_step_bound [of "b # bs"] utf8_step_120 [of b bs] by (auto simp: ch_def split: option.splits)
  have split: "b # bs = take n (b # bs) @ drop n (b # bs)" by simp
  have pos: "1 \<le> n" using utf8_step_pos by (simp add: n_def)
  have "count_list (utf8_char ch) 120 \<le> count_list (take n (b # bs)) 120"
    using ch pos by (cases n) (auto simp: utf8_char_120)
  moreover have "count_list (b # bs) 120
      = count_list (take n (b # bs)) 120 + count_list (drop n (b # bs)) 120"
    by (metis split count_list_append)
  ultimately show ?case
    using 2 by (simp add: utf8_lossy_def flip: n_def ch_def)
qed (simp add: utf8_lossy_def)

text \<open>
  \<open>push_str\<close> over the bytes of its text; a tmux passthrough is text of its own, of which the
  bytes are decoded lossily. \<open>None\<close> is a panic. Every turn takes at least one byte, and a
  passthrough is shorter by the letters of its prefix, so the loop ends.
\<close>

function push_bytes :: "ansi_env \<Rightarrow> u8 list \<Rightarrow> ansi_parser \<Rightarrow> ansi_parser option" where
  "push_bytes e [] p = Some p"
| "push_bytes e (b # bs) p =
     (case ansi_step_at e b bs p of
        SlicePanic \<Rightarrow> None
      | Next q n \<Rightarrow> push_bytes e (drop n (b # bs)) q
      | Passthrough d q n \<Rightarrow>
          (case push_bytes e (utf8_encode (utf8_lossy d)) q of
             None \<Rightarrow> None
           | Some q1 \<Rightarrow> push_bytes e (drop n (b # bs)) q1))"
  by pat_completeness auto
termination
proof (relation "measures [\<lambda>(e, bs, p). count_list bs 120, \<lambda>(e, bs, p). length bs]")
  have drop: "count_list (drop n xs) 120 \<le> count_list xs (120 :: u8)" for n xs
    by (metis append_take_drop_id count_list_append le_add2)
  fix e :: ansi_env and b :: u8 and bs and p :: ansi_parser and q n
  { assume "ansi_step_at e b bs p = Next q n"
    then have "1 \<le> n" by (rule ansi_step_Next)
    then show "((e, drop n (b # bs), q), e, b # bs, p) \<in>
        measures [\<lambda>(e, bs, p). count_list bs 120, \<lambda>(e, bs, p). length bs]"
      using drop [of n "b # bs"] by (auto simp: le_less) }
  fix d
  assume step: "ansi_step_at e b bs p = Passthrough d q n"
  note pass = ansi_step_Passthrough [OF step]
  show "((e, utf8_encode (utf8_lossy d), q), e, b # bs, p) \<in>
      measures [\<lambda>(e, bs, p). count_list bs 120, \<lambda>(e, bs, p). length bs]"
    using pass utf8_lossy_120 [of d] by auto
  fix q1
  show "((e, drop n (b # bs), q1), e, b # bs, p) \<in>
      measures [\<lambda>(e, bs, p). count_list bs 120, \<lambda>(e, bs, p). length bs]"
    using pass drop [of n "b # bs"] by (auto simp: le_less)
qed simp

definition push_str :: "ansi_env \<Rightarrow> rstr \<Rightarrow> ansi_parser \<Rightarrow> ansi_parser option" where
  "push_str e output p = push_bytes e (utf8_encode output) p"

definition screen_surface_from_ansi_output :: "ansi_env \<Rightarrow> rstr \<Rightarrow> rstr option \<Rightarrow> screen_surface option" where
  "screen_surface_from_ansi_output e output title =
     map_option (finish_surface title) (push_str e output parser_new)"

definition screen_lines_from_ansi_output :: "ansi_env \<Rightarrow> rstr \<Rightarrow> screen_line list option" where
  "screen_lines_from_ansi_output e output =
     map_option sf_lines (screen_surface_from_ansi_output e output None)"

definition screen_surface_from_ansi_bytes :: "ansi_env \<Rightarrow> u8 list \<Rightarrow> rstr option \<Rightarrow> screen_surface option" where
  "screen_surface_from_ansi_bytes e output title =
     screen_surface_from_ansi_output e (normalized_ansi_bytes_lossy output) title"

definition screen_lines_from_ansi_bytes :: "ansi_env \<Rightarrow> u8 list \<Rightarrow> screen_line list option" where
  "screen_lines_from_ansi_bytes e output =
     map_option sf_lines (screen_surface_from_ansi_bytes e output None)"

end
