(* ===== verification/Ansi_Text.thy ===== *)
theory Ansi_Text
  imports Ansi_Screen
begin

text \<open>
  What \<open>screen_surface_from_ansi_output\<close> does with text: output of ASCII bytes never panics,
  lines of printable text come back as they were printed, and where the parser does panic.
\<close>

section \<open>ASCII output\<close>

lemma is_cont_ascii: "b < 128 \<Longrightarrow> \<not> is_cont (unat (b :: u8))"
  by (simp add: is_cont_def word_less_nat_alt)

lemma utf8_step_ascii:
  assumes "(b :: u8) < 128"
  shows "utf8_step (b # bs) = (Some (unat b), 1)"
  using assms by (simp add: utf8_step_def utf8_sequence_def byte_at_def word_less_nat_alt)

lemma consumers_no_panic:
  "consume_dcs k rest p \<noteq> SlicePanic" "consume_escape e rest p \<noteq> SlicePanic"
  "consume_c1 e control k rest p \<noteq> SlicePanic"
proof -
  show dcs: "consume_dcs k rest p \<noteq> SlicePanic" for k rest p
    by (simp add: consume_dcs_def split: option.splits)
  show "consume_escape e rest p \<noteq> SlicePanic"
    using dcs by (simp add: consume_escape_def Let_def split: list.splits)
  show "consume_c1 e control k rest p \<noteq> SlicePanic"
    using dcs by (cases control) (simp_all add: consume_c1_def)
qed

lemma ascii_step_no_panic:
  assumes "(b :: u8) < 128"
  shows "ansi_step_at e b bs p \<noteq> SlicePanic"
  using utf8_step_ascii [OF assms, of bs] is_cont_ascii [OF assms]
  by (simp add: ansi_step_at_def consumers_no_panic push_char_def Let_def split: option.splits prod.splits)

lemma set_undouble: "set (undouble_escapes bs) \<subseteq> set bs"
  by (induction bs rule: undouble_escapes.induct) auto

lemma consume_dcs_bytes:
  assumes "consume_dcs k rest p = Passthrough d q n"
  shows "set d \<subseteq> set rest"
proof -
  obtain c body where c: "read_st_control_string rest = Some c"
    "strip_prefix (ascii ''tmux;'') (cs_payload c) = Some body" "d = undouble_escapes body"
    using assms
    by (auto simp: consume_dcs_def terminal_tmux_passthrough_payload_def split: option.splits if_splits)
  obtain m where m: "cs_payload c = take m rest"
    using c(1) by (auto simp: read_st_control_string_def read_control_string_def)
  have "set d \<subseteq> set body" using c(3) set_undouble by simp
  also have "\<dots> \<subseteq> set (cs_payload c)"
    using c(2) by (auto simp: strip_prefix_def split: if_splits dest: in_set_dropD)
  also have "\<dots> \<subseteq> set rest" using m by (simp add: set_take_subset)
  finally show ?thesis .
qed

lemma ansi_step_Passthrough_bytes:
  assumes "ansi_step_at e b bs p = Passthrough d q n"
  shows "set d \<subseteq> set (b # bs)"
proof (cases "c1_control_at (b # bs)")
  case None
  then obtain x rest where "bs = x # rest" "consume_dcs 2 rest p = Passthrough d q n"
    using assms
    by (auto simp: ansi_step_at_def consume_escape_def push_char_def Let_def
        flush_pending_carriage_return_before_control_def split: option.splits if_splits list.splits)
  then show ?thesis using consume_dcs_bytes by fastforce
next
  case (Some ck)
  obtain control k where ck: "ck = (control, k)" by fastforce
  have "consume_dcs k (drop k (b # bs)) p = Passthrough d q n"
    using assms Some ck
    by (auto simp: ansi_step_at_def consume_c1_def flush_pending_carriage_return_before_control_def
        split: c1_control.splits)
  then show ?thesis using consume_dcs_bytes set_drop_subset by fast
qed

lemma utf8_items_ascii: "\<forall>b\<in>set bs. b < 128 \<Longrightarrow> utf8_items bs = map (\<lambda>b. Some (unat b)) bs"
  by (induction bs) (simp_all add: utf8_step_ascii)

lemma ascii_passthrough: "\<forall>b\<in>set bs. b < 128 \<Longrightarrow> utf8_encode (utf8_lossy bs) = bs"
  by (induction bs) (simp_all add: utf8_lossy_def utf8_step_ascii utf8_char_def word_less_nat_alt)

lemma push_bytes_ascii: "\<forall>b\<in>set bs. b < 128 \<Longrightarrow> push_bytes e bs p \<noteq> None"
proof (induction e bs p rule: push_bytes.induct)
  case (2 e b bs p)
  have drop: "\<forall>x\<in>set (drop n (b # bs)). x < 128" for n
    using "2.prems" by (meson in_set_dropD)
  show ?case
  proof (cases "ansi_step_at e b bs p")
    case (Next q n)
    then show ?thesis using "2.IH"(1) [OF Next drop] by simp
  next
    case (Passthrough d q n)
    have "\<forall>x\<in>set d. x < 128" using ansi_step_Passthrough_bytes [OF Passthrough] "2.prems" by blast
    then have enc: "utf8_encode (utf8_lossy d) = d" and d: "\<forall>x\<in>set (utf8_encode (utf8_lossy d)). x < 128"
      by (simp_all add: ascii_passthrough)
    obtain q1 where q1: "push_bytes e (utf8_encode (utf8_lossy d)) q = Some q1"
      using "2.IH"(2) [OF Passthrough d] by blast
    show ?thesis using "2.IH"(3) [OF Passthrough q1 drop] Passthrough q1 by simp
  next
    case SlicePanic
    then show ?thesis using ascii_step_no_panic "2.prems" by simp
  qed
qed simp

text \<open>
  C22. Output of ASCII characters is parsed to the end, whatever control sequences it has, and
  whatever the widths of characters and the base64 decoder are: no panic, no endless loop.
\<close>
theorem ascii_output_parses:
  assumes "\<forall>c\<in>set output. c < 128"
  shows "\<exists>surface. screen_surface_from_ansi_output e output title = Some surface"
proof -
  have "\<forall>b\<in>set (utf8_encode s). b < 128" if "\<forall>c\<in>set s. c < 128" for s
    using that by (induction s) (auto simp: utf8_char_def word_less_nat_alt unat_byte)
  from this [OF assms] have "\<forall>b\<in>set (utf8_encode output). b < 128" .
  then show ?thesis
    using push_bytes_ascii by (auto simp: screen_surface_from_ansi_output_def push_str_def)
qed

lemma ascii_output_parses_witness:
  "\<forall>e. \<exists>surface. screen_surface_from_ansi_output e [27, 93, 48, 59, 97, 7, 27, 91, 50, 74] None = Some surface"
  by (intro allI ascii_output_parses) simp

section \<open>Panics\<close>

lemma c1_control_at_other: "b \<noteq> 194 \<Longrightarrow> c1_control_at (b # bs) = None"
  by (simp add: c1_control_at_def c1_controls_def utf8_char_def strip_prefix_def)

lemma c1_control_at_cont: "is_cont (unat b) \<Longrightarrow> c1_control_at (b # bs) = None"
  by (rule c1_control_at_other) (auto simp: is_cont_def)

lemma push_bytes_cont: "is_cont (unat b) \<Longrightarrow> push_bytes e (b # bs) p = None"
proof -
  assume cont: "is_cont (unat b)"
  then have "\<not> b < 32" "b \<noteq> 127" "b \<noteq> 27" by (auto simp: is_cont_def word_less_nat_alt)
  then show ?thesis using cont c1_control_at_cont [OF cont] by (simp add: ansi_step_at_def push_char_def)
qed

lemma utf8_char_multi:
  assumes "128 \<le> c" "is_scalar c"
  obtains b x xs where "utf8_char c = b # x # xs" "is_cont (unat x)" "194 \<le> b"
proof (rule digits64 [of c])
  fix x y z d0 d1 d2 :: nat
  assume d: "c div 64 = x" "c div 4096 = y" "c div 262144 = z" "c mod 64 = d0" "x mod 64 = d1"
    "y mod 64 = d2" and c: "c = x * 64 + d0" "x = y * 64 + d1" "y = z * 64 + d2"
    and lt: "d0 < 64" "d1 < 64" "d2 < 64"
  have cont: "is_cont (unat (word_of_nat (128 + k) :: u8))" if "k < 64" for k
    using that unat_byte [of "128 + k"] by (simp add: is_cont_def)
  have lead: "194 \<le> (word_of_nat k :: u8)" if "194 \<le> k" "k < 256" for k
    using that unat_byte [of k] by (simp add: word_le_nat_alt)
  consider "c < 2048" | "2048 \<le> c" "c < 65536" | "65536 \<le> c" by linarith
  then show thesis
  proof cases
    case 1
    have "2 \<le> x" "x < 32" using 1 assms(1) c lt by linarith+
    then show ?thesis using that [of "word_of_nat (192 + x)" "word_of_nat (128 + d0)" "[]"]
        1 assms(1) cont [OF lt(1)] lead [of "192 + x"] by (simp add: utf8_char_def d)
  next
    case 2
    have "y < 16" using 2 c lt by linarith
    then show ?thesis using that [of "word_of_nat (224 + y)" "word_of_nat (128 + d1)"
          "[word_of_nat (128 + d0)]"] 2 cont [OF lt(2)] lead [of "224 + y"] by (simp add: utf8_char_def d)
  next
    case 3
    have "z < 5" using assms(2) c lt unfolding is_scalar_def by linarith
    then show ?thesis using that [of "word_of_nat (240 + z)" "word_of_nat (128 + d2)"
          "[word_of_nat (128 + d1), word_of_nat (128 + d0)]"] 3 cont [OF lt(3)] lead [of "240 + z"]
      by (simp add: utf8_char_def d)
  qed
qed

lemma ascii_final:
  assumes "194 \<le> (b :: u8)" "n < 194"
  shows "unat b \<noteq> n"
  using assms by (auto simp: word_le_nat_alt)

lemma consume_escape_high: "194 \<le> b \<Longrightarrow> consume_escape e (b # bs) p = Next p 2"
  by (simp add: consume_escape_def Let_def ascii_final)

lemma read_plain:
  assumes "\<forall>b\<in>set bs. 32 \<le> b \<and> b < (128 :: u8)"
  shows "\<exists>e' t'. read_control_string_from bel (bs @ rest) n e t =
    read_control_string_from bel rest (n + length bs) e' t'"
  using assms
proof (induction bs arbitrary: n e t)
  case (Cons b bs)
  then have "b \<noteq> 194" "b \<noteq> 7" "b \<noteq> 156" "b \<noteq> 27" by auto
  then have "control_string_end bel (b # bs @ rest) = None"
    by (simp add: control_string_end_def c1_control_at_other)
  then show ?case
    using Cons.IH [of "Suc n" "Suc n" t] Cons.IH [of "Suc n" e True] Cons.prems by simp
qed auto

lemma utf8_encode_ascii_bytes:
  "\<forall>c\<in>set s. c < 128 \<Longrightarrow> utf8_encode s = map word_of_nat s"
  by (induction s) (simp_all add: utf8_char_def)

text \<open>
  C23. Where the parser panics. A character beyond ASCII right after an ESC, in any state and
  whatever follows: the escape is taken as one byte long and the text is sliced inside the
  character. And a title, or any other OSC string, with a character whose second of three bytes
  is \<open>0x9c\<close>: that byte is taken for the string terminator.
\<close>
theorem output_panics:
  assumes "is_scalar c" "128 \<le> c" and "\<forall>x\<in>set t. 32 \<le> x \<and> x < 128"
    and "is_scalar d" "2048 \<le> d" "d < 65536" "d div 64 mod 64 = 28"
  shows "push_str e (27 # c # s) p = None \<and> push_str e (27 # 93 # t @ d # s) p = None"
proof
  have esc: "utf8_char 27 = [27]" "utf8_char 93 = [93]" by (simp_all add: utf8_char_def)
  obtain b x xs where bx: "utf8_char c = b # x # xs" "is_cont (unat x)" "194 \<le> b"
    using utf8_char_multi [OF assms(2,1)] .
  have "ansi_step_at e 27 (b # x # xs @ utf8_encode s) p = Next p 2"
    using consume_escape_high [OF bx(3)]
    by (simp add: ansi_step_at_def c1_control_at_other flush_pending_carriage_return_before_control_def)
  then show "push_str e (27 # c # s) p = None"
    using push_bytes_cont [OF bx(2)] by (simp add: push_str_def esc bx(1))
  define b2 where "b2 = (word_of_nat (128 + d mod 64) :: u8)"
  define b0 where "b0 = (word_of_nat (224 + d div 4096) :: u8)"
  have dch: "utf8_char d = [b0, 156, b2]"
    using assms(5-7) by (simp add: utf8_char_def b0_def b2_def)
  have "224 \<le> b0"
    using assms(6) unat_byte [of "224 + d div 4096"] by (simp add: b0_def word_le_nat_alt)
  then have b0: "b0 \<noteq> 194" "b0 \<noteq> 7" "b0 \<noteq> 156" "b0 \<noteq> 27" by auto
  have b2: "is_cont (unat b2)" using unat_byte [of "128 + d mod 64"] by (simp add: b2_def is_cont_def)
  let ?t = "map word_of_nat t :: u8 list"
  have t: "utf8_encode t = ?t" using assms(3) by (simp add: utf8_encode_ascii_bytes)
  have ascii: "\<forall>b\<in>set ?t. 32 \<le> b \<and> b < 128"
    using assms(3) by (auto simp: word_le_nat_alt word_less_nat_alt unat_byte)
  obtain e1 t1 where "read_control_string_from True (?t @ b0 # 156 # b2 # utf8_encode s) 0 0 False =
      read_control_string_from True (b0 # 156 # b2 # utf8_encode s) (length t) e1 t1"
    using read_plain [OF ascii, of True "b0 # 156 # b2 # utf8_encode s" 0 0 False] by auto
  moreover have "\<exists>e2 t2. read_control_string_from True (b0 # 156 # b2 # utf8_encode s) (length t) e1 t1 =
      Some (e2, length t + 2, t2)"
  proof -
    have "control_string_end True (b0 # ys) = None" for ys
      using b0 by (simp add: control_string_end_def c1_control_at_other)
    moreover have "control_string_end True (156 # ys) = Some 1" for ys
      by (simp add: control_string_end_def c1_control_at_other)
    ultimately show ?thesis by (cases "e1 < max_control_string_bytes") (simp_all add: ex_bool_eq)
  qed
  ultimately obtain e2 t2 where
    "read_control_string_from True (?t @ b0 # 156 # b2 # utf8_encode s) 0 0 False = Some (e2, length t + 2, t2)"
    by auto
  then obtain q where "consume_osc e (?t @ b0 # 156 # b2 # utf8_encode s) p = (q, length t + 2)"
    by (simp add: consume_osc_def read_osc_control_string_def read_control_string_def)
  then have "ansi_step_at e 27 (93 # ?t @ b0 # 156 # b2 # utf8_encode s) p = Next q (length t + 4)"
    by (simp add: ansi_step_at_def c1_control_at_other flush_pending_carriage_return_before_control_def
        consume_escape_def)
  moreover have "drop (length t + 4) (27 # 93 # ?t @ b0 # 156 # b2 # utf8_encode s) = b2 # utf8_encode s"
    by (simp add: eval_nat_numeral)
  ultimately show "push_str e (27 # 93 # t @ d # s) p = None"
    using push_bytes_cont [OF b2] by (simp add: push_str_def esc t dch)
qed

lemma output_panics_witness:
  "\<forall>e. screen_surface_from_ansi_output e [27, 233] None = None \<and>
       screen_surface_from_ansi_output e [27, 93, 48, 59, 22312, 7] None = None"
proof
  fix e
  show "screen_surface_from_ansi_output e [27, 233] None = None \<and>
      screen_surface_from_ansi_output e [27, 93, 48, 59, 22312, 7] None = None"
    using output_panics [of 233 "[48, 59]" 22312 e "[]" parser_new]
      output_panics [of 233 "[48, 59]" 22312 e "[7]" parser_new]
    by (simp add: is_scalar_def screen_surface_from_ansi_output_def)
qed

section \<open>Printed text\<close>

text \<open>A character that is printed in one column.\<close>

definition plain_char :: "ansi_env \<Rightarrow> nat \<Rightarrow> bool" where
  "plain_char e c \<longleftrightarrow> is_scalar c \<and> \<not> is_control c \<and> ae_width e c = Some 1"

lemma c1_control_at_plain:
  assumes "is_scalar c" "\<not> is_control c"
  shows "c1_control_at (utf8_char c @ rest) = None"
proof -
  have "strip_prefix (utf8_char d) (utf8_char c @ rest) = None" if d: "d \<in> {132..159}" for d
  proof (rule ccontr)
    assume "strip_prefix (utf8_char d) (utf8_char c @ rest) \<noteq> None"
    then have "utf8_char c @ rest = utf8_char d @ drop (length (utf8_char d)) (utf8_char c @ rest)"
      by (metis append_take_drop_id option.distinct(1) strip_prefix_def)
    then have "utf8_step (utf8_char c @ rest) = utf8_step (utf8_char d @ drop (length (utf8_char d)) (utf8_char c @ rest))"
      by metis
    then have "c = d"
      using utf8_step_char [OF assms(1)] utf8_step_char [of d] d by (simp add: is_scalar_def)
    then show False using assms(2) d by (auto simp: is_control_def)
  qed
  then show ?thesis by (simp add: c1_control_at_def c1_controls_def)
qed

lemma printed_step:
  assumes "is_scalar c" "\<not> is_control c" "utf8_char c @ rest = b # bs"
  defines "q \<equiv> \<lambda>p. flush_pending_carriage_return_for_rewrite p"
  shows "ansi_step_at e b bs p =
    Next (push_text e (unwrap_or c (map_active_charset_byte b (length (utf8_char c)) (q p))) (q p))
      (length (utf8_char c))"
proof -
  have step: "utf8_step (b # bs) = (Some c, length (utf8_char c))"
    using utf8_step_char [OF assms(1), of rest] assms(3) by simp
  have b: "\<not> is_cont (unat b) \<and> \<not> b < 32 \<and> b \<noteq> 127 \<and> b \<noteq> 27"
  proof (cases "c < 128")
    case True
    then have "b = word_of_nat c" using assms(3) by (simp add: utf8_char_def)
    moreover have "32 \<le> c" "c \<noteq> 127" using assms(2) True by (auto simp: is_control_def)
    ultimately show ?thesis
      using True unat_byte [of c] by (auto simp: is_cont_def word_less_nat_alt)
  next
    case False
    then obtain x xs where "utf8_char c = b # x # xs" "194 \<le> b"
      using utf8_char_multi [of c] assms(1,3) by (metis append_Cons linorder_not_less list.inject)
    then show ?thesis by (auto simp: is_cont_def word_le_nat_alt word_less_nat_alt)
  qed
  show ?thesis
    using c1_control_at_plain [OF assms(1,2), of rest] step b assms(3)
    by (simp add: ansi_step_at_def push_char_def q_def Let_def)
qed

lemma plain_step:
  assumes "is_scalar c" "\<not> is_control c" "utf8_char c @ rest = b # bs"
    "ap_g0_charset p = CharsetAscii" "ap_active_charset p = G0" "\<not> ap_pending_carriage_return p"
  shows "ansi_step_at e b bs p = Next (push_text e c p) (length (utf8_char c))"
  using assms(4-6)
  by (simp add: printed_step [OF assms(1-3)] flush_pending_carriage_return_for_rewrite_def
      map_active_charset_byte_def active_graphic_charset_def unwrap_or_def)

text \<open>The parser after \<open>n\<close> line breaks and some text, with the rows before in \<open>L\<close>.\<close>

definition typed :: "screen_line list \<Rightarrow> nat \<Rightarrow> rstr \<Rightarrow> ansi_parser" where
  "typed L n s =
     parser_new\<lparr>ap_lines := L, ap_current_row := n, ap_line_text := s,
       ap_line_spans := (if s = [] then [] else [\<lparr>sp_text = s, sp_style = style_default\<rparr>]),
       ap_line_cursor_col := length s\<rparr>"

lemma plain_cells:
  assumes "\<forall>c\<in>set s. ae_width e c = Some 1"
  shows "push_text_cells (ae_width e) s st cells = cells @ map (\<lambda>c. styled_text_cell c st 1) s"
  using assms
  by (induction s arbitrary: cells)
    (simp_all add: push_text_cells_def push_text_cell_def terminal_char_width_def unwrap_or_def)

lemma rebuild_plain:
  "rebuild_text (map (\<lambda>c. styled_text_cell c st 1) s) = s"
  "s \<noteq> [] \<Longrightarrow> rebuild_spans (map (\<lambda>c. styled_text_cell c st 1) s) = [\<lparr>sp_text = s, sp_style = st\<rparr>]"
proof -
  have visible: "filter (\<lambda>c. \<not> cl_spacer c) (map (\<lambda>c. styled_text_cell c st 1) s) =
      map (\<lambda>c. styled_text_cell c st 1) s" for s
    by (induction s) (simp_all add: styled_text_cell_def)
  show "rebuild_text (map (\<lambda>c. styled_text_cell c st 1) s) = s"
    by (simp add: rebuild_text_def visible) (induction s; simp add: styled_text_cell_def)
  have spans: "fold (\<lambda>cell. append_span (cl_text cell) (cl_style cell))
      (map (\<lambda>c. styled_text_cell c st 1) s) [\<lparr>sp_text = u, sp_style = st\<rparr>] = [\<lparr>sp_text = u @ s, sp_style = st\<rparr>]" for u s
    by (induction s arbitrary: u) (simp_all add: styled_text_cell_def append_span_def)
  show "rebuild_spans (map (\<lambda>c. styled_text_cell c st 1) s) = [\<lparr>sp_text = s, sp_style = st\<rparr>]" if "s \<noteq> []"
    using that spans by (cases s) (simp_all add: rebuild_spans_def visible append_span_def styled_text_cell_def)
qed

lemma typed_cells:
  assumes "\<forall>c\<in>set s. ae_width e c = Some 1"
  shows "current_line_cells e (typed L n s) = map (\<lambda>c. styled_text_cell c style_default 1) s"
  using plain_cells [OF assms]
  by (simp add: current_line_cells_def line_cells_def typed_def)

lemma push_text_typed:
  assumes "\<forall>c\<in>set s. ae_width e c = Some 1" "ae_width e c = Some 1"
  shows "push_text e c (typed L n s) = typed L n (s @ [c])"
proof -
  let ?cells = "map (\<lambda>c. styled_text_cell c style_default 1) s"
  have cells: "current_line_cells e (typed L n s) = ?cells" using typed_cells [OF assms(1)] .
  define p where "p = typed L n s"
  have p: "ap_line_cursor_col p = length s" "\<not> ap_insert_mode p" "\<not> ap_protected_mode p"
    "p\<lparr>ap_protected_cells := {}\<rparr> = p" "ap_protected_cells p = {}"
    by (simp_all add: p_def typed_def parser_new_def)
  have prot: "write_current_row_protection (length s) 1 p = p"
    by (simp add: write_current_row_protection_def clear_current_row_protection_range_def
        clear_row_protection_range_def retain_protected_def p)
  have "push_text_with_style e c style_default p =
      rebuild_line_from_cells (?cells @ [styled_text_cell c style_default 1])
        (p\<lparr>ap_line_cursor_col := length s + 1\<rparr>)"
    using assms(2)
    by (simp add: push_text_with_style_def cells [folded p_def] terminal_char_width_def unwrap_or_def Let_def
        p prot [simplified] extend_cells_to_width_with_cell_def insert_mode_cells_def clear_cell_for_write_def
        put_cell_def clear_wide_cluster_at_def clear_wide_cluster_at_with_cell_def
        clear_current_row_wide_cluster_protection_at_def)
  then have "push_text_with_style e c style_default (typed L n s) =
      rebuild_line_from_cells (map (\<lambda>c. styled_text_cell c style_default 1) (s @ [c]))
        ((typed L n s)\<lparr>ap_line_cursor_col := length s + 1\<rparr>)"
    by (simp add: p_def)
  also have "\<dots> = typed L n (s @ [c])"
    using rebuild_plain [where s = "s @ [c]" and st = style_default]
    by (simp add: rebuild_line_from_cells_def typed_def)
  finally show ?thesis
    by (simp add: push_text_def take_overstrike_cell_def typed_def parser_new_def)
qed

lemma push_bytes_typed:
  assumes "\<forall>c\<in>set (s @ u). plain_char e c"
  shows "push_bytes e (utf8_encode u @ rest) (typed L n s) = push_bytes e rest (typed L n (s @ u))"
  using assms
proof (induction u arbitrary: s)
  case (Cons c u)
  obtain b bs where bs: "utf8_char c @ utf8_encode u @ rest = b # bs"
    by (cases "utf8_char c @ utf8_encode u @ rest") (auto simp: utf8_char_def split: if_splits)
  have c: "is_scalar c" "\<not> is_control c" "ae_width e c = Some 1" "\<forall>c\<in>set s. ae_width e c = Some 1"
    using Cons.prems by (auto simp: plain_char_def)
  have "ansi_step_at e b bs (typed L n s) = Next (push_text e c (typed L n s)) (length (utf8_char c))"
    by (rule plain_step [OF c(1,2) bs]) (simp_all add: typed_def parser_new_def)
  then have "push_bytes e (b # bs) (typed L n s) =
      push_bytes e (drop (length (utf8_char c)) (b # bs)) (typed L n (s @ [c]))"
    using push_text_typed [OF c(4,3)] by simp
  moreover have "drop (length (utf8_char c)) (b # bs) = utf8_encode u @ rest"
    by (simp flip: bs)
  ultimately show ?case using Cons.IH [of "s @ [c]"] Cons.prems bs by simp
qed simp

text \<open>The rows stored of the lines printed so far: a blank line is stored by the next text below.\<close>

definition stored :: "rstr list \<Rightarrow> screen_line list" where
  "stored ls = map line_plain (rev (dropWhile (\<lambda>l. l = []) (rev ls)))"

lemma stored_snoc: "stored (ls @ [l]) = (if l = [] then stored ls else map line_plain (ls @ [l]))"
  by (simp add: stored_def)

lemma length_stored: "length (stored ls) \<le> length ls"
  by (simp add: stored_def) (metis length_dropWhile_le length_rev)

lemma grow_stored: "grow_lines (length ls) (stored ls) = map line_plain ls"
proof (induction ls rule: rev_induct)
  case (snoc l ls)
  have "grow_lines (Suc (length ls)) (stored ls) = grow_lines (length ls) (stored ls) @ [line_plain []]"
    using length_stored [of ls] by (simp add: grow_lines_def Suc_diff_le replicate_append_same)
  then show ?case using snoc by (simp add: stored_snoc) (simp add: grow_lines_def)
qed (simp add: stored_def grow_lines_def)

lemma store_typed:
  "store_current_line (typed (stored ls) (length ls) s) =
     (typed (stored (ls @ [s])) (length ls) s)"
  using grow_stored [of ls] length_stored [of ls]
  by (auto simp: store_current_line_def current_line_is_visible_def typed_def parser_new_def stored_snoc
      current_screen_line_def normalized_spans_def style_is_plain_def line_plain_def Let_def)

lemma break_typed:
  "push_line_break (typed (stored ls) (length ls) s) = typed (stored (ls @ [s])) (Suc (length ls)) []"
proof -
  have "ap_scroll_region (typed L n s) = None" and pend: "(typed L n s)\<lparr>ap_pending_backspace_cell := None\<rparr> = typed L n s" for L n s
    by (simp_all add: typed_def parser_new_def)
  then have "push_line_break (typed (stored ls) (length ls) s) =
      (load_current_line ((typed (stored (ls @ [s])) (length ls) s)\<lparr>ap_current_row := Suc (length ls)\<rparr>))
        \<lparr>ap_line_cursor_col := 0\<rparr>"
    using store_typed [of ls s]
    by (simp add: push_line_break_def active_scroll_region_def Let_def)
      (simp add: typed_def parser_new_def)
  also have "\<dots> = typed (stored (ls @ [s])) (Suc (length ls)) []"
    using length_stored [of "ls @ [s]"]
    by (simp add: load_current_line_def vec_get_def clear_pending_def typed_def parser_new_def Let_def
        clear_current_line_contents_preserving_cursor_def clear_row_protection_def retain_protected_def)
  finally show ?thesis .
qed

lemma push_bytes_break: "push_bytes e (10 # rest) p = push_bytes e rest (push_line_break p)"
  by (simp add: ansi_step_at_def c1_control_at_other push_control_def Let_def)

lemma push_bytes_lines:
  assumes "\<forall>l\<in>set (s # us). \<forall>c\<in>set l. plain_char e c"
  shows "push_bytes e (utf8_encode (join_with 10 (s # us)) @ rest) (typed (stored ls) (length ls) []) =
    push_bytes e rest (typed (stored (ls @ butlast (s # us))) (length ls + length us) (last (s # us)))"
  using assms
proof (induction us arbitrary: s ls)
  case Nil
  then show ?case using push_bytes_typed [of "[]" s e rest "stored ls" "length ls"] by simp
next
  case (Cons u us)
  have ten: "utf8_char 10 = [10]" by (simp add: utf8_char_def)
  have "push_bytes e (utf8_encode (join_with 10 (s # u # us)) @ rest) (typed (stored ls) (length ls) []) =
      push_bytes e (utf8_encode (join_with 10 (u # us)) @ rest) (typed (stored (ls @ [s])) (length (ls @ [s])) [])"
    using Cons.prems push_bytes_typed [of "[]" s e "10 # utf8_encode (join_with 10 (u # us)) @ rest" "stored ls" "length ls"]
      break_typed [of ls s]
    by (simp add: ten push_bytes_break del: push_bytes.simps)
  then show ?case using Cons.IH [of u "ls @ [s]"] Cons.prems by simp
qed

lemma new_typed: "parser_new = typed (stored []) 0 []"
  by (simp add: typed_def parser_new_def stored_def)

lemma push_bytes_new_lines:
  assumes "ls \<noteq> []" "\<forall>l\<in>set ls. \<forall>c\<in>set l. plain_char e c"
  shows "push_bytes e (utf8_encode (join_with 10 ls) @ rest) parser_new =
    push_bytes e rest (typed (stored (butlast ls)) (length ls - 1) (last ls))"
proof -
  obtain s us where ls: "ls = s # us" using assms(1) by (cases ls) auto
  then show ?thesis
    using push_bytes_lines [of s us e rest "[]"] assms(2) by (simp del: push_bytes.simps add: new_typed)
qed

text \<open>
  C24. Lines of characters that are printed in one column come back as the lines of the surface,
  in order and unchanged, without spans; only empty lines at the end are left out. The rest of
  the surface is untouched.
\<close>
theorem printed_lines:
  assumes "ls \<noteq> []" and "\<forall>l\<in>set ls. \<forall>c\<in>set l. plain_char e c"
  shows "screen_surface_from_ansi_output e (join_with 10 ls) title =
    Some (surface_empty\<lparr>sf_title := title,
            sf_lines := map line_plain (rev (dropWhile (\<lambda>l. l = []) (rev ls)))\<rparr>)"
proof -
  define n where "n = length ls - 1"
  have butlast: "ls = butlast ls @ [last ls]" "length (butlast ls) = n"
    using assms(1) by (simp_all add: n_def)
  have "push_str e (join_with 10 ls) parser_new = Some (typed (stored (butlast ls)) n (last ls))"
    using push_bytes_new_lines [OF assms, of "[]"] by (simp add: push_str_def n_def)
  moreover have "finish_surface title (typed (stored (butlast ls)) n (last ls)) =
      surface_empty\<lparr>sf_title := title, sf_lines := stored (butlast ls @ [last ls])\<rparr>"
  proof -
    have pend: "(typed L n s)\<lparr>ap_pending_carriage_return := False\<rparr> = typed L n s" for L n s
      by (simp add: typed_def parser_new_def)
    have "finish_surface title (typed (stored (butlast ls)) n (last ls)) =
        surface_empty\<lparr>sf_title := title,
          sf_lines := ap_lines (store_current_line (typed (stored (butlast ls)) n (last ls)))\<rparr>"
      using length_stored [of "butlast ls"] butlast(2)
      by (auto simp: finish_surface_def Let_def pend surface_empty_def or_else_def
          store_current_line_def current_line_is_visible_def typed_def parser_new_def)
    then show ?thesis using store_typed [of "butlast ls" "last ls"] butlast(2)
      by (simp add: typed_def)
  qed
  ultimately show ?thesis
    using butlast(1) by (simp add: screen_surface_from_ansi_output_def stored_def)
qed

lemma printed_lines_witness:
  "screen_surface_from_ansi_output \<lparr>ae_width = (\<lambda>c. Some 1), ae_base64 = (\<lambda>v. None)\<rparr>
     [97, 10, 10, 233, 10] None =
   Some (surface_empty\<lparr>sf_lines := [line_plain [97], line_plain [], line_plain [233]]\<rparr>)"
  using printed_lines [of "[[97], [], [233], []]" "\<lparr>ae_width = (\<lambda>c. Some 1), ae_base64 = (\<lambda>v. None)\<rparr>" None]
  by (simp add: plain_char_def is_scalar_def is_control_def surface_empty_def)

end
