(* ===== verification/Ansi_Invariant.thy ===== *)
theory Ansi_Invariant
  imports Ansi_Text
begin

text \<open>
  The invariant of the ANSI parser: bounded stacks, ordered tab stops, proper regions, and
  lines whose spans make up their text. Each operation keeps it; the rules are stated for the
  simplifier, so that a caller's proof is its definition and the splits of its branches.
\<close>

section \<open>The invariant\<close>

definition line_ok :: "screen_line \<Rightarrow> bool" where
  "line_ok line \<longleftrightarrow>
     \<not> sl_wrapped line \<and>
     (sl_spans line = [] \<or>
      (concat (map sp_text (sl_spans line)) = sl_text line \<and>
       list_ex (\<lambda>span. \<not> style_is_plain (sp_style span)) (sl_spans line)))"

definition region_ok :: "scroll_region option \<Rightarrow> bool" where
  "region_ok r = (case r of None \<Rightarrow> True | Some region \<Rightarrow> sr_top region < sr_bottom region)"

definition margins_ok :: "horizontal_region option \<Rightarrow> bool" where
  "margins_ok m = (case m of None \<Rightarrow> True | Some margins \<Rightarrow> hr_left margins < hr_right margins)"

definition buffer_ok :: "'a screen_buffer_state_scheme \<Rightarrow> bool" where
  "buffer_ok b \<longleftrightarrow>
     list_all line_ok (ap_lines b) \<and> region_ok (ap_scroll_region b) \<and>
     margins_ok (ap_horizontal_margins b) \<and> finite (ap_protected_cells b)"

definition stops_ok :: "nat list \<Rightarrow> bool" where
  "stops_ok stops \<longleftrightarrow> sorted stops \<and> distinct stops"

definition parser_ok :: "ansi_parser \<Rightarrow> bool" where
  "parser_ok p \<longleftrightarrow>
     buffer_ok p \<and> (case ap_normal_screen_state p of None \<Rightarrow> True | Some b \<Rightarrow> buffer_ok b) \<and>
     length (ap_sgr_stack p) \<le> max_sgr_stack_depth \<and>
     length (ap_color_stack p) \<le> max_color_stack_depth \<and>
     stops_ok (ap_explicit_tab_stops p) \<and> stops_ok (ap_cleared_default_tab_stops p) \<and>
     list_all is_default_terminal_tab_stop (ap_cleared_default_tab_stops p)"

section \<open>Field updates\<close>

lemma parser_ok_fields [simp]:
  "parser_ok (p\<lparr>ap_line_text := a1\<rparr>) = parser_ok p"
  "parser_ok (p\<lparr>ap_line_spans := a2\<rparr>) = parser_ok p"
  "parser_ok (p\<lparr>ap_line_media := a3\<rparr>) = parser_ok p"
  "parser_ok (p\<lparr>ap_line_side_effects := a4\<rparr>) = parser_ok p"
  "parser_ok (p\<lparr>ap_line_semantic_marks := a5\<rparr>) = parser_ok p"
  "parser_ok (p\<lparr>ap_line_cursor_col := a6\<rparr>) = parser_ok p"
  "parser_ok (p\<lparr>ap_current_row := a7\<rparr>) = parser_ok p"
  "parser_ok (p\<lparr>ap_origin_mode := a8\<rparr>) = parser_ok p"
  "parser_ok (p\<lparr>ap_left_right_margin_mode := a9\<rparr>) = parser_ok p"
  "parser_ok (p\<lparr>ap_cursor_touched := b1\<rparr>) = parser_ok p"
  "parser_ok (p\<lparr>ap_cursor_hidden := b2\<rparr>) = parser_ok p"
  "parser_ok (p\<lparr>ap_cursor_shape := b3\<rparr>) = parser_ok p"
  "parser_ok (p\<lparr>ap_cursor_blinking := b4\<rparr>) = parser_ok p"
  "parser_ok (p\<lparr>ap_current_style := b5\<rparr>) = parser_ok p"
  "parser_ok (p\<lparr>ap_title := b6\<rparr>) = parser_ok p"
  "parser_ok (p\<lparr>ap_working_directory_uri := b7\<rparr>) = parser_ok p"
  "parser_ok (p\<lparr>ap_user_variables := b8\<rparr>) = parser_ok p"
  "parser_ok (p\<lparr>ap_palette := b9\<rparr>) = parser_ok p"
  "parser_ok (p\<lparr>ap_dynamic_palette := c1\<rparr>) = parser_ok p"
  "parser_ok (p\<lparr>ap_bell_count := c2\<rparr>) = parser_ok p"
  "parser_ok (p\<lparr>ap_progress := c3\<rparr>) = parser_ok p"
  "parser_ok (p\<lparr>ap_protected_mode := c4\<rparr>) = parser_ok p"
  "parser_ok (p\<lparr>ap_insert_mode := c5\<rparr>) = parser_ok p"
  "parser_ok (p\<lparr>ap_default_tab_stops := c6\<rparr>) = parser_ok p"
  "parser_ok (p\<lparr>ap_g0_charset := c7\<rparr>) = parser_ok p"
  "parser_ok (p\<lparr>ap_g1_charset := c8\<rparr>) = parser_ok p"
  "parser_ok (p\<lparr>ap_active_charset := c9\<rparr>) = parser_ok p"
  "parser_ok (p\<lparr>ap_saved_line_state := d1\<rparr>) = parser_ok p"
  "parser_ok (p\<lparr>ap_kitty_chunk := d2\<rparr>) = parser_ok p"
  "parser_ok (p\<lparr>ap_iterm2_multipart_file := d3\<rparr>) = parser_ok p"
  "parser_ok (p\<lparr>ap_pending_carriage_return := d4\<rparr>) = parser_ok p"
  "parser_ok (p\<lparr>ap_pending_backspace_cell := d5\<rparr>) = parser_ok p"
  by (simp_all add: parser_ok_def buffer_ok_def)

lemma parser_ok_updates [simp]:
  "parser_ok p \<Longrightarrow> list_all line_ok ls \<Longrightarrow> parser_ok (p\<lparr>ap_lines := ls\<rparr>)"
  "parser_ok p \<Longrightarrow> finite cells \<Longrightarrow> parser_ok (p\<lparr>ap_protected_cells := cells\<rparr>)"
  "parser_ok p \<Longrightarrow> region_ok region \<Longrightarrow> parser_ok (p\<lparr>ap_scroll_region := region\<rparr>)"
  "parser_ok p \<Longrightarrow> margins_ok margins \<Longrightarrow> parser_ok (p\<lparr>ap_horizontal_margins := margins\<rparr>)"
  "parser_ok p \<Longrightarrow> length sgr \<le> 32 \<Longrightarrow> parser_ok (p\<lparr>ap_sgr_stack := sgr\<rparr>)"
  "parser_ok p \<Longrightarrow> length colors \<le> 32 \<Longrightarrow> parser_ok (p\<lparr>ap_color_stack := colors\<rparr>)"
  "parser_ok p \<Longrightarrow> stops_ok stops \<Longrightarrow> parser_ok (p\<lparr>ap_explicit_tab_stops := stops\<rparr>)"
  "parser_ok p \<Longrightarrow> stops_ok stops \<Longrightarrow> list_all is_default_terminal_tab_stop stops \<Longrightarrow>
     parser_ok (p\<lparr>ap_cleared_default_tab_stops := stops\<rparr>)"
  "parser_ok p \<Longrightarrow> (case b of None \<Rightarrow> True | Some s \<Rightarrow> buffer_ok s) \<Longrightarrow>
     parser_ok (p\<lparr>ap_normal_screen_state := b\<rparr>)"
  by (simp_all add: parser_ok_def buffer_ok_def max_sgr_stack_depth_def max_color_stack_depth_def)

lemma parser_ok_facts:
  assumes "parser_ok p"
  shows "list_all line_ok (ap_lines p)" "finite (ap_protected_cells p)" "region_ok (ap_scroll_region p)"
    "margins_ok (ap_horizontal_margins p)" "length (ap_sgr_stack p) \<le> 32" "length (ap_color_stack p) \<le> 32"
    "stops_ok (ap_explicit_tab_stops p)" "stops_ok (ap_cleared_default_tab_stops p)"
    "list_all is_default_terminal_tab_stop (ap_cleared_default_tab_stops p)" "buffer_ok p"
    "ap_normal_screen_state p = Some b \<Longrightarrow> buffer_ok b"
  using assms
  by (auto simp: parser_ok_def buffer_ok_def max_sgr_stack_depth_def max_color_stack_depth_def)

lemma lines_of_parser_ok [simp]: "parser_ok p \<Longrightarrow> list_all line_ok (ap_lines p)"
  by (rule parser_ok_facts(1))

lemma list_all_blank [simp]: "P b \<Longrightarrow> list_all P (replicate n b)"
  by (simp add: list_all_iff)

lemma trivial_ok [simp]:
  "region_ok None" "margins_ok None" "stops_ok []" "line_ok (line_plain s)"
  by (simp_all add: region_ok_def margins_ok_def stops_ok_def line_ok_def line_plain_def)

lemma parser_new_ok: "parser_ok parser_new"
  by (simp add: parser_ok_def buffer_ok_def parser_new_def)

section \<open>Lists of lines\<close>

lemma list_all_lines [simp]:
  "list_all P (grow_lines n ls) = (list_all P ls \<and> (n \<le> length ls \<or> P (line_plain [])))"
  "list_all P xs \<Longrightarrow> P b \<Longrightarrow> list_all P (insert_blank i n b xs)"
  "list_all P xs \<Longrightarrow> list_all P (drain i j xs)"
  "list_all P xs \<Longrightarrow> list_all P (take i xs)"
  "list_all P xs \<Longrightarrow> list_all P (drop i xs)"
  by (auto simp: list_all_iff grow_lines_def insert_blank_def drain_def dest: in_set_takeD in_set_dropD)

lemma normalized_line_ok [simp]: "line_ok (current_screen_line p)"
  by (auto simp: line_ok_def current_screen_line_def normalized_spans_def list_all_iff list_ex_iff)

lemma list_all_update [simp]: "list_all P xs \<Longrightarrow> P x \<Longrightarrow> list_all P (xs[i := x])"
  by (auto simp: list_all_iff dest: set_update_subset_insert [THEN subsetD])

section \<open>Protection and rows\<close>

lemma protection_ok [simp]:
  assumes "parser_ok p"
  shows "parser_ok (retain_protected keep p)" "parser_ok (shift_protected keep moved f p)"
    "parser_ok (protect_current_row_range a b p)" "parser_ok (clear_row_protection_range r a b p)"
    "parser_ok (clear_current_row_protection_range a b p)" "parser_ok (clear_current_row_protection_from a p)"
    "parser_ok (clear_row_protection r p)" "parser_ok (clear_rows_protection a stop p)"
    "parser_ok (clear_current_row_wide_cluster_protection_at cells a p)"
    "parser_ok (write_copied_cell_protection a b prot p)" "parser_ok (write_current_row_protection a b p)"
    "parser_ok (shift_current_row_protection_right a b p)"
    "parser_ok (delete_current_row_protection_range a b p)"
    "parser_ok (shift_row_protection_right_within r a b w p)"
    "parser_ok (delete_row_protection_range_within r a b w p)"
    "parser_ok (scroll_protection_up region a p)" "parser_ok (scroll_protection_down region a p)"
    "parser_ok (insert_protection_rows_within r b a p)" "parser_ok (delete_protection_rows_within r b a p)"
    "parser_ok (insert_protection_rows_unbounded r a p)" "parser_ok (delete_protection_rows_unbounded r a p)"
proof -
  have fin: "finite (ap_protected_cells q)" if "parser_ok q" for q using parser_ok_facts(2) that .
  have r: "parser_ok (retain_protected keep q)" if "parser_ok q" for keep q
    using that fin [OF that] by (simp add: retain_protected_def)
  have s: "parser_ok (shift_protected keep moved f q)" if "parser_ok q" for keep moved f q
    using that fin [OF that] by (simp add: shift_protected_def)
  have pr: "parser_ok (protect_current_row_range a b q)" if "parser_ok q" for a b q
    using that fin [OF that] by (simp add: protect_current_row_range_def)
  note defs = clear_row_protection_range_def clear_current_row_protection_range_def
    clear_current_row_protection_from_def clear_row_protection_def clear_rows_protection_def
    clear_current_row_wide_cluster_protection_at_def write_copied_cell_protection_def
    write_current_row_protection_def shift_current_row_protection_right_def
    delete_current_row_protection_range_def shift_row_protection_right_within_def
    delete_row_protection_range_within_def scroll_protection_up_def scroll_protection_down_def
    insert_protection_rows_within_def delete_protection_rows_within_def
    insert_protection_rows_unbounded_def delete_protection_rows_unbounded_def
  show "parser_ok (retain_protected keep p)" "parser_ok (shift_protected keep moved f p)"
    "parser_ok (protect_current_row_range a b p)" using r s pr assms by blast+
  show "parser_ok (clear_row_protection_range r a b p)"
    "parser_ok (clear_current_row_protection_range a b p)" "parser_ok (clear_current_row_protection_from a p)"
    "parser_ok (clear_row_protection r p)" "parser_ok (clear_rows_protection a stop p)"
    "parser_ok (clear_current_row_wide_cluster_protection_at cells a p)"
    "parser_ok (write_copied_cell_protection a b prot p)" "parser_ok (write_current_row_protection a b p)"
    "parser_ok (shift_current_row_protection_right a b p)"
    "parser_ok (delete_current_row_protection_range a b p)"
    "parser_ok (shift_row_protection_right_within r a b w p)"
    "parser_ok (delete_row_protection_range_within r a b w p)"
    "parser_ok (scroll_protection_up region a p)" "parser_ok (scroll_protection_down region a p)"
    "parser_ok (insert_protection_rows_within r b a p)" "parser_ok (delete_protection_rows_within r b a p)"
    "parser_ok (insert_protection_rows_unbounded r a p)" "parser_ok (delete_protection_rows_unbounded r a p)"
    by (simp_all add: defs assms r s pr split: option.split)
qed

lemma rows_ok [simp]:
  assumes "parser_ok p"
  shows "parser_ok (clear_pending p)" "parser_ok (store_current_line p)"
    "parser_ok (clear_current_line_contents_preserving_cursor p)" "parser_ok (clear_current_line p)"
    "parser_ok (load_current_line p)" "parser_ok (ensure_region_rows region p)"
proof -
  have pend: "parser_ok (clear_pending q)" if "parser_ok q" for q
    using that by (simp add: clear_pending_def)
  have clear: "parser_ok (clear_current_line_contents_preserving_cursor q)" if "parser_ok q" for q
    using that pend by (simp add: clear_current_line_contents_preserving_cursor_def)
  have lines: "list_all line_ok (ap_lines p)" using parser_ok_facts(1) [OF assms] .
  show "parser_ok (clear_pending p)" "parser_ok (clear_current_line_contents_preserving_cursor p)"
    using pend clear assms by blast+
  show "parser_ok (store_current_line p)"
    using assms lines by (simp add: store_current_line_def Let_def)
  show "parser_ok (clear_current_line p)"
    using assms pend by (simp add: clear_current_line_def)
  show "parser_ok (load_current_line p)"
    using assms pend clear by (simp add: load_current_line_def Let_def split: option.split)
  show "parser_ok (ensure_region_rows region p)"
    using assms lines by (simp add: ensure_region_rows_def)
qed

lemma load_row_ok [simp]: "parser_ok p \<Longrightarrow> parser_ok (load_row r p)"
  by (simp add: load_row_def)

lemma moves_ok [simp]:
  assumes "parser_ok p"
  shows "parser_ok (move_vertical r p)" "parser_ok (move_relative_vertical r p)"
    "parser_ok (push_index p)" "parser_ok (push_line_break p)"
    "parser_ok (scroll_region_up region n p)" "parser_ok (scroll_region_down region n p)"
proof -
  have lines: "list_all line_ok (ap_lines q)" if "parser_ok q" for q using parser_ok_facts(1) [OF that] .
  have up: "parser_ok (scroll_region_up region n q)" if "parser_ok q" for region n q
    using that by (simp add: scroll_region_up_def Let_def lines)
  have down: "parser_ok (scroll_region_down region n q)" if "parser_ok q" for region n q
    using that by (simp add: scroll_region_down_def Let_def lines)
  show "parser_ok (move_vertical r p)" "parser_ok (move_relative_vertical r p)"
    using assms by (simp_all add: move_vertical_def move_relative_vertical_def split: option.split)
  show "parser_ok (push_index p)" "parser_ok (push_line_break p)"
    using assms up by (simp_all add: push_index_def push_line_break_def Let_def split: option.split)
  show "parser_ok (scroll_region_up region n p)" "parser_ok (scroll_region_down region n p)"
    using up down assms by blast+
qed

section \<open>Buffers and text\<close>

lemma buffers_ok [simp]:
  assumes "parser_ok p"
  shows "parser_ok (enter_alternate_screen p)" "parser_ok (leave_alternate_screen p)"
proof -
  have current: "buffer_ok (current_buffer_state q)" if "parser_ok q" for q
    using parser_ok_facts(10) [OF that] by (simp add: current_buffer_state_def buffer_ok_def)
  show "parser_ok (enter_alternate_screen p)"
    using assms current by (simp add: enter_alternate_screen_def Let_def)
  show "parser_ok (leave_alternate_screen p)"
  proof (cases "ap_normal_screen_state p")
    case (Some b)
    then have b: "buffer_ok b" using parser_ok_facts(11) [OF assms] by blast
    show ?thesis
      using assms b Some
      by (simp add: leave_alternate_screen_def restore_buffer_state_def buffer_ok_def)
  qed (simp add: leave_alternate_screen_def assms)
qed

lemma rebuild_ok [simp]:
  "parser_ok p \<Longrightarrow> parser_ok (rebuild_line_from_cells cells p)"
  "parser_ok p \<Longrightarrow> parser_ok (append_line_text s st p)"
  by (simp_all add: rebuild_line_from_cells_def append_line_text_def)

lemma fold_pair_ok:
  assumes "\<And>x cs q. parser_ok q \<Longrightarrow> parser_ok (snd (f x (cs, q)))" "parser_ok p"
  shows "parser_ok (snd (fold f xs (cs, p)))"
  using assms(2)
proof (induction xs arbitrary: cs p)
  case (Cons x xs)
  obtain cs1 p1 where "f x (cs, p) = (cs1, p1)" by fastforce
  moreover have "parser_ok p1" using assms(1) [OF Cons.prems, of x cs] calculation by simp
  ultimately show ?case using Cons.IH by simp
qed simp

lemma pair_ok: "x = (cells, p) \<Longrightarrow> parser_ok (snd x) \<Longrightarrow> parser_ok p"
  by simp

lemma fold_ok: "(\<And>x q. parser_ok q \<Longrightarrow> parser_ok (f x q)) \<Longrightarrow> parser_ok p \<Longrightarrow> parser_ok (fold f xs p)"
  by (induction xs arbitrary: p) simp_all

lemma funpow_ok: "(\<And>q. parser_ok q \<Longrightarrow> parser_ok (f q)) \<Longrightarrow> parser_ok p \<Longrightarrow> parser_ok ((f ^^ n) p)"
  by (induction n) simp_all

lemma push_text_with_style_ok [simp]:
  assumes "parser_ok p"
  shows "parser_ok (push_text_with_style e ch st p)"
proof -
  have insert: "parser_ok (snd (insert_mode_cells w n (cs, q)))" if "parser_ok q" for w n cs q
    using that by (simp add: insert_mode_cells_def Let_def)
  have clear: "parser_ok (snd (clear_cell_for_write col (cs, q)))" if "parser_ok q" for col cs q
    using that by (simp add: clear_cell_for_write_def)
  have "parser_ok (snd (fold clear_cell_for_write cols (insert_mode_cells w n (cs, p))))" for cols w n cs
  proof -
    obtain cs1 p1 where *: "insert_mode_cells w n (cs, p) = (cs1, p1)" by fastforce
    then have "parser_ok p1" using insert [OF assms, of w n cs] by simp
    then show ?thesis using fold_pair_ok [of clear_cell_for_write, OF clear] * by simp
  qed
  note written = this
  define width where "width = terminal_char_width (ae_width e) ch"
  define start where "start = ap_line_cursor_col p"
  obtain cells2 p2 where f: "fold clear_cell_for_write [start..<start + width]
      (insert_mode_cells start width
         (extend_cells_to_width_with_cell start (styled_space_cell style_default) (current_line_cells e p), p))
      = (cells2, p2)"
    by fastforce
  then have "parser_ok p2" using written by (metis snd_conv)
  then show ?thesis
    using assms
    by (simp add: push_text_with_style_def Let_def f flip: width_def start_def split: option.split)
qed

lemma text_ok [simp]:
  assumes "parser_ok p"
  shows "parser_ok (push_text e ch p)" "parser_ok (push_tab e p)" "parser_ok (snd (pop_last_char e p))"
    "parser_ok (flush_pending_carriage_return_for_rewrite p)"
  using assms
  by (simp_all add: push_text_def take_overstrike_cell_def push_tab_def pop_last_char_def Let_def funpow_ok
      flush_pending_carriage_return_for_rewrite_def split: option.split)

section \<open>Control sequences\<close>

lemma saving_ok [simp]:
  assumes "parser_ok p"
  shows "parser_ok (save_line_state p)" "parser_ok (restore_line_state p)"
    "parser_ok (restore_screen_cursor_state s p)"
  using assms
  by (simp_all add: save_line_state_def restore_line_state_def restore_screen_cursor_state_def split: option.split)

lemma length_drop_oldest: "length xs \<le> 32 \<Longrightarrow> length (drop_oldest 32 xs) \<le> 31"
  by (simp add: drop_oldest_def)

lemma stacks_ok [simp]:
  assumes "parser_ok p"
  shows "parser_ok (push_sgr_state attributes p)" "parser_ok (pop_sgr_state p)"
    "parser_ok (push_color_stack_snapshot p)" "parser_ok (pop_color_stack_snapshot p)"
    "parser_ok (store_color_stack_snapshot slot p)" "parser_ok (restore_color_stack_snapshot slot p)"
proof -
  note len = parser_ok_facts(5,6) [OF assms]
  note dropped = length_drop_oldest [OF len(1)] length_drop_oldest [OF len(2)]
  show "parser_ok (push_sgr_state attributes p)" "parser_ok (pop_sgr_state p)"
    "parser_ok (push_color_stack_snapshot p)" "parser_ok (pop_color_stack_snapshot p)"
    using assms len dropped
    by (simp_all add: push_sgr_state_def pop_sgr_state_def push_color_stack_snapshot_def Let_def
        pop_color_stack_snapshot_def restore_color_palette_snapshot_def max_sgr_stack_depth_def
        max_color_stack_depth_def)
  moreover have "\<not> 32 < slot \<Longrightarrow>
      length (ap_color_stack p) + (slot - length (ap_color_stack p)) \<le> 32"
    using len by linarith
  ultimately show "parser_ok (store_color_stack_snapshot slot p)"
    "parser_ok (restore_color_stack_snapshot slot p)"
    using assms len
    by (simp_all add: store_color_stack_snapshot_def restore_color_stack_snapshot_def Let_def
        restore_color_palette_snapshot_def max_color_stack_depth_def split: option.split)
qed

lemma color_operations_ok [simp]:
  assumes "parser_ok p"
  shows "parser_ok (apply_color_stack_operations ops p)" "parser_ok (apply_color_stack_osc payload p)"
proof -
  have "parser_ok (apply_color_stack_operation op q)" if "parser_ok q" for op q
    using that by (cases op) simp_all
  then show "parser_ok (apply_color_stack_operations ops p)"
    using assms by (simp add: apply_color_stack_operations_def fold_ok)
  show "parser_ok (apply_color_stack_osc payload p)"
    using assms
    by (simp add: apply_color_stack_osc_def split: option.split terminal_kitty_color_stack_operation.split)
qed

lemma erasing_ok [simp]:
  assumes "parser_ok p"
  shows "parser_ok (apply_erase_in_line e payload p)" "parser_ok (apply_erase_in_display e payload p)"
    "parser_ok (apply_selective_erase_current_line_range e a b p)"
    "parser_ok (apply_selective_erase_in_display e mode p)" "parser_ok (apply_erase_characters e payload p)"
proof -
  have el: "parser_ok (apply_erase_in_line e payload q)" if "parser_ok q" for payload q
    using that by (simp add: apply_erase_in_line_def Let_def split: prod.split)
  have range: "parser_ok (apply_selective_erase_current_line_range e a b q)" if "parser_ok q" for a b q
    using that by (simp add: apply_selective_erase_current_line_range_def Let_def)
  have rows: "parser_ok (erase_rows_selectively e rows q)" if "parser_ok q" for rows q
    using that range by (simp add: erase_rows_selectively_def fold_ok)
  have sel: "parser_ok (apply_selective_erase_in_display e mode q)" if "parser_ok q" for mode q
    using that range rows by (simp add: apply_selective_erase_in_display_def Let_def)
  show "parser_ok (apply_erase_in_display e payload p)"
    using assms el sel by (simp add: apply_erase_in_display_def Let_def split: prod.split)
  show "parser_ok (apply_erase_characters e payload p)"
    using assms by (simp add: apply_erase_characters_def Let_def)
  show "parser_ok (apply_erase_in_line e payload p)" "parser_ok (apply_selective_erase_current_line_range e a b p)"
    "parser_ok (apply_selective_erase_in_display e mode p)"
    using assms el range sel by blast+
qed

lemma motion_ok [simp]:
  assumes "parser_ok p"
  shows "parser_ok (apply_horizontal_absolute payload p)" "parser_ok (apply_cursor_forward payload p)"
    "parser_ok (apply_cursor_backward payload p)" "parser_ok (apply_cursor_forward_tabulation payload p)"
    "parser_ok (apply_cursor_backward_tabulation payload p)" "parser_ok (apply_cursor_up payload p)"
    "parser_ok (apply_cursor_down payload p)" "parser_ok (apply_cursor_next_line payload p)"
    "parser_ok (apply_cursor_previous_line payload p)" "parser_ok (apply_cursor_position payload p)"
    "parser_ok (apply_vertical_absolute payload p)" "parser_ok (apply_reverse_index p)"
  using assms
  by (simp_all add: apply_horizontal_absolute_def apply_cursor_forward_def apply_cursor_backward_def
      apply_cursor_forward_tabulation_def apply_cursor_backward_tabulation_def apply_cursor_up_def
      apply_cursor_down_def apply_cursor_next_line_def apply_cursor_previous_line_def
      apply_cursor_position_def apply_vertical_absolute_def apply_reverse_index_def Let_def
      split: option.split prod.split)

lemma stops_insert: "stops_ok stops \<Longrightarrow> stops_ok (List.insort_insert c stops)"
  by (simp add: stops_ok_def sorted_insort_insert distinct_insort_insert)

lemma stops_filter: "stops_ok stops \<Longrightarrow> stops_ok (filter P stops)"
  by (simp add: stops_ok_def sorted_filter [of id, simplified])

lemma tabs_ok [simp]:
  assumes "parser_ok p"
  shows "parser_ok (set_tab_stop_at_cursor p)" "parser_ok (apply_tab_clear payload p)"
proof -
  have "stops_ok (ap_explicit_tab_stops (clear_pending p))"
    using parser_ok_facts(7) [OF rows_ok(1) [OF assms]] .
  then show "parser_ok (set_tab_stop_at_cursor p)"
    using assms by (simp add: set_tab_stop_at_cursor_def stops_insert clear_pending_def)
  have default: "list_all is_default_terminal_tab_stop (List.insort_insert c stops)"
    if "list_all is_default_terminal_tab_stop stops" "is_default_terminal_tab_stop c" for c stops
    using that by (simp add: list_all_iff set_insort_insert)
  show "parser_ok (apply_tab_clear payload p)"
    using assms parser_ok_facts(7-9) [OF assms]
    by (simp add: apply_tab_clear_def Let_def stops_insert stops_filter default)
qed

lemma branches_ok:
  "parser_ok q1 \<Longrightarrow> parser_ok q2 \<Longrightarrow> parser_ok (if c then q1 else q2)"
  "(\<And>x. parser_ok (f x)) \<Longrightarrow> parser_ok (let x = a in f x)"
  "(\<And>x y. parser_ok (g x y)) \<Longrightarrow> parser_ok (case z of (x, y) \<Rightarrow> g x y)"
  by (auto split: prod.split)

lemma modes_ok [simp]:
  assumes "parser_ok p"
  shows "parser_ok (apply_mode_set payload p)" "parser_ok (apply_mode_reset payload p)"
    "parser_ok (apply_soft_terminal_reset p)" "parser_ok (reset_terminal_state p)"
    "parser_ok (apply_cursor_shape payload p)" "parser_ok (apply_character_protection payload p)"
    "parser_ok (apply_horizontal_margins e payload p)" "parser_ok (apply_scroll_region payload p)"
proof -
  show "parser_ok (apply_mode_set payload p)" "parser_ok (apply_mode_reset payload p)"
    using assms by (simp_all add: apply_mode_set_def apply_mode_reset_def Let_def)
  show "parser_ok (apply_soft_terminal_reset p)" "parser_ok (reset_terminal_state p)"
    using assms by (simp_all add: apply_soft_terminal_reset_def reset_terminal_state_def)
  show "parser_ok (apply_cursor_shape payload p)" "parser_ok (apply_character_protection payload p)"
    using assms by (simp_all add: apply_cursor_shape_def apply_character_protection_def split: option.split)
  have step: "parser_ok (set_horizontal_margins l r p)" for l r
    using assms by (simp add: set_horizontal_margins_def Let_def margins_ok_def)
  show "parser_ok (apply_horizontal_margins e payload p)"
    unfolding apply_horizontal_margins_def by (intro branches_ok step assms)
  have "parser_ok (set_scroll_region t b p)" for t b
    using assms by (simp add: set_scroll_region_def region_ok_def)
  then show "parser_ok (apply_scroll_region payload p)"
    using assms by (simp add: apply_scroll_region_def Let_def split: prod.split)
qed

section \<open>Insertion, deletion, columns and rectangles\<close>

lemma lines_edit_ok [simp]:
  assumes "parser_ok p"
  shows "parser_ok (apply_insert_lines payload p)" "parser_ok (apply_delete_lines payload p)"
    "parser_ok (apply_scroll_up payload p)" "parser_ok (apply_scroll_down payload p)"
  using assms
  by (simp_all add: apply_insert_lines_def apply_delete_lines_def apply_scroll_up_def apply_scroll_down_def
      Let_def split: option.split)

lemma characters_edit_ok [simp]:
  assumes "parser_ok p"
  shows "parser_ok (apply_insert_characters e payload p)" "parser_ok (apply_delete_characters e payload p)"
    "parser_ok (apply_repeat_preceding_character e payload p)"
proof -
  show "parser_ok (apply_insert_characters e payload p)" "parser_ok (apply_delete_characters e payload p)"
    using assms by (simp_all add: apply_insert_characters_def apply_delete_characters_def Let_def)
  have step: "parser_ok (snd (repeat_cell cell z))" if "parser_ok (snd z)" for cell z
    using that by (cases z) (simp add: repeat_cell_def Let_def)
  have "parser_ok (snd ((repeat_cell cell ^^ n) (cells, p)))" for cell n cells
    by (induction n) (simp_all add: assms step)
  then have repeat: "parser_ok q" if "(repeat_cell cell ^^ n) (cells, p) = (cells1, q)"
    for cell n cells cells1 q
    using that by (metis snd_conv)
  show "parser_ok (apply_repeat_preceding_character e payload p)"
    using assms
    by (auto simp: apply_repeat_preceding_character_def Let_def dest: repeat split: option.split prod.split)
qed

lemma column_edit_ok [simp]:
  assumes "parser_ok p"
  shows "parser_ok (apply_terminal_column_edit e n mode p)"
proof -
  have row: "parser_ok (column_edit_row e mode a b n w blank r q)" if "parser_ok q" for mode a b n w blank r q
    using that by (simp add: column_edit_row_def column_edit_protection_def Let_def)
  have rows: "parser_ok (fold (column_edit_row e mode a b n w blank) rows q)" if "parser_ok q"
    for mode a b n w blank rows q
    using that row by (simp add: fold_ok)
  show ?thesis
    using assms by (simp add: apply_terminal_column_edit_def Let_def rows del: upt_Suc split: option.split)
qed

lemma columns_ok [simp]:
  assumes "parser_ok p"
  shows "parser_ok (apply_insert_columns e payload p)" "parser_ok (apply_delete_columns e payload p)"
    "parser_ok (apply_scroll_left_columns e payload p)" "parser_ok (apply_scroll_right_columns e payload p)"
    "parser_ok (apply_back_index e p)" "parser_ok (apply_forward_index e p)"
  using assms
  by (simp_all add: apply_insert_columns_def apply_delete_columns_def apply_scroll_left_columns_def
      apply_scroll_right_columns_def apply_back_index_def apply_forward_index_def Let_def)

lemma rectangles_ok [simp]:
  assumes "parser_ok p"
  shows "parser_ok (apply_rectangular_attributes e payload mode p)"
    "parser_ok (apply_fill_rectangular_area e payload p)"
    "parser_ok (apply_erase_rectangular_area e payload selective p)"
    "parser_ok (apply_copy_rectangular_area e payload p)"
proof -
  have "parser_ok (rectangular_attributes_row e request mode l r row q)" if "parser_ok q"
    for request l r row q
    using that by (simp add: rectangular_attributes_row_def Let_def)
  then show "parser_ok (apply_rectangular_attributes e payload mode p)"
    using assms by (simp add: apply_rectangular_attributes_def Let_def fold_ok split: option.split)
  have "parser_ok (fill_row e cell area row q)" if "parser_ok q" for cell area row q
  proof -
    have "parser_ok (snd (fold (\<lambda>col (cells, p). (write_styled_cell_at col cell cells,
        write_current_row_protection col 1 p)) cols (cells, load_row row q)))" for cols cells
      using that by (intro fold_pair_ok) simp_all
    then show ?thesis using that unfolding fill_row_def Let_def by (auto dest: pair_ok simp del: upt_Suc split: prod.split)
  qed
  then show "parser_ok (apply_fill_rectangular_area e payload p)"
    using assms by (simp add: apply_fill_rectangular_area_def Let_def fold_ok split: option.split)
  have "parser_ok (erase_area_row e selective area row q)" if "parser_ok q" for area row q
    using that by (simp add: erase_area_row_def Let_def)
  then show "parser_ok (apply_erase_rectangular_area e payload selective p)"
    using assms by (simp add: apply_erase_rectangular_area_def Let_def fold_ok split: option.split)
  have copied: "parser_ok (snd (copy_rectangular_area_snapshot e source q))" if "parser_ok q" for source q
    unfolding copy_rectangular_area_snapshot_def
    using that by (intro fold_pair_ok) (simp_all add: copy_area_row_def Let_def)
  have cell: "parser_ok (snd (write_copied_cell copied l i (cells, q)))" if "parser_ok q"
    for copied l i cells q
    using that by (simp add: write_copied_cell_def Let_def split: option.split)
  have "parser_ok (write_copied_row e t l x q)" if "parser_ok q" for t l x q
  proof -
    have "parser_ok (snd (fold (write_copied_cell copied l) cols (cells, load_row row q)))"
      for copied cols cells row
      using that cell by (intro fold_pair_ok) simp_all
    then show ?thesis unfolding write_copied_row_def Let_def by (auto dest: pair_ok simp del: upt_Suc split: prod.split)
  qed
  then have rows: "parser_ok (fold (write_copied_row e t l) xs q)" if "parser_ok q" for t l xs q
    using that by (simp add: fold_ok)
  show "parser_ok (apply_copy_rectangular_area e payload p)"
  proof -
    have "parser_ok (snd (copy_rectangular_area_snapshot e source (store_current_line p)))" for source
      using copied assms by simp
    then show ?thesis
      using assms rows
      by (auto simp: apply_copy_rectangular_area_def Let_def dest: pair_ok split: option.split prod.split)
  qed
qed

section \<open>The loop\<close>

lemma apply_csi_ok [simp]: "parser_ok p \<Longrightarrow> parser_ok (apply_csi e payload f p)"
  unfolding apply_csi_def Let_def by (simp split: option.split)

lemma osc_parts_ok [simp]:
  assumes "parser_ok p"
  shows "parser_ok (push_media media p)" "parser_ok (push_side_effect side_effect p)"
    "parser_ok (push_semantic_mark mark p)" "parser_ok (apply_osc_metadata e payload p)"
    "parser_ok (apply_osc_images e payload truncated p)"
proof -
  show media: "parser_ok (push_media media p)" for media
    using assms by (simp add: push_media_def split: option.split)
  show "parser_ok (push_side_effect side_effect p)" "parser_ok (push_semantic_mark mark p)"
    using assms by (simp_all add: push_side_effect_def push_semantic_mark_def split: option.split)
  show "parser_ok (apply_osc_metadata e payload p)"
    using assms by (simp add: apply_osc_metadata_def Let_def split: option.split prod.split)
  show "parser_ok (apply_osc_images e payload truncated p)"
    using assms by (simp add: apply_osc_images_def push_media_def split: option.split prod.split)
qed

lemma apply_osc_ok [simp]:
  assumes "parser_ok p"
  shows "parser_ok (apply_osc e payload truncated p)"
proof -
  have "parser_ok (p\<lparr>ap_current_style := st\<rparr>)" for st using assms by simp
  then show ?thesis using assms by (simp add: apply_osc_def Let_def split: option.split)
qed

lemma consumers_ok [simp]:
  assumes "parser_ok p"
  shows "parser_ok (fst (consume_csi e rest p))" "parser_ok (fst (consume_osc e rest p))"
    "parser_ok (fst (consume_apc e rest p))" "parser_ok (fst (consume_charset_designation target rest p))"
proof -
  show "parser_ok (fst (consume_csi e rest p))" "parser_ok (fst (consume_osc e rest p))"
    using assms by (simp_all add: consume_csi_def consume_osc_def split: option.split prod.split)
  show "parser_ok (fst (consume_apc e rest p))"
    using assms by (simp add: consume_apc_def push_media_def split: option.split prod.split)
  show "parser_ok (fst (consume_charset_designation target rest p))"
    using assms
    by (simp add: consume_charset_designation_def split: list.split option.split active_charset.split)
qed

text \<open>The state a step goes on with.\<close>

definition step_ok :: "ansi_step \<Rightarrow> bool" where
  "step_ok s = (case s of Next q n \<Rightarrow> parser_ok q | Passthrough d q n \<Rightarrow> parser_ok q | SlicePanic \<Rightarrow> True)"

lemma step_ok_simps [simp]:
  "step_ok (Next q n) = parser_ok q" "step_ok (Passthrough d q n) = parser_ok q" "step_ok SlicePanic"
  "step_ok (skip_to k r) = parser_ok (fst r)"
  by (simp_all add: step_ok_def skip_to_def split: prod.split)

lemma steps_ok:
  assumes "parser_ok p"
  shows "step_ok (consume_dcs k rest p)" "step_ok (consume_escape e rest p)"
    "step_ok (consume_c1 e control k rest p)" "step_ok (push_char e b bs p)"
    "parser_ok (push_control e b p)"
proof -
  have dcs: "step_ok (consume_dcs k rest p)" for k rest
    using assms by (simp add: consume_dcs_def split: option.split)
  show "step_ok (consume_dcs k rest p)" using dcs .
  show "step_ok (consume_escape e rest p)"
    using assms dcs unfolding consume_escape_def Let_def by (simp split: list.split)
  show "step_ok (consume_c1 e control k rest p)"
    using assms dcs unfolding consume_c1_def by (simp split: c1_control.split)
  show "step_ok (push_char e b bs p)"
    using assms by (simp add: push_char_def Let_def split: option.split)
  obtain x q1 where pop: "pop_last_char e (flush_pending_carriage_return_for_rewrite p) = (x, q1)" by fastforce
  then have "parser_ok q1" using text_ok(3,4) assms by (metis snd_conv)
  then show "parser_ok (push_control e b p)"
    using assms
    by (simp add: push_control_def Let_def flush_pending_carriage_return_before_control_def pop)
qed

lemma ansi_step_ok: "parser_ok p \<Longrightarrow> step_ok (ansi_step_at e b bs p)"
  by (simp add: ansi_step_at_def steps_ok flush_pending_carriage_return_before_control_def split: option.split prod.split)

lemma push_bytes_ok: "push_bytes e bs p = Some q \<Longrightarrow> parser_ok p \<Longrightarrow> parser_ok q"
proof (induction e bs p arbitrary: q rule: push_bytes.induct)
  case (2 e b bs p)
  note step = ansi_step_ok [OF "2.prems"(2), of e b bs]
  show ?case
  proof (cases "ansi_step_at e b bs p")
    case (Next q1 n)
    then have "push_bytes e (drop n (b # bs)) q1 = Some q" "parser_ok q1"
      using "2.prems"(1) step by simp_all
    then show ?thesis by (rule "2.IH"(1) [OF Next])
  next
    case (Passthrough d q1 n)
    then obtain q2 where q2: "push_bytes e (utf8_encode (utf8_lossy d)) q1 = Some q2"
      "push_bytes e (drop n (b # bs)) q2 = Some q"
      using "2.prems"(1) by (auto split: option.splits)
    have "parser_ok q2" using "2.IH"(2) [OF Passthrough q2(1)] Passthrough step by simp
    then show ?thesis using "2.IH"(3) [OF Passthrough q2(1) q2(2)] by simp
  next
    case SlicePanic
    then show ?thesis using "2.prems"(1) by simp
  qed
qed simp

text \<open>
  C25. Whatever the output, a parser that is in order stays so, at every turn of its loop and over a whole
  output: at most 32 saved styles and 32 saved palettes, tab stops in order, a scroll region and margins of at
  least two rows or columns, and every stored line, on either screen, without spans or with spans that make up
  its text. The line being written is made to satisfy this when it is stored; before that it need not.
\<close>
theorem parser_invariant:
  assumes "parser_ok p"
  shows "(case ansi_step_at e b bs p of Next q n \<Rightarrow> parser_ok q | Passthrough d q n \<Rightarrow> parser_ok q | SlicePanic \<Rightarrow> True) \<and>
    (case push_str e output p of None \<Rightarrow> True | Some q \<Rightarrow> parser_ok q)"
  using ansi_step_ok [OF assms, of e b bs] push_bytes_ok [OF _ assms]
  by (auto simp: push_str_def step_ok_def split: ansi_step.splits option.splits)

lemma parser_invariant_witness:
  "\<exists>q. push_str \<lparr>ae_width = (\<lambda>c. Some 1), ae_base64 = (\<lambda>v. None)\<rparr> [27, 72] parser_new = Some q \<and> parser_ok q"
proof -
  let ?e = "\<lparr>ae_width = (\<lambda>c. Some 1), ae_base64 = (\<lambda>v. None)\<rparr>"
  have "push_str ?e [27, 72] parser_new = Some (set_tab_stop_at_cursor parser_new)"
    by (simp add: push_str_def utf8_char_def ansi_step_at_def c1_control_at_def c1_controls_def
        strip_prefix_def consume_escape_def flush_pending_carriage_return_before_control_def)
  then show ?thesis using parser_invariant [OF parser_new_ok, of ?e 0 "[]" "[27, 72]"] by simp
qed

lemma finish_lines_ok:
  assumes "parser_ok p"
  shows "list_all line_ok (sf_lines (finish_surface title p))"
  using assms by (simp add: finish_surface_def Let_def)

text \<open>
  Every line of a surface that is returned is either without spans, or its spans make up
  exactly its text and one of them has a style; no line is marked as wrapped.
\<close>
theorem surface_lines_well_formed:
  assumes "screen_surface_from_ansi_output e output title = Some surface" "line \<in> set (sf_lines surface)"
  shows "\<not> sl_wrapped line \<and>
    (sl_spans line = [] \<or>
     (concat (map sp_text (sl_spans line)) = sl_text line \<and>
      (\<exists>span\<in>set (sl_spans line). \<not> style_is_plain (sp_style span))))"
proof -
  obtain q where "push_str e output parser_new = Some q" "surface = finish_surface title q"
    using assms(1) by (auto simp: screen_surface_from_ansi_output_def)
  then have "list_all line_ok (sf_lines surface)"
    using push_bytes_ok parser_new_ok finish_lines_ok by (auto simp: push_str_def)
  then have "line_ok line" using assms(2) by (simp add: list_all_iff)
  then show ?thesis by (auto simp: line_ok_def list_ex_iff)
qed

lemma surface_lines_well_formed_witness:
  "\<exists>surface. screen_surface_from_ansi_output \<lparr>ae_width = (\<lambda>c. Some 1), ae_base64 = (\<lambda>v. None)\<rparr> [97] None =
       Some surface \<and> line_plain [97] \<in> set (sf_lines surface) \<and> sl_spans (line_plain [97]) = []"
proof -
  let ?e = "\<lparr>ae_width = (\<lambda>c. Some 1), ae_base64 = (\<lambda>v. None)\<rparr>"
  have "push_str ?e [97] parser_new = Some (typed [] 0 [97])"
    using push_bytes_new_lines [of "[[97]]" ?e "[]"]
    by (simp add: push_str_def plain_char_def is_scalar_def is_control_def stored_def)
  then obtain surface where s: "screen_surface_from_ansi_output ?e [97] None = Some surface"
    "surface = finish_surface None (typed [] 0 [97])"
    by (simp add: screen_surface_from_ansi_output_def)
  have "store_current_line (typed [] 0 [97]) = typed [line_plain [97]] 0 [97]"
    using store_typed [of "[]" "[97]"] by (simp add: stored_def)
  then have "line_plain [97] \<in> set (sf_lines surface)"
    by (simp add: s(2) finish_surface_def Let_def) (simp add: typed_def parser_new_def current_line_is_visible_def)
  then show ?thesis using surface_lines_well_formed [OF s(1)] s(1) by (auto simp: line_plain_def)
qed

end
