(* ===== verification/Ansi_Behaviour.thy ===== *)
theory Ansi_Behaviour
  imports Ansi_Invariant
begin

text \<open>
  What whole control sequences do: the full reset, the alternate screen, text passed through tmux,
  scrolling regions, tab stops, and how cells survive the trip through the text of a line.
\<close>

section \<open>The full reset\<close>

text \<open>
  C26. \<open>ESC c\<close> puts the parser back into the state it starts in, from any state; what follows is
  parsed as if it were all of the output.
\<close>
theorem full_reset:
  "reset_terminal_state p = parser_new \<and> push_str e (27 # 99 # s) p = push_str e s parser_new"
proof
  show reset: "reset_terminal_state p = parser_new"
    by (simp add: reset_terminal_state_def clear_current_line_def clear_row_protection_def
        retain_protected_def clear_pending_def parser_new_def)
  have "ansi_step_at e 27 (99 # bs) p = Next parser_new 2" for bs
    by (simp add: ansi_step_at_def c1_control_at_other consume_escape_def Let_def reset
        flush_pending_carriage_return_before_control_def)
  then show "push_str e (27 # 99 # s) p = push_str e s parser_new"
    by (simp add: push_str_def utf8_char_def)
qed

section \<open>The alternate screen\<close>

lemma normal_screen_fields [simp]:
  "ap_normal_screen_state (retain_protected keep p) = ap_normal_screen_state p"
  "ap_normal_screen_state (shift_protected keep moved f p) = ap_normal_screen_state p"
  "ap_normal_screen_state (protect_current_row_range a b p) = ap_normal_screen_state p"
  "ap_normal_screen_state (clear_pending p) = ap_normal_screen_state p"
  "ap_normal_screen_state (rebuild_line_from_cells cells p) = ap_normal_screen_state p"
  "ap_normal_screen_state (append_line_text s st p) = ap_normal_screen_state p"
  "ap_normal_screen_state (store_current_line p) = ap_normal_screen_state p"
  "ap_normal_screen_state (ensure_region_rows region p) = ap_normal_screen_state p"
  by (simp_all add: retain_protected_def shift_protected_def protect_current_row_range_def clear_pending_def
      rebuild_line_from_cells_def append_line_text_def store_current_line_def ensure_region_rows_def Let_def)

lemma normal_screen_protection [simp]:
  "ap_normal_screen_state (clear_row_protection_range r a b p) = ap_normal_screen_state p"
  "ap_normal_screen_state (clear_current_row_protection_range a b p) = ap_normal_screen_state p"
  "ap_normal_screen_state (clear_row_protection r p) = ap_normal_screen_state p"
  "ap_normal_screen_state (clear_current_row_wide_cluster_protection_at cells a p) = ap_normal_screen_state p"
  "ap_normal_screen_state (write_current_row_protection a b p) = ap_normal_screen_state p"
  "ap_normal_screen_state (shift_current_row_protection_right a b p) = ap_normal_screen_state p"
  "ap_normal_screen_state (delete_current_row_protection_range a b p) = ap_normal_screen_state p"
  "ap_normal_screen_state (scroll_protection_up region n p) = ap_normal_screen_state p"
  by (simp_all add: clear_row_protection_range_def clear_current_row_protection_range_def
      clear_row_protection_def clear_current_row_wide_cluster_protection_at_def
      write_current_row_protection_def shift_current_row_protection_right_def
      delete_current_row_protection_range_def scroll_protection_up_def)

lemma normal_screen_rows [simp]:
  "ap_normal_screen_state (clear_current_line_contents_preserving_cursor p) = ap_normal_screen_state p"
  "ap_normal_screen_state (load_current_line p) = ap_normal_screen_state p"
  "ap_normal_screen_state (load_row r p) = ap_normal_screen_state p"
  "ap_normal_screen_state (scroll_region_up region n p) = ap_normal_screen_state p"
  "ap_normal_screen_state (push_line_break p) = ap_normal_screen_state p"
  by (simp_all add: clear_current_line_contents_preserving_cursor_def load_current_line_def load_row_def
      scroll_region_up_def push_line_break_def Let_def split: option.split)

lemma normal_screen_push_text_with_style [simp]:
  "ap_normal_screen_state (push_text_with_style e ch st p) = ap_normal_screen_state p"
proof -
  have step: "ap_normal_screen_state (snd (clear_cell_for_write col z)) = ap_normal_screen_state (snd z)" for col z
    by (cases z) (simp add: clear_cell_for_write_def)
  have written: "ap_normal_screen_state (snd (fold clear_cell_for_write cols z)) = ap_normal_screen_state (snd z)" for cols z
    by (induction cols arbitrary: z) (simp_all add: step)
  define width where "width = terminal_char_width (ae_width e) ch"
  define start where "start = ap_line_cursor_col p"
  have insert: "ap_normal_screen_state (snd (insert_mode_cells a b z)) = ap_normal_screen_state (snd z)" for a b z
    by (cases z) (simp add: insert_mode_cells_def Let_def)
  obtain cells2 p2 where f: "fold clear_cell_for_write [start..<start + width]
      (insert_mode_cells start width
         (extend_cells_to_width_with_cell start (styled_space_cell style_default) (current_line_cells e p), p))
      = (cells2, p2)"
    by fastforce
  from arg_cong [OF this, of "\<lambda>z. ap_normal_screen_state (snd z)"]
  have "ap_normal_screen_state p2 = ap_normal_screen_state p" by (simp add: written insert)
  then show ?thesis
    by (simp add: push_text_with_style_def Let_def f flip: width_def start_def split: option.split)
qed

lemma normal_screen_text [simp]:
  "ap_normal_screen_state (flush_pending_carriage_return_for_rewrite p) = ap_normal_screen_state p"
  "ap_normal_screen_state (push_text e ch p) = ap_normal_screen_state p"
  "ap_normal_screen_state (push_tab e p) = ap_normal_screen_state p"
  "ap_normal_screen_state (push_control e b p) = ap_normal_screen_state p"
proof -
  show flush: "ap_normal_screen_state (flush_pending_carriage_return_for_rewrite p) = ap_normal_screen_state p" for p
    by (simp add: flush_pending_carriage_return_for_rewrite_def)
  show "ap_normal_screen_state (push_text e ch p) = ap_normal_screen_state p"
    by (simp add: push_text_def take_overstrike_cell_def split: option.split prod.split)
  have many: "ap_normal_screen_state (((\<lambda>p. push_text_with_style e 32 (ap_current_style p) p) ^^ n) p)
      = ap_normal_screen_state p" for n p
    by (induction n) simp_all
  show tab: "ap_normal_screen_state (push_tab e p) = ap_normal_screen_state p" for p
    by (simp add: push_tab_def Let_def many)
  have pop: "ap_normal_screen_state (snd (pop_last_char e p)) = ap_normal_screen_state p" for p
    by (simp add: pop_last_char_def Let_def)
  show "ap_normal_screen_state (push_control e b p) = ap_normal_screen_state p"
    using pop [of "flush_pending_carriage_return_for_rewrite p"]
    by (auto simp: push_control_def Let_def tab flush flush_pending_carriage_return_before_control_def
        split: prod.split)
qed

text \<open>Characters that are drawn, or control characters other than ESC and the C1 controls.\<close>

definition typed_char :: "nat \<Rightarrow> bool" where
  "typed_char c \<longleftrightarrow> is_scalar c \<and> c \<noteq> 27 \<and> \<not> (128 \<le> c \<and> c < 160)"

lemma typed_char_step:
  assumes "typed_char c" "utf8_char c @ rest = b # bs"
  obtains q where "ansi_step_at e b bs p = Next q (length (utf8_char c))"
    "ap_normal_screen_state q = ap_normal_screen_state p"
proof (cases "is_control c")
  case True
  then have c: "c < 32 \<or> c = 127" "c \<noteq> 27" using assms(1) by (auto simp: typed_char_def is_control_def)
  then have b: "b = word_of_nat c" "length (utf8_char c) = 1" using assms(2) by (auto simp: utf8_char_def)
  have ub: "unat b = c" using c(1) b(1) unat_byte [of c] by auto
  then have "b \<noteq> 194" "b \<noteq> 27" "b < 32 \<or> b = 127"
    using c by (auto simp: word_less_nat_alt word_unat_eq_iff)
  then have "ansi_step_at e b bs p = Next (push_control e b p) (length (utf8_char c))"
    using b(2) by (simp add: ansi_step_at_def c1_control_at_other)
  then show thesis by (rule that) simp
next
  case False
  have "is_scalar c" using assms(1) by (simp add: typed_char_def)
  show thesis using printed_step [OF \<open>is_scalar c\<close> False assms(2)] by (rule that) simp
qed

lemma push_bytes_typed_chars:
  assumes "\<forall>c\<in>set s. typed_char c"
  shows "\<exists>q. push_bytes e (utf8_encode s @ rest) p = push_bytes e rest q
    \<and> ap_normal_screen_state q = ap_normal_screen_state p"
  using assms
proof (induction s arbitrary: p)
  case (Cons c s)
  obtain b bs where bs: "utf8_char c @ utf8_encode s @ rest = b # bs"
    by (cases "utf8_char c @ utf8_encode s @ rest") (auto simp: utf8_char_def split: if_splits)
  have "typed_char c" using Cons.prems by simp
  from typed_char_step [OF this bs, of e p] obtain q where
    q: "ansi_step_at e b bs p = Next q (length (utf8_char c))" "ap_normal_screen_state q = ap_normal_screen_state p" .
  have "drop (length (utf8_char c)) (b # bs) = utf8_encode s @ rest" by (simp flip: bs)
  then have "push_bytes e (utf8_encode (c # s) @ rest) p = push_bytes e (utf8_encode s @ rest) q"
    using bs q(1) by simp
  then show ?case using Cons.IH [of q] Cons.prems q(2) by auto
qed auto

text \<open>A CSI sequence is taken as a whole and its operation applied.\<close>

lemma csi_sequence:
  assumes "\<forall>b\<in>set payload. b < 64" "64 \<le> f" "f \<le> 126" "length payload < max_csi_sequence_bytes"
  shows "push_bytes e (27 # 91 # payload @ f # bs) p = push_bytes e bs (apply_csi e payload f p)"
proof -
  have "take (max_csi_sequence_bytes + 1) (payload @ f # bs) =
      payload @ f # take (max_csi_sequence_bytes - length payload) bs"
    using assms(4) by (simp add: Suc_diff_le)
  moreover have "position (\<lambda>b. 64 \<le> b \<and> b \<le> 126) (payload @ f # cs) = Some (length payload)" for cs
    using assms(1-3) by (induction payload) auto
  ultimately have "read_csi (payload @ f # bs) = Some (payload, f, length payload + 1)"
    by (simp add: read_csi_def del: Suc_eq_plus1)
  then have "ansi_step_at e 27 (91 # payload @ f # bs) p = Next (apply_csi e payload f p) (length payload + 3)"
    by (simp add: ansi_step_at_def c1_control_at_other consume_escape_def consume_csi_def
        flush_pending_carriage_return_before_control_def)
  moreover have "drop (length payload + 3) (27 # 91 # payload @ f # bs) = bs"
    by (simp add: numeral_3_eq_3)
  ultimately show ?thesis by simp
qed

lemma alternate_screen_modes:
  "csi_modes [63, 49, 48, 52, 57] = []" "csi_private_modes [63, 49, 48, 52, 57] = [1049]"
proof -
  have "utf8_decode [63, 49, 48, 52, 57 :: u8] = Some (lit ''?1049'')"
    using utf8_decode_encode(1) [of "lit ''?1049''"] by (simp add: lit_def utf8_char_def is_scalar_def)
  then show "csi_modes [63, 49, 48, 52, 57] = []" "csi_private_modes [63, 49, 48, 52, 57] = [1049]"
    by (simp_all add: csi_modes_def csi_private_modes_def strip_prefix_def lit_def numeric_parts_def map_filter_def
        parse_csi_numeric_part_def is_digit_def parse_u16_def parse_uint_def digits_value_def hex_value_def)
qed

lemma alternate_screen_switch:
  "push_bytes e (27 # 91 # 63 # 49 # 48 # 52 # 57 # 104 # bs) p = push_bytes e bs (enter_alternate_screen p)"
  "push_bytes e (27 # 91 # 63 # 49 # 48 # 52 # 57 # 108 # bs) p = push_bytes e bs (leave_alternate_screen p)"
  using csi_sequence [of "[63, 49, 48, 52, 57]" 104 e bs p] csi_sequence [of "[63, 49, 48, 52, 57]" 108 e bs p]
  by (simp_all add: max_csi_sequence_bytes_def apply_csi_def apply_mode_set_def apply_mode_reset_def
      alternate_screen_modes del: push_bytes.simps)

text \<open>
  C27. Text between a switch to the alternate screen (mode 1049) and the switch back leaves the normal
  screen as it was: its rows, the current line, cursor, region, margins and protected cells. Only the
  cursor counts as touched.
\<close>
theorem alternate_screen_restores:
  assumes "\<forall>c\<in>set s. typed_char c" "ap_normal_screen_state p = None"
  shows "\<exists>q. push_str e (27 # lit ''[?1049h'' @ s @ 27 # lit ''[?1049l'') p = Some q \<and>
    ap_normal_screen_state q = None \<and>
    current_buffer_state q = (current_buffer_state (store_current_line p))\<lparr>ap_cursor_touched := True\<rparr>"
proof -
  let ?q0 = "enter_alternate_screen p"
  have "ap_normal_screen_state ?q0 = Some (current_buffer_state (store_current_line p))"
    using assms(2)
    by (simp add: enter_alternate_screen_def clear_current_line_def clear_pending_def Let_def
        clear_row_protection_def retain_protected_def)
  with push_bytes_typed_chars [OF assms(1)] obtain q where
    q: "push_bytes e (utf8_encode s @ 27 # 91 # 63 # 49 # 48 # 52 # 57 # 108 # []) ?q0 =
        push_bytes e (27 # 91 # 63 # 49 # 48 # 52 # 57 # 108 # []) q"
      "ap_normal_screen_state q = Some (current_buffer_state (store_current_line p))"
    by metis
  have bytes: "utf8_encode (27 # lit ''[?1049h'' @ s @ 27 # lit ''[?1049l'') =
      27 # 91 # 63 # 49 # 48 # 52 # 57 # 104 # utf8_encode s @ 27 # 91 # 63 # 49 # 48 # 52 # 57 # 108 # []"
    by (simp add: lit_def utf8_char_def)
  have "push_str e (27 # lit ''[?1049h'' @ s @ 27 # lit ''[?1049l'') p = Some (leave_alternate_screen q)"
    using q(1) unfolding push_str_def bytes
    by (simp only: alternate_screen_switch) (simp add: alternate_screen_switch(2) del: push_bytes.simps(2))
  moreover have "current_buffer_state (leave_alternate_screen q) =
      (current_buffer_state (store_current_line p))\<lparr>ap_cursor_touched := True\<rparr>"
    "ap_normal_screen_state (leave_alternate_screen q) = None"
    using q(2) by (simp_all add: leave_alternate_screen_def restore_buffer_state_def current_buffer_state_def)
  ultimately show ?thesis by blast
qed

lemma alternate_screen_restores_witness:
  "\<forall>e. \<exists>q. push_str e (27 # lit ''[?1049h'' @ [97, 10, 9, 8, 22312, 13] @ 27 # lit ''[?1049l'') parser_new = Some q \<and>
    ap_normal_screen_state q = None \<and>
    current_buffer_state q = (current_buffer_state (store_current_line parser_new))\<lparr>ap_cursor_touched := True\<rparr>"
  by (intro allI alternate_screen_restores) (simp_all add: typed_char_def is_scalar_def parser_new_def)

section \<open>Erasing below the cursor\<close>

lemma no_parameters:
  "first_csi_numeric_parameter [] = None" "first_two_csi_numeric_parameters [] = (None, None)"
  "selective_csi_payload [] = (False, [])"
  by (simp_all add: first_csi_numeric_parameter_def first_two_csi_numeric_parameters_def utf8_decode_def
      split_params_def parse_csi_numeric_part_def vec_get_def selective_csi_payload_def strip_prefix_def ascii_def)

text \<open>The cursor at home on a screen of plain lines.\<close>

definition homed :: "rstr list \<Rightarrow> ansi_parser" where
  "homed ls = parser_new\<lparr>ap_lines := map line_plain ls, ap_line_text := hd ls, ap_cursor_touched := True\<rparr>"

lemma home_typed:
  assumes "2 \<le> length ls" "last ls \<noteq> []"
  shows "apply_cursor_position [] (typed (stored (butlast ls)) (length ls - 1) (last ls)) = homed ls"
proof -
  have ls: "butlast ls @ [last ls] = ls" "length (butlast ls) = length ls - 1"
    using assms by (auto intro!: append_butlast_last_id)
  then have stored: "stored ls = map line_plain ls"
    using assms(2) stored_snoc [of "butlast ls" "last ls"] by simp
  let ?p = "typed (stored (butlast ls)) (length ls - 1) (last ls)"
  have region: "ap_current_row ?p \<noteq> 0" "ap_origin_mode ?p = False"
    using assms(1) by (simp_all add: typed_def parser_new_def)
  have store: "store_current_line ?p = typed (map line_plain ls) (length ls - 1) (last ls)"
    using store_typed [of "butlast ls" "last ls"] ls stored by simp
  obtain l ms where hd: "ls = l # ms" using assms(1) by (cases ls) auto
  have "load_row 0 ?p = load_current_line ((typed (map line_plain ls) (length ls - 1) (last ls))\<lparr>ap_current_row := 0\<rparr>)"
    using region store by (simp add: load_row_def)
  also have "\<dots> = (typed (map line_plain ls) 0 (hd ls))\<lparr>ap_line_spans := [], ap_line_cursor_col := length (last ls)\<rparr>"
    by (simp add: load_current_line_def clear_pending_def vec_get_def typed_def parser_new_def Let_def hd line_plain_def)
  finally show ?thesis
    using region(2)
    by (simp add: apply_cursor_position_def no_parameters unwrap_or_def move_vertical_def
        absolute_row_for_position_def clear_pending_def homed_def typed_def parser_new_def)
qed

lemma erase_homed:
  assumes "ls \<noteq> []"
  shows "apply_erase_in_display e [] (homed ls) = parser_new\<lparr>ap_cursor_touched := True\<rparr>"
    and "apply_erase_in_display e [] ((homed ls)\<lparr>ap_pending_carriage_return := True\<rparr>) = (homed ls)\<lparr>ap_line_text := []\<rparr>"
  by (simp_all add: apply_erase_in_display_def no_parameters unwrap_or_def apply_erase_in_line_def
      clear_current_line_def clear_pending_def clear_row_protection_def retain_protected_def
      clear_current_row_protection_from_def clear_rows_protection_def rebuild_line_from_cells_def rebuild_spans_def rebuild_text_def homed_def parser_new_def Let_def)

text \<open>
  Erasing below the cursor depends on a carriage return just before: on a screen of two or more
  plain lines, home and \<open>ESC [ J\<close> empty the screen, but with a carriage return between them,
  which moves nothing, only the first line is erased and the others stay.
\<close>
theorem erase_below_after_return:
  assumes "2 \<le> length ls" "last ls \<noteq> []" "\<forall>l\<in>set ls. \<forall>c\<in>set l. plain_char e c"
  shows "screen_lines_from_ansi_output e (join_with 10 ls @ 27 # lit ''[H'' @ 27 # lit ''[J'') = Some [] \<and>
    screen_lines_from_ansi_output e (join_with 10 ls @ 27 # lit ''[H'' @ 13 # 27 # lit ''[J'') =
      Some (line_plain [] # map line_plain (tl ls))"
proof -
  let ?p = "typed (stored (butlast ls)) (length ls - 1) (last ls)"
  have ne: "ls \<noteq> []" using assms(1) by auto
  have screen: "push_bytes e (utf8_encode (join_with 10 ls) @ 27 # 91 # 72 # bs) parser_new = push_bytes e bs (homed ls)" for bs
    using push_bytes_new_lines [OF ne assms(3), of "27 # 91 # 72 # bs"] csi_sequence [of "[]" 72 e bs ?p]
      home_typed [OF assms(1,2)]
    by (simp add: max_csi_sequence_bytes_def apply_csi_def del: push_bytes.simps)
  have return: "push_bytes e (13 # bs) (homed ls) = push_bytes e bs ((homed ls)\<lparr>ap_pending_carriage_return := True\<rparr>)" for bs
    by (simp add: ansi_step_at_def c1_control_at_other push_control_def homed_def parser_new_def)
  have erase: "push_bytes e [27, 91, 74] p = Some (apply_erase_in_display e [] p)" for p
    using csi_sequence [of "[]" 74 e "[]" p] by (simp add: max_csi_sequence_bytes_def apply_csi_def)
  obtain l ms where ls: "ls = l # ms" using ne by (cases ls) auto
  have chars: "utf8_char 27 = [27]" "utf8_char 13 = [13]" "utf8_encode (lit ''[H'') = [91, 72]" "utf8_encode (lit ''[J'') = [91, 74]"
    by (simp_all add: utf8_char_def lit_def)
  have "push_str e (join_with 10 ls @ 27 # lit ''[H'' @ 27 # lit ''[J'') parser_new =
      Some (parser_new\<lparr>ap_cursor_touched := True\<rparr>)"
    by (simp add: push_str_def chars screen erase erase_homed [OF ne] del: push_bytes.simps)
  moreover have "push_str e (join_with 10 ls @ 27 # lit ''[H'' @ 13 # 27 # lit ''[J'') parser_new =
      Some ((homed ls)\<lparr>ap_line_text := []\<rparr>)"
    by (simp add: push_str_def chars screen return erase erase_homed [OF ne] del: push_bytes.simps)
  ultimately show ?thesis
    by (simp add: screen_lines_from_ansi_output_def screen_surface_from_ansi_output_def finish_surface_def
        store_current_line_def current_line_is_visible_def homed_def parser_new_def ls grow_lines_def
        current_screen_line_def normalized_spans_def line_plain_def Let_def)
qed

lemma erase_below_after_return_witness:
  "screen_lines_from_ansi_output \<lparr>ae_width = (\<lambda>c. Some 1), ae_base64 = (\<lambda>v. None)\<rparr>
     (join_with 10 [[97], [98]] @ 27 # lit ''[H'' @ 27 # lit ''[J'') = Some [] \<and>
   screen_lines_from_ansi_output \<lparr>ae_width = (\<lambda>c. Some 1), ae_base64 = (\<lambda>v. None)\<rparr>
     (join_with 10 [[97], [98]] @ 27 # lit ''[H'' @ 13 # 27 # lit ''[J'') =
     Some (line_plain [] # map line_plain (tl [[97], [98]]))"
  by (rule erase_below_after_return) (simp_all add: plain_char_def is_scalar_def is_control_def)

end
