(* ===== verification/Foreign_Session.thy ===== *)
theory Foreign_Session
  imports Screen_Delta Ansi_Text
begin

text \<open>
  What the backends for foreign multiplexers share. The crates \<open>terminal-backend-tmux\<close> and
  \<open>terminal-backend-zellij\<close> drive a command line tool: every operation runs it some times and
  reads what it prints. The tool is a parameter, a function of its arguments and of the state of
  the world it works on; an operation is a function of that state (\<open>io\<close>). Both crates build the
  same trees of panes and the same snapshots of a screen.
\<close>

section \<open>Operations with effects\<close>

type_synonym ('w, 'e, 'a) effect = "'w \<Rightarrow> ('e + 'a) \<times> 'w"
type_synonym ('w, 'a) io = "('w, backend_error, 'a) effect"

definition io_ok :: "'a \<Rightarrow> ('w, 'e, 'a) effect" where "io_ok x = (\<lambda>w. (Inr x, w))"
definition io_err :: "'e \<Rightarrow> ('w, 'e, 'a) effect" where "io_err e = (\<lambda>w. (Inl e, w))"
definition io_lift :: "('e + 'a) \<Rightarrow> ('w, 'e, 'a) effect" where "io_lift r = (\<lambda>w. (r, w))"

text \<open>\<open>io_bind m f\<close> is \<open>f(m?)\<close>.\<close>

definition io_bind :: "('w, 'e, 'a) effect \<Rightarrow> ('a \<Rightarrow> ('w, 'e, 'b) effect) \<Rightarrow> ('w, 'e, 'b) effect" where
  "io_bind m f = (\<lambda>w. case m w of (Inl e, w1) \<Rightarrow> (Inl e, w1) | (Inr x, w1) \<Rightarrow> f x w1)"

definition io_map :: "('a \<Rightarrow> 'b) \<Rightarrow> ('w, 'e, 'a) effect \<Rightarrow> ('w, 'e, 'b) effect" where
  "io_map f m = io_bind m (\<lambda>x. io_ok (f x))"

lemma io_simps [simp]:
  "io_ok x w = (Inr x, w)" "io_err e w = (Inl e, w)" "io_lift r w = (r, w)"
  "io_bind (io_ok x) f = f x" "io_bind (io_err e) f = io_err e"
  "io_bind (io_lift (Inl e)) f = io_err e" "io_bind (io_lift (Inr x)) f = f x"
  by (simp_all add: io_ok_def io_err_def io_lift_def io_bind_def fun_eq_iff)

lemma io_bind_Inr: "io_bind m f w = (Inr y, w2) \<longleftrightarrow> (\<exists>x w1. m w = (Inr x, w1) \<and> f x w1 = (Inr y, w2))"
  by (auto simp: io_bind_def split: prod.splits sum.splits)

lemma io_bind_Inl:
  "io_bind m f w = (Inl e, w2) \<longleftrightarrow>
     m w = (Inl e, w2) \<or> (\<exists>x w1. m w = (Inr x, w1) \<and> f x w1 = (Inl e, w2))"
  by (auto simp: io_bind_def split: prod.splits sum.splits)

section \<open>The tool\<close>

text \<open>
  How running a command ends: it cannot be started, cannot be waited for, its output cannot be
  read, or it exits, with success or not, having printed to standard output and standard error.
  \<open>fe_expired\<close> says whether a command still runs when the time its caller allows is over, and the
  world once it is killed. \<open>fe_new_uuid\<close> is \<open>Uuid::new_v4\<close>, \<open>fe_uuid5\<close> the name-based UUID in the URL
  namespace, \<open>fe_debug_str\<close>, \<open>fe_debug_char\<close> and \<open>fe_debug_part\<close> the \<open>{:?}\<close> form of a string, a character and
  an identifier,
  \<open>fe_utf8_error\<close> the text of a failed decoding, \<open>fe_hash\<close> the \<open>DefaultHasher\<close> over what
  \<open>screen_sequence\<close> feeds it.
\<close>

datatype tool_run =
    RunSpawnFailed rstr
  | RunWaitFailed rstr
  | RunCollectFailed rstr
  | RunExited bool "u8 list" "u8 list"

record 'w foreign_env =
  fe_tool :: "rstr list \<Rightarrow> 'w \<Rightarrow> tool_run \<times> 'w"
  fe_expired :: "rstr list \<Rightarrow> 'w \<Rightarrow> 'w option"
  fe_new_uuid :: "'w \<Rightarrow> uuid \<times> 'w"
  fe_uuid5 :: "u8 list \<Rightarrow> uuid"
  fe_debug_str :: "rstr \<Rightarrow> rstr"
  fe_debug_char :: "nat \<Rightarrow> rstr"
  fe_debug_part :: "message_part \<Rightarrow> rstr"
  fe_utf8_error :: "u8 list \<Rightarrow> rstr"
  fe_hash :: "pane_id \<times> u16 \<times> u16 \<times> screen_surface \<Rightarrow> u64"
  fe_ansi :: ansi_env

text \<open>The text of a message.\<close>

definition message_text :: "'w foreign_env \<Rightarrow> message \<Rightarrow> rstr" where
  "message_text env m =
     concat (map (\<lambda>part. case part of MText t \<Rightarrow> lit t | MString s \<Rightarrow> s | _ \<Rightarrow> fe_debug_part env part) m)"

definition utf8_result :: "'w foreign_env \<Rightarrow> string \<Rightarrow> u8 list \<Rightarrow> backend_error + rstr" where
  "utf8_result env what bytes =
     ok_or (utf8_decode bytes) (internal_error [MText what, MString (fe_utf8_error env bytes)])"

section \<open>Strings\<close>

definition sublist_at :: "'a list \<Rightarrow> 'a list \<Rightarrow> bool" where
  "sublist_at needle hay \<longleftrightarrow> take (length needle) hay = needle"

text \<open>\<open>str::contains\<close>.\<close>

fun contains_str :: "rstr \<Rightarrow> rstr \<Rightarrow> bool" where
  "contains_str needle [] \<longleftrightarrow> needle = []"
| "contains_str needle (c # hay) \<longleftrightarrow> sublist_at needle (c # hay) \<or> contains_str needle hay"

text \<open>\<open>str::lines\<close>: a line ends with LF or CR LF, the last one also with the text.\<close>

definition strip_cr :: "rstr \<Rightarrow> rstr" where
  "strip_cr s = (if s \<noteq> [] \<and> last s = 13 then butlast s else s)"

definition str_lines :: "rstr \<Rightarrow> rstr list" where
  "str_lines s =
     (let parts = split_on 10 s
      in map strip_cr (butlast parts) @ (if last parts = [] then [] else [last parts]))"

definition non_empty :: "rstr \<Rightarrow> rstr option" where
  "non_empty value = (let trimmed = trim value in if trimmed = [] then None else Some trimmed)"

text \<open>\<open>to_string\<close> of an unsigned integer.\<close>

fun show_nat :: "nat \<Rightarrow> rstr" where
  "show_nat n = (if n < 10 then [48 + n] else show_nat (n div 10) @ [48 + n mod 10])"

declare show_nat.simps [simp del]

lemma show_nat_nonempty [simp]: "show_nat n \<noteq> []"
  by (simp add: show_nat.simps [of n])

lemma show_nat_digits: "\<forall>c\<in>set (show_nat n). is_digit c"
proof (induction n rule: show_nat.induct)
  case (1 n)
  then show ?case by (auto simp: show_nat.simps [of n] is_digit_def)
qed

lemma digits_value_snoc: "digits_value 10 (s @ [d]) = digits_value 10 s * 10 + hex_value d"
  by (simp add: digits_value_def)

lemma digits_show_nat: "digits_value 10 (show_nat n) = n"
proof (induction n rule: show_nat.induct)
  case (1 n)
  then show ?case
    by (cases "n < 10")
      (simp_all add: show_nat.simps [of n] digits_value_snoc digits_value_def [of _ "[_]"] hex_value_def is_digit_def)
qed

lemma parse_show_nat: "n \<le> m \<Longrightarrow> parse_uint m (show_nat n) = Some n"
proof -
  assume "n \<le> m"
  moreover have "hd (show_nat n) \<noteq> 43"
    using bspec [OF show_nat_digits hd_in_set [OF show_nat_nonempty], of n] by (auto simp: is_digit_def)
  then have "(case show_nat n of [] \<Rightarrow> [] | c # rest \<Rightarrow> if c = 43 then rest else show_nat n) = show_nat n"
    by (cases "show_nat n") simp_all
  ultimately show ?thesis
    using show_nat_digits [of n] by (simp add: parse_uint_def Let_def list_all_iff digits_show_nat)
qed

text \<open>The text of a \<open>ParseIntError\<close>: the first character that ends the parse.\<close>

fun int_error_from :: "nat \<Rightarrow> nat \<Rightarrow> rstr \<Rightarrow> rstr" where
  "int_error_from bound n [] = lit ''invalid digit found in string''"
| "int_error_from bound n (c # cs) =
     (if \<not> is_digit c then lit ''invalid digit found in string''
      else if bound < n * 10 + hex_value c then lit ''number too large to fit in target type''
      else int_error_from bound (n * 10 + hex_value c) cs)"

definition parse_int_error :: "nat \<Rightarrow> rstr \<Rightarrow> rstr" where
  "parse_int_error bound s =
     (if s = [] then lit ''cannot parse integer from empty string''
      else int_error_from bound 0 (if hd s = 43 then tl s else s))"

section \<open>Identifiers\<close>

definition deterministic_uuid :: "'w foreign_env \<Rightarrow> rstr \<Rightarrow> 'k uuid_id" where
  "deterministic_uuid env fingerprint = Id (fe_uuid5 env (utf8_encode fingerprint))"

text \<open>\<open>{:?}\<close> of an optional string.\<close>

definition debug_option :: "'w foreign_env \<Rightarrow> rstr option \<Rightarrow> rstr" where
  "debug_option env v =
     (case v of None \<Rightarrow> lit ''None'' | Some s \<Rightarrow> lit ''Some('' @ fe_debug_str env s @ lit '')'')"

section \<open>Trees of panes\<close>

text \<open>
  The panes of a tab side by side, in order. Without panes the tree is a leaf for a new identifier
  that names nothing.
\<close>

definition fallback_tree :: "'w foreign_env \<Rightarrow> pane_id list \<Rightarrow> 'w \<Rightarrow> pane_tree_node \<times> 'w" where
  "fallback_tree env pane_ids w =
     (case pane_ids of
        [] \<Rightarrow> (case fe_new_uuid env w of (u, w1) \<Rightarrow> (PLeaf (Id u), w1))
      | p # ps \<Rightarrow> (foldl (\<lambda>node pane_id. PSplit Vertical node (PLeaf pane_id)) (PLeaf p) ps, w))"

definition foreign_tab_contains_pane :: "tab_snapshot \<Rightarrow> pane_id \<Rightarrow> bool" where
  "foreign_tab_contains_pane tab p = list_ex (\<lambda>candidate. candidate = p) (collect_snapshot_pane_ids (ts_root tab))"

lemma foreign_tab_contains_pane_iff: "foreign_tab_contains_pane tab p \<longleftrightarrow> p \<in> set (snapshot_panes (ts_root tab))"
  by (auto simp: foreign_tab_contains_pane_def list_ex_iff)

lemma foldl_split_panes:
  "snapshot_panes (foldl (\<lambda>node p. PSplit d node (PLeaf p)) t ps) = snapshot_panes t @ ps"
  by (induction ps arbitrary: t) simp_all

lemma fallback_tree_panes:
  assumes "ps \<noteq> []"
  shows "snapshot_panes (fst (fallback_tree env ps w)) = ps" "snd (fallback_tree env ps w) = w"
  using assms by (cases ps; simp add: fallback_tree_def foldl_split_panes)+

section \<open>Screens\<close>

definition screen_sequence :: "'w foreign_env \<Rightarrow> pane_id \<Rightarrow> u16 \<Rightarrow> u16 \<Rightarrow> screen_surface \<Rightarrow> u64" where
  "screen_sequence env p rows cols surface = fe_hash env (p, rows, cols, surface)"

text \<open>A delta since \<open>from\<close>: nothing where the hash agrees, the whole screen otherwise.\<close>

definition hashed_screen_delta :: "u64 \<Rightarrow> screen_snapshot \<Rightarrow> screen_delta" where
  "hashed_screen_delta from_sequence current =
     (if sn_sequence current = from_sequence then unchanged_from current
      else full_replace from_sequence current)"

section \<open>Capabilities\<close>

text \<open>\<open>BackendCapabilities::default()\<close>.\<close>

definition capabilities_none :: backend_capabilities where
  "capabilities_none =
     \<lparr>tiled_panes = False, floating_panes = False, split_resize = False, tab_create = False,
      tab_close = False, tab_focus = False, tab_rename = False, session_scoped_tab_refs = False,
      session_scoped_pane_refs = False, pane_split = False, pane_close = False, pane_focus = False,
      pane_input_write = False, pane_paste_write = False, raw_output_stream = False,
      rendered_viewport_stream = False, rendered_viewport_snapshot = False,
      rendered_scrollback_snapshot = False, rich_screen_surface = False, layout_dump = False,
      layout_override = False, read_only_client_mode = False, explicit_session_save = False,
      explicit_session_restore = False, plugin_panes = False,
      advisory_metadata_subscriptions = False, independent_resize_authority = False\<rparr>"

section \<open>Polling\<close>

text \<open>
  A background task that asks for a state at every tick and sends what has changed. \<open>None\<close> is a
  panic of the task. The flag of a tick says whether the events still have a receiver.
\<close>

datatype poll_wake = PollCancel | PollTick bool

record ('a, 'ev) poll_task =
  pl_last :: 'a
  pl_outbox :: "'ev list"
  pl_running :: bool

definition poll_start :: "'a \<Rightarrow> 'ev \<Rightarrow> bool \<Rightarrow> ('a, 'ev) poll_task" where
  "poll_start initial event sent =
     (if sent then \<lparr>pl_last = initial, pl_outbox = [event], pl_running = True\<rparr>
      else \<lparr>pl_last = initial, pl_outbox = [], pl_running = False\<rparr>)"

definition poll_step ::
    "('w, 'e, 'a option) effect \<Rightarrow> ('a \<Rightarrow> 'a \<Rightarrow> bool) \<Rightarrow> ('a \<Rightarrow> 'a \<Rightarrow> 'ev) \<Rightarrow> poll_wake
     \<Rightarrow> ('a, 'ev) poll_task \<Rightarrow> 'w \<Rightarrow> ('a, 'ev) poll_task \<times> 'w" where
  "poll_step fetch same event wake task w =
     (if \<not> pl_running task then (task, w)
      else case wake of
             PollCancel \<Rightarrow> (task\<lparr>pl_running := False\<rparr>, w)
           | PollTick sent \<Rightarrow>
               (case fetch w of
                  (Inr (Some current), w1) \<Rightarrow>
                    if same current (pl_last task) then (task, w1)
                    else if sent
                    then (\<lparr>pl_last = current, pl_outbox = pl_outbox task @ [event (pl_last task) current],
                           pl_running = True\<rparr>, w1)
                    else (task\<lparr>pl_last := current, pl_running := False\<rparr>, w1)
                | (_, w1) \<Rightarrow> (task\<lparr>pl_running := False\<rparr>, w1)))"

section \<open>The contract of a snapshot\<close>

text \<open>
  What the commands of an attached session rely on: the tabs of a snapshot can be addressed, and
  so can their panes, but for a tab that shows a single placeholder.
\<close>

locale imported_snapshot =
  fixes taken :: "'s \<Rightarrow> bool"
    and topology :: "'s \<Rightarrow> topology_snapshot"
    and pane_known :: "'s \<Rightarrow> pane_id \<Rightarrow> bool"
    and tab_known :: "'s \<Rightarrow> tab_id \<Rightarrow> bool"
  assumes tabs_known: "taken s \<Longrightarrow> tab \<in> set (tp_tabs (topology s)) \<Longrightarrow> tab_known s (ts_tab_id tab)"
    and panes_known: "taken s \<Longrightarrow> tab \<in> set (tp_tabs (topology s)) \<Longrightarrow> p \<in> set (snapshot_panes (ts_root tab)) \<Longrightarrow>
      pane_known s p \<or> snapshot_panes (ts_root tab) = [p]"
    and focused_known: "taken s \<Longrightarrow> tab \<in> set (tp_tabs (topology s)) \<Longrightarrow> ts_focused_pane tab = Some p \<Longrightarrow> pane_known s p"
begin

text \<open>A pane that may be closed can be addressed.\<close>

lemma closable_known:
  assumes "taken s" "find (\<lambda>tab. foreign_tab_contains_pane tab p) (tp_tabs (topology s)) = Some tab"
    "1 < length (collect_snapshot_pane_ids (ts_root tab))"
  shows "pane_known s p"
  using assms panes_known [of s tab p]
  by (auto simp: find_Some_iff foreign_tab_contains_pane_iff)

lemma every_tab_known: "taken s \<Longrightarrow> list_all (\<lambda>tab. tab_known s (ts_tab_id tab)) (tp_tabs (topology s))"
  using tabs_known by (simp add: list_all_iff)

end

section \<open>Streams of deltas\<close>

text \<open>What a client has after a list of deltas, from nothing.\<close>

definition replay :: "screen_delta list \<Rightarrow> workspace_error + screen_snapshot option" where
  "replay deltas =
     foldl (\<lambda>v d. bind_result v (\<lambda>base. bind_result (apply_screen_delta base d) (\<lambda>x. Inr (Some x))))
       (Inr None) deltas"

lemma replay_snoc:
  "replay deltas = Inr base \<Longrightarrow> replay (deltas @ [d]) = bind_result (apply_screen_delta base d) (\<lambda>x. Inr (Some x))"
  by (simp add: replay_def)

text \<open>
  A stream that starts with a whole screen and goes on with the difference to its last screen, or
  stops. \<open>good\<close> events are those of which the screen can travel.
\<close>

locale surface_stream =
  fixes step :: "'e \<Rightarrow> 't \<Rightarrow> 't"
    and running :: "'t \<Rightarrow> bool"
    and shown :: "'t \<Rightarrow> screen_snapshot"
    and sent :: "'t \<Rightarrow> screen_delta list"
    and good :: "'e \<Rightarrow> bool"
  assumes step_law: "good e \<Longrightarrow> running t \<Longrightarrow>
      (sent (step e t) = sent t \<and> (running (step e t) \<longrightarrow> shown (step e t) = shown t)) \<or>
      (deliverable (shown (step e t)) \<and> sent (step e t) = sent t @ [between (shown t) (shown (step e t))])"
    and stopped_law: "\<not> running t \<Longrightarrow> sent (step e t) = sent t \<and> \<not> running (step e t)"
begin

definition in_step :: "'t \<Rightarrow> bool" where
  "in_step t \<longleftrightarrow> (\<exists>v s. replay (sent t) = Inr (Some v) \<and> client_shows v s \<and> deliverable s \<and>
     (running t \<longrightarrow> s = shown t))"

lemma in_step_start: "sent t = [full_replace n s] \<Longrightarrow> deliverable s \<Longrightarrow> shown t = s \<Longrightarrow> in_step t"
  by (force simp: in_step_def replay_def)

lemma in_step_step:
  assumes "in_step t" "good e"
  shows "in_step (step e t)"
proof (cases "running t")
  case False
  then show ?thesis using assms(1) stopped_law [OF False, of e] by (auto simp: in_step_def)
next
  case True
  obtain v where v: "replay (sent t) = Inr (Some v)" "client_shows v (shown t)" "deliverable (shown t)"
    using assms(1) True by (auto simp: in_step_def)
  from step_law [OF assms(2) True] show ?thesis
  proof
    assume "sent (step e t) = sent t \<and> (running (step e t) \<longrightarrow> shown (step e t) = shown t)"
    then show ?thesis using v by (auto simp: in_step_def)
  next
    assume new: "deliverable (shown (step e t)) \<and> sent (step e t) = sent t @ [between (shown t) (shown (step e t))]"
    let ?v = "client_view (length (sf_lines (sn_surface v))) (shown t) (shown (step e t))"
    have "replay (sent (step e t)) = Inr (Some ?v)"
      using new replay_snoc [OF v(1)] apply_between [OF v(3) _ v(2)] by simp
    then show ?thesis using new client_view_shows by (auto simp: in_step_def)
  qed
qed

lemma in_step_fold: "in_step t \<Longrightarrow> list_all good events \<Longrightarrow> in_step (fold step events t)"
  by (induction events arbitrary: t) (simp_all add: in_step_step)

lemma replay_shows:
  assumes "in_step t" "running t"
  shows "\<exists>v. replay (sent t) = Inr (Some v) \<and> client_shows v (shown t)"
  using assms by (auto simp: in_step_def)

end

end
