(* ===== verification/Tmux_Layout.thy ===== *)
theory Tmux_Layout
  imports Foreign_Session
begin

text \<open>
  \<open>layout.rs\<close> of the crate \<open>terminal-backend-tmux\<close>: the parser of the layout strings of tmux. The
  source walks over the bytes with an index; here the state is the list of the bytes not yet read.
  A layout that was printed from a tree of cells parses to the tree of panes with the same panes
  in the same places.
\<close>

section \<open>Numbers and the dimensions of a cell\<close>

definition is_digit_byte :: "u8 \<Rightarrow> bool" where
  "is_digit_byte b \<longleftrightarrow> is_digit (unat b)"

definition parse_number :: "u8 list \<Rightarrow> (nat \<times> u8 list) option" where
  "parse_number bs =
     (case takeWhile is_digit_byte bs of
        [] \<Rightarrow> None
      | digits \<Rightarrow> map_option (\<lambda>n. (n, dropWhile is_digit_byte bs)) (parse_usize (map unat digits)))"

definition expect :: "u8 \<Rightarrow> u8 list \<Rightarrow> u8 list option" where
  "expect expected bs =
     (case bs of [] \<Rightarrow> None | b # rest \<Rightarrow> if b = expected then Some rest else None)"

text \<open>\<open>WxH,X,Y\<close>: the source reads the four numbers and forgets them.\<close>

definition skip_dimensions :: "u8 list \<Rightarrow> u8 list option" where
  "skip_dimensions bs =
     Option.bind (parse_number bs) (\<lambda>(_, r1).
     Option.bind (expect 120 r1) (\<lambda>r2.
     Option.bind (parse_number r2) (\<lambda>(_, r3).
     Option.bind (expect 44 r3) (\<lambda>r4.
     Option.bind (parse_number r4) (\<lambda>(_, r5).
     Option.bind (expect 44 r5) (\<lambda>r6.
     map_option snd (parse_number r6)))))))"

lemma parse_number_length: "parse_number bs = Some (n, r) \<Longrightarrow> length r < length bs"
proof -
  assume a: "parse_number bs = Some (n, r)"
  then have "r = dropWhile is_digit_byte bs" "takeWhile is_digit_byte bs \<noteq> []"
    by (auto simp: parse_number_def split: list.splits)
  then show ?thesis
    by (metis add_diff_cancel_left' length_append length_greater_0_conv less_add_same_cancel2 takeWhile_dropWhile_id)
qed

lemma expect_Some: "expect b bs = Some r \<longleftrightarrow> bs = b # r"
  by (auto simp: expect_def split: list.splits)

lemma skip_dimensions_length: "skip_dimensions bs = Some r \<Longrightarrow> length r < length bs"
  by (auto simp: skip_dimensions_def expect_Some bind_eq_Some_conv dest!: parse_number_length)

section \<open>Nodes\<close>

text \<open>
  \<open>parse_node\<close> and its loop over the children of a container. The loop also ends with the input,
  whether the container was closed or not. The number of a pane is looked up as a \<open>u32\<close>.
\<close>

function parse_node :: "(u32 \<Rightarrow> pane_id option) \<Rightarrow> u8 list \<Rightarrow> (pane_tree_node \<times> u8 list) option"
    and parse_children :: "(u32 \<Rightarrow> pane_id option) \<Rightarrow> u8 \<Rightarrow> split_direction \<Rightarrow> pane_tree_node \<Rightarrow> u8 list
      \<Rightarrow> (pane_tree_node \<times> u8 list) option" where
  "parse_node ids bs =
     (case skip_dimensions bs of
        None \<Rightarrow> None
      | Some [] \<Rightarrow> None
      | Some (b # rest) \<Rightarrow>
          if b = 44 then
            (case parse_number rest of
               None \<Rightarrow> None
             | Some (n, rest1) \<Rightarrow> map_option (\<lambda>p. (PLeaf p, rest1)) (ids (word_of_nat n)))
          else if b = 123 \<or> b = 91 then
            (case parse_node ids rest of
               None \<Rightarrow> None
             | Some (node, rest1) \<Rightarrow>
                 parse_children ids (if b = 123 then 125 else 93)
                   (if b = 123 then Vertical else Horizontal) node rest1)
          else None)"
| "parse_children ids close direction node bs =
     (case bs of
        [] \<Rightarrow> Some (node, [])
      | b # rest \<Rightarrow>
          if b = close then Some (node, rest)
          else if b \<noteq> 44 then None
          else (case parse_node ids rest of
                  None \<Rightarrow> None
                | Some (next_node, rest1) \<Rightarrow>
                    parse_children ids close direction (PSplit direction node next_node) rest1))"
  by pat_completeness auto

termination
proof -
  have domain_length:
    "parse_node_parse_children_dom (Inl (ids, bs)) \<Longrightarrow>
       (\<forall>n r. parse_node ids bs = Some (n, r) \<longrightarrow> length r < length bs)"
    "parse_node_parse_children_dom (Inr (ids, close, d, node, cs)) \<Longrightarrow>
       (\<forall>n r. parse_children ids close d node cs = Some (n, r) \<longrightarrow> length r \<le> length cs)"
    for ids bs close d node cs
  proof (induction ids bs and ids close d node cs rule: parse_node_parse_children.pinduct)
    case (1 ids bs)
    show ?case
    proof (intro allI impI)
      fix n r
      assume "parse_node ids bs = Some (n, r)"
      then obtain b rest where dims: "skip_dimensions bs = Some (b # rest)"
        and node: "(\<exists>m. parse_number rest = Some (m, r)) \<or>
          b \<noteq> 44 \<and> (b = 123 \<or> b = 91) \<and> (\<exists>node1 rest1. parse_node ids rest = Some (node1, rest1) \<and>
            parse_children ids (if b = 123 then 125 else 93) (if b = 123 then Vertical else Horizontal) node1 rest1 = Some (n, r))"
        using "1.hyps" by (auto simp: parse_node.psimps split: option.splits list.splits if_splits)
      have "length rest < length bs" using skip_dimensions_length [OF dims] by simp
      moreover have "length r < length rest"
        using node
      proof
        assume "b \<noteq> 44 \<and> (b = 123 \<or> b = 91) \<and> (\<exists>node1 rest1. parse_node ids rest = Some (node1, rest1) \<and>
          parse_children ids (if b = 123 then 125 else 93) (if b = 123 then Vertical else Horizontal) node1 rest1 = Some (n, r))"
        then obtain node1 rest1 where b: "b \<noteq> 44" "b = 123 \<or> b = 91" and sub: "parse_node ids rest = Some (node1, rest1)"
          "parse_children ids (if b = 123 then 125 else 93) (if b = 123 then Vertical else Horizontal) node1 rest1 = Some (n, r)"
          by blast
        have "length rest1 < length rest" using "1.IH"(1) [OF dims refl b] sub(1) by blast
        moreover have "length r \<le> length rest1" using "1.IH"(2) [OF dims refl b sub(1) refl] sub(2) by blast
        ultimately show ?thesis by simp
      qed (auto dest: parse_number_length)
      ultimately show "length r < length bs" by simp
    qed
  next
    case (2 ids close d node cs)
    show ?case
    proof (intro allI impI)
      fix n r
      assume "parse_children ids close d node cs = Some (n, r)"
      then consider "length r \<le> length cs" | b rest next_node rest1 where "cs = b # rest" "b \<noteq> close" "b = 44"
          "parse_node ids rest = Some (next_node, rest1)"
          "parse_children ids close d (PSplit d node next_node) rest1 = Some (n, r)"
        using "2.hyps" by (auto simp: parse_children.psimps split: option.splits list.splits if_splits)
      then show "length r \<le> length cs"
      proof cases
        case 2
        then have "\<not> b \<noteq> 44" by simp
        note IH = "2.IH" [OF 2(1,2) this]
        have "length rest1 < length rest" using IH(1) 2(4) by blast
        moreover have "length r \<le> length rest1" using IH(2) [OF 2(4) refl] 2(5) by blast
        ultimately show ?thesis using 2(1) by simp
      qed
    qed
  qed
  show ?thesis
    by (relation "measure (case_sum (\<lambda>(ids, bs). length bs) (\<lambda>(ids, close, d, node, bs). length bs))")
      (auto dest!: skip_dimensions_length dest: domain_length(1))
qed

text \<open>The layout behind the checksum: what comes before the first comma is not looked at.\<close>

definition parse_tmux_layout :: "(u32 \<Rightarrow> pane_id option) \<Rightarrow> rstr \<Rightarrow> pane_tree_node option" where
  "parse_tmux_layout ids input =
     (case position (\<lambda>b. b = 44) (utf8_encode input) of
        None \<Rightarrow> None
      | Some checksum_end \<Rightarrow> map_option fst (parse_node ids (drop (checksum_end + 1) (utf8_encode input))))"

section \<open>The panes of a parsed layout\<close>

declare parse_node.simps [simp del] parse_children.simps [simp del]

lemma parse_node_cases:
  assumes "parse_node ids bs = Some (n, r)"
  obtains (pane) rest m p where "skip_dimensions bs = Some (44 # rest)" "parse_number rest = Some (m, r)"
      "ids (word_of_nat m) = Some p" "n = PLeaf p"
  | (container) b rest node1 rest1 where "skip_dimensions bs = Some (b # rest)" "b \<noteq> 44" "b = 123 \<or> b = 91"
      "parse_node ids rest = Some (node1, rest1)"
      "parse_children ids (if b = 123 then 125 else 93) (if b = 123 then Vertical else Horizontal) node1 rest1 = Some (n, r)"
  using assms by (auto simp: parse_node.simps [of ids bs] split: option.splits list.splits if_splits)

lemma parse_children_cases:
  assumes "parse_children ids close d node bs = Some (n, r)"
  obtains (closed) "n = node"
  | (child) b rest next_node rest1 where "bs = b # rest" "b \<noteq> close" "\<not> b \<noteq> 44" "parse_node ids rest = Some (next_node, rest1)"
      "parse_children ids close d (PSplit d node next_node) rest1 = Some (n, r)"
  using assms by (auto simp: parse_children.simps [of ids close d node bs] split: option.splits list.splits if_splits)

lemma parse_node_panes:
  "parse_node ids bs = Some (n, r) \<Longrightarrow> \<forall>p\<in>set (snapshot_panes n). \<exists>i. ids i = Some p"
  "parse_children ids close d node cs = Some (n, r) \<Longrightarrow> \<forall>p\<in>set (snapshot_panes node). \<exists>i. ids i = Some p \<Longrightarrow>
     \<forall>p\<in>set (snapshot_panes n). \<exists>i. ids i = Some p"
proof (induction ids bs and ids close d node cs arbitrary: n r and n r rule: parse_node_parse_children.induct)
  case (1 ids bs)
  from "1.prems" show ?case
  proof (cases rule: parse_node_cases)
    case (container b rest node1 rest1)
    from "1.IH"(1) [OF container(1) refl container(2,3) container(4)]
      "1.IH"(2) [OF container(1) refl container(2,3) container(4) refl container(5)] show ?thesis by blast
  qed auto
next
  case (2 ids close d node cs)
  from "2.prems"(1) show ?case
  proof (cases rule: parse_children_cases)
    case (child b rest next_node rest1)
    from "2.IH"(1) [OF child(1-4)] have "\<forall>p\<in>set (snapshot_panes (PSplit d node next_node)). \<exists>i. ids i = Some p"
      using "2.prems"(2) by auto
    from "2.IH"(2) [OF child(1-4) refl child(5) this] show ?thesis .
  qed (use "2.prems"(2) in simp)
qed

section \<open>Layouts that tmux prints\<close>

text \<open>
  A cell of a layout: its width, height and offsets, and either the number of a pane or the cells
  it is divided into, side by side (in braces) or one above the other (in brackets).
\<close>

datatype layout_cell =
    CellPane "nat \<times> nat \<times> nat \<times> nat" nat
  | CellRow "nat \<times> nat \<times> nat \<times> nat" "layout_cell list"
  | CellColumn "nat \<times> nat \<times> nat \<times> nat" "layout_cell list"

definition show_dimensions :: "nat \<times> nat \<times> nat \<times> nat \<Rightarrow> rstr" where
  "show_dimensions = (\<lambda>(w, h, x, y).
     show_nat w @ 120 # show_nat h @ 44 # show_nat x @ 44 # show_nat y)"

fun show_cell :: "layout_cell \<Rightarrow> rstr" where
  "show_cell (CellPane d n) = show_dimensions d @ 44 # show_nat n"
| "show_cell (CellRow d cs) = show_dimensions d @ 123 # join_with 44 (map show_cell cs) @ [125]"
| "show_cell (CellColumn d cs) = show_dimensions d @ 91 # join_with 44 (map show_cell cs) @ [93]"

text \<open>The tree of panes of a cell: cells side by side are nested to the left.\<close>

definition nest :: "split_direction \<Rightarrow> pane_tree_node list \<Rightarrow> pane_tree_node" where
  "nest d ts = foldl (PSplit d) (hd ts) (tl ts)"

fun cell_tree :: "(u32 \<Rightarrow> pane_id option) \<Rightarrow> layout_cell \<Rightarrow> pane_tree_node" where
  "cell_tree ids (CellPane d n) = PLeaf (the (ids (word_of_nat n)))"
| "cell_tree ids (CellRow d cs) = nest Vertical (map (cell_tree ids) cs)"
| "cell_tree ids (CellColumn d cs) = nest Horizontal (map (cell_tree ids) cs)"

definition dimensions_ok :: "nat \<times> nat \<times> nat \<times> nat \<Rightarrow> bool" where
  "dimensions_ok = (\<lambda>(w, h, x, y). max (max w h) (max x y) < 18446744073709551616)"

fun cell_ok :: "(u32 \<Rightarrow> pane_id option) \<Rightarrow> layout_cell \<Rightarrow> bool" where
  "cell_ok ids (CellPane d n) \<longleftrightarrow>
     dimensions_ok d \<and> n < 18446744073709551616 \<and> ids (word_of_nat n) \<noteq> None"
| "cell_ok ids (CellRow d cs) \<longleftrightarrow> dimensions_ok d \<and> cs \<noteq> [] \<and> list_all (cell_ok ids) cs"
| "cell_ok ids (CellColumn d cs) \<longleftrightarrow> dimensions_ok d \<and> cs \<noteq> [] \<and> list_all (cell_ok ids) cs"

abbreviation bytes_of :: "rstr \<Rightarrow> u8 list" where
  "bytes_of s \<equiv> map word_of_nat s"

definition ends_number :: "u8 list \<Rightarrow> bool" where
  "ends_number rest \<longleftrightarrow> (case rest of [] \<Rightarrow> True | b # _ \<Rightarrow> \<not> is_digit_byte b)"

lemma parse_number_show:
  assumes "n < 18446744073709551616" "ends_number rest"
  shows "parse_number (bytes_of (show_nat n) @ rest) = Some (n, rest)"
proof -
  have digits: "\<forall>c\<in>set (show_nat n). unat (word_of_nat c :: u8) = c \<and> is_digit c"
    using show_nat_digits [of n] unat_byte by (auto simp: is_digit_def)
  then have all: "\<forall>b\<in>set (bytes_of (show_nat n)). is_digit_byte b" by (auto simp: is_digit_byte_def)
  have "takeWhile is_digit_byte rest = []" "dropWhile is_digit_byte rest = rest"
    using assms(2) by (auto simp: ends_number_def split: list.splits)
  then have "takeWhile is_digit_byte (bytes_of (show_nat n) @ rest) = bytes_of (show_nat n)"
    "dropWhile is_digit_byte (bytes_of (show_nat n) @ rest) = rest"
    using all by (simp_all only: takeWhile_append2 dropWhile_append2 append_Nil2)
  moreover have "map unat (bytes_of (show_nat n)) = show_nat n"
    using digits by (simp add: map_idI)
  moreover have "parse_usize (show_nat n) = Some n"
    using assms(1) by (simp add: parse_usize_def parse_show_nat)
  moreover obtain b bs where "bytes_of (show_nat n) = b # bs"
    by (cases "bytes_of (show_nat n)") simp_all
  ultimately show ?thesis
    by (simp only: parse_number_def list.case option.map)
qed

lemma skip_dimensions_show:
  assumes "dimensions_ok d" "ends_number rest"
  shows "skip_dimensions (bytes_of (show_dimensions d) @ rest) = Some rest"
proof -
  obtain w h x y where d: "d = (w, h, x, y)" by (cases d)
  have "ends_number (120 # r)" "ends_number (44 # r)" for r
    by (simp_all add: ends_number_def is_digit_byte_def is_digit_def)
  then show ?thesis
    using assms by (simp add: d dimensions_ok_def show_dimensions_def skip_dimensions_def parse_number_show
        expect_Some [THEN iffD2, OF refl])
qed

lemma join_with_Cons: "join_with sep (f # fs) = f @ concat (map (\<lambda>g. sep # g) fs)"
  by (induction fs arbitrary: f) simp_all

lemma parse_children_show:
  assumes "\<And>c rest. c \<in> set cs \<Longrightarrow> ends_number rest \<Longrightarrow>
      parse_node ids (bytes_of (show_cell c) @ rest) = Some (cell_tree ids c, rest)"
    and "close = 125 \<or> close = 93"
  shows "parse_children ids close d node
      (bytes_of (concat (map (\<lambda>c. 44 # show_cell c) cs)) @ close # rest) =
    Some (foldl (PSplit d) node (map (cell_tree ids) cs), rest)"
  using assms(1)
proof (induction cs arbitrary: node)
  case Nil
  then show ?case by (simp add: parse_children.simps)
next
  case (Cons c cs)
  let ?tail = "bytes_of (concat (map (\<lambda>c. 44 # show_cell c) cs)) @ close # rest"
  have "ends_number ?tail"
    using assms(2) by (cases cs) (auto simp: ends_number_def is_digit_byte_def is_digit_def)
  then have "parse_node ids (bytes_of (show_cell c) @ ?tail) = Some (cell_tree ids c, ?tail)"
    using Cons.prems by simp
  moreover have "close \<noteq> 44" using assms(2) by auto
  ultimately show ?case
    using Cons.IH [of "PSplit d node (cell_tree ids c)"] Cons.prems
    by (simp add: parse_children.simps [of ids close d node "44 # _"])
qed

lemma parse_container_show:
  assumes "b = 123 \<and> close = 125 \<and> dir = Vertical \<or> b = 91 \<and> close = 93 \<and> dir = Horizontal"
    and "dimensions_ok d" "cs \<noteq> []"
    and IH: "\<And>c rest. c \<in> set cs \<Longrightarrow> ends_number rest \<Longrightarrow>
      parse_node ids (bytes_of (show_cell c) @ rest) = Some (cell_tree ids c, rest)"
  shows "parse_node ids (bytes_of (show_dimensions d) @ b # bytes_of (join_with 44 (map show_cell cs)) @ close # rest) =
    Some (nest dir (map (cell_tree ids) cs), rest)"
proof -
  obtain c cs1 where cs: "cs = c # cs1" using assms(3) by (cases cs) auto
  let ?rest1 = "bytes_of (concat (map (\<lambda>c. 44 # show_cell c) cs1)) @ close # rest"
  have "ends_number (b # r)" for r
    using assms(1) by (auto simp: ends_number_def is_digit_byte_def is_digit_def)
  then have "skip_dimensions (bytes_of (show_dimensions d) @ b # bytes_of (join_with 44 (map show_cell cs)) @ close # rest) =
      Some (b # bytes_of (show_cell c) @ ?rest1)"
    using assms(2) by (simp add: skip_dimensions_show cs join_with_Cons map_concat comp_def)
  moreover have "parse_node ids (bytes_of (show_cell c) @ ?rest1) = Some (cell_tree ids c, ?rest1)"
    using assms(1) by (intro IH) (cases cs1; auto simp: cs ends_number_def is_digit_byte_def is_digit_def)+
  moreover have "parse_children ids close dir (cell_tree ids c) ?rest1 =
      Some (foldl (PSplit dir) (cell_tree ids c) (map (cell_tree ids) cs1), rest)"
    using assms(1) by (intro parse_children_show IH) (auto simp: cs)
  ultimately show ?thesis using assms(1) by (auto simp: parse_node.simps cs nest_def)
qed

lemma parse_show_cell:
  "cell_ok ids c \<Longrightarrow> ends_number rest \<Longrightarrow>
     parse_node ids (bytes_of (show_cell c) @ rest) = Some (cell_tree ids c, rest)"
proof (induction ids c arbitrary: rest rule: cell_tree.induct)
  case (1 ids d n)
  have "ends_number (44 # r)" for r by (simp add: ends_number_def is_digit_byte_def is_digit_def)
  then show ?case
    using 1 by (auto simp: parse_node.simps skip_dimensions_show parse_number_show)
next
  case (2 ids d cs)
  then show ?case
    using parse_container_show [of 123 125 Vertical d cs ids rest] by (simp add: list_all_iff)
next
  case (3 ids d cs)
  then show ?case
    using parse_container_show [of 91 93 Horizontal d cs ids rest] by (simp add: list_all_iff)
qed

lemma show_cell_ascii: "\<forall>c\<in>set (show_cell cell). c < 128"
proof (induction cell rule: show_cell.induct)
  have digits: "c < 128" if "c \<in> set (show_nat n)" for c n
    using show_nat_digits [of n] that by (auto simp: is_digit_def)
  then have dims: "c < 128" if "c \<in> set (show_dimensions d)" for c d
    using that by (cases d) (auto simp: show_dimensions_def)
  have joined: "c < 128" if "c \<in> set (join_with 44 fs)" "\<forall>f\<in>set fs. \<forall>c\<in>set f. c < 128" for c and fs :: "rstr list"
    using that by (induction "44 :: nat" fs rule: join_with.induct) auto
  have all_dims: "\<forall>c\<in>set (show_dimensions d). c < 128" for d
    using dims by blast
  have all_joined: "\<forall>c\<in>set (join_with 44 (map show_cell cs)). c < 128"
    if "\<And>cell. cell \<in> set cs \<Longrightarrow> \<forall>c\<in>set (show_cell cell). c < 128" for cs
    using joined [of _ "map show_cell cs"] that by auto
  { case (1 d n) then show ?case using digits [of _ n] all_dims [of d] by auto }
  { case (2 d cs) from all_joined [OF 2] show ?case using all_dims [of d] by (simp add: ball_Un) }
  { case (3 d cs) from all_joined [OF 3] show ?case using all_dims [of d] by (simp add: ball_Un) }
qed

text \<open>The numbers of the panes of a cell, in reading order.\<close>

fun cell_numbers :: "layout_cell \<Rightarrow> nat list" where
  "cell_numbers (CellPane d n) = [n]"
| "cell_numbers (CellRow d cs) = concat (map cell_numbers cs)"
| "cell_numbers (CellColumn d cs) = concat (map cell_numbers cs)"

lemma nest_panes: "ts \<noteq> [] \<Longrightarrow> snapshot_panes (nest d ts) = concat (map snapshot_panes ts)"
proof -
  have "snapshot_panes (foldl (PSplit d) t ts) = snapshot_panes t @ concat (map snapshot_panes ts)" for t ts
    by (induction ts arbitrary: t) simp_all
  then show "ts \<noteq> [] \<Longrightarrow> ?thesis" by (cases ts) (simp_all add: nest_def)
qed

lemma cell_tree_panes:
  "cell_ok ids c \<Longrightarrow> snapshot_panes (cell_tree ids c) = map (\<lambda>n. the (ids (word_of_nat n))) (cell_numbers c)"
  by (induction ids c rule: cell_tree.induct)
    (simp_all add: nest_panes map_concat list_all_iff cong: map_cong)

text \<open>
  C28. A layout string of tmux, whatever its checksum, parses to the tree of its cells: containers
  become splits of their direction nested to the left, and the panes stand in reading order.
\<close>
theorem tmux_layout_roundtrip:
  assumes "\<forall>c\<in>set checksum. c < 128 \<and> c \<noteq> 44" and "cell_ok ids cell"
  shows "parse_tmux_layout ids (checksum @ 44 # show_cell cell) = Some (cell_tree ids cell) \<and>
    snapshot_panes (cell_tree ids cell) = map (\<lambda>n. the (ids (word_of_nat n))) (cell_numbers cell)"
proof
  have bytes: "utf8_encode (checksum @ 44 # show_cell cell) = bytes_of checksum @ 44 # bytes_of (show_cell cell)"
    using assms(1) show_cell_ascii [of cell] by (simp add: utf8_encode_ascii_bytes utf8_char_def)
  have "word_of_nat c \<noteq> (44 :: u8)" if "c < 128" "c \<noteq> 44" for c
    using that unat_byte [of c] by (auto simp: word_unat_eq_iff)
  then have "position (\<lambda>b. b = 44) (bytes_of checksum @ 44 # bs) = Some (length checksum)" for bs
    using assms(1) by (induction checksum) auto
  moreover have "parse_node ids (bytes_of (show_cell cell)) = Some (cell_tree ids cell, [])"
    using parse_show_cell [OF assms(2), of "[]"] by (simp add: ends_number_def)
  ultimately show "parse_tmux_layout ids (checksum @ 44 # show_cell cell) = Some (cell_tree ids cell)"
    unfolding parse_tmux_layout_def bytes by (simp only: option.case) simp
qed (rule cell_tree_panes [OF assms(2)])

lemma tmux_layout_roundtrip_witness:
  "parse_tmux_layout (\<lambda>n. Some (Id (ucast n))) (lit ''bb62,159x48,0,0{79x48,0,0,0,79x48,80,0,2}'') =
     Some (PSplit Vertical (PLeaf (Id 0)) (PLeaf (Id 2)))"
proof -
  let ?cell = "CellRow (159, 48, 0, 0) [CellPane (79, 48, 0, 0) 0, CellPane (79, 48, 80, 0) 2]"
  have "lit ''bb62'' @ 44 # show_cell ?cell = lit ''bb62,159x48,0,0{79x48,0,0,0,79x48,80,0,2}''"
    by (simp add: lit_def show_dimensions_def show_nat.simps)
  moreover have "parse_tmux_layout (\<lambda>n. Some (Id (ucast n))) (lit ''bb62'' @ 44 # show_cell ?cell) =
      Some (cell_tree (\<lambda>n. Some (Id (ucast n))) ?cell) \<and> snapshot_panes (cell_tree (\<lambda>n. Some (Id (ucast n))) ?cell) =
      map (\<lambda>n. the (Some (Id (ucast (word_of_nat n :: u32))))) (cell_numbers ?cell)"
    by (rule tmux_layout_roundtrip) (simp_all add: lit_def dimensions_ok_def)
  ultimately show ?thesis by (simp only:) (simp add: nest_def)
qed

end
