(* ===== verification/Tmux_Session.thy ===== *)
theory Tmux_Session
  imports Tmux_Layout
begin

text \<open>
  The crate \<open>terminal-backend-tmux\<close>: targets and their routes, the rows tmux prints, the runner of
  commands, discovery, attaching, the snapshot of a session, its commands, screens and
  subscriptions.
\<close>

section \<open>Targets\<close>

record tmux_target =
  tt_socket_name :: "rstr option"
  tt_session_name :: rstr

definition tmux_route_namespace :: rstr where
  "tmux_route_namespace = lit ''tmux_target''"

definition target_part :: "rstr option \<times> rstr option \<Rightarrow> rstr \<Rightarrow> rstr option \<times> rstr option" where
  "target_part names part =
     (case split_once 61 part of
        None \<Rightarrow> names
      | Some (key, v) \<Rightarrow>
          if key = lit ''socket'' \<and> v \<noteq> [] then (Some v, snd names)
          else if key = lit ''session'' \<and> v \<noteq> [] then (fst names, Some v)
          else names)"

definition tmux_target_from_route :: "session_route \<Rightarrow> backend_error + tmux_target" where
  "tmux_target_from_route route =
     (if route_authority route \<noteq> ImportedForeign
      then Inl (invalid_input [MText ''tmux route must be imported_foreign''])
      else case route_external route of
          None \<Rightarrow> Inl (invalid_input [MText ''tmux route is missing external reference''])
        | Some external \<Rightarrow>
            if ext_namespace external \<noteq> tmux_route_namespace
            then Inl (invalid_input [MText ''tmux route namespace is invalid''])
            else (case foldl target_part (None, None) (split_on 59 (ext_value external)) of
                    (socket_name, session_name) \<Rightarrow>
                      bind_result (ok_or session_name (invalid_input [MText ''tmux route is missing session'']))
                        (\<lambda>name. Inr \<lparr>tt_socket_name = socket_name, tt_session_name = name\<rparr>)))"

definition tmux_route :: "tmux_target \<Rightarrow> session_route" where
  "tmux_route t =
     \<lparr>route_backend = Tmux, route_authority = ImportedForeign,
      route_external = Some \<lparr>ext_namespace = tmux_route_namespace,
        ext_value = (case tt_socket_name t of None \<Rightarrow> [] | Some s \<Rightarrow> lit ''socket='' @ s @ [59])
                    @ lit ''session='' @ tt_session_name t\<rparr>\<rparr>"

section \<open>Rows\<close>

record tmux_window_row =
  wr_index :: u32
  wr_id :: rstr
  wr_name :: rstr
  wr_active :: bool
  wr_layout :: rstr

record tmux_pane_row =
  pr_window_id :: rstr
  pr_pane_id :: rstr
  pr_index :: u32
  pr_title :: rstr
  pr_active :: bool
  pr_width :: u16
  pr_height :: u16

definition tmux_field :: "rstr list \<Rightarrow> nat \<Rightarrow> string \<Rightarrow> backend_error + rstr" where
  "tmux_field fs i name = ok_or (vec_get fs i) (internal_error [MText ''missing tmux field '', MText name])"

definition parse_tmux_bool :: "rstr \<Rightarrow> bool" where
  "parse_tmux_bool v \<longleftrightarrow> v = lit ''1''"

definition parse_tmux_u32 :: "rstr \<Rightarrow> string \<Rightarrow> backend_error + u32" where
  "parse_tmux_u32 v name =
     bind_result (ok_or (parse_u32 v)
         (internal_error [MText ''invalid '', MText name, MText '': '', MString (parse_int_error 4294967295 v)]))
       (\<lambda>n. Inr (word_of_nat n))"

definition parse_tmux_u16 :: "rstr \<Rightarrow> string \<Rightarrow> backend_error + u16" where
  "parse_tmux_u16 v name =
     bind_result (ok_or (parse_u16 v)
         (internal_error [MText ''invalid '', MText name, MText '': '', MString (parse_int_error 65535 v)]))
       (\<lambda>n. Inr (word_of_nat n))"

definition parse_window_row :: "rstr \<Rightarrow> backend_error + tmux_window_row" where
  "parse_window_row line =
     (let fs = split_on 9 line in
      bind_result (tmux_field fs 0 ''window_index'') (\<lambda>f0.
      bind_result (parse_tmux_u32 f0 ''window_index'') (\<lambda>index.
      bind_result (tmux_field fs 1 ''window_id'') (\<lambda>wid.
      bind_result (tmux_field fs 2 ''window_name'') (\<lambda>name.
      bind_result (tmux_field fs 3 ''window_active'') (\<lambda>active.
      bind_result (tmux_field fs 4 ''window_layout'') (\<lambda>layout.
        Inr \<lparr>wr_index = index, wr_id = wid, wr_name = name, wr_active = parse_tmux_bool active,
             wr_layout = layout\<rparr>)))))))"

definition parse_pane_row :: "rstr \<Rightarrow> backend_error + tmux_pane_row" where
  "parse_pane_row line =
     (let fs = split_on 9 line in
      bind_result (tmux_field fs 0 ''window_id'') (\<lambda>wid.
      bind_result (tmux_field fs 1 ''pane_id'') (\<lambda>pid.
      bind_result (tmux_field fs 2 ''pane_index'') (\<lambda>f2.
      bind_result (parse_tmux_u32 f2 ''pane_index'') (\<lambda>index.
      bind_result (tmux_field fs 3 ''pane_title'') (\<lambda>title.
      bind_result (tmux_field fs 4 ''pane_active'') (\<lambda>active.
      bind_result (tmux_field fs 5 ''pane_width'') (\<lambda>f5.
      bind_result (parse_tmux_u16 f5 ''pane_width'') (\<lambda>width.
      bind_result (tmux_field fs 6 ''pane_height'') (\<lambda>f6.
      bind_result (parse_tmux_u16 f6 ''pane_height'') (\<lambda>height.
        Inr \<lparr>pr_window_id = wid, pr_pane_id = pid, pr_index = index, pr_title = title,
             pr_active = parse_tmux_bool active, pr_width = width, pr_height = height\<rparr>)))))))))))"

section \<open>Running tmux\<close>

type_synonym tmux_backend = "rstr option"

definition tmux_run_bytes ::
    "'w foreign_env \<Rightarrow> tmux_backend \<Rightarrow> tmux_target option \<Rightarrow> rstr list \<Rightarrow> ('w, u8 list) io" where
  "tmux_run_bytes env backend target args w =
     (let socket = (case Option.bind target tt_socket_name of Some s \<Rightarrow> Some s | None \<Rightarrow> backend);
          prefix = (case socket of Some s \<Rightarrow> [lit ''-L'', s] | None \<Rightarrow> []);
          failed = (\<lambda>t. transport_error [MText ''tmux command failed to spawn: '', MString t])
      in case fe_tool env (prefix @ args) w of
           (RunSpawnFailed t, w1) \<Rightarrow> (Inl (failed t), w1)
         | (RunWaitFailed t, w1) \<Rightarrow> (Inl (failed t), w1)
         | (RunCollectFailed t, w1) \<Rightarrow> (Inl (failed t), w1)
         | (RunExited success out err, w1) \<Rightarrow>
             if success then (Inr out, w1)
             else (Inl (transport_error [MText ''tmux command failed: '', MString (trim (utf8_lossy err))]), w1))"

definition tmux_run ::
    "'w foreign_env \<Rightarrow> tmux_backend \<Rightarrow> tmux_target option \<Rightarrow> rstr list \<Rightarrow> ('w, rstr) io" where
  "tmux_run env backend target args =
     io_bind (tmux_run_bytes env backend target args)
       (\<lambda>out. io_lift (utf8_result env ''tmux output is not utf8: '' out))"

definition is_no_server_running_error :: "'w foreign_env \<Rightarrow> backend_error \<Rightarrow> bool" where
  "is_no_server_running_error env e \<longleftrightarrow>
     be_kind e = Transport \<and>
     (let message = map ascii_lower (message_text env (be_message e)) in
      contains_str (lit ''no server running on'') message \<or>
      contains_str (lit ''error connecting to'') message \<and>
      contains_str (lit ''no such file or directory'') message)"

section \<open>Discovery and attaching\<close>

definition not_blank :: "rstr \<Rightarrow> bool" where
  "not_blank line \<longleftrightarrow> trim line \<noteq> []"

definition tmux_discovered :: "tmux_backend \<Rightarrow> rstr \<Rightarrow> discovered_session" where
  "tmux_discovered backend line =
     (let name = hd (split_on 9 line)
      in \<lparr>ds_route = tmux_route \<lparr>tt_socket_name = backend, tt_session_name = name\<rparr>, ds_title = Some name\<rparr>)"

definition discover_tmux_sessions ::
    "'w foreign_env \<Rightarrow> tmux_backend \<Rightarrow> ('w, discovered_session list) io" where
  "discover_tmux_sessions env backend w =
     (case tmux_run env backend None
         [lit ''list-sessions'', lit ''-F'',
          lit ''#{session_name}'' @ 9 # lit ''#{session_windows}'' @ 9 # lit ''#{session_attached}''] w of
        (Inr output, w1) \<Rightarrow>
          (Inr (map (tmux_discovered backend) (filter not_blank (str_lines output))), w1)
      | (Inl e, w1) \<Rightarrow> if is_no_server_running_error env e then (Inr [], w1) else (Inl e, w1))"

record tmux_session =
  tx_backend :: tmux_backend
  tx_session_id :: session_id
  tx_target :: tmux_target

definition attach_tmux_session ::
    "'w foreign_env \<Rightarrow> tmux_backend \<Rightarrow> session_id \<Rightarrow> session_route \<Rightarrow> ('w, tmux_session) io" where
  "attach_tmux_session env backend sid route =
     (if route_backend route \<noteq> Tmux
      then io_err (invalid_input [MText ''tmux backend can only attach tmux routes''])
      else io_bind (io_lift (tmux_target_from_route route)) (\<lambda>target.
           io_bind (tmux_run env backend (Some target) [lit ''has-session'', lit ''-t'', tt_session_name target]) (\<lambda>_.
             io_ok \<lparr>tx_backend = backend, tx_session_id = sid, tx_target = target\<rparr>)))"

definition tmux_create_session :: "create_session_spec \<Rightarrow> backend_error + backend_session_binding" where
  "tmux_create_session spec =
     Inl (unsupported [MText ''tmux sessions are imported, not created''] ImportedForeignSession)"

definition tmux_list_sessions :: "backend_error + backend_session_summary list" where
  "tmux_list_sessions =
     Inl (unsupported [MText ''tmux backend does not expose canonical sessions directly''] ImportedForeignSession)"

definition tmux_capabilities :: backend_capabilities where
  "tmux_capabilities =
     capabilities_none
       \<lparr>tiled_panes := True, split_resize := True, tab_create := True, tab_close := True,
        tab_focus := True, tab_rename := True, session_scoped_tab_refs := True,
        session_scoped_pane_refs := True, pane_split := True, pane_close := True, pane_focus := True,
        pane_input_write := True, pane_paste_write := True, rendered_viewport_stream := True,
        rendered_viewport_snapshot := True, rich_screen_surface := True,
        advisory_metadata_subscriptions := True, read_only_client_mode := True\<rparr>"

section \<open>The snapshot of a session\<close>

record tmux_pane_target =
  pt_target :: rstr
  pt_title :: "rstr option"
  pt_rows :: u16
  pt_cols :: u16

record tmux_session_snapshot =
  tn_topology :: topology_snapshot
  tn_pane_targets :: "pane_id \<rightharpoonup> tmux_pane_target"
  tn_tab_targets :: "tab_id \<rightharpoonup> rstr"

definition tmux_tab_id :: "'w foreign_env \<Rightarrow> tmux_target \<Rightarrow> rstr \<Rightarrow> tab_id" where
  "tmux_tab_id env t window_id =
     deterministic_uuid env (lit ''terminal-platform/tmux/tab/'' @ debug_option env (tt_socket_name t)
       @ 47 # tt_session_name t @ 47 # window_id)"

definition tmux_pane_id :: "'w foreign_env \<Rightarrow> tmux_target \<Rightarrow> rstr \<Rightarrow> rstr \<Rightarrow> pane_id" where
  "tmux_pane_id env t window_id pane_id =
     deterministic_uuid env (lit ''terminal-platform/tmux/pane/'' @ debug_option env (tt_socket_name t)
       @ 47 # tt_session_name t @ 47 # window_id @ 47 # pane_id)"

fun parse_rows :: "(rstr \<Rightarrow> backend_error + 'a) \<Rightarrow> rstr list \<Rightarrow> backend_error + 'a list" where
  "parse_rows parse [] = Inr []"
| "parse_rows parse (line # more_lines) =
     bind_result (parse line) (\<lambda>row. bind_result (parse_rows parse more_lines) (\<lambda>rows. Inr (row # rows)))"

text \<open>
  What the loop over the windows has so far: the rows of panes no window has taken yet
  (\<open>panes_by_window\<close>), the tabs with their indices, the focused tab, and the targets.
\<close>

record tmux_windows_state =
  ws_rows :: "tmux_pane_row list"
  ws_tabs :: "(u32 \<times> tab_snapshot) list"
  ws_focused :: "tab_id option"
  ws_panes :: "pane_id \<rightharpoonup> tmux_pane_target"
  ws_tab_targets :: "tab_id \<rightharpoonup> rstr"

definition pane_target_of :: "tmux_pane_row \<Rightarrow> tmux_pane_target" where
  "pane_target_of pane =
     \<lparr>pt_target = pr_pane_id pane, pt_title = non_empty (pr_title pane), pt_rows = pr_height pane,
      pt_cols = pr_width pane\<rparr>"

text \<open>The panes of a window, in the order of their indices, and the identifier of each index.\<close>

definition window_panes :: "rstr \<Rightarrow> tmux_pane_row list \<Rightarrow> tmux_pane_row list" where
  "window_panes window_id rows = sort_key pr_index (filter (\<lambda>r. pr_window_id r = window_id) rows)"

definition index_ids ::
    "'w foreign_env \<Rightarrow> tmux_target \<Rightarrow> rstr \<Rightarrow> tmux_pane_row list \<Rightarrow> u32 \<Rightarrow> pane_id option" where
  "index_ids env t window_id panes =
     map_of (rev (map (\<lambda>r. (pr_index r, tmux_pane_id env t window_id (pr_pane_id r))) panes))"

definition tmux_root ::
    "'w foreign_env \<Rightarrow> tmux_target \<Rightarrow> tmux_window_row \<Rightarrow> tmux_pane_row list \<Rightarrow> 'w \<Rightarrow> pane_tree_node \<times> 'w" where
  "tmux_root env t window panes w =
     (let ids = index_ids env t (wr_id window) panes in
      case parse_tmux_layout ids (wr_layout window) of
        Some tree \<Rightarrow> (tree, w)
      | None \<Rightarrow> fallback_tree env (map (\<lambda>r. the (ids (pr_index r))) panes) w)"

definition tmux_window_step ::
    "'w foreign_env \<Rightarrow> tmux_target \<Rightarrow> rstr \<Rightarrow> tmux_windows_state \<Rightarrow> ('w, tmux_windows_state) io" where
  "tmux_window_step env t line st =
     io_bind (io_lift (parse_window_row line)) (\<lambda>window w.
       let panes = window_panes (wr_id window) (ws_rows st);
           tab_id = tmux_tab_id env t (wr_id window);
           focused_pane = map_option (\<lambda>r. tmux_pane_id env t (wr_id window) (pr_pane_id r))
                            (find pr_active panes);
           (tree, w1) = tmux_root env t window panes w
       in (Inr \<lparr>ws_rows = filter (\<lambda>r. pr_window_id r \<noteq> wr_id window) (ws_rows st),
                ws_tabs = ws_tabs st @ [(wr_index window,
                  \<lparr>ts_tab_id = tab_id, ts_title = non_empty (wr_name window), ts_root = tree,
                   ts_focused_pane = focused_pane\<rparr>)],
                ws_focused = (if wr_active window then Some tab_id else ws_focused st),
                ws_panes = foldl (\<lambda>m r. m(tmux_pane_id env t (wr_id window) (pr_pane_id r) \<mapsto> pane_target_of r))
                             (ws_panes st) panes,
                ws_tab_targets = (ws_tab_targets st)(tab_id \<mapsto> wr_id window)\<rparr>, w1))"

fun tmux_windows ::
    "'w foreign_env \<Rightarrow> tmux_target \<Rightarrow> rstr list \<Rightarrow> tmux_windows_state \<Rightarrow> ('w, tmux_windows_state) io" where
  "tmux_windows env t [] st = io_ok st"
| "tmux_windows env t (line # more_lines) st =
     io_bind (tmux_window_step env t line st) (tmux_windows env t more_lines)"

definition tmux_snapshot :: "'w foreign_env \<Rightarrow> tmux_session \<Rightarrow> ('w, tmux_session_snapshot) io" where
  "tmux_snapshot env s =
     (let t = tx_target s; run = tmux_run env (tx_backend s) (Some t) in
      io_bind (run [lit ''list-windows'', lit ''-t'', tt_session_name t, lit ''-F'',
        lit ''#{window_index}'' @ 9 # lit ''#{window_id}'' @ 9 # lit ''#{window_name}'' @ 9 #
        lit ''#{window_active}'' @ 9 # lit ''#{window_layout}'']) (\<lambda>windows_output.
      io_bind (run [lit ''list-panes'', lit ''-a'', lit ''-t'', tt_session_name t, lit ''-F'',
        lit ''#{window_id}'' @ 9 # lit ''#{pane_id}'' @ 9 # lit ''#{pane_index}'' @ 9 #
        lit ''#{pane_title}'' @ 9 # lit ''#{pane_active}'' @ 9 # lit ''#{pane_width}'' @ 9 #
        lit ''#{pane_height}'']) (\<lambda>panes_output.
      io_bind (io_lift (parse_rows parse_pane_row (filter not_blank (str_lines panes_output)))) (\<lambda>rows.
      io_bind (tmux_windows env t (filter not_blank (str_lines windows_output))
                 \<lparr>ws_rows = rows, ws_tabs = [], ws_focused = None, ws_panes = Map.empty,
                  ws_tab_targets = Map.empty\<rparr>) (\<lambda>st.
        io_ok \<lparr>tn_topology = \<lparr>tp_session_id = tx_session_id s, tp_backend_kind = Tmux,
                               tp_tabs = map snd (sort_key fst (ws_tabs st)),
                               tp_focused_tab = ws_focused st\<rparr>,
               tn_pane_targets = ws_panes st, tn_tab_targets = ws_tab_targets st\<rparr>)))))"

definition tmux_topology_snapshot :: "'w foreign_env \<Rightarrow> tmux_session \<Rightarrow> ('w, topology_snapshot) io" where
  "tmux_topology_snapshot env s = io_map tn_topology (tmux_snapshot env s)"

section \<open>Screens\<close>

definition unknown_tmux_pane :: "pane_id \<Rightarrow> backend_error" where
  "unknown_tmux_pane p = not_found [MText ''unknown tmux pane '', MPane p]"

definition unknown_tmux_tab :: "tab_id \<Rightarrow> backend_error" where
  "unknown_tmux_tab t = not_found [MText ''unknown tmux tab '', MTab t]"

definition capture_pane_rich_snapshot_args :: "rstr \<Rightarrow> rstr list" where
  "capture_pane_rich_snapshot_args pane_target =
     [lit ''capture-pane'', lit ''-p'', lit ''-J'', lit ''-e'', lit ''-t'', pane_target]"

text \<open>\<open>None\<close>: the parser of the screen has panicked.\<close>

definition tmux_screen_snapshot ::
    "'w foreign_env \<Rightarrow> tmux_session \<Rightarrow> pane_id \<Rightarrow> ('w, screen_snapshot option) io" where
  "tmux_screen_snapshot env s p =
     io_bind (tmux_snapshot env s) (\<lambda>snapshot.
     io_bind (io_lift (ok_or (tn_pane_targets snapshot p) (unknown_tmux_pane p))) (\<lambda>pane.
     io_bind (tmux_run_bytes env (tx_backend s) (Some (tx_target s))
                (capture_pane_rich_snapshot_args (pt_target pane))) (\<lambda>output.
       io_ok (map_option (\<lambda>surface.
           \<lparr>sn_pane_id = p, sn_sequence = screen_sequence env p (pt_rows pane) (pt_cols pane) surface,
            sn_rows = pt_rows pane, sn_cols = pt_cols pane, sn_source = TmuxCapturePane,
            sn_buffer_kind = BufUnknown, sn_surface = surface\<rparr>)
         (screen_surface_from_ansi_bytes (fe_ansi env) output (pt_title pane))))))"

definition tmux_screen_delta ::
    "'w foreign_env \<Rightarrow> tmux_session \<Rightarrow> pane_id \<Rightarrow> u64 \<Rightarrow> ('w, screen_delta option) io" where
  "tmux_screen_delta env s p from_sequence =
     io_map (map_option (hashed_screen_delta from_sequence)) (tmux_screen_snapshot env s p)"

end
