(* ===== verification/Tmux_Commands.thy ===== *)
theory Tmux_Commands
  imports Tmux_Session
begin

text \<open>
  The commands and subscriptions of an attached tmux session (\<open>session/commands/\<close>,
  \<open>session/subscriptions.rs\<close>). Every command first takes a new snapshot of the session.
\<close>

section \<open>Commands\<close>

definition tmux_on_target ::
    "'w foreign_env \<Rightarrow> tmux_session \<Rightarrow> rstr list \<Rightarrow> ('w, mux_command_result) io" where
  "tmux_on_target env s args =
     io_bind (tmux_run env (tx_backend s) (Some (tx_target s)) args) (\<lambda>_. io_ok \<lparr>changed = True\<rparr>)"

definition tmux_new_tab :: "'w foreign_env \<Rightarrow> tmux_session \<Rightarrow> new_tab_spec \<Rightarrow> ('w, mux_command_result) io" where
  "tmux_new_tab env s spec =
     tmux_on_target env s
       ([lit ''new-window'', lit ''-P'', lit ''-F'', lit ''#{window_id}'', lit ''-t'', tt_session_name (tx_target s)]
        @ (case nt_title spec of None \<Rightarrow> [] | Some title \<Rightarrow> [lit ''-n'', title]))"

definition tmux_close_tab :: "'w foreign_env \<Rightarrow> tmux_session \<Rightarrow> tab_id \<Rightarrow> ('w, mux_command_result) io" where
  "tmux_close_tab env s t =
     io_bind (tmux_snapshot env s) (\<lambda>snapshot.
       if length (tp_tabs (tn_topology snapshot)) \<le> 1
       then io_err (unsupported [MText ''tmux imported routes refuse to close the last tab because it would terminate the foreign session''] UnsupportedByBackend)
       else io_bind (io_lift (ok_or (tn_tab_targets snapshot t) (unknown_tmux_tab t))) (\<lambda>target.
              tmux_on_target env s [lit ''kill-window'', lit ''-t'', target]))"

definition tmux_focus_tab :: "'w foreign_env \<Rightarrow> tmux_session \<Rightarrow> tab_id \<Rightarrow> ('w, mux_command_result) io" where
  "tmux_focus_tab env s t =
     io_bind (tmux_snapshot env s) (\<lambda>snapshot.
     io_bind (io_lift (ok_or (tn_tab_targets snapshot t) (unknown_tmux_tab t))) (\<lambda>target.
       tmux_on_target env s [lit ''select-window'', lit ''-t'', target]))"

definition tmux_rename_tab ::
    "'w foreign_env \<Rightarrow> tmux_session \<Rightarrow> tab_id \<Rightarrow> rstr \<Rightarrow> ('w, mux_command_result) io" where
  "tmux_rename_tab env s t title =
     io_bind (tmux_snapshot env s) (\<lambda>snapshot.
     io_bind (io_lift (ok_or (tn_tab_targets snapshot t) (unknown_tmux_tab t))) (\<lambda>target.
       tmux_on_target env s [lit ''rename-window'', lit ''-t'', target, title]))"

text \<open>The target of a pane in a new snapshot, with the snapshot.\<close>

definition tmux_with_pane ::
    "'w foreign_env \<Rightarrow> tmux_session \<Rightarrow> pane_id
     \<Rightarrow> (tmux_session_snapshot \<Rightarrow> tmux_pane_target \<Rightarrow> ('w, 'a) io) \<Rightarrow> ('w, 'a) io" where
  "tmux_with_pane env s p f =
     io_bind (tmux_snapshot env s) (\<lambda>snapshot.
     io_bind (io_lift (ok_or (tn_pane_targets snapshot p) (unknown_tmux_pane p))) (f snapshot))"

definition tmux_focus_pane :: "'w foreign_env \<Rightarrow> tmux_session \<Rightarrow> pane_id \<Rightarrow> ('w, mux_command_result) io" where
  "tmux_focus_pane env s p =
     tmux_with_pane env s p (\<lambda>_ pane. tmux_on_target env s [lit ''select-pane'', lit ''-t'', pt_target pane])"

definition tmux_split_flag :: "split_direction \<Rightarrow> rstr" where
  "tmux_split_flag d = (case d of Horizontal \<Rightarrow> lit ''-v'' | Vertical \<Rightarrow> lit ''-h'')"

definition tmux_split_pane ::
    "'w foreign_env \<Rightarrow> tmux_session \<Rightarrow> split_pane_spec \<Rightarrow> ('w, mux_command_result) io" where
  "tmux_split_pane env s spec =
     tmux_with_pane env s (sp_pane_id spec) (\<lambda>_ pane.
       tmux_on_target env s
         [lit ''split-window'', tmux_split_flag (sp_direction spec), lit ''-t'', pt_target pane])"

definition tmux_close_pane :: "'w foreign_env \<Rightarrow> tmux_session \<Rightarrow> pane_id \<Rightarrow> ('w, mux_command_result) io" where
  "tmux_close_pane env s p =
     tmux_with_pane env s p (\<lambda>snapshot pane.
     io_bind (io_lift (ok_or (find (\<lambda>tab. foreign_tab_contains_pane tab p) (tp_tabs (tn_topology snapshot)))
       (not_found [MText ''tmux pane '', MPane p, MText '' is not bound to a tab'']))) (\<lambda>tab.
       if length (collect_snapshot_pane_ids (ts_root tab)) \<le> 1
       then io_err (unsupported [MText ''tmux imported routes refuse to close the last pane in a tab because it would collapse tab lifecycle into tab closure semantics''] UnsupportedByBackend)
       else tmux_on_target env s [lit ''kill-pane'', lit ''-t'', pt_target pane]))"

definition tmux_resize_pane ::
    "'w foreign_env \<Rightarrow> tmux_session \<Rightarrow> resize_pane_spec \<Rightarrow> ('w, mux_command_result) io" where
  "tmux_resize_pane env s spec =
     tmux_with_pane env s (rs_pane_id spec) (\<lambda>_ pane.
       if pt_rows pane = rs_rows spec \<and> pt_cols pane = rs_cols spec then io_ok \<lparr>changed = False\<rparr>
       else tmux_on_target env s
              [lit ''resize-pane'', lit ''-t'', pt_target pane, lit ''-y'', show_nat (unat (rs_rows spec)),
               lit ''-x'', show_nat (unat (rs_cols spec))])"

section \<open>Input\<close>

definition flush_tmux_literal :: "'w foreign_env \<Rightarrow> tmux_session \<Rightarrow> rstr \<Rightarrow> rstr \<Rightarrow> ('w, unit) io" where
  "flush_tmux_literal env s pane_target literal =
     (if literal = [] then io_ok ()
      else io_bind (tmux_run env (tx_backend s) (Some (tx_target s))
             [lit ''send-keys'', lit ''-t'', pane_target, lit ''-l'', literal]) (\<lambda>_. io_ok ()))"

definition send_tmux_key :: "'w foreign_env \<Rightarrow> tmux_session \<Rightarrow> rstr \<Rightarrow> rstr \<Rightarrow> rstr \<Rightarrow> ('w, unit) io" where
  "send_tmux_key env s pane_target literal key =
     io_bind (flush_tmux_literal env s pane_target literal) (\<lambda>_.
     io_bind (tmux_run env (tx_backend s) (Some (tx_target s))
                [lit ''send-keys'', lit ''-t'', pane_target, key]) (\<lambda>_. io_ok ()))"

text \<open>The loop over the characters: \<open>literal\<close> has not been sent yet.\<close>

fun send_tmux_text :: "'w foreign_env \<Rightarrow> tmux_session \<Rightarrow> rstr \<Rightarrow> rstr \<Rightarrow> rstr \<Rightarrow> ('w, unit) io" where
  "send_tmux_text env s pane_target literal [] = flush_tmux_literal env s pane_target literal"
| "send_tmux_text env s pane_target literal (ch # data) =
     (if ch = 13 \<or> ch = 10 then
        io_bind (send_tmux_key env s pane_target literal (lit ''Enter''))
          (\<lambda>_. send_tmux_text env s pane_target [] data)
      else if ch = 9 then
        io_bind (send_tmux_key env s pane_target literal (lit ''Tab''))
          (\<lambda>_. send_tmux_text env s pane_target [] data)
      else if is_control ch then
        io_err (unsupported [MText ''tmux input path does not support control character '',
                  MString (fe_debug_char env ch)] UnsupportedByBackend)
      else send_tmux_text env s pane_target (literal @ [ch]) data)"

definition send_text_to_pane ::
    "'w foreign_env \<Rightarrow> tmux_session \<Rightarrow> pane_id \<Rightarrow> rstr \<Rightarrow> ('w, mux_command_result) io" where
  "send_text_to_pane env s p data =
     (if data = [] then io_ok \<lparr>changed = False\<rparr>
      else tmux_with_pane env s p (\<lambda>_ pane.
             io_bind (send_tmux_text env s (pt_target pane) [] data) (\<lambda>_. io_ok \<lparr>changed = True\<rparr>)))"

definition tmux_dispatch :: "'w foreign_env \<Rightarrow> tmux_session \<Rightarrow> mux_command \<Rightarrow> ('w, mux_command_result) io" where
  "tmux_dispatch env s command =
     (case command of
        CNewTab spec \<Rightarrow> tmux_new_tab env s spec
      | CSplitPane spec \<Rightarrow> tmux_split_pane env s spec
      | CSendInput spec \<Rightarrow> send_text_to_pane env s (si_pane_id spec) (si_data spec)
      | CSendPaste spec \<Rightarrow> send_text_to_pane env s (pp_pane_id spec) (pp_data spec)
      | CClosePane p \<Rightarrow> tmux_close_pane env s p
      | CCloseTab t \<Rightarrow> tmux_close_tab env s t
      | CFocusTab t \<Rightarrow> tmux_focus_tab env s t
      | CRenameTab t title \<Rightarrow> tmux_rename_tab env s t title
      | CFocusPane p \<Rightarrow> tmux_focus_pane env s p
      | CResizePane spec \<Rightarrow> tmux_resize_pane env s spec
      | _ \<Rightarrow> io_err (unsupported [MText ''tmux imported routes do not support this command in the current rollout phase''] UnsupportedByBackend))"

section \<open>Subscriptions\<close>

definition tmux_open_topology ::
    "'w foreign_env \<Rightarrow> tmux_session \<Rightarrow> ('w, subscription_id \<times> topology_snapshot) io" where
  "tmux_open_topology env s w =
     (case fe_new_uuid env w of
        (u, w1) \<Rightarrow> io_map (\<lambda>snapshot. (Id u, tn_topology snapshot)) (tmux_snapshot env s) w1)"

definition tmux_open_pane_surface ::
    "'w foreign_env \<Rightarrow> tmux_session \<Rightarrow> pane_id \<Rightarrow> ('w, (subscription_id \<times> screen_snapshot) option) io" where
  "tmux_open_pane_surface env s p w =
     (case fe_new_uuid env w of
        (u, w1) \<Rightarrow> io_map (map_option (Pair (Id u))) (tmux_screen_snapshot env s p) w1)"

definition tmux_topology_tick ::
    "'w foreign_env \<Rightarrow> tmux_session \<Rightarrow> poll_wake \<Rightarrow> (topology_snapshot, topology_snapshot) poll_task \<Rightarrow> 'w
     \<Rightarrow> (topology_snapshot, topology_snapshot) poll_task \<times> 'w" where
  "tmux_topology_tick env s =
     poll_step (io_map (\<lambda>snapshot. Some (tn_topology snapshot)) (tmux_snapshot env s))
       (\<lambda>current prev. current = prev) (\<lambda>prev current. current)"

definition tmux_pane_surface_start :: "screen_snapshot \<Rightarrow> bool \<Rightarrow> (screen_snapshot, screen_delta) poll_task" where
  "tmux_pane_surface_start initial = poll_start initial (full_replace 0 initial)"

definition tmux_pane_surface_tick ::
    "'w foreign_env \<Rightarrow> tmux_session \<Rightarrow> pane_id \<Rightarrow> poll_wake \<Rightarrow> (screen_snapshot, screen_delta) poll_task \<Rightarrow> 'w
     \<Rightarrow> (screen_snapshot, screen_delta) poll_task \<times> 'w" where
  "tmux_pane_surface_tick env s p =
     poll_step (tmux_screen_snapshot env s p) (\<lambda>current prev. sn_sequence current = sn_sequence prev) between"

end
