(* ===== verification/Tmux_Properties.thy ===== *)
theory Tmux_Properties
  imports Tmux_Commands
begin

text \<open>
  What holds of the tmux backend: which targets survive their route, what a snapshot can address,
  and which keys the text of a user becomes.
\<close>

section \<open>Routes\<close>

text \<open>A name that survives: not empty, without the separator.\<close>

definition clean_name :: "rstr \<Rightarrow> bool" where
  "clean_name v \<longleftrightarrow> v \<noteq> [] \<and> 59 \<notin> set v"

definition clean_names :: "rstr option \<times> rstr option \<Rightarrow> bool" where
  "clean_names names \<longleftrightarrow> pred_option clean_name (fst names) \<and> pred_option clean_name (snd names)"

lemma target_part_clean:
  assumes "59 \<notin> set part" "clean_names names"
  shows "clean_names (target_part names part)"
proof -
  have tail: "59 \<notin> set u" if "split_once 61 part = Some (key, u)" for key u
    using that assms(1) by (auto simp: split_once_def split: option.splits dest: in_set_dropD)
  show ?thesis
    using assms(2) tail
    by (auto simp: target_part_def clean_names_def clean_name_def split: option.splits prod.splits)
qed

lemma targets_clean:
  "\<forall>part\<in>set parts. 59 \<notin> set part \<Longrightarrow> clean_names names \<Longrightarrow> clean_names (foldl target_part names parts)"
  by (induction parts arbitrary: names) (simp_all add: target_part_clean)

lemma target_part_named:
  "v \<noteq> [] \<Longrightarrow> target_part names (lit ''session='' @ v) = (fst names, Some v)"
  "v \<noteq> [] \<Longrightarrow> target_part names (lit ''socket='' @ v) = (Some v, snd names)"
  by (simp_all add: target_part_def split_once_def lit_def)

text \<open>
  The route of a tmux session leads back to it exactly if its name and that of its socket are not
  empty and have no semicolon, which separates the parts of the route.
\<close>
theorem tmux_route_roundtrip:
  "tmux_target_from_route (tmux_route t) = Inr t \<longleftrightarrow>
     clean_name (tt_session_name t) \<and> pred_option clean_name (tt_socket_name t)" (is "?returns \<longleftrightarrow> ?clean")
proof
  assume rt: ?returns
  define v where "v = ext_value (the (route_external (tmux_route t)))"
  obtain a b where names: "foldl target_part (None, None) (split_on 59 v) = (a, b)" by fastforce
  have "b = Some (tt_session_name t) \<and> a = tt_socket_name t"
    using rt names
    by (auto simp: tmux_target_from_route_def tmux_route_def bind_result_Inr_iff v_def)
  moreover have "clean_names (a, b)"
    using targets_clean [of "split_on 59 v" "(None, None)"] split_on_clean [of _ 59 v] names
    by (auto simp: clean_names_def)
  ultimately show ?clean by (simp add: clean_names_def)
next
  assume clean: ?clean
  obtain socket name where t: "t = \<lparr>tt_socket_name = socket, tt_session_name = name\<rparr>" by (cases t)
  have name: "split_on 59 (lit ''session='' @ name) = [lit ''session='' @ name]"
    using clean by (intro split_on_plain) (simp add: t lit_def clean_name_def)
  show ?returns
  proof (cases socket)
    case None
    then show ?thesis
      using clean name None by (simp add: t tmux_target_from_route_def tmux_route_def target_part_named clean_name_def)
  next
    case (Some s)
    have "split_on 59 ((lit ''socket='' @ s) @ 59 # lit ''session='' @ name) =
        [lit ''socket='' @ s, lit ''session='' @ name]"
      using clean name Some by (subst split_on_append) (simp_all add: t lit_def clean_name_def)
    then show ?thesis
      using clean Some by (simp add: t tmux_target_from_route_def tmux_route_def target_part_named clean_name_def)
  qed
qed

section \<open>What a snapshot can address\<close>

definition tmux_tab_ok :: "tmux_windows_state \<Rightarrow> tab_snapshot \<Rightarrow> bool" where
  "tmux_tab_ok st tab \<longleftrightarrow>
     ts_tab_id tab \<in> dom (ws_tab_targets st) \<and>
     (\<forall>p\<in>set (snapshot_panes (ts_root tab)). p \<in> dom (ws_panes st) \<or> snapshot_panes (ts_root tab) = [p]) \<and>
     (\<forall>p. ts_focused_pane tab = Some p \<longrightarrow> p \<in> dom (ws_panes st))"

definition windows_ok :: "tmux_windows_state \<Rightarrow> bool" where
  "windows_ok st \<longleftrightarrow> list_all (\<lambda>(i, tab). tmux_tab_ok st tab) (ws_tabs st)"

lemma dom_foldl_update: "dom (foldl (\<lambda>m r. m(f r \<mapsto> g r)) m rs) = dom m \<union> f ` set rs"
  by (induction rs arbitrary: m) auto

lemma index_ids_pane: "index_ids env t wid panes i = Some p \<Longrightarrow> p \<in> (\<lambda>r. tmux_pane_id env t wid (pr_pane_id r)) ` set panes"
  by (auto simp: index_ids_def dest!: map_of_SomeD)

lemma index_ids_known: "r \<in> set panes \<Longrightarrow> index_ids env t wid panes (pr_index r) \<noteq> None"
  by (auto simp: index_ids_def map_of_eq_None_iff image_iff)

lemma tmux_root_panes:
  assumes "tmux_root env t window panes w = (tree, w1)" "p \<in> set (snapshot_panes tree)"
  shows "p \<in> (\<lambda>r. tmux_pane_id env t (wr_id window) (pr_pane_id r)) ` set panes \<or> snapshot_panes tree = [p]"
proof (cases "parse_tmux_layout (index_ids env t (wr_id window) panes) (wr_layout window)")
  case (Some tree1)
  then have "\<exists>i. index_ids env t (wr_id window) panes i = Some p"
    using assms parse_node_panes(1)
    by (fastforce simp: tmux_root_def parse_tmux_layout_def split: option.splits)
  then show ?thesis using index_ids_pane by blast
next
  case None
  let ?ps = "map (\<lambda>r. the (index_ids env t (wr_id window) panes (pr_index r))) panes"
  have fb: "fallback_tree env ?ps w = (tree, w1)" using assms(1) None by (simp add: tmux_root_def Let_def)
  show ?thesis
  proof (cases "?ps = []")
    case True
    then show ?thesis using fb assms(2) by (auto simp: fallback_tree_def split: prod.splits)
  next
    case False
    then have "snapshot_panes tree = ?ps" using fallback_tree_panes(1) [OF False, of env w] fb by simp
    then obtain r where "r \<in> set panes" "p = the (index_ids env t (wr_id window) panes (pr_index r))"
      using assms(2) by auto
    then show ?thesis using index_ids_known index_ids_pane by (metis option.collapse)
  qed
qed

lemma window_step_ok:
  assumes "windows_ok st" "tmux_window_step env t line st w = (Inr st1, w1)"
  shows "windows_ok st1"
proof -
  obtain window where window: "parse_window_row line = Inr window"
    using assms(2) by (cases "parse_window_row line") (auto simp: tmux_window_step_def)
  let ?panes = "window_panes (wr_id window) (ws_rows st)"
  let ?id = "\<lambda>r. tmux_pane_id env t (wr_id window) (pr_pane_id r)"
  obtain tree w2 where tree: "tmux_root env t window ?panes w = (tree, w2)" by fastforce
  have focused: "p \<in> ?id ` set ?panes" if "map_option ?id (find pr_active ?panes) = Some p" for p
    using that by (auto simp: find_Some_iff)
  have st1: "ws_panes st1 = foldl (\<lambda>m r. m(?id r \<mapsto> pane_target_of r)) (ws_panes st) ?panes"
    "ws_tab_targets st1 = (ws_tab_targets st)(tmux_tab_id env t (wr_id window) \<mapsto> wr_id window)"
    "ws_tabs st1 = ws_tabs st @ [(wr_index window, \<lparr>ts_tab_id = tmux_tab_id env t (wr_id window),
       ts_title = non_empty (wr_name window), ts_root = tree,
       ts_focused_pane = map_option ?id (find pr_active ?panes)\<rparr>)]"
    using assms(2) by (auto simp: tmux_window_step_def window tree Let_def)
  have "dom (ws_panes st1) = dom (ws_panes st) \<union> ?id ` set ?panes"
    by (simp add: st1 dom_foldl_update)
  note dom = this
  have old: "tmux_tab_ok st1 tab" if "tmux_tab_ok st tab" for tab
    using that by (auto simp: tmux_tab_ok_def dom st1(2))
  have "tmux_tab_ok st1 \<lparr>ts_tab_id = tmux_tab_id env t (wr_id window), ts_title = non_empty (wr_name window),
      ts_root = tree, ts_focused_pane = map_option ?id (find pr_active ?panes)\<rparr>"
    using tmux_root_panes [OF tree] focused by (auto simp: tmux_tab_ok_def dom st1(2))
  then show ?thesis using assms(1) old by (auto simp: windows_ok_def st1(3) list_all_iff)
qed

lemma tmux_windows_ok:
  "windows_ok st \<Longrightarrow> tmux_windows env t lines st w = (Inr st1, w1) \<Longrightarrow> windows_ok st1"
proof (induction lines arbitrary: st w)
  case (Cons line lines)
  then obtain st2 w2 where step: "tmux_window_step env t line st w = (Inr st2, w2)"
    "tmux_windows env t lines st2 w2 = (Inr st1, w1)"
    by (auto simp: io_bind_Inr)
  show ?case using Cons.IH [OF window_step_ok [OF Cons.prems(1) step(1)] step(2)] .
qed simp

lemma tmux_snapshot_windows:
  assumes "tmux_snapshot env s w = (Inr snapshot, w1)"
  obtains st where "windows_ok st" "tp_tabs (tn_topology snapshot) = map snd (sort_key fst (ws_tabs st))"
    "tn_pane_targets snapshot = ws_panes st" "tn_tab_targets snapshot = ws_tab_targets st"
proof -
  obtain st rows lines w2 where
    loop: "tmux_windows env (tx_target s) lines \<lparr>ws_rows = rows, ws_tabs = [], ws_focused = None,
       ws_panes = Map.empty, ws_tab_targets = Map.empty\<rparr> w2 = (Inr st, w1)"
    and snapshot: "snapshot = \<lparr>tn_topology = \<lparr>tp_session_id = tx_session_id s, tp_backend_kind = Tmux,
        tp_tabs = map snd (sort_key fst (ws_tabs st)), tp_focused_tab = ws_focused st\<rparr>,
      tn_pane_targets = ws_panes st, tn_tab_targets = ws_tab_targets st\<rparr>"
    using assms by (auto simp: tmux_snapshot_def Let_def io_bind_Inr)
  have "windows_ok st" using tmux_windows_ok [OF _ loop] by (simp add: windows_ok_def)
  then show thesis by (rule that) (simp_all add: snapshot)
qed

text \<open>A snapshot that some session has returned.\<close>

definition tmux_taken :: "tmux_session_snapshot \<Rightarrow> bool" where
  "tmux_taken snapshot \<longleftrightarrow>
     (\<exists>st. windows_ok st \<and> tp_tabs (tn_topology snapshot) = map snd (sort_key fst (ws_tabs st)) \<and>
       tn_pane_targets snapshot = ws_panes st \<and> tn_tab_targets snapshot = ws_tab_targets st)"

lemma tmux_snapshot_taken: "tmux_snapshot env s w = (Inr snapshot, w1) \<Longrightarrow> tmux_taken snapshot"
  by (rule tmux_snapshot_windows) (auto simp: tmux_taken_def)

interpretation tmux_snapshots: imported_snapshot tmux_taken tn_topology
  "\<lambda>s p. tn_pane_targets s p \<noteq> None" "\<lambda>s t. tn_tab_targets s t \<noteq> None"
proof
  fix snapshot tab p
  assume taken: "tmux_taken snapshot" and tab: "tab \<in> set (tp_tabs (tn_topology snapshot))"
  then obtain st where "windows_ok st" "tn_pane_targets snapshot = ws_panes st"
    "tn_tab_targets snapshot = ws_tab_targets st" "tab \<in> snd ` set (ws_tabs st)"
    by (auto simp: tmux_taken_def)
  then have st: "tmux_tab_ok st tab" "tn_pane_targets snapshot = ws_panes st" "tn_tab_targets snapshot = ws_tab_targets st"
    by (auto simp: windows_ok_def list_all_iff)
  show "tn_tab_targets snapshot (ts_tab_id tab) \<noteq> None" using st by (auto simp: tmux_tab_ok_def)
  show "p \<in> set (snapshot_panes (ts_root tab)) \<Longrightarrow>
      tn_pane_targets snapshot p \<noteq> None \<or> snapshot_panes (ts_root tab) = [p]"
    using st by (auto simp: tmux_tab_ok_def)
  show "ts_focused_pane tab = Some p \<Longrightarrow> tn_pane_targets snapshot p \<noteq> None"
    using st by (auto simp: tmux_tab_ok_def)
qed

text \<open>
  C29. Closing a pane is decided on a new snapshot. A pane shown beside others is addressed and its kill
  is the only command that follows; the last pane of a tab, and a pane no tab shows, are refused
  without any further command.
\<close>
theorem tmux_close_pane_guarded:
  assumes "tmux_snapshot env s w = (Inr snapshot, w1)"
  shows "case find (\<lambda>tab. foreign_tab_contains_pane tab p) (tp_tabs (tn_topology snapshot)) of
      None \<Rightarrow> \<exists>e. tmux_close_pane env s p w = (Inl e, w1) \<and> be_kind e = NotFound
    | Some tab \<Rightarrow>
        if 1 < length (snapshot_panes (ts_root tab))
        then \<exists>pane. tn_pane_targets snapshot p = Some pane \<and>
          tmux_close_pane env s p w = tmux_on_target env s [lit ''kill-pane'', lit ''-t'', pt_target pane] w1
        else \<exists>e. tmux_close_pane env s p w = (Inl e, w1) \<and> be_kind e \<in> {Unsupported, NotFound}"
proof -
  have run: "tmux_close_pane env s p w = (case tn_pane_targets snapshot p of
      None \<Rightarrow> (Inl (unknown_tmux_pane p), w1)
    | Some pane \<Rightarrow> (case find (\<lambda>tab. foreign_tab_contains_pane tab p) (tp_tabs (tn_topology snapshot)) of
          None \<Rightarrow> (Inl (not_found [MText ''tmux pane '', MPane p, MText '' is not bound to a tab'']), w1)
        | Some tab \<Rightarrow> if length (snapshot_panes (ts_root tab)) \<le> 1
            then (Inl (unsupported [MText ''tmux imported routes refuse to close the last pane in a tab because it would collapse tab lifecycle into tab closure semantics''] UnsupportedByBackend), w1)
            else tmux_on_target env s [lit ''kill-pane'', lit ''-t'', pt_target pane] w1))"
    using assms
    by (simp add: tmux_close_pane_def tmux_with_pane_def io_bind_def [of "tmux_snapshot env s"] ok_or_def
        split: option.split)
  show ?thesis
    using tmux_snapshots.closable_known [OF tmux_snapshot_taken [OF assms], of p]
    by (auto simp: run unknown_tmux_pane_def split: option.split)
qed

text \<open>A session with a window of two panes, of which the second is focused.\<close>

definition tmux_demo :: "nat foreign_env" where
  "tmux_demo =
     \<lparr>fe_tool = (\<lambda>args w. (RunExited True
         (if hd args = lit ''list-windows'' then utf8_encode ([48, 9, 64, 9, 119, 9, 49, 9, 97, 10])
          else if hd args = lit ''list-panes''
          then utf8_encode ([64, 9, 37, 48, 9, 48, 9, 9, 48, 9, 56, 9, 50, 10, 64, 9, 37, 49, 9, 49, 9, 9, 49, 9, 56, 9, 50, 10])
          else []) [], w)), fe_expired = (\<lambda>args w. None),
      fe_new_uuid = (\<lambda>w. (0, w)), fe_uuid5 = (\<lambda>bs. ucast (last bs)), fe_debug_str = id, fe_debug_char = (\<lambda>c. [c]),
      fe_debug_part = (\<lambda>part. []), fe_utf8_error = (\<lambda>bs. []), fe_hash = (\<lambda>v. 0),
      fe_ansi = \<lparr>ae_width = (\<lambda>c. Some 1), ae_base64 = (\<lambda>v. None)\<rparr>\<rparr>"

definition tmux_demo_session :: tmux_session where
  "tmux_demo_session = \<lparr>tx_backend = None, tx_session_id = Id 7, tx_target = \<lparr>tt_socket_name = None, tt_session_name = [115]\<rparr>\<rparr>"

lemma tmux_demo_run:
  "tmux_run tmux_demo (tx_backend tmux_demo_session) (Some (tx_target tmux_demo_session)) (lit ''list-windows'' # args) w = (Inr [48, 9, 64, 9, 119, 9, 49, 9, 97, 10], w)"
  "tmux_run tmux_demo (tx_backend tmux_demo_session) (Some (tx_target tmux_demo_session)) (lit ''list-panes'' # args) w =
     (Inr [64, 9, 37, 48, 9, 48, 9, 9, 48, 9, 56, 9, 50, 10, 64, 9, 37, 49, 9, 49, 9, 9, 49, 9, 56, 9, 50, 10], w)"
proof -
  have decode: "utf8_decode (utf8_encode s) = Some s" if "\<forall>c\<in>set s. c < 128" for s
    using that by (intro utf8_decode_encode) (auto simp: is_scalar_def)
  have differ: "lit ''list-windows'' \<noteq> lit ''list-panes''" by (simp add: lit_def)
  show "tmux_run tmux_demo (tx_backend tmux_demo_session) (Some (tx_target tmux_demo_session)) (lit ''list-windows'' # args) w = (Inr [48, 9, 64, 9, 119, 9, 49, 9, 97, 10], w)"
    by (simp add: tmux_run_def tmux_run_bytes_def io_bind_def tmux_demo_def tmux_demo_session_def utf8_result_def Let_def decode del: utf8_encode_simps)
  show "tmux_run tmux_demo (tx_backend tmux_demo_session) (Some (tx_target tmux_demo_session)) (lit ''list-panes'' # args) w =
     (Inr [64, 9, 37, 48, 9, 48, 9, 9, 48, 9, 56, 9, 50, 10, 64, 9, 37, 49, 9, 49, 9, 9, 49, 9, 56, 9, 50, 10], w)"
    by (simp add: tmux_run_def tmux_run_bytes_def io_bind_def tmux_demo_def tmux_demo_session_def utf8_result_def Let_def decode differ [symmetric] del: utf8_encode_simps)
qed

lemma tmux_demo_rows:
  "parse_rows parse_pane_row (filter not_blank (str_lines
     [64, 9, 37, 48, 9, 48, 9, 9, 48, 9, 56, 9, 50, 10, 64, 9, 37, 49, 9, 49, 9, 9, 49, 9, 56, 9, 50, 10])) =
   Inr [\<lparr>pr_window_id = [64], pr_pane_id = [37, 48], pr_index = 0, pr_title = [], pr_active = False, pr_width = 8, pr_height = 2\<rparr>,
        \<lparr>pr_window_id = [64], pr_pane_id = [37, 49], pr_index = 1, pr_title = [], pr_active = True, pr_width = 8, pr_height = 2\<rparr>]"
  by (simp add: str_lines_def strip_cr_def not_blank_def trim_def trim_end_def is_whitespace_def parse_pane_row_def
      parse_tmux_u32_def parse_tmux_u16_def tmux_field_def vec_get_def parse_u32_def parse_u16_def parse_uint_def
      digits_value_def hex_value_def is_digit_def parse_tmux_bool_def lit_def Let_def)

lemma tmux_demo_window:
  "filter not_blank (str_lines [48, 9, 64, 9, 119, 9, 49, 9, 97, 10]) = [[48, 9, 64, 9, 119, 9, 49, 9, 97]]"
  "parse_window_row [48, 9, 64, 9, 119, 9, 49, 9, 97] =
     Inr \<lparr>wr_index = 0, wr_id = [64], wr_name = [119], wr_active = True, wr_layout = [97]\<rparr>"
  by (simp_all add: str_lines_def strip_cr_def not_blank_def trim_def trim_end_def is_whitespace_def parse_window_row_def
      parse_tmux_u32_def tmux_field_def vec_get_def parse_u32_def parse_uint_def
      digits_value_def hex_value_def is_digit_def parse_tmux_bool_def lit_def Let_def)

lemma tmux_demo_pane_id: "tmux_pane_id tmux_demo t wid (s @ [c]) = Id (ucast (last (utf8_char c)))"
proof -
  have "utf8_char c \<noteq> []" by (simp add: utf8_char_def)
  then show ?thesis by (simp add: tmux_pane_id_def deterministic_uuid_def tmux_demo_def utf8_encode_def)
qed

lemma tmux_demo_snapshot:
  "\<exists>snapshot. tmux_snapshot tmux_demo tmux_demo_session 0 = (Inr snapshot, 0) \<and>
     map ts_root (tp_tabs (tn_topology snapshot)) = [PSplit Vertical (PLeaf (Id 48)) (PLeaf (Id 49))]"
proof -
  have layout: "parse_tmux_layout ids [97] = None" for ids
    by (simp add: parse_tmux_layout_def utf8_char_def)
  have ids: "tmux_pane_id tmux_demo t wid [37, 48] = Id 48" "tmux_pane_id tmux_demo t wid [37, 49] = Id 49" for t wid
    using tmux_demo_pane_id [of t wid "[37]" 48] tmux_demo_pane_id [of t wid "[37]" 49] by (simp_all add: utf8_char_def)
  let ?t = "tx_target tmux_demo_session"
  let ?r0 = "\<lparr>pr_window_id = [64], pr_pane_id = [37, 48], pr_index = 0, pr_title = [], pr_active = False, pr_width = 8, pr_height = 2\<rparr>"
  let ?r1 = "\<lparr>pr_window_id = [64], pr_pane_id = [37, 49], pr_index = 1, pr_title = [], pr_active = True, pr_width = 8, pr_height = 2\<rparr>"
  have panes: "window_panes [64] [?r0, ?r1] = [?r0, ?r1]" by (simp add: window_panes_def)
  have "index_ids tmux_demo ?t [64] [?r0, ?r1] 0 = Some (Id 48)" "index_ids tmux_demo ?t [64] [?r0, ?r1] 1 = Some (Id 49)"
    by (simp_all add: index_ids_def ids)
  then have tree: "tmux_root tmux_demo ?t \<lparr>wr_index = 0, wr_id = [64], wr_name = [119], wr_active = True, wr_layout = [97]\<rparr> [?r0, ?r1] 0 =
      (PSplit Vertical (PLeaf (Id 48)) (PLeaf (Id 49)), 0)"
    by (simp add: tmux_root_def layout fallback_tree_def)
  let ?st0 = "\<lparr>ws_rows = [?r0, ?r1], ws_tabs = [], ws_focused = None, ws_panes = Map.empty, ws_tab_targets = Map.empty\<rparr>"
  obtain r w1 where r: "tmux_window_step tmux_demo ?t [48, 9, 64, 9, 119, 9, 49, 9, 97] ?st0 0 = (r, w1)" by fastforce
  have "w1 = 0 \<and> (\<exists>st. r = Inr st \<and> map (ts_root \<circ> snd) (ws_tabs st) = [PSplit Vertical (PLeaf (Id 48)) (PLeaf (Id 49))])"
    using r unfolding tmux_window_step_def tmux_demo_window io_simps
    by (auto simp: panes tree Let_def)
  then obtain st where st: "r = Inr st" "w1 = 0" "map (ts_root \<circ> snd) (ws_tabs st) = [PSplit Vertical (PLeaf (Id 48)) (PLeaf (Id 49))]"
    by (elim conjE exE)
  have windows: "tmux_windows tmux_demo ?t [[48, 9, 64, 9, 119, 9, 49, 9, 97]] ?st0 0 = (Inr st, 0)"
    using r st(1,2) by (simp add: io_bind_def)
  obtain tab where tab: "ws_tabs st = [tab]" using st(3) by (cases "ws_tabs st") auto
  have "tmux_snapshot tmux_demo tmux_demo_session 0 =
      (Inr \<lparr>tn_topology = \<lparr>tp_session_id = tx_session_id tmux_demo_session, tp_backend_kind = Tmux,
          tp_tabs = map snd (sort_key fst (ws_tabs st)), tp_focused_tab = ws_focused st\<rparr>,
        tn_pane_targets = ws_panes st, tn_tab_targets = ws_tab_targets st\<rparr>, 0)"
    unfolding tmux_snapshot_def Let_def io_bind_def tmux_demo_run prod.case sum.case io_simps
      tmux_demo_rows tmux_demo_window windows by (rule refl)
  then show ?thesis
    using st(3) by (intro exI conjI) (assumption, simp add: tab)
qed

lemma tmux_close_pane_guarded_witness:
  "\<exists>snapshot pane. tmux_snapshot tmux_demo tmux_demo_session 0 = (Inr snapshot, 0) \<and>
     tn_pane_targets snapshot (Id 49) = Some pane \<and>
     tmux_close_pane tmux_demo tmux_demo_session (Id 49) 0 =
       tmux_on_target tmux_demo tmux_demo_session [lit ''kill-pane'', lit ''-t'', pt_target pane] 0"
proof -
  obtain snapshot where s: "tmux_snapshot tmux_demo tmux_demo_session 0 = (Inr snapshot, 0)"
    "map ts_root (tp_tabs (tn_topology snapshot)) = [PSplit Vertical (PLeaf (Id 48)) (PLeaf (Id 49))]"
    using tmux_demo_snapshot by (elim exE conjE)
  obtain tab where tab: "tp_tabs (tn_topology snapshot) = [tab]"
    using s(2) by (cases "tp_tabs (tn_topology snapshot)") auto
  have tree: "ts_root tab = PSplit Vertical (PLeaf (Id 48)) (PLeaf (Id 49))" using s(2) by (simp add: tab)
  have "find (\<lambda>tab. foreign_tab_contains_pane tab (Id 49)) (tp_tabs (tn_topology snapshot)) = Some tab"
    "1 < length (snapshot_panes (ts_root tab))"
    by (simp_all add: tab tree foreign_tab_contains_pane_iff)
  then obtain pane where "tn_pane_targets snapshot (Id 49) = Some pane"
    "tmux_close_pane tmux_demo tmux_demo_session (Id 49) 0 =
       tmux_on_target tmux_demo tmux_demo_session [lit ''kill-pane'', lit ''-t'', pt_target pane] 0"
    using tmux_close_pane_guarded [OF s(1), of "Id 49"] by (simp only: option.case if_True) (elim exE conjE)
  then show ?thesis using s(1) by (intro exI conjI)
qed

section \<open>Input\<close>

text \<open>The keys a text becomes, the command that types each, and the text each stands for.\<close>

datatype tmux_key = KeyLiteral rstr | KeyEnter | KeyTab

fun tmux_key_args :: "rstr \<Rightarrow> tmux_key \<Rightarrow> rstr list" where
  "tmux_key_args target (KeyLiteral s) = [lit ''send-keys'', lit ''-t'', target, lit ''-l'', s]"
| "tmux_key_args target KeyEnter = [lit ''send-keys'', lit ''-t'', target, lit ''Enter'']"
| "tmux_key_args target KeyTab = [lit ''send-keys'', lit ''-t'', target, lit ''Tab'']"

fun tmux_key_text :: "tmux_key \<Rightarrow> rstr" where
  "tmux_key_text (KeyLiteral s) = s" | "tmux_key_text KeyEnter = [10]" | "tmux_key_text KeyTab = [9]"

definition typeable :: "nat \<Rightarrow> bool" where
  "typeable c \<longleftrightarrow> c = 13 \<or> c = 10 \<or> c = 9 \<or> \<not> is_control c"

definition breaks_literal :: "nat \<Rightarrow> bool" where
  "breaks_literal c \<longleftrightarrow> c = 13 \<or> c = 10 \<or> c = 9"

definition cr_to_lf :: "nat \<Rightarrow> nat" where "cr_to_lf c = (if c = 13 then 10 else c)"

definition socket_args :: "tmux_session \<Rightarrow> rstr list" where
  "socket_args s = (case (case tt_socket_name (tx_target s) of Some n \<Rightarrow> Some n | None \<Rightarrow> tx_backend s) of
      Some n \<Rightarrow> [lit ''-L'', n] | None \<Rightarrow> [])"

text \<open>The world after some keys were typed, \<open>step\<close> what a command does to it.\<close>

definition type_keys ::
    "(rstr list \<Rightarrow> 'w \<Rightarrow> 'w) \<Rightarrow> tmux_session \<Rightarrow> rstr \<Rightarrow> tmux_key list \<Rightarrow> 'w \<Rightarrow> 'w" where
  "type_keys step s target keys w = foldl (\<lambda>w k. step (socket_args s @ tmux_key_args target k) w) w keys"

text \<open>
  What tmux does with the arguments of \<open>send-keys\<close>: an argument that begins with a hyphen is read as options, and
  one that ends in a semicolon ends the command there. The source escapes neither, so only the arguments that are
  neither of the two are taken as they are: \<open>keys_accepted\<close> says that such keys are typed.
\<close>

definition plain_argument :: "rstr \<Rightarrow> bool" where
  "plain_argument s \<longleftrightarrow> s \<noteq> [] \<and> hd s \<noteq> 45 \<and> last s \<noteq> 59"

fun plain_key :: "tmux_key \<Rightarrow> bool" where
  "plain_key (KeyLiteral s) = plain_argument s" | "plain_key KeyEnter = True" | "plain_key KeyTab = True"

definition keys_accepted :: "'w foreign_env \<Rightarrow> (rstr list \<Rightarrow> 'w \<Rightarrow> 'w) \<Rightarrow> bool" where
  "keys_accepted env step \<longleftrightarrow>
     (\<forall>s target k w. plain_argument target \<and> plain_key k \<longrightarrow>
        fe_tool env (socket_args s @ tmux_key_args target k) w =
          (RunExited True [] [], step (socket_args s @ tmux_key_args target k) w))"

text \<open>
  The literals of a text, the pieces between its line breaks and tabs, and when all of them are taken as they
  are: a literal that is empty is not sent.
\<close>

fun text_pieces :: "rstr \<Rightarrow> rstr \<Rightarrow> rstr list" where
  "text_pieces literal [] = [literal]"
| "text_pieces literal (c # cs) = (if breaks_literal c then literal # text_pieces [] cs else text_pieces (literal @ [c]) cs)"

definition plain_literal :: "rstr \<Rightarrow> bool" where
  "plain_literal s \<longleftrightarrow> s = [] \<or> plain_argument s"

lemma text_pieces_nonempty [simp]: "text_pieces literal cs \<noteq> []"
  by (induction literal cs rule: text_pieces.induct) simp_all

lemma text_pieces_last: "breaks_literal (last cs) \<Longrightarrow> cs \<noteq> [] \<Longrightarrow> last (text_pieces literal cs) = []"
  by (induction literal cs rule: text_pieces.induct) (auto split: if_splits)

lemma run_send_keys:
  assumes "keys_accepted env step" "plain_argument target" "plain_key k"
  shows "tmux_run env (tx_backend s) (Some (tx_target s)) (tmux_key_args target k) w =
    (Inr [], step (socket_args s @ tmux_key_args target k) w)"
proof -
  have "fe_tool env (socket_args s @ tmux_key_args target k) w =
      (RunExited True [] [], step (socket_args s @ tmux_key_args target k) w)"
    using assms by (simp add: keys_accepted_def)
  then show ?thesis
    by (simp add: tmux_run_def tmux_run_bytes_def io_bind_def socket_args_def utf8_result_def utf8_decode_def Let_def)
qed

lemma flush_typed:
  assumes "keys_accepted env step" "plain_argument target" "plain_literal literal"
  shows "flush_tmux_literal env s target literal w =
    (Inr (), type_keys step s target (if literal = [] then [] else [KeyLiteral literal]) w)"
  using run_send_keys [OF assms(1,2), of "KeyLiteral literal" s w] assms(3)
  by (auto simp: flush_tmux_literal_def type_keys_def io_bind_def plain_literal_def)

lemma key_typed:
  assumes "keys_accepted env step" "plain_argument target" "plain_literal literal"
    "tmux_key_args target k = [lit ''send-keys'', lit ''-t'', target, key]" "plain_key k"
  shows "send_tmux_key env s target literal key w =
    (Inr (), type_keys step s target ((if literal = [] then [] else [KeyLiteral literal]) @ [k]) w)"
  using run_send_keys [OF assms(1,2,5), of s] assms(4)
  by (simp add: send_tmux_key_def io_bind_def flush_typed [OF assms(1-3)] type_keys_def)

lemma type_keys_append: "type_keys step s target (ks @ ls) w = type_keys step s target ls (type_keys step s target ks w)"
  by (simp add: type_keys_def)

lemma send_text_prefix:
  assumes "keys_accepted env step" "plain_argument target" "list_all typeable data"
    "list_all plain_literal (butlast (text_pieces literal data))"
  shows "\<exists>keys. send_tmux_text env s target literal (data @ rest) w =
      send_tmux_text env s target (last (text_pieces literal data)) rest (type_keys step s target keys w) \<and>
    concat (map tmux_key_text keys) @ last (text_pieces literal data) = literal @ map cr_to_lf data"
  using assms(3,4)
proof (induction data arbitrary: literal w)
  case Nil
  show ?case by (intro exI [of _ "[]"]) (simp add: type_keys_def)
next
  case (Cons c data)
  let ?flush = "if literal = [] then [] else [KeyLiteral literal]"
  show ?case
  proof (cases "breaks_literal c")
    case True
    have plain: "plain_literal literal" "list_all plain_literal (butlast (text_pieces [] data))"
      using Cons.prems(2) True by simp_all
    define k where "k = (if c = 9 then KeyTab else KeyEnter)"
    have step: "send_tmux_text env s target literal ((c # data) @ rest) w =
        send_tmux_text env s target [] (data @ rest) (type_keys step s target (?flush @ [k]) w)"
      using True key_typed [OF assms(1,2) plain(1), of k] by (auto simp: breaks_literal_def k_def io_bind_def)
    define w1 where "w1 = type_keys step s target (?flush @ [k]) w"
    have "list_all typeable data" using Cons.prems by simp
    from Cons.IH [OF this plain(2), of w1] obtain keys where IH:
      "send_tmux_text env s target [] (data @ rest) w1 =
         send_tmux_text env s target (last (text_pieces [] data)) rest (type_keys step s target keys w1)"
      "concat (map tmux_key_text keys) @ last (text_pieces [] data) = map cr_to_lf data"
      by (simp only: append_Nil) blast
    have "send_tmux_text env s target literal ((c # data) @ rest) w =
        send_tmux_text env s target (last (text_pieces [] data)) rest (type_keys step s target ((?flush @ [k]) @ keys) w)"
      using step IH(1) by (simp only: w1_def type_keys_append)
    moreover have "concat (map tmux_key_text ((?flush @ [k]) @ keys)) @ last (text_pieces [] data) = literal @ map cr_to_lf (c # data)"
      using IH(2) True by (auto simp: k_def breaks_literal_def cr_to_lf_def)
    ultimately show ?thesis using True by (intro exI [of _ "(?flush @ [k]) @ keys"]) (simp del: send_tmux_text.simps)
  next
    case False
    then have "send_tmux_text env s target literal ((c # data) @ rest) w =
        send_tmux_text env s target (literal @ [c]) (data @ rest) w"
      using Cons.prems by (simp add: typeable_def breaks_literal_def)
    moreover have "cr_to_lf c = c" using False by (simp add: breaks_literal_def cr_to_lf_def)
    moreover have "list_all typeable data" "list_all plain_literal (butlast (text_pieces (literal @ [c]) data))"
      using Cons.prems False by simp_all
    from Cons.IH [OF this, of w] obtain keys where
      "send_tmux_text env s target (literal @ [c]) (data @ rest) w =
         send_tmux_text env s target (last (text_pieces (literal @ [c]) data)) rest (type_keys step s target keys w)"
      "concat (map tmux_key_text keys) @ last (text_pieces (literal @ [c]) data) = (literal @ [c]) @ map cr_to_lf data"
      by blast
    ultimately show ?thesis using False
      by (intro exI [of _ keys]) (simp del: send_tmux_text.simps)
  qed
qed

text \<open>
  C30. A text without unsupported control characters is typed as it is: the keys sent stand for exactly its
  characters, a carriage return as the Enter key a line feed is. This holds for the texts whose literals tmux takes
  as they are: none of the pieces between line breaks and tabs begins with a hyphen or ends in a semicolon.
\<close>
theorem tmux_input_typed:
  assumes "keys_accepted env step" "plain_argument target" "list_all typeable data"
    "list_all plain_literal (text_pieces [] data)"
  shows "\<exists>keys. send_tmux_text env s target [] data w = (Inr (), type_keys step s target keys w) \<and>
    concat (map tmux_key_text keys) = map cr_to_lf data"
proof -
  let ?literal = "last (text_pieces [] data)"
  have plain: "list_all plain_literal (butlast (text_pieces [] data))" "plain_literal ?literal"
    using assms(4) by (auto simp: list_all_iff dest: in_set_butlastD)
  obtain keys where pre: "send_tmux_text env s target [] (data @ []) w =
      send_tmux_text env s target ?literal [] (type_keys step s target keys w)"
    "concat (map tmux_key_text keys) @ ?literal = map cr_to_lf data"
    using send_text_prefix [OF assms(1-3) plain(1), of s "[]" w] by auto
  then show ?thesis
    by (intro exI [of _ "keys @ (if ?literal = [] then [] else [KeyLiteral ?literal])"])
      (auto simp: flush_typed [OF assms(1,2) plain(2)] type_keys_append)
qed

text \<open>A tmux that types what it is given, with an error for a literal it reads as options.\<close>

definition tmux_typist :: "rstr list list foreign_env" where
  "tmux_typist = \<lparr>fe_tool = (\<lambda>args log. if plain_argument (last args) then (RunExited True [] [], log @ [args])
         else (RunExited False [] [], log)),
     fe_expired = (\<lambda>args log. None),
     fe_new_uuid = (\<lambda>log. (0, log)), fe_uuid5 = (\<lambda>bs. 0), fe_debug_str = id, fe_debug_char = (\<lambda>c. [c]),
     fe_debug_part = (\<lambda>part. []), fe_utf8_error = (\<lambda>bs. []), fe_hash = (\<lambda>v. 0),
     fe_ansi = \<lparr>ae_width = (\<lambda>c. Some 1), ae_base64 = (\<lambda>v. None)\<rparr>\<rparr>"

lemma tmux_typist_accepts: "keys_accepted tmux_typist (\<lambda>args log. log @ [args])"
proof -
  have "plain_argument (last (socket_args s @ tmux_key_args target k))" if "plain_key k" for s target k
    using that by (cases k) (simp_all add: plain_argument_def lit_def)
  then show ?thesis by (simp add: keys_accepted_def tmux_typist_def)
qed

lemma tmux_input_typed_witness:
  "\<forall>s. \<exists>keys. send_tmux_text tmux_typist s (lit ''%1'') [] (lit ''ls -l'' @ [13, 10]) [] =
      (Inr (), type_keys (\<lambda>args log. log @ [args]) s (lit ''%1'') keys []) \<and>
    concat (map tmux_key_text keys) = map cr_to_lf (lit ''ls -l'' @ [13, 10])"
  by (intro allI tmux_input_typed tmux_typist_accepts)
    (simp_all add: typeable_def is_control_def lit_def plain_argument_def plain_literal_def breaks_literal_def)

text \<open>
  C31. A text with an unsupported control character is not refused as a whole: the command fails, but
  everything up to the last line break or tab before the character has been typed by then, as long as tmux takes its
  literals as they are: none begins with a hyphen or ends in a semicolon.
\<close>
theorem tmux_input_partial:
  assumes "keys_accepted env step" "plain_argument target" "list_all typeable sent" "breaks_literal (last sent)" "sent \<noteq> []"
    and "list_all plain_literal (text_pieces [] sent)"
    and "list_all typeable lost" "list_all (\<lambda>c. \<not> breaks_literal c) lost" "\<not> typeable c"
  shows "\<exists>keys e. send_tmux_text env s target [] (sent @ lost @ c # rest) w = (Inl e, type_keys step s target keys w) \<and>
    be_kind e = Unsupported \<and> concat (map tmux_key_text keys) = map cr_to_lf sent"
proof -
  have plain: "list_all plain_literal (butlast (text_pieces [] sent))"
    using assms(6) by (auto simp: list_all_iff dest: in_set_butlastD)
  obtain keys where pre: "send_tmux_text env s target [] (sent @ lost @ c # rest) w =
      send_tmux_text env s target [] (lost @ c # rest) (type_keys step s target keys w)"
    "concat (map tmux_key_text keys) = map cr_to_lf sent"
    using send_text_prefix [OF assms(1-3) plain, of s "lost @ c # rest" w] text_pieces_last [OF assms(4,5)] by auto
  have "\<exists>e. send_tmux_text env s target literal (lost @ c # rest) w1 = (Inl e, w1) \<and> be_kind e = Unsupported" for literal w1
    using assms(7-9)
    by (induction lost arbitrary: literal) (auto simp: typeable_def breaks_literal_def)
  then show ?thesis using pre by metis
qed

lemma tmux_input_partial_witness:
  "\<forall>s. \<exists>keys e. send_tmux_text tmux_typist s (lit ''%1'') [] ((lit ''rm x'' @ [10]) @ lit ''y'' @ 3 # []) [] =
      (Inl e, type_keys (\<lambda>args log. log @ [args]) s (lit ''%1'') keys []) \<and>
    be_kind e = Unsupported \<and> concat (map tmux_key_text keys) = map cr_to_lf (lit ''rm x'' @ [10])"
  by (intro allI tmux_input_partial tmux_typist_accepts)
    (simp_all add: typeable_def breaks_literal_def is_control_def lit_def plain_argument_def plain_literal_def)

section \<open>The stream of a pane\<close>

text \<open>
  A poll of the pane's screen is a step of a stream of deltas, so a client that replays what the
  subscription has sent shows the screen of the last poll. An event is a wake-up with the world
  the poll meets.
\<close>

interpretation tmux_stream: surface_stream
    "\<lambda>(wake, w) task. fst (tmux_pane_surface_tick env s p wake task w)" pl_running pl_last pl_outbox
    "\<lambda>(wake, w). \<forall>current w1. tmux_screen_snapshot env s p w = (Inr (Some current), w1) \<longrightarrow> deliverable current"
  for env :: "'w foreign_env" and s p
proof
  fix event :: "poll_wake \<times> 'w" and task :: "(screen_snapshot, screen_delta) poll_task"
  obtain wake w where event: "event = (wake, w)" by fastforce
  obtain r w1 where fetch: "tmux_screen_snapshot env s p w = (r, w1)" by fastforce
  let ?next = "case event of (wake, w) \<Rightarrow> \<lambda>task. fst (tmux_pane_surface_tick env s p wake task w)"
  { assume "\<not> pl_running task"
    then show "pl_outbox (?next task) = pl_outbox task \<and> \<not> pl_running (?next task)"
      by (simp add: event tmux_pane_surface_tick_def poll_step_def) }
  assume "pl_running task" and
    "case event of (wake, w) \<Rightarrow> \<forall>current w1. tmux_screen_snapshot env s p w = (Inr (Some current), w1) \<longrightarrow> deliverable current"
  then show "(pl_outbox (?next task) = pl_outbox task \<and> (pl_running (?next task) \<longrightarrow> pl_last (?next task) = pl_last task)) \<or>
      deliverable (pl_last (?next task)) \<and>
      pl_outbox (?next task) = pl_outbox task @ [between (pl_last task) (pl_last (?next task))]"
    by (cases wake) (auto simp: event fetch tmux_pane_surface_tick_def poll_step_def split: sum.split option.split)
qed

end
