(* ===== verification/Zellij_Session.thy ===== *)
theory Zellij_Session
  imports Foreign_Session "HOL-Library.AList" "HOL-Library.List_Lexorder"
begin

text \<open>
  The crate \<open>terminal-backend-zellij\<close>: the probe of the installed version, targets, rows, the
  runner of commands with its retries, discovery and attaching, the snapshot of a session, screens.
  \<open>serde_json\<close>, the clock and the operating system are parameters. The lock \<open>io_lane\<close> is part of
  the state: a panic while it is held poisons it, and every later operation that takes it panics.
\<close>

section \<open>The environment\<close>

datatype 'a json_payload = JsonSyntaxError rstr | JsonArray "rstr + 'a list" | JsonOther rstr

record zellij_tab_row =
  zt_tab_id :: u32
  zt_position :: u32
  zt_name :: rstr
  zt_active :: bool

record zellij_pane_row =
  zp_id :: u32
  zp_tab_id :: u32
  zp_title :: rstr
  zp_is_plugin :: bool
  zp_is_focused :: bool
  zp_is_floating :: bool
  zp_x :: u16
  zp_y :: u16
  zp_rows :: u16
  zp_columns :: u16

text \<open>The scrollback of an update is not read.\<close>

datatype zellij_subscribe_event =
    PaneUpdate rstr "rstr list" bool
  | PaneClosed rstr

text \<open>
  \<open>ze_windows\<close> is \<open>cfg!(windows)\<close>; \<open>ze_sleep\<close> is the world after a poll interval and \<open>ze_settle_over\<close>
  whether the settle timeout has run out between two worlds; the others read JSON.
\<close>

record 'w zellij_env = "'w foreign_env" +
  ze_windows :: bool
  ze_sleep :: "'w \<Rightarrow> 'w"
  ze_settle_over :: "'w \<Rightarrow> 'w \<Rightarrow> bool"
  ze_json_tabs :: "rstr \<Rightarrow> zellij_tab_row json_payload"
  ze_json_panes :: "rstr \<Rightarrow> zellij_pane_row json_payload"
  ze_json_event :: "rstr \<Rightarrow> zellij_subscribe_event option"

section \<open>Targets and rows\<close>

type_synonym zellij_target = rstr

definition zellij_route_namespace :: rstr where
  "zellij_route_namespace = lit ''zellij_session''"

definition zellij_target_from_route :: "session_route \<Rightarrow> backend_error + zellij_target" where
  "zellij_target_from_route route =
     (if route_authority route \<noteq> ImportedForeign
      then Inl (invalid_input [MText ''zellij route must be imported_foreign''])
      else case route_external route of
          None \<Rightarrow> Inl (invalid_input [MText ''zellij route is missing external reference''])
        | Some external \<Rightarrow>
            if ext_namespace external \<noteq> zellij_route_namespace
            then Inl (invalid_input [MText ''zellij route namespace is invalid''])
            else ok_or (strip_prefix (lit ''session='') (ext_value external))
                   (invalid_input [MText ''zellij route is missing session'']))"

definition backend_ref :: "zellij_pane_row \<Rightarrow> rstr" where
  "backend_ref pane =
     (if zp_is_plugin pane then lit ''plugin_'' else lit ''terminal_'') @ show_nat (unat (zp_id pane))"

definition summarize_payload :: "rstr \<Rightarrow> rstr" where
  "summarize_payload rendered =
     (if 160 < length rendered then take 160 rendered @ lit ''...'' else rendered)"

definition parse_json_array :: "('a json_payload) \<Rightarrow> string \<Rightarrow> backend_error + 'a list" where
  "parse_json_array payload command =
     (case payload of
        JsonSyntaxError e \<Rightarrow>
          Inl (internal_error [MText ''invalid zellij '', MText command, MText '' json: '', MString e])
      | JsonArray (Inl e) \<Rightarrow>
          Inl (internal_error [MText ''invalid zellij '', MText command, MText '' json: '', MString e])
      | JsonArray (Inr items) \<Rightarrow> Inr items
      | JsonOther rendered \<Rightarrow>
          Inl (internal_error [MText ''unexpected zellij '', MText command,
            MText '' payload while the session was settling: '', MString (summarize_payload rendered)]))"

definition parse_tabs_json :: "'w zellij_env \<Rightarrow> rstr \<Rightarrow> backend_error + zellij_tab_row list" where
  "parse_tabs_json env output = parse_json_array (ze_json_tabs env output) ''list-tabs''"

definition parse_panes_json :: "'w zellij_env \<Rightarrow> rstr \<Rightarrow> backend_error + zellij_pane_row list" where
  "parse_panes_json env output = parse_json_array (ze_json_panes env output) ''list-panes''"

section \<open>Errors that pass\<close>

definition is_transient_zellij_error :: "rstr \<Rightarrow> bool" where
  "is_transient_zellij_error message \<longleftrightarrow>
     contains_str (lit ''No active zellij sessions found'') message \<or>
     contains_str (lit ''There is no active session'') message \<or>
     contains_str (lit ''Session '' @ [39]) message \<and> contains_str (39 # lit '' not found'') message"

definition transient_messages :: "rstr list" where
  "transient_messages =
     [lit ''invalid zellij list-tabs json: EOF while parsing a value'',
      lit ''invalid zellij list-tabs json: expected value'',
      lit ''invalid zellij list-panes json: EOF while parsing a value'',
      lit ''invalid zellij list-panes json: expected value'',
      lit ''invalid zellij list-panes json: missing field'',
      lit ''unexpected zellij list-tabs payload while the session was settling'',
      lit ''unexpected zellij list-panes payload while the session was settling'',
      lit ''zellij snapshot commands returned empty output while the session was still settling'',
      lit ''exposed no importable panes'']"

definition is_transient_zellij_backend_error :: "'w zellij_env \<Rightarrow> backend_error \<Rightarrow> bool" where
  "is_transient_zellij_backend_error env e \<longleftrightarrow>
     (let message = message_text (foreign_env.truncate env) (be_message e)
      in is_transient_zellij_error message \<or> list_ex (\<lambda>m. contains_str m message) transient_messages)"

section \<open>Running zellij\<close>

definition zellij_transient_retry_attempts :: nat where "zellij_transient_retry_attempts = 10"

text \<open>One run; the flag of a failure says that the command itself reported it.\<close>

definition zellij_run_once ::
    "'w zellij_env \<Rightarrow> zellij_target option \<Rightarrow> rstr list \<Rightarrow> ('w, backend_error \<times> rstr option, u8 list) effect" where
  "zellij_run_once env target args w =
     (let all_args = (case target of Some t \<Rightarrow> [lit ''--session'', t] | None \<Rightarrow> []) @ args in
      case fe_expired env all_args w of
        Some w1 \<Rightarrow>
          (Inl (transport_error [MText ''zellij command timed out after 10000 ms: zellij '',
                  MString (join_with 32 args)], None), w1)
      | None \<Rightarrow>
          (case fe_tool env all_args w of
             (RunSpawnFailed e, w1) \<Rightarrow> (Inl (transport_error [MText ''zellij command failed to spawn: '', MString e], None), w1)
           | (RunWaitFailed e, w1) \<Rightarrow> (Inl (transport_error [MText ''zellij command wait failed: '', MString e], None), w1)
           | (RunCollectFailed e, w1) \<Rightarrow>
               (Inl (transport_error [MText ''zellij command output collection failed: '', MString e], None), w1)
           | (RunExited success out err, w1) \<Rightarrow>
               if success then (Inr out, w1)
               else let stderr = trim (utf8_lossy err) in
                 (Inl (transport_error [MText ''zellij command failed: '', MString stderr], Some stderr), w1)))"

text \<open>At most ten runs: \<open>attempts\<close> are left.\<close>

fun zellij_run_from ::
    "'w zellij_env \<Rightarrow> zellij_target option \<Rightarrow> rstr list \<Rightarrow> backend_error option \<Rightarrow> nat \<Rightarrow> ('w, u8 list) io" where
  "zellij_run_from env target args last_error 0 w =
     (Inl (unwrap_or (transport_error [MText ''zellij command never reached a stable result'']) last_error), w)"
| "zellij_run_from env target args last_error (Suc attempts) w =
     (case zellij_run_once env target args w of
        (Inr out, w1) \<Rightarrow> (Inr out, w1)
      | (Inl (e, None), w1) \<Rightarrow> (Inl e, w1)
      | (Inl (e, Some stderr), w1) \<Rightarrow>
          if 0 < attempts \<and> is_transient_zellij_error stderr
          then zellij_run_from env target args (Some e) attempts (ze_sleep env w1)
          else (Inl e, w1))"

definition zellij_run_bytes :: "'w zellij_env \<Rightarrow> zellij_target option \<Rightarrow> rstr list \<Rightarrow> ('w, u8 list) io" where
  "zellij_run_bytes env target args = zellij_run_from env target args None zellij_transient_retry_attempts"

definition zellij_run :: "'w zellij_env \<Rightarrow> zellij_target option \<Rightarrow> rstr list \<Rightarrow> ('w, rstr) io" where
  "zellij_run env target args =
     io_bind (zellij_run_bytes env target args)
       (\<lambda>out. io_lift (utf8_result (foreign_env.truncate env) ''zellij output is not utf8: '' out))"

section \<open>The probe\<close>

datatype zellij_surface = LegacyCli043 | RichCli044Plus | UnknownSurface

record zellij_probe =
  zb_version :: rstr
  zb_surface :: zellij_surface

definition trim_start :: "rstr \<Rightarrow> rstr" where
  "trim_start s = dropWhile is_whitespace s"

definition parse_semver_triplet :: "rstr \<Rightarrow> (nat \<times> nat \<times> nat) option" where
  "parse_semver_triplet token =
     (let parts = split_on 46 (dropWhile (\<lambda>c. c = 118) (trim token)) in
      Option.bind (Option.bind (vec_get parts 0) parse_usize) (\<lambda>major.
      Option.bind (Option.bind (vec_get parts 1) parse_usize) (\<lambda>minor.
      Option.bind (Option.bind (vec_get parts 2) parse_usize) (\<lambda>patch. Some (major, minor, patch)))))"

definition version_at_least :: "nat \<times> nat \<times> nat \<Rightarrow> nat \<times> nat \<times> nat \<Rightarrow> bool" where
  "version_at_least = (\<lambda>(a, b, c) (x, y, z). a > x \<or> a = x \<and> (b > y \<or> b = y \<and> c \<ge> z))"

definition help_contains_subcommand :: "rstr \<Rightarrow> rstr \<Rightarrow> bool" where
  "help_contains_subcommand help subcommand \<longleftrightarrow>
     list_ex (\<lambda>line. sublist_at subcommand (trim_start line)) (str_lines help)"

definition help_contains_option :: "rstr \<Rightarrow> rstr \<Rightarrow> bool" where
  "help_contains_option help option \<longleftrightarrow>
     list_ex (\<lambda>line. list_ex (\<lambda>token. token = option) (split_whitespace line)) (str_lines help)"

definition help_supports_ansi :: "rstr option \<Rightarrow> nat \<times> nat \<times> nat \<Rightarrow> bool" where
  "help_supports_ansi help version =
     (case help of Some h \<Rightarrow> help_contains_option h (lit ''--ansi'') | None \<Rightarrow> version_at_least version (0, 44, 0))"

definition surface_of_version :: "nat \<times> nat \<times> nat \<Rightarrow> zellij_surface" where
  "surface_of_version version =
     (if version_at_least version (0, 44, 0) then RichCli044Plus
      else if version_at_least version (0, 43, 0) then LegacyCli043 else UnknownSurface)"

definition classify_surface ::
    "nat \<times> nat \<times> nat \<Rightarrow> rstr option \<Rightarrow> rstr option \<Rightarrow> rstr option \<Rightarrow> rstr option \<Rightarrow> zellij_surface" where
  "classify_surface version root_help action_help dump_screen_help subscribe_help =
     (case (root_help, action_help) of
        (Some root_text, Some action_text) \<Rightarrow>
          if help_contains_subcommand root_text (lit ''subscribe'')
             \<and> help_contains_subcommand action_text (lit ''list-panes'')
             \<and> help_contains_subcommand action_text (lit ''list-tabs'')
          then (if help_supports_ansi dump_screen_help version \<and> help_supports_ansi subscribe_help version
                then RichCli044Plus else UnknownSurface)
          else if help_contains_subcommand action_text (lit ''query-tab-names'')
             \<or> help_contains_subcommand action_text (lit ''dump-layout'')
          then LegacyCli043
          else surface_of_version version
      | _ \<Rightarrow> surface_of_version version)"

definition zellij_probe_parse ::
    "rstr \<Rightarrow> rstr option \<Rightarrow> rstr option \<Rightarrow> rstr option \<Rightarrow> rstr option \<Rightarrow> zellij_probe" where
  "zellij_probe_parse version_output root_help action_help dump_screen_help subscribe_help =
     (let version = trim version_output;
          parsed = unwrap_or (0, 0, 0) (find_map parse_semver_triplet (split_whitespace version))
      in \<lparr>zb_version = version,
          zb_surface = classify_surface parsed root_help action_help dump_screen_help subscribe_help\<rparr>)"

definition run_ok :: "('w, 'a) io \<Rightarrow> 'w \<Rightarrow> 'a option \<times> 'w" where
  "run_ok m w = (case m w of (Inr x, w1) \<Rightarrow> (Some x, w1) | (Inl e, w1) \<Rightarrow> (None, w1))"

definition zellij_probe_run :: "'w zellij_env \<Rightarrow> ('w, zellij_probe) io" where
  "zellij_probe_run env =
     io_bind (zellij_run env None [lit ''--version'']) (\<lambda>version_output w1.
       let (root_help, w2) = run_ok (zellij_run env None [lit ''--help'']) w1;
           (action_help, w3) = run_ok (zellij_run env None [lit ''action'', lit ''--help'']) w2;
           (dump_screen_help, w4) = run_ok (zellij_run env None [lit ''action'', lit ''dump-screen'', lit ''--help'']) w3;
           (subscribe_help, w5) = run_ok (zellij_run env None [lit ''subscribe'', lit ''--help'']) w4
       in (Inr (zellij_probe_parse version_output root_help action_help dump_screen_help subscribe_help), w5))"

section \<open>Capabilities and discovery\<close>

definition zellij_focus_actions_supported :: "'w zellij_env \<Rightarrow> bool" where
  "zellij_focus_actions_supported env \<longleftrightarrow> \<not> ze_windows env"

definition capabilities_for_surface :: "'w zellij_env \<Rightarrow> zellij_surface \<Rightarrow> backend_capabilities" where
  "capabilities_for_surface env surface =
     (case surface of
        RichCli044Plus \<Rightarrow>
          capabilities_none
            \<lparr>tiled_panes := True, tab_create := True, tab_close := True,
             tab_focus := zellij_focus_actions_supported env, tab_rename := True,
             session_scoped_tab_refs := True, session_scoped_pane_refs := True, pane_close := True,
             pane_focus := zellij_focus_actions_supported env, pane_input_write := True,
             pane_paste_write := True, rendered_viewport_stream := True,
             rendered_viewport_snapshot := True, rendered_scrollback_snapshot := True,
             rich_screen_surface := True, plugin_panes := True,
             advisory_metadata_subscriptions := True, read_only_client_mode := True\<rparr>
      | LegacyCli043 \<Rightarrow> capabilities_none\<lparr>read_only_client_mode := True\<rparr>
      | UnknownSurface \<Rightarrow> capabilities_none)"

definition zellij_capabilities :: "'w zellij_env \<Rightarrow> ('w, backend_capabilities) io" where
  "zellij_capabilities env = io_map (\<lambda>p. capabilities_for_surface env (zb_surface p)) (zellij_probe_run env)"

definition zellij_discovered :: "rstr \<Rightarrow> discovered_session" where
  "zellij_discovered name =
     \<lparr>ds_route = \<lparr>route_backend = Zellij, route_authority = ImportedForeign,
        route_external = Some \<lparr>ext_namespace = zellij_route_namespace, ext_value = lit ''session='' @ name\<rparr>\<rparr>,
      ds_title = Some name\<rparr>"

definition discover_zellij_sessions :: "'w zellij_env \<Rightarrow> ('w, discovered_session list) io" where
  "discover_zellij_sessions env w =
     (case zellij_run env None [lit ''list-sessions'', lit ''--short'', lit ''--no-formatting''] w of
        (Inr output, w1) \<Rightarrow>
          (Inr (map zellij_discovered
             (filter (\<lambda>line. line \<noteq> [] \<and> line \<noteq> lit ''No active zellij sessions found.'')
               (map trim (str_lines output)))), w1)
      | (Inl e, w1) \<Rightarrow> if is_transient_zellij_backend_error env e then (Inr [], w1) else (Inl e, w1))"

definition zellij_create_session :: "create_session_spec \<Rightarrow> backend_error + backend_session_binding" where
  "zellij_create_session spec =
     Inl (unsupported [MText ''zellij sessions are imported, not created''] ImportedForeignSession)"

definition zellij_list_sessions :: "backend_error + backend_session_summary list" where
  "zellij_list_sessions =
     Inl (unsupported [MText ''zellij backend does not expose canonical sessions directly''] ImportedForeignSession)"

end
