(* ===== verification/Zellij_Snapshot.thy ===== *)
theory Zellij_Snapshot
  imports Zellij_Session
begin

text \<open>
  The snapshot of a zellij session (\<open>snapshot/\<close>, \<open>session/snapshots.rs\<close>, \<open>screen.rs\<close>,
  \<open>backend/attach.rs\<close>). A \<open>HashMap\<close> is an association list in the order of its insertions; the
  source never depends on the order of its entries but to find a tab by the number zellij gave it.
\<close>

section \<open>What a snapshot is\<close>

datatype zellij_pane_kind = TerminalPane | PluginPane

record zellij_pane_target =
  zq_backend_ref :: rstr
  zq_kind :: zellij_pane_kind
  zq_title :: "rstr option"
  zq_rows :: u16
  zq_cols :: u16

record zellij_tab_target =
  zr_backend_tab_id :: u32
  zr_position :: u32
  zr_display_index :: u32
  zr_title :: "rstr option"

record zellij_session_snapshot =
  zn_topology :: topology_snapshot
  zn_tab_targets :: "(tab_id \<times> zellij_tab_target) list"
  zn_pane_targets :: "(pane_id \<times> zellij_pane_target) list"

definition focused_backend_tab_id :: "zellij_session_snapshot \<Rightarrow> u32 option" where
  "focused_backend_tab_id s =
     map_option zr_backend_tab_id (Option.bind (tp_focused_tab (zn_topology s)) (map_of (zn_tab_targets s)))"

definition tab_exists :: "zellij_session_snapshot \<Rightarrow> u32 \<Rightarrow> bool" where
  "tab_exists s n = list_ex (\<lambda>(_, tab). zr_backend_tab_id tab = n) (zn_tab_targets s)"

definition tab_title :: "zellij_session_snapshot \<Rightarrow> u32 \<Rightarrow> rstr option" where
  "tab_title s n =
     Option.bind (find (\<lambda>(_, tab). zr_backend_tab_id tab = n) (zn_tab_targets s)) (\<lambda>(_, tab). zr_title tab)"

definition settle_summary :: "zellij_session_snapshot \<Rightarrow> rstr" where
  "settle_summary s =
     (let tabs = sort (map (\<lambda>(_, tab). show_nat (unat (zr_backend_tab_id tab)) @ 58 #
                         show_nat (unat (zr_display_index tab)) @ 58 #
                         unwrap_or (lit ''<untitled>'') (zr_title tab)) (zn_tab_targets s))
      in lit ''focused_backend_tab_id='' @
         (case focused_backend_tab_id s of None \<Rightarrow> lit ''None''
          | Some n \<Rightarrow> lit ''Some('' @ show_nat (unat n) @ lit '')'') @
         lit ''; tabs=['' @ join_with 44 tabs @ lit '']'')"

section \<open>Building it from rows\<close>

definition zellij_tab_id :: "'w zellij_env \<Rightarrow> zellij_target \<Rightarrow> u32 \<Rightarrow> u32 \<Rightarrow> tab_id" where
  "zellij_tab_id env t backend_tab_id pos =
     deterministic_uuid (foreign_env.truncate env) (lit ''terminal-platform/zellij/tab/'' @ t @ 47 # show_nat (unat backend_tab_id)
       @ 47 # show_nat (unat pos))"

definition zellij_pane_id :: "'w zellij_env \<Rightarrow> zellij_target \<Rightarrow> u32 \<Rightarrow> rstr \<Rightarrow> pane_id" where
  "zellij_pane_id env t backend_tab_id pane_ref =
     deterministic_uuid (foreign_env.truncate env) (lit ''terminal-platform/zellij/pane/'' @ t @ 47 # show_nat (unat backend_tab_id)
       @ 47 # pane_ref)"

definition sorted_tabs :: "zellij_tab_row list \<Rightarrow> zellij_tab_row list" where
  "sorted_tabs tabs = sort_key (\<lambda>tab. if zt_position tab = 0 then zt_tab_id tab else zt_position tab) tabs"

definition sorted_importable_panes :: "zellij_pane_row list \<Rightarrow> u32 \<Rightarrow> zellij_pane_row list" where
  "sorted_importable_panes panes tab_id =
     sort_key (\<lambda>pane. [unat (zp_y pane), unat (zp_x pane), unat (zp_id pane)])
       (filter (\<lambda>pane. zp_tab_id pane = tab_id \<and> \<not> zp_is_floating pane) panes)"

definition zellij_pane_target_of :: "zellij_pane_row \<Rightarrow> zellij_pane_target" where
  "zellij_pane_target_of pane =
     \<lparr>zq_backend_ref = backend_ref pane, zq_kind = (if zp_is_plugin pane then PluginPane else TerminalPane),
      zq_title = non_empty (zp_title pane), zq_rows = zp_rows pane, zq_cols = zp_columns pane\<rparr>"

definition map_pane_targets ::
    "'w zellij_env \<Rightarrow> zellij_target \<Rightarrow> zellij_tab_row \<Rightarrow> zellij_pane_row list
     \<Rightarrow> (pane_id \<times> zellij_pane_target) list \<Rightarrow> pane_id list \<times> (pane_id \<times> zellij_pane_target) list" where
  "map_pane_targets env t tab panes targets =
     (map (\<lambda>pane. zellij_pane_id env t (zt_tab_id tab) (backend_ref pane)) panes,
      foldl (\<lambda>m pane. AList.update (zellij_pane_id env t (zt_tab_id tab) (backend_ref pane)) (zellij_pane_target_of pane) m)
        targets panes)"

definition focused_pane_id ::
    "'w zellij_env \<Rightarrow> zellij_target \<Rightarrow> zellij_tab_row \<Rightarrow> zellij_pane_row list \<Rightarrow> pane_id list \<Rightarrow> pane_id option" where
  "focused_pane_id env t tab panes pane_ids =
     (case find zp_is_focused panes of
        Some pane \<Rightarrow> Some (zellij_pane_id env t (zt_tab_id tab) (backend_ref pane))
      | None \<Rightarrow> vec_get pane_ids 0)"

record zellij_build =
  zu_tab_targets :: "(tab_id \<times> zellij_tab_target) list"
  zu_pane_targets :: "(pane_id \<times> zellij_pane_target) list"
  zu_tabs :: "(u32 \<times> tab_snapshot) list"
  zu_focused :: "tab_id option"

text \<open>One tab with panes that can be imported; \<open>ordinal\<close> counts the sorted tabs. \<open>fallback_tree\<close> has panes here.\<close>

definition build_tab ::
    "'w zellij_env \<Rightarrow> zellij_target \<Rightarrow> zellij_pane_row list \<Rightarrow> u32 option \<Rightarrow> nat \<times> zellij_tab_row
     \<Rightarrow> zellij_build \<times> 'w \<Rightarrow> zellij_build \<times> 'w" where
  "build_tab env t panes focused_tab_from_pane = (\<lambda>(ordinal, tab) (b, w).
     let pos = (if zt_position tab = 0 then word_of_nat ordinal + 1 else zt_position tab);
         tab_panes = sorted_importable_panes panes (zt_tab_id tab)
     in if tab_panes = [] then (b, w)
        else
          let tab_id = zellij_tab_id env t (zt_tab_id tab) pos;
              (pane_ids, pane_targets) = map_pane_targets env t tab tab_panes (zu_pane_targets b);
              (tree, w1) = fallback_tree (foreign_env.truncate env) pane_ids w
          in (\<lparr>zu_tab_targets = AList.update tab_id
                 \<lparr>zr_backend_tab_id = zt_tab_id tab, zr_position = pos, zr_display_index = zt_position tab,
                  zr_title = non_empty (zt_name tab)\<rparr> (zu_tab_targets b),
               zu_pane_targets = pane_targets,
               zu_tabs = zu_tabs b @ [(pos, \<lparr>ts_tab_id = tab_id, ts_title = non_empty (zt_name tab),
                 ts_root = tree, ts_focused_pane = focused_pane_id env t tab tab_panes pane_ids\<rparr>)],
               zu_focused = (if zu_focused b = None \<and>
                    (zt_active tab \<or> focused_tab_from_pane = Some (zt_tab_id tab))
                  then Some tab_id else zu_focused b)\<rparr>, w1))"

definition build_session_snapshot ::
    "'w zellij_env \<Rightarrow> session_id \<Rightarrow> zellij_target \<Rightarrow> zellij_tab_row list \<Rightarrow> zellij_pane_row list
     \<Rightarrow> ('w, zellij_session_snapshot) io" where
  "build_session_snapshot env sid t tab_rows panes w =
     (let (b, w1) = fold (build_tab env t panes (map_option zp_tab_id (find zp_is_focused panes)))
            (enumerate 0 (sorted_tabs tab_rows))
            (\<lparr>zu_tab_targets = [], zu_pane_targets = [], zu_tabs = [], zu_focused = None\<rparr>, w);
          tabs = map snd (sort_key fst (zu_tabs b))
      in if tabs = []
         then (Inl (not_found [MText ''zellij session '', MString [39], MString t, MString [39],
                 MText '' exposed no importable panes'']), w1)
         else (Inr \<lparr>zn_topology = \<lparr>tp_session_id = sid, tp_backend_kind = Zellij, tp_tabs = tabs,
                       tp_focused_tab = (case zu_focused b of Some f \<Rightarrow> Some f
                                         | None \<Rightarrow> map_option ts_tab_id (vec_get tabs 0))\<rparr>,
                    zn_tab_targets = zu_tab_targets b, zn_pane_targets = zu_pane_targets b\<rparr>, w1))"

section \<open>The attached session\<close>

text \<open>
  The state of an attached session is the world and whether \<open>io_lane\<close> is poisoned. An operation
  fails with an error of the backend or panics.
\<close>

datatype fault = Failed backend_error | Panicked

type_synonym ('w, 'a) zio = "('w \<times> bool, fault, 'a) effect"

definition zellij_io :: "('w, 'a) io \<Rightarrow> ('w, 'a) zio" where
  "zellij_io m = (\<lambda>(w, poisoned). case m w of
     (Inl e, w1) \<Rightarrow> (Inl (Failed e), (w1, poisoned)) | (Inr x, w1) \<Rightarrow> (Inr x, (w1, poisoned)))"

definition zellij_lift :: "(backend_error + 'a) \<Rightarrow> ('w, 'a) zio" where
  "zellij_lift r = io_lift (case r of Inl e \<Rightarrow> Inl (Failed e) | Inr x \<Rightarrow> Inr x)"

text \<open>\<open>io_lane.lock().expect(..)\<close> around an operation.\<close>

definition with_io_lane :: "('w, 'a) zio \<Rightarrow> ('w, 'a) zio" where
  "with_io_lane m st =
     (if snd st then (Inl Panicked, st)
      else case m st of (Inl Panicked, st1) \<Rightarrow> (Inl Panicked, (fst st1, True)) | r \<Rightarrow> r)"

record zellij_session =
  zs_session_id :: session_id
  zs_target :: zellij_target

definition snapshot_outputs :: "'w zellij_env \<Rightarrow> zellij_session \<Rightarrow> ('w, rstr \<times> rstr) zio" where
  "snapshot_outputs env s =
     with_io_lane
       (io_bind (zellij_io (zellij_run env (Some (zs_target s)) [lit ''action'', lit ''list-tabs'', lit ''--json''])) (\<lambda>tabs_output.
        io_bind (zellij_io (zellij_run env (Some (zs_target s)) [lit ''action'', lit ''list-panes'', lit ''--json''])) (\<lambda>panes_output.
          io_ok (tabs_output, panes_output))))"

definition zellij_sleep :: "'w zellij_env \<Rightarrow> 'w \<times> bool \<Rightarrow> 'w \<times> bool" where
  "zellij_sleep env = (\<lambda>(w, poisoned). (ze_sleep env w, poisoned))"

definition empty_output_error :: backend_error where
  "empty_output_error =
     internal_error [MText ''zellij snapshot commands returned empty output while the session was still settling'']"

definition parsed_rows ::
    "'w zellij_env \<Rightarrow> rstr \<Rightarrow> rstr \<Rightarrow> backend_error + zellij_tab_row list \<times> zellij_pane_row list" where
  "parsed_rows env tabs_output panes_output =
     bind_result (parse_tabs_json env tabs_output) (\<lambda>tabs.
     bind_result (parse_panes_json env panes_output) (\<lambda>panes. Inr (tabs, panes)))"

text \<open>At most ten attempts: \<open>attempts\<close> are left. Only the last one parses empty output.\<close>

fun zellij_snapshot_from ::
    "'w zellij_env \<Rightarrow> zellij_session \<Rightarrow> backend_error option \<Rightarrow> nat \<Rightarrow> ('w, zellij_session_snapshot) zio" where
  "zellij_snapshot_from env s last_error 0 st =
     (Inl (Failed (unwrap_or (transport_error [MText ''zellij snapshot never stabilized after retries'']) last_error)), st)"
| "zellij_snapshot_from env s last_error (Suc attempts) st =
     (case snapshot_outputs env s st of
        (Inl Panicked, st1) \<Rightarrow> (Inl Panicked, st1)
      | (Inl (Failed e), st1) \<Rightarrow>
          if is_transient_zellij_backend_error env e
          then zellij_snapshot_from env s (Some e) attempts (zellij_sleep env st1)
          else (Inl (Failed e), st1)
      | (Inr (tabs_output, panes_output), st1) \<Rightarrow>
          if (trim tabs_output = [] \<or> trim panes_output = []) \<and> 0 < attempts
          then zellij_snapshot_from env s (Some empty_output_error) attempts (zellij_sleep env st1)
          else
            (case parsed_rows env tabs_output panes_output of
               Inl e \<Rightarrow>
                 if is_transient_zellij_backend_error env e
                 then zellij_snapshot_from env s (Some e) attempts (zellij_sleep env st1)
                 else (Inl (Failed e), st1)
             | Inr (tabs, panes) \<Rightarrow>
                 zellij_io (build_session_snapshot env (zs_session_id s) (zs_target s) tabs panes) st1))"

definition zellij_snapshot :: "'w zellij_env \<Rightarrow> zellij_session \<Rightarrow> ('w, zellij_session_snapshot) zio" where
  "zellij_snapshot env s = zellij_snapshot_from env s None zellij_transient_retry_attempts"

definition zellij_topology_snapshot :: "'w zellij_env \<Rightarrow> zellij_session \<Rightarrow> ('w, topology_snapshot) zio" where
  "zellij_topology_snapshot env s = io_map zn_topology (zellij_snapshot env s)"

section \<open>Screens\<close>

definition unknown_zellij_pane :: "pane_id \<Rightarrow> backend_error" where
  "unknown_zellij_pane p = not_found [MText ''unknown zellij pane '', MPane p]"

definition unknown_zellij_tab :: "tab_id \<Rightarrow> backend_error" where
  "unknown_zellij_tab t = not_found [MText ''unknown zellij tab '', MTab t]"

definition pane_target :: "'w zellij_env \<Rightarrow> zellij_session \<Rightarrow> pane_id \<Rightarrow> ('w, zellij_pane_target) zio" where
  "pane_target env s p =
     io_bind (zellij_snapshot env s)
       (\<lambda>snapshot. zellij_lift (ok_or (map_of (zn_pane_targets snapshot) p) (unknown_zellij_pane p)))"

definition screen_snapshot_from_surface ::
    "'w zellij_env \<Rightarrow> pane_id \<Rightarrow> zellij_pane_target \<Rightarrow> screen_surface \<Rightarrow> projection_source \<Rightarrow> screen_snapshot" where
  "screen_snapshot_from_surface env p pane surface source =
     \<lparr>sn_pane_id = p, sn_sequence = screen_sequence (foreign_env.truncate env) p (zq_rows pane) (zq_cols pane) surface,
      sn_rows = zq_rows pane, sn_cols = zq_cols pane, sn_source = source,
      sn_buffer_kind = BufUnknown, sn_surface = surface\<rparr>"

definition dump_screen_scrollback_args :: "zellij_pane_target \<Rightarrow> rstr list" where
  "dump_screen_scrollback_args pane =
     [lit ''action'', lit ''dump-screen'', lit ''--pane-id'', zq_backend_ref pane, lit ''--full'', lit ''--ansi'']"

definition or_panic :: "'a option \<Rightarrow> ('w, 'a) zio" where
  "or_panic v = io_lift (ok_or v Panicked)"

text \<open>The screen is parsed while \<open>io_lane\<close> is held.\<close>

definition zellij_screen_snapshot :: "'w zellij_env \<Rightarrow> zellij_session \<Rightarrow> pane_id \<Rightarrow> ('w, screen_snapshot) zio" where
  "zellij_screen_snapshot env s p =
     io_bind (pane_target env s p) (\<lambda>pane.
       with_io_lane
         (io_bind (zellij_io (zellij_run_bytes env (Some (zs_target s)) (dump_screen_scrollback_args pane))) (\<lambda>output.
          io_bind (or_panic (screen_surface_from_ansi_bytes (fe_ansi env) output (zq_title pane))) (\<lambda>surface.
            io_ok (screen_snapshot_from_surface env p pane surface ZellijDumpSnapshot)))))"

definition screen_snapshot_from_viewport ::
    "'w zellij_env \<Rightarrow> zellij_session \<Rightarrow> pane_id \<Rightarrow> rstr list \<Rightarrow> projection_source \<Rightarrow> ('w, screen_snapshot) zio" where
  "screen_snapshot_from_viewport env s p viewport source =
     io_bind (pane_target env s p) (\<lambda>pane.
     io_bind (or_panic (screen_surface_from_ansi_output (fe_ansi env) (join_with 10 viewport) (zq_title pane))) (\<lambda>surface.
       io_ok (screen_snapshot_from_surface env p pane surface source)))"

definition raise_sequence :: "u64 \<Rightarrow> u64" where
  "raise_sequence n = (if n = -1 then -1 else n + 1)"

definition zellij_screen_delta ::
    "'w zellij_env \<Rightarrow> zellij_session \<Rightarrow> pane_id \<Rightarrow> u64 \<Rightarrow> ('w, screen_delta) zio" where
  "zellij_screen_delta env s p from_sequence =
     io_map (\<lambda>current.
         if sn_sequence current = from_sequence then unchanged_from current
         else full_replace from_sequence
                (if sn_sequence current < from_sequence
                 then current\<lparr>sn_sequence := raise_sequence from_sequence\<rparr> else current))
       (zellij_screen_snapshot env s p)"

section \<open>Attaching\<close>

definition attach_zellij_session ::
    "'w zellij_env \<Rightarrow> session_id \<Rightarrow> session_route \<Rightarrow> ('w, zellij_session) zio" where
  "attach_zellij_session env sid route =
     io_bind (zellij_lift (zellij_target_from_route route)) (\<lambda>t.
     io_bind (zellij_io (zellij_probe_run env)) (\<lambda>probe.
     io_bind (zellij_io (discover_zellij_sessions env)) (\<lambda>sessions.
       if \<not> list_ex (\<lambda>session. ds_route session = route) sessions
       then io_err (Failed (not_found [MText ''zellij session '', MString [39], MString t, MString [39], MText '' is not active'']))
       else case zb_surface probe of
              RichCli044Plus \<Rightarrow>
                (let attached = \<lparr>zs_session_id = sid, zs_target = t\<rparr>
                 in io_bind (zellij_snapshot env attached) (\<lambda>_. io_ok attached))
            | LegacyCli043 \<Rightarrow>
                io_err (Failed (unsupported [MText ''zellij '', MString (zb_version probe),
                  MText '' does not expose the list-panes/list-tabs/subscribe surface required for imported attach'']
                  MissingCapability))
            | UnknownSurface \<Rightarrow>
                io_err (Failed (unsupported [MText ''zellij '', MString (zb_version probe),
                  MText '' could not be matched to a supported control surface''] MissingCapability)))))"

end
