(* ===== verification/Zellij_Commands.thy ===== *)
theory Zellij_Commands
  imports Zellij_Snapshot
begin

text \<open>
  The commands and subscriptions of an attached zellij session (\<open>action.rs\<close>, \<open>input.rs\<close>,
  \<open>session/commands/\<close>, \<open>session/subscriptions/\<close>): a command becomes actions, each is run, and
  those that change the layout are waited for until a new snapshot shows their effect.
\<close>

section \<open>Actions\<close>

datatype zellij_action =
    NewTab "rstr option"
  | FocusTabAction u32 u32
  | CloseTab u32
  | RenameTab u32 rstr
  | FocusPaneAction rstr
  | ClosePane rstr
  | WriteChars rstr rstr
  | Paste rstr rstr
  | SendKeys rstr "rstr list"

fun requires_settle :: "zellij_action \<Rightarrow> bool" where
  "requires_settle (NewTab _) = True"
| "requires_settle (FocusTabAction _ _) = True"
| "requires_settle (CloseTab _) = True"
| "requires_settle (RenameTab _ _) = True"
| "requires_settle (FocusPaneAction _) = True"
| "requires_settle (ClosePane _) = True"
| "requires_settle _ = False"

fun settled :: "zellij_action \<Rightarrow> zellij_session_snapshot \<Rightarrow> zellij_session_snapshot \<Rightarrow> bool" where
  "settled (NewTab title) previous current \<longleftrightarrow>
     length (tp_tabs (zn_topology previous)) < length (tp_tabs (zn_topology current)) \<and>
     (case title of None \<Rightarrow> True
      | Some t \<Rightarrow> list_ex (\<lambda>tab. ts_title tab = Some t) (tp_tabs (zn_topology current)))"
| "settled (FocusTabAction backend_tab_id display_index) previous current \<longleftrightarrow>
     focused_backend_tab_id current = Some backend_tab_id"
| "settled (CloseTab backend_tab_id) previous current \<longleftrightarrow> \<not> tab_exists current backend_tab_id"
| "settled (RenameTab backend_tab_id title) previous current \<longleftrightarrow>
     tab_title current backend_tab_id = Some title"
| "settled (FocusPaneAction pane_ref) previous current \<longleftrightarrow>
     (case Option.bind (Option.bind
              (find (\<lambda>tab. Some (ts_tab_id tab) = tp_focused_tab (zn_topology current)) (tp_tabs (zn_topology current)))
              ts_focused_pane) (map_of (zn_pane_targets current)) of
        Some pane \<Rightarrow> zq_backend_ref pane = pane_ref | None \<Rightarrow> False)"
| "settled (ClosePane pane_ref) previous current \<longleftrightarrow>
     \<not> list_ex (\<lambda>(_, pane). zq_backend_ref pane = pane_ref) (zn_pane_targets current)"
| "settled _ previous current \<longleftrightarrow> True"

fun action_args :: "'w zellij_env \<Rightarrow> zellij_action \<Rightarrow> rstr list" where
  "action_args env (NewTab title) =
     [lit ''action'', lit ''new-tab''] @ (case title of None \<Rightarrow> [] | Some t \<Rightarrow> [lit ''--name'', t])"
| "action_args env (FocusTabAction backend_tab_id display_index) =
     (if ze_windows env
      then [lit ''action'', lit ''go-to-tab'', show_nat (unat (display_index + 1))]
      else [lit ''action'', lit ''go-to-tab-by-id'', show_nat (unat backend_tab_id)])"
| "action_args env (CloseTab backend_tab_id) =
     [lit ''action'', lit ''close-tab'', lit ''--tab-id'', show_nat (unat backend_tab_id)]"
| "action_args env (RenameTab backend_tab_id title) =
     [lit ''action'', lit ''rename-tab'', lit ''--tab-id'', show_nat (unat backend_tab_id), title]"
| "action_args env (FocusPaneAction pane_ref) = [lit ''action'', lit ''focus-pane-id'', pane_ref]"
| "action_args env (ClosePane pane_ref) = [lit ''action'', lit ''close-pane'', lit ''--pane-id'', pane_ref]"
| "action_args env (WriteChars pane_ref chars) = [lit ''action'', lit ''write-chars'', lit ''--pane-id'', pane_ref, chars]"
| "action_args env (Paste pane_ref txt_data) = [lit ''action'', lit ''paste'', lit ''--pane-id'', pane_ref, txt_data]"
| "action_args env (SendKeys pane_ref keys) = [lit ''action'', lit ''send-keys'', lit ''--pane-id'', pane_ref] @ keys"

section \<open>Input\<close>

definition zellij_named_keys :: "(rstr \<times> rstr) list" where
  "zellij_named_keys =
     [(27 # lit ''[3~'', lit ''Delete''), (27 # lit ''[5~'', lit ''PageUp''), (27 # lit ''[6~'', lit ''PageDown''),
      (27 # lit ''[A'', lit ''Up''), (27 # lit ''[B'', lit ''Down''), (27 # lit ''[C'', lit ''Right''),
      (27 # lit ''[D'', lit ''Left''), (27 # lit ''[H'', lit ''Home''), (27 # lit ''[F'', lit ''End''),
      ([27], lit ''Esc'')]"

definition zellij_named_key_sequence :: "rstr \<Rightarrow> (rstr \<times> rstr) option" where
  "zellij_named_key_sequence input = find (\<lambda>(sequence, key). sublist_at sequence input) zellij_named_keys"

definition zellij_control_key :: "nat \<Rightarrow> rstr option" where
  "zellij_control_key ch =
     (if ch = 1 then Some (lit ''Ctrl a'') else if ch = 3 then Some (lit ''Ctrl c'')
      else if ch = 4 then Some (lit ''Ctrl d'') else if ch = 5 then Some (lit ''Ctrl e'')
      else if ch = 11 then Some (lit ''Ctrl k'') else if ch = 12 then Some (lit ''Ctrl l'')
      else if ch = 21 then Some (lit ''Ctrl u'') else if ch = 23 then Some (lit ''Ctrl w'')
      else if ch = 127 then Some (lit ''Backspace'') else None)"

definition flush_zellij_literal :: "rstr \<Rightarrow> rstr \<Rightarrow> zellij_action list" where
  "flush_zellij_literal pane_ref literal = (if literal = [] then [] else [WriteChars pane_ref literal])"

lemma named_key_shorter:
  assumes "zellij_named_key_sequence input = Some (sequence, key)"
  shows "length input - length sequence < length input"
proof -
  have "(sequence, key) \<in> set zellij_named_keys" "sublist_at sequence input"
    using assms by (auto simp: zellij_named_key_sequence_def find_Some_iff) (metis nth_mem)
  then have "sequence \<noteq> []" "sequence = take (length sequence) input"
    by (auto simp: zellij_named_keys_def sublist_at_def)
  then show ?thesis by (metis diff_less length_greater_0_conv take_Nil)
qed

text \<open>The loop: \<open>literal\<close> has not been written yet, \<open>actions\<close> are those so far.\<close>

function input_actions :: "rstr \<Rightarrow> 'w foreign_env \<Rightarrow> rstr \<Rightarrow> zellij_action list \<Rightarrow> rstr \<Rightarrow> backend_error + zellij_action list" where
  "input_actions pane_ref env literal actions remaining =
     (case zellij_named_key_sequence remaining of
        Some (sequence, key) \<Rightarrow>
          input_actions pane_ref env [] (actions @ flush_zellij_literal pane_ref literal @ [SendKeys pane_ref [key]])
            (drop (length sequence) remaining)
      | None \<Rightarrow>
          (case remaining of
             [] \<Rightarrow> Inr (actions @ flush_zellij_literal pane_ref literal)
           | ch # rest \<Rightarrow>
               if ch = 13 \<or> ch = 10 then
                 input_actions pane_ref env []
                   (actions @ flush_zellij_literal pane_ref literal @ [SendKeys pane_ref [lit ''Enter'']])
                   (if ch = 13 \<and> rest \<noteq> [] \<and> hd rest = 10 then tl rest else rest)
               else if ch = 9 then
                 input_actions pane_ref env []
                   (actions @ flush_zellij_literal pane_ref literal @ [SendKeys pane_ref [lit ''Tab'']]) rest
               else if is_control ch then
                 (case zellij_control_key ch of
                    Some key \<Rightarrow>
                      input_actions pane_ref env []
                        (actions @ flush_zellij_literal pane_ref literal @ [SendKeys pane_ref [key]]) rest
                  | None \<Rightarrow>
                      Inl (unsupported [MText ''zellij input path does not support control character '',
                        MString (fe_debug_char env ch)] UnsupportedByBackend))
               else input_actions pane_ref env (literal @ [ch]) actions rest))"
  by pat_completeness auto
termination
  by (relation "measure (\<lambda>(pane_ref, env, literal, actions, remaining). length remaining)")
    (auto dest: named_key_shorter)

declare input_actions.simps [simp del]

definition terminal_target ::
    "zellij_session_snapshot \<Rightarrow> pane_id \<Rightarrow> string \<Rightarrow> backend_error + zellij_pane_target" where
  "terminal_target snapshot p refusal =
     bind_result (ok_or (map_of (zn_pane_targets snapshot) p) (unknown_zellij_pane p)) (\<lambda>pane.
       if zq_kind pane \<noteq> TerminalPane then Inl (unsupported [MText refusal] UnsupportedByBackend) else Inr pane)"

definition send_input_actions ::
    "'w zellij_env \<Rightarrow> zellij_session_snapshot \<Rightarrow> pane_id \<Rightarrow> rstr \<Rightarrow> backend_error + zellij_action list" where
  "send_input_actions env snapshot p data =
     (if data = [] then Inr []
      else bind_result (terminal_target snapshot p ''zellij input writes target terminal panes only'')
             (\<lambda>pane. input_actions (zq_backend_ref pane) (foreign_env.truncate env) [] [] data))"

definition send_paste_actions ::
    "'w zellij_env \<Rightarrow> zellij_session_snapshot \<Rightarrow> pane_id \<Rightarrow> rstr \<Rightarrow> backend_error + zellij_action list" where
  "send_paste_actions env snapshot p data =
     (if ze_windows env then send_input_actions env snapshot p data
      else if data = [] then Inr []
      else bind_result (terminal_target snapshot p ''zellij paste writes target terminal panes only'')
             (\<lambda>pane. Inr [Paste (zq_backend_ref pane) data]))"

section \<open>Commands\<close>

definition focus_pane_action :: "zellij_session_snapshot \<Rightarrow> pane_id \<Rightarrow> backend_error + zellij_action" where
  "focus_pane_action snapshot p =
     bind_result (ok_or (map_of (zn_pane_targets snapshot) p) (unknown_zellij_pane p))
       (\<lambda>pane. Inr (FocusPaneAction (zq_backend_ref pane)))"

definition close_pane_action :: "zellij_session_snapshot \<Rightarrow> pane_id \<Rightarrow> backend_error + zellij_action" where
  "close_pane_action snapshot p =
     bind_result (ok_or (map_of (zn_pane_targets snapshot) p) (unknown_zellij_pane p)) (\<lambda>pane.
     bind_result (ok_or (find (\<lambda>tab. foreign_tab_contains_pane tab p) (tp_tabs (zn_topology snapshot)))
       (not_found [MText ''zellij pane '', MPane p, MText '' is not bound to a tab''])) (\<lambda>tab.
       if length (collect_snapshot_pane_ids (ts_root tab)) \<le> 1
       then Inl (unsupported [MText ''zellij imported routes refuse to close the last pane in a tab because it would collapse tab lifecycle into tab closure semantics''] UnsupportedByBackend)
       else Inr (ClosePane (zq_backend_ref pane))))"

definition focus_tab_action :: "zellij_session_snapshot \<Rightarrow> tab_id \<Rightarrow> backend_error + zellij_action" where
  "focus_tab_action snapshot t =
     bind_result (ok_or (map_of (zn_tab_targets snapshot) t) (unknown_zellij_tab t))
       (\<lambda>tab. Inr (FocusTabAction (zr_backend_tab_id tab) (zr_display_index tab)))"

definition close_tab_action :: "zellij_session_snapshot \<Rightarrow> tab_id \<Rightarrow> backend_error + zellij_action" where
  "close_tab_action snapshot t =
     (if length (tp_tabs (zn_topology snapshot)) \<le> 1
      then Inl (unsupported [MText ''zellij imported routes refuse to close the last tab because it would terminate the foreign session''] UnsupportedByBackend)
      else bind_result (ok_or (map_of (zn_tab_targets snapshot) t) (unknown_zellij_tab t))
             (\<lambda>tab. Inr (CloseTab (zr_backend_tab_id tab))))"

definition rename_tab_action :: "zellij_session_snapshot \<Rightarrow> tab_id \<Rightarrow> rstr \<Rightarrow> backend_error + zellij_action" where
  "rename_tab_action snapshot t title =
     bind_result (ok_or (map_of (zn_tab_targets snapshot) t) (unknown_zellij_tab t))
       (\<lambda>tab. Inr (RenameTab (zr_backend_tab_id tab) title))"

definition one_action :: "(backend_error + zellij_action) \<Rightarrow> backend_error + zellij_action list" where
  "one_action r = bind_result r (\<lambda>a. Inr [a])"

definition zellij_focus_unsupported_error :: backend_error where
  "zellij_focus_unsupported_error =
     unsupported [MText ''zellij imported routes cannot focus tabs or panes on Windows because CLI focus actions are scoped to the transient action client''] UnsupportedByBackend"

definition dispatch_actions ::
    "'w zellij_env \<Rightarrow> zellij_session_snapshot \<Rightarrow> mux_command \<Rightarrow> backend_error + zellij_action list" where
  "dispatch_actions env snapshot command =
     (case command of
        CNewTab spec \<Rightarrow> Inr [NewTab (nt_title spec)]
      | CSendInput spec \<Rightarrow> send_input_actions env snapshot (si_pane_id spec) (si_data spec)
      | CSendPaste spec \<Rightarrow> send_paste_actions env snapshot (pp_pane_id spec) (pp_data spec)
      | CFocusPane p \<Rightarrow>
          if \<not> zellij_focus_actions_supported env then Inl zellij_focus_unsupported_error
          else one_action (focus_pane_action snapshot p)
      | CClosePane p \<Rightarrow> one_action (close_pane_action snapshot p)
      | CFocusTab t \<Rightarrow>
          if \<not> zellij_focus_actions_supported env then Inl zellij_focus_unsupported_error
          else one_action (focus_tab_action snapshot t)
      | CCloseTab t \<Rightarrow> one_action (close_tab_action snapshot t)
      | CRenameTab t title \<Rightarrow> one_action (rename_tab_action snapshot t title)
      | _ \<Rightarrow> Inl (unsupported [MText ''zellij imported routes do not support this command in the current rollout phase''] UnsupportedByBackend))"

section \<open>Waiting for an action\<close>

definition zellij_action_settle_attempts :: nat where "zellij_action_settle_attempts = 600"

text \<open>\<open>{:?}\<close> of an action.\<close>

fun debug_action :: "'w foreign_env \<Rightarrow> zellij_action \<Rightarrow> rstr" where
  "debug_action env (NewTab title) = lit ''NewTab { title: '' @ debug_option env title @ lit '' }''"
| "debug_action env (FocusTabAction n i) =
     lit ''FocusTab { backend_tab_id: '' @ show_nat (unat n) @ lit '', display_index: '' @ show_nat (unat i) @ lit '' }''"
| "debug_action env (CloseTab n) = lit ''CloseTab { backend_tab_id: '' @ show_nat (unat n) @ lit '' }''"
| "debug_action env (RenameTab n title) =
     lit ''RenameTab { backend_tab_id: '' @ show_nat (unat n) @ lit '', title: '' @ fe_debug_str env title @ lit '' }''"
| "debug_action env (FocusPaneAction r) = lit ''FocusPane { pane_ref: '' @ fe_debug_str env r @ lit '' }''"
| "debug_action env (ClosePane r) = lit ''ClosePane { pane_ref: '' @ fe_debug_str env r @ lit '' }''"
| "debug_action env (WriteChars r cs) =
     lit ''WriteChars { pane_ref: '' @ fe_debug_str env r @ lit '', chars: '' @ fe_debug_str env cs @ lit '' }''"
| "debug_action env (Paste r cs) =
     lit ''Paste { pane_ref: '' @ fe_debug_str env r @ lit '', text: '' @ fe_debug_str env cs @ lit '' }''"
| "debug_action env (SendKeys r keys) =
     lit ''SendKeys { pane_ref: '' @ fe_debug_str env r @ lit '', keys: ['' @
     concat (map (\<lambda>(i, k). (if i = 0 then [] else lit '', '') @ fe_debug_str env k) (enumerate 0 keys)) @ lit ''] }''"

definition settle_timeout_error ::
    "'w zellij_env \<Rightarrow> zellij_action \<Rightarrow> backend_error option \<Rightarrow> rstr option \<Rightarrow> backend_error" where
  "settle_timeout_error env action last_error last_summary =
     (case last_error of
        Some e \<Rightarrow> e
      | None \<Rightarrow> transport_error [MText ''zellij action did not settle within 15000 ms: action='',
                  MString (debug_action (foreign_env.truncate env) action), MText ''; last_snapshot='',
                  MString (unwrap_or (lit ''<none>'') last_summary)])"

fun wait_for_settle ::
    "'w zellij_env \<Rightarrow> zellij_session \<Rightarrow> zellij_session_snapshot \<Rightarrow> zellij_action \<Rightarrow> 'w \<Rightarrow> nat
     \<Rightarrow> backend_error option \<Rightarrow> rstr option \<Rightarrow> ('w, zellij_session_snapshot) zio" where
  "wait_for_settle env s previous action started 0 last_error last_summary st =
     (Inl (Failed (settle_timeout_error env action last_error last_summary)), st)"
| "wait_for_settle env s previous action started (Suc attempts) last_error last_summary st =
     (let again = (\<lambda>last_error last_summary st1.
            if ze_settle_over env started (fst st1)
            then (Inl (Failed (settle_timeout_error env action last_error last_summary)), st1)
            else wait_for_settle env s previous action started attempts last_error last_summary (zellij_sleep env st1))
      in case zellij_snapshot env s st of
           (Inr snapshot, st1) \<Rightarrow>
             if settled action previous snapshot then (Inr snapshot, st1)
             else again last_error (Some (settle_summary snapshot)) st1
         | (Inl (Failed e), st1) \<Rightarrow>
             if is_transient_zellij_backend_error env e then again (Some e) last_summary st1
             else (Inl (Failed e), st1)
         | (Inl Panicked, st1) \<Rightarrow> (Inl Panicked, st1))"

definition wait_for_action_settle ::
    "'w zellij_env \<Rightarrow> zellij_session \<Rightarrow> zellij_session_snapshot \<Rightarrow> zellij_action \<Rightarrow> ('w, zellij_session_snapshot) zio" where
  "wait_for_action_settle env s previous action st =
     wait_for_settle env s previous action (fst st) zellij_action_settle_attempts None None st"

fun run_actions ::
    "'w zellij_env \<Rightarrow> zellij_session \<Rightarrow> zellij_session_snapshot \<Rightarrow> zellij_action list \<Rightarrow> ('w, zellij_session_snapshot) zio" where
  "run_actions env s settled_snapshot [] = io_ok settled_snapshot"
| "run_actions env s settled_snapshot (action # actions) =
     io_bind (with_io_lane (zellij_io (zellij_run env (Some (zs_target s)) (action_args env action)))) (\<lambda>_.
     io_bind (if requires_settle action then wait_for_action_settle env s settled_snapshot action
              else io_ok settled_snapshot) (\<lambda>snapshot.
       run_actions env s snapshot actions))"

definition zellij_dispatch :: "'w zellij_env \<Rightarrow> zellij_session \<Rightarrow> mux_command \<Rightarrow> ('w, mux_command_result) zio" where
  "zellij_dispatch env s command =
     io_bind (zellij_snapshot env s) (\<lambda>snapshot.
     io_bind (zellij_lift (dispatch_actions env snapshot command)) (\<lambda>actions.
       if actions = [] then io_ok \<lparr>changed = False\<rparr>
       else io_bind (run_actions env s snapshot actions) (\<lambda>_. io_ok \<lparr>changed = True\<rparr>)))"

section \<open>Subscriptions\<close>

definition zellij_open_topology :: "'w zellij_env \<Rightarrow> zellij_session \<Rightarrow> ('w, subscription_id \<times> topology_snapshot) zio" where
  "zellij_open_topology env s = (\<lambda>(w, poisoned).
     case fe_new_uuid env w of
       (u, w1) \<Rightarrow> io_map (\<lambda>snapshot. (Id u, zn_topology snapshot)) (zellij_snapshot env s) (w1, poisoned))"

text \<open>A tick is skipped while a command runs (\<open>command_lane\<close> is taken).\<close>

definition zellij_topology_tick ::
    "'w zellij_env \<Rightarrow> zellij_session \<Rightarrow> bool \<Rightarrow> poll_wake \<Rightarrow> (topology_snapshot, topology_snapshot) poll_task
     \<Rightarrow> 'w \<times> bool \<Rightarrow> (topology_snapshot, topology_snapshot) poll_task \<times> ('w \<times> bool)" where
  "zellij_topology_tick env s command_busy wake task st =
     (if command_busy \<and> wake \<noteq> PollCancel then (task, st)
      else poll_step (io_map (\<lambda>snapshot. Some (zn_topology snapshot)) (zellij_snapshot env s))
             (\<lambda>current prev. current = prev) (\<lambda>prev current. current) wake task st)"

definition zellij_open_pane_surface ::
    "'w zellij_env \<Rightarrow> zellij_session \<Rightarrow> pane_id \<Rightarrow> ('w, subscription_id \<times> zellij_pane_target \<times> screen_snapshot) zio" where
  "zellij_open_pane_surface env s p = (\<lambda>(w, poisoned).
     case fe_new_uuid env w of
       (u, w1) \<Rightarrow>
         io_bind (pane_target env s p) (\<lambda>pane.
         io_bind (zellij_screen_snapshot env s p) (\<lambda>initial. io_ok (Id u, pane, initial))) (w1, poisoned))"

text \<open>
  The stream of a pane: it starts with the whole screen, then reads the lines that
  \<open>zellij subscribe\<close> prints. \<open>StreamEnd\<close> is the end of its output or a failure to read it.
\<close>

datatype stream_wake = StreamCancel | StreamEnd | StreamLine rstr bool

record surface_stream_task =
  sw_last :: screen_snapshot
  sw_outbox :: "screen_delta list"
  sw_running :: bool

definition pane_surface_start :: "screen_snapshot \<Rightarrow> bool \<Rightarrow> bool \<Rightarrow> surface_stream_task" where
  "pane_surface_start initial sent spawned =
     \<lparr>sw_last = initial, sw_outbox = (if sent then [full_replace 0 initial] else []), sw_running = (sent \<and> spawned)\<rparr>"

definition equivalent_surface :: "screen_snapshot \<Rightarrow> screen_snapshot \<Rightarrow> bool" where
  "equivalent_surface previous current \<longleftrightarrow>
     sn_pane_id previous = sn_pane_id current \<and> sn_rows previous = sn_rows current \<and>
     sn_cols previous = sn_cols current \<and> sn_surface previous = sn_surface current"

definition handle_viewport ::
    "screen_snapshot \<Rightarrow> bool \<Rightarrow> surface_stream_task \<Rightarrow> surface_stream_task" where
  "handle_viewport viewport sent task =
     (if equivalent_surface (sw_last task) viewport then task
      else let prev = sw_last task;
               current = (if sn_sequence viewport \<le> sn_sequence prev
                          then viewport\<lparr>sn_sequence := raise_sequence (sn_sequence prev)\<rparr> else viewport)
           in \<lparr>sw_last = current,
               sw_outbox = (if sent then sw_outbox task @ [between prev current] else sw_outbox task),
               sw_running = sent\<rparr>)"

definition handle_subscribe_line ::
    "'w zellij_env \<Rightarrow> zellij_session \<Rightarrow> pane_id \<Rightarrow> rstr \<Rightarrow> rstr \<Rightarrow> bool \<Rightarrow> surface_stream_task \<Rightarrow> 'w \<times> bool
     \<Rightarrow> surface_stream_task \<times> ('w \<times> bool)" where
  "handle_subscribe_line env s p pane_ref line sent task st =
     (if trim line = [] then (task, st)
      else case ze_json_event env line of
             None \<Rightarrow> (task\<lparr>sw_running := False\<rparr>, st)
           | Some (PaneUpdate updated_ref viewport is_initial) \<Rightarrow>
               if updated_ref \<noteq> pane_ref \<or> is_initial then (task, st)
               else (case screen_snapshot_from_viewport env s p viewport ZellijViewportSubscribe st of
                       (Inl e, st1) \<Rightarrow> (task\<lparr>sw_running := False\<rparr>, st1)
                     | (Inr current, st1) \<Rightarrow> (handle_viewport current sent task, st1))
           | Some (PaneClosed closed_ref) \<Rightarrow>
               (if closed_ref = pane_ref then task\<lparr>sw_running := False\<rparr> else task, st))"

definition pane_surface_step ::
    "'w zellij_env \<Rightarrow> zellij_session \<Rightarrow> pane_id \<Rightarrow> rstr \<Rightarrow> stream_wake \<Rightarrow> surface_stream_task \<Rightarrow> 'w \<times> bool
     \<Rightarrow> surface_stream_task \<times> ('w \<times> bool)" where
  "pane_surface_step env s p pane_ref wake task st =
     (if \<not> sw_running task then (task, st)
      else case wake of
             StreamCancel \<Rightarrow> (task\<lparr>sw_running := False\<rparr>, st)
           | StreamEnd \<Rightarrow> (task\<lparr>sw_running := False\<rparr>, st)
           | StreamLine line sent \<Rightarrow> handle_subscribe_line env s p pane_ref line sent task st)"

end
