(* ===== verification/Zellij_Properties.thy ===== *)
theory Zellij_Properties
  imports Zellij_Commands
begin

text \<open>
  What holds of the zellij backend: the snapshot of a session is consistent, a text is typed as it
  is or refused as a whole, a command that succeeds was seen to take effect, the stream of a pane
  can be replayed; and what a panic of the screen parser does to a session.
\<close>

section \<open>Snapshots\<close>

definition build_ok :: "zellij_build \<Rightarrow> tab_snapshot \<Rightarrow> bool" where
  "build_ok b tab \<longleftrightarrow>
     ts_tab_id tab \<in> dom (map_of (zu_tab_targets b)) \<and>
     set (snapshot_panes (ts_root tab)) \<subseteq> dom (map_of (zu_pane_targets b)) \<and>
     (\<exists>p. ts_focused_pane tab = Some p \<and> p \<in> set (snapshot_panes (ts_root tab)))"

definition builds :: "zellij_build \<Rightarrow> bool" where
  "builds b \<longleftrightarrow> list_all (\<lambda>(i, tab). build_ok b tab) (zu_tabs b) \<and>
     (\<forall>t. zu_focused b = Some t \<longrightarrow> t \<in> (ts_tab_id \<circ> snd) ` set (zu_tabs b))"

lemma dom_update_fold: "dom (map_of (foldl (\<lambda>m r. AList.update (f r) (g r) m) m rs)) = dom (map_of m) \<union> f ` set rs"
  by (induction rs arbitrary: m) (auto simp: update_conv')

lemma build_tab_builds:
  assumes "builds b"
  shows "builds (fst (build_tab env t panes from_pane item (b, w)))"
proof -
  obtain ordinal tab where item: "item = (ordinal, tab)" by fastforce
  let ?panes = "sorted_importable_panes panes (zt_tab_id tab)"
  let ?id = "\<lambda>pane. zellij_pane_id env t (zt_tab_id tab) (backend_ref pane)"
  show ?thesis
  proof (cases "?panes = []")
    case True
    then show ?thesis using assms by (simp add: item build_tab_def)
  next
    case False
    define b1 where "b1 = fst (build_tab env t panes from_pane item (b, w))"
    obtain tree w1 where tree: "fallback_tree (foreign_env.truncate env) (map ?id ?panes) w = (tree, w1)" by fastforce
    have panes_of: "snapshot_panes tree = map ?id ?panes"
      using fallback_tree_panes(1) [of "map ?id ?panes" "foreign_env.truncate env" w] False tree by simp
    define pos where "pos = (if zt_position tab = 0 then word_of_nat ordinal + 1 else zt_position tab)"
    define new where "new = \<lparr>ts_tab_id = zellij_tab_id env t (zt_tab_id tab) pos, ts_title = non_empty (zt_name tab),
      ts_root = tree, ts_focused_pane = focused_pane_id env t tab ?panes (map ?id ?panes)\<rparr>"
    have b1: "zu_tabs b1 = zu_tabs b @ [(pos, new)]"
      "zu_pane_targets b1 = foldl (\<lambda>m pane. AList.update (?id pane) (zellij_pane_target_of pane) m) (zu_pane_targets b) ?panes"
      "dom (map_of (zu_tab_targets b1)) = dom (map_of (zu_tab_targets b)) \<union> {ts_tab_id new}"
      "zu_focused b1 = zu_focused b \<or> zu_focused b1 = Some (ts_tab_id new)"
      using False by (auto simp: b1_def item build_tab_def map_pane_targets_def tree new_def pos_def Let_def update_conv')
    have dom_panes: "dom (map_of (zu_pane_targets b1)) = dom (map_of (zu_pane_targets b)) \<union> ?id ` set ?panes"
      by (simp only: b1(2) dom_update_fold)
    have "\<exists>p. focused_pane_id env t tab ?panes (map ?id ?panes) = Some p \<and> p \<in> ?id ` set ?panes"
      using False by (auto simp: focused_pane_id_def vec_get_def find_Some_iff split: option.split)
    then have "build_ok b1 new"
      by (auto simp: build_ok_def b1(3) dom_panes new_def panes_of)
    moreover have "build_ok b1 old" if "build_ok b old" for old
      using that by (auto simp: build_ok_def b1(3) dom_panes)
    ultimately have "builds b1"
      using assms b1(4) by (auto simp: builds_def b1(1) list_all_iff)
    then show ?thesis by (simp add: b1_def)
  qed
qed

lemma builds_fold: "builds b \<Longrightarrow> builds (fst (fold (build_tab env t panes from_pane) items (b, w)))"
proof (induction items arbitrary: b w)
  case (Cons item items)
  then show ?case
    using build_tab_builds [OF Cons.prems, of env t panes from_pane item w]
    by (cases "build_tab env t panes from_pane item (b, w)") simp
qed simp

text \<open>A consistent snapshot.\<close>

definition zellij_taken :: "zellij_session_snapshot \<Rightarrow> bool" where
  "zellij_taken s \<longleftrightarrow>
     tp_tabs (zn_topology s) \<noteq> [] \<and>
     (\<exists>tab\<in>set (tp_tabs (zn_topology s)). tp_focused_tab (zn_topology s) = Some (ts_tab_id tab)) \<and>
     (\<forall>tab\<in>set (tp_tabs (zn_topology s)).
        map_of (zn_tab_targets s) (ts_tab_id tab) \<noteq> None \<and>
        set (snapshot_panes (ts_root tab)) \<subseteq> dom (map_of (zn_pane_targets s)) \<and>
        (\<exists>p. ts_focused_pane tab = Some p \<and> p \<in> set (snapshot_panes (ts_root tab))))"

lemma build_taken:
  assumes "build_session_snapshot env sid t tabs panes w = (Inr s, w1)"
  shows "zellij_taken s"
proof -
  let ?b0 = "\<lparr>zu_tab_targets = [], zu_pane_targets = [], zu_tabs = [], zu_focused = None\<rparr>"
  obtain b w2 where b: "fold (build_tab env t panes (map_option zp_tab_id (find zp_is_focused panes)))
      (enumerate 0 (sorted_tabs tabs)) (?b0, w) = (b, w2)" by fastforce
  have "builds ?b0" by (simp add: builds_def)
  then have "builds b" using builds_fold [of ?b0 env t panes _ "enumerate 0 (sorted_tabs tabs)" w] b by (metis fst_conv)
  let ?tabs = "map snd (sort_key fst (zu_tabs b))"
  have s: "?tabs \<noteq> []" "s = \<lparr>zn_topology = \<lparr>tp_session_id = sid, tp_backend_kind = Zellij, tp_tabs = ?tabs,
       tp_focused_tab = (case zu_focused b of Some f \<Rightarrow> Some f | None \<Rightarrow> map_option ts_tab_id (vec_get ?tabs 0))\<rparr>,
     zn_tab_targets = zu_tab_targets b, zn_pane_targets = zu_pane_targets b\<rparr>"
    using assms b by (auto simp: build_session_snapshot_def Let_def split: if_splits)
  have "\<exists>tab\<in>set ?tabs. tp_focused_tab (zn_topology s) = Some (ts_tab_id tab)"
  proof (cases "zu_focused b")
    case None
    then show ?thesis
      using s by (intro bexI [of _ "?tabs ! 0"]) (auto simp: vec_get_def simp del: set_map intro!: nth_mem)
  next
    case (Some f)
    then show ?thesis using \<open>builds b\<close> by (force simp: s(2) builds_def)
  qed
  moreover have "build_ok b tab" if "tab \<in> set ?tabs" for tab
    using that \<open>builds b\<close> by (auto simp: builds_def list_all_iff)
  ultimately show ?thesis
    using s(1) by (auto simp: zellij_taken_def build_ok_def s(2) domIff)
qed

lemma zellij_io_Inr: "zellij_io m st = (Inr x, st1) \<longleftrightarrow> m (fst st) = (Inr x, fst st1) \<and> snd st1 = snd st"
  by (cases st; cases st1) (auto simp: zellij_io_def split: prod.splits sum.splits)

lemma snapshot_from_taken:
  "zellij_snapshot_from env s last_error attempts st = (Inr snapshot, st1) \<Longrightarrow> zellij_taken snapshot"
proof (induction attempts arbitrary: last_error st)
  case (Suc attempts)
  obtain r st2 where out: "snapshot_outputs env s st = (r, st2)" by (cases "snapshot_outputs env s st")
  have again: "zellij_snapshot_from env s e attempts st3 = (Inr snapshot, st1) \<Longrightarrow> zellij_taken snapshot" for e st3
    by (rule Suc.IH)
  have built: "zellij_io (build_session_snapshot env (zs_session_id s) (zs_target s) tabs panes) st2 = (Inr snapshot, st1)
      \<Longrightarrow> zellij_taken snapshot" for tabs panes
    using build_taken by (auto simp: zellij_io_Inr)
  show ?case
    using Suc.prems again built
    by (auto simp: out split: sum.splits fault.splits prod.splits if_splits)
qed simp

text \<open>
  C32. A successful snapshot of a zellij session has a tab, one of its tabs is focused, each tab and each
  pane can be addressed, and each tab has one of its own panes focused.
\<close>
theorem zellij_snapshot_sound:
  assumes "zellij_snapshot env s st = (Inr snapshot, st1)"
  shows "zellij_taken snapshot"
  using assms snapshot_from_taken by (simp add: zellij_snapshot_def)

interpretation zellij_snapshots: imported_snapshot
    zellij_taken zn_topology "\<lambda>s p. p \<in> dom (map_of (zn_pane_targets s))" "\<lambda>s t. t \<in> dom (map_of (zn_tab_targets s))"
proof
  fix s tab p
  assume taken: "zellij_taken s" "tab \<in> set (tp_tabs (zn_topology s))"
  show "ts_tab_id tab \<in> dom (map_of (zn_tab_targets s))"
    using taken by (simp add: zellij_taken_def domIff)
  { assume "p \<in> set (snapshot_panes (ts_root tab))"
    then show "p \<in> dom (map_of (zn_pane_targets s)) \<or> snapshot_panes (ts_root tab) = [p]"
      using taken by (auto simp: zellij_taken_def) }
  have "set (snapshot_panes (ts_root tab)) \<subseteq> dom (map_of (zn_pane_targets s))"
    "\<exists>p. ts_focused_pane tab = Some p \<and> p \<in> set (snapshot_panes (ts_root tab))"
    using taken by (simp_all add: zellij_taken_def)
  moreover assume "ts_focused_pane tab = Some p"
  ultimately show "p \<in> dom (map_of (zn_pane_targets s))" by auto
qed

text \<open>
  The order of tabs uses the number of a tab where its position is 0, as that of the first tab is: once
  older tabs were closed the first tab comes last.
\<close>

lemma first_tab_shown_last:
  "map zt_tab_id (sorted_tabs
     [\<lparr>zt_tab_id = 5, zt_position = 0, zt_name = [], zt_active = True\<rparr>,
      \<lparr>zt_tab_id = 6, zt_position = 1, zt_name = [], zt_active = False\<rparr>,
      \<lparr>zt_tab_id = 7, zt_position = 2, zt_name = [], zt_active = False\<rparr>]) = [6, 7, 5]"
  by code_simp

section \<open>Input\<close>

text \<open>
  What the keys of zellij send to a terminal, as its documentation and the usual terminal codes have it,
  written down without the tables of the source: \<open>Ctrl\<close> and a letter is the letter's place in the alphabet,
  a named key its own code. \<open>Enter\<close> stands for a line break, whatever code the terminal uses for it.
\<close>

definition terminal_keys :: "(string \<times> rstr) list" where
  "terminal_keys =
     [(''Enter'', [10]), (''Tab'', [9]), (''Backspace'', [0x7f]), (''Esc'', [0x1b]),
      (''Left'', 0x1b # lit ''[D''), (''Right'', 0x1b # lit ''[C''), (''Up'', 0x1b # lit ''[A''), (''Down'', 0x1b # lit ''[B''),
      (''Home'', 0x1b # lit ''[H''), (''End'', 0x1b # lit ''[F''), (''PageUp'', 0x1b # lit ''[5~''),
      (''PageDown'', 0x1b # lit ''[6~''), (''Delete'', 0x1b # lit ''[3~'')]"

definition key_text :: "rstr \<Rightarrow> rstr" where
  "key_text key =
     (if length key = 6 \<and> take 5 key = lit ''Ctrl '' \<and> 97 \<le> key ! 5 \<and> key ! 5 \<le> 122 then [key ! 5 - 96]
      else case find (\<lambda>(name, codes). lit name = key) terminal_keys of Some (name, codes) \<Rightarrow> codes | None \<Rightarrow> [])"

text \<open>The text that an action types, and the characters that can be typed.\<close>

fun action_text :: "zellij_action \<Rightarrow> rstr" where
  "action_text (WriteChars r cs) = cs"
| "action_text (Paste r cs) = cs"
| "action_text (SendKeys r keys) = concat (map key_text keys)"
| "action_text _ = []"

fun types_into :: "rstr \<Rightarrow> zellij_action \<Rightarrow> bool" where
  "types_into r (WriteChars r1 cs) \<longleftrightarrow> r1 = r"
| "types_into r (SendKeys r1 keys) \<longleftrightarrow> r1 = r"
| "types_into r _ \<longleftrightarrow> False"

definition zellij_typeable :: "nat \<Rightarrow> bool" where
  "zellij_typeable c \<longleftrightarrow> \<not> is_control c \<or> c \<in> {1, 3, 4, 5, 9, 10, 11, 12, 13, 21, 23, 27, 127}"

lemma typeable_control: "zellij_typeable c \<longleftrightarrow> c \<in> {9, 10, 13, 27} \<or> \<not> is_control c \<or> zellij_control_key c \<noteq> None"
  by (auto simp: zellij_typeable_def zellij_control_key_def)

fun one_break :: "rstr \<Rightarrow> rstr" where
  "one_break [] = []"
| "one_break (c # cs) = (if c = 13 then 10 # one_break (if cs \<noteq> [] \<and> hd cs = 10 then tl cs else cs) else c # one_break cs)"

lemma named_keys_ok:
  "list_all (\<lambda>(sequence, key). key_text key = sequence \<and> list_all zellij_typeable sequence \<and> list_all (\<lambda>c. c \<noteq> 13) sequence)
     zellij_named_keys"
  by code_simp

lemma named_key_facts:
  assumes "zellij_named_key_sequence input = Some (sequence, key)"
  shows "input = sequence @ drop (length sequence) input" "key_text key = sequence"
    "list_all zellij_typeable sequence" "13 \<notin> set sequence"
proof -
  have found: "(sequence, key) \<in> set zellij_named_keys" "sublist_at sequence input"
    using assms by (auto simp: zellij_named_key_sequence_def find_Some_iff) (metis nth_mem)
  then show "input = sequence @ drop (length sequence) input"
    by (metis append_take_drop_id sublist_at_def)
  show "key_text key = sequence" "list_all zellij_typeable sequence" "13 \<notin> set sequence"
    using named_keys_ok found(1) by (auto simp: list_all_iff)
qed

lemma control_keys_ok: "list_all (\<lambda>c. case zellij_control_key c of None \<Rightarrow> True | Some key \<Rightarrow> key_text key = [c]) [0..<128]"
  by code_simp

lemma control_key_text:
  assumes "zellij_control_key c = Some key"
  shows "key_text key = [c]"
proof -
  have "c \<in> set [0..<128]" using assms by (auto simp: zellij_control_key_def split: if_splits)
  with control_keys_ok have "case zellij_control_key c of None \<Rightarrow> True | Some key \<Rightarrow> key_text key = [c]"
    unfolding list_all_iff by blast
  then show ?thesis by (simp add: assms)
qed

lemma one_break_append: "13 \<notin> set a \<Longrightarrow> one_break (a @ b) = a @ one_break b"
  by (induction a) auto

lemma flush_facts [simp]:
  "concat (map action_text (flush_zellij_literal r literal)) = literal"
  "list_all (types_into r) (flush_zellij_literal r literal)"
  by (simp_all add: flush_zellij_literal_def)

lemma key_text_named [simp]: "key_text (lit ''Enter'') = [10]" "key_text (lit ''Tab'') = [9]"
  by code_simp+

definition typed_as :: "rstr \<Rightarrow> rstr \<Rightarrow> rstr \<Rightarrow> backend_error + zellij_action list \<Rightarrow> bool" where
  "typed_as r before data result \<longleftrightarrow>
     (case result of
        Inl e \<Rightarrow> \<not> list_all zellij_typeable data \<and> be_kind e = Unsupported
      | Inr actions \<Rightarrow> list_all zellij_typeable data \<and> list_all (types_into r) actions \<and>
          concat (map action_text actions) = before @ one_break data)"

lemma typed_as_cons:
  assumes "typed_as r (before @ one) rest result" "list_all zellij_typeable data = list_all zellij_typeable rest"
    "one_break data = one @ one_break rest"
  shows "typed_as r before data result"
  using assms by (auto simp: typed_as_def split: sum.splits)

lemma input_actions_typed:
  "list_all (types_into r) actions \<Longrightarrow>
     typed_as r (concat (map action_text actions) @ literal) remaining (input_actions r env literal actions remaining)"
proof (induction r env literal actions remaining rule: input_actions.induct)
  case (1 r env literal actions remaining)
  let ?text = "concat (map action_text actions) @ literal"
  show ?case
  proof (cases "zellij_named_key_sequence remaining")
    case (Some named)
    obtain sequence key where named: "named = (sequence, key)" by fastforce
    note facts = named_key_facts [OF Some [unfolded named]]
    have "typed_as r (?text @ sequence) (drop (length sequence) remaining)
        (input_actions r env [] (actions @ flush_zellij_literal r literal @ [SendKeys r [key]]) (drop (length sequence) remaining))"
      using "1.IH"(5) [OF Some [unfolded named] refl] "1.prems" facts(2) by simp
    then have "typed_as r ?text remaining
        (input_actions r env [] (actions @ flush_zellij_literal r literal @ [SendKeys r [key]]) (drop (length sequence) remaining))"
      by (rule typed_as_cons) (subst facts(1), simp add: facts(3) one_break_append facts(4))+
    then show ?thesis by (simp add: input_actions.simps [of r env literal] Some named)
  next
    case None
    show ?thesis
    proof (cases remaining)
      case Nil
      then show ?thesis using "1.prems" None by (simp add: input_actions.simps [of r env literal] typed_as_def)
    next
      case (Cons c rest)
      have c27: "c \<noteq> 27"
        using None Cons by (auto simp: zellij_named_key_sequence_def zellij_named_keys_def sublist_at_def split: if_splits)
      note step = input_actions.simps [of r env literal actions "c # rest", unfolded None [unfolded Cons] option.case list.case]
      consider "c = 13 \<or> c = 10" | "c = 9" | "c \<notin> {9, 10, 13}" "is_control c" | "\<not> is_control c" "c \<notin> {9, 10, 13}" by blast
      then show ?thesis
      proof cases
        case 1
        let ?rest = "if c = 13 \<and> rest \<noteq> [] \<and> hd rest = 10 then tl rest else rest"
        have "typed_as r (?text @ [10]) ?rest (input_actions r env [] (actions @ flush_zellij_literal r literal @ [SendKeys r [lit ''Enter'']]) ?rest)"
          using "1.IH"(1) [OF None Cons 1] "1.prems" by simp
        then show ?thesis
          unfolding Cons step if_P [OF 1]
          by (rule typed_as_cons) (use 1 in \<open>auto simp: typeable_control neq_Nil_conv\<close>)
      next
        case 2
        have "typed_as r (?text @ [9]) rest (input_actions r env [] (actions @ flush_zellij_literal r literal @ [SendKeys r [lit ''Tab'']]) rest)"
          using "1.IH"(2) [OF None Cons _ 2] "1.prems" 2 by simp
        then show ?thesis
          unfolding Cons step using 2 by (simp, elim typed_as_cons) (auto simp: typeable_control)
      next
        case 3
        show ?thesis
        proof (cases "zellij_control_key c")
          case no: None
          then show ?thesis using 3 c27 unfolding Cons step by (auto simp: typed_as_def typeable_control unsupported_def)
        next
          case (Some key)
          have "typed_as r (?text @ [c]) rest (input_actions r env [] (actions @ flush_zellij_literal r literal @ [SendKeys r [key]]) rest)"
            using "1.IH"(3) [OF None Cons _ _ 3(2) Some] "1.prems" 3 control_key_text [OF Some] by simp
          then show ?thesis
            unfolding Cons step using 3 Some by (simp, elim typed_as_cons) (auto simp: typeable_control)
        qed
      next
        case 4
        have "typed_as r (?text @ [c]) rest (input_actions r env (literal @ [c]) actions rest)"
          using "1.IH"(4) [OF None Cons _ _ 4(1)] "1.prems" 4 by simp
        then show ?thesis
          unfolding Cons step using 4 by (simp, elim typed_as_cons) (auto simp: typeable_control)
      qed
    qed
  qed
qed

text \<open>
  C33. Text for a zellij pane is typed as it is or refused as a whole: without an unsupported control
  character it becomes actions that all type into that pane and together type exactly the text, a
  CR, an LF or a CR LF as one line break; with one it becomes no action at all but an error. What a key types is
  what terminals send for it.
\<close>
theorem zellij_input_typed:
  "typed_as r [] data (input_actions r env [] [] data)"
  using input_actions_typed [of r "[]" "[]" data env] by simp

section \<open>Commands take effect\<close>

lemma settle_wait:
  "wait_for_settle env s previous action started attempts last_error last_summary st = (Inr final, st1) \<Longrightarrow>
     settled action previous final \<and> (\<exists>st2. zellij_snapshot env s st2 = (Inr final, st1))"
proof (induction attempts arbitrary: last_error last_summary st)
  case (Suc attempts)
  obtain r st2 where taken: "zellij_snapshot env s st = (r, st2)" by (cases "zellij_snapshot env s st")
  have again: "wait_for_settle env s previous action started attempts last_error last_summary st3 = (Inr final, st1) \<Longrightarrow> ?case"
    for last_error last_summary st3 by (rule Suc.IH)
  show ?case
    using Suc.prems again taken by (auto simp: Let_def simp del: split_paired_Ex split: sum.splits fault.splits if_splits)
qed simp

definition is_input :: "mux_command \<Rightarrow> bool" where
  "is_input command \<longleftrightarrow> (case command of CSendInput _ \<Rightarrow> True | CSendPaste _ \<Rightarrow> True | _ \<Rightarrow> False)"

lemma dispatch_one_action:
  assumes "\<not> is_input command" "dispatch_actions env snapshot command = Inr actions"
  shows "\<exists>action. actions = [action] \<and> requires_settle action"
  using assms
  by (auto simp: dispatch_actions_def is_input_def one_action_def bind_result_Inr_iff focus_pane_action_def
      close_pane_action_def focus_tab_action_def close_tab_action_def rename_tab_action_def
      split: mux_command.splits if_splits)

lemma zellij_lift_Inr: "zellij_lift r st = (Inr x, st1) \<longleftrightarrow> r = Inr x \<and> st1 = st"
  by (auto simp: zellij_lift_def split: sum.split)

text \<open>
  C34. A command that changes a zellij session, anything but input, is one action, and where it
  succeeds its effect has been seen: the last thing it did was to take a snapshot that shows it.
\<close>
theorem zellij_command_settled:
  assumes "zellij_dispatch env s command st = (Inr result, st1)" "\<not> is_input command"
  shows "\<exists>previous st2 action final st3. zellij_snapshot env s st = (Inr previous, st2) \<and>
    dispatch_actions env previous command = Inr [action] \<and>
    zellij_snapshot env s st3 = (Inr final, st1) \<and> settled action previous final \<and> changed result"
proof -
  obtain previous st2 actions where previous: "zellij_snapshot env s st = (Inr previous, st2)"
    "dispatch_actions env previous command = Inr actions"
    "(if actions = [] then io_ok \<lparr>changed = False\<rparr>
      else io_bind (run_actions env s previous actions) (\<lambda>_. io_ok \<lparr>changed = True\<rparr>)) st2 = (Inr result, st1)"
    using assms(1) by (auto simp: zellij_dispatch_def io_bind_Inr zellij_lift_Inr)
  obtain action where action: "actions = [action]" "requires_settle action"
    using dispatch_one_action [OF assms(2) previous(2)] by blast
  obtain final st3 where "wait_for_action_settle env s previous action st3 = (Inr final, st1)" "changed result"
    using previous(3) action by (auto simp: io_bind_Inr)
  moreover from settle_wait [OF this(1) [unfolded wait_for_action_settle_def]]
  obtain st4 where "settled action previous final" "zellij_snapshot env s st4 = (Inr final, st1)" by blast
  ultimately show ?thesis
    using previous(1,2) action(1) by (intro exI conjI) simp_all
qed

text \<open>One poll that leads to the next: the effect is not there yet, the time not over.\<close>

definition poll_again ::
    "'w zellij_env \<Rightarrow> zellij_session \<Rightarrow> zellij_session_snapshot \<Rightarrow> zellij_action \<Rightarrow> 'w \<Rightarrow> 'w \<times> bool \<Rightarrow> 'w \<times> bool \<Rightarrow> bool" where
  "poll_again env s previous action started st next_st \<longleftrightarrow>
     (case zellij_snapshot env s st of (r, st1) \<Rightarrow>
        next_st = zellij_sleep env st1 \<and> \<not> ze_settle_over env started (fst st1) \<and>
        (case r of Inr snapshot \<Rightarrow> \<not> settled action previous snapshot
         | Inl (Failed e) \<Rightarrow> is_transient_zellij_backend_error env e
         | Inl Panicked \<Rightarrow> False))"

lemma poll_settles:
  assumes "(poll_again env s previous action started ^^ n) st st1" "n < attempts"
    "zellij_snapshot env s st1 = (Inr final, st2)" "settled action previous final"
  shows "wait_for_settle env s previous action started attempts last_error last_summary st = (Inr final, st2)"
  using assms(1,2)
proof (induction n arbitrary: st attempts last_error last_summary)
  case 0
  then show ?case using assms(3,4) by (cases attempts) simp_all
next
  case (Suc n)
  obtain st3 where poll: "poll_again env s previous action started st st3" "(poll_again env s previous action started ^^ n) st3 st1"
    using relpowp_Suc_D2 [OF Suc.prems(1)] by blast
  obtain m where m: "attempts = Suc m" "n < m" using Suc.prems(2) by (cases attempts) auto
  show ?case
    using Suc.IH [OF poll(2) m(2)] poll(1)
    by (auto simp: m(1) Let_def poll_again_def split: prod.splits sum.splits fault.splits)
qed

text \<open>
  C35. If zellij shows the effect of an action after fewer than 600 polls, each of which found the
  session readable or settling and the timeout not over, waiting for it succeeds with that snapshot.
\<close>
theorem zellij_settles_eventually:
  assumes "(poll_again env s previous action (fst st) ^^ n) st st1" "n < 600"
    "zellij_snapshot env s st1 = (Inr final, st2)" "settled action previous final"
  shows "wait_for_action_settle env s previous action st = (Inr final, st2)"
  using poll_settles [OF assms(1) _ assms(3,4)] assms(2)
  by (simp add: wait_for_action_settle_def zellij_action_settle_attempts_def)

section \<open>A poisoned lock\<close>

lemma no_panic_unpoisoned: "snd (snd (zellij_io m (w, b))) = b" "fst (zellij_io m (w, b)) \<noteq> Inl Panicked"
  by (auto simp: zellij_io_def split: prod.splits sum.splits)

lemma outputs_panic: "snapshot_outputs env s (w, b) = (r, st) \<Longrightarrow> snd st = b \<and> (r = Inl Panicked \<longrightarrow> b)"
  by (auto simp: snapshot_outputs_def with_io_lane_def io_bind_def zellij_io_def split: prod.splits sum.splits if_splits fault.splits)

lemma snapshot_from_poison:
  "zellij_snapshot_from env s last_error attempts st = (r, st1) \<Longrightarrow> snd st1 = snd st \<and> (r = Inl Panicked \<longrightarrow> snd st)"
proof (induction attempts arbitrary: last_error st)
  case (Suc attempts)
  obtain w b where st: "st = (w, b)" by fastforce
  obtain r2 w2 b2 where out: "snapshot_outputs env s (w, b) = (r2, w2, b2)" by (cases "snapshot_outputs env s (w, b)")
  have b2: "b2 = b" "r2 = Inl Panicked \<longrightarrow> b"
    using outputs_panic [OF out] by simp_all
  note step = Suc.prems [unfolded zellij_snapshot_from.simps st out prod.case]
  have again: "zellij_snapshot_from env s last_error attempts (zellij_sleep env (w2, b2)) = (r, st1) \<Longrightarrow> ?case" for last_error
    using Suc.IH [of last_error "zellij_sleep env (w2, b2)"] b2(1) by (simp add: zellij_sleep_def st)
  have built: "zellij_io m (w2, b2) = (r, st1) \<Longrightarrow> ?case" for m
    using no_panic_unpoisoned [of m w2 b2] b2(1) by (auto simp: st)
  show ?case
  proof (cases r2)
    case (Inl f)
    then show ?thesis
      using step again b2 by (cases f) (auto simp: st split: if_splits)
  next
    case (Inr outputs)
    obtain a b1 where outputs: "outputs = (a, b1)" by fastforce
    show ?thesis
    proof (cases "parsed_rows env a b1")
      case (Inl e)
      then show ?thesis using step again b2 by (auto simp: st Inr outputs split: if_splits)
    next
      case rows: (Inr rs)
      then show ?thesis
        using step again built by (cases rs) (auto simp: Inr outputs split: if_splits)
    qed
  qed
qed auto

lemma snapshot_poison: "zellij_snapshot env s st = (r, st1) \<Longrightarrow> snd st1 = snd st \<and> (r = Inl Panicked \<longrightarrow> snd st)"
  unfolding zellij_snapshot_def by (rule snapshot_from_poison)

lemma poisoned_snapshot: "zellij_snapshot env s (w, True) = (Inl Panicked, (w, True))"
  by (simp add: zellij_snapshot_def zellij_transient_retry_attempts_def snapshot_outputs_def with_io_lane_def numeral_eq_Suc)

text \<open>
  C36. Reading the screen of a pane leaves \<open>io_lane\<close> poisoned exactly when it panics in the parser,
  and from then on the session is lost: every command, snapshot and screen panics.
\<close>
theorem zellij_poisoned:
  "snd (snd (zellij_screen_snapshot env s p (w, False))) = (fst (zellij_screen_snapshot env s p (w, False)) = Inl Panicked) \<and>
   zellij_dispatch env s command (w1, True) = (Inl Panicked, (w1, True)) \<and>
   zellij_snapshot env s (w1, True) = (Inl Panicked, (w1, True)) \<and>
   zellij_screen_snapshot env s p (w1, True) = (Inl Panicked, (w1, True))"
proof (intro conjI)
  obtain r w2 b2 where taken: "zellij_snapshot env s (w, False) = (r, w2, b2)" by (cases "zellij_snapshot env s (w, False)")
  then have "\<not> b2" "r \<noteq> Inl Panicked" using snapshot_poison by fastforce+
  then show "snd (snd (zellij_screen_snapshot env s p (w, False))) = (fst (zellij_screen_snapshot env s p (w, False)) = Inl Panicked)"
    using taken
    by (auto simp: zellij_screen_snapshot_def pane_target_def io_bind_def zellij_lift_def with_io_lane_def zellij_io_def
        or_panic_def ok_or_def io_ok_def io_lift_def split: sum.splits prod.splits option.splits fault.splits)
qed (simp_all add: zellij_dispatch_def zellij_screen_snapshot_def pane_target_def io_bind_def poisoned_snapshot)

section \<open>The stream of a pane\<close>

text \<open>
  An event of the stream is a line with the world it meets, an end or a cancellation; the screen a
  line brings must be fit to travel.
\<close>

definition fit_event :: "'w zellij_env \<Rightarrow> zellij_session \<Rightarrow> pane_id \<Rightarrow> stream_wake \<times> ('w \<times> bool) \<Rightarrow> bool" where
  "fit_event env s p = (\<lambda>(wake, st). case wake of
     StreamLine line sent \<Rightarrow>
       (case ze_json_event env line of
          Some (PaneUpdate r viewport is_initial) \<Rightarrow>
            (case fst (screen_snapshot_from_viewport env s p viewport ZellijViewportSubscribe st) of
               Inr current \<Rightarrow> deliverable current | Inl e \<Rightarrow> True)
        | _ \<Rightarrow> True)
   | _ \<Rightarrow> True)"

definition stream_next ::
    "'w zellij_env \<Rightarrow> zellij_session \<Rightarrow> pane_id \<Rightarrow> rstr \<Rightarrow> stream_wake \<times> ('w \<times> bool) \<Rightarrow> surface_stream_task \<Rightarrow> surface_stream_task" where
  "stream_next env s p pane_ref = (\<lambda>(wake, st) task. fst (pane_surface_step env s p pane_ref wake task st))"

lemma viewport_sent:
  assumes "deliverable v"
  shows "(sw_outbox (handle_viewport v sent task) = sw_outbox task \<and>
       (sw_running (handle_viewport v sent task) \<longrightarrow> sw_last (handle_viewport v sent task) = sw_last task)) \<or>
     deliverable (sw_last (handle_viewport v sent task)) \<and>
       sw_outbox (handle_viewport v sent task) = sw_outbox task @ [between (sw_last task) (sw_last (handle_viewport v sent task))]"
  using assms by (auto simp: handle_viewport_def Let_def deliverable_def)

interpretation zellij_stream: surface_stream "stream_next env s p pane_ref" sw_running sw_last sw_outbox "fit_event env s p"
  for env :: "'w zellij_env" and s p pane_ref
proof
  fix event :: "stream_wake \<times> ('w \<times> bool)" and task :: surface_stream_task
  obtain wake st where event: "event = (wake, st)" by (cases event)
  { assume "\<not> sw_running task"
    then show "sw_outbox (stream_next env s p pane_ref event task) = sw_outbox task \<and>
        \<not> sw_running (stream_next env s p pane_ref event task)"
      by (simp add: stream_next_def event pane_surface_step_def) }
  assume run: "sw_running task" and fit: "fit_event env s p event"
  show "(sw_outbox (stream_next env s p pane_ref event task) = sw_outbox task \<and>
        (sw_running (stream_next env s p pane_ref event task) \<longrightarrow> sw_last (stream_next env s p pane_ref event task) = sw_last task)) \<or>
      deliverable (sw_last (stream_next env s p pane_ref event task)) \<and>
      sw_outbox (stream_next env s p pane_ref event task) =
        sw_outbox task @ [between (sw_last task) (sw_last (stream_next env s p pane_ref event task))]"
  proof (cases wake)
    case (StreamLine line sent)
    show ?thesis
    proof (cases "ze_json_event env line")
      case (Some ev)
      then show ?thesis
        using fit run viewport_sent
        by (cases ev; simp add: stream_next_def fit_event_def event StreamLine pane_surface_step_def handle_subscribe_line_def
            split: sum.split prod.split)
          (fastforce)+
    qed (simp add: stream_next_def event StreamLine run pane_surface_step_def handle_subscribe_line_def)
  qed (simp_all add: stream_next_def event run pane_surface_step_def)
qed

text \<open>
  C37. Whatever lines zellij prints for a pane, a client that starts with nothing and applies the
  deltas sent to it, in order, can apply them all, and while the stream runs shows its last screen.
\<close>
theorem zellij_stream_replays:
  assumes "deliverable initial" "list_all (fit_event env s p) events"
  shows "\<exists>v. replay (sw_outbox (fold (stream_next env s p pane_ref) events (pane_surface_start initial True True))) = Inr (Some v) \<and>
    (if sw_running (fold (stream_next env s p pane_ref) events (pane_surface_start initial True True))
     then client_shows v (sw_last (fold (stream_next env s p pane_ref) events (pane_surface_start initial True True)))
     else True)"
proof -
  have "zellij_stream.in_step (pane_surface_start initial True True)"
    by (rule zellij_stream.in_step_start [of _ 0 initial]) (simp_all add: pane_surface_start_def assms(1))
  from zellij_stream.in_step_fold [OF this assms(2), of pane_ref] show ?thesis
    unfolding zellij_stream.in_step_def by auto
qed

section \<open>A session\<close>

text \<open>
  A zellij with one tab of two panes. Once a pane is closed, the next snapshot still shows both of
  them, and the one after the first wait only one.
\<close>

definition zellij_demo_pane :: "u32 \<Rightarrow> zellij_pane_row" where
  "zellij_demo_pane n = \<lparr>zp_id = n, zp_tab_id = 7, zp_title = [], zp_is_plugin = False, zp_is_focused = (n = 0),
     zp_is_floating = False, zp_x = 0, zp_y = 0, zp_rows = 2, zp_columns = 4\<rparr>"

definition zellij_demo :: "nat zellij_env" where
  "zellij_demo = \<lparr>
     fe_tool = (\<lambda>args w. if lit ''close-pane'' \<in> set args then (RunExited True [] [], 1)
       else (RunExited True [if w = 2 then 50 else 48] [], w)),
     fe_expired = (\<lambda>args w. None), fe_new_uuid = (\<lambda>w. (0, w)),
     fe_uuid5 = (\<lambda>bs. word_of_nat (unat (last bs))), fe_debug_str = id, fe_debug_char = (\<lambda>c. [c]),
     fe_debug_part = (\<lambda>part. []), fe_utf8_error = (\<lambda>bs. []), fe_hash = (\<lambda>v. 0),
     fe_ansi = \<lparr>ae_width = (\<lambda>c. Some 1), ae_base64 = (\<lambda>v. None)\<rparr>,
     ze_windows = False, ze_sleep = Suc, ze_settle_over = (\<lambda>w w1. False),
     ze_json_tabs = (\<lambda>out. JsonArray (Inr [\<lparr>zt_tab_id = 7, zt_position = 1, zt_name = [], zt_active = True\<rparr>])),
     ze_json_panes = (\<lambda>out. JsonArray (Inr (if out = [50] then [zellij_demo_pane 0] else [zellij_demo_pane 0, zellij_demo_pane 1]))),
     ze_json_event = (\<lambda>line. Some (PaneUpdate line [[97]] False))\<rparr>"

definition zellij_demo_session :: zellij_session where
  "zellij_demo_session = \<lparr>zs_session_id = Id 0, zs_target = lit ''main''\<rparr>"

definition zellij_demo_tree :: "nat \<Rightarrow> pane_tree_node" where
  "zellij_demo_tree w = (if w = 2 then PLeaf (Id 48) else PSplit Vertical (PLeaf (Id 48)) (PLeaf (Id 49)))"

definition demo_target :: "u32 \<Rightarrow> zellij_pane_target" where
  "demo_target n = \<lparr>zq_backend_ref = lit ''terminal_'' @ show_nat (unat n), zq_kind = TerminalPane, zq_title = None, zq_rows = 2, zq_cols = 4\<rparr>"

definition demo_shown :: "nat \<Rightarrow> zellij_session_snapshot" where
  "demo_shown w =
     \<lparr>zn_topology = \<lparr>tp_session_id = Id 0, tp_backend_kind = Zellij,
        tp_tabs = [\<lparr>ts_tab_id = Id 49, ts_title = None, ts_root = zellij_demo_tree w, ts_focused_pane = Some (Id 48)\<rparr>],
        tp_focused_tab = Some (Id 49)\<rparr>,
      zn_tab_targets = [(Id 49, \<lparr>zr_backend_tab_id = 7, zr_position = 1, zr_display_index = 1, zr_title = None\<rparr>)],
      zn_pane_targets = (Id 48, demo_target 0) # (if w = 2 then [] else [(Id 49, demo_target 1)])\<rparr>"

lemma demo_once:
  "zellij_run_once zellij_demo (Some t) args w =
     (if lit ''close-pane'' \<in> set ([lit ''--session'', t] @ args) then (Inr [], 1) else (Inr [if w = 2 then 50 else 48], w))"
  by (simp add: zellij_run_once_def zellij_demo_def)

lemma retries: "zellij_transient_retry_attempts = Suc 9"
  by (simp add: zellij_transient_retry_attempts_def)

lemma demo_decode: "utf8_decode [48] = Some [48]" "utf8_decode [50] = Some [50]" "utf8_decode [] = Some []"
  by code_simp+

lemma demo_not_close: "lit ''close-pane'' \<notin> {lit ''--session'', lit ''main'', lit ''action'', lit ''list-tabs'', lit ''list-panes'', lit ''--json''}"
  by (simp add: lit_def)

lemma demo_run:
  "zellij_run zellij_demo (Some (lit ''main'')) args w =
     (if lit ''close-pane'' \<in> set args then (Inr [], 1) else (Inr [if w = 2 then 50 else 48], w))"
  using demo_not_close
  unfolding zellij_run_def zellij_run_bytes_def retries io_bind_def zellij_run_from.simps demo_once
  by (simp add: utf8_result_def demo_decode ok_or_def)

lemma demo_build:
  "build_session_snapshot zellij_demo (Id 0) (lit ''main'') [\<lparr>zt_tab_id = 7, zt_position = 1, zt_name = [], zt_active = True\<rparr>]
     [zellij_demo_pane 0, zellij_demo_pane 1] w = (Inr (demo_shown 0), w)"
  "build_session_snapshot zellij_demo (Id 0) (lit ''main'') [\<lparr>zt_tab_id = 7, zt_position = 1, zt_name = [], zt_active = True\<rparr>]
     [zellij_demo_pane 0] w = (Inr (demo_shown 2), w)"
  by code_simp+

lemma demo_outputs:
  "snapshot_outputs zellij_demo zellij_demo_session (w, False) =
     (Inr ([if w = 2 then 50 else 48], [if w = 2 then 50 else 48]), (w, False))"
  using demo_not_close
  by (simp add: snapshot_outputs_def with_io_lane_def zellij_demo_session_def zellij_io_def demo_run io_bind_def)

lemma demo_rows:
  "parsed_rows zellij_demo o1 o2 = Inr ([\<lparr>zt_tab_id = 7, zt_position = 1, zt_name = [], zt_active = True\<rparr>],
     if o2 = [50] then [zellij_demo_pane 0] else [zellij_demo_pane 0, zellij_demo_pane 1])"
  by (simp add: parsed_rows_def parse_tabs_json_def parse_panes_json_def zellij_demo_def parse_json_array_def)

lemma demo_trim: "trim [48] \<noteq> []" "trim [50] \<noteq> []"
  by (simp_all add: trim_Nil_iff is_whitespace_def)

lemma demo_snapshot_taken: "zellij_snapshot zellij_demo zellij_demo_session (w, False) = (Inr (demo_shown (if w = 2 then 2 else 0)), (w, False))"
proof -
  have session: "zs_session_id zellij_demo_session = Id 0" "zs_target zellij_demo_session = lit ''main''"
    by (simp_all add: zellij_demo_session_def)
  show ?thesis
    unfolding zellij_snapshot_def retries zellij_snapshot_from.simps demo_outputs prod.case sum.case demo_rows session
    by (cases "w = 2") (simp_all del: zellij_snapshot_from.simps add: demo_trim zellij_io_def demo_build)
qed

lemma demo_actions:
  "dispatch_actions zellij_demo (demo_shown 0) (CClosePane (Id 49)) = Inr [ClosePane (lit ''terminal_1'')]"
  "settled (ClosePane (lit ''terminal_1'')) (demo_shown 0) (demo_shown 2)"
  "\<not> settled (ClosePane (lit ''terminal_1'')) (demo_shown 0) (demo_shown 0)"
  by code_simp+

lemma demo_poll:
  "(poll_again zellij_demo zellij_demo_session (demo_shown 0) (ClosePane (lit ''terminal_1'')) 1 ^^ 1) (1, False) (2, False)"
  unfolding relpowp_1 poll_again_def demo_snapshot_taken
  using demo_actions(3) by (simp add: zellij_sleep_def zellij_demo_def)

lemma zellij_settles_eventually_witness:
  "wait_for_action_settle zellij_demo zellij_demo_session (demo_shown 0) (ClosePane (lit ''terminal_1'')) (1, False) =
     (Inr (demo_shown 2), (2, False))"
  using zellij_settles_eventually [of 1 zellij_demo zellij_demo_session "demo_shown 0" "ClosePane (lit ''terminal_1'')" "(1, False)",
      OF _ _ _ demo_actions(2)] demo_poll demo_snapshot_taken [of 2]
  by simp

lemma demo_dispatch:
  "zellij_dispatch zellij_demo zellij_demo_session (CClosePane (Id 49)) (0, False) = (Inr \<lparr>changed = True\<rparr>, (2, False))"
proof -
  have "wait_for_action_settle zellij_demo zellij_demo_session (demo_shown 0) (ClosePane (lit ''terminal_1'')) (1, False) =
     (Inr (demo_shown 2), (2, False))"
    unfolding wait_for_action_settle_def zellij_action_settle_attempts_def
    using poll_settles [OF demo_poll _ _ demo_actions(2)] demo_snapshot_taken [of 2] by simp
  moreover have "zs_target zellij_demo_session = lit ''main''" by (simp add: zellij_demo_session_def)
  ultimately show ?thesis
    using demo_snapshot_taken [of 0]
    by (simp add: zellij_dispatch_def io_bind_def demo_actions(1) with_io_lane_def zellij_io_def demo_run zellij_lift_def del: zellij_snapshot_from.simps)
qed

lemma zellij_command_settled_witness:
  "\<exists>previous st2 action final st3. zellij_snapshot zellij_demo zellij_demo_session (0, False) = (Inr previous, st2) \<and>
    dispatch_actions zellij_demo previous (CClosePane (Id 49)) = Inr [action] \<and>
    zellij_snapshot zellij_demo zellij_demo_session st3 = (Inr final, (2, False)) \<and> settled action previous final \<and>
    changed \<lparr>changed = True\<rparr>"
  by (rule zellij_command_settled [OF demo_dispatch]) (simp add: is_input_def)

lemma zellij_snapshot_sound_witness:
  "zellij_snapshot zellij_demo zellij_demo_session (0, False) = (Inr (demo_shown 0), (0, False)) \<and> zellij_taken (demo_shown 0)"
  using demo_snapshot_taken [of 0] zellij_snapshot_sound [of zellij_demo zellij_demo_session "(0, False)" "demo_shown 0" "(0, False)"] by simp

lemma demo_screen:
  "\<exists>current. fst (screen_snapshot_from_viewport zellij_demo zellij_demo_session (Id 48) [[97]] ZellijViewportSubscribe (0, False)) = Inr current \<and>
     deliverable current"
proof -
  let ?e = "fe_ansi zellij_demo"
  have "push_str ?e [97] parser_new = Some (typed [] 0 [97])"
    using push_bytes_new_lines [of "[[97]]" ?e "[]"]
    by (simp add: push_str_def plain_char_def is_scalar_def is_control_def stored_def zellij_demo_def)
  then have surface: "screen_surface_from_ansi_output ?e [97] None = Some (finish_surface None (typed [] 0 [97]))"
    by (simp add: screen_surface_from_ansi_output_def)
  have "length (sf_lines (finish_surface None (typed [] 0 [97]))) \<le> 65536"
    "sf_working_directory_uri (finish_surface None (typed [] 0 [97])) \<noteq> Some []"
    using store_typed [of "[]" "[97]"] by (simp_all add: finish_surface_def Let_def stored_def) (simp_all add: typed_def parser_new_def)
  moreover have "map_of (zn_pane_targets (demo_shown 0)) (Id 48) = Some (demo_target 0)" "zq_title (demo_target 0) = None"
    by (simp_all add: demo_shown_def demo_target_def)
  ultimately show ?thesis
    using demo_snapshot_taken [of 0] surface
    by (simp add: screen_snapshot_from_viewport_def pane_target_def io_bind_def zellij_lift_def or_panic_def ok_or_def
        screen_snapshot_from_surface_def deliverable_def)
qed

lemma zellij_stream_replays_witness:
  "\<exists>v. replay (sw_outbox (fold (stream_next zellij_demo zellij_demo_session (Id 48) (lit ''terminal_0''))
       [(StreamLine (lit ''terminal_0'') True, (0, False))] (pane_surface_start (demo_snapshot 0 []) True True))) = Inr (Some v) \<and>
    (if sw_running (fold (stream_next zellij_demo zellij_demo_session (Id 48) (lit ''terminal_0''))
          [(StreamLine (lit ''terminal_0'') True, (0, False))] (pane_surface_start (demo_snapshot 0 []) True True))
     then client_shows v (sw_last (fold (stream_next zellij_demo zellij_demo_session (Id 48) (lit ''terminal_0''))
          [(StreamLine (lit ''terminal_0'') True, (0, False))] (pane_surface_start (demo_snapshot 0 []) True True)))
     else True)"
proof (rule zellij_stream_replays)
  show "deliverable (demo_snapshot 0 [])" by (simp add: deliverable_demo_snapshot)
  have "ze_json_event zellij_demo line = Some (PaneUpdate line [[97]] False)" for line
    by (simp add: zellij_demo_def)
  then show "list_all (fit_event zellij_demo zellij_demo_session (Id 48)) [(StreamLine (lit ''terminal_0'') True, (0, False))]"
    using demo_screen by (auto simp: fit_event_def)
qed

end
