(* ===== verification/Session_Store.thy ===== *)
theory Session_Store
  imports Foreign_Session "HOL-Library.Multiset" "HOL-Library.Product_Lexorder" "HOL-Library.List_Lexorder"
begin

text \<open>
  The store of saved sessions and of session routes (\<open>legacy.rs\<close> and \<open>legacy/\<close> of the crate
  \<open>terminal-persistence\<close>). SQLite and \<open>serde_json\<close> are parameters: whether a statement is accepted,
  and how a value is written and read. What the statements of the source do to their two tables is
  written out. A transaction that fails leaves the tables as they were.
\<close>

section \<open>What is stored\<close>

type_synonym i64 = "64 word"

record saved_native_session =
  sv_session_id :: session_id
  sv_route :: session_route
  sv_title :: "rstr option"
  sv_launch :: "shell_launch_spec option"
  sv_manifest :: saved_session_manifest
  sv_topology :: topology_snapshot
  sv_screens :: "screen_snapshot list"
  sv_saved_at_ms :: i64

record saved_session_summary =
  ss_session_id :: session_id
  ss_route :: session_route
  ss_title :: "rstr option"
  ss_saved_at_ms :: i64
  ss_manifest :: saved_session_manifest
  ss_has_launch :: bool
  ss_tab_count :: nat
  ss_pane_count :: nat

record pruned_saved_sessions =
  pr_deleted_count :: nat
  pr_kept_count :: nat

record session_route_record =
  rr_session_id :: session_id
  rr_route :: session_route
  rr_fingerprint :: rstr

datatype persistence_error =
    NoProjectDir
  | IoError rstr
  | InvalidData rstr
  | SqliteError rstr
  | MigrationError rstr
  | SerdeError rstr
  | TimeError rstr

fun persistence_error_text :: "persistence_error \<Rightarrow> rstr" where
  "persistence_error_text NoProjectDir = lit ''persistence home path unavailable''"
| "persistence_error_text (IoError e) = lit ''io: '' @ e"
| "persistence_error_text (InvalidData e) = lit ''invalid persisted data: '' @ e"
| "persistence_error_text (SqliteError e) = lit ''sqlite: '' @ e"
| "persistence_error_text (MigrationError e) = lit ''migration: '' @ e"
| "persistence_error_text (SerdeError e) = lit ''serde: '' @ e"
| "persistence_error_text (TimeError e) = lit ''time: '' @ e"

section \<open>The environment and the tables\<close>

text \<open>The rows of \<open>native_saved_sessions\<close> and of \<open>session_routes\<close>, in the order SQLite scans them.\<close>

record saved_row =
  sw_session_id :: rstr
  sw_route_json :: rstr
  sw_title :: "rstr option"
  sw_launch_json :: rstr
  sw_manifest_json :: rstr
  sw_topology_json :: rstr
  sw_screens_json :: rstr
  sw_saved_at_ms :: i64

record route_row =
  rw_session_id :: rstr
  rw_route_json :: rstr
  rw_fingerprint :: rstr

record store_tables =
  st_saved :: "saved_row list"
  st_routes :: "route_row list"

record 'a json_codec =
  to_json :: "'a \<Rightarrow> rstr + rstr"
  from_json :: "rstr \<Rightarrow> rstr + 'a"

datatype sql_step =
    SqlConnect | SqlMigrate | SqlColumns | SqlAlter | SqlBegin | SqlCommit
  | SqlUpsertSaved | SqlLoadSaved | SqlListSaved | SqlDeleteSaved | SqlPruneSaved | SqlCountSaved
  | SqlUpsertRoute | SqlLoadRoute | SqlLoadRouteByFingerprint

text \<open>
  \<open>se_sql\<close>: what SQLite answers to a step, \<open>None\<close> is success; \<open>se_columns\<close> the columns of the
  table it reports; \<open>se_failpoint\<close> the failpoint \<open>saved_session_legacy_publish_before_commit\<close>.
\<close>

record 'w store_env =
  se_sql :: "sql_step \<Rightarrow> 'w \<Rightarrow> persistence_error option \<times> 'w"
  se_columns :: "'w \<Rightarrow> rstr list"
  se_sleep :: "nat \<Rightarrow> 'w \<Rightarrow> 'w"
  se_failpoint :: bool
  se_uuid_text :: "uuid \<Rightarrow> rstr"
  se_uuid_parse :: "rstr \<Rightarrow> rstr + uuid"
  se_route :: "session_route json_codec"
  se_launch :: "shell_launch_spec option json_codec"
  se_manifest :: "saved_session_manifest json_codec"
  se_topology :: "topology_snapshot json_codec"
  se_screens :: "screen_snapshot list json_codec"

type_synonym ('w, 'a) store_io = "('w \<times> store_tables, persistence_error, 'a) effect"

definition sql :: "'w store_env \<Rightarrow> sql_step \<Rightarrow> ('w, unit) store_io" where
  "sql env step = (\<lambda>(w, t). case se_sql env step w of
     (None, w1) \<Rightarrow> (Inr (), (w1, t)) | (Some e, w1) \<Rightarrow> (Inl e, (w1, t)))"

definition tables :: "(store_tables \<Rightarrow> persistence_error + 'a \<times> store_tables) \<Rightarrow> ('w, 'a) store_io" where
  "tables f = (\<lambda>(w, t). case f t of Inl e \<Rightarrow> (Inl e, (w, t)) | Inr (x, t1) \<Rightarrow> (Inr x, (w, t1)))"

definition serde :: "rstr + 'a \<Rightarrow> persistence_error + 'a" where
  "serde r = (case r of Inl e \<Rightarrow> Inl (SerdeError e) | Inr x \<Rightarrow> Inr x)"

text \<open>A transaction: its changes are kept where everything in it succeeds, the commit included.\<close>

definition transaction :: "'w store_env \<Rightarrow> ('w, 'a) store_io \<Rightarrow> ('w, 'a) store_io" where
  "transaction env body st =
     (case io_bind (sql env SqlBegin) (\<lambda>_. io_bind body (\<lambda>x. io_bind (sql env SqlCommit) (\<lambda>_. io_ok x))) st of
        (Inl e, (w, t)) \<Rightarrow> (Inl e, (w, snd st))
      | (Inr x, st1) \<Rightarrow> (Inr x, st1))"

section \<open>Opening\<close>

definition is_retryable_text :: "rstr \<Rightarrow> bool" where
  "is_retryable_text e \<longleftrightarrow>
     (let message = map ascii_lower e in
      contains_str (lit ''database is locked'') message \<or>
      contains_str (lit ''database table is locked'') message \<or>
      contains_str (lit ''database busy'') message \<or>
      contains_str (lit ''locking protocol'') message)"

definition is_retryable_persistence_error :: "persistence_error \<Rightarrow> bool" where
  "is_retryable_persistence_error e \<longleftrightarrow> is_retryable_text (persistence_error_text e)"

text \<open>At most 80 attempts, each after a pause: \<open>attempts\<close> are left.\<close>

fun retry_from ::
    "'w store_env \<Rightarrow> ('w, 'a) store_io \<Rightarrow> persistence_error option \<Rightarrow> nat \<Rightarrow> ('w, 'a) store_io" where
  "retry_from env operation last_error 0 st =
     (Inl (unwrap_or (InvalidData (lit ''sqlite operation retry exhausted'')) last_error), st)"
| "retry_from env operation last_error (Suc attempts) st =
     (case operation st of
        (Inr x, st1) \<Rightarrow> (Inr x, st1)
      | (Inl e, (w, t)) \<Rightarrow>
          if is_retryable_persistence_error e
          then retry_from env operation (Some e) attempts (se_sleep env (10 + min (79 - attempts) 20 * 5) w, t)
          else (Inl e, (w, t)))"

definition retry_persistence_operation :: "'w store_env \<Rightarrow> ('w, 'a) store_io \<Rightarrow> ('w, 'a) store_io" where
  "retry_persistence_operation env operation = retry_from env operation None 80"

definition duplicate_column_error :: "persistence_error \<Rightarrow> bool" where
  "duplicate_column_error e =
     (case e of SqliteError m \<Rightarrow> contains_str (lit ''duplicate column name'') m | _ \<Rightarrow> False)"

definition ensure_manifest_column :: "'w store_env \<Rightarrow> ('w, unit) store_io" where
  "ensure_manifest_column env =
     io_bind (sql env SqlColumns) (\<lambda>_ st.
       if lit ''manifest_json'' \<in> set (se_columns env (fst st)) then (Inr (), st)
       else case sql env SqlAlter st of
              (Inr _, st1) \<Rightarrow> (Inr (), st1)
            | (Inl e, st1) \<Rightarrow> if duplicate_column_error e then (Inr (), st1) else (Inl e, st1))"

text \<open>Nothing in the section of \<open>legacy_schema_lock\<close> panics, so the lock is never poisoned.\<close>

definition ensure_schema :: "'w store_env \<Rightarrow> ('w, unit) store_io" where
  "ensure_schema env =
     io_bind (sql env SqlConnect) (\<lambda>_.
     io_bind (sql env SqlMigrate) (\<lambda>_. ensure_manifest_column env))"

definition open_connection :: "'w store_env \<Rightarrow> ('w, unit) store_io" where
  "open_connection env =
     io_bind (retry_persistence_operation env (ensure_schema env)) (\<lambda>_. sql env SqlConnect)"

section \<open>Saved sessions\<close>

definition session_key :: "'w store_env \<Rightarrow> session_id \<Rightarrow> rstr" where
  "session_key env sid = se_uuid_text env (id_uuid sid)"

definition saved_row_of :: "'w store_env \<Rightarrow> saved_native_session \<Rightarrow> persistence_error + saved_row" where
  "saved_row_of env s =
     bind_result (serde (to_json (se_route env) (sv_route s))) (\<lambda>route.
     bind_result (serde (to_json (se_launch env) (sv_launch s))) (\<lambda>launch.
     bind_result (serde (to_json (se_manifest env) (sv_manifest s))) (\<lambda>manifest.
     bind_result (serde (to_json (se_topology env) (sv_topology s))) (\<lambda>topology.
     bind_result (serde (to_json (se_screens env) (sv_screens s))) (\<lambda>screens.
       Inr \<lparr>sw_session_id = session_key env (sv_session_id s), sw_route_json = route, sw_title = sv_title s,
            sw_launch_json = launch, sw_manifest_json = manifest, sw_topology_json = topology,
            sw_screens_json = screens, sw_saved_at_ms = sv_saved_at_ms s\<rparr>)))))"

text \<open>\<open>INSERT ... ON CONFLICT(session_id) DO UPDATE\<close>.\<close>

definition upsert :: "('a \<Rightarrow> 'k) \<Rightarrow> 'a \<Rightarrow> 'a list \<Rightarrow> 'a list" where
  "upsert key row rows =
     (if key row \<in> set (map key rows) then map (\<lambda>r. if key r = key row then row else r) rows
      else rows @ [row])"

definition save_native_session :: "'w store_env \<Rightarrow> saved_native_session \<Rightarrow> ('w, unit) store_io" where
  "save_native_session env s =
     (if se_failpoint env
      then io_err (InvalidData (lit ''failpoint saved_session_legacy_publish_before_commit''))
      else io_bind (open_connection env) (\<lambda>_.
        transaction env
          (io_bind (io_lift (saved_row_of env s)) (\<lambda>row.
           io_bind (sql env SqlUpsertSaved) (\<lambda>_.
             tables (\<lambda>t. Inr ((), t\<lparr>st_saved := upsert sw_session_id row (st_saved t)\<rparr>)))))))"

definition decode_saved_native_session ::
    "'w store_env \<Rightarrow> session_id \<Rightarrow> saved_row \<Rightarrow> persistence_error + saved_native_session" where
  "decode_saved_native_session env sid row =
     bind_result (serde (from_json (se_route env) (sw_route_json row))) (\<lambda>route.
     bind_result (serde (from_json (se_launch env) (sw_launch_json row))) (\<lambda>launch.
     bind_result (serde (from_json (se_manifest env) (sw_manifest_json row))) (\<lambda>manifest.
     bind_result (serde (from_json (se_topology env) (sw_topology_json row))) (\<lambda>topology.
     bind_result (serde (from_json (se_screens env) (sw_screens_json row))) (\<lambda>screens.
       Inr \<lparr>sv_session_id = sid, sv_route = route, sv_title = sw_title row, sv_launch = launch,
            sv_manifest = manifest, sv_topology = topology, sv_screens = screens,
            sv_saved_at_ms = sw_saved_at_ms row\<rparr>)))))"

definition load_native_session ::
    "'w store_env \<Rightarrow> session_id \<Rightarrow> ('w, saved_native_session option) store_io" where
  "load_native_session env sid =
     io_bind (open_connection env) (\<lambda>_.
     io_bind (sql env SqlLoadSaved) (\<lambda>_ st.
       case find (\<lambda>row. sw_session_id row = session_key env sid) (st_saved (snd st)) of
         None \<Rightarrow> (Inr None, st)
       | Some row \<Rightarrow> io_lift (bind_result (decode_saved_native_session env sid row) (\<lambda>s. Inr (Some s))) st))"

fun pane_count :: "pane_tree_node \<Rightarrow> nat" where
  "pane_count (PLeaf p) = 1"
| "pane_count (PSplit d a b) = pane_count a + pane_count b"

definition decode_saved_session_summary_row ::
    "'w store_env \<Rightarrow> saved_row \<Rightarrow> persistence_error + saved_session_summary" where
  "decode_saved_session_summary_row env row =
     bind_result (serde (from_json (se_route env) (sw_route_json row))) (\<lambda>route.
     bind_result (serde (from_json (se_launch env) (sw_launch_json row))) (\<lambda>launch.
     bind_result (serde (from_json (se_manifest env) (sw_manifest_json row))) (\<lambda>manifest.
     bind_result (serde (from_json (se_topology env) (sw_topology_json row))) (\<lambda>topology.
     bind_result (case se_uuid_parse env (sw_session_id row) of
         Inl e \<Rightarrow> Inl (InvalidData (lit ''invalid saved session id `'' @ sw_session_id row @ lit ''` - '' @ e))
       | Inr u \<Rightarrow> Inr (Id u)) (\<lambda>sid.
       Inr \<lparr>ss_session_id = sid, ss_route = route, ss_title = sw_title row,
            ss_saved_at_ms = sw_saved_at_ms row, ss_manifest = manifest, ss_has_launch = (launch \<noteq> None),
            ss_tab_count = length (tp_tabs topology),
            ss_pane_count = sum_list (map (\<lambda>tab. pane_count (ts_root tab)) (tp_tabs topology))\<rparr>)))))"

text \<open>\<open>ORDER BY saved_at_ms DESC\<close>; a row that cannot be read is left out.\<close>

definition list_native_sessions :: "'w store_env \<Rightarrow> ('w, saved_session_summary list) store_io" where
  "list_native_sessions env =
     io_bind (open_connection env) (\<lambda>_.
     io_bind (sql env SqlListSaved) (\<lambda>_ st.
       (Inr (List.map_filter (\<lambda>row. case decode_saved_session_summary_row env row of
               Inr s \<Rightarrow> Some s | Inl e \<Rightarrow> None)
             (sort_key (\<lambda>row. - sint (sw_saved_at_ms row)) (st_saved (snd st)))), st)))"

definition delete_native_session :: "'w store_env \<Rightarrow> session_id \<Rightarrow> ('w, bool) store_io" where
  "delete_native_session env sid =
     io_bind (open_connection env) (\<lambda>_.
     io_bind (sql env SqlDeleteSaved) (\<lambda>_.
       tables (\<lambda>t. Inr (list_ex (\<lambda>row. sw_session_id row = session_key env sid) (st_saved t),
         t\<lparr>st_saved := filter (\<lambda>row. sw_session_id row \<noteq> session_key env sid) (st_saved t)\<rparr>))))"

text \<open>
  \<open>ORDER BY saved_at_ms DESC, session_id DESC LIMIT -1 OFFSET keep_latest as i64\<close>: the offset is
  signed and SQLite takes a negative one for 0.
\<close>

definition newest_first :: "saved_row list \<Rightarrow> saved_row list" where
  "newest_first rows = rev (sort_key (\<lambda>row. (sint (sw_saved_at_ms row), sw_session_id row)) rows)"

definition sql_offset :: "u64 \<Rightarrow> nat" where
  "sql_offset keep_latest = nat (sint keep_latest)"

definition pruned_rows :: "u64 \<Rightarrow> saved_row list \<Rightarrow> saved_row list" where
  "pruned_rows keep_latest rows = drop (sql_offset keep_latest) (newest_first rows)"

definition prune_native_sessions :: "'w store_env \<Rightarrow> u64 \<Rightarrow> ('w, pruned_saved_sessions) store_io" where
  "prune_native_sessions env keep_latest =
     io_bind (open_connection env) (\<lambda>_.
     transaction env
       (io_bind (sql env SqlPruneSaved) (\<lambda>_.
        io_bind (tables (\<lambda>t.
          let doomed = map sw_session_id (pruned_rows keep_latest (st_saved t));
              kept = filter (\<lambda>row. sw_session_id row \<notin> set doomed) (st_saved t)
          in Inr (length (st_saved t) - length kept, t\<lparr>st_saved := kept\<rparr>))) (\<lambda>deleted_count.
        io_bind (sql env SqlCountSaved) (\<lambda>_ st.
          (Inr \<lparr>pr_deleted_count = deleted_count, pr_kept_count = length (st_saved (snd st))\<rparr>, st))))))"

section \<open>Routes\<close>

definition route_unique_error :: persistence_error where
  "route_unique_error = SqliteError (lit ''UNIQUE constraint failed: session_routes.route_fingerprint'')"

definition upsert_session_route :: "'w store_env \<Rightarrow> session_route_record \<Rightarrow> ('w, unit) store_io" where
  "upsert_session_route env r =
     io_bind (open_connection env) (\<lambda>_.
     transaction env
       (io_bind (io_lift (serde (to_json (se_route env) (rr_route r)))) (\<lambda>route_json.
        io_bind (sql env SqlUpsertRoute) (\<lambda>_.
          tables (\<lambda>t.
            let key = session_key env (rr_session_id r) in
            if list_ex (\<lambda>row. rw_fingerprint row = rr_fingerprint r \<and> rw_session_id row \<noteq> key) (st_routes t)
            then Inl route_unique_error
            else Inr ((), t\<lparr>st_routes := upsert rw_session_id
                   \<lparr>rw_session_id = key, rw_route_json = route_json, rw_fingerprint = rr_fingerprint r\<rparr> (st_routes t)\<rparr>))))))"

definition load_session_route ::
    "'w store_env \<Rightarrow> session_id \<Rightarrow> ('w, session_route_record option) store_io" where
  "load_session_route env sid =
     io_bind (open_connection env) (\<lambda>_.
     io_bind (sql env SqlLoadRoute) (\<lambda>_ st.
       case find (\<lambda>row. rw_session_id row = session_key env sid) (st_routes (snd st)) of
         None \<Rightarrow> (Inr None, st)
       | Some row \<Rightarrow>
           io_lift (bind_result (serde (from_json (se_route env) (rw_route_json row))) (\<lambda>route.
             Inr (Some \<lparr>rr_session_id = sid, rr_route = route, rr_fingerprint = rw_fingerprint row\<rparr>))) st))"

definition load_session_route_by_fingerprint ::
    "'w store_env \<Rightarrow> rstr \<Rightarrow> ('w, session_route_record option) store_io" where
  "load_session_route_by_fingerprint env fingerprint =
     io_bind (open_connection env) (\<lambda>_.
     io_bind (sql env SqlLoadRouteByFingerprint) (\<lambda>_ st.
       case find (\<lambda>row. rw_fingerprint row = fingerprint) (st_routes (snd st)) of
         None \<Rightarrow> (Inr None, st)
       | Some row \<Rightarrow>
           io_lift (bind_result (case se_uuid_parse env (rw_session_id row) of
               Inl e \<Rightarrow> Inl (InvalidData (lit ''invalid session route id `'' @ rw_session_id row @ lit ''` - '' @ e))
             | Inr u \<Rightarrow> Inr (Id u)) (\<lambda>sid.
           bind_result (serde (from_json (se_route env) (rw_route_json row))) (\<lambda>route.
             Inr (Some \<lparr>rr_session_id = sid, rr_route = route, rr_fingerprint = fingerprint\<rparr>)))) st))"

section \<open>What an operation changes\<close>

definition keeps_tables :: "('w, 'a) store_io \<Rightarrow> bool" where
  "keeps_tables m \<longleftrightarrow> (\<forall>st. snd (snd (m st)) = snd st)"

lemma io_bind_InrE:
  assumes "io_bind m f w = (Inr y, w2)"
  obtains x w1 where "m w = (Inr x, w1)" "f x w1 = (Inr y, w2)"
  using assms by (auto simp: io_bind_def split: prod.splits sum.splits)

lemma keeps_tablesD: "keeps_tables m \<Longrightarrow> m st = (r, st1) \<Longrightarrow> snd st1 = snd st"
  by (metis keeps_tables_def snd_conv)

lemma keeps_sql: "keeps_tables (sql env step)"
  by (auto simp: keeps_tables_def sql_def split: prod.split option.split)

lemma keeps_bind: "keeps_tables m \<Longrightarrow> (\<And>x. keeps_tables (f x)) \<Longrightarrow> keeps_tables (io_bind m f)"
  unfolding keeps_tables_def io_bind_def by (auto split: prod.split sum.split) (metis snd_conv)+

lemma keeps_retry: "keeps_tables operation \<Longrightarrow> keeps_tables (retry_persistence_operation env operation)"
proof -
  assume op: "keeps_tables operation"
  have "snd (snd (retry_from env operation last_error n st)) = snd st" for last_error n st
  proof (induction n arbitrary: last_error st)
    case (Suc n)
    obtain r w t where run: "operation st = (r, w, t)" by (cases "operation st")
    have "t = snd st" using keeps_tablesD [OF op run] by simp
    then show ?case using Suc by (cases r) (simp_all add: run)
  qed simp
  then show ?thesis by (simp add: keeps_tables_def retry_persistence_operation_def)
qed

lemma keeps_manifest_column: "keeps_tables (ensure_manifest_column env)"
proof -
  have "keeps_tables (\<lambda>st. case sql env SqlAlter st of (Inr _, st1) \<Rightarrow> (Inr (), st1)
      | (Inl e, st1) \<Rightarrow> if duplicate_column_error e then (Inr (), st1) else (Inl e, st1))"
    unfolding keeps_tables_def using keeps_tablesD [OF keeps_sql, of env SqlAlter]
    by (auto split: prod.split sum.split)
  then have "keeps_tables (\<lambda>st. if lit ''manifest_json'' \<in> set (se_columns env (fst st)) then (Inr (), st)
       else case sql env SqlAlter st of (Inr _, st1) \<Rightarrow> (Inr (), st1)
         | (Inl e, st1) \<Rightarrow> if duplicate_column_error e then (Inr (), st1) else (Inl e, st1))"
    by (simp add: keeps_tables_def)
  then show ?thesis unfolding ensure_manifest_column_def by (intro keeps_bind keeps_sql)
qed

lemma keeps_open: "keeps_tables (open_connection env)"
  unfolding open_connection_def ensure_schema_def
  by (intro keeps_bind keeps_sql keeps_retry keeps_manifest_column)

lemma open_tables: "open_connection env st = (r, st1) \<Longrightarrow> snd st1 = snd st"
  by (rule keeps_tablesD [OF keeps_open])

lemma sql_tables: "sql env step st = (r, st1) \<Longrightarrow> snd st1 = snd st"
  by (rule keeps_tablesD [OF keeps_sql])

lemma transaction_Inr:
  assumes "transaction env body st = (Inr x, st1)"
  obtains st2 st3 where "snd st2 = snd st" "body st2 = (Inr x, st3)" "snd st1 = snd st3"
proof -
  have "io_bind (sql env SqlBegin) (\<lambda>_. io_bind body (\<lambda>x. io_bind (sql env SqlCommit) (\<lambda>_. io_ok x))) st
      = (Inr x, st1)"
    using assms by (simp add: transaction_def split: prod.splits sum.splits)
  then obtain u st2 where 1: "sql env SqlBegin st = (Inr u, st2)"
    "io_bind body (\<lambda>x. io_bind (sql env SqlCommit) (\<lambda>_. io_ok x)) st2 = (Inr x, st1)"
    by (rule io_bind_InrE)
  obtain y st3 where 2: "body st2 = (Inr y, st3)"
    "io_bind (sql env SqlCommit) (\<lambda>_. io_ok y) st3 = (Inr x, st1)"
    by (rule io_bind_InrE [OF 1(2)])
  obtain v st4 where 3: "sql env SqlCommit st3 = (Inr v, st4)" "y = x" "st4 = st1"
    by (rule io_bind_InrE [OF 2(2)]) (simp add: that)
  show thesis
  proof (rule that)
    show "snd st2 = snd st" by (rule sql_tables [OF 1(1)])
    show "body st2 = (Inr x, st3)" using 2(1) 3(2) by simp
    show "snd st1 = snd st3" using sql_tables [OF 3(1)] 3(3) by simp
  qed
qed

lemma transaction_Inl: "transaction env body st = (Inl e, st1) \<Longrightarrow> snd st1 = snd st"
  by (auto simp: transaction_def split: prod.splits sum.splits)

lemma tables_Inr: "tables f st = (Inr x, st1) \<longleftrightarrow> f (snd st) = Inr (x, snd st1) \<and> fst st1 = fst st"
  by (cases st; cases st1) (auto simp: tables_def split: sum.splits)

section \<open>Saving and loading\<close>

definition codec_ok :: "'a json_codec \<Rightarrow> bool" where
  "codec_ok c \<longleftrightarrow> (\<forall>x s. to_json c x = Inr s \<longrightarrow> from_json c s = Inr x)"

definition codecs_ok :: "'w store_env \<Rightarrow> bool" where
  "codecs_ok env \<longleftrightarrow> codec_ok (se_route env) \<and> codec_ok (se_launch env) \<and> codec_ok (se_manifest env) \<and>
     codec_ok (se_topology env) \<and> codec_ok (se_screens env) \<and> inj (se_uuid_text env)"

lemma serde_Inr: "serde r = Inr x \<longleftrightarrow> r = Inr x"
  by (simp add: serde_def split: sum.split)

lemma decode_saved_row:
  assumes "codecs_ok env" "saved_row_of env s = Inr row"
  shows "decode_saved_native_session env (sv_session_id s) row = Inr s"
    "sw_session_id row = session_key env (sv_session_id s)"
  using assms
  by (auto simp: saved_row_of_def decode_saved_native_session_def bind_result_Inr_iff serde_Inr codecs_ok_def codec_ok_def)

lemma session_key_eq: "codecs_ok env \<Longrightarrow> session_key env a = session_key env b \<longleftrightarrow> a = b"
  by (auto simp: codecs_ok_def session_key_def inj_eq intro: uuid_id.expand)

lemma find_upsert: "find (\<lambda>r. key r = k) (upsert key row rows) =
    (if key row = k then Some row else find (\<lambda>r. key r = k) rows)"
proof -
  have map: "find (\<lambda>r. key r = k) (map (\<lambda>r. if key r = key row then row else r) rs) =
      (if key row = k \<and> k \<in> set (map key rs) then Some row else find (\<lambda>r. key r = k) rs)" for rs
    by (induction rs) auto
  have none: "find (\<lambda>r. key r = k) rs = None \<longleftrightarrow> k \<notin> set (map key rs)" for k rs
    by (auto simp: find_None_iff)
  have "find (\<lambda>r. key r = k) (rs @ [row]) =
      (case find (\<lambda>r. key r = k) rs of Some r \<Rightarrow> Some r | None \<Rightarrow> if key row = k then Some row else None)" for k rs
    by (induction rs) auto
  note new = this
  show ?thesis
  proof (cases "key row \<in> set (map key rows)")
    case True
    then show ?thesis using map [of rows] by (auto simp: upsert_def)
  next
    case False
    have "find (\<lambda>r. key r = key row) rows = None" using False none [of "key row" rows] by simp
    then show ?thesis using False new [of k rows] by (auto simp: upsert_def split: option.splits)
  qed
qed

definition put_saved :: "'w store_env \<Rightarrow> saved_row \<Rightarrow> ('w, unit) store_io" where
  "put_saved env row = io_bind (sql env SqlUpsertSaved) (\<lambda>_.
     tables (\<lambda>t. Inr ((), t\<lparr>st_saved := upsert sw_session_id row (st_saved t)\<rparr>)))"

lemma put_saved_Inr:
  assumes "put_saved env row st = (Inr (), st1)"
  shows "snd st1 = (snd st)\<lparr>st_saved := upsert sw_session_id row (st_saved (snd st))\<rparr>"
proof -
  obtain u st2 where 1: "sql env SqlUpsertSaved st = (Inr u, st2)"
    "tables (\<lambda>t. Inr ((), t\<lparr>st_saved := upsert sw_session_id row (st_saved t)\<rparr>)) st2 = (Inr (), st1)"
    by (rule io_bind_InrE [OF assms [unfolded put_saved_def]])
  then show ?thesis using sql_tables [OF 1(1)] by (simp add: tables_Inr)
qed

lemma save_Inr:
  assumes "save_native_session env s st = (Inr (), st1)"
  obtains row where "saved_row_of env s = Inr row"
    "snd st1 = (snd st)\<lparr>st_saved := upsert sw_session_id row (st_saved (snd st))\<rparr>"
proof -
  have "io_bind (open_connection env) (\<lambda>_. transaction env
      (io_bind (io_lift (saved_row_of env s)) (put_saved env))) st = (Inr (), st1)"
    using assms by (simp add: save_native_session_def put_saved_def [abs_def] split: if_splits)
  then obtain u st2 where 1: "open_connection env st = (Inr u, st2)"
    "transaction env (io_bind (io_lift (saved_row_of env s)) (put_saved env)) st2 = (Inr (), st1)"
    by (rule io_bind_InrE)
  obtain st3 st4 where 2: "snd st3 = snd st2" "snd st1 = snd st4"
    "io_bind (io_lift (saved_row_of env s)) (put_saved env) st3 = (Inr (), st4)"
    using transaction_Inr [OF 1(2)] .
  obtain row st5 where 3: "io_lift (saved_row_of env s) st3 = (Inr row, st5)" "put_saved env row st5 = (Inr (), st4)"
    by (rule io_bind_InrE [OF 2(3)])
  show thesis
  proof (rule that)
    show "saved_row_of env s = Inr row" using 3(1) by simp
    show "snd st1 = (snd st)\<lparr>st_saved := upsert sw_session_id row (st_saved (snd st))\<rparr>"
      using put_saved_Inr [OF 3(2)] 3(1) 2(1,2) open_tables [OF 1(1)] by simp
  qed
qed

lemma load_Inr:
  assumes "load_native_session env sid st = (Inr r, st1)"
  shows "snd st1 = snd st \<and> (case find (\<lambda>row. sw_session_id row = session_key env sid) (st_saved (snd st)) of
      None \<Rightarrow> r = None | Some row \<Rightarrow> (\<exists>s. decode_saved_native_session env sid row = Inr s \<and> r = Some s))"
proof -
  let ?found = "\<lambda>st. case find (\<lambda>row. sw_session_id row = session_key env sid) (st_saved (snd st)) of
         None \<Rightarrow> (Inr None, st)
       | Some row \<Rightarrow> io_lift (bind_result (decode_saved_native_session env sid row) (\<lambda>s. Inr (Some s))) st"
  obtain u st2 where 1: "open_connection env st = (Inr u, st2)"
    "io_bind (sql env SqlLoadSaved) (\<lambda>_. ?found) st2 = (Inr r, st1)"
    by (rule io_bind_InrE [OF assms [unfolded load_native_session_def]])
  obtain v st3 where 2: "sql env SqlLoadSaved st2 = (Inr v, st3)" "?found st3 = (Inr r, st1)"
    by (rule io_bind_InrE [OF 1(2)])
  have "snd st3 = snd st" using open_tables [OF 1(1)] sql_tables [OF 2(1)] by simp
  then show ?thesis using 2(2)
    by (cases "find (\<lambda>row. sw_session_id row = session_key env sid) (st_saved (snd st))")
      (auto simp: bind_result_Inr_iff)
qed

text \<open>
  C38. What is saved is loaded: after a successful save, a load of that session that succeeds returns
  exactly what was saved, and a load of any other session returns what it would have before.
\<close>
theorem saved_session_roundtrip:
  assumes "codecs_ok env" "save_native_session env s st = (Inr (), st1)"
    and "load_native_session env sid (w, snd st1) = (Inr r, st2)"
  shows "(if sid = sv_session_id s then r = Some s
    else (case find (\<lambda>row. sw_session_id row = session_key env sid) (st_saved (snd st)) of
        None \<Rightarrow> r = None | Some row \<Rightarrow> (\<exists>old. decode_saved_native_session env sid row = Inr old \<and> r = Some old)))
    \<and> snd st2 = snd st1"
proof -
  obtain row where row: "saved_row_of env s = Inr row"
    "snd st1 = (snd st)\<lparr>st_saved := upsert sw_session_id row (st_saved (snd st))\<rparr>"
    using save_Inr [OF assms(2)] .
  then show ?thesis
    using load_Inr [OF assms(3)] decode_saved_row [OF assms(1) row(1)] session_key_eq [OF assms(1)]
    by (auto simp: find_upsert)
qed


section \<open>A store that accepts every statement\<close>

text \<open>Its codecs write only the values of one session.\<close>

definition one_codec :: "'a \<Rightarrow> 'a json_codec" where
  "one_codec v = \<lparr>to_json = (\<lambda>x. if x = v then Inr [] else Inl []), from_json = (\<lambda>s. Inr v)\<rparr>"

definition demo_saved :: saved_native_session where
  "demo_saved =
     \<lparr>sv_session_id = Id 7, sv_route = local_native_route (\<lambda>u. [unat u]) (Id 7), sv_title = Some (lit ''work''),
      sv_launch = None,
      sv_manifest = \<lparr>format_version = 1, binary_version = lit ''0.1.0'', protocol_major = 0, protocol_minor = 1\<rparr>,
      sv_topology = \<lparr>tp_session_id = Id 7, tp_backend_kind = Native, tp_tabs = [], tp_focused_tab = None\<rparr>,
      sv_screens = [], sv_saved_at_ms = 5\<rparr>"

definition demo_store :: "nat store_env" where
  "demo_store =
     \<lparr>se_sql = (\<lambda>step w. (None, w)), se_columns = (\<lambda>w. [lit ''manifest_json'']), se_sleep = (\<lambda>ms w. w + ms),
      se_failpoint = False, se_uuid_text = (\<lambda>u. [unat u]), se_uuid_parse = (\<lambda>s. Inl []),
      se_route = one_codec (sv_route demo_saved), se_launch = one_codec None,
      se_manifest = one_codec (sv_manifest demo_saved), se_topology = one_codec (sv_topology demo_saved),
      se_screens = one_codec []\<rparr>"

definition demo_row :: "rstr \<Rightarrow> i64 \<Rightarrow> saved_row" where
  "demo_row key at_ms =
     \<lparr>sw_session_id = key, sw_route_json = [], sw_title = Some (lit ''work''), sw_launch_json = [], sw_manifest_json = [],
      sw_topology_json = [], sw_screens_json = [], sw_saved_at_ms = at_ms\<rparr>"

lemma demo_sql [simp]: "sql demo_store step st = (Inr (), st)"
  by (cases st) (simp add: sql_def demo_store_def)

lemma retry_first: "operation st = (Inr x, st1) \<Longrightarrow> retry_persistence_operation env operation st = (Inr x, st1)"
  using retry_from.simps(2) [of env operation None 79 st] by (simp add: retry_persistence_operation_def)

lemma demo_opens [simp]: "open_connection demo_store st = (Inr (), st)"
proof -
  have "ensure_schema demo_store st = (Inr (), st)"
    by (simp add: ensure_schema_def ensure_manifest_column_def io_bind_def)
  then show ?thesis by (simp add: open_connection_def io_bind_def retry_first)
qed

lemma demo_codecs: "codecs_ok demo_store"
  by (auto simp: codecs_ok_def codec_ok_def demo_store_def one_codec_def inj_def word_unat_eq_iff)

lemma demo_row_of: "saved_row_of demo_store demo_saved = Inr (demo_row [7] 5)"
  by (simp add: saved_row_of_def demo_store_def one_codec_def demo_saved_def serde_def session_key_def demo_row_def)

lemma demo_saves: "save_native_session demo_store demo_saved (0, \<lparr>st_saved = [], st_routes = []\<rparr>) =
    (Inr (), (0, \<lparr>st_saved = [demo_row [7] 5], st_routes = []\<rparr>))"
proof -
  have "se_failpoint demo_store = False" by (simp add: demo_store_def)
  then show ?thesis
    by (simp add: save_native_session_def io_bind_def transaction_def tables_def upsert_def demo_row_of)
qed

lemma demo_loads: "load_native_session demo_store (Id 7) (0, snd (0, \<lparr>st_saved = [demo_row [7] 5], st_routes = []\<rparr>)) =
    (Inr (Some demo_saved), (0, \<lparr>st_saved = [demo_row [7] 5], st_routes = []\<rparr>))"
  using decode_saved_row(1) [OF demo_codecs demo_row_of]
  by (simp add: load_native_session_def io_bind_def demo_row_def)
    (simp add: session_key_def demo_store_def demo_saved_def demo_row_def)

theorem saved_session_roundtrip_witness:
  "load_native_session demo_store (Id 7) (0, snd (0, \<lparr>st_saved = [demo_row [7] 5], st_routes = []\<rparr>)) =
     (Inr (Some demo_saved), (0, \<lparr>st_saved = [demo_row [7] 5], st_routes = []\<rparr>))
   \<and> (Some demo_saved = Some demo_saved)"
  using saved_session_roundtrip [OF demo_codecs demo_saves demo_loads] demo_loads by simp

section \<open>Pruning\<close>

lemma newest_first_mset: "mset (newest_first rows) = mset rows"
  by (simp add: newest_first_def)

lemma newest_first_sorted:
  "i < j \<Longrightarrow> j < length (newest_first rows) \<Longrightarrow>
     sint (sw_saved_at_ms (newest_first rows ! j)) \<le> sint (sw_saved_at_ms (newest_first rows ! i))"
proof -
  let ?f = "\<lambda>row. (sint (sw_saved_at_ms row), sw_session_id row)" and ?n = "length rows"
  let ?s = "sort_key ?f rows"
  assume "i < j" "j < length (newest_first rows)"
  then have ij: "?n - Suc j \<le> ?n - Suc i" "?n - Suc i < ?n" "j < ?n" "i < ?n"
    by (auto simp: newest_first_def)
  have "sorted (map ?f ?s)" by simp
  then have "?f (?s ! (?n - Suc j)) \<le> ?f (?s ! (?n - Suc i))"
    using ij sorted_nth_mono [of "map ?f ?s" "?n - Suc j" "?n - Suc i"] by simp
  then show ?thesis using ij by (auto simp: newest_first_def rev_nth)
qed

lemma kept_rows:
  fixes rows keep
  defines "kept \<equiv> filter (\<lambda>row. sw_session_id row \<notin> set (map sw_session_id (pruned_rows keep rows))) rows"
  assumes "distinct (map sw_session_id rows)"
  shows "set kept = set (take (sql_offset keep) (newest_first rows))"
    and "length kept = min (sql_offset keep) (length rows)"
proof -
  let ?k = "sql_offset keep" and ?new = "newest_first rows"
  have sets: "set ?new = set rows" using newest_first_mset [of rows] by (metis set_mset_mset)
  have "mset (map sw_session_id ?new) = mset (map sw_session_id rows)" by (simp add: newest_first_mset)
  then have d: "distinct (map sw_session_id ?new)" using assms(2) mset_eq_imp_distinct_iff by metis
  then have split: "distinct (map sw_session_id (take ?k ?new) @ map sw_session_id (drop ?k ?new))"
    by (simp flip: map_append)
  have inj: "inj_on sw_session_id (set ?new)" using d by (simp add: distinct_map)
  show sets_eq: "set kept = set (take ?k ?new)"
  proof (intro set_eqI iffI)
    fix row assume "row \<in> set kept"
    then have "row \<in> set ?new" "row \<notin> set (drop ?k ?new)" using sets by (auto simp: kept_def pruned_rows_def)
    then show "row \<in> set (take ?k ?new)" by (metis Un_iff append_take_drop_id set_append)
  next
    fix row assume row: "row \<in> set (take ?k ?new)"
    then have "sw_session_id row \<notin> sw_session_id ` set (drop ?k ?new)" using split by auto
    then show "row \<in> set kept" using row sets by (auto simp: kept_def pruned_rows_def dest: in_set_takeD)
  qed
  have "distinct kept" using assms by (simp add: distinct_map kept_def)
  moreover have "distinct (take ?k ?new)" using d by (simp add: distinct_map)
  ultimately have "length kept = length (take ?k ?new)" using sets_eq distinct_card by metis
  then show "length kept = min (sql_offset keep) (length rows)"
    using mset_eq_length [OF newest_first_mset [of rows]] by simp
qed

lemma sql_offset_value: "sql_offset keep = (if unat keep < 2 ^ 63 then unat keep else 0)"
proof -
  have unsigned: "uint keep = sint keep mod 2 ^ 64"
    using uint_word_of_int [where 'a = 64, of "sint keep"] by simp
  have range: "- (2 ^ 63) \<le> sint keep" "sint keep < 2 ^ 63"
    using sint_ge [of keep] sint_lt [of keep] by simp_all
  have nat_value: "unat keep = nat (uint keep)" by simp
  show ?thesis
  proof (cases "0 \<le> sint keep")
    case True
    then have "uint keep = sint keep" using unsigned range by simp
    then show ?thesis using range True unfolding nat_value sql_offset_def by auto
  next
    case False
    have "sint keep mod 2 ^ 64 = (sint keep + 2 ^ 64) mod 2 ^ 64" by simp
    also have "\<dots> = sint keep + 2 ^ 64" using False range by (intro mod_pos_pos_trivial) simp_all
    finally have "uint keep = sint keep + 2 ^ 64" using unsigned by simp
    then show ?thesis using range False unfolding nat_value sql_offset_def by auto
  qed
qed

lemma prune_Inr:
  assumes "prune_native_sessions env keep (w, t) = (Inr p, (w1, t1))"
  defines "kept \<equiv> filter (\<lambda>row. sw_session_id row \<notin> set (map sw_session_id (pruned_rows keep (st_saved t)))) (st_saved t)"
  shows "t1 = t\<lparr>st_saved := kept\<rparr> \<and>
    p = \<lparr>pr_deleted_count = length (st_saved t) - length kept, pr_kept_count = length kept\<rparr>"
proof -
  obtain u st2 where 1: "open_connection env (w, t) = (Inr u, st2)"
    "transaction env (io_bind (sql env SqlPruneSaved) (\<lambda>_.
        io_bind (tables (\<lambda>t.
          let doomed = map sw_session_id (pruned_rows keep (st_saved t));
              kept = filter (\<lambda>row. sw_session_id row \<notin> set doomed) (st_saved t)
          in Inr (length (st_saved t) - length kept, t\<lparr>st_saved := kept\<rparr>))) (\<lambda>deleted_count.
        io_bind (sql env SqlCountSaved) (\<lambda>_ st.
          (Inr \<lparr>pr_deleted_count = deleted_count, pr_kept_count = length (st_saved (snd st))\<rparr>, st))))) st2
      = (Inr p, (w1, t1))"
    using assms(1) unfolding prune_native_sessions_def by (rule io_bind_InrE)
  obtain st3 st4 where 2: "snd st3 = snd st2" "snd (w1, t1) = snd st4"
    "io_bind (sql env SqlPruneSaved) (\<lambda>_.
        io_bind (tables (\<lambda>t.
          let doomed = map sw_session_id (pruned_rows keep (st_saved t));
              kept = filter (\<lambda>row. sw_session_id row \<notin> set doomed) (st_saved t)
          in Inr (length (st_saved t) - length kept, t\<lparr>st_saved := kept\<rparr>))) (\<lambda>deleted_count.
        io_bind (sql env SqlCountSaved) (\<lambda>_ st.
          (Inr \<lparr>pr_deleted_count = deleted_count, pr_kept_count = length (st_saved (snd st))\<rparr>, st)))) st3 = (Inr p, st4)"
    using transaction_Inr [OF 1(2)] .
  obtain v st5 where 3: "sql env SqlPruneSaved st3 = (Inr v, st5)"
    "io_bind (tables (\<lambda>t.
          let doomed = map sw_session_id (pruned_rows keep (st_saved t));
              kept = filter (\<lambda>row. sw_session_id row \<notin> set doomed) (st_saved t)
          in Inr (length (st_saved t) - length kept, t\<lparr>st_saved := kept\<rparr>))) (\<lambda>deleted_count.
        io_bind (sql env SqlCountSaved) (\<lambda>_ st.
          (Inr \<lparr>pr_deleted_count = deleted_count, pr_kept_count = length (st_saved (snd st))\<rparr>, st))) st5 = (Inr p, st4)"
    by (rule io_bind_InrE [OF 2(3)])
  have t: "snd st5 = t" using open_tables [OF 1(1)] 2(1) sql_tables [OF 3(1)] by simp
  obtain n st6 where 4: "n = length (st_saved t) - length kept" "snd st6 = t\<lparr>st_saved := kept\<rparr>"
    "io_bind (sql env SqlCountSaved) (\<lambda>_ st.
          (Inr \<lparr>pr_deleted_count = n, pr_kept_count = length (st_saved (snd st))\<rparr>, st)) st6 = (Inr p, st4)"
    by (rule io_bind_InrE [OF 3(2)]) (simp add: tables_Inr Let_def t that kept_def)
  obtain x st7 where 5: "sql env SqlCountSaved st6 = (Inr x, st7)" "st7 = st4"
    "p = \<lparr>pr_deleted_count = n, pr_kept_count = length (st_saved (snd st7))\<rparr>"
    by (rule io_bind_InrE [OF 4(3)]) (simp add: that)
  show ?thesis using 4(1,2) 5(2,3) sql_tables [OF 5(1)] 2(2) by auto
qed

text \<open>
  C39. Pruning keeps exactly the newest sessions: as many as asked, unless fewer are stored, and every
  one kept was saved no earlier than every one deleted; the counts it reports are exact. A limit of
  \<open>2 ^ 63\<close> or more is taken for a negative offset, and nothing is kept.
\<close>
theorem prune_keeps_newest:
  assumes "distinct (map sw_session_id (st_saved t))"
    and "prune_native_sessions env keep (w, t) = (Inr p, (w1, t1))"
  shows "length (st_saved t1) = (if unat keep < 2 ^ 63 then min (unat keep) (length (st_saved t)) else 0)
    \<and> pr_kept_count p = length (st_saved t1) \<and> pr_deleted_count p + pr_kept_count p = length (st_saved t)
    \<and> st_routes t1 = st_routes t
    \<and> (\<exists>doomed. mset (st_saved t) = mset (st_saved t1) + mset doomed
        \<and> list_all (\<lambda>kept. list_all (\<lambda>old. sint (sw_saved_at_ms old) \<le> sint (sw_saved_at_ms kept)) doomed) (st_saved t1))"
proof -
  let ?new = "newest_first (st_saved t)" and ?k = "sql_offset keep"
  let ?kept = "filter (\<lambda>row. sw_session_id row \<notin> set (map sw_session_id (pruned_rows keep (st_saved t)))) (st_saved t)"
  have tables: "t1 = t\<lparr>st_saved := ?kept\<rparr>" "p = \<lparr>pr_deleted_count = length (st_saved t) - length ?kept, pr_kept_count = length ?kept\<rparr>"
    using prune_Inr [OF assms(2)] by simp_all
  note kept = kept_rows [OF assms(1), of keep]
  have count: "length ?kept \<le> length (st_saved t)" by simp
  have new: "mset ?new = mset (st_saved t)" "length ?new = length (st_saved t)"
    using newest_first_mset mset_eq_length by metis+
  have "distinct ?new" "distinct ?kept" using assms(1) new(1) by (auto simp: distinct_map dest: mset_eq_imp_distinct_iff)
  then have "mset ?kept = mset (take ?k ?new)"
    using kept(1) set_eq_iff_mset_eq_distinct [of ?kept "take ?k ?new"] distinct_take by metis
  then have "mset (st_saved t) = mset ?kept + mset (drop ?k ?new)"
    using new(1) by (metis append_take_drop_id mset_append)
  moreover have "sint (sw_saved_at_ms old) \<le> sint (sw_saved_at_ms row)"
    if rows: "row \<in> set (take ?k ?new)" "old \<in> set (drop ?k ?new)" for row old
  proof -
    obtain i where i: "i < length (take ?k ?new)" "take ?k ?new ! i = row" using rows(1) unfolding in_set_conv_nth by blast
    obtain j where j: "j < length (drop ?k ?new)" "drop ?k ?new ! j = old" using rows(2) unfolding in_set_conv_nth by blast
    have "i < ?k + j" "?k + j < length ?new" using i(1) j(1) by auto
    then show ?thesis using newest_first_sorted [of i "?k + j" "st_saved t"] i j by simp
  qed
  ultimately show ?thesis
    using kept count tables by (auto simp: sql_offset_value list_all_iff intro!: exI [of _ "drop ?k ?new"])
qed

definition demo_tables :: store_tables where
  "demo_tables = \<lparr>st_saved = [demo_row [1] 10, demo_row [2] 30, demo_row [3] 20], st_routes = []\<rparr>"

lemma demo_prunes: "prune_native_sessions demo_store 1 (0, demo_tables) =
    (Inr \<lparr>pr_deleted_count = 2, pr_kept_count = 1\<rparr>, (0, \<lparr>st_saved = [demo_row [2] 30], st_routes = []\<rparr>))"
proof -
  have "map sw_session_id (pruned_rows 1 (st_saved demo_tables)) = [[3], [1]]"
    by (simp add: pruned_rows_def newest_first_def sql_offset_def demo_tables_def demo_row_def)
  then have "set (map sw_session_id (pruned_rows 1 (st_saved demo_tables))) = set [[3], [1]]" by (rule arg_cong)
  then have doomed: "sw_session_id ` set (pruned_rows 1 (st_saved demo_tables)) = {[3], [1]}" by simp
  show ?thesis
    by (simp add: prune_native_sessions_def io_bind_def transaction_def tables_def Let_def doomed)
      (simp add: demo_tables_def demo_row_def)
qed

theorem prune_keeps_newest_witness:
  "prune_native_sessions demo_store 1 (0, demo_tables) =
    (Inr \<lparr>pr_deleted_count = 2, pr_kept_count = 1\<rparr>, (0, \<lparr>st_saved = [demo_row [2] 30], st_routes = []\<rparr>))
   \<and> length (st_saved demo_tables) = 3
   \<and> length [demo_row [2] 30] = (if unat (1 :: u64) < 2 ^ 63 then min (unat (1 :: u64)) (length (st_saved demo_tables)) else 0)"
proof -
  have "distinct (map sw_session_id (st_saved demo_tables))" by (simp add: demo_tables_def demo_row_def)
  from prune_keeps_newest [OF this demo_prunes] show ?thesis using demo_prunes by (simp add: demo_tables_def)
qed

end
