(* ===== verification/Runtime_Registry.thy ===== *)
theory Runtime_Registry
  imports Session_Store Native_Sessions "HOL-Library.AList"
begin

text \<open>
  The crate \<open>terminal-runtime\<close>, its state and its helpers (\<open>registry.rs\<close>, \<open>backend_catalog.rs\<close>,
  \<open>builder.rs\<close>, \<open>handshake.rs\<close>, \<open>sessions/runtime/helpers.rs\<close>, \<open>sessions/capture_semantics.rs\<close>): the
  registry of sessions and their health, the backends, the fingerprint of a route.
\<close>

section \<open>The registry\<close>

record session_descriptor =
  de_session_id :: session_id
  de_route :: session_route
  de_title :: "rstr option"
  de_launch :: "shell_launch_spec option"
  de_health :: session_health_snapshot

text \<open>
  The map behind \<open>RwLock\<close>, in the order \<open>values()\<close> iterates, which the library leaves open. Nothing
  panics while the lock is held, so it is never poisoned.
\<close>

type_synonym session_registry = "(session_id \<times> session_descriptor) list"

definition registry_insert :: "session_descriptor \<Rightarrow> session_registry \<Rightarrow> session_registry" where
  "registry_insert s r = AList.update (de_session_id s) s r"

definition registry_get :: "session_registry \<Rightarrow> session_id \<Rightarrow> session_descriptor option" where
  "registry_get r sid = map_of r sid"

definition registry_get_by_route :: "session_registry \<Rightarrow> session_route \<Rightarrow> session_descriptor option" where
  "registry_get_by_route r route = find (\<lambda>s. de_route s = route) (map snd r)"

definition registry_list :: "session_registry \<Rightarrow> session_descriptor list" where
  "registry_list r = map snd r"

definition registry_update_title :: "session_id \<Rightarrow> rstr option \<Rightarrow> session_registry \<Rightarrow> session_registry" where
  "registry_update_title sid title r =
     (case map_of r sid of None \<Rightarrow> r | Some s \<Rightarrow> AList.update sid (s\<lparr>de_title := title\<rparr>) r)"

definition registry_update_health ::
    "session_id \<Rightarrow> session_health_snapshot \<Rightarrow> session_registry \<Rightarrow> session_registry" where
  "registry_update_health sid health r =
     (case map_of r sid of None \<Rightarrow> r | Some s \<Rightarrow> AList.update sid (s\<lparr>de_health := health\<rparr>) r)"

definition to_summary :: "session_descriptor \<Rightarrow> backend_session_summary" where
  "to_summary s = \<lparr>bs_session_id = de_session_id s, bs_route = de_route s, bs_title = de_title s\<rparr>"

section \<open>Backends, builder, handshake\<close>

text \<open>The backends by kind; of two of one kind the last one given stays.\<close>

type_synonym 'b backend_catalog = "(backend_kind \<times> 'b) list"

definition catalog_new :: "('b \<Rightarrow> backend_kind) \<Rightarrow> 'b list \<Rightarrow> 'b backend_catalog" where
  "catalog_new kind backends = fold (\<lambda>b. AList.update (kind b) b) backends []"

definition catalog_backend :: "'b backend_catalog \<Rightarrow> backend_kind \<Rightarrow> backend_error + 'b" where
  "catalog_backend catalog kind =
     ok_or (map_of catalog kind) (not_found [MText ''backend '', MBackend kind, MText '' is not configured''])"

fun kind_order :: "backend_kind \<Rightarrow> nat" where
  "kind_order Native = 0"
| "kind_order Tmux = 1"
| "kind_order Zellij = 2"

definition catalog_kinds :: "'b backend_catalog \<Rightarrow> backend_kind list" where
  "catalog_kinds catalog = sort_key kind_order (map fst catalog)"

datatype runtime_build_error = MissingBackends | MissingPersistence

record ('b, 'p) runtime_builder =
  bu_backends :: "'b backend_catalog option"
  bu_persistence :: "'p option"

definition builder_build ::
    "('b, 'p) runtime_builder \<Rightarrow> runtime_build_error + ('b backend_catalog \<times> 'p)" where
  "builder_build builder =
     bind_result (ok_or (bu_backends builder) MissingBackends) (\<lambda>backends.
     bind_result (ok_or (bu_persistence builder) MissingPersistence) (\<lambda>persistence.
       Inr (backends, persistence)))"

datatype runtime_phase = RuntimeStarting | RuntimeReady | RuntimeDegraded

record runtime_protocol_version =
  rv_major :: u16
  rv_minor :: u16

record runtime_capabilities =
  rc_request_reply :: bool
  rc_topology_subscriptions :: bool
  rc_pane_subscriptions :: bool
  rc_backend_discovery :: bool
  rc_backend_capability_queries :: bool
  rc_saved_sessions :: bool
  rc_session_restore :: bool
  rc_degraded_error_reasons :: bool
  rc_session_health :: bool

record runtime_handshake =
  rh_protocol_version :: runtime_protocol_version
  rh_binary_version :: rstr
  rh_daemon_phase :: runtime_phase
  rh_capabilities :: runtime_capabilities
  rh_available_backends :: "backend_kind list"
  rh_session_scope :: rstr

definition handshake :: "'b backend_catalog \<Rightarrow> runtime_handshake" where
  "handshake catalog =
     \<lparr>rh_protocol_version = \<lparr>rv_major = current_protocol_major, rv_minor = current_protocol_minor\<rparr>,
      rh_binary_version = current_binary_version, rh_daemon_phase = RuntimeReady,
      rh_capabilities = \<lparr>rc_request_reply = True, rc_topology_subscriptions = True, rc_pane_subscriptions = True,
        rc_backend_discovery = True, rc_backend_capability_queries = True, rc_saved_sessions = True,
        rc_session_restore = True, rc_degraded_error_reasons = True, rc_session_health = True\<rparr>,
      rh_available_backends = catalog_kinds catalog, rh_session_scope = lit ''current_user''\<rparr>"

section \<open>Helpers\<close>

definition tab_id_for_pane :: "topology_snapshot \<Rightarrow> pane_id \<Rightarrow> tab_id option" where
  "tab_id_for_pane topology p =
     map_option ts_tab_id (find (\<lambda>tab. p \<in> set (collect_snapshot_pane_ids (ts_root tab))) (tp_tabs topology))"

definition session_health_from_attach_error ::
    "session_id \<Rightarrow> backend_error \<Rightarrow> session_health_snapshot option" where
  "session_health_from_attach_error sid e =
     (case be_kind e of
        Unsupported \<Rightarrow> map_option (\<lambda>_. health_degraded sid BackendDegraded (be_message e)) (be_degraded_reason e)
      | NotFound \<Rightarrow> Some (health_terminated sid SessionNotFound (be_message e))
      | Transport \<Rightarrow> Some (health_stale sid BackendTransportLost (be_message e))
      | Internal \<Rightarrow> Some (health_stale sid BackendInternalFault (be_message e))
      | InvalidInput \<Rightarrow> None)"

text \<open>The \<open>{:?}\<close> forms of the two enumerations.\<close>

fun debug_backend :: "backend_kind \<Rightarrow> string" where
  "debug_backend Native = ''Native''"
| "debug_backend Tmux = ''Tmux''"
| "debug_backend Zellij = ''Zellij''"

fun debug_authority :: "route_authority \<Rightarrow> string" where
  "debug_authority LocalDaemon = ''LocalDaemon''"
| "debug_authority ImportedForeign = ''ImportedForeign''"

definition session_route_fingerprint :: "session_route \<Rightarrow> rstr" where
  "session_route_fingerprint route =
     (let external = (case route_external route of
            Some ex \<Rightarrow> ext_namespace ex @ lit ''/'' @ ext_value ex | None \<Rightarrow> lit ''-'')
      in lit ''v1/'' @ lit (debug_backend (route_backend route)) @ lit ''/''
           @ lit (debug_authority (route_authority route)) @ lit ''/'' @ external)"

definition collect_pane_ids_from_topology :: "topology_snapshot \<Rightarrow> pane_id list" where
  "collect_pane_ids_from_topology topology =
     fold (\<lambda>tab panes. panes @ collect_snapshot_pane_ids (ts_root tab)) (tp_tabs topology) []"

definition saved_session_title :: "rstr option \<Rightarrow> topology_snapshot \<Rightarrow> rstr option" where
  "saved_session_title descriptor_title topology =
     (case (case tp_focused_tab topology of
              None \<Rightarrow> None
            | Some t \<Rightarrow> (case find (\<lambda>tab. ts_tab_id tab = t) (tp_tabs topology) of
                           None \<Rightarrow> None | Some tab \<Rightarrow> ts_title tab)) of
        Some title \<Rightarrow> Some title
      | None \<Rightarrow> (case find_map ts_title (tp_tabs topology) of
                   Some title \<Rightarrow> Some title | None \<Rightarrow> descriptor_title))"

fun command_updates_summary_title :: "mux_command \<Rightarrow> bool" where
  "command_updates_summary_title (CNewTab spec) \<longleftrightarrow> True"
| "command_updates_summary_title (CCloseTab t) \<longleftrightarrow> True"
| "command_updates_summary_title (CFocusTab t) \<longleftrightarrow> True"
| "command_updates_summary_title (CRenameTab t title) \<longleftrightarrow> True"
| "command_updates_summary_title _ \<longleftrightarrow> False"

definition tab_snapshot_by_id :: "topology_snapshot \<Rightarrow> tab_id \<Rightarrow> backend_error + tab_snapshot" where
  "tab_snapshot_by_id topology t =
     ok_or (find (\<lambda>tab. ts_tab_id tab = t) (tp_tabs topology)) (internal_error [MText ''missing restored tab '', MTab t])"

definition rendered_screen_capture_semantics :: "screen_snapshot \<Rightarrow> rstr" where
  "rendered_screen_capture_semantics screen =
     (if list_ex has_rich_content (sf_lines (sn_surface screen)) \<or>
         (case sf_cursor (sn_surface screen) of None \<Rightarrow> False
          | Some cursor \<Rightarrow> sc_shape cursor \<noteq> None \<or> sc_blinking cursor) \<or>
         \<not> palette_is_empty (sf_palette (sn_surface screen)) \<or>
         sf_working_directory_uri (sn_surface screen) \<noteq> None \<or>
         sf_user_variables (sn_surface screen) \<noteq> fmempty \<or>
         sf_bell_count (sn_surface screen) \<noteq> 0 \<or>
         \<not> progress_is_inactive (sf_progress (sn_surface screen))
      then lit ''rendered_screen_snapshot'' else lit ''rendered_plaintext_snapshot'')"

section \<open>What the registry keeps\<close>

text \<open>Every session is stored under its own identifier, once, and its health is its own.\<close>

definition registry_ok :: "session_registry \<Rightarrow> bool" where
  "registry_ok r \<longleftrightarrow> distinct (map fst r) \<and>
     (\<forall>(sid, s)\<in>set r. de_session_id s = sid \<and> sh_session_id (de_health s) = sid \<and> health_consistent (de_health s))"

lemma registry_get_simps [simp]:
  "registry_get (registry_insert s r) sid = (if sid = de_session_id s then Some s else registry_get r sid)"
  "registry_get (registry_update_title k title r) sid =
     (if sid = k then map_option (de_title_update (\<lambda>_. title)) (registry_get r sid) else registry_get r sid)"
  "registry_get (registry_update_health k health r) sid =
     (if sid = k then map_option (de_health_update (\<lambda>_. health)) (registry_get r sid) else registry_get r sid)"
  by (auto simp: registry_get_def registry_insert_def registry_update_title_def registry_update_health_def
      update_conv' split: option.split)

lemma registry_ok_update:
  assumes "registry_ok r" "de_session_id s = sid" "sh_session_id (de_health s) = sid" "health_consistent (de_health s)"
  shows "registry_ok (AList.update sid s r)"
proof -
  have "set (AList.update sid s r) \<subseteq> insert (sid, s) (set r)" by (induction r) auto
  then show ?thesis using assms distinct_update [of r sid s] by (fastforce simp: registry_ok_def)
qed

lemma registry_ok_get: "registry_ok r \<Longrightarrow> registry_get r sid = Some s \<Longrightarrow>
    de_session_id s = sid \<and> sh_session_id (de_health s) = sid \<and> health_consistent (de_health s)"
  unfolding registry_ok_def registry_get_def by (fastforce dest: map_of_SomeD)

lemma registry_ok_insert [wf_intro]:
  "registry_ok r \<Longrightarrow> sh_session_id (de_health s) = de_session_id s \<Longrightarrow> health_consistent (de_health s) \<Longrightarrow>
     registry_ok (registry_insert s r)"
  by (simp add: registry_insert_def registry_ok_update)

lemma registry_ok_title [wf_intro]: "registry_ok r \<Longrightarrow> registry_ok (registry_update_title sid title r)"
  using registry_ok_get [of r sid]
  by (auto simp: registry_update_title_def registry_get_def intro!: registry_ok_update split: option.split)

lemma registry_ok_health [wf_intro]:
  "registry_ok r \<Longrightarrow> sh_session_id health = sid \<Longrightarrow> health_consistent health \<Longrightarrow>
     registry_ok (registry_update_health sid health r)"
  using registry_ok_get [of r sid]
  by (auto simp: registry_update_health_def registry_get_def intro!: registry_ok_update split: option.split)

lemma attach_error_health:
  "session_health_from_attach_error sid e = Some health \<Longrightarrow> sh_session_id health = sid \<and> health_consistent health"
  by (auto simp: session_health_from_attach_error_def health_degraded_def health_terminated_def health_stale_def
      health_consistent_def split: backend_error_kind.splits)

lemma topology_panes_fold [simp]: "collect_pane_ids_from_topology topology = topology_panes topology"
proof -
  have "fold (\<lambda>tab panes. panes @ collect_snapshot_pane_ids (ts_root tab)) tabs acc =
      acc @ concat (map (\<lambda>tab. snapshot_panes (ts_root tab)) tabs)" for tabs acc
    by (induction tabs arbitrary: acc) simp_all
  from this [of "tp_tabs topology" "[]"] show ?thesis
    by (simp add: collect_pane_ids_from_topology_def topology_panes_def)
qed

section \<open>Fingerprints\<close>

lemma fingerprint_external:
  assumes "session_route_fingerprint a = session_route_fingerprint b"
  shows "route_backend a = route_backend b \<and> route_authority a = route_authority b \<and>
    (case route_external a of Some ex \<Rightarrow> ext_namespace ex @ lit ''/'' @ ext_value ex | None \<Rightarrow> lit ''-'') =
    (case route_external b of Some ex \<Rightarrow> ext_namespace ex @ lit ''/'' @ ext_value ex | None \<Rightarrow> lit ''-'')"
  using assms
  by (cases "route_backend a"; cases "route_backend b"; cases "route_authority a"; cases "route_authority b")
    (simp_all add: session_route_fingerprint_def lit_def)

text \<open>
  The fingerprint under which the store keeps a route names it, as long as no namespace has a slash:
  two such routes with one fingerprint are the same route. With a slash in a namespace two different
  routes can share a fingerprint, and the second is resolved to the session of the first.
\<close>
theorem route_fingerprint_injective:
  "(list_all (\<lambda>route. case route_external route of Some ex \<Rightarrow> 47 \<notin> set (ext_namespace ex) | None \<Rightarrow> True) [a, b]
    \<longrightarrow> (session_route_fingerprint a = session_route_fingerprint b \<longleftrightarrow> a = b))
   \<and> session_route_fingerprint \<lparr>route_backend = k, route_authority = au,
        route_external = Some \<lparr>ext_namespace = n @ lit ''/'' @ m, ext_value = v\<rparr>\<rparr> =
     session_route_fingerprint \<lparr>route_backend = k, route_authority = au,
        route_external = Some \<lparr>ext_namespace = n, ext_value = m @ lit ''/'' @ v\<rparr>\<rparr>"
proof (intro conjI impI)
  assume clean: "list_all (\<lambda>route. case route_external route of Some ex \<Rightarrow> 47 \<notin> set (ext_namespace ex) | None \<Rightarrow> True) [a, b]"
  have cut: "n = n' \<and> v = v'" if "n @ lit ''/'' @ v = n' @ lit ''/'' @ v'" "47 \<notin> set n" "47 \<notin> set n'" for n n' v v'
    using that
  proof (induction n arbitrary: n')
    case Nil
    then show ?case by (cases n') (auto simp: lit_def)
  next
    case (Cons c n)
    then show ?case by (cases n') (auto simp: lit_def)
  qed
  have dash: "n @ lit ''/'' @ v \<noteq> lit ''-''" for n v
    by (cases n) (simp_all add: lit_def)
  have dash': "lit ''-'' \<noteq> n @ lit ''/'' @ v" for n v using dash by metis
  show "session_route_fingerprint a = session_route_fingerprint b \<longleftrightarrow> a = b"
  proof
    assume same: "session_route_fingerprint a = session_route_fingerprint b"
    have "route_external a = route_external b"
      using fingerprint_external [OF same] clean dash dash'
      by (cases "route_external a"; cases "route_external b") (auto dest: cut intro: external_session_ref.equality)
    then show "a = b" using fingerprint_external [OF same] by (intro session_route.equality) simp_all
  qed simp
qed (simp add: session_route_fingerprint_def)


theorem route_fingerprint_injective_witness:
  "session_route_fingerprint \<lparr>route_backend = Tmux, route_authority = ImportedForeign,
      route_external = Some \<lparr>ext_namespace = lit ''tmux_target'', ext_value = lit ''a/b''\<rparr>\<rparr> \<noteq>
    session_route_fingerprint \<lparr>route_backend = Tmux, route_authority = ImportedForeign,
      route_external = Some \<lparr>ext_namespace = lit ''tmux_target'', ext_value = lit ''a''\<rparr>\<rparr>"
proof -
  let ?route = "\<lambda>v. \<lparr>route_backend = Tmux, route_authority = ImportedForeign,
      route_external = Some \<lparr>ext_namespace = lit ''tmux_target'', ext_value = v\<rparr>\<rparr>"
  have "list_all (\<lambda>route. case route_external route of Some ex \<Rightarrow> 47 \<notin> set (ext_namespace ex) | None \<Rightarrow> True)
      [?route (lit ''a/b''), ?route (lit ''a'')]"
    by (simp add: lit_def)
  moreover have "?route (lit ''a/b'') \<noteq> ?route (lit ''a'')" by (simp add: lit_def)
  ultimately show ?thesis
    using route_fingerprint_injective [of "?route (lit ''a/b'')" "?route (lit ''a'')"] by blast
qed

end
