(* ===== verification/Runtime_Services.thy ===== *)
theory Runtime_Services
  imports Runtime_Registry
begin

text \<open>
  The services of the runtime (\<open>sessions/\<close> of the crate \<open>terminal-runtime\<close>): creating, importing and
  attaching sessions, commands and screens of an attached one, saving, listing and deleting saved
  ones, subscriptions. The backends are ports (the traits of \<open>ports.rs\<close>), the archive of the history is a
  parameter. An operation is a function of the state of the runtime; another request that runs while
  it waits is not part of it.
\<close>

section \<open>Ports and state\<close>

record ('w, 'h) session_port =
  po_topology :: "'h \<Rightarrow> ('w, topology_snapshot) io"
  po_screen :: "'h \<Rightarrow> pane_id \<Rightarrow> ('w, screen_snapshot) io"
  po_delta :: "'h \<Rightarrow> pane_id \<Rightarrow> u64 \<Rightarrow> ('w, screen_delta) io"
  po_dispatch :: "'h \<Rightarrow> mux_command \<Rightarrow> ('w, mux_command_result) io"
  po_subscribe :: "'h \<Rightarrow> subscription_spec \<Rightarrow> ('w, subscription_id) io"
  po_subscribe_raw :: "'h \<Rightarrow> pane_id \<Rightarrow> ('w, subscription_id) io"

record ('w, 'h) backend_port =
  pb_create :: "create_session_spec \<Rightarrow> ('w, backend_session_binding) io"
  pb_attach :: "session_id \<Rightarrow> session_route \<Rightarrow> ('w, 'h) io"
  pb_discover :: "('w, discovered_session list) io"
  pb_capabilities :: "('w, backend_capabilities) io"

record ui_input_event =
  ui_session_id :: rstr
  ui_route :: session_route
  ui_title :: "rstr option"
  ui_launch :: "shell_launch_spec option"
  ui_pane_id :: rstr
  ui_data :: rstr
  ui_is_paste :: bool
  ui_source_event_id :: "rstr option"
  ui_rows :: "32 word option"
  ui_cols :: "32 word option"
  ui_shell_kind :: "rstr option"

datatype archive_result = ArchiveStored | ArchiveTaskFailed rstr | ArchiveFailed rstr

text \<open>
  \<open>re_archive_input\<close>, \<open>re_archive_session\<close>, \<open>re_archive_fault\<close>: the calls into the archive of the
  history, an error by its text; \<open>re_now_ms\<close>: \<open>save_timestamp_ms\<close>.
\<close>

record ('w, 'h) runtime_env =
  re_catalog :: "('w, 'h) backend_port backend_catalog"
  re_session :: "('w, 'h) session_port"
  re_store :: "'w store_env"
  re_new_uuid :: "'w \<Rightarrow> uuid \<times> 'w"
  re_now_ms :: "'w \<Rightarrow> persistence_error + i64"
  re_archive_input :: "ui_input_event \<Rightarrow> 'w \<Rightarrow> archive_result \<times> 'w"
  re_archive_session :: "saved_native_session \<Rightarrow> 'w \<Rightarrow> rstr option \<times> 'w"
  re_archive_fault :: "session_id \<Rightarrow> string \<Rightarrow> message \<Rightarrow> 'w \<Rightarrow> rstr option \<times> 'w"

text \<open>\<open>rt_captures\<close>: the capture tasks that were started, see \<open>Runtime_Capture\<close>.\<close>

record ('w, 'h) runtime_state =
  rt_registry :: session_registry
  rt_tables :: store_tables
  rt_captures :: "(session_descriptor \<times> 'h) list"
  rt_world :: 'w

type_synonym ('w, 'h, 'a) rt = "(('w, 'h) runtime_state, backend_error, 'a) effect"

definition on_world :: "('w, 'a) io \<Rightarrow> ('w, 'h, 'a) rt" where
  "on_world m st = (case m (rt_world st) of (r, w) \<Rightarrow> (r, st\<lparr>rt_world := w\<rparr>))"

definition on_store :: "string \<Rightarrow> ('w, 'a) store_io \<Rightarrow> ('w, 'h, 'a) rt" where
  "on_store what m st =
     (case m (rt_world st, rt_tables st) of
        (Inl e, (w, t)) \<Rightarrow>
          (Inl (internal_error [MText what, MString (persistence_error_text e)]), st\<lparr>rt_world := w, rt_tables := t\<rparr>)
      | (Inr x, (w, t)) \<Rightarrow> (Inr x, st\<lparr>rt_world := w, rt_tables := t\<rparr>))"

definition on_registry :: "(session_registry \<Rightarrow> session_registry) \<Rightarrow> ('w, 'h) runtime_state \<Rightarrow> ('w, 'h) runtime_state" where
  "on_registry f st = st\<lparr>rt_registry := f (rt_registry st)\<rparr>"

definition unknown_session :: "session_id \<Rightarrow> backend_error" where
  "unknown_session sid = not_found [MText ''unknown session '', MSession sid]"

definition runtime_backend :: "('w, 'h) runtime_env \<Rightarrow> backend_kind \<Rightarrow> ('w, 'h, ('w, 'h) backend_port) rt" where
  "runtime_backend env kind = io_lift (catalog_backend (re_catalog env) kind)"

section \<open>Attaching\<close>

definition session_health_snapshot_of :: "session_id \<Rightarrow> ('w, 'h, session_health_snapshot) rt" where
  "session_health_snapshot_of sid st =
     (ok_or (map_option de_health (registry_get (rt_registry st) sid)) (unknown_session sid), st)"

definition record_session_health ::
    "session_id \<Rightarrow> session_health_snapshot \<Rightarrow> ('w, 'h) runtime_state \<Rightarrow> ('w, 'h) runtime_state" where
  "record_session_health sid health = on_registry (registry_update_health sid health)"

definition mark_session_ready :: "session_id \<Rightarrow> ('w, 'h) runtime_state \<Rightarrow> ('w, 'h) runtime_state" where
  "mark_session_ready sid = on_registry (registry_update_health sid (health_ready sid))"

definition attach_session :: "('w, 'h) runtime_env \<Rightarrow> session_id \<Rightarrow> ('w, 'h, 'h) rt" where
  "attach_session env sid st =
     (case registry_get (rt_registry st) sid of
        None \<Rightarrow> (Inl (unknown_session sid), st)
      | Some descriptor \<Rightarrow>
          (case catalog_backend (re_catalog env) (route_backend (de_route descriptor)) of
             Inl e \<Rightarrow> (Inl e, st)
           | Inr backend \<Rightarrow>
               (case on_world (pb_attach backend (de_session_id descriptor) (de_route descriptor)) st of
                  (Inr session, st1) \<Rightarrow> (Inr session, mark_session_ready sid st1)
                | (Inl e, st1) \<Rightarrow>
                    (Inl e, case session_health_from_attach_error sid e of
                       Some health \<Rightarrow> record_session_health sid health st1 | None \<Rightarrow> st1))))"

definition refresh_session_summary_title ::
    "('w, 'h) runtime_env \<Rightarrow> session_id \<Rightarrow> 'h \<Rightarrow> ('w, 'h) runtime_state \<Rightarrow> ('w, 'h) runtime_state" where
  "refresh_session_summary_title env sid session st =
     (case registry_get (rt_registry st) sid of
        None \<Rightarrow> st
      | Some descriptor \<Rightarrow>
          (case on_world (po_topology (re_session env) session) st of
             (Inl e, st1) \<Rightarrow> st1
           | (Inr topology, st1) \<Rightarrow>
               on_registry (registry_update_title sid (saved_session_title (de_title descriptor) topology)) st1))"

section \<open>Routes\<close>

definition upsert_runtime_route :: "('w, 'h) runtime_env \<Rightarrow> session_id \<Rightarrow> session_route \<Rightarrow> ('w, 'h, unit) rt" where
  "upsert_runtime_route env sid route =
     on_store ''failed to persist session route - ''
       (upsert_session_route (re_store env)
         \<lparr>rr_session_id = sid, rr_route = route, rr_fingerprint = session_route_fingerprint route\<rparr>)"

definition resolve_session_id_for_route :: "('w, 'h) runtime_env \<Rightarrow> session_route \<Rightarrow> ('w, 'h, session_id) rt" where
  "resolve_session_id_for_route env route =
     io_bind (on_store ''failed to load session route by fingerprint - ''
         (load_session_route_by_fingerprint (re_store env) (session_route_fingerprint route))) (\<lambda>record.
       case record of
         Some r \<Rightarrow> io_ok (rr_session_id r)
       | None \<Rightarrow> (\<lambda>st. case re_new_uuid env (rt_world st) of
           (u, w) \<Rightarrow> io_bind (upsert_runtime_route env (Id u) route) (\<lambda>_. io_ok (Id u)) (st\<lparr>rt_world := w\<rparr>)))"

section \<open>Creating and importing\<close>

text \<open>\<open>start_v2_history_capture\<close> starts the task and waits up to two seconds for its first topology.\<close>

definition start_history_capture ::
    "session_descriptor \<Rightarrow> 'h \<Rightarrow> ('w, 'h) runtime_state \<Rightarrow> ('w, 'h) runtime_state" where
  "start_history_capture descriptor session st = st\<lparr>rt_captures := rt_captures st @ [(descriptor, session)]\<rparr>"

definition create_native_session ::
    "('w, 'h) runtime_env \<Rightarrow> create_session_spec \<Rightarrow> ('w, 'h, backend_session_summary) rt" where
  "create_native_session env spec =
     io_bind (runtime_backend env Native) (\<lambda>backend.
     io_bind (on_world (pb_create backend spec)) (\<lambda>binding.
       let descriptor = \<lparr>de_session_id = bb_session_id binding, de_route = bb_route binding, de_title = cs_title spec,
             de_launch = cs_launch spec, de_health = health_ready (bb_session_id binding)\<rparr>;
           summary = to_summary descriptor
       in io_bind (upsert_runtime_route env (de_session_id descriptor) (de_route descriptor)) (\<lambda>_ st.
            case on_world (pb_attach backend (bs_session_id summary) (bs_route summary))
                   (on_registry (registry_insert descriptor) st) of
              (Inr session, st1) \<Rightarrow> (Inr summary, start_history_capture descriptor session st1)
            | (Inl e, st1) \<Rightarrow> (Inr summary, st1))))"

definition discover_sessions :: "('w, 'h) runtime_env \<Rightarrow> backend_kind \<Rightarrow> ('w, 'h, discovered_session list) rt" where
  "discover_sessions env kind = io_bind (runtime_backend env kind) (\<lambda>backend. on_world (pb_discover backend))"

definition runtime_backend_capabilities :: "('w, 'h) runtime_env \<Rightarrow> backend_kind \<Rightarrow> ('w, 'h, backend_capabilities) rt" where
  "runtime_backend_capabilities env kind =
     io_bind (runtime_backend env kind) (\<lambda>backend. on_world (pb_capabilities backend))"

definition create_session ::
    "('w, 'h) runtime_env \<Rightarrow> backend_kind \<Rightarrow> create_session_spec \<Rightarrow> ('w, 'h, backend_session_summary) rt" where
  "create_session env kind spec =
     (case kind of
        Native \<Rightarrow> create_native_session env spec
      | _ \<Rightarrow> io_err (unsupported [MText ''foreign backends are imported, not created''] ImportedForeignSession))"

definition import_session ::
    "('w, 'h) runtime_env \<Rightarrow> session_route \<Rightarrow> rstr option \<Rightarrow> ('w, 'h, backend_session_summary) rt" where
  "import_session env route title st =
     (if route_authority route \<noteq> ImportedForeign
      then (Inl (invalid_input [MText ''imported sessions must use imported_foreign route authority'']), st)
      else if route_backend route = Native
      then (Inl (invalid_input [MText ''native sessions are created, not imported'']), st)
      else case registry_get_by_route (rt_registry st) route of
        Some existing \<Rightarrow> (Inr (to_summary existing), st)
      | None \<Rightarrow>
          io_bind (resolve_session_id_for_route env route) (\<lambda>sid.
          io_bind (runtime_backend env (route_backend route)) (\<lambda>backend.
          io_bind (on_world (pb_attach backend sid route)) (\<lambda>session.
            let descriptor = \<lparr>de_session_id = sid, de_route = route, de_title = title, de_launch = None,
                  de_health = health_ready sid\<rparr>
            in io_bind (upsert_runtime_route env sid route) (\<lambda>_ st1.
                 (Inr (to_summary descriptor),
                  start_history_capture descriptor session (on_registry (registry_insert descriptor) st1)))))) st)"

definition list_sessions :: "('w, 'h) runtime_state \<Rightarrow> backend_session_summary list" where
  "list_sessions st = map to_summary (registry_list (rt_registry st))"

definition session_count :: "('w, 'h) runtime_state \<Rightarrow> nat" where
  "session_count st = length (registry_list (rt_registry st))"

section \<open>Saving\<close>

definition saved_sessions_native_only :: string where
  "saved_sessions_native_only = ''saved-session persistence currently supports native runtime sessions only; imported multiplexor sessions expose live control history but not saved-session restore guarantees''"

text \<open>The screens of the panes, in order; the first one that fails ends it.\<close>

fun collect_screens :: "('w, 'h) runtime_env \<Rightarrow> 'h \<Rightarrow> pane_id list \<Rightarrow> ('w, 'h, screen_snapshot list) rt" where
  "collect_screens env session [] = io_ok []"
| "collect_screens env session (p # ps) =
     io_bind (on_world (po_screen (re_session env) session p)) (\<lambda>screen.
     io_bind (collect_screens env session ps) (\<lambda>screens. io_ok (screen # screens)))"

definition collect_native_session :: "('w, 'h) runtime_env \<Rightarrow> session_id \<Rightarrow> ('w, 'h, saved_native_session) rt" where
  "collect_native_session env sid st =
     (case registry_get (rt_registry st) sid of
        None \<Rightarrow> (Inl (unknown_session sid), st)
      | Some descriptor \<Rightarrow>
          if route_backend (de_route descriptor) \<noteq> Native
          then (Inl (unsupported [MText saved_sessions_native_only] UnsupportedByBackend), st)
          else io_bind (attach_session env sid) (\<lambda>session.
            io_bind (on_world (po_topology (re_session env) session)) (\<lambda>topology.
            io_bind (collect_screens env session (collect_pane_ids_from_topology topology)) (\<lambda>screens st1.
              (case re_now_ms env (rt_world st1) of
                 Inl e \<Rightarrow> Inl (internal_error [MText ''failed to prepare save timestamp - '', MString (persistence_error_text e)])
               | Inr now \<Rightarrow> Inr \<lparr>sv_session_id = sid, sv_route = de_route descriptor,
                   sv_title = saved_session_title (de_title descriptor) topology, sv_launch = de_launch descriptor,
                   sv_manifest = manifest_current, sv_topology = topology, sv_screens = screens, sv_saved_at_ms = now\<rparr>,
               st1)))) st)"

definition persist_native_v2_evidence :: "('w, 'h) runtime_env \<Rightarrow> saved_native_session \<Rightarrow> ('w, 'h, unit) rt" where
  "persist_native_v2_evidence env snapshot = on_world (\<lambda>w. case re_archive_session env snapshot w of
     (None, w1) \<Rightarrow> (Inr (), w1)
   | (Some e, w1) \<Rightarrow> (Inl (internal_error [MText ''failed to persist native session v2 snapshot - '', MString e]), w1))"

definition publish_native_legacy_snapshot :: "('w, 'h) runtime_env \<Rightarrow> saved_native_session \<Rightarrow> ('w, 'h, unit) rt" where
  "publish_native_legacy_snapshot env snapshot =
     on_store ''failed to publish saved native session - '' (save_native_session (re_store env) snapshot)"

definition record_native_publish_failure ::
    "('w, 'h) runtime_env \<Rightarrow> saved_native_session \<Rightarrow> backend_error \<Rightarrow> ('w, 'h, unit) rt" where
  "record_native_publish_failure env snapshot e = on_world (\<lambda>w.
     case re_archive_fault env (sv_session_id snapshot) ''saved_session_legacy_publish_after_v2_evidence'' (be_message e) w of
       (None, w1) \<Rightarrow> (Inr (), w1)
     | (Some m, w1) \<Rightarrow>
         (Inl (internal_error ([MText ''failed to record saved-session publish failure after v2 evidence - '', MString m,
                 MText ''; original publish error - ''] @ be_message e)), w1))"

definition save_native :: "('w, 'h) runtime_env \<Rightarrow> saved_native_session \<Rightarrow> ('w, 'h, unit) rt" where
  "save_native env snapshot =
     io_bind (persist_native_v2_evidence env snapshot) (\<lambda>_ st.
       case publish_native_legacy_snapshot env snapshot st of
         (Inr _, st1) \<Rightarrow> (Inr (), st1)
       | (Inl e, st1) \<Rightarrow> io_bind (record_native_publish_failure env snapshot e) (\<lambda>_. io_err e) st1)"

definition save_session :: "('w, 'h) runtime_env \<Rightarrow> session_id \<Rightarrow> ('w, 'h, mux_command_result) rt" where
  "save_session env sid =
     io_bind (collect_native_session env sid) (\<lambda>snapshot.
     io_bind (save_native env snapshot) (\<lambda>_. io_ok \<lparr>changed = False\<rparr>))"

definition list_saved_sessions :: "('w, 'h) runtime_env \<Rightarrow> ('w, 'h, saved_session_summary list) rt" where
  "list_saved_sessions env = on_store ''failed to list saved native sessions - '' (list_native_sessions (re_store env))"

definition unknown_saved_session :: "session_id \<Rightarrow> backend_error" where
  "unknown_saved_session sid = not_found [MText ''unknown saved session '', MSession sid]"

definition saved_session :: "('w, 'h) runtime_env \<Rightarrow> session_id \<Rightarrow> ('w, 'h, saved_native_session) rt" where
  "saved_session env sid =
     io_bind (on_store ''failed to load saved native session - '' (load_native_session (re_store env) sid))
       (\<lambda>found. io_lift (ok_or found (unknown_saved_session sid)))"

definition delete_saved_session :: "('w, 'h) runtime_env \<Rightarrow> session_id \<Rightarrow> ('w, 'h, unit) rt" where
  "delete_saved_session env sid =
     io_bind (on_store ''failed to delete saved native session - '' (delete_native_session (re_store env) sid))
       (\<lambda>deleted. if deleted then io_ok () else io_err (unknown_saved_session sid))"

definition prune_saved_sessions :: "('w, 'h) runtime_env \<Rightarrow> u64 \<Rightarrow> ('w, 'h, pruned_saved_sessions) rt" where
  "prune_saved_sessions env keep_latest =
     on_store ''failed to prune saved native sessions - '' (prune_native_sessions (re_store env) keep_latest)"

section \<open>Commands and screens\<close>

definition input_event :: "('w, 'h) runtime_env \<Rightarrow> session_descriptor \<Rightarrow> session_id \<Rightarrow> pane_id \<Rightarrow> rstr \<Rightarrow> bool
     \<Rightarrow> rstr option \<Rightarrow> ui_input_event" where
  "input_event env descriptor sid p text_data paste event_id =
     \<lparr>ui_session_id = session_key (re_store env) sid, ui_route = de_route descriptor, ui_title = de_title descriptor,
      ui_launch = de_launch descriptor, ui_pane_id = se_uuid_text (re_store env) (id_uuid p), ui_data = text_data,
      ui_is_paste = paste, ui_source_event_id = event_id,
      ui_rows = None, ui_cols = None, ui_shell_kind = None\<rparr>"

definition v2_input_capture ::
    "('w, 'h) runtime_env \<Rightarrow> session_registry \<Rightarrow> session_id \<Rightarrow> mux_command \<Rightarrow> ui_input_event option" where
  "v2_input_capture env r sid command =
     (case registry_get r sid of
        None \<Rightarrow> None
      | Some descriptor \<Rightarrow>
          (case command of
             CSendInput spec \<Rightarrow>
               Some (input_event env descriptor sid (si_pane_id spec) (si_data spec) False (si_client_event_id spec))
           | CSendPaste spec \<Rightarrow>
               Some (input_event env descriptor sid (pp_pane_id spec) (pp_data spec) True (pp_client_event_id spec))
           | _ \<Rightarrow> None))"

definition record_input :: "('w, 'h) runtime_env \<Rightarrow> ui_input_event option \<Rightarrow> ('w, 'h, unit) rt" where
  "record_input env capture =
     (case capture of
        None \<Rightarrow> io_ok ()
      | Some event \<Rightarrow> on_world (\<lambda>w. case re_archive_input env event w of
          (ArchiveStored, w1) \<Rightarrow> (Inr (), w1)
        | (ArchiveTaskFailed e, w1) \<Rightarrow>
            (Inl (internal_error [MText ''input history persistence task failed - '', MString e]), w1)
        | (ArchiveFailed e, w1) \<Rightarrow>
            (Inl (internal_error [MText ''failed to persist terminal input history before dispatch - '', MString e]), w1)))"

definition runtime_dispatch :: "('w, 'h) runtime_env \<Rightarrow> session_id \<Rightarrow> mux_command \<Rightarrow> ('w, 'h, mux_command_result) rt" where
  "runtime_dispatch env sid command st =
     (if command = CSaveSession then save_session env sid st
      else let capture = v2_input_capture env (rt_registry st) sid command
      in io_bind (attach_session env sid) (\<lambda>session.
         io_bind (record_input env capture) (\<lambda>_.
         io_bind (on_world (po_dispatch (re_session env) session command)) (\<lambda>outcome st1.
           (Inr outcome,
            if changed outcome \<and> command_updates_summary_title command
            then refresh_session_summary_title env sid session st1 else st1)))) st)"

definition runtime_topology :: "('w, 'h) runtime_env \<Rightarrow> session_id \<Rightarrow> ('w, 'h, topology_snapshot) rt" where
  "runtime_topology env sid =
     io_bind (attach_session env sid) (\<lambda>session. on_world (po_topology (re_session env) session))"

definition runtime_screen :: "('w, 'h) runtime_env \<Rightarrow> session_id \<Rightarrow> pane_id \<Rightarrow> ('w, 'h, screen_snapshot) rt" where
  "runtime_screen env sid p =
     io_bind (attach_session env sid) (\<lambda>session. on_world (po_screen (re_session env) session p))"

definition runtime_delta :: "('w, 'h) runtime_env \<Rightarrow> session_id \<Rightarrow> pane_id \<Rightarrow> u64 \<Rightarrow> ('w, 'h, screen_delta) rt" where
  "runtime_delta env sid p from_sequence =
     io_bind (attach_session env sid) (\<lambda>session. on_world (po_delta (re_session env) session p from_sequence))"

text \<open>What \<open>pane_history\<close> reads of the record the archive returns, and its one refresh.\<close>

record ('seg, 'snap) pane_history_record =
  ph_segments :: "'seg list"
  ph_latest_screen_snapshot :: "'snap option"
  ph_total_payload_bytes :: i64

definition should_refresh_live_rendered_snapshot :: "('seg, 'snap) pane_history_record \<Rightarrow> bool" where
  "should_refresh_live_rendered_snapshot h \<longleftrightarrow>
     ph_segments h = [] \<and> ph_latest_screen_snapshot h \<noteq> None \<and> ph_total_payload_bytes h = 0"

definition runtime_pane_history ::
    "('s, backend_error, ('seg, 'snap) pane_history_record) effect \<Rightarrow> ('s, backend_error, unit) effect
     \<Rightarrow> ('s, backend_error, ('seg, 'snap) pane_history_record) effect" where
  "runtime_pane_history hydrate refresh =
     io_bind hydrate (\<lambda>history.
       if should_refresh_live_rendered_snapshot history
       then (\<lambda>st. case refresh st of (Inr _, st1) \<Rightarrow> hydrate st1 | (Inl e, st1) \<Rightarrow> (Inr history, st1))
       else io_ok history)"

section \<open>Subscriptions\<close>

definition open_subscription :: "('w, 'h) runtime_env \<Rightarrow> session_id \<Rightarrow> subscription_spec \<Rightarrow> ('w, 'h, subscription_id) rt" where
  "open_subscription env sid spec =
     io_bind (attach_session env sid) (\<lambda>session. on_world (po_subscribe (re_session env) session spec))"

text \<open>
  The task that relays the events of a subscription: what it does with one event, given whether the
  receiver still accepts what it sends. \<open>None\<close> ends it; \<open>rl_stale\<close> is \<open>emit_stale_on_close\<close>.
\<close>

datatype relay_event = RelayCancelled | RelayClosed | RelayHealth session_health_snapshot | RelayOther

record relay =
  rl_running :: bool
  rl_sent :: "relay_event list"
  rl_registry :: session_registry

definition source_closed_health :: "session_id \<Rightarrow> session_health_snapshot" where
  "source_closed_health sid =
     health_stale sid SubscriptionSourceClosed [MText ''session subscription source closed unexpectedly'']"

definition relay_send :: "bool \<Rightarrow> relay_event \<Rightarrow> relay \<Rightarrow> relay" where
  "relay_send receiving event t = (if receiving then t\<lparr>rl_sent := rl_sent t @ [event]\<rparr> else t\<lparr>rl_running := False\<rparr>)"

definition relay_step :: "session_id \<Rightarrow> bool \<Rightarrow> relay_event \<Rightarrow> relay \<Rightarrow> relay" where
  "relay_step sid receiving event t =
     (if \<not> rl_running t then t
      else case event of
        RelayCancelled \<Rightarrow> t\<lparr>rl_running := False\<rparr>
      | RelayHealth health \<Rightarrow>
          let t1 = relay_send receiving (RelayHealth health)
                     (t\<lparr>rl_registry := registry_update_health sid health (rl_registry t)\<rparr>)
          in if sh_invalidated health then t1\<lparr>rl_running := False\<rparr> else t1
      | RelayOther \<Rightarrow> relay_send receiving RelayOther t
      | RelayClosed \<Rightarrow>
          let t1 = t\<lparr>rl_running := False, rl_registry := registry_update_health sid (source_closed_health sid) (rl_registry t)\<rparr>
          in if receiving then t1\<lparr>rl_sent := rl_sent t @ [RelayHealth (source_closed_health sid)]\<rparr> else t1)"

end
