(* ===== verification/Runtime_Restore.thy ===== *)
theory Runtime_Restore
  imports Runtime_Services Native_Refinement
begin

text \<open>
  Restoring a saved session (\<open>saved_sessions_service/restore\<close> of the crate \<open>terminal-runtime\<close>): a
  new native session is created and given the tabs, the splits, the titles and the focus of the saved
  one by commands. The rebuilder is written over the two operations of a session that it calls, its
  topology and its commands; the interface \<open>topology_client\<close> says what it may rely on.
\<close>

section \<open>The guard\<close>

fun debug_saved_status :: "saved_session_compatibility_status \<Rightarrow> string" where
  "debug_saved_status SCompatible = ''Compatible''"
| "debug_saved_status SBinarySkew = ''BinarySkew''"
| "debug_saved_status SFormatVersionUnsupported = ''FormatVersionUnsupported''"
| "debug_saved_status SProtocolMajorUnsupported = ''ProtocolMajorUnsupported''"
| "debug_saved_status SProtocolMinorAhead = ''ProtocolMinorAhead''"

definition validate_native_restore :: "saved_native_session \<Rightarrow> backend_error + unit" where
  "validate_native_restore saved =
     (let compatibility = saved_session_compatibility (sv_manifest saved) in
      if \<not> can_restore compatibility
      then Inl (unsupported [MText ''saved session manifest is not restore-compatible - '',
             MText (debug_saved_status (saved_status compatibility))] SavedSessionIncompatible)
      else if route_backend (sv_route saved) \<noteq> Native
      then Inl (unsupported [MText ''saved-session restore currently supports native runtime sessions only; imported multiplexor sessions do not claim saved-session replay guarantees'']
             UnsupportedByBackend)
      else if tp_tabs (sv_topology saved) = []
      then Inl (invalid_input [MText ''saved native session has no tabs''])
      else Inr ())"

definition initial_restore_title :: "saved_native_session \<Rightarrow> rstr option" where
  "initial_restore_title saved =
     (case (case tp_tabs (sv_topology saved) of [] \<Rightarrow> None | tab # tabs \<Rightarrow> ts_title tab) of
        Some title \<Rightarrow> Some title | None \<Rightarrow> sv_title saved)"

section \<open>Rebuilding the layout of a tab\<close>

type_synonym 's topology_op = "('s, backend_error, topology_snapshot) effect"
type_synonym 's dispatch_op = "mux_command \<Rightarrow> ('s, backend_error, mux_command_result) effect"

definition new_pane_id_after_split :: "pane_id list \<Rightarrow> pane_id list \<Rightarrow> backend_error + pane_id" where
  "new_pane_id_after_split before_panes after_panes =
     ok_or (find (\<lambda>p. p \<notin> set before_panes) after_panes)
       (internal_error [MText ''restored native split did not produce a new pane id''])"

definition tab_panes_now :: "'s topology_op \<Rightarrow> tab_id \<Rightarrow> ('s, backend_error, pane_id list) effect" where
  "tab_panes_now snap t =
     io_bind snap (\<lambda>topology.
     io_bind (io_lift (tab_snapshot_by_id topology t)) (\<lambda>tab. io_ok (collect_snapshot_pane_ids (ts_root tab))))"

definition split_live_pane ::
    "'s topology_op \<Rightarrow> 's dispatch_op \<Rightarrow> tab_id \<Rightarrow> pane_id \<Rightarrow> split_direction \<Rightarrow> ('s, backend_error, pane_id) effect" where
  "split_live_pane snap disp t live dir =
     io_bind (tab_panes_now snap t) (\<lambda>before_panes.
     io_bind (disp (CSplitPane \<lparr>sp_pane_id = live, sp_direction = dir\<rparr>)) (\<lambda>_.
     io_bind (tab_panes_now snap t) (\<lambda>after_panes. io_lift (new_pane_id_after_split before_panes after_panes))))"

text \<open>The stack of nodes that are still to be made of a live pane, its top first.\<close>

function rebuild_loop ::
    "'s topology_op \<Rightarrow> 's dispatch_op \<Rightarrow> tab_id \<Rightarrow> (pane_tree_node \<times> pane_id) list \<Rightarrow> (pane_id \<rightharpoonup> pane_id)
     \<Rightarrow> 's \<Rightarrow> (backend_error + (pane_id \<rightharpoonup> pane_id)) \<times> 's" where
  "rebuild_loop snap disp t [] panes st = (Inr panes, st)"
| "rebuild_loop snap disp t ((PLeaf p, live) # pending) panes st =
     rebuild_loop snap disp t pending (panes(p \<mapsto> live)) st"
| "rebuild_loop snap disp t ((PSplit dir a b, live) # pending) panes st =
     (case split_live_pane snap disp t live dir st of
        (Inl e, st1) \<Rightarrow> (Inl e, st1)
      | (Inr new, st1) \<Rightarrow> rebuild_loop snap disp t ((a, live) # (b, new) # pending) panes st1)"
  by pat_completeness auto
termination
  by (relation "measure (\<lambda>(snap, disp, t, pending, panes, st). sum_list (map (\<lambda>(node, live). 2 * size node + 1) pending))")
    auto

definition rebuild_saved_tab_layout ::
    "'s topology_op \<Rightarrow> 's dispatch_op \<Rightarrow> tab_id \<Rightarrow> tab_snapshot \<Rightarrow> ('s, backend_error, pane_id \<rightharpoonup> pane_id) effect" where
  "rebuild_saved_tab_layout snap disp t saved_tab =
     io_bind (tab_panes_now snap t) (\<lambda>panes.
       case panes of
         [] \<Rightarrow> io_err (internal_error [MText ''restored native tab has no initial pane''])
       | initial # others \<Rightarrow> rebuild_loop snap disp t [(ts_root saved_tab, initial)] Map.empty)"

section \<open>Rebuilding a session\<close>

fun create_missing_tabs :: "'s dispatch_op \<Rightarrow> tab_snapshot list \<Rightarrow> ('s, backend_error, unit) effect" where
  "create_missing_tabs disp [] = io_ok ()"
| "create_missing_tabs disp (saved_tab # tabs) =
     io_bind (disp (CNewTab \<lparr>nt_title = ts_title saved_tab\<rparr>)) (\<lambda>_. create_missing_tabs disp tabs)"

definition rename_tab_if_needed ::
    "'s dispatch_op \<Rightarrow> tab_snapshot \<Rightarrow> tab_snapshot \<Rightarrow> ('s, backend_error, unit) effect" where
  "rename_tab_if_needed disp live_tab saved_tab =
     (case ts_title saved_tab of
        None \<Rightarrow> io_ok ()
      | Some title \<Rightarrow>
          if ts_title live_tab = Some title then io_ok ()
          else io_bind (disp (CRenameTab (ts_tab_id live_tab) title)) (\<lambda>_. io_ok ()))"

definition focus_saved_pane ::
    "'s dispatch_op \<Rightarrow> tab_snapshot \<Rightarrow> (pane_id \<rightharpoonup> pane_id) \<Rightarrow> ('s, backend_error, unit) effect" where
  "focus_saved_pane disp saved_tab panes =
     (case ts_focused_pane saved_tab of
        None \<Rightarrow> io_ok ()
      | Some p \<Rightarrow> (case panes p of
            None \<Rightarrow> io_ok () | Some live \<Rightarrow> io_bind (disp (CFocusPane live)) (\<lambda>_. io_ok ())))"

definition restore_tab ::
    "'s topology_op \<Rightarrow> 's dispatch_op \<Rightarrow> tab_snapshot \<Rightarrow> tab_snapshot \<Rightarrow> ('s, backend_error, unit) effect" where
  "restore_tab snap disp live_tab saved_tab =
     io_bind (rename_tab_if_needed disp live_tab saved_tab) (\<lambda>_.
     io_bind (rebuild_saved_tab_layout snap disp (ts_tab_id live_tab) saved_tab) (\<lambda>panes.
       focus_saved_pane disp saved_tab panes))"

text \<open>The loop over the saved tabs, from \<open>index\<close> on; it returns the live tab to focus.\<close>

fun restore_tabs ::
    "'s topology_op \<Rightarrow> 's dispatch_op \<Rightarrow> topology_snapshot \<Rightarrow> tab_id option \<Rightarrow> nat \<Rightarrow> tab_snapshot list
     \<Rightarrow> tab_id option \<Rightarrow> ('s, backend_error, tab_id option) effect" where
  "restore_tabs snap disp topology saved_focus index [] focus = io_ok focus"
| "restore_tabs snap disp topology saved_focus index (saved_tab # tabs) focus =
     io_bind (io_lift (ok_or (vec_get (tp_tabs topology) index)
         (internal_error [MText ''restored native session lost live tab during rebuild'']))) (\<lambda>live_tab.
     io_bind (restore_tab snap disp live_tab saved_tab) (\<lambda>_.
       restore_tabs snap disp topology saved_focus (Suc index) tabs
         (if saved_focus = Some (ts_tab_id saved_tab) then Some (ts_tab_id live_tab) else focus)))"

definition focus_restored_tab :: "'s dispatch_op \<Rightarrow> tab_id option \<Rightarrow> ('s, backend_error, unit) effect" where
  "focus_restored_tab disp focus =
     (case focus of None \<Rightarrow> io_ok () | Some t \<Rightarrow> io_bind (disp (CFocusTab t)) (\<lambda>_. io_ok ()))"

definition rebuild ::
    "'s topology_op \<Rightarrow> 's dispatch_op \<Rightarrow> saved_native_session \<Rightarrow> ('s, backend_error, unit) effect" where
  "rebuild snap disp saved =
     io_bind (create_missing_tabs disp (drop 1 (tp_tabs (sv_topology saved)))) (\<lambda>_.
     io_bind snap (\<lambda>topology.
       if length (tp_tabs topology) \<noteq> length (tp_tabs (sv_topology saved))
       then io_err (internal_error [MText ''restored native session tab count drifted during rebuild - live '',
              MString (show_nat (length (tp_tabs topology))), MText '' saved '',
              MString (show_nat (length (tp_tabs (sv_topology saved))))])
       else io_bind (restore_tabs snap disp topology (tp_focused_tab (sv_topology saved)) 0
              (tp_tabs (sv_topology saved)) None) (\<lambda>focus. focus_restored_tab disp focus)))"

definition restore_saved_session ::
    "('w, 'h) runtime_env \<Rightarrow> session_id \<Rightarrow> ('w, 'h, backend_session_summary) rt" where
  "restore_saved_session env sid =
     io_bind (saved_session env sid) (\<lambda>saved.
     io_bind (io_lift (validate_native_restore saved)) (\<lambda>_.
     io_bind (create_native_session env \<lparr>cs_title = initial_restore_title saved, cs_launch = sv_launch saved\<rparr>) (\<lambda>restored.
     io_bind (rebuild (runtime_topology env (bs_session_id restored)) (runtime_dispatch env (bs_session_id restored)) saved) (\<lambda>_ st.
       (ok_or (map_option to_summary (registry_get (rt_registry st) (bs_session_id restored)))
          (internal_error [MText ''restored native session is missing from registry'']), st)))))"

section \<open>Trees\<close>

fun map_tree :: "(pane_id \<Rightarrow> pane_id) \<Rightarrow> pane_tree_node \<Rightarrow> pane_tree_node" where
  "map_tree f (PLeaf p) = PLeaf (f p)"
| "map_tree f (PSplit dir a b) = PSplit dir (map_tree f a) (map_tree f b)"

fun subst_leaf :: "pane_tree_node \<Rightarrow> pane_id \<Rightarrow> pane_tree_node \<Rightarrow> pane_tree_node" where
  "subst_leaf (PLeaf q) p x = (if q = p then x else PLeaf q)"
| "subst_leaf (PSplit dir a b) p x = PSplit dir (subst_leaf a p x) (subst_leaf b p x)"

lemma map_tree_panes [simp]: "snapshot_panes (map_tree f t) = map f (snapshot_panes t)"
  by (induction t) auto

lemma map_tree_cong:
  "(\<And>p. p \<in> set (snapshot_panes t) \<Longrightarrow> f p = g p) \<Longrightarrow> map_tree f t = map_tree g t"
  by (induction t) auto

lemma subst_leaf_absent: "p \<notin> set (snapshot_panes t) \<Longrightarrow> subst_leaf t p x = t"
  by (induction t) auto

lemma subst_leaf_id: "subst_leaf t p (PLeaf p) = t"
  by (induction t) auto

lemma spec_split_subst: "spec_split_tree t p dir n = subst_leaf t p (PSplit dir (PLeaf p) (PLeaf n))"
  by (induction t) auto

lemma subst_first: "n \<noteq> p \<Longrightarrow>
    subst_leaf (subst_leaf t p (PSplit dir (PLeaf p) (PLeaf n))) p x = subst_leaf t p (PSplit dir x (PLeaf n))"
  by (induction t) auto

lemma subst_second: "n \<notin> set (snapshot_panes t) \<Longrightarrow> n \<notin> set (snapshot_panes x) \<Longrightarrow>
    subst_leaf (subst_leaf t p (PSplit dir x (PLeaf n))) n y = subst_leaf t p (PSplit dir x y)"
  by (induction t) (auto simp: subst_leaf_absent)

lemma subst_leaf_panes:
  "set (snapshot_panes (subst_leaf t p x)) =
     (if p \<in> set (snapshot_panes t) then set (snapshot_panes t) - {p} \<union> set (snapshot_panes x) else set (snapshot_panes t))"
  by (induction t) auto

end
