(* ===== verification/Runtime_Rebuild.thy ===== *)
theory Runtime_Rebuild
  imports Runtime_Restore
begin

text \<open>
  What the rebuilder of saved sessions relies on, as the interface \<open>topology_client\<close>, and what it
  makes of it: a session whose commands do what the abstract multiplexer says ends with the tabs, the
  layouts, the titles and the focus of the saved one.
\<close>

section \<open>The interface\<close>

fun restoring :: "mux_command \<Rightarrow> bool" where
  "restoring (CNewTab spec) \<longleftrightarrow> True"
| "restoring (CSplitPane spec) \<longleftrightarrow> True"
| "restoring (CRenameTab t title) \<longleftrightarrow> True"
| "restoring (CFocusPane p) \<longleftrightarrow> True"
| "restoring (CFocusTab t) \<longleftrightarrow> True"
| "restoring _ \<longleftrightarrow> False"

lemma update_first_nth:
  "i < length xs \<Longrightarrow> q (xs ! i) \<Longrightarrow> (\<And>j. j < i \<Longrightarrow> \<not> q (xs ! j)) \<Longrightarrow> update_first q f xs = xs[i := f (xs ! i)]"
proof (induction xs arbitrary: i)
  case (Cons x xs)
  show ?case
  proof (cases i)
    case 0
    then show ?thesis using Cons.prems by simp
  next
    case (Suc k)
    have "\<not> q x" using Cons.prems(3) [of 0] Suc by simp
    moreover have "update_first q f xs = xs[k := f (xs ! k)]"
      using Cons.prems Suc by (intro Cons.IH) fastforce+
    ultimately show ?thesis using Suc by simp
  qed
qed simp

lemma concat_distinct_nth:
  assumes "distinct (concat xss)" "i < length xss" "j < length xss" "x \<in> set (xss ! i)" "x \<in> set (xss ! j)"
  shows "i = j"
  using assms
proof (induction xss arbitrary: i j)
  case (Cons xs xss)
  have apart: "x \<notin> set xs" if "x \<in> set (xss ! k)" "k < length xss" for k
  proof -
    have "x \<in> set (concat xss)" using that nth_mem [OF that(2)] by auto
    then show ?thesis using Cons.prems(1) by auto
  qed
  show ?case
    using Cons.prems apart by (cases i; cases j) (auto intro: Cons.IH)
qed simp

lemma owner_unique:
  assumes "topology_wf T" "i < length (tp_tabs T)" "j < length (tp_tabs T)"
    and "p \<in> set (snapshot_panes (ts_root (tp_tabs T ! i)))" "p \<in> set (snapshot_panes (ts_root (tp_tabs T ! j)))"
  shows "i = j"
  using assms concat_distinct_nth [of "map (\<lambda>tab. snapshot_panes (ts_root tab)) (tp_tabs T)" i j p]
  by (simp add: topology_wf_def topology_panes_def)

lemma tab_unique:
  assumes "topology_wf T" "i < length (tp_tabs T)" "j < length (tp_tabs T)"
    and "ts_tab_id (tp_tabs T ! i) = ts_tab_id (tp_tabs T ! j)"
  shows "i = j"
  using assms nth_eq_iff_index_eq [of "map ts_tab_id (tp_tabs T)" i j] by (simp add: topology_wf_def)

lemma tab_panes_in: "i < length (tp_tabs T) \<Longrightarrow> set (snapshot_panes (ts_root (tp_tabs T ! i))) \<subseteq> set (topology_panes T)"
  unfolding topology_panes_def by (simp, blast dest: nth_mem)

text \<open>The commands of the rebuilder, aimed at tab \<open>i\<close>, change no other tab.\<close>

lemma spec_split_at:
  assumes "topology_wf T" "i < length (tp_tabs T)" "p \<in> set (snapshot_panes (ts_root (tp_tabs T ! i)))"
  shows "tp_tabs (spec_command np nt (CSplitPane \<lparr>sp_pane_id = p, sp_direction = dir\<rparr>) T) =
    (tp_tabs T)[i := (tp_tabs T ! i)\<lparr>ts_root := subst_leaf (ts_root (tp_tabs T ! i)) p (PSplit dir (PLeaf p) (PLeaf np)),
                                    ts_focused_pane := Some np\<rparr>]"
proof -
  have "\<not> snapshot_contains p (tp_tabs T ! j)" if "j < i" for j
    using owner_unique [OF assms(1) _ assms(2) _ assms(3), of j] that assms(2) by (auto simp: snapshot_contains_def)
  then show ?thesis
    using assms(2,3) unfolding spec_command_def
    by (simp add: spec_on_tab_def spec_focus_owner_def spec_split_subst snapshot_contains_def [of p "tp_tabs T ! i"]
        update_first_nth [where i = i])
qed

lemma spec_focus_at:
  assumes "topology_wf T" "i < length (tp_tabs T)" "p \<in> set (snapshot_panes (ts_root (tp_tabs T ! i)))"
  shows "tp_tabs (spec_command np nt (CFocusPane p) T) =
    (tp_tabs T)[i := (tp_tabs T ! i)\<lparr>ts_focused_pane := Some p\<rparr>]"
proof -
  have "\<not> snapshot_contains p (tp_tabs T ! j)" if "j < i" for j
    using owner_unique [OF assms(1) _ assms(2) _ assms(3), of j] that assms(2) by (auto simp: snapshot_contains_def)
  then show ?thesis
    using assms(2,3) unfolding spec_command_def
    by (simp add: spec_on_tab_def spec_focus_owner_def snapshot_contains_def [of p "tp_tabs T ! i"]
        update_first_nth [where i = i])
qed

lemma spec_rename_at:
  assumes "topology_wf T" "i < length (tp_tabs T)"
  shows "tp_tabs (spec_command np nt (CRenameTab (ts_tab_id (tp_tabs T ! i)) title) T) =
    (tp_tabs T)[i := (tp_tabs T ! i)\<lparr>ts_title := Some title\<rparr>]"
proof -
  have "ts_tab_id (tp_tabs T ! j) \<noteq> ts_tab_id (tp_tabs T ! i)" if "j < i" for j
    using tab_unique [OF assms(1) _ assms(2), of j] that assms(2) by auto
  then show ?thesis
    using assms(2) by (simp add: spec_command_def spec_on_tab_def update_first_nth [where i = i])
qed

lemma find_tab_at:
  assumes "topology_wf T" "i < length (tp_tabs T)"
  shows "tab_snapshot_by_id T (ts_tab_id (tp_tabs T ! i)) = Inr (tp_tabs T ! i)"
proof -
  have "find (\<lambda>tab. ts_tab_id tab = ts_tab_id (tp_tabs T ! i)) (tp_tabs T) \<noteq> None"
    using nth_mem [OF assms(2)] by (auto simp: find_None_iff)
  then obtain tab where found: "find (\<lambda>tab. ts_tab_id tab = ts_tab_id (tp_tabs T ! i)) (tp_tabs T) = Some tab"
    by blast
  then have tab: "tab \<in> set (tp_tabs T)" "ts_tab_id tab = ts_tab_id (tp_tabs T ! i)" using find_SomeD by fastforce+
  then obtain j where "j < length (tp_tabs T)" "tab = tp_tabs T ! j" by (metis in_set_conv_nth)
  then have "tab = tp_tabs T ! i" using tab(2) tab_unique [OF assms(1) _ assms(2), of j] by simp
  then show ?thesis using found by (simp add: tab_snapshot_by_id_def)
qed

lemma topology_pane_at:
  "p \<in> set (topology_panes T) \<longleftrightarrow> (\<exists>j<length (tp_tabs T). p \<in> set (snapshot_panes (ts_root (tp_tabs T ! j))))"
  unfolding topology_panes_def by (simp add: in_set_conv_nth) (metis nth_mem in_set_conv_nth)

lemma topology_panes_grow:
  assumes "tp_tabs T' = (tp_tabs T)[i := x]" "i < length (tp_tabs T)"
    and "set (snapshot_panes (ts_root (tp_tabs T ! i))) \<subseteq> set (snapshot_panes (ts_root x))"
  shows "set (topology_panes T) \<subseteq> set (topology_panes T')"
proof
  fix p assume "p \<in> set (topology_panes T)"
  then obtain j where j: "j < length (tp_tabs T)" "p \<in> set (snapshot_panes (ts_root (tp_tabs T ! j)))"
    unfolding topology_pane_at by blast
  then have "p \<in> set (snapshot_panes (ts_root (tp_tabs T' ! j)))"
    using assms by (cases "j = i") auto
  then show "p \<in> set (topology_panes T')" unfolding topology_pane_at using j(1) assms(1) by auto
qed

text \<open>
  \<open>restores title saved live\<close>: tab by tab the live session has the layout, the title and the focus of
  the saved one, for some renaming of its panes; a first tab saved without a title is titled \<open>title\<close>.
\<close>

definition restored_tab :: "rstr option \<Rightarrow> tab_snapshot \<Rightarrow> tab_snapshot \<Rightarrow> bool" where
  "restored_tab title saved live \<longleftrightarrow>
     (\<exists>f. ts_root live = map_tree f (ts_root saved) \<and>
        (case ts_focused_pane saved of
           Some p \<Rightarrow> p \<in> set (snapshot_panes (ts_root saved)) \<longrightarrow> ts_focused_pane live = Some (f p)
         | None \<Rightarrow> True)) \<and>
     ts_title live = (case ts_title saved of Some t \<Rightarrow> Some t | None \<Rightarrow> title)"

definition restores :: "rstr option \<Rightarrow> topology_snapshot \<Rightarrow> topology_snapshot \<Rightarrow> bool" where
  "restores title saved live \<longleftrightarrow>
     length (tp_tabs live) = length (tp_tabs saved) \<and>
     (\<forall>i<length (tp_tabs saved).
        restored_tab (if i = 0 then title else None) (tp_tabs saved ! i) (tp_tabs live ! i) \<and>
        (tp_focused_tab saved = Some (ts_tab_id (tp_tabs saved ! i)) \<longrightarrow>
           tp_focused_tab live = Some (ts_tab_id (tp_tabs live ! i))))"

text \<open>The live tab that stands for the saved focus.\<close>

definition focus_of :: "tab_id option \<Rightarrow> (tab_snapshot \<times> tab_snapshot) list \<Rightarrow> tab_id option \<Rightarrow> tab_id option" where
  "focus_of saved_focus =
     fold (\<lambda>(live, saved) focus. if saved_focus = Some (ts_tab_id saved) then Some (ts_tab_id live) else focus)"

lemma focus_of_nth:
  assumes "distinct (map ts_tab_id saved)" "length live = length saved" "i < length saved" "g = Some (ts_tab_id (saved ! i))"
  shows "focus_of g (zip live saved) focus = Some (ts_tab_id (live ! i))"
  using assms
proof (induction live saved arbitrary: i focus rule: list_induct2')
  case (4 x live y saved)
  have keep: "focus_of g (zip l ys) k = k" if "g \<notin> Some ` set (map ts_tab_id ys)" for l ys k
    using that by (induction l ys arbitrary: k rule: list_induct2') (auto simp: focus_of_def)
  show ?case
  proof (cases i)
    case 0
    have "g \<notin> Some ` set (map ts_tab_id saved)" using 4 0 by auto
    then show ?thesis using keep 4(5) 0 by (simp add: focus_of_def)
  next
    case (Suc k)
    then show ?thesis using 4 by (simp add: focus_of_def)
  qed
qed simp_all

locale topology_client =
  fixes topo :: "'s \<Rightarrow> topology_snapshot"
    and snap :: "'s topology_op"
    and disp :: "'s dispatch_op"
    and inv :: "'s \<Rightarrow> bool"
    and room :: "'s \<Rightarrow> bool"
  assumes snap_room: "snap s = (r, s') \<Longrightarrow> room s' \<Longrightarrow> room s"
    and snap_ok: "inv s \<Longrightarrow> snap s = (Inr T, s') \<Longrightarrow> T = topo s \<and> topo s' = topo s \<and> inv s'"
    and disp_room: "restoring c \<Longrightarrow> disp c s = (q, s') \<Longrightarrow> room s' \<Longrightarrow> room s"
    and disp_ok: "inv s \<Longrightarrow> restoring c \<Longrightarrow> disp c s = (Inr x, s') \<Longrightarrow> room s' \<Longrightarrow>
      inv s' \<and> (\<exists>np nt. topo s' = spec_command np nt c (topo s) \<and>
                  (creates c \<longrightarrow> np \<notin> set (topology_panes (topo s))))"
    and inv_wf: "inv s \<Longrightarrow> topology_wf (topo s)"
begin

lemma tab_panes_now_Inr:
  assumes "inv s" "tab_panes_now snap (ts_tab_id (tp_tabs (topo s) ! i)) s = (Inr ps, s')" "i < length (tp_tabs (topo s))"
  shows "ps = snapshot_panes (ts_root (tp_tabs (topo s) ! i)) \<and> topo s' = topo s \<and> inv s'"
proof -
  obtain T s1 where 1: "snap s = (Inr T, s1)"
    "io_bind (io_lift (tab_snapshot_by_id T (ts_tab_id (tp_tabs (topo s) ! i))))
       (\<lambda>tab. io_ok (collect_snapshot_pane_ids (ts_root tab))) s1 = (Inr ps, s')"
    using assms(2) unfolding tab_panes_now_def by (rule io_bind_InrE)
  note snapped = snap_ok [OF assms(1) 1(1)]
  then have "tab_snapshot_by_id T (ts_tab_id (tp_tabs (topo s) ! i)) = Inr (tp_tabs (topo s) ! i)"
    using find_tab_at [OF inv_wf [OF assms(1)] assms(3)] by simp
  then show ?thesis using 1(2) snapped by simp
qed

lemma tab_panes_now_room:
  assumes "tab_panes_now snap t s = (r, s')" "room s'"
  shows "room s"
proof -
  obtain x s1 where x: "snap s = (x, s1)" by (cases "snap s")
  have "s1 = s'" using assms(1) x
    by (cases x; cases "tab_snapshot_by_id (projr x) t") (auto simp: tab_panes_now_def io_bind_def)
  then show ?thesis using snap_room [OF x] assms(2) by simp
qed

lemma split_live_room:
  assumes "split_live_pane snap disp t live dir s = (r, s')" "room s'"
  shows "room s"
proof -
  obtain x s1 where x: "tab_panes_now snap t s = (x, s1)" by (cases "tab_panes_now snap t s")
  obtain y s2 where y: "disp (CSplitPane \<lparr>sp_pane_id = live, sp_direction = dir\<rparr>) s1 = (y, s2)"
    by (cases "disp (CSplitPane \<lparr>sp_pane_id = live, sp_direction = dir\<rparr>) s1")
  obtain z s3 where z: "tab_panes_now snap t s2 = (z, s3)" by (cases "tab_panes_now snap t s2")
  have "s' = (if isl x then s1 else if isl y then s2 else s3)"
    using assms(1) x y z
    by (cases x; cases y; cases z) (auto simp: split_live_pane_def io_bind_def)
  then show ?thesis
    using assms(2) tab_panes_now_room [OF x] tab_panes_now_room [OF z] disp_room [OF _ y]
    by (auto split: if_splits)
qed

lemma rebuild_loop_room: "rebuild_loop snap disp t pending m s = (r, s') \<Longrightarrow> room s' \<Longrightarrow> room s"
proof (induction pending arbitrary: m s rule: measure_induct_rule [where f = "\<lambda>p. sum_list (map (\<lambda>(node, live). 2 * size node + 1) p)"])
  case (less pending)
  show ?case
  proof (cases pending)
    case Nil
    then show ?thesis using less.prems by simp
  next
    case (Cons first rest)
    obtain node live where first: "first = (node, live)" by (cases first)
    show ?thesis
    proof (cases node)
      case (PLeaf p)
      then show ?thesis using less.prems less.IH [of rest] Cons first by simp
    next
      case (PSplit dir a b)
      obtain x s1 where x: "split_live_pane snap disp t live dir s = (x, s1)"
        by (cases "split_live_pane snap disp t live dir s")
      have "room s1"
        using less.prems less.IH [of "(a, live) # (b, projr x) # rest"] x Cons first PSplit by (cases x) auto
      then show ?thesis by (rule split_live_room [OF x])
    qed
  qed
qed

text \<open>One split: the pane it returns is the new one.\<close>

lemma split_live_ok:
  assumes "inv s" "i < length (tp_tabs (topo s))" "live \<in> set (snapshot_panes (ts_root (tp_tabs (topo s) ! i)))"
    and "split_live_pane snap disp (ts_tab_id (tp_tabs (topo s) ! i)) live dir s = (Inr new, s')" "room s'"
  shows "inv s' \<and> new \<notin> set (topology_panes (topo s)) \<and>
    tp_tabs (topo s') = (tp_tabs (topo s))[i := (tp_tabs (topo s) ! i)
      \<lparr>ts_root := subst_leaf (ts_root (tp_tabs (topo s) ! i)) live (PSplit dir (PLeaf live) (PLeaf new)), ts_focused_pane := Some new\<rparr>]"
proof -
  let ?tab = "tp_tabs (topo s) ! i" and ?c = "CSplitPane \<lparr>sp_pane_id = live, sp_direction = dir\<rparr>"
  obtain bs s1 where 1: "tab_panes_now snap (ts_tab_id ?tab) s = (Inr bs, s1)"
    "io_bind (disp ?c) (\<lambda>_. io_bind (tab_panes_now snap (ts_tab_id ?tab))
       (\<lambda>as. io_lift (new_pane_id_after_split bs as))) s1 = (Inr new, s')"
    using assms(4) unfolding split_live_pane_def by (rule io_bind_InrE)
  note before = tab_panes_now_Inr [OF assms(1) 1(1) assms(2)]
  obtain x s2 where 2: "disp ?c s1 = (Inr x, s2)"
    "io_bind (tab_panes_now snap (ts_tab_id ?tab)) (\<lambda>as. io_lift (new_pane_id_after_split bs as)) s2 = (Inr new, s')"
    using 1(2) by (rule io_bind_InrE)
  obtain as s3 where 3: "tab_panes_now snap (ts_tab_id ?tab) s2 = (Inr as, s3)"
    "io_lift (new_pane_id_after_split bs as) s3 = (Inr new, s')"
    using 2(2) by (rule io_bind_InrE)
  have "room s2" using tab_panes_now_room [OF 3(1)] 3(2) assms(5) by simp
  then obtain np nt where c: "inv s2" "topo s2 = spec_command np nt ?c (topo s)" "np \<notin> set (topology_panes (topo s))"
    using disp_ok [OF _ _ 2(1)] before by (auto simp: creates_def)
  note tabs = spec_split_at [OF inv_wf [OF assms(1)] assms(2,3), of np nt dir, folded c(2)]
  have id: "ts_tab_id (tp_tabs (topo s2) ! i) = ts_tab_id ?tab" and len: "i < length (tp_tabs (topo s2))"
    using tabs assms(2) by simp_all
  note after = tab_panes_now_Inr [OF c(1) 3(1) [folded id] len]
  have root: "ts_root (tp_tabs (topo s2) ! i) = subst_leaf (ts_root ?tab) live (PSplit dir (PLeaf live) (PLeaf np))"
    using tabs assms(2) by simp
  have "new \<in> set as \<and> new \<notin> set bs"
    using 3(2) find_SomeD [of "\<lambda>p. p \<notin> set bs" as new] by (auto simp: new_pane_id_after_split_def)
  then have "new = np"
    using after before root assms(3) by (auto simp: subst_leaf_panes split: if_splits)
  then show ?thesis using c tabs after 3(2) by simp
qed

text \<open>A node of the saved tree: the live pane becomes a copy of it, and nothing else changes.\<close>

definition node_rebuilt ::
    "'s \<Rightarrow> nat \<Rightarrow> pane_id \<Rightarrow> pane_tree_node \<Rightarrow> (pane_id \<Rightarrow> pane_id) \<Rightarrow> 's \<Rightarrow> bool" where
  "node_rebuilt s i live node f s1 \<longleftrightarrow> inv s1 \<and>
     (\<exists>fp. tp_tabs (topo s1) = (tp_tabs (topo s))[i := (tp_tabs (topo s) ! i)
        \<lparr>ts_root := subst_leaf (ts_root (tp_tabs (topo s) ! i)) live (map_tree f node), ts_focused_pane := fp\<rparr>]) \<and>
     live \<in> f ` set (snapshot_panes node) \<and>
     f ` set (snapshot_panes node) \<subseteq> insert live (- set (topology_panes (topo s)))"

lemma rebuild_node:
  assumes "inv s" "i < length (tp_tabs (topo s))" "live \<in> set (snapshot_panes (ts_root (tp_tabs (topo s) ! i)))"
    and "distinct (snapshot_panes node)" "t = ts_tab_id (tp_tabs (topo s) ! i)"
    and "rebuild_loop snap disp t ((node, live) # rest) m s = (Inr m', s')" "room s'"
  shows "\<exists>f s1. node_rebuilt s i live node f s1 \<and>
    rebuild_loop snap disp t rest (\<lambda>p. if p \<in> set (snapshot_panes node) then Some (f p) else m p) s1 = (Inr m', s')"
  using assms
proof (induction node arbitrary: s live rest m)
  case (PLeaf p)
  have "node_rebuilt s i live (PLeaf p) (\<lambda>_. live) s"
    using PLeaf.prems(1,2) by (auto simp: node_rebuilt_def subst_leaf_id intro!: exI [of _ "ts_focused_pane (tp_tabs (topo s) ! i)"])
  moreover have "m(p \<mapsto> live) = (\<lambda>q. if q \<in> set (snapshot_panes (PLeaf p)) then Some live else m q)" by auto
  ultimately show ?case using PLeaf.prems(6) by (intro exI [of _ "\<lambda>_. live"] exI [of _ s]) simp
next
  case (PSplit dir a b)
  let ?tab = "tp_tabs (topo s) ! i"
  obtain new s2 where 1: "split_live_pane snap disp t live dir s = (Inr new, s2)"
    "rebuild_loop snap disp t ((a, live) # (b, new) # rest) m s2 = (Inr m', s')"
    using PSplit.prems(6) by (auto split: prod.splits sum.splits)
  have "room s2" using rebuild_loop_room [OF 1(2)] PSplit.prems(7) .
  note split = split_live_ok [OF PSplit.prems(1,2,3) 1(1) [unfolded PSplit.prems(5)] this]
  let ?R = "ts_root ?tab" and ?S = "PSplit dir (PLeaf live) (PLeaf new)"
  have tab2: "tp_tabs (topo s2) ! i = ?tab\<lparr>ts_root := subst_leaf ?R live ?S, ts_focused_pane := Some new\<rparr>"
    "length (tp_tabs (topo s2)) = length (tp_tabs (topo s))"
    using split PSplit.prems(2) by auto
  have new: "new \<noteq> live" "new \<notin> set (snapshot_panes ?R)"
    using split PSplit.prems(2,3) tab_panes_in by auto
  have grow2: "set (topology_panes (topo s)) \<subseteq> set (topology_panes (topo s2))"
    using split PSplit.prems(2) by (intro topology_panes_grow) (auto simp: subst_leaf_panes)
  have in2: "live \<in> set (snapshot_panes (ts_root (tp_tabs (topo s2) ! i)))" "new \<in> set (snapshot_panes (ts_root (tp_tabs (topo s2) ! i)))"
    and id2: "t = ts_tab_id (tp_tabs (topo s2) ! i)"
    using tab2 PSplit.prems(2,3,5) by (simp_all add: subst_leaf_panes)
  have dist: "distinct (snapshot_panes a)" "distinct (snapshot_panes b)" using PSplit.prems(4) by simp_all
  obtain f s3 where 3: "node_rebuilt s2 i live a f s3"
    "rebuild_loop snap disp t ((b, new) # rest) (\<lambda>p. if p \<in> set (snapshot_panes a) then Some (f p) else m p) s3 = (Inr m', s')"
    using PSplit.IH(1) [OF _ _ in2(1) dist(1) id2 1(2) PSplit.prems(7)] split tab2 PSplit.prems(2) by auto
  then obtain fp where fp: "inv s3" "tp_tabs (topo s3) = (tp_tabs (topo s2))[i := (tp_tabs (topo s2) ! i)
      \<lparr>ts_root := subst_leaf (subst_leaf ?R live ?S) live (map_tree f a), ts_focused_pane := fp\<rparr>]"
    "live \<in> f ` set (snapshot_panes a)" "f ` set (snapshot_panes a) \<subseteq> insert live (- set (topology_panes (topo s2)))"
    unfolding node_rebuilt_def tab2 by auto
  have newin: "new \<in> set (topology_panes (topo s2))"
    using tab_panes_in [of i "topo s2"] tab2 PSplit.prems(2,3) by (auto simp: subst_leaf_panes)
  then have newa: "new \<notin> f ` set (snapshot_panes a)" using fp(4) new(1) by auto
  have root3: "subst_leaf (subst_leaf ?R live ?S) live (map_tree f a) = subst_leaf ?R live (PSplit dir (map_tree f a) (PLeaf new))"
    by (rule subst_first [OF new(1)])
  have tab3: "tp_tabs (topo s3) ! i = ?tab\<lparr>ts_root := subst_leaf ?R live (PSplit dir (map_tree f a) (PLeaf new)), ts_focused_pane := fp\<rparr>"
    "length (tp_tabs (topo s3)) = length (tp_tabs (topo s))"
    using fp(2) tab2 PSplit.prems(2) by (auto simp: root3)
  have grow3: "set (topology_panes (topo s2)) \<subseteq> set (topology_panes (topo s3))"
    using fp(2,3) tab2 PSplit.prems(2,3) by (intro topology_panes_grow) (auto simp: subst_leaf_panes)
  have in3: "new \<in> set (snapshot_panes (ts_root (tp_tabs (topo s3) ! i)))" and id3: "t = ts_tab_id (tp_tabs (topo s3) ! i)"
    using tab3 PSplit.prems(2,3,5) by (simp_all add: subst_leaf_panes)
  obtain g s4 where 4: "node_rebuilt s3 i new b g s4"
    "rebuild_loop snap disp t rest (\<lambda>p. if p \<in> set (snapshot_panes b) then Some (g p) else
        (if p \<in> set (snapshot_panes a) then Some (f p) else m p)) s4 = (Inr m', s')"
    using PSplit.IH(2) [OF fp(1) _ in3 dist(2) id3 3(2) PSplit.prems(7)] tab3(2) PSplit.prems(2) by auto
  then obtain gp where gp: "inv s4" "tp_tabs (topo s4) = (tp_tabs (topo s3))[i := (tp_tabs (topo s3) ! i)
      \<lparr>ts_root := subst_leaf (subst_leaf ?R live (PSplit dir (map_tree f a) (PLeaf new))) new (map_tree g b), ts_focused_pane := gp\<rparr>]"
    "new \<in> g ` set (snapshot_panes b)" "g ` set (snapshot_panes b) \<subseteq> insert new (- set (topology_panes (topo s3)))"
    unfolding node_rebuilt_def tab3 by auto
  let ?h = "\<lambda>p. if p \<in> set (snapshot_panes a) then f p else g p"
  have parts: "map_tree ?h a = map_tree f a" "map_tree ?h b = map_tree g b"
    using PSplit.prems(4) by (auto intro!: map_tree_cong)
  have root4: "subst_leaf (subst_leaf ?R live (PSplit dir (map_tree f a) (PLeaf new))) new (map_tree g b)
      = subst_leaf ?R live (map_tree ?h (PSplit dir a b))"
    using new(2) newa by (subst subst_second) (auto simp: parts)
  have "tp_tabs (topo s4) = (tp_tabs (topo s))[i := ?tab
      \<lparr>ts_root := subst_leaf ?R live (map_tree ?h (PSplit dir a b)), ts_focused_pane := gp\<rparr>]"
    using gp(2) fp(2) tab3 split unfolding root4 by simp
  moreover have "live \<in> ?h ` set (snapshot_panes (PSplit dir a b))" using fp(3) by force
  moreover have "?h ` set (snapshot_panes (PSplit dir a b)) \<subseteq> insert live (- set (topology_panes (topo s)))"
  proof -
    have "f ` set (snapshot_panes a) \<subseteq> insert live (- set (topology_panes (topo s)))" using fp(4) grow2 by blast
    moreover have "g ` set (snapshot_panes b) \<subseteq> insert live (- set (topology_panes (topo s)))"
      using gp(4) grow2 grow3 split by blast
    ultimately have "?h p \<in> insert live (- set (topology_panes (topo s)))"
      if "p \<in> set (snapshot_panes (PSplit dir a b))" for p
      using that by (cases "p \<in> set (snapshot_panes a)") (simp_all add: image_subset_iff)
    then show ?thesis by (rule image_subsetI)
  qed
  ultimately have "node_rebuilt s i live (PSplit dir a b) ?h s4" using gp(1) unfolding node_rebuilt_def by blast
  moreover have "(\<lambda>p. if p \<in> set (snapshot_panes (PSplit dir a b)) then Some (?h p) else m p) =
      (\<lambda>p. if p \<in> set (snapshot_panes b) then Some (g p) else (if p \<in> set (snapshot_panes a) then Some (f p) else m p))"
    using PSplit.prems(4) by (auto simp: fun_eq_iff)
  ultimately show ?case using 4(2) by (intro exI [of _ ?h] exI [of _ s4]) simp
qed

text \<open>One tab: title, layout and focus of the saved one, the other tabs as they were.\<close>

definition tab_restored :: "(pane_id \<Rightarrow> pane_id) \<Rightarrow> tab_snapshot \<Rightarrow> tab_snapshot \<Rightarrow> tab_snapshot \<Rightarrow> bool" where
  "tab_restored f saved before after \<longleftrightarrow>
     ts_tab_id after = ts_tab_id before \<and> ts_root after = map_tree f (ts_root saved) \<and>
     ts_title after = (case ts_title saved of Some title \<Rightarrow> Some title | None \<Rightarrow> ts_title before) \<and>
     (case ts_focused_pane saved of Some p \<Rightarrow> p \<in> set (snapshot_panes (ts_root saved)) \<longrightarrow> ts_focused_pane after = Some (f p)
      | None \<Rightarrow> True)"

lemma disp_unit_Inr:
  assumes "io_bind (disp c) (\<lambda>_. io_ok ()) s = (Inr (), s')"
  obtains x where "disp c s = (Inr x, s')"
  using assms by (auto simp: io_bind_Inr)

lemma rename_ok:
  assumes "inv s" "i < length (tp_tabs (topo s))"
    and "rename_tab_if_needed disp (tp_tabs (topo s) ! i) saved s = (Inr (), s')" "room s'"
  shows "inv s' \<and> tp_tabs (topo s') = (tp_tabs (topo s))[i := (tp_tabs (topo s) ! i)
      \<lparr>ts_title := (case ts_title saved of Some title \<Rightarrow> Some title | None \<Rightarrow> ts_title (tp_tabs (topo s) ! i))\<rparr>]"
proof (cases "ts_title saved = None \<or> ts_title (tp_tabs (topo s) ! i) = ts_title saved")
  case True
  then have "s' = s" using assms(3) by (auto simp: rename_tab_if_needed_def split: option.splits)
  moreover have "(case ts_title saved of Some title \<Rightarrow> Some title | None \<Rightarrow> ts_title (tp_tabs (topo s) ! i)) = ts_title (tp_tabs (topo s) ! i)"
    using True by (auto split: option.split)
  ultimately show ?thesis using assms(1) by simp
next
  case False
  then obtain title where title: "ts_title saved = Some title" by auto
  then have "io_bind (disp (CRenameTab (ts_tab_id (tp_tabs (topo s) ! i)) title)) (\<lambda>_. io_ok ()) s = (Inr (), s')"
    using assms(3) False by (simp add: rename_tab_if_needed_def split: if_splits)
  then obtain x where x: "disp (CRenameTab (ts_tab_id (tp_tabs (topo s) ! i)) title) s = (Inr x, s')"
    by (rule disp_unit_Inr)
  from disp_ok [OF assms(1) _ x assms(4)] spec_rename_at [OF inv_wf [OF assms(1)] assms(2)] title
  show ?thesis by auto
qed

lemma focus_pane_ok:
  assumes "inv s" "i < length (tp_tabs (topo s))"
    and "focus_saved_pane disp saved panes s = (Inr (), s')" "room s'"
    and "\<And>p live. panes p = Some live \<Longrightarrow> live \<in> set (snapshot_panes (ts_root (tp_tabs (topo s) ! i)))"
  shows "inv s' \<and> (\<exists>fp. tp_tabs (topo s') = (tp_tabs (topo s))[i := (tp_tabs (topo s) ! i)\<lparr>ts_focused_pane := fp\<rparr>] \<and>
      (\<forall>p live. ts_focused_pane saved = Some p \<and> panes p = Some live \<longrightarrow> fp = Some live))"
proof (cases "\<exists>p live. ts_focused_pane saved = Some p \<and> panes p = Some live")
  case True
  then obtain p live where p: "ts_focused_pane saved = Some p" "panes p = Some live" by blast
  then have "io_bind (disp (CFocusPane live)) (\<lambda>_. io_ok ()) s = (Inr (), s')"
    using assms(3) by (simp add: focus_saved_pane_def)
  then obtain x where x: "disp (CFocusPane live) s = (Inr x, s')" by (rule disp_unit_Inr)
  from disp_ok [OF assms(1) _ x assms(4)] spec_focus_at [OF inv_wf [OF assms(1)] assms(2) assms(5) [OF p(2)]]
  show ?thesis using p by (intro conjI exI [of _ "Some live"]) auto
next
  case False
  then have "s' = s" using assms(3) by (auto simp: focus_saved_pane_def split: option.splits)
  then show ?thesis using assms(1) False
    by (intro conjI exI [of _ "ts_focused_pane (tp_tabs (topo s) ! i)"]) auto
qed

lemma focus_room: "focus_saved_pane disp saved panes s = (r, s') \<Longrightarrow> room s' \<Longrightarrow> room s"
  unfolding focus_saved_pane_def
  by (auto simp: io_bind_def split: option.splits prod.splits sum.splits intro: disp_room [of "CFocusPane p" for p])

lemma rename_room: "rename_tab_if_needed disp live_tab saved s = (r, s') \<Longrightarrow> room s' \<Longrightarrow> room s"
  unfolding rename_tab_if_needed_def
  by (auto simp: io_bind_def split: option.splits if_splits prod.splits sum.splits intro: disp_room [of "CRenameTab t n" for t n])

lemma layout_room:
  assumes "rebuild_saved_tab_layout snap disp t saved s = (r, s')" "room s'"
  shows "room s"
proof -
  obtain x s1 where x: "tab_panes_now snap t s = (x, s1)" by (cases "tab_panes_now snap t s")
  have "room s1"
  proof (cases x)
    case (Inl e)
    then show ?thesis using assms x by (simp add: rebuild_saved_tab_layout_def io_bind_def)
  next
    case (Inr ps)
    then show ?thesis using assms x rebuild_loop_room
      by (cases ps) (auto simp: rebuild_saved_tab_layout_def io_bind_def simp del: rebuild_loop.simps)
  qed
  then show ?thesis by (rule tab_panes_now_room [OF x])
qed

lemma restore_tab_ok:
  assumes "inv s" "i < length (tp_tabs (topo s))" "ts_root (tp_tabs (topo s) ! i) = PLeaf first"
    and "distinct (snapshot_panes (ts_root saved))"
    and "restore_tab snap disp (tp_tabs (topo s) ! i) saved s = (Inr (), s')" "room s'"
  shows "inv s' \<and> (\<exists>f after. tp_tabs (topo s') = (tp_tabs (topo s))[i := after] \<and>
      tab_restored f saved (tp_tabs (topo s) ! i) after \<and>
      f ` set (snapshot_panes (ts_root saved)) \<subseteq> insert first (- set (topology_panes (topo s))))"
proof -
  let ?tab = "tp_tabs (topo s) ! i"
  let ?title = "case ts_title saved of Some title \<Rightarrow> Some title | None \<Rightarrow> ts_title ?tab"
  obtain u s1 where 1: "rename_tab_if_needed disp ?tab saved s = (Inr u, s1)"
    "io_bind (rebuild_saved_tab_layout snap disp (ts_tab_id ?tab) saved) (\<lambda>panes. focus_saved_pane disp saved panes) s1 = (Inr (), s')"
    using assms(5) unfolding restore_tab_def by (rule io_bind_InrE)
  obtain panes s2 where 2: "rebuild_saved_tab_layout snap disp (ts_tab_id ?tab) saved s1 = (Inr panes, s2)"
    "focus_saved_pane disp saved panes s2 = (Inr (), s')"
    using 1(2) by (rule io_bind_InrE)
  have room2: "room s2" by (rule focus_room [OF 2(2) assms(6)])
  have room1: "room s1" by (rule layout_room [OF 2(1) room2])
  have renamed: "inv s1" "tp_tabs (topo s1) = (tp_tabs (topo s))[i := ?tab\<lparr>ts_title := ?title\<rparr>]"
    using rename_ok [OF assms(1,2) _ room1, of saved] 1(1) by auto
  have tab1: "tp_tabs (topo s1) ! i = ?tab\<lparr>ts_title := ?title\<rparr>" "length (tp_tabs (topo s1)) = length (tp_tabs (topo s))"
    using renamed(2) assms(2) by auto
  have panes1: "set (topology_panes (topo s)) \<subseteq> set (topology_panes (topo s1))"
    using renamed(2) assms(2) by (intro topology_panes_grow) auto
  obtain ps s3 where 3: "tab_panes_now snap (ts_tab_id ?tab) s1 = (Inr ps, s3)"
    "(case ps of [] \<Rightarrow> io_err (internal_error [MText ''restored native tab has no initial pane''])
       | initial # others \<Rightarrow> rebuild_loop snap disp (ts_tab_id ?tab) [(ts_root saved, initial)] Map.empty) s3 = (Inr panes, s2)"
    using 2(1) unfolding rebuild_saved_tab_layout_def by (rule io_bind_InrE)
  have id1: "ts_tab_id ?tab = ts_tab_id (tp_tabs (topo s1) ! i)" using tab1 by simp
  have len1: "i < length (tp_tabs (topo s1))" using tab1 assms(2) by simp
  have now: "ps = [first]" "topo s3 = topo s1" "inv s3"
    using tab_panes_now_Inr [OF renamed(1) 3(1) [unfolded id1] len1] tab1 assms(3) by simp_all
  have loop: "rebuild_loop snap disp (ts_tab_id ?tab) ((ts_root saved, first) # []) Map.empty s3 = (Inr panes, s2)"
    using 3(2) now(1) by simp
  have at3: "i < length (tp_tabs (topo s3))" "first \<in> set (snapshot_panes (ts_root (tp_tabs (topo s3) ! i)))"
    and id3: "ts_tab_id ?tab = ts_tab_id (tp_tabs (topo s3) ! i)"
    using now(2) tab1 len1 assms(3) by simp_all
  obtain f s4 where f: "node_rebuilt s3 i first (ts_root saved) f s4"
    "rebuild_loop snap disp (ts_tab_id ?tab) [] (\<lambda>p. if p \<in> set (snapshot_panes (ts_root saved)) then Some (f p) else None) s4 = (Inr panes, s2)"
    using rebuild_node [OF now(3) at3 assms(4) id3 loop room2] by blast
  have s4: "s4 = s2" "panes = (\<lambda>p. if p \<in> set (snapshot_panes (ts_root saved)) then Some (f p) else None)" using f(2) by auto
  obtain fp where rebuilt: "inv s2" "tp_tabs (topo s2) = (tp_tabs (topo s))[i := ?tab\<lparr>ts_title := ?title,
      ts_root := map_tree f (ts_root saved), ts_focused_pane := fp\<rparr>]"
    "f ` set (snapshot_panes (ts_root saved)) \<subseteq> insert first (- set (topology_panes (topo s1)))"
    using f(1) now(2) tab1 assms(3) renamed(2) unfolding node_rebuilt_def s4 by auto
  have tab2: "i < length (tp_tabs (topo s2))" "ts_root (tp_tabs (topo s2) ! i) = map_tree f (ts_root saved)"
    using rebuilt(2) assms(2) by auto
  have inside: "live \<in> set (snapshot_panes (ts_root (tp_tabs (topo s2) ! i)))" if "panes p = Some live" for p live
    using that tab2(2) s4(2) by (auto split: if_splits)
  obtain gp where focused: "inv s'" "tp_tabs (topo s') = (tp_tabs (topo s2))[i := (tp_tabs (topo s2) ! i)\<lparr>ts_focused_pane := gp\<rparr>]"
    "\<forall>p live. ts_focused_pane saved = Some p \<and> panes p = Some live \<longrightarrow> gp = Some live"
    using focus_pane_ok [OF rebuilt(1) tab2(1) 2(2) assms(6)] inside by blast
  let ?after = "?tab\<lparr>ts_title := ?title, ts_root := map_tree f (ts_root saved), ts_focused_pane := gp\<rparr>"
  have "tp_tabs (topo s') = (tp_tabs (topo s))[i := ?after]"
    using focused(2) rebuilt(2) assms(2) by simp
  moreover have "tab_restored f saved ?tab ?after"
    using focused(3) s4(2) by (auto simp: tab_restored_def split: option.splits)
  ultimately show ?thesis using focused(1) rebuilt(3) panes1 by blast
qed

text \<open>All tabs.\<close>

lemma restore_tab_room:
  assumes "restore_tab snap disp live saved s = (r, s')" "room s'"
  shows "room s"
proof -
  obtain x s1 where x: "rename_tab_if_needed disp live saved s = (x, s1)" by (cases "rename_tab_if_needed disp live saved s")
  obtain y s2 where y: "rebuild_saved_tab_layout snap disp (ts_tab_id live) saved s1 = (y, s2)"
    by (cases "rebuild_saved_tab_layout snap disp (ts_tab_id live) saved s1")
  have "s' = s1 \<or> s' = s2 \<or> (\<exists>panes. focus_saved_pane disp saved panes s2 = (r, s'))"
    using assms(1) x y by (cases x; cases y) (auto simp: restore_tab_def io_bind_def)
  then show ?thesis using assms(2) rename_room [OF x] layout_room [OF y] focus_room by blast
qed

lemma restore_tabs_room: "restore_tabs snap disp T g index tabs focus s = (r, s') \<Longrightarrow> room s' \<Longrightarrow> room s"
proof (induction tabs arbitrary: index focus s)
  case (Cons tab tabs)
  show ?case
  proof (cases "vec_get (tp_tabs T) index")
    case None
    then show ?thesis using Cons.prems by simp
  next
    case (Some live)
    obtain x s1 where x: "restore_tab snap disp live tab s = (x, s1)" by (cases "restore_tab snap disp live tab s")
    have "room s1"
      using Cons.prems Some x Cons.IH by (cases x) (auto simp: io_bind_def)
    then show ?thesis by (rule restore_tab_room [OF x])
  qed
qed simp

lemma restore_tabs_ok:
  assumes "inv s" "index + length saved = length (tp_tabs T)" "length (tp_tabs (topo s)) = length (tp_tabs T)"
    and "\<And>j. index \<le> j \<Longrightarrow> j < length (tp_tabs T) \<Longrightarrow>
           tp_tabs (topo s) ! j = tp_tabs T ! j \<and> (\<exists>p. ts_root (tp_tabs T ! j) = PLeaf p)"
    and "\<And>tab. tab \<in> set saved \<Longrightarrow> distinct (snapshot_panes (ts_root tab))"
    and "restore_tabs snap disp T g index saved focus s = (Inr focus', s')" "room s'"
  shows "inv s' \<and> length (tp_tabs (topo s')) = length (tp_tabs T) \<and>
    (\<forall>j<index. tp_tabs (topo s') ! j = tp_tabs (topo s) ! j) \<and>
    (\<forall>k<length saved. \<exists>f. tab_restored f (saved ! k) (tp_tabs T ! (index + k)) (tp_tabs (topo s') ! (index + k))) \<and>
    focus' = focus_of g (zip (drop index (tp_tabs T)) saved) focus"
  using assms
proof (induction saved arbitrary: index focus s)
  case Nil
  then show ?case by (simp add: focus_of_def)
next
  case (Cons tab tabs)
  have len: "index < length (tp_tabs T)" using Cons.prems(2) by simp
  then have get: "vec_get (tp_tabs T) index = Some (tp_tabs T ! index)" by (simp add: vec_get_def)
  let ?live = "tp_tabs T ! index"
  let ?focus = "if g = Some (ts_tab_id tab) then Some (ts_tab_id ?live) else focus"
  obtain u s1 where 1: "restore_tab snap disp ?live tab s = (Inr u, s1)"
    "restore_tabs snap disp T g (Suc index) tabs ?focus s1 = (Inr focus', s')"
    using Cons.prems(6) get by (auto simp: io_bind_Inr)
  have room1: "room s1" by (rule restore_tabs_room [OF 1(2) Cons.prems(7)])
  have same: "tp_tabs (topo s) ! index = ?live" and lens: "index < length (tp_tabs (topo s))"
    using Cons.prems(3,4) len by auto
  obtain p where leaf: "ts_root (tp_tabs (topo s) ! index) = PLeaf p" using Cons.prems(4) [of index] len same by auto
  have u: "restore_tab snap disp (tp_tabs (topo s) ! index) tab s = (Inr (), s1)" using 1(1) same by simp
  have dt: "distinct (snapshot_panes (ts_root tab))" using Cons.prems(5) by simp
  obtain f after where done1: "inv s1" "tp_tabs (topo s1) = (tp_tabs (topo s))[index := after]"
    "tab_restored f tab ?live after"
    using restore_tab_ok [OF Cons.prems(1) lens leaf dt u room1] same by auto
  have IH: "inv s' \<and> length (tp_tabs (topo s')) = length (tp_tabs T) \<and>
    (\<forall>j<Suc index. tp_tabs (topo s') ! j = tp_tabs (topo s1) ! j) \<and>
    (\<forall>k<length tabs. \<exists>f. tab_restored f (tabs ! k) (tp_tabs T ! (Suc index + k)) (tp_tabs (topo s') ! (Suc index + k))) \<and>
    focus' = focus_of g (zip (drop (Suc index) (tp_tabs T)) tabs) ?focus"
  proof (rule Cons.IH [OF done1(1) _ _ _ _ 1(2) Cons.prems(7)])
    show "Suc index + length tabs = length (tp_tabs T)" using Cons.prems(2) by simp
    show "length (tp_tabs (topo s1)) = length (tp_tabs T)" using done1(2) Cons.prems(3) by simp
    show "tp_tabs (topo s1) ! j = tp_tabs T ! j \<and> (\<exists>p. ts_root (tp_tabs T ! j) = PLeaf p)"
      if "Suc index \<le> j" "j < length (tp_tabs T)" for j
      using that Cons.prems(4) [of j] done1(2) by simp
  qed (use Cons.prems(5) in simp)
  have kth: "\<exists>f. tab_restored f ((tab # tabs) ! k) (tp_tabs T ! (index + k)) (tp_tabs (topo s') ! (index + k))"
    if "k < length (tab # tabs)" for k
  proof (cases k)
    case 0
    have "tp_tabs (topo s') ! index = after" using IH done1(2) lens by simp
    then show ?thesis using done1(3) 0 by auto
  next
    case (Suc l)
    then show ?thesis using IH that by simp
  qed
  have "drop index (tp_tabs T) = ?live # drop (Suc index) (tp_tabs T)" using len by (rule Cons_nth_drop_Suc [symmetric])
  then have "focus' = focus_of g (zip (drop index (tp_tabs T)) (tab # tabs)) focus"
    using IH by (simp add: focus_of_def)
  then show ?case using IH kth done1(2) by simp
qed

lemma create_missing_room: "create_missing_tabs disp tabs s = (r, s') \<Longrightarrow> room s' \<Longrightarrow> room s"
proof (induction tabs arbitrary: s)
  case (Cons tab tabs)
  obtain x s1 where x: "disp (CNewTab \<lparr>nt_title = ts_title tab\<rparr>) s = (x, s1)"
    by (cases "disp (CNewTab \<lparr>nt_title = ts_title tab\<rparr>) s")
  have "room s1" using Cons x by (cases x) (auto simp: io_bind_def)
  then show ?case using disp_room [OF _ x] by simp
qed simp

lemma create_missing_ok:
  assumes "inv s" "create_missing_tabs disp tabs s = (Inr (), s')" "room s'"
  shows "inv s' \<and> (\<exists>news. tp_tabs (topo s') = tp_tabs (topo s) @ news \<and>
    list_all2 (\<lambda>saved live. ts_title live = ts_title saved \<and> (\<exists>p. ts_root live = PLeaf p)) tabs news)"
  using assms
proof (induction tabs arbitrary: s)
  case (Cons tab tabs)
  obtain x s1 where x: "disp (CNewTab \<lparr>nt_title = ts_title tab\<rparr>) s = (Inr x, s1)"
    "create_missing_tabs disp tabs s1 = (Inr (), s')"
    using Cons.prems(2) by (auto simp: io_bind_Inr)
  have "room s1" by (rule create_missing_room [OF x(2) Cons.prems(3)])
  then obtain np nt where c: "inv s1" "topo s1 = spec_command np nt (CNewTab \<lparr>nt_title = ts_title tab\<rparr>) (topo s)"
    using disp_ok [OF Cons.prems(1) _ x(1)] by auto
  from Cons.IH [OF c(1) x(2) Cons.prems(3)] obtain news where "inv s'" "tp_tabs (topo s') = tp_tabs (topo s1) @ news"
    "list_all2 (\<lambda>saved live. ts_title live = ts_title saved \<and> (\<exists>p. ts_root live = PLeaf p)) tabs news" by blast
  then show ?case using c(2) by (simp add: spec_command_def)
qed simp

lemma rebuild_room:
  assumes "rebuild snap disp saved s = (r, s')" "room s'"
  shows "room s"
proof -
  obtain x s1 where x: "create_missing_tabs disp (drop 1 (tp_tabs (sv_topology saved))) s = (x, s1)"
    by (cases "create_missing_tabs disp (drop 1 (tp_tabs (sv_topology saved))) s")
  obtain y s2 where y: "snap s1 = (y, s2)" by (cases "snap s1")
  obtain z s3 where z: "restore_tabs snap disp (projr y) (tp_focused_tab (sv_topology saved)) 0 (tp_tabs (sv_topology saved)) None s2 = (z, s3)"
    by (cases "restore_tabs snap disp (projr y) (tp_focused_tab (sv_topology saved)) 0 (tp_tabs (sv_topology saved)) None s2")
  have "s' = s1 \<or> s' = s2 \<or> s' = s3 \<or> (\<exists>t q. disp (CFocusTab t) s3 = (q, s'))"
  proof (cases x; cases y; cases z)
    fix u T focus assume r: "x = Inr u" "y = Inr T" "z = Inr focus"
    show ?thesis
    proof (cases "length (tp_tabs T) \<noteq> length (tp_tabs (sv_topology saved)) \<or> focus = None")
      case True
      then show ?thesis using assms(1) x y z r
        by (auto simp: rebuild_def io_bind_def focus_restored_tab_def split: if_splits)
    next
      case False
      then obtain t where t: "focus = Some t" by auto
      obtain q s4 where q: "disp (CFocusTab t) s3 = (q, s4)" by (cases "disp (CFocusTab t) s3")
      then have "s4 = s'"
        using assms(1) x y z r False t by (cases q) (auto simp: rebuild_def io_bind_def focus_restored_tab_def)
      then show ?thesis using q by blast
    qed
  qed (use assms(1) x y z in \<open>auto simp: rebuild_def io_bind_def split: if_splits\<close>)
  then show ?thesis
    using assms(2) create_missing_room [OF x] snap_room [OF y] restore_tabs_room [OF z] disp_room [of "CFocusTab t" for t]
    by (metis restoring.simps(5))
qed

lemma session_rebuilt:
  assumes "inv s" "tp_tabs (topo s) = [t0]" "ts_root t0 = PLeaf p0"
    and "tp_tabs (sv_topology saved) \<noteq> []" "topology_wf (sv_topology saved)"
    and "rebuild snap disp saved s = (Inr (), s')" "room s'"
  shows "inv s' \<and> restores (ts_title t0) (sv_topology saved) (topo s')"
proof -
  let ?saved = "tp_tabs (sv_topology saved)" and ?g = "tp_focused_tab (sv_topology saved)"
  obtain u s1 where 1: "create_missing_tabs disp (drop 1 ?saved) s = (Inr u, s1)"
    "io_bind snap (\<lambda>topology.
       if length (tp_tabs topology) \<noteq> length ?saved
       then io_err (internal_error [MText ''restored native session tab count drifted during rebuild - live '',
              MString (show_nat (length (tp_tabs topology))), MText '' saved '', MString (show_nat (length ?saved))])
       else io_bind (restore_tabs snap disp topology ?g 0 ?saved None) (\<lambda>focus. focus_restored_tab disp focus)) s1 = (Inr (), s')"
    using assms(6) unfolding rebuild_def by (rule io_bind_InrE)
  obtain T s2 where 2: "snap s1 = (Inr T, s2)" "length (tp_tabs T) = length ?saved"
    "io_bind (restore_tabs snap disp T ?g 0 ?saved None) (\<lambda>focus. focus_restored_tab disp focus) s2 = (Inr (), s')"
    by (rule io_bind_InrE [OF 1(2)]) (auto intro: that split: if_splits)
  obtain focus s3 where 3: "restore_tabs snap disp T ?g 0 ?saved None s2 = (Inr focus, s3)"
    "focus_restored_tab disp focus s3 = (Inr (), s')"
    using 2(3) by (rule io_bind_InrE)
  have room3: "room s3"
  proof (cases focus)
    case None
    then show ?thesis using 3(2) assms(7) by (simp add: focus_restored_tab_def)
  next
    case (Some t)
    then have "io_bind (disp (CFocusTab t)) (\<lambda>_. io_ok ()) s3 = (Inr (), s')"
      using 3(2) by (simp add: focus_restored_tab_def)
    then obtain x where "disp (CFocusTab t) s3 = (Inr x, s')" by (rule disp_unit_Inr)
    then show ?thesis using disp_room [of "CFocusTab t"] assms(7) by simp
  qed
  have room1: "room s1" by (rule snap_room [OF 2(1) restore_tabs_room [OF 3(1) room3]])
  obtain news where news: "inv s1" "tp_tabs (topo s1) = t0 # news"
    "list_all2 (\<lambda>saved live. ts_title live = ts_title saved \<and> (\<exists>p. ts_root live = PLeaf p)) (drop 1 ?saved) news"
    using create_missing_ok [OF assms(1) _ room1, of "drop 1 ?saved"] 1(1) assms(2) by auto
  have snapped: "T = topo s1" "topo s2 = topo s1" "inv s2" using snap_ok [OF news(1) 2(1)] by simp_all
  have tabsT: "tp_tabs T = t0 # news" using news(2) snapped by simp
  have leaves: "\<exists>p. ts_root (tp_tabs T ! j) = PLeaf p" if "j < length (tp_tabs T)" for j
    using that assms(3) list_all2_nthD2 [OF news(3), of "j - 1"] tabsT by (cases j) auto
  have titles: "ts_title (tp_tabs T ! j) = ts_title (?saved ! j)" if "0 < j" "j < length ?saved" for j
    using that list_all2_nthD [OF news(3), of "j - 1"] tabsT by (cases j) auto
  have panes: "distinct (snapshot_panes (ts_root tab))" if "tab \<in> set ?saved" for tab
    using assms(5) that by (auto simp: topology_wf_def topology_panes_def distinct_concat_iff)
  have restored: "inv s3" "length (tp_tabs (topo s3)) = length (tp_tabs T)"
    "\<forall>k<length ?saved. \<exists>f. tab_restored f (?saved ! k) (tp_tabs T ! k) (tp_tabs (topo s3) ! k)"
    "focus = focus_of ?g (zip (tp_tabs T) ?saved) None"
    using restore_tabs_ok [OF snapped(3) _ _ _ panes 3(1) room3] snapped 2(2) leaves by auto
  have final: "inv s' \<and> tp_tabs (topo s') = tp_tabs (topo s3) \<and> (focus \<noteq> None \<longrightarrow> tp_focused_tab (topo s') = focus)"
  proof (cases focus)
    case None
    then show ?thesis using 3(2) restored(1) by (simp add: focus_restored_tab_def)
  next
    case (Some t)
    then have "io_bind (disp (CFocusTab t)) (\<lambda>_. io_ok ()) s3 = (Inr (), s')"
      using 3(2) by (simp add: focus_restored_tab_def)
    then obtain x where "disp (CFocusTab t) s3 = (Inr x, s')" by (rule disp_unit_Inr)
    then show ?thesis using disp_ok [OF restored(1) _ _ assms(7), of "CFocusTab t"] Some
      by (auto simp: spec_command_def)
  qed
  have "restored_tab (if i = 0 then ts_title t0 else None) (?saved ! i) (tp_tabs (topo s') ! i) \<and>
      (?g = Some (ts_tab_id (?saved ! i)) \<longrightarrow> tp_focused_tab (topo s') = Some (ts_tab_id (tp_tabs (topo s') ! i)))"
    if i: "i < length ?saved" for i
  proof -
    obtain f where f: "tab_restored f (?saved ! i) (tp_tabs T ! i) (tp_tabs (topo s') ! i)"
      using restored(3) i final by auto
    have "restored_tab (if i = 0 then ts_title t0 else None) (?saved ! i) (tp_tabs (topo s') ! i)"
      using f titles [OF _ i] tabsT unfolding tab_restored_def restored_tab_def
      by (cases i) (auto split: option.splits)
    moreover have "tp_focused_tab (topo s') = Some (ts_tab_id (tp_tabs (topo s') ! i))"
      if "?g = Some (ts_tab_id (?saved ! i))"
      using focus_of_nth [of ?saved "tp_tabs T" i ?g None] that assms(5) 2(2) i restored(4) final f
      by (auto simp: topology_wf_def tab_restored_def)
    ultimately show ?thesis by blast
  qed
  then show ?thesis using final restored(2) 2(2) by (simp add: restores_def)
qed

end

end
