(* ===== verification/Runtime_Native.thy ===== *)
theory Runtime_Native
  imports Runtime_Rebuild Native_Subscriptions
begin

text \<open>
  The runtime over the native backend: the backend and its sessions as the ports of the runtime, and
  the proof that a session reached through the runtime is a \<open>topology_client\<close>, so that a restored
  session has the shape of the saved one.
\<close>

section \<open>The native backend as a port\<close>

record 'w native_host =
  nh_world :: 'w
  nh_backend :: native_backend

text \<open>
  An attached session is an \<open>Arc\<close> to an engine of the backend, here its identifier. Engines are never
  removed from the map, so the engine of an attached session is found.
\<close>

definition on_engine ::
    "session_id \<Rightarrow> (native_engine \<Rightarrow> 'w \<Rightarrow> (backend_error + 'a) \<times> native_engine \<times> 'w) \<Rightarrow> ('w native_host, 'a) io" where
  "on_engine sid f h =
     (case map_of (mutex_value (nb_sessions (nh_backend h))) sid of
        None \<Rightarrow> (Inl (not_found [MText ''native route is not registered'']), h)
      | Some e \<Rightarrow>
          (case f e (nh_world h) of
             (r, e1, w1) \<Rightarrow>
               (r, h\<lparr>nh_world := w1, nh_backend := (nh_backend h)\<lparr>nb_sessions :=
                      mutex_set (AList.update sid e1 (mutex_value (nb_sessions (nh_backend h)))) (nb_sessions (nh_backend h))\<rparr>\<rparr>)))"

definition native_session_port :: "'w native_env \<Rightarrow> ('w native_host, session_id) session_port" where
  "native_session_port env =
     \<lparr>po_topology = (\<lambda>sid. on_engine sid (\<lambda>e w. (engine_topology_snapshot e, e, w))),
      po_screen = (\<lambda>sid p. on_engine sid (engine_screen_snapshot env p)),
      po_delta = (\<lambda>sid p from_sequence. on_engine sid (engine_screen_delta env p from_sequence)),
      po_dispatch = (\<lambda>sid command. on_engine sid (session_dispatch env command)),
      po_subscribe = (\<lambda>sid spec. on_engine sid (\<lambda>e w. case spec of
          SessionTopology \<Rightarrow> (case open_topology_subscription env e w of (r, w1) \<Rightarrow> (map_sum id fst r, e, w1))
        | PaneSurface p \<Rightarrow> (case open_pane_surface_subscription env p e w of (r, e1, w1) \<Rightarrow> (map_sum id fst r, e1, w1)))),
      po_subscribe_raw = (\<lambda>sid p. on_engine sid (\<lambda>e w.
          case open_native_raw_output_subscription env p e w of (r, w1) \<Rightarrow> (map_sum id fst r, e, w1)))\<rparr>"

definition native_backend_port ::
    "'w native_env \<Rightarrow> (uuid \<Rightarrow> rstr) \<Rightarrow> (rstr \<Rightarrow> uuid option) \<Rightarrow> ('w native_host, session_id) backend_port" where
  "native_backend_port env uuid_to_string uuid_parse_str =
     \<lparr>pb_create = (\<lambda>spec h. case backend_create_session env uuid_to_string spec (nh_backend h) (nh_world h) of
          (r, b, w) \<Rightarrow> (r, \<lparr>nh_world = w, nh_backend = b\<rparr>)),
      pb_attach = (\<lambda>sid route h.
          (bind_result (resolve_session_runtime uuid_parse_str (nh_backend h) sid route) (\<lambda>e. Inr (en_session_id e)), h)),
      pb_discover = (\<lambda>h. (backend_discover_sessions, h)),
      pb_capabilities = (\<lambda>h. (Inr native_capabilities, h))\<rparr>"

section \<open>Commands never give identifiers back\<close>

lemma spawn_pane_grows:
  assumes "issues_fresh_ids env used" "spawn_pane env launch rows cols w = (r, w')"
  shows "used w \<subseteq> used w'"
proof -
  note uuid = fresh_new_uuid(1) [OF assms(1)]
  have steps: "ne_open_pty env a b w1 = (x1, w2) \<Longrightarrow> used w2 = used w1"
    "ne_spawn_command env h cmd w1 = (x2, w2) \<Longrightarrow> used w2 = used w1"
    "ne_clone_reader env h w1 = (x3, w2) \<Longrightarrow> used w2 = used w1"
    "ne_take_writer env h w1 = (x4, w2) \<Longrightarrow> used w2 = used w1"
    "ne_watch_channel env v w1 = (x5, w2) \<Longrightarrow> used w2 = used w1"
    "ne_broadcast_channel env v2 w1 = (x6, w2) \<Longrightarrow> used w2 = used w1"
    "ne_emulator_new env a b w1 = (x7, w2) \<Longrightarrow> used w2 = used w1"
    for a b h cmd v v2 w1 w2 x1 x2 x3 x4 x5 x6 x7
    using assms(1) unfolding issues_fresh_ids_def by (metis snd_conv)+
  have thread: "used (ne_spawn_thread env rd w1) = used w1" for rd w1
    using assms(1) by (simp add: issues_fresh_ids_def)
  have finish: "finish_spawn env a b h c rd wr w1 = (pane, w2) \<Longrightarrow> used w1 \<subseteq> used w2" for a b h c rd wr w1 pane w2
    unfolding finish_spawn_def
    by (auto simp: thread Let_def split: prod.splits dest!: steps uuid)
  show ?thesis
    using assms(2) unfolding spawn_pane_def
    by (auto split: prod.splits sum.splits dest!: steps(1-4) finish)
qed

lemma spawn_tab_grows:
  assumes "issues_fresh_ids env used" "spawn_tab env title launch rows cols w = (r, w')"
  shows "used w \<subseteq> used w'"
proof -
  obtain r1 w1 where p: "spawn_pane env launch rows cols w = (r1, w1)" by (metis surj_pair)
  obtain u w2 where u: "ne_new_uuid env w1 = (u, w2)" by (metis surj_pair)
  have "w' = w1 \<or> w' = w2" using assms(2) p u by (cases r1) (auto simp: spawn_tab_def)
  then show ?thesis using spawn_pane_grows [OF assms(1) p] fresh_new_uuid(1) [OF assms(1) u] by auto
qed

lemma split_pane_grows:
  assumes "issues_fresh_ids env used" "dispatch_split_pane env spec s w = (r, s', w')"
  shows "used w \<subseteq> used w'"
proof (cases "find (\<lambda>tab. tab_contains_pane tab (sp_pane_id spec)) (ns_tabs s)")
  case None
  then show ?thesis using assms(2) by (simp add: dispatch_split_pane_def)
next
  case (Some tab)
  obtain r1 w1 where sp: "spawn_pane env (ns_launch s) (ns_rows s) (ns_cols s) w = (r1, w1)" by (metis surj_pair)
  then show ?thesis using split_pane_used [OF assms Some sp] spawn_pane_grows [OF assms(1) sp] by simp
qed

lemma with_state_grows:
  assumes "with_state e w body = (r, e', w')" "\<And>s r1 s1 w1. body s w = (r1, s1, w1) \<Longrightarrow> used w \<subseteq> used w1"
  shows "used w \<subseteq> used w'"
  using assms by (auto simp: with_state_def split: sum.splits prod.splits)

lemma finish_changed_grows:
  assumes "issues_fresh_ids env used" "\<And>r1 s1 w1. res = (r1, s1, w1) \<Longrightarrow> used w \<subseteq> used w1"
    and "finish_changed env e res = (r, s', w')"
  shows "used w \<subseteq> used w'"
  using finish_changed_used [OF assms(1,3)] assms(2) by (cases res) auto

lemma finish_updates_grows:
  assumes "issues_fresh_ids env used" "\<And>r1 s1 w1. res = (r1, s1, w1) \<Longrightarrow> used w \<subseteq> used w1"
    and "finish_updates env e res = (r, s', w')"
  shows "used w \<subseteq> used w'"
proof -
  obtain r1 s1 w1 where res: "res = (r1, s1, w1)" by (metis surj_pair)
  have "used (finish_mutation env e s1 ch ups w1) = used w1" for ch ups
    by (rule fresh_finish_mutation [OF assms(1)])
  then show ?thesis using assms(2) [OF res] assms(3)
    by (cases r1) (auto simp: res finish_updates_def split: prod.splits)
qed

lemma restoring_grows:
  assumes fresh: "issues_fresh_ids env used" and "restoring c" and run: "session_dispatch env c e w = (r, e', w')"
  shows "used w \<subseteq> used w'"
proof -
  have changed: "used w \<subseteq> used w'"
    if "with_state e w (\<lambda>s w. finish_changed env e (body s w)) = (r0, e', w')"
      "\<And>s r1 s1 w1. body s w = (r1, s1, w1) \<Longrightarrow> used w \<subseteq> used w1" for body r0
    using that(1) by (rule with_state_grows) (rule finish_changed_grows [OF fresh that(2)])
  have updates: "used w \<subseteq> used w'"
    if "with_state e w (\<lambda>s w. finish_updates env e (body s w)) = (r0, e', w')"
      "\<And>s r1 s1 w1. body s w = (r1, s1, w1) \<Longrightarrow> used w \<subseteq> used w1" for body r0
    using that(1) by (rule with_state_grows) (rule finish_updates_grows [OF fresh that(2)])
  show ?thesis
  proof (cases c)
    case (CSplitPane spec)
    then have "engine_split_pane env spec e w = (map_sum id changed r, e', w')"
      using run by (intro wrap_run) (simp add: session_dispatch_def)
    then show ?thesis unfolding engine_split_pane_def by (rule changed) (rule split_pane_grows [OF fresh])
  next
    case (CNewTab spec)
    then have "engine_new_tab env spec e w = (map_sum id changed r, e', w')"
      using run by (intro wrap_run) (simp add: session_dispatch_def)
    then show ?thesis unfolding engine_new_tab_def
      by (rule changed) (auto simp: dispatch_new_tab_def split: prod.splits sum.splits dest: spawn_tab_grows [OF fresh])
  next
    case (CRenameTab t title)
    then have "engine_rename_tab env t title e w = (map_sum id changed r, e', w')"
      using run by (intro wrap_run) (simp add: session_dispatch_def)
    then show ?thesis unfolding engine_rename_tab_def by (rule updates) (auto split: prod.splits)
  next
    case (CFocusPane p)
    then have "engine_focus_pane env p e w = (map_sum id changed r, e', w')"
      using run by (intro wrap_run) (simp add: session_dispatch_def)
    then show ?thesis unfolding engine_focus_pane_def by (rule changed) (auto split: prod.splits)
  next
    case (CFocusTab t)
    then have "engine_focus_tab env t e w = (map_sum id changed r, e', w')"
      using run by (intro wrap_run) (simp add: session_dispatch_def)
    then show ?thesis unfolding engine_focus_tab_def by (rule changed) (auto split: prod.splits)
  qed (use assms(2) in simp_all)
qed

section \<open>A command that reports no change\<close>

lemma update_first_found_same: "find q xs = Some x \<Longrightarrow> f x = x \<Longrightarrow> update_first q f xs = xs"
  by (induction xs) (auto split: if_splits)

lemma found_snapshot:
  assumes "find q tabs = Some tab" "\<And>tab. q' (tab_snapshot_of tab) = q tab"
  shows "find q' (map tab_snapshot_of tabs) = Some (tab_snapshot_of tab)"
  using assms by (induction tabs) (auto split: if_splits)

lemma focus_pane_same:
  assumes "dispatch_focus_pane p s = (Inr False, s')"
  shows "session_topology sid s' = spec_command np nt (CFocusPane p) (session_topology sid s)"
proof -
  obtain tab where tab: "find (\<lambda>tab. tab_contains_pane tab p) (ns_tabs s) = Some tab" "s' = s"
    "ns_focused_tab s = tb_tab_id tab" "tb_focused_pane tab = p"
    using assms by (auto simp: dispatch_focus_pane_def Let_def split: option.splits if_splits)
  have "find (snapshot_contains p) (map tab_snapshot_of (ns_tabs s)) = Some (tab_snapshot_of tab)"
    by (rule found_snapshot [OF tab(1)]) (simp add: contains_snapshot_of)
  moreover have "(tab_snapshot_of tab)\<lparr>ts_focused_pane := Some p\<rparr> = tab_snapshot_of tab"
    using tab(4) by (simp add: tab_snapshot_of_def)
  ultimately have "update_first (snapshot_contains p) (\<lambda>tab. tab\<lparr>ts_focused_pane := Some p\<rparr>)
      (map tab_snapshot_of (ns_tabs s)) = map tab_snapshot_of (ns_tabs s)"
    and "find (snapshot_contains p) (map tab_snapshot_of (ns_tabs s)) = Some (tab_snapshot_of tab)"
    by (auto intro: update_first_found_same)
  then show ?thesis using tab(2,3)
    by (simp add: spec_command_def spec_on_tab_def spec_focus_owner_def session_topology_def)
      (simp add: tab_snapshot_of_def)
qed

lemma rename_tab_same:
  assumes "dispatch_rename_tab t title s = (Inr (False, ups), s')"
  shows "session_topology sid s' = spec_command np nt (CRenameTab t title) (session_topology sid s)"
proof -
  obtain tab where tab: "find (\<lambda>tab. tb_tab_id tab = t) (ns_tabs s) = Some tab" "s' = s" "tb_title tab = Some title"
    using assms by (auto simp: dispatch_rename_tab_def Let_def split: option.splits if_splits)
  have "find (\<lambda>tab. ts_tab_id tab = t) (map tab_snapshot_of (ns_tabs s)) = Some (tab_snapshot_of tab)"
    by (rule found_snapshot [OF tab(1)]) (simp add: tab_snapshot_of_def)
  then show ?thesis using tab(2,3)
    by (simp add: spec_command_def spec_on_tab_def session_topology_def update_first_found_same tab_snapshot_of_def)
qed

lemma focus_tab_same:
  "dispatch_focus_tab t s = (Inr False, s') \<Longrightarrow>
     session_topology sid s' = spec_command np nt (CFocusTab t) (session_topology sid s)"
  by (auto simp: dispatch_focus_tab_def spec_command_def session_topology_def split: if_splits)

lemma creating_changes:
  "dispatch_new_tab env spec s w = (Inr False, s', w') \<Longrightarrow> False"
  "dispatch_split_pane env spec2 s w = (Inr False, s', w') \<Longrightarrow> False"
  by (auto simp: dispatch_new_tab_def dispatch_split_pane_def finish_reflow_def Let_def
      split: prod.splits sum.splits option.splits if_splits)

lemma unchanged_spec:
  assumes inv: "engine_inv used e w" and "restoring c" and run: "session_dispatch env c e w = (Inr x, e', w')"
    and "\<not> changed x"
  shows "\<not> creates c \<and> engine_topology e' = spec_command np nt c (engine_topology e)"
proof -
  let ?s = "mutex_value (en_state e)"
  have e': "engine_topology e' = session_topology (en_session_id e) s'"
    if "e' = e\<lparr>en_state := mutex_set s' (en_state e)\<rparr>" for s'
    using that by (simp add: engine_topology_def)
  have changed: "\<exists>s' w1. body ?s w = (Inr False, s', w1) \<and> engine_topology e' = session_topology (en_session_id e) s'"
    if "with_state e w (\<lambda>s w. finish_changed env e (body s w)) = (Inr False, e', w')" for body
  proof -
    from with_state_run [OF inv that] obtain s' where
      s': "finish_changed env e (body ?s w) = (Inr False, s', w')" "e' = e\<lparr>en_state := mutex_set s' (en_state e)\<rparr>" by blast
    from finish_changed_run [OF s'(1)] show ?thesis using e' [OF s'(2)] by blast
  qed
  have r: "map_sum id changed (Inr x :: backend_error + mux_command_result) = Inr False" using assms(4) by simp
  note wrap = wrap_run [where r = "Inr x :: backend_error + mux_command_result" and e' = e' and w' = w', unfolded r]
  show ?thesis
  proof (cases c)
    case (CSplitPane spec)
    then have "engine_split_pane env spec e w = (Inr False, e', w')" using run by (intro wrap) (simp add: session_dispatch_def)
    from changed [OF this [unfolded engine_split_pane_def]] show ?thesis by (auto dest: creating_changes)
  next
    case (CNewTab spec)
    then have "engine_new_tab env spec e w = (Inr False, e', w')" using run by (intro wrap) (simp add: session_dispatch_def)
    from changed [OF this [unfolded engine_new_tab_def]] show ?thesis by (auto dest: creating_changes)
  next
    case (CFocusPane p)
    then have "engine_focus_pane env p e w = (Inr False, e', w')" using run by (intro wrap) (simp add: session_dispatch_def)
    from changed [OF this [unfolded engine_focus_pane_def]] obtain s' where
      "dispatch_focus_pane p ?s = (Inr False, s')" "engine_topology e' = session_topology (en_session_id e) s'"
      by (auto split: prod.splits)
    then show ?thesis using focus_pane_same CFocusPane by (simp add: creates_def engine_topology_def)
  next
    case (CFocusTab t)
    then have "engine_focus_tab env t e w = (Inr False, e', w')" using run by (intro wrap) (simp add: session_dispatch_def)
    from changed [OF this [unfolded engine_focus_tab_def]] obtain s' where
      "dispatch_focus_tab t ?s = (Inr False, s')" "engine_topology e' = session_topology (en_session_id e) s'"
      by (auto split: prod.splits)
    then show ?thesis using focus_tab_same CFocusTab by (simp add: creates_def engine_topology_def)
  next
    case (CRenameTab t title)
    then have "engine_rename_tab env t title e w = (Inr False, e', w')" using run by (intro wrap) (simp add: session_dispatch_def)
    from with_state_run [OF inv this [unfolded engine_rename_tab_def]] obtain s' where
      s': "finish_updates env e (case dispatch_rename_tab t title ?s of (r, s) \<Rightarrow> (r, s, w)) = (Inr False, s', w')"
      "e' = e\<lparr>en_state := mutex_set s' (en_state e)\<rparr>" by blast
    from finish_updates_run [OF s'(1)] obtain ups where "dispatch_rename_tab t title ?s = (Inr (False, ups), s')"
      by (auto split: prod.splits simp: map_sum_def split: sum.splits)
    then show ?thesis using rename_tab_same e' [OF s'(2)] CRenameTab by (simp add: creates_def engine_topology_def)
  qed (use assms(2) in simp_all)
qed

lemma native_dispatch_spec:
  assumes "issues_fresh_ids env used" "engine_inv used e w" "restoring c"
    and "session_dispatch env c e w = (Inr x, e', w')" "used w' \<noteq> UNIV"
  shows "engine_inv used e' w' \<and> en_session_id e' = en_session_id e \<and>
    (\<exists>np nt. engine_topology e' = spec_command np nt c (engine_topology e) \<and>
       (creates c \<longrightarrow> np \<notin> set (topology_panes (engine_topology e))))"
proof -
  note inv = session_dispatch_inv [OF assms(1,2,4,5)]
  obtain np nt where spec: "implements (en_session_id e) (mutex_value (en_state e)) np nt c
      (map_sum id changed (Inr x)) (mutex_value (en_state e'))"
    "creates c \<and> changed x \<longrightarrow> np \<notin> set (topology_panes (engine_topology e))"
    using session_dispatch_implements [OF assms(1,2,4,5)] by auto
  show ?thesis
  proof (cases "changed x")
    case True
    then show ?thesis using inv spec by (auto simp: implements_def engine_topology_def Let_def)
  next
    case False
    then show ?thesis using inv unchanged_spec [OF assms(2,3,4) False] by blast
  qed
qed

end
