(* ===== verification/Runtime_Sessions.thy ===== *)
theory Runtime_Sessions
  imports Runtime_Native
begin

text \<open>
  A session of the native backend as the runtime reaches it: by its identifier, through the registry,
  the catalog and the attached session. It provides \<open>topology_client\<close>, so restoring a saved session
  gives a session of its shape.
\<close>

section \<open>The native session of the runtime\<close>

definition native_engines :: "('w native_host, session_id) runtime_state \<Rightarrow> session_id \<rightharpoonup> native_engine" where
  "native_engines st = map_of (mutex_value (nb_sessions (nh_backend (rt_world st))))"

definition native_topology :: "session_id \<Rightarrow> ('w native_host, session_id) runtime_state \<Rightarrow> topology_snapshot" where
  "native_topology sid st = engine_topology (the (native_engines st sid))"

text \<open>
  A runtime with the native backend. Printing and parsing a UUID are inverse; the store and the archive
  leave the backend alone and take no identifier back.
\<close>

definition host_grows :: "('w \<Rightarrow> uuid set) \<Rightarrow> 'w native_host \<Rightarrow> 'w native_host \<Rightarrow> bool" where
  "host_grows used h h' \<longleftrightarrow> nh_backend h' = nh_backend h \<and> used (nh_world h) \<subseteq> used (nh_world h')"

definition native_setup ::
    "'w native_env \<Rightarrow> ('w \<Rightarrow> uuid set) \<Rightarrow> (uuid \<Rightarrow> rstr) \<Rightarrow> (rstr \<Rightarrow> uuid option)
     \<Rightarrow> ('w native_host, session_id) runtime_env \<Rightarrow> bool" where
  "native_setup env used uuid_to_string uuid_parse_str renv \<longleftrightarrow>
     issues_fresh_ids env used \<and> (\<forall>u. uuid_parse_str (uuid_to_string u) = Some u) \<and>
     re_catalog renv = [(Native, native_backend_port env uuid_to_string uuid_parse_str)] \<and>
     re_session renv = native_session_port env \<and>
     (\<forall>step h. host_grows used h (snd (se_sql (re_store renv) step h))) \<and>
     (\<forall>ms h. host_grows used h (se_sleep (re_store renv) ms h))"

definition native_client ::
    "'w native_env \<Rightarrow> ('w \<Rightarrow> uuid set) \<Rightarrow> (uuid \<Rightarrow> rstr) \<Rightarrow> (rstr \<Rightarrow> uuid option)
     \<Rightarrow> ('w native_host, session_id) runtime_env \<Rightarrow> session_id \<Rightarrow> ('w native_host, session_id) runtime_state \<Rightarrow> bool" where
  "native_client env used uuid_to_string uuid_parse_str renv sid st \<longleftrightarrow>
     native_setup env used uuid_to_string uuid_parse_str renv \<and>
     (\<exists>d. registry_get (rt_registry st) sid = Some d \<and> de_session_id d = sid \<and>
          de_route d = local_native_route uuid_to_string sid) \<and>
     \<not> mutex_poisoned (nb_sessions (nh_backend (rt_world st))) \<and>
     (\<exists>e. native_engines st sid = Some e \<and> en_session_id e = sid \<and> engine_inv used e (nh_world (rt_world st)))"

definition native_room ::
    "'w native_env \<Rightarrow> ('w \<Rightarrow> uuid set) \<Rightarrow> (uuid \<Rightarrow> rstr) \<Rightarrow> (rstr \<Rightarrow> uuid option)
     \<Rightarrow> ('w native_host, session_id) runtime_env \<Rightarrow> ('w native_host, session_id) runtime_state \<Rightarrow> bool" where
  "native_room env used uuid_to_string uuid_parse_str renv st \<longleftrightarrow>
     (native_setup env used uuid_to_string uuid_parse_str renv \<longrightarrow> used (nh_world (rt_world st)) \<noteq> UNIV)"

section \<open>Attaching and calling\<close>

lemma on_registry_simps [simp]:
  "rt_world (on_registry f st) = rt_world st" "rt_tables (on_registry f st) = rt_tables st"
  "rt_registry (on_registry f st) = f (rt_registry st)" "native_engines (on_registry f st) = native_engines st"
  by (simp_all add: on_registry_def native_engines_def)

lemma attach_world:
  assumes "native_setup env used uts ups renv" "attach_session renv sid st = (r, st1)"
  shows "rt_world st1 = rt_world st"
proof (cases "registry_get (rt_registry st) sid")
  case None
  then show ?thesis using assms(2) by (simp add: attach_session_def)
next
  case (Some d)
  have cat: "catalog_backend (re_catalog renv) kind = (if kind = Native then Inr (native_backend_port env uts ups)
      else Inl (not_found [MText ''backend '', MBackend kind, MText '' is not configured'']))" for kind
    using assms(1) by (simp add: native_setup_def catalog_backend_def)
  show ?thesis
    using assms(2) Some cat
    by (auto simp: attach_session_def on_world_def native_backend_port_def mark_session_ready_def record_session_health_def
        bind_result_def split: if_splits sum.splits option.splits prod.splits)
qed

lemma native_attaches:
  assumes "native_client env used uts ups renv sid st"
  shows "attach_session renv sid st = (Inr sid, mark_session_ready sid st)"
proof -
  obtain d e where d: "registry_get (rt_registry st) sid = Some d" "de_session_id d = sid" "de_route d = local_native_route uts sid"
    and e: "native_engines st sid = Some e" "en_session_id e = sid" "\<not> mutex_poisoned (nb_sessions (nh_backend (rt_world st)))"
    and wired: "native_setup env used uts ups renv"
    using assms unfolding native_client_def by blast
  have parse: "\<And>u. ups (uts u) = Some u" and cat: "re_catalog renv = [(Native, native_backend_port env uts ups)]"
    using wired by (simp_all add: native_setup_def)
  have "local_native_session_id ups (local_native_route uts sid) = Some sid"
    by (cases sid) (simp add: local_native_session_id_Some_iff local_native_route_def parse)
  then have "resolve_session_runtime ups (nh_backend (rt_world st)) sid (local_native_route uts sid) = Inr e"
    using e by (simp add: resolve_session_runtime_def mutex_lock_def native_engines_def)
      (simp add: local_native_route_def)
  then show ?thesis
    using d e(2) cat
    by (simp add: attach_session_def catalog_backend_def on_world_def native_backend_port_def local_native_route_def)
qed

lemma on_engine_same_map:
  assumes "on_engine sid f h = (r, h')" "\<And>e w. fst (snd (f e w)) = e \<and> snd (snd (f e w)) = w"
  shows "nh_world h' = nh_world h \<and> mutex_poisoned (nb_sessions (nh_backend h')) = mutex_poisoned (nb_sessions (nh_backend h)) \<and>
    map_of (mutex_value (nb_sessions (nh_backend h'))) = map_of (mutex_value (nb_sessions (nh_backend h)))"
proof (cases "map_of (mutex_value (nb_sessions (nh_backend h))) sid")
  case None
  then show ?thesis using assms(1) by (simp add: on_engine_def)
next
  case (Some e)
  obtain r1 e1 w1 where f: "f e (nh_world h) = (r1, e1, w1)" by (metis surj_pair)
  then have f: "f e (nh_world h) = (r1, e, nh_world h)" using assms(2) [of e "nh_world h"] by simp
  have "h' = h\<lparr>nh_world := nh_world h, nh_backend := (nh_backend h)\<lparr>nb_sessions :=
      mutex_set (AList.update sid e (mutex_value (nb_sessions (nh_backend h)))) (nb_sessions (nh_backend h))\<rparr>\<rparr>"
    using assms(1) unfolding on_engine_def Some option.case f prod.case by simp
  then have h': "nh_world h' = nh_world h" "nb_sessions (nh_backend h') =
      mutex_set (AList.update sid e (mutex_value (nb_sessions (nh_backend h)))) (nb_sessions (nh_backend h))"
    by simp_all
  have "map_of (AList.update sid e (mutex_value (nb_sessions (nh_backend h)))) = map_of (mutex_value (nb_sessions (nh_backend h)))"
    unfolding update_conv' by (rule fun_upd_idem) (rule Some)
  then show ?thesis by (simp only: h' mutex_simps)
qed

lemma topology_call:
  assumes "on_world (po_topology (native_session_port env) sid) st = (r, st1)"
  shows "native_engines st1 = native_engines st" "nh_world (rt_world st1) = nh_world (rt_world st)"
    "mutex_poisoned (nb_sessions (nh_backend (rt_world st1))) = mutex_poisoned (nb_sessions (nh_backend (rt_world st)))"
    "rt_registry st1 = rt_registry st"
    "native_engines st sid = Some e \<Longrightarrow> r = engine_topology_snapshot e"
proof -
  obtain r0 h where h: "on_engine sid (\<lambda>e w. (engine_topology_snapshot e, e, w)) (rt_world st) = (r0, h)"
    by (cases "on_engine sid (\<lambda>e w. (engine_topology_snapshot e, e, w)) (rt_world st)")
  have st1: "r = r0" "st1 = st\<lparr>rt_world := h\<rparr>"
    using assms h by (simp_all add: on_world_def native_session_port_def)
  note same = on_engine_same_map [OF h]
  show "native_engines st1 = native_engines st" "nh_world (rt_world st1) = nh_world (rt_world st)"
    "mutex_poisoned (nb_sessions (nh_backend (rt_world st1))) = mutex_poisoned (nb_sessions (nh_backend (rt_world st)))"
    "rt_registry st1 = rt_registry st"
    using same by (simp_all add: st1 native_engines_def)
  show "native_engines st sid = Some e \<Longrightarrow> r = engine_topology_snapshot e"
    using h by (auto simp: st1 native_engines_def on_engine_def)
qed

lemma refresh_keeps:
  assumes "re_session renv = native_session_port env"
  shows "native_engines (refresh_session_summary_title renv sid h st) = native_engines st"
    "nh_world (rt_world (refresh_session_summary_title renv sid h st)) = nh_world (rt_world st)"
    "mutex_poisoned (nb_sessions (nh_backend (rt_world (refresh_session_summary_title renv sid h st)))) =
       mutex_poisoned (nb_sessions (nh_backend (rt_world st)))"
    "registry_get (rt_registry st) sid = Some d \<Longrightarrow>
       \<exists>title. registry_get (rt_registry (refresh_session_summary_title renv sid h st)) sid = Some (d\<lparr>de_title := title\<rparr>)"
proof -
  obtain r st1 where call: "on_world (po_topology (native_session_port env) h) st = (r, st1)"
    by (cases "on_world (po_topology (native_session_port env) h) st")
  note t = topology_call [OF call]
  have cases: "refresh_session_summary_title renv sid h st = st \<or> refresh_session_summary_title renv sid h st = st1 \<or>
      (\<exists>title. refresh_session_summary_title renv sid h st = on_registry (registry_update_title sid title) st1)"
    using assms call by (auto simp: refresh_session_summary_title_def split: option.split sum.split)
  show "native_engines (refresh_session_summary_title renv sid h st) = native_engines st"
    "nh_world (rt_world (refresh_session_summary_title renv sid h st)) = nh_world (rt_world st)"
    "mutex_poisoned (nb_sessions (nh_backend (rt_world (refresh_session_summary_title renv sid h st)))) =
       mutex_poisoned (nb_sessions (nh_backend (rt_world st)))"
    using cases t(1-3) by auto
  assume d: "registry_get (rt_registry st) sid = Some d"
  have "d = d\<lparr>de_title := de_title d\<rparr>" by simp
  then show "\<exists>title. registry_get (rt_registry (refresh_session_summary_title renv sid h st)) sid = Some (d\<lparr>de_title := title\<rparr>)"
    using cases t(4) d by (elim disjE) (auto intro: exI [of _ "de_title d"])
qed

section \<open>The laws of the interface\<close>

lemma client_facts:
  assumes "native_client env used uts ups renv sid st"
  obtains e where "native_engines st sid = Some e" "engine_inv used e (nh_world (rt_world st))" "en_session_id e = sid"
    "native_setup env used uts ups renv" "native_topology sid st = engine_topology e"
  using assms unfolding native_client_def native_topology_def by auto

lemma client_moves:
  assumes "native_client env used uts ups renv sid st"
    and "registry_get (rt_registry st') sid = Some d'" "\<And>d. registry_get (rt_registry st) sid = Some d \<Longrightarrow>
      de_session_id d' = de_session_id d \<and> de_route d' = de_route d"
    and "mutex_poisoned (nb_sessions (nh_backend (rt_world st'))) = mutex_poisoned (nb_sessions (nh_backend (rt_world st)))"
    and "native_engines st' sid = Some e'" "en_session_id e' = sid" "engine_inv used e' (nh_world (rt_world st'))"
  shows "native_client env used uts ups renv sid st'"
proof -
  obtain d where "registry_get (rt_registry st) sid = Some d" "de_session_id d = sid" "de_route d = local_native_route uts sid"
    "\<not> mutex_poisoned (nb_sessions (nh_backend (rt_world st)))" "native_setup env used uts ups renv"
    using assms(1) unfolding native_client_def by blast
  then show ?thesis using assms(2-7) unfolding native_client_def by auto
qed

lemma snap_world:
  assumes "native_setup env used uts ups renv" "runtime_topology renv sid st = (r, st')"
  shows "nh_world (rt_world st') = nh_world (rt_world st)"
proof -
  obtain a st1 where a: "attach_session renv sid st = (a, st1)" by (cases "attach_session renv sid st")
  have port: "re_session renv = native_session_port env" using assms(1) by (simp add: native_setup_def)
  show ?thesis
  proof (cases a)
    case (Inl e)
    then show ?thesis using assms(2) a attach_world [OF assms(1) a] by (simp add: runtime_topology_def io_bind_def)
  next
    case (Inr h)
    then have "on_world (po_topology (native_session_port env) h) st1 = (r, st')"
      using assms(2) a port by (simp add: runtime_topology_def io_bind_def)
    from topology_call(2) [OF this] show ?thesis using attach_world [OF assms(1) a] by simp
  qed
qed

lemma engine_topology_read: "engine_inv used e w \<Longrightarrow> engine_topology_snapshot e = Inr (engine_topology e)"
  by (simp add: engine_topology_snapshot_def engine_topology_def lock_state_inv)

lemma snap_client:
  assumes "native_client env used uts ups renv sid st" "runtime_topology renv sid st = (Inr T, st')"
  shows "T = native_topology sid st \<and> native_topology sid st' = native_topology sid st \<and>
    native_client env used uts ups renv sid st'"
proof -
  obtain e where e: "native_engines st sid = Some e" "engine_inv used e (nh_world (rt_world st))" "en_session_id e = sid"
    "native_setup env used uts ups renv" "native_topology sid st = engine_topology e" using client_facts [OF assms(1)] .
  have port: "re_session renv = native_session_port env" using e(4) by (simp add: native_setup_def)
  have call: "on_world (po_topology (native_session_port env) sid) (mark_session_ready sid st) = (Inr T, st')"
    using assms(2) native_attaches [OF assms(1)] port by (simp add: runtime_topology_def io_bind_def)
  note t = topology_call [OF call]
  have eng: "native_engines st' = native_engines st" using t(1) by (simp add: mark_session_ready_def)
  have "Inr T = engine_topology_snapshot e" using t(5) e(1) by (simp add: mark_session_ready_def)
  then have T: "T = engine_topology e" using engine_topology_read [OF e(2)] by simp
  have "native_client env used uts ups renv sid st'"
  proof (rule client_moves [OF assms(1)])
    obtain d where d: "registry_get (rt_registry st) sid = Some d" using assms(1) unfolding native_client_def by blast
    show "registry_get (rt_registry st') sid = Some ((the (registry_get (rt_registry st) sid))\<lparr>de_health := health_ready sid\<rparr>)"
      using t(4) d by (simp add: mark_session_ready_def)
    show "de_session_id ((the (registry_get (rt_registry st) sid))\<lparr>de_health := health_ready sid\<rparr>) = de_session_id d \<and>
        de_route ((the (registry_get (rt_registry st) sid))\<lparr>de_health := health_ready sid\<rparr>) = de_route d"
      if "registry_get (rt_registry st) sid = Some d" for d using that by simp
    show "mutex_poisoned (nb_sessions (nh_backend (rt_world st'))) = mutex_poisoned (nb_sessions (nh_backend (rt_world st)))"
      using t(3) by (simp add: mark_session_ready_def)
    show "native_engines st' sid = Some e" "en_session_id e = sid" using eng e by simp_all
    show "engine_inv used e (nh_world (rt_world st'))" using e(2) t(2) by (simp add: mark_session_ready_def)
  qed
  then show ?thesis using T e(5) eng by (simp add: native_topology_def)
qed

text \<open>A command of the rebuilder that the runtime passes on.\<close>

lemma restoring_dispatch:
  assumes "restoring c"
  shows "runtime_dispatch renv sid c st = io_bind (attach_session renv sid) (\<lambda>session.
     io_bind (on_world (po_dispatch (re_session renv) session c)) (\<lambda>outcome st1.
       (Inr outcome, if changed outcome \<and> command_updates_summary_title c
          then refresh_session_summary_title renv sid session st1 else st1))) st"
proof -
  have "v2_input_capture renv (rt_registry st) sid c = None" and "c \<noteq> CSaveSession"
    using assms by (cases c; auto simp: v2_input_capture_def split: option.split)+
  then show ?thesis by (simp add: runtime_dispatch_def record_input_def Let_def)
qed

lemma dispatch_call:
  assumes "on_world (po_dispatch (native_session_port env) sid c) st = (r, st1)"
  shows "rt_registry st1 = rt_registry st"
    "mutex_poisoned (nb_sessions (nh_backend (rt_world st1))) = mutex_poisoned (nb_sessions (nh_backend (rt_world st)))"
    "native_engines st sid = None \<Longrightarrow> nh_world (rt_world st1) = nh_world (rt_world st)"
    "native_engines st sid = Some e \<Longrightarrow> \<exists>e'. session_dispatch env c e (nh_world (rt_world st)) = (r, e', nh_world (rt_world st1))
       \<and> native_engines st1 = (native_engines st)(sid \<mapsto> e')"
proof -
  obtain r0 h where h: "on_engine sid (session_dispatch env c) (rt_world st) = (r0, h)"
    by (cases "on_engine sid (session_dispatch env c) (rt_world st)")
  have st1: "r = r0" "st1 = st\<lparr>rt_world := h\<rparr>"
    using assms h by (simp_all add: on_world_def native_session_port_def)
  show "rt_registry st1 = rt_registry st" by (simp add: st1)
  show "mutex_poisoned (nb_sessions (nh_backend (rt_world st1))) = mutex_poisoned (nb_sessions (nh_backend (rt_world st)))"
    using h by (auto simp: st1 on_engine_def split: option.splits prod.splits)
  show "native_engines st sid = None \<Longrightarrow> nh_world (rt_world st1) = nh_world (rt_world st)"
    using h by (simp add: st1 on_engine_def native_engines_def)
  assume e: "native_engines st sid = Some e"
  obtain r1 e1 w1 where run: "session_dispatch env c e (nh_world (rt_world st)) = (r1, e1, w1)"
    by (cases "session_dispatch env c e (nh_world (rt_world st))")
  have "r0 = r1" "h = (rt_world st)\<lparr>nh_world := w1, nh_backend := (nh_backend (rt_world st))\<lparr>nb_sessions :=
      mutex_set (AList.update sid e1 (mutex_value (nb_sessions (nh_backend (rt_world st))))) (nb_sessions (nh_backend (rt_world st)))\<rparr>\<rparr>"
    using h e run by (simp_all add: on_engine_def native_engines_def)
  then show "\<exists>e'. session_dispatch env c e (nh_world (rt_world st)) = (r, e', nh_world (rt_world st1))
       \<and> native_engines st1 = (native_engines st)(sid \<mapsto> e')"
    using run by (intro exI [of _ e1]) (simp add: st1 native_engines_def update_conv')
qed

lemma dispatch_world:
  assumes "native_setup env used uts ups renv" "restoring c" "runtime_dispatch renv sid c st = (r, st')"
  shows "used (nh_world (rt_world st)) \<subseteq> used (nh_world (rt_world st'))"
proof -
  obtain a st1 where a: "attach_session renv sid st = (a, st1)" by (cases "attach_session renv sid st")
  have port: "re_session renv = native_session_port env" and fresh: "issues_fresh_ids env used"
    using assms(1) by (simp_all add: native_setup_def)
  note world = attach_world [OF assms(1) a]
  show ?thesis
  proof (cases a)
    case (Inl e)
    then show ?thesis using assms(3) a world unfolding restoring_dispatch [OF assms(2)] by (simp add: io_bind_def)
  next
    case (Inr h)
    obtain q st2 where q: "on_world (po_dispatch (native_session_port env) h c) st1 = (q, st2)"
      by (cases "on_world (po_dispatch (native_session_port env) h c) st1")
    have "nh_world (rt_world st') = nh_world (rt_world st2)"
      using assms(3) a Inr q port refresh_keeps(2) [OF port] unfolding restoring_dispatch [OF assms(2)]
      by (cases q) (auto simp: io_bind_def split: if_splits)
    moreover have "used (nh_world (rt_world st1)) \<subseteq> used (nh_world (rt_world st2))"
    proof (cases "native_engines st1 h")
      case None
      then show ?thesis using dispatch_call(3) [OF q] by simp
    next
      case (Some e)
      then show ?thesis using dispatch_call(4) [OF q Some] restoring_grows [OF fresh assms(2)] by blast
    qed
    ultimately show ?thesis using world by simp
  qed
qed

lemma dispatch_client:
  assumes "native_client env used uts ups renv sid st" "restoring c" "runtime_dispatch renv sid c st = (Inr x, st')"
    and "used (nh_world (rt_world st')) \<noteq> UNIV"
  shows "native_client env used uts ups renv sid st' \<and>
    (\<exists>np nt. native_topology sid st' = spec_command np nt c (native_topology sid st) \<and>
       (creates c \<longrightarrow> np \<notin> set (topology_panes (native_topology sid st))))"
proof -
  obtain e where e: "native_engines st sid = Some e" "engine_inv used e (nh_world (rt_world st))" "en_session_id e = sid"
    "native_setup env used uts ups renv" "native_topology sid st = engine_topology e" using client_facts [OF assms(1)] .
  have port: "re_session renv = native_session_port env" and fresh: "issues_fresh_ids env used"
    using e(4) by (simp_all add: native_setup_def)
  obtain q st2 where q: "on_world (po_dispatch (native_session_port env) sid c) (mark_session_ready sid st) = (q, st2)"
    by (cases "on_world (po_dispatch (native_session_port env) sid c) (mark_session_ready sid st)")
  have st': "q = Inr x" "st' = st2 \<or> st' = refresh_session_summary_title renv sid sid st2"
    using assms(3) q port native_attaches [OF assms(1)] unfolding restoring_dispatch [OF assms(2)]
    by (cases q; auto simp: io_bind_def split: if_splits)+
  have same: "native_engines st' = native_engines st2" "nh_world (rt_world st') = nh_world (rt_world st2)"
    "mutex_poisoned (nb_sessions (nh_backend (rt_world st'))) = mutex_poisoned (nb_sessions (nh_backend (rt_world st2)))"
    using st'(2) refresh_keeps [OF port] by auto
  have e_ready: "native_engines (mark_session_ready sid st) sid = Some e" using e(1) by (simp add: mark_session_ready_def)
  obtain e' where e': "session_dispatch env c e (nh_world (rt_world st)) = (Inr x, e', nh_world (rt_world st2))"
    "native_engines st2 sid = Some e'"
    using dispatch_call(4) [OF q e_ready] st'(1) by (auto simp: mark_session_ready_def)
  have room: "used (nh_world (rt_world st2)) \<noteq> UNIV" using assms(4) same(2) by simp
  note spec = native_dispatch_spec [OF fresh e(2) assms(2) e'(1) room]
  obtain d where d: "registry_get (rt_registry st) sid = Some d" using assms(1) unfolding native_client_def by blast
  have d2: "registry_get (rt_registry st2) sid = Some (d\<lparr>de_health := health_ready sid\<rparr>)"
    using dispatch_call(1) [OF q] d by (simp add: mark_session_ready_def)
  have "\<exists>title. registry_get (rt_registry st') sid = Some (d\<lparr>de_health := health_ready sid, de_title := title\<rparr>)"
    using st'(2) d2 refresh_keeps(4) [OF port d2] by (auto intro: exI [of _ "de_title d"])
  then obtain title where d': "registry_get (rt_registry st') sid = Some (d\<lparr>de_health := health_ready sid, de_title := title\<rparr>)" ..
  have "native_client env used uts ups renv sid st'"
  proof (rule client_moves [OF assms(1) d'])
    show "de_session_id (d\<lparr>de_health := health_ready sid, de_title := title\<rparr>) = de_session_id d0 \<and>
        de_route (d\<lparr>de_health := health_ready sid, de_title := title\<rparr>) = de_route d0"
      if "registry_get (rt_registry st) sid = Some d0" for d0 using that d by simp
    show "mutex_poisoned (nb_sessions (nh_backend (rt_world st'))) = mutex_poisoned (nb_sessions (nh_backend (rt_world st)))"
      using same(3) dispatch_call(2) [OF q] by (simp add: mark_session_ready_def)
    show "native_engines st' sid = Some e'" using e'(2) same(1) by simp
    show "en_session_id e' = sid" using spec e(3) by simp
    show "engine_inv used e' (nh_world (rt_world st'))" using spec same(2) by simp
  qed
  then show ?thesis using spec e'(2) same(1) e(5) by (simp add: native_topology_def)
qed

lemma native_topology_wf:
  assumes "native_client env used uts ups renv sid st"
  shows "topology_wf (native_topology sid st)"
proof -
  obtain e where e: "engine_inv used e (nh_world (rt_world st))" "native_topology sid st = engine_topology e"
    using client_facts [OF assms] by metis
  then show ?thesis by (simp add: engine_topology_def engine_inv_def session_inv_def session_topology_wf)
qed

interpretation native_restore: topology_client
  "native_topology sid" "runtime_topology renv sid" "runtime_dispatch renv sid"
  "native_client env used uts ups renv sid" "native_room env used uts ups renv"
proof unfold_locales
  fix s s' :: "('a native_host, session_id) runtime_state" and r :: "backend_error + topology_snapshot"
  assume "runtime_topology renv sid s = (r, s')" "native_room env used uts ups renv s'"
  then show "native_room env used uts ups renv s"
    unfolding native_room_def using snap_world by metis
next
  fix s s' :: "('a native_host, session_id) runtime_state" and T
  assume "native_client env used uts ups renv sid s" "runtime_topology renv sid s = (Inr T, s')"
  then show "T = native_topology sid s \<and> native_topology sid s' = native_topology sid s \<and> native_client env used uts ups renv sid s'"
    by (rule snap_client)
next
  fix s s' :: "('a native_host, session_id) runtime_state" and c and q :: "backend_error + mux_command_result"
  assume "restoring c" "runtime_dispatch renv sid c s = (q, s')" "native_room env used uts ups renv s'"
  then show "native_room env used uts ups renv s"
    unfolding native_room_def using dispatch_world by blast
next
  fix s s' :: "('a native_host, session_id) runtime_state" and c x
  assume s: "native_client env used uts ups renv sid s" "restoring c" "runtime_dispatch renv sid c s = (Inr x, s')"
    and room: "native_room env used uts ups renv s'"
  have "used (nh_world (rt_world s')) \<noteq> UNIV"
    using room s(1) by (simp add: native_room_def native_client_def)
  from dispatch_client [OF s this] show "native_client env used uts ups renv sid s' \<and>
      (\<exists>np nt. native_topology sid s' = spec_command np nt c (native_topology sid s) \<and>
         (creates c \<longrightarrow> np \<notin> set (topology_panes (native_topology sid s))))" .
next
  fix s :: "('a native_host, session_id) runtime_state"
  assume "native_client env used uts ups renv sid s"
  then show "topology_wf (native_topology sid s)" by (rule native_topology_wf)
qed

end
