(* ===== verification/Runtime_Restored.thy ===== *)
theory Runtime_Restored
  imports Runtime_Sessions Native_Demo
begin

text \<open>
  Restoring a saved session through the whole runtime: load it from the store, create a native session,
  rebuild it by commands. The restored session has the shape of the saved one.
\<close>

section \<open>The store leaves the backend alone\<close>

definition store_grows :: "('w \<Rightarrow> uuid set) \<Rightarrow> ('w native_host, 'a) store_io \<Rightarrow> bool" where
  "store_grows used m \<longleftrightarrow> (\<forall>st. host_grows used (fst st) (fst (snd (m st))))"

lemma host_grows_refl [simp]: "host_grows used h h"
  by (simp add: host_grows_def)

lemma host_grows_trans: "host_grows used h h1 \<Longrightarrow> host_grows used h1 h2 \<Longrightarrow> host_grows used h h2"
  by (auto simp: host_grows_def)

lemma store_growsD: "store_grows used m \<Longrightarrow> m st = (r, st1) \<Longrightarrow> host_grows used (fst st) (fst st1)"
  by (metis store_grows_def snd_conv)

lemma grows_bind:
  assumes "store_grows used m" "\<And>x. store_grows used (f x)"
  shows "store_grows used (io_bind m f)"
  unfolding store_grows_def
proof
  fix st
  obtain r st1 where m: "m st = (r, st1)" by (cases "m st")
  show "host_grows used (fst st) (fst (snd (io_bind m f st)))"
  proof (cases r)
    case (Inl e)
    then show ?thesis using store_growsD [OF assms(1) m] m by (simp add: io_bind_def)
  next
    case (Inr x)
    obtain r2 st2 where f: "f x st1 = (r2, st2)" by (cases "f x st1")
    show ?thesis using host_grows_trans [OF store_growsD [OF assms(1) m] store_growsD [OF assms(2) f]] m f Inr
      by (simp add: io_bind_def)
  qed
qed

lemma grows_pure: "store_grows used (\<lambda>st. (f st, st))"
  by (simp add: store_grows_def)

lemma grows_simple: "store_grows used (io_lift r)" "store_grows used (tables f)"
  by (auto simp: store_grows_def tables_def split: sum.split prod.split)

definition store_apart :: "('w \<Rightarrow> uuid set) \<Rightarrow> 'w native_host store_env \<Rightarrow> bool" where
  "store_apart used senv \<longleftrightarrow> (\<forall>step h. host_grows used h (snd (se_sql senv step h))) \<and>
     (\<forall>ms h. host_grows used h (se_sleep senv ms h))"

lemma grows_sql: "store_apart used senv \<Longrightarrow> store_grows used (sql senv step)"
proof -
  assume "store_apart used senv"
  then have "host_grows used h h1" if "se_sql senv step h = (r, h1)" for h r h1
    using that unfolding store_apart_def by (metis snd_conv)
  then show ?thesis by (auto simp: store_grows_def sql_def split: prod.split option.split)
qed

lemma grows_retry: "store_apart used senv \<Longrightarrow> store_grows used operation \<Longrightarrow> store_grows used (retry_persistence_operation senv operation)"
proof -
  assume apart: "store_apart used senv" and op: "store_grows used operation"
  have "host_grows used (fst st) (fst (snd (retry_from senv operation last_error n st)))" for last_error n st
  proof (induction n arbitrary: last_error st)
    case (Suc n)
    obtain r w t where run: "operation st = (r, w, t)" by (cases "operation st")
    have "host_grows used (fst st) w" using store_growsD [OF op run] by simp
    moreover have "host_grows used w (se_sleep senv (10 + min (79 - n) 20 * 5) w)"
      using apart by (simp add: store_apart_def)
    ultimately have slept: "host_grows used (fst st) (se_sleep senv (10 + min (79 - n) 20 * 5) w)" by (rule host_grows_trans)
    show ?case
      using Suc [where st = "(se_sleep senv (10 + min (79 - n) 20 * 5) w, t)"] host_grows_trans [OF slept]
        store_growsD [OF op run] by (cases r) (simp_all add: run)
  qed simp
  then show ?thesis by (simp add: store_grows_def retry_persistence_operation_def)
qed

lemma grows_manifest: "store_apart used senv \<Longrightarrow> store_grows used (ensure_manifest_column senv)"
proof -
  assume apart: "store_apart used senv"
  have alter: "store_grows used (\<lambda>st. case sql senv SqlAlter st of (Inr _, st1) \<Rightarrow> (Inr (), st1)
      | (Inl e, st1) \<Rightarrow> if duplicate_column_error e then (Inr (), st1) else (Inl e, st1))"
    unfolding store_grows_def using store_growsD [OF grows_sql [OF apart], of SqlAlter]
    by (auto split: prod.split sum.split)
  then have "store_grows used (\<lambda>st. if lit ''manifest_json'' \<in> set (se_columns senv (fst st)) then (Inr (), st)
       else case sql senv SqlAlter st of (Inr _, st1) \<Rightarrow> (Inr (), st1)
         | (Inl e, st1) \<Rightarrow> if duplicate_column_error e then (Inr (), st1) else (Inl e, st1))"
    by (simp add: store_grows_def)
  then show ?thesis unfolding ensure_manifest_column_def by (intro grows_bind grows_sql [OF apart])
qed

lemma grows_open: "store_apart used senv \<Longrightarrow> store_grows used (open_connection senv)"
  unfolding open_connection_def ensure_schema_def by (intro grows_bind grows_sql grows_retry grows_manifest)

lemma grows_transaction: "store_apart used senv \<Longrightarrow> store_grows used body \<Longrightarrow> store_grows used (transaction senv body)"
proof -
  assume apart: "store_apart used senv" and body: "store_grows used body"
  have "store_grows used (io_bind (sql senv SqlBegin) (\<lambda>_. io_bind body (\<lambda>x. io_bind (sql senv SqlCommit) (\<lambda>_. io_ok x))))"
    by (intro grows_bind grows_sql [OF apart] body) (simp add: io_ok_def grows_pure)
  then show ?thesis unfolding store_grows_def transaction_def by (auto split: prod.split sum.split) (metis fst_conv snd_conv)+
qed

lemma grows_upsert_route: "store_apart used senv \<Longrightarrow> store_grows used (upsert_session_route senv r)"
  unfolding upsert_session_route_def by (intro grows_bind grows_open grows_transaction grows_sql grows_simple)

section \<open>Creating the session\<close>

lemma spawned_topology:
  assumes "engine_spawn env sid route spec w = (Inr e, w')"
  shows "\<exists>t0 p0. tp_tabs (engine_topology e) = [t0] \<and> ts_root t0 = PLeaf p0 \<and> ts_title t0 = cs_title spec"
proof -
  obtain launch where l: "resolve_launch_spec env (cs_launch spec) = Inr launch"
    using assms by (cases "resolve_launch_spec env (cs_launch spec)") (auto simp: engine_spawn_def)
  obtain tick w1 where k: "ne_watch_channel env 0 w = (tick, w1)" by (cases "ne_watch_channel env 0 w")
  obtain r w2 where t: "spawn_tab env (cs_title spec) launch default_rows default_cols w1 = (r, w2)"
    by (cases "spawn_tab env (cs_title spec) launch default_rows default_cols w1")
  obtain tab where r: "r = Inr tab" using assms l k t by (cases r) (auto simp: engine_spawn_def)
  have "ns_tabs (mutex_value (en_state e)) = [tab]" using assms l k t r by (auto simp: engine_spawn_def)
  moreover have "tb_title tab = cs_title spec" "\<exists>p. tb_root tab = NLeaf p"
    using t r by (auto simp: spawn_tab_def split: prod.splits sum.splits)
  ultimately show ?thesis by (auto simp: engine_topology_def session_topology_def tab_snapshot_of_def)
qed

lemma native_created:
  assumes wired: "native_setup env used uts ups renv"
    and run: "create_native_session renv spec st = (Inr summary, st')"
    and room: "used (nh_world (rt_world st')) \<noteq> UNIV"
  shows "native_client env used uts ups renv (bs_session_id summary) st' \<and>
    (\<exists>t0 p0. tp_tabs (native_topology (bs_session_id summary) st') = [t0] \<and> ts_root t0 = PLeaf p0 \<and> ts_title t0 = cs_title spec)"
proof -
  let ?port = "native_backend_port env uts ups"
  have fresh: "issues_fresh_ids env used" and apart: "store_apart used (re_store renv)"
    and backend: "runtime_backend renv Native = io_ok ?port"
    using wired by (simp_all add: native_setup_def store_apart_def runtime_backend_def catalog_backend_def io_lift_def io_ok_def)
  define descriptor where "descriptor (binding :: backend_session_binding) =
      \<lparr>de_session_id = bb_session_id binding, de_route = bb_route binding, de_title = cs_title spec,
       de_launch = cs_launch spec, de_health = health_ready (bb_session_id binding)\<rparr>" for binding
  define rest where "rest (binding :: backend_session_binding) =
      io_bind (upsert_runtime_route renv (bb_session_id binding) (bb_route binding)) (\<lambda>_ st.
       case on_world (pb_attach ?port (bb_session_id binding) (bb_route binding)) (on_registry (registry_insert (descriptor binding)) st) of
         (Inr session, st1) \<Rightarrow> (Inr (to_summary (descriptor binding)), start_history_capture (descriptor binding) session st1)
       | (Inl e, st1) \<Rightarrow> (Inr (to_summary (descriptor binding)), st1))" for binding
  have "create_native_session renv spec = io_bind (on_world (pb_create ?port spec)) rest"
    unfolding create_native_session_def backend io_simps(4) rest_def descriptor_def to_summary_def Let_def by simp
  then obtain binding st1 where 1: "on_world (pb_create ?port spec) st = (Inr binding, st1)" "rest binding st1 = (Inr summary, st')"
    using run io_bind_InrE by metis
  obtain v st2 where 2: "upsert_runtime_route renv (bb_session_id binding) (bb_route binding) st1 = (Inr v, st2)"
    "(case on_world (pb_attach ?port (bb_session_id binding) (bb_route binding)) (on_registry (registry_insert (descriptor binding)) st2) of
         (Inr session, st1) \<Rightarrow> (Inr (to_summary (descriptor binding)), start_history_capture (descriptor binding) session st1)
       | (Inl e, st1) \<Rightarrow> (Inr (to_summary (descriptor binding)), st1)) = ((Inr summary, st') :: (backend_error + backend_session_summary) \<times> ('a native_host, session_id) runtime_state)"
    by (rule io_bind_InrE [OF 1(2) [unfolded rest_def]]) (rule that)
  let ?h = "rt_world st"
  obtain b w where made: "backend_create_session env uts spec (nh_backend ?h) (nh_world ?h) = (Inr binding, b, w)"
    "rt_world st1 = \<lparr>nh_world = w, nh_backend = b\<rparr>"
    using 1(1) by (auto simp: on_world_def native_backend_port_def split: prod.splits)
  have grown: "host_grows used (rt_world st1) (rt_world st2)"
    using 2(1) store_growsD [OF grows_upsert_route [OF apart]]
    by (fastforce simp: upsert_runtime_route_def on_store_def split: prod.splits sum.splits)
  have attach: "snd (on_world (pb_attach ?port sid route) s) = s" for sid route and s :: "('a native_host, session_id) runtime_state"
    by (simp add: on_world_def native_backend_port_def)
  have st': "rt_world st' = rt_world st2" "rt_registry st' = registry_insert (descriptor binding) (rt_registry st2)"
    "summary = to_summary (descriptor binding)"
    using 2(2) attach [of "bb_session_id binding" "bb_route binding" "on_registry (registry_insert (descriptor binding)) st2"]
    by (auto simp: start_history_capture_def split: prod.splits sum.splits)
  obtain u w1 where u: "ne_new_uuid env (nh_world ?h) = (u, w1)" by (cases "ne_new_uuid env (nh_world ?h)")
  obtain r w2 where sp: "engine_spawn env (Id u) (local_native_route uts (Id u)) spec w1 = (r, w2)"
    by (cases "engine_spawn env (Id u) (local_native_route uts (Id u)) spec w1")
  obtain e where r: "r = Inr e" using made(1) u sp by (cases r) (auto simp: backend_create_session_def Let_def)
  have np: "\<not> mutex_poisoned (nb_sessions (nh_backend ?h))"
    using made(1) u sp r by (auto simp: backend_create_session_def Let_def mutex_lock_def split: if_splits)
  have b: "binding = \<lparr>bb_session_id = Id u, bb_route = local_native_route uts (Id u)\<rparr>" "w = w2"
    "b = (nh_backend ?h)\<lparr>nb_sessions := mutex_set (AList.update (Id u) e (mutex_value (nb_sessions (nh_backend ?h)))) (nb_sessions (nh_backend ?h))\<rparr>"
    using made(1) u sp r np by (auto simp: backend_create_session_def Let_def mutex_lock_def)
  have world: "nh_backend (rt_world st') = b" "used w2 \<subseteq> used (nh_world (rt_world st'))"
    using grown made(2) st'(1) b(2) by (auto simp: host_grows_def)
  have "used w2 \<noteq> UNIV" using world(2) room by auto
  note spawned = engine_spawn_inv [OF fresh sp [unfolded r] this]
  have inv: "engine_inv used e (nh_world (rt_world st'))"
    using spawned world(2) by (auto simp: engine_inv_def intro: session_inv_mono)
  have engine: "native_engines st' (Id u) = Some e" by (simp add: native_engines_def world(1) b(3) update_conv')
  have sid: "bs_session_id summary = Id u" using st'(3) b(1) by (simp add: to_summary_def descriptor_def)
  have "native_client env used uts ups renv (Id u) st'"
    unfolding native_client_def
    using wired st'(2) np engine spawned inv by (simp add: descriptor_def b world(1))
  then show ?thesis using spawned_topology [OF sp [unfolded r]] engine by (simp add: sid native_topology_def)
qed

section \<open>A runtime with a saved session of two panes\<close>

definition split_saved :: saved_native_session where
  "split_saved =
     demo_saved\<lparr>sv_topology := \<lparr>tp_session_id = Id 7, tp_backend_kind = Native,
       tp_tabs = [\<lparr>ts_tab_id = Id 30, ts_title = Some (lit ''work''),
         ts_root = PSplit Vertical (PLeaf (Id 10)) (PLeaf (Id 20)), ts_focused_pane = Some (Id 10)\<rparr>],
       tp_focused_tab = Some (Id 30)\<rparr>\<rparr>"

definition quiet_store :: "demo_world native_host store_env" where
  "quiet_store =
     \<lparr>se_sql = (\<lambda>step w. (None, w)), se_columns = (\<lambda>w. [lit ''manifest_json'']), se_sleep = (\<lambda>ms w. w),
      se_failpoint = False, se_uuid_text = (\<lambda>u. [unat u]), se_uuid_parse = (\<lambda>s. Inl []),
      se_route = \<lparr>to_json = (\<lambda>x. Inr []), from_json = (\<lambda>s. Inr (sv_route split_saved))\<rparr>,
      se_launch = one_codec None,
      se_manifest = one_codec (sv_manifest split_saved), se_topology = one_codec (sv_topology split_saved),
      se_screens = one_codec []\<rparr>"

definition text_uuid :: "rstr \<Rightarrow> uuid option" where
  "text_uuid s = (case s of [n] \<Rightarrow> Some (word_of_nat n) | _ \<Rightarrow> None)"

definition quiet_runtime :: "(demo_world native_host, session_id) runtime_env" where
  "quiet_runtime =
     \<lparr>re_catalog = [(Native, native_backend_port demo_env (\<lambda>u. [unat u]) text_uuid)],
      re_session = native_session_port demo_env, re_store = quiet_store,
      re_new_uuid = (\<lambda>h. (0, h)), re_now_ms = (\<lambda>h. Inr 9), re_archive_input = (\<lambda>e h. (ArchiveStored, h)),
      re_archive_session = (\<lambda>s h. (None, h)), re_archive_fault = (\<lambda>sid what m h. (None, h))\<rparr>"

definition quiet_state :: "(demo_world native_host, session_id) runtime_state" where
  "quiet_state =
     \<lparr>rt_registry = [], rt_tables = \<lparr>st_saved = [demo_row [7] 5], st_routes = []\<rparr>, rt_captures = [],
      rt_world = \<lparr>nh_world = demo_start, nh_backend = \<lparr>nb_sessions = mutex_new []\<rparr>\<rparr>\<rparr>"


text \<open>Identifiers print as one number and are parsed back; the store answers to every statement.\<close>

lemma quiet_setup: "native_setup demo_env demo_used (\<lambda>u. [unat u]) text_uuid quiet_runtime"
  by (simp add: native_setup_def demo_fresh text_uuid_def quiet_runtime_def quiet_store_def)

lemma quiet_loads: "case saved_session quiet_runtime (Id 7) quiet_state of (Inr s, st0) \<Rightarrow> s = split_saved | _ \<Rightarrow> False"
  by code_simp

lemma quiet_restores: "case restore_saved_session quiet_runtime (Id 7) quiet_state of
    (Inr s, st) \<Rightarrow> dw_next (nh_world (rt_world st)) \<le> 10 | _ \<Rightarrow> False"
  by code_simp

section \<open>The restored session\<close>

text \<open>
  C40. A session that is restored has the shape of the saved one: tab by tab the same layout up to new
  pane identifiers, the same titles, the focus on the same pane of each tab and on the same tab; a first
  tab saved without a title gets the title of the session. The pane identifiers of the result are distinct.
\<close>
theorem restored_session_shape:
  assumes "native_setup env used uts ups renv"
    and "saved_session renv sid st = (Inr saved, st0)" and "topology_wf (sv_topology saved)"
    and "restore_saved_session renv sid st = (Inr summary, st')"
    and "used (nh_world (rt_world st')) \<noteq> UNIV"
  shows "restores (initial_restore_title saved) (sv_topology saved) (native_topology (bs_session_id summary) st')
    \<and> topology_wf (native_topology (bs_session_id summary) st')"
proof -
  let ?spec = "\<lparr>cs_title = initial_restore_title saved, cs_launch = sv_launch saved\<rparr>"
  obtain s st1 where 1: "saved_session renv sid st = (Inr s, st1)"
    "io_bind (io_lift (validate_native_restore s)) (\<lambda>_.
     io_bind (create_native_session renv \<lparr>cs_title = initial_restore_title s, cs_launch = sv_launch s\<rparr>) (\<lambda>restored.
     io_bind (rebuild (runtime_topology renv (bs_session_id restored)) (runtime_dispatch renv (bs_session_id restored)) s) (\<lambda>_ st.
       (ok_or (map_option to_summary (registry_get (rt_registry st) (bs_session_id restored)))
          (internal_error [MText ''restored native session is missing from registry'']), st)))) st1 = (Inr summary, st')"
    using assms(4) unfolding restore_saved_session_def by (rule io_bind_InrE)
  have s: "s = saved" "st1 = st0" using 1(1) assms(2) by simp_all
  have valid: "validate_native_restore saved = Inr ()"
    using 1(2) s by (cases "validate_native_restore saved") simp_all
  then have tabs: "tp_tabs (sv_topology saved) \<noteq> []" by (auto simp: validate_native_restore_def Let_def split: if_splits)
  obtain restored st2 where 2: "create_native_session renv ?spec st0 = (Inr restored, st2)"
    "io_bind (rebuild (runtime_topology renv (bs_session_id restored)) (runtime_dispatch renv (bs_session_id restored)) saved) (\<lambda>_ st.
       (ok_or (map_option to_summary (registry_get (rt_registry st) (bs_session_id restored)))
          (internal_error [MText ''restored native session is missing from registry'']), st)) st2 = (Inr summary, st')"
    using 1(2) unfolding s valid io_simps by (rule io_bind_InrE)
  let ?id = "bs_session_id restored"
  obtain v st3 where 3: "rebuild (runtime_topology renv ?id) (runtime_dispatch renv ?id) saved st2 = (Inr v, st3)"
    "st3 = st'" "map_option to_summary (registry_get (rt_registry st') ?id) = Some summary"
    by (rule io_bind_InrE [OF 2(2)]) (auto intro: that)
  have run: "rebuild (runtime_topology renv ?id) (runtime_dispatch renv ?id) saved st2 = (Inr (), st')"
    using 3(1,2) by simp
  have room': "native_room env used uts ups renv st'" using assms(5) by (simp add: native_room_def)
  have room2: "used (nh_world (rt_world st2)) \<noteq> UNIV"
    using native_restore.rebuild_room [OF run room'] assms(1) by (simp add: native_room_def)
  obtain t0 p0 where created: "native_client env used uts ups renv ?id st2" "tp_tabs (native_topology ?id st2) = [t0]"
    "ts_root t0 = PLeaf p0" "ts_title t0 = initial_restore_title saved"
    using native_created [OF assms(1) 2(1) room2] by auto
  note rebuilt = native_restore.session_rebuilt [OF created(1-3) tabs assms(3) run room']
  then have "bs_session_id summary = ?id" using 3(3) unfolding native_client_def by (auto simp: to_summary_def)
  then show ?thesis using rebuilt created(4) native_topology_wf [of env used uts ups renv ?id st'] by simp
qed


theorem restored_session_shape_witness:
  "case restore_saved_session quiet_runtime (Id 7) quiet_state of
     (Inr s, st) \<Rightarrow> restores (initial_restore_title split_saved) (sv_topology split_saved) (native_topology (bs_session_id s) st)
       \<and> topology_wf (native_topology (bs_session_id s) st)
   | _ \<Rightarrow> False"
proof -
  obtain st0 where loads: "saved_session quiet_runtime (Id 7) quiet_state = (Inr split_saved, st0)"
    using quiet_loads by (auto split: prod.splits sum.splits)
  obtain s st where run: "restore_saved_session quiet_runtime (Id 7) quiet_state = (Inr s, st)"
    "dw_next (nh_world (rt_world st)) \<le> 10"
    using quiet_restores by (auto split: prod.splits sum.splits)
  have "dw_next (nh_world (rt_world st)) < 2 ^ 128" using run(2) by simp
  note room = demo_room [OF this]
  have "topology_wf (sv_topology split_saved)"
    by (simp add: topology_wf_def topology_panes_def split_saved_def)
  from restored_session_shape [OF quiet_setup loads this run(1) room] show ?thesis
    by (simp add: run(1))
qed

end
