(* ===== verification/Runtime_Capture.thy ===== *)
theory Runtime_Capture
  imports Runtime_Services Native_Subscriptions "HOL-Library.Sublist"
begin

text \<open>
  The capture of the history (\<open>sessions/runtime/capture\<close> of the crate \<open>terminal-runtime\<close>): the task of a
  session that follows its topology, and the two kinds of tasks of a pane, for the raw output and for
  rendered screens. A task waits for one call into the archive before it goes on; what it gives to the
  archive does not depend on the answers, so the loops return the inputs in order and \<open>archive\<close> gives them.
  The report of a capability is made by a task of its own; here it is made when that task is started.
\<close>

section \<open>What is archived\<close>

type_synonym i32 = "32 word"

record evidence_input =
  ev_session_id :: rstr
  ev_route :: session_route
  ev_title :: "rstr option"
  ev_launch :: "shell_launch_spec option"

record terminal_output_input = evidence_input +
  to_pane_id :: rstr
  to_tab_id :: "rstr option"
  to_payload :: "u8 list"
  to_rows :: "i32 option"
  to_cols :: "i32 option"
  to_source_sequence :: "u64 option"
  to_occurred_at_ms :: "i64 option"
  to_capture_semantics :: "rstr option"

record history_gap_input = evidence_input +
  hg_pane_id :: rstr
  hg_tab_id :: "rstr option"
  hg_rows :: "i32 option"
  hg_cols :: "i32 option"
  hg_skipped_events :: u64
  hg_estimated_dropped_bytes :: "i64 option"
  hg_reason :: rstr
  hg_occurred_at_ms :: "i64 option"

record topology_input = evidence_input +
  ti_topology :: topology_snapshot

record screen_input = evidence_input +
  sx_tab_id :: "rstr option"
  sx_screen :: screen_snapshot
  sx_buffer_kind :: "rstr option"
  sx_capture_semantics :: "rstr option"

record capability_evidence =
  ce_source :: rstr
  ce_reason :: rstr
  ce_session_id :: rstr
  ce_backend :: rstr

record capability_report_input =
  br_id :: "rstr option"
  br_session_id :: "rstr option"
  br_backend_kind :: rstr
  br_backend_version :: "rstr option"
  br_backend_binary_path_hash :: "rstr option"
  br_route_kind :: rstr
  br_probe_status :: rstr
  br_capture_strategy :: rstr
  br_capture_semantics :: rstr
  br_can_preserve_process_when_live :: bool
  br_can_capture_scrollback :: bool
  br_command_boundary_confidence :: rstr
  br_evidence :: "capability_evidence option"
  br_expires_at_ms :: "i64 option"

datatype archive_input =
    TerminalOutput terminal_output_input
  | HistoryGap history_gap_input
  | TopologyEvidence topology_input
  | ScreenEvidence screen_input
  | CapabilityReport capability_report_input

record fault_input =
  fa_session_id :: "rstr option"
  fa_operation :: string
  fa_detail :: message
  fa_error_kind :: string

text \<open>\<open>ca_record\<close>: the \<open>record_v2_\<close> functions of the store; \<open>ca_fault\<close>: the record of a fault, its result is only printed.\<close>

record 'w capture_env =
  ca_uuid_text :: "uuid \<Rightarrow> rstr"
  ca_record :: "archive_input \<Rightarrow> 'w \<Rightarrow> archive_result \<times> 'w"
  ca_fault :: "fault_input \<Rightarrow> 'w \<Rightarrow> 'w"

record capture_target =
  cx_descriptor :: session_descriptor
  cx_tab_id :: "rstr option"
  cx_rows :: "i32 option"
  cx_cols :: "i32 option"

datatype capture_task = RawTask pane_id capture_target subscription_id | RenderedTask pane_id capture_target subscription_id

record 'w capture_state =
  ct_registry :: session_registry
  ct_world :: 'w
  ct_panes :: "pane_id set"
  ct_tasks :: "capture_task list"

section \<open>Diagnostics\<close>

definition record_durable_fault ::
    "'w capture_env \<Rightarrow> session_id \<Rightarrow> string \<Rightarrow> message \<Rightarrow> string \<Rightarrow> 'w capture_state \<Rightarrow> 'w capture_state" where
  "record_durable_fault env sid operation detail error_kind st =
     st\<lparr>ct_world := ca_fault env \<lparr>fa_session_id = Some (ca_uuid_text env (id_uuid sid)), fa_operation = operation,
          fa_detail = detail, fa_error_kind = error_kind\<rparr> (ct_world st)\<rparr>"

definition degrade_history :: "session_id \<Rightarrow> message \<Rightarrow> 'w capture_state \<Rightarrow> 'w capture_state" where
  "degrade_history sid detail st =
     st\<lparr>ct_registry := registry_update_health sid (health_degraded sid HistoryPersistenceFault detail) (ct_registry st)\<rparr>"

definition record_failure ::
    "'w capture_env \<Rightarrow> session_id \<Rightarrow> string \<Rightarrow> rstr \<Rightarrow> 'w capture_state \<Rightarrow> 'w capture_state" where
  "record_failure env sid operation e st =
     (let detail = [MText ''terminal history persistence failed during '', MText operation, MText '' - '', MString e]
      in degrade_history sid detail (record_durable_fault env sid operation detail ''terminal_persistence_v2_error'' st))"

definition record_task_failure ::
    "'w capture_env \<Rightarrow> session_id \<Rightarrow> string \<Rightarrow> rstr \<Rightarrow> 'w capture_state \<Rightarrow> 'w capture_state" where
  "record_task_failure env sid operation e st =
     (let detail = [MText ''terminal history persistence task failed during '', MText operation, MText '' - '', MString e]
      in degrade_history sid detail (record_durable_fault env sid operation detail ''join_error'' st))"

fun archive_operation :: "archive_input \<Rightarrow> string" where
  "archive_operation (TerminalOutput i) = ''terminal output''"
| "archive_operation (HistoryGap i) = ''history gap''"
| "archive_operation (TopologyEvidence i) = ''topology snapshot''"
| "archive_operation (ScreenEvidence i) = ''screen snapshot''"
| "archive_operation (CapabilityReport i) = ''backend capability report''"

definition archive :: "'w capture_env \<Rightarrow> session_id \<Rightarrow> archive_input \<Rightarrow> 'w capture_state \<Rightarrow> 'w capture_state" where
  "archive env sid input st =
     (case ca_record env input (ct_world st) of
        (ArchiveStored, w) \<Rightarrow> st\<lparr>ct_world := w\<rparr>
      | (ArchiveFailed e, w) \<Rightarrow> record_failure env sid (archive_operation input) e (st\<lparr>ct_world := w\<rparr>)
      | (ArchiveTaskFailed e, w) \<Rightarrow> record_task_failure env sid (archive_operation input) e (st\<lparr>ct_world := w\<rparr>))"

section \<open>The inputs\<close>

fun lower_backend :: "backend_kind \<Rightarrow> rstr" where
  "lower_backend Native = lit ''native''"
| "lower_backend Tmux = lit ''tmux''"
| "lower_backend Zellij = lit ''zellij''"

fun persistence_route_kind :: "route_authority \<Rightarrow> rstr" where
  "persistence_route_kind LocalDaemon = lit ''local_daemon''"
| "persistence_route_kind ImportedForeign = lit ''imported_foreign''"

definition persist_backend_capability_report ::
    "'w capture_env \<Rightarrow> session_descriptor \<Rightarrow> rstr \<Rightarrow> rstr \<Rightarrow> bool \<Rightarrow> rstr \<Rightarrow> rstr \<Rightarrow> 'w capture_state \<Rightarrow> 'w capture_state" where
  "persist_backend_capability_report env d strategy semantics scrollback confidence reason =
     (let sid = ca_uuid_text env (id_uuid (de_session_id d)); backend = lower_backend (route_backend (de_route d))
      in archive env (de_session_id d) (CapabilityReport
           \<lparr>br_id = None, br_session_id = Some sid, br_backend_kind = backend, br_backend_version = None,
            br_backend_binary_path_hash = None, br_route_kind = persistence_route_kind (route_authority (de_route d)),
            br_probe_status = lit ''passed'', br_capture_strategy = strategy, br_capture_semantics = semantics,
            br_can_preserve_process_when_live = (route_authority (de_route d) = ImportedForeign),
            br_can_capture_scrollback = scrollback, br_command_boundary_confidence = confidence,
            br_evidence = Some \<lparr>ce_source = lit ''runtime_v2_history_capture'', ce_reason = reason,
              ce_session_id = sid, ce_backend = backend\<rparr>, br_expires_at_ms = None\<rparr>))"

definition history_gap_of :: "'w capture_env \<Rightarrow> capture_target \<Rightarrow> pane_id \<Rightarrow> u64 \<Rightarrow> archive_input" where
  "history_gap_of env t p skipped =
     (let d = cx_descriptor t in HistoryGap
        \<lparr>ev_session_id = ca_uuid_text env (id_uuid (de_session_id d)), ev_route = de_route d, ev_title = de_title d,
         ev_launch = de_launch d, hg_pane_id = ca_uuid_text env (id_uuid p), hg_tab_id = cx_tab_id t,
         hg_rows = cx_rows t, hg_cols = cx_cols t, hg_skipped_events = skipped, hg_estimated_dropped_bytes = None,
         hg_reason = lit ''raw_output_receiver_lagged'', hg_occurred_at_ms = None\<rparr>)"

definition persist_topology_snapshot ::
    "'w capture_env \<Rightarrow> session_descriptor \<Rightarrow> topology_snapshot \<Rightarrow> 'w capture_state \<Rightarrow> 'w capture_state" where
  "persist_topology_snapshot env d topology = archive env (de_session_id d) (TopologyEvidence
     \<lparr>ev_session_id = ca_uuid_text env (id_uuid (de_session_id d)), ev_route = de_route d, ev_title = de_title d,
      ev_launch = de_launch d, ti_topology = topology\<rparr>)"

definition screen_input_of ::
    "'w capture_env \<Rightarrow> session_descriptor \<Rightarrow> rstr option \<Rightarrow> screen_snapshot \<Rightarrow> archive_input" where
  "screen_input_of env d tab screen = ScreenEvidence
     \<lparr>ev_session_id = ca_uuid_text env (id_uuid (de_session_id d)), ev_route = de_route d, ev_title = de_title d,
      ev_launch = de_launch d, sx_tab_id = tab, sx_screen = screen,
      sx_buffer_kind = Some (screen_buffer_kind_as_str (sn_buffer_kind screen)),
      sx_capture_semantics = Some (rendered_screen_capture_semantics screen)\<rparr>"

definition persist_screen_snapshot ::
    "'w capture_env \<Rightarrow> session_descriptor \<Rightarrow> rstr option \<Rightarrow> screen_snapshot \<Rightarrow> 'w capture_state \<Rightarrow> 'w capture_state" where
  "persist_screen_snapshot env d tab screen = archive env (de_session_id d) (screen_input_of env d tab screen)"

section \<open>The raw output of a pane\<close>

definition v2_raw_capture_max_batch_bytes :: nat where
  "v2_raw_capture_max_batch_bytes = 64 * 1024"

record raw_batch =
  rb_payload :: "u8 list"
  rb_pane_id :: "pane_id option"
  rb_sequence :: "u64 option"

definition raw_batch_empty :: raw_batch where
  "raw_batch_empty = \<lparr>rb_payload = [], rb_pane_id = None, rb_sequence = None\<rparr>"

datatype raw_capture_wake = RawReceived raw_output_event | RawTick

definition flush_raw_capture_batch ::
    "'w capture_env \<Rightarrow> capture_target \<Rightarrow> raw_batch \<Rightarrow> archive_input list \<times> raw_batch" where
  "flush_raw_capture_batch env t batch =
     (if rb_payload batch = [] then ([], batch)
      else case rb_pane_id batch of
        None \<Rightarrow> ([], batch\<lparr>rb_payload := []\<rparr>)
      | Some p \<Rightarrow>
          let d = cx_descriptor t in
          ([TerminalOutput \<lparr>ev_session_id = ca_uuid_text env (id_uuid (de_session_id d)), ev_route = de_route d,
              ev_title = de_title d, ev_launch = de_launch d, to_pane_id = ca_uuid_text env (id_uuid p),
              to_tab_id = cx_tab_id t, to_payload = rb_payload batch, to_rows = cx_rows t, to_cols = cx_cols t,
              to_source_sequence = rb_sequence batch, to_occurred_at_ms = None,
              to_capture_semantics = Some (lit ''raw_vt_stream'')\<rparr>],
           batch\<lparr>rb_payload := []\<rparr>))"

definition raw_capture_step ::
    "'w capture_env \<Rightarrow> capture_target \<Rightarrow> raw_capture_wake \<Rightarrow> raw_batch \<Rightarrow> archive_input list \<times> raw_batch" where
  "raw_capture_step env t wake batch =
     (case wake of
        RawReceived (RawBytes b) \<Rightarrow>
          let batch1 = batch\<lparr>rb_pane_id := Some (ro_pane_id b), rb_sequence := Some (ro_sequence b),
                 rb_payload := rb_payload batch @ ro_payload b\<rparr>
          in if length (rb_payload batch1) \<ge> v2_raw_capture_max_batch_bytes
             then flush_raw_capture_batch env t batch1 else ([], batch1)
      | RawReceived (RawGap g) \<Rightarrow>
          (case flush_raw_capture_batch env t batch of (out, batch1) \<Rightarrow>
             (out @ [history_gap_of env t (rg_pane_id g) (rg_skipped_events g)],
              batch1\<lparr>rb_pane_id := None, rb_sequence := None\<rparr>))
      | RawTick \<Rightarrow> flush_raw_capture_batch env t batch)"

fun raw_capture_loop :: "'w capture_env \<Rightarrow> capture_target \<Rightarrow> raw_capture_wake list \<Rightarrow> raw_batch \<Rightarrow> archive_input list" where
  "raw_capture_loop env t [] batch = fst (flush_raw_capture_batch env t batch)"
| "raw_capture_loop env t (wake # wakes) batch =
     (case raw_capture_step env t wake batch of (out, batch1) \<Rightarrow> out @ raw_capture_loop env t wakes batch1)"

definition raw_capture ::
    "'w capture_env \<Rightarrow> capture_target \<Rightarrow> raw_capture_wake list \<Rightarrow> 'w capture_state \<Rightarrow> 'w capture_state" where
  "raw_capture env t wakes =
     fold (archive env (de_session_id (cx_descriptor t))) (raw_capture_loop env t wakes raw_batch_empty)"

section \<open>The rendered screens of a pane\<close>

record rendered_capture =
  rn_current :: "screen_snapshot option"
  rn_pending :: "screen_snapshot option"
  rn_running :: bool

datatype rendered_wake = SurfaceReceived subscription_event | SurfaceTick

definition rendered_capture_step :: "rendered_wake \<Rightarrow> rendered_capture \<Rightarrow> screen_snapshot list \<times> rendered_capture" where
  "rendered_capture_step wake t =
     (case wake of
        SurfaceReceived (ScreenDeltaEvent delta) \<Rightarrow>
          (case snapshot_from_delta (rn_current t) delta of
             (current, None) \<Rightarrow> ([], t\<lparr>rn_current := current\<rparr>)
           | (current, Some snapshot) \<Rightarrow> ([], t\<lparr>rn_current := current, rn_pending := Some snapshot\<rparr>))
      | SurfaceReceived (SessionHealthEvent health) \<Rightarrow>
          ([], if sh_invalidated health then t\<lparr>rn_running := False\<rparr> else t)
      | SurfaceReceived (TopologyEvent topology) \<Rightarrow> ([], t)
      | SurfaceTick \<Rightarrow>
          (case rn_pending t of None \<Rightarrow> ([], t) | Some snapshot \<Rightarrow> ([snapshot], t\<lparr>rn_pending := None\<rparr>)))"

definition pending_screens :: "rendered_capture \<Rightarrow> screen_snapshot list" where
  "pending_screens t = (case rn_pending t of None \<Rightarrow> [] | Some snapshot \<Rightarrow> [snapshot])"

fun rendered_capture_loop :: "rendered_wake list \<Rightarrow> rendered_capture \<Rightarrow> screen_snapshot list" where
  "rendered_capture_loop [] t = pending_screens t"
| "rendered_capture_loop (wake # wakes) t =
     (case rendered_capture_step wake t of (out, t1) \<Rightarrow>
        out @ (if rn_running t1 then rendered_capture_loop wakes t1 else pending_screens t1))"

definition rendered_capture_start :: rendered_capture where
  "rendered_capture_start = \<lparr>rn_current = None, rn_pending = None, rn_running = True\<rparr>"

definition rendered_capture_run ::
    "'w capture_env \<Rightarrow> capture_target \<Rightarrow> rendered_wake list \<Rightarrow> 'w capture_state \<Rightarrow> 'w capture_state" where
  "rendered_capture_run env t wakes =
     fold (persist_screen_snapshot env (cx_descriptor t) (cx_tab_id t)) (rendered_capture_loop wakes rendered_capture_start)"

section \<open>The task of a session\<close>

definition rendered_capture_evidence_reason :: "bool \<Rightarrow> rstr" where
  "rendered_capture_evidence_reason can_capture_scrollback =
     (if can_capture_scrollback
      then lit ''rendered pane surface subscription opened after raw output fallback with initial scrollback snapshot''
      else lit ''rendered pane surface subscription opened after raw output fallback'')"

definition port_call :: "('w, 'a) io \<Rightarrow> 'w capture_state \<Rightarrow> (backend_error + 'a) \<times> 'w capture_state" where
  "port_call m st = (case m (ct_world st) of (r, w) \<Rightarrow> (r, st\<lparr>ct_world := w\<rparr>))"

definition result_ok :: "'e + 'a \<Rightarrow> 'a option" where
  "result_ok r = (case r of Inl e \<Rightarrow> None | Inr x \<Rightarrow> Some x)"

definition open_pane_capture ::
    "'w capture_env \<Rightarrow> ('w, 'h) session_port \<Rightarrow> 'h \<Rightarrow> pane_id \<Rightarrow> capture_target \<Rightarrow> screen_snapshot option
     \<Rightarrow> 'w capture_state \<Rightarrow> 'w capture_state" where
  "open_pane_capture env port session p t screen st =
     (let d = cx_descriptor t;
          scrollback = (case screen of None \<Rightarrow> False | Some s \<Rightarrow> sn_source s = ZellijDumpSnapshot)
      in case port_call (po_subscribe_raw port session p) st of
        (Inr sub, st1) \<Rightarrow>
          (persist_backend_capability_report env d (lit ''raw_stream'') (lit ''raw_vt_stream'') False (lit ''medium'')
             (lit ''native raw output subscription opened'') st1)\<lparr>ct_tasks := ct_tasks st1 @ [RawTask p t sub]\<rparr>
      | (Inl e, st1) \<Rightarrow>
          (case port_call (po_subscribe port session (PaneSurface p)) st1 of
             (Inl e2, st2) \<Rightarrow> st2
           | (Inr sub, st2) \<Rightarrow>
               (persist_backend_capability_report env d (lit ''rendered_stream'')
                  (case screen of None \<Rightarrow> lit ''rendered_plaintext_snapshot'' | Some s \<Rightarrow> rendered_screen_capture_semantics s)
                  scrollback (lit ''low'') (rendered_capture_evidence_reason scrollback) st2)
               \<lparr>ct_tasks := ct_tasks st2 @ [RenderedTask p t sub]\<rparr>))"

definition capture_pane ::
    "'w capture_env \<Rightarrow> ('w, 'h) session_port \<Rightarrow> 'h \<Rightarrow> session_descriptor \<Rightarrow> topology_snapshot \<Rightarrow> pane_id
     \<Rightarrow> 'w capture_state \<Rightarrow> 'w capture_state" where
  "capture_pane env port session d topology p st =
     (if p \<in> ct_panes st then st
      else
        let tab = map_option (\<lambda>t. ca_uuid_text env (id_uuid t)) (tab_id_for_pane topology p)
        in case port_call (po_screen port session p) (st\<lparr>ct_panes := insert p (ct_panes st)\<rparr>) of
          (r, st1) \<Rightarrow>
            let screen = result_ok r;
                st2 = open_pane_capture env port session p
                  \<lparr>cx_descriptor = d, cx_tab_id = tab, cx_rows = map_option (\<lambda>s. ucast (sn_rows s)) screen,
                   cx_cols = map_option (\<lambda>s. ucast (sn_cols s)) screen\<rparr> screen st1
            in case screen of None \<Rightarrow> st2 | Some s \<Rightarrow> persist_screen_snapshot env d tab s st2)"

definition start_capture_for_topology ::
    "'w capture_env \<Rightarrow> ('w, 'h) session_port \<Rightarrow> 'h \<Rightarrow> session_descriptor \<Rightarrow> topology_snapshot
     \<Rightarrow> 'w capture_state \<Rightarrow> 'w capture_state" where
  "start_capture_for_topology env port session d topology =
     fold (capture_pane env port session d topology) (collect_pane_ids_from_topology topology)"

definition capture_topology ::
    "'w capture_env \<Rightarrow> ('w, 'h) session_port \<Rightarrow> 'h \<Rightarrow> session_descriptor \<Rightarrow> topology_snapshot
     \<Rightarrow> 'w capture_state \<Rightarrow> 'w capture_state" where
  "capture_topology env port session d topology st =
     start_capture_for_topology env port session d topology (persist_topology_snapshot env d topology st)"

fun capture_events ::
    "'w capture_env \<Rightarrow> ('w, 'h) session_port \<Rightarrow> 'h \<Rightarrow> session_descriptor \<Rightarrow> subscription_event list
     \<Rightarrow> 'w capture_state \<Rightarrow> 'w capture_state" where
  "capture_events env port session d [] st = st"
| "capture_events env port session d (TopologyEvent topology # events) st =
     capture_events env port session d events (capture_topology env port session d topology st)"
| "capture_events env port session d (SessionHealthEvent health # events) st =
     (if sh_invalidated health then st else capture_events env port session d events st)"
| "capture_events env port session d (ScreenDeltaEvent delta # events) st = capture_events env port session d events st"

text \<open>\<open>events\<close>: what the subscription of the topology delivers until it closes.\<close>

definition run_v2_history_capture ::
    "'w capture_env \<Rightarrow> ('w, 'h) session_port \<Rightarrow> 'h \<Rightarrow> session_descriptor \<Rightarrow> subscription_event list
     \<Rightarrow> 'w capture_state \<Rightarrow> 'w capture_state" where
  "run_v2_history_capture env port session d events st =
     (case port_call (po_topology port session) st of
        (Inl e, st1) \<Rightarrow> st1
      | (Inr topology, st1) \<Rightarrow>
          (case port_call (po_subscribe port session SessionTopology) (capture_topology env port session d topology st1) of
             (Inl e, st2) \<Rightarrow> st2
           | (Inr sub, st2) \<Rightarrow> capture_events env port session d events st2))"

section \<open>Reading the history of a pane\<close>

definition refresh_live_screen_snapshot ::
    "('w, 'h) runtime_env \<Rightarrow> 'w capture_env \<Rightarrow> session_id \<Rightarrow> pane_id \<Rightarrow> ('w, 'h, unit) rt" where
  "refresh_live_screen_snapshot env cenv sid p st =
     (case registry_get (rt_registry st) sid of
        None \<Rightarrow> (Inl (unknown_session sid), st)
      | Some d \<Rightarrow>
          io_bind (attach_session env sid) (\<lambda>session st1.
            case on_world (po_topology (re_session env) session) st1 of (topology, st2) \<Rightarrow>
              io_bind (on_world (po_screen (re_session env) session p)) (\<lambda>screen st3.
                let tab = map_option (\<lambda>t. ca_uuid_text cenv (id_uuid t))
                      (Option.bind (result_ok topology) (\<lambda>topology. tab_id_for_pane topology p))
                in case ca_record cenv (screen_input_of cenv d tab screen) (rt_world st3) of
                  (ArchiveStored, w) \<Rightarrow> (Inr (), st3\<lparr>rt_world := w\<rparr>)
                | (ArchiveTaskFailed e, w) \<Rightarrow>
                    (Inl (internal_error [MText ''screen snapshot refresh task failed - '', MString e]), st3\<lparr>rt_world := w\<rparr>)
                | (ArchiveFailed e, w) \<Rightarrow>
                    (Inl (internal_error [MText ''failed to refresh screen snapshot - '', MString e]), st3\<lparr>rt_world := w\<rparr>)) st2) st)"


section \<open>What reaches the archive\<close>

text \<open>A byte that was received or archived is an \<open>Inl\<close>, a gap an \<open>Inr\<close>.\<close>

fun received :: "raw_capture_wake list \<Rightarrow> (u8 + u64) list" where
  "received [] = []"
| "received (RawReceived (RawBytes b) # wakes) = map Inl (ro_payload b) @ received wakes"
| "received (RawReceived (RawGap g) # wakes) = Inr (rg_skipped_events g) # received wakes"
| "received (RawTick # wakes) = received wakes"

fun archived_stream :: "archive_input list \<Rightarrow> (u8 + u64) list" where
  "archived_stream [] = []"
| "archived_stream (TerminalOutput i # inputs) = map Inl (to_payload i) @ archived_stream inputs"
| "archived_stream (HistoryGap i # inputs) = Inr (hg_skipped_events i) # archived_stream inputs"
| "archived_stream (_ # inputs) = archived_stream inputs"

definition batch_named :: "raw_batch \<Rightarrow> bool" where
  "batch_named batch \<longleftrightarrow> rb_payload batch = [] \<or> rb_pane_id batch \<noteq> None"

lemma archived_append [simp]: "archived_stream (xs @ ys) = archived_stream xs @ archived_stream ys"
  by (induction xs rule: archived_stream.induct) simp_all

lemma flush_archives:
  assumes "batch_named batch" "flush_raw_capture_batch env t batch = (out, batch1)"
  shows "archived_stream out = map Inl (rb_payload batch)" "rb_payload batch1 = []" "batch_named batch1"
    "list_all (\<lambda>i. case i of TerminalOutput o1 \<Rightarrow> to_payload o1 \<noteq> [] | HistoryGap g \<Rightarrow> True | _ \<Rightarrow> False) out"
  using assms by (auto simp: flush_raw_capture_batch_def batch_named_def Let_def split: if_splits option.splits)

lemma raw_step_archives:
  assumes "batch_named batch" "raw_capture_step env t wake batch = (out, batch1)"
  shows "archived_stream out @ map Inl (rb_payload batch1) = map Inl (rb_payload batch) @ received [wake] \<and> batch_named batch1 \<and>
    list_all (\<lambda>i. case i of TerminalOutput o1 \<Rightarrow> to_payload o1 \<noteq> [] | HistoryGap g \<Rightarrow> True | _ \<Rightarrow> False) out"
proof (cases wake)
  case RawTick
  then have "flush_raw_capture_batch env t batch = (out, batch1)" using assms(2) by (simp add: raw_capture_step_def)
  from flush_archives [OF assms(1) this] show ?thesis using RawTick by simp
next
  case (RawReceived event)
  show ?thesis
  proof (cases event)
    case (RawBytes b)
    let ?batch = "batch\<lparr>rb_pane_id := Some (ro_pane_id b), rb_sequence := Some (ro_sequence b),
       rb_payload := rb_payload batch @ ro_payload b\<rparr>"
    have named: "batch_named ?batch" by (simp add: batch_named_def)
    show ?thesis
    proof (cases "length (rb_payload ?batch) \<ge> v2_raw_capture_max_batch_bytes")
      case True
      then have "flush_raw_capture_batch env t ?batch = (out, batch1)"
        using assms(2) RawReceived RawBytes by (simp add: raw_capture_step_def Let_def)
      from flush_archives [OF named this] show ?thesis using RawReceived RawBytes by simp
    next
      case False
      then show ?thesis using assms(2) named RawReceived RawBytes by (auto simp: raw_capture_step_def Let_def)
    qed
  next
    case (RawGap g)
    obtain out1 b1 where f: "flush_raw_capture_batch env t batch = (out1, b1)" by (cases "flush_raw_capture_batch env t batch")
    note flushed = flush_archives [OF assms(1) f]
    show ?thesis using assms(2) flushed RawReceived RawGap f
      by (auto simp: raw_capture_step_def history_gap_of_def batch_named_def Let_def)
  qed
qed

lemma received_Cons: "received (wake # wakes) = received [wake] @ received wakes"
  by (cases "(wake # wakes)" rule: received.cases) auto

lemma raw_loop_archives:
  "batch_named batch \<Longrightarrow>
   archived_stream (raw_capture_loop env t wakes batch) = map Inl (rb_payload batch) @ received wakes \<and>
   list_all (\<lambda>i. case i of TerminalOutput o1 \<Rightarrow> to_payload o1 \<noteq> [] | HistoryGap g \<Rightarrow> True | _ \<Rightarrow> False)
     (raw_capture_loop env t wakes batch)"
proof (induction wakes arbitrary: batch)
  case Nil
  obtain out b where f: "flush_raw_capture_batch env t batch = (out, b)" by (cases "flush_raw_capture_batch env t batch")
  then show ?case using flush_archives [OF Nil f] by simp
next
  case (Cons wake wakes)
  obtain out b where s: "raw_capture_step env t wake batch = (out, b)" by (cases "raw_capture_step env t wake batch")
  note step = raw_step_archives [OF Cons.prems s]
  then have "archived_stream (raw_capture_loop env t wakes b) = map Inl (rb_payload b) @ received wakes \<and>
    list_all (\<lambda>i. case i of TerminalOutput o1 \<Rightarrow> to_payload o1 \<noteq> [] | HistoryGap g \<Rightarrow> True | _ \<Rightarrow> False)
      (raw_capture_loop env t wakes b)"
    using Cons.IH by blast
  then show ?case using step s by (simp add: received_Cons [of wake wakes])
qed

text \<open>
  C12. The capture of the raw output of a pane loses nothing and invents nothing: whatever comes, in
  whatever batches and however often the timer ticks, the bytes given to the archive are the bytes that
  were received, in order, with every gap at its place; no empty output is archived.
\<close>
theorem raw_capture_lossless:
  "archived_stream (raw_capture_loop env t wakes raw_batch_empty) = received wakes \<and>
   list_all (\<lambda>i. case i of TerminalOutput o1 \<Rightarrow> to_payload o1 \<noteq> [] | HistoryGap g \<Rightarrow> True | _ \<Rightarrow> False)
     (raw_capture_loop env t wakes raw_batch_empty)"
proof -
  have "batch_named raw_batch_empty" by (simp add: batch_named_def raw_batch_empty_def)
  from raw_loop_archives [OF this, of env t wakes] show ?thesis by (simp add: raw_batch_empty_def)
qed

text \<open>The screens that the deltas make, until the session is invalidated.\<close>

fun made_screens :: "rendered_wake list \<Rightarrow> screen_snapshot option \<Rightarrow> screen_snapshot list" where
  "made_screens [] current = []"
| "made_screens (SurfaceReceived (ScreenDeltaEvent delta) # wakes) current =
     (case snapshot_from_delta current delta of
        (current1, None) \<Rightarrow> made_screens wakes current1
      | (current1, Some snapshot) \<Rightarrow> snapshot # made_screens wakes current1)"
| "made_screens (SurfaceReceived (SessionHealthEvent health) # wakes) current =
     (if sh_invalidated health then [] else made_screens wakes current)"
| "made_screens (SurfaceReceived (TopologyEvent topology) # wakes) current = made_screens wakes current"
| "made_screens (SurfaceTick # wakes) current = made_screens wakes current"

definition last_screen :: "screen_snapshot list \<Rightarrow> screen_snapshot option" where
  "last_screen xs = (if xs = [] then None else Some (last xs))"

lemma last_screen_simps [simp]: "last_screen [] = None" "last_screen [x] = Some x"
  "last_screen (x # y # xs) = last_screen (y # xs)"
  by (simp_all add: last_screen_def)

lemma last_screen_Cons: "last_screen (x # xs) = (case last_screen xs of None \<Rightarrow> Some x | Some y \<Rightarrow> Some y)"
  by (cases xs) (auto simp: last_screen_def)

lemma rendered_loop_latest:
  "rn_running t \<Longrightarrow> subseq (rendered_capture_loop wakes t) (pending_screens t @ made_screens wakes (rn_current t)) \<and>
     last_screen (rendered_capture_loop wakes t) = last_screen (pending_screens t @ made_screens wakes (rn_current t))"
proof (induction wakes "rn_current t" arbitrary: t rule: made_screens.induct)
  case 1
  then show ?case by simp
next
  case (2 delta wakes)
  obtain current1 made where d: "snapshot_from_delta (rn_current t) delta = (current1, made)"
    by (cases "snapshot_from_delta (rn_current t) delta")
  show ?case
  proof (cases made)
    case None
    let ?t = "t\<lparr>rn_current := current1\<rparr>"
    have "subseq (rendered_capture_loop wakes ?t) (pending_screens ?t @ made_screens wakes (rn_current ?t)) \<and>
     last_screen (rendered_capture_loop wakes ?t) = last_screen (pending_screens ?t @ made_screens wakes (rn_current ?t))"
      using 2 d None by (intro 2(1)) auto
    then show ?thesis using 2 d None by (simp add: rendered_capture_step_def pending_screens_def)
  next
    case (Some s)
    let ?t = "t\<lparr>rn_current := current1, rn_pending := Some s\<rparr>"
    have "subseq (rendered_capture_loop wakes ?t) (pending_screens ?t @ made_screens wakes (rn_current ?t)) \<and>
     last_screen (rendered_capture_loop wakes ?t) = last_screen (pending_screens ?t @ made_screens wakes (rn_current ?t))"
      using 2 d Some by (intro 2(2)) auto
    then show ?thesis using 2 d Some
      by (cases "rn_pending t") (auto simp: rendered_capture_step_def pending_screens_def last_screen_Cons split: option.split)
  qed
next
  case (3 health wakes)
  then show ?case
    by (auto simp: rendered_capture_step_def pending_screens_def split: option.split)
next
  case (4 topology wakes)
  then show ?case by (simp add: rendered_capture_step_def)
next
  case (5 wakes)
  show ?case
  proof (cases "rn_pending t")
    case None
    then show ?thesis using 5 by (simp add: rendered_capture_step_def)
  next
    case (Some s)
    let ?t = "t\<lparr>rn_pending := None\<rparr>"
    have "subseq (rendered_capture_loop wakes ?t) (pending_screens ?t @ made_screens wakes (rn_current ?t)) \<and>
     last_screen (rendered_capture_loop wakes ?t) = last_screen (pending_screens ?t @ made_screens wakes (rn_current ?t))"
      using 5 by (intro 5(1)) auto
    then show ?thesis using 5 Some by (simp add: rendered_capture_step_def pending_screens_def last_screen_Cons)
  qed
qed

text \<open>
  The capture of the rendered screens of a pane archives screens that the deltas made, in order,
  leaving out only screens that a later one replaced before the timer ticked: the last screen made is
  always archived, at the latest when the subscription ends.
\<close>
theorem rendered_capture_latest:
  "subseq (rendered_capture_loop wakes rendered_capture_start) (made_screens wakes None) \<and>
   last_screen (rendered_capture_loop wakes rendered_capture_start) = last_screen (made_screens wakes None)"
  using rendered_loop_latest [of rendered_capture_start wakes]
  by (simp add: rendered_capture_start_def pending_screens_def)

section \<open>Panes and faults\<close>

fun task_pane :: "capture_task \<Rightarrow> pane_id" where
  "task_pane (RawTask p t sub) = p"
| "task_pane (RenderedTask p t sub) = p"

definition captures_ok :: "'w capture_state \<Rightarrow> bool" where
  "captures_ok st \<longleftrightarrow> distinct (map task_pane (ct_tasks st)) \<and> task_pane ` set (ct_tasks st) \<subseteq> ct_panes st"

lemma archive_keeps [simp]:
  "ct_panes (archive env sid input st) = ct_panes st" "ct_tasks (archive env sid input st) = ct_tasks st"
  by (simp_all add: archive_def record_failure_def record_task_failure_def record_durable_fault_def degrade_history_def Let_def
      split: prod.split archive_result.split)

lemma persist_keeps [simp]:
  "ct_panes (persist_topology_snapshot env d topology st) = ct_panes st"
  "ct_tasks (persist_topology_snapshot env d topology st) = ct_tasks st"
  "ct_panes (persist_screen_snapshot env d tab screen st) = ct_panes st"
  "ct_tasks (persist_screen_snapshot env d tab screen st) = ct_tasks st"
  "ct_panes (persist_backend_capability_report env d a b c e f st) = ct_panes st"
  "ct_tasks (persist_backend_capability_report env d a b c e f st) = ct_tasks st"
  by (simp_all add: persist_topology_snapshot_def persist_screen_snapshot_def persist_backend_capability_report_def Let_def)

lemma port_call_keeps:
  "port_call m st = (r, st1) \<Longrightarrow> ct_panes st1 = ct_panes st \<and> ct_tasks st1 = ct_tasks st \<and> ct_registry st1 = ct_registry st"
  by (auto simp: port_call_def split: prod.splits)

lemma open_pane_capture_tasks:
  "ct_panes (open_pane_capture env port session p t screen st) = ct_panes st \<and>
   (\<exists>tasks. ct_tasks (open_pane_capture env port session p t screen st) = ct_tasks st @ tasks \<and>
      map task_pane tasks \<in> {[], [p]})"
  unfolding open_pane_capture_def Let_def
  by (auto split: prod.split sum.split dest!: port_call_keeps)

lemma capture_pane_ok:
  assumes "captures_ok st"
  shows "captures_ok (capture_pane env port session d topology p st) \<and>
    ct_panes (capture_pane env port session d topology p st) = insert p (ct_panes st)"
proof (cases "p \<in> ct_panes st")
  case True
  then show ?thesis using assms by (auto simp: capture_pane_def)
next
  case False
  obtain r st1 where c: "port_call (po_screen port session p) (st\<lparr>ct_panes := insert p (ct_panes st)\<rparr>) = (r, st1)"
    by (cases "port_call (po_screen port session p) (st\<lparr>ct_panes := insert p (ct_panes st)\<rparr>)")
  have st1: "ct_panes st1 = insert p (ct_panes st)" "ct_tasks st1 = ct_tasks st" using port_call_keeps [OF c] by simp_all
  define st2 where "st2 = open_pane_capture env port session p
      \<lparr>cx_descriptor = d, cx_tab_id = map_option (\<lambda>t. ca_uuid_text env (id_uuid t)) (tab_id_for_pane topology p),
       cx_rows = map_option (\<lambda>s. ucast (sn_rows s)) (result_ok r), cx_cols = map_option (\<lambda>s. ucast (sn_cols s)) (result_ok r)\<rparr>
      (result_ok r) st1"
  obtain tasks where st2: "ct_panes st2 = insert p (ct_panes st)" "ct_tasks st2 = ct_tasks st @ tasks"
    "map task_pane tasks \<in> {[], [p]}"
    using open_pane_capture_tasks [of env port session p] st1 unfolding st2_def by metis
  have same: "ct_panes (capture_pane env port session d topology p st) = ct_panes st2"
    "ct_tasks (capture_pane env port session d topology p st) = ct_tasks st2"
    using False c by (simp_all add: capture_pane_def Let_def st2_def split: option.split)
  have "captures_ok st2" using assms st2 False by (auto simp: captures_ok_def image_iff)
  then show ?thesis using same st2(1) by (simp add: captures_ok_def)
qed

lemma capture_topology_ok:
  assumes "captures_ok st"
  shows "captures_ok (capture_topology env port session d topology st) \<and>
    ct_panes (capture_topology env port session d topology st) = ct_panes st \<union> set (topology_panes topology)"
proof -
  have "captures_ok st \<Longrightarrow> captures_ok (fold (capture_pane env port session d topology) ps st) \<and>
    ct_panes (fold (capture_pane env port session d topology) ps st) = ct_panes st \<union> set ps" for ps st
    by (induction ps arbitrary: st) (auto simp: capture_pane_ok)
  moreover have "captures_ok (persist_topology_snapshot env d topology st)" using assms by (simp add: captures_ok_def)
  ultimately show ?thesis by (simp add: capture_topology_def start_capture_for_topology_def)
qed

text \<open>The topologies that the task of a session has seen.\<close>

fun topologies_seen :: "subscription_event list \<Rightarrow> topology_snapshot list" where
  "topologies_seen [] = []"
| "topologies_seen (TopologyEvent topology # events) = topology # topologies_seen events"
| "topologies_seen (SessionHealthEvent health # events) = (if sh_invalidated health then [] else topologies_seen events)"
| "topologies_seen (ScreenDeltaEvent delta # events) = topologies_seen events"

lemma capture_events_ok:
  "captures_ok st \<Longrightarrow> captures_ok (capture_events env port session d events st) \<and>
     ct_panes (capture_events env port session d events st) =
       ct_panes st \<union> (\<Union>topology\<in>set (topologies_seen events). set (topology_panes topology))"
  by (induction events arbitrary: st rule: topologies_seen.induct) (auto simp: capture_topology_ok)

text \<open>
  C13. While a session is captured, every pane of every topology it shows is looked at and has at
  most one capture task, however often the pane appears.
\<close>
theorem panes_captured_once:
  "let st = capture_events env port session d events \<lparr>ct_registry = registry, ct_world = w, ct_panes = {}, ct_tasks = []\<rparr>
   in distinct (map task_pane (ct_tasks st)) \<and> task_pane ` set (ct_tasks st) \<subseteq> ct_panes st \<and>
      ct_panes st = (\<Union>topology\<in>set (topologies_seen events). set (topology_panes topology))"
proof -
  have "captures_ok \<lparr>ct_registry = registry, ct_world = w, ct_panes = {}, ct_tasks = []\<rparr>" by (simp add: captures_ok_def)
  note captured = capture_events_ok [OF this, of env port session d events, unfolded capture_state.select_convs Un_empty_left]
  show ?thesis unfolding Let_def using captured captured [THEN conjunct1, unfolded captures_ok_def] by blast
qed

text \<open>
  Output that the archive does not take is reported: the session of the capture is degraded with the
  error, every other session is left alone, and what is stored changes nothing in the registry.
\<close>
theorem archive_fault_degrades:
  "registry_get (ct_registry (archive env sid input st)) other =
     (case ca_record env input (ct_world st) of
        (ArchiveStored, w) \<Rightarrow> registry_get (ct_registry st) other
      | (ArchiveFailed e, w) \<Rightarrow> if other = sid
          then map_option (de_health_update (\<lambda>_. health_degraded sid HistoryPersistenceFault
            [MText ''terminal history persistence failed during '', MText (archive_operation input), MText '' - '', MString e]))
            (registry_get (ct_registry st) sid)
          else registry_get (ct_registry st) other
      | (ArchiveTaskFailed e, w) \<Rightarrow> if other = sid
          then map_option (de_health_update (\<lambda>_. health_degraded sid HistoryPersistenceFault
            [MText ''terminal history persistence task failed during '', MText (archive_operation input), MText '' - '', MString e]))
            (registry_get (ct_registry st) sid)
          else registry_get (ct_registry st) other)"
  by (simp add: archive_def record_failure_def record_task_failure_def record_durable_fault_def degrade_history_def Let_def
      split: prod.split archive_result.split)

end
