(* ===== verification/Archive_Base.thy ===== *)
theory Archive_Base
  imports Runtime_Capture
begin

text \<open>
  The archive of the history (\<open>v2/\<close> of the crate \<open>terminal-persistence\<close>), its tables and what its
  operations are made of: statements that SQLite may refuse, transactions that leave no trace when they
  fail, new identifiers. A table is the list of its rows in the order they were inserted. Numbers that
  SQLite keeps as 64-bit integers are \<open>int\<close>; where the source checks for an overflow the model does, and where it
  does not the numbers of a stream are refused when the cursor would pass the greatest one. The
  columns \<open>metadata_json\<close> and \<open>payload_schema_id\<close>, which no query of this part reads, are left out, and so are
  the foreign keys that hold because of the order of the statements.
\<close>

section \<open>Errors and the environment\<close>

datatype v2_error =
    V2InvalidData message
  | V2WriterAlreadyActive
  | V2Connection rstr
  | V2NotFound
  | V2UniqueViolation
  | V2ConstraintViolation
  | V2Query rstr

text \<open>
  \<open>av_sql\<close>: the error with which SQLite refuses the next statement, if it does; \<open>av_new_id\<close>: \<open>new_id\<close>;
  \<open>av_now_ms\<close>: the clock; \<open>av_hash\<close>: \<open>blake3_hash_bytes\<close>; \<open>av_payload_text\<close>: \<open>serde_json::to_string\<close> of a
  payload; \<open>av_command_hash\<close>: \<open>local_keyed_command_hash\<close>; \<open>av_pressure\<close>: what
  \<open>record_storage_pressure_write_failure\<close> notes; \<open>av_fail_after_segment\<close>: the failpoint
  \<open>stream_segment_after_segment_insert\<close>.
\<close>

datatype journal_payload =
    UiInputPayload rstr bool
  | GapPayload rstr u64 "int option"
  | ModePayload string int string int
  | JsonPayload rstr

record 'w archive_env =
  av_sql :: "'w \<Rightarrow> rstr option \<times> 'w"
  av_new_id :: "'w \<Rightarrow> rstr \<times> 'w"
  av_now_ms :: "'w \<Rightarrow> int"
  av_sleep :: "nat \<Rightarrow> 'w \<Rightarrow> 'w"
  av_hash :: "u8 list \<Rightarrow> rstr"
  av_payload_text :: "journal_payload \<Rightarrow> rstr"
  av_command_hash :: "rstr \<Rightarrow> rstr"
  av_pressure :: "'w \<Rightarrow> 'w"
  av_fail_after_segment :: bool

definition av_hash_text :: "'w archive_env \<Rightarrow> rstr \<Rightarrow> rstr" where
  "av_hash_text env s = av_hash env (utf8_encode s)"

definition i64_max :: int where
  "i64_max = 2 ^ 63 - 1"

definition checked_add :: "int \<Rightarrow> int \<Rightarrow> string \<Rightarrow> v2_error + int" where
  "checked_add x y what = (if x + y \<le> i64_max then Inr (x + y) else Inl (V2InvalidData [MText what]))"

definition checked_len :: "nat \<Rightarrow> string \<Rightarrow> v2_error + int" where
  "checked_len n what = (if int n \<le> i64_max then Inr (int n) else Inl (V2InvalidData [MText what, MText '' does not fit in i64'']))"

section \<open>Tables\<close>

datatype writer_state = WriterActive | WriterReleased | WriterStale

record writer_row =
  wg_id :: rstr
  wg_process_id :: rstr
  wg_lease_token :: rstr
  wg_state :: writer_state
  wg_acquired_at_ms :: int
  wg_heartbeat_at_ms :: int
  wg_lease_expires_at_ms :: int
  wg_released_at_ms :: "int option"

record session_row =
  xs_id :: rstr
  xs_route :: session_route
  xs_title :: "rstr option"
  xs_launch :: "shell_launch_spec option"
  xs_source :: rstr
  xs_private_mode :: bool
  xs_created_at_ms :: int
  xs_updated_at_ms :: int
  xs_state :: string

record session_cursor_row =
  xc_session_id :: rstr
  xc_next_commit_seq :: int
  xc_writer_generation :: "rstr option"
  xc_updated_at_ms :: int

record pane_row =
  xp_id :: rstr
  xp_session_id :: rstr
  xp_tab_id :: "rstr option"
  xp_stream_id :: rstr
  xp_title :: "rstr option"
  xp_rows :: int
  xp_cols :: int
  xp_last_event_seq :: int
  xp_created_at_ms :: int

record stream_cursor_row =
  sk_id :: rstr
  sk_session_id :: rstr
  sk_pane_id :: rstr
  sk_stream_id :: rstr
  sk_next_event_seq :: int
  sk_next_byte_seq :: int
  sk_updated_at_ms :: int

record commit_row =
  cm_id :: rstr
  cm_session_id :: rstr
  cm_commit_seq :: int
  cm_commit_kind :: rstr
  cm_writer_generation :: rstr
  cm_occurred_at_ms :: int
  cm_created_at_ms :: int

record segment_row =
  sg_id :: rstr
  sg_session_id :: rstr
  sg_pane_id :: rstr
  sg_commit_id :: rstr
  sg_stream_id :: rstr
  sg_event_seq_low :: int
  sg_event_seq_high :: int
  sg_byte_low :: int
  sg_byte_high :: int
  sg_payload :: "u8 list"
  sg_payload_len :: int
  sg_stored_byte_len :: int
  sg_checksum_algorithm :: string
  sg_checksum :: rstr
  sg_capture_semantics :: rstr
  sg_created_at_ms :: int
  sg_writer_generation :: rstr

record journal_event_row =
  je_id :: rstr
  je_session_id :: rstr
  je_pane_id :: "rstr option"
  je_commit_id :: rstr
  je_stream_id :: rstr
  je_scope_kind :: string
  je_scope_id :: rstr
  je_event_seq :: int
  je_event_type :: rstr
  je_byte_range :: "(int \<times> int) option"
  je_payload_json :: "journal_payload option"
  je_source_event_id_hash :: "rstr option"
  je_occurred_at_ms :: int
  je_created_at_ms :: int
  je_capture_semantics :: rstr
  je_trust_level :: rstr

record history_gap_row =
  gp_id :: rstr
  gp_session_id :: rstr
  gp_pane_id :: "rstr option"
  gp_stream_id :: rstr
  gp_gap_kind :: string
  gp_event_seq_low :: "int option"
  gp_event_seq_high :: "int option"
  gp_byte_low :: "int option"
  gp_byte_high :: "int option"
  gp_estimated_dropped_bytes :: "int option"
  gp_estimated_dropped_events :: "int option"
  gp_reason :: rstr
  gp_writer_generation :: "rstr option"
  gp_opened_at_ms :: int
  gp_closed_at_ms :: "int option"

record receipt_row =
  rc_row_id :: rstr
  rc_session_id :: rstr
  rc_commit_id :: "rstr option"
  rc_source_kind :: rstr
  rc_source_event_id_hash :: rstr
  rc_source_payload_hash :: rstr
  rc_received_at_ms :: int
  rc_created_at_ms :: int

record projection_payload =
  oj_session_id :: rstr
  oj_pane_id :: rstr
  oj_stream_id :: rstr
  oj_commit_id :: rstr
  oj_event_range :: "int \<times> int"
  oj_byte_range :: "int \<times> int"

datatype outbox_payload = PaneHistoryProjection projection_payload | OutboxJson rstr

datatype outbox_state = OutboxPending | OutboxClaimed | OutboxDone | OutboxQuarantined

record outbox_row =
  ob_id :: rstr
  ob_message_kind :: rstr
  ob_dedupe_key :: "rstr option"
  ob_state :: outbox_state
  ob_payload_json :: outbox_payload
  ob_attempts :: int
  ob_max_attempts :: int
  ob_claimed_by :: "rstr option"
  ob_lease_token :: "rstr option"
  ob_claimed_until_ms :: "int option"
  ob_next_run_at_ms :: int
  ob_last_error :: "rstr option"
  ob_created_at_ms :: int
  ob_updated_at_ms :: int

record command_entry_row =
  ch_id :: rstr
  ch_session_id :: "rstr option"
  ch_pane_id :: "rstr option"
  ch_command_block_id :: "rstr option"
  ch_command_text :: "rstr option"
  ch_command_hash :: rstr
  ch_first_used_at_ms :: int
  ch_last_used_at_ms :: int
  ch_use_count :: int

record command_block_row =
  cb_row_id :: rstr
  cb_session_id :: rstr
  cb_pane_id :: rstr
  cb_commit_id :: "rstr option"
  cb_command_text :: "rstr option"
  cb_submitted_event_seq :: "int option"
  cb_created_at_ms :: int

record screen_snapshot_row =
  wn_id :: rstr
  wn_session_id :: rstr
  wn_pane_id :: rstr
  wn_commit_id :: rstr
  wn_projection_source :: rstr
  wn_buffer_kind :: rstr
  wn_rows :: int
  wn_cols :: int
  wn_base_event_seq :: int
  wn_high_water_event_seq :: int
  wn_high_water_byte_seq :: "int option"
  wn_screen_json :: rstr
  wn_parser_version :: rstr
  wn_projection_version :: rstr
  wn_checksum_algorithm :: string
  wn_checksum :: rstr
  wn_created_at_ms :: int

record topology_snapshot_row =
  ty_id :: rstr
  ty_session_id :: rstr
  ty_commit_id :: rstr
  ty_high_water_commit_seq :: int
  ty_pane_high_water_json :: rstr
  ty_topology_json :: rstr
  ty_checksum_algorithm :: string
  ty_checksum :: rstr
  ty_source :: rstr
  ty_created_at_ms :: int

record archive_tables =
  at_writers :: "writer_row list"
  at_sessions :: "session_row list"
  at_session_cursors :: "session_cursor_row list"
  at_panes :: "pane_row list"
  at_stream_cursors :: "stream_cursor_row list"
  at_commits :: "commit_row list"
  at_segments :: "segment_row list"
  at_events :: "journal_event_row list"
  at_gaps :: "history_gap_row list"
  at_receipts :: "receipt_row list"
  at_outbox :: "outbox_row list"
  at_command_blocks :: "command_block_row list"
  at_command_entries :: "command_entry_row list"
  at_screen_snapshots :: "screen_snapshot_row list"
  at_topology_snapshots :: "topology_snapshot_row list"

section \<open>Statements and transactions\<close>

type_synonym ('w, 'a) v2_io = "('w \<times> archive_tables, v2_error, 'a) effect"

definition sql_statement :: "'w archive_env \<Rightarrow> (archive_tables \<Rightarrow> v2_error + 'a \<times> archive_tables) \<Rightarrow> ('w, 'a) v2_io" where
  "sql_statement env f st =
     (case av_sql env (fst st) of
        (Some e, w) \<Rightarrow> (Inl (V2Query e), (w, snd st))
      | (None, w) \<Rightarrow>
          (case f (snd st) of Inl e \<Rightarrow> (Inl e, (w, snd st)) | Inr (x, t) \<Rightarrow> (Inr x, (w, t))))"

definition sql_load :: "'w archive_env \<Rightarrow> (archive_tables \<Rightarrow> 'a) \<Rightarrow> ('w, 'a) v2_io" where
  "sql_load env f = sql_statement env (\<lambda>t. Inr (f t, t))"

text \<open>\<open>first\<close> of a query; \<open>optional\<close> is \<open>sql_load\<close>.\<close>

definition sql_first :: "'w archive_env \<Rightarrow> (archive_tables \<Rightarrow> 'a option) \<Rightarrow> ('w, 'a) v2_io" where
  "sql_first env f = sql_statement env (\<lambda>t. case f t of None \<Rightarrow> Inl V2NotFound | Some x \<Rightarrow> Inr (x, t))"

definition sql_execute :: "'w archive_env \<Rightarrow> (archive_tables \<Rightarrow> archive_tables) \<Rightarrow> ('w, unit) v2_io" where
  "sql_execute env f = sql_statement env (\<lambda>t. Inr ((), f t))"

definition sql_insert :: "'w archive_env \<Rightarrow> (archive_tables \<Rightarrow> archive_tables option) \<Rightarrow> ('w, unit) v2_io" where
  "sql_insert env f = sql_statement env (\<lambda>t. case f t of None \<Rightarrow> Inl V2UniqueViolation | Some t1 \<Rightarrow> Inr ((), t1))"

text \<open>An \<open>update\<close> returns how many rows it changed.\<close>

definition update_where :: "('r \<Rightarrow> bool) \<Rightarrow> ('r \<Rightarrow> 'r) \<Rightarrow> 'r list \<Rightarrow> 'r list" where
  "update_where p f = map (\<lambda>r. if p r then f r else r)"

definition insert_unless :: "('r \<Rightarrow> bool) \<Rightarrow> 'r \<Rightarrow> 'r list \<Rightarrow> 'r list option" where
  "insert_unless clash row rows = (if list_ex clash rows then None else Some (rows @ [row]))"

definition v2_transaction :: "'w archive_env \<Rightarrow> ('w, 'a) v2_io \<Rightarrow> ('w, 'a) v2_io" where
  "v2_transaction env body st =
     (case io_bind (sql_execute env id) (\<lambda>_. io_bind body (\<lambda>x. io_bind (sql_execute env id) (\<lambda>_. io_ok x))) st of
        (Inl e, st1) \<Rightarrow> (Inl e, (fst st1, snd st))
      | (Inr x, st1) \<Rightarrow> (Inr x, st1))"

definition new_id :: "'w archive_env \<Rightarrow> ('w, rstr) v2_io" where
  "new_id env st = (case av_new_id env (fst st) of (i, w) \<Rightarrow> (Inr i, (w, snd st)))"

definition now_ms :: "'w archive_env \<Rightarrow> ('w, int) v2_io" where
  "now_ms env st = (Inr (av_now_ms env (fst st)), st)"

text \<open>A successful statement, seen from its tables.\<close>

lemma sql_statement_InrE:
  assumes "sql_statement env f st = (Inr x, st1)"
  shows "f (snd st) = Inr (x, snd st1)"
  using assms by (auto simp: sql_statement_def split: prod.splits option.splits sum.splits)

lemma sql_load_Inr: "sql_load env f st = (Inr x, st1) \<Longrightarrow> x = f (snd st) \<and> snd st1 = snd st"
  unfolding sql_load_def by (drule sql_statement_InrE) auto

lemma sql_first_Inr: "sql_first env f st = (Inr x, st1) \<Longrightarrow> f (snd st) = Some x \<and> snd st1 = snd st"
  unfolding sql_first_def by (drule sql_statement_InrE) (auto split: option.splits)

lemma sql_execute_Inr: "sql_execute env f st = (Inr x, st1) \<Longrightarrow> snd st1 = f (snd st)"
  unfolding sql_execute_def by (drule sql_statement_InrE) simp

lemma sql_insert_Inr: "sql_insert env f st = (Inr x, st1) \<Longrightarrow> f (snd st) = Some (snd st1)"
  unfolding sql_insert_def by (drule sql_statement_InrE) (auto split: option.splits)

lemma new_id_Inr: "new_id env st = (r, st1) \<Longrightarrow> snd st1 = snd st"
  by (auto simp: new_id_def split: prod.splits)

lemma now_ms_Inr: "now_ms env st = (r, st1) \<Longrightarrow> r = Inr (av_now_ms env (fst st)) \<and> st1 = st"
  by (auto simp: now_ms_def)

lemmas sql_Inr = sql_load_Inr sql_first_Inr sql_execute_Inr sql_insert_Inr

lemma insert_unless_Some [simp]:
  "insert_unless clash row rows = Some rows1 \<longleftrightarrow> rows1 = rows @ [row] \<and> \<not> list_ex clash rows"
  by (auto simp: insert_unless_def)

lemma v2_transaction_Inr:
  assumes "v2_transaction env body st = (Inr x, st1)"
  obtains st0 st2 where "snd st0 = snd st" "body st0 = (Inr x, st2)" "snd st1 = snd st2"
proof -
  have run: "io_bind (sql_execute env id) (\<lambda>_. io_bind body (\<lambda>x. io_bind (sql_execute env id) (\<lambda>_. io_ok x))) st = (Inr x, st1)"
    using assms by (auto simp: v2_transaction_def split: prod.splits sum.splits)
  obtain u st0 where 0: "sql_execute env id st = (Inr u, st0)"
    "io_bind body (\<lambda>x. io_bind (sql_execute env id) (\<lambda>_. io_ok x)) st0 = (Inr x, st1)"
    using run by (rule io_bind_InrE)
  obtain y st2 where 1: "body st0 = (Inr y, st2)" "io_bind (sql_execute env id) (\<lambda>_. io_ok y) st2 = (Inr x, st1)"
    using 0(2) by (rule io_bind_InrE)
  obtain u2 st3 where 2: "sql_execute env id st2 = (Inr u2, st3)" "y = x" "st3 = st1"
    by (rule io_bind_InrE [OF 1(2)]) (simp add: that)
  show ?thesis
    using that [of st0 st2] 1(1) 2 sql_execute_Inr [OF 0(1)] sql_execute_Inr [OF 2(1)] by simp
qed

lemma v2_transaction_Inl: "v2_transaction env body st = (Inl e, st1) \<Longrightarrow> snd st1 = snd st"
  by (auto simp: v2_transaction_def split: prod.splits sum.splits)

section \<open>What operations keep\<close>

definition v2_keeps :: "(archive_tables \<Rightarrow> bool) \<Rightarrow> ('w, 'a) v2_io \<Rightarrow> bool" where
  "v2_keeps I m \<longleftrightarrow> (\<forall>st. I (snd st) \<longrightarrow> I (snd (snd (m st))))"

named_theorems v2_keeps_intros

lemma v2_keepsD: "v2_keeps I m \<Longrightarrow> m st = (r, st1) \<Longrightarrow> I (snd st) \<Longrightarrow> I (snd st1)"
  by (metis v2_keeps_def snd_conv)

lemma v2_keeps_bind [v2_keeps_intros]:
  assumes "v2_keeps I m" "\<And>x. v2_keeps I (f x)"
  shows "v2_keeps I (io_bind m f)"
  unfolding v2_keeps_def
proof (intro allI impI)
  fix st :: "'a \<times> archive_tables" assume I: "I (snd st)"
  obtain r st1 where m: "m st = (r, st1)" by (cases "m st")
  show "I (snd (snd (io_bind m f st)))"
  proof (cases r)
    case (Inl e)
    then show ?thesis using m v2_keepsD [OF assms(1) m I] by (simp add: io_bind_def)
  next
    case (Inr x)
    obtain r2 st2 where f: "f x st1 = (r2, st2)" by (cases "f x st1")
    show ?thesis using m Inr f v2_keepsD [OF assms(2) f v2_keepsD [OF assms(1) m I]] by (simp add: io_bind_def)
  qed
qed

lemma v2_keeps_simple [v2_keeps_intros, simp]:
  "v2_keeps I (io_ok x)" "v2_keeps I (io_err e)" "v2_keeps I (io_lift r)" "v2_keeps I (new_id env)" "v2_keeps I (now_ms env)"
  "v2_keeps I (sql_load env f)" "v2_keeps I (sql_first env g)"
  by (auto simp: v2_keeps_def new_id_def now_ms_def sql_load_def sql_first_def sql_statement_def
      split: prod.split option.split sum.split)

lemma v2_keeps_execute [v2_keeps_intros]: "(\<And>t. I t \<Longrightarrow> I (f t)) \<Longrightarrow> v2_keeps I (sql_execute env f)"
  by (auto simp: v2_keeps_def sql_execute_def sql_statement_def split: prod.split option.split)

lemma v2_keeps_insert [v2_keeps_intros]: "(\<And>t t1. I t \<Longrightarrow> f t = Some t1 \<Longrightarrow> I t1) \<Longrightarrow> v2_keeps I (sql_insert env f)"
  by (auto simp: v2_keeps_def sql_insert_def sql_statement_def split: prod.split option.split)

lemma v2_keeps_if [v2_keeps_intros]: "v2_keeps I m \<Longrightarrow> v2_keeps I n \<Longrightarrow> v2_keeps I (if b then m else n)"
  by simp

text \<open>A transaction keeps what its body keeps when it succeeds.\<close>

lemma v2_keeps_transaction:
  assumes "\<And>st x st1. body st = (Inr x, st1) \<Longrightarrow> I (snd st) \<Longrightarrow> I (snd st1)"
  shows "v2_keeps I (v2_transaction env body)"
  unfolding v2_keeps_def
proof (intro allI impI)
  fix st :: "'a \<times> archive_tables" assume I: "I (snd st)"
  obtain r st1 where run: "v2_transaction env body st = (r, st1)" by (cases "v2_transaction env body st")
  show "I (snd (snd (v2_transaction env body st)))"
  proof (cases r)
    case (Inl e)
    then show ?thesis using v2_transaction_Inl [of env body st e st1] run I by simp
  next
    case (Inr x)
    obtain st0 st2 where "snd st0 = snd st" "body st0 = (Inr x, st2)" "snd st1 = snd st2"
      by (rule v2_transaction_Inr [OF run [unfolded Inr]])
    then show ?thesis using assms [of st0 x st2] I run by simp
  qed
qed

lemma v2_keeps_transaction_body [v2_keeps_intros]: "v2_keeps I body \<Longrightarrow> v2_keeps I (v2_transaction env body)"
  by (rule v2_keeps_transaction) (erule v2_keepsD)

end
