(* ===== verification/Archive_Text.thy ===== *)
theory Archive_Text
  imports Archive_Base
begin

text \<open>
  The helpers of the archive over text and bytes (\<open>v2/domain/\<close> of the crate \<open>terminal-persistence\<close>):
  redaction, the switches of the screen buffer in terminal output, commands in what a user types, the
  kind of a shell, the domains of the text columns.
\<close>

section \<open>Redaction\<close>

definition limit_text_preview :: "rstr \<Rightarrow> nat \<Rightarrow> rstr" where
  "limit_text_preview s max_chars = take max_chars s"

definition key_prefixes :: "string list" where
  "key_prefixes = [''password='', ''passwd='', ''pwd='', ''token='', ''access_token='', ''api_key='', ''apikey='', ''secret='']"

definition is_ascii_alphabetic :: "nat \<Rightarrow> bool" where
  "is_ascii_alphabetic c \<longleftrightarrow> 65 \<le> c \<and> c \<le> 90 \<or> 97 \<le> c \<and> c \<le> 122"

definition secret_like :: "rstr \<Rightarrow> bool" where
  "secret_like token \<longleftrightarrow> str_len token \<ge> 24 \<and>
     list_all (\<lambda>c. is_ascii_alphabetic c \<or> is_digit c \<or> c \<in> {45, 95, 46}) token \<and>
     list_ex is_digit token \<and> list_ex is_ascii_alphabetic token"

definition redact_token :: "rstr \<Rightarrow> rstr" where
  "redact_token token =
     (let lower = map ascii_lower token
      in if lower = lit ''bearer'' then token
         else if secret_like token then lit ''[redacted-secret]''
         else case find (\<lambda>key. take (length key) lower = lit key) key_prefixes of
           Some key \<Rightarrow> take (length key) token @ lit ''[redacted]''
         | None \<Rightarrow> token)"

definition redact_terminal_text :: "rstr \<Rightarrow> rstr" where
  "redact_terminal_text s = join_with 32 (map redact_token (split_whitespace s))"

definition injection_patterns :: "(string \<times> string) list" where
  "injection_patterns =
     [(''ignore previous instructions'', ''ignore_previous_instructions''),
      (''ignore all previous instructions'', ''ignore_previous_instructions''),
      (''system prompt'', ''system_prompt_request''),
      (''developer message'', ''developer_message_request''),
      (''you are chatgpt'', ''model_identity_override''),
      (''do not follow'', ''instruction_override''),
      (''forget your instructions'', ''instruction_override'')]"

definition detect_prompt_injection_pattern :: "rstr \<Rightarrow> string option" where
  "detect_prompt_injection_pattern s =
     (let lower = map ascii_lower s
      in find_map (\<lambda>(needle, pattern). if contains_str (lit needle) lower then Some pattern else None) injection_patterns)"

section \<open>Switches of the screen buffer\<close>

record buffer_mode_transition =
  bm_action :: string
  bm_target_buffer_kind :: string
  bm_mode :: int
  bm_byte_offset :: int
  bm_byte_len :: int

definition is_csi_final_byte :: "u8 \<Rightarrow> bool" where
  "is_csi_final_byte b \<longleftrightarrow> 64 \<le> unat b \<and> unat b \<le> 126"

text \<open>\<open>parse::<i32>()\<close> of a part, which is not a number if it is not UTF-8.\<close>

definition parse_i32 :: "u8 list \<Rightarrow> int option" where
  "parse_i32 part =
     (case map unat part of
        [] \<Rightarrow> None
      | c # digits \<Rightarrow>
          if c = 45
          then (if digits \<noteq> [] \<and> list_all is_digit digits \<and> digits_value 10 digits \<le> 2 ^ 31
                then Some (- int (digits_value 10 digits)) else None)
          else map_option int (parse_uint (2 ^ 31 - 1) (c # digits)))"

definition parse_private_mode_params :: "u8 list \<Rightarrow> int list" where
  "parse_private_mode_params params =
     List.map_filter parse_i32 (split_on 59 (map (\<lambda>b. if b = 58 then 59 else b) params))"

definition mode_transitions :: "nat \<Rightarrow> nat \<Rightarrow> u8 list \<Rightarrow> u8 \<Rightarrow> buffer_mode_transition list" where
  "mode_transitions index cursor params final_byte =
     map (\<lambda>mode. \<lparr>bm_action = (if final_byte = 104 then ''enter'' else ''leave''),
         bm_target_buffer_kind = (if final_byte = 104 then ''alternate'' else ''normal''), bm_mode = mode,
         bm_byte_offset = int index, bm_byte_len = int (cursor + 1 - index)\<rparr>)
       (filter (\<lambda>mode. mode \<in> {47, 1047, 1049}) (parse_private_mode_params params))"

text \<open>The loop from \<open>index\<close> on; \<open>bytes\<close> is \<open>payload[index..]\<close>.\<close>

function transitions_from :: "nat \<Rightarrow> u8 list \<Rightarrow> buffer_mode_transition list" where
  "transitions_from index bytes =
     (if length bytes \<le> 3 then []
      else if take 3 bytes \<noteq> [27, 91, 63] then transitions_from (index + 1) (tl bytes)
      else
        let params = takeWhile (\<lambda>b. \<not> is_csi_final_byte b) (drop 3 bytes);
            cursor = 3 + length params
        in case drop cursor bytes of
          [] \<Rightarrow> []
        | final_byte # rest \<Rightarrow>
            (if final_byte = 104 \<or> final_byte = 108
             then mode_transitions index (index + cursor) params final_byte else [])
            @ transitions_from (index + cursor + 1) rest)"
  by pat_completeness auto
termination
proof (relation "measure (\<lambda>(index, bytes). length bytes)", goal_cases)
  case 1
  then show ?case by simp
next
  case (2 index bytes)
  then show ?case by (cases bytes) auto
next
  case (3 index bytes params cursor final_byte rest)
  then have "length (drop cursor bytes) = Suc (length rest)" by simp
  then show ?case by simp
qed

declare transitions_from.simps [simp del]

definition detect_buffer_mode_transitions :: "u8 list \<Rightarrow> buffer_mode_transition list" where
  "detect_buffer_mode_transitions payload = transitions_from 0 payload"

lemma mode_transitions_range:
  "m \<in> set (mode_transitions index cursor params b) \<Longrightarrow> bm_byte_offset m = int index \<and> bm_byte_len m = int (cursor + 1 - index)"
  by (auto simp: mode_transitions_def)

lemma transition_range:
  "m \<in> set (transitions_from index bytes) \<Longrightarrow>
     int index \<le> bm_byte_offset m \<and> 0 < bm_byte_len m \<and> bm_byte_offset m + bm_byte_len m \<le> int (index + length bytes)"
proof (induction index bytes rule: transitions_from.induct)
  case (1 index bytes)
  show ?case
  proof (cases "length bytes \<le> 3")
    case True
    then show ?thesis using 1(3) by (simp add: transitions_from.simps [of index bytes])
  next
    case False
    show ?thesis
    proof (cases "take 3 bytes \<noteq> [27, 91, 63]")
      case True
      then have "m \<in> set (transitions_from (index + 1) (tl bytes))"
        using 1(3) False by (simp add: transitions_from.simps [of index bytes])
      from 1(1) [OF False True this] show ?thesis by (cases bytes) auto
    next
      case seq: False
      let ?params = "takeWhile (\<lambda>b. \<not> is_csi_final_byte b) (drop 3 bytes)"
      let ?cursor = "3 + length ?params"
      show ?thesis
      proof (cases "drop ?cursor bytes")
        case Nil
        then show ?thesis using 1(3) False seq by (simp add: transitions_from.simps [of index bytes] Let_def)
      next
        case (Cons final_byte rest)
        have "length (drop ?cursor bytes) = Suc (length rest)" unfolding Cons by simp
        then have len: "length bytes = ?cursor + 1 + length rest" unfolding length_drop by linarith
        have "transitions_from index bytes =
            (if final_byte = 104 \<or> final_byte = 108 then mode_transitions index (index + ?cursor) ?params final_byte else [])
            @ transitions_from (index + ?cursor + 1) rest"
          by (subst transitions_from.simps) (simp only: Let_def False seq Cons if_False list.case)
        then have "m \<in> set (mode_transitions index (index + ?cursor) ?params final_byte) \<or>
            m \<in> set (transitions_from (index + ?cursor + 1) rest)"
          using 1(3) by (simp split: if_splits)
        then show ?thesis
        proof
          assume "m \<in> set (mode_transitions index (index + ?cursor) ?params final_byte)"
          from mode_transitions_range [OF this]
          show ?thesis using len by linarith
        next
          assume "m \<in> set (transitions_from (index + ?cursor + 1) rest)"
          from 1(2) [OF False seq refl refl Cons this] show ?thesis using len by linarith
        qed
      qed
    qed
  qed
qed

section \<open>Commands and shells\<close>

definition trim_end_matches :: "(nat \<Rightarrow> bool) \<Rightarrow> rstr \<Rightarrow> rstr" where
  "trim_end_matches p s = rev (dropWhile p (rev s))"

definition is_line_end :: "nat \<Rightarrow> bool" where
  "is_line_end c \<longleftrightarrow> c = 13 \<or> c = 10"

definition command_text_from_ui_input :: "rstr \<Rightarrow> rstr option" where
  "command_text_from_ui_input s =
     (let trimmed_end = trim_end_matches is_line_end s
      in if length trimmed_end = length s then None
         else let command = trim trimmed_end
              in if command = [] \<or> list_ex is_line_end command then None else Some command)"

record shell_metadata =
  sm_shell_kind :: "rstr option"
  sm_command_boundary_confidence :: string
  sm_cwd_source :: string
  sm_input_terminator :: string
  sm_windows_profile :: bool

definition infer_shell_kind_from_program :: "rstr \<Rightarrow> rstr option" where
  "infer_shell_kind_from_program program =
     (let normalized = map (\<lambda>c. if c = 92 then 47 else c) program;
          file_name = map ascii_lower (last (split_on 47 normalized));
          stem = (case strip_suffix (lit ''.exe'') file_name of Some s \<Rightarrow> s | None \<Rightarrow> file_name)
      in if stem \<in> {lit ''cmd'', lit ''cmd32'', lit ''cmd64''} then Some (lit ''cmd'')
         else if stem \<in> {lit ''powershell'', lit ''pwsh'', lit ''bash'', lit ''sh'', lit ''zsh'', lit ''fish''} then Some stem
         else None)"

definition shell_metadata_profile :: "shell_launch_spec option \<Rightarrow> rstr option \<Rightarrow> shell_metadata" where
  "shell_metadata_profile launch explicit_shell_kind =
     (let explicit_kind = (case explicit_shell_kind of None \<Rightarrow> None
            | Some s \<Rightarrow> if trim s = [] then None else Some (map ascii_lower (trim s)));
          kind = (case explicit_kind of Some k \<Rightarrow> Some k
            | None \<Rightarrow> Option.bind launch (\<lambda>l. infer_shell_kind_from_program (launch_program l)));
          windows = (case kind of None \<Rightarrow> False | Some k \<Rightarrow> k \<in> {lit ''cmd'', lit ''powershell'', lit ''pwsh''})
      in \<lparr>sm_shell_kind = kind,
          sm_command_boundary_confidence = (case kind of None \<Rightarrow> ''unknown''
             | Some k \<Rightarrow> if windows \<or> k \<in> {lit ''bash'', lit ''sh'', lit ''zsh'', lit ''fish''} then ''high'' else ''medium''),
          sm_cwd_source = (if Option.bind launch launch_cwd \<noteq> None then ''launch_cwd'' else ''unknown''),
          sm_input_terminator = (if windows then ''cr'' else ''lf_or_cr''), sm_windows_profile = windows\<rparr>)"

section \<open>Validation\<close>

definition capture_semantics_domain :: "string list" where
  "capture_semantics_domain = [''raw_vt_stream'', ''rendered_ansi_stream'', ''rendered_screen_snapshot'',
     ''rendered_plaintext_snapshot'', ''mux_structured_surface'', ''imported_text'', ''ui_input'']"

definition validate_capture_semantics_domain :: "rstr \<Rightarrow> v2_error + unit" where
  "validate_capture_semantics_domain s =
     (if s \<in> lit ` set capture_semantics_domain then Inr ()
      else Inl (V2InvalidData [MText ''unknown capture semantics: '', MString s]))"

definition validate_positive_dimensions :: "int \<Rightarrow> int \<Rightarrow> v2_error + unit" where
  "validate_positive_dimensions rows cols =
     (if rows \<le> 0 \<or> cols \<le> 0
      then Inl (V2InvalidData [MText ''terminal dimensions must be positive'']) else Inr ())"

definition validate_non_negative_seq :: "int option \<Rightarrow> string \<Rightarrow> v2_error + unit" where
  "validate_non_negative_seq v label =
     (case v of Some n \<Rightarrow> if n < 0 then Inl (V2InvalidData [MText label, MText '' must not be negative'']) else Inr ()
      | None \<Rightarrow> Inr ())"

definition u64_to_i64 :: "u64 \<Rightarrow> string \<Rightarrow> v2_error + int" where
  "u64_to_i64 v label =
     (if uint v \<le> i64_max then Inr (uint v) else Inl (V2InvalidData [MText label, MText '' does not fit in i64'']))"

end
