(* ===== verification/Archive_Journal.thy ===== *)
theory Archive_Journal
  imports Archive_Text
begin

text \<open>
  The journal of the history: the lease of its one writer (\<open>writer_generations.rs\<close>), the numbers of
  commits, events and bytes (\<open>repository/\<close>), and the operations that append to it (\<open>stream_journal/\<close>,
  \<open>event_capture/\<close>). A pane's stream is a sequence of segments of bytes; every segment, every switch of the
  screen buffer in it, every gap and every input of the user is an event with the next number of the stream.
\<close>

section \<open>Writers\<close>

definition default_stream_id :: rstr where
  "default_stream_id = lit ''primary''"

record writer_lease =
  wl_id :: rstr
  wl_process_id :: rstr
  wl_lease_token :: rstr
  wl_lease_expires_at_ms :: int

definition writer_active :: "writer_row \<Rightarrow> bool" where
  "writer_active r \<longleftrightarrow> wg_state r = WriterActive"

definition expire_writers :: "int \<Rightarrow> archive_tables \<Rightarrow> archive_tables" where
  "expire_writers now t =
     t\<lparr>at_writers := update_where (\<lambda>r. writer_active r \<and> wg_lease_expires_at_ms r \<le> now)
          (\<lambda>r. r\<lparr>wg_state := WriterStale, wg_released_at_ms := Some now\<rparr>) (at_writers t)\<rparr>"

text \<open>Its id is a key, and at most one row is active.\<close>

definition insert_writer :: "writer_row \<Rightarrow> archive_tables \<Rightarrow> archive_tables option" where
  "insert_writer row t =
     map_option (\<lambda>rows. t\<lparr>at_writers := rows\<rparr>)
       (insert_unless (\<lambda>r. wg_id r = wg_id row \<or> writer_active r \<and> writer_active row) row (at_writers t))"

text \<open>The table of the clock anchors is never read.\<close>

definition insert_clock_anchor :: "'w archive_env \<Rightarrow> ('w, unit) v2_io" where
  "insert_clock_anchor env = io_bind (new_id env) (\<lambda>_. sql_execute env id)"

definition map_writer_generation_insert_error :: "v2_error \<Rightarrow> v2_error" where
  "map_writer_generation_insert_error e = (case e of V2UniqueViolation \<Rightarrow> V2WriterAlreadyActive | _ \<Rightarrow> e)"

definition on_error :: "('e \<Rightarrow> 'e) \<Rightarrow> ('s, 'e, 'a) effect \<Rightarrow> ('s, 'e, 'a) effect" where
  "on_error f m st = (case m st of (Inl e, st1) \<Rightarrow> (Inl (f e), st1) | (Inr x, st1) \<Rightarrow> (Inr x, st1))"

definition acquire_writer_generation :: "'w archive_env \<Rightarrow> rstr \<Rightarrow> int \<Rightarrow> ('w, writer_lease) v2_io" where
  "acquire_writer_generation env process_id lease_ms =
     (if lease_ms \<le> 0 then io_err (V2InvalidData [MText ''writer lease_ms must be positive''])
      else
        io_bind (now_ms env) (\<lambda>now.
        io_bind (new_id env) (\<lambda>i.
        io_bind (new_id env) (\<lambda>token.
        io_bind (v2_transaction env (
          io_bind (sql_execute env (expire_writers now)) (\<lambda>_.
          io_bind (sql_load env (\<lambda>t. find writer_active (at_writers t))) (\<lambda>active.
            if active \<noteq> None then io_err V2WriterAlreadyActive
            else io_bind (on_error map_writer_generation_insert_error (sql_insert env (insert_writer
                \<lparr>wg_id = i, wg_process_id = process_id, wg_lease_token = token, wg_state = WriterActive,
                 wg_acquired_at_ms = now, wg_heartbeat_at_ms = now, wg_lease_expires_at_ms = now + lease_ms,
                 wg_released_at_ms = None\<rparr>))) (\<lambda>_. insert_clock_anchor env))))) (\<lambda>_.
        io_ok \<lparr>wl_id = i, wl_process_id = process_id, wl_lease_token = token,
               wl_lease_expires_at_ms = now + lease_ms\<rparr>)))))"

text \<open>\<open>attempts\<close> are left; the source starts with 40 and sleeps 25 milliseconds between them.\<close>

fun acquire_retry :: "'w archive_env \<Rightarrow> rstr \<Rightarrow> int \<Rightarrow> nat \<Rightarrow> ('w, writer_lease) v2_io" where
  "acquire_retry env process_id lease_ms 0 st = (Inl V2WriterAlreadyActive, st)"
| "acquire_retry env process_id lease_ms (Suc attempts) st =
     (case acquire_writer_generation env process_id lease_ms st of
        (Inr lease, st1) \<Rightarrow> (Inr lease, st1)
      | (Inl e, st1) \<Rightarrow>
          if e = V2WriterAlreadyActive \<and> attempts > 0
          then acquire_retry env process_id lease_ms attempts (av_sleep env 25 (fst st1), snd st1)
          else (Inl e, st1))"

definition acquire_writer_generation_with_retry :: "'w archive_env \<Rightarrow> rstr \<Rightarrow> int \<Rightarrow> ('w, writer_lease) v2_io" where
  "acquire_writer_generation_with_retry env process_id lease_ms = acquire_retry env process_id lease_ms 40"

definition update_writer :: "rstr \<Rightarrow> (writer_row \<Rightarrow> writer_row) \<Rightarrow> archive_tables \<Rightarrow> nat \<times> archive_tables" where
  "update_writer i f t =
     (let p = (\<lambda>r. wg_id r = i \<and> writer_active r)
      in (length (filter p (at_writers t)), t\<lparr>at_writers := update_where p f (at_writers t)\<rparr>))"

definition heartbeat_writer_generation :: "'w archive_env \<Rightarrow> rstr \<Rightarrow> int \<Rightarrow> ('w, unit) v2_io" where
  "heartbeat_writer_generation env writer lease_ms =
     (if lease_ms \<le> 0 then io_err (V2InvalidData [MText ''writer lease_ms must be positive''])
      else io_bind (now_ms env) (\<lambda>now. v2_transaction env (
        io_bind (sql_statement env (\<lambda>t. Inr (update_writer writer
            (\<lambda>r. r\<lparr>wg_heartbeat_at_ms := now, wg_lease_expires_at_ms := now + lease_ms\<rparr>) t))) (\<lambda>updated.
          if updated = 0 then io_err (V2InvalidData [MText ''active writer generation not found for heartbeat''])
          else insert_clock_anchor env))))"

definition release_writer_generation :: "'w archive_env \<Rightarrow> rstr \<Rightarrow> ('w, unit) v2_io" where
  "release_writer_generation env writer =
     io_bind (now_ms env) (\<lambda>now. v2_transaction env (
       io_bind (sql_statement env (\<lambda>t. Inr (update_writer writer
           (\<lambda>r. r\<lparr>wg_state := WriterReleased, wg_released_at_ms := Some now\<rparr>) t))) (\<lambda>updated.
         if updated = 0 then io_err (V2InvalidData [MText ''active writer generation not found for release''])
         else insert_clock_anchor env)))"

definition ensure_active_writer :: "'w archive_env \<Rightarrow> rstr \<Rightarrow> int \<Rightarrow> ('w, unit) v2_io" where
  "ensure_active_writer env writer now =
     io_bind (sql_first env (\<lambda>t. find (\<lambda>r. wg_id r = writer \<and> writer_active r) (at_writers t))) (\<lambda>row.
       if wg_lease_expires_at_ms row < now then io_err (V2InvalidData [MText ''writer generation lease expired''])
       else io_ok ())"

section \<open>Commits and cursors\<close>

record commit_allocation =
  ca_id :: rstr
  ca_commit_seq :: int

definition insert_commit :: "commit_row \<Rightarrow> archive_tables \<Rightarrow> archive_tables option" where
  "insert_commit row t =
     map_option (\<lambda>rows. t\<lparr>at_commits := rows\<rparr>)
       (insert_unless (\<lambda>r. cm_id r = cm_id row \<or> cm_session_id r = cm_session_id row \<and> cm_commit_seq r = cm_commit_seq row)
         row (at_commits t))"

definition advance_session_cursor :: "rstr \<Rightarrow> int \<Rightarrow> rstr \<Rightarrow> int \<Rightarrow> archive_tables \<Rightarrow> archive_tables" where
  "advance_session_cursor sid next writer now t =
     t\<lparr>at_session_cursors := update_where (\<lambda>c. xc_session_id c = sid)
          (\<lambda>c. c\<lparr>xc_next_commit_seq := next, xc_writer_generation := Some writer, xc_updated_at_ms := now\<rparr>)
          (at_session_cursors t)\<rparr>"

definition allocate_commit ::
    "'w archive_env \<Rightarrow> rstr \<Rightarrow> rstr \<Rightarrow> rstr \<Rightarrow> int \<Rightarrow> int \<Rightarrow> ('w, commit_allocation) v2_io" where
  "allocate_commit env sid kind writer occurred now =
     io_bind (sql_first env (\<lambda>t. find (\<lambda>c. xc_session_id c = sid) (at_session_cursors t))) (\<lambda>cursor.
     io_bind (new_id env) (\<lambda>i.
     io_bind (sql_insert env (insert_commit \<lparr>cm_id = i, cm_session_id = sid, cm_commit_seq = xc_next_commit_seq cursor,
         cm_commit_kind = kind, cm_writer_generation = writer, cm_occurred_at_ms = occurred, cm_created_at_ms = now\<rparr>)) (\<lambda>_.
     io_bind (sql_execute env (advance_session_cursor sid (xc_next_commit_seq cursor + 1) writer now)) (\<lambda>_.
       io_ok \<lparr>ca_id = i, ca_commit_seq = xc_next_commit_seq cursor\<rparr>))))"

definition load_stream_cursor :: "'w archive_env \<Rightarrow> rstr \<Rightarrow> rstr \<Rightarrow> rstr \<Rightarrow> ('w, stream_cursor_row) v2_io" where
  "load_stream_cursor env sid p stream =
     sql_first env (\<lambda>t. find (\<lambda>c. sk_session_id c = sid \<and> sk_pane_id c = p \<and> sk_stream_id c = stream) (at_stream_cursors t))"

definition advance_stream_cursor :: "rstr \<Rightarrow> int \<Rightarrow> int \<Rightarrow> int \<Rightarrow> archive_tables \<Rightarrow> archive_tables" where
  "advance_stream_cursor cursor next_event next_byte now t =
     t\<lparr>at_stream_cursors := update_where (\<lambda>c. sk_id c = cursor)
          (\<lambda>c. c\<lparr>sk_next_event_seq := next_event, sk_next_byte_seq := next_byte, sk_updated_at_ms := now\<rparr>)
          (at_stream_cursors t)\<rparr>"

text \<open>
  The statement that advances a cursor. The numbers are added without a check: past the greatest \<open>i64\<close> they wrap
  to negative ones, which the \<open>CHECK\<close> constraints of the tables refuse (a build with overflow checks panics in the
  transaction), so that the transaction fails.
\<close>

definition execute_advance_cursor :: "'w archive_env \<Rightarrow> rstr \<Rightarrow> int \<Rightarrow> int \<Rightarrow> int \<Rightarrow> ('w, unit) v2_io" where
  "execute_advance_cursor env cursor next_event next_byte now =
     sql_statement env (\<lambda>t.
       if next_event \<le> i64_max \<and> next_byte \<le> i64_max
       then Inr ((), advance_stream_cursor cursor next_event next_byte now t) else Inl V2ConstraintViolation)"

definition update_pane_last_event_seq :: "rstr \<Rightarrow> int \<Rightarrow> archive_tables \<Rightarrow> archive_tables" where
  "update_pane_last_event_seq p event_seq t =
     t\<lparr>at_panes := update_where (\<lambda>r. xp_id r = p) (\<lambda>r. r\<lparr>xp_last_event_seq := event_seq\<rparr>) (at_panes t)\<rparr>"

section \<open>Sessions and panes\<close>

record session_input =
  xi_id :: rstr
  xi_route :: session_route
  xi_title :: "rstr option"
  xi_launch :: "shell_launch_spec option"
  xi_source :: rstr
  xi_private_mode :: bool

definition upsert_session_row :: "session_row \<Rightarrow> archive_tables \<Rightarrow> archive_tables" where
  "upsert_session_row row t =
     (if list_ex (\<lambda>r. xs_id r = xs_id row) (at_sessions t)
      then t\<lparr>at_sessions := update_where (\<lambda>r. xs_id r = xs_id row)
             (\<lambda>r. r\<lparr>xs_route := xs_route row, xs_title := xs_title row, xs_launch := xs_launch row, xs_source := xs_source row,
                    xs_private_mode := xs_private_mode row, xs_updated_at_ms := xs_updated_at_ms row, xs_state := xs_state row\<rparr>)
             (at_sessions t)\<rparr>
      else t\<lparr>at_sessions := at_sessions t @ [row]\<rparr>)"

definition session_private :: "rstr \<Rightarrow> archive_tables \<Rightarrow> bool" where
  "session_private sid t = (case find (\<lambda>r. xs_id r = sid) (at_sessions t) of None \<Rightarrow> False | Some r \<Rightarrow> xs_private_mode r)"

definition insert_session_cursor :: "session_cursor_row \<Rightarrow> archive_tables \<Rightarrow> archive_tables" where
  "insert_session_cursor row t =
     (if list_ex (\<lambda>c. xc_session_id c = xc_session_id row) (at_session_cursors t) then t
      else t\<lparr>at_session_cursors := at_session_cursors t @ [row]\<rparr>)"

definition upsert_runtime_session :: "'w archive_env \<Rightarrow> session_input \<Rightarrow> ('w, unit) v2_io" where
  "upsert_runtime_session env input =
     io_bind (now_ms env) (\<lambda>now. v2_transaction env (
       io_bind (sql_load env (session_private (xi_id input))) (\<lambda>existing_private.
       io_bind (sql_execute env (upsert_session_row
           \<lparr>xs_id = xi_id input, xs_route = xi_route input, xs_title = xi_title input, xs_launch = xi_launch input,
            xs_source = xi_source input, xs_private_mode = (xi_private_mode input \<or> existing_private),
            xs_created_at_ms = now, xs_updated_at_ms = now, xs_state = ''active''\<rparr>)) (\<lambda>_.
         sql_execute env (insert_session_cursor
           \<lparr>xc_session_id = xi_id input, xc_next_commit_seq = 1, xc_writer_generation = None, xc_updated_at_ms = now\<rparr>)))))"

record pane_input =
  pi_id :: rstr
  pi_session_id :: rstr
  pi_tab_id :: "rstr option"
  pi_stream_id :: "rstr option"
  pi_title :: "rstr option"
  pi_rows :: int
  pi_cols :: int

definition stream_cursor_id :: "'w archive_env \<Rightarrow> rstr \<Rightarrow> rstr \<Rightarrow> rstr" where
  "stream_cursor_id env p stream = lit ''stream-cursor-'' @ av_hash_text env (p @ [0] @ stream)"

text \<open>A pane of a session that does not exist violates a foreign key.\<close>

definition upsert_pane_row :: "pane_row \<Rightarrow> archive_tables \<Rightarrow> archive_tables option" where
  "upsert_pane_row row t =
     (if list_ex (\<lambda>r. xp_id r = xp_id row) (at_panes t)
      then Some (t\<lparr>at_panes := update_where (\<lambda>r. xp_id r = xp_id row)
             (\<lambda>r. r\<lparr>xp_title := xp_title row, xp_rows := xp_rows row, xp_cols := xp_cols row\<rparr>) (at_panes t)\<rparr>)
      else if list_ex (\<lambda>s. xs_id s = xp_session_id row) (at_sessions t)
      then Some (t\<lparr>at_panes := at_panes t @ [row]\<rparr>)
      else None)"

text \<open>The conflict on the id does nothing; a cursor of that pane and stream under another id is refused.\<close>

definition insert_stream_cursor :: "stream_cursor_row \<Rightarrow> archive_tables \<Rightarrow> archive_tables option" where
  "insert_stream_cursor row t =
     (if list_ex (\<lambda>c. sk_id c = sk_id row) (at_stream_cursors t) then Some t
      else map_option (\<lambda>rows. t\<lparr>at_stream_cursors := rows\<rparr>)
        (insert_unless (\<lambda>c. sk_pane_id c = sk_pane_id row \<and> sk_stream_id c = sk_stream_id row) row (at_stream_cursors t)))"

definition upsert_runtime_pane :: "'w archive_env \<Rightarrow> pane_input \<Rightarrow> ('w, unit) v2_io" where
  "upsert_runtime_pane env input =
     io_bind (io_lift (validate_positive_dimensions (pi_rows input) (pi_cols input))) (\<lambda>_.
     io_bind (now_ms env) (\<lambda>now.
       let stream = (case pi_stream_id input of Some s \<Rightarrow> s | None \<Rightarrow> default_stream_id)
       in v2_transaction env (
         io_bind (sql_insert env (upsert_pane_row
             \<lparr>xp_id = pi_id input, xp_session_id = pi_session_id input, xp_tab_id = pi_tab_id input, xp_stream_id = stream,
              xp_title = pi_title input, xp_rows = pi_rows input, xp_cols = pi_cols input, xp_last_event_seq = 0,
              xp_created_at_ms = now\<rparr>)) (\<lambda>_.
           sql_insert env (insert_stream_cursor
             \<lparr>sk_id = stream_cursor_id env (pi_id input) stream, sk_session_id = pi_session_id input,
              sk_pane_id = pi_id input, sk_stream_id = stream, sk_next_event_seq = 1, sk_next_byte_seq = 0,
              sk_updated_at_ms = now\<rparr>)))))"

section \<open>Appending output\<close>

record stream_segment_input =
  gi_session_id :: rstr
  gi_pane_id :: rstr
  gi_stream_id :: "rstr option"
  gi_writer_generation :: rstr
  gi_payload :: "u8 list"
  gi_event_type :: "rstr option"
  gi_event_count :: int
  gi_occurred_at_ms :: "int option"
  gi_capture_semantics :: "rstr option"
  gi_trust_level :: "rstr option"
  gi_payload_json :: "journal_payload option"
  gi_source_event_id_hash :: "rstr option"

record stream_segment_receipt =
  sr_commit_id :: rstr
  sr_commit_seq :: int
  sr_segment_id :: rstr
  sr_event_id :: rstr
  sr_event_range :: "int \<times> int"
  sr_byte_range :: "int \<times> int"
  sr_checksum :: rstr

record append_segment_tx =
  tx_input :: stream_segment_input
  tx_stream_id :: rstr
  tx_payload_len :: int
  tx_payload_checksum :: rstr
  tx_capture_source_kind :: "rstr option"
  tx_transitions :: "buffer_mode_transition list"
  tx_occurred_at_ms :: int
  tx_now :: int

definition stream_capture_source_kind :: "'w archive_env \<Rightarrow> rstr \<Rightarrow> rstr \<Rightarrow> rstr" where
  "stream_capture_source_kind env p stream = lit ''stream-segment-'' @ av_hash_text env (p @ [0] @ stream)"

definition load_capture_receipt :: "rstr \<Rightarrow> rstr \<Rightarrow> rstr \<Rightarrow> archive_tables \<Rightarrow> receipt_row option" where
  "load_capture_receipt sid kind hash t =
     find (\<lambda>r. rc_session_id r = sid \<and> rc_source_kind r = kind \<and> rc_source_event_id_hash r = hash) (at_receipts t)"

definition stream_segment_receipt_from_commit :: "'w archive_env \<Rightarrow> rstr \<Rightarrow> ('w, stream_segment_receipt) v2_io" where
  "stream_segment_receipt_from_commit env commit =
     io_bind (sql_first env (\<lambda>t. find (\<lambda>r. sg_commit_id r = commit) (at_segments t))) (\<lambda>segment.
     io_bind (sql_first env (\<lambda>t. find (\<lambda>r. je_commit_id r = commit) (at_events t))) (\<lambda>event.
     io_bind (sql_first env (\<lambda>t. find (\<lambda>r. cm_id r = commit) (at_commits t))) (\<lambda>row.
       io_ok \<lparr>sr_commit_id = commit, sr_commit_seq = cm_commit_seq row, sr_segment_id = sg_id segment,
              sr_event_id = je_id event, sr_event_range = (sg_event_seq_low segment, sg_event_seq_high segment),
              sr_byte_range = (sg_byte_low segment, sg_byte_high segment), sr_checksum = sg_checksum segment\<rparr>)))"

definition reuse_capture_receipt_if_possible ::
    "'w archive_env \<Rightarrow> append_segment_tx \<Rightarrow> ('w, stream_segment_receipt option) v2_io" where
  "reuse_capture_receipt_if_possible env tx =
     (case (tx_capture_source_kind tx, gi_source_event_id_hash (tx_input tx)) of
        (Some kind, Some hash) \<Rightarrow>
          io_bind (sql_load env (load_capture_receipt (gi_session_id (tx_input tx)) kind hash)) (\<lambda>found.
            case found of
              None \<Rightarrow> io_ok None
            | Some receipt \<Rightarrow>
                if rc_source_payload_hash receipt \<noteq> tx_payload_checksum tx
                then io_err (V2InvalidData [MText ''capture receipt payload hash mismatch for source_kind='', MString kind])
                else (case rc_commit_id receipt of
                  None \<Rightarrow> io_err (V2InvalidData [MText ''stream capture receipt '', MString (rc_row_id receipt),
                      MText '' does not point to a commit''])
                | Some commit \<Rightarrow> io_map Some (stream_segment_receipt_from_commit env commit)))
      | _ \<Rightarrow> io_ok None)"

definition insert_segment :: "segment_row \<Rightarrow> archive_tables \<Rightarrow> archive_tables option" where
  "insert_segment row t =
     map_option (\<lambda>rows. t\<lparr>at_segments := rows\<rparr>)
       (insert_unless (\<lambda>r. sg_id r = sg_id row \<or> sg_pane_id r = sg_pane_id row \<and> sg_stream_id r = sg_stream_id row \<and>
            (sg_event_seq_low r = sg_event_seq_low row \<or> sg_byte_low r = sg_byte_low row)) row (at_segments t))"

definition insert_event :: "journal_event_row \<Rightarrow> archive_tables \<Rightarrow> archive_tables option" where
  "insert_event row t =
     map_option (\<lambda>rows. t\<lparr>at_events := rows\<rparr>)
       (insert_unless (\<lambda>r. je_id r = je_id row \<or> je_scope_kind r = je_scope_kind row \<and> je_scope_id r = je_scope_id row \<and>
            je_stream_id r = je_stream_id row \<and> je_event_seq r = je_event_seq row) row (at_events t))"

definition event_scope :: "rstr \<Rightarrow> rstr option \<Rightarrow> string \<times> rstr" where
  "event_scope sid p = (case p of Some p1 \<Rightarrow> (''pane'', p1) | None \<Rightarrow> (''session'', sid))"

text \<open>The switches of the screen buffer from \<open>index\<close> on, each an event after the one of the segment.\<close>

fun insert_transition_events ::
    "'w archive_env \<Rightarrow> append_segment_tx \<Rightarrow> rstr \<Rightarrow> int \<Rightarrow> int \<Rightarrow> int \<Rightarrow> rstr \<Rightarrow> nat \<Rightarrow> buffer_mode_transition list
     \<Rightarrow> ('w, unit) v2_io" where
  "insert_transition_events env tx commit event_low byte_low byte_high semantics index [] = io_ok ()"
| "insert_transition_events env tx commit event_low byte_low byte_high semantics index (m # ms) =
     io_bind (io_lift (checked_len (index + 1) ''buffer mode transition offset'')) (\<lambda>offset.
     io_bind (io_lift (checked_add event_low offset ''buffer mode transition event sequence overflow'')) (\<lambda>event_seq.
     io_bind (io_lift (checked_add byte_low (bm_byte_offset m) ''buffer mode transition byte range overflow'')) (\<lambda>low.
     io_bind (io_lift (checked_add low (bm_byte_len m) ''buffer mode transition byte range overflow'')) (\<lambda>high.
     io_bind (new_id env) (\<lambda>i.
     io_bind (sql_insert env (insert_event
         \<lparr>je_id = i, je_session_id = gi_session_id (tx_input tx), je_pane_id = Some (gi_pane_id (tx_input tx)),
          je_commit_id = commit, je_stream_id = tx_stream_id tx, je_scope_kind = ''pane'',
          je_scope_id = gi_pane_id (tx_input tx), je_event_seq = event_seq, je_event_type = lit ''terminal_buffer_mode'',
          je_byte_range = Some (low, min high byte_high),
          je_payload_json = Some (ModePayload (bm_action m) (bm_mode m) (bm_target_buffer_kind m) event_low),
          je_source_event_id_hash = None, je_occurred_at_ms = tx_occurred_at_ms tx, je_created_at_ms = tx_now tx,
          je_capture_semantics = semantics, je_trust_level = lit ''parser_derived''\<rparr>)) (\<lambda>_.
       insert_transition_events env tx commit event_low byte_low byte_high semantics (index + 1) ms))))))"

definition insert_outbox :: "outbox_row \<Rightarrow> archive_tables \<Rightarrow> archive_tables option" where
  "insert_outbox row t =
     map_option (\<lambda>rows. t\<lparr>at_outbox := rows\<rparr>)
       (insert_unless (\<lambda>r. ob_id r = ob_id row \<or> ob_dedupe_key row \<noteq> None \<and> ob_dedupe_key r = ob_dedupe_key row)
         row (at_outbox t))"

definition normalize_outbox_dedupe_key :: "'w archive_env \<Rightarrow> rstr \<Rightarrow> rstr" where
  "normalize_outbox_dedupe_key env key = lit ''blake3:'' @ av_hash_text env key"

definition enqueue_pane_history_projection ::
    "'w archive_env \<Rightarrow> append_segment_tx \<Rightarrow> rstr \<Rightarrow> int \<times> int \<Rightarrow> int \<times> int \<Rightarrow> ('w, unit) v2_io" where
  "enqueue_pane_history_projection env tx commit events bytes =
     io_bind (new_id env) (\<lambda>i. sql_insert env (insert_outbox
       \<lparr>ob_id = i, ob_message_kind = lit ''pane_history_projection'',
        ob_dedupe_key = Some (normalize_outbox_dedupe_key env (lit ''pane_history_projection:'' @ commit)),
        ob_state = OutboxPending, ob_payload_json = PaneHistoryProjection
          \<lparr>oj_session_id = gi_session_id (tx_input tx), oj_pane_id = gi_pane_id (tx_input tx), oj_stream_id = tx_stream_id tx,
           oj_commit_id = commit, oj_event_range = events, oj_byte_range = bytes\<rparr>,
        ob_attempts = 0, ob_max_attempts = 5, ob_claimed_by = None, ob_lease_token = None, ob_claimed_until_ms = None,
        ob_next_run_at_ms = tx_now tx, ob_last_error = None, ob_created_at_ms = tx_now tx, ob_updated_at_ms = tx_now tx\<rparr>))"

definition insert_receipt :: "receipt_row \<Rightarrow> archive_tables \<Rightarrow> archive_tables option" where
  "insert_receipt row t =
     map_option (\<lambda>rows. t\<lparr>at_receipts := rows\<rparr>)
       (insert_unless (\<lambda>r. rc_row_id r = rc_row_id row \<or> rc_session_id r = rc_session_id row \<and>
            rc_source_kind r = rc_source_kind row \<and> rc_source_event_id_hash r = rc_source_event_id_hash row) row (at_receipts t))"

definition insert_receipt_if_needed ::
    "'w archive_env \<Rightarrow> rstr option \<Rightarrow> rstr option \<Rightarrow> rstr \<Rightarrow> rstr \<Rightarrow> rstr \<Rightarrow> int \<Rightarrow> int \<Rightarrow> ('w, unit) v2_io" where
  "insert_receipt_if_needed env kind hash sid commit payload_hash received_at now =
     (case (kind, hash) of
        (Some k, Some h) \<Rightarrow> io_bind (new_id env) (\<lambda>i. sql_insert env (insert_receipt
          \<lparr>rc_row_id = i, rc_session_id = sid, rc_commit_id = Some commit, rc_source_kind = k, rc_source_event_id_hash = h,
           rc_source_payload_hash = payload_hash, rc_received_at_ms = received_at, rc_created_at_ms = now\<rparr>))
      | _ \<Rightarrow> io_ok ())"

definition final_event_seq :: "int \<Rightarrow> nat \<Rightarrow> v2_error + int" where
  "final_event_seq event_seq_high transitions =
     bind_result (checked_len transitions ''buffer mode transition count'') (\<lambda>n.
       checked_add event_seq_high n ''buffer mode transition event sequence overflow'')"

definition append_new_segment :: "'w archive_env \<Rightarrow> append_segment_tx \<Rightarrow> ('w, stream_segment_receipt) v2_io" where
  "append_new_segment env tx =
     (let input = tx_input tx; sid = gi_session_id input; p = gi_pane_id input; now = tx_now tx;
          or_lit = (\<lambda>x d. case x of Some s \<Rightarrow> s | None \<Rightarrow> lit d);
          semantics = or_lit (gi_capture_semantics input) ''raw_vt_stream''
      in
      io_bind (ensure_active_writer env (gi_writer_generation input) now) (\<lambda>_.
      io_bind (allocate_commit env sid (lit ''stream_segment'') (gi_writer_generation input) (tx_occurred_at_ms tx) now) (\<lambda>commit.
      io_bind (load_stream_cursor env sid p (tx_stream_id tx)) (\<lambda>cursor.
      let event_low = sk_next_event_seq cursor; event_high = event_low;
          byte_low = sk_next_byte_seq cursor; byte_high = byte_low + tx_payload_len tx
      in
      io_bind (new_id env) (\<lambda>segment_id.
      io_bind (new_id env) (\<lambda>event_id.
      io_bind (io_lift (validate_capture_semantics_domain semantics)) (\<lambda>_.
      io_bind (io_lift (final_event_seq event_high (length (tx_transitions tx)))) (\<lambda>final_seq.
      io_bind (sql_insert env (insert_segment
          \<lparr>sg_id = segment_id, sg_session_id = sid, sg_pane_id = p, sg_commit_id = ca_id commit, sg_stream_id = tx_stream_id tx,
           sg_event_seq_low = event_low, sg_event_seq_high = event_high, sg_byte_low = byte_low, sg_byte_high = byte_high,
           sg_payload = gi_payload input, sg_payload_len = tx_payload_len tx, sg_stored_byte_len = tx_payload_len tx,
           sg_checksum_algorithm = ''blake3'', sg_checksum = tx_payload_checksum tx, sg_capture_semantics = semantics,
           sg_created_at_ms = now, sg_writer_generation = gi_writer_generation input\<rparr>)) (\<lambda>_.
      if av_fail_after_segment env
      then io_err (V2InvalidData [MText ''failpoint stream_segment_after_segment_insert''])
      else
      io_bind (sql_insert env (insert_event
          \<lparr>je_id = event_id, je_session_id = sid, je_pane_id = Some p, je_commit_id = ca_id commit,
           je_stream_id = tx_stream_id tx, je_scope_kind = ''pane'', je_scope_id = p, je_event_seq = event_low,
           je_event_type = or_lit (gi_event_type input) ''terminal_output'', je_byte_range = Some (byte_low, byte_high),
           je_payload_json = gi_payload_json input, je_source_event_id_hash = gi_source_event_id_hash input,
           je_occurred_at_ms = tx_occurred_at_ms tx, je_created_at_ms = now, je_capture_semantics = semantics,
           je_trust_level = or_lit (gi_trust_level input) ''captured''\<rparr>)) (\<lambda>_.
      io_bind (insert_transition_events env tx (ca_id commit) event_low byte_low byte_high semantics 0 (tx_transitions tx)) (\<lambda>_.
      io_bind (enqueue_pane_history_projection env tx (ca_id commit) (event_low, final_seq) (byte_low, byte_high)) (\<lambda>_.
      io_bind (insert_receipt_if_needed env (tx_capture_source_kind tx) (gi_source_event_id_hash input) sid (ca_id commit)
          (tx_payload_checksum tx) (tx_occurred_at_ms tx) now) (\<lambda>_.
      io_bind (execute_advance_cursor env (sk_id cursor) (final_seq + 1) byte_high now) (\<lambda>_.
      io_bind (sql_execute env (update_pane_last_event_seq p final_seq)) (\<lambda>_.
        io_ok \<lparr>sr_commit_id = ca_id commit, sr_commit_seq = ca_commit_seq commit, sr_segment_id = segment_id,
               sr_event_id = event_id, sr_event_range = (event_low, event_high), sr_byte_range = (byte_low, byte_high),
               sr_checksum = tx_payload_checksum tx\<rparr>)))))))))))))))"

definition append_stream_segment_transaction ::
    "'w archive_env \<Rightarrow> append_segment_tx \<Rightarrow> ('w, stream_segment_receipt) v2_io" where
  "append_stream_segment_transaction env tx =
     io_bind (reuse_capture_receipt_if_possible env tx) (\<lambda>reused.
       case reused of Some receipt \<Rightarrow> io_ok receipt | None \<Rightarrow> append_new_segment env tx)"

definition validate_stream_segment_input :: "stream_segment_input \<Rightarrow> v2_error + unit" where
  "validate_stream_segment_input input =
     (if gi_payload input = [] then Inl (V2InvalidData [MText ''stream segment payload must not be empty''])
      else if gi_event_count input \<noteq> 1
      then Inl (V2InvalidData [MText ''stream segment MVP accepts exactly one journal event per segment''])
      else Inr ())"

definition is_storage_full_like_error :: "v2_error \<Rightarrow> bool" where
  "is_storage_full_like_error e =
     (case e of
        V2Query text_msg \<Rightarrow>
          list_ex (\<lambda>needle. contains_str (lit needle) (map ascii_lower text_msg))
            [''sqlite_full'', ''database or disk is full'', ''disk is full'', ''database is full'']
      | _ \<Rightarrow> False)"

definition append_stream_segment :: "'w archive_env \<Rightarrow> stream_segment_input \<Rightarrow> ('w, stream_segment_receipt) v2_io" where
  "append_stream_segment env input =
     io_bind (io_lift (validate_stream_segment_input input)) (\<lambda>_.
     io_bind (now_ms env) (\<lambda>now.
     io_bind (io_lift (checked_len (length (gi_payload input)) ''payload length'')) (\<lambda>payload_len st.
       let stream = (case gi_stream_id input of Some s \<Rightarrow> s | None \<Rightarrow> default_stream_id);
           tx = \<lparr>tx_input = input, tx_stream_id = stream, tx_payload_len = payload_len,
             tx_payload_checksum = av_hash env (gi_payload input),
             tx_capture_source_kind = map_option (\<lambda>_. stream_capture_source_kind env (gi_pane_id input) stream)
               (gi_source_event_id_hash input),
             tx_transitions = detect_buffer_mode_transitions (gi_payload input),
             tx_occurred_at_ms = (case gi_occurred_at_ms input of Some at_ms \<Rightarrow> at_ms | None \<Rightarrow> now), tx_now = now\<rparr>
       in case v2_transaction env (append_stream_segment_transaction env tx) st of
         (Inr receipt, st1) \<Rightarrow> (Inr receipt, st1)
       | (Inl e, st1) \<Rightarrow>
           (Inl e, if is_storage_full_like_error e then (av_pressure env (fst st1), snd st1) else st1))))"

section \<open>Other events\<close>

record journal_event_input =
  ji_session_id :: rstr
  ji_pane_id :: "rstr option"
  ji_stream_id :: "rstr option"
  ji_writer_generation :: rstr
  ji_event_type :: rstr
  ji_commit_kind :: "rstr option"
  ji_payload_json :: "journal_payload option"
  ji_source_event_id_hash :: "rstr option"
  ji_occurred_at_ms :: "int option"
  ji_capture_semantics :: "rstr option"
  ji_trust_level :: "rstr option"

record journal_event_receipt =
  jr_commit_id :: rstr
  jr_commit_seq :: int
  jr_event_id :: rstr
  jr_event_seq :: int

definition append_journal_event :: "'w archive_env \<Rightarrow> journal_event_input \<Rightarrow> ('w, journal_event_receipt) v2_io" where
  "append_journal_event env input =
     io_bind (now_ms env) (\<lambda>now.
       let occurred = (case ji_occurred_at_ms input of Some at_ms \<Rightarrow> at_ms | None \<Rightarrow> now);
           stream = (case ji_stream_id input of Some s \<Rightarrow> s | None \<Rightarrow> default_stream_id);
           or_lit = (\<lambda>x d. case x of Some s \<Rightarrow> s | None \<Rightarrow> lit d);
           semantics = or_lit (ji_capture_semantics input) ''raw_vt_stream'';
           scope = event_scope (ji_session_id input) (ji_pane_id input)
       in v2_transaction env (
         io_bind (ensure_active_writer env (ji_writer_generation input) now) (\<lambda>_.
         io_bind (io_lift (validate_capture_semantics_domain semantics)) (\<lambda>_.
         io_bind (allocate_commit env (ji_session_id input) (or_lit (ji_commit_kind input) ''journal_event'')
             (ji_writer_generation input) occurred now) (\<lambda>commit.
         io_bind (case ji_pane_id input of
             None \<Rightarrow> io_ok (ca_commit_seq commit)
           | Some p \<Rightarrow>
               io_bind (load_stream_cursor env (ji_session_id input) p stream) (\<lambda>cursor.
               io_bind (execute_advance_cursor env (sk_id cursor) (sk_next_event_seq cursor + 1)
                   (sk_next_byte_seq cursor) now) (\<lambda>_.
               io_bind (sql_execute env (update_pane_last_event_seq p (sk_next_event_seq cursor))) (\<lambda>_.
                 io_ok (sk_next_event_seq cursor))))) (\<lambda>event_seq.
         io_bind (new_id env) (\<lambda>i.
         io_bind (sql_insert env (insert_event
             \<lparr>je_id = i, je_session_id = ji_session_id input, je_pane_id = ji_pane_id input, je_commit_id = ca_id commit,
              je_stream_id = stream, je_scope_kind = fst scope, je_scope_id = snd scope, je_event_seq = event_seq,
              je_event_type = ji_event_type input, je_byte_range = None, je_payload_json = ji_payload_json input,
              je_source_event_id_hash = ji_source_event_id_hash input, je_occurred_at_ms = occurred, je_created_at_ms = now,
              je_capture_semantics = semantics, je_trust_level = or_lit (ji_trust_level input) ''captured''\<rparr>)) (\<lambda>_.
           io_ok \<lparr>jr_commit_id = ca_id commit, jr_commit_seq = ca_commit_seq commit, jr_event_id = i, jr_event_seq = event_seq\<rparr>))))))))"

definition insert_gap :: "history_gap_row \<Rightarrow> archive_tables \<Rightarrow> archive_tables option" where
  "insert_gap row t =
     map_option (\<lambda>rows. t\<lparr>at_gaps := rows\<rparr>) (insert_unless (\<lambda>r. gp_id r = gp_id row) row (at_gaps t))"

text \<open>\<open>skipped\<close>: the width of the gap, at least one.\<close>

definition append_history_gap_transaction ::
    "'w archive_env \<Rightarrow> rstr \<Rightarrow> rstr \<Rightarrow> rstr \<Rightarrow> int \<Rightarrow> int option \<Rightarrow> rstr \<Rightarrow> journal_payload \<Rightarrow> int \<Rightarrow> int
     \<Rightarrow> ('w, journal_event_receipt) v2_io" where
  "append_history_gap_transaction env sid p writer skipped dropped reason payload occurred now =
     io_bind (ensure_active_writer env writer now) (\<lambda>_.
     io_bind (allocate_commit env sid (lit ''history_gap'') writer occurred now) (\<lambda>commit.
     io_bind (load_stream_cursor env sid p default_stream_id) (\<lambda>cursor.
     let low = sk_next_event_seq cursor; high = low + skipped - 1 in
     io_bind (new_id env) (\<lambda>i.
     io_bind (sql_insert env (insert_event
         \<lparr>je_id = i, je_session_id = sid, je_pane_id = Some p, je_commit_id = ca_id commit, je_stream_id = default_stream_id,
          je_scope_kind = ''pane'', je_scope_id = p, je_event_seq = low, je_event_type = lit ''history_gap'',
          je_byte_range = None, je_payload_json = Some payload, je_source_event_id_hash = None,
          je_occurred_at_ms = occurred, je_created_at_ms = now, je_capture_semantics = lit ''raw_vt_stream'',
          je_trust_level = lit ''system''\<rparr>)) (\<lambda>_.
     io_bind (new_id env) (\<lambda>g.
     io_bind (sql_insert env (insert_gap
         \<lparr>gp_id = g, gp_session_id = sid, gp_pane_id = Some p, gp_stream_id = default_stream_id, gp_gap_kind = ''capture_gap'',
          gp_event_seq_low = Some low, gp_event_seq_high = Some high, gp_byte_low = None, gp_byte_high = None,
          gp_estimated_dropped_bytes = dropped, gp_estimated_dropped_events = Some skipped, gp_reason = reason,
          gp_writer_generation = Some writer, gp_opened_at_ms = occurred, gp_closed_at_ms = Some occurred\<rparr>)) (\<lambda>_.
     io_bind (execute_advance_cursor env (sk_id cursor) (high + 1) (sk_next_byte_seq cursor) now) (\<lambda>_.
     io_bind (sql_execute env (update_pane_last_event_seq p high)) (\<lambda>_.
       io_ok \<lparr>jr_commit_id = ca_id commit, jr_commit_seq = ca_commit_seq commit, jr_event_id = i, jr_event_seq = low\<rparr>)))))))))"

definition append_history_gap_event ::
    "'w archive_env \<Rightarrow> rstr \<Rightarrow> rstr \<Rightarrow> rstr \<Rightarrow> u64 \<Rightarrow> int option \<Rightarrow> rstr \<Rightarrow> int option \<Rightarrow> ('w, journal_event_receipt) v2_io" where
  "append_history_gap_event env sid p writer skipped dropped reason occurred =
     io_bind (now_ms env) (\<lambda>now.
     io_bind (io_lift (u64_to_i64 (max skipped 1) ''history gap skipped events'')) (\<lambda>width.
       let at_ms = (case occurred of Some o1 \<Rightarrow> o1 | None \<Rightarrow> now); lost = map_option (max 0) dropped
       in v2_transaction env (append_history_gap_transaction env sid p writer width lost reason
            (GapPayload reason skipped lost) at_ms now)))"

end
