(* ===== verification/Archive_Snapshot.thy ===== *)
theory Archive_Snapshot
  imports Archive_Journal
begin

text \<open>
  Snapshots of screens and topologies (\<open>snapshot_writer.rs\<close>). They have tables of their own, but each is a commit
  of its session, written under the lease of the writer. A JSON value is its text; metadata and the id of
  the payload schema are left out.
\<close>

record screen_snapshot_input =
  wi_id :: "rstr option"
  wi_session_id :: rstr
  wi_pane_id :: rstr
  wi_writer_generation :: rstr
  wi_projection_source :: "rstr option"
  wi_buffer_kind :: "rstr option"
  wi_rows :: int
  wi_cols :: int
  wi_base_event_seq :: int
  wi_high_water_event_seq :: int
  wi_high_water_byte_seq :: "int option"
  wi_screen :: rstr
  wi_parser_version :: "rstr option"
  wi_projection_version :: "rstr option"

record topology_snapshot_input =
  wt_id :: "rstr option"
  wt_session_id :: rstr
  wt_writer_generation :: rstr
  wt_pane_high_water :: rstr
  wt_topology :: rstr
  wt_source :: "rstr option"

definition or_new_id :: "'w archive_env \<Rightarrow> rstr option \<Rightarrow> ('w, rstr) v2_io" where
  "or_new_id env given = (case given of Some i \<Rightarrow> io_ok i | None \<Rightarrow> new_id env)"

definition or_text :: "rstr option \<Rightarrow> string \<Rightarrow> rstr" where
  "or_text given fallback = (case given of Some s \<Rightarrow> s | None \<Rightarrow> lit fallback)"

text \<open>The constraints of the table: the pane exists, and the numbers make sense.\<close>

definition screen_snapshot_allowed :: "screen_snapshot_row \<Rightarrow> archive_tables \<Rightarrow> bool" where
  "screen_snapshot_allowed row t \<longleftrightarrow>
     list_ex (\<lambda>r. xp_id r = wn_pane_id row) (at_panes t) \<and>
     list_ex (\<lambda>kind. wn_buffer_kind row = lit kind) [''normal'', ''alternate'', ''mux_surface'', ''unknown''] \<and>
     0 < wn_rows row \<and> 0 < wn_cols row \<and> 0 \<le> wn_base_event_seq row \<and> wn_base_event_seq row \<le> wn_high_water_event_seq row"

definition insert_screen_snapshot :: "screen_snapshot_row \<Rightarrow> archive_tables \<Rightarrow> v2_error + unit \<times> archive_tables" where
  "insert_screen_snapshot row t =
     (if \<not> screen_snapshot_allowed row t then Inl V2ConstraintViolation
      else case insert_unless (\<lambda>r. wn_id r = wn_id row) row (at_screen_snapshots t) of
        None \<Rightarrow> Inl V2UniqueViolation
      | Some rows \<Rightarrow> Inr ((), t\<lparr>at_screen_snapshots := rows\<rparr>))"

definition write_screen_snapshot :: "'w archive_env \<Rightarrow> screen_snapshot_input \<Rightarrow> ('w, rstr) v2_io" where
  "write_screen_snapshot env input =
     io_bind (io_lift (validate_positive_dimensions (wi_rows input) (wi_cols input))) (\<lambda>_.
     io_bind (now_ms env) (\<lambda>now.
     io_bind (or_new_id env (wi_id input)) (\<lambda>i.
     io_bind (v2_transaction env (
       io_bind (ensure_active_writer env (wi_writer_generation input) now) (\<lambda>_.
       io_bind (allocate_commit env (wi_session_id input) (lit ''screen_snapshot'') (wi_writer_generation input) now now) (\<lambda>commit.
         sql_statement env (insert_screen_snapshot
           \<lparr>wn_id = i, wn_session_id = wi_session_id input, wn_pane_id = wi_pane_id input, wn_commit_id = ca_id commit,
            wn_projection_source = or_text (wi_projection_source input) ''terminal_projection'',
            wn_buffer_kind = or_text (wi_buffer_kind input) ''normal'', wn_rows = wi_rows input, wn_cols = wi_cols input,
            wn_base_event_seq = wi_base_event_seq input, wn_high_water_event_seq = wi_high_water_event_seq input,
            wn_high_water_byte_seq = wi_high_water_byte_seq input, wn_screen_json = wi_screen input,
            wn_parser_version = or_text (wi_parser_version input) ''terminal_projection/0.1'',
            wn_projection_version = or_text (wi_projection_version input) ''screen_snapshot_v1'',
            wn_checksum_algorithm = ''blake3'', wn_checksum = av_hash_text env (wi_screen input),
            wn_created_at_ms = now\<rparr>))))) (\<lambda>_. io_ok i))))"

definition insert_topology_snapshot :: "topology_snapshot_row \<Rightarrow> archive_tables \<Rightarrow> archive_tables option" where
  "insert_topology_snapshot row t =
     map_option (\<lambda>rows. t\<lparr>at_topology_snapshots := rows\<rparr>)
       (insert_unless (\<lambda>r. ty_id r = ty_id row) row (at_topology_snapshots t))"

definition write_topology_snapshot :: "'w archive_env \<Rightarrow> topology_snapshot_input \<Rightarrow> ('w, rstr) v2_io" where
  "write_topology_snapshot env input =
     io_bind (now_ms env) (\<lambda>now.
     io_bind (or_new_id env (wt_id input)) (\<lambda>i.
     io_bind (v2_transaction env (
       io_bind (ensure_active_writer env (wt_writer_generation input) now) (\<lambda>_.
       io_bind (allocate_commit env (wt_session_id input) (lit ''topology_snapshot'') (wt_writer_generation input) now now) (\<lambda>commit.
         sql_insert env (insert_topology_snapshot
           \<lparr>ty_id = i, ty_session_id = wt_session_id input, ty_commit_id = ca_id commit,
            ty_high_water_commit_seq = ca_commit_seq commit, ty_pane_high_water_json = wt_pane_high_water input,
            ty_topology_json = wt_topology input, ty_checksum_algorithm = ''blake3'',
            ty_checksum = av_hash_text env (wt_topology input), ty_source = or_text (wt_source input) ''runtime'',
            ty_created_at_ms = now\<rparr>))))) (\<lambda>_. io_ok i)))"

end
