(* ===== verification/Archive_Record.thy ===== *)
theory Archive_Record
  imports Archive_Snapshot
begin

text \<open>
  What the runtime calls of the archive (\<open>event_capture/\<close> of \<open>v2/\<close>, the facade \<open>legacy/v2_facade/capture.rs\<close>):
  recording output, gaps and input of a pane. Each call writes the session and the pane, takes the lease of
  the writer, appends and gives the lease back; the facade tries again when the database is busy.
\<close>

section \<open>Commands of the user\<close>

definition insert_command_block :: "command_block_row \<Rightarrow> archive_tables \<Rightarrow> archive_tables" where
  "insert_command_block row t =
     (if list_ex (\<lambda>r. cb_row_id r = cb_row_id row) (at_command_blocks t) then t
      else t\<lparr>at_command_blocks := at_command_blocks t @ [row]\<rparr>)"

definition upsert_command_entry :: "command_entry_row \<Rightarrow> archive_tables \<Rightarrow> archive_tables" where
  "upsert_command_entry row t =
     (if list_ex (\<lambda>r. ch_id r = ch_id row) (at_command_entries t)
      then t\<lparr>at_command_entries := update_where (\<lambda>r. ch_id r = ch_id row)
             (\<lambda>r. r\<lparr>ch_last_used_at_ms := ch_last_used_at_ms row, ch_use_count := ch_use_count r + 1,
                    ch_command_block_id := ch_command_block_id row\<rparr>) (at_command_entries t)\<rparr>
      else t\<lparr>at_command_entries := at_command_entries t @ [row]\<rparr>)"

definition stable_ui_command_block_id :: "'w archive_env \<Rightarrow> rstr \<Rightarrow> rstr \<Rightarrow> rstr \<Rightarrow> rstr" where
  "stable_ui_command_block_id env sid p hash = lit ''command-block-'' @ av_hash_text env (sid @ [0] @ p @ [0] @ hash)"

definition stable_history_id :: "'w archive_env \<Rightarrow> rstr \<Rightarrow> rstr option \<Rightarrow> rstr option \<Rightarrow> rstr \<Rightarrow> rstr" where
  "stable_history_id env kind sid p hash =
     lit ''command-history-'' @ av_hash_text env (kind @ [0] @ (case sid of Some s \<Rightarrow> s | None \<Rightarrow> []) @ [0] @
       (case p of Some s \<Rightarrow> s | None \<Rightarrow> []) @ [0] @ hash)"

record ui_input_tx =
  ut_input :: ui_input_event
  ut_now :: int
  ut_payload :: journal_payload
  ut_payload_hash :: rstr
  ut_source_event_id_hash :: "rstr option"
  ut_capture_source_kind :: "rstr option"
  ut_command_text :: "rstr option"

definition ui_input_transaction_new :: "'w archive_env \<Rightarrow> ui_input_event \<Rightarrow> int \<Rightarrow> ui_input_tx" where
  "ui_input_transaction_new env input now =
     (let payload = UiInputPayload (ui_data input) (ui_is_paste input);
          hash = map_option (\<lambda>i. av_hash_text env (lit ''ui-input-client-event:'' @ i)) (ui_source_event_id input)
      in \<lparr>ut_input = input, ut_now = now, ut_payload = payload,
          ut_payload_hash = av_hash_text env (av_payload_text env payload), ut_source_event_id_hash = hash,
          ut_capture_source_kind = map_option (\<lambda>_. lit ''ui-input-'' @ av_hash_text env (ui_pane_id input)) hash,
          ut_command_text = (if ui_is_paste input then None else command_text_from_ui_input (ui_data input))\<rparr>)"

definition reuse_ui_input_receipt_if_possible :: "'w archive_env \<Rightarrow> ui_input_tx \<Rightarrow> ('w, bool) v2_io" where
  "reuse_ui_input_receipt_if_possible env tx =
     (case (ut_capture_source_kind tx, ut_source_event_id_hash tx) of
        (Some kind, Some hash) \<Rightarrow>
          io_bind (sql_load env (load_capture_receipt (ui_session_id (ut_input tx)) kind hash)) (\<lambda>found.
            case found of
              None \<Rightarrow> io_ok False
            | Some receipt \<Rightarrow>
                if rc_source_payload_hash receipt \<noteq> ut_payload_hash tx
                then io_err (V2InvalidData [MText ''ui input receipt payload hash mismatch for source_kind='', MString kind])
                else io_ok True)
      | _ \<Rightarrow> io_ok False)"

definition upsert_verified_command_history :: "'w archive_env \<Rightarrow> ui_input_tx \<Rightarrow> rstr \<Rightarrow> int \<Rightarrow> ('w, unit) v2_io" where
  "upsert_verified_command_history env tx commit event_seq =
     (let input = ut_input tx; now = ut_now tx in
      case ut_command_text tx of
        None \<Rightarrow> io_ok ()
      | Some command \<Rightarrow>
          io_bind (case ut_source_event_id_hash tx of
              Some hash \<Rightarrow> io_ok (stable_ui_command_block_id env (ui_session_id input) (ui_pane_id input) hash)
            | None \<Rightarrow> new_id env) (\<lambda>block.
          io_bind (sql_execute env (insert_command_block
              \<lparr>cb_row_id = block, cb_session_id = ui_session_id input, cb_pane_id = ui_pane_id input, cb_commit_id = Some commit,
               cb_command_text = Some command, cb_submitted_event_seq = Some event_seq, cb_created_at_ms = now\<rparr>)) (\<lambda>_.
          let hash = av_command_hash env command
          in sql_execute env (upsert_command_entry
               \<lparr>ch_id = stable_history_id env (lit ''session'') (Some (ui_session_id input)) (Some (ui_pane_id input)) hash,
                ch_session_id = Some (ui_session_id input), ch_pane_id = Some (ui_pane_id input),
                ch_command_block_id = Some block, ch_command_text = Some command, ch_command_hash = hash,
                ch_first_used_at_ms = now, ch_last_used_at_ms = now, ch_use_count = 1\<rparr>))))"

definition append_ui_input_body :: "'w archive_env \<Rightarrow> ui_input_tx \<Rightarrow> rstr \<Rightarrow> ('w, unit) v2_io" where
  "append_ui_input_body env tx writer =
     (let input = ut_input tx; now = ut_now tx; sid = ui_session_id input; p = ui_pane_id input in
      io_bind (reuse_ui_input_receipt_if_possible env tx) (\<lambda>reused.
      if reused then io_ok () else
      io_bind (ensure_active_writer env writer now) (\<lambda>_.
      io_bind (allocate_commit env sid (lit ''ui_input'') writer now now) (\<lambda>commit.
      io_bind (load_stream_cursor env sid p default_stream_id) (\<lambda>cursor.
      io_bind (new_id env) (\<lambda>i.
      io_bind (sql_insert env (insert_event
          \<lparr>je_id = i, je_session_id = sid, je_pane_id = Some p, je_commit_id = ca_id commit, je_stream_id = default_stream_id,
           je_scope_kind = ''pane'', je_scope_id = p, je_event_seq = sk_next_event_seq cursor,
           je_event_type = (if ui_is_paste input then lit ''terminal_paste_input'' else lit ''terminal_input''),
           je_byte_range = None, je_payload_json = Some (ut_payload tx), je_source_event_id_hash = ut_source_event_id_hash tx,
           je_occurred_at_ms = now, je_created_at_ms = now, je_capture_semantics = lit ''ui_input'',
           je_trust_level = lit ''verified''\<rparr>)) (\<lambda>_.
      io_bind (execute_advance_cursor env (sk_id cursor) (sk_next_event_seq cursor + 1) (sk_next_byte_seq cursor) now) (\<lambda>_.
      io_bind (sql_execute env (update_pane_last_event_seq p (sk_next_event_seq cursor))) (\<lambda>_.
      io_bind (upsert_verified_command_history env tx (ca_id commit) (sk_next_event_seq cursor)) (\<lambda>_.
        insert_receipt_if_needed env (ut_capture_source_kind tx) (ut_source_event_id_hash tx) sid (ca_id commit)
          (ut_payload_hash tx) now now))))))))))"

definition append_ui_input_event_and_command :: "'w archive_env \<Rightarrow> ui_input_event \<Rightarrow> rstr \<Rightarrow> ('w, unit) v2_io" where
  "append_ui_input_event_and_command env input writer =
     io_bind (now_ms env) (\<lambda>now. v2_transaction env (append_ui_input_body env (ui_input_transaction_new env input now) writer))"

section \<open>Recording\<close>

text \<open>The operation under the lease of a writer, which is given back whatever happens.\<close>

definition with_writer :: "'w archive_env \<Rightarrow> string \<Rightarrow> (rstr \<Rightarrow> ('w, 'a) v2_io) \<Rightarrow> ('w, 'a) v2_io" where
  "with_writer env process operation =
     io_bind (acquire_writer_generation_with_retry env (lit process) 60000) (\<lambda>lease st.
       case operation (wl_id lease) st of
         (result, st1) \<Rightarrow>
           (case release_writer_generation env (wl_id lease) st1 of
              (released, st2) \<Rightarrow>
                (case result of Inl e \<Rightarrow> Inl e | Inr x \<Rightarrow> (case released of Inl e \<Rightarrow> Inl e | Inr u \<Rightarrow> Inr x), st2)))"

definition dimension :: "i32 option \<Rightarrow> int \<Rightarrow> int" where
  "dimension d fallback = (case d of Some n \<Rightarrow> sint n | None \<Rightarrow> fallback)"

definition upsert_capture_target ::
    "'w archive_env \<Rightarrow> 'i evidence_input_scheme \<Rightarrow> rstr \<Rightarrow> rstr \<Rightarrow> rstr option \<Rightarrow> i32 option \<Rightarrow> i32 option \<Rightarrow> ('w, unit) v2_io" where
  "upsert_capture_target env input source p tab rows cols =
     io_bind (upsert_runtime_session env \<lparr>xi_id = ev_session_id input, xi_route = ev_route input, xi_title = ev_title input,
         xi_launch = ev_launch input, xi_source = source, xi_private_mode = False\<rparr>) (\<lambda>_.
       upsert_runtime_pane env \<lparr>pi_id = p, pi_session_id = ev_session_id input, pi_tab_id = tab, pi_stream_id = None,
         pi_title = None, pi_rows = dimension rows 24, pi_cols = dimension cols 80\<rparr>)"

definition record_terminal_output_event :: "'w archive_env \<Rightarrow> terminal_output_input \<Rightarrow> ('w, stream_segment_receipt) v2_io" where
  "record_terminal_output_event env input =
     io_bind (upsert_capture_target env input (lit ''runtime_output_capture'') (to_pane_id input) (to_tab_id input)
         (to_rows input) (to_cols input)) (\<lambda>_.
     io_bind (sql_load env (session_private (ev_session_id input))) (\<lambda>private_mode.
       if private_mode
       then io_err (V2InvalidData [MText ''private mode suppresses durable terminal output capture''])
       else with_writer env ''runtime-output-capture'' (\<lambda>writer. append_stream_segment env
         \<lparr>gi_session_id = ev_session_id input, gi_pane_id = to_pane_id input, gi_stream_id = None,
          gi_writer_generation = writer, gi_payload = to_payload input, gi_event_type = Some (lit ''terminal_output''),
          gi_event_count = 1, gi_occurred_at_ms = map_option sint (to_occurred_at_ms input),
          gi_capture_semantics = to_capture_semantics input, gi_trust_level = Some (lit ''captured''), gi_payload_json = None,
          gi_source_event_id_hash = map_option (\<lambda>n. av_hash_text env (lit ''raw-output-seq:'' @ show_nat (unat n)))
            (to_source_sequence input)\<rparr>)))"

definition record_history_gap_event :: "'w archive_env \<Rightarrow> history_gap_input \<Rightarrow> ('w, journal_event_receipt) v2_io" where
  "record_history_gap_event env input =
     io_bind (upsert_capture_target env input (lit ''runtime_output_capture'') (hg_pane_id input) (hg_tab_id input)
         (hg_rows input) (hg_cols input)) (\<lambda>_.
       with_writer env ''runtime-output-gap'' (\<lambda>writer. append_history_gap_event env (ev_session_id input) (hg_pane_id input)
         writer (hg_skipped_events input) (map_option sint (hg_estimated_dropped_bytes input)) (hg_reason input)
         (map_option sint (hg_occurred_at_ms input))))"

definition record_ui_input_event :: "'w archive_env \<Rightarrow> ui_input_event \<Rightarrow> ('w, unit) v2_io" where
  "record_ui_input_event env input =
     io_bind (upsert_runtime_session env \<lparr>xi_id = ui_session_id input, xi_route = ui_route input, xi_title = ui_title input,
         xi_launch = ui_launch input, xi_source = lit ''runtime_ui_input'', xi_private_mode = False\<rparr>) (\<lambda>_.
     io_bind (upsert_runtime_pane env \<lparr>pi_id = ui_pane_id input, pi_session_id = ui_session_id input, pi_tab_id = None,
         pi_stream_id = None, pi_title = None, pi_rows = dimension (ui_rows input) 24, pi_cols = dimension (ui_cols input) 80\<rparr>) (\<lambda>_.
     io_bind (sql_load env (session_private (ui_session_id input))) (\<lambda>private_mode.
       if private_mode then io_err (V2InvalidData [MText ''private mode suppresses durable ui input history''])
       else with_writer env ''runtime-ui-input'' (append_ui_input_event_and_command env input))))"

section \<open>The facade\<close>

definition is_retryable_v2_write_error :: "v2_error \<Rightarrow> bool" where
  "is_retryable_v2_write_error e =
     (case e of
        V2WriterAlreadyActive \<Rightarrow> True
      | V2Connection e1 \<Rightarrow> True
      | V2Query e1 \<Rightarrow> is_retryable_text e1 \<or> contains_str (lit ''active terminal writer generation'') (map ascii_lower e1)
      | _ \<Rightarrow> False)"

text \<open>\<open>attempts\<close> are left of 80.\<close>

fun retry_v2_from :: "'w archive_env \<Rightarrow> ('w, 'a) v2_io \<Rightarrow> v2_error option \<Rightarrow> nat \<Rightarrow> ('w, 'a) v2_io" where
  "retry_v2_from env operation last_error 0 st =
     (Inl (case last_error of Some e \<Rightarrow> e | None \<Rightarrow> V2InvalidData [MText ''v2 write retry exhausted'']), st)"
| "retry_v2_from env operation last_error (Suc attempts) st =
     (case operation st of
        (Inr x, st1) \<Rightarrow> (Inr x, st1)
      | (Inl e, st1) \<Rightarrow>
          if is_retryable_v2_write_error e
          then retry_v2_from env operation (Some e) attempts
                 (av_sleep env (10 + min (79 - attempts) 20 * 5) (fst st1), snd st1)
          else (Inl e, st1))"

definition retry_v2_write :: "'w archive_env \<Rightarrow> ('w, 'a) v2_io \<Rightarrow> ('w, 'a) v2_io" where
  "retry_v2_write env operation = retry_v2_from env operation None 80"

text \<open>The other records of the capture go to tables of their own; \<open>other\<close> is what becomes of them.\<close>

definition record_v2 ::
    "'w archive_env \<Rightarrow> (archive_input \<Rightarrow> ('w, unit) v2_io) \<Rightarrow> archive_input \<Rightarrow> ('w, unit) v2_io" where
  "record_v2 env other input =
     (case input of
        TerminalOutput i \<Rightarrow> retry_v2_write env (io_map (\<lambda>_. ()) (record_terminal_output_event env i))
      | HistoryGap i \<Rightarrow> retry_v2_write env (io_map (\<lambda>_. ()) (record_history_gap_event env i))
      | _ \<Rightarrow> other input)"

definition record_v2_ui_input :: "'w archive_env \<Rightarrow> ui_input_event \<Rightarrow> ('w, unit) v2_io" where
  "record_v2_ui_input env input = retry_v2_write env (record_ui_input_event env input)"

end
