(* ===== verification/Archive_Check.thy ===== *)
theory Archive_Check
  imports Archive_Record
begin

text \<open>
  The checks of the archive at startup and on demand (\<open>integrity/high_water.rs\<close>,
  \<open>integrity/canonical_validation/\<close>): that the cursors are one past the highest numbers of their streams,
  that segments do not overlap and that the commits of a session are numbered without holes. A failure is a
  message. Of \<open>run_integrity_check\<close> these are the sequence checks and the hydration of segments; \<open>quick_check\<close>, the foreign
  keys, the payload schemas and the other tables (\<open>history_validation\<close>, \<open>snapshot_validation\<close>) are not modelled.
\<close>

section \<open>High water\<close>

definition sql_max :: "int list \<Rightarrow> int option" where
  "sql_max ns = (if ns = [] then None else Some (Max (set ns)))"

definition in_stream :: "rstr option \<Rightarrow> rstr \<Rightarrow> bool" where
  "in_stream filter_id stream = (case filter_id of None \<Rightarrow> True | Some s \<Rightarrow> stream = s)"

definition pane_segments :: "rstr \<Rightarrow> rstr \<Rightarrow> rstr option \<Rightarrow> archive_tables \<Rightarrow> segment_row list" where
  "pane_segments sid p stream t =
     filter (\<lambda>r. sg_session_id r = sid \<and> sg_pane_id r = p \<and> in_stream stream (sg_stream_id r)) (at_segments t)"

definition pane_events :: "rstr \<Rightarrow> rstr \<Rightarrow> rstr option \<Rightarrow> archive_tables \<Rightarrow> journal_event_row list" where
  "pane_events sid p stream t =
     filter (\<lambda>r. je_session_id r = sid \<and> je_pane_id r = Some p \<and> in_stream stream (je_stream_id r)) (at_events t)"

definition pane_gaps :: "rstr \<Rightarrow> rstr \<Rightarrow> rstr option \<Rightarrow> archive_tables \<Rightarrow> history_gap_row list" where
  "pane_gaps sid p stream t =
     filter (\<lambda>r. gp_session_id r = sid \<and> gp_pane_id r = Some p \<and> in_stream stream (gp_stream_id r)) (at_gaps t)"

definition max_stream_segment_event_high :: "rstr \<Rightarrow> rstr \<Rightarrow> rstr option \<Rightarrow> archive_tables \<Rightarrow> int option" where
  "max_stream_segment_event_high sid p stream t = sql_max (map sg_event_seq_high (pane_segments sid p stream t))"

definition max_stream_segment_byte_high :: "rstr \<Rightarrow> rstr \<Rightarrow> rstr option \<Rightarrow> archive_tables \<Rightarrow> int option" where
  "max_stream_segment_byte_high sid p stream t = sql_max (map sg_byte_high (pane_segments sid p stream t))"

definition max_journal_event_seq :: "rstr \<Rightarrow> rstr \<Rightarrow> rstr option \<Rightarrow> archive_tables \<Rightarrow> int option" where
  "max_journal_event_seq sid p stream t = sql_max (map je_event_seq (pane_events sid p stream t))"

definition max_history_gap_event_high :: "rstr \<Rightarrow> rstr \<Rightarrow> rstr option \<Rightarrow> archive_tables \<Rightarrow> int option" where
  "max_history_gap_event_high sid p stream t =
     sql_max (List.map_filter gp_event_seq_high (pane_gaps sid p stream t))"

definition max_optional_i64 :: "int option list \<Rightarrow> int option" where
  "max_optional_i64 values = (case List.map_filter id values of [] \<Rightarrow> None | n # ns \<Rightarrow> Some (foldl max n ns))"

text \<open>The three queries for the numbers of a pane, one after the other.\<close>

definition load_event_high :: "'w archive_env \<Rightarrow> rstr \<Rightarrow> rstr \<Rightarrow> rstr option \<Rightarrow> ('w, int option) v2_io" where
  "load_event_high env sid p stream =
     io_bind (sql_load env (max_stream_segment_event_high sid p stream)) (\<lambda>segment_high.
     io_bind (sql_load env (max_journal_event_seq sid p stream)) (\<lambda>journal_high.
     io_bind (sql_load env (max_history_gap_event_high sid p stream)) (\<lambda>gap_high.
       io_ok (max_optional_i64 [segment_high, journal_high, gap_high]))))"

section \<open>Cursors and panes\<close>

definition show_int :: "int \<Rightarrow> rstr" where
  "show_int n = (if n < 0 then 45 # show_nat (nat (- n)) else show_nat (nat n))"

definition expected_failure :: "string \<Rightarrow> rstr \<Rightarrow> string \<Rightarrow> int \<Rightarrow> int \<Rightarrow> message list" where
  "expected_failure kind i column actual expected =
     (if actual = expected then []
      else [[MText kind, MText '':'', MString i, MText '' '', MText column, MText ''='', MString (show_int actual),
             MText '' expected='', MString (show_int expected)]])"

definition of_session :: "rstr option \<Rightarrow> rstr \<Rightarrow> bool" where
  "of_session filter_id sid = (case filter_id of None \<Rightarrow> True | Some s \<Rightarrow> sid = s)"

fun check_stream_cursors :: "'w archive_env \<Rightarrow> stream_cursor_row list \<Rightarrow> message list \<Rightarrow> ('w, message list) v2_io" where
  "check_stream_cursors env [] failures = io_ok failures"
| "check_stream_cursors env (c # cursors) failures =
     io_bind (load_event_high env (sk_session_id c) (sk_pane_id c) (Some (sk_stream_id c))) (\<lambda>high.
     let event_failures = (case high of None \<Rightarrow> []
           | Some h \<Rightarrow> expected_failure ''stream_cursor'' (sk_id c) ''next_event_seq'' (sk_next_event_seq c) (h + 1)) in
     io_bind (sql_load env (max_stream_segment_byte_high (sk_session_id c) (sk_pane_id c) (Some (sk_stream_id c)))) (\<lambda>byte_high.
     let expected = (case byte_high of None \<Rightarrow> 0 | Some b \<Rightarrow> b) in
     check_stream_cursors env cursors
       (failures @ event_failures @ expected_failure ''stream_cursor'' (sk_id c) ''next_byte_seq'' (sk_next_byte_seq c) expected)))"

definition validate_stream_cursor_invariants ::
    "'w archive_env \<Rightarrow> rstr option \<Rightarrow> message list \<Rightarrow> ('w, message list) v2_io" where
  "validate_stream_cursor_invariants env sid failures =
     io_bind (sql_load env (\<lambda>t. filter (\<lambda>c. of_session sid (sk_session_id c)) (at_stream_cursors t))) (\<lambda>cursors.
       check_stream_cursors env cursors failures)"

fun check_panes :: "'w archive_env \<Rightarrow> pane_row list \<Rightarrow> message list \<Rightarrow> ('w, message list) v2_io" where
  "check_panes env [] failures = io_ok failures"
| "check_panes env (r # panes) failures =
     io_bind (load_event_high env (xp_session_id r) (xp_id r) None) (\<lambda>high.
     check_panes env panes (failures @ (case high of None \<Rightarrow> []
       | Some h \<Rightarrow> expected_failure ''pane'' (xp_id r) ''last_event_seq'' (xp_last_event_seq r) h)))"

definition validate_pane_last_event_invariants ::
    "'w archive_env \<Rightarrow> rstr option \<Rightarrow> message list \<Rightarrow> ('w, message list) v2_io" where
  "validate_pane_last_event_invariants env sid failures =
     io_bind (sql_load env (\<lambda>t. filter (\<lambda>r. of_session sid (xp_session_id r)) (at_panes t))) (\<lambda>panes.
       check_panes env panes failures)"

section \<open>Segments\<close>

definition segment_order :: "segment_row \<Rightarrow> rstr \<times> rstr \<times> rstr \<times> int \<times> int" where
  "segment_order r = (sg_session_id r, sg_pane_id r, sg_stream_id r, sg_event_seq_low r, sg_byte_low r)"

definition segment_overlaps :: "segment_row \<Rightarrow> segment_row \<Rightarrow> message list" where
  "segment_overlaps previous r =
     (if sg_session_id previous = sg_session_id r \<and> sg_pane_id previous = sg_pane_id r \<and> sg_stream_id previous = sg_stream_id r
      then (if sg_event_seq_low r \<le> sg_event_seq_high previous
            then [[MText ''stream_segment:'', MString (sg_id r), MText '' overlaps stream_segment:'', MString (sg_id previous),
                   MText '' event range'']] else []) @
           (if sg_byte_low r < sg_byte_high previous
            then [[MText ''stream_segment:'', MString (sg_id r), MText '' overlaps stream_segment:'', MString (sg_id previous),
                   MText '' byte range'']] else [])
      else [])"

fun check_segments :: "segment_row option \<Rightarrow> segment_row list \<Rightarrow> message list" where
  "check_segments previous [] = []"
| "check_segments previous (r # rows) =
     (case previous of None \<Rightarrow> [] | Some q \<Rightarrow> segment_overlaps q r) @ check_segments (Some r) rows"

definition validate_stream_segment_ordering ::
    "'w archive_env \<Rightarrow> rstr option \<Rightarrow> message list \<Rightarrow> ('w, message list) v2_io" where
  "validate_stream_segment_ordering env sid failures =
     io_bind (sql_load env (\<lambda>t. sort_key segment_order (filter (\<lambda>r. of_session sid (sg_session_id r)) (at_segments t)))) (\<lambda>rows.
       io_ok (failures @ check_segments None rows))"

definition validate_stream_segment_ranges :: "segment_row \<Rightarrow> message list" where
  "validate_stream_segment_ranges r =
     (if sg_event_seq_high r < sg_event_seq_low r
      then [[MText ''stream_segment:'', MString (sg_id r), MText '' invalid event range '',
             MString (show_int (sg_event_seq_low r)), MText ''..'', MString (show_int (sg_event_seq_high r))]] else []) @
     (if sg_byte_high r < sg_byte_low r
      then [[MText ''stream_segment:'', MString (sg_id r), MText '' invalid byte range '',
             MString (show_int (sg_byte_low r)), MText ''..'', MString (show_int (sg_byte_high r))]]
      else expected_failure ''stream_segment'' (sg_id r) ''payload_len'' (sg_payload_len r) (sg_byte_high r - sg_byte_low r) @
        (if sg_stored_byte_len r = min (int (length (sg_payload r))) i64_max then []
         else [[MText ''stream_segment:'', MString (sg_id r), MText '' stored_byte_len='', MString (show_int (sg_stored_byte_len r)),
                MText '' actual='', MString (show_nat (length (sg_payload r)))]]))"

definition validate_checksum_bytes ::
    "'w archive_env \<Rightarrow> string \<Rightarrow> rstr \<Rightarrow> u8 list \<Rightarrow> string \<Rightarrow> rstr \<Rightarrow> message list" where
  "validate_checksum_bytes env row_kind i payload algorithm expected =
     (if algorithm \<noteq> ''blake3''
      then [[MText row_kind, MText '':'', MString i, MText '' uses unsupported checksum algorithm '', MText algorithm]]
      else if av_hash env payload \<noteq> expected then [[MText row_kind, MText '':'', MString i, MText '' checksum mismatch'']]
      else [])"

text \<open>What keeps a segment from being read back.\<close>

definition stream_segment_hydration_failure :: "'w archive_env \<Rightarrow> segment_row \<Rightarrow> message option" where
  "stream_segment_hydration_failure env r =
     (case validate_stream_segment_ranges r @
        validate_checksum_bytes env ''stream_segment'' (sg_id r) (sg_payload r) (sg_checksum_algorithm r) (sg_checksum r)
      of [] \<Rightarrow> None | failure # failures \<Rightarrow> Some failure)"

section \<open>Commits\<close>

fun check_session_cursors :: "'w archive_env \<Rightarrow> session_cursor_row list \<Rightarrow> message list \<Rightarrow> ('w, message list) v2_io" where
  "check_session_cursors env [] failures = io_ok failures"
| "check_session_cursors env (c # cursors) failures =
     io_bind (sql_load env (\<lambda>t. sql_max (map cm_commit_seq (filter (\<lambda>r. cm_session_id r = xc_session_id c) (at_commits t))))) (\<lambda>high.
       check_session_cursors env cursors (failures @
         expected_failure ''session_cursor'' (xc_session_id c) ''next_commit_seq'' (xc_next_commit_seq c)
           ((case high of None \<Rightarrow> 0 | Some n \<Rightarrow> n) + 1)))"

fun check_commits :: "rstr option \<Rightarrow> int \<Rightarrow> commit_row list \<Rightarrow> message list" where
  "check_commits previous expected [] = []"
| "check_commits previous expected (r # rows) =
     (let expected = (if previous = Some (cm_session_id r) then expected else 1) in
      expected_failure ''commit_log'' (cm_id r) ''commit_seq'' (cm_commit_seq r) expected @
      check_commits (Some (cm_session_id r)) (cm_commit_seq r + 1) rows)"

definition validate_commit_sequence_invariants ::
    "'w archive_env \<Rightarrow> rstr option \<Rightarrow> message list \<Rightarrow> ('w, message list) v2_io" where
  "validate_commit_sequence_invariants env sid failures =
     io_bind (sql_load env (\<lambda>t. filter (\<lambda>c. of_session sid (xc_session_id c)) (at_session_cursors t))) (\<lambda>cursors.
     io_bind (check_session_cursors env cursors failures) (\<lambda>failures.
     io_bind (sql_load env (\<lambda>t. sort_key (\<lambda>r. (cm_session_id r, cm_commit_seq r))
         (filter (\<lambda>r. of_session sid (cm_session_id r)) (at_commits t)))) (\<lambda>commits.
       io_ok (failures @ check_commits None 1 commits))))"

definition validate_sequence_invariants :: "'w archive_env \<Rightarrow> rstr option \<Rightarrow> message list \<Rightarrow> ('w, message list) v2_io" where
  "validate_sequence_invariants env sid failures =
     io_bind (validate_stream_cursor_invariants env sid failures) (\<lambda>failures.
     io_bind (validate_pane_last_event_invariants env sid failures) (\<lambda>failures.
     io_bind (validate_stream_segment_ordering env sid failures) (\<lambda>failures.
       validate_commit_sequence_invariants env sid failures)))"

end
