(* ===== verification/Archive_Rules.thy ===== *)
theory Archive_Rules
  imports Archive_Check
begin

text \<open>
  Weakest preconditions for the operations of the archive: \<open>v2_ok m Q t\<close> says that \<open>m\<close>, started on the tables
  \<open>t\<close>, ends in tables with \<open>Q\<close> if it succeeds, whatever SQLite, the clock and the identifiers do. The rules
  are applied by \<open>intro v2_ok_intros\<close>, one for each statement of an operation.
\<close>

definition v2_ok :: "('w, 'a) v2_io \<Rightarrow> ('a \<Rightarrow> archive_tables \<Rightarrow> bool) \<Rightarrow> archive_tables \<Rightarrow> bool" where
  "v2_ok m Q t \<longleftrightarrow> (\<forall>st x st1. snd st = t \<longrightarrow> m st = (Inr x, st1) \<longrightarrow> Q x (snd st1))"

named_theorems v2_ok_intros

lemma v2_okI: "(\<And>st x st1. snd st = t \<Longrightarrow> m st = (Inr x, st1) \<Longrightarrow> Q x (snd st1)) \<Longrightarrow> v2_ok m Q t"
  by (auto simp: v2_ok_def)

lemma v2_okD: "v2_ok m Q t \<Longrightarrow> m st = (Inr x, st1) \<Longrightarrow> snd st = t \<Longrightarrow> Q x (snd st1)"
  unfolding v2_ok_def by blast

lemma v2_ok_bind [v2_ok_intros]: "v2_ok m (\<lambda>x. v2_ok (f x) Q) t \<Longrightarrow> v2_ok (io_bind m f) Q t"
  by (rule v2_okI) (erule io_bind_InrE, auto dest: v2_okD)

lemma v2_ok_basic [v2_ok_intros]:
  "Q x t \<Longrightarrow> v2_ok (io_ok x) Q t"
  "v2_ok (io_err e) Q t"
  "(\<And>x. r = Inr x \<Longrightarrow> Q x t) \<Longrightarrow> v2_ok (io_lift r) Q t"
  by (auto simp: v2_ok_def io_ok_def io_err_def io_lift_def)

lemma v2_ok_new_id [v2_ok_intros]: "(\<And>i. Q i t) \<Longrightarrow> v2_ok (new_id env) Q t"
  by (auto simp: v2_ok_def dest: new_id_Inr)

lemma v2_ok_now [v2_ok_intros]: "(\<And>n. Q n t) \<Longrightarrow> v2_ok (now_ms env) Q t"
  by (auto simp: v2_ok_def now_ms_def)

lemma v2_ok_load [v2_ok_intros]: "Q (f t) t \<Longrightarrow> v2_ok (sql_load env f) Q t"
  by (auto simp: v2_ok_def dest: sql_load_Inr)

lemma v2_ok_first [v2_ok_intros]: "(\<And>x. f t = Some x \<Longrightarrow> Q x t) \<Longrightarrow> v2_ok (sql_first env f) Q t"
  by (auto simp: v2_ok_def dest: sql_first_Inr)

lemma v2_ok_execute [v2_ok_intros]: "Q () (f t) \<Longrightarrow> v2_ok (sql_execute env f) Q t"
  by (auto simp: v2_ok_def dest: sql_execute_Inr)

lemma v2_ok_insert: "(\<And>t1. f t = Some t1 \<Longrightarrow> Q () t1) \<Longrightarrow> v2_ok (sql_insert env f) Q t"
  by (auto simp: v2_ok_def dest: sql_insert_Inr)

lemma v2_ok_statement [v2_ok_intros]: "(\<And>x t1. f t = Inr (x, t1) \<Longrightarrow> Q x t1) \<Longrightarrow> v2_ok (sql_statement env f) Q t"
  by (rule v2_okI) (use sql_statement_InrE in fastforce)

lemma v2_ok_advance [v2_ok_intros]:
  "Q () (advance_stream_cursor cursor next_event next_byte now t) \<Longrightarrow> v2_ok (execute_advance_cursor env cursor next_event next_byte now) Q t"
  unfolding execute_advance_cursor_def by (rule v2_ok_statement) (auto split: if_splits)

lemma v2_ok_if [v2_ok_intros]:
  "(b \<Longrightarrow> v2_ok m Q t) \<Longrightarrow> (\<not> b \<Longrightarrow> v2_ok n Q t) \<Longrightarrow> v2_ok (if b then m else n) Q t"
  by simp

lemma v2_ok_option [v2_ok_intros]:
  "(x = None \<Longrightarrow> v2_ok m Q t) \<Longrightarrow> (\<And>y. x = Some y \<Longrightarrow> v2_ok (f y) Q t) \<Longrightarrow>
   v2_ok (case x of None \<Rightarrow> m | Some y \<Rightarrow> f y) Q t"
  by (cases x) auto

lemma v2_ok_let [v2_ok_intros]: "v2_ok (f x) Q t \<Longrightarrow> v2_ok (Let x f) Q t"
  by simp

lemma v2_ok_map [v2_ok_intros]: "v2_ok m (\<lambda>x. Q (f x)) t \<Longrightarrow> v2_ok (io_map f m) Q t"
  unfolding io_map_def by (rule v2_ok_bind) (simp add: v2_ok_def io_ok_def)

lemma v2_ok_on_error [v2_ok_intros]: "v2_ok m Q t \<Longrightarrow> v2_ok (on_error f m) Q t"
  by (auto simp: v2_ok_def on_error_def split: prod.splits sum.splits)

lemma v2_ok_transaction [v2_ok_intros]: "v2_ok body Q t \<Longrightarrow> v2_ok (v2_transaction env body) Q t"
  by (rule v2_okI) (erule v2_transaction_Inr, metis v2_okD)

lemma v2_ok_mono: "v2_ok m Q t \<Longrightarrow> (\<And>x t1. Q x t1 \<Longrightarrow> R x t1) \<Longrightarrow> v2_ok m R t"
  by (auto simp: v2_ok_def)

lemma v2_ok_conj: "v2_ok m Q t \<Longrightarrow> v2_ok m R t \<Longrightarrow> v2_ok m (\<lambda>x t1. Q x t1 \<and> R x t1) t"
  by (auto simp: v2_ok_def)

text \<open>What holds after the body of a transaction holds after the transaction, and otherwise nothing changed.\<close>

lemma v2_keeps_ok: "(\<And>t. I t \<Longrightarrow> v2_ok body (\<lambda>x. I) t) \<Longrightarrow> v2_keeps I (v2_transaction env body)"
  by (rule v2_keeps_transaction) (metis v2_okD)

lemma v2_keeps_now: "(\<And>now. v2_keeps I (f now)) \<Longrightarrow> v2_keeps I (io_bind (now_ms env) f)"
  by (intro v2_keeps_intros)

section \<open>Parts that many operations share\<close>

lemma find_in_set: "find p xs = Some x \<Longrightarrow> x \<in> set xs \<and> p x"
  by (metis find_Some_iff nth_mem)

lemma update_where_map: "(\<And>r. f (g r) = f r) \<Longrightarrow> map f (update_where p g rows) = map f rows"
  by (auto simp: update_where_def)

lemma in_update_where: "r \<in> set (update_where p g rows) \<longleftrightarrow> (\<exists>q\<in>set rows. r = (if p q then g q else q))"
  by (auto simp: update_where_def)

lemma update_where_append: "update_where p g (xs @ ys) = update_where p g xs @ update_where p g ys"
  by (simp add: update_where_def)

lemma update_where_never: "\<forall>r\<in>set rows. \<not> p r \<Longrightarrow> update_where p g rows = rows"
  by (induction rows) (auto simp: update_where_def)

lemma v2_ok_ensure_writer [v2_ok_intros]:
  "(\<And>row. row \<in> set (at_writers t) \<Longrightarrow> wg_id row = writer \<Longrightarrow> writer_active row \<Longrightarrow> now \<le> wg_lease_expires_at_ms row \<Longrightarrow> Q () t)
   \<Longrightarrow> v2_ok (ensure_active_writer env writer now) Q t"
  unfolding ensure_active_writer_def by (intro v2_ok_intros) (auto dest: find_in_set)

text \<open>A commit takes the next number of its session.\<close>

definition commit_step :: "rstr \<Rightarrow> commit_allocation \<Rightarrow> archive_tables \<Rightarrow> archive_tables \<Rightarrow> bool" where
  "commit_step sid commit t t1 \<longleftrightarrow>
     (\<exists>c\<in>set (at_session_cursors t). \<exists>row next writer now. xc_session_id c = sid \<and>
        ca_commit_seq commit = xc_next_commit_seq c \<and> cm_session_id row = sid \<and> cm_commit_seq row = xc_next_commit_seq c \<and>
        cm_id row = ca_id commit \<and> ca_id commit \<notin> cm_id ` set (at_commits t) \<and> next = xc_next_commit_seq c + 1 \<and>
        t1 = advance_session_cursor sid next writer now (t\<lparr>at_commits := at_commits t @ [row]\<rparr>))"

lemma v2_ok_allocate [v2_ok_intros]:
  assumes "\<And>commit t1. commit_step sid commit t t1 \<Longrightarrow> Q commit t1"
  shows "v2_ok (allocate_commit env sid kind writer occurred now) Q t"
  unfolding allocate_commit_def
proof (intro v2_ok_intros v2_ok_insert)
  fix c :: session_cursor_row and i t1
  let ?row = "\<lparr>cm_id = i, cm_session_id = sid, cm_commit_seq = xc_next_commit_seq c, cm_commit_kind = kind,
    cm_writer_generation = writer, cm_occurred_at_ms = occurred, cm_created_at_ms = now\<rparr>"
  assume c: "find (\<lambda>c. xc_session_id c = sid) (at_session_cursors t) = Some c" and row: "insert_commit ?row t = Some t1"
  have "i \<notin> cm_id ` set (at_commits t)" and t1: "t1 = t\<lparr>at_commits := at_commits t @ [?row]\<rparr>"
    using row by (auto simp: insert_commit_def list_ex_iff)
  then have "commit_step sid \<lparr>ca_id = i, ca_commit_seq = xc_next_commit_seq c\<rparr> t
      (advance_session_cursor sid (xc_next_commit_seq c + 1) writer now t1)"
    unfolding commit_step_def using find_in_set [OF c]
    by (intro bexI [of _ c] exI [of _ ?row] exI [of _ "xc_next_commit_seq c + 1"] exI [of _ writer] exI [of _ now]) simp_all
  then show "Q \<lparr>ca_id = i, ca_commit_seq = xc_next_commit_seq c\<rparr> (advance_session_cursor sid (xc_next_commit_seq c + 1) writer now t1)"
    by (rule assms)
qed

lemma commit_step_fields:
  assumes "commit_step sid commit t t1"
  shows "at_writers t1 = at_writers t" "at_sessions t1 = at_sessions t" "at_panes t1 = at_panes t"
    "at_stream_cursors t1 = at_stream_cursors t" "at_segments t1 = at_segments t" "at_events t1 = at_events t"
    "at_gaps t1 = at_gaps t" "at_receipts t1 = at_receipts t"
  using assms by (auto simp: commit_step_def advance_session_cursor_def)

lemma v2_ok_load_cursor [v2_ok_intros]:
  "(\<And>c. c \<in> set (at_stream_cursors t) \<Longrightarrow> sk_session_id c = sid \<Longrightarrow> sk_pane_id c = p \<Longrightarrow> sk_stream_id c = stream \<Longrightarrow> Q c t)
   \<Longrightarrow> v2_ok (load_stream_cursor env sid p stream) Q t"
  unfolding load_stream_cursor_def by (intro v2_ok_intros) (auto dest: find_in_set)

lemma v2_ok_insert_event [v2_ok_intros]:
  "Q () (t\<lparr>at_events := at_events t @ [row]\<rparr>) \<Longrightarrow> v2_ok (sql_insert env (insert_event row)) Q t"
  by (intro v2_ok_insert) (auto simp: insert_event_def)

lemma v2_ok_insert_gap [v2_ok_intros]:
  "Q () (t\<lparr>at_gaps := at_gaps t @ [row]\<rparr>) \<Longrightarrow> v2_ok (sql_insert env (insert_gap row)) Q t"
  by (intro v2_ok_insert) (auto simp: insert_gap_def)

lemma v2_ok_insert_segment [v2_ok_intros]:
  "Q () (t\<lparr>at_segments := at_segments t @ [row]\<rparr>) \<Longrightarrow> v2_ok (sql_insert env (insert_segment row)) Q t"
  by (intro v2_ok_insert) (auto simp: insert_segment_def)

lemma v2_ok_enqueue [v2_ok_intros]:
  assumes "\<And>row. Q () (t\<lparr>at_outbox := at_outbox t @ [row]\<rparr>)"
  shows "v2_ok (enqueue_pane_history_projection env tx commit events bytes) Q t"
  unfolding enqueue_pane_history_projection_def by (intro v2_ok_intros v2_ok_insert) (auto simp: insert_outbox_def assms)

end
