(* ===== verification/Archive_Sequences.thy ===== *)
theory Archive_Sequences
  imports Archive_Rules
begin

text \<open>
  What every operation on the journal keeps: each stream of a pane is one gapless run of bytes cut into
  segments, its cursor is one past the highest number given out, the pane knows that number, and the commits
  of a session are numbered from one. The operations use the default stream, the only one the runtime names.
\<close>

section \<open>The streams\<close>

definition has_cursor :: "archive_tables \<Rightarrow> rstr \<Rightarrow> rstr \<Rightarrow> bool" where
  "has_cursor t sid p \<longleftrightarrow> (sid, p) \<in> (\<lambda>c. (sk_session_id c, sk_pane_id c)) ` set (at_stream_cursors t)"

definition pane_numbers :: "rstr \<Rightarrow> rstr \<Rightarrow> archive_tables \<Rightarrow> int list" where
  "pane_numbers sid p t =
     map sg_event_seq_high (pane_segments sid p None t) @ map je_event_seq (pane_events sid p None t) @
     List.map_filter gp_event_seq_high (pane_gaps sid p None t)"

text \<open>The segments cut the bytes from \<open>low\<close> to \<open>high\<close> into pieces, in order.\<close>

fun byte_chain :: "int \<Rightarrow> segment_row list \<Rightarrow> int \<Rightarrow> bool" where
  "byte_chain low [] high \<longleftrightarrow> low = high"
| "byte_chain low (r # rows) high \<longleftrightarrow>
     sg_byte_low r = low \<and> sg_byte_high r = low + int (length (sg_payload r)) \<and> sg_payload r \<noteq> [] \<and>
     byte_chain (sg_byte_high r) rows high"

definition events_in_order :: "segment_row list \<Rightarrow> bool" where
  "events_in_order rows \<longleftrightarrow> sorted_wrt (\<lambda>a b. sg_event_seq_high a < sg_event_seq_low b) rows \<and>
     (\<forall>r\<in>set rows. sg_event_seq_low r \<le> sg_event_seq_high r)"

definition stream_sound :: "archive_tables \<Rightarrow> stream_cursor_row \<Rightarrow> bool" where
  "stream_sound t c \<longleftrightarrow>
     (let ns = pane_numbers (sk_session_id c) (sk_pane_id c) t; rows = pane_segments (sk_session_id c) (sk_pane_id c) None t in
      (\<forall>n\<in>set ns. n < sk_next_event_seq c) \<and> (ns \<noteq> [] \<longrightarrow> sk_next_event_seq c - 1 \<in> set ns) \<and>
      byte_chain 0 rows (sk_next_byte_seq c) \<and> events_in_order rows)"

definition segment_sound :: "'w archive_env \<Rightarrow> archive_tables \<Rightarrow> segment_row \<Rightarrow> bool" where
  "segment_sound env t r \<longleftrightarrow> has_cursor t (sg_session_id r) (sg_pane_id r) \<and> sg_stream_id r = default_stream_id \<and>
     stream_segment_hydration_failure env r = None"

definition event_sound :: "archive_tables \<Rightarrow> journal_event_row \<Rightarrow> bool" where
  "event_sound t r \<longleftrightarrow> (\<forall>p. je_pane_id r = Some p \<longrightarrow> has_cursor t (je_session_id r) p \<and> je_stream_id r = default_stream_id)"

definition gap_sound :: "archive_tables \<Rightarrow> history_gap_row \<Rightarrow> bool" where
  "gap_sound t r \<longleftrightarrow> (\<forall>p. gp_pane_id r = Some p \<longrightarrow> has_cursor t (gp_session_id r) p \<and> gp_stream_id r = default_stream_id)"

definition cursor_of_pane :: "'w archive_env \<Rightarrow> rstr \<Rightarrow> rstr" where
  "cursor_of_pane env p = stream_cursor_id env p default_stream_id"

definition cursors_sound :: "'w archive_env \<Rightarrow> stream_cursor_row list \<Rightarrow> bool" where
  "cursors_sound env cursors \<longleftrightarrow> distinct (map sk_id cursors) \<and>
     (\<forall>c\<in>set cursors. sk_stream_id c = default_stream_id \<and> sk_id c = cursor_of_pane env (sk_pane_id c))"

definition panes_sound :: "'w archive_env \<Rightarrow> stream_cursor_row list \<Rightarrow> pane_row list \<Rightarrow> bool" where
  "panes_sound env cursors panes \<longleftrightarrow> distinct (map xp_id panes) \<and>
     (\<forall>r\<in>set panes. cursor_of_pane env (xp_id r) \<in> sk_id ` set cursors) \<and>
     (\<forall>c\<in>set cursors. \<exists>r\<in>set panes. xp_id r = sk_pane_id c \<and> xp_session_id r = sk_session_id c \<and>
        xp_last_event_seq r = sk_next_event_seq c - 1)"

definition streams_sound :: "'w archive_env \<Rightarrow> archive_tables \<Rightarrow> bool" where
  "streams_sound env t \<longleftrightarrow>
     cursors_sound env (at_stream_cursors t) \<and> panes_sound env (at_stream_cursors t) (at_panes t) \<and>
     (\<forall>c\<in>set (at_stream_cursors t). stream_sound t c) \<and> (\<forall>r\<in>set (at_segments t). segment_sound env t r) \<and>
     (\<forall>r\<in>set (at_events t). event_sound t r) \<and> (\<forall>r\<in>set (at_gaps t). gap_sound t r)"

lemmas row_defs = segment_sound_def event_sound_def gap_sound_def has_cursor_def

text \<open>Only six tables matter.\<close>

lemma streams_sound_cong:
  assumes "at_stream_cursors t1 = at_stream_cursors t" "at_panes t1 = at_panes t" "at_segments t1 = at_segments t"
    "at_events t1 = at_events t" "at_gaps t1 = at_gaps t"
  shows "streams_sound env t1 = streams_sound env t"
  unfolding streams_sound_def stream_sound_def row_defs pane_numbers_def pane_segments_def pane_events_def pane_gaps_def assms ..

section \<open>Appending to a stream\<close>

lemma byte_chain_append: "byte_chain low (xs @ ys) high \<longleftrightarrow> (\<exists>m. byte_chain low xs m \<and> byte_chain m ys high)"
  by (induction xs arbitrary: low) auto

lemma byte_chain_mono: "byte_chain low rows high \<Longrightarrow> low \<le> high"
  by (induction rows arbitrary: low) fastforce+

lemma cursor_unique:
  "cursors_sound env cursors \<Longrightarrow> c \<in> set cursors \<Longrightarrow> k \<in> set cursors \<Longrightarrow> sk_id k = sk_id c \<Longrightarrow> k = c"
  unfolding cursors_sound_def by (meson distinct_map inj_onD)

lemma cursor_pane_unique:
  "cursors_sound env cursors \<Longrightarrow> c \<in> set cursors \<Longrightarrow> k \<in> set cursors \<Longrightarrow> sk_pane_id k = sk_pane_id c \<Longrightarrow> k = c"
  by (rule cursor_unique) (auto simp: cursors_sound_def)

lemma image_update_where: "(\<And>r. f (g r) = f r) \<Longrightarrow> f ` set (update_where p g rows) = f ` set rows"
  by (metis update_where_map list.set_map)

lemma map_filter_append [simp]: "List.map_filter f (xs @ ys) = List.map_filter f xs @ List.map_filter f ys"
  by (induction xs) (auto simp: List.map_filter_simps split: option.splits)

text \<open>
  \<open>appended c S E G n b t t1\<close>: the rows \<open>S\<close>, \<open>E\<close> and \<open>G\<close> were appended for the stream of \<open>c\<close>, whose cursor went to
  \<open>n\<close> and \<open>b\<close>.
\<close>

definition appended ::
    "stream_cursor_row \<Rightarrow> segment_row list \<Rightarrow> journal_event_row list \<Rightarrow> history_gap_row list \<Rightarrow> int \<Rightarrow> int
     \<Rightarrow> archive_tables \<Rightarrow> archive_tables \<Rightarrow> bool" where
  "appended c S E G n b t t1 \<longleftrightarrow>
     at_segments t1 = at_segments t @ S \<and> at_events t1 = at_events t @ E \<and> at_gaps t1 = at_gaps t @ G \<and>
     (\<exists>now. at_stream_cursors t1 = update_where (\<lambda>k. sk_id k = sk_id c)
        (\<lambda>k. k\<lparr>sk_next_event_seq := n, sk_next_byte_seq := b, sk_updated_at_ms := now\<rparr>) (at_stream_cursors t)) \<and>
     at_panes t1 = update_where (\<lambda>r. xp_id r = sk_pane_id c) (\<lambda>r. r\<lparr>xp_last_event_seq := n - 1\<rparr>) (at_panes t)"

definition new_numbers :: "segment_row list \<Rightarrow> journal_event_row list \<Rightarrow> history_gap_row list \<Rightarrow> int list" where
  "new_numbers S E G = map sg_event_seq_high S @ map je_event_seq E @ List.map_filter gp_event_seq_high G"

definition rows_for :: "stream_cursor_row \<Rightarrow> segment_row list \<Rightarrow> journal_event_row list \<Rightarrow> history_gap_row list \<Rightarrow> bool" where
  "rows_for c S E G \<longleftrightarrow>
     (\<forall>r\<in>set S. sg_session_id r = sk_session_id c \<and> sg_pane_id r = sk_pane_id c \<and> sg_stream_id r = default_stream_id) \<and>
     (\<forall>r\<in>set E. je_session_id r = sk_session_id c \<and> je_pane_id r = Some (sk_pane_id c) \<and> je_stream_id r = default_stream_id) \<and>
     (\<forall>r\<in>set G. gp_session_id r = sk_session_id c \<and> gp_pane_id r = Some (sk_pane_id c) \<and> gp_stream_id r = default_stream_id)"

lemma pane_rows_append:
  assumes "appended c S E G n b t t1" "rows_for c S E G"
  shows "pane_segments sid p None t1 = pane_segments sid p None t @ (if sid = sk_session_id c \<and> p = sk_pane_id c then S else [])"
    "pane_events sid p None t1 = pane_events sid p None t @ (if sid = sk_session_id c \<and> p = sk_pane_id c then E else [])"
    "pane_gaps sid p None t1 = pane_gaps sid p None t @ (if sid = sk_session_id c \<and> p = sk_pane_id c then G else [])"
  using assms unfolding appended_def rows_for_def pane_segments_def pane_events_def pane_gaps_def in_stream_def
  by (auto simp: filter_empty_conv filter_id_conv)

lemma appended_has_cursor: "appended c S E G n b t t1 \<Longrightarrow> has_cursor t1 = has_cursor t"
  unfolding appended_def has_cursor_def by (elim conjE exE) (simp add: image_update_where fun_eq_iff)

lemma stream_sound_append:
  assumes app: "appended c S E G n b t t1" and rows: "rows_for c S E G" and sound: "stream_sound t c"
    and numbers: "\<forall>x\<in>set (new_numbers S E G). x < n" "n - 1 \<in> set (new_numbers S E G)" "sk_next_event_seq c \<le> n"
    and bytes: "byte_chain (sk_next_byte_seq c) S b" and order: "events_in_order S" "\<forall>r\<in>set S. sk_next_event_seq c \<le> sg_event_seq_low r"
    and c1: "c1 = c\<lparr>sk_next_event_seq := n, sk_next_byte_seq := b, sk_updated_at_ms := now\<rparr>"
  shows "stream_sound t1 c1"
proof -
  let ?s = "sk_session_id c" and ?p = "sk_pane_id c"
  let ?old = "pane_numbers ?s ?p t" and ?segs = "pane_segments ?s ?p None t"
  have segs: "pane_segments ?s ?p None t1 = ?segs @ S"
    using pane_rows_append [OF app rows] by simp
  have set_numbers: "set (pane_numbers ?s ?p t1) = set ?old \<union> set (new_numbers S E G)"
    unfolding pane_numbers_def new_numbers_def by (auto simp: pane_rows_append [OF app rows])
  have old: "\<forall>x\<in>set ?old. x < sk_next_event_seq c" "byte_chain 0 ?segs (sk_next_byte_seq c)" "events_in_order ?segs"
    using sound by (simp_all add: stream_sound_def Let_def)
  have high: "sg_event_seq_high r < sk_next_event_seq c" if "r \<in> set ?segs" for r
    using old(1) that by (auto simp: pane_numbers_def)
  have "events_in_order (?segs @ S)"
    using old(3) order high unfolding events_in_order_def by (auto simp: sorted_wrt_append) (metis order_less_le_trans)
  moreover have "\<forall>x\<in>set ?old. x < n" using old(1) numbers(3) by fastforce
  ultimately show ?thesis
    unfolding stream_sound_def Let_def c1 using numbers old(2) bytes
    by (auto simp: segs set_numbers byte_chain_append)
qed

lemma stream_sound_other:
  assumes app: "appended c S E G n b t t1" and rows: "rows_for c S E G" and sound: "stream_sound t k" and "sk_pane_id k \<noteq> sk_pane_id c"
  shows "stream_sound t1 k"
  using sound assms(4) unfolding stream_sound_def pane_numbers_def by (simp add: pane_rows_append [OF app rows])

lemma panes_sound_append:
  assumes app: "appended c S E G n b t t1" and c: "c \<in> set (at_stream_cursors t)"
    and cursors: "cursors_sound env (at_stream_cursors t)" and panes: "panes_sound env (at_stream_cursors t) (at_panes t)"
  shows "cursors_sound env (at_stream_cursors t1) \<and> panes_sound env (at_stream_cursors t1) (at_panes t1)"
proof -
  obtain now where cur: "at_stream_cursors t1 = update_where (\<lambda>k. sk_id k = sk_id c)
      (\<lambda>k. k\<lparr>sk_next_event_seq := n, sk_next_byte_seq := b, sk_updated_at_ms := now\<rparr>) (at_stream_cursors t)"
    and pan: "at_panes t1 = update_where (\<lambda>r. xp_id r = sk_pane_id c) (\<lambda>r. r\<lparr>xp_last_event_seq := n - 1\<rparr>) (at_panes t)"
    using app unfolding appended_def by blast
  have ids: "map sk_id (at_stream_cursors t1) = map sk_id (at_stream_cursors t)" "map xp_id (at_panes t1) = map xp_id (at_panes t)"
    unfolding cur pan by (simp_all add: update_where_map)
  have idset: "sk_id ` set (at_stream_cursors t1) = sk_id ` set (at_stream_cursors t)"
    using ids(1) by (metis list.set_map)
  have 1: "cursors_sound env (at_stream_cursors t1)"
    using cursors ids(1) unfolding cursors_sound_def by (auto simp: cur in_update_where)
  have 2: "\<exists>r\<in>set (at_panes t1). xp_id r = sk_pane_id k1 \<and> xp_session_id r = sk_session_id k1 \<and>
        xp_last_event_seq r = sk_next_event_seq k1 - 1" if k1: "k1 \<in> set (at_stream_cursors t1)" for k1
  proof -
    obtain k where k: "k \<in> set (at_stream_cursors t)"
      "k1 = (if sk_id k = sk_id c then k\<lparr>sk_next_event_seq := n, sk_next_byte_seq := b, sk_updated_at_ms := now\<rparr> else k)"
      using k1 unfolding cur in_update_where by blast
    obtain r where r: "r \<in> set (at_panes t)" "xp_id r = sk_pane_id k" "xp_session_id r = sk_session_id k"
      "xp_last_event_seq r = sk_next_event_seq k - 1"
      using panes k(1) by (auto simp: panes_sound_def)
    have "sk_id k = sk_id c \<longleftrightarrow> sk_pane_id k = sk_pane_id c"
      using cursor_unique [OF cursors c k(1)] cursor_pane_unique [OF cursors c k(1)] by metis
    moreover have "(if xp_id r = sk_pane_id c then r\<lparr>xp_last_event_seq := n - 1\<rparr> else r) \<in> set (at_panes t1)"
      unfolding pan in_update_where using r(1) by blast
    ultimately show ?thesis using r k(2) by - (erule rev_bexI, cases "sk_id k = sk_id c", simp_all)
  qed
  have 3: "cursor_of_pane env (xp_id r) \<in> sk_id ` set (at_stream_cursors t1)" if "r \<in> set (at_panes t1)" for r
  proof -
    have "xp_id r \<in> xp_id ` set (at_panes t)" using that ids(2) by (metis image_eqI list.set_map)
    then show ?thesis using panes unfolding idset panes_sound_def by auto
  qed
  show ?thesis using 1 2 3 panes ids(2) by (simp add: panes_sound_def)
qed

lemma streams_sound_append:
  assumes app: "appended c S E G n b t t1" and rows: "rows_for c S E G" and sound: "streams_sound env t"
    and c: "c \<in> set (at_stream_cursors t)" and segments: "\<forall>r\<in>set S. stream_segment_hydration_failure env r = None"
    and numbers: "\<forall>x\<in>set (new_numbers S E G). x < n" "n - 1 \<in> set (new_numbers S E G)" "sk_next_event_seq c \<le> n"
    and bytes: "byte_chain (sk_next_byte_seq c) S b" and order: "events_in_order S" "\<forall>r\<in>set S. sk_next_event_seq c \<le> sg_event_seq_low r"
  shows "streams_sound env t1"
proof -
  have cursors: "cursors_sound env (at_stream_cursors t)" and panes: "panes_sound env (at_stream_cursors t) (at_panes t)"
    and streams: "\<And>k. k \<in> set (at_stream_cursors t) \<Longrightarrow> stream_sound t k"
    using sound by (auto simp: streams_sound_def)
  obtain now where cur: "at_stream_cursors t1 = update_where (\<lambda>k. sk_id k = sk_id c)
      (\<lambda>k. k\<lparr>sk_next_event_seq := n, sk_next_byte_seq := b, sk_updated_at_ms := now\<rparr>) (at_stream_cursors t)"
    using app unfolding appended_def by blast
  have has: "has_cursor t1 = has_cursor t" "has_cursor t (sk_session_id c) (sk_pane_id c)"
    using appended_has_cursor [OF app] c by (auto simp: has_cursor_def)
  have "stream_sound t1 k1" if k1: "k1 \<in> set (at_stream_cursors t1)" for k1
  proof -
    obtain k where k: "k \<in> set (at_stream_cursors t)"
      "k1 = (if sk_id k = sk_id c then k\<lparr>sk_next_event_seq := n, sk_next_byte_seq := b, sk_updated_at_ms := now\<rparr> else k)"
      using k1 unfolding cur in_update_where by blast
    show ?thesis
    proof (cases "sk_id k = sk_id c")
      case True
      then have "k = c" using cursor_unique [OF cursors c k(1)] by simp
      then show ?thesis using k stream_sound_append [OF app rows streams [OF c] numbers bytes order] by simp
    next
      case False
      then have "sk_pane_id k \<noteq> sk_pane_id c" using cursor_pane_unique [OF cursors c k(1)] by metis
      then show ?thesis using k False stream_sound_other [OF app rows streams [OF k(1)]] by simp
    qed
  qed
  moreover have "\<forall>r\<in>set (at_segments t1). segment_sound env t1 r" "\<forall>r\<in>set (at_events t1). event_sound t1 r"
    "\<forall>r\<in>set (at_gaps t1). gap_sound t1 r"
    using sound app rows segments has by (auto simp: streams_sound_def segment_sound_def event_sound_def gap_sound_def appended_def rows_for_def)
  ultimately show ?thesis
    using panes_sound_append [OF app c cursors panes] unfolding streams_sound_def by blast
qed

end
