(* ===== verification/Archive_Steps.thy ===== *)
theory Archive_Steps
  imports Archive_Sequences
begin

text \<open>
  What each operation on the journal appends when it succeeds, and that every operation keeps the streams of
  \<open>Archive_Sequences\<close> whether it succeeds or not.
\<close>

section \<open>Output\<close>

lemma checked_InrD:
  "checked_len n what = Inr x \<Longrightarrow> x = int n \<and> int n \<le> i64_max"
  "checked_add a b what = Inr y \<Longrightarrow> y = a + b"
  "final_event_seq a n = Inr z \<Longrightarrow> z = a + int n"
  by (auto simp: checked_len_def checked_add_def final_event_seq_def bind_result_def split: if_splits sum.splits)

definition transition_rows :: "append_segment_tx \<Rightarrow> int \<Rightarrow> nat \<Rightarrow> nat \<Rightarrow> journal_event_row list \<Rightarrow> bool" where
  "transition_rows tx low index n rows \<longleftrightarrow>
     map je_event_seq rows = map (\<lambda>i. low + int (index + 1 + i)) [0..<n] \<and>
     (\<forall>r\<in>set rows. je_session_id r = gi_session_id (tx_input tx) \<and> je_pane_id r = Some (gi_pane_id (tx_input tx)) \<and>
        je_stream_id r = tx_stream_id tx)"

lemma transition_rows_Cons:
  assumes "transition_rows tx low (index + 1) n rows" "je_event_seq r = low + int (index + 1)"
    "je_session_id r = gi_session_id (tx_input tx)" "je_pane_id r = Some (gi_pane_id (tx_input tx))" "je_stream_id r = tx_stream_id tx"
  shows "transition_rows tx low index (Suc n) (r # rows)"
proof -
  have "map (\<lambda>i. low + int (index + 1 + i)) [0..<Suc n] =
      (low + int (index + 1)) # map (\<lambda>i. low + int (index + 1 + 1 + i)) [0..<n]"
    by (simp add: upt_conv_Cons map_Suc_upt [symmetric] del: upt_Suc)
  then show ?thesis using assms by (simp add: transition_rows_def)
qed

lemma v2_ok_transitions_run:
  "v2_ok (insert_transition_events env tx commit low byte_low byte_high semantics index ms)
     (\<lambda>u t1. \<exists>E. t1 = t\<lparr>at_events := at_events t @ E\<rparr> \<and> transition_rows tx low index (length ms) E) t"
proof (induction ms arbitrary: index t)
  case Nil
  show ?case unfolding insert_transition_events.simps by (intro v2_ok_intros exI [of _ "[]"]) (simp add: transition_rows_def)
next
  case (Cons m ms)
  show ?case
    unfolding insert_transition_events.simps
  proof (intro v2_ok_intros)
    fix offset event_seq lo hi i
    let ?row = "\<lparr>je_id = i, je_session_id = gi_session_id (tx_input tx), je_pane_id = Some (gi_pane_id (tx_input tx)),
          je_commit_id = commit, je_stream_id = tx_stream_id tx, je_scope_kind = ''pane'',
          je_scope_id = gi_pane_id (tx_input tx), je_event_seq = event_seq, je_event_type = lit ''terminal_buffer_mode'',
          je_byte_range = Some (lo, min hi byte_high),
          je_payload_json = Some (ModePayload (bm_action m) (bm_mode m) (bm_target_buffer_kind m) low),
          je_source_event_id_hash = None, je_occurred_at_ms = tx_occurred_at_ms tx, je_created_at_ms = tx_now tx,
          je_capture_semantics = semantics, je_trust_level = lit ''parser_derived''\<rparr>"
    assume offset: "checked_len (index + 1) ''buffer mode transition offset'' = Inr offset"
      "checked_add low offset ''buffer mode transition event sequence overflow'' = Inr event_seq"
    have "event_seq = low + int (index + 1)" using offset by (auto dest!: checked_InrD)
    then have step: "transition_rows tx low index (length (m # ms)) (?row # E)" if "transition_rows tx low (index + 1) (length ms) E" for E
      using transition_rows_Cons [OF that, of ?row] by simp
    show "v2_ok (insert_transition_events env tx commit low byte_low byte_high semantics (index + 1) ms)
        (\<lambda>u t1. \<exists>E. t1 = t\<lparr>at_events := at_events t @ E\<rparr> \<and> transition_rows tx low index (length (m # ms)) E)
        (t\<lparr>at_events := at_events t @ [?row]\<rparr>)"
      by (rule v2_ok_mono [OF Cons.IH]) (use step in fastforce)
  qed
qed

lemma v2_ok_transitions [v2_ok_intros]:
  "(\<And>E. transition_rows tx low index (length ms) E \<Longrightarrow> Q () (t\<lparr>at_events := at_events t @ E\<rparr>)) \<Longrightarrow>
   v2_ok (insert_transition_events env tx commit low byte_low byte_high semantics index ms) Q t"
  by (rule v2_ok_mono [OF v2_ok_transitions_run]) auto

definition receipt_rows ::
    "rstr option \<Rightarrow> rstr option \<Rightarrow> rstr \<Rightarrow> rstr \<Rightarrow> rstr \<Rightarrow> receipt_row list \<Rightarrow> bool" where
  "receipt_rows kind hash sid commit payload_hash rows \<longleftrightarrow>
     (case (kind, hash) of
        (Some k, Some h) \<Rightarrow> (\<exists>r. rows = [r] \<and> rc_session_id r = sid \<and> rc_source_kind r = k \<and> rc_source_event_id_hash r = h \<and>
           rc_source_payload_hash r = payload_hash \<and> rc_commit_id r = Some commit)
      | _ \<Rightarrow> rows = [])"

lemma v2_ok_receipt [v2_ok_intros]:
  assumes "\<And>rows. receipt_rows kind hash sid commit payload_hash rows \<Longrightarrow> Q () (t\<lparr>at_receipts := at_receipts t @ rows\<rparr>)"
  shows "v2_ok (insert_receipt_if_needed env kind hash sid commit payload_hash received_at now) Q t"
proof (cases "kind = None \<or> hash = None")
  case True
  then have "receipt_rows kind hash sid commit payload_hash []" by (auto simp: receipt_rows_def split: option.split)
  then have "Q () t" using assms [of "[]"] by simp
  then show ?thesis using True by (auto simp: insert_receipt_if_needed_def intro!: v2_ok_intros split: option.split)
next
  case False
  then obtain k h where [simp]: "kind = Some k" "hash = Some h" by auto
  show ?thesis
    unfolding insert_receipt_if_needed_def
    by (simp, intro v2_ok_intros v2_ok_insert) (auto simp: insert_receipt_def receipt_rows_def intro!: assms)
qed

text \<open>A new segment: what \<open>append_new_segment\<close> leaves when it succeeds.\<close>

definition segment_stored ::
    "'w archive_env \<Rightarrow> append_segment_tx \<Rightarrow> stream_segment_receipt \<Rightarrow> archive_tables \<Rightarrow> archive_tables \<Rightarrow> bool" where
  "segment_stored env tx receipt t t1 \<longleftrightarrow>
     (\<exists>c\<in>set (at_stream_cursors t). \<exists>r E rows commit t0. sk_session_id c = gi_session_id (tx_input tx) \<and>
        sk_pane_id c = gi_pane_id (tx_input tx) \<and>
        commit_step (sk_session_id c) commit t t0 \<and> at_commits t1 = at_commits t0 \<and> at_session_cursors t1 = at_session_cursors t0 \<and>
        appended c [r] E [] (sk_next_event_seq c + int (length (tx_transitions tx)) + 1)
          (sk_next_byte_seq c + tx_payload_len tx) t t1 \<and>
        rows_for c [r] E [] \<and> sg_payload r = gi_payload (tx_input tx) \<and> sg_commit_id r = ca_id commit \<and>
        sg_event_seq_low r = sk_next_event_seq c \<and> sg_event_seq_high r = sk_next_event_seq c \<and>
        sg_byte_low r = sk_next_byte_seq c \<and> sg_byte_high r = sk_next_byte_seq c + tx_payload_len tx \<and>
        sg_payload_len r = tx_payload_len tx \<and> sg_stored_byte_len r = tx_payload_len tx \<and>
        sg_checksum_algorithm r = ''blake3'' \<and> sg_checksum r = tx_payload_checksum tx \<and>
        map je_event_seq E = map (\<lambda>i. sk_next_event_seq c + int i) [0..<Suc (length (tx_transitions tx))] \<and>
        sr_commit_id receipt = ca_id commit \<and> sr_byte_range receipt = (sg_byte_low r, sg_byte_high r) \<and>
        receipt_rows (tx_capture_source_kind tx) (gi_source_event_id_hash (tx_input tx)) (sk_session_id c) (ca_id commit)
          (tx_payload_checksum tx) rows \<and>
        at_receipts t1 = at_receipts t @ rows \<and> at_writers t1 = at_writers t \<and> at_sessions t1 = at_sessions t \<and>
        (\<exists>w\<in>set (at_writers t). wg_id w = gi_writer_generation (tx_input tx) \<and> writer_active w \<and>
           tx_now tx \<le> wg_lease_expires_at_ms w))"

lemma numbers_from_low: "low # map (\<lambda>i. low + (1 + int i)) [0..<n] = map (\<lambda>i. low + int i) [0..<Suc n]"
  by (simp add: upt_conv_Cons map_Suc_upt [symmetric] comp_def del: upt_Suc)

lemma v2_ok_append_new_segment:
  assumes stream: "tx_stream_id tx = default_stream_id"
  shows "v2_ok (append_new_segment env tx) (\<lambda>receipt. segment_stored env tx receipt t) t"
  unfolding append_new_segment_def Let_def
proof (intro v2_ok_intros, goal_cases)
  case (1 w commit t0 c i1 i2 u final E orow rows)
  have final: "final = sk_next_event_seq c + int (length (tx_transitions tx))"
    using 1 by (auto dest: checked_InrD)
  have E: "map je_event_seq E = map (\<lambda>i. sk_next_event_seq c + int (Suc i)) [0..<length (tx_transitions tx)]"
    using 1 by (simp add: transition_rows_def)
  note t0 = commit_step_fields [OF \<open>commit_step _ commit t t0\<close>]
  note upd = update_pane_last_event_seq_def advance_stream_cursor_def
  show ?case (is "segment_stored env tx ?receipt t ?t1")
    unfolding segment_stored_def
  proof (rule bexI [of _ c], rule exI [of _ "last (at_segments ?t1)"], rule exI [of _ "drop (length (at_events t)) (at_events ?t1)"],
      rule exI [of _ rows], rule exI [of _ commit], rule exI [of _ t0], intro conjI)
  qed (use 1 E stream in \<open>simp_all add: upd final t0 appended_def rows_for_def transition_rows_def numbers_from_low del: upt_Suc, blast+\<close>)
qed
end
