(* ===== verification/Archive_Reach.thy ===== *)
theory Archive_Reach
  imports Archive_Steps
begin

text \<open>
  Every operation on the journal, by any number of processes in any order, failing or not, keeps the
  streams and the numbers of the commits, and at most one writer holds the lease.
\<close>

section \<open>Commits\<close>

definition commits_sound :: "archive_tables \<Rightarrow> bool" where
  "commits_sound t \<longleftrightarrow> distinct (map xc_session_id (at_session_cursors t)) \<and>
     (\<forall>r\<in>set (at_commits t). cm_session_id r \<in> xc_session_id ` set (at_session_cursors t)) \<and>
     (\<forall>c\<in>set (at_session_cursors t). map cm_commit_seq (filter (\<lambda>r. cm_session_id r = xc_session_id c) (at_commits t)) =
        [1..xc_next_commit_seq c - 1] \<and> 1 \<le> xc_next_commit_seq c)"

text \<open>At most one writer holds the lease.\<close>

definition writers_sound :: "writer_row list \<Rightarrow> bool" where
  "writers_sound ws \<longleftrightarrow> distinct (map wg_id ws) \<and> length (filter writer_active ws) \<le> 1"

definition journal_sound :: "'w archive_env \<Rightarrow> archive_tables \<Rightarrow> bool" where
  "journal_sound env t \<longleftrightarrow> streams_sound env t \<and> commits_sound t \<and> writers_sound (at_writers t)"

lemma commits_sound_cong:
  "at_commits t1 = at_commits t \<Longrightarrow> at_session_cursors t1 = at_session_cursors t \<Longrightarrow> commits_sound t1 = commits_sound t"
  by (simp add: commits_sound_def)

lemma journal_sound_cong:
  assumes "at_stream_cursors t1 = at_stream_cursors t" "at_panes t1 = at_panes t" "at_segments t1 = at_segments t"
    "at_events t1 = at_events t" "at_gaps t1 = at_gaps t" "at_commits t1 = at_commits t" "at_session_cursors t1 = at_session_cursors t"
    "at_writers t1 = at_writers t"
  shows "journal_sound env t1 = journal_sound env t"
  unfolding journal_sound_def by (simp only: streams_sound_cong [OF assms(1-5)] commits_sound_cong [OF assms(6,7)] assms(8))

lemma commit_step_sound:
  assumes step: "commit_step sid commit t t1" and sound: "commits_sound t"
  shows "commits_sound t1"
proof -
  obtain c row writer now where c: "c \<in> set (at_session_cursors t)" "xc_session_id c = sid"
    and row: "cm_session_id row = sid" "cm_commit_seq row = xc_next_commit_seq c"
    and t1: "t1 = advance_session_cursor sid (xc_next_commit_seq c + 1) writer now (t\<lparr>at_commits := at_commits t @ [row]\<rparr>)"
    using step unfolding commit_step_def by blast
  have cursors: "at_session_cursors t1 = update_where (\<lambda>k. xc_session_id k = sid)
      (\<lambda>k. k\<lparr>xc_next_commit_seq := xc_next_commit_seq c + 1, xc_writer_generation := Some writer, xc_updated_at_ms := now\<rparr>)
      (at_session_cursors t)" and commits: "at_commits t1 = at_commits t @ [row]"
    unfolding t1 by (simp_all add: advance_session_cursor_def)
  have ids: "map xc_session_id (at_session_cursors t1) = map xc_session_id (at_session_cursors t)"
    unfolding cursors by (simp add: update_where_map)
  have old: "map cm_commit_seq (filter (\<lambda>r. cm_session_id r = xc_session_id k) (at_commits t)) = [1..xc_next_commit_seq k - 1] \<and>
      1 \<le> xc_next_commit_seq k" if "k \<in> set (at_session_cursors t)" for k
    using sound that by (auto simp: commits_sound_def)
  have same: "k = c" if "k \<in> set (at_session_cursors t)" "xc_session_id k = sid" for k
    using sound that c unfolding commits_sound_def by (metis distinct_map inj_onD)
  have "map cm_commit_seq (filter (\<lambda>r. cm_session_id r = xc_session_id k1) (at_commits t1)) = [1..xc_next_commit_seq k1 - 1] \<and>
      1 \<le> xc_next_commit_seq k1" if k1: "k1 \<in> set (at_session_cursors t1)" for k1
  proof -
    obtain k where k: "k \<in> set (at_session_cursors t)" "k1 = (if xc_session_id k = sid then k\<lparr>xc_next_commit_seq :=
        xc_next_commit_seq c + 1, xc_writer_generation := Some writer, xc_updated_at_ms := now\<rparr> else k)"
      using k1 unfolding cursors in_update_where by blast
    show ?thesis
    proof (cases "xc_session_id k = sid")
      case True
      then have "k = c" using same k(1) by simp
      moreover have "[1..xc_next_commit_seq c] = [1..xc_next_commit_seq c - 1] @ [xc_next_commit_seq c]"
        using old [OF c(1)] by (simp add: upto_rec2)
      ultimately show ?thesis using True k(2) old [OF c(1)] row c(2) by (simp add: commits)
    next
      case False
      then show ?thesis using k old [OF k(1)] row by (auto simp: commits)
    qed
  qed
  moreover have "xc_session_id ` set (at_session_cursors t1) = xc_session_id ` set (at_session_cursors t)"
    using ids by (metis list.set_map)
  ultimately show ?thesis
    using sound c row ids unfolding commits_sound_def by (auto simp: commits)
qed

section \<open>Appending\<close>

definition tx_valid :: "'w archive_env \<Rightarrow> append_segment_tx \<Rightarrow> bool" where
  "tx_valid env tx \<longleftrightarrow> tx_stream_id tx = default_stream_id \<and> gi_payload (tx_input tx) \<noteq> [] \<and>
     tx_payload_len tx = int (length (gi_payload (tx_input tx))) \<and> tx_payload_len tx \<le> i64_max \<and>
     tx_payload_checksum tx = av_hash env (gi_payload (tx_input tx))"

lemma segment_stored_sound:
  assumes stored: "segment_stored env tx receipt t t1" and tx: "tx_valid env tx" and sound: "journal_sound env t"
  shows "journal_sound env t1"
proof -
  let ?n = "length (tx_transitions tx)"
  obtain c r E commit t0 where c: "c \<in> set (at_stream_cursors t)" and step: "commit_step (sk_session_id c) commit t t0"
    and commits: "at_commits t1 = at_commits t0" "at_session_cursors t1 = at_session_cursors t0"
    and writers: "at_writers t1 = at_writers t"
    and app: "appended c [r] E [] (sk_next_event_seq c + int ?n + 1) (sk_next_byte_seq c + tx_payload_len tx) t t1"
    and rows: "rows_for c [r] E []"
    and r: "sg_payload r = gi_payload (tx_input tx)" "sg_event_seq_low r = sk_next_event_seq c" "sg_event_seq_high r = sk_next_event_seq c"
      "sg_byte_low r = sk_next_byte_seq c" "sg_byte_high r = sk_next_byte_seq c + tx_payload_len tx"
      "sg_payload_len r = tx_payload_len tx" "sg_stored_byte_len r = tx_payload_len tx"
      "sg_checksum_algorithm r = ''blake3''" "sg_checksum r = tx_payload_checksum tx"
    and E: "map je_event_seq E = map (\<lambda>i. sk_next_event_seq c + int i) [0..<Suc ?n]"
    using stored unfolding segment_stored_def by blast
  have ok: "stream_segment_hydration_failure env r = None"
    using r tx by (simp add: stream_segment_hydration_failure_def validate_stream_segment_ranges_def
        validate_checksum_bytes_def expected_failure_def tx_valid_def)
  have numbers: "set (new_numbers [r] E []) = (\<lambda>i. sk_next_event_seq c + int i) ` {0..<Suc ?n}"
    using r(3) unfolding new_numbers_def E by (auto simp: List.map_filter_simps simp del: upt_Suc)
  have "streams_sound env t1"
  proof (rule streams_sound_append [OF app rows _ c])
    show "sk_next_event_seq c + int ?n + 1 - 1 \<in> set (new_numbers [r] E [])" unfolding numbers by auto
  qed (use sound ok r tx numbers in \<open>auto simp: journal_sound_def events_in_order_def tx_valid_def\<close>)
  moreover have "commits_sound t1"
    using commit_step_sound [OF step] sound commits_sound_cong [OF commits] by (simp add: journal_sound_def)
  ultimately show ?thesis using sound by (simp add: journal_sound_def writers)
qed

definition events_stored :: "archive_tables \<Rightarrow> archive_tables \<Rightarrow> bool" where
  "events_stored t t1 \<longleftrightarrow>
     (\<exists>c\<in>set (at_stream_cursors t). \<exists>E G n commit t0. commit_step (sk_session_id c) commit t t0 \<and>
        at_commits t1 = at_commits t0 \<and> at_session_cursors t1 = at_session_cursors t0 \<and> at_writers t1 = at_writers t \<and>
        appended c [] E G n (sk_next_byte_seq c) t t1 \<and> rows_for c [] E G \<and>
        (\<forall>x\<in>set (new_numbers [] E G). x < n) \<and> n - 1 \<in> set (new_numbers [] E G) \<and> sk_next_event_seq c \<le> n)"

lemma events_stored_sound:
  assumes "events_stored t t1" and sound: "journal_sound env t"
  shows "journal_sound env t1"
proof -
  obtain c E G n commit t0 where c: "c \<in> set (at_stream_cursors t)" and step: "commit_step (sk_session_id c) commit t t0"
    and commits: "at_commits t1 = at_commits t0" "at_session_cursors t1 = at_session_cursors t0"
    and writers: "at_writers t1 = at_writers t"
    and app: "appended c [] E G n (sk_next_byte_seq c) t t1" "rows_for c [] E G"
    and numbers: "\<forall>x\<in>set (new_numbers [] E G). x < n" "n - 1 \<in> set (new_numbers [] E G)" "sk_next_event_seq c \<le> n"
    using assms(1) unfolding events_stored_def by blast
  have "streams_sound env t1"
    by (rule streams_sound_append [OF app _ c _ numbers]) (use sound in \<open>auto simp: journal_sound_def events_in_order_def\<close>)
  moreover have "commits_sound t1"
    using commit_step_sound [OF step] sound commits_sound_cong [OF commits] by (simp add: journal_sound_def)
  ultimately show ?thesis using sound by (simp add: journal_sound_def writers)
qed

section \<open>The operations\<close>

definition known_receipt :: "append_segment_tx \<Rightarrow> archive_tables \<Rightarrow> receipt_row \<Rightarrow> bool" where
  "known_receipt tx t row \<longleftrightarrow> row \<in> set (at_receipts t) \<and> rc_session_id row = gi_session_id (tx_input tx) \<and>
     tx_capture_source_kind tx = Some (rc_source_kind row) \<and>
     gi_source_event_id_hash (tx_input tx) = Some (rc_source_event_id_hash row)"

lemma v2_ok_reuse [v2_ok_intros]:
  assumes "\<forall>row. \<not> known_receipt tx t row \<Longrightarrow> Q None t"
    "\<And>row receipt. known_receipt tx t row \<Longrightarrow> rc_source_payload_hash row = tx_payload_checksum tx \<Longrightarrow>
       rc_commit_id row = Some (sr_commit_id receipt) \<Longrightarrow> Q (Some receipt) t"
  shows "v2_ok (reuse_capture_receipt_if_possible env tx) Q t"
proof (cases "tx_capture_source_kind tx = None \<or> gi_source_event_id_hash (tx_input tx) = None")
  case True
  then have "\<forall>row. \<not> known_receipt tx t row" by (auto simp: known_receipt_def)
  then have "Q None t" by (rule assms(1))
  then show ?thesis using True unfolding reuse_capture_receipt_if_possible_def
    by (auto split: option.split intro: v2_ok_basic)
next
  case False
  then obtain kind hash where keys: "tx_capture_source_kind tx = Some kind" "gi_source_event_id_hash (tx_input tx) = Some hash"
    by auto
  show ?thesis
    unfolding reuse_capture_receipt_if_possible_def keys prod.case option.case
  proof (intro v2_ok_intros)
    assume "load_capture_receipt (gi_session_id (tx_input tx)) kind hash t = None"
    then have "\<forall>row. \<not> known_receipt tx t row"
      by (auto simp: load_capture_receipt_def known_receipt_def keys find_None_iff)
    then show "Q None t" by (rule assms(1))
  next
    fix row commit
    assume row: "load_capture_receipt (gi_session_id (tx_input tx)) kind hash t = Some row"
      "\<not> rc_source_payload_hash row \<noteq> tx_payload_checksum tx" "rc_commit_id row = Some commit"
    then have known: "known_receipt tx t row" "rc_source_payload_hash row = tx_payload_checksum tx"
      by (auto simp: load_capture_receipt_def known_receipt_def keys dest: find_in_set)
    show "v2_ok (stream_segment_receipt_from_commit env commit) (\<lambda>x. Q (Some x)) t"
      unfolding stream_segment_receipt_from_commit_def
      by (intro v2_ok_intros) (use known row(3) in \<open>auto intro!: assms(2)\<close>)
  qed
qed

lemma v2_ok_append_segment:
  assumes "tx_stream_id tx = default_stream_id"
    "\<And>row receipt. known_receipt tx t row \<Longrightarrow> rc_source_payload_hash row = tx_payload_checksum tx \<Longrightarrow>
       rc_commit_id row = Some (sr_commit_id receipt) \<Longrightarrow> Q receipt t"
    "\<And>receipt t1. \<forall>row. \<not> known_receipt tx t row \<Longrightarrow> segment_stored env tx receipt t t1 \<Longrightarrow> Q receipt t1"
  shows "v2_ok (append_stream_segment_transaction env tx) Q t"
  unfolding append_stream_segment_transaction_def
proof (rule v2_ok_bind, rule v2_ok_reuse)
  assume none: "\<forall>row. \<not> known_receipt tx t row"
  then show "v2_ok (case None of None \<Rightarrow> append_new_segment env tx | Some receipt \<Rightarrow> io_ok receipt) Q t"
    using v2_ok_mono [OF v2_ok_append_new_segment [OF assms(1), of env t], of Q] assms(3) by simp
qed (simp add: assms(2) v2_ok_basic)

lemma v2_keepsI: "(\<And>st r st1. I (snd st) \<Longrightarrow> m st = (r, st1) \<Longrightarrow> I (snd st1)) \<Longrightarrow> v2_keeps I m"
  unfolding v2_keeps_def by (metis prod.collapse)

definition segment_tx :: "'w archive_env \<Rightarrow> stream_segment_input \<Rightarrow> int \<Rightarrow> int \<Rightarrow> append_segment_tx" where
  "segment_tx env input payload_len now =
     (let stream = (case gi_stream_id input of Some s \<Rightarrow> s | None \<Rightarrow> default_stream_id)
      in \<lparr>tx_input = input, tx_stream_id = stream, tx_payload_len = payload_len,
             tx_payload_checksum = av_hash env (gi_payload input),
             tx_capture_source_kind = map_option (\<lambda>_. stream_capture_source_kind env (gi_pane_id input) stream)
               (gi_source_event_id_hash input),
             tx_transitions = detect_buffer_mode_transitions (gi_payload input),
             tx_occurred_at_ms = (case gi_occurred_at_ms input of Some at_ms \<Rightarrow> at_ms | None \<Rightarrow> now), tx_now = now\<rparr>)"

lemma append_stream_segment_eq:
  "append_stream_segment env input =
     io_bind (io_lift (validate_stream_segment_input input)) (\<lambda>_.
     io_bind (now_ms env) (\<lambda>now.
     io_bind (io_lift (checked_len (length (gi_payload input)) ''payload length'')) (\<lambda>payload_len st.
       case v2_transaction env (append_stream_segment_transaction env (segment_tx env input payload_len now)) st of
         (Inr receipt, st1) \<Rightarrow> (Inr receipt, st1)
       | (Inl e, st1) \<Rightarrow>
           (Inl e, if is_storage_full_like_error e then (av_pressure env (fst st1), snd st1) else st1))))"
  by (simp only: append_stream_segment_def segment_tx_def Let_def)

lemma segment_tx_valid:
  assumes "gi_stream_id input = None" "validate_stream_segment_input input = Inr u"
    "checked_len (length (gi_payload input)) ''payload length'' = Inr n"
  shows "tx_valid env (segment_tx env input n now)"
  using assms checked_InrD(1) [OF assms(3)]
  by (auto simp: tx_valid_def segment_tx_def validate_stream_segment_input_def split: if_splits)

lemma append_stream_segment_keeps:
  fixes input :: stream_segment_input
  assumes "gi_stream_id input = None"
  shows "v2_keeps (journal_sound env) (append_stream_segment env input)"
proof (rule v2_keepsI)
  fix st r st1
  assume sound: "journal_sound env (snd st)" and run: "append_stream_segment env input st = (r, st1)"
  show "journal_sound env (snd st1)"
  proof (cases "validate_stream_segment_input input")
    case (Inl e)
    then show ?thesis using run sound by (simp add: append_stream_segment_eq io_bind_def io_lift_def)
  next
    case (Inr u)
    show ?thesis
    proof (cases "checked_len (length (gi_payload input)) ''payload length''")
      case (Inl e)
      then show ?thesis using run sound Inr by (simp add: append_stream_segment_eq io_bind_def io_lift_def now_ms_def)
    next
      case len: (Inr n)
      let ?tx = "segment_tx env input n (av_now_ms env (fst st))"
      note tx = segment_tx_valid [OF assms Inr len, of env "av_now_ms env (fst st)"]
      obtain r0 st0 where body: "v2_transaction env (append_stream_segment_transaction env ?tx) st = (r0, st0)"
        by (cases "v2_transaction env (append_stream_segment_transaction env ?tx) st")
      have "v2_keeps (journal_sound env) (v2_transaction env (append_stream_segment_transaction env ?tx))"
      proof (rule v2_keeps_ok, rule v2_ok_append_segment)
        show "tx_stream_id ?tx = default_stream_id" using tx by (simp add: tx_valid_def)
      qed (auto intro: segment_stored_sound [OF _ tx])
      then have "journal_sound env (snd st0)" using v2_keepsD body sound by blast
      moreover have "snd st1 = snd st0"
        using run body Inr len by (simp add: append_stream_segment_eq io_bind_def io_lift_def now_ms_def split: sum.splits if_splits) auto
      ultimately show ?thesis by simp
    qed
  qed
qed

text \<open>One event, one gap, one input: the witnesses of \<open>events_stored\<close> are read off the tables that are left.\<close>

lemma events_storedI:
  assumes "c \<in> set (at_stream_cursors t)" "commit_step (sk_session_id c) commit t t0"
    "at_commits t1 = at_commits t0" "at_session_cursors t1 = at_session_cursors t0" "at_writers t1 = at_writers t"
    "at_segments t1 = at_segments t" "at_events t1 = at_events t @ [e]" "at_gaps t1 = at_gaps t @ G"
    "at_stream_cursors t1 = update_where (\<lambda>k. sk_id k = sk_id c)
        (\<lambda>k. k\<lparr>sk_next_event_seq := n, sk_next_byte_seq := sk_next_byte_seq c, sk_updated_at_ms := now\<rparr>) (at_stream_cursors t)"
    "at_panes t1 = update_where (\<lambda>r. xp_id r = sk_pane_id c) (\<lambda>r. r\<lparr>xp_last_event_seq := n - 1\<rparr>) (at_panes t)"
    "rows_for c [] [e] G" "\<forall>x\<in>set (new_numbers [] [e] G). x < n" "n - 1 \<in> set (new_numbers [] [e] G)" "sk_next_event_seq c \<le> n"
  shows "events_stored t t1"
proof -
  have "appended c [] [e] G n (sk_next_byte_seq c) t t1"
    using assms(6-10) unfolding appended_def by simp blast
  then show ?thesis using assms unfolding events_stored_def by blast
qed

lemma v2_keeps_lift_bind: "(\<And>x. r = Inr x \<Longrightarrow> v2_keeps I (f x)) \<Longrightarrow> v2_keeps I (io_bind (io_lift r) f)"
  by (auto simp: v2_keeps_def io_bind_def io_lift_def split: sum.split)

lemmas upd_defs = update_pane_last_event_seq_def advance_stream_cursor_def

lemma v2_ok_gap:
  assumes "1 \<le> skipped"
  shows "v2_ok (append_history_gap_transaction env sid p writer skipped dropped reason payload occurred now) (\<lambda>r. events_stored t) t"
  unfolding append_history_gap_transaction_def Let_def
proof (intro v2_ok_intros, goal_cases)
  case (1 w commit t0 c i g)
  note t0 = commit_step_fields [OF \<open>commit_step _ commit t t0\<close>]
  show ?case (is "events_stored t ?t1")
    by (rule events_storedI [where e = "last (at_events ?t1)" and G = "drop (length (at_gaps t)) (at_gaps ?t1)" and c = c and
          ?t0.0 = t0 and n = "sk_next_event_seq c + skipped - 1 + 1" and now = now])
      (use 1 assms in \<open>simp_all add: t0 upd_defs rows_for_def new_numbers_def List.map_filter_simps\<close>)
qed

lemma append_history_gap_keeps: "v2_keeps (journal_sound env) (append_history_gap_event env sid p writer skipped dropped reason occurred)"
  unfolding append_history_gap_event_def Let_def
proof (rule v2_keeps_bind [OF v2_keeps_simple(5)], rule v2_keeps_lift_bind, rule v2_keeps_ok)
  fix now width t
  assume "u64_to_i64 (max skipped 1) ''history gap skipped events'' = Inr width" and sound: "journal_sound env t"
  then have "1 \<le> width"
    by (auto simp: u64_to_i64_def max_def word_le_def split: if_splits)
  from v2_ok_gap [OF this] show "v2_ok (append_history_gap_transaction env sid p writer width (map_option (max 0) dropped) reason
      (GapPayload reason skipped (map_option (max 0) dropped)) (case occurred of None \<Rightarrow> now | Some o1 \<Rightarrow> o1) now) (\<lambda>x. journal_sound env) t"
    by (rule v2_ok_mono) (rule events_stored_sound [OF _ sound])
qed

lemma session_event_sound:
  assumes "commit_step sid commit t t0" "je_pane_id row = None" "journal_sound env t"
  shows "journal_sound env (t0\<lparr>at_events := at_events t0 @ [row]\<rparr>)"
proof -
  note t0 = commit_step_fields [OF assms(1)]
  let ?t1 = "t0\<lparr>at_events := at_events t0 @ [row]\<rparr>"
  have "pane_events s p None ?t1 = pane_events s p None t" "pane_segments s p None ?t1 = pane_segments s p None t"
    "pane_gaps s p None ?t1 = pane_gaps s p None t" for s p
    using assms(2) by (simp_all add: pane_events_def pane_segments_def pane_gaps_def t0)
  then have "stream_sound ?t1 = stream_sound t" by (simp add: stream_sound_def pane_numbers_def fun_eq_iff)
  moreover have "has_cursor ?t1 = has_cursor t" by (simp add: has_cursor_def t0 fun_eq_iff)
  ultimately have "streams_sound env ?t1"
    using assms(2,3) by (simp add: journal_sound_def streams_sound_def segment_sound_def event_sound_def gap_sound_def t0)
  moreover have "commits_sound ?t1"
    using commit_step_sound [OF assms(1)] assms(3) commits_sound_cong [of ?t1 t0] by (simp add: journal_sound_def)
  ultimately show ?thesis using assms(3) by (simp add: journal_sound_def t0)
qed

lemma append_journal_event_keeps:
  assumes "ji_stream_id input = None"
  shows "v2_keeps (journal_sound env) (append_journal_event env input)"
  unfolding append_journal_event_def Let_def assms option.case
proof (intro v2_keeps_now v2_keeps_ok v2_ok_intros, goal_cases)
  case (1 now t w u commit i)
  then show ?case by (auto intro: session_event_sound)
next
  case (2 now t w u commit t0 p c i)
  note t0 = commit_step_fields [OF \<open>commit_step _ commit t t0\<close>]
  show ?case (is "journal_sound env ?t1")
  proof (rule events_stored_sound [OF _ 2(1)])
    show "events_stored t ?t1"
      by (rule events_storedI [where e = "last (at_events ?t1)" and G = "[]" and c = c and ?t0.0 = t0 and
            n = "sk_next_event_seq c + 1" and now = now])
        (use 2 in \<open>simp_all add: t0 upd_defs rows_for_def new_numbers_def List.map_filter_simps\<close>)
  qed
qed

text \<open>The commands of the user go to tables of their own.\<close>

definition same_journal :: "archive_tables \<Rightarrow> archive_tables \<Rightarrow> bool" where
  "same_journal t t1 \<longleftrightarrow> (\<exists>blocks entries. t1 = t\<lparr>at_command_blocks := blocks, at_command_entries := entries\<rparr>)"

lemma same_journal_commands:
  "same_journal t (insert_command_block row t)" "same_journal t (upsert_command_entry e (insert_command_block row t))"
  unfolding same_journal_def insert_command_block_def upsert_command_entry_def
  by (cases t; force)+

lemma v2_ok_command [v2_ok_intros]:
  assumes "\<And>t1. same_journal t t1 \<Longrightarrow> Q () t1"
  shows "v2_ok (upsert_verified_command_history env tx commit event_seq) Q t"
  unfolding upsert_verified_command_history_def Let_def
proof (intro v2_ok_intros)
  have "same_journal t t" unfolding same_journal_def by (cases t) simp
  then show "Q () t" by (rule assms)
qed (rule assms, rule same_journal_commands)+

lemma v2_ok_ui_reuse [v2_ok_intros]:
  "(\<And>b. Q b t) \<Longrightarrow> v2_ok (reuse_ui_input_receipt_if_possible env tx) Q t"
  unfolding reuse_ui_input_receipt_if_possible_def
  by (auto split: option.split intro!: v2_ok_intros)

lemma v2_ok_ui_input:
  "v2_ok (append_ui_input_body env tx writer) (\<lambda>u t1. t1 = t \<or> events_stored t t1) t"
  unfolding append_ui_input_body_def Let_def
proof (intro v2_ok_intros, goal_cases)
  case (2 reused w commit t0 c i t2 rows)
  note t0 = commit_step_fields [OF \<open>commit_step _ commit t t0\<close>]
  show ?case (is "?t1 = t \<or> events_stored t ?t1")
  proof (rule disjI2)
    show "events_stored t ?t1"
      by (rule events_storedI [where e = "last (at_events ?t1)" and G = "[]" and c = c and ?t0.0 = t0 and
            n = "sk_next_event_seq c + 1" and now = "ut_now tx"])
        (use 2 in \<open>auto simp: t0 upd_defs rows_for_def new_numbers_def List.map_filter_simps same_journal_def\<close>)
  qed
qed simp

lemma append_ui_input_keeps: "v2_keeps (journal_sound env) (append_ui_input_event_and_command env input writer)"
  unfolding append_ui_input_event_and_command_def
  by (intro v2_keeps_now v2_keeps_ok, rule v2_ok_mono [OF v2_ok_ui_input]) (auto intro: events_stored_sound)

section \<open>Sessions, panes and writers\<close>

lemma insert_session_cursor_sound:
  assumes sound: "journal_sound env t" and row: "xc_next_commit_seq row = 1"
  shows "journal_sound env (insert_session_cursor row t)"
proof (cases "list_ex (\<lambda>c. xc_session_id c = xc_session_id row) (at_session_cursors t)")
  case True
  then show ?thesis using sound by (simp add: insert_session_cursor_def)
next
  case False
  let ?t1 = "t\<lparr>at_session_cursors := at_session_cursors t @ [row]\<rparr>"
  have new: "xc_session_id row \<notin> xc_session_id ` set (at_session_cursors t)" using False by (auto simp: list_ex_iff)
  then have none: "filter (\<lambda>r. cm_session_id r = xc_session_id row) (at_commits t) = []"
    using sound unfolding journal_sound_def commits_sound_def filter_empty_conv by metis
  have "commits_sound ?t1"
    using sound row new none by (auto simp: journal_sound_def commits_sound_def)
  moreover have "streams_sound env ?t1" using sound streams_sound_cong [of ?t1 t env] by (simp add: journal_sound_def)
  ultimately show ?thesis using False sound by (simp add: insert_session_cursor_def journal_sound_def)
qed

lemma upsert_session_keeps: "v2_keeps (journal_sound env) (upsert_runtime_session env input)"
  unfolding upsert_runtime_session_def
proof (intro v2_keeps_now v2_keeps_ok v2_ok_intros, rule insert_session_cursor_sound)
  fix now :: int and row and t
  show "journal_sound env (upsert_session_row row t)" if "journal_sound env t"
    using that journal_sound_cong [of "upsert_session_row row t" t env] by (simp add: upsert_session_row_def)
qed simp

lemma stream_sound_cong:
  assumes "at_segments t1 = at_segments t" "at_events t1 = at_events t" "at_gaps t1 = at_gaps t"
  shows "stream_sound t1 = stream_sound t"
  unfolding stream_sound_def pane_numbers_def pane_segments_def pane_events_def pane_gaps_def assms ..

lemma panes_sound_update:
  assumes "panes_sound env cs rows" and f: "\<And>r. xp_id (f r) = xp_id r" "\<And>r. xp_session_id (f r) = xp_session_id r"
    "\<And>r. xp_last_event_seq (f r) = xp_last_event_seq r"
  shows "panes_sound env cs (update_where q f rows)"
proof -
  have ids: "map xp_id (update_where q f rows) = map xp_id rows" by (rule update_where_map) (rule f)
  have "\<exists>r\<in>set (update_where q f rows). xp_id r = sk_pane_id c \<and> xp_session_id r = sk_session_id c \<and>
      xp_last_event_seq r = sk_next_event_seq c - 1" if c: "c \<in> set cs" for c
  proof -
    obtain r where "r \<in> set rows" "xp_id r = sk_pane_id c \<and> xp_session_id r = sk_session_id c \<and>
        xp_last_event_seq r = sk_next_event_seq c - 1"
      using assms(1) c by (auto simp: panes_sound_def)
    then show ?thesis by (intro bexI [of _ "if q r then f r else r"]) (auto simp: in_update_where f)
  qed
  moreover have "cursor_of_pane env (xp_id r) \<in> sk_id ` set cs" if "r \<in> set (update_where q f rows)" for r
    using assms(1) that by (auto simp: in_update_where f panes_sound_def)
  ultimately show ?thesis using assms(1) ids by (simp add: panes_sound_def)
qed

lemma streams_sound_insert:
  assumes sound: "streams_sound env t" and new: "sk_id cur \<notin> sk_id ` set (at_stream_cursors t)"
    and row: "xp_id row = p" "xp_session_id row = sid" "xp_last_event_seq row = 0" "p \<notin> xp_id ` set (at_panes t)"
    and cur: "sk_id cur = cursor_of_pane env p" "sk_session_id cur = sid" "sk_pane_id cur = p" "sk_stream_id cur = default_stream_id"
      "sk_next_event_seq cur = 1" "sk_next_byte_seq cur = 0"
    and t2: "at_stream_cursors t2 = at_stream_cursors t @ [cur]" "at_panes t2 = at_panes t @ [row]" "at_segments t2 = at_segments t"
      "at_events t2 = at_events t" "at_gaps t2 = at_gaps t"
  shows "streams_sound env t2"
proof -
  have cursors: "cursors_sound env (at_stream_cursors t)" and panes: "panes_sound env (at_stream_cursors t) (at_panes t)"
    using sound by (auto simp: streams_sound_def)
  have none: "\<not> has_cursor t s p" for s
    using cursors new cur(1) by (auto simp: has_cursor_def cursors_sound_def)
  have "pane_segments sid p None t2 = []" "pane_events sid p None t2 = []" "pane_gaps sid p None t2 = []"
    using sound none unfolding pane_segments_def pane_events_def pane_gaps_def t2 filter_empty_conv streams_sound_def
      segment_sound_def event_sound_def gap_sound_def by blast+
  then have "stream_sound t2 cur"
    by (simp add: stream_sound_def cur pane_numbers_def events_in_order_def List.map_filter_simps)
  moreover have "stream_sound t2 = stream_sound t" using t2 by (intro stream_sound_cong)
  moreover have "has_cursor t2 s q" if "has_cursor t s q" for s q using that by (auto simp: has_cursor_def t2)
  moreover have "cursors_sound env (at_stream_cursors t2)" using cursors new cur by (auto simp: cursors_sound_def t2)
  moreover have "panes_sound env (at_stream_cursors t2) (at_panes t2)" using panes row cur by (auto simp: panes_sound_def t2)
  ultimately show ?thesis using sound by (auto simp: streams_sound_def segment_sound_def event_sound_def gap_sound_def t2)
qed

lemma upsert_pane_sound:
  assumes sound: "streams_sound env t"
    and row: "xp_id row = p" "xp_session_id row = sid" "xp_last_event_seq row = 0"
    and cur: "sk_id cur = cursor_of_pane env p" "sk_session_id cur = sid" "sk_pane_id cur = p" "sk_stream_id cur = default_stream_id"
      "sk_next_event_seq cur = 1" "sk_next_byte_seq cur = 0"
    and t1: "upsert_pane_row row t = Some t1" and t2: "insert_stream_cursor cur t1 = Some t2"
  shows "streams_sound env t2"
proof -
  have panes: "panes_sound env (at_stream_cursors t) (at_panes t)"
    using sound by (auto simp: streams_sound_def)
  have fields: "at_stream_cursors t1 = at_stream_cursors t" "at_segments t1 = at_segments t" "at_events t1 = at_events t" "at_gaps t1 = at_gaps t"
    using t1 by (auto simp: upsert_pane_row_def split: if_splits)
  show ?thesis
  proof (cases "p \<in> xp_id ` set (at_panes t)")
    case True
    then have "at_panes t1 = update_where (\<lambda>r. xp_id r = p)
        (\<lambda>r. r\<lparr>xp_title := xp_title row, xp_rows := xp_rows row, xp_cols := xp_cols row\<rparr>) (at_panes t)"
      using t1 row(1) by (auto simp: upsert_pane_row_def list_ex_iff split: if_splits)
    then have "panes_sound env (at_stream_cursors t) (at_panes t1)" using panes_sound_update [OF panes] by simp
    moreover have "cursor_of_pane env p \<in> sk_id ` set (at_stream_cursors t)" using panes True by (auto simp: panes_sound_def)
    then have "t2 = t1" using t2 cur(1) by (auto simp: insert_stream_cursor_def list_ex_iff fields split: if_splits)
    ultimately show ?thesis
      using sound stream_sound_cong [of t1 t] by (simp add: streams_sound_def row_defs fields)
  next
    case False
    then have "\<not> list_ex (\<lambda>r. xp_id r = xp_id row) (at_panes t)"
      unfolding list_ex_iff row(1) by (metis image_eqI)
    then have panes1: "at_panes t1 = at_panes t @ [row]"
      using t1 by (auto simp: upsert_pane_row_def split: if_splits)
    show ?thesis
    proof (cases "sk_id cur \<in> sk_id ` set (at_stream_cursors t)")
      case True
      then have "t2 = t1" using t2 by (auto simp: insert_stream_cursor_def list_ex_iff fields split: if_splits)
      moreover have "panes_sound env (at_stream_cursors t) (at_panes t1)"
        using panes True cur(1) row False unfolding panes_sound_def panes1 by auto
      ultimately show ?thesis
        using sound stream_sound_cong [of t1 t] by (simp add: streams_sound_def row_defs fields)
    next
      case new: False
      then have "\<not> list_ex (\<lambda>c. sk_id c = sk_id cur) (at_stream_cursors t1)"
        unfolding list_ex_iff fields by (metis image_eqI)
      then have "t2 = t1\<lparr>at_stream_cursors := at_stream_cursors t1 @ [cur]\<rparr>"
        using t2 by (auto simp: insert_stream_cursor_def)
      then show ?thesis
        by (intro streams_sound_insert [OF sound new row False cur]) (simp_all add: fields panes1)
    qed
  qed
qed

lemma upsert_pane_keeps:
  assumes "pi_stream_id input = None"
  shows "v2_keeps (journal_sound env) (upsert_runtime_pane env input)"
  unfolding upsert_runtime_pane_def Let_def assms option.case
proof (intro v2_keeps_bind v2_keeps_simple v2_keeps_now v2_keeps_ok v2_ok_intros v2_ok_insert, goal_cases)
  case (1 x now t t1 t2)
  have "at_commits t2 = at_commits t" "at_session_cursors t2 = at_session_cursors t" "at_writers t2 = at_writers t"
    using 1(2,3) by (auto simp: upsert_pane_row_def insert_stream_cursor_def split: if_splits)
  moreover have "streams_sound env t2"
    using 1(1) by (intro upsert_pane_sound [OF _ _ _ _ _ _ _ _ _ _ 1(2,3)]) (simp_all add: journal_sound_def cursor_of_pane_def)
  ultimately show ?case using 1(1) commits_sound_cong [of t2 t] by (simp add: journal_sound_def)
qed

text \<open>Changing writers without making one active leaves at most one active.\<close>

lemma writers_sound_update:
  assumes "writers_sound ws" and f: "\<And>r. wg_id (f r) = wg_id r" "\<And>r. p r \<Longrightarrow> writer_active r"
  shows "writers_sound (update_where p f ws)"
proof -
  have "length (filter writer_active (update_where p f ws)) \<le> length (filter writer_active ws)"
    using f(2) by (induction ws) (auto simp: update_where_def)
  moreover have "map wg_id (update_where p f ws) = map wg_id ws" by (rule update_where_map) (rule f)
  ultimately show ?thesis using assms(1) by (simp add: writers_sound_def)
qed

lemma journal_sound_writers:
  "journal_sound env t \<Longrightarrow> writers_sound ws \<Longrightarrow> journal_sound env (t\<lparr>at_writers := ws\<rparr>)"
  using streams_sound_cong [of "t\<lparr>at_writers := ws\<rparr>" t env] commits_sound_cong [of "t\<lparr>at_writers := ws\<rparr>" t]
  by (simp add: journal_sound_def)

lemma insert_writer_sound:
  assumes "writers_sound (at_writers t)" "insert_writer row t = Some t1" "writer_active row"
  shows "writers_sound (at_writers t1)"
proof -
  have "\<not> list_ex (\<lambda>r. wg_id r = wg_id row \<or> writer_active r) (at_writers t)" "at_writers t1 = at_writers t @ [row]"
    using assms(2,3) by (auto simp: insert_writer_def)
  then show ?thesis
    using assms(1,3) by (auto simp: writers_sound_def list_ex_iff filter_empty_conv)
qed

lemma v2_ok_clock_anchor [v2_ok_intros]: "Q () t \<Longrightarrow> v2_ok (insert_clock_anchor env) Q t"
  unfolding insert_clock_anchor_def by (intro v2_ok_intros) simp

lemma v2_keeps_err_if [v2_keeps_intros]: "(\<not> b \<Longrightarrow> v2_keeps I m) \<Longrightarrow> v2_keeps I (if b then io_err e else m)"
  by simp

lemma acquire_writer_keeps: "v2_keeps (journal_sound env) (acquire_writer_generation env process_id lease_ms)"
  unfolding acquire_writer_generation_def
proof (intro v2_keeps_err_if v2_keeps_bind v2_keeps_now v2_keeps_simple v2_keeps_ok v2_ok_intros v2_ok_insert, goal_cases)
  case (1 now i token t t1)
  let ?t0 = "expire_writers now t"
  have "writers_sound (at_writers ?t0)"
    using 1(2) unfolding expire_writers_def by (simp, intro writers_sound_update) (auto simp: journal_sound_def)
  then have "writers_sound (at_writers t1)" using 1(4) by (rule insert_writer_sound) (simp add: writer_active_def)
  moreover have "t1 = t\<lparr>at_writers := at_writers t1\<rparr>" using 1(4) by (auto simp: insert_writer_def expire_writers_def)
  ultimately show ?case using journal_sound_writers [OF 1(2)] by metis
qed

lemma update_writer_sound:
  assumes "journal_sound env t" "update_writer i f t = (n, t1)" "\<And>r. wg_id (f r) = wg_id r"
  shows "journal_sound env t1"
proof -
  have "t1 = t\<lparr>at_writers := update_where (\<lambda>r. wg_id r = i \<and> writer_active r) f (at_writers t)\<rparr>"
    using assms(2) by (auto simp: update_writer_def Let_def)
  moreover have "writers_sound (update_where (\<lambda>r. wg_id r = i \<and> writer_active r) f (at_writers t))"
    using assms by (intro writers_sound_update) (auto simp: journal_sound_def)
  ultimately show ?thesis using journal_sound_writers [OF assms(1)] by simp
qed

lemma heartbeat_keeps: "v2_keeps (journal_sound env) (heartbeat_writer_generation env writer lease_ms)"
  unfolding heartbeat_writer_generation_def
  by (intro v2_keeps_err_if v2_keeps_now v2_keeps_ok v2_ok_intros) (auto intro: update_writer_sound)

lemma release_keeps: "v2_keeps (journal_sound env) (release_writer_generation env writer)"
  unfolding release_writer_generation_def
  by (intro v2_keeps_now v2_keeps_ok v2_ok_intros) (auto intro: update_writer_sound)

section \<open>Snapshots\<close>

lemma commit_step_keeps:
  assumes "commit_step sid commit t t1" "journal_sound env t"
  shows "journal_sound env t1"
proof -
  have "commits_sound t1" using commit_step_sound [OF assms(1)] assms(2) by (simp add: journal_sound_def)
  then show ?thesis
    using assms(2) streams_sound_cong [of t1 t env] commit_step_fields [OF assms(1)] by (simp add: journal_sound_def)
qed

lemma or_new_id_keeps: "v2_keeps I (or_new_id env given)"
  by (simp add: or_new_id_def split: option.split)

lemma write_screen_snapshot_keeps: "v2_keeps (journal_sound env) (write_screen_snapshot env input)"
  unfolding write_screen_snapshot_def
proof (intro v2_keeps_bind v2_keeps_simple v2_keeps_now or_new_id_keeps v2_keeps_ok v2_ok_intros)
  fix t commit t1 t2 row x
  assume "journal_sound env t" "commit_step (wi_session_id input) commit t t1" "insert_screen_snapshot row t1 = Inr (x, t2)"
  then show "journal_sound env t2"
    using commit_step_keeps [of _ commit t t1 env] journal_sound_cong [of t2 t1 env] by (auto simp: insert_screen_snapshot_def split: if_splits option.splits)
qed

lemma write_topology_snapshot_keeps: "v2_keeps (journal_sound env) (write_topology_snapshot env input)"
  unfolding write_topology_snapshot_def
proof (intro v2_keeps_bind v2_keeps_simple v2_keeps_now or_new_id_keeps v2_keeps_ok v2_ok_intros v2_ok_insert)
  fix t commit t1 t2 row x
  assume "journal_sound env t" "commit_step (wt_session_id input) commit t t1" "insert_topology_snapshot row t1 = Some t2"
  then show "journal_sound env t2"
    using commit_step_keeps [of _ commit t t1 env] journal_sound_cong [of t2 t1 env] by (auto simp: insert_topology_snapshot_def)
qed

section \<open>Reachable tables\<close>

definition no_tables :: archive_tables where
  "no_tables = \<lparr>at_writers = [], at_sessions = [], at_session_cursors = [], at_panes = [], at_stream_cursors = [],
     at_commits = [], at_segments = [], at_events = [], at_gaps = [], at_receipts = [], at_outbox = [],
     at_command_blocks = [], at_command_entries = [], at_screen_snapshots = [], at_topology_snapshots = []\<rparr>"

text \<open>
  What any number of processes leave that write what is captured, each doing any of the operations on any state of
  the world, one transaction after the other. Panes have their default stream only, as the runtime has it.
\<close>

inductive archive_reachable :: "'w archive_env \<Rightarrow> archive_tables \<Rightarrow> bool" for env where
  empty_archive: "archive_reachable env no_tables"
| step_session: "archive_reachable env t \<Longrightarrow> upsert_runtime_session env xi (w, t) = (r, st) \<Longrightarrow> archive_reachable env (snd st)"
| step_pane: "archive_reachable env t \<Longrightarrow> pi_stream_id pin = None \<Longrightarrow> upsert_runtime_pane env pin (w, t) = (r, st) \<Longrightarrow>
    archive_reachable env (snd st)"
| step_acquire: "archive_reachable env t \<Longrightarrow> acquire_writer_generation env process lease (w, t) = (ra, st) \<Longrightarrow>
    archive_reachable env (snd st)"
| step_heartbeat: "archive_reachable env t \<Longrightarrow> heartbeat_writer_generation env writer lease (w, t) = (r, st) \<Longrightarrow>
    archive_reachable env (snd st)"
| step_release: "archive_reachable env t \<Longrightarrow> release_writer_generation env writer (w, t) = (r, st) \<Longrightarrow> archive_reachable env (snd st)"
| step_segment: "archive_reachable env t \<Longrightarrow> gi_stream_id gi = None \<Longrightarrow> append_stream_segment env gi (w, t) = (rs, st) \<Longrightarrow>
    archive_reachable env (snd st)"
| step_event: "archive_reachable env t \<Longrightarrow> ji_stream_id ji = None \<Longrightarrow> append_journal_event env ji (w, t) = (re, st) \<Longrightarrow>
    archive_reachable env (snd st)"
| step_gap: "archive_reachable env t \<Longrightarrow>
    append_history_gap_event env sid p writer skipped dropped reason at_time (w, t) = (re, st) \<Longrightarrow> archive_reachable env (snd st)"
| step_input: "archive_reachable env t \<Longrightarrow> append_ui_input_event_and_command env ui writer (w, t) = (r, st) \<Longrightarrow>
    archive_reachable env (snd st)"
| step_screen: "archive_reachable env t \<Longrightarrow> write_screen_snapshot env wi (w, t) = (rw, st) \<Longrightarrow> archive_reachable env (snd st)"
| step_topology: "archive_reachable env t \<Longrightarrow> write_topology_snapshot env wt (w, t) = (rw, st) \<Longrightarrow> archive_reachable env (snd st)"

lemma journal_sound_empty: "journal_sound env no_tables"
  by (simp add: journal_sound_def streams_sound_def commits_sound_def writers_sound_def cursors_sound_def panes_sound_def no_tables_def)

lemma reachable_sound:
  assumes "archive_reachable env t"
  shows "journal_sound env t"
  using assms
proof induction
  case empty_archive
  show ?case by (rule journal_sound_empty)
next
  case (step_session t xi w r st)
  show ?case using v2_keepsD [OF upsert_session_keeps step_session(2)] step_session by simp
next
  case (step_pane t pin w r st)
  show ?case using v2_keepsD [OF upsert_pane_keeps [OF step_pane(2)] step_pane(3)] step_pane by simp
next
  case (step_acquire t process lease w ra st)
  show ?case using v2_keepsD [OF acquire_writer_keeps step_acquire(2)] step_acquire by simp
next
  case (step_heartbeat t writer lease w r st)
  show ?case using v2_keepsD [OF heartbeat_keeps step_heartbeat(2)] step_heartbeat by simp
next
  case (step_release t writer w r st)
  show ?case using v2_keepsD [OF release_keeps step_release(2)] step_release by simp
next
  case (step_segment t gi w rs st)
  show ?case using v2_keepsD [OF append_stream_segment_keeps [OF step_segment(2)] step_segment(3)] step_segment by simp
next
  case (step_event t ji w re st)
  show ?case using v2_keepsD [OF append_journal_event_keeps [OF step_event(2)] step_event(3)] step_event by simp
next
  case (step_gap t sid p writer skipped dropped reason at_time w re st)
  show ?case using v2_keepsD [OF append_history_gap_keeps step_gap(2)] step_gap by simp
next
  case (step_input t ui writer w r st)
  show ?case using v2_keepsD [OF append_ui_input_keeps step_input(2)] step_input by simp
next
  case (step_screen t wi w rw st)
  show ?case using v2_keepsD [OF write_screen_snapshot_keeps step_screen(2)] step_screen by simp
next
  case (step_topology t wt w rw st)
  show ?case using v2_keepsD [OF write_topology_snapshot_keeps step_topology(2)] step_topology by simp
qed

text \<open>The facade does nothing but these operations, so it too stays within the reachable tables.\<close>

lemma v2_keeps_reach:
  "(\<And>w t r st. archive_reachable env t \<Longrightarrow> m (w, t) = (r, st) \<Longrightarrow> archive_reachable env (snd st)) \<Longrightarrow>
   v2_keeps (archive_reachable env) m"
  by (rule v2_keepsI) (metis prod.collapse)

lemma reachable_keeps:
  "v2_keeps (archive_reachable env) (upsert_runtime_session env xi)"
  "pi_stream_id pin = None \<Longrightarrow> v2_keeps (archive_reachable env) (upsert_runtime_pane env pin)"
  "v2_keeps (archive_reachable env) (acquire_writer_generation env process lease)"
  "v2_keeps (archive_reachable env) (release_writer_generation env writer)"
  "gi_stream_id gi = None \<Longrightarrow> v2_keeps (archive_reachable env) (append_stream_segment env gi)"
  "v2_keeps (archive_reachable env) (append_history_gap_event env sid p writer skipped dropped reason at_time)"
  "v2_keeps (archive_reachable env) (append_ui_input_event_and_command env ui writer)"
  by - (rule v2_keeps_reach, blast intro: archive_reachable.intros)+

end
