(* ===== verification/Archive_Valid.thy ===== *)
theory Archive_Valid
  imports Archive_Reach
begin

text \<open>
  The checks of \<open>Archive_Check\<close> find nothing wrong with the journals that the operations write.
\<close>

section \<open>The checks\<close>

lemma sql_max_append: "max_optional_i64 [sql_max xs, sql_max ys, sql_max zs] = sql_max (xs @ ys @ zs)"
  by (auto simp: max_optional_i64_def sql_max_def List.map_filter_simps Max_Un max.assoc)

lemma sql_max_next: "\<forall>x\<in>set ns. x < n \<Longrightarrow> ns \<noteq> [] \<longrightarrow> n - 1 \<in> set ns \<Longrightarrow> sql_max ns = Some h \<Longrightarrow> h + 1 = (n :: int)"
proof -
  assume *: "\<forall>x\<in>set ns. x < n" "ns \<noteq> [] \<longrightarrow> n - 1 \<in> set ns" "sql_max ns = Some h"
  then have "h = Max (set ns)" "n - 1 \<in> set ns" by (auto simp: sql_max_def split: if_splits)
  moreover have "Max (set ns) = n - 1" using * calculation(2) by (intro Max_eqI) auto
  ultimately show ?thesis by simp
qed

lemma pane_rows_default:
  assumes "streams_sound env t"
  shows "pane_segments sid p (Some default_stream_id) t = pane_segments sid p None t"
    "pane_events sid p (Some default_stream_id) t = pane_events sid p None t"
    "pane_gaps sid p (Some default_stream_id) t = pane_gaps sid p None t"
  using assms unfolding streams_sound_def segment_sound_def event_sound_def gap_sound_def pane_segments_def pane_events_def
    pane_gaps_def in_stream_def by (auto intro!: filter_cong)

lemma v2_ok_event_high [v2_ok_intros]:
  "Q (max_optional_i64 [max_stream_segment_event_high sid p s t, max_journal_event_seq sid p s t, max_history_gap_event_high sid p s t]) t
   \<Longrightarrow> v2_ok (load_event_high env sid p s) Q t"
  unfolding load_event_high_def by (intro v2_ok_intros)

lemma event_high_None:
  "max_optional_i64 [max_stream_segment_event_high sid p None t, max_journal_event_seq sid p None t,
     max_history_gap_event_high sid p None t] = sql_max (pane_numbers sid p t)"
  by (simp add: max_stream_segment_event_high_def max_journal_event_seq_def max_history_gap_event_high_def pane_numbers_def sql_max_append)

lemma event_high_default:
  assumes "streams_sound env t"
  shows "max_optional_i64 [max_stream_segment_event_high sid p (Some default_stream_id) t,
     max_journal_event_seq sid p (Some default_stream_id) t, max_history_gap_event_high sid p (Some default_stream_id) t] =
     sql_max (pane_numbers sid p t)"
  unfolding event_high_None [symmetric] max_stream_segment_event_high_def max_journal_event_seq_def max_history_gap_event_high_def
  by (simp only: pane_rows_default [OF assms])

lemma byte_chain_max: "byte_chain low rows high \<Longrightarrow> rows \<noteq> [] \<Longrightarrow> Max (set (map sg_byte_high rows)) = high"
proof (induction rows arbitrary: low)
  case (Cons r rows)
  show ?case
  proof (cases "rows = []")
    case True
    then show ?thesis using Cons.prems by simp
  next
    case False
    have chain: "byte_chain (sg_byte_high r) rows high" using Cons.prems unfolding byte_chain.simps by blast
    then have "Max (set (map sg_byte_high rows)) = high" using False by (rule Cons.IH)
    moreover note byte_chain_mono [OF chain]
    ultimately show ?thesis using False by (simp add: max_def)
  qed
qed simp

lemma check_stream_cursors_ok:
  assumes sound: "streams_sound env t" and cs: "set cs \<subseteq> set (at_stream_cursors t)"
  shows "v2_ok (check_stream_cursors env cs failures) (\<lambda>found t1. found = failures \<and> t1 = t) t"
  using cs
proof (induction cs arbitrary: failures)
  case Nil
  show ?case unfolding check_stream_cursors.simps by (intro v2_ok_intros) simp
next
  case (Cons c cs)
  let ?ns = "pane_numbers (sk_session_id c) (sk_pane_id c) t" and ?rows = "pane_segments (sk_session_id c) (sk_pane_id c) None t"
  have c: "stream_sound t c" "sk_stream_id c = default_stream_id"
    using sound Cons.prems by (auto simp: streams_sound_def cursors_sound_def)
  have events: "(case sql_max ?ns of None \<Rightarrow> [] | Some h \<Rightarrow> expected_failure ''stream_cursor'' (sk_id c) ''next_event_seq'' (sk_next_event_seq c) (h + 1)) = []"
    using sql_max_next [of ?ns "sk_next_event_seq c"] c(1) by (auto simp: stream_sound_def Let_def expected_failure_def split: option.split)
  have "(case max_stream_segment_byte_high (sk_session_id c) (sk_pane_id c) (Some default_stream_id) t of None \<Rightarrow> 0 | Some b \<Rightarrow> b) =
      sk_next_byte_seq c"
    using c(1) byte_chain_max [of 0 ?rows "sk_next_byte_seq c"]
    by (auto simp: stream_sound_def Let_def max_stream_segment_byte_high_def pane_rows_default(1) [OF sound] sql_max_def)
  then show ?case
    unfolding check_stream_cursors.simps c(2) Let_def
    by (intro v2_ok_intros) (use Cons.IH Cons.prems in \<open>simp add: event_high_default [OF sound] events expected_failure_def\<close>)
qed

lemma numbers_have_cursor:
  assumes "streams_sound env t" "pane_numbers sid p t \<noteq> []"
  shows "has_cursor t sid p"
proof (rule ccontr)
  assume none: "\<not> has_cursor t sid p"
  have "pane_segments sid p None t = []" "pane_events sid p None t = []" "pane_gaps sid p None t = []"
    using assms(1) none unfolding pane_segments_def pane_events_def pane_gaps_def filter_empty_conv streams_sound_def
      segment_sound_def event_sound_def gap_sound_def by blast+
  then show False using assms(2) by (simp add: pane_numbers_def List.map_filter_simps)
qed

lemma check_panes_ok:
  assumes sound: "streams_sound env t" and rows: "set rows \<subseteq> set (at_panes t)"
  shows "v2_ok (check_panes env rows failures) (\<lambda>found t1. found = failures \<and> t1 = t) t"
  using rows
proof (induction rows arbitrary: failures)
  case Nil
  show ?case unfolding check_panes.simps by (intro v2_ok_intros) simp
next
  case (Cons r rows)
  let ?ns = "pane_numbers (xp_session_id r) (xp_id r) t"
  have "xp_last_event_seq r = h" if h: "sql_max ?ns = Some h" for h
  proof -
    have "?ns \<noteq> []" using h by (auto simp: sql_max_def)
    then obtain c where c: "c \<in> set (at_stream_cursors t)" "sk_session_id c = xp_session_id r" "sk_pane_id c = xp_id r"
      using numbers_have_cursor [OF sound \<open>?ns \<noteq> []\<close>] by (auto simp: has_cursor_def image_iff)
    obtain q where q: "q \<in> set (at_panes t)" "xp_id q = sk_pane_id c" "xp_last_event_seq q = sk_next_event_seq c - 1"
      using sound c(1) unfolding streams_sound_def panes_sound_def by blast
    have "q = r" using q(1,2) c(3) Cons.prems sound unfolding streams_sound_def panes_sound_def
      by (metis distinct_map inj_onD insert_subset list.set(2))
    moreover have "h + 1 = sk_next_event_seq c"
      using sql_max_next [OF _ _ h, of "sk_next_event_seq c"] sound c by (auto simp: streams_sound_def stream_sound_def Let_def)
    ultimately show ?thesis using q(3) by simp
  qed
  then have "(case sql_max ?ns of None \<Rightarrow> [] | Some h \<Rightarrow> expected_failure ''pane'' (xp_id r) ''last_event_seq'' (xp_last_event_seq r) h) = []"
    by (auto simp: expected_failure_def split: option.split)
  then show ?case
    unfolding check_panes.simps
    by (intro v2_ok_intros) (use Cons.IH Cons.prems in \<open>simp add: event_high_None\<close>)
qed

section \<open>Segments in order\<close>

lemma sorted_wrt_either: "sorted_wrt R xs \<Longrightarrow> a \<in> set xs \<Longrightarrow> b \<in> set xs \<Longrightarrow> a \<noteq> b \<Longrightarrow> R a b \<or> R b a"
  by (induction xs) auto

lemma byte_chain_sorted: "byte_chain low rows high \<Longrightarrow> sorted_wrt (\<lambda>a b. sg_byte_high a \<le> sg_byte_low b) rows \<and> (\<forall>r\<in>set rows. low \<le> sg_byte_low r)"
proof (induction rows arbitrary: low)
  case (Cons r rows)
  then have "byte_chain (sg_byte_high r) rows high" "sg_byte_low r = low" "low \<le> sg_byte_high r" by auto
  with Cons.IH [OF this(1)] show ?case by (auto intro: order_trans)
qed simp

definition same_stream :: "segment_row \<Rightarrow> segment_row \<Rightarrow> bool" where
  "same_stream a b \<longleftrightarrow> sg_session_id a = sg_session_id b \<and> sg_pane_id a = sg_pane_id b \<and> sg_stream_id a = sg_stream_id b"

lemma segment_stream:
  assumes "streams_sound env t" "r \<in> set (at_segments t)"
  obtains c where "stream_sound t c" "r \<in> set (pane_segments (sk_session_id c) (sk_pane_id c) None t)"
    "sk_session_id c = sg_session_id r" "sk_pane_id c = sg_pane_id r"
proof -
  have "has_cursor t (sg_session_id r) (sg_pane_id r)" using assms by (auto simp: streams_sound_def segment_sound_def)
  then obtain c where c: "c \<in> set (at_stream_cursors t)" "sk_session_id c = sg_session_id r" "sk_pane_id c = sg_pane_id r"
    by (auto simp: has_cursor_def)
  have "r \<in> set (pane_segments (sk_session_id c) (sk_pane_id c) None t)" using assms(2) c by (simp add: pane_segments_def in_stream_def)
  moreover have "stream_sound t c" using assms(1) c(1) by (simp add: streams_sound_def)
  ultimately show ?thesis using that c(2,3) by blast
qed

lemma segments_apart:
  assumes sound: "streams_sound env t" and ab: "a \<in> set (at_segments t)" "b \<in> set (at_segments t)" "a \<noteq> b" "same_stream a b"
    and le: "segment_order a \<le> segment_order b"
  shows "sg_event_seq_high a < sg_event_seq_low b \<and> sg_byte_high a \<le> sg_byte_low b"
proof -
  obtain c where c: "stream_sound t c" "a \<in> set (pane_segments (sk_session_id c) (sk_pane_id c) None t)"
    "sk_session_id c = sg_session_id a" "sk_pane_id c = sg_pane_id a"
    by (rule segment_stream [OF sound ab(1)])
  let ?rows = "pane_segments (sk_session_id c) (sk_pane_id c) None t"
  have b: "b \<in> set ?rows" using ab c by (simp add: pane_segments_def in_stream_def same_stream_def)
  have "sorted_wrt (\<lambda>a b. sg_event_seq_high a < sg_event_seq_low b) ?rows" "\<forall>r\<in>set ?rows. sg_event_seq_low r \<le> sg_event_seq_high r"
    and chain: "byte_chain 0 ?rows (sk_next_byte_seq c)"
    using c(1) by (auto simp: stream_sound_def Let_def events_in_order_def)
  moreover have "sorted_wrt (\<lambda>a b. sg_event_seq_high a < sg_event_seq_low b \<and> sg_byte_high a \<le> sg_byte_low b) ?rows"
    using calculation(1) byte_chain_sorted [OF chain] by (simp add: sorted_wrt_iff_nth_less)
  moreover have "sg_event_seq_low a \<le> sg_event_seq_low b" using le ab(4) by (auto simp: segment_order_def less_eq_prod_def same_stream_def)
  ultimately show ?thesis using sorted_wrt_either [of _ ?rows a b] c(2) b ab(3) by fastforce
qed

lemma events_in_order_distinct: "events_in_order rows \<Longrightarrow> distinct rows"
  unfolding events_in_order_def by (induction rows) fastforce+

lemma count_list_filter: "P r \<Longrightarrow> count_list (filter P xs) r = count_list xs r"
  by (induction xs) auto

lemma distinct_count_list: "distinct xs \<longleftrightarrow> (\<forall>x. count_list xs x \<le> 1)"
proof (induction xs)
  case (Cons y xs)
  have "(\<forall>x. count_list (y # xs) x \<le> 1) \<longleftrightarrow> count_list xs y = 0 \<and> (\<forall>x. count_list xs x \<le> 1)"
  proof (intro iffI conjI allI)
    assume all: "\<forall>x. count_list (y # xs) x \<le> 1"
    show "count_list xs y = 0" using all [rule_format, of y] by simp
    show "count_list xs x \<le> 1" for x using all [rule_format, of x] by (simp split: if_splits)
  next
    fix x
    assume "count_list xs y = 0 \<and> (\<forall>x. count_list xs x \<le> 1)"
    then show "count_list (y # xs) x \<le> 1" by (cases "x = y") simp_all
  qed
  then show ?case using Cons.IH by (simp add: count_list_0_iff)
qed simp

lemma segments_distinct:
  assumes sound: "streams_sound env t"
  shows "distinct (at_segments t)"
proof -
  have "count_list (at_segments t) r \<le> 1" for r
  proof (cases "r \<in> set (at_segments t)")
    case True
    obtain c where c: "stream_sound t c" "sk_session_id c = sg_session_id r" "sk_pane_id c = sg_pane_id r"
      by (rule segment_stream [OF sound True])
    let ?rows = "pane_segments (sk_session_id c) (sk_pane_id c) None t"
    have order: "events_in_order ?rows" using c(1) by (simp add: stream_sound_def Let_def)
    then have "distinct ?rows" by (rule events_in_order_distinct)
    moreover have "count_list ?rows r = count_list (at_segments t) r"
      unfolding pane_segments_def by (rule count_list_filter) (simp add: c in_stream_def)
    ultimately show ?thesis unfolding distinct_count_list by metis
  qed (simp add: count_list_0_iff)
  then show ?thesis unfolding distinct_count_list by blast
qed

lemma check_segments_ok:
  assumes sound: "streams_sound env t" and rows: "set rows \<subseteq> set (at_segments t)" "distinct rows" "sorted (map segment_order rows)"
    and previous: "\<And>q. previous = Some q \<Longrightarrow> q \<in> set (at_segments t) \<and> q \<notin> set rows \<and> (\<forall>r\<in>set rows. segment_order q \<le> segment_order r)"
  shows "check_segments previous rows = []"
  using rows previous
proof (induction rows arbitrary: previous)
  case (Cons r rows)
  have "segment_overlaps q r = []" if q: "previous = Some q" for q
    using segments_apart [OF sound, of q r] Cons.prems(1) Cons.prems(4) [OF q]
    by (fastforce simp: segment_overlaps_def same_stream_def)
  moreover have "check_segments (Some r) rows = []"
    using Cons.prems(1-3) by (intro Cons.IH) auto
  ultimately show ?case by (auto split: option.split)
qed simp

section \<open>Commits in order\<close>

lemma check_commits_ok:
  assumes "sorted (map cm_session_id rows)" "\<And>s. \<exists>k. map cm_commit_seq (filter (\<lambda>r. cm_session_id r = s) rows) =
      [(if previous = Some s then expected else 1)..k]"
    "\<And>s r. previous = Some s \<Longrightarrow> r \<in> set rows \<Longrightarrow> s \<le> cm_session_id r"
  shows "check_commits previous expected rows = []"
  using assms
proof (induction rows arbitrary: previous expected)
  case (Cons r rows)
  let ?s = "cm_session_id r" and ?start = "\<lambda>s. if previous = Some s then expected else 1"
  obtain k where "cm_commit_seq r # map cm_commit_seq (filter (\<lambda>q. cm_session_id q = ?s) rows) = [?start ?s..k]"
    using Cons.prems(2) [of ?s] by auto
  then have first: "cm_commit_seq r = ?start ?s" "map cm_commit_seq (filter (\<lambda>q. cm_session_id q = ?s) rows) = [cm_commit_seq r + 1..k]"
    by (cases "?start ?s \<le> k"; simp add: upto_rec1 split: if_splits)+
  have "check_commits (Some ?s) (cm_commit_seq r + 1) rows = []"
  proof (rule Cons.IH)
    show "\<exists>k. map cm_commit_seq (filter (\<lambda>q. cm_session_id q = s) rows) = [(if Some ?s = Some s then cm_commit_seq r + 1 else 1)..k]" for s
    proof (cases "s = ?s")
      case True
      then show ?thesis using first(2) by auto
    next
      case other: False
      show ?thesis
      proof (cases "previous = Some s")
        case True
        then have "s < ?s" using Cons.prems(3) [OF True, of r] other by simp
        then have "filter (\<lambda>q. cm_session_id q = s) rows = []"
          using Cons.prems(1) by (auto simp: filter_empty_conv)
        then show ?thesis using other by (auto intro!: exI [of _ 0])
      next
        case False
        then show ?thesis using Cons.prems(2) [of s] other by auto
      qed
    qed
  qed (use Cons.prems(1) in auto)
  then show ?case using first(1) by (simp add: expected_failure_def)
qed simp

lemma sorted_first: "sorted (map (\<lambda>r. (f r, g r)) rows) \<Longrightarrow> sorted (map f rows)"
  by (induction rows) (auto simp: less_eq_prod_def intro: order.strict_implies_order)

lemma commits_in_order:
  assumes "commits_sound t"
  shows "\<exists>k. map cm_commit_seq (filter (\<lambda>r. cm_session_id r = s) (at_commits t)) = [1..k]"
proof (cases "s \<in> xc_session_id ` set (at_session_cursors t)")
  case True
  then show ?thesis using assms by (auto simp: commits_sound_def)
next
  case False
  then have "filter (\<lambda>r. cm_session_id r = s) (at_commits t) = []" using assms by (auto simp: commits_sound_def filter_empty_conv)
  then show ?thesis by (intro exI [of _ 0]) simp
qed

lemma sorted_commits_ok:
  assumes sound: "commits_sound t"
  shows "check_commits None 1 (sort_key (\<lambda>r. (cm_session_id r, cm_commit_seq r)) (filter (\<lambda>r. of_session sid (cm_session_id r)) (at_commits t))) = []"
proof (rule check_commits_ok)
  let ?key = "\<lambda>r. (cm_session_id r, cm_commit_seq r)" and ?rows = "filter (\<lambda>r. of_session sid (cm_session_id r)) (at_commits t)"
  show "sorted (map cm_session_id (sort_key ?key ?rows))" by (rule sorted_first [of cm_session_id cm_commit_seq]) (rule sorted_sort_key)
  fix s
  obtain k where k: "map cm_commit_seq (filter (\<lambda>r. cm_session_id r = s) (at_commits t)) = [1..k]"
    using commits_in_order [OF sound] by blast
  let ?own = "filter (\<lambda>r. cm_session_id r = s) (at_commits t)"
  have "sorted (map ?key ?own)"
  proof -
    have "map ?key ?own = map (Pair s) (map cm_commit_seq ?own)" by (auto intro: map_cong)
    then show ?thesis unfolding k by (simp add: sorted_wrt_map less_eq_prod_def)
  qed
  then have own: "sort_key ?key ?own = ?own" by (rule sort_key_id_if_sorted)
  have "filter (\<lambda>r. cm_session_id r = s) (sort_key ?key ?rows) = sort_key ?key (filter (\<lambda>r. cm_session_id r = s) ?rows)"
    by (rule filter_sort)
  also have "filter (\<lambda>r. cm_session_id r = s) ?rows = (if of_session sid s then ?own else [])"
    by (auto simp: filter_empty_conv intro: filter_cong)
  finally show "\<exists>k. map cm_commit_seq (filter (\<lambda>r. cm_session_id r = s) (sort_key ?key ?rows)) = [(if None = Some s then 1 else 1)..k]"
    using own k by (auto intro: exI [of _ 0])
qed simp

lemma check_session_cursors_ok:
  assumes sound: "commits_sound t" and cs: "set cs \<subseteq> set (at_session_cursors t)"
  shows "v2_ok (check_session_cursors env cs failures) (\<lambda>found t1. found = failures \<and> t1 = t) t"
  using cs
proof (induction cs arbitrary: failures)
  case Nil
  show ?case unfolding check_session_cursors.simps by (intro v2_ok_intros) simp
next
  case (Cons c cs)
  let ?ns = "map cm_commit_seq (filter (\<lambda>r. cm_session_id r = xc_session_id c) (at_commits t))"
  have "?ns = [1..xc_next_commit_seq c - 1]" "1 \<le> xc_next_commit_seq c" using sound Cons.prems by (auto simp: commits_sound_def)
  moreover have "Max {1..n} = n" if "1 \<le> n" for n :: int using that by (intro Max_eqI) auto
  ultimately have "(case sql_max ?ns of None \<Rightarrow> 0 | Some n \<Rightarrow> n) + 1 = xc_next_commit_seq c"
    by (auto simp: sql_max_def)
  then show ?case
    unfolding check_session_cursors.simps
    by (intro v2_ok_intros) (use Cons.IH Cons.prems in \<open>simp add: expected_failure_def\<close>)
qed

lemma validate_ok:
  assumes sound: "journal_sound env t"
  shows "v2_ok (validate_sequence_invariants env sid failures) (\<lambda>found t1. found = failures \<and> t1 = t) t"
proof -
  have streams: "streams_sound env t" and commits: "commits_sound t" using sound by (simp_all add: journal_sound_def)
  have segments: "check_segments None (sort_key segment_order (filter (\<lambda>r. of_session sid (sg_session_id r)) (at_segments t))) = []"
    by (rule check_segments_ok [OF streams]) (use segments_distinct [OF streams] in auto)
  have 1: "v2_ok (validate_stream_cursor_invariants env sid failures) (\<lambda>found t1. found = failures \<and> t1 = t) t"
    unfolding validate_stream_cursor_invariants_def by (intro v2_ok_intros check_stream_cursors_ok [OF streams]) auto
  have 2: "v2_ok (validate_pane_last_event_invariants env sid failures) (\<lambda>found t1. found = failures \<and> t1 = t) t"
    unfolding validate_pane_last_event_invariants_def by (intro v2_ok_intros check_panes_ok [OF streams]) auto
  have 3: "v2_ok (validate_stream_segment_ordering env sid failures) (\<lambda>found t1. found = failures \<and> t1 = t) t"
    unfolding validate_stream_segment_ordering_def by (intro v2_ok_intros) (simp add: segments)
  have 4: "v2_ok (check_session_cursors env (filter (\<lambda>c. of_session sid (xc_session_id c)) (at_session_cursors t)) failures)
      (\<lambda>found t1. found = failures \<and> t1 = t) t"
    by (rule check_session_cursors_ok [OF commits]) auto
  have 5: "v2_ok (validate_commit_sequence_invariants env sid failures) (\<lambda>found t1. found = failures \<and> t1 = t) t"
    unfolding validate_commit_sequence_invariants_def
    by (rule v2_ok_bind, rule v2_ok_load, rule v2_ok_bind, rule v2_ok_mono [OF 4], intro v2_ok_intros) (simp add: sorted_commits_ok [OF commits])
  show ?thesis
    unfolding validate_sequence_invariants_def
    by (rule v2_ok_bind, rule v2_ok_mono [OF 1], clarify, rule v2_ok_bind, rule v2_ok_mono [OF 2], clarify,
        rule v2_ok_bind, rule v2_ok_mono [OF 3], clarify, rule 5)
qed

text \<open>
  C7. The checks of the archive find nothing wrong with what it wrote: in every state that the operations of
  any number of processes can leave, failures of the database and the clock included, the sequence checks of the
  integrity check, when they can read the tables, report no failure, and every stored segment can be hydrated. The
  operations are those that capture output, gaps, input, events and snapshots, on the default stream of a pane.
\<close>
theorem reachable_history_valid:
  assumes "archive_reachable env t" "validate_sequence_invariants env sid failures (w, t) = (Inr found, st)"
  shows "found = failures \<and> snd st = t \<and> list_all (\<lambda>r. stream_segment_hydration_failure env r = None) (at_segments t)"
proof -
  note sound = reachable_sound [OF assms(1)]
  have "found = failures \<and> snd st = t" using v2_okD [OF validate_ok [OF sound] assms(2)] by simp
  then show ?thesis using sound by (simp add: journal_sound_def streams_sound_def segment_sound_def list_all_iff)
qed

end
