(* ===== verification/Archive_Promises.thy ===== *)
theory Archive_Promises
  imports Archive_Valid
begin

text \<open>
  What recording promises: output appends its bytes to one stream and no other is touched, output that has a
  receipt is not stored again, and whoever takes the lease of the writer fences off all others.
\<close>

section \<open>Recording\<close>

definition stream_bytes :: "rstr \<Rightarrow> rstr \<Rightarrow> archive_tables \<Rightarrow> u8 list" where
  "stream_bytes sid p t = concat (map sg_payload (pane_segments sid p None t))"

definition but_writers :: "archive_tables \<Rightarrow> archive_tables \<Rightarrow> bool" where
  "but_writers t t1 \<longleftrightarrow> (\<exists>ws. t1 = t\<lparr>at_writers := ws\<rparr>)"

lemma but_writers_refl: "but_writers t t"
  unfolding but_writers_def by (cases t) simp

lemma but_writers_trans: "but_writers t t1 \<Longrightarrow> but_writers t1 t2 \<Longrightarrow> but_writers t t2"
  by (auto simp: but_writers_def)

lemma v2_ok_acquire: "v2_ok (acquire_writer_generation env process lease_ms) (\<lambda>l. but_writers t) t"
  unfolding acquire_writer_generation_def
  by (intro v2_ok_intros v2_ok_insert) (auto simp: but_writers_def insert_writer_def expire_writers_def)

text \<open>A failed attempt changes no table, so it does not matter how many there were.\<close>

lemma acquire_fails: "acquire_writer_generation env process lease_ms st = (Inl e, st1) \<Longrightarrow> snd st1 = snd st"
  unfolding acquire_writer_generation_def
  by (auto simp: io_bind_def io_err_def io_ok_def now_ms_def new_id_def split: if_splits prod.splits sum.splits
      dest!: v2_transaction_Inl)

lemma v2_ok_acquire_retry:
  assumes "v2_ok (acquire_writer_generation env process lease_ms) Q t"
  shows "v2_ok (acquire_retry env process lease_ms n) Q t"
proof (induction n)
  case 0
  show ?case by (auto simp: v2_ok_def)
next
  case (Suc n)
  show ?case
  proof (rule v2_okI)
    fix st l st2
    assume st: "snd st = t" and run: "acquire_retry env process lease_ms (Suc n) st = (Inr l, st2)"
    obtain r st1 where one: "acquire_writer_generation env process lease_ms st = (r, st1)"
      by (cases "acquire_writer_generation env process lease_ms st")
    show "Q l (snd st2)"
    proof (cases r)
      case (Inr l1)
      then show ?thesis using run one st v2_okD [OF assms, of st l1 st1] by simp
    next
      case (Inl e)
      then have "acquire_retry env process lease_ms n (av_sleep env 25 (fst st1), snd st1) = (Inr l, st2)"
        using run one by (simp split: if_splits)
      then show ?thesis using v2_okD [OF Suc.IH] acquire_fails [OF one [unfolded Inl]] st by fastforce
    qed
  qed
qed

lemma v2_ok_release: "v2_ok (release_writer_generation env writer) (\<lambda>u. but_writers t) t"
  unfolding release_writer_generation_def
  by (intro v2_ok_intros) (auto simp: but_writers_def update_writer_def Let_def)

lemma v2_ok_with_writer:
  assumes "\<And>writer t1. but_writers t t1 \<Longrightarrow> v2_ok (operation writer) (\<lambda>x t2. \<forall>t3. but_writers t2 t3 \<longrightarrow> Q x t3) t1"
  shows "v2_ok (with_writer env process operation) Q t"
  unfolding with_writer_def acquire_writer_generation_with_retry_def
proof (rule v2_ok_bind, rule v2_ok_mono [OF v2_ok_acquire_retry [OF v2_ok_acquire]], rule v2_okI)
  fix lease t1 st x st2
  assume t1: "but_writers t t1" "snd st = t1"
    and run: "(case operation (wl_id lease) st of (result, st1) \<Rightarrow>
           (case release_writer_generation env (wl_id lease) st1 of
              (released, st2) \<Rightarrow>
                (case result of Inl e \<Rightarrow> Inl e | Inr x \<Rightarrow> (case released of Inl e \<Rightarrow> Inl e | Inr u \<Rightarrow> Inr x), st2))) = (Inr x, st2)"
  obtain r st1 where op: "operation (wl_id lease) st = (r, st1)" by (cases "operation (wl_id lease) st")
  obtain r2 st3 where rel: "release_writer_generation env (wl_id lease) st1 = (r2, st3)"
    by (cases "release_writer_generation env (wl_id lease) st1")
  have "r = Inr x" "st3 = st2" and r2: "\<exists>u. r2 = Inr u" using run by (auto simp: op rel split: sum.splits)
  then show "Q x (snd st2)"
    using v2_okD [OF assms [OF t1(1)] op [unfolded \<open>r = Inr x\<close>] t1(2)] v2_okD [OF v2_ok_release] rel by blast
qed

text \<open>What \<open>upsert_capture_target\<close> leaves alone.\<close>

definition same_history :: "archive_tables \<Rightarrow> archive_tables \<Rightarrow> bool" where
  "same_history t t1 \<longleftrightarrow> at_segments t1 = at_segments t \<and> at_receipts t1 = at_receipts t"

lemma v2_ok_upsert_target: "v2_ok (upsert_capture_target env input source p tab rows cols) (\<lambda>u. same_history t) t"
  unfolding upsert_capture_target_def upsert_runtime_session_def upsert_runtime_pane_def Let_def
  by (intro v2_ok_intros v2_ok_insert)
    (auto simp: same_history_def upsert_pane_row_def insert_stream_cursor_def upsert_session_row_def insert_session_cursor_def
      split: if_splits option.splits)

definition raw_sequence_hash :: "'w archive_env \<Rightarrow> u64 \<Rightarrow> rstr" where
  "raw_sequence_hash env n = av_hash_text env (lit ''raw-output-seq:'' @ show_nat (unat n))"

definition recorded :: "'w archive_env \<Rightarrow> terminal_output_input \<Rightarrow> archive_tables \<Rightarrow> bool" where
  "recorded env input t \<longleftrightarrow> (case to_source_sequence input of None \<Rightarrow> False
     | Some n \<Rightarrow> list_ex (\<lambda>r. rc_session_id r = ev_session_id input \<and>
         rc_source_kind r = stream_capture_source_kind env (to_pane_id input) default_stream_id \<and>
         rc_source_event_id_hash r = raw_sequence_hash env n) (at_receipts t))"

definition output_recorded_in :: "'w archive_env \<Rightarrow> terminal_output_input \<Rightarrow> archive_tables \<Rightarrow> archive_tables \<Rightarrow> bool" where
  "output_recorded_in env input t t1 \<longleftrightarrow>
     stream_bytes (ev_session_id input) (to_pane_id input) t1 =
       stream_bytes (ev_session_id input) (to_pane_id input) t @ (if recorded env input t then [] else to_payload input) \<and>
     (\<forall>sid p. (sid, p) \<noteq> (ev_session_id input, to_pane_id input) \<longrightarrow> stream_bytes sid p t1 = stream_bytes sid p t) \<and>
     (\<exists>rows. at_receipts t1 = at_receipts t @ rows \<and> list_all (\<lambda>r. \<exists>n. to_source_sequence input = Some n \<and>
        rc_session_id r = ev_session_id input \<and> rc_source_kind r = stream_capture_source_kind env (to_pane_id input) default_stream_id \<and>
        rc_source_event_id_hash r = raw_sequence_hash env n) rows) \<and>
     (to_source_sequence input = None \<or> recorded env input t1)"

lemma v2_ok_on_failure:
  "v2_ok m Q t \<Longrightarrow> v2_ok (\<lambda>st. case m st of (Inr r, st1) \<Rightarrow> (Inr r, st1) | (Inl e, st1) \<Rightarrow> (Inl e, f e st1)) Q t"
  by (auto simp: v2_ok_def split: prod.splits sum.splits)

lemma v2_ok_append_stream_segment:
  assumes "gi_stream_id input = None"
    "\<And>tx row receipt. tx_valid env tx \<Longrightarrow> tx_input tx = input \<Longrightarrow>
       tx_capture_source_kind tx = map_option (\<lambda>_. stream_capture_source_kind env (gi_pane_id input) default_stream_id) (gi_source_event_id_hash input) \<Longrightarrow>
       known_receipt tx t row \<Longrightarrow> Q receipt t"
    "\<And>tx receipt t1. tx_valid env tx \<Longrightarrow> tx_input tx = input \<Longrightarrow>
       tx_capture_source_kind tx = map_option (\<lambda>_. stream_capture_source_kind env (gi_pane_id input) default_stream_id) (gi_source_event_id_hash input) \<Longrightarrow>
       \<forall>row. \<not> known_receipt tx t row \<Longrightarrow> segment_stored env tx receipt t t1 \<Longrightarrow> Q receipt t1"
  shows "v2_ok (append_stream_segment env input) Q t"
  unfolding append_stream_segment_eq
proof (rule v2_ok_bind, rule v2_ok_basic(3), rule v2_ok_bind, rule v2_ok_now, rule v2_ok_bind, rule v2_ok_basic(3),
    rule v2_ok_on_failure, rule v2_ok_transaction)
  fix u now n
  assume "validate_stream_segment_input input = Inr u" "checked_len (length (gi_payload input)) ''payload length'' = Inr n"
  note tx = segment_tx_valid [OF assms(1) this, of env now]
  have kind: "tx_input (segment_tx env input n now) = input"
    "tx_capture_source_kind (segment_tx env input n now) =
       map_option (\<lambda>_. stream_capture_source_kind env (gi_pane_id input) default_stream_id) (gi_source_event_id_hash input)"
    using assms(1) by (simp_all add: segment_tx_def)
  show "v2_ok (append_stream_segment_transaction env (segment_tx env input n now)) Q t"
  proof (rule v2_ok_append_segment)
    show "tx_stream_id (segment_tx env input n now) = default_stream_id" using tx by (simp add: tx_valid_def)
  qed (erule assms(2) [OF tx kind], erule (1) assms(3) [OF tx kind])
qed

lemma segment_stored_bytes:
  assumes "segment_stored env tx receipt t t1"
  shows "stream_bytes sid p t1 = stream_bytes sid p t @
      (if sid = gi_session_id (tx_input tx) \<and> p = gi_pane_id (tx_input tx) then gi_payload (tx_input tx) else [])"
proof -
  obtain c r E n b where c: "sk_session_id c = gi_session_id (tx_input tx)" "sk_pane_id c = gi_pane_id (tx_input tx)"
    and app: "appended c [r] E [] n b t t1" "rows_for c [r] E []" and r: "sg_payload r = gi_payload (tx_input tx)"
    using assms unfolding segment_stored_def by blast
  show ?thesis using pane_rows_append(1) [OF app, of sid p] c r by (auto simp: stream_bytes_def)
qed

lemma same_history_bytes: "same_history t t1 \<Longrightarrow> stream_bytes sid p t1 = stream_bytes sid p t"
  by (simp add: same_history_def stream_bytes_def pane_segments_def)

lemma but_writers_history: "but_writers t t1 \<Longrightarrow> same_history t t1"
  by (auto simp: but_writers_def same_history_def)

lemma same_history_recorded: "same_history t t1 \<Longrightarrow> recorded env input t1 = recorded env input t"
  by (auto simp: same_history_def recorded_def split: option.split)

lemma output_recorded_cong:
  "same_history t0 t \<Longrightarrow> same_history t1 t2 \<Longrightarrow> output_recorded_in env input t t1 \<Longrightarrow> output_recorded_in env input t0 t2"
  unfolding output_recorded_in_def
  by (simp add: same_history_bytes same_history_recorded) (simp add: same_history_def)

lemma v2_ok_append_output:
  assumes gi: "gi_session_id gi = ev_session_id input" "gi_pane_id gi = to_pane_id input" "gi_stream_id gi = None"
      "gi_payload gi = to_payload input" "gi_source_event_id_hash gi = map_option (raw_sequence_hash env) (to_source_sequence input)"
  shows "v2_ok (append_stream_segment env gi) (\<lambda>r. output_recorded_in env input t) t"
proof -
  have known: "recorded env input t \<longleftrightarrow> (\<exists>row. known_receipt tx t row)"
    if "tx_input tx = gi" "tx_capture_source_kind tx = map_option (\<lambda>_. stream_capture_source_kind env (gi_pane_id gi) default_stream_id)
        (gi_source_event_id_hash gi)" for tx
    using that gi by (auto simp: recorded_def known_receipt_def list_ex_iff split: option.split)
  show ?thesis
  proof (rule v2_ok_append_stream_segment [OF gi(3)], goal_cases)
    case (1 tx row receipt)
    then have "recorded env input t" using known [of tx] by auto
    then show ?case by (simp add: output_recorded_in_def)
  next
    case (2 tx receipt t2)
    then have new: "\<not> recorded env input t" using known [of tx] by auto
    obtain rows commit where rows: "at_receipts t2 = at_receipts t @ rows"
      "receipt_rows (tx_capture_source_kind tx) (gi_source_event_id_hash gi) (gi_session_id gi) commit (tx_payload_checksum tx) rows"
      using 2(5) 2(2) unfolding segment_stored_def by (simp) metis
    have "list_all (\<lambda>r. \<exists>n. to_source_sequence input = Some n \<and> rc_session_id r = ev_session_id input \<and>
        rc_source_kind r = stream_capture_source_kind env (to_pane_id input) default_stream_id \<and>
        rc_source_event_id_hash r = raw_sequence_hash env n) rows \<and> (to_source_sequence input = None \<or> recorded env input t2)"
      using rows(2) 2(3) gi by (auto simp: receipt_rows_def recorded_def rows(1) split: option.splits)
    then show ?case
      using new rows(1) segment_stored_bytes [OF 2(5)] 2(2) gi unfolding output_recorded_in_def by auto
  qed
qed

lemma raw_sequence_hash_eq: "(\<lambda>n. av_hash_text env (lit ''raw-output-seq:'' @ show_nat (unat n))) = raw_sequence_hash env"
  by (simp add: raw_sequence_hash_def fun_eq_iff)

lemma v2_ok_record_output: "v2_ok (record_terminal_output_event env input) (\<lambda>r. output_recorded_in env input t) t"
  unfolding record_terminal_output_event_def raw_sequence_hash_eq
proof (rule v2_ok_bind, rule v2_ok_mono [OF v2_ok_upsert_target], rule v2_ok_bind, rule v2_ok_load, rule v2_ok_if,
    rule v2_ok_basic(2), rule v2_ok_with_writer, rule v2_ok_mono [OF v2_ok_append_output])
  fix u t0 writer t1 r t2
  assume "same_history t t0" "but_writers t0 t1" "output_recorded_in env input t1 t2"
  then show "\<forall>t3. but_writers t2 t3 \<longrightarrow> output_recorded_in env input t t3"
    using output_recorded_cong [of t t1 t2] but_writers_history by (metis same_history_def)
qed simp_all

section \<open>Reading back\<close>

lemma byte_chain_bytes:
  assumes "byte_chain low rows high" "0 \<le> low"
  shows "high = low + int (length (concat (map sg_payload rows))) \<and> (\<forall>r\<in>set rows. low \<le> sg_byte_low r \<and>
    sg_payload r = take (nat (sg_byte_high r - sg_byte_low r)) (drop (nat (sg_byte_low r - low)) (concat (map sg_payload rows))))"
  using assms
proof (induction rows arbitrary: low)
  case (Cons r rows)
  let ?n = "int (length (sg_payload r))"
  have r: "sg_byte_low r = low" "sg_byte_high r = low + ?n" and rest: "byte_chain (low + ?n) rows high"
    using Cons.prems(1) by auto
  have IH: "high = low + ?n + int (length (concat (map sg_payload rows)))"
    "\<And>q. q \<in> set rows \<Longrightarrow> low + ?n \<le> sg_byte_low q \<and> sg_payload q =
       take (nat (sg_byte_high q - sg_byte_low q)) (drop (nat (sg_byte_low q - (low + ?n))) (concat (map sg_payload rows)))"
    using Cons.IH [OF rest] Cons.prems(2) by auto
  have "low \<le> sg_byte_low q \<and> sg_payload q = take (nat (sg_byte_high q - sg_byte_low q))
      (drop (nat (sg_byte_low q - low)) (concat (map sg_payload (r # rows))))" if q: "q \<in> set (r # rows)" for q
  proof (cases "q \<in> set rows")
    case True
    have "nat (sg_byte_low q - low) = length (sg_payload r) + nat (sg_byte_low q - (low + ?n))"
      using IH(2) [OF True] by linarith
    then have same: "drop (nat (sg_byte_low q - low)) (concat (map sg_payload (r # rows))) =
        drop (nat (sg_byte_low q - (low + ?n))) (concat (map sg_payload rows))" by simp
    show ?thesis
    proof (intro conjI)
      show "low \<le> sg_byte_low q" using conjunct1 [OF IH(2) [OF True]] by linarith
      show "sg_payload q = take (nat (sg_byte_high q - sg_byte_low q))
          (drop (nat (sg_byte_low q - low)) (concat (map sg_payload (r # rows))))"
        unfolding same by (rule conjunct2 [OF IH(2) [OF True]])
    qed
  next
    case False
    then show ?thesis using q r by simp
  qed
  then have "\<forall>q\<in>set (r # rows). low \<le> sg_byte_low q \<and> sg_payload q = take (nat (sg_byte_high q - sg_byte_low q))
      (drop (nat (sg_byte_low q - low)) (concat (map sg_payload (r # rows))))" by blast
  moreover have "high = low + int (length (concat (map sg_payload (r # rows))))" using IH(1) by simp
  ultimately show ?case by (rule conjI [rotated])
qed simp

text \<open>
  C8. In every reachable state the segments of a stream hold its bytes from zero on without a hole or an
  overlap: there are as many bytes as the cursor says, and every segment is the piece of the stream that its
  byte range names.
\<close>
theorem stored_bytes_contiguous:
  assumes "archive_reachable env t" "c \<in> set (at_stream_cursors t)"
  shows "sk_next_byte_seq c = int (length (stream_bytes (sk_session_id c) (sk_pane_id c) t)) \<and>
    list_all (\<lambda>r. 0 \<le> sg_byte_low r \<and> sg_byte_low r < sg_byte_high r \<and> sg_payload r =
        take (nat (sg_byte_high r - sg_byte_low r)) (drop (nat (sg_byte_low r)) (stream_bytes (sk_session_id c) (sk_pane_id c) t)))
      (pane_segments (sk_session_id c) (sk_pane_id c) None t)"
proof -
  let ?rows = "pane_segments (sk_session_id c) (sk_pane_id c) None t"
  have "byte_chain 0 ?rows (sk_next_byte_seq c)"
    using reachable_sound [OF assms(1)] assms(2) by (auto simp: journal_sound_def streams_sound_def stream_sound_def Let_def)
  moreover have "\<forall>r\<in>set rows. sg_byte_low r < sg_byte_high r" if "byte_chain low rows high" for low rows high
    using that by (induction rows arbitrary: low) auto
  ultimately show ?thesis using byte_chain_bytes [of 0 ?rows "sk_next_byte_seq c"] by (auto simp: stream_bytes_def list_all_iff)
qed

section \<open>The lease\<close>

lemma v2_ok_acquire_lease:
  "v2_ok (acquire_writer_generation env process lease_ms)
     (\<lambda>l t1. map wg_id (filter writer_active (at_writers t1)) = [wl_id l]) t"
  unfolding acquire_writer_generation_def
proof (intro v2_ok_intros v2_ok_insert, goal_cases)
  case (1 now i token t1)
  have "filter writer_active (at_writers (expire_writers now t)) = []"
    using 1(2) by (auto simp: find_None_iff filter_empty_conv)
  then show ?case using 1(3) by (auto simp: insert_writer_def writer_active_def)
qed

lemma ensure_writer_fails:
  assumes "\<forall>r\<in>set (at_writers t). wg_id r = i \<longrightarrow> \<not> writer_active r"
  shows "v2_ok (ensure_active_writer env i now) Q t"
  by (rule v2_ok_ensure_writer) (use assms in auto)

lemma not_ok: "v2_ok m (\<lambda>x t1. False) t \<Longrightarrow> isl (fst (m (w, t)))"
  by (cases "m (w, t)"; cases "fst (m (w, t))") (auto simp: v2_ok_def)

lemma ensure_writer_stops:
  assumes "\<forall>r\<in>set (at_writers t). wg_id r = i \<longrightarrow> \<not> writer_active r"
  shows "v2_ok (io_bind (ensure_active_writer env i now) f) Q t"
  by (rule v2_ok_bind) (rule ensure_writer_fails [OF assms])

text \<open>An operation that fails and changes no table.\<close>

definition refused :: "('w, 'a) v2_io \<Rightarrow> 'w \<times> archive_tables \<Rightarrow> bool" where
  "refused m st \<longleftrightarrow> isl (fst (m st)) \<and> snd (snd (m st)) = snd st"

lemma refusedI: "v2_ok m (\<lambda>x t1. False) t \<Longrightarrow> v2_keeps (\<lambda>t1. t1 = t) m \<Longrightarrow> refused m (w, t)"
  using not_ok [of m t w] v2_keepsD [of "\<lambda>t1. t1 = t" m "(w, t)"] by (auto simp: refused_def prod_eq_iff)

lemma v2_keeps_stopped: "v2_ok body (\<lambda>x t1. False) t \<Longrightarrow> v2_keeps (\<lambda>t1. t1 = t) (v2_transaction env body)"
  by (rule v2_keeps_ok) (auto intro: v2_ok_mono)

lemma v2_keeps_pressure:
  "v2_keeps I m \<Longrightarrow> v2_keeps I (\<lambda>st. case m st of (Inr r, st1) \<Rightarrow> (Inr r, st1)
     | (Inl e, st1) \<Rightarrow> (Inl e, if q e then (g (fst st1), snd st1) else st1))"
  by (auto simp: v2_keeps_def split: prod.split sum.split) (metis snd_conv)+

lemma known_or_failed:
  assumes "v2_ok m (\<lambda>r t1. known) t" "v2_keeps (\<lambda>t1. t1 = t) m"
  shows "case m (w, t) of (result, st2) \<Rightarrow> snd st2 = t \<and> (isl result \<or> known)"
proof -
  obtain result st2 where run: "m (w, t) = (result, st2)" by (cases "m (w, t)")
  have "isl result \<or> known" using v2_okD [OF assms(1), of "(w, t)"] run by (cases result) auto
  then show ?thesis using v2_keepsD [OF assms(2) run] run by simp
qed

lemma v2_ok_or_new_id: "(\<And>i. Q i t) \<Longrightarrow> v2_ok (or_new_id env given) Q t"
  by (auto simp: or_new_id_def intro!: v2_ok_intros split: option.split)

text \<open>Output and input that the archive has a receipt of: the same source, number and content.\<close>

definition output_known :: "'w archive_env \<Rightarrow> stream_segment_input \<Rightarrow> archive_tables \<Rightarrow> bool" where
  "output_known env gi t \<longleftrightarrow>
     (let stream = (case gi_stream_id gi of Some s \<Rightarrow> s | None \<Rightarrow> default_stream_id)
      in list_ex (\<lambda>r. rc_session_id r = gi_session_id gi \<and> rc_source_kind r = stream_capture_source_kind env (gi_pane_id gi) stream \<and>
           Some (rc_source_event_id_hash r) = gi_source_event_id_hash gi \<and>
           rc_source_payload_hash r = av_hash env (gi_payload gi)) (at_receipts t))"

definition input_known :: "'w archive_env \<Rightarrow> ui_input_event \<Rightarrow> archive_tables \<Rightarrow> bool" where
  "input_known env ui t \<longleftrightarrow>
     (let tx = ui_input_transaction_new env ui 0
      in list_ex (\<lambda>r. rc_session_id r = ui_session_id ui \<and> Some (rc_source_kind r) = ut_capture_source_kind tx \<and>
           Some (rc_source_event_id_hash r) = ut_source_event_id_hash tx \<and>
           rc_source_payload_hash r = ut_payload_hash tx) (at_receipts t))"

lemma v2_ok_ui_reuse_known:
  "v2_ok (reuse_ui_input_receipt_if_possible env (ui_input_transaction_new env ui now))
     (\<lambda>reused t1. t1 = t \<and> (reused \<longrightarrow> input_known env ui t)) t"
proof -
  have fields: "ut_capture_source_kind (ui_input_transaction_new env ui now) = ut_capture_source_kind (ui_input_transaction_new env ui 0)"
    "ut_source_event_id_hash (ui_input_transaction_new env ui now) = ut_source_event_id_hash (ui_input_transaction_new env ui 0)"
    "ut_payload_hash (ui_input_transaction_new env ui now) = ut_payload_hash (ui_input_transaction_new env ui 0)"
    "ut_input (ui_input_transaction_new env ui now) = ui"
    by (simp_all add: ui_input_transaction_new_def Let_def)
  show ?thesis
    unfolding reuse_ui_input_receipt_if_possible_def fields
    by (cases "ut_capture_source_kind (ui_input_transaction_new env ui 0)";
        cases "ut_source_event_id_hash (ui_input_transaction_new env ui 0)"; simp;
        intro v2_ok_intros;
        auto simp: input_known_def Let_def load_capture_receipt_def list_ex_iff dest!: find_in_set)
qed

lemma fenced_output:
  assumes "\<forall>r\<in>set (at_writers t). wg_id r = i \<longrightarrow> \<not> writer_active r" "gi_writer_generation gi = i"
  shows "v2_ok (append_stream_segment_transaction env (segment_tx env gi n now)) (\<lambda>r t1. t1 = t \<and> output_known env gi t) t"
proof -
  let ?tx = "segment_tx env gi n now"
  have new: "v2_ok (append_new_segment env ?tx) Q t" for Q :: "stream_segment_receipt \<Rightarrow> archive_tables \<Rightarrow> bool"
    unfolding append_new_segment_def Let_def
    by (rule ensure_writer_stops) (use assms in \<open>simp add: segment_tx_def Let_def\<close>)
  show ?thesis
    unfolding append_stream_segment_transaction_def
  proof (rule v2_ok_bind, rule v2_ok_reuse)
    fix row receipt
    assume "known_receipt ?tx t row" "rc_source_payload_hash row = tx_payload_checksum ?tx"
    then have "output_known env gi t"
      by (auto simp: known_receipt_def output_known_def segment_tx_def Let_def list_ex_iff intro!: bexI [of _ row])
    then show "v2_ok (case Some receipt of None \<Rightarrow> append_new_segment env ?tx | Some receipt \<Rightarrow> io_ok receipt)
        (\<lambda>r t1. t1 = t \<and> output_known env gi t) t"
      by (simp add: v2_ok_basic)
  qed (simp add: new)
qed

lemma fenced_segment:
  assumes "\<forall>r\<in>set (at_writers t). wg_id r = i \<longrightarrow> \<not> writer_active r" "gi_writer_generation gi = i"
  shows "v2_ok (append_stream_segment env gi) (\<lambda>r t1. output_known env gi t) t"
    "v2_keeps (\<lambda>t1. t1 = t) (append_stream_segment env gi)"
proof -
  note body = fenced_output [OF assms, of env]
  show "v2_ok (append_stream_segment env gi) (\<lambda>r t1. output_known env gi t) t"
    unfolding append_stream_segment_eq
    by (rule v2_ok_bind, rule v2_ok_basic(3), rule v2_ok_bind, rule v2_ok_now, rule v2_ok_bind, rule v2_ok_basic(3),
        rule v2_ok_on_failure, rule v2_ok_transaction, rule v2_ok_mono [OF body]) simp
  show "v2_keeps (\<lambda>t1. t1 = t) (append_stream_segment env gi)"
    unfolding append_stream_segment_eq
    by (intro v2_keeps_bind v2_keeps_simple v2_keeps_now v2_keeps_pressure v2_keeps_ok)
      (auto intro: v2_ok_mono [OF body])
qed

lemma fenced_input:
  assumes "\<forall>r\<in>set (at_writers t). wg_id r = i \<longrightarrow> \<not> writer_active r"
  shows "v2_ok (append_ui_input_event_and_command env ui i) (\<lambda>r t1. input_known env ui t) t"
    "v2_keeps (\<lambda>t1. t1 = t) (append_ui_input_event_and_command env ui i)"
proof -
  have body: "v2_ok (append_ui_input_body env (ui_input_transaction_new env ui now) i) (\<lambda>r t1. t1 = t \<and> input_known env ui t) t" for now
    unfolding append_ui_input_body_def Let_def
    by (rule v2_ok_bind, rule v2_ok_mono [OF v2_ok_ui_reuse_known])
      (auto intro!: v2_ok_if v2_ok_basic(1) ensure_writer_stops [OF assms])
  show "v2_ok (append_ui_input_event_and_command env ui i) (\<lambda>r t1. input_known env ui t) t"
    unfolding append_ui_input_event_and_command_def
    by (rule v2_ok_bind, rule v2_ok_now, rule v2_ok_transaction, rule v2_ok_mono [OF body]) simp
  show "v2_keeps (\<lambda>t1. t1 = t) (append_ui_input_event_and_command env ui i)"
    unfolding append_ui_input_event_and_command_def
    by (intro v2_keeps_now v2_keeps_ok) (auto intro: v2_ok_mono [OF body])
qed

text \<open>
  C10. Taking the lease fences off every other writer: whoever holds another lease changes no table of the archive
  any more. Events, gaps and snapshots are refused, and so are output and input, numbered or not, of any stream:
  appending them succeeds only as the repetition of what is already stored, of which the archive has the receipt.
\<close>
theorem lease_fences_others:
  assumes "acquire_writer_generation env process lease_ms (w, t) = (Inr lease, st)" "i \<noteq> wl_id lease"
  shows "refused (append_journal_event env (ji\<lparr>ji_writer_generation := i\<rparr>)) (w2, snd st) \<and>
    refused (append_history_gap_event env sid p i skipped dropped reason at_time) (w2, snd st) \<and>
    refused (write_screen_snapshot env (wi\<lparr>wi_writer_generation := i\<rparr>)) (w2, snd st) \<and>
    refused (write_topology_snapshot env (wt\<lparr>wt_writer_generation := i\<rparr>)) (w2, snd st) \<and>
    (case append_ui_input_event_and_command env ui i (w2, snd st) of
       (result, st2) \<Rightarrow> snd st2 = snd st \<and> (isl result \<or> input_known env ui (snd st))) \<and>
    (case append_stream_segment env (gi\<lparr>gi_writer_generation := i\<rparr>) (w2, snd st) of
       (result, st2) \<Rightarrow> snd st2 = snd st \<and> (isl result \<or> output_known env (gi\<lparr>gi_writer_generation := i\<rparr>) (snd st)))"
proof -
  let ?t = "snd st"
  have "map wg_id (filter writer_active (at_writers ?t)) = [wl_id lease]"
    using v2_okD [OF v2_ok_acquire_lease assms(1)] by simp
  then have fenced: "\<forall>r\<in>set (at_writers ?t). wg_id r = i \<longrightarrow> \<not> writer_active r"
  proof (intro ballI impI notI)
    fix r assume "r \<in> set (at_writers ?t)" "wg_id r = i" "writer_active r"
    then have "i \<in> set (map wg_id (filter writer_active (at_writers ?t)))" by auto
    then show False using assms(2) \<open>map wg_id _ = [wl_id lease]\<close> by simp
  qed
  note stops = ensure_writer_stops [OF fenced]
  have "refused (append_journal_event env (ji\<lparr>ji_writer_generation := i\<rparr>)) (w2, ?t)"
    unfolding append_journal_event_def Let_def
    by (rule refusedI, rule v2_ok_bind, rule v2_ok_now, rule v2_ok_transaction, simp add: stops,
        rule v2_keeps_now, rule v2_keeps_stopped, simp add: stops)
  moreover have "refused (append_history_gap_event env sid p i skipped dropped reason at_time) (w2, ?t)"
    unfolding append_history_gap_event_def append_history_gap_transaction_def Let_def
    by (rule refusedI, rule v2_ok_bind, rule v2_ok_now, rule v2_ok_bind, rule v2_ok_basic(3), rule v2_ok_transaction, rule stops,
        rule v2_keeps_now, rule v2_keeps_bind, rule v2_keeps_simple, rule v2_keeps_stopped, rule stops)
  moreover have "refused (write_screen_snapshot env (wi\<lparr>wi_writer_generation := i\<rparr>)) (w2, ?t)"
    unfolding write_screen_snapshot_def
    by (rule refusedI, rule v2_ok_bind, rule v2_ok_basic(3), rule v2_ok_bind, rule v2_ok_now, rule v2_ok_bind, rule v2_ok_or_new_id,
        rule v2_ok_bind, rule v2_ok_transaction, simp add: stops,
        rule v2_keeps_bind, rule v2_keeps_simple, rule v2_keeps_now, rule v2_keeps_bind, rule or_new_id_keeps,
        rule v2_keeps_bind, rule v2_keeps_stopped, simp add: stops, rule v2_keeps_simple)
  moreover have "refused (write_topology_snapshot env (wt\<lparr>wt_writer_generation := i\<rparr>)) (w2, ?t)"
    unfolding write_topology_snapshot_def
    by (rule refusedI, rule v2_ok_bind, rule v2_ok_now, rule v2_ok_bind, rule v2_ok_or_new_id,
        rule v2_ok_bind, rule v2_ok_transaction, simp add: stops,
        rule v2_keeps_now, rule v2_keeps_bind, rule or_new_id_keeps,
        rule v2_keeps_bind, rule v2_keeps_stopped, simp add: stops, rule v2_keeps_simple)
  ultimately show ?thesis
    using known_or_failed [OF fenced_input [OF fenced], of env ui w2]
      known_or_failed [OF fenced_segment [OF fenced], of "gi\<lparr>gi_writer_generation := i\<rparr>" env w2] by simp
qed

end
