(* ===== verification/Archive_Capture.thy ===== *)
theory Archive_Capture
  imports Archive_Promises
begin

text \<open>
  The facade in front of the journal, which tries again when the database is busy, and the capture of raw
  output in front of the facade: what a pane prints is what its stream holds, however often the archive had to
  be asked; and a private session stores nothing.
\<close>

section \<open>What attempts keep\<close>

lemma v2_keeps_acquire_retry:
  assumes one: "v2_keeps I (acquire_writer_generation env process lease_ms)"
  shows "v2_keeps I (acquire_retry env process lease_ms n)"
proof (induction n)
  case 0
  show ?case by (simp add: v2_keeps_def)
next
  case (Suc n)
  show ?case
  proof (rule v2_keepsI)
    fix st r st2
    assume I: "I (snd st)" and run: "acquire_retry env process lease_ms (Suc n) st = (r, st2)"
    obtain r1 st1 where a: "acquire_writer_generation env process lease_ms st = (r1, st1)"
      by (cases "acquire_writer_generation env process lease_ms st")
    have "I (snd st1)" using v2_keepsD [OF one a I] .
    then show "I (snd st2)"
      using run v2_keepsD [OF Suc.IH, where st = "(av_sleep env 25 (fst st1), snd st1)"]
      by (cases r1) (auto simp: a split: if_splits)
  qed
qed

lemma v2_keeps_acquire:
  assumes "\<And>t ws. I t \<Longrightarrow> I (t\<lparr>at_writers := ws\<rparr>)"
  shows "v2_keeps I (acquire_writer_generation env process lease_ms)"
  unfolding acquire_writer_generation_def
proof (intro v2_keeps_err_if v2_keeps_bind v2_keeps_now v2_keeps_simple v2_keeps_ok v2_ok_intros v2_ok_insert, goal_cases)
  case (1 now i token t t1)
  then have "t1 = t\<lparr>at_writers := at_writers t1\<rparr>" by (auto simp: insert_writer_def expire_writers_def)
  then show ?case using assms [OF 1(2)] by metis
qed

lemma v2_keeps_release:
  assumes "\<And>t ws. I t \<Longrightarrow> I (t\<lparr>at_writers := ws\<rparr>)"
  shows "v2_keeps I (release_writer_generation env writer)"
  unfolding release_writer_generation_def
  by (intro v2_keeps_now v2_keeps_ok v2_ok_intros) (auto simp: update_writer_def Let_def intro: assms)

lemma v2_keeps_lease:
  assumes acquire: "v2_keeps I (acquire_writer_generation env (lit process) 60000)"
    and release: "\<And>writer. v2_keeps I (release_writer_generation env writer)"
    and operation: "\<And>writer. v2_keeps I (operation writer)"
  shows "v2_keeps I (with_writer env process operation)"
  unfolding with_writer_def acquire_writer_generation_with_retry_def
proof (rule v2_keeps_bind [OF v2_keeps_acquire_retry [OF acquire]], rule v2_keepsI)
  fix lease st r st2
  assume I: "I (snd st)"
    and run: "(case operation (wl_id lease) st of (result, st1) \<Rightarrow>
           (case release_writer_generation env (wl_id lease) st1 of
              (released, st2) \<Rightarrow>
                (case result of Inl e \<Rightarrow> Inl e | Inr x \<Rightarrow> (case released of Inl e \<Rightarrow> Inl e | Inr u \<Rightarrow> Inr x), st2))) = (r, st2)"
  obtain r0 st1 where op: "operation (wl_id lease) st = (r0, st1)" by (cases "operation (wl_id lease) st")
  obtain r2 st3 where rel: "release_writer_generation env (wl_id lease) st1 = (r2, st3)"
    by (cases "release_writer_generation env (wl_id lease) st1")
  have "st3 = st2" using run by (simp add: op rel)
  then show "I (snd st2)" using v2_keepsD [OF release rel v2_keepsD [OF operation op I]] by simp
qed

lemma v2_keeps_with_writer:
  assumes writers: "\<And>t ws. I t \<Longrightarrow> I (t\<lparr>at_writers := ws\<rparr>)" and operation: "\<And>writer. v2_keeps I (operation writer)"
  shows "v2_keeps I (with_writer env process operation)"
proof (rule v2_keeps_lease)
  show "v2_keeps I (acquire_writer_generation env (lit process) 60000)" by (rule v2_keeps_acquire) (erule writers)
  show "v2_keeps I (release_writer_generation env writer)" for writer by (rule v2_keeps_release) (erule writers)
qed (rule operation)

lemma v2_keeps_retry:
  assumes "v2_keeps I operation"
  shows "v2_keeps I (retry_v2_write env operation)"
proof -
  have "v2_keeps I (retry_v2_from env operation last n)" for last n
  proof (induction n arbitrary: last)
    case 0
    show ?case by (simp add: v2_keeps_def)
  next
    case (Suc n)
    show ?case
    proof (rule v2_keepsI)
      fix st r st2
      assume I: "I (snd st)" and run: "retry_v2_from env operation last (Suc n) st = (r, st2)"
      obtain r1 st1 where a: "operation st = (r1, st1)" by (cases "operation st")
      have "I (snd st1)" using v2_keepsD [OF assms a I] .
      then show "I (snd st2)"
        using run v2_keepsD [OF Suc.IH, where st = "(av_sleep env (10 + min (79 - n) 20 * 5) (fst st1), snd st1)"]
        by (cases r1) (auto simp: a split: if_splits)
    qed
  qed
  then show ?thesis by (simp add: retry_v2_write_def)
qed

text \<open>What every attempt keeps and a successful one makes true is true after the attempts.\<close>

lemma v2_ok_retry:
  assumes keeps: "v2_keeps I operation" and ok: "\<And>t. I t \<Longrightarrow> v2_ok operation Q t" and start: "I t"
  shows "v2_ok (retry_v2_write env operation) Q t"
proof -
  have "I t \<Longrightarrow> v2_ok (retry_v2_from env operation last n) Q t" for last n t
  proof (induction n arbitrary: last t)
    case 0
    show ?case by (simp add: v2_ok_def)
  next
    case (Suc n)
    show ?case
    proof (rule v2_okI)
      fix st x st2
      assume st: "snd st = t" and run: "retry_v2_from env operation last (Suc n) st = (Inr x, st2)"
      obtain r1 st1 where a: "operation st = (r1, st1)" by (cases "operation st")
      have "I (snd st1)" using v2_keepsD [OF keeps a] st Suc.prems by simp
      note IH = Suc.IH [OF this]
      show "Q x (snd st2)"
      proof (cases r1)
        case (Inr y)
        then show ?thesis using run a v2_okD [OF ok [OF Suc.prems] a [unfolded Inr] st] by simp
      next
        case (Inl e)
        then have "retry_v2_from env operation (Some e) n (av_sleep env (10 + min (79 - n) 20 * 5) (fst st1), snd st1) = (Inr x, st2)"
          using run a by (simp split: if_splits)
        then show ?thesis using v2_okD [OF IH] by fastforce
      qed
    qed
  qed
  then show ?thesis using start by (simp add: retry_v2_write_def)
qed

lemma v2_keeps_map: "v2_keeps I m \<Longrightarrow> v2_keeps I (io_map f m)"
  unfolding io_map_def by (intro v2_keeps_bind v2_keeps_simple)

text \<open>The facade does nothing but the operations, so it stays within the reachable tables.\<close>

lemma target_reachable: "v2_keeps (archive_reachable env) (upsert_capture_target env input source p tab rows cols)"
  unfolding upsert_capture_target_def by (intro v2_keeps_bind reachable_keeps) simp

lemma output_reachable: "v2_keeps (archive_reachable env) (record_terminal_output_event env input)"
  unfolding record_terminal_output_event_def
  by (intro v2_keeps_bind target_reachable v2_keeps_simple v2_keeps_if v2_keeps_lease reachable_keeps) simp

lemma gap_reachable: "v2_keeps (archive_reachable env) (record_history_gap_event env input)"
  unfolding record_history_gap_event_def
  by (intro v2_keeps_bind target_reachable v2_keeps_lease reachable_keeps)

lemma input_reachable: "v2_keeps (archive_reachable env) (record_ui_input_event env input)"
  unfolding record_ui_input_event_def
  by (intro v2_keeps_bind v2_keeps_simple v2_keeps_if v2_keeps_lease reachable_keeps) simp

section \<open>Private sessions\<close>

definition stored_history where
  "stored_history t = (at_segments t, at_events t, at_gaps t, at_commits t, at_receipts t, at_command_blocks t, at_command_entries t)"

lemma find_private_update:
  assumes "find (\<lambda>r. xs_id r = sid) rows = Some r" "xs_private_mode r"
    and f: "\<And>r. xs_id (f r) = xs_id r" "\<And>r. p r \<Longrightarrow> xs_id r = sid \<Longrightarrow> xs_private_mode (f r)"
  shows "\<exists>q. find (\<lambda>r. xs_id r = sid) (update_where p f rows) = Some q \<and> xs_private_mode q"
  using assms(1,2) by (induction rows) (auto simp: update_where_def f split: if_splits)

lemma session_private_iff: "session_private sid t \<longleftrightarrow> (\<exists>r. find (\<lambda>r. xs_id r = sid) (at_sessions t) = Some r \<and> xs_private_mode r)"
  by (auto simp: session_private_def split: option.splits)

lemma find_append: "find p xs = Some x \<Longrightarrow> find p (xs @ ys) = Some x"
  by (induction xs) (auto split: if_splits)

lemma session_private_upsert:
  assumes "session_private sid t" "xs_id row = sid \<longrightarrow> xs_private_mode row"
  shows "session_private sid (upsert_session_row row t)"
proof -
  obtain r where r: "find (\<lambda>r. xs_id r = sid) (at_sessions t) = Some r" "xs_private_mode r"
    using assms(1) by (auto simp: session_private_iff)
  show ?thesis
  proof (cases "list_ex (\<lambda>r. xs_id r = xs_id row) (at_sessions t)")
    case True
    then show ?thesis
      unfolding session_private_iff upsert_session_row_def using assms(2)
      by (simp, intro find_private_update [OF r]) auto
  next
    case False
    then show ?thesis unfolding session_private_iff upsert_session_row_def using r by (simp add: find_append)
  qed
qed

definition private_with where
  "private_with sid h t \<longleftrightarrow> session_private sid t \<and> stored_history t = h"

lemma session_upsert_keeps_private: "v2_keeps (private_with sid h) (upsert_runtime_session env xi)"
  unfolding upsert_runtime_session_def
proof (intro v2_keeps_now v2_keeps_ok v2_ok_intros, goal_cases)
  case (1 now t)
  let ?row = "\<lparr>xs_id = xi_id xi, xs_route = xi_route xi, xs_title = xi_title xi, xs_launch = xi_launch xi, xs_source = xi_source xi,
      xs_private_mode = (xi_private_mode xi \<or> session_private (xi_id xi) t), xs_created_at_ms = now, xs_updated_at_ms = now,
      xs_state = ''active''\<rparr>"
  have "session_private sid (upsert_session_row ?row t)" using 1 by (intro session_private_upsert) (auto simp: private_with_def)
  then show ?case
    using 1 by (auto simp: private_with_def session_private_def insert_session_cursor_def upsert_session_row_def stored_history_def)
qed

lemma pane_upsert_keeps_private: "v2_keeps (private_with sid h) (upsert_runtime_pane env input)"
  unfolding upsert_runtime_pane_def Let_def
  by (intro v2_keeps_bind v2_keeps_simple v2_keeps_now v2_keeps_ok v2_ok_intros v2_ok_insert)
    (auto simp: private_with_def session_private_def stored_history_def upsert_pane_row_def insert_stream_cursor_def split: if_splits)

lemma private_refused:
  "v2_keeps (private_with sid h) (io_bind (sql_load env (session_private sid)) (\<lambda>b. if b then io_err e else m)) \<and>
   (private_with sid h t \<longrightarrow> v2_ok (io_bind (sql_load env (session_private sid)) (\<lambda>b. if b then io_err e else m)) (\<lambda>x t1. False) t)"
proof
  show "v2_keeps (private_with sid h) (io_bind (sql_load env (session_private sid)) (\<lambda>b. if b then io_err e else m))"
  proof (rule v2_keepsI)
    fix st r st1
    assume "private_with sid h (snd st)" "io_bind (sql_load env (session_private sid)) (\<lambda>b. if b then io_err e else m) st = (r, st1)"
    then show "private_with sid h (snd st1)"
      by (auto simp: io_bind_def sql_load_def sql_statement_def private_with_def io_err_def split: prod.splits option.splits sum.splits)
  qed
  show "private_with sid h t \<longrightarrow> v2_ok (io_bind (sql_load env (session_private sid)) (\<lambda>b. if b then io_err e else m)) (\<lambda>x t1. False) t"
    by (auto simp: private_with_def intro!: v2_ok_intros)
qed

lemma v2_ok_after: "v2_keeps I m \<Longrightarrow> I t \<Longrightarrow> (\<And>t1. I t1 \<Longrightarrow> R t1) \<Longrightarrow> v2_ok m (\<lambda>x. R) t"
  by (rule v2_okI) (metis v2_keepsD)

lemma private_output:
  "v2_keeps (private_with (ev_session_id input) h) (record_terminal_output_event env input)"
  "private_with (ev_session_id input) h t \<Longrightarrow> v2_ok (record_terminal_output_event env input) (\<lambda>x t1. False) t"
proof -
  let ?I = "private_with (ev_session_id input) h"
  have target: "v2_keeps ?I (upsert_capture_target env input source p tab rows cols)" for source p tab rows cols
    unfolding upsert_capture_target_def by (intro v2_keeps_bind session_upsert_keeps_private pane_upsert_keeps_private)
  show "v2_keeps ?I (record_terminal_output_event env input)"
    unfolding record_terminal_output_event_def by (rule v2_keeps_bind [OF target]) (rule conjunct1 [OF private_refused])
  show "v2_ok (record_terminal_output_event env input) (\<lambda>x t1. False) t" if "?I t"
    unfolding record_terminal_output_event_def
    by (rule v2_ok_bind, rule v2_ok_after [OF target that]) (use private_refused in blast)
qed

lemma private_input:
  "v2_keeps (private_with (ui_session_id input) h) (record_ui_input_event env input)"
  "private_with (ui_session_id input) h t \<Longrightarrow> v2_ok (record_ui_input_event env input) (\<lambda>x t1. False) t"
proof -
  let ?I = "private_with (ui_session_id input) h"
  show "v2_keeps ?I (record_ui_input_event env input)"
    unfolding record_ui_input_event_def
    by (intro v2_keeps_bind [OF session_upsert_keeps_private] v2_keeps_bind [OF pane_upsert_keeps_private]) (rule conjunct1 [OF private_refused])
  show "v2_ok (record_ui_input_event env input) (\<lambda>x t1. False) t" if "?I t"
    unfolding record_ui_input_event_def
    by (rule v2_ok_bind, rule v2_ok_after [OF session_upsert_keeps_private that], rule v2_ok_bind,
        erule v2_ok_after [OF pane_upsert_keeps_private]) (use private_refused in blast)
qed

text \<open>
  C11. A private session stores no output and no input: recording either fails, whatever the database does
  and however often the facade tries, and leaves the commits, segments, events, gaps, receipts and the two tables of commands as
  they were, the session as private as before.
\<close>
theorem private_session_stores_nothing:
  assumes "session_private sid t"
  shows "let (r, st) = record_v2 env other (TerminalOutput (input\<lparr>ev_session_id := sid\<rparr>)) (w, t);
      (r2, st2) = record_v2_ui_input env (ui\<lparr>ui_session_id := sid\<rparr>) (w2, t)
    in isl r \<and> isl r2 \<and> session_private sid (snd st) \<and> session_private sid (snd st2) \<and>
       stored_history (snd st) = stored_history t \<and> stored_history (snd st2) = stored_history t"
proof -
  let ?I = "private_with sid (stored_history t)"
  have start: "?I t" using assms by (simp add: private_with_def)
  let ?out = "io_map (\<lambda>_. ()) (record_terminal_output_event env (input\<lparr>ev_session_id := sid\<rparr>))"
  have out: "v2_keeps ?I ?out"
    using private_output(1) [of "input\<lparr>ev_session_id := sid\<rparr>" "stored_history t" env] by (intro v2_keeps_map) simp
  have refused: "v2_ok ?out (\<lambda>x t1. False) t1" if "?I t1" for t1
    using private_output(2) [of "input\<lparr>ev_session_id := sid\<rparr>" "stored_history t" t1 env] that by (intro v2_ok_map) simp
  let ?inp = "record_ui_input_event env (ui\<lparr>ui_session_id := sid\<rparr>)"
  have inp: "v2_keeps ?I ?inp"
    using private_input(1) [of "ui\<lparr>ui_session_id := sid\<rparr>" "stored_history t" env] by simp
  have refused2: "v2_ok ?inp (\<lambda>x t1. False) t1" if "?I t1" for t1
    using private_input(2) [of "ui\<lparr>ui_session_id := sid\<rparr>" "stored_history t" t1 env] that by simp
  obtain r st where 1: "retry_v2_write env ?out (w, t) = (r, st)" by (cases "retry_v2_write env ?out (w, t)")
  obtain r2 st2 where 2: "retry_v2_write env ?inp (w2, t) = (r2, st2)" by (cases "retry_v2_write env ?inp (w2, t)")
  have "?I (snd st)" "?I (snd st2)"
    using v2_keepsD [OF v2_keeps_retry [OF out] 1] v2_keepsD [OF v2_keeps_retry [OF inp] 2] start by simp_all
  moreover have "isl (fst (retry_v2_write env ?out (w, t)))" by (rule not_ok) (rule v2_ok_retry [of ?I, OF out refused start])
  moreover have "isl (fst (retry_v2_write env ?inp (w2, t)))" by (rule not_ok) (rule v2_ok_retry [of ?I, OF inp refused2 start])
  ultimately show ?thesis by (simp add: record_v2_def record_v2_ui_input_def 1 2 private_with_def)
qed

section \<open>From the pane to the journal\<close>

text \<open>An attempt to record numbered output leaves the history as it was or with the output recorded.\<close>

definition tried where
  "tried env input t t1 \<longleftrightarrow> same_history t t1 \<or> output_recorded_in env input t t1"

lemma same_history_trans: "same_history t t1 \<Longrightarrow> same_history t1 t2 \<Longrightarrow> same_history t t2"
  by (simp add: same_history_def)

lemma same_history_refl: "same_history t t"
  by (simp add: same_history_def)

lemma tried_more: "tried env input t t1 \<Longrightarrow> same_history t1 t2 \<Longrightarrow> tried env input t t2"
  unfolding tried_def using same_history_trans output_recorded_cong [OF same_history_refl] by blast

lemma recorded_again:
  assumes "tried env input t t1" "output_recorded_in env input t1 t2" "to_source_sequence input = Some n"
  shows "output_recorded_in env input t t2"
  using assms(1) unfolding tried_def
proof
  assume "same_history t t1"
  then show ?thesis using output_recorded_cong [OF _ same_history_refl assms(2)] by blast
next
  assume one: "output_recorded_in env input t t1"
  then have "recorded env input t1" using assms(3) by (simp add: output_recorded_in_def)
  then show ?thesis using one assms(2,3) unfolding output_recorded_in_def by (auto simp: list_all_append)
qed

lemma v2_keeps_target:
  assumes "\<And>t t1. I t \<Longrightarrow> same_history t t1 \<Longrightarrow> I t1"
  shows "v2_keeps I (upsert_capture_target env input source p tab rows cols)"
  unfolding upsert_capture_target_def upsert_runtime_session_def upsert_runtime_pane_def Let_def
  by (intro v2_keeps_bind v2_keeps_simple v2_keeps_now v2_keeps_ok v2_ok_intros v2_ok_insert; erule assms)
    (auto simp: same_history_def upsert_pane_row_def insert_stream_cursor_def upsert_session_row_def insert_session_cursor_def
      split: if_splits option.splits)

lemma append_keeps_tried:
  fixes input :: terminal_output_input
  assumes n: "to_source_sequence input = Some n"
    and gi: "gi_session_id gi = ev_session_id input" "gi_pane_id gi = to_pane_id input" "gi_stream_id gi = None"
      "gi_payload gi = to_payload input" "gi_source_event_id_hash gi = map_option (raw_sequence_hash env) (to_source_sequence input)"
  shows "v2_keeps (tried env input t) (append_stream_segment env gi)"
proof (rule v2_keepsI)
  fix st r st1
  assume before: "tried env input t (snd st)" and run: "append_stream_segment env gi st = (r, st1)"
  show "tried env input t (snd st1)"
  proof (cases r)
    case (Inl e)
    then have "snd st1 = snd st"
      using run unfolding append_stream_segment_eq
      by (auto simp: io_bind_def io_lift_def now_ms_def split: prod.splits sum.splits if_splits dest!: v2_transaction_Inl)
    then show ?thesis using before by simp
  next
    case (Inr receipt)
    have "v2_ok (append_stream_segment env gi) (\<lambda>r t1. output_recorded_in env input (snd st) t1) (snd st)"
      by (rule v2_ok_append_output [OF gi])
    from v2_okD [OF this run [unfolded Inr]] have "output_recorded_in env input (snd st) (snd st1)" by simp
    then show ?thesis using recorded_again [OF before _ n] by (simp add: tried_def)
  qed
qed

lemma v2_keeps_record_output:
  assumes "to_source_sequence input = Some n"
  shows "v2_keeps (tried env input t) (record_terminal_output_event env input)"
  unfolding record_terminal_output_event_def raw_sequence_hash_eq
proof (rule v2_keeps_bind, rule v2_keeps_target, erule (1) tried_more, rule v2_keeps_bind, rule v2_keeps_simple, rule v2_keeps_if,
    rule v2_keeps_simple, rule v2_keeps_with_writer)
  show "tried env input t t1 \<Longrightarrow> tried env input t (t1\<lparr>at_writers := ws\<rparr>)" for t1 ws
    by (erule tried_more) (simp add: same_history_def)
qed (rule append_keeps_tried [OF assms]; simp)

lemma v2_ok_gap_history: "v2_ok (append_history_gap_transaction env sid p writer skipped dropped reason payload occurred now) (\<lambda>r. same_history t) t"
  unfolding append_history_gap_transaction_def Let_def
  by (intro v2_ok_intros) (auto simp: same_history_def upd_defs commit_step_def advance_session_cursor_def)

lemma v2_keeps_record_gap: "v2_keeps (same_history t) (record_history_gap_event env g)"
  unfolding record_history_gap_event_def
proof (rule v2_keeps_bind, rule v2_keeps_target, erule (1) same_history_trans, rule v2_keeps_with_writer)
  show "same_history t t1 \<Longrightarrow> same_history t (t1\<lparr>at_writers := ws\<rparr>)" for t1 ws
    by (simp add: same_history_def)
  show "v2_keeps (same_history t) (append_history_gap_event env (ev_session_id g) (hg_pane_id g) writer (hg_skipped_events g)
      (map_option sint (hg_estimated_dropped_bytes g)) (hg_reason g) (map_option sint (hg_occurred_at_ms g)))" for writer
    unfolding append_history_gap_event_def Let_def
    by (intro v2_keeps_bind v2_keeps_simple v2_keeps_ok, rule v2_ok_mono [OF v2_ok_gap_history], erule (1) same_history_trans)
qed

lemma v2_ok_record_v2_output:
  assumes "to_source_sequence input = Some n"
  shows "v2_ok (record_v2 env other (TerminalOutput input)) (\<lambda>u. output_recorded_in env input t) t"
  unfolding record_v2_def archive_input.case
proof (rule v2_ok_retry [where I = "tried env input t"])
  show "v2_keeps (tried env input t) (io_map (\<lambda>_. ()) (record_terminal_output_event env input))"
    by (rule v2_keeps_map) (rule v2_keeps_record_output [OF assms])
  show "v2_ok (io_map (\<lambda>_. ()) (record_terminal_output_event env input)) (\<lambda>u. output_recorded_in env input t) t1"
    if "tried env input t t1" for t1
    by (rule v2_ok_map, rule v2_ok_mono [OF v2_ok_record_output]) (rule recorded_again [OF that _ assms])
qed (simp add: tried_def same_history_refl)

lemma v2_ok_record_v2_gap: "v2_ok (record_v2 env other (HistoryGap g)) (\<lambda>u. same_history t) t"
  unfolding record_v2_def archive_input.case
  by (rule v2_ok_after [where I = "same_history t"], rule v2_keeps_retry, rule v2_keeps_map, rule v2_keeps_record_gap)
    (simp_all add: same_history_refl)

fun record_all :: "'w archive_env \<Rightarrow> (archive_input \<Rightarrow> ('w, unit) v2_io) \<Rightarrow> archive_input list \<Rightarrow> ('w, unit) v2_io" where
  "record_all env other [] = io_ok ()"
| "record_all env other (i # inputs) = io_bind (record_v2 env other i) (\<lambda>_. record_all env other inputs)"

definition only_bytes :: "(u8 + u64) list \<Rightarrow> u8 list" where
  "only_bytes xs = List.map_filter (\<lambda>x. case x of Inl b \<Rightarrow> Some b | Inr n \<Rightarrow> None) xs"

lemma only_bytes_simps [simp]:
  "only_bytes [] = []" "only_bytes (map Inl bs @ xs) = bs @ only_bytes xs" "only_bytes (Inr n # xs) = only_bytes xs"
  by (simp add: only_bytes_def List.map_filter_simps, induction bs) (simp_all add: only_bytes_def List.map_filter_simps)

text \<open>The numbers of the outputs.\<close>

definition input_sequences :: "archive_input list \<Rightarrow> u64 list" where
  "input_sequences inputs = List.map_filter (\<lambda>i. case i of TerminalOutput o1 \<Rightarrow> to_source_sequence o1 | _ \<Rightarrow> None) inputs"

fun raw_output_of :: "rstr \<Rightarrow> rstr \<Rightarrow> archive_input \<Rightarrow> bool" where
  "raw_output_of sid p (TerminalOutput i) \<longleftrightarrow> ev_session_id i = sid \<and> to_pane_id i = p \<and> to_source_sequence i \<noteq> None"
| "raw_output_of sid p (HistoryGap g) \<longleftrightarrow> True"
| "raw_output_of sid p _ \<longleftrightarrow> False"

definition receipt_known :: "'w archive_env \<Rightarrow> rstr \<Rightarrow> rstr \<Rightarrow> archive_tables \<Rightarrow> u64 \<Rightarrow> bool" where
  "receipt_known env sid p t n \<longleftrightarrow> list_ex (\<lambda>r. rc_session_id r = sid \<and>
     rc_source_kind r = stream_capture_source_kind env p default_stream_id \<and> rc_source_event_id_hash r = raw_sequence_hash env n) (at_receipts t)"

definition streams_grow :: "rstr \<Rightarrow> rstr \<Rightarrow> u8 list \<Rightarrow> archive_tables \<Rightarrow> archive_tables \<Rightarrow> bool" where
  "streams_grow sid p bs t t1 \<longleftrightarrow>
     (\<forall>s q. stream_bytes s q t1 = stream_bytes s q t @ (if s = sid \<and> q = p then bs else []))"

lemma v2_ok_record_all:
  assumes "list_all (raw_output_of sid p) inputs" "distinct (input_sequences inputs)" "\<forall>n\<in>set (input_sequences inputs). \<not> receipt_known env sid p t n"
    and inj: "inj (raw_sequence_hash env)"
  shows "v2_ok (record_all env other inputs) (\<lambda>u. streams_grow sid p (only_bytes (archived_stream inputs)) t) t"
  using assms(1-3)
proof (induction inputs arbitrary: t)
  case Nil
  show ?case unfolding record_all.simps by (intro v2_ok_intros) (simp add: streams_grow_def)
next
  case (Cons i inputs)
  show ?case
  proof (cases i)
    case (TerminalOutput o1)
    then obtain n where o1: "ev_session_id o1 = sid" "to_pane_id o1 = p" "to_source_sequence o1 = Some n" using Cons.prems(1) by auto
    have seqs: "input_sequences (i # inputs) = n # input_sequences inputs" using TerminalOutput o1 by (simp add: input_sequences_def List.map_filter_simps)
    have new: "\<not> recorded env o1 t" using Cons.prems(3) o1 by (simp add: seqs recorded_def receipt_known_def)
    show ?thesis
      unfolding record_all.simps TerminalOutput
    proof (rule v2_ok_bind, rule v2_ok_mono [OF v2_ok_record_v2_output [OF o1(3)]])
      fix u t1
      assume rec: "output_recorded_in env o1 t t1"
      have "\<not> receipt_known env sid p t1 k" if "k \<in> set (input_sequences inputs)" for k
      proof -
        have "k \<noteq> n" "\<not> receipt_known env sid p t k" using that Cons.prems(2,3) by (auto simp: seqs)
        moreover obtain rows where "at_receipts t1 = at_receipts t @ rows"
          "list_all (\<lambda>r. \<exists>m. to_source_sequence o1 = Some m \<and> rc_session_id r = ev_session_id o1 \<and> rc_source_kind r =
             stream_capture_source_kind env (to_pane_id o1) default_stream_id \<and> rc_source_event_id_hash r = raw_sequence_hash env m) rows"
          using rec by (auto simp: output_recorded_in_def)
        ultimately show ?thesis using o1(3) inj by (fastforce simp: receipt_known_def list_ex_iff list_all_iff dest: injD)
      qed
      then have IH: "v2_ok (record_all env other inputs) (\<lambda>u. streams_grow sid p (only_bytes (archived_stream inputs)) t1) t1"
        using Cons.prems(1,2) by (intro Cons.IH) (auto simp: seqs)
      have "streams_grow sid p (to_payload o1) t t1"
        unfolding streams_grow_def
      proof (intro allI)
        fix s q
        show "stream_bytes s q t1 = stream_bytes s q t @ (if s = sid \<and> q = p then to_payload o1 else [])"
          using rec new o1(1,2) by (cases "s = sid \<and> q = p") (auto simp: output_recorded_in_def)
      qed
      then show "v2_ok (record_all env other inputs) (\<lambda>u. streams_grow sid p (only_bytes (archived_stream (TerminalOutput o1 # inputs))) t) t1"
        by (intro v2_ok_mono [OF IH]) (simp add: streams_grow_def)
    qed
  next
    case (HistoryGap g)
    have seqs: "input_sequences (i # inputs) = input_sequences inputs" using HistoryGap by (simp add: input_sequences_def List.map_filter_simps)
    show ?thesis
      unfolding record_all.simps HistoryGap
    proof (rule v2_ok_bind, rule v2_ok_mono [OF v2_ok_record_v2_gap])
      fix u t1
      assume same: "same_history t t1"
      have IH: "v2_ok (record_all env other inputs) (\<lambda>u. streams_grow sid p (only_bytes (archived_stream inputs)) t1) t1"
        using Cons.prems same by (intro Cons.IH) (auto simp: seqs receipt_known_def same_history_def)
      show "v2_ok (record_all env other inputs) (\<lambda>u. streams_grow sid p (only_bytes (archived_stream (HistoryGap g # inputs))) t) t1"
        by (intro v2_ok_mono [OF IH]) (simp add: streams_grow_def same_history_bytes [OF same])
    qed
  qed (use Cons.prems(1) in auto)
qed

lemma raw_sequence_hash_inj:
  assumes "inj (av_hash env)"
  shows "inj (raw_sequence_hash env)"
proof (rule injI)
  fix m n
  assume eq: "raw_sequence_hash env m = raw_sequence_hash env n"
  let ?s = "\<lambda>n :: u64. lit ''raw-output-seq:'' @ show_nat (unat n)"
  have "utf8_encode (?s m) = utf8_encode (?s n)"
    using eq assms by (simp only: raw_sequence_hash_def av_hash_text_def inj_eq)
  moreover have "utf8_decode (utf8_encode (?s n)) = Some (?s n)" for n
  proof (rule utf8_decode_encode)
    have "\<forall>c\<in>set (lit ''raw-output-seq:''). is_scalar c" by (simp add: lit_def is_scalar_def)
    moreover have "\<forall>c\<in>set (show_nat (unat n)). is_scalar c"
      using show_nat_digits [of "unat n"] by (auto simp: is_digit_def is_scalar_def)
    ultimately show "\<forall>c\<in>set (?s n). is_scalar c" by (simp only: set_append ball_Un)
  qed
  ultimately have "?s m = ?s n" by (metis option.inject)
  then have "digits_value 10 (show_nat (unat m)) = digits_value 10 (show_nat (unat n))" by simp
  then show "m = n" by (simp add: digits_show_nat word_unat_eq_iff)
qed

section \<open>What is captured is numbered\<close>

fun wake_sequences :: "raw_capture_wake list \<Rightarrow> u64 list" where
  "wake_sequences [] = []"
| "wake_sequences (RawReceived (RawBytes b) # wakes) = ro_sequence b # wake_sequences wakes"
| "wake_sequences (_ # wakes) = wake_sequences wakes"

fun output_from :: "pane_id \<Rightarrow> raw_capture_wake \<Rightarrow> bool" where
  "output_from p (RawReceived (RawBytes b)) \<longleftrightarrow> ro_pane_id b = p"
| "output_from p _ \<longleftrightarrow> True"

definition batch_from :: "pane_id \<Rightarrow> raw_batch \<Rightarrow> bool" where
  "batch_from p batch \<longleftrightarrow> rb_payload batch = [] \<or> rb_pane_id batch = Some p \<and> rb_sequence batch \<noteq> None"

definition batch_sequences :: "raw_batch \<Rightarrow> u64 list" where
  "batch_sequences batch = (if rb_payload batch = [] then [] else case rb_sequence batch of None \<Rightarrow> [] | Some n \<Rightarrow> [n])"

definition target_session :: "'w capture_env \<Rightarrow> capture_target \<Rightarrow> rstr" where
  "target_session cenv target = ca_uuid_text cenv (id_uuid (de_session_id (cx_descriptor target)))"

definition pane_text :: "'w capture_env \<Rightarrow> pane_id \<Rightarrow> rstr" where
  "pane_text cenv p = ca_uuid_text cenv (id_uuid p)"

lemma input_sequences_simps [simp]:
  "input_sequences [] = []" "input_sequences (xs @ ys) = input_sequences xs @ input_sequences ys"
  by (simp_all add: input_sequences_def List.map_filter_simps)

lemma flush_numbered:
  assumes "batch_from p batch" "flush_raw_capture_batch cenv target batch = (out, batch1)"
  shows "list_all (raw_output_of (target_session cenv target) (pane_text cenv p)) out \<and> input_sequences out = batch_sequences batch \<and>
    rb_payload batch1 = []"
  using assms by (auto simp: flush_raw_capture_batch_def batch_from_def batch_sequences_def target_session_def pane_text_def
      input_sequences_def List.map_filter_simps Let_def split: if_splits)

lemma step_numbered:
  assumes "batch_from p batch" "output_from p wake" "raw_capture_step cenv target wake batch = (out, batch1)"
  shows "list_all (raw_output_of (target_session cenv target) (pane_text cenv p)) out \<and> batch_from p batch1 \<and>
    (\<exists>lost. mset (input_sequences out @ batch_sequences batch1) + lost = mset (batch_sequences batch @ wake_sequences [wake]))"
proof (cases wake)
  case RawTick
  then have "flush_raw_capture_batch cenv target batch = (out, batch1)" using assms(3) by (simp add: raw_capture_step_def)
  from flush_numbered [OF assms(1) this] show ?thesis using RawTick by (auto simp: batch_from_def batch_sequences_def)
next
  case (RawReceived event)
  show ?thesis
  proof (cases event)
    case (RawBytes b)
    let ?batch = "batch\<lparr>rb_pane_id := Some (ro_pane_id b), rb_sequence := Some (ro_sequence b),
       rb_payload := rb_payload batch @ ro_payload b\<rparr>"
    have ok: "batch_from p ?batch" using assms(2) RawReceived RawBytes by (simp add: batch_from_def)
    have seqs: "\<exists>lost. mset (batch_sequences ?batch) + lost = mset (batch_sequences batch @ wake_sequences [wake])"
      using RawReceived RawBytes by (auto simp: batch_sequences_def split: option.split intro: exI [of _ "{#_#}"])
    show ?thesis
    proof (cases "length (rb_payload ?batch) \<ge> v2_raw_capture_max_batch_bytes")
      case True
      then have "flush_raw_capture_batch cenv target ?batch = (out, batch1)"
        using assms(3) RawReceived RawBytes by (simp add: raw_capture_step_def Let_def)
      from flush_numbered [OF ok this] show ?thesis using seqs by (auto simp: batch_from_def batch_sequences_def)
    next
      case False
      then show ?thesis using assms(3) ok seqs RawReceived RawBytes by (auto simp: raw_capture_step_def Let_def)
    qed
  next
    case (RawGap g)
    obtain out1 b1 where f: "flush_raw_capture_batch cenv target batch = (out1, b1)" by (cases "flush_raw_capture_batch cenv target batch")
    show ?thesis using assms(3) flush_numbered [OF assms(1) f] RawReceived RawGap f
      by (auto simp: raw_capture_step_def history_gap_of_def batch_from_def batch_sequences_def input_sequences_def List.map_filter_simps Let_def)
  qed
qed

lemma wake_sequences_Cons: "wake_sequences (wake # wakes) = wake_sequences [wake] @ wake_sequences wakes"
  by (cases "(wake # wakes)" rule: wake_sequences.cases) auto

lemma multiset_chain:
  fixes A :: "'a multiset"
  assumes "A + B + L1 = C + D" "X + L2 = B + E"
  shows "A + X + (L1 + L2) = C + (D + E)"
proof -
  have "A + X + (L1 + L2) = (A + L1) + (X + L2)" by (simp add: ac_simps)
  also have "\<dots> = (A + B + L1) + E" unfolding assms(2) by (simp add: ac_simps)
  finally show ?thesis unfolding assms(1) by (simp add: ac_simps)
qed

lemma loop_numbered:
  assumes "batch_from p batch" "list_all (output_from p) wakes"
  shows "list_all (raw_output_of (target_session cenv target) (pane_text cenv p)) (raw_capture_loop cenv target wakes batch) \<and>
    (\<exists>lost. mset (input_sequences (raw_capture_loop cenv target wakes batch)) + lost = mset (batch_sequences batch @ wake_sequences wakes))"
  using assms
proof (induction wakes arbitrary: batch)
  case Nil
  obtain out b where f: "flush_raw_capture_batch cenv target batch = (out, b)" by (cases "flush_raw_capture_batch cenv target batch")
  then show ?case using flush_numbered [OF Nil(1) f] by simp
next
  case (Cons wake wakes)
  obtain out b where s: "raw_capture_step cenv target wake batch = (out, b)" by (cases "raw_capture_step cenv target wake batch")
  have wake: "output_from p wake" "list_all (output_from p) wakes" using Cons.prems(2) by simp_all
  obtain lost1 where one: "list_all (raw_output_of (target_session cenv target) (pane_text cenv p)) out" "batch_from p b"
    "mset (input_sequences out @ batch_sequences b) + lost1 = mset (batch_sequences batch @ wake_sequences [wake])"
    using step_numbered [OF Cons.prems(1) wake(1) s] by blast
  obtain lost2 where two: "list_all (raw_output_of (target_session cenv target) (pane_text cenv p)) (raw_capture_loop cenv target wakes b)"
    "mset (input_sequences (raw_capture_loop cenv target wakes b)) + lost2 = mset (batch_sequences b @ wake_sequences wakes)"
    using Cons.IH [OF one(2) wake(2)] by blast
  have "mset (input_sequences (out @ raw_capture_loop cenv target wakes b)) + (lost1 + lost2) =
      mset (batch_sequences batch @ wake_sequences (wake # wakes))"
    using multiset_chain [OF one(3) [unfolded mset_append] two(2) [unfolded mset_append]]
    by (simp only: wake_sequences_Cons [of wake wakes] input_sequences_simps mset_append)
  then show ?case using one(1) two(1) s by auto
qed

text \<open>
  C6. What a pane prints is what its journal holds: when the batches and gaps that the raw capture of a pane
  makes are recorded, each with as many attempts as the facade takes and whatever fails in between, its
  stream grows by exactly the bytes received, in order, and no other stream changes. The numbers of the
  output of a pane are distinct and new to the archive, and no two output numbers have the same hash.
\<close>
theorem captured_output_archived:
  fixes env :: "'w archive_env" and cenv :: "'v capture_env"
  assumes "record_all env other (raw_capture_loop cenv target wakes raw_batch_empty) (w, t) = (Inr (), st)"
    and "list_all (output_from p) wakes" "distinct (wake_sequences wakes)" "inj (raw_sequence_hash env)"
    and "list_all (\<lambda>n. \<not> receipt_known env (target_session cenv target) (pane_text cenv p) t n) (wake_sequences wakes)"
  shows "stream_bytes s q (snd st) = stream_bytes s q t @
    (if s = target_session cenv target \<and> q = pane_text cenv p then only_bytes (received wakes) else [])"
proof -
  let ?inputs = "raw_capture_loop cenv target wakes raw_batch_empty"
  have empty: "batch_from p raw_batch_empty" "batch_named raw_batch_empty" "batch_sequences raw_batch_empty = []" "rb_payload raw_batch_empty = []"
    by (simp_all add: batch_from_def batch_named_def batch_sequences_def raw_batch_empty_def)
  obtain lost where outputs: "list_all (raw_output_of (target_session cenv target) (pane_text cenv p)) ?inputs"
    "mset (input_sequences ?inputs) + lost = mset (wake_sequences wakes)"
    using loop_numbered [OF empty(1) assms(2), of cenv target] empty(3) by auto
  have fewer: "count_list (input_sequences ?inputs) n \<le> count_list (wake_sequences wakes) n" for n
    using arg_cong [OF outputs(2), of "\<lambda>m. count m n"] by (simp add: count_mset)
  have "distinct (input_sequences ?inputs)"
    using assms(3) fewer unfolding distinct_count_list by (meson order_trans)
  moreover have "set (input_sequences ?inputs) \<subseteq> set (wake_sequences wakes)"
    using fewer by (metis count_list_0_iff le_zero_eq subsetI)
  ultimately have "v2_ok (record_all env other ?inputs)
      (\<lambda>u. streams_grow (target_session cenv target) (pane_text cenv p) (only_bytes (archived_stream ?inputs)) t) t"
    using outputs(1) assms(5) assms(4) by (intro v2_ok_record_all) (auto simp: list_all_iff)
  from v2_okD [OF this assms(1)] show ?thesis
    using raw_loop_archives [OF empty(2), of cenv target wakes] empty(4) by (simp add: streams_grow_def)
qed

end
