(* ===== verification/Archive_Repeat.thy ===== *)
theory Archive_Repeat
  imports Archive_Capture
begin

text \<open>
  Recording the same output again succeeds. \<open>v2_runs\<close> is the total counterpart of \<open>v2_ok\<close>: the operation
  ends without an error as long as the database takes its statements and new identifiers are new.
\<close>

section \<open>Success\<close>

text \<open>
  Worlds in which no statement is refused and no identifier is made that is in use; statements and new
  identifiers lead to such worlds again.
\<close>

definition obliging :: "'w archive_env \<Rightarrow> rstr set \<Rightarrow> 'w set \<Rightarrow> bool" where
  "obliging env used W \<longleftrightarrow>
     (\<forall>w\<in>W. fst (av_sql env w) = None \<and> snd (av_sql env w) \<in> W \<and> fst (av_new_id env w) \<notin> used \<and> snd (av_new_id env w) \<in> W)"

definition v2_runs :: "'w set \<Rightarrow> ('w, 'a) v2_io \<Rightarrow> ('a \<Rightarrow> archive_tables \<Rightarrow> bool) \<Rightarrow> archive_tables \<Rightarrow> bool" where
  "v2_runs W m Q t \<longleftrightarrow> (\<forall>w\<in>W. \<exists>x w1 t1. m (w, t) = (Inr x, (w1, t1)) \<and> w1 \<in> W \<and> Q x t1)"

lemma v2_runsE:
  assumes "v2_runs W m Q t" "w \<in> W"
  obtains x w1 t1 where "m (w, t) = (Inr x, (w1, t1))" "w1 \<in> W" "Q x t1"
  using assms unfolding v2_runs_def by blast

lemma v2_runs_bind:
  assumes "v2_runs W m (\<lambda>x. v2_runs W (f x) Q) t"
  shows "v2_runs W (io_bind m f) Q t"
  unfolding v2_runs_def
proof
  fix w assume "w \<in> W"
  obtain x w1 t1 where 1: "m (w, t) = (Inr x, (w1, t1))" "w1 \<in> W" "v2_runs W (f x) Q t1"
    by (rule v2_runsE [OF assms \<open>w \<in> W\<close>])
  obtain y w2 t2 where "f x (w1, t1) = (Inr y, (w2, t2))" "w2 \<in> W" "Q y t2" by (rule v2_runsE [OF 1(3,2)])
  then show "\<exists>x w1 t1. io_bind m f (w, t) = (Inr x, (w1, t1)) \<and> w1 \<in> W \<and> Q x t1" using 1(1) by (simp add: io_bind_def)
qed

lemma v2_runs_basic:
  "Q x t \<Longrightarrow> v2_runs W (io_ok x) Q t"
  "r = Inr x \<Longrightarrow> Q x t \<Longrightarrow> v2_runs W (io_lift r) Q t"
  "(\<And>n. Q3 n t) \<Longrightarrow> v2_runs W (now_ms env) Q3 t"
  by (auto simp: v2_runs_def now_ms_def)

lemma v2_runs_mono: "v2_runs W m Q t \<Longrightarrow> (\<And>x t1. Q x t1 \<Longrightarrow> R x t1) \<Longrightarrow> v2_runs W m R t"
  unfolding v2_runs_def by meson

lemma v2_runs_on_error: "v2_runs W m Q t \<Longrightarrow> v2_runs W (on_error f m) Q t"
  unfolding v2_runs_def on_error_def by fastforce

lemma v2_runs_id: "obliging env used W \<Longrightarrow> (\<And>i. i \<notin> used \<Longrightarrow> Q i t) \<Longrightarrow> v2_runs W (new_id env) Q t"
  by (auto simp: v2_runs_def new_id_def obliging_def split: prod.split)

lemma v2_runs_statement: "obliging env used W \<Longrightarrow> f t = Inr (x, t1) \<Longrightarrow> Q x t1 \<Longrightarrow> v2_runs W (sql_statement env f) Q t"
  by (auto simp: v2_runs_def sql_statement_def obliging_def split: prod.split option.split)

lemma v2_runs_load: "obliging env used W \<Longrightarrow> Q (g t) t \<Longrightarrow> v2_runs W (sql_load env g) Q t"
  unfolding sql_load_def by (rule v2_runs_statement) simp_all

lemma v2_runs_first: "obliging env used W \<Longrightarrow> h t = Some x \<Longrightarrow> Q x t \<Longrightarrow> v2_runs W (sql_first env h) Q t"
  unfolding sql_first_def by (rule v2_runs_statement) simp_all

lemma v2_runs_execute: "obliging env used W \<Longrightarrow> Q () (k t) \<Longrightarrow> v2_runs W (sql_execute env k) Q t"
  unfolding sql_execute_def by (rule v2_runs_statement) simp_all

lemma v2_runs_insert: "obliging env used W \<Longrightarrow> i t = Some t1 \<Longrightarrow> Q () t1 \<Longrightarrow> v2_runs W (sql_insert env i) Q t"
  unfolding sql_insert_def by (rule v2_runs_statement) simp_all

lemma v2_runs_transaction:
  assumes ob: "obliging env used W" and body: "v2_runs W body Q t"
  shows "v2_runs W (v2_transaction env body) Q t"
proof -
  have execute: "R () t1 \<Longrightarrow> v2_runs W (sql_execute env id) R t1" for R t1
    by (rule v2_runs_execute [OF ob]) simp
  have "v2_runs W (io_bind (sql_execute env id) (\<lambda>_. io_bind body (\<lambda>x. io_bind (sql_execute env id) (\<lambda>_. io_ok x)))) Q t"
    by (rule v2_runs_bind, rule execute, rule v2_runs_bind, rule v2_runs_mono [OF body], rule v2_runs_bind, rule execute,
        erule v2_runs_basic(1))
  then show ?thesis unfolding v2_runs_def v2_transaction_def by fastforce
qed

section \<open>The lease\<close>

lemma v2_runs_clock_anchor: "obliging env used W \<Longrightarrow> Q () t \<Longrightarrow> v2_runs W (insert_clock_anchor env) Q t"
  unfolding insert_clock_anchor_def by (rule v2_runs_bind, rule v2_runs_id, assumption, rule v2_runs_execute) simp_all

lemma v2_runs_acquire:
  assumes ob: "obliging env used W" and free: "filter writer_active (at_writers t) = []" and used: "wg_id ` set (at_writers t) \<subseteq> used"
    and lease: "0 < lease_ms"
  shows "v2_runs W (acquire_writer_generation env process lease_ms)
    (\<lambda>l t1. but_writers t t1 \<and> list_ex (\<lambda>r. wg_id r = wl_id l \<and> writer_active r) (at_writers t1)) t"
proof -
  have same: "expire_writers now t = t" for now
    using free by (simp add: expire_writers_def update_where_never filter_empty_conv)
  have none: "find writer_active (at_writers t) = None" using free by (simp add: find_None_iff filter_empty_conv)
  have inserted: "insert_writer row t = Some (t\<lparr>at_writers := at_writers t @ [row]\<rparr>)" if "wg_id row \<notin> used" for row
    using that used free by (auto simp: insert_writer_def list_ex_iff filter_empty_conv)
  have "v2_runs W (v2_transaction env (
      io_bind (sql_execute env (expire_writers now)) (\<lambda>_.
      io_bind (sql_load env (\<lambda>t. find writer_active (at_writers t))) (\<lambda>active.
        if active \<noteq> None then io_err V2WriterAlreadyActive
        else io_bind (on_error map_writer_generation_insert_error (sql_insert env (insert_writer row))) (\<lambda>_. insert_clock_anchor env)))))
      (\<lambda>u t1. t1 = t\<lparr>at_writers := at_writers t @ [row]\<rparr>) t" if "wg_id row \<notin> used" for now row
    by (rule v2_runs_transaction [OF ob], rule v2_runs_bind, rule v2_runs_execute [OF ob], rule v2_runs_bind, rule v2_runs_load [OF ob],
        simp add: same none, rule v2_runs_bind, rule v2_runs_on_error, rule v2_runs_insert [OF ob], rule inserted [OF that],
        rule v2_runs_clock_anchor [OF ob]) simp
  note run = this
  show ?thesis
    unfolding acquire_writer_generation_def if_not_P [OF not_le [THEN iffD2, OF lease]]
  proof (rule v2_runs_bind, rule v2_runs_basic(3), rule v2_runs_bind, rule v2_runs_id [OF ob], rule v2_runs_bind, rule v2_runs_id [OF ob],
      rule v2_runs_bind, rule v2_runs_mono [OF run], goal_cases)
    case (2 now i token u t1)
    show ?case by (rule v2_runs_basic(1)) (use 2 in \<open>auto simp: but_writers_def writer_active_def\<close>)
  qed simp
qed

lemma v2_runs_release:
  assumes ob: "obliging env used W" and row: "list_ex (\<lambda>r. wg_id r = writer \<and> writer_active r) (at_writers t)"
  shows "v2_runs W (release_writer_generation env writer) (\<lambda>u. but_writers t) t"
proof -
  have some: "fst (update_writer writer f t) \<noteq> 0" for f
    using row by (auto simp: update_writer_def Let_def list_ex_iff filter_empty_conv)
  show ?thesis
    unfolding release_writer_generation_def
  proof (intro v2_runs_bind v2_runs_basic(3) v2_runs_transaction [OF ob])
    fix now
    let ?f = "\<lambda>r. r\<lparr>wg_state := WriterReleased, wg_released_at_ms := Some now\<rparr>"
    show "v2_runs W (sql_statement env (\<lambda>t. Inr (update_writer writer ?f t)))
        (\<lambda>updated. v2_runs W (if updated = 0 then io_err (V2InvalidData [MText ''active writer generation not found for release''])
           else insert_clock_anchor env) (\<lambda>u. but_writers t)) t"
      by (rule v2_runs_statement [OF ob, where x = "fst (update_writer writer ?f t)" and ?t1.0 = "snd (update_writer writer ?f t)"])
        (simp, subst if_not_P [OF some], rule v2_runs_clock_anchor [OF ob], auto simp: but_writers_def update_writer_def Let_def)
  qed
qed

lemma v2_runs_acquire_retry: "v2_runs W (acquire_writer_generation env process lease_ms) Q t \<Longrightarrow> v2_runs W (acquire_retry env process lease_ms (Suc n)) Q t"
  unfolding v2_runs_def by fastforce

lemma v2_runs_with_writer:
  assumes ob: "obliging env (wg_id ` set (at_writers t)) W" and free: "filter writer_active (at_writers t) = []"
    and operation: "\<And>writer t1. but_writers t t1 \<Longrightarrow> v2_runs W (operation writer) (\<lambda>x t2. t2 = t1) t1"
  shows "v2_runs W (with_writer env process operation) (\<lambda>x. but_writers t) t"
  unfolding with_writer_def acquire_writer_generation_with_retry_def
proof (rule v2_runs_bind)
  let ?P = "\<lambda>lease t1. but_writers t t1 \<and> list_ex (\<lambda>r. wg_id r = wl_id lease \<and> writer_active r) (at_writers t1)"
  have acquired: "v2_runs W (acquire_retry env (lit process) 60000 40) ?P t"
    using v2_runs_acquire_retry [OF v2_runs_acquire [OF ob free order_refl], where n = 39] by simp
  show "v2_runs W (acquire_retry env (lit process) 60000 40)
     (\<lambda>lease. v2_runs W (\<lambda>st. case operation (wl_id lease) st of (result, st1) \<Rightarrow>
        (case release_writer_generation env (wl_id lease) st1 of (released, st2) \<Rightarrow>
           (case result of Inl e \<Rightarrow> Inl e | Inr x \<Rightarrow> (case released of Inl e \<Rightarrow> Inl e | Inr u \<Rightarrow> Inr x), st2))) (\<lambda>x. but_writers t)) t"
  proof (rule v2_runs_mono [OF acquired])
    fix lease t1
    assume lease: "?P lease t1"
    note op = operation [OF conjunct1 [OF lease], of "wl_id lease"] and rel = v2_runs_release [OF ob conjunct2 [OF lease]]
    show "v2_runs W (\<lambda>st. case operation (wl_id lease) st of (result, st1) \<Rightarrow>
        (case release_writer_generation env (wl_id lease) st1 of (released, st2) \<Rightarrow>
           (case result of Inl e \<Rightarrow> Inl e | Inr x \<Rightarrow> (case released of Inl e \<Rightarrow> Inl e | Inr u \<Rightarrow> Inr x), st2))) (\<lambda>x. but_writers t) t1"
      unfolding v2_runs_def
    proof
      fix w assume w: "w \<in> W"
      obtain x w1 where 1: "operation (wl_id lease) (w, t1) = (Inr x, (w1, t1))" "w1 \<in> W" by (rule v2_runsE [OF op w]) blast
      obtain u w2 t2 where 2: "release_writer_generation env (wl_id lease) (w1, t1) = (Inr u, (w2, t2))" "w2 \<in> W" "but_writers t1 t2"
        by (rule v2_runsE [OF rel 1(2)])
      show "\<exists>x w1 t2. (case operation (wl_id lease) (w, t1) of (result, st1) \<Rightarrow>
        (case release_writer_generation env (wl_id lease) st1 of (released, st2) \<Rightarrow>
           (case result of Inl e \<Rightarrow> Inl e | Inr x \<Rightarrow> (case released of Inl e \<Rightarrow> Inl e | Inr u \<Rightarrow> Inr x), st2))) = (Inr x, w1, t2) \<and>
          w1 \<in> W \<and> but_writers t t2"
        using 1(1) 2 but_writers_trans [OF conjunct1 [OF lease] 2(3)] by simp
    qed
  qed
qed

text \<open>What an operation under the lease leaves: no active writer.\<close>

lemma v2_ok_release_frees:
  assumes "map wg_id (filter writer_active (at_writers t)) = [writer]"
  shows "v2_ok (release_writer_generation env writer) (\<lambda>u t1. but_writers t t1 \<and> filter writer_active (at_writers t1) = []) t"
proof -
  have freed: "filter writer_active (update_where (\<lambda>r. wg_id r = writer \<and> writer_active r)
      (\<lambda>r. r\<lparr>wg_state := WriterReleased, wg_released_at_ms := Some now\<rparr>) (at_writers t)) = []" for now
  proof -
    have "\<not> writer_active (if wg_id q = writer \<and> writer_active q
        then q\<lparr>wg_state := WriterReleased, wg_released_at_ms := Some now\<rparr> else q)" if "q \<in> set (at_writers t)" for q
    proof (cases "writer_active q")
      case True
      then have "wg_id q \<in> set (map wg_id (filter writer_active (at_writers t)))" using that by auto
      then have "wg_id q = writer" by (simp add: assms)
      then show ?thesis using True by (simp add: writer_active_def)
    qed simp
    then show ?thesis unfolding filter_empty_conv Ball_def in_update_where by blast
  qed
  show ?thesis
    unfolding release_writer_generation_def
    by (rule v2_ok_bind, rule v2_ok_now, rule v2_ok_transaction, rule v2_ok_bind, rule v2_ok_statement, rule v2_ok_if, rule v2_ok_basic(2))
      (auto simp: insert_clock_anchor_def update_writer_def Let_def but_writers_def freed intro!: v2_ok_bind v2_ok_new_id v2_ok_execute)
qed

lemma v2_ok_leased:
  assumes "\<And>writer t1. but_writers t t1 \<Longrightarrow>
     v2_ok (operation writer) (\<lambda>x t2. at_writers t2 = at_writers t1 \<and>
       (\<forall>t3. but_writers t2 t3 \<longrightarrow> filter writer_active (at_writers t3) = [] \<longrightarrow> Q x t3)) t1"
  shows "v2_ok (with_writer env process operation) Q t"
  unfolding with_writer_def acquire_writer_generation_with_retry_def
proof (rule v2_ok_bind, rule v2_ok_mono [OF v2_ok_acquire_retry [OF v2_ok_conj [OF v2_ok_acquire v2_ok_acquire_lease]]], rule v2_okI)
  fix lease t1 st x st2
  assume t1: "but_writers t t1 \<and> map wg_id (filter writer_active (at_writers t1)) = [wl_id lease]" "snd st = t1"
    and run: "(case operation (wl_id lease) st of (result, st1) \<Rightarrow>
           (case release_writer_generation env (wl_id lease) st1 of
              (released, st2) \<Rightarrow>
                (case result of Inl e \<Rightarrow> Inl e | Inr x \<Rightarrow> (case released of Inl e \<Rightarrow> Inl e | Inr u \<Rightarrow> Inr x), st2))) = (Inr x, st2)"
  obtain r st1 where op: "operation (wl_id lease) st = (r, st1)" by (cases "operation (wl_id lease) st")
  obtain r2 st3 where rel: "release_writer_generation env (wl_id lease) st1 = (r2, st3)"
    by (cases "release_writer_generation env (wl_id lease) st1")
  have "r = Inr x" "st3 = st2" and r2: "\<exists>u. r2 = Inr u" using run by (auto simp: op rel split: sum.splits)
  have after: "at_writers (snd st1) = at_writers t1"
    "\<forall>t3. but_writers (snd st1) t3 \<longrightarrow> filter writer_active (at_writers t3) = [] \<longrightarrow> Q x t3"
    using v2_okD [OF assms [OF conjunct1 [OF t1(1)]] op [unfolded \<open>r = Inr x\<close>] t1(2)] by simp_all
  have "map wg_id (filter writer_active (at_writers (snd st1))) = [wl_id lease]" using t1(1) after(1) by simp
  from v2_okD [OF v2_ok_release_frees [OF this]] show "Q x (snd st2)"
    using r2 rel after(2) \<open>st3 = st2\<close> by blast
qed

section \<open>Receipts\<close>

text \<open>A receipt whose commit is stored, with its segment and its event.\<close>

definition receipt_backed :: "rstr \<Rightarrow> rstr \<Rightarrow> rstr \<Rightarrow> rstr \<Rightarrow> archive_tables \<Rightarrow> bool" where
  "receipt_backed sid kind hash payload_hash t \<longleftrightarrow>
     (\<exists>receipt. load_capture_receipt sid kind hash t = Some receipt \<and> rc_source_payload_hash receipt = payload_hash \<and>
        (\<exists>commit. rc_commit_id receipt = Some commit \<and> commit \<in> sg_commit_id ` set (at_segments t) \<and>
           commit \<in> je_commit_id ` set (at_events t) \<and> commit \<in> cm_id ` set (at_commits t)))"

lemma receipt_backed_cong:
  assumes "receipt_backed sid kind hash payload_hash t" "at_receipts t1 = at_receipts t" "at_segments t1 = at_segments t"
    "at_events t1 = at_events t" "at_commits t1 = at_commits t"
  shows "receipt_backed sid kind hash payload_hash t1"
  using assms by (simp add: receipt_backed_def load_capture_receipt_def)

lemma find_key: "x \<in> f ` set xs \<Longrightarrow> \<exists>y. find (\<lambda>r. f r = x) xs = Some y"
  by (metis (mono_tags, lifting) find_None_iff imageE not_Some_eq)

lemma find_append_None: "find p xs = None \<Longrightarrow> find p (xs @ ys) = find p ys"
  by (induction xs) (auto split: if_splits)

lemma v2_ok_reuse_backed:
  assumes keys: "tx_capture_source_kind tx = Some kind" "gi_source_event_id_hash (tx_input tx) = Some hash"
  shows "v2_ok (reuse_capture_receipt_if_possible env tx) (\<lambda>reused t1. t1 = t \<and>
    (if reused = None then load_capture_receipt (gi_session_id (tx_input tx)) kind hash t = None
     else receipt_backed (gi_session_id (tx_input tx)) kind hash (tx_payload_checksum tx) t)) t"
  unfolding reuse_capture_receipt_if_possible_def keys prod.case option.case stream_segment_receipt_from_commit_def
proof (intro v2_ok_intros, goal_cases)
  case (2 receipt commit segment event row)
  then have "commit \<in> sg_commit_id ` set (at_segments t)" "commit \<in> je_commit_id ` set (at_events t)" "commit \<in> cm_id ` set (at_commits t)"
    by (auto dest!: find_in_set intro: rev_image_eqI)
  then show ?case using 2 by (auto simp: receipt_backed_def)
qed simp

lemma v2_ok_new_event:
  "v2_ok (append_new_segment env tx) (\<lambda>r t1. sr_commit_id r \<in> je_commit_id ` set (at_events t1)) t"
  unfolding append_new_segment_def Let_def
  by (intro v2_ok_intros) (simp_all add: update_pane_last_event_seq_def advance_stream_cursor_def)

text \<open>What recording needs besides the database: a session that is not private, a free lease and the cursor of the stream.\<close>

definition recording_ready :: "'w archive_env \<Rightarrow> rstr \<Rightarrow> rstr \<Rightarrow> archive_tables \<Rightarrow> bool" where
  "recording_ready env sid p t \<longleftrightarrow> \<not> session_private sid t \<and> filter writer_active (at_writers t) = [] \<and>
     stream_cursor_id env p default_stream_id \<in> sk_id ` set (at_stream_cursors t)"

definition unlocked_as :: "archive_tables \<Rightarrow> archive_tables \<Rightarrow> bool" where
  "unlocked_as t t1 \<longleftrightarrow> at_sessions t1 = at_sessions t \<and> at_writers t1 = at_writers t \<and>
     sk_id ` set (at_stream_cursors t1) = sk_id ` set (at_stream_cursors t)"

lemma v2_ok_append_backed:
  assumes "tx_valid env tx" and keys: "tx_capture_source_kind tx = Some kind" "gi_source_event_id_hash (tx_input tx) = Some hash"
  shows "v2_ok (append_stream_segment_transaction env tx)
    (\<lambda>r t1. unlocked_as t t1 \<and> receipt_backed (gi_session_id (tx_input tx)) kind hash (tx_payload_checksum tx) t1) t"
  unfolding append_stream_segment_transaction_def
proof (rule v2_ok_bind, rule v2_ok_mono [OF v2_ok_reuse_backed [OF keys]])
  fix reused :: "stream_segment_receipt option" and t1
  let ?backed = "receipt_backed (gi_session_id (tx_input tx)) kind hash (tx_payload_checksum tx)"
  assume reused: "t1 = t \<and> (if reused = None then load_capture_receipt (gi_session_id (tx_input tx)) kind hash t = None else ?backed t)"
  have stream: "tx_stream_id tx = default_stream_id" using assms(1) by (simp add: tx_valid_def)
  have new: "unlocked_as t t2 \<and> ?backed t2"
    if none: "load_capture_receipt (gi_session_id (tx_input tx)) kind hash t = None"
      and stored: "segment_stored env tx r t t2" and event: "sr_commit_id r \<in> je_commit_id ` set (at_events t2)" for r t2
  proof -
    obtain c seg E rows commit t0 where c: "sk_session_id c = gi_session_id (tx_input tx)" "commit_step (sk_session_id c) commit t t0"
      "at_commits t2 = at_commits t0" "appended c [seg] E [] (sk_next_event_seq c + int (length (tx_transitions tx)) + 1)
          (sk_next_byte_seq c + tx_payload_len tx) t t2" "sg_commit_id seg = ca_id commit" "sr_commit_id r = ca_id commit"
      "receipt_rows (Some kind) (Some hash) (sk_session_id c) (ca_id commit) (tx_payload_checksum tx) rows"
      "at_receipts t2 = at_receipts t @ rows" "at_writers t2 = at_writers t" "at_sessions t2 = at_sessions t"
      using stored unfolding segment_stored_def keys by blast
    have stored_commit: "ca_id commit \<in> cm_id ` set (at_commits t2)" "ca_id commit \<in> sg_commit_id ` set (at_segments t2)"
      using c(2-5) by (auto simp: commit_step_def advance_session_cursor_def appended_def)
    have "unlocked_as t t2"
      using c(4,9,10) unfolding unlocked_as_def appended_def by (elim conjE exE) (simp add: image_update_where)
    moreover obtain row where row: "rows = [row]" "rc_session_id row = gi_session_id (tx_input tx)" "rc_source_kind row = kind"
      "rc_source_event_id_hash row = hash" "rc_source_payload_hash row = tx_payload_checksum tx" "rc_commit_id row = Some (ca_id commit)"
      using c(7) by (auto simp: receipt_rows_def c(1))
    have "load_capture_receipt (gi_session_id (tx_input tx)) kind hash t2 = Some row"
      using none row unfolding load_capture_receipt_def c(8) by (simp add: find_append_None)
    then have "?backed t2" using stored_commit event row unfolding receipt_backed_def c(6) by blast
    ultimately show ?thesis by simp
  qed
  show "v2_ok (case reused of None \<Rightarrow> append_new_segment env tx | Some receipt \<Rightarrow> io_ok receipt) (\<lambda>r t1. unlocked_as t t1 \<and> ?backed t1) t1"
  proof (cases reused)
    case None
    then have t1: "t1 = t" and none: "load_capture_receipt (gi_session_id (tx_input tx)) kind hash t = None" using reused by auto
    have "v2_ok (append_new_segment env tx) (\<lambda>r t1. unlocked_as t t1 \<and> ?backed t1) t"
      by (rule v2_ok_mono [OF v2_ok_conj [OF v2_ok_append_new_segment [OF stream] v2_ok_new_event]]) (use new [OF none] in blast)
    then show ?thesis using None t1 by simp
  next
    case (Some receipt)
    then show ?thesis using reused by (simp add: v2_ok_basic unlocked_as_def)
  qed
qed

section \<open>Repeating\<close>

lemma v2_ok_target_ready:
  "v2_ok (upsert_capture_target env input source p tab rows cols) (\<lambda>u t1.
     validate_positive_dimensions (dimension rows 24) (dimension cols 80) = Inr () \<and>
     stream_cursor_id env p default_stream_id \<in> sk_id ` set (at_stream_cursors t1)) t"
proof -
  have session: "v2_ok (upsert_runtime_session env xi) (\<lambda>u t1. True) t" for xi by (simp add: v2_ok_def)
  show ?thesis
    unfolding upsert_capture_target_def upsert_runtime_pane_def Let_def
    by (rule v2_ok_bind, rule v2_ok_mono [OF session], rule v2_ok_bind, rule v2_ok_basic(3), rule v2_ok_bind, rule v2_ok_now,
        rule v2_ok_transaction, rule v2_ok_bind, rule v2_ok_insert, rule v2_ok_insert)
      (auto simp: insert_stream_cursor_def list_ex_iff split: if_splits intro: rev_image_eqI)
qed

definition same_records :: "archive_tables \<Rightarrow> archive_tables \<Rightarrow> bool" where
  "same_records t t1 \<longleftrightarrow> at_receipts t1 = at_receipts t \<and> at_segments t1 = at_segments t \<and> at_events t1 = at_events t \<and>
     at_commits t1 = at_commits t \<and> at_writers t1 = at_writers t"

lemma session_private_public: "\<not> session_private sid t \<Longrightarrow> xs_id row = sid \<Longrightarrow> \<not> xs_private_mode row \<Longrightarrow> \<not> session_private sid (upsert_session_row row t)"
proof -
  assume public: "\<not> session_private sid t" "xs_id row = sid" "\<not> xs_private_mode row"
  let ?f = "\<lambda>r. r\<lparr>xs_route := xs_route row, xs_title := xs_title row, xs_launch := xs_launch row, xs_source := xs_source row,
     xs_private_mode := xs_private_mode row, xs_updated_at_ms := xs_updated_at_ms row, xs_state := xs_state row\<rparr>"
  have "\<not> xs_private_mode r" if "find (\<lambda>r. xs_id r = sid) (update_where (\<lambda>r. xs_id r = sid) ?f rows) = Some r" for r rows
    using that public by (induction rows) (auto simp: update_where_def split: if_splits)
  moreover have "\<not> xs_private_mode r" if "find (\<lambda>r. xs_id r = sid) (at_sessions t @ [row]) = Some r" "\<not> list_ex (\<lambda>r. xs_id r = sid) (at_sessions t)" for r
    using that public by (auto simp: find_append_None find_None_iff list_ex_iff)
  ultimately show ?thesis using public(2) by (auto simp: session_private_iff upsert_session_row_def)
qed

lemma upserted_session: "xs_id row \<in> xs_id ` set (at_sessions (upsert_session_row row t))"
  by (auto simp: upsert_session_row_def image_update_where list_ex_iff intro: rev_image_eqI)

lemma v2_runs_target:
  assumes ob: "obliging env used W" and ready: "recording_ready env (ev_session_id input) p t"
    and dims: "validate_positive_dimensions (dimension rows 24) (dimension cols 80) = Inr ()"
  shows "v2_runs W (upsert_capture_target env input source p tab rows cols)
    (\<lambda>u t1. recording_ready env (ev_session_id input) p t1 \<and> same_records t t1) t"
proof -
  let ?sid = "ev_session_id input"
  let ?row = "\<lambda>now private. \<lparr>xs_id = ?sid, xs_route = ev_route input, xs_title = ev_title input, xs_launch = ev_launch input,
     xs_source = source, xs_private_mode = (False \<or> private), xs_created_at_ms = now, xs_updated_at_ms = now, xs_state = ''active''\<rparr>"
  have public: "\<not> session_private ?sid t" using ready by (simp add: recording_ready_def)
  let ?after = "\<lambda>u t1. recording_ready env ?sid p t1 \<and> same_records t t1 \<and> ?sid \<in> xs_id ` set (at_sessions t1)"
  have upserted: "?after () (insert_session_cursor c (upsert_session_row (?row now (session_private ?sid t)) t))" for c now
  proof -
    let ?t1 = "upsert_session_row (?row now (session_private ?sid t)) t"
    have "\<not> session_private ?sid ?t1" "?sid \<in> xs_id ` set (at_sessions ?t1)"
      using session_private_public [OF public, of "?row now (session_private ?sid t)"]
        upserted_session [of "?row now (session_private ?sid t)" t] public by simp_all
    moreover have "at_writers ?t1 = at_writers t" "at_stream_cursors ?t1 = at_stream_cursors t" "same_records t ?t1"
      by (simp_all add: upsert_session_row_def same_records_def)
    ultimately show ?thesis
      using ready by (simp add: recording_ready_def same_records_def insert_session_cursor_def session_private_def)
  qed
  have session: "v2_runs W (upsert_runtime_session env \<lparr>xi_id = ?sid, xi_route = ev_route input, xi_title = ev_title input,
       xi_launch = ev_launch input, xi_source = source, xi_private_mode = False\<rparr>) ?after t"
    unfolding upsert_runtime_session_def
    by (rule v2_runs_bind, rule v2_runs_basic(3), rule v2_runs_transaction [OF ob], rule v2_runs_bind, rule v2_runs_load [OF ob],
        rule v2_runs_bind, rule v2_runs_execute [OF ob], rule v2_runs_execute [OF ob]) (use upserted in simp)
  show ?thesis
    unfolding upsert_capture_target_def
  proof (rule v2_runs_bind, rule v2_runs_mono [OF session])
    fix u t1
    assume after: "?after u t1"
    let ?pane = "\<lambda>now. \<lparr>xp_id = p, xp_session_id = ?sid, xp_tab_id = tab, xp_stream_id = default_stream_id, xp_title = None,
       xp_rows = dimension rows 24, xp_cols = dimension cols 80, xp_last_event_seq = 0, xp_created_at_ms = now\<rparr>"
    have pane: "\<exists>t2. upsert_pane_row (?pane now) t1 = Some t2 \<and> recording_ready env ?sid p t2 \<and> same_records t t2" for now
      using after by (auto simp: upsert_pane_row_def recording_ready_def session_private_def same_records_def list_ex_iff)
    show "v2_runs W (upsert_runtime_pane env \<lparr>pi_id = p, pi_session_id = ?sid, pi_tab_id = tab, pi_stream_id = None, pi_title = None,
         pi_rows = dimension rows 24, pi_cols = dimension cols 80\<rparr>) (\<lambda>u t1. recording_ready env ?sid p t1 \<and> same_records t t1) t1"
      unfolding upsert_runtime_pane_def Let_def pane_input.select_convs option.case
    proof (rule v2_runs_bind, rule v2_runs_basic(2), rule dims, rule v2_runs_bind, rule v2_runs_basic(3),
        rule v2_runs_transaction [OF ob], rule v2_runs_bind)
      fix now
      obtain t2 where t2: "upsert_pane_row (?pane now) t1 = Some t2" "recording_ready env ?sid p t2 \<and> same_records t t2"
        using pane by blast
      have cursor: "insert_stream_cursor c t2 = Some t2" if "sk_id c = stream_cursor_id env p default_stream_id" for c
        using t2(2) that by (auto simp: insert_stream_cursor_def recording_ready_def list_ex_iff)
      show "v2_runs W (sql_insert env (upsert_pane_row
             \<lparr>xp_id = p, xp_session_id = ?sid, xp_tab_id = tab,
              xp_stream_id = default_stream_id, xp_title = None, xp_rows = dimension rows 24, xp_cols = dimension cols 80,
              xp_last_event_seq = 0, xp_created_at_ms = now\<rparr>)) (\<lambda>_. v2_runs W (sql_insert env (insert_stream_cursor
             \<lparr>sk_id = stream_cursor_id env p default_stream_id, sk_session_id = ?sid,
              sk_pane_id = p, sk_stream_id = default_stream_id, sk_next_event_seq = 1, sk_next_byte_seq = 0,
              sk_updated_at_ms = now\<rparr>)) (\<lambda>u t1. recording_ready env ?sid p t1 \<and> same_records t t1)) t1"
        by (rule v2_runs_insert [OF ob], rule t2(1), rule v2_runs_insert [OF ob], rule cursor, simp, rule t2(2))
    qed
  qed
qed

text \<open>The segment that an output is recorded as, and when it was already.\<close>

definition output_segment :: "'w archive_env \<Rightarrow> terminal_output_input \<Rightarrow> rstr \<Rightarrow> stream_segment_input" where
  "output_segment env input writer =
     \<lparr>gi_session_id = ev_session_id input, gi_pane_id = to_pane_id input, gi_stream_id = None,
      gi_writer_generation = writer, gi_payload = to_payload input, gi_event_type = Some (lit ''terminal_output''),
      gi_event_count = 1, gi_occurred_at_ms = map_option sint (to_occurred_at_ms input),
      gi_capture_semantics = to_capture_semantics input, gi_trust_level = Some (lit ''captured''), gi_payload_json = None,
      gi_source_event_id_hash = map_option (raw_sequence_hash env) (to_source_sequence input)\<rparr>"

lemma record_output_eq:
  "record_terminal_output_event env input =
     io_bind (upsert_capture_target env input (lit ''runtime_output_capture'') (to_pane_id input) (to_tab_id input)
         (to_rows input) (to_cols input)) (\<lambda>_.
     io_bind (sql_load env (session_private (ev_session_id input))) (\<lambda>private_mode.
       if private_mode
       then io_err (V2InvalidData [MText ''private mode suppresses durable terminal output capture''])
       else with_writer env ''runtime-output-capture'' (\<lambda>writer. append_stream_segment env (output_segment env input writer))))"
  by (simp only: record_terminal_output_event_def raw_sequence_hash_eq output_segment_def)

definition repeatable :: "'w archive_env \<Rightarrow> terminal_output_input \<Rightarrow> u64 \<Rightarrow> archive_tables \<Rightarrow> bool" where
  "repeatable env input n t \<longleftrightarrow>
     validate_positive_dimensions (dimension (to_rows input) 24) (dimension (to_cols input) 80) = Inr () \<and>
     to_payload input \<noteq> [] \<and> int (length (to_payload input)) \<le> i64_max \<and>
     recording_ready env (ev_session_id input) (to_pane_id input) t \<and>
     receipt_backed (ev_session_id input) (stream_capture_source_kind env (to_pane_id input) default_stream_id)
       (raw_sequence_hash env n) (av_hash env (to_payload input)) t"

lemma segment_tx_output:
  assumes "to_source_sequence input = Some n"
  shows "tx_capture_source_kind (segment_tx env (output_segment env input writer) len now) =
      Some (stream_capture_source_kind env (to_pane_id input) default_stream_id)"
    "gi_source_event_id_hash (tx_input (segment_tx env (output_segment env input writer) len now)) = Some (raw_sequence_hash env n)"
    "gi_session_id (tx_input (segment_tx env (output_segment env input writer) len now)) = ev_session_id input"
    "tx_payload_checksum (segment_tx env (output_segment env input writer) len now) = av_hash env (to_payload input)"
  using assms by (simp_all add: segment_tx_def output_segment_def)

lemma v2_ok_output_backed:
  assumes "to_source_sequence input = Some n"
  shows "v2_ok (append_stream_segment env (output_segment env input writer))
    (\<lambda>r t1. unlocked_as t t1 \<and> to_payload input \<noteq> [] \<and> int (length (to_payload input)) \<le> i64_max \<and>
       receipt_backed (ev_session_id input) (stream_capture_source_kind env (to_pane_id input) default_stream_id)
         (raw_sequence_hash env n) (av_hash env (to_payload input)) t1) t"
  unfolding append_stream_segment_eq
proof (rule v2_ok_bind, rule v2_ok_basic(3), rule v2_ok_bind, rule v2_ok_now, rule v2_ok_bind, rule v2_ok_basic(3),
    rule v2_ok_on_failure, rule v2_ok_transaction, goal_cases)
  case (1 u now len)
  have "gi_stream_id (output_segment env input writer) = None" by (simp add: output_segment_def)
  note tx = segment_tx_valid [OF this 1, of env now]
  have "to_payload input \<noteq> [] \<and> int (length (to_payload input)) \<le> i64_max"
    using tx by (simp add: tx_valid_def segment_tx_def output_segment_def)
  then show ?case
    by (intro v2_ok_mono [OF v2_ok_append_backed [OF tx segment_tx_output(1,2) [OF assms]]]) (simp add: segment_tx_output [OF assms])
qed

lemma recording_ready_unlocked:
  assumes "\<not> session_private sid t" "stream_cursor_id env p default_stream_id \<in> sk_id ` set (at_stream_cursors t)" "but_writers t t1"
    "unlocked_as t1 t2" "but_writers t2 t3" "filter writer_active (at_writers t3) = []"
  shows "recording_ready env sid p t3"
proof -
  have "at_sessions t3 = at_sessions t" "sk_id ` set (at_stream_cursors t3) = sk_id ` set (at_stream_cursors t)"
    using assms(3-5) unfolding but_writers_def unlocked_as_def by (elim exE conjE, simp)+
  then show ?thesis using assms(1,2,6) by (simp add: recording_ready_def session_private_def)
qed

lemma v2_ok_record_repeatable:
  assumes "to_source_sequence input = Some n"
  shows "v2_ok (record_terminal_output_event env input) (\<lambda>r. repeatable env input n) t"
  unfolding record_output_eq
proof (rule v2_ok_bind, rule v2_ok_mono [OF v2_ok_target_ready], rule v2_ok_bind, rule v2_ok_load, rule v2_ok_if, rule v2_ok_basic(2),
    rule v2_ok_leased, rule v2_ok_mono [OF v2_ok_output_backed [OF assms]], intro conjI allI impI, goal_cases)
  case (2 u t0 writer t1 r t2 t3)
  have "recording_ready env (ev_session_id input) (to_pane_id input) t3"
    using 2 recording_ready_unlocked [of "ev_session_id input" t0 env "to_pane_id input" t1 t2 t3] by simp
  moreover have "at_receipts t3 = at_receipts t2 \<and> at_segments t3 = at_segments t2 \<and> at_events t3 = at_events t2 \<and> at_commits t3 = at_commits t2"
    using 2 by (auto simp: but_writers_def)
  then have "receipt_backed (ev_session_id input) (stream_capture_source_kind env (to_pane_id input) default_stream_id)
       (raw_sequence_hash env n) (av_hash env (to_payload input)) t3"
    using 2 by (intro receipt_backed_cong [of _ _ _ _ t2 t3]) simp_all
  ultimately show ?case using 2 by (simp add: repeatable_def)
qed (simp add: unlocked_as_def)

lemma v2_runs_on_failure:
  "v2_runs W m Q t \<Longrightarrow> v2_runs W (\<lambda>st. case m st of (Inr r, st1) \<Rightarrow> (Inr r, st1) | (Inl e, st1) \<Rightarrow> (Inl e, f e st1)) Q t"
  unfolding v2_runs_def by fastforce

lemma v2_runs_repetition:
  assumes ob: "obliging env used W" and n: "to_source_sequence input = Some n"
    and payload: "to_payload input \<noteq> []" "int (length (to_payload input)) \<le> i64_max"
    and backed: "receipt_backed (ev_session_id input) (stream_capture_source_kind env (to_pane_id input) default_stream_id)
       (raw_sequence_hash env n) (av_hash env (to_payload input)) t"
  shows "v2_runs W (append_stream_segment env (output_segment env input writer)) (\<lambda>r t1. t1 = t) t"
proof -
  obtain receipt commit where receipt: "load_capture_receipt (ev_session_id input)
      (stream_capture_source_kind env (to_pane_id input) default_stream_id) (raw_sequence_hash env n) t = Some receipt"
    "rc_source_payload_hash receipt = av_hash env (to_payload input)" "rc_commit_id receipt = Some commit"
    and stored: "commit \<in> sg_commit_id ` set (at_segments t)" "commit \<in> je_commit_id ` set (at_events t)" "commit \<in> cm_id ` set (at_commits t)"
    using backed by (auto simp: receipt_backed_def)
  obtain segment event row where found: "find (\<lambda>r. sg_commit_id r = commit) (at_segments t) = Some segment"
    "find (\<lambda>r. je_commit_id r = commit) (at_events t) = Some event" "find (\<lambda>r. cm_id r = commit) (at_commits t) = Some row"
    using find_key [OF stored(1)] find_key [OF stored(2)] find_key [OF stored(3)] by blast
  have from_commit: "v2_runs W (stream_segment_receipt_from_commit env commit) (\<lambda>r t1. t1 = t) t"
    unfolding stream_segment_receipt_from_commit_def
    by (rule v2_runs_bind, rule v2_runs_first [OF ob], rule found(1), rule v2_runs_bind, rule v2_runs_first [OF ob], rule found(2),
        rule v2_runs_bind, rule v2_runs_first [OF ob], rule found(3), rule v2_runs_basic(1)) simp
  let ?tx = "segment_tx env (output_segment env input writer)"
  have reuse: "v2_runs W (reuse_capture_receipt_if_possible env (?tx len now)) (\<lambda>reused t1. reused \<noteq> None \<and> t1 = t) t" for len now
    unfolding reuse_capture_receipt_if_possible_def segment_tx_output [OF n] prod.case option.case
    by (rule v2_runs_bind, rule v2_runs_load [OF ob], simp add: receipt io_map_def, rule v2_runs_bind,
        rule v2_runs_mono [OF from_commit], rule v2_runs_basic(1)) simp
  have again: "v2_runs W (append_stream_segment_transaction env (?tx len now)) (\<lambda>r t1. t1 = t) t" for len now
    unfolding append_stream_segment_transaction_def
    by (rule v2_runs_bind, rule v2_runs_mono [OF reuse]) (auto intro: v2_runs_basic(1))
  show ?thesis
    unfolding append_stream_segment_eq
    by (rule v2_runs_bind, rule v2_runs_basic(2), simp add: validate_stream_segment_input_def output_segment_def payload,
        rule v2_runs_bind, rule v2_runs_basic(3), rule v2_runs_bind, rule v2_runs_basic(2),
        simp add: checked_len_def output_segment_def payload, rule v2_runs_on_failure, rule v2_runs_transaction [OF ob], rule again)
qed

lemma v2_runs_record_again:
  assumes ob: "obliging env (wg_id ` set (at_writers t)) W" and n: "to_source_sequence input = Some n" and again: "repeatable env input n t"
  shows "v2_runs W (record_terminal_output_event env input) (\<lambda>r t1. True) t"
  unfolding record_output_eq
proof (rule v2_runs_bind, rule v2_runs_mono [OF v2_runs_target [OF ob]])
  fix u t1
  assume t1: "recording_ready env (ev_session_id input) (to_pane_id input) t1 \<and> same_records t t1"
  have ob1: "obliging env (wg_id ` set (at_writers t1)) W" using ob t1 by (simp add: same_records_def)
  have free: "filter writer_active (at_writers t1) = []" "\<not> session_private (ev_session_id input) t1"
    using t1 by (simp_all add: recording_ready_def)
  have operation: "v2_runs W (append_stream_segment env (output_segment env input writer)) (\<lambda>r t3. t3 = t2) t2" if "but_writers t1 t2" for writer t2
  proof (rule v2_runs_repetition [OF ob n])
    have "at_receipts t2 = at_receipts t \<and> at_segments t2 = at_segments t \<and> at_events t2 = at_events t \<and> at_commits t2 = at_commits t"
      using that t1 by (auto simp: but_writers_def same_records_def)
    then show "receipt_backed (ev_session_id input) (stream_capture_source_kind env (to_pane_id input) default_stream_id)
        (raw_sequence_hash env n) (av_hash env (to_payload input)) t2"
      using again by (intro receipt_backed_cong [of _ _ _ _ t t2]) (simp_all add: repeatable_def)
  qed (use again in \<open>simp_all add: repeatable_def\<close>)
  show "v2_runs W (io_bind (sql_load env (session_private (ev_session_id input))) (\<lambda>private_mode.
       if private_mode
       then io_err (V2InvalidData [MText ''private mode suppresses durable terminal output capture''])
       else with_writer env ''runtime-output-capture'' (\<lambda>writer. append_stream_segment env (output_segment env input writer))))
      (\<lambda>r t1. True) t1"
    by (rule v2_runs_bind, rule v2_runs_load [OF ob], subst if_not_P [OF free(2)],
        rule v2_runs_mono [OF v2_runs_with_writer [OF ob1 free(1)]], erule operation) simp
qed (use again in \<open>simp_all add: repeatable_def\<close>)

text \<open>
  C9. Recording output appends exactly its bytes to the stream of its pane, or nothing if the archive has its
  receipt already, and touches no other stream. Recording the same numbered output again, as the facade does when the
  database was busy, changes no stream, whatever its outcome, and ends without an error as long as the
  database takes its statements and new identifiers are not in use.
\<close>
theorem output_recorded_once:
  assumes "record_terminal_output_event env input (w, t) = (Inr r1, st1)" "to_source_sequence input = Some n"
    and "obliging env (wg_id ` set (at_writers (snd st1))) W" "w3 \<in> W"
  shows "stream_bytes sid p (snd st1) = stream_bytes sid p t @
      (if sid = ev_session_id input \<and> p = to_pane_id input \<and> \<not> recorded env input t then to_payload input else []) \<and>
    stream_bytes sid p (snd (snd (record_terminal_output_event env input (w2, snd st1)))) = stream_bytes sid p (snd st1) \<and>
    \<not> isl (fst (record_terminal_output_event env input (w3, snd st1)))"
proof -
  have 1: "output_recorded_in env input t (snd st1)" using v2_okD [OF v2_ok_record_output assms(1)] by simp
  obtain r2 st2 where 2: "record_terminal_output_event env input (w2, snd st1) = (r2, st2)"
    by (cases "record_terminal_output_event env input (w2, snd st1)")
  have known: "recorded env input (snd st1)" using 1 assms(2) by (simp add: output_recorded_in_def)
  have "tried env input (snd st1) (snd st2)"
    using v2_keepsD [OF v2_keeps_record_output [OF assms(2), of env "snd st1"] 2] by (simp add: tried_def same_history_refl)
  then have "stream_bytes sid p (snd st2) = stream_bytes sid p (snd st1)"
    using known unfolding tried_def output_recorded_in_def
    by (cases "(sid, p) = (ev_session_id input, to_pane_id input)") (auto simp: same_history_bytes)
  moreover have "repeatable env input n (snd st1)" using v2_okD [OF v2_ok_record_repeatable [OF assms(2)] assms(1)] by simp
  then have "\<not> isl (fst (record_terminal_output_event env input (w3, snd st1)))"
    using v2_runsE [OF v2_runs_record_again [OF assms(3,2)] assms(4)] by (metis fst_conv isl_def sum.distinct(1))
  moreover have "stream_bytes sid p (snd st1) = stream_bytes sid p t @
      (if sid = ev_session_id input \<and> p = to_pane_id input \<and> \<not> recorded env input t then to_payload input else [])"
    using 1 unfolding output_recorded_in_def by (cases "(sid, p) = (ev_session_id input, to_pane_id input)") auto
  ultimately show ?thesis using 2 by simp
qed

end
