(* ===== verification/Archive_Demo.thy ===== *)
theory Archive_Demo
  imports Archive_Repeat
begin

text \<open>An archive whose database never fails and whose hash is the identity, and what is recorded in it.\<close>

definition demo_archive :: "nat archive_env" where
  "demo_archive =
     \<lparr>av_sql = (\<lambda>w. (None, w)), av_new_id = (\<lambda>w. ([w], Suc w)), av_now_ms = (\<lambda>w. 5), av_sleep = (\<lambda>n w. w),
      av_hash = map unat, av_payload_text = (\<lambda>p. []), av_command_hash = id, av_pressure = id,
      av_fail_after_segment = False\<rparr>"

definition archived_route :: session_route where
  "archived_route = \<lparr>route_backend = Native, route_authority = LocalDaemon, route_external = None\<rparr>"

definition demo_output :: terminal_output_input where
  "demo_output = \<lparr>ev_session_id = [1], ev_route = archived_route, ev_title = None, ev_launch = None, to_pane_id = [2],
     to_tab_id = None, to_payload = [104, 105], to_rows = None, to_cols = None, to_source_sequence = Some 1,
     to_occurred_at_ms = None, to_capture_semantics = None\<rparr>"

lemma demo_no_switch: "detect_buffer_mode_transitions [104, 105] = []" by code_simp
lemma demo_semantics: "validate_capture_semantics_domain (lit ''raw_vt_stream'') = Inr ()" by (simp add: validate_capture_semantics_domain_def capture_semantics_domain_def)

lemma retry_numeral: "acquire_retry env p l (numeral k) st =
     (case acquire_writer_generation env p l st of
        (Inr lease, st1) \<Rightarrow> (Inr lease, st1)
      | (Inl e, st1) \<Rightarrow>
          if e = V2WriterAlreadyActive \<and> pred_numeral k > 0
          then acquire_retry env p l (pred_numeral k) (av_sleep env 25 (fst st1), snd st1)
          else (Inl e, st1))" by (simp add: numeral_eq_Suc)

text \<open>The definitions that an operation on known tables is computed by; texts stay as they are.\<close>

lemmas run_defs = demo_archive_def demo_output_def archived_route_def no_tables_def
  io_bind_def io_ok_def io_err_def io_lift_def io_map_def now_ms_def new_id_def sql_load_def sql_first_def sql_execute_def sql_insert_def sql_statement_def
  v2_transaction_def on_error_def Let_def
  upsert_capture_target_def upsert_runtime_session_def upsert_session_row_def insert_session_cursor_def session_private_def
  upsert_runtime_pane_def upsert_pane_row_def insert_stream_cursor_def insert_unless_def dimension_def validate_positive_dimensions_def
  with_writer_def acquire_writer_generation_with_retry_def acquire_writer_generation_def expire_writers_def update_where_def writer_active_def
  insert_writer_def insert_clock_anchor_def release_writer_generation_def update_writer_def
  append_stream_segment_def validate_stream_segment_input_def checked_len_def i64_max_def append_stream_segment_transaction_def
  reuse_capture_receipt_if_possible_def stream_segment_receipt_from_commit_def load_capture_receipt_def append_new_segment_def ensure_active_writer_def allocate_commit_def
  insert_commit_def advance_session_cursor_def load_stream_cursor_def final_event_seq_def checked_add_def bind_result_def insert_segment_def insert_event_def
  enqueue_pane_history_projection_def insert_outbox_def insert_receipt_if_needed_def insert_receipt_def advance_stream_cursor_def execute_advance_cursor_def
  update_pane_last_event_seq_def record_terminal_output_event_def retry_numeral stream_bytes_def pane_segments_def in_stream_def demo_no_switch demo_semantics


section \<open>The recorded output\<close>

definition archived_tables :: archive_tables where
  "archived_tables = snd (snd (record_terminal_output_event demo_archive demo_output (0, no_tables)))"

lemma demo_recorded: "isl (fst (record_terminal_output_event demo_archive demo_output (0, no_tables))) = False"
  by (simp add: run_defs)

lemma demo_reachable: "archive_reachable demo_archive archived_tables"
  unfolding archived_tables_def
  by (rule v2_keepsD [OF output_reachable, of _ _ "(0, no_tables)" "fst (record_terminal_output_event demo_archive demo_output (0, no_tables))"])
    (simp_all add: archive_reachable.empty_archive)

text \<open>A check of a database that never fails ends.\<close>

definition runs :: "(nat, 'a) v2_io \<Rightarrow> bool" where
  "runs m \<longleftrightarrow> (\<forall>st. \<exists>x st1. m st = (Inr x, st1))"

lemma runs_bind: "runs m \<Longrightarrow> (\<And>x. runs (f x)) \<Longrightarrow> runs (io_bind m f)"
  unfolding runs_def io_bind_def by (metis (no_types, lifting) case_prod_conv sum.case(2))

lemma runs_basic: "runs (io_ok x)" "runs (sql_load demo_archive f)"
  by (simp_all add: runs_def io_ok_def sql_load_def sql_statement_def demo_archive_def)

lemma runs_checks:
  "runs (check_stream_cursors demo_archive cs failures)" "runs (check_panes demo_archive rows failures)"
  "runs (check_session_cursors demo_archive xs failures)"
proof -
  show "runs (check_stream_cursors demo_archive cs failures)"
    by (induction cs arbitrary: failures) (auto simp: Let_def load_event_high_def intro!: runs_bind runs_basic simp del: io_ok_def)
  show "runs (check_panes demo_archive rows failures)"
    by (induction rows arbitrary: failures) (auto simp: load_event_high_def intro!: runs_bind runs_basic)
  show "runs (check_session_cursors demo_archive xs failures)"
    by (induction xs arbitrary: failures) (auto intro!: runs_bind runs_basic)
qed

lemma validate_runs: "runs (validate_sequence_invariants demo_archive sid failures)"
  unfolding validate_sequence_invariants_def validate_stream_cursor_invariants_def validate_pane_last_event_invariants_def
    validate_stream_segment_ordering_def validate_commit_sequence_invariants_def
  by (intro runs_bind runs_basic runs_checks)

theorem reachable_history_valid_witness:
  "fst (validate_sequence_invariants demo_archive None [] (0, archived_tables)) = Inr []"
proof -
  obtain found st where run: "validate_sequence_invariants demo_archive None [] (0, archived_tables) = (Inr found, st)"
    using validate_runs unfolding runs_def by blast
  show ?thesis using reachable_history_valid [OF demo_reachable run] run by simp
qed

theorem stored_bytes_contiguous_witness:
  "(let c = hd (at_stream_cursors archived_tables) in at_stream_cursors archived_tables \<noteq> [] \<and>
     sk_next_byte_seq c = int (length (stream_bytes (sk_session_id c) (sk_pane_id c) archived_tables)))"
proof -
  have "at_stream_cursors archived_tables \<noteq> []" by (simp add: archived_tables_def run_defs)
  then show ?thesis using stored_bytes_contiguous [OF demo_reachable, of "hd (at_stream_cursors archived_tables)"] by (simp add: Let_def)
qed

text \<open>From the world 1000 on, the identifiers are greater than those in use.\<close>

lemma demo_obliging: "obliging demo_archive (wg_id ` set (at_writers archived_tables)) {1000..}"
proof -
  have used: "\<forall>i\<in>wg_id ` set (at_writers archived_tables). hd i < 1000" by (simp add: archived_tables_def run_defs)
  have "[w] \<notin> wg_id ` set (at_writers archived_tables)" if "1000 \<le> w" for w
    using bspec [OF used, of "[w]"] that by auto
  then show ?thesis unfolding obliging_def by (auto simp: demo_archive_def)
qed

theorem output_recorded_once_witness:
  "stream_bytes [1] [2] (snd (snd (record_terminal_output_event demo_archive demo_output (9, archived_tables)))) = [104, 105] \<and>
   \<not> isl (fst (record_terminal_output_event demo_archive demo_output (1000, archived_tables)))"
proof -
  obtain r1 w1 where 1: "record_terminal_output_event demo_archive demo_output (0, no_tables) = (Inr r1, (w1, archived_tables))"
    using demo_recorded unfolding archived_tables_def
    by (metis isl_def prod.collapse sum.exhaust_sel sum.collapse(2))
  have "to_source_sequence demo_output = Some 1" by (simp add: demo_output_def)
  from output_recorded_once [OF 1 this, of "{1000..}" 1000 "[1]" "[2]" 9] demo_obliging show ?thesis
    by (simp add: stream_bytes_def pane_segments_def no_tables_def recorded_def demo_output_def)
qed

section \<open>Leases and private sessions\<close>

definition demo_event :: journal_event_input where
  "demo_event = \<lparr>ji_session_id = [1], ji_pane_id = None, ji_stream_id = None, ji_writer_generation = [9], ji_event_type = [],
     ji_commit_kind = None, ji_payload_json = None, ji_source_event_id_hash = None, ji_occurred_at_ms = None,
     ji_capture_semantics = None, ji_trust_level = None\<rparr>"

theorem lease_fences_others_witness:
  "let leased = snd (snd (acquire_writer_generation demo_archive [] 10 (0, no_tables)))
   in isl (fst (append_journal_event demo_archive (demo_event\<lparr>ji_writer_generation := [9]\<rparr>) (0, leased))) \<and>
      isl (fst (append_stream_segment demo_archive (output_segment demo_archive demo_output [9]) (0, leased)))"
proof -
  let ?leased = "snd (acquire_writer_generation demo_archive [] 10 (0, no_tables))"
  have run: "acquire_writer_generation demo_archive [] 10 (0, no_tables) =
      (Inr \<lparr>wl_id = [0], wl_process_id = [], wl_lease_token = [1], wl_lease_expires_at_ms = 15\<rparr>, ?leased)"
    by (simp add: run_defs)
  have "[9] \<noteq> wl_id \<lparr>wl_id = [0], wl_process_id = [], wl_lease_token = [1], wl_lease_expires_at_ms = 15\<rparr>" by simp
  note fenced = lease_fences_others [OF run this, where ji = demo_event and gi = "output_segment demo_archive demo_output [9]" and ?w2.0 = 0]
  have "at_receipts (snd ?leased) = []" by (simp add: run_defs)
  then have unknown: "\<not> output_known demo_archive gi (snd ?leased)" for gi by (simp add: output_known_def)
  have same: "(output_segment demo_archive demo_output [9])\<lparr>gi_writer_generation := [9]\<rparr> = output_segment demo_archive demo_output [9]"
    by (simp add: output_segment_def)
  show ?thesis using fenced unknown by (simp add: refused_def same Let_def case_prod_unfold)
qed

definition demo_private :: archive_tables where
  "demo_private = no_tables\<lparr>at_sessions := [\<lparr>xs_id = [1], xs_route = archived_route, xs_title = None, xs_launch = None, xs_source = [],
     xs_private_mode = True, xs_created_at_ms = 0, xs_updated_at_ms = 0, xs_state = ''active''\<rparr>]\<rparr>"

definition demo_input :: ui_input_event where
  "demo_input = \<lparr>ui_session_id = [1], ui_route = archived_route, ui_title = None, ui_launch = None, ui_pane_id = [2], ui_data = [104],
     ui_is_paste = False, ui_source_event_id = None, ui_rows = None, ui_cols = None, ui_shell_kind = None\<rparr>"

theorem private_session_stores_nothing_witness:
  "isl (fst (record_v2 demo_archive (\<lambda>i. io_ok ()) (TerminalOutput (demo_output\<lparr>ev_session_id := [1]\<rparr>)) (0, demo_private)))"
proof -
  have "session_private [1] demo_private" by (simp add: session_private_def demo_private_def)
  from private_session_stores_nothing [OF this, of demo_archive "\<lambda>i. io_ok ()" demo_output 0 demo_input 0] show ?thesis
    by (simp add: Let_def case_prod_unfold)
qed

section \<open>Captured output\<close>

definition demo_capture :: "unit capture_env" where
  "demo_capture = \<lparr>ca_uuid_text = (\<lambda>u. [unat u]), ca_record = (\<lambda>i w. (ArchiveStored, w)), ca_fault = (\<lambda>i w. w)\<rparr>"

definition captured_target :: capture_target where
  "captured_target = \<lparr>cx_descriptor = \<lparr>de_session_id = Id 1, de_route = archived_route, de_title = None, de_launch = None,
     de_health = health_ready (Id 1)\<rparr>, cx_tab_id = None, cx_rows = None, cx_cols = None\<rparr>"

definition demo_wakes :: "raw_capture_wake list" where
  "demo_wakes =
     [RawReceived (RawBytes \<lparr>ro_pane_id = Id 2, ro_sequence = 1, ro_payload = [104]\<rparr>),
      RawReceived (RawBytes \<lparr>ro_pane_id = Id 2, ro_sequence = 2, ro_payload = [105]\<rparr>), RawTick]"

lemma retry_v2_numeral:
  "retry_v2_from env operation last_error (numeral k) st =
     (case operation st of
        (Inr x, st1) \<Rightarrow> (Inr x, st1)
      | (Inl e, st1) \<Rightarrow>
          if is_retryable_v2_write_error e
          then retry_v2_from env operation (Some e) (pred_numeral k) (av_sleep env (10 + min (79 - pred_numeral k) 20 * 5) (fst st1), snd st1)
          else (Inl e, st1))"
  by (simp add: numeral_eq_Suc)

lemma demo_inputs: "raw_capture_loop demo_capture captured_target demo_wakes raw_batch_empty =
   [TerminalOutput (demo_output\<lparr>to_source_sequence := Some 2, to_capture_semantics := Some (lit ''raw_vt_stream'')\<rparr>)]"
  by (simp add: demo_wakes_def raw_batch_empty_def raw_capture_step_def flush_raw_capture_batch_def v2_raw_capture_max_batch_bytes_def
      captured_target_def demo_capture_def demo_output_def Let_def)

lemma demo_all_recorded:
  "isl (fst (record_all demo_archive (\<lambda>i. io_ok ()) (raw_capture_loop demo_capture captured_target demo_wakes raw_batch_empty) (0, no_tables))) = False"
  unfolding demo_inputs by (simp add: record_v2_def retry_v2_write_def retry_v2_numeral run_defs)

theorem captured_output_archived_witness:
  "stream_bytes [1] [2] (snd (snd (record_all demo_archive (\<lambda>i. io_ok ())
     (raw_capture_loop demo_capture captured_target demo_wakes raw_batch_empty) (0, no_tables)))) = [104, 105]"
proof -
  obtain st where run: "record_all demo_archive (\<lambda>i. io_ok ()) (raw_capture_loop demo_capture captured_target demo_wakes raw_batch_empty)
      (0, no_tables) = (Inr (), st)"
    using demo_all_recorded by (metis (full_types) old.unit.exhaust prod.collapse sum.collapse(2))
  have names: "target_session demo_capture captured_target = [1]" "pane_text demo_capture (Id 2) = [2]"
    by (simp_all add: target_session_def pane_text_def demo_capture_def captured_target_def)
  have "inj (av_hash demo_archive)" by (simp add: demo_archive_def inj_mapI inj_def word_unat_eq_iff [symmetric])
  then have hashes: "inj (raw_sequence_hash demo_archive)" by (rule raw_sequence_hash_inj)
  have wakes: "list_all (output_from (Id 2)) demo_wakes" "distinct (wake_sequences demo_wakes)"
    "list_all (\<lambda>n. \<not> receipt_known demo_archive (target_session demo_capture captured_target) (pane_text demo_capture (Id 2)) no_tables n)
       (wake_sequences demo_wakes)"
    by (simp_all add: demo_wakes_def receipt_known_def no_tables_def list_all_iff)
  from captured_output_archived [OF run wakes(1,2) hashes wakes(3), of "[1]" "[2]"] show ?thesis
    using run names by (simp add: stream_bytes_def pane_segments_def no_tables_def demo_wakes_def only_bytes_def List.map_filter_simps)
qed

end
