(* ===== verification/Spec2Isabelle.thy ===== *)
theory Spec2Isabelle
  imports Native_Output Ansi_Behaviour Tmux_Properties Zellij_Properties Session_Store Runtime_Restored Archive_Demo
begin

text \<open>
  Terminal Platform keeps terminal sessions alive behind a daemon. A session is a set of tabs, each
  a tree of panes; a pane is a shell behind a pseudo terminal, and clients read its screen as
  snapshots and deltas. Sessions come from three backends: the native one runs the shells itself,
  the tmux and the zellij backend import sessions of these tools. This library models the code below
  \<open>src/crates/\<close> that decides what a client is shown and what a command does; this file is its root.

  \<^bold>\<open>Parts and theories.\<close> The theories follow the crates.

  \<^item> \<open>TP_Prelude\<close>: machine integers at their width, \<open>Result\<close>, mutexes with poisoning, operations on
    vectors, and the interface \<open>bounded_buffer\<close> that the transcript and the snapshot history of a
    native pane provide. \<open>Rust_Text\<close>, \<open>Rust_Float\<close>: the operations of \<open>str\<close>, \<open>char\<close> and \<open>f32\<close> in use.
    A text is the list of its code points.
  \<^item> \<open>Domain\<close>, \<open>Mux_Model\<close>: the crates \<open>terminal-domain\<close>, \<open>terminal-mux-domain\<close> and
    \<open>terminal-backend-api\<close>: identifiers, routes, versions, errors, pane trees, commands.
  \<^item> \<open>Screen_Model\<close>, \<open>Screen_Delta\<close>: screens, session health and deltas of \<open>terminal-projection\<close>,
    with the two consumers of a delta (the SDK and the history capture of the runtime).
  \<^item> \<open>Ansi_Color\<close>, \<open>Ansi_Sgr\<close>, \<open>Ansi_Payload\<close>, \<open>Ansi_Media\<close>, \<open>Ansi_Control\<close>, \<open>Ansi_Cells\<close>, \<open>Ansi_Line\<close>,
    \<open>Ansi_Csi\<close>, \<open>Ansi_Screen\<close>: \<open>ansi_screen.rs\<close>, \<open>ansi_color.rs\<close>, \<open>ansi_rect.rs\<close>, \<open>ansi_sgr.rs\<close> of
    \<open>terminal-projection\<close>, the parser that turns the output of a foreign multiplexer into a screen. Its
    state is the record \<open>ansi_parser\<close>; a panic of the source is a value. \<open>Ansi_Text\<close>, \<open>Ansi_Invariant\<close>,
    \<open>Ansi_Behaviour\<close> prove its properties.
  \<^item> \<open>Native_Layout\<close>, \<open>Native_Resize\<close>, \<open>Native_Model\<close>, \<open>Native_Pane\<close>, \<open>Native_Dispatch\<close>, \<open>Native_Engine\<close>,
    \<open>Native_Subscriptions\<close>: the crate \<open>terminal-backend-native\<close> except its emulator. A session is the
    record \<open>native_session_state\<close> behind the mutex of a \<open>native_engine\<close>; one definition per dispatch
    function. \<open>Native_Invariant\<close>, \<open>Native_Sessions\<close>, \<open>Native_Refinement\<close>, \<open>Native_Output\<close> prove its
    properties, \<open>Native_Demo\<close> is the small world of the witnesses.
  \<^item> \<open>Foreign_Session\<close>, \<open>Tmux_Layout\<close>, \<open>Tmux_Session\<close>, \<open>Tmux_Commands\<close>, \<open>Zellij_Session\<close>, \<open>Zellij_Snapshot\<close>,
    \<open>Zellij_Commands\<close>: the crates \<open>terminal-backend-tmux\<close> and \<open>terminal-backend-zellij\<close>. An operation is
    a function of the state of the world (\<open>io\<close>), the command line tool a parameter.
    \<open>Tmux_Properties\<close>, \<open>Zellij_Properties\<close> prove their properties.
  \<^item> \<open>Session_Store\<close>: the store of saved sessions and routes of \<open>terminal-persistence\<close> (\<open>legacy/\<close>), two
    tables and what the SQL statements of the source do to them.
  \<^item> \<open>Runtime_Registry\<close>, \<open>Runtime_Services\<close>, \<open>Runtime_Restore\<close>: the crate \<open>terminal-runtime\<close>: the registry of
    sessions, the services over it, restoring a saved session by commands. \<open>Runtime_Rebuild\<close> proves the
    rebuilder correct against the interface \<open>topology_client\<close>; \<open>Runtime_Native\<close> and \<open>Runtime_Sessions\<close> give the
    native backend as a port of the runtime and interpret the interface on it; \<open>Runtime_Restored\<close> composes
    store, runtime and backend.
  \<^item> \<open>Runtime_Capture\<close>: the tasks of the runtime that hand output, screens and topologies of a session to
    the archive (\<open>sessions/runtime/capture\<close>), as functions of the wake-ups they get.
  \<^item> \<open>Archive_Base\<close>, \<open>Archive_Text\<close>, \<open>Archive_Journal\<close>, \<open>Archive_Snapshot\<close>, \<open>Archive_Record\<close>, \<open>Archive_Check\<close>: the journal of the
    archive (\<open>terminal-persistence/src/v2\<close>). Its tables are the lists of their rows; before each statement the
    database may refuse it, and a transaction that fails leaves the tables as they were. \<open>Archive_Journal\<close> has the
    lease of the one writer and the operations that append, \<open>Archive_Snapshot\<close> the snapshots of screens and
    topologies, which are commits too, \<open>Archive_Record\<close> what the runtime calls, with its
    retries, \<open>Archive_Check\<close> the sequence checks of \<open>integrity/\<close> and the hydration of a segment. \<open>Archive_Rules\<close> has the rules for what holds after an
    operation, \<open>Archive_Sequences\<close>, \<open>Archive_Steps\<close> and \<open>Archive_Reach\<close> the invariant of the tables and that every
    operation keeps it, \<open>Archive_Valid\<close>, \<open>Archive_Promises\<close> and \<open>Archive_Capture\<close> what follows from it,
    \<open>Archive_Repeat\<close> when an operation succeeds, \<open>Archive_Demo\<close> the archive of the witnesses.

  \<^bold>\<open>How the parts interact.\<close> The runtime picks the backend named by the route of a session and attaches to
  it. The native backend finds the engine in its map and dispatches a command under the lock of the
  engine; the reader thread of a pane feeds the emulator and marks the pane dirty; subscriptions wake
  up and send deltas between the last snapshot a client has and the current one. The foreign
  backends run the tool, parse what it prints (for screens with the ANSI parser), and poll.
  A panic of the ANSI parser reaches the zellij backend as a poisoned lock (\<open>zellij_poisoned\<close>).

  \<^bold>\<open>Parameters.\<close> Code outside the repository is an argument of the model: \<open>native_env\<close> (pseudo terminals,
  the emulator, fresh UUIDs, channels), \<open>foreign_env\<close> and \<open>zellij_env\<close> (the tools, clocks, \<open>serde_json\<close>),
  \<open>ansi_env\<close> (character widths, base64), \<open>store_env\<close> (SQLite, JSON), \<open>runtime_env\<close> (the ports of the backends, the archive of the history),
  \<open>capture_env\<close> (the text of a UUID, the archive), \<open>archive_env\<close> (whether SQLite takes a statement, the clock, BLAKE3). What is assumed of them is a named
  hypothesis: \<open>issues_fresh_ids\<close> (a new UUID is new), \<open>keys_accepted\<close> (tmux types a plain
  argument of \<open>send-keys\<close>, one that is neither an option nor ends a command), \<open>obliging\<close> (SQLite takes the
  statements and new ids are unused), \<open>codecs_ok\<close> (what JSON writes it reads back), \<open>native_setup\<close> (a runtime
  whose backend is the native one, a UUID parses back, the store does not touch the backend). The
  witnesses instantiate every parameter with computable functions.

  \<^bold>\<open>What is shown.\<close> The abstract multiplexer of \<open>Native_Refinement\<close> is the contract of the native engine:
  every command implements its specification, keeps the invariant on every path, and every reachable
  topology is well formed and readable. Layouts tile the screen; resizes give what was asked for within
  bounds; deltas replayed on a client give the current screen. The ANSI parser keeps its invariant,
  returns on all ASCII output, and panics exactly as stated on some other output. The foreign backends
  type what the user typed (tmux only pieces that it does not read as options or separators), and their
  snapshots can be addressed. Saved sessions are loaded as saved.
  A session restored through the runtime has the layouts, titles and focus of the saved one.
  What the capture of a pane receives is what the archive stores, once and in order; in every state that any
  number of processes can leave, the sequences of the archive pass its own checks; a writer without the lease and a
  private session store nothing.
  Several properties state where the code does less than it means to; the findings name them.

  \<^bold>\<open>Bounds and fuel.\<close> Loops that end are structural recursion or come with a termination proof. The bounds
  that remain are those of the source: 256 KiB of transcript, 64 snapshots of history, 10 attempts of the
  zellij runner, 600 polls of an action, 80 attempts at the store. A batch of raw output has
  64 KiB, a lease is asked for 40 times, a write tried 80 times; a loop over attempts recurses on their number. The byte loop of the
  ANSI parser recurses on the bytes left; the passthrough of nested control strings on a counter that
  starts at the length of its payload, which every level shortens.

  \<^bold>\<open>Not modelled.\<close> \<open>emulator.rs\<close> of the native backend wraps the library \<open>alacritty_terminal\<close>: its grid is
  the state and is not in the repository; it stays an operation of \<open>native_env\<close>. Of the archive
  the journal and the snapshots are modelled. The paging of histories, restore plans, search, export, diagnostics, the
  outbox workers and the checks of payload schemas and snapshots only read them or write tables of their own.
  Erasure, retention and the import of old sessions change the journal and are not modelled: the
  reachable states of the archive are those that capture leaves. The runtime uses one stream for each
  pane, and so do they. Event and byte numbers are \<open>i64\<close>: a transaction that would pass the greatest one fails
  (\<open>execute_advance_cursor\<close>).
  The protocol, transport and daemon crates are \<open>serde\<close> data and async tasks around sockets that pass
  every request to one method of the runtime; the node, C and N-API crates convert values for other languages;
  \<open>xtask\<close> and \<open>terminal-testing\<close> are release tools and fixtures. Background tasks are modelled by what they do
  with one event; their scheduling is the sequence of events given to them. Only the clocks' values,
  not real time, are modelled.
\<close>

lemma demo_bump_watch [simp]: "dw_next (bump_watch demo_env h w) = dw_next w"
  by (simp add: bump_watch_def demo_env_def)

lemma demo_finish_mutation [simp]: "dw_next (finish_mutation demo_env e s ch ups w) = dw_next w"
proof -
  have "dw_next (fold (\<lambda>p w. case session_pane s p of
      Some pane \<Rightarrow> mark_surface_dirty demo_env pane w | None \<Rightarrow> w) ups w) = dw_next w" for w
    by (induction ups arbitrary: w) (simp_all add: mark_surface_dirty_def split: option.splits)
  then show ?thesis by (simp add: finish_mutation_def Let_def)
qed

definition demo_shell :: native_pane where
  "demo_shell =
     \<lparr>pn_pane_id = Id 0, pn_emulator = 9, pn_raw_output_tick = 7,
      pn_projection = mutex_new \<lparr>pj_history = []\<rparr>,
      pn_geometry = mutex_new \<lparr>pg_rows = 24, pg_cols = 80\<rparr>, pn_surface_tick = 5,
      pn_process = mutex_new \<lparr>np_master = 1, np_writer = 4, np_child = 2\<rparr>\<rparr>"

definition demo_session :: native_session_state where
  "demo_session =
     \<lparr>ns_summary = \<lparr>bs_session_id = Id 1000,
        bs_route = local_native_route (\<lambda>u. [unat u]) (Id 1000), bs_title = None\<rparr>,
      ns_launch = shell_launch_spec_new (lit ''/bin/sh''),
      ns_tabs = [\<lparr>tb_tab_id = Id 1, tb_title = None, tb_focused_pane = Id 0, tb_root = NLeaf (Id 0),
                  tb_panes = [demo_shell]\<rparr>],
      ns_focused_tab = Id 1, ns_rows = 24, ns_cols = 80\<rparr>"

definition demo_route :: session_route where
  "demo_route = local_native_route (\<lambda>u. [unat u]) (Id 1000)"

definition demo_spec :: create_session_spec where
  "demo_spec = \<lparr>cs_title = Some [100], cs_launch = None\<rparr>"

lemma demo_spawned:
  obtains e w where "engine_spawn demo_env (Id 1000) demo_route demo_spec demo_start = (Inr e, w)"
    and "dw_next w = 2" and "session_panes (mutex_value (en_state e)) = [Id 0]"
    and "session_tab_ids (mutex_value (en_state e)) = [Id 1]" 
    and "engine_reachable demo_env demo_used (Id 1000) (e, w)"
    and "engine_inv demo_used e w"
proof -
  obtain e w where run: "engine_spawn demo_env (Id 1000) demo_route demo_spec demo_start = (Inr e, w)"
    and n: "dw_next w = 2" and p: "session_panes (mutex_value (en_state e)) = [Id 0]"
    "session_tab_ids (mutex_value (en_state e)) = [Id 1]"
    by (simp add: engine_spawn_def demo_spec_def resolve_launch_spec_def spawn_tab_def spawn_pane_def
        finish_spawn_def demo_env_def demo_start_def session_panes_def tab_leaves_def
        session_tab_ids_def)
  have room: "demo_used w \<noteq> UNIV" by (rule demo_room) (simp add: n)
  have inv: "engine_inv demo_used e w"
    using engine_spawn_inv [OF demo_fresh run room] by blast
  show thesis
    using that run n p inv engine_reachable.Spawned [where used = demo_used, OF run room] by blast
qed

text \<open>
  C1. The engine implements the abstract multiplexer: a command that reports a change has made
  exactly the specified change to the topology, one that reports none has made none, one that
  fails has made none or, when only the final layout failed, all of it; a new pane has an
  identifier no pane had.
\<close>
theorem commands_refine_topology:
  assumes "issues_fresh_ids env used" and "engine_inv used e w"
    and "session_dispatch env command e w = (r, e', w')" and "used w' \<noteq> UNIV"
  shows "\<exists>new_pane new_tab.
    let S = spec_command new_pane new_tab command (engine_topology e) in
    (case r of
       Inl _ \<Rightarrow> engine_topology e' = engine_topology e \<or> engine_topology e' = S
     | Inr res \<Rightarrow> engine_topology e' = (if changed res then S else engine_topology e)) \<and>
    (creates command \<and> r = Inr \<lparr>changed = True\<rparr> \<longrightarrow>
       new_pane \<notin> set (topology_panes (engine_topology e)))"
proof -
  have sid: "en_session_id e' = en_session_id e"
    using session_dispatch_inv [OF assms] by blast
  obtain np nt where imp: "implements (en_session_id e) (mutex_value (en_state e)) np nt command
      (map_sum id changed r) (mutex_value (en_state e'))"
    and new: "creates command \<and> map_sum id changed r = Inr True \<longrightarrow>
      np \<notin> set (topology_panes (engine_topology e))"
    using session_dispatch_implements [OF assms] by blast
  show ?thesis
  proof (intro exI [of _ np] exI [of _ nt])
    show "let S = spec_command np nt command (engine_topology e) in
     (case r of
        Inl _ \<Rightarrow> engine_topology e' = engine_topology e \<or> engine_topology e' = S
      | Inr res \<Rightarrow> engine_topology e' = (if changed res then S else engine_topology e)) \<and>
      (creates command \<and> r = Inr \<lparr>changed = True\<rparr> \<longrightarrow>
       np \<notin> set (topology_panes (engine_topology e)))"
      using imp new sid
      by (cases r) (auto simp: implements_def Let_def engine_topology_def)
  qed
qed

lemma commands_refine_topology_witness:
  "\<exists>e w r e' w'. engine_inv demo_used e w \<and>
     session_dispatch demo_env (CRenameTab (Id 1) [120]) e w = (r, e', w') \<and>
     (engine_topology e' = engine_topology e \<or>
      engine_topology e' = spec_command (Id 0) (Id 0) (CRenameTab (Id 1) [120]) (engine_topology e))"
proof -
  obtain e w where inv: "engine_inv demo_used e w" and n: "dw_next w = 2" by (rule demo_spawned)
  obtain r e' w' where run: "session_dispatch demo_env (CRenameTab (Id 1) [120]) e w = (r, e', w')"
    by (metis surj_pair)
  have "dw_next w' = 2"
    using run n lock_state_inv [OF inv]
    by (auto simp: session_dispatch_def engine_rename_tab_def with_state_def finish_updates_def Let_def
        split: sum.splits prod.splits if_splits)
  then have "demo_used w' \<noteq> UNIV" by (intro demo_room) simp
  from commands_refine_topology [OF demo_fresh inv run this]
  have "engine_topology e' = engine_topology e \<or>
      engine_topology e' = spec_command (Id 0) (Id 0) (CRenameTab (Id 1) [120]) (engine_topology e)"
    by (auto simp: spec_command_def Let_def split: sum.splits if_splits)
  with inv run show ?thesis by blast
qed

text \<open>
  C2. Whatever commands, reads and foreign steps a session has gone through, its topology can
  be read, names the session, and is well formed: the focused tab is one of the tabs, tab and
  pane identifiers are unique, every tab's focused pane is one of its panes.
\<close>
theorem reachable_topology:
  assumes "issues_fresh_ids env used" and "engine_reachable env used sid (e, w)"
  shows "engine_topology_snapshot e = Inr (engine_topology e) \<and>
         topology_wf (engine_topology e) \<and> tp_session_id (engine_topology e) = sid"
proof -
  have inv: "engine_inv used e w" "en_session_id e = sid"
    using engine_reachable_inv [OF assms] by simp_all
  then have ok: "session_ok (mutex_value (en_state e))"
    by (simp add: engine_inv_def session_inv_def)
  show ?thesis
    using lock_state_inv [OF inv(1)] session_topology_wf [OF ok] inv(2)
    by (simp add: engine_topology_snapshot_def engine_topology_def session_topology_def)
qed

lemma reachable_topology_witness:
  "\<exists>e w. engine_reachable demo_env demo_used (Id 1000) (e, w) \<and> topology_wf (engine_topology e)"
proof -
  obtain e w where "engine_reachable demo_env demo_used (Id 1000) (e, w)" by (rule demo_spawned)
  with reachable_topology [OF demo_fresh this] show ?thesis by blast
qed

text \<open>
  C3. Every pane a client can see serves its screen: a snapshot and a delta from any sequence
  number succeed, leave the world alone and stay in the reachable states; a pane that is not
  in the topology is refused as not found, with nothing changed.
\<close>
theorem reachable_panes_serve:
  assumes "issues_fresh_ids env used" and "engine_reachable env used sid (e, w)"
  shows "if p \<in> set (topology_panes (engine_topology e))
    then (\<exists>s e1. engine_screen_snapshot env p e w = (Inr s, e1, w) \<and> sn_pane_id s = p \<and>
                 engine_reachable env used sid (e1, w)) \<and>
         (\<exists>d e1. engine_screen_delta env p n e w = (Inr d, e1, w) \<and> sd_from_sequence d = n \<and>
                 engine_reachable env used sid (e1, w))
    else engine_screen_snapshot env p e w = (Inl (unknown_pane p), e, w)"
proof -
  have inv: "engine_inv used e w" "en_session_id e = sid"
    using engine_reachable_inv [OF assms] by simp_all
  have s_inv: "session_inv used (mutex_value (en_state e)) w" using inv(1) by (simp add: engine_inv_def)
  have room: "used w \<noteq> UNIV" using assms(2) by (cases rule: engine_reachable.cases) auto
  obtain r1 e1 w1 where snap: "engine_screen_snapshot env p e w = (r1, e1, w1)" by (metis surj_pair)
  obtain r2 e2 w2 where delta: "engine_screen_delta env p n e w = (r2, e2, w2)" by (metis surj_pair)
  have w: "w1 = w" "w2 = w"
    using engine_screen_snapshot_inv(1) [OF inv(1) snap] engine_screen_delta_inv(1) [OF inv(1) delta]
    by simp_all
  have r: "engine_reachable env used sid (e1, w)" "engine_reachable env used sid (e2, w)"
    using engine_reachable.Stepped [OF assms(2) engine_step.Snapshot [OF snap]]
      engine_reachable.Stepped [OF assms(2) engine_step.Delta [OF delta]] room w by simp_all
  show ?thesis
  proof (cases "p \<in> set (session_panes (mutex_value (en_state e)))")
    case True
    then show ?thesis
      using engine_screen_snapshot_inv(2) [OF inv(1) snap True]
        engine_screen_delta_inv(2) [OF inv(1) delta True] r snap delta w
      by (auto simp: engine_topology_def)
  next
    case False
    have same: "e\<lparr>en_state := mutex_set (mutex_value (en_state e)) (en_state e)\<rparr> = e"
      by (cases "en_state e") (simp add: mutex_set_def)
    show ?thesis
      using False same
      by (simp add: engine_topology_def engine_screen_snapshot_def with_state_def
          with_pane_unknown [OF s_inv False] lock_state_inv [OF inv(1)])
  qed
qed

lemma reachable_panes_serve_witness:
  "\<exists>e w s e1. engine_reachable demo_env demo_used (Id 1000) (e, w) \<and>
     engine_screen_snapshot demo_env (Id 0) e w = (Inr s, e1, w) \<and> sn_pane_id s = Id 0"
proof -
  obtain e w where r: "engine_reachable demo_env demo_used (Id 1000) (e, w)"
    and p: "session_panes (mutex_value (en_state e)) = [Id 0]" by (rule demo_spawned)
  have "Id 0 \<in> set (topology_panes (engine_topology e))"
    using p by (simp add: engine_topology_def)
  then show ?thesis
    using reachable_panes_serve [OF demo_fresh r, of "Id 0" 0] r by (simp only: if_True) blast
qed

text \<open>
  C4. Every command keeps the invariant of the session, whether it succeeds or fails half way:
  the lock is not poisoned, the panes of each tab are exactly the leaves of its tree with their
  histories in order, identifiers are unique and all come from the generator.
\<close>
theorem commands_keep_invariant:
  assumes "issues_fresh_ids env used" and "engine_inv used e w"
    and "session_dispatch env command e w = (r, e', w')" and "used w' \<noteq> UNIV"
  shows "engine_inv used e' w' \<and> en_session_id e' = en_session_id e"
  using session_dispatch_inv [OF assms] by blast

lemma commands_keep_invariant_witness:
  "\<exists>e w r e' w'. session_dispatch demo_env (CFocusPane (Id 5)) e w = (r, e', w') \<and>
     engine_inv demo_used e' w'"
proof -
  obtain e w where inv: "engine_inv demo_used e w" and n: "dw_next w = 2" by (rule demo_spawned)
  obtain r e' w' where run: "session_dispatch demo_env (CFocusPane (Id 5)) e w = (r, e', w')"
    by (metis surj_pair)
  have "dw_next w' = 2"
    using run n lock_state_inv [OF inv]
    by (auto simp: session_dispatch_def engine_focus_pane_def with_state_def finish_changed_def Let_def
        split: sum.splits prod.splits if_splits)
  then have "demo_used w' \<noteq> UNIV" by (intro demo_room) simp
  from commands_keep_invariant [OF demo_fresh inv run this] show ?thesis using run by blast
qed

text \<open>
  C15. Layout commands: a split, a closed pane and a layout override that succeed lay out the tab
  they changed: every tab afterwards is one of the tabs before or each of its panes has the
  rows and columns its place in the tree gives it at the session's size, which has not changed.
\<close>
theorem layout_commands_lay_out:
  assumes "issues_fresh_ids env used" and "session_inv used s w" and "used w' \<noteq> UNIV"
    and "dispatch_split_pane env split s w = (Inr c, s', w') \<or>
         dispatch_close_pane env p s w = (Inr c, s', w') \<or>
         dispatch_override_layout env layout s w = (Inr c', s', w')"
  shows "ns_rows s' = ns_rows s \<and> ns_cols s' = ns_cols s \<and>
         (\<forall>tab\<in>set (ns_tabs s'). tab \<in> set (ns_tabs s) \<or> laid_out (ns_rows s') (ns_cols s') tab)"
proof -
  have "relaid s s'"
    using assms(4)
  proof (elim disjE)
    assume run: "dispatch_split_pane env split s w = (Inr c, s', w')"
    have "session_ok s'"
      using dispatch_split_pane_inv [OF assms(1,2) run assms(3)] by (simp add: session_inv_def)
    with run show ?thesis by (rule split_pane_relaid)
  next
    assume run: "dispatch_close_pane env p s w = (Inr c, s', w')"
    have "session_ok s'"
      using dispatch_close_pane_inv [OF assms(1,2) run] by (simp add: session_inv_def)
    with run show ?thesis by (rule close_pane_relaid)
  next
    assume run: "dispatch_override_layout env layout s w = (Inr c', s', w')"
    have "session_ok s'"
      using dispatch_override_layout_inv [OF assms(1,2) run] by (simp add: session_inv_def)
    with run show ?thesis by (rule override_layout_relaid)
  qed
  then show ?thesis by (simp add: relaid_def)
qed

lemma demo_session_inv: "session_inv demo_used demo_session (demo_start\<lparr>dw_next := 2\<rparr>)"
  by (auto simp: session_inv_def session_ok_def ids_used_def demo_session_def session_tab_ids_def
      session_panes_def tab_leaves_def tab_ok_def pane_ok_def history_ok_def pane_history_def
      pane_readable_def pane_working_def demo_shell_def demo_used_def demo_start_def
      lessThan_Suc numeral_2_eq_2)

lemma demo_halves:
  "partition_dimension_by_ratio 80 default_split_ratio_bps = (40, 40)"
  "max 24 (1 :: u16) = 24" "max 80 (1 :: u16) = 80"
  by code_simp+

lemma layout_commands_lay_out_witness:
  "\<exists>s' tab w'. dispatch_split_pane demo_env \<lparr>sp_pane_id = Id 0, sp_direction = Vertical\<rparr> demo_session
       (demo_start\<lparr>dw_next := 2\<rparr>) = (Inr True, s', w') \<and>
     ns_tabs s' = [tab] \<and> laid_out 24 80 tab"
proof -
  let ?w = "demo_start\<lparr>dw_next := 2\<rparr>"
  let ?spec = "\<lparr>sp_pane_id = Id 0, sp_direction = Vertical\<rparr>"
  obtain s' tab w' where run: "dispatch_split_pane demo_env ?spec demo_session ?w = (Inr True, s', w')"
    and tabs: "ns_tabs s' = [tab]" "length (tb_panes tab) = 2" and n: "dw_next w' = 3"
    by (simp add: dispatch_split_pane_def demo_session_def demo_shell_def spawn_pane_def
        finish_spawn_def demo_env_def demo_start_def tab_contains_pane_def finish_reflow_def
        reflow_tab_layout_def split_partition_def tab_pane_def pane_resize_def mark_surface_dirty_def
        bump_watch_def set_pane_def put_tab_def Let_def mutex_new_def demo_halves)
  have room: "demo_used w' \<noteq> UNIV" by (rule demo_room) (simp add: n)
  have "laid_out (ns_rows s') (ns_cols s') tab \<and> ns_rows s' = 24 \<and> ns_cols s' = 80"
    using layout_commands_lay_out [OF demo_fresh demo_session_inv room, of ?spec True s'] run tabs
    by (auto simp: demo_session_def)
  then show ?thesis using run tabs by auto
qed

text \<open>
  A created session attaches: the binding leads to the new engine, whose summary is the
  binding with the title asked for; and an attach to a native route that names another session
  than the caller's is refused.
\<close>
theorem session_attach:
  assumes "\<And>u. uuid_parse_str (uuid_to_string u) = Some u"
    and "backend_create_session env uuid_to_string spec b w = (Inr binding, b', w')"
  shows "\<exists>e. resolve_session_runtime uuid_parse_str b' (bb_session_id binding) (bb_route binding) = Inr e \<and>
             en_session_id e = bb_session_id binding \<and>
             engine_summary e = Inr \<lparr>bs_session_id = bb_session_id binding,
               bs_route = bb_route binding, bs_title = cs_title spec\<rparr> \<and>
             (resolve_session_runtime uuid_parse_str b' sid (bb_route binding) = Inr e2 \<longrightarrow>
                sid = bb_session_id binding)"
proof -
  have "local_native_session_id uuid_parse_str (bb_route binding) = Some (bb_session_id binding)"
    using assms(2) by (auto simp: backend_create_session_def Let_def local_native_session_id_Some_iff
        local_native_route_def assms(1) split: prod.splits sum.splits)
  then show ?thesis
    using created_session_attaches [OF assms] attach_checks_identity by metis
qed

lemma session_attach_witness:
  "\<exists>binding b' w' e. backend_create_session demo_env (\<lambda>u. [unat u]) demo_spec native_backend_default
       demo_start = (Inr binding, b', w') \<and>
     resolve_session_runtime (\<lambda>s. Some (word_of_nat (hd s))) b' (bb_session_id binding)
       (bb_route binding) = Inr e \<and> en_session_id e = Id 0"
proof -
  obtain binding b' w' where run: "backend_create_session demo_env (\<lambda>u. [unat u]) demo_spec
      native_backend_default demo_start = (Inr binding, b', w')" and sid: "bb_session_id binding = Id 0"
    by (simp add: backend_create_session_def engine_spawn_def demo_spec_def resolve_launch_spec_def
        spawn_tab_def spawn_pane_def finish_spawn_def demo_env_def demo_start_def Let_def
        native_backend_default_def mutex_lock_def mutex_new_def)
  show ?thesis
    using session_attach [where uuid_parse_str = "\<lambda>s. Some (word_of_nat (hd s))", OF _ run] run sid
    by auto
qed

end
